(* ===== verification/Prelude.thy ===== *)
theory Prelude
  imports
    Main
    "HOL-Library.Word"
    "HOL-Library.Char_ord"
    "HOL-Library.List_Lexorder"
    "HOL-Library.Product_Lexorder"
begin

text \<open>
  Shared vocabulary of the development: results with errors as values, the ordered key-value
  store of a module, coins and fixed-point decimals, and the record of the third-party
  operations the program calls (bank keeper, address and denom validation, the rounding
  operations of the decimal type). Nothing in this theory models a function of the repository;
  the component theories do.
\<close>

named_theorems kv_simps \<open>equations of the key-value store\<close>
named_theorems res_simps \<open>equations and inversions of the result type\<close>

section \<open>Results\<close>

text \<open>
  An error registered by a module is identified by its codespace and code, as in
  \<open>errorsmod.Register(ModuleName, code, ...)\<close>. \<open>Panic\<close> is a Go panic (nil dereference, division
  by zero, a negative coin, an invalid bech32 address passed to a \<open>Must\<close> function).
  \<open>External\<close> is an error value made outside the repository (bank, bech32, gov).
\<close>

datatype error = Registered string nat | Panic | External string

type_synonym 'a res = "error + 'a"

definition bind_res :: "'a res \<Rightarrow> ('a \<Rightarrow> 'b res) \<Rightarrow> 'b res" where
  "bind_res m f = (case m of Inl e \<Rightarrow> Inl e | Inr x \<Rightarrow> f x)"

lemma bind_res_Inl [simp, res_simps]: "bind_res (Inl e) f = Inl e"
  by (simp add: bind_res_def)

lemma bind_res_Inr [simp, res_simps]: "bind_res (Inr x) f = f x"
  by (simp add: bind_res_def)

lemma bind_res_eq_Inr [res_simps]:
  "bind_res m f = Inr y \<longleftrightarrow> (\<exists>x. m = Inr x \<and> f x = Inr y)"
  by (cases m) auto

text \<open>Elimination rules that peel a handler one guard or call at a time.\<close>

lemma bindE: "bind_res m f = Inr y \<Longrightarrow> (\<And>x. m = Inr x \<Longrightarrow> f x = Inr y \<Longrightarrow> P) \<Longrightarrow> P"
  by (auto simp: bind_res_eq_Inr)

lemma guardE: "(if b then Inl e else m) = Inr y \<Longrightarrow> (\<not> b \<Longrightarrow> m = Inr y \<Longrightarrow> P) \<Longrightarrow> P"
  by (auto split: if_splits)

lemma prodE: "(case p of (a, b) \<Rightarrow> f a b) = Inr y \<Longrightarrow> (\<And>a b. p = (a, b) \<Longrightarrow> f a b = Inr y \<Longrightarrow> P) \<Longrightarrow> P"
  by (cases p) auto

lemma priceE:
  "(case m of Inl e \<Rightarrow> Inl (g e) | Inr None \<Rightarrow> Inl e' | Inr (Some p) \<Rightarrow> f p) = Inr y \<Longrightarrow>
     (\<And>p. m = Inr (Some p) \<Longrightarrow> f p = Inr y \<Longrightarrow> P) \<Longrightarrow> P"
  by (auto split: sum.splits option.splits)

lemmas peel = bindE guardE prodE priceE

lemma bind_res_cong [fundef_cong]:
  "m = m' \<Longrightarrow> (\<And>x. m' = Inr x \<Longrightarrow> f x = f' x) \<Longrightarrow> bind_res m f = bind_res m' f'"
  by (cases m') auto

text \<open>A loop whose body may fail: the first error stops it.\<close>

fun fold_res :: "('a \<Rightarrow> 's \<Rightarrow> 's res) \<Rightarrow> 'a list \<Rightarrow> 's \<Rightarrow> 's res" where
  "fold_res f [] s = Inr s"
| "fold_res f (x # xs) s = bind_res (f x s) (fold_res f xs)"

lemma fold_res_invariant:
  assumes "fold_res f xs s = Inr s'" and "P s"
    and "\<And>x s s'. x \<in> set xs \<Longrightarrow> P s \<Longrightarrow> f x s = Inr s' \<Longrightarrow> P s'"
  shows "P s'"
  using assms by (induction xs arbitrary: s) (auto simp: bind_res_eq_Inr)

lemma fold_res_append:
  "fold_res f (xs @ ys) s = bind_res (fold_res f xs s) (fold_res f ys)"
  by (induction xs arbitrary: s) (auto simp: bind_res_def split: sum.splits)

section \<open>The key-value store of a module\<close>

text \<open>
  A module's store is a finite map iterated in the order of its keys. Keys of different
  prefixes never meet, so each prefix is a store of its own: a list of pairs kept in strictly
  increasing key order. Identifiers are encoded big-endian and strings as their bytes, so the
  byte order of the keys is the order of \<open>64 word\<close> and of \<open>string\<close>.
\<close>

type_synonym ('k, 'v) kv = "('k \<times> 'v) list"
type_synonym u64 = "64 word"

text \<open>A counter below its largest value does not wrap.\<close>

lemma u64_succ:
  assumes "(i :: u64) \<noteq> - 1"
  shows "i < i + 1" and "j \<le> i \<Longrightarrow> j < i + 1"
proof -
  have "i + 1 \<noteq> 0" using assms by (metis add_eq_0_iff2)
  then have "unat (i + 1) = Suc (unat i)" by (simp add: unatSuc add.commute)
  then show "i < i + 1" by (simp add: word_less_nat_alt)
  then show "j \<le> i \<Longrightarrow> j < i + 1" by simp
qed

definition kv_get :: "('k, 'v) kv \<Rightarrow> 'k \<Rightarrow> 'v option" where
  "kv_get m k = map_of m k"

definition kv_has :: "('k, 'v) kv \<Rightarrow> 'k \<Rightarrow> bool" where
  "kv_has m k = (kv_get m k \<noteq> None)"

primrec kv_set :: "'k::linorder \<Rightarrow> 'v \<Rightarrow> ('k, 'v) kv \<Rightarrow> ('k, 'v) kv" where
  "kv_set k v [] = [(k, v)]"
| "kv_set k v (p # m) =
     (if fst p < k then p # kv_set k v m
      else if fst p = k then (k, v) # m
      else (k, v) # p # m)"

definition kv_del :: "'k \<Rightarrow> ('k, 'v) kv \<Rightarrow> ('k, 'v) kv" where
  "kv_del k m = filter (\<lambda>p. fst p \<noteq> k) m"

definition kv_keys :: "('k, 'v) kv \<Rightarrow> 'k list" where
  "kv_keys m = map fst m"

definition kv_ok :: "('k::linorder, 'v) kv \<Rightarrow> bool" where
  "kv_ok m = sorted_wrt (<) (kv_keys m)"

lemma kv_get_Nil [simp, kv_simps]: "kv_get [] k = None"
  by (simp add: kv_get_def)

lemma kv_get_Cons: "kv_get ((k, v) # m) k' = (if k' = k then Some v else kv_get m k')"
  by (simp add: kv_get_def)

lemma kv_get_set [simp, kv_simps]:
  "kv_get (kv_set k v m) k' = (if k' = k then Some v else kv_get m k')"
  by (induction m) (auto simp: kv_get_def)

lemma kv_get_del [simp, kv_simps]:
  "kv_get (kv_del k m) k' = (if k' = k then None else kv_get m k')"
  by (induction m) (auto simp: kv_get_def kv_del_def)

lemma kv_has_set [simp, kv_simps]: "kv_has (kv_set k v m) k' \<longleftrightarrow> k' = k \<or> kv_has m k'"
  by (simp add: kv_has_def)

lemma kv_has_del [simp, kv_simps]: "kv_has (kv_del k m) k' \<longleftrightarrow> k' \<noteq> k \<and> kv_has m k'"
  by (simp add: kv_has_def)

lemma kv_has_Nil [simp]: "\<not> kv_has [] k"
  by (simp add: kv_has_def)

lemma set_kv_keys: "k \<in> set (kv_keys m) \<longleftrightarrow> kv_has m k"
  by (induction m) (auto simp: kv_keys_def kv_has_def kv_get_def)

lemma kv_ok_Nil [simp]: "kv_ok []"
  by (simp add: kv_ok_def kv_keys_def)

lemma set_kv_keys_set: "set (kv_keys (kv_set k v m)) = insert k (set (kv_keys m))"
  by (induction m) (auto simp: kv_keys_def)

lemma kv_ok_set [simp, intro]: "kv_ok m \<Longrightarrow> kv_ok (kv_set k v m)"
proof (induction m)
  case Nil
  then show ?case by (simp add: kv_ok_def kv_keys_def)
next
  case (Cons p m)
  then have ok: "kv_ok (kv_set k v m)" and lt: "\<forall>x \<in> set (kv_keys m). fst p < x"
    by (simp_all add: kv_ok_def kv_keys_def)
  show ?case
    using Cons.prems ok lt set_kv_keys_set [of k v m]
    by (fastforce simp: kv_ok_def kv_keys_def)
qed

lemma kv_ok_del [simp, intro]: "kv_ok m \<Longrightarrow> kv_ok (kv_del k m)"
  by (induction m) (auto simp: kv_ok_def kv_keys_def kv_del_def)

lemma kv_ok_distinct: "kv_ok m \<Longrightarrow> distinct (kv_keys m)"
  unfolding kv_ok_def using strict_sorted_iff by blast

text \<open>
  A total of a measure over the values of a store, and how one write changes it. The
  conservation properties of the components rest on these two equations.
\<close>

definition kv_sum :: "('v \<Rightarrow> int) \<Rightarrow> ('k, 'v) kv \<Rightarrow> int" where
  "kv_sum f m = sum_list (map (\<lambda>p. f (snd p)) m)"

lemma kv_sum_Nil [simp]: "kv_sum f [] = 0"
  by (simp add: kv_sum_def)

lemma kv_ok_Cons_absent:
  assumes "kv_ok ((k', v') # m)" "k \<le> k'"
  shows "kv_get m k = None"
proof -
  have "k \<notin> set (kv_keys m)" using assms by (auto simp: kv_ok_def kv_keys_def)
  then show ?thesis by (simp add: set_kv_keys kv_has_def)
qed

lemma kv_sum_set:
  "kv_ok m \<Longrightarrow> kv_sum f (kv_set k v m) =
     kv_sum f m - (case kv_get m k of None \<Rightarrow> 0 | Some w \<Rightarrow> f w) + f v"
proof (induction m)
  case Nil
  then show ?case by (simp add: kv_sum_def)
next
  case (Cons p m)
  obtain k' v' where p: "p = (k', v')" by fastforce
  have ok: "kv_ok m" using Cons.prems by (simp add: kv_ok_def kv_keys_def)
  show ?case
  proof (cases "k' < k")
    case True
    then show ?thesis using Cons.IH [OF ok] p by (auto simp: kv_sum_def kv_get_Cons)
  next
    case False
    then have "kv_get m k = None" using Cons.prems p kv_ok_Cons_absent by fastforce
    then show ?thesis using False p by (auto simp: kv_sum_def kv_get_Cons)
  qed
qed

lemma kv_sum_nonneg: "(\<And>k v. kv_get m k = Some v \<Longrightarrow> 0 \<le> f v) \<Longrightarrow> kv_ok m \<Longrightarrow> 0 \<le> kv_sum f m"
proof (induction m)
  case Nil
  then show ?case by simp
next
  case (Cons p m)
  obtain k' v' where p: "p = (k', v')" by fastforce
  have ok: "kv_ok m" using Cons.prems(2) by (simp add: kv_ok_def kv_keys_def)
  have sub: "0 \<le> f v" if "kv_get m k = Some v" for k v
  proof -
    have "k \<noteq> k'" using that Cons.prems(2) p kv_ok_Cons_absent by fastforce
    then show ?thesis using that Cons.prems(1) [of k v] p by (simp add: kv_get_Cons)
  qed
  have "0 \<le> f v'" using Cons.prems(1) [of k' v'] p by (simp add: kv_get_Cons)
  then show ?case using Cons.IH [OF sub ok] p by (simp add: kv_sum_def)
qed

text \<open>Writing values in key order rebuilds the list of values: the export of a store reloads to it.\<close>

lemma kv_set_last: "(\<And>j. j \<in> set (kv_keys m) \<Longrightarrow> j < k) \<Longrightarrow> kv_set k v m = m @ [(k, v)]"
  by (induction m) (auto simp: kv_keys_def)

lemma fold_kv_set_sorted:
  "sorted_wrt (<) (map f xs) \<Longrightarrow> (\<And>j x. j \<in> set (kv_keys m) \<Longrightarrow> x \<in> set xs \<Longrightarrow> j < f x) \<Longrightarrow>
     fold (\<lambda>x. kv_set (f x) x) xs m = m @ map (\<lambda>x. (f x, x)) xs"
proof (induction xs arbitrary: m)
  case Nil
  then show ?case by simp
next
  case (Cons x xs)
  have "kv_set (f x) x m = m @ [(f x, x)]" using Cons.prems(2) by (intro kv_set_last) auto
  moreover have "fold (\<lambda>x. kv_set (f x) x) xs (m @ [(f x, x)]) = (m @ [(f x, x)]) @ map (\<lambda>x. (f x, x)) xs"
    by (rule Cons.IH) (use Cons.prems in \<open>auto simp: kv_keys_def\<close>)
  ultimately show ?case by simp
qed

text \<open>A store in key order is determined by its lookups.\<close>

lemma kv_rebuild: "distinct (kv_keys m) \<Longrightarrow> map (\<lambda>k. (k, the (kv_get m k))) (kv_keys m) = m"
proof (induction m)
  case Nil
  then show ?case by (simp add: kv_keys_def)
next
  case (Cons p m)
  obtain k v where p: "p = (k, v)" by fastforce
  have keys: "kv_keys (p # m) = k # kv_keys m" by (simp add: p kv_keys_def)
  have eq: "map (\<lambda>j. (j, the (kv_get (p # m) j))) (kv_keys m) = map (\<lambda>j. (j, the (kv_get m j))) (kv_keys m)"
    by (rule map_cong) (use Cons.prems [unfolded keys] in \<open>auto simp: p kv_get_Cons\<close>)
  show ?case
    unfolding keys list.map eq using Cons.IH Cons.prems [unfolded keys] by (simp add: p kv_get_Cons)
qed

lemma kv_ext:
  assumes "kv_ok m" "kv_ok m'" "\<And>k. kv_get m k = kv_get m' k"
  shows "m = m'"
proof -
  have "kv_has m k = kv_has m' k" for k using assms(3) by (simp add: kv_has_def)
  then have "set (kv_keys m) = set (kv_keys m')" by (auto simp: set_kv_keys)
  then have keys: "kv_keys m = kv_keys m'"
    by (rule strict_sorted_equal [OF assms(2,1) [unfolded kv_ok_def]])
  show ?thesis
    using kv_rebuild [OF kv_ok_distinct [OF assms(1)]] kv_rebuild [OF kv_ok_distinct [OF assms(2)]]
    unfolding keys assms(3) by simp
qed

lemma kv_sum_map:
  assumes "kv_ok m" "kv_ok m'" "\<And>k. kv_get m' k = map_option g (kv_get m k)"
  shows "kv_sum f m' = kv_sum (\<lambda>x. f (g x)) m"
proof -
  have "kv_keys (map (\<lambda>(k, v). (k, g v)) m) = kv_keys m" by (induction m) (auto simp: kv_keys_def)
  then have "kv_ok (map (\<lambda>(k, v). (k, g v)) m)" using assms(1) by (simp add: kv_ok_def)
  moreover have "kv_get (map (\<lambda>(k, v). (k, g v)) m) k = map_option g (kv_get m k)" for k
    by (induction m) (auto simp: kv_get_def)
  ultimately have "m' = map (\<lambda>(k, v). (k, g v)) m" using assms(2,3) by (intro kv_ext) auto
  then show ?thesis by (simp add: kv_sum_def comp_def case_prod_unfold)
qed

section \<open>Amounts, coins and decimals\<close>

text \<open>
  An \<open>sdkmath.Int\<close> is an integer. An \<open>sdkmath.LegacyDec\<close> is kept by its numerator over
  \<open>10 ^ 18\<close>: comparison, addition and subtraction are those of the integers, \<open>ToLegacyDec\<close> scales
  and \<open>TruncateInt\<close> drops the fraction towards zero. The operations that round are
  fields of the record of third-party operations below. Go's integer division and
  \<open>Int.Quo\<close> truncate towards zero.
\<close>

type_synonym dec = int

definition tdiv :: "int \<Rightarrow> int \<Rightarrow> int" where
  "tdiv a b = sgn a * sgn b * (\<bar>a\<bar> div \<bar>b\<bar>)"

lemma tdiv_nonneg [simp]: "0 \<le> a \<Longrightarrow> 0 \<le> b \<Longrightarrow> tdiv a b = a div b"
  by (cases "a = 0"; cases "b = 0") (auto simp: tdiv_def sgn_if)

lemma tdiv_0_left [simp]: "tdiv 0 b = 0"
  by (simp add: tdiv_def)

definition dec_one :: dec where
  "dec_one = 10 ^ 18"

definition to_dec :: "int \<Rightarrow> dec" where
  "to_dec a = a * 10 ^ 18"

definition truncate_int :: "dec \<Rightarrow> int" where
  "truncate_int d = tdiv d (10 ^ 18)"

record coin =
  Denom :: string
  Amount :: int

lemma coin_update: "c\<lparr>Amount := a\<rparr> = \<lparr>Denom = Denom c, Amount = a\<rparr>" for c :: coin
  by (cases c) simp

text \<open>
  The coin operations of the SDK with their documented panics: adding or subtracting coins of
  different denoms, a negative result of a subtraction, a negative new coin.
\<close>

definition coin_add :: "coin \<Rightarrow> coin \<Rightarrow> coin res" where
  "coin_add a b = (if Denom a \<noteq> Denom b then Inl Panic
     else Inr (a\<lparr>Amount := Amount a + Amount b\<rparr>))"

definition coin_sub_amount :: "coin \<Rightarrow> int \<Rightarrow> coin res" where
  "coin_sub_amount a x = (if Amount a - x < 0 then Inl Panic
     else Inr (a\<lparr>Amount := Amount a - x\<rparr>))"

definition coin_sub :: "coin \<Rightarrow> coin \<Rightarrow> coin res" where
  "coin_sub a b = (if Denom a \<noteq> Denom b then Inl Panic else coin_sub_amount a (Amount b))"

definition coin_add_amount :: "coin \<Rightarrow> int \<Rightarrow> coin" where
  "coin_add_amount a x = a\<lparr>Amount := Amount a + x\<rparr>"

lemmas coin_defs = coin_add_def coin_sub_def coin_sub_amount_def coin_add_amount_def

lemma coin_sub_amount_Inr [res_simps]:
  "coin_sub_amount a x = Inr c \<longleftrightarrow> x \<le> Amount a \<and> c = coin_add_amount a (- x)"
  by (auto simp: coin_defs)

lemma coin_sub_Inr [res_simps]:
  "coin_sub a b = Inr c \<longleftrightarrow> Denom a = Denom b \<and> Amount b \<le> Amount a \<and> c = coin_add_amount a (- Amount b)"
  by (auto simp: coin_defs)

lemma coin_add_Inr [res_simps]:
  "coin_add a b = Inr c \<longleftrightarrow> Denom a = Denom b \<and> c = coin_add_amount a (Amount b)"
  by (auto simp: coin_defs)

lemma coin_add_amount_simps [simp]:
  "Denom (coin_add_amount c x) = Denom c" "Amount (coin_add_amount c x) = Amount c + x"
  "coin_add_amount (coin_add_amount c x) y = coin_add_amount c (x + y)"
  by (simp_all add: coin_add_amount_def add.assoc)

lemma coin_collapse [simp]: "\<lparr>Denom = Denom c, Amount = Amount c\<rparr> = c" for c :: coin
  by (cases c) simp

lemma coin_eqI: "Denom c = d \<Longrightarrow> Amount c = a \<Longrightarrow> c = \<lparr>Denom = d, Amount = a\<rparr>" for c :: coin
  by (cases c) simp

definition coins_amount :: "coin list \<Rightarrow> string \<Rightarrow> int" where
  "coins_amount cs d = sum_list (map (\<lambda>c. if Denom c = d then Amount c else 0) cs)"

lemma coins_amount_single [simp]:
  "coins_amount [c] d = (if Denom c = d then Amount c else 0)"
  by (simp add: coins_amount_def)

section \<open>Third-party operations\<close>

text \<open>
  The code the program calls but does not contain. \<open>'b\<close> is the state of the bank module. The
  four send functions of the bank keeper are one field: the constructors of \<open>acct\<close> tell
  which is meant. The coin list is the argument of \<open>sdk.NewCoins\<close> at the call.
\<close>

datatype acct = Account string | ModuleAcc string

record 'b env =
  send_coins :: "'b \<Rightarrow> acct \<Rightarrow> acct \<Rightarrow> coin list \<Rightarrow> 'b res"
  mint_coins :: "'b \<Rightarrow> string \<Rightarrow> coin list \<Rightarrow> 'b res"
  burn_coins :: "'b \<Rightarrow> string \<Rightarrow> coin list \<Rightarrow> 'b res"
  balance :: "'b \<Rightarrow> acct \<Rightarrow> string \<Rightarrow> int"
  has_supply :: "'b \<Rightarrow> string \<Rightarrow> bool"
  bech32_ok :: "string \<Rightarrow> bool"
  valid_denom :: "string \<Rightarrow> bool"
  dec_mul :: "dec \<Rightarrow> dec \<Rightarrow> dec"
  dec_quo :: "dec \<Rightarrow> dec \<Rightarrow> dec"
  dec_quo_int :: "dec \<Rightarrow> int \<Rightarrow> dec"
  dec_power :: "dec \<Rightarrow> nat \<Rightarrow> dec"

text \<open>\<open>Coin.IsValid\<close> and \<open>sdk.NewCoin\<close>, which panics on an invalid coin.\<close>

definition coin_valid :: "('b, 'e) env_scheme \<Rightarrow> coin \<Rightarrow> bool" where
  "coin_valid E c \<longleftrightarrow> valid_denom E (Denom c) \<and> 0 \<le> Amount c"

definition new_coin :: "('b, 'e) env_scheme \<Rightarrow> string \<Rightarrow> int \<Rightarrow> coin res" where
  "new_coin E d a = (if valid_denom E d \<and> 0 \<le> a then Inr \<lparr>Denom = d, Amount = a\<rparr> else Inl Panic)"

lemma new_coin_Inr [res_simps]:
  "new_coin E d a = Inr c \<longleftrightarrow> valid_denom E d \<and> 0 \<le> a \<and> c = \<lparr>Denom = d, Amount = a\<rparr>"
  by (auto simp: new_coin_def)

text \<open>
  Documented behaviour of the bank keeper: a successful send moves exactly the coins and
  creates or destroys nothing; minting and burning change the
  module account only.
\<close>

definition bank_ok :: "('b, 'e) env_scheme \<Rightarrow> bool" where
  "bank_ok E \<longleftrightarrow>
     (\<forall>b f t cs b'. send_coins E b f t cs = Inr b' \<longrightarrow>
        (\<forall>a d. balance E b' a d = balance E b a d
           - (if a = f then coins_amount cs d else 0) + (if a = t then coins_amount cs d else 0)))
   \<and> (\<forall>b m cs b'. mint_coins E b m cs = Inr b' \<longrightarrow>
        (\<forall>a d. balance E b' a d = balance E b a d
           + (if a = ModuleAcc m then coins_amount cs d else 0)))
   \<and> (\<forall>b m cs b'. burn_coins E b m cs = Inr b' \<longrightarrow>
        (\<forall>a d. balance E b' a d = balance E b a d
           - (if a = ModuleAcc m then coins_amount cs d else 0)))"

lemma bank_send:
  "bank_ok E \<Longrightarrow> send_coins E b f t cs = Inr b' \<Longrightarrow>
     balance E b' a d = balance E b a d
       - (if a = f then coins_amount cs d else 0) + (if a = t then coins_amount cs d else 0)"
  unfolding bank_ok_def by blast

lemma bank_mint:
  "bank_ok E \<Longrightarrow> mint_coins E b m cs = Inr b' \<Longrightarrow>
     balance E b' a d = balance E b a d + (if a = ModuleAcc m then coins_amount cs d else 0)"
  unfolding bank_ok_def by blast

lemma bank_burn:
  "bank_ok E \<Longrightarrow> burn_coins E b m cs = Inr b' \<Longrightarrow>
     balance E b' a d = balance E b a d - (if a = ModuleAcc m then coins_amount cs d else 0)"
  unfolding bank_ok_def by blast

text \<open>
  Documented behaviour of the decimal operations: \<open>Mul\<close> gives a nearest multiple of
  \<open>10 ^ -18\<close>, \<open>Quo\<close> one less than \<open>10 ^ -18\<close> away (it rounds an already truncated quotient), and
  \<open>QuoInt\<close> the quotient truncated towards zero.
\<close>

definition dec_ok :: "('b, 'e) env_scheme \<Rightarrow> bool" where
  "dec_ok E \<longleftrightarrow>
     (\<forall>a b. 2 * \<bar>dec_mul E a b * 10 ^ 18 - a * b\<bar> \<le> 10 ^ 18)
   \<and> (\<forall>a b. b \<noteq> 0 \<longrightarrow> \<bar>dec_quo E a b * b - a * 10 ^ 18\<bar> < \<bar>b\<bar>)
   \<and> (\<forall>a i. i \<noteq> 0 \<longrightarrow> dec_quo_int E a i = tdiv a i)"

text \<open>Multiplying an integer amount by a decimal is exact: the product needs no rounding.\<close>

lemma twice_abs_le_one: "2 * \<bar>x :: int\<bar> \<le> 1 \<Longrightarrow> x = 0"
  by presburger

lemma dec_mul_to_dec:
  assumes "dec_ok E"
  shows "dec_mul E (to_dec a) r = a * r"
proof -
  have near: "2 * \<bar>dec_mul E (to_dec a) r * 10 ^ 18 - to_dec a * r\<bar> \<le> 10 ^ 18"
    using assms unfolding dec_ok_def by blast
  have eq: "dec_mul E (to_dec a) r * 10 ^ 18 - to_dec a * r = (dec_mul E (to_dec a) r - a * r) * 10 ^ 18"
    by (simp add: to_dec_def algebra_simps)
  have "2 * \<bar>dec_mul E (to_dec a) r - a * r\<bar> \<le> 1"
    using near unfolding eq abs_mult by simp
  then have "dec_mul E (to_dec a) r - a * r = 0" by (rule twice_abs_le_one)
  then show ?thesis by simp
qed

lemma nearest_nonneg:
  assumes "2 * \<bar>m * n - p\<bar> \<le> n" "0 \<le> p" "0 < (n :: int)"
  shows "0 \<le> m"
proof (rule ccontr)
  assume "\<not> 0 \<le> m"
  then have "m * n \<le> - 1 * n" using assms(3) by (intro mult_right_mono) auto
  define z where "z = \<bar>m * n - p\<bar>"
  have "n \<le> z" using \<open>m * n \<le> - 1 * n\<close> assms(2) unfolding z_def by linarith
  moreover have "2 * z \<le> n" using assms(1) unfolding z_def .
  ultimately show False using assms(3) by linarith
qed

lemma dec_mul_nonneg:
  assumes "dec_ok E" "0 \<le> a" "0 \<le> b"
  shows "0 \<le> dec_mul E a b"
proof -
  have "2 * \<bar>dec_mul E a b * 10 ^ 18 - a * b\<bar> \<le> 10 ^ 18"
    using assms(1) unfolding dec_ok_def by blast
  then show ?thesis by (rule nearest_nonneg) (use assms in simp_all)
qed

lemma truncate_int_nonneg: "0 \<le> d \<Longrightarrow> truncate_int d = d div 10 ^ 18"
  by (simp add: truncate_int_def)

lemma truncate_mul_bounds:
  assumes "dec_ok E" "0 \<le> a" "0 \<le> r"
  shows "truncate_int (dec_mul E (to_dec a) r) = a * r div 10 ^ 18"
  using assms by (simp add: dec_mul_to_dec truncate_int_nonneg)

section \<open>Sums of rounded shares\<close>

text \<open>
  Splitting an amount in proportion and rounding every share down never hands out more than the
  amount, and grouping a sum by a key does not change it.
\<close>

lemma le_zdiv_iff:
  assumes "0 < (c :: int)"
  shows "n \<le> a div c \<longleftrightarrow> n * c \<le> a"
proof
  assume "n \<le> a div c"
  then have "n * c \<le> a div c * c" using assms by (intro mult_right_mono) auto
  also have "\<dots> \<le> a" using assms by (simp add: minus_mod_eq_div_mult [symmetric])
  finally show "n * c \<le> a" .
next
  assume "n * c \<le> a"
  then have "n * c div c \<le> a div c" using assms by (rule zdiv_mono1)
  then show "n \<le> a div c" using assms by simp
qed

lemma sum_div_le:
  fixes f :: "'a \<Rightarrow> int"
  assumes "sum_list (map f xs) \<le> T" "0 \<le> c" "0 \<le> T"
  shows "sum_list (map (\<lambda>x. c * f x div T) xs) \<le> c"
proof (cases "T = 0")
  case True
  then show ?thesis using assms(2) by (simp add: sum_list_triv)
next
  case False
  have "sum_list (map (\<lambda>x. c * f x div T) xs) * T = sum_list (map (\<lambda>x. c * f x div T * T) xs)"
    by (simp add: sum_list_mult_const)
  also have "\<dots> \<le> sum_list (map (\<lambda>x. c * f x) xs)"
    by (rule sum_list_mono)
      (use False assms(3) in \<open>simp add: minus_mod_eq_div_mult [symmetric]\<close>)
  also have "\<dots> = c * sum_list (map f xs)" by (simp add: sum_list_const_mult)
  also have "\<dots> \<le> c * T" using assms by (intro mult_left_mono) auto
  finally show ?thesis using False assms(3) by simp
qed

lemma sum_list_group:
  fixes r :: "'a \<Rightarrow> int"
  assumes "distinct ds" "\<And>x. x \<in> set xs \<Longrightarrow> k x \<in> set ds"
  shows "sum_list (map r xs) =
    sum_list (map (\<lambda>d. sum_list (map (\<lambda>x. if k x = d then r x else 0) xs)) ds)"
  using assms(2)
proof (induction xs)
  case Nil
  then show ?case by (simp add: sum_list_triv)
next
  case (Cons x xs)
  have one: "sum_list (map (\<lambda>d. if k x = d then r x else 0) ds) = r x"
    using assms(1) Cons.prems by (simp add: sum_list_distinct_conv_sum_set)
  show ?case using Cons by (simp add: sum_list_addf one)
qed

end
