(* ===== verification/Status_Index.thy ===== *)
theory Status_Index
  imports Prelude
begin

text \<open>
  Several modules keep their objects twice: under the identifier, and in a secondary index
  under (status, identifier) from which the block handlers iterate. Writing an object drops the
  index entry of the stored version and adds the one of the new version. The contract of
  that pattern is the locale \<open>status_indexed\<close>; the stakings of farming and the
  liquidations and loans of the lending protocol are interpretations of it.
\<close>

definition index_ok ::
  "('i::linorder, 'x) kv \<Rightarrow> ('s::linorder \<times> 'i, unit) kv \<Rightarrow> ('x \<Rightarrow> 'i) \<Rightarrow> ('x \<Rightarrow> 's) \<Rightarrow> bool" where
  "index_ok prim idx oid ost \<longleftrightarrow>
     kv_ok prim \<and> kv_ok idx
   \<and> (\<forall>i x. kv_get prim i = Some x \<longrightarrow> oid x = i)
   \<and> (\<forall>st i. kv_has idx (st, i) \<longleftrightarrow> (\<exists>x. kv_get prim i = Some x \<and> ost x = st))"

text \<open>The keys a prefix iterator over one status visits, in order.\<close>

definition ids_with :: "'s \<Rightarrow> ('s \<times> 'i, unit) kv \<Rightarrow> 'i list" where
  "ids_with st idx = map snd (filter (\<lambda>k. fst k = st) (kv_keys idx))"

lemma set_ids_with: "i \<in> set (ids_with st idx) \<longleftrightarrow> kv_has idx (st, i)"
  unfolding ids_with_def set_kv_keys [symmetric] by force

lemma distinct_ids_with:
  assumes "kv_ok idx"
  shows "distinct (ids_with st idx)"
proof -
  have "inj_on snd (set (filter (\<lambda>k. fst k = st) (kv_keys idx)))"
    by (auto simp: inj_on_def)
  then show ?thesis
    unfolding ids_with_def using kv_ok_distinct [OF assms] by (simp add: distinct_map)
qed

lemma sorted_ids_with:
  assumes "kv_ok idx"
  shows "sorted_wrt (<) (ids_with st (idx :: ('s::linorder \<times> 'i::linorder, unit) kv))"
proof -
  have "sorted_wrt (<) (filter (\<lambda>k. fst k = st) (kv_keys idx))"
    using assms unfolding kv_ok_def by (rule sorted_wrt_filter)
  then have "sorted_wrt (\<lambda>a b. snd a < snd b) (filter (\<lambda>k. fst k = st) (kv_keys idx))"
    by (rule sorted_wrt_mono_rel [rotated]) (auto simp: less_prod_def)
  then show ?thesis unfolding ids_with_def by (simp add: sorted_wrt_map)
qed

text \<open>The objects an index lists are those of the store with its key: a total over the one is a total over the other.\<close>

lemma sum_ids_with:
  fixes f :: "'x \<Rightarrow> int"
  assumes "index_ok prim idx oid ost"
  shows "sum_list (map (\<lambda>i. f (the (kv_get prim i))) (ids_with c idx)) = kv_sum (\<lambda>x. if ost x = c then f x else 0) prim"
proof -
  have ok: "kv_ok prim" "kv_ok idx" using assms by (simp_all add: index_ok_def)
  define g where "g i = (let x = the (kv_get prim i) in if ost x = c then f x else 0)" for i
  have ids: "set (ids_with c idx) = {i \<in> set (kv_keys prim). ost (the (kv_get prim i)) = c}"
    using assms by (auto simp: set_ids_with index_ok_def set_kv_keys kv_has_def)
  have "sum_list (map (\<lambda>i. f (the (kv_get prim i))) (ids_with c idx)) = (\<Sum>i \<in> set (ids_with c idx). f (the (kv_get prim i)))"
    by (rule sum_list_distinct_conv_sum_set [OF distinct_ids_with [OF ok(2)]])
  also have "\<dots> = (\<Sum>i \<in> set (kv_keys prim). g i)"
    unfolding ids by (subst sum.inter_filter) (simp_all add: g_def Let_def)
  also have "\<dots> = sum_list (map g (kv_keys prim))"
    by (rule sum_list_distinct_conv_sum_set [OF kv_ok_distinct [OF ok(1)], symmetric])
  also have "map g (kv_keys prim) = map (\<lambda>p. if ost (snd p) = c then f (snd p) else 0) prim"
    using map_of_eq_Some_iff [of prim] kv_ok_distinct [OF ok(1)]
    by (auto simp: g_def Let_def kv_keys_def kv_get_def)
  finally show ?thesis by (simp add: kv_sum_def)
qed

locale status_indexed =
  fixes prim :: "'st \<Rightarrow> ('i::linorder, 'x) kv"
    and idx :: "'st \<Rightarrow> ('s::linorder \<times> 'i, unit) kv"
    and put :: "'x \<Rightarrow> 'st \<Rightarrow> 'st"
    and oid :: "'x \<Rightarrow> 'i"
    and ost :: "'x \<Rightarrow> 's"
  assumes prim_put: "prim (put x st) = kv_set (oid x) x (prim st)"
    and idx_put: "idx (put x st) =
      kv_set (ost x, oid x) ()
        (case kv_get (prim st) (oid x) of None \<Rightarrow> idx st | Some y \<Rightarrow> kv_del (ost y, oid x) (idx st))"
begin

lemma get_put: "kv_get (prim (put x st)) i = (if i = oid x then Some x else kv_get (prim st) i)"
  by (simp add: prim_put)

lemma put_index_ok:
  assumes "index_ok (prim st) (idx st) oid ost"
  shows "index_ok (prim (put x st)) (idx (put x st)) oid ost"
proof -
  have has: "kv_has (idx (put x st)) (c, i) \<longleftrightarrow>
      (\<exists>y. kv_get (prim (put x st)) i = Some y \<and> ost y = c)" for c i
    using assms by (auto simp: index_ok_def prim_put idx_put split: option.splits)
  have keys: "kv_ok (prim (put x st))" "kv_ok (idx (put x st))"
    using assms by (auto simp: index_ok_def prim_put idx_put split: option.splits)
  have ids: "oid y = i" if "kv_get (prim (put x st)) i = Some y" for i y
    using assms that by (auto simp: index_ok_def prim_put split: if_splits)
  show ?thesis unfolding index_ok_def using has keys ids by blast
qed

lemma ids_with_iff:
  assumes "index_ok (prim st) (idx st) oid ost"
  shows "i \<in> set (ids_with c (idx st)) \<longleftrightarrow> (\<exists>x. kv_get (prim st) i = Some x \<and> ost x = c)"
  using assms by (auto simp: set_ids_with index_ok_def)

lemma put_moves:
  assumes "index_ok (prim st) (idx st) oid ost"
  shows "oid x \<in> set (ids_with c (idx (put x st))) \<longleftrightarrow> c = ost x"
  using ids_with_iff [OF put_index_ok [OF assms]] by (auto simp: prim_put)

lemma sum_put:
  assumes "index_ok (prim st) (idx st) oid ost"
  shows "kv_sum f (prim (put x st)) =
    kv_sum f (prim st) - (case kv_get (prim st) (oid x) of None \<Rightarrow> 0 | Some y \<Rightarrow> f y) + f x"
  using assms by (simp add: prim_put kv_sum_set index_ok_def)

end

end
