(* ===== verification/Farming_Types.thy ===== *)
theory Farming_Types
  imports Status_Index
begin

text \<open>
  The data of the farming module and the pure functions of \<open>x/farming/types\<close>: stakings,
  epochs, totals, parameters, the lock multiplier, the effective amount, the reward
  formulas and the validation of messages and parameters.
\<close>

section \<open>Errors of the module\<close>

abbreviation "farming_ErrInvalidAmount \<equiv> Registered ''farming'' 1001"
abbreviation "farming_ErrInvalidLockDuration \<equiv> Registered ''farming'' 1002"
abbreviation "farming_ErrFarmingNotEnabled \<equiv> Registered ''farming'' 1003"
abbreviation "farming_ErrAssetNotEligible \<equiv> Registered ''farming'' 1006"
abbreviation "farming_ErrUnauthorized \<equiv> Registered ''farming'' 1007"
abbreviation "farming_ErrStakingDoesNotExist \<equiv> Registered ''farming'' 1008"
abbreviation "farming_ErrInvalidStakingStatus \<equiv> Registered ''farming'' 1009"
abbreviation "farming_ErrLockDurationNotEnded \<equiv> Registered ''farming'' 1010"
abbreviation "farming_ErrNoPendingRewards \<equiv> Registered ''farming'' 1011"
abbreviation "farming_ErrInvalidParams \<equiv> Registered ''farming'' 2000"
abbreviation "ErrBech32 \<equiv> External ''bech32''"
abbreviation "ErrInvalidSigner \<equiv> External ''gov: invalid signer''"

section \<open>Data\<close>

datatype staking_status = ST_UNSPECIFIED | ST_STAKED | ST_UNLOCKED | ST_UNSTAKED

datatype epoch_status = EP_PENDING | EP_STARTED | EP_ENDED

text \<open>Statuses are ordered by their protobuf number, the order of the index keys.\<close>

fun staking_status_code :: "staking_status \<Rightarrow> nat" where
  "staking_status_code ST_UNSPECIFIED = 0"
| "staking_status_code ST_STAKED = 1"
| "staking_status_code ST_UNLOCKED = 2"
| "staking_status_code ST_UNSTAKED = 3"

lemma staking_status_code_inj: "staking_status_code a = staking_status_code b \<longleftrightarrow> a = b"
  by (cases a; cases b) auto

instantiation staking_status :: linorder
begin

definition less_eq_staking_status :: "staking_status \<Rightarrow> staking_status \<Rightarrow> bool" where
  "less_eq_staking_status a b \<longleftrightarrow> staking_status_code a \<le> staking_status_code b"

definition less_staking_status :: "staking_status \<Rightarrow> staking_status \<Rightarrow> bool" where
  "less_staking_status a b \<longleftrightarrow> staking_status_code a < staking_status_code b"

instance
  by standard
    (auto simp: less_eq_staking_status_def less_staking_status_def staking_status_code_inj [symmetric])

end

text \<open>Times and durations are nanoseconds.\<close>

record staking =
  sk_Id :: u64
  sk_Address :: string
  sk_Amount :: coin
  sk_LockDuration :: int
  sk_LockMultiplier :: dec
  sk_EffectiveAmount :: coin
  sk_PendingRewards :: coin
  sk_TotalRewards :: coin
  sk_StartTime :: int
  sk_Status :: staking_status

record total_staking =
  ts_Denom :: string
  ts_Amount :: coin
  ts_EffectiveAmount :: coin

record epoch =
  ep_Id :: u64
  ep_StartTime :: int
  ep_EndTime :: int
  ep_TotalStakings :: "total_staking list"
  ep_Status :: epoch_status

record asset =
  as_Denom :: string
  as_RewardRatio :: dec
  as_MinStakingAmount :: int

record farming_params =
  fp_Enabled :: bool
  fp_EpochDuration :: int
  fp_RewardPerEpoch :: coin
  fp_LockDurations :: "int list"
  fp_EligibleAssets :: "asset list"

record account_reward =
  ar_Address :: string
  ar_Stakings :: "total_staking list"
  ar_Shares :: "dec list"
  ar_TotalShare :: dec
  ar_Reward :: coin

text \<open>What the store returns for an absent key: the zero value of the message.\<close>

definition zero_coin :: coin where
  "zero_coin = \<lparr>Denom = '''', Amount = 0\<rparr>"

definition zero_staking :: staking where
  "zero_staking = \<lparr>sk_Id = 0, sk_Address = '''', sk_Amount = zero_coin, sk_LockDuration = 0,
     sk_LockMultiplier = 0, sk_EffectiveAmount = zero_coin, sk_PendingRewards = zero_coin,
     sk_TotalRewards = zero_coin, sk_StartTime = 0, sk_Status = ST_UNSPECIFIED\<rparr>"

definition zero_epoch :: epoch where
  "zero_epoch = \<lparr>ep_Id = 0, ep_StartTime = 0, ep_EndTime = 0, ep_TotalStakings = [],
     ep_Status = EP_PENDING\<rparr>"

definition zero_total_staking :: total_staking where
  "zero_total_staking = \<lparr>ts_Denom = '''', ts_Amount = zero_coin, ts_EffectiveAmount = zero_coin\<rparr>"

section \<open>Reward arithmetic\<close>

definition day :: int where
  "day = 24 * 3600 * 10 ^ 9"

definition LockMultiplierFactor :: dec where
  "LockMultiplierFactor = 25 * 10 ^ 17"

definition GetLockDurationInDays :: "int \<Rightarrow> int" where
  "GetLockDurationInDays d = tdiv d day"

definition GetLockMultiplier :: "'b env \<Rightarrow> int \<Rightarrow> dec" where
  "GetLockMultiplier E d =
     dec_mul E (dec_quo_int E (to_dec (GetLockDurationInDays d)) 365) LockMultiplierFactor + dec_one"

definition GetEffectiveAmount :: "'b env \<Rightarrow> coin \<Rightarrow> dec \<Rightarrow> coin res" where
  "GetEffectiveAmount E a m =
     new_coin E (Denom a) (truncate_int (dec_mul E (to_dec (Amount a)) m))"

text \<open>A missing asset is the zero value \<open>Asset{}\<close>, whose decimals and integers are nil.\<close>

fun GetAsset :: "asset list \<Rightarrow> string \<Rightarrow> asset option" where
  "GetAsset [] d = None"
| "GetAsset (a # as) d = (if as_Denom a = d then Some a else GetAsset as d)"

text \<open>\<open>nil\<close> when the epoch has no total for the denom.\<close>

fun find_total :: "total_staking list \<Rightarrow> string \<Rightarrow> total_staking option" where
  "find_total [] d = None"
| "find_total (t # ts) d = (if ts_Denom t = d then Some t else find_total ts d)"

definition GetEpochTotalStaking :: "epoch \<Rightarrow> string \<Rightarrow> total_staking option" where
  "GetEpochTotalStaking ep d = find_total (ep_TotalStakings ep) d"

text \<open>
  A nil total and a nil reward ratio (the asset is no longer eligible) are dereferenced, and a
  zero total effective amount is divided by: all three panic.
\<close>

definition GetEpochReward :: "'b env \<Rightarrow> staking \<Rightarrow> epoch \<Rightarrow> coin \<Rightarrow> asset option \<Rightarrow> coin res" where
  "GetEpochReward E st ep rpe a =
     (case a of None \<Rightarrow> Inl Panic | Some a \<Rightarrow>
      (let total = truncate_int (dec_mul E (to_dec (Amount rpe)) (as_RewardRatio a)) in
       case GetEpochTotalStaking ep (Denom (sk_Amount st)) of None \<Rightarrow> Inl Panic | Some t \<Rightarrow>
       if Amount (ts_EffectiveAmount t) = 0 then Inl Panic
       else new_coin E (Denom rpe)
         (tdiv (total * Amount (sk_EffectiveAmount st)) (Amount (ts_EffectiveAmount t)))))"

text \<open>
  \<open>UpdateEpochTotalStakings\<close> and \<open>UpdateAccountTotalStakings\<close> share this loop: add to the first
  total of the denom, or append a new one.
\<close>

fun add_to_totals :: "total_staking list \<Rightarrow> staking \<Rightarrow> total_staking list res" where
  "add_to_totals [] st = Inr [\<lparr>ts_Denom = Denom (sk_Amount st), ts_Amount = sk_Amount st,
     ts_EffectiveAmount = sk_EffectiveAmount st\<rparr>]"
| "add_to_totals (t # ts) st =
     (if ts_Denom t = Denom (sk_Amount st) then
        bind_res (coin_add (ts_Amount t) (sk_Amount st)) (\<lambda>a.
        bind_res (coin_add (ts_EffectiveAmount t) (sk_EffectiveAmount st)) (\<lambda>e.
        Inr (t\<lparr>ts_Amount := a, ts_EffectiveAmount := e\<rparr> # ts)))
      else bind_res (add_to_totals ts st) (\<lambda>r. Inr (t # r)))"

definition UpdateEpochTotalStakings :: "epoch \<Rightarrow> staking \<Rightarrow> epoch res" where
  "UpdateEpochTotalStakings ep st =
     bind_res (add_to_totals (ep_TotalStakings ep) st) (\<lambda>ts. Inr (ep\<lparr>ep_TotalStakings := ts\<rparr>))"

definition UpdateAccountTotalStakings ::
  "total_staking list \<Rightarrow> staking \<Rightarrow> total_staking list res" where
  "UpdateAccountTotalStakings ts st = add_to_totals ts st"

definition account_reward_step ::
  "'b env \<Rightarrow> epoch \<Rightarrow> coin \<Rightarrow> asset list \<Rightarrow> total_staking \<Rightarrow> account_reward \<Rightarrow> account_reward res" where
  "account_reward_step E ep rpe as ts ar =
     (case GetEpochTotalStaking ep (ts_Denom ts) of None \<Rightarrow> Inl Panic | Some et \<Rightarrow>
      if Amount (ts_EffectiveAmount et) = 0 then Inl Panic else
      let share = dec_quo_int E (to_dec (Amount (ts_EffectiveAmount ts))) (Amount (ts_EffectiveAmount et))
      in case GetAsset as (ts_Denom ts) of None \<Rightarrow> Inl Panic | Some a \<Rightarrow>
      let reward = truncate_int (dec_mul E (dec_mul E (to_dec (Amount rpe)) (as_RewardRatio a)) share)
      in Inr (ar\<lparr>ar_Shares := ar_Shares ar @ [share],
               ar_TotalShare := ar_TotalShare ar + dec_mul E share (as_RewardRatio a),
               ar_Reward := coin_add_amount (ar_Reward ar) reward\<rparr>))"

definition GetAccountRewardPerEpoch ::
  "'b env \<Rightarrow> string \<Rightarrow> total_staking list \<Rightarrow> epoch \<Rightarrow> coin \<Rightarrow> asset list \<Rightarrow> account_reward res" where
  "GetAccountRewardPerEpoch E addr ts ep rpe as =
     bind_res (new_coin E (Denom rpe) 0) (\<lambda>z.
     fold_res (account_reward_step E ep rpe as) ts
       \<lparr>ar_Address = addr, ar_Stakings = ts, ar_Shares = [], ar_TotalShare = 0, ar_Reward = z\<rparr>)"

section \<open>Validation\<close>

definition DefaultFarmingParams :: farming_params where
  "DefaultFarmingParams = \<lparr>fp_Enabled = False, fp_EpochDuration = 7 * day,
     fp_RewardPerEpoch = \<lparr>Denom = ''ubtw'', Amount = 0\<rparr>,
     fp_LockDurations = map (\<lambda>n. n * day) [7, 30, 60, 90, 120, 180, 365],
     fp_EligibleAssets = []\<rparr>"

definition validateEpochDuration :: "farming_params \<Rightarrow> unit res" where
  "validateEpochDuration p =
     (if fp_EpochDuration p < 0 then Inl farming_ErrInvalidParams
      else if fp_Enabled p \<and> fp_EpochDuration p = 0 then Inl farming_ErrInvalidParams
      else Inr ())"

definition validateRewardPerEpoch :: "'b env \<Rightarrow> farming_params \<Rightarrow> unit res" where
  "validateRewardPerEpoch E p =
     (if \<not> coin_valid E (fp_RewardPerEpoch p) then Inl farming_ErrInvalidParams
      else if fp_Enabled p \<and> \<not> 0 < Amount (fp_RewardPerEpoch p) then Inl farming_ErrInvalidParams
      else Inr ())"

fun check_lock_durations :: "int \<Rightarrow> int list \<Rightarrow> int list \<Rightarrow> unit res" where
  "check_lock_durations ed seen [] = Inr ()"
| "check_lock_durations ed seen (d # ds) =
     (if d \<in> set seen then Inl farming_ErrInvalidParams
      else if d < ed then Inl farming_ErrInvalidParams
      else check_lock_durations ed (d # seen) ds)"

definition validateLockDurations :: "farming_params \<Rightarrow> unit res" where
  "validateLockDurations p =
     (if fp_Enabled p \<and> fp_LockDurations p = [] then Inl farming_ErrInvalidParams
      else check_lock_durations (fp_EpochDuration p) [] (fp_LockDurations p))"

definition validateRewardRatio :: "dec \<Rightarrow> unit res" where
  "validateRewardRatio r =
     (if r < 0 then Inl farming_ErrInvalidParams
      else if dec_one < r then Inl farming_ErrInvalidParams else Inr ())"

fun check_assets :: "'b env \<Rightarrow> string list \<Rightarrow> dec \<Rightarrow> asset list \<Rightarrow> dec res" where
  "check_assets E seen acc [] = Inr acc"
| "check_assets E seen acc (a # as) =
     (if as_Denom a \<in> set seen then Inl farming_ErrInvalidParams
      else if \<not> valid_denom E (as_Denom a) then Inl farming_ErrInvalidParams
      else bind_res (validateRewardRatio (as_RewardRatio a)) (\<lambda>_.
        if \<not> 0 < as_MinStakingAmount a then Inl farming_ErrInvalidParams
        else check_assets E (as_Denom a # seen) (acc + as_RewardRatio a) as))"

definition validateEligibleAssets :: "'b env \<Rightarrow> farming_params \<Rightarrow> unit res" where
  "validateEligibleAssets E p =
     (if fp_Enabled p \<and> fp_EligibleAssets p = [] then Inl farming_ErrInvalidParams
      else bind_res (check_assets E [] 0 (fp_EligibleAssets p)) (\<lambda>total.
        if dec_one < total then Inl farming_ErrInvalidParams else Inr ()))"

definition farming_Params_Validate :: "'b env \<Rightarrow> farming_params \<Rightarrow> unit res" where
  "farming_Params_Validate E p =
     bind_res (validateEpochDuration p) (\<lambda>_.
     bind_res (validateRewardPerEpoch E p) (\<lambda>_.
     bind_res (validateLockDurations p) (\<lambda>_.
     validateEligibleAssets E p)))"

definition farming_ValidateParamsUpdate :: "farming_params \<Rightarrow> farming_params \<Rightarrow> unit res" where
  "farming_ValidateParamsUpdate p p' =
     (if Denom (fp_RewardPerEpoch p') \<noteq> Denom (fp_RewardPerEpoch p)
      then Inl farming_ErrInvalidParams else Inr ())"

record msg_stake =
  ms_Staker :: string
  ms_Amount :: coin
  ms_LockDuration :: int

definition MsgStake_ValidateBasic :: "'b env \<Rightarrow> msg_stake \<Rightarrow> unit res" where
  "MsgStake_ValidateBasic E m =
     (if \<not> bech32_ok E (ms_Staker m) then Inl ErrBech32
      else if \<not> coin_valid E (ms_Amount m) \<or> \<not> 0 < Amount (ms_Amount m)
      then Inl farming_ErrInvalidAmount
      else if ms_LockDuration m \<le> 0 then Inl farming_ErrInvalidLockDuration else Inr ())"

text \<open>\<open>MsgUnstake\<close> and \<open>MsgClaim\<close> carry a staker and an id, \<open>MsgClaimAll\<close> a staker.\<close>

definition staker_ValidateBasic :: "'b env \<Rightarrow> string \<Rightarrow> unit res" where
  "staker_ValidateBasic E staker = (if \<not> bech32_ok E staker then Inl ErrBech32 else Inr ())"

definition MsgUpdateParams_ValidateBasic :: "'b env \<Rightarrow> string \<Rightarrow> farming_params \<Rightarrow> unit res" where
  "MsgUpdateParams_ValidateBasic E authority p =
     (if \<not> bech32_ok E authority then Inl ErrBech32 else farming_Params_Validate E p)"

end
