(* ===== verification/Farming.thy ===== *)
theory Farming
  imports Farming_Types
begin

text \<open>
  The keeper, the message server, the end blocker and the genesis functions of
  \<open>x/farming\<close>, over one state record: the module's stores by key prefix and the bank.
\<close>

section \<open>State\<close>

record 'b farming =
  fm_bank :: 'b
  fm_params :: farming_params
  fm_epoch_id :: "u64 option"
  fm_staking_id :: "u64 option"
  fm_epochs :: "(u64, epoch) kv"
  fm_stakings :: "(u64, staking) kv"
  fm_by_status :: "(staking_status \<times> u64, unit) kv"
  fm_by_address :: "(string \<times> u64, unit) kv"
  fm_totals :: "(string, total_staking) kv"
  fm_queue :: "(u64, unit) kv"
  fm_queue_by_address :: "(string \<times> u64, unit) kv"

abbreviation farming_acc :: acct where
  "farming_acc \<equiv> ModuleAcc ''farming''"

section \<open>Parameters\<close>

definition LockDurationExists :: "'b farming \<Rightarrow> int \<Rightarrow> bool" where
  "LockDurationExists s d \<longleftrightarrow> d \<in> set (fp_LockDurations (fm_params s))"

definition IsEligibleAsset :: "'b farming \<Rightarrow> string \<Rightarrow> bool" where
  "IsEligibleAsset s d \<longleftrightarrow> (\<exists>a \<in> set (fp_EligibleAssets (fm_params s)). as_Denom a = d)"

definition Asset :: "'b farming \<Rightarrow> string \<Rightarrow> asset option" where
  "Asset s d = GetAsset (fp_EligibleAssets (fm_params s)) d"

section \<open>Stakings\<close>

definition GetStakingId :: "'b farming \<Rightarrow> u64" where
  "GetStakingId s = (case fm_staking_id s of None \<Rightarrow> 0 | Some i \<Rightarrow> i)"

definition IncrementStakingId :: "'b farming \<Rightarrow> u64 \<times> 'b farming" where
  "IncrementStakingId s = (let i = GetStakingId s + 1 in (i, s\<lparr>fm_staking_id := Some i\<rparr>))"

definition HasStaking :: "'b farming \<Rightarrow> u64 \<Rightarrow> bool" where
  "HasStaking s i = kv_has (fm_stakings s) i"

definition GetStaking :: "'b farming \<Rightarrow> u64 \<Rightarrow> staking" where
  "GetStaking s i = (case kv_get (fm_stakings s) i of None \<Rightarrow> zero_staking | Some x \<Rightarrow> x)"

definition RemoveStakingStatus :: "u64 \<Rightarrow> 'b farming \<Rightarrow> 'b farming" where
  "RemoveStakingStatus i s =
     s\<lparr>fm_by_status := kv_del (sk_Status (GetStaking s i), i) (fm_by_status s)\<rparr>"

definition SetStakingStatus :: "u64 \<Rightarrow> staking_status \<Rightarrow> 'b farming \<Rightarrow> 'b farming" where
  "SetStakingStatus i st s =
     (let s = (if HasStaking s i then RemoveStakingStatus i s else s)
      in s\<lparr>fm_by_status := kv_set (st, i) () (fm_by_status s)\<rparr>)"

definition SetStaking :: "staking \<Rightarrow> 'b farming \<Rightarrow> 'b farming" where
  "SetStaking x s =
     (let s = SetStakingStatus (sk_Id x) (sk_Status x) s
      in s\<lparr>fm_stakings := kv_set (sk_Id x) x (fm_stakings s)\<rparr>)"

definition SetStakingByAddress :: "string \<Rightarrow> staking \<Rightarrow> 'b farming \<Rightarrow> 'b farming" where
  "SetStakingByAddress a x s = s\<lparr>fm_by_address := kv_set (a, sk_Id x) () (fm_by_address s)\<rparr>"

definition GetAllStakings :: "'b farming \<Rightarrow> staking list" where
  "GetAllStakings s = map snd (fm_stakings s)"

definition GetStakingsByStatus :: "'b farming \<Rightarrow> staking_status \<Rightarrow> staking list" where
  "GetStakingsByStatus s st = map (GetStaking s) (ids_with st (fm_by_status s))"

definition GetStakingsByAddress :: "'b farming \<Rightarrow> string \<Rightarrow> staking list" where
  "GetStakingsByAddress s a = map (GetStaking s) (ids_with a (fm_by_address s))"

definition HasTotalStaking :: "'b farming \<Rightarrow> string \<Rightarrow> bool" where
  "HasTotalStaking s d = kv_has (fm_totals s) d"

definition GetTotalStaking :: "'b farming \<Rightarrow> string \<Rightarrow> total_staking" where
  "GetTotalStaking s d = (case kv_get (fm_totals s) d of None \<Rightarrow> zero_total_staking | Some t \<Rightarrow> t)"

definition SetTotalStaking :: "total_staking \<Rightarrow> 'b farming \<Rightarrow> 'b farming" where
  "SetTotalStaking t s = s\<lparr>fm_totals := kv_set (ts_Denom t) t (fm_totals s)\<rparr>"

definition IncreaseTotalStaking :: "staking \<Rightarrow> 'b farming \<Rightarrow> 'b farming res" where
  "IncreaseTotalStaking x s =
     (let d = Denom (sk_Amount x);
          t = (if \<not> HasTotalStaking s d
               then \<lparr>ts_Denom = d, ts_Amount = \<lparr>Denom = d, Amount = 0\<rparr>,
                     ts_EffectiveAmount = \<lparr>Denom = d, Amount = 0\<rparr>\<rparr>
               else GetTotalStaking s d)
      in bind_res (coin_add (ts_Amount t) (sk_Amount x)) (\<lambda>a.
         bind_res (coin_add (ts_EffectiveAmount t) (sk_EffectiveAmount x)) (\<lambda>e.
         Inr (SetTotalStaking (t\<lparr>ts_Amount := a, ts_EffectiveAmount := e\<rparr>) s))))"

definition DecreaseTotalStaking :: "staking \<Rightarrow> 'b farming \<Rightarrow> 'b farming res" where
  "DecreaseTotalStaking x s =
     (let t = GetTotalStaking s (Denom (sk_Amount x))
      in bind_res (coin_sub (ts_Amount t) (sk_Amount x)) (\<lambda>a.
         bind_res (coin_sub (ts_EffectiveAmount t) (sk_EffectiveAmount x)) (\<lambda>e.
         Inr (SetTotalStaking (t\<lparr>ts_Amount := a, ts_EffectiveAmount := e\<rparr>) s))))"

section \<open>Epochs\<close>

definition GetEpochId :: "'b farming \<Rightarrow> u64" where
  "GetEpochId s = (case fm_epoch_id s of None \<Rightarrow> 0 | Some i \<Rightarrow> i)"

definition IncrementEpochId :: "'b farming \<Rightarrow> u64 \<times> 'b farming" where
  "IncrementEpochId s = (let i = GetEpochId s + 1 in (i, s\<lparr>fm_epoch_id := Some i\<rparr>))"

definition GetEpoch :: "'b farming \<Rightarrow> u64 \<Rightarrow> epoch" where
  "GetEpoch s i = (case kv_get (fm_epochs s) i of None \<Rightarrow> zero_epoch | Some e \<Rightarrow> e)"

definition SetEpoch :: "epoch \<Rightarrow> 'b farming \<Rightarrow> 'b farming" where
  "SetEpoch e s = s\<lparr>fm_epochs := kv_set (ep_Id e) e (fm_epochs s)\<rparr>"

definition GetCurrentEpoch :: "'b farming \<Rightarrow> epoch option" where
  "GetCurrentEpoch s = (let i = GetEpochId s in if i = 0 then None else Some (GetEpoch s i))"

definition AddToCurrentEpochStakingQueue :: "staking \<Rightarrow> 'b farming \<Rightarrow> 'b farming" where
  "AddToCurrentEpochStakingQueue x s =
     s\<lparr>fm_queue := kv_set (sk_Id x) () (fm_queue s),
       fm_queue_by_address := kv_set (sk_Address x, sk_Id x) () (fm_queue_by_address s)\<rparr>"

definition RemoveFromCurrentEpochStakingQueue :: "staking \<Rightarrow> 'b farming \<Rightarrow> 'b farming" where
  "RemoveFromCurrentEpochStakingQueue x s =
     s\<lparr>fm_queue := kv_del (sk_Id x) (fm_queue s),
       fm_queue_by_address := kv_del (sk_Address x, sk_Id x) (fm_queue_by_address s)\<rparr>"

definition HasStakingForCurrentEpoch :: "'b farming \<Rightarrow> u64 \<Rightarrow> bool" where
  "HasStakingForCurrentEpoch s i = kv_has (fm_queue s) i"

text \<open>The end of the lock: \<open>staking.StartTime.Add(staking.LockDuration)\<close>.\<close>

definition lock_end :: "staking \<Rightarrow> int" where
  "lock_end x = sk_StartTime x + sk_LockDuration x"

definition epoch_started_step :: "staking \<Rightarrow> 'b farming \<times> epoch \<Rightarrow> ('b farming \<times> epoch) res" where
  "epoch_started_step x se =
     (case se of (s, e) \<Rightarrow>
      if lock_end x < ep_EndTime e then Inr (s, e)
      else let s = AddToCurrentEpochStakingQueue x s
           in bind_res (UpdateEpochTotalStakings e x) (\<lambda>e. Inr (s, e)))"

definition OnEpochStarted :: "'b farming \<Rightarrow> 'b farming res" where
  "OnEpochStarted s =
     (case GetCurrentEpoch s of None \<Rightarrow> Inl Panic | Some e \<Rightarrow>
      bind_res (fold_res epoch_started_step (GetStakingsByStatus s ST_STAKED) (s, e))
        (\<lambda>(s, e). Inr (SetEpoch e s)))"

definition NewEpoch :: "int \<Rightarrow> 'b farming \<Rightarrow> 'b farming res" where
  "NewEpoch start s =
     (case IncrementEpochId s of (i, s1) \<Rightarrow>
      OnEpochStarted (SetEpoch
        \<lparr>ep_Id = i, ep_StartTime = start, ep_EndTime = start + fp_EpochDuration (fm_params s1),
         ep_TotalStakings = [], ep_Status = EP_STARTED\<rparr> s1))"

section \<open>Rewards\<close>

text \<open>A nil current epoch is dereferenced by the reward formula.\<close>

definition GetPendingReward :: "'b env \<Rightarrow> 'b farming \<Rightarrow> staking \<Rightarrow> coin res" where
  "GetPendingReward E s x =
     (case GetCurrentEpoch s of None \<Rightarrow> Inl Panic | Some e \<Rightarrow>
      GetEpochReward E x e (fp_RewardPerEpoch (fm_params s))
        (GetAsset (fp_EligibleAssets (fm_params s)) (Denom (sk_Amount x))))"

definition epoch_ended_step :: "'b env \<Rightarrow> u64 \<Rightarrow> 'b farming \<Rightarrow> 'b farming res" where
  "epoch_ended_step E i s =
     (let x = GetStaking s i in
      bind_res (GetPendingReward E s x) (\<lambda>r.
      bind_res (coin_add (sk_PendingRewards x) r) (\<lambda>p.
      bind_res (coin_add (sk_TotalRewards x) r) (\<lambda>t.
      let x = x\<lparr>sk_PendingRewards := p, sk_TotalRewards := t\<rparr>
      in Inr (RemoveFromCurrentEpochStakingQueue x (SetStaking x s))))))"

text \<open>
  The iterator walks the queue as it was when the loop began; the body deletes the entry it
  is at, and reads the staking from the store of the moment.
\<close>

definition OnEpochEnded :: "'b env \<Rightarrow> 'b farming \<Rightarrow> 'b farming res" where
  "OnEpochEnded E s = fold_res (epoch_ended_step E) (kv_keys (fm_queue s)) s"

definition GetPendingRewardByAddress :: "'b env \<Rightarrow> 'b farming \<Rightarrow> string \<Rightarrow> account_reward option res" where
  "GetPendingRewardByAddress E s a =
     bind_res (fold_res (\<lambda>i ts. UpdateAccountTotalStakings ts (GetStaking s i))
                 (ids_with a (fm_queue_by_address s)) []) (\<lambda>ts.
     if ts = [] then Inr None
     else case GetCurrentEpoch s of None \<Rightarrow> Inl Panic | Some e \<Rightarrow>
       bind_res (GetAccountRewardPerEpoch E a ts e (fp_RewardPerEpoch (fm_params s))
         (fp_EligibleAssets (fm_params s))) (\<lambda>r. Inr (Some r)))"

definition GetRewards :: "'b env \<Rightarrow> 'b farming \<Rightarrow> string \<Rightarrow> (coin \<times> coin) res" where
  "GetRewards E s a =
     bind_res (new_coin E (Denom (fp_RewardPerEpoch (fm_params s))) 0) (\<lambda>z.
     fold_res (\<lambda>x (p, t).
         bind_res (coin_add p (sk_PendingRewards x)) (\<lambda>p.
         bind_res (coin_add t (sk_TotalRewards x)) (\<lambda>t. Inr (p, t))))
       (GetStakingsByAddress s a) (z, z))"

definition claim_step :: "'b env \<Rightarrow> u64 \<Rightarrow> coin \<times> 'b farming \<Rightarrow> (coin \<times> 'b farming) res" where
  "claim_step E i ps =
     (case ps of (p, s) \<Rightarrow>
      let x = GetStaking s i in
      bind_res (coin_add p (sk_PendingRewards x)) (\<lambda>p.
      bind_res (new_coin E (Denom (fp_RewardPerEpoch (fm_params s))) 0) (\<lambda>z.
      Inr (p, SetStaking (x\<lparr>sk_PendingRewards := z\<rparr>) s))))"

definition ClaimAllRewards :: "'b env \<Rightarrow> string \<Rightarrow> 'b farming \<Rightarrow> (coin \<times> 'b farming) res" where
  "ClaimAllRewards E a s =
     bind_res (new_coin E (Denom (fp_RewardPerEpoch (fm_params s))) 0) (\<lambda>z.
     bind_res (fold_res (claim_step E) (ids_with a (fm_by_address s)) (z, s)) (\<lambda>(p, s).
     if Amount p = 0 then Inl farming_ErrNoPendingRewards
     else if \<not> bech32_ok E a then Inl Panic
     else bind_res (send_coins E (fm_bank s) farming_acc (Account a) [p]) (\<lambda>b.
       Inr (p, s\<lparr>fm_bank := b\<rparr>))))"

text \<open>The snapshot of the next epoch and the estimate of a reward in it (read-only).\<close>

definition GetNextEpochSnapshot :: "'b farming \<Rightarrow> epoch res" where
  "GetNextEpochSnapshot s =
     (case GetCurrentEpoch s of None \<Rightarrow> Inl Panic | Some e \<Rightarrow>
      fold_res (\<lambda>x ne. if lock_end x < ep_EndTime ne then Inr ne else UpdateEpochTotalStakings ne x)
        (GetStakingsByStatus s ST_STAKED)
        (zero_epoch\<lparr>ep_StartTime := ep_EndTime e,
                    ep_EndTime := ep_EndTime e + fp_EpochDuration (fm_params s)\<rparr>))"

definition GetEstimatedReward ::
  "'b env \<Rightarrow> 'b farming \<Rightarrow> string \<Rightarrow> coin \<Rightarrow> int \<Rightarrow> account_reward res" where
  "GetEstimatedReward E s a amt d =
     bind_res (GetNextEpochSnapshot s) (\<lambda>ne.
     bind_res (GetEffectiveAmount E amt (GetLockMultiplier E d)) (\<lambda>ea.
     let x = zero_staking\<lparr>sk_Address := a, sk_Amount := amt, sk_EffectiveAmount := ea\<rparr> in
     bind_res (UpdateEpochTotalStakings ne x) (\<lambda>ne.
     bind_res (fold_res (\<lambda>y ts. if sk_Status y = ST_STAKED \<and> \<not> lock_end y < ep_EndTime ne
                                 then UpdateAccountTotalStakings ts y else Inr ts)
        (GetStakingsByAddress s a)
        [\<lparr>ts_Denom = Denom amt, ts_Amount = amt, ts_EffectiveAmount = ea\<rparr>]) (\<lambda>ts.
     GetAccountRewardPerEpoch E a ts ne (fp_RewardPerEpoch (fm_params s))
       (fp_EligibleAssets (fm_params s))))))"

section \<open>Messages\<close>

definition Stake :: "'b env \<Rightarrow> int \<Rightarrow> msg_stake \<Rightarrow> 'b farming \<Rightarrow> 'b farming res" where
  "Stake E now m s =
     bind_res (MsgStake_ValidateBasic E m) (\<lambda>_.
     if \<not> fp_Enabled (fm_params s) then Inl farming_ErrFarmingNotEnabled
     else if \<not> IsEligibleAsset s (Denom (ms_Amount m)) then Inl farming_ErrAssetNotEligible
     else case Asset s (Denom (ms_Amount m)) of None \<Rightarrow> Inl Panic | Some a \<Rightarrow>
     if Amount (ms_Amount m) < as_MinStakingAmount a then Inl farming_ErrInvalidAmount
     else if \<not> LockDurationExists s (ms_LockDuration m) then Inl farming_ErrInvalidLockDuration
     else if \<not> bech32_ok E (ms_Staker m) then Inl Panic
     else bind_res (send_coins E (fm_bank s) (Account (ms_Staker m)) farming_acc [ms_Amount m]) (\<lambda>b.
     let s = s\<lparr>fm_bank := b\<rparr>;
         mult = GetLockMultiplier E (ms_LockDuration m)
     in case IncrementStakingId s of (i, s) \<Rightarrow>
     bind_res (GetEffectiveAmount E (ms_Amount m) mult) (\<lambda>ea.
     bind_res (new_coin E (Denom (fp_RewardPerEpoch (fm_params s))) 0) (\<lambda>z.
     let x = \<lparr>sk_Id = i, sk_Address = ms_Staker m, sk_Amount = ms_Amount m,
              sk_LockDuration = ms_LockDuration m, sk_LockMultiplier = mult,
              sk_EffectiveAmount = ea, sk_PendingRewards = z, sk_TotalRewards = z,
              sk_StartTime = now, sk_Status = ST_STAKED\<rparr>
     in IncreaseTotalStaking x (SetStakingByAddress (ms_Staker m) x (SetStaking x s))))))"

definition Unstake :: "'b env \<Rightarrow> int \<Rightarrow> string \<Rightarrow> u64 \<Rightarrow> 'b farming \<Rightarrow> 'b farming res" where
  "Unstake E now staker i s =
     bind_res (staker_ValidateBasic E staker) (\<lambda>_.
     if \<not> HasStaking s i then Inl farming_ErrStakingDoesNotExist
     else let x = GetStaking s i in
     if sk_Address x \<noteq> staker then Inl farming_ErrUnauthorized
     else if sk_Status x = ST_UNSTAKED then Inl farming_ErrInvalidStakingStatus
     else if now < lock_end x then Inl farming_ErrLockDurationNotEnded
     else if \<not> bech32_ok E staker then Inl Panic
     else bind_res (send_coins E (fm_bank s) farming_acc (Account staker) [sk_Amount x]) (\<lambda>b.
     let s = s\<lparr>fm_bank := b\<rparr> in
     bind_res
       (if 0 < Amount (sk_PendingRewards x) then
          bind_res (send_coins E (fm_bank s) farming_acc (Account staker) [sk_PendingRewards x]) (\<lambda>b.
          bind_res (new_coin E (Denom (sk_PendingRewards x)) 0) (\<lambda>z.
          Inr (x\<lparr>sk_PendingRewards := z\<rparr>, s\<lparr>fm_bank := b\<rparr>)))
        else Inr (x, s)) (\<lambda>(x, s).
     let x = x\<lparr>sk_Status := ST_UNSTAKED\<rparr>
     in DecreaseTotalStaking x (SetStaking x s))))"

definition Claim :: "'b env \<Rightarrow> string \<Rightarrow> u64 \<Rightarrow> 'b farming \<Rightarrow> 'b farming res" where
  "Claim E staker i s =
     bind_res (staker_ValidateBasic E staker) (\<lambda>_.
     if \<not> HasStaking s i then Inl farming_ErrStakingDoesNotExist
     else let x = GetStaking s i in
     if sk_Address x \<noteq> staker then Inl farming_ErrUnauthorized
     else if sk_Status x = ST_UNSTAKED then Inl farming_ErrInvalidStakingStatus
     else if Amount (sk_PendingRewards x) = 0 then Inl farming_ErrNoPendingRewards
     else if \<not> bech32_ok E staker then Inl Panic
     else bind_res (send_coins E (fm_bank s) farming_acc (Account staker) [sk_PendingRewards x]) (\<lambda>b.
     bind_res (new_coin E (Denom (sk_PendingRewards x)) 0) (\<lambda>z.
     Inr (SetStaking (x\<lparr>sk_PendingRewards := z\<rparr>) (s\<lparr>fm_bank := b\<rparr>)))))"

definition ClaimAll :: "'b env \<Rightarrow> string \<Rightarrow> 'b farming \<Rightarrow> 'b farming res" where
  "ClaimAll E staker s =
     bind_res (staker_ValidateBasic E staker) (\<lambda>_.
     bind_res (ClaimAllRewards E staker s) (\<lambda>(p, s). Inr s))"

definition farming_UpdateParams ::
  "'b env \<Rightarrow> string \<Rightarrow> string \<Rightarrow> farming_params \<Rightarrow> 'b farming \<Rightarrow> 'b farming res" where
  "farming_UpdateParams E authority signer p s =
     (if authority \<noteq> signer then Inl ErrInvalidSigner
      else bind_res (MsgUpdateParams_ValidateBasic E signer p) (\<lambda>_.
      bind_res (farming_ValidateParamsUpdate (fm_params s) p) (\<lambda>_.
      Inr (s\<lparr>fm_params := p\<rparr>))))"

section \<open>End of block\<close>

definition mature_step :: "int \<Rightarrow> staking \<Rightarrow> 'b farming \<Rightarrow> 'b farming" where
  "mature_step now x s =
     (if now < lock_end x then s else SetStaking (x\<lparr>sk_Status := ST_UNLOCKED\<rparr>) s)"

definition handleMatureStakings :: "int \<Rightarrow> 'b farming \<Rightarrow> 'b farming" where
  "handleMatureStakings now s = fold (mature_step now) (GetStakingsByStatus s ST_STAKED) s"

definition handleEpoch :: "'b env \<Rightarrow> int \<Rightarrow> 'b farming \<Rightarrow> 'b farming res" where
  "handleEpoch E now s =
     (case GetCurrentEpoch s of
        None \<Rightarrow> if fp_Enabled (fm_params s) then NewEpoch now s else Inr s
      | Some e \<Rightarrow>
        if ep_Status e = EP_ENDED then
          (if fp_Enabled (fm_params s) then NewEpoch now s else Inr s)
        else if \<not> now < ep_EndTime e then
          bind_res (OnEpochEnded E s) (\<lambda>s.
          let s = SetEpoch (e\<lparr>ep_Status := EP_ENDED\<rparr>) s
          in if fp_Enabled (fm_params s) then NewEpoch (ep_EndTime e) s else Inr s)
        else Inr s)"

definition farming_EndBlocker :: "'b env \<Rightarrow> int \<Rightarrow> 'b farming \<Rightarrow> 'b farming res" where
  "farming_EndBlocker E now s = handleEpoch E now (handleMatureStakings now s)"

section \<open>Genesis\<close>

text \<open>\<open>has_acc\<close>: the auth keeper knows the module account.\<close>

definition farming_InitGenesis ::
  "bool \<Rightarrow> farming_params \<Rightarrow> staking list \<Rightarrow> 'b farming \<Rightarrow> 'b farming res" where
  "farming_InitGenesis has_acc p xs s =
     (let s = fold SetStaking xs (s\<lparr>fm_params := p\<rparr>)
      in if has_acc then Inr s else Inl Panic)"

definition farming_ExportGenesis :: "'b farming \<Rightarrow> farming_params \<times> staking list" where
  "farming_ExportGenesis s = (fm_params s, GetAllStakings s)"

end
