(* ===== verification/Farming_Inv.thy ===== *)
theory Farming_Inv
  imports Farming
begin

text \<open>
  The invariant of the farming module and its preservation by every operation: the status
  index and the address index agree with the stakings, identifiers stay below the
  counter, every staking is well formed, and the stored totals per denom are the sums over
  the stakings that are not unstaked.
\<close>

section \<open>Simplification rules of the store operations\<close>

lemma SetStaking_simps [simp]:
  "fm_stakings (SetStaking x s) = kv_set (sk_Id x) x (fm_stakings s)"
  "fm_by_address (SetStaking x s) = fm_by_address s"
  "fm_totals (SetStaking x s) = fm_totals s"
  "fm_bank (SetStaking x s) = fm_bank s"
  "fm_params (SetStaking x s) = fm_params s"
  "fm_staking_id (SetStaking x s) = fm_staking_id s"
  "fm_epoch_id (SetStaking x s) = fm_epoch_id s"
  "fm_epochs (SetStaking x s) = fm_epochs s"
  "fm_queue (SetStaking x s) = fm_queue s"
  "fm_queue_by_address (SetStaking x s) = fm_queue_by_address s"
  by (simp_all add: SetStaking_def SetStakingStatus_def RemoveStakingStatus_def Let_def)

lemma SetStaking_by_status:
  "fm_by_status (SetStaking x s) =
     kv_set (sk_Status x, sk_Id x) ()
       (case kv_get (fm_stakings s) (sk_Id x) of None \<Rightarrow> fm_by_status s
        | Some y \<Rightarrow> kv_del (sk_Status y, sk_Id x) (fm_by_status s))"
  by (auto simp: SetStaking_def SetStakingStatus_def RemoveStakingStatus_def Let_def HasStaking_def
      GetStaking_def kv_has_def split: option.splits)

interpretation sk: status_indexed fm_stakings fm_by_status SetStaking sk_Id sk_Status
  by unfold_locales (simp_all add: SetStaking_by_status)

lemma GetStakingId_simps [simp]:
  "GetStakingId (SetStaking x s) = GetStakingId s"
  "GetStakingId (s\<lparr>fm_bank := b\<rparr>) = GetStakingId s"
  "GetStakingId (s\<lparr>fm_staking_id := Some i\<rparr>) = i"
  "GetStakingId (s\<lparr>fm_totals := t\<rparr>) = GetStakingId s"
  "GetStakingId (s\<lparr>fm_by_address := u\<rparr>) = GetStakingId s"
  by (simp_all add: GetStakingId_def)

lemma GetCurrentEpoch_SetStaking [simp]: "GetCurrentEpoch (SetStaking x s) = GetCurrentEpoch s"
  unfolding GetCurrentEpoch_def GetEpochId_def GetEpoch_def Let_def by simp

section \<open>The invariant\<close>

definition staking_ok :: "string \<Rightarrow> staking \<Rightarrow> bool" where
  "staking_ok rd x \<longleftrightarrow>
     0 < Amount (sk_Amount x) \<and> Amount (sk_Amount x) \<le> Amount (sk_EffectiveAmount x)
   \<and> Denom (sk_EffectiveAmount x) = Denom (sk_Amount x)
   \<and> Denom (sk_PendingRewards x) = rd \<and> Denom (sk_TotalRewards x) = rd
   \<and> 0 \<le> Amount (sk_PendingRewards x)
   \<and> Amount (sk_PendingRewards x) \<le> Amount (sk_TotalRewards x)
   \<and> sk_Status x \<noteq> ST_UNSPECIFIED"

text \<open>What one staking contributes to the totals of a denom while it is not unstaked.\<close>

definition staked :: "string \<Rightarrow> staking \<Rightarrow> int" where
  "staked d x = (if sk_Status x \<noteq> ST_UNSTAKED \<and> Denom (sk_Amount x) = d then Amount (sk_Amount x) else 0)"

definition staked_effective :: "string \<Rightarrow> staking \<Rightarrow> int" where
  "staked_effective d x =
     (if sk_Status x \<noteq> ST_UNSTAKED \<and> Denom (sk_Amount x) = d then Amount (sk_EffectiveAmount x) else 0)"

definition totals_ok :: "(string, total_staking) kv \<Rightarrow> (u64, staking) kv \<Rightarrow> bool" where
  "totals_ok ts xs \<longleftrightarrow> (\<forall>d. case kv_get ts d of
      None \<Rightarrow> kv_sum (staked d) xs = 0 \<and> kv_sum (staked_effective d) xs = 0
    | Some t \<Rightarrow> ts_Denom t = d \<and> Denom (ts_Amount t) = d \<and> Denom (ts_EffectiveAmount t) = d
        \<and> Amount (ts_Amount t) = kv_sum (staked d) xs
        \<and> Amount (ts_EffectiveAmount t) = kv_sum (staked_effective d) xs)"

definition farming_inv :: "'b env \<Rightarrow> 'b farming \<Rightarrow> bool" where
  "farming_inv E s \<longleftrightarrow>
     index_ok (fm_stakings s) (fm_by_status s) sk_Id sk_Status
   \<and> farming_Params_Validate E (fm_params s) = Inr ()
   \<and> (\<forall>i x. kv_get (fm_stakings s) i = Some x \<longrightarrow>
        i \<le> GetStakingId s \<and> staking_ok (Denom (fp_RewardPerEpoch (fm_params s))) x)
   \<and> kv_ok (fm_by_address s)
   \<and> (\<forall>a i. kv_has (fm_by_address s) (a, i) \<longleftrightarrow>
        (\<exists>x. kv_get (fm_stakings s) i = Some x \<and> sk_Address x = a))
   \<and> totals_ok (fm_totals s) (fm_stakings s)"

lemma farming_invD:
  assumes "farming_inv E s"
  shows "index_ok (fm_stakings s) (fm_by_status s) sk_Id sk_Status"
    and "kv_ok (fm_stakings s)"
    and "farming_Params_Validate E (fm_params s) = Inr ()"
    and "kv_get (fm_stakings s) i = Some x \<Longrightarrow> sk_Id x = i"
    and "kv_get (fm_stakings s) i = Some x \<Longrightarrow> i \<le> GetStakingId s"
    and "kv_get (fm_stakings s) i = Some x \<Longrightarrow> staking_ok (Denom (fp_RewardPerEpoch (fm_params s))) x"
    and "totals_ok (fm_totals s) (fm_stakings s)"
  using assms by (auto simp: farming_inv_def index_ok_def)

text \<open>The invariant reads the staking stores, the counter and the parameters only.\<close>

lemma farming_inv_frame:
  assumes "farming_inv E s"
    and "fm_stakings s' = fm_stakings s" "fm_by_status s' = fm_by_status s"
    and "fm_by_address s' = fm_by_address s" "fm_totals s' = fm_totals s"
    and "fm_staking_id s' = fm_staking_id s" "fm_params s' = fm_params s"
  shows "farming_inv E s'"
  using assms by (simp add: farming_inv_def GetStakingId_def)

text \<open>
  Rewriting a stored staking: identity, owner and amounts stay, and so does whether it is
  unstaked. Claims, maturing and epoch rewards are all of this form.
\<close>

definition same_stake :: "staking \<Rightarrow> staking \<Rightarrow> bool" where
  "same_stake x y \<longleftrightarrow> sk_Id y = sk_Id x \<and> sk_Address y = sk_Address x \<and> sk_Amount y = sk_Amount x
     \<and> sk_EffectiveAmount y = sk_EffectiveAmount x
     \<and> (sk_Status y = ST_UNSTAKED \<longleftrightarrow> sk_Status x = ST_UNSTAKED)"

lemma same_stake_staked:
  "same_stake x y \<Longrightarrow> staked d y = staked d x"
  "same_stake x y \<Longrightarrow> staked_effective d y = staked_effective d x"
  by (simp_all add: same_stake_def staked_def staked_effective_def)

lemma sum_rewrite:
  assumes "kv_ok m" "kv_get m i = Some x" "f y = f x"
  shows "kv_sum f (kv_set i y m) = kv_sum f m"
  using assms by (simp add: kv_sum_set)

lemma SetStaking_rewrite_inv:
  assumes inv: "farming_inv E s" and get: "kv_get (fm_stakings s) i = Some x"
    and same: "same_stake x y"
    and ok: "staking_ok (Denom (fp_RewardPerEpoch (fm_params s))) y"
  shows "farming_inv E (SetStaking y s)"
proof -
  have id: "sk_Id y = i" using farming_invD(4) [OF inv get] same by (simp add: same_stake_def)
  have addr: "sk_Address y = sk_Address x" using same by (simp add: same_stake_def)
  have sums: "kv_sum (staked d) (kv_set i y (fm_stakings s)) = kv_sum (staked d) (fm_stakings s)"
    "kv_sum (staked_effective d) (kv_set i y (fm_stakings s)) =
       kv_sum (staked_effective d) (fm_stakings s)" for d
    using sum_rewrite [OF farming_invD(2) [OF inv] get] same_stake_staked [OF same] by blast+
  have idx: "index_ok (fm_stakings (SetStaking y s)) (fm_by_status (SetStaking y s)) sk_Id sk_Status"
    by (rule sk.put_index_ok [OF farming_invD(1) [OF inv]])
  have idx': "index_ok (kv_set i y (fm_stakings s)) (fm_by_status (SetStaking y s)) sk_Id sk_Status"
    using idx id by simp
  have tot: "totals_ok (fm_totals s) (kv_set i y (fm_stakings s))"
    using farming_invD(7) [OF inv] unfolding totals_ok_def sums .
  show ?thesis
    using inv get ok addr idx' tot
    unfolding farming_inv_def by (auto simp: id)
qed

section \<open>Parameters\<close>

lemma check_assets_sound:
  "check_assets E seen acc as = Inr r \<Longrightarrow>
     r = acc + sum_list (map as_RewardRatio as)
   \<and> distinct (map as_Denom as) \<and> set (map as_Denom as) \<inter> set seen = {}
   \<and> (\<forall>a \<in> set as. valid_denom E (as_Denom a) \<and> 0 \<le> as_RewardRatio a
        \<and> as_RewardRatio a \<le> dec_one \<and> 0 < as_MinStakingAmount a)"
proof (induction E seen acc as rule: check_assets.induct)
  case (1 E seen acc)
  then show ?case by simp
next
  case (2 E seen acc a as)
  from "2.prems" have guard: "as_Denom a \<notin> set seen" "valid_denom E (as_Denom a)"
      "0 \<le> as_RewardRatio a" "as_RewardRatio a \<le> dec_one" "0 < as_MinStakingAmount a"
      "check_assets E (as_Denom a # seen) (acc + as_RewardRatio a) as = Inr r"
    by (auto simp: validateRewardRatio_def bind_res_eq_Inr split: if_splits)
  with "2.IH" [of "()"] show ?case by (auto simp: validateRewardRatio_def)
qed

lemma GetAsset_Some: "GetAsset as d = Some a \<Longrightarrow> a \<in> set as \<and> as_Denom a = d"
  by (induction as) (auto split: if_splits)

lemma GetAsset_None: "GetAsset as d = None \<longleftrightarrow> d \<notin> as_Denom ` set as"
  by (induction as) auto

lemma valid_params_assets:
  assumes "farming_Params_Validate E p = Inr ()"
  shows "distinct (map as_Denom (fp_EligibleAssets p))"
    and "sum_list (map as_RewardRatio (fp_EligibleAssets p)) \<le> dec_one"
    and "\<And>a. a \<in> set (fp_EligibleAssets p) \<Longrightarrow> 0 \<le> as_RewardRatio a \<and> 0 < as_MinStakingAmount a"
    and "valid_denom E (Denom (fp_RewardPerEpoch p))" and "0 \<le> Amount (fp_RewardPerEpoch p)"
    and "0 \<le> fp_EpochDuration p"
  using assms check_assets_sound [of E "[]" 0 "fp_EligibleAssets p"]
  by (auto simp: farming_Params_Validate_def validateEligibleAssets_def validateRewardPerEpoch_def
      validateEpochDuration_def coin_valid_def bind_res_eq_Inr split: if_splits)

lemma check_lock_durations_ge:
  "check_lock_durations ed seen ds = Inr () \<Longrightarrow> d \<in> set ds \<Longrightarrow> ed \<le> d"
  by (induction ed seen ds rule: check_lock_durations.induct) (auto split: if_splits)

section \<open>The lock multiplier and the effective amount\<close>

lemma GetLockMultiplier_ge_one:
  assumes "dec_ok E" "0 \<le> d"
  shows "dec_one \<le> GetLockMultiplier E d"
proof -
  let ?q = "dec_quo_int E (to_dec (GetLockDurationInDays d)) 365"
  have days: "0 \<le> GetLockDurationInDays d" using assms(2) by (simp add: GetLockDurationInDays_def day_def)
  have "?q = tdiv (to_dec (GetLockDurationInDays d)) 365" using assms(1) by (simp add: dec_ok_def)
  then have "0 \<le> ?q" using days by (simp add: to_dec_def)
  then have "0 \<le> dec_mul E ?q LockMultiplierFactor"
    using assms(1) by (intro dec_mul_nonneg) (simp_all add: LockMultiplierFactor_def)
  then show ?thesis by (simp add: GetLockMultiplier_def)
qed

lemma GetEffectiveAmount_ge:
  assumes "dec_ok E" "0 \<le> Amount a" "dec_one \<le> m" "GetEffectiveAmount E a m = Inr c"
  shows "Denom c = Denom a \<and> Amount a \<le> Amount c"
proof -
  have "0 \<le> m" using assms(3) by (simp add: dec_one_def)
  then have c: "c = \<lparr>Denom = Denom a, Amount = Amount a * m div 10 ^ 18\<rparr>"
    using assms(1,2,4) by (simp add: GetEffectiveAmount_def new_coin_Inr truncate_mul_bounds)
  have "Amount a * 10 ^ 18 \<le> Amount a * m"
    using assms(2,3) by (intro mult_left_mono) (simp_all add: dec_one_def)
  then have "Amount a \<le> Amount a * m div 10 ^ 18" by simp
  then show ?thesis using c by simp
qed

end
