(* ===== verification/Farming_Steps.thy ===== *)
theory Farming_Steps
  imports Farming_Inv
begin

text \<open>
  Every message, the end blocker and a change of the bank by other modules keep the farming
  invariant, and the module account always covers what is staked: the step relation of the
  module and its reachable states.
\<close>

section \<open>Totals per denom\<close>

definition total_amount :: "'b farming \<Rightarrow> string \<Rightarrow> int" where
  "total_amount s d = (case kv_get (fm_totals s) d of None \<Rightarrow> 0 | Some t \<Rightarrow> Amount (ts_Amount t))"

lemma totals_ok_None:
  assumes "totals_ok ts xs" "kv_get ts d = None"
  shows "kv_sum (staked d) xs = 0" "kv_sum (staked_effective d) xs = 0"
  using assms(1) [unfolded totals_ok_def, rule_format, of d] assms(2) by auto

lemma totals_ok_Some:
  assumes "totals_ok ts xs" "kv_get ts d = Some t"
  shows "ts_Denom t = d" "Denom (ts_Amount t) = d" "Denom (ts_EffectiveAmount t) = d"
    and "kv_sum (staked d) xs = Amount (ts_Amount t)"
    and "kv_sum (staked_effective d) xs = Amount (ts_EffectiveAmount t)"
  using assms(1) [unfolded totals_ok_def, rule_format, of d] assms(2) by auto

lemmas totals_okD = totals_ok_None totals_ok_Some

lemma totals_ok_update:
  assumes tot: "totals_ok ts xs"
    and t: "ts_Denom t = d" "Denom (ts_Amount t) = d" "Denom (ts_EffectiveAmount t) = d"
    and amt: "Amount (ts_Amount t) = kv_sum (staked d) ys"
    and eff: "Amount (ts_EffectiveAmount t) = kv_sum (staked_effective d) ys"
    and rest: "\<And>e. e \<noteq> d \<Longrightarrow> kv_sum (staked e) ys = kv_sum (staked e) xs"
      "\<And>e. e \<noteq> d \<Longrightarrow> kv_sum (staked_effective e) ys = kv_sum (staked_effective e) xs"
  shows "totals_ok (kv_set d t ts) ys"
  unfolding totals_ok_def
proof
  fix e
  show "case kv_get (kv_set d t ts) e of
      None \<Rightarrow> kv_sum (staked e) ys = 0 \<and> kv_sum (staked_effective e) ys = 0
    | Some t \<Rightarrow> ts_Denom t = e \<and> Denom (ts_Amount t) = e \<and> Denom (ts_EffectiveAmount t) = e
        \<and> Amount (ts_Amount t) = kv_sum (staked e) ys
        \<and> Amount (ts_EffectiveAmount t) = kv_sum (staked_effective e) ys"
  proof (cases "e = d")
    case True
    then show ?thesis using t amt eff by simp
  next
    case False
    then show ?thesis
      using totals_okD [OF tot, of e] rest [OF False] by (cases "kv_get ts e") auto
  qed
qed

lemma IncreaseTotalStaking_Inr:
  assumes "IncreaseTotalStaking x s = Inr s'" "totals_ok (fm_totals s) xs"
  obtains t where "s' = s\<lparr>fm_totals := kv_set (Denom (sk_Amount x)) t (fm_totals s)\<rparr>"
    and "ts_Denom t = Denom (sk_Amount x)" "Denom (ts_Amount t) = Denom (sk_Amount x)"
    and "Denom (ts_EffectiveAmount t) = Denom (sk_Amount x)"
    and "Amount (ts_Amount t) = kv_sum (staked (Denom (sk_Amount x))) xs + Amount (sk_Amount x)"
    and "Amount (ts_EffectiveAmount t) =
      kv_sum (staked_effective (Denom (sk_Amount x))) xs + Amount (sk_EffectiveAmount x)"
proof (cases "kv_get (fm_totals s) (Denom (sk_Amount x))")
  case None
  with assms(1) have eq: "s' = s\<lparr>fm_totals := kv_set (Denom (sk_Amount x))
      \<lparr>ts_Denom = Denom (sk_Amount x), ts_Amount = \<lparr>Denom = Denom (sk_Amount x), Amount = Amount (sk_Amount x)\<rparr>,
       ts_EffectiveAmount = \<lparr>Denom = Denom (sk_Amount x), Amount = Amount (sk_EffectiveAmount x)\<rparr>\<rparr>
      (fm_totals s)\<rparr>"
    by (auto simp: IncreaseTotalStaking_def HasTotalStaking_def kv_has_def coin_add_def
        SetTotalStaking_def Let_def bind_res_eq_Inr split: if_splits)
  show ?thesis
    by (rule that [OF eq]) (simp_all add: totals_ok_None [OF assms(2) None])
next
  case (Some t)
  note t = totals_ok_Some [OF assms(2) Some]
  from Some t assms(1) have eq: "s' = s\<lparr>fm_totals := kv_set (Denom (sk_Amount x))
      (t\<lparr>ts_Amount := (ts_Amount t)\<lparr>Amount := Amount (ts_Amount t) + Amount (sk_Amount x)\<rparr>,
         ts_EffectiveAmount := (ts_EffectiveAmount t)
           \<lparr>Amount := Amount (ts_EffectiveAmount t) + Amount (sk_EffectiveAmount x)\<rparr>\<rparr>)
      (fm_totals s)\<rparr>"
    by (auto simp: IncreaseTotalStaking_def HasTotalStaking_def GetTotalStaking_def kv_has_def
        coin_add_def SetTotalStaking_def Let_def bind_res_eq_Inr split: if_splits)
  show ?thesis by (rule that [OF eq]) (simp_all add: t)
qed

lemma DecreaseTotalStaking_Inr:
  assumes "DecreaseTotalStaking x s = Inr s'" "totals_ok (fm_totals s) xs"
    and "kv_get (fm_totals s) (Denom (sk_Amount x)) \<noteq> None"
  obtains t where "s' = s\<lparr>fm_totals := kv_set (Denom (sk_Amount x)) t (fm_totals s)\<rparr>"
    and "ts_Denom t = Denom (sk_Amount x)" "Denom (ts_Amount t) = Denom (sk_Amount x)"
    and "Denom (ts_EffectiveAmount t) = Denom (sk_Amount x)"
    and "Amount (ts_Amount t) = kv_sum (staked (Denom (sk_Amount x))) xs - Amount (sk_Amount x)"
    and "Amount (ts_EffectiveAmount t) =
      kv_sum (staked_effective (Denom (sk_Amount x))) xs - Amount (sk_EffectiveAmount x)"
proof -
  obtain t where Some: "kv_get (fm_totals s) (Denom (sk_Amount x)) = Some t" using assms(3) by auto
  note t = totals_ok_Some [OF assms(2) Some]
  from Some t assms(1) have eq: "s' = s\<lparr>fm_totals := kv_set (Denom (sk_Amount x))
      (t\<lparr>ts_Amount := (ts_Amount t)\<lparr>Amount := Amount (ts_Amount t) - Amount (sk_Amount x)\<rparr>,
         ts_EffectiveAmount := (ts_EffectiveAmount t)
           \<lparr>Amount := Amount (ts_EffectiveAmount t) - Amount (sk_EffectiveAmount x)\<rparr>\<rparr>)
      (fm_totals s)\<rparr>"
    by (auto simp: DecreaseTotalStaking_def GetTotalStaking_def coin_sub_def coin_sub_amount_def
        SetTotalStaking_def Let_def bind_res_eq_Inr split: if_splits)
  show ?thesis by (rule that [OF eq]) (simp_all add: t)
qed

section \<open>Stake\<close>

definition fresh_staking :: "'b env \<Rightarrow> int \<Rightarrow> msg_stake \<Rightarrow> coin \<Rightarrow> 'b farming \<Rightarrow> staking" where
  "fresh_staking E now m ea s =
     \<lparr>sk_Id = GetStakingId s + 1, sk_Address = ms_Staker m, sk_Amount = ms_Amount m,
      sk_LockDuration = ms_LockDuration m,
      sk_LockMultiplier = GetLockMultiplier E (ms_LockDuration m), sk_EffectiveAmount = ea,
      sk_PendingRewards = \<lparr>Denom = Denom (fp_RewardPerEpoch (fm_params s)), Amount = 0\<rparr>,
      sk_TotalRewards = \<lparr>Denom = Denom (fp_RewardPerEpoch (fm_params s)), Amount = 0\<rparr>,
      sk_StartTime = now, sk_Status = ST_STAKED\<rparr>"

lemma fresh_staking_simps [simp]:
  "sk_Id (fresh_staking E now m ea s) = GetStakingId s + 1"
  "sk_Address (fresh_staking E now m ea s) = ms_Staker m"
  "sk_Amount (fresh_staking E now m ea s) = ms_Amount m"
  "sk_EffectiveAmount (fresh_staking E now m ea s) = ea"
  "sk_LockDuration (fresh_staking E now m ea s) = ms_LockDuration m"
  "sk_StartTime (fresh_staking E now m ea s) = now"
  "sk_Status (fresh_staking E now m ea s) = ST_STAKED"
  "sk_PendingRewards (fresh_staking E now m ea s) =
     \<lparr>Denom = Denom (fp_RewardPerEpoch (fm_params s)), Amount = 0\<rparr>"
  "sk_TotalRewards (fresh_staking E now m ea s) =
     \<lparr>Denom = Denom (fp_RewardPerEpoch (fm_params s)), Amount = 0\<rparr>"
  by (simp_all add: fresh_staking_def)

text \<open>What a successful \<open>Stake\<close> did: the guards it passed and the state it left.\<close>

lemma Stake_Inr:
  assumes "Stake E now m s = Inr s'"
  shows "\<exists>a b ea. fp_Enabled (fm_params s)
    \<and> GetAsset (fp_EligibleAssets (fm_params s)) (Denom (ms_Amount m)) = Some a
    \<and> as_MinStakingAmount a \<le> Amount (ms_Amount m) \<and> 0 < Amount (ms_Amount m)
    \<and> ms_LockDuration m \<in> set (fp_LockDurations (fm_params s)) \<and> 0 < ms_LockDuration m
    \<and> send_coins E (fm_bank s) (Account (ms_Staker m)) farming_acc [ms_Amount m] = Inr b
    \<and> GetEffectiveAmount E (ms_Amount m) (GetLockMultiplier E (ms_LockDuration m)) = Inr ea
    \<and> IncreaseTotalStaking (fresh_staking E now m ea s)
        (SetStakingByAddress (ms_Staker m) (fresh_staking E now m ea s)
          (SetStaking (fresh_staking E now m ea s)
            (s\<lparr>fm_bank := b, fm_staking_id := Some (GetStakingId s + 1)\<rparr>))) = Inr s'"
  using assms
  by (auto simp: Stake_def MsgStake_ValidateBasic_def Let_def bind_res_eq_Inr new_coin_Inr
      IncrementStakingId_def Asset_def LockDurationExists_def fresh_staking_def not_less
      split: if_splits option.splits)

lemma Stake_inv:
  assumes dec: "dec_ok E" and inv: "farming_inv E s" and wrap: "GetStakingId s \<noteq> - 1"
    and run: "Stake E now m s = Inr s'"
  shows "farming_inv E s'"
proof -
  obtain b ea where amt: "0 < Amount (ms_Amount m)" "0 < ms_LockDuration m"
    and ea: "GetEffectiveAmount E (ms_Amount m) (GetLockMultiplier E (ms_LockDuration m)) = Inr ea"
    and inc: "IncreaseTotalStaking (fresh_staking E now m ea s)
        (SetStakingByAddress (ms_Staker m) (fresh_staking E now m ea s)
          (SetStaking (fresh_staking E now m ea s)
            (s\<lparr>fm_bank := b, fm_staking_id := Some (GetStakingId s + 1)\<rparr>))) = Inr s'"
    using Stake_Inr [OF run] by blast
  define x where "x = fresh_staking E now m ea s"
  define i where "i = GetStakingId s + 1"
  have x: "sk_Id x = i" "sk_Address x = ms_Staker m" "sk_Amount x = ms_Amount m"
    "sk_EffectiveAmount x = ea" "sk_Status x = ST_STAKED" by (simp_all add: x_def i_def)
  have fresh: "kv_get (fm_stakings s) i = None"
    using u64_succ [OF wrap] farming_invD(5) [OF inv, of i] unfolding i_def
    by (metis leD not_None_eq)
  have eff: "Denom ea = Denom (ms_Amount m)" "Amount (ms_Amount m) \<le> Amount ea"
    using GetEffectiveAmount_ge [OF dec _ GetLockMultiplier_ge_one [OF dec] ea] amt by auto
  have xok: "staking_ok (Denom (fp_RewardPerEpoch (fm_params s))) x"
    using amt eff by (simp add: staking_ok_def x_def)
  have tot: "totals_ok (fm_totals s) (fm_stakings s)" by (rule farming_invD(7) [OF inv])
  obtain t where s': "s' = (SetStakingByAddress (ms_Staker m) x (SetStaking x
        (s\<lparr>fm_bank := b, fm_staking_id := Some i\<rparr>)))
          \<lparr>fm_totals := kv_set (Denom (ms_Amount m)) t (fm_totals s)\<rparr>"
    and t: "ts_Denom t = Denom (ms_Amount m)" "Denom (ts_Amount t) = Denom (ms_Amount m)"
      "Denom (ts_EffectiveAmount t) = Denom (ms_Amount m)"
      "Amount (ts_Amount t) = kv_sum (staked (Denom (ms_Amount m))) (fm_stakings s) + Amount (ms_Amount m)"
      "Amount (ts_EffectiveAmount t) =
         kv_sum (staked_effective (Denom (ms_Amount m))) (fm_stakings s) + Amount ea"
    using IncreaseTotalStaking_Inr [OF inc, of "fm_stakings s"] tot
    unfolding x_def [symmetric] i_def [symmetric]
    by (auto simp: x SetStakingByAddress_def)
  have sums: "kv_sum f (kv_set i x (fm_stakings s)) = kv_sum f (fm_stakings s) + f x" for f
    using kv_sum_set [OF farming_invD(2) [OF inv], of f i x] fresh by simp
  have tot': "totals_ok (kv_set (Denom (ms_Amount m)) t (fm_totals s)) (kv_set i x (fm_stakings s))"
    by (rule totals_ok_update [OF tot t(1-3)])
      (simp_all add: sums t staked_def staked_effective_def x)
  have idx: "index_ok (kv_set i x (fm_stakings s))
      (fm_by_status (SetStaking x (s\<lparr>fm_bank := b, fm_staking_id := Some i\<rparr>))) sk_Id sk_Status"
    using sk.put_index_ok [of "s\<lparr>fm_bank := b, fm_staking_id := Some i\<rparr>" x] farming_invD(1) [OF inv] x
    by simp
  show ?thesis
    using inv idx tot' xok fresh u64_succ [OF wrap]
    unfolding s' farming_inv_def i_def [symmetric]
    by (auto simp: SetStakingByAddress_def x less_imp_le)
qed

section \<open>Unstake\<close>

text \<open>
  What a successful \<open>Unstake\<close> did. The amount leaves the module account, then the pending rewards
  if there are any; the staking is rewritten as unstaked with nothing pending.
\<close>

definition unstaked_of :: "staking \<Rightarrow> staking" where
  "unstaked_of x = x\<lparr>sk_Status := ST_UNSTAKED,
     sk_PendingRewards := (if 0 < Amount (sk_PendingRewards x)
       then (sk_PendingRewards x)\<lparr>Amount := 0\<rparr> else sk_PendingRewards x)\<rparr>"

lemma unstaked_of_simps [simp]:
  "sk_Id (unstaked_of x) = sk_Id x" "sk_Address (unstaked_of x) = sk_Address x"
  "sk_Amount (unstaked_of x) = sk_Amount x" "sk_EffectiveAmount (unstaked_of x) = sk_EffectiveAmount x"
  "sk_Status (unstaked_of x) = ST_UNSTAKED" "sk_TotalRewards (unstaked_of x) = sk_TotalRewards x"
  by (simp_all add: unstaked_of_def)

lemma Unstake_Inr:
  assumes "Unstake E now staker i s = Inr s'"
  shows "\<exists>x b b'. kv_get (fm_stakings s) i = Some x \<and> sk_Address x = staker
    \<and> sk_Status x \<noteq> ST_UNSTAKED \<and> lock_end x \<le> now
    \<and> send_coins E (fm_bank s) farming_acc (Account staker) [sk_Amount x] = Inr b
    \<and> (if 0 < Amount (sk_PendingRewards x)
        then send_coins E b farming_acc (Account staker) [sk_PendingRewards x] = Inr b' else b' = b)
    \<and> DecreaseTotalStaking (unstaked_of x) (SetStaking (unstaked_of x) (s\<lparr>fm_bank := b'\<rparr>)) = Inr s'"
proof -
  obtain x where get: "kv_get (fm_stakings s) i = Some x"
    using assms by (auto simp: Unstake_def staker_ValidateBasic_def HasStaking_def kv_has_def
        split: if_splits)
  have x: "GetStaking s i = x" using get by (simp add: GetStaking_def)
  have "(x\<lparr>sk_PendingRewards := \<lparr>Denom = Denom (sk_PendingRewards x), Amount = 0\<rparr>\<rparr>)
      \<lparr>sk_Status := ST_UNSTAKED\<rparr> = unstaked_of x" if "0 < Amount (sk_PendingRewards x)"
    using that by (simp add: unstaked_of_def)
  moreover have "x\<lparr>sk_Status := ST_UNSTAKED\<rparr> = unstaked_of x" if "\<not> 0 < Amount (sk_PendingRewards x)"
    using that by (simp add: unstaked_of_def)
  ultimately show ?thesis
    using assms get
    by (cases "0 < Amount (sk_PendingRewards x)")
      (auto simp: Unstake_def staker_ValidateBasic_def x Let_def bind_res_eq_Inr new_coin_Inr
        not_less split: if_splits)
qed

lemma staked_total_present:
  assumes inv: "farming_inv E s" and get: "kv_get (fm_stakings s) i = Some x"
    and st: "sk_Status x \<noteq> ST_UNSTAKED"
  shows "kv_get (fm_totals s) (Denom (sk_Amount x)) \<noteq> None"
proof
  assume none: "kv_get (fm_totals s) (Denom (sk_Amount x)) = None"
  let ?f = "staked (Denom (sk_Amount x))"
  have ok: "staking_ok (Denom (fp_RewardPerEpoch (fm_params s))) y"
    if "kv_get (fm_stakings s) j = Some y" for j y using farming_invD(6) [OF inv that] .
  have zero: "kv_sum ?f (fm_stakings s) = 0"
    using totals_ok_None [OF farming_invD(7) [OF inv] none] by simp
  have eq: "kv_sum ?f (kv_set i (x\<lparr>sk_Status := ST_UNSTAKED\<rparr>) (fm_stakings s)) =
      kv_sum ?f (fm_stakings s) - ?f x"
    using kv_sum_set [OF farming_invD(2) [OF inv], of ?f i] get by (simp add: staked_def)
  have "0 \<le> kv_sum ?f (kv_set i (x\<lparr>sk_Status := ST_UNSTAKED\<rparr>) (fm_stakings s))"
    by (rule kv_sum_nonneg)
      (use farming_invD(2) [OF inv] in \<open>auto simp: staked_def staking_ok_def dest!: ok split: if_splits\<close>)
  moreover have "0 < ?f x" using ok [OF get] st by (simp add: staking_ok_def staked_def)
  ultimately show False using eq zero by simp
qed

lemma Unstake_inv:
  assumes inv: "farming_inv E s" and run: "Unstake E now staker i s = Inr s'"
  shows "farming_inv E s'"
proof -
  obtain x b' where get: "kv_get (fm_stakings s) i = Some x" and st: "sk_Status x \<noteq> ST_UNSTAKED"
    and dec: "DecreaseTotalStaking (unstaked_of x) (SetStaking (unstaked_of x) (s\<lparr>fm_bank := b'\<rparr>)) = Inr s'"
    using Unstake_Inr [OF run] by blast
  define y where "y = unstaked_of x"
  have y: "sk_Status y = ST_UNSTAKED" "sk_Amount y = sk_Amount x" by (simp_all add: y_def)
  have id: "sk_Id x = i" by (rule farming_invD(4) [OF inv get])
  have xok: "staking_ok (Denom (fp_RewardPerEpoch (fm_params s))) x" by (rule farming_invD(6) [OF inv get])
  then have yok: "staking_ok (Denom (fp_RewardPerEpoch (fm_params s))) y"
    by (auto simp: staking_ok_def y_def unstaked_of_def)
  have tot: "totals_ok (fm_totals s) (fm_stakings s)" by (rule farming_invD(7) [OF inv])
  obtain t where s': "s' = (SetStaking y (s\<lparr>fm_bank := b'\<rparr>))
        \<lparr>fm_totals := kv_set (Denom (sk_Amount x)) t (fm_totals s)\<rparr>"
    and t: "ts_Denom t = Denom (sk_Amount x)" "Denom (ts_Amount t) = Denom (sk_Amount x)"
      "Denom (ts_EffectiveAmount t) = Denom (sk_Amount x)"
      "Amount (ts_Amount t) = kv_sum (staked (Denom (sk_Amount x))) (fm_stakings s) - Amount (sk_Amount x)"
      "Amount (ts_EffectiveAmount t) =
         kv_sum (staked_effective (Denom (sk_Amount x))) (fm_stakings s) - Amount (sk_EffectiveAmount x)"
    using DecreaseTotalStaking_Inr [OF dec, of "fm_stakings s"] tot
      staked_total_present [OF inv get st] unfolding y_def [symmetric] by (auto simp: y_def)
  have sums: "kv_sum f (kv_set i y (fm_stakings s)) = kv_sum f (fm_stakings s) - f x + f y" for f
    using kv_sum_set [OF farming_invD(2) [OF inv], of f i y] get by simp
  have tot': "totals_ok (kv_set (Denom (sk_Amount x)) t (fm_totals s)) (kv_set i y (fm_stakings s))"
    by (rule totals_ok_update [OF tot t(1-3)])
      (use st in \<open>simp_all add: sums t staked_def staked_effective_def y\<close>)
  have idx: "index_ok (kv_set i y (fm_stakings s))
      (fm_by_status (SetStaking y (s\<lparr>fm_bank := b'\<rparr>))) sk_Id sk_Status"
    using sk.put_index_ok [of "s\<lparr>fm_bank := b'\<rparr>" y] farming_invD(1) [OF inv] id by (simp add: y_def)
  show ?thesis
    using inv idx tot' yok get unfolding s' farming_inv_def
    by (auto simp: y_def id)
qed

section \<open>Claims\<close>

lemma Claim_Inr:
  assumes "Claim E staker i s = Inr s'"
  shows "\<exists>x b. kv_get (fm_stakings s) i = Some x \<and> sk_Address x = staker
    \<and> sk_Status x \<noteq> ST_UNSTAKED \<and> Amount (sk_PendingRewards x) \<noteq> 0
    \<and> send_coins E (fm_bank s) farming_acc (Account staker) [sk_PendingRewards x] = Inr b
    \<and> s' = SetStaking (x\<lparr>sk_PendingRewards := (sk_PendingRewards x)\<lparr>Amount := 0\<rparr>\<rparr>) (s\<lparr>fm_bank := b\<rparr>)"
  using assms
  by (auto simp: Claim_def staker_ValidateBasic_def Let_def bind_res_eq_Inr new_coin_Inr HasStaking_def
      kv_has_def GetStaking_def coin_update split: if_splits)

lemma Claim_inv:
  assumes inv: "farming_inv E s" and run: "Claim E staker i s = Inr s'"
  shows "farming_inv E s'"
proof -
  obtain x b where get: "kv_get (fm_stakings s) i = Some x"
    and s': "s' = SetStaking (x\<lparr>sk_PendingRewards := (sk_PendingRewards x)\<lparr>Amount := 0\<rparr>\<rparr>) (s\<lparr>fm_bank := b\<rparr>)"
    using Claim_Inr [OF run] by blast
  have inv': "farming_inv E (s\<lparr>fm_bank := b\<rparr>)" by (rule farming_inv_frame [OF inv]) simp_all
  show ?thesis unfolding s'
    by (rule SetStaking_rewrite_inv [OF inv'])
      (use get farming_invD(6) [OF inv get] in \<open>auto simp: same_stake_def staking_ok_def\<close>)
qed

lemma claim_step_inv:
  assumes inv: "farming_inv E s" and has: "kv_has (fm_by_address s) (a, i)"
    and run: "claim_step E i (p, s) = Inr (p', s')"
  shows "farming_inv E s'" and "fm_by_address s' = fm_by_address s"
    and "Amount p' + kv_sum (\<lambda>x. Amount (sk_PendingRewards x)) (fm_stakings s') =
      Amount p + kv_sum (\<lambda>x. Amount (sk_PendingRewards x)) (fm_stakings s)"
    and "\<And>d. kv_sum (staked d) (fm_stakings s') = kv_sum (staked d) (fm_stakings s)"
    and "fm_bank s' = fm_bank s" and "Denom p' = Denom p"
proof -
  obtain x where get: "kv_get (fm_stakings s) i = Some x"
    using inv has unfolding farming_inv_def by blast
  define y where "y = x\<lparr>sk_PendingRewards := \<lparr>Denom = Denom (fp_RewardPerEpoch (fm_params s)), Amount = 0\<rparr>\<rparr>"
  have id: "sk_Id y = i" using farming_invD(4) [OF inv get] by (simp add: y_def)
  have res: "s' = SetStaking y s" "p' = p\<lparr>Amount := Amount p + Amount (sk_PendingRewards x)\<rparr>"
    using run get by (auto simp: claim_step_def GetStaking_def Let_def bind_res_eq_Inr new_coin_Inr
        coin_add_def y_def split: if_splits)
  show "farming_inv E s'" unfolding res
    by (rule SetStaking_rewrite_inv [OF inv get])
      (use farming_invD(6) [OF inv get] in \<open>auto simp: same_stake_def staking_ok_def y_def\<close>)
  show "fm_by_address s' = fm_by_address s" "fm_bank s' = fm_bank s" "Denom p' = Denom p"
    by (simp_all add: res)
  show "Amount p' + kv_sum (\<lambda>x. Amount (sk_PendingRewards x)) (fm_stakings s') =
      Amount p + kv_sum (\<lambda>x. Amount (sk_PendingRewards x)) (fm_stakings s)"
    using get id by (simp add: res kv_sum_set [OF farming_invD(2) [OF inv]] y_def)
  show "kv_sum (staked d) (fm_stakings s') = kv_sum (staked d) (fm_stakings s)" for d
    using get id by (simp add: res kv_sum_set [OF farming_invD(2) [OF inv]] y_def staked_def)
qed

lemma claim_loop:
  assumes "fold_res (claim_step E) is (p, s) = Inr (p', s')" "farming_inv E s"
    and "\<And>i. i \<in> set is \<Longrightarrow> kv_has (fm_by_address s) (a, i)"
  shows "farming_inv E s' \<and> fm_bank s' = fm_bank s \<and> Denom p' = Denom p
    \<and> Amount p' + kv_sum (\<lambda>x. Amount (sk_PendingRewards x)) (fm_stakings s') =
      Amount p + kv_sum (\<lambda>x. Amount (sk_PendingRewards x)) (fm_stakings s)
    \<and> (\<forall>d. kv_sum (staked d) (fm_stakings s') = kv_sum (staked d) (fm_stakings s))"
  using assms
proof (induction "is" arbitrary: p s)
  case Nil
  then show ?case by simp
next
  case (Cons i "is")
  obtain q t where step: "claim_step E i (p, s) = Inr (q, t)"
    and rest: "fold_res (claim_step E) is (q, t) = Inr (p', s')"
    using Cons.prems(1) by (auto simp: bind_res_eq_Inr)
  have has: "kv_has (fm_by_address s) (a, i)" using Cons.prems(3) by simp
  note one = claim_step_inv [OF Cons.prems(2) has step]
  have "kv_has (fm_by_address t) (a, j)" if "j \<in> set is" for j
    using Cons.prems(3) [of j] that one(2) by simp
  from Cons.IH [OF rest one(1) this] one(3-6) show ?case by simp
qed

lemma ClaimAllRewards_Inr:
  assumes inv: "farming_inv E s" and run: "ClaimAllRewards E a s = Inr (p, s')"
  shows "\<exists>t b. farming_inv E t \<and> fm_bank t = fm_bank s \<and> s' = t\<lparr>fm_bank := b\<rparr>
    \<and> Denom p = Denom (fp_RewardPerEpoch (fm_params s)) \<and> Amount p \<noteq> 0
    \<and> send_coins E (fm_bank s) farming_acc (Account a) [p] = Inr b
    \<and> Amount p + kv_sum (\<lambda>x. Amount (sk_PendingRewards x)) (fm_stakings s') =
      kv_sum (\<lambda>x. Amount (sk_PendingRewards x)) (fm_stakings s)
    \<and> (\<forall>d. kv_sum (staked d) (fm_stakings s') = kv_sum (staked d) (fm_stakings s))"
proof -
  define z where "z = \<lparr>Denom = Denom (fp_RewardPerEpoch (fm_params s)), Amount = 0\<rparr>"
  obtain t b where loop: "fold_res (claim_step E) (ids_with a (fm_by_address s)) (z, s) = Inr (p, t)"
    and send: "send_coins E (fm_bank t) farming_acc (Account a) [p] = Inr b"
    and s': "s' = t\<lparr>fm_bank := b\<rparr>" and nz: "Amount p \<noteq> 0"
    using run by (auto simp: ClaimAllRewards_def bind_res_eq_Inr new_coin_Inr z_def split: if_splits)
  have "kv_has (fm_by_address s) (a, i)" if "i \<in> set (ids_with a (fm_by_address s))" for i
    using that by (simp add: set_ids_with)
  from claim_loop [OF loop inv this] send s' nz show ?thesis by (auto simp: z_def)
qed

lemma ClaimAll_inv:
  assumes "farming_inv E s" "ClaimAll E a s = Inr s'"
  shows "farming_inv E s'"
proof -
  obtain p where "ClaimAllRewards E a s = Inr (p, s')"
    using assms(2) by (auto simp: ClaimAll_def bind_res_eq_Inr)
  from ClaimAllRewards_Inr [OF assms(1) this] show ?thesis
    by (auto intro: farming_inv_frame)
qed

section \<open>Parameters and end of block\<close>

lemma UpdateParams_inv:
  assumes "farming_inv E s" "farming_UpdateParams E authority signer p s = Inr s'"
  shows "farming_inv E s'"
  using assms
  by (auto simp: farming_UpdateParams_def MsgUpdateParams_ValidateBasic_def
      farming_ValidateParamsUpdate_def farming_inv_def bind_res_eq_Inr GetStakingId_def split: if_splits)

text \<open>
  The stakings a block handler reads by status are the stored ones, each once. A handler that
  rewrites one of them leaves the others as they were read.
\<close>

lemma GetStaking_get: "kv_get (fm_stakings s) i = Some x \<Longrightarrow> GetStaking s i = x"
  by (simp add: GetStaking_def)

lemma GetStakingsByStatus_get:
  assumes "farming_inv E s" "x \<in> set (GetStakingsByStatus s st)"
  shows "kv_get (fm_stakings s) (sk_Id x) = Some x \<and> sk_Status x = st"
proof -
  obtain i where i: "i \<in> set (ids_with st (fm_by_status s))" "x = GetStaking s i"
    using assms(2) by (auto simp: GetStakingsByStatus_def)
  then obtain y where "kv_get (fm_stakings s) i = Some y" "sk_Status y = st"
    using sk.ids_with_iff [OF farming_invD(1) [OF assms(1)]] by blast
  then show ?thesis using i farming_invD(4) [OF assms(1)] by (simp add: GetStaking_get)
qed

lemma distinct_GetStakingsByStatus:
  assumes "farming_inv E s"
  shows "distinct (map sk_Id (GetStakingsByStatus s st))"
proof -
  have id: "sk_Id (GetStaking s i) = i" if "i \<in> set (ids_with st (fm_by_status s))" for i
    using that sk.ids_with_iff [OF farming_invD(1) [OF assms]] farming_invD(4) [OF assms]
    by (auto simp: GetStaking_get)
  have "map sk_Id (GetStakingsByStatus s st) = ids_with st (fm_by_status s)"
    using id by (simp add: GetStakingsByStatus_def map_idI)
  then show ?thesis using assms by (simp add: distinct_ids_with farming_inv_def index_ok_def)
qed

lemma mature_loop:
  assumes "farming_inv E s" "distinct (map sk_Id xs)"
    and "\<And>x. x \<in> set xs \<Longrightarrow> kv_get (fm_stakings s) (sk_Id x) = Some x \<and> sk_Status x = ST_STAKED"
  shows "farming_inv E (fold (mature_step now) xs s)
    \<and> fm_bank (fold (mature_step now) xs s) = fm_bank s
    \<and> (\<forall>d. kv_sum (staked d) (fm_stakings (fold (mature_step now) xs s)) = kv_sum (staked d) (fm_stakings s))"
  using assms
proof (induction xs arbitrary: s)
  case Nil
  then show ?case by simp
next
  case (Cons x xs)
  have get: "kv_get (fm_stakings s) (sk_Id x) = Some x" "sk_Status x = ST_STAKED"
    using Cons.prems(3) by auto
  define t where "t = mature_step now x s"
  have ok: "staking_ok (Denom (fp_RewardPerEpoch (fm_params s))) x"
    using farming_invD(6) [OF Cons.prems(1) get(1)] .
  have inv: "farming_inv E t"
    unfolding t_def mature_step_def using Cons.prems(1) ok
    by (auto intro!: SetStaking_rewrite_inv [OF Cons.prems(1) get(1)] simp: same_stake_def staking_ok_def get(2))
  have keep: "kv_get (fm_stakings t) (sk_Id y) = Some y \<and> sk_Status y = ST_STAKED" if "y \<in> set xs" for y
    using Cons.prems(2,3) that by (auto simp: t_def mature_step_def image_iff)
  have sum: "kv_sum (staked d) (fm_stakings t) = kv_sum (staked d) (fm_stakings s)" for d
    using get farming_invD(2) [OF Cons.prems(1)]
    by (auto simp: t_def mature_step_def kv_sum_set staked_def)
  have bank: "fm_bank t = fm_bank s" by (simp add: t_def mature_step_def)
  have "distinct (map sk_Id xs)" using Cons.prems(2) by simp
  from Cons.IH [OF inv this keep] show ?case by (simp add: sum bank t_def [symmetric])
qed

lemma mature_get:
  "distinct (map sk_Id xs) \<Longrightarrow> kv_get (fm_stakings (fold (mature_step now) xs s)) i =
     (case find (\<lambda>x. sk_Id x = i \<and> lock_end x \<le> now) xs of
        None \<Rightarrow> kv_get (fm_stakings s) i | Some x \<Rightarrow> Some (x\<lparr>sk_Status := ST_UNLOCKED\<rparr>))"
proof (induction xs arbitrary: s)
  case Nil
  then show ?case by simp
next
  case (Cons x xs)
  have none: "find (\<lambda>x. sk_Id x = i \<and> lock_end x \<le> now) xs = None" if "sk_Id x = i"
    using Cons.prems that by (auto simp: find_None_iff image_iff)
  show ?case
    using Cons.IH [of "mature_step now x s"] Cons.prems none
    by (cases "sk_Id x = i"; cases "lock_end x \<le> now")
      (auto simp: mature_step_def not_less split: option.splits)
qed

end
