(* ===== verification/Farming_Epoch.thy ===== *)
theory Farming_Epoch
  imports Farming_Steps
begin

text \<open>
  The epochs of the farming module: the queue of the stakings that take part in the current
  epoch, the totals the epoch keeps of them, and the rewards paid out when it ends.
\<close>

section \<open>The totals of an epoch\<close>

definition epoch_total :: "total_staking list \<Rightarrow> string \<Rightarrow> int" where
  "epoch_total ts d = (case find_total ts d of None \<Rightarrow> 0 | Some t \<Rightarrow> Amount (ts_EffectiveAmount t))"

definition eff_of :: "string \<Rightarrow> staking \<Rightarrow> int" where
  "eff_of d x = (if Denom (sk_Amount x) = d then Amount (sk_EffectiveAmount x) else 0)"

definition epoch_totals_ok :: "total_staking list \<Rightarrow> bool" where
  "epoch_totals_ok ts \<longleftrightarrow>
     (\<forall>t \<in> set ts. Denom (ts_Amount t) = ts_Denom t \<and> Denom (ts_EffectiveAmount t) = ts_Denom t)"

lemma add_to_totals_Inr:
  assumes "epoch_totals_ok ts" "Denom (sk_EffectiveAmount x) = Denom (sk_Amount x)"
  shows "\<exists>ts'. add_to_totals ts x = Inr ts' \<and> epoch_totals_ok ts'
    \<and> (\<forall>d. epoch_total ts' d = epoch_total ts d + eff_of d x)"
  using assms
proof (induction ts)
  case Nil
  then show ?case by (simp add: epoch_totals_ok_def epoch_total_def eff_of_def)
next
  case (Cons t ts)
  show ?case
  proof (cases "ts_Denom t = Denom (sk_Amount x)")
    case True
    then show ?thesis using Cons.prems
      by (simp add: epoch_totals_ok_def coin_add_def epoch_total_def eff_of_def)
  next
    case False
    from Cons obtain ts' where ts': "add_to_totals ts x = Inr ts'" "epoch_totals_ok ts'"
      "\<And>d. epoch_total ts' d = epoch_total ts d + eff_of d x"
      by (auto simp: epoch_totals_ok_def)
    then have "epoch_total (t # ts') d = epoch_total (t # ts) d + eff_of d x" for d
      using False ts'(3) [of d] by (auto simp: epoch_total_def eff_of_def)
    then show ?thesis using False ts' Cons.prems by (simp add: epoch_totals_ok_def)
  qed
qed

section \<open>The queue of the current epoch\<close>

definition queued :: "'b farming \<Rightarrow> string \<Rightarrow> int" where
  "queued s d = sum_list (map (\<lambda>i. eff_of d (GetStaking s i)) (kv_keys (fm_queue s)))"

text \<open>
  The queue holds stored stakings only. While it is not empty there is a started epoch whose
  totals are the sums over the queue.
\<close>

definition queue_ok :: "'b farming \<Rightarrow> bool" where
  "queue_ok s \<longleftrightarrow> kv_ok (fm_queue s)
   \<and> (\<forall>i. kv_has (fm_queue s) i \<longrightarrow> kv_has (fm_stakings s) i)
   \<and> (\<forall>e. GetCurrentEpoch s = Some e \<longrightarrow> ep_Id e = GetEpochId s)
   \<and> (fm_queue s \<noteq> [] \<longrightarrow> (\<exists>e. GetCurrentEpoch s = Some e \<and> ep_Status e = EP_STARTED
        \<and> (\<forall>d. queued s d = epoch_total (ep_TotalStakings e) d)))"

definition same_effective :: "'b farming \<Rightarrow> 'b farming \<Rightarrow> bool" where
  "same_effective s s' \<longleftrightarrow> (\<forall>i x. kv_get (fm_stakings s) i = Some x \<longrightarrow>
     (\<exists>y. kv_get (fm_stakings s') i = Some y \<and> sk_Amount y = sk_Amount x
        \<and> sk_EffectiveAmount y = sk_EffectiveAmount x))"

lemma GetCurrentEpoch_frame:
  assumes "fm_epoch_id s' = fm_epoch_id s" "fm_epochs s' = fm_epochs s"
  shows "GetCurrentEpoch s' = GetCurrentEpoch s" "GetEpochId s' = GetEpochId s"
  unfolding GetCurrentEpoch_def GetEpochId_def GetEpoch_def assms by simp_all

text \<open>Operations that touch neither the queue nor the epochs keep the queue in order.\<close>

lemma queue_ok_frame:
  assumes q: "queue_ok s" and same: "same_effective s s'"
    and eq: "fm_queue s' = fm_queue s" "fm_epoch_id s' = fm_epoch_id s" "fm_epochs s' = fm_epochs s"
  shows "queue_ok s'"
proof -
  note cur = GetCurrentEpoch_frame [OF eq(2,3)]
  have has: "kv_has (fm_stakings s') i" if "kv_has (fm_stakings s) i" for i
    using that same unfolding same_effective_def kv_has_def by blast
  have "eff_of d (GetStaking s' i) = eff_of d (GetStaking s i)" if "i \<in> set (kv_keys (fm_queue s))" for i d
  proof -
    have "kv_has (fm_stakings s) i" using that q by (simp add: queue_ok_def set_kv_keys)
    then obtain x where x: "kv_get (fm_stakings s) i = Some x" by (auto simp: kv_has_def)
    with same obtain y where "kv_get (fm_stakings s') i = Some y" "sk_Amount y = sk_Amount x"
      "sk_EffectiveAmount y = sk_EffectiveAmount x" unfolding same_effective_def by blast
    then show ?thesis using x by (simp add: GetStaking_def eff_of_def)
  qed
  then have "queued s' d = queued s d" for d
    by (simp add: queued_def eq cong: map_cong)
  then show ?thesis using q has by (simp add: queue_ok_def cur eq)
qed

lemma same_effective_refl [simp]: "fm_stakings s' = fm_stakings s \<Longrightarrow> same_effective s s'"
  by (simp add: same_effective_def)

lemma same_effective_trans: "same_effective s t \<Longrightarrow> same_effective t u \<Longrightarrow> same_effective s u"
  unfolding same_effective_def by metis

lemma same_effective_set:
  assumes "kv_get (fm_stakings s) i = Some x" "fm_stakings s' = kv_set i y (fm_stakings s)"
    and "sk_Amount y = sk_Amount x" "sk_EffectiveAmount y = sk_EffectiveAmount x"
  shows "same_effective s s'"
  using assms by (simp add: same_effective_def)

section \<open>The end of an epoch\<close>

text \<open>The reward the ending epoch gives to the staking \<open>i\<close>.\<close>

definition epoch_reward :: "'b env \<Rightarrow> 'b farming \<Rightarrow> u64 \<Rightarrow> int" where
  "epoch_reward E s i =
     (case GetPendingReward E s (GetStaking s i) of Inl e \<Rightarrow> 0 | Inr c \<Rightarrow> Amount c)"

abbreviation pending_sum :: "'b farming \<Rightarrow> int" where
  "pending_sum s \<equiv> kv_sum (\<lambda>x. Amount (sk_PendingRewards x)) (fm_stakings s)"

lemma GetPendingReward_frame:
  assumes "fm_params s' = fm_params s" "fm_epoch_id s' = fm_epoch_id s" "fm_epochs s' = fm_epochs s"
  shows "GetPendingReward E s' = GetPendingReward E s"
  unfolding fun_eq_iff GetPendingReward_def GetCurrentEpoch_def GetEpochId_def GetEpoch_def assms by simp

lemma GetPendingReward_coin:
  "GetPendingReward E s x = Inr r \<Longrightarrow> Denom r = Denom (fp_RewardPerEpoch (fm_params s)) \<and> 0 \<le> Amount r"
  by (auto simp: GetPendingReward_def GetEpochReward_def new_coin_Inr Let_def split: option.splits if_splits)

text \<open>One staking of the queue: rewarded once, removed from the queue, everything else as before.\<close>

definition rewarded :: "staking \<Rightarrow> int \<Rightarrow> staking" where
  "rewarded x r = x\<lparr>sk_PendingRewards := (sk_PendingRewards x)\<lparr>Amount := Amount (sk_PendingRewards x) + r\<rparr>,
     sk_TotalRewards := (sk_TotalRewards x)\<lparr>Amount := Amount (sk_TotalRewards x) + r\<rparr>\<rparr>"

lemma rewarded_simps [simp]:
  "sk_Id (rewarded x r) = sk_Id x" "sk_Address (rewarded x r) = sk_Address x"
  "sk_Amount (rewarded x r) = sk_Amount x" "sk_EffectiveAmount (rewarded x r) = sk_EffectiveAmount x"
  "sk_Status (rewarded x r) = sk_Status x"
  "Amount (sk_PendingRewards (rewarded x r)) = Amount (sk_PendingRewards x) + r"
  by (simp_all add: rewarded_def)

lemma epoch_ended_step_eq:
  assumes inv: "farming_inv E s" and get: "kv_get (fm_stakings s) i = Some x"
  shows "epoch_ended_step E i s = bind_res (GetPendingReward E s x) (\<lambda>r.
    Inr (RemoveFromCurrentEpochStakingQueue (rewarded x (Amount r)) (SetStaking (rewarded x (Amount r)) s)))"
proof -
  have "Denom (sk_PendingRewards x) = Denom (fp_RewardPerEpoch (fm_params s))"
    "Denom (sk_TotalRewards x) = Denom (fp_RewardPerEpoch (fm_params s))"
    using farming_invD(6) [OF inv get] by (simp_all add: staking_ok_def)
  note den = this
  show ?thesis
  proof (cases "GetPendingReward E s x")
    case (Inl e)
    then show ?thesis by (simp add: epoch_ended_step_def GetStaking_get [OF get])
  next
    case (Inr r)
    have "coin_add (sk_PendingRewards x) r =
        Inr ((sk_PendingRewards x)\<lparr>Amount := Amount (sk_PendingRewards x) + Amount r\<rparr>)"
      "coin_add (sk_TotalRewards x) r =
        Inr ((sk_TotalRewards x)\<lparr>Amount := Amount (sk_TotalRewards x) + Amount r\<rparr>)"
      using den GetPendingReward_coin [OF Inr] by (simp_all add: coin_add_def)
    then show ?thesis
      by (simp only: epoch_ended_step_def GetStaking_get [OF get] Inr bind_res_Inr Let_def rewarded_def)
  qed
qed

lemma epoch_ended_step_inv:
  assumes inv: "farming_inv E s" and get: "kv_get (fm_stakings s) i = Some x"
    and run: "epoch_ended_step E i s = Inr s'"
  shows "farming_inv E s'" "same_effective s s'"
    and "pending_sum s' = pending_sum s + epoch_reward E s i"
    and "kv_sum (staked d) (fm_stakings s') = kv_sum (staked d) (fm_stakings s)"
    and "fm_queue s' = kv_del i (fm_queue s)"
    and "fm_params s' = fm_params s" "fm_epoch_id s' = fm_epoch_id s" "fm_epochs s' = fm_epochs s"
    and "fm_bank s' = fm_bank s"
    and "j \<noteq> i \<Longrightarrow> kv_get (fm_stakings s') j = kv_get (fm_stakings s) j"
proof -
  obtain r where r: "GetPendingReward E s x = Inr r"
    and s': "s' = RemoveFromCurrentEpochStakingQueue (rewarded x (Amount r)) (SetStaking (rewarded x (Amount r)) s)"
    using run unfolding epoch_ended_step_eq [OF inv get] by (auto simp: bind_res_eq_Inr)
  have id: "sk_Id x = i" by (rule farming_invD(4) [OF inv get])
  have "farming_inv E (SetStaking (rewarded x (Amount r)) s)"
    by (rule SetStaking_rewrite_inv [OF inv get])
      (use farming_invD(6) [OF inv get] GetPendingReward_coin [OF r]
        in \<open>auto simp: same_stake_def staking_ok_def rewarded_def\<close>)
  then show "farming_inv E s'" unfolding s'
    by (rule farming_inv_frame) (simp_all add: RemoveFromCurrentEpochStakingQueue_def)
  have st: "fm_stakings s' = kv_set i (rewarded x (Amount r)) (fm_stakings s)"
    by (simp add: s' RemoveFromCurrentEpochStakingQueue_def id)
  show "same_effective s s'" by (rule same_effective_set [OF get st]) simp_all
  show "pending_sum s' = pending_sum s + epoch_reward E s i"
    using r get kv_sum_set [OF farming_invD(2) [OF inv]]
    by (simp add: st epoch_reward_def GetStaking_get [OF get])
  show "kv_sum (staked d) (fm_stakings s') = kv_sum (staked d) (fm_stakings s)"
    unfolding st by (rule sum_rewrite [OF farming_invD(2) [OF inv] get]) (simp add: staked_def)
  show "j \<noteq> i \<Longrightarrow> kv_get (fm_stakings s') j = kv_get (fm_stakings s) j" by (simp add: st)
  show "fm_queue s' = kv_del i (fm_queue s)" "fm_params s' = fm_params s"
    "fm_epoch_id s' = fm_epoch_id s" "fm_epochs s' = fm_epochs s" "fm_bank s' = fm_bank s"
    by (simp_all add: s' RemoveFromCurrentEpochStakingQueue_def id)
qed

lemma epoch_loop:
  assumes "fold_res (epoch_ended_step E) is s = Inr s'" "farming_inv E s" "distinct is"
    and "\<And>i. i \<in> set is \<Longrightarrow> kv_has (fm_stakings s) i"
  shows "farming_inv E s' \<and> same_effective s s'
    \<and> pending_sum s' = pending_sum s + sum_list (map (epoch_reward E s) is)
    \<and> (\<forall>d. kv_sum (staked d) (fm_stakings s') = kv_sum (staked d) (fm_stakings s))
    \<and> fm_queue s' = fold kv_del is (fm_queue s)
    \<and> fm_params s' = fm_params s \<and> fm_epoch_id s' = fm_epoch_id s \<and> fm_epochs s' = fm_epochs s
    \<and> fm_bank s' = fm_bank s
    \<and> (\<forall>i \<in> set is. \<exists>r. GetPendingReward E s (GetStaking s i) = Inr r)"
  using assms
proof (induction "is" arbitrary: s)
  case Nil
  then show ?case by simp
next
  case (Cons i "is")
  obtain t where step: "epoch_ended_step E i s = Inr t"
    and rest: "fold_res (epoch_ended_step E) is t = Inr s'"
    using Cons.prems(1) by (auto simp: bind_res_eq_Inr)
  obtain x where get: "kv_get (fm_stakings s) i = Some x"
    using Cons.prems(4) by (force simp: kv_has_def)
  note one = epoch_ended_step_inv [OF Cons.prems(2) get step]
  have same: "kv_get (fm_stakings t) j = kv_get (fm_stakings s) j" if "j \<in> set is" for j
    by (rule one(10)) (use Cons.prems(3) that in auto)
  have has: "kv_has (fm_stakings t) j" if "j \<in> set is" for j
    using Cons.prems(4) [of j] that same [OF that] by (simp add: kv_has_def)
  have eq: "GetStaking t j = GetStaking s j" if "j \<in> set is" for j
    using same [OF that] by (simp add: GetStaking_def)
  note fr = GetPendingReward_frame [OF one(6-8)]
  have rew: "map (epoch_reward E t) is = map (epoch_reward E s) is"
    using eq by (simp add: epoch_reward_def fr)
  have first: "\<exists>r. GetPendingReward E s (GetStaking s i) = Inr r"
    using step unfolding epoch_ended_step_eq [OF Cons.prems(2) get]
    by (auto simp: bind_res_eq_Inr GetStaking_get [OF get])
  have "distinct is" using Cons.prems(3) by simp
  note IH = Cons.IH [OF rest one(1) this has]
  have later: "\<forall>j \<in> set is. \<exists>r. GetPendingReward E s (GetStaking s j) = Inr r"
    using IH eq by (simp add: fr)
  have "same_effective s s'" using same_effective_trans [OF one(2)] IH by blast
  then show ?case using IH one(3-9) first later by (simp add: rew)
qed

lemma fold_kv_del_get: "kv_get (fold kv_del ks m) k = (if k \<in> set ks then None else kv_get m k)"
  by (induction ks arbitrary: m) auto

lemma fold_kv_del_keys: "fold kv_del (kv_keys m) m = []"
proof -
  have "kv_get (fold kv_del (kv_keys m) m) k = None" for k
    by (simp add: fold_kv_del_get set_kv_keys kv_has_def)
  then have "fst ` set (fold kv_del (kv_keys m) m) = {}"
    by (metis ex_in_conv image_set kv_has_def kv_keys_def set_kv_keys)
  then show ?thesis by simp
qed

section \<open>The rewards of an epoch\<close>

text \<open>What an eligible denom receives in an epoch: \<open>RewardPerEpoch * RewardRatio\<close>, truncated.\<close>

definition denom_reward :: "'b farming \<Rightarrow> asset \<Rightarrow> int" where
  "denom_reward s a = Amount (fp_RewardPerEpoch (fm_params s)) * as_RewardRatio a div 10 ^ 18"

lemma denom_reward_nonneg:
  assumes "farming_inv E s" "a \<in> set (fp_EligibleAssets (fm_params s))"
  shows "0 \<le> denom_reward s a"
  using valid_params_assets(3,5) [OF farming_invD(3) [OF assms(1)]] assms(2)
  by (auto simp: denom_reward_def pos_imp_zdiv_nonneg_iff)

lemma GetPendingReward_eq:
  assumes dec: "dec_ok E" and inv: "farming_inv E s"
    and cur: "GetCurrentEpoch s = Some e"
    and ast: "GetAsset (fp_EligibleAssets (fm_params s)) (Denom (sk_Amount x)) = Some a"
    and T: "0 < epoch_total (ep_TotalStakings e) (Denom (sk_Amount x))"
    and eff: "0 \<le> Amount (sk_EffectiveAmount x)"
  shows "GetPendingReward E s x = Inr \<lparr>Denom = Denom (fp_RewardPerEpoch (fm_params s)),
    Amount = denom_reward s a * Amount (sk_EffectiveAmount x)
      div epoch_total (ep_TotalStakings e) (Denom (sk_Amount x))\<rparr>"
proof -
  obtain t where t: "find_total (ep_TotalStakings e) (Denom (sk_Amount x)) = Some t"
    using T by (auto simp: epoch_total_def split: option.splits)
  have a: "a \<in> set (fp_EligibleAssets (fm_params s))" using GetAsset_Some [OF ast] by simp
  note ps = valid_params_assets [OF farming_invD(3) [OF inv]]
  have tot: "truncate_int (dec_mul E (to_dec (Amount (fp_RewardPerEpoch (fm_params s)))) (as_RewardRatio a))
      = denom_reward s a"
    using ps(3) [OF a] ps(5) by (simp add: truncate_mul_bounds [OF dec] denom_reward_def)
  have nn: "0 \<le> denom_reward s a * Amount (sk_EffectiveAmount x)"
    using denom_reward_nonneg [OF inv a] eff by simp
  have T': "0 < Amount (ts_EffectiveAmount t)" using T t by (simp add: epoch_total_def)
  have "0 \<le> denom_reward s a * Amount (sk_EffectiveAmount x) div Amount (ts_EffectiveAmount t)"
    using nn T' by (simp add: pos_imp_zdiv_nonneg_iff)
  then show ?thesis
    using cur ast t T' nn ps(4)
    by (simp add: GetPendingReward_def GetEpochReward_def tot GetEpochTotalStaking_def
        epoch_total_def new_coin_def)
qed

lemma eff_of_nonneg:
  assumes "farming_inv E s"
  shows "0 \<le> eff_of d (GetStaking s j)"
proof (cases "kv_get (fm_stakings s) j")
  case None
  then show ?thesis by (simp add: GetStaking_def eff_of_def zero_staking_def zero_coin_def)
next
  case (Some x)
  then show ?thesis using farming_invD(6) [OF assms Some]
    by (simp add: GetStaking_def eff_of_def staking_ok_def)
qed

lemma queued_pos:
  assumes inv: "farming_inv E s" and q: "queue_ok s" and i: "i \<in> set (kv_keys (fm_queue s))"
  shows "\<exists>x. kv_get (fm_stakings s) i = Some x \<and> 0 < Amount (sk_EffectiveAmount x)
    \<and> 0 < queued s (Denom (sk_Amount x))"
proof -
  obtain x where x: "kv_get (fm_stakings s) i = Some x"
    using i q by (auto simp: queue_ok_def set_kv_keys kv_has_def)
  have pos: "0 < Amount (sk_EffectiveAmount x)"
    using farming_invD(6) [OF inv x] by (simp add: staking_ok_def)
  let ?f = "\<lambda>j. eff_of (Denom (sk_Amount x)) (GetStaking s j)"
  have "?f i \<le> sum_list (map ?f (kv_keys (fm_queue s)))"
    by (rule member_le_sum_list) (use i eff_of_nonneg [OF inv] in auto)
  moreover have "?f i = Amount (sk_EffectiveAmount x)" by (simp add: GetStaking_get [OF x] eff_of_def)
  ultimately show ?thesis using x pos by (auto simp: queued_def)
qed

lemma eligible_of_reward:
  "GetPendingReward E s x = Inr r \<Longrightarrow> \<exists>a. GetAsset (fp_EligibleAssets (fm_params s)) (Denom (sk_Amount x)) = Some a"
  by (auto simp: GetPendingReward_def GetEpochReward_def split: option.splits)

lemma epoch_rewards_le:
  assumes dec: "dec_ok E" and inv: "farming_inv E s" and q: "queue_ok s"
    and ok: "\<And>i. i \<in> set (kv_keys (fm_queue s)) \<Longrightarrow> \<exists>r. GetPendingReward E s (GetStaking s i) = Inr r"
  shows "sum_list (map (epoch_reward E s) (kv_keys (fm_queue s))) \<le> Amount (fp_RewardPerEpoch (fm_params s))"
proof (cases "fm_queue s = []")
  case True
  then show ?thesis using valid_params_assets(5) [OF farming_invD(3) [OF inv]] by (simp add: kv_keys_def)
next
  case False
  then obtain e where cur: "GetCurrentEpoch s = Some e"
    and tot: "\<And>d. queued s d = epoch_total (ep_TotalStakings e) d"
    using q by (auto simp: queue_ok_def)
  let ?as = "fp_EligibleAssets (fm_params s)" and ?is = "kv_keys (fm_queue s)"
  note ps = valid_params_assets [OF farming_invD(3) [OF inv]]
  define den where "den i = Denom (sk_Amount (GetStaking s i))" for i
  define T where "T d = epoch_total (ep_TotalStakings e) d" for d
  have elig: "\<exists>a. GetAsset ?as (den i) = Some a" if "i \<in> set ?is" for i
    using ok [OF that] eligible_of_reward unfolding den_def by blast
  have rew: "epoch_reward E s i = denom_reward s a * eff_of (as_Denom a) (GetStaking s i) div T (as_Denom a)"
    if i: "i \<in> set ?is" and a: "a \<in> set ?as" and d: "den i = as_Denom a" for i a
  proof -
    obtain x where x: "kv_get (fm_stakings s) i = Some x" "0 < Amount (sk_EffectiveAmount x)"
      "0 < queued s (Denom (sk_Amount x))" using queued_pos [OF inv q i] by blast
    have "GetAsset ?as (Denom (sk_Amount x)) = Some a"
      using elig [OF i] GetAsset_Some d a ps(1) unfolding den_def GetStaking_get [OF x(1)]
      by (metis distinct_map inj_onD)
    from GetPendingReward_eq [OF dec inv cur this] x d tot show ?thesis
      unfolding den_def GetStaking_get [OF x(1)]
      by (simp add: epoch_reward_def GetStaking_get eff_of_def T_def)
  qed
  have mem: "den i \<in> set (map as_Denom ?as)" if "i \<in> set ?is" for i
    using elig [OF that] GetAsset_None [of ?as "den i"] by auto
  have group: "sum_list (map (epoch_reward E s) ?is) =
      sum_list (map (\<lambda>d. sum_list (map (\<lambda>i. if den i = d then epoch_reward E s i else 0) ?is)) (map as_Denom ?as))"
    by (rule sum_list_group [OF ps(1) mem])
  have per: "sum_list (map (\<lambda>i. if den i = as_Denom a then epoch_reward E s i else 0) ?is) \<le> denom_reward s a"
    if a: "a \<in> set ?as" for a
  proof -
    have eq: "map (\<lambda>i. if den i = as_Denom a then epoch_reward E s i else 0) ?is =
        map (\<lambda>i. denom_reward s a * eff_of (as_Denom a) (GetStaking s i) div T (as_Denom a)) ?is"
      using rew [OF _ a] by (auto simp: eff_of_def den_def)
    have "0 \<le> T (as_Denom a)"
      unfolding T_def tot [symmetric] queued_def
      by (rule sum_list_nonneg) (use eff_of_nonneg [OF inv] in auto)
    moreover have "sum_list (map (\<lambda>i. eff_of (as_Denom a) (GetStaking s i)) ?is) \<le> T (as_Denom a)"
      unfolding T_def tot [symmetric] queued_def by simp
    ultimately show ?thesis
      unfolding eq using sum_div_le denom_reward_nonneg [OF inv a] by blast
  qed
  have "sum_list (map (epoch_reward E s) ?is) \<le> sum_list (map (denom_reward s) ?as)"
    unfolding group map_map comp_def by (rule sum_list_mono) (rule per)
  also have "\<dots> \<le> Amount (fp_RewardPerEpoch (fm_params s))"
    unfolding denom_reward_def by (rule sum_div_le) (use ps(2,5) in \<open>simp_all add: dec_one_def\<close>)
  finally show ?thesis .
qed

text \<open>
  The epoch ends without a panic exactly when every queued staking is of an asset that is still
  eligible.
\<close>

definition queue_eligible :: "'b farming \<Rightarrow> bool" where
  "queue_eligible s \<longleftrightarrow> (\<forall>i \<in> set (kv_keys (fm_queue s)). IsEligibleAsset s (Denom (sk_Amount (GetStaking s i))))"

lemma IsEligibleAsset_iff:
  "IsEligibleAsset s d \<longleftrightarrow> (\<exists>a. GetAsset (fp_EligibleAssets (fm_params s)) d = Some a)"
  unfolding IsEligibleAsset_def using GetAsset_None [of "fp_EligibleAssets (fm_params s)" d]
  by (cases "GetAsset (fp_EligibleAssets (fm_params s)) d") (auto dest: GetAsset_Some)

lemma queued_reward:
  assumes "dec_ok E" and inv: "farming_inv E s" and q: "queue_ok s"
    and i: "i \<in> set (kv_keys (fm_queue s))" and el: "IsEligibleAsset s (Denom (sk_Amount (GetStaking s i)))"
  shows "\<exists>r. GetPendingReward E s (GetStaking s i) = Inr r"
proof -
  obtain x where x: "kv_get (fm_stakings s) i = Some x" "0 < Amount (sk_EffectiveAmount x)"
    "0 < queued s (Denom (sk_Amount x))" using queued_pos [OF inv q i] by blast
  have "fm_queue s \<noteq> []" using i by (auto simp: kv_keys_def)
  then obtain e where cur: "GetCurrentEpoch s = Some e"
    and tot: "\<And>d. queued s d = epoch_total (ep_TotalStakings e) d" using q by (auto simp: queue_ok_def)
  obtain a where "GetAsset (fp_EligibleAssets (fm_params s)) (Denom (sk_Amount x)) = Some a"
    using el unfolding IsEligibleAsset_iff GetStaking_get [OF x(1)] by blast
  from GetPendingReward_eq [OF assms(1) inv cur this] x tot show ?thesis by (simp add: GetStaking_get)
qed

lemma epoch_loop_succeeds:
  assumes "farming_inv E s" "distinct is"
    and "\<And>i. i \<in> set is \<Longrightarrow> kv_has (fm_stakings s) i"
    and "\<And>i. i \<in> set is \<Longrightarrow> \<exists>r. GetPendingReward E s (GetStaking s i) = Inr r"
  shows "\<exists>s'. fold_res (epoch_ended_step E) is s = Inr s'"
  using assms
proof (induction "is" arbitrary: s)
  case Nil
  then show ?case by simp
next
  case (Cons i "is")
  obtain x where get: "kv_get (fm_stakings s) i = Some x"
    using Cons.prems(3) by (force simp: kv_has_def)
  obtain t where step: "epoch_ended_step E i s = Inr t"
    using Cons.prems(4) [of i] unfolding epoch_ended_step_eq [OF Cons.prems(1) get]
    by (auto simp: GetStaking_get [OF get])
  note one = epoch_ended_step_inv [OF Cons.prems(1) get step]
  have same: "kv_get (fm_stakings t) j = kv_get (fm_stakings s) j" if "j \<in> set is" for j
    by (rule one(10)) (use Cons.prems(2) that in auto)
  have "\<exists>s'. fold_res (epoch_ended_step E) is t = Inr s'"
    by (rule Cons.IH [OF one(1)])
      (use Cons.prems(2-4) same in \<open>auto simp: kv_has_def GetStaking_def GetPendingReward_frame [OF one(6-8)]\<close>)
  then show ?case using step by simp
qed

lemma OnEpochEnded_succeeds:
  assumes "dec_ok E" "farming_inv E s" "queue_ok s"
  shows "(\<exists>s'. OnEpochEnded E s = Inr s') \<longleftrightarrow> queue_eligible s"
proof
  have has: "kv_has (fm_stakings s) i" if "i \<in> set (kv_keys (fm_queue s))" for i
    using that assms(3) by (simp add: queue_ok_def set_kv_keys)
  have dist: "distinct (kv_keys (fm_queue s))" using assms(3) by (simp add: queue_ok_def kv_ok_distinct)
  { assume "\<exists>s'. OnEpochEnded E s = Inr s'"
    then obtain s' where "fold_res (epoch_ended_step E) (kv_keys (fm_queue s)) s = Inr s'"
      unfolding OnEpochEnded_def by blast
    from epoch_loop [OF this assms(2) dist has] show "queue_eligible s"
      unfolding queue_eligible_def IsEligibleAsset_iff using eligible_of_reward by blast }
  { assume "queue_eligible s"
    then show "\<exists>s'. OnEpochEnded E s = Inr s'" unfolding OnEpochEnded_def queue_eligible_def
      using epoch_loop_succeeds [OF assms(2) dist has] queued_reward [OF assms] by blast }
qed

lemma OnEpochEnded_Inr:
  assumes "OnEpochEnded E s = Inr s'" "farming_inv E s" "queue_ok s"
  shows "farming_inv E s'" "queue_ok s'" "fm_queue s' = []" "same_effective s s'"
    and "pending_sum s' = pending_sum s + sum_list (map (epoch_reward E s) (kv_keys (fm_queue s)))"
    and "fm_params s' = fm_params s" "fm_bank s' = fm_bank s"
    and "kv_sum (staked d) (fm_stakings s') = kv_sum (staked d) (fm_stakings s)"
    and "GetCurrentEpoch s' = GetCurrentEpoch s" "GetEpochId s' = GetEpochId s"
    and "i \<in> set (kv_keys (fm_queue s)) \<Longrightarrow> \<exists>r. GetPendingReward E s (GetStaking s i) = Inr r"
proof -
  have has: "kv_has (fm_stakings s) i" if "i \<in> set (kv_keys (fm_queue s))" for i
    using that assms(3) by (simp add: queue_ok_def set_kv_keys)
  have dist: "distinct (kv_keys (fm_queue s))" using assms(3) by (simp add: queue_ok_def kv_ok_distinct)
  note loop = epoch_loop [OF assms(1) [unfolded OnEpochEnded_def] assms(2) dist has]
  show q: "fm_queue s' = []" using loop by (simp add: fold_kv_del_keys)
  show "farming_inv E s'" "same_effective s s'"
    "pending_sum s' = pending_sum s + sum_list (map (epoch_reward E s) (kv_keys (fm_queue s)))"
    "fm_params s' = fm_params s" "fm_bank s' = fm_bank s"
    "kv_sum (staked d) (fm_stakings s') = kv_sum (staked d) (fm_stakings s)"
    "i \<in> set (kv_keys (fm_queue s)) \<Longrightarrow> \<exists>r. GetPendingReward E s (GetStaking s i) = Inr r"
    using loop by blast+
  show cur: "GetCurrentEpoch s' = GetCurrentEpoch s" and id: "GetEpochId s' = GetEpochId s"
    using loop GetCurrentEpoch_frame by blast+
  show "queue_ok s'" using assms(3) by (simp add: queue_ok_def q cur id)
qed

section \<open>The start of an epoch\<close>

lemma AddToQueue_simps [simp]:
  "fm_stakings (AddToCurrentEpochStakingQueue x s) = fm_stakings s"
  "fm_by_status (AddToCurrentEpochStakingQueue x s) = fm_by_status s"
  "fm_by_address (AddToCurrentEpochStakingQueue x s) = fm_by_address s"
  "fm_totals (AddToCurrentEpochStakingQueue x s) = fm_totals s"
  "fm_staking_id (AddToCurrentEpochStakingQueue x s) = fm_staking_id s"
  "fm_params (AddToCurrentEpochStakingQueue x s) = fm_params s"
  "fm_bank (AddToCurrentEpochStakingQueue x s) = fm_bank s"
  "fm_epochs (AddToCurrentEpochStakingQueue x s) = fm_epochs s"
  "fm_epoch_id (AddToCurrentEpochStakingQueue x s) = fm_epoch_id s"
  "fm_queue (AddToCurrentEpochStakingQueue x s) = kv_set (sk_Id x) () (fm_queue s)"
  by (simp_all add: AddToCurrentEpochStakingQueue_def)

definition epoch_frame :: "'b farming \<Rightarrow> 'b farming \<Rightarrow> bool" where
  "epoch_frame s s' \<longleftrightarrow> fm_stakings s' = fm_stakings s \<and> fm_by_status s' = fm_by_status s
     \<and> fm_by_address s' = fm_by_address s \<and> fm_totals s' = fm_totals s \<and> fm_staking_id s' = fm_staking_id s
     \<and> fm_params s' = fm_params s \<and> fm_bank s' = fm_bank s"

text \<open>
  The totals of the epoch follow the queue. A sum over the keys of a store changes by one
  summand when a new key is added.
\<close>

lemma sum_keys_set:
  fixes f :: "'k :: linorder \<Rightarrow> int"
  shows "\<not> kv_has m k \<Longrightarrow> sum_list (map f (kv_keys (kv_set k v m))) = sum_list (map f (kv_keys m)) + f k"
  by (induction m) (auto simp: kv_keys_def kv_has_def kv_get_def)

definition started :: "'b farming \<Rightarrow> epoch \<Rightarrow> staking list \<Rightarrow> 'b farming \<Rightarrow> epoch \<Rightarrow> bool" where
  "started s e xs s' e' \<longleftrightarrow>
     epoch_frame s s' \<and> fm_epoch_id s' = fm_epoch_id s \<and> fm_epochs s' = fm_epochs s
   \<and> kv_ok (fm_queue s') \<and> (\<forall>d. queued s' d = epoch_total (ep_TotalStakings e') d)
   \<and> (\<forall>i. kv_has (fm_queue s') i \<longrightarrow> kv_has (fm_stakings s') i)
   \<and> (\<forall>i. kv_has (fm_queue s') i \<longleftrightarrow> kv_has (fm_queue s) i
        \<or> (\<exists>x \<in> set xs. sk_Id x = i \<and> ep_EndTime e \<le> lock_end x))
   \<and> ep_Id e' = ep_Id e \<and> ep_Status e' = ep_Status e \<and> ep_EndTime e' = ep_EndTime e"

lemma start_loop:
  assumes "distinct (map sk_Id xs)" "epoch_totals_ok (ep_TotalStakings e)" "kv_ok (fm_queue s)"
    and "\<And>x. x \<in> set xs \<Longrightarrow> kv_get (fm_stakings s) (sk_Id x) = Some x \<and> \<not> kv_has (fm_queue s) (sk_Id x)
      \<and> Denom (sk_EffectiveAmount x) = Denom (sk_Amount x)"
    and "\<And>d. queued s d = epoch_total (ep_TotalStakings e) d"
    and "\<And>i. kv_has (fm_queue s) i \<Longrightarrow> kv_has (fm_stakings s) i"
  shows "\<exists>s' e'. fold_res epoch_started_step xs (s, e) = Inr (s', e') \<and> started s e xs s' e'"
  using assms
proof (induction xs arbitrary: s e)
  case Nil
  then show ?case by (simp add: started_def epoch_frame_def)
next
  case (Cons x xs)
  show ?case
  proof (cases "lock_end x < ep_EndTime e")
    case True
    have step: "epoch_started_step x (s, e) = Inr (s, e)" using True by (simp add: epoch_started_step_def)
    have "\<exists>s' e'. fold_res epoch_started_step xs (s, e) = Inr (s', e') \<and> started s e xs s' e'"
      by (rule Cons.IH) (use Cons.prems in auto)
    moreover have "started s e (x # xs) s' e'" if "started s e xs s' e'" for s' e'
      using that True unfolding started_def by simp
    ultimately show ?thesis by (auto simp: step)
  next
    case False
    have x: "kv_get (fm_stakings s) (sk_Id x) = Some x" "\<not> kv_has (fm_queue s) (sk_Id x)"
      "Denom (sk_EffectiveAmount x) = Denom (sk_Amount x)" using Cons.prems(4) by auto
    obtain ts where ts: "add_to_totals (ep_TotalStakings e) x = Inr ts" "epoch_totals_ok ts"
      "\<And>d. epoch_total ts d = epoch_total (ep_TotalStakings e) d + eff_of d x"
      using add_to_totals_Inr [OF Cons.prems(2) x(3)] by blast
    define t where "t = AddToCurrentEpochStakingQueue x s"
    define e1 where "e1 = e\<lparr>ep_TotalStakings := ts\<rparr>"
    have step: "epoch_started_step x (s, e) = Inr (t, e1)"
      using False ts(1) by (simp add: epoch_started_step_def UpdateEpochTotalStakings_def t_def e1_def)
    have "GetStaking t = GetStaking s" by (simp add: t_def GetStaking_def fun_eq_iff)
    then have qd: "queued t d = epoch_total (ep_TotalStakings e1) d" for d
      using sum_keys_set [OF x(2)] Cons.prems(5) [of d] ts(3) [of d]
      by (simp add: queued_def e1_def t_def GetStaking_get [OF x(1)])
    have "\<exists>s' e'. fold_res epoch_started_step xs (t, e1) = Inr (s', e') \<and> started t e1 xs s' e'"
    proof (rule Cons.IH)
      show "kv_get (fm_stakings t) (sk_Id y) = Some y \<and> \<not> kv_has (fm_queue t) (sk_Id y)
        \<and> Denom (sk_EffectiveAmount y) = Denom (sk_Amount y)" if "y \<in> set xs" for y
        using Cons.prems(1) Cons.prems(4) [of y] that by (auto simp: t_def image_iff)
      show "kv_has (fm_stakings t) i" if "kv_has (fm_queue t) i" for i
        using Cons.prems(6) [of i] that x(1) by (cases "i = sk_Id x") (auto simp: t_def kv_has_def)
      show "queued t d = epoch_total (ep_TotalStakings e1) d" for d by (rule qd)
    qed (use Cons.prems(1,3) ts in \<open>simp_all add: t_def e1_def\<close>)
    moreover have "started s e (x # xs) s' e'" if st: "started t e1 xs s' e'" for s' e'
    proof -
      have "kv_has (fm_queue s') i \<longleftrightarrow> i = sk_Id x \<or> kv_has (fm_queue s) i
          \<or> (\<exists>x \<in> set xs. sk_Id x = i \<and> ep_EndTime e \<le> lock_end x)" for i
        using st by (simp add: started_def t_def e1_def)
      then have "kv_has (fm_queue s') i \<longleftrightarrow> kv_has (fm_queue s) i
          \<or> (\<exists>x \<in> set (x # xs). sk_Id x = i \<and> ep_EndTime e \<le> lock_end x)" for i
        using False by auto
      moreover have "epoch_frame s s'" "fm_epoch_id s' = fm_epoch_id s" "fm_epochs s' = fm_epochs s"
        "ep_Id e' = ep_Id e" "ep_Status e' = ep_Status e" "ep_EndTime e' = ep_EndTime e"
        using st by (simp_all add: started_def epoch_frame_def t_def e1_def)
      moreover have "kv_ok (fm_queue s')" "\<forall>d. queued s' d = epoch_total (ep_TotalStakings e') d"
        "\<forall>i. kv_has (fm_queue s') i \<longrightarrow> kv_has (fm_stakings s') i"
        using st unfolding started_def by blast+
      ultimately show ?thesis unfolding started_def by blast
    qed
    ultimately show ?thesis by (auto simp: step)
  qed
qed

lemma started_queue_ok:
  assumes st: "started s e xs s' e'" and id: "ep_Id e = GetEpochId s" and nz: "GetEpochId s \<noteq> 0"
    and up: "ep_Status e = EP_STARTED"
  shows "queue_ok (SetEpoch e' s')" "epoch_frame s (SetEpoch e' s')"
    and "GetCurrentEpoch (SetEpoch e' s') = Some e'"
proof -
  have id': "GetEpochId (SetEpoch e' s') = GetEpochId s" "ep_Id e' = GetEpochId s"
    using st id by (simp_all add: started_def GetEpochId_def SetEpoch_def)
  then show cur: "GetCurrentEpoch (SetEpoch e' s') = Some e'"
    using nz by (simp add: GetCurrentEpoch_def GetEpoch_def) (simp add: SetEpoch_def)
  have "queued (SetEpoch e' s') d = queued s' d" for d
    by (simp add: queued_def SetEpoch_def GetStaking_def)
  then show "queue_ok (SetEpoch e' s')"
    using st up id' unfolding queue_ok_def cur by (simp add: started_def SetEpoch_def)
  show "epoch_frame s (SetEpoch e' s')" using st by (simp add: started_def epoch_frame_def SetEpoch_def)
qed

lemma OnEpochStarted_Inr:
  assumes inv: "farming_inv E s" and q: "fm_queue s = []" and cur: "GetCurrentEpoch s = Some e"
    and e: "ep_Id e = GetEpochId s" "ep_TotalStakings e = []" "ep_Status e = EP_STARTED"
  shows "\<exists>s' e'. OnEpochStarted s = Inr s' \<and> epoch_frame s s' \<and> queue_ok s'
    \<and> GetCurrentEpoch s' = Some e' \<and> ep_EndTime e' = ep_EndTime e \<and> ep_Status e' = EP_STARTED
    \<and> (\<forall>i. kv_has (fm_queue s') i \<longleftrightarrow> (\<exists>x \<in> set (GetStakingsByStatus s ST_STAKED).
          sk_Id x = i \<and> ep_EndTime e \<le> lock_end x))"
proof -
  let ?xs = "GetStakingsByStatus s ST_STAKED"
  have "\<exists>s' e'. fold_res epoch_started_step ?xs (s, e) = Inr (s', e') \<and> started s e ?xs s' e'"
  proof (rule start_loop [OF distinct_GetStakingsByStatus [OF inv]])
    show "kv_get (fm_stakings s) (sk_Id x) = Some x \<and> \<not> kv_has (fm_queue s) (sk_Id x)
      \<and> Denom (sk_EffectiveAmount x) = Denom (sk_Amount x)" if "x \<in> set ?xs" for x
    proof -
      have get: "kv_get (fm_stakings s) (sk_Id x) = Some x" using GetStakingsByStatus_get [OF inv that] by simp
      show ?thesis using farming_invD(6) [OF inv get] by (simp add: get q staking_ok_def)
    qed
  qed (simp_all add: q e epoch_totals_ok_def epoch_total_def queued_def kv_keys_def)
  then obtain s' e' where run: "fold_res epoch_started_step ?xs (s, e) = Inr (s', e')"
    and st: "started s e ?xs s' e'" by blast
  have nz: "GetEpochId s \<noteq> 0" using cur by (auto simp: GetCurrentEpoch_def Let_def split: if_splits)
  note ok = started_queue_ok [OF st e(1) nz e(3)]
  have "OnEpochStarted s = Inr (SetEpoch e' s')" by (simp add: OnEpochStarted_def cur run)
  moreover have "fm_queue (SetEpoch e' s') = fm_queue s'" by (simp add: SetEpoch_def)
  ultimately show ?thesis using ok st e(3) unfolding started_def by (simp add: q)
qed

text \<open>
  A new epoch starts without error on an empty queue, and takes exactly the staked stakings
  whose lock lasts to its end.
\<close>

lemma NewEpoch_Inr:
  assumes inv: "farming_inv E s" and q: "fm_queue s = []" and wrap: "GetEpochId s \<noteq> - 1"
  shows "\<exists>s' e. NewEpoch now s = Inr s' \<and> epoch_frame s s' \<and> queue_ok s'
    \<and> GetCurrentEpoch s' = Some e \<and> ep_EndTime e = now + fp_EpochDuration (fm_params s)
    \<and> ep_Status e = EP_STARTED
    \<and> (\<forall>i. kv_has (fm_queue s') i \<longleftrightarrow> (\<exists>x \<in> set (GetStakingsByStatus s ST_STAKED).
          sk_Id x = i \<and> now + fp_EpochDuration (fm_params s) \<le> lock_end x))"
proof -
  define e where "e = \<lparr>ep_Id = GetEpochId s + 1, ep_StartTime = now,
      ep_EndTime = now + fp_EpochDuration (fm_params s), ep_TotalStakings = [], ep_Status = EP_STARTED\<rparr>"
  define t where "t = SetEpoch e (s\<lparr>fm_epoch_id := Some (GetEpochId s + 1)\<rparr>)"
  have run: "NewEpoch now s = OnEpochStarted t"
    by (simp add: NewEpoch_def IncrementEpochId_def Let_def t_def e_def)
  have nz: "GetEpochId s + 1 \<noteq> 0" using wrap by (metis add_eq_0_iff2)
  have cur: "GetCurrentEpoch t = Some e" and id: "ep_Id e = GetEpochId t"
    using nz by (simp_all add: GetCurrentEpoch_def GetEpochId_def GetEpoch_def t_def SetEpoch_def e_def)
  have fr: "epoch_frame s t" by (simp add: epoch_frame_def t_def SetEpoch_def)
  have inv_t: "farming_inv E t" by (rule farming_inv_frame [OF inv]) (use fr in \<open>simp_all add: epoch_frame_def\<close>)
  have "fm_queue t = []" using q by (simp add: t_def SetEpoch_def)
  then obtain s' e' where "OnEpochStarted t = Inr s'" "epoch_frame t s'" "queue_ok s'"
    "GetCurrentEpoch s' = Some e'" "ep_EndTime e' = ep_EndTime e" "ep_Status e' = EP_STARTED"
    "\<forall>i. kv_has (fm_queue s') i \<longleftrightarrow> (\<exists>x \<in> set (GetStakingsByStatus t ST_STAKED).
          sk_Id x = i \<and> ep_EndTime e \<le> lock_end x)"
    using OnEpochStarted_Inr [OF inv_t _ cur id] unfolding e_def by auto
  moreover have "GetStakingsByStatus t ST_STAKED = GetStakingsByStatus s ST_STAKED"
    unfolding GetStakingsByStatus_def GetStaking_def using fr by (simp add: epoch_frame_def)
  ultimately show ?thesis using fr by (simp add: run epoch_frame_def e_def)
qed

end
