(* ===== verification/Farming_Reach.thy ===== *)
theory Farming_Reach
  imports Farming_Epoch
begin

text \<open>
  The end blocker of the farming module, the step relation of the whole module, and the
  invariants of its reachable states.
\<close>

section \<open>End of block\<close>

lemma mature_step_frame:
  "fm_params (mature_step now x s) = fm_params s" "fm_queue (mature_step now x s) = fm_queue s"
  "fm_epochs (mature_step now x s) = fm_epochs s" "fm_epoch_id (mature_step now x s) = fm_epoch_id s"
  by (simp_all add: mature_step_def)

lemma mature_fold_frame:
  "fm_params (fold (mature_step now) xs s) = fm_params s"
  "fm_queue (fold (mature_step now) xs s) = fm_queue s"
  "fm_epochs (fold (mature_step now) xs s) = fm_epochs s"
  "fm_epoch_id (fold (mature_step now) xs s) = fm_epoch_id s"
  by (induction xs arbitrary: s) (simp_all add: mature_step_frame)

text \<open>
  After the maturing pass a staking is as before, except that it is unlocked when it was staked
  and its lock has ended.
\<close>

lemma handleMatureStakings_get:
  assumes inv: "farming_inv E s"
  shows "kv_get (fm_stakings (handleMatureStakings now s)) i =
    map_option (\<lambda>x. if sk_Status x = ST_STAKED \<and> lock_end x \<le> now then x\<lparr>sk_Status := ST_UNLOCKED\<rparr> else x)
      (kv_get (fm_stakings s) i)"
proof -
  let ?xs = "GetStakingsByStatus s ST_STAKED"
  let ?P = "\<lambda>x. sk_Id x = i \<and> lock_end x \<le> now"
  note eq = mature_get [OF distinct_GetStakingsByStatus [OF inv, of ST_STAKED], of now s i]
  have listed: "x \<in> set ?xs" if "kv_get (fm_stakings s) i = Some x" "sk_Status x = ST_STAKED" for x
  proof -
    have "i \<in> set (ids_with ST_STAKED (fm_by_status s))"
      using sk.ids_with_iff [OF farming_invD(1) [OF inv]] that by blast
    then show ?thesis using GetStaking_get [OF that(1)] by (force simp: GetStakingsByStatus_def)
  qed
  show ?thesis
  proof (cases "find ?P ?xs")
    case None
    then have "\<not> (sk_Status x = ST_STAKED \<and> lock_end x \<le> now)" if "kv_get (fm_stakings s) i = Some x" for x
      using listed [OF that] farming_invD(4) [OF inv that] by (auto simp: find_None_iff)
    then show ?thesis using eq None
      by (cases "kv_get (fm_stakings s) i") (simp_all add: handleMatureStakings_def)
  next
    case (Some x)
    then have x: "x \<in> set ?xs" "sk_Id x = i" "lock_end x \<le> now" by (auto simp: find_Some_iff in_set_conv_nth)
    then have "kv_get (fm_stakings s) i = Some x" "sk_Status x = ST_STAKED"
      using GetStakingsByStatus_get [OF inv x(1)] by auto
    then show ?thesis using eq Some x(3) by (simp add: handleMatureStakings_def)
  qed
qed

lemma handleMatureStakings_inv:
  assumes inv: "farming_inv E s"
  shows "farming_inv E (handleMatureStakings now s)"
    and "fm_bank (handleMatureStakings now s) = fm_bank s"
    and "kv_sum (staked d) (fm_stakings (handleMatureStakings now s)) = kv_sum (staked d) (fm_stakings s)"
    and "same_effective s (handleMatureStakings now s)"
    and "fm_params (handleMatureStakings now s) = fm_params s"
    and "fm_queue (handleMatureStakings now s) = fm_queue s"
    and "fm_epochs (handleMatureStakings now s) = fm_epochs s"
    and "fm_epoch_id (handleMatureStakings now s) = fm_epoch_id s"
proof -
  note loop = mature_loop [OF inv distinct_GetStakingsByStatus [OF inv] GetStakingsByStatus_get [OF inv]]
  show "farming_inv E (handleMatureStakings now s)" "fm_bank (handleMatureStakings now s) = fm_bank s"
    "kv_sum (staked d) (fm_stakings (handleMatureStakings now s)) = kv_sum (staked d) (fm_stakings s)"
    unfolding handleMatureStakings_def using loop by blast+
  show "same_effective s (handleMatureStakings now s)"
    by (auto simp: same_effective_def handleMatureStakings_get [OF inv])
qed (simp_all add: handleMatureStakings_def mature_fold_frame)

lemma handleMatureStakings_queue_ok:
  "farming_inv E s \<Longrightarrow> queue_ok s \<Longrightarrow> queue_ok (handleMatureStakings now s)"
  using queue_ok_frame handleMatureStakings_inv(4,6,7,8) by metis

definition farming_ok :: "'b env \<Rightarrow> 'b farming \<Rightarrow> bool" where
  "farming_ok E s \<longleftrightarrow> farming_inv E s \<and> queue_ok s"

text \<open>What a block handler leaves alone: the bank, the parameters and the amounts staked.\<close>

definition stake_frame :: "'b farming \<Rightarrow> 'b farming \<Rightarrow> bool" where
  "stake_frame s s' \<longleftrightarrow> fm_bank s' = fm_bank s \<and> fm_params s' = fm_params s
     \<and> (\<forall>d. kv_sum (staked d) (fm_stakings s') = kv_sum (staked d) (fm_stakings s))"

lemma NewEpoch_ok:
  assumes "farming_inv E s" "fm_queue s = []" "GetEpochId s \<noteq> - 1"
  shows "\<exists>s'. NewEpoch now s = Inr s' \<and> farming_ok E s' \<and> stake_frame s s'"
proof -
  obtain s' where "NewEpoch now s = Inr s'" "epoch_frame s s'" "queue_ok s'"
    using NewEpoch_Inr [OF assms] by blast
  moreover from this(2) have "farming_inv E s'"
    by (auto intro: farming_inv_frame [OF assms(1)] simp: epoch_frame_def)
  ultimately show ?thesis by (auto simp: farming_ok_def stake_frame_def epoch_frame_def)
qed

lemma SetEpoch_ended_ok:
  assumes "farming_ok E s" "fm_queue s = []" "GetCurrentEpoch s = Some e"
  shows "farming_ok E (SetEpoch (e\<lparr>ep_Status := EP_ENDED\<rparr>) s)"
proof -
  have id: "ep_Id e = GetEpochId s" using assms by (simp add: farming_ok_def queue_ok_def)
  have nz: "GetEpochId s \<noteq> 0" using assms(3) by (auto simp: GetCurrentEpoch_def Let_def split: if_splits)
  let ?t = "SetEpoch (e\<lparr>ep_Status := EP_ENDED\<rparr>) s"
  have ide: "GetEpochId ?t = GetEpochId s" by (simp add: GetEpochId_def SetEpoch_def)
  have "GetCurrentEpoch ?t = Some (e\<lparr>ep_Status := EP_ENDED\<rparr>)"
    using nz id unfolding GetCurrentEpoch_def ide by (simp add: GetEpoch_def SetEpoch_def)
  moreover have "farming_inv E ?t"
    by (rule farming_inv_frame [of E s]) (use assms(1) in \<open>simp_all add: farming_ok_def SetEpoch_def\<close>)
  ultimately show ?thesis
    using assms(1,2) id by (simp add: farming_ok_def queue_ok_def ide) (simp add: SetEpoch_def)
qed

lemma queue_empty_unless_started:
  "queue_ok s \<Longrightarrow> (\<And>e. GetCurrentEpoch s = Some e \<Longrightarrow> ep_Status e \<noteq> EP_STARTED) \<Longrightarrow> fm_queue s = []"
  by (auto simp: queue_ok_def)

text \<open>
  The epoch handler keeps the invariants, and the only thing that can stop it is a queued staking
  of an asset that is no longer eligible, met when the epoch ends.
\<close>

definition epoch_due :: "int \<Rightarrow> 'b farming \<Rightarrow> bool" where
  "epoch_due now s \<longleftrightarrow> (\<exists>e. GetCurrentEpoch s = Some e \<and> ep_Status e \<noteq> EP_ENDED \<and> ep_EndTime e \<le> now)"

lemma handleEpoch_started:
  assumes ok: "farming_ok E s" and wrap: "GetEpochId s \<noteq> - 1" and "\<not> epoch_due now s"
  shows "\<exists>s'. handleEpoch E now s = Inr s' \<and> farming_ok E s' \<and> stake_frame s s'"
proof -
  have inv: "farming_inv E s" and q: "queue_ok s" using ok by (simp_all add: farming_ok_def)
  have same: "farming_ok E s \<and> stake_frame s s" using ok by (simp add: stake_frame_def)
  show ?thesis
  proof (cases "GetCurrentEpoch s")
    case None
    then have "fm_queue s = []" using queue_empty_unless_started [OF q] by simp
    then show ?thesis using NewEpoch_ok [OF inv _ wrap] same None by (auto simp: handleEpoch_def)
  next
    case (Some e)
    show ?thesis
    proof (cases "ep_Status e = EP_ENDED")
      case True
      then have "fm_queue s = []" using queue_empty_unless_started [OF q] Some by simp
      then show ?thesis using NewEpoch_ok [OF inv _ wrap] same Some True by (auto simp: handleEpoch_def)
    next
      case False
      then have "now < ep_EndTime e" using assms(3) Some by (auto simp: epoch_due_def)
      then show ?thesis using same Some False by (auto simp: handleEpoch_def)
    qed
  qed
qed

lemma handleEpoch_due:
  assumes ok: "farming_ok E s" and wrap: "GetEpochId s \<noteq> - 1" and due: "epoch_due now s"
    and run: "OnEpochEnded E s = Inr t"
  shows "\<exists>s'. handleEpoch E now s = Inr s' \<and> farming_ok E s' \<and> stake_frame s s'"
proof -
  have inv: "farming_inv E s" and q: "queue_ok s" using ok by (simp_all add: farming_ok_def)
  obtain e where e: "GetCurrentEpoch s = Some e" "ep_Status e \<noteq> EP_ENDED" "ep_EndTime e \<le> now"
    using due by (auto simp: epoch_due_def)
  note t = OnEpochEnded_Inr [OF run inv q]
  define u where "u = SetEpoch (e\<lparr>ep_Status := EP_ENDED\<rparr>) t"
  have uok: "farming_ok E u"
    unfolding u_def by (rule SetEpoch_ended_ok) (use t e in \<open>simp_all add: farming_ok_def\<close>)
  have fr: "stake_frame s u" using t(6-8) by (simp add: stake_frame_def u_def SetEpoch_def)
  have "GetEpochId u = GetEpochId s" using t(10) by (simp add: u_def SetEpoch_def GetEpochId_def)
  moreover have "fm_queue u = []" using t(3) by (simp add: u_def SetEpoch_def)
  ultimately obtain s' where s': "NewEpoch (ep_EndTime e) u = Inr s'" "farming_ok E s'" "stake_frame u s'"
    using NewEpoch_ok [of E u] uok wrap by (auto simp: farming_ok_def)
  have eq: "handleEpoch E now s = (if fp_Enabled (fm_params u) then NewEpoch (ep_EndTime e) u else Inr u)"
    using e run by (simp add: handleEpoch_def u_def)
  have "stake_frame s s'" using fr s'(3) by (simp add: stake_frame_def)
  then show ?thesis unfolding eq using s' uok fr by auto
qed

lemma EndBlocker_eq:
  assumes "farming_ok E s"
  shows "farming_ok E (handleMatureStakings now s)"
    and "GetEpochId (handleMatureStakings now s) = GetEpochId s"
    and "epoch_due now (handleMatureStakings now s) = epoch_due now s"
    and "stake_frame s (handleMatureStakings now s)"
    and "queue_eligible (handleMatureStakings now s) = queue_eligible s"
proof -
  have inv: "farming_inv E s" and q: "queue_ok s" using assms by (simp_all add: farming_ok_def)
  note m = handleMatureStakings_inv [OF inv, where now = now]
  show "farming_ok E (handleMatureStakings now s)"
    using m(1) handleMatureStakings_queue_ok [OF inv q] by (simp add: farming_ok_def)
  show "stake_frame s (handleMatureStakings now s)" using m(2,3,5) by (simp add: stake_frame_def)
  note cur = GetCurrentEpoch_frame [OF m(8,7)]
  show "GetEpochId (handleMatureStakings now s) = GetEpochId s"
    "epoch_due now (handleMatureStakings now s) = epoch_due now s" by (simp_all add: cur epoch_due_def)
  have "Denom (sk_Amount (GetStaking (handleMatureStakings now s) i)) = Denom (sk_Amount (GetStaking s i))" for i
    by (simp add: GetStaking_def handleMatureStakings_get [OF inv] split: option.splits)
  then show "queue_eligible (handleMatureStakings now s) = queue_eligible s"
    by (simp add: queue_eligible_def m(5,6) IsEligibleAsset_def)
qed

lemma EndBlocker_Inr:
  assumes ok: "farming_ok E s" and wrap: "GetEpochId s \<noteq> - 1" and run: "farming_EndBlocker E now s = Inr s'"
  shows "farming_ok E s'" "stake_frame s s'"
proof -
  note m = EndBlocker_eq [OF ok, of now]
  let ?t = "handleMatureStakings now s"
  have "farming_ok E s' \<and> stake_frame ?t s'"
  proof (cases "epoch_due now ?t")
    case True
    then obtain u where "OnEpochEnded E ?t = Inr u"
      using run by (auto simp: farming_EndBlocker_def handleEpoch_def epoch_due_def bind_res_eq_Inr)
    then show ?thesis
      using handleEpoch_due [OF m(1) _ True] run wrap m(2) by (auto simp: farming_EndBlocker_def)
  next
    case False
    then show ?thesis
      using handleEpoch_started [OF m(1) _ False] run wrap m(2) by (auto simp: farming_EndBlocker_def)
  qed
  then show "farming_ok E s'" "stake_frame s s'" using m(4) by (simp_all add: stake_frame_def)
qed

section \<open>Effects of the messages\<close>

lemma Stake_effect:
  assumes inv: "farming_inv E s" and wrap: "GetStakingId s \<noteq> - 1" and run: "Stake E now m s = Inr s'"
  shows "\<exists>b ea. send_coins E (fm_bank s) (Account (ms_Staker m)) farming_acc [ms_Amount m] = Inr b
    \<and> fm_bank s' = b \<and> fm_params s' = fm_params s
    \<and> GetEffectiveAmount E (ms_Amount m) (GetLockMultiplier E (ms_LockDuration m)) = Inr ea
    \<and> kv_get (fm_stakings s) (GetStakingId s + 1) = None
    \<and> fm_stakings s' = kv_set (GetStakingId s + 1) (fresh_staking E now m ea s) (fm_stakings s)
    \<and> fm_queue s' = fm_queue s \<and> fm_epochs s' = fm_epochs s \<and> fm_epoch_id s' = fm_epoch_id s"
proof -
  obtain b ea where b: "send_coins E (fm_bank s) (Account (ms_Staker m)) farming_acc [ms_Amount m] = Inr b"
    and ea: "GetEffectiveAmount E (ms_Amount m) (GetLockMultiplier E (ms_LockDuration m)) = Inr ea"
    and inc: "IncreaseTotalStaking (fresh_staking E now m ea s)
        (SetStakingByAddress (ms_Staker m) (fresh_staking E now m ea s)
          (SetStaking (fresh_staking E now m ea s)
            (s\<lparr>fm_bank := b, fm_staking_id := Some (GetStakingId s + 1)\<rparr>))) = Inr s'"
    using Stake_Inr [OF run] by blast
  have tot: "totals_ok (fm_totals s) (fm_stakings s)" by (rule farming_invD(7) [OF inv])
  have fresh: "kv_get (fm_stakings s) (GetStakingId s + 1) = None"
    using u64_succ [OF wrap] farming_invD(5) [OF inv, of "GetStakingId s + 1"]
    by (metis leD not_None_eq)
  obtain t where s': "s' = (SetStakingByAddress (ms_Staker m) (fresh_staking E now m ea s)
      (SetStaking (fresh_staking E now m ea s)
        (s\<lparr>fm_bank := b, fm_staking_id := Some (GetStakingId s + 1)\<rparr>)))
          \<lparr>fm_totals := kv_set (Denom (ms_Amount m)) t (fm_totals s)\<rparr>"
    by (rule IncreaseTotalStaking_Inr [OF inc, of "fm_stakings s"])
      (use tot in \<open>simp_all add: SetStakingByAddress_def\<close>)
  show ?thesis
    by (rule exI [of _ b], rule exI [of _ ea]) (simp add: s' b ea fresh SetStakingByAddress_def)
qed

lemma Unstake_effect:
  assumes inv: "farming_inv E s" and run: "Unstake E now staker i s = Inr s'"
  shows "\<exists>x b b'. kv_get (fm_stakings s) i = Some x \<and> sk_Address x = staker
    \<and> sk_Status x \<noteq> ST_UNSTAKED \<and> lock_end x \<le> now
    \<and> send_coins E (fm_bank s) farming_acc (Account staker) [sk_Amount x] = Inr b
    \<and> (if 0 < Amount (sk_PendingRewards x)
        then send_coins E b farming_acc (Account staker) [sk_PendingRewards x] = Inr b' else b' = b)
    \<and> fm_bank s' = b' \<and> fm_params s' = fm_params s
    \<and> fm_stakings s' = kv_set i (unstaked_of x) (fm_stakings s)
    \<and> fm_queue s' = fm_queue s \<and> fm_epochs s' = fm_epochs s \<and> fm_epoch_id s' = fm_epoch_id s"
proof -
  obtain x b b' where x: "kv_get (fm_stakings s) i = Some x" "sk_Address x = staker"
      "sk_Status x \<noteq> ST_UNSTAKED" "lock_end x \<le> now"
      "send_coins E (fm_bank s) farming_acc (Account staker) [sk_Amount x] = Inr b"
      "if 0 < Amount (sk_PendingRewards x)
        then send_coins E b farming_acc (Account staker) [sk_PendingRewards x] = Inr b' else b' = b"
    and dec: "DecreaseTotalStaking (unstaked_of x) (SetStaking (unstaked_of x) (s\<lparr>fm_bank := b'\<rparr>)) = Inr s'"
    using Unstake_Inr [OF run] by blast
  have id: "sk_Id x = i" by (rule farming_invD(4) [OF inv x(1)])
  obtain t where s': "s' = (SetStaking (unstaked_of x) (s\<lparr>fm_bank := b'\<rparr>))
      \<lparr>fm_totals := kv_set (Denom (sk_Amount x)) t (fm_totals s)\<rparr>"
    by (rule DecreaseTotalStaking_Inr [OF dec, of "fm_stakings s"])
      (use farming_invD(7) [OF inv] staked_total_present [OF inv x(1,3)] in simp_all)
  have "fm_bank s' = b' \<and> fm_params s' = fm_params s \<and> fm_stakings s' = kv_set i (unstaked_of x) (fm_stakings s)
    \<and> fm_queue s' = fm_queue s \<and> fm_epochs s' = fm_epochs s \<and> fm_epoch_id s' = fm_epoch_id s"
    by (simp add: s' id)
  then show ?thesis using x by blast
qed

section \<open>The step relation\<close>

text \<open>
  A step of the module is a successful message, the end of a block, or a change of the bank by
  the rest of the chain that takes nothing from the module account. A failed message leaves no
  trace. The identifiers are 64-bit counters: the steps that draw a new one say that they
  are not exhausted.
\<close>

inductive farming_step :: "'b env \<Rightarrow> string \<Rightarrow> 'b farming \<Rightarrow> 'b farming \<Rightarrow> bool" for E authority where
  stake: "Stake E now m s = Inr s' \<Longrightarrow> GetStakingId s \<noteq> - 1 \<Longrightarrow> farming_step E authority s s'"
| unstake: "Unstake E now a i s = Inr s' \<Longrightarrow> farming_step E authority s s'"
| claim: "Claim E a i s = Inr s' \<Longrightarrow> farming_step E authority s s'"
| claim_all: "ClaimAll E a s = Inr s' \<Longrightarrow> farming_step E authority s s'"
| update_params: "farming_UpdateParams E authority signer p s = Inr s' \<Longrightarrow> farming_step E authority s s'"
| end_block: "farming_EndBlocker E now s = Inr s' \<Longrightarrow> GetEpochId s \<noteq> - 1 \<Longrightarrow> farming_step E authority s s'"
| bank: "(\<And>d. balance E (fm_bank s) farming_acc d \<le> balance E b farming_acc d) \<Longrightarrow>
    farming_step E authority s (s\<lparr>fm_bank := b\<rparr>)"

text \<open>The state before the first block: parameters from the genesis file and empty stores.\<close>

definition farming_empty :: "'b \<Rightarrow> farming_params \<Rightarrow> 'b farming" where
  "farming_empty b p = \<lparr>fm_bank = b, fm_params = p, fm_epoch_id = None, fm_staking_id = None,
     fm_epochs = [], fm_stakings = [], fm_by_status = [], fm_by_address = [], fm_totals = [],
     fm_queue = [], fm_queue_by_address = []\<rparr>"

inductive farming_reachable :: "'b env \<Rightarrow> string \<Rightarrow> 'b farming \<Rightarrow> bool" for E authority where
  init: "farming_Params_Validate E p = Inr () \<Longrightarrow> (\<And>d. 0 \<le> balance E b farming_acc d) \<Longrightarrow>
    farming_reachable E authority (farming_empty b p)"
| step: "farming_reachable E authority s \<Longrightarrow> farming_step E authority s s' \<Longrightarrow> farming_reachable E authority s'"

lemma farming_empty_ok:
  "farming_Params_Validate E p = Inr () \<Longrightarrow> farming_ok E (farming_empty b p)"
  by (simp add: farming_ok_def farming_inv_def farming_empty_def index_ok_def totals_ok_def queue_ok_def
      GetCurrentEpoch_def GetEpochId_def)

text \<open>What the claim loop leaves alone.\<close>

definition claim_frame :: "'b env \<Rightarrow> 'b farming \<Rightarrow> 'b farming \<Rightarrow> bool" where
  "claim_frame E s t \<longleftrightarrow> farming_inv E t \<and> fm_by_address t = fm_by_address s
     \<and> fm_params t = fm_params s \<and> fm_queue t = fm_queue s \<and> fm_epochs t = fm_epochs s
     \<and> fm_epoch_id t = fm_epoch_id s \<and> same_effective s t"

lemma claim_step_frame:
  assumes fr: "claim_frame E s t" and has: "kv_has (fm_by_address s) (a, i)"
    and run: "claim_step E i (p, t) = Inr (p', t')"
  shows "claim_frame E s t'"
proof -
  have inv: "farming_inv E t" and addr: "fm_by_address t = fm_by_address s"
    using fr by (simp_all add: claim_frame_def)
  obtain x where get: "kv_get (fm_stakings t) i = Some x"
    using inv has unfolding addr [symmetric] farming_inv_def by blast
  have id: "sk_Id x = i" by (rule farming_invD(4) [OF inv get])
  obtain z where t': "t' = SetStaking (x\<lparr>sk_PendingRewards := z\<rparr>) t"
    using run by (auto simp: claim_step_def Let_def bind_res_eq_Inr GetStaking_get [OF get])
  have "same_effective t t'" 
    by (rule same_effective_set [OF get, where y = "x\<lparr>sk_PendingRewards := z\<rparr>"]) (simp_all add: t' id)
  then have "same_effective s t'" using fr same_effective_trans unfolding claim_frame_def by blast
  moreover have "farming_inv E t'"
    using claim_step_inv(1) [OF inv _ run, of a] has addr by simp
  ultimately show ?thesis using fr by (simp add: claim_frame_def t')
qed

lemma ClaimAll_frame:
  assumes inv: "farming_inv E s" and run: "ClaimAll E a s = Inr s'"
  shows "\<exists>p b. send_coins E (fm_bank s) farming_acc (Account a) [p] = Inr b \<and> fm_bank s' = b
    \<and> Denom p = Denom (fp_RewardPerEpoch (fm_params s)) \<and> claim_frame E s s'
    \<and> (\<forall>d. kv_sum (staked d) (fm_stakings s') = kv_sum (staked d) (fm_stakings s))
    \<and> Amount p + pending_sum s' = pending_sum s"
proof -
  obtain p where p: "ClaimAllRewards E a s = Inr (p, s')"
    using run by (auto simp: ClaimAll_def bind_res_eq_Inr)
  then obtain z t b where loop: "fold_res (claim_step E) (ids_with a (fm_by_address s)) (z, s) = Inr (p, t)"
    and s': "s' = t\<lparr>fm_bank := b\<rparr>"
    by (auto simp: ClaimAllRewards_def bind_res_eq_Inr split: if_splits)
  have "claim_frame E s (snd (p, t))"
  proof (rule fold_res_invariant [OF loop, of "\<lambda>u. claim_frame E s (snd u)"])
    show "claim_frame E s (snd (z, s))" using inv by (simp add: claim_frame_def)
    show "claim_frame E s (snd v)" if "i \<in> set (ids_with a (fm_by_address s))" "claim_frame E s (snd u)"
      "claim_step E i u = Inr v" for i u v
      using claim_step_frame [of E s "snd u" a i "fst u" "fst v" "snd v"] that
      by (simp add: set_ids_with)
  qed
  then have "claim_frame E s s'"
    unfolding s' claim_frame_def using farming_inv_frame [of E t "t\<lparr>fm_bank := b\<rparr>"]
    by (auto simp: same_effective_def)
  then show ?thesis using ClaimAllRewards_Inr [OF inv p] by auto
qed

text \<open>The claim loop resets the pending rewards of the stakings it visits, and of no other.\<close>

definition cleared :: "string \<Rightarrow> staking \<Rightarrow> staking" where
  "cleared rd x = x\<lparr>sk_PendingRewards := \<lparr>Denom = rd, Amount = 0\<rparr>\<rparr>"

lemma cleared_simps [simp]:
  "sk_Id (cleared rd x) = sk_Id x" "sk_Address (cleared rd x) = sk_Address x"
  "Amount (sk_PendingRewards (cleared rd x)) = 0" "cleared rd (cleared rd x) = cleared rd x"
  by (simp_all add: cleared_def)

lemma claim_loop_get:
  assumes "fold_res (claim_step E) is (p, s) = Inr (p', s')" "farming_inv E s"
    and "\<And>i. i \<in> set is \<Longrightarrow> kv_has (fm_by_address s) (a, i)"
  shows "kv_get (fm_stakings s') j = (if j \<in> set is
    then map_option (cleared (Denom (fp_RewardPerEpoch (fm_params s)))) (kv_get (fm_stakings s) j)
    else kv_get (fm_stakings s) j)"
  using assms
proof (induction "is" arbitrary: p s)
  case Nil
  then show ?case by simp
next
  case (Cons i "is")
  obtain q t where step: "claim_step E i (p, s) = Inr (q, t)"
    and rest: "fold_res (claim_step E) is (q, t) = Inr (p', s')"
    using Cons.prems(1) by (auto simp: bind_res_eq_Inr)
  have has: "kv_has (fm_by_address s) (a, i)" using Cons.prems(3) by simp
  note one = claim_step_inv [OF Cons.prems(2) has step]
  obtain x where get: "kv_get (fm_stakings s) i = Some x"
    using Cons.prems(2) has unfolding farming_inv_def by blast
  have t: "t = SetStaking (cleared (Denom (fp_RewardPerEpoch (fm_params s))) x) s"
    using step by (auto simp: claim_step_def Let_def bind_res_eq_Inr GetStaking_get [OF get] new_coin_Inr cleared_def)
  have "kv_has (fm_by_address t) (a, j)" if "j \<in> set is" for j
    using Cons.prems(3) [of j] that one(2) by simp
  from Cons.IH [OF rest one(1) this] show ?case
    using get farming_invD(4) [OF Cons.prems(2) get] by (auto simp: t)
qed

lemma ClaimAll_get:
  assumes inv: "farming_inv E s" and run: "ClaimAll E a s = Inr s'"
  shows "kv_get (fm_stakings s') j = map_option (\<lambda>x. if sk_Address x = a
    then cleared (Denom (fp_RewardPerEpoch (fm_params s))) x else x) (kv_get (fm_stakings s) j)"
proof -
  obtain z p t b where loop: "fold_res (claim_step E) (ids_with a (fm_by_address s)) (z, s) = Inr (p, t)"
    and s': "s' = t\<lparr>fm_bank := b\<rparr>"
    using run by (auto simp: ClaimAll_def ClaimAllRewards_def bind_res_eq_Inr split: if_splits)
  have "kv_has (fm_by_address s) (a, i)" if "i \<in> set (ids_with a (fm_by_address s))" for i
    using that by (simp add: set_ids_with)
  note get = claim_loop_get [OF loop inv this, of j]
  have "j \<in> set (ids_with a (fm_by_address s)) \<longleftrightarrow> (\<exists>x. kv_get (fm_stakings s) j = Some x \<and> sk_Address x = a)"
    using inv by (simp add: set_ids_with farming_inv_def)
  then show ?thesis using get by (cases "kv_get (fm_stakings s) j") (auto simp: s')
qed

text \<open>What is pending for one address.\<close>

definition pending_of :: "string \<Rightarrow> 'b farming \<Rightarrow> int" where
  "pending_of a s = kv_sum (\<lambda>x. if sk_Address x = a then Amount (sk_PendingRewards x) else 0) (fm_stakings s)"

lemma ClaimAll_pays:
  assumes inv: "farming_inv E s" and run: "ClaimAll E a s = Inr s'"
  shows "pending_of c s' = (if c = a then 0 else pending_of c s)"
    and "pending_sum s = pending_sum s' + pending_of a s"
proof -
  let ?g = "\<lambda>x. if sk_Address x = a then cleared (Denom (fp_RewardPerEpoch (fm_params s))) x else x"
  have sum: "kv_sum f (fm_stakings s') = kv_sum (\<lambda>x. f (?g x)) (fm_stakings s)" for f
    by (rule kv_sum_map [OF farming_invD(2) [OF inv] farming_invD(2) [OF ClaimAll_inv [OF inv run]] ClaimAll_get [OF inv run]])
  show "pending_of c s' = (if c = a then 0 else pending_of c s)"
  proof (cases "c = a")
    case True
    have zero: "(\<lambda>x. if sk_Address (?g x) = a then Amount (sk_PendingRewards (?g x)) else 0) = (\<lambda>x. 0)" by auto
    show ?thesis unfolding pending_of_def sum True zero by (simp add: kv_sum_def sum_list_triv)
  next
    case False
    then have eq: "(\<lambda>x. if sk_Address (?g x) = c then Amount (sk_PendingRewards (?g x)) else 0) =
        (\<lambda>x. if sk_Address x = c then Amount (sk_PendingRewards x) else 0)" by auto
    show ?thesis unfolding pending_of_def sum eq using False by simp
  qed
  show "pending_sum s = pending_sum s' + pending_of a s"
    using sum [of "\<lambda>x. Amount (sk_PendingRewards x)"]
    by (auto simp: pending_of_def kv_sum_def sum_list_addf [symmetric] intro!: arg_cong [where f = sum_list])
qed

section \<open>Invariants of the reachable states\<close>

lemma farming_step_ok:
  assumes "dec_ok E" "farming_ok E s" "farming_step E authority s s'"
  shows "farming_ok E s'"
  using assms(3,2)
proof cases
  case (stake now m)
  have inv: "farming_inv E s" and q: "queue_ok s" using assms(2) by (simp_all add: farming_ok_def)
  obtain ea where eff: "kv_get (fm_stakings s) (GetStakingId s + 1) = None"
    "fm_stakings s' = kv_set (GetStakingId s + 1) (fresh_staking E now m ea s) (fm_stakings s)"
    "fm_queue s' = fm_queue s" "fm_epochs s' = fm_epochs s" "fm_epoch_id s' = fm_epoch_id s"
    using Stake_effect [OF inv stake(2,1)] by blast
  have "same_effective s s'" using eff(1) by (auto simp: same_effective_def eff(2))
  then show ?thesis
    using Stake_inv [OF assms(1) inv stake(2,1)] queue_ok_frame [OF q _ eff(3,5,4)] by (simp add: farming_ok_def)
next
  case (unstake now a i)
  have inv: "farming_inv E s" and q: "queue_ok s" using assms(2) by (simp_all add: farming_ok_def)
  obtain x where x: "kv_get (fm_stakings s) i = Some x"
    "fm_stakings s' = kv_set i (unstaked_of x) (fm_stakings s)"
    "fm_queue s' = fm_queue s" "fm_epochs s' = fm_epochs s" "fm_epoch_id s' = fm_epoch_id s"
    using Unstake_effect [OF inv unstake] by blast
  have "same_effective s s'" by (rule same_effective_set [OF x(1,2)]) simp_all
  then show ?thesis
    using Unstake_inv [OF inv unstake] queue_ok_frame [OF q _ x(3,5,4)] by (simp add: farming_ok_def)
next
  case (claim a i)
  have inv: "farming_inv E s" and q: "queue_ok s" using assms(2) by (simp_all add: farming_ok_def)
  obtain x b where get: "kv_get (fm_stakings s) i = Some x"
    and s': "s' = SetStaking (x\<lparr>sk_PendingRewards := (sk_PendingRewards x)\<lparr>Amount := 0\<rparr>\<rparr>) (s\<lparr>fm_bank := b\<rparr>)"
    using Claim_Inr [OF claim] by blast
  have "same_effective s s'"
    by (rule same_effective_set [OF get,
          where y = "x\<lparr>sk_PendingRewards := (sk_PendingRewards x)\<lparr>Amount := 0\<rparr>\<rparr>"])
      (simp_all add: s' farming_invD(4) [OF inv get])
  then show ?thesis
    using Claim_inv [OF inv claim] queue_ok_frame [OF q] by (simp add: farming_ok_def s')
next
  case (claim_all a)
  have inv: "farming_inv E s" and q: "queue_ok s" using assms(2) by (simp_all add: farming_ok_def)
  have "claim_frame E s s'" using ClaimAll_frame [OF inv claim_all] by blast
  then show ?thesis using queue_ok_frame [OF q] by (simp add: farming_ok_def claim_frame_def)
next
  case (update_params signer p)
  have inv: "farming_inv E s" and q: "queue_ok s" using assms(2) by (simp_all add: farming_ok_def)
  have "s' = s\<lparr>fm_params := p\<rparr>"
    using update_params by (auto simp: farming_UpdateParams_def bind_res_eq_Inr split: if_splits)
  then show ?thesis
    using UpdateParams_inv [OF inv update_params] queue_ok_frame [OF q] by (simp add: farming_ok_def)
next
  case (end_block now)
  then show ?thesis using EndBlocker_Inr [OF assms(2)] by blast
next
  case (bank b)
  have inv: "farming_inv E s" and q: "queue_ok s" using assms(2) by (simp_all add: farming_ok_def)
  show ?thesis using farming_inv_frame [OF inv] queue_ok_frame [OF q] by (simp add: farming_ok_def bank)
qed

lemma farming_reachable_ok:
  assumes "dec_ok E" "farming_reachable E authority s"
  shows "farming_ok E s"
  using assms(2) by induction (auto intro: farming_empty_ok farming_step_ok [OF assms(1)])

text \<open>
  Solvency: of every denom but the reward denom, the module account holds at least what is
  staked. (Rewards are paid from the same account, from coins it was funded with.)
\<close>

definition solvent :: "'b env \<Rightarrow> 'b farming \<Rightarrow> bool" where
  "solvent E s \<longleftrightarrow> (\<forall>d. d \<noteq> Denom (fp_RewardPerEpoch (fm_params s)) \<longrightarrow>
     kv_sum (staked d) (fm_stakings s) \<le> balance E (fm_bank s) farming_acc d)"

definition excess :: "'b env \<Rightarrow> 'b farming \<Rightarrow> string \<Rightarrow> int" where
  "excess E s d = balance E (fm_bank s) farming_acc d - kv_sum (staked d) (fm_stakings s)"

lemma Stake_excess:
  assumes "bank_ok E" and inv: "farming_inv E s" and wrap: "GetStakingId s \<noteq> - 1"
    and run: "Stake E now m s = Inr s'"
  shows "excess E s' d = excess E s d"
proof -
  obtain b ea where b: "send_coins E (fm_bank s) (Account (ms_Staker m)) farming_acc [ms_Amount m] = Inr b"
    "fm_bank s' = b" "kv_get (fm_stakings s) (GetStakingId s + 1) = None"
    "fm_stakings s' = kv_set (GetStakingId s + 1) (fresh_staking E now m ea s) (fm_stakings s)"
    using Stake_effect [OF inv wrap run] by blast
  show ?thesis
    using bank_send [OF assms(1) b(1), of farming_acc d]
    by (simp add: excess_def b kv_sum_set [OF farming_invD(2) [OF inv]] staked_def)
qed

lemma Unstake_excess:
  assumes bank: "bank_ok E" and inv: "farming_inv E s" and run: "Unstake E now a i s = Inr s'"
    and d: "d \<noteq> Denom (fp_RewardPerEpoch (fm_params s))"
  shows "excess E s' d = excess E s d"
proof -
  obtain x b b' where x: "kv_get (fm_stakings s) i = Some x" "sk_Status x \<noteq> ST_UNSTAKED"
      "send_coins E (fm_bank s) farming_acc (Account a) [sk_Amount x] = Inr b"
      "if 0 < Amount (sk_PendingRewards x)
        then send_coins E b farming_acc (Account a) [sk_PendingRewards x] = Inr b' else b' = b"
      "fm_bank s' = b'" "fm_stakings s' = kv_set i (unstaked_of x) (fm_stakings s)"
    using Unstake_effect [OF inv run] by blast
  have "Denom (sk_PendingRewards x) \<noteq> d"
    using farming_invD(6) [OF inv x(1)] d by (simp add: staking_ok_def)
  then have "balance E b' farming_acc d = balance E b farming_acc d"
    using x(4) bank_send [OF bank, of b farming_acc "Account a" "[sk_PendingRewards x]" b' farming_acc d]
    by (auto split: if_splits)
  then show ?thesis
    using bank_send [OF bank x(3), of farming_acc d] x(1,2)
    by (simp add: excess_def x(5,6) kv_sum_set [OF farming_invD(2) [OF inv]] staked_def)
qed

lemma farming_step_solvent:
  assumes bank: "bank_ok E" and ok: "farming_ok E s" and sol: "solvent E s"
    and st: "farming_step E authority s s'"
  shows "solvent E s'"
proof -
  have inv: "farming_inv E s" using ok by (simp add: farming_ok_def)
  have keep: "solvent E s'" if "fm_params s' = fm_params s"
    "\<And>d. d \<noteq> Denom (fp_RewardPerEpoch (fm_params s)) \<Longrightarrow> excess E s' d = excess E s d" for s'
    unfolding solvent_def
  proof clarify
    fix d assume "d \<noteq> Denom (fp_RewardPerEpoch (fm_params s'))"
    then have d: "d \<noteq> Denom (fp_RewardPerEpoch (fm_params s))" using that(1) by simp
    have "kv_sum (staked d) (fm_stakings s) \<le> balance E (fm_bank s) farming_acc d"
      using sol d by (simp add: solvent_def)
    then show "kv_sum (staked d) (fm_stakings s') \<le> balance E (fm_bank s') farming_acc d"
      using that(2) [OF d] unfolding excess_def by linarith
  qed
  from st show ?thesis
  proof cases
    case (stake now m)
    then show ?thesis
      using Stake_excess [OF bank inv stake(2,1)] Stake_effect [OF inv stake(2,1)] by (intro keep) auto
  next
    case (unstake now a i)
    then show ?thesis
      using Unstake_excess [OF bank inv unstake] Unstake_effect [OF inv unstake] by (intro keep) auto
  next
    case (claim a i)
    then obtain x b where x: "kv_get (fm_stakings s) i = Some x"
      "send_coins E (fm_bank s) farming_acc (Account a) [sk_PendingRewards x] = Inr b"
      "s' = SetStaking (x\<lparr>sk_PendingRewards := (sk_PendingRewards x)\<lparr>Amount := 0\<rparr>\<rparr>) (s\<lparr>fm_bank := b\<rparr>)"
      using Claim_Inr by blast
    show ?thesis
      using bank_send [OF bank x(2)] farming_invD(4,6) [OF inv x(1)] x(1)
      by (intro keep) (simp_all add: x(3) excess_def kv_sum_set [OF farming_invD(2) [OF inv]] staked_def staking_ok_def)
  next
    case (claim_all a)
    then obtain p b where "send_coins E (fm_bank s) farming_acc (Account a) [p] = Inr b" "fm_bank s' = b"
      "Denom p = Denom (fp_RewardPerEpoch (fm_params s))" "claim_frame E s s'"
      "\<forall>d. kv_sum (staked d) (fm_stakings s') = kv_sum (staked d) (fm_stakings s)"
      using ClaimAll_frame [OF inv] by blast
    then show ?thesis using bank_send [OF bank] by (intro keep) (auto simp: excess_def claim_frame_def)
  next
    case (update_params signer p)
    then have "s' = s\<lparr>fm_params := p\<rparr>" "Denom (fp_RewardPerEpoch p) = Denom (fp_RewardPerEpoch (fm_params s))"
      by (auto simp: farming_UpdateParams_def farming_ValidateParamsUpdate_def bind_res_eq_Inr split: if_splits)
    then show ?thesis using sol by (simp add: solvent_def)
  next
    case (end_block now)
    then have "stake_frame s s'" using EndBlocker_Inr [OF ok] by blast
    then show ?thesis by (intro keep) (simp_all add: stake_frame_def excess_def)
  next
    case (bank b)
    then show ?thesis using sol unfolding solvent_def bank(1) by (auto intro: order_trans)
  qed
qed

lemma farming_reachable_solvent:
  assumes "dec_ok E" "bank_ok E" "farming_reachable E authority s"
  shows "solvent E s"
  using assms(3)
proof induction
  case (init p b)
  then show ?case by (simp add: solvent_def farming_empty_def)
next
  case (step s s')
  then show ?case using farming_step_solvent [OF assms(2)] farming_reachable_ok [OF assms(1)] by blast
qed

end
