(* ===== verification/Sample_Env.thy ===== *)
theory Sample_Env
  imports Prelude
begin

text \<open>
  A concrete instance of the third-party operations: a bank kept as a ledger of entries and the
  decimal operations with banker's rounding. It satisfies the hypotheses \<open>bank_ok\<close> and
  \<open>dec_ok\<close>, so the theorems that assume them are not vacuous, and the witnesses of the
  development run the modelled code on it.
\<close>

type_synonym ledger = "(acct \<times> string \<times> int) list"

definition ledger_balance :: "ledger \<Rightarrow> acct \<Rightarrow> string \<Rightarrow> int" where
  "ledger_balance b a d = sum_list (map (\<lambda>(a', d', x). if a' = a \<and> d' = d then x else 0) b)"

definition entries :: "acct \<Rightarrow> int \<Rightarrow> coin list \<Rightarrow> ledger" where
  "entries a sign cs = map (\<lambda>c. (a, Denom c, sign * Amount c)) cs"

definition covers :: "ledger \<Rightarrow> acct \<Rightarrow> coin list \<Rightarrow> bool" where
  "covers b a cs \<longleftrightarrow> (\<forall>c \<in> set cs. 0 \<le> Amount c \<and> coins_amount cs (Denom c) \<le> ledger_balance b a (Denom c))"

definition ledger_send :: "ledger \<Rightarrow> acct \<Rightarrow> acct \<Rightarrow> coin list \<Rightarrow> ledger res" where
  "ledger_send b f t cs = (if covers b f cs then Inr (entries t 1 cs @ entries f (- 1) cs @ b)
     else Inl (External ''insufficient funds''))"

definition ledger_mint :: "ledger \<Rightarrow> string \<Rightarrow> coin list \<Rightarrow> ledger res" where
  "ledger_mint b m cs = Inr (entries (ModuleAcc m) 1 cs @ b)"

definition ledger_burn :: "ledger \<Rightarrow> string \<Rightarrow> coin list \<Rightarrow> ledger res" where
  "ledger_burn b m cs = (if covers b (ModuleAcc m) cs then Inr (entries (ModuleAcc m) (- 1) cs @ b)
     else Inl (External ''insufficient funds''))"

definition ledger_has_supply :: "ledger \<Rightarrow> string \<Rightarrow> bool" where
  "ledger_has_supply b d \<longleftrightarrow> 0 < sum_list (map (\<lambda>(a', d', x). if d' = d then x else 0) b)"

text \<open>Round half to even.\<close>

definition round_div :: "int \<Rightarrow> int \<Rightarrow> int" where
  "round_div x n = (let q = \<bar>x\<bar> div n; r = \<bar>x\<bar> mod n in
     sgn x * (if 2 * r < n then q else if n < 2 * r then q + 1 else if even q then q else q + 1))"

definition sample_env :: "ledger env" where
  "sample_env = \<lparr>send_coins = ledger_send, mint_coins = ledger_mint, burn_coins = ledger_burn,
     balance = ledger_balance, has_supply = ledger_has_supply,
     bech32_ok = (\<lambda>a. a \<noteq> ''''), valid_denom = (\<lambda>d. d \<noteq> ''''),
     dec_mul = (\<lambda>a b. round_div (a * b) (10 ^ 18)),
     dec_quo = (\<lambda>a b. tdiv (a * 10 ^ 18) b), dec_quo_int = tdiv,
     dec_power = (\<lambda>d n. ((\<lambda>x. round_div (x * d) (10 ^ 18)) ^^ n) dec_one)\<rparr>"

lemma ledger_balance_append [simp]:
  "ledger_balance (b @ b') a d = ledger_balance b a d + ledger_balance b' a d"
  by (simp add: ledger_balance_def)

lemma ledger_balance_entries [simp]:
  "ledger_balance (entries a sign cs) a' d = (if a = a' then sign * coins_amount cs d else 0)"
  by (induction cs) (auto simp: ledger_balance_def entries_def coins_amount_def algebra_simps)

lemma sample_bank_ok: "bank_ok sample_env"
  unfolding bank_ok_def sample_env_def
  by (auto simp: ledger_send_def ledger_mint_def ledger_burn_def split: if_splits)

lemma double_le: "y \<le> z \<Longrightarrow> 2 * z \<le> n \<Longrightarrow> 2 * y \<le> (n :: int)"
  by linarith

lemma round_div_nearest:
  assumes "0 < n"
  shows "2 * \<bar>round_div x n * n - x\<bar> \<le> n"
proof -
  define q r where "q = \<bar>x\<bar> div n" and "r = \<bar>x\<bar> mod n"
  define k where "k = (if 2 * r < n then q else if n < 2 * r then q + 1 else if even q then q else q + 1)"
  have x: "\<bar>x\<bar> = q * n + r" by (simp add: q_def r_def)
  have r: "0 \<le> r" "r < n" using assms by (simp_all add: r_def)
  have near: "2 * \<bar>k * n - \<bar>x\<bar>\<bar> \<le> n"
  proof (cases "k = q")
    case True
    then have "k * n - \<bar>x\<bar> = - r" using x by simp
    moreover have "2 * r \<le> n" using True by (auto simp: k_def split: if_splits)
    ultimately show ?thesis using r by simp
  next
    case False
    then have k: "k = q + 1" "n \<le> 2 * r" by (auto simp: k_def split: if_splits)
    then have "k * n - \<bar>x\<bar> = n - r" using x by (simp add: distrib_right)
    then show ?thesis using k r by simp
  qed
  have "round_div x n = sgn x * k" by (simp add: round_div_def Let_def k_def q_def r_def)
  then have "round_div x n * n - x = sgn x * (k * n - \<bar>x\<bar>)"
    using sgn_mult_abs [of x] by (simp add: algebra_simps)
  then have "\<bar>round_div x n * n - x\<bar> \<le> \<bar>k * n - \<bar>x\<bar>\<bar>"
    by (simp add: abs_mult abs_sgn_eq)
  from double_le [OF this near] show ?thesis .
qed

lemma tdiv_error:
  assumes "b \<noteq> 0"
  shows "\<bar>tdiv a b * b - a\<bar> < \<bar>b\<bar>"
proof -
  have "tdiv a b * b - a = sgn a * (\<bar>a\<bar> div \<bar>b\<bar> * \<bar>b\<bar> - \<bar>a\<bar>)"
    using sgn_mult_abs [of a] abs_sgn [of b] by (simp add: tdiv_def algebra_simps)
  also have "\<bar>a\<bar> div \<bar>b\<bar> * \<bar>b\<bar> - \<bar>a\<bar> = - (\<bar>a\<bar> mod \<bar>b\<bar>)"
    using div_mult_mod_eq [of "\<bar>a\<bar>" "\<bar>b\<bar>"] by linarith
  finally have eq: "tdiv a b * b - a = - (sgn a * (\<bar>a\<bar> mod \<bar>b\<bar>))" by simp
  have "0 \<le> \<bar>a\<bar> mod \<bar>b\<bar>" "\<bar>a\<bar> mod \<bar>b\<bar> < \<bar>b\<bar>" using assms by simp_all
  then show ?thesis unfolding eq using assms by (simp add: abs_mult abs_sgn_eq)
qed

lemma sample_dec_ok: "dec_ok sample_env"
  unfolding dec_ok_def sample_env_def using round_div_nearest tdiv_error by simp

end
