(* ===== verification/Farming_Props.thy ===== *)
theory Farming_Props
  imports Farming_Reach Sample_Env
begin

text \<open>
  What the farming module promises, stated over its reachable states and its operations, with
  a concrete run of the module on the sample environment that shows the hypotheses hold.
\<close>

section \<open>A concrete run\<close>

definition sample_fparams :: farming_params where
  "sample_fparams = \<lparr>fp_Enabled = True, fp_EpochDuration = 7 * day,
     fp_RewardPerEpoch = \<lparr>Denom = ''ubtw'', Amount = 1000\<rparr>, fp_LockDurations = [7 * day, 30 * day],
     fp_EligibleAssets = [\<lparr>as_Denom = ''usat'', as_RewardRatio = 10 ^ 18, as_MinStakingAmount = 10\<rparr>]\<rparr>"

definition sample_ledger :: ledger where
  "sample_ledger = [(Account ''alice'', ''usat'', 500), (ModuleAcc ''farming'', ''ubtw'', 5000)]"

definition f0 :: "ledger farming" where
  "f0 = farming_empty sample_ledger sample_fparams"

definition sample_stake :: msg_stake where
  "sample_stake = \<lparr>ms_Staker = ''alice'', ms_Amount = \<lparr>Denom = ''usat'', Amount = 100\<rparr>, ms_LockDuration = 7 * day\<rparr>"

definition result_of :: "'a res \<Rightarrow> 'a \<Rightarrow> 'a" where
  "result_of r x = (case r of Inl e \<Rightarrow> x | Inr y \<Rightarrow> y)"

definition f1 :: "ledger farming" where
  "f1 = result_of (Stake sample_env 0 sample_stake f0) f0"

definition f2 :: "ledger farming" where
  "f2 = result_of (farming_EndBlocker sample_env 0 f1) f1"

definition f3 :: "ledger farming" where
  "f3 = result_of (farming_EndBlocker sample_env (7 * day) f2) f2"

definition f4 :: "ledger farming" where
  "f4 = result_of (Unstake sample_env (7 * day) ''alice'' 1 f3) f3"

lemma f1_eq: "Stake sample_env 0 sample_stake f0 = Inr f1"
  by code_simp

lemma f2_eq: "farming_EndBlocker sample_env 0 f1 = Inr f2"
  by code_simp

lemma f3_eq: "farming_EndBlocker sample_env (7 * day) f2 = Inr f3"
  by code_simp

lemma f4_eq: "Unstake sample_env (7 * day) ''alice'' 1 f3 = Inr f4"
  by code_simp

lemma f_reachable:
  "farming_reachable sample_env ''gov'' f0" "farming_reachable sample_env ''gov'' f1"
  "farming_reachable sample_env ''gov'' f2" "farming_reachable sample_env ''gov'' f3"
proof -
  show r0: "farming_reachable sample_env ''gov'' f0"
    unfolding f0_def
  proof (rule farming_reachable.init)
    show "farming_Params_Validate sample_env sample_fparams = Inr ()" by code_simp
    show "0 \<le> balance sample_env sample_ledger farming_acc d" for d
      by (simp add: sample_env_def ledger_balance_def sample_ledger_def)
  qed
  show r1: "farming_reachable sample_env ''gov'' f1"
    by (rule farming_reachable.step [OF r0 farming_step.stake [OF f1_eq]]) (simp add: f0_def farming_empty_def GetStakingId_def)
  have id: "GetEpochId f1 \<noteq> - 1" "GetEpochId f2 \<noteq> - 1" by code_simp+
  show r2: "farming_reachable sample_env ''gov'' f2"
    by (rule farming_reachable.step [OF r1 farming_step.end_block [OF f2_eq id(1)]])
  show "farming_reachable sample_env ''gov'' f3"
    by (rule farming_reachable.step [OF r2 farming_step.end_block [OF f3_eq id(2)]])
qed

lemma f_counters: "GetStakingId f0 \<noteq> - 1" "GetEpochId f2 \<noteq> - 1"
  by code_simp+

section \<open>The properties\<close>



text \<open>
  C38. Solvency: in every reachable state the module account holds, of every denom other than the
  reward denom, at least the stored total staked of that denom, so every principal can be
  returned.
\<close>

theorem farming_solvency:
  assumes "dec_ok E" "bank_ok E" "farming_reachable E authority s"
    and "kv_get (fm_totals s) d = Some t" "d \<noteq> Denom (fp_RewardPerEpoch (fm_params s))"
  shows "Amount (ts_Amount t) \<le> balance E (fm_bank s) farming_acc d"
proof -
  have "farming_inv E s" using farming_reachable_ok [OF assms(1,3)] by (simp add: farming_ok_def)
  then have "Amount (ts_Amount t) = kv_sum (staked d) (fm_stakings s)"
    using totals_ok_Some(4) [OF farming_invD(7) assms(4)] by simp
  then show ?thesis using farming_reachable_solvent [OF assms(1-3)] assms(5) by (simp add: solvent_def)
qed

theorem farming_solvency_witness:
  "Amount (ts_Amount (GetTotalStaking f1 ''usat'')) \<le> balance sample_env (fm_bank f1) farming_acc ''usat''"
proof -
  have "kv_get (fm_totals f1) ''usat'' = Some (GetTotalStaking f1 ''usat'')"
    "''usat'' \<noteq> Denom (fp_RewardPerEpoch (fm_params f1))" by code_simp+
  from farming_solvency [OF sample_dec_ok sample_bank_ok f_reachable(2) this] show ?thesis .
qed

text \<open>
  A successful \<open>Stake\<close> takes exactly the amount from the staker, leaves every
  earlier staking as it was and stores one new staking under the next id: staked now, owned by
  the staker, with nothing pending and an effective amount of the same denom no smaller than
  the amount.
\<close>

theorem Stake_correct:
  assumes "dec_ok E" "bank_ok E" "farming_reachable E authority s" "GetStakingId s \<noteq> - 1"
    and "Stake E now m s = Inr s'"
  shows "\<exists>x. fm_stakings s' = kv_set (GetStakingId s + 1) x (fm_stakings s)
    \<and> kv_get (fm_stakings s) (GetStakingId s + 1) = None
    \<and> sk_Address x = ms_Staker m \<and> sk_Amount x = ms_Amount m \<and> sk_Status x = ST_STAKED
    \<and> lock_end x = now + ms_LockDuration m \<and> Amount (sk_PendingRewards x) = 0
    \<and> Denom (sk_EffectiveAmount x) = Denom (ms_Amount m) \<and> Amount (ms_Amount m) \<le> Amount (sk_EffectiveAmount x)
    \<and> balance E (fm_bank s') (Account (ms_Staker m)) (Denom (ms_Amount m)) =
        balance E (fm_bank s) (Account (ms_Staker m)) (Denom (ms_Amount m)) - Amount (ms_Amount m)
    \<and> balance E (fm_bank s') farming_acc (Denom (ms_Amount m)) =
        balance E (fm_bank s) farming_acc (Denom (ms_Amount m)) + Amount (ms_Amount m)"
proof -
  have inv: "farming_inv E s" using farming_reachable_ok [OF assms(1,3)] by (simp add: farming_ok_def)
  obtain b ea where b: "send_coins E (fm_bank s) (Account (ms_Staker m)) farming_acc [ms_Amount m] = Inr b"
    "fm_bank s' = b"
    and ea: "GetEffectiveAmount E (ms_Amount m) (GetLockMultiplier E (ms_LockDuration m)) = Inr ea"
    and st: "kv_get (fm_stakings s) (GetStakingId s + 1) = None"
      "fm_stakings s' = kv_set (GetStakingId s + 1) (fresh_staking E now m ea s) (fm_stakings s)"
    using Stake_effect [OF inv assms(4,5)] by blast
  have "0 < Amount (ms_Amount m)" "0 < ms_LockDuration m" using Stake_Inr [OF assms(5)] by auto
  then have "Denom ea = Denom (ms_Amount m) \<and> Amount (ms_Amount m) \<le> Amount ea"
    using GetEffectiveAmount_ge [OF assms(1) _ GetLockMultiplier_ge_one [OF assms(1)] ea] by simp
  then show ?thesis using st bank_send [OF assms(2) b(1)] b(2)
    by (intro exI [of _ "fresh_staking E now m ea s"]) (simp add: lock_end_def)
qed

theorem Stake_correct_witness:
  "balance sample_env (fm_bank f1) farming_acc ''usat'' = balance sample_env (fm_bank f0) farming_acc ''usat'' + 100"
proof -
  have m: "Denom (ms_Amount sample_stake) = ''usat''" "Amount (ms_Amount sample_stake) = 100"
    by (simp_all add: sample_stake_def)
  show ?thesis
    using Stake_correct [OF sample_dec_ok sample_bank_ok f_reachable(1) f_counters(1) f1_eq] unfolding m by blast
qed

text \<open>
  C39. A successful \<open>Unstake\<close> is of the caller's own staking, once its lock has ended and never of one
  already unstaked; it returns the principal, pays the pending rewards in full, changes no
  other staking, and a second \<open>Unstake\<close> of the same staking is refused with
  \<open>ErrInvalidStakingStatus\<close>.
\<close>

theorem Unstake_correct:
  assumes "dec_ok E" "bank_ok E" "farming_reachable E authority s"
    and "Unstake E now a i s = Inr s'"
  shows "\<exists>x y. kv_get (fm_stakings s) i = Some x \<and> sk_Address x = a \<and> sk_Status x \<noteq> ST_UNSTAKED
    \<and> lock_end x \<le> now \<and> fm_stakings s' = kv_set i y (fm_stakings s)
    \<and> sk_Status y = ST_UNSTAKED \<and> Amount (sk_PendingRewards y) = 0
    \<and> (\<forall>d. balance E (fm_bank s') (Account a) d = balance E (fm_bank s) (Account a) d
        + coins_amount [sk_Amount x, sk_PendingRewards x] d)
    \<and> (\<forall>now'. Unstake E now' a i s' = Inl farming_ErrInvalidStakingStatus)"
proof -
  have inv: "farming_inv E s" using farming_reachable_ok [OF assms(1,3)] by (simp add: farming_ok_def)
  obtain x b b' where x: "kv_get (fm_stakings s) i = Some x" "sk_Address x = a" "sk_Status x \<noteq> ST_UNSTAKED"
      "lock_end x \<le> now" "send_coins E (fm_bank s) farming_acc (Account a) [sk_Amount x] = Inr b"
      "if 0 < Amount (sk_PendingRewards x)
        then send_coins E b farming_acc (Account a) [sk_PendingRewards x] = Inr b' else b' = b"
      "fm_bank s' = b'" "fm_stakings s' = kv_set i (unstaked_of x) (fm_stakings s)"
    using Unstake_effect [OF inv assms(4)] by blast
  have nn: "0 \<le> Amount (sk_PendingRewards x)" using farming_invD(6) [OF inv x(1)] by (simp add: staking_ok_def)
  have pay: "balance E b' (Account a) d = balance E (fm_bank s) (Account a) d
      + coins_amount [sk_Amount x, sk_PendingRewards x] d" for d
    using x(6) nn bank_send [OF assms(2) x(5), of "Account a" d]
      bank_send [OF assms(2), of b farming_acc "Account a" "[sk_PendingRewards x]" b' "Account a" d]
    by (auto simp: coins_amount_def split: if_splits)
  have "bech32_ok E a" using assms(4) by (auto simp: Unstake_def staker_ValidateBasic_def split: if_splits)
  then have "Unstake E now' a i s' = Inl farming_ErrInvalidStakingStatus" for now'
    by (simp add: Unstake_def staker_ValidateBasic_def HasStaking_def GetStaking_def x(2,8) kv_has_def)
  then show ?thesis using x nn pay
    by (intro exI [of _ x] exI [of _ "unstaked_of x"]) (auto simp: unstaked_of_def)
qed

theorem Unstake_correct_witness:
  "Unstake sample_env (8 * day) ''alice'' 1 f4 = Inl farming_ErrInvalidStakingStatus"
  using Unstake_correct [OF sample_dec_ok sample_bank_ok f_reachable(4) f4_eq] by blast

text \<open>
  When an epoch ends in a reachable state, the queue is emptied, no coin moves, and the
  rewards credited to all stakings together, \<open>pending_sum\<close>, grow by at most \<open>RewardPerEpoch\<close>:
  the truncated shares never exceed the budget.
\<close>

theorem epoch_rewards_within_budget:
  assumes "dec_ok E" "farming_reachable E authority s" "OnEpochEnded E s = Inr s'"
  shows "fm_queue s' = [] \<and> fm_bank s' = fm_bank s
    \<and> pending_sum s \<le> pending_sum s'
    \<and> pending_sum s' \<le> pending_sum s + Amount (fp_RewardPerEpoch (fm_params s))"
proof -
  have inv: "farming_inv E s" and q: "queue_ok s"
    using farming_reachable_ok [OF assms(1,2)] by (simp_all add: farming_ok_def)
  note e = OnEpochEnded_Inr [OF assms(3) inv q]
  have "0 \<le> sum_list (map (epoch_reward E s) (kv_keys (fm_queue s)))"
    by (rule sum_list_nonneg) (auto simp: epoch_reward_def split: sum.splits dest!: GetPendingReward_coin)
  then show ?thesis using e(3,5,7) epoch_rewards_le [OF assms(1) inv q e(11)] by auto
qed

theorem epoch_rewards_within_budget_witness:
  "pending_sum f2 < pending_sum (result_of (OnEpochEnded sample_env f2) f2)
   \<and> pending_sum (result_of (OnEpochEnded sample_env f2) f2) \<le> pending_sum f2 + 1000"
proof -
  have run: "OnEpochEnded sample_env f2 = Inr (result_of (OnEpochEnded sample_env f2) f2)"
    and less: "pending_sum f2 < pending_sum (result_of (OnEpochEnded sample_env f2) f2)"
    and "Amount (fp_RewardPerEpoch (fm_params f2)) = 1000" by code_simp+
  then show ?thesis using epoch_rewards_within_budget [OF sample_dec_ok f_reachable(3) run] by simp
qed



text \<open>
  Maturing is exact: after the maturing pass of a block a staking reads as before, except that
  one that was staked and whose lock has ended by the block time is unlocked.
\<close>

theorem mature_exact:
  assumes "dec_ok E" "farming_reachable E authority s"
  shows "kv_get (fm_stakings (handleMatureStakings now s)) i =
    map_option (\<lambda>x. if sk_Status x = ST_STAKED \<and> lock_end x \<le> now then x\<lparr>sk_Status := ST_UNLOCKED\<rparr> else x)
      (kv_get (fm_stakings s) i)"
proof -
  have "farming_inv E s" using farming_reachable_ok [OF assms] by (simp add: farming_ok_def)
  then show ?thesis by (rule handleMatureStakings_get)
qed

theorem mature_exact_witness:
  "map_option sk_Status (kv_get (fm_stakings (handleMatureStakings (7 * day) f2)) 1) = Some ST_UNLOCKED"
proof -
  have "map_option (\<lambda>x. (sk_Status x, lock_end x)) (kv_get (fm_stakings f2) 1) = Some (ST_STAKED, 7 * day)"
    by code_simp
  then obtain x where "kv_get (fm_stakings f2) 1 = Some x" "sk_Status x = ST_STAKED" "lock_end x = 7 * day" by auto
  then show ?thesis unfolding mature_exact [OF sample_dec_ok f_reachable(3)] by simp
qed

text \<open>
  A new epoch always starts in a reachable state whose queue is empty; it runs for
  \<open>EpochDuration\<close> and its queue holds exactly the stakings that are staked and
  locked at least until its end.
\<close>

theorem NewEpoch_queue:
  assumes "dec_ok E" "farming_reachable E authority s" "fm_queue s = []" "GetEpochId s \<noteq> - 1"
  shows "\<exists>s' e. NewEpoch now s = Inr s' \<and> GetCurrentEpoch s' = Some e \<and> ep_Status e = EP_STARTED
    \<and> ep_EndTime e = now + fp_EpochDuration (fm_params s) \<and> fm_stakings s' = fm_stakings s
    \<and> (\<forall>i. kv_has (fm_queue s') i \<longleftrightarrow> (\<exists>x. kv_get (fm_stakings s) i = Some x \<and> sk_Status x = ST_STAKED
          \<and> now + fp_EpochDuration (fm_params s) \<le> lock_end x))"
proof -
  have inv: "farming_inv E s" using farming_reachable_ok [OF assms(1,2)] by (simp add: farming_ok_def)
  have "(\<exists>x \<in> set (GetStakingsByStatus s ST_STAKED). sk_Id x = i \<and> t \<le> lock_end x) \<longleftrightarrow>
      (\<exists>x. kv_get (fm_stakings s) i = Some x \<and> sk_Status x = ST_STAKED \<and> t \<le> lock_end x)" for i t
  proof
    assume "\<exists>x \<in> set (GetStakingsByStatus s ST_STAKED). sk_Id x = i \<and> t \<le> lock_end x"
    then show "\<exists>x. kv_get (fm_stakings s) i = Some x \<and> sk_Status x = ST_STAKED \<and> t \<le> lock_end x"
      using GetStakingsByStatus_get [OF inv] by blast
  next
    assume "\<exists>x. kv_get (fm_stakings s) i = Some x \<and> sk_Status x = ST_STAKED \<and> t \<le> lock_end x"
    then obtain x where x: "kv_get (fm_stakings s) i = Some x" "sk_Status x = ST_STAKED" "t \<le> lock_end x" by blast
    have "i \<in> set (ids_with ST_STAKED (fm_by_status s))"
      using sk.ids_with_iff [OF farming_invD(1) [OF inv]] x by blast
    then have "x \<in> set (GetStakingsByStatus s ST_STAKED)"
      using GetStaking_get [OF x(1)] by (force simp: GetStakingsByStatus_def)
    then show "\<exists>x \<in> set (GetStakingsByStatus s ST_STAKED). sk_Id x = i \<and> t \<le> lock_end x"
      using farming_invD(4) [OF inv x(1)] x(3) by blast
  qed
  then show ?thesis using NewEpoch_Inr [OF inv assms(3,4), of now] by (auto simp: epoch_frame_def)
qed

theorem NewEpoch_queue_witness:
  "\<exists>s' e. NewEpoch 0 f1 = Inr s' \<and> GetCurrentEpoch s' = Some e \<and> ep_EndTime e = 0 + fp_EpochDuration (fm_params f1)"
proof -
  have "fm_queue f1 = []" "GetEpochId f1 \<noteq> - 1" by code_simp+
  from NewEpoch_queue [OF sample_dec_ok f_reachable(2) this, of 0] show ?thesis by blast
qed

text \<open>
  \<open>ClaimAll\<close> pays the caller exactly what is pending over all of the caller's stakings, in the
  reward denom, leaves nothing pending for the caller, and touches nobody else's rewards.
\<close>

theorem ClaimAll_correct:
  assumes "dec_ok E" "bank_ok E" "farming_reachable E authority s" "ClaimAll E a s = Inr s'"
  shows "balance E (fm_bank s') (Account a) (Denom (fp_RewardPerEpoch (fm_params s))) =
      balance E (fm_bank s) (Account a) (Denom (fp_RewardPerEpoch (fm_params s))) + pending_of a s
    \<and> pending_of a s' = 0 \<and> (\<forall>c. c \<noteq> a \<longrightarrow> pending_of c s' = pending_of c s)"
proof -
  have inv: "farming_inv E s" using farming_reachable_ok [OF assms(1,3)] by (simp add: farming_ok_def)
  obtain p b where p: "send_coins E (fm_bank s) farming_acc (Account a) [p] = Inr b" "fm_bank s' = b"
    "Denom p = Denom (fp_RewardPerEpoch (fm_params s))" "Amount p + pending_sum s' = pending_sum s"
    using ClaimAll_frame [OF inv assms(4)] by blast
  note pay = ClaimAll_pays [OF inv assms(4)]
  have "Amount p = pending_of a s" using p(4) pay(2) by simp
  then show ?thesis
    using bank_send [OF assms(2) p(1), of "Account a" "Denom p"] p(2,3) by (simp add: pay(1))
qed

theorem ClaimAll_correct_witness:
  "pending_of ''alice'' f3 = 1000 \<and> pending_of ''alice'' (result_of (ClaimAll sample_env ''alice'' f3) f3) = 0"
proof -
  have run: "ClaimAll sample_env ''alice'' f3 = Inr (result_of (ClaimAll sample_env ''alice'' f3) f3)"
    and "pending_of ''alice'' f3 = 1000" by code_simp+
  then show ?thesis using ClaimAll_correct [OF sample_dec_ok sample_bank_ok f_reachable(4) run] by blast
qed

lemma fold_SetStaking:
  "fm_stakings (fold SetStaking xs s) = fold (\<lambda>x. kv_set (sk_Id x) x) xs (fm_stakings s)"
  "fm_params (fold SetStaking xs s) = fm_params s"
  "fm_staking_id (fold SetStaking xs s) = fm_staking_id s"
  "fm_by_address (fold SetStaking xs s) = fm_by_address s"
  "fm_totals (fold SetStaking xs s) = fm_totals s"
  by (induction xs arbitrary: s) simp_all

lemma fold_SetStaking_index:
  "index_ok (fm_stakings s) (fm_by_status s) sk_Id sk_Status \<Longrightarrow>
     index_ok (fm_stakings (fold SetStaking xs s)) (fm_by_status (fold SetStaking xs s)) sk_Id sk_Status"
  by (induction xs arbitrary: s) (simp_all only: fold_simps sk.put_index_ok)

text \<open>
  Importing an exported genesis restores the parameters and the stakings, with a correct status
  index, so exporting again gives the same file; but the id counter, the address index and the
  totals per denom start empty (the next \<open>Stake\<close> draws id 1 again).
\<close>

theorem farming_genesis_roundtrip:
  assumes "sorted_wrt (<) (map sk_Id xs)" "farming_InitGenesis True p xs (farming_empty b p') = Inr s"
  shows "farming_ExportGenesis s = (p, xs)
    \<and> index_ok (fm_stakings s) (fm_by_status s) sk_Id sk_Status
    \<and> GetStakingId s = 0 \<and> fm_by_address s = [] \<and> fm_totals s = []"
proof -
  have s: "s = fold SetStaking xs ((farming_empty b p')\<lparr>fm_params := p\<rparr>)"
    using assms(2) by (simp add: farming_InitGenesis_def Let_def)
  have idx: "index_ok (fm_stakings s) (fm_by_status s) sk_Id sk_Status"
    unfolding s by (rule fold_SetStaking_index) (simp add: farming_empty_def index_ok_def)
  have "fm_stakings s = map (\<lambda>x. (sk_Id x, x)) xs"
    using fold_kv_set_sorted [OF assms(1), of "[]"]
    by (simp add: s fold_SetStaking farming_empty_def kv_keys_def)
  then show ?thesis using idx
    by (simp add: farming_ExportGenesis_def GetAllStakings_def comp_def GetStakingId_def)
      (simp add: s fold_SetStaking farming_empty_def)
qed

theorem farming_genesis_roundtrip_witness:
  "\<exists>s. farming_InitGenesis True sample_fparams (GetAllStakings f1) (farming_empty sample_ledger sample_fparams) = Inr s
     \<and> GetStakingId s = 0 \<and> GetStakingId f1 = 1"
proof -
  obtain s where s: "farming_InitGenesis True sample_fparams (GetAllStakings f1)
      (farming_empty sample_ledger sample_fparams) = Inr s" by (simp add: farming_InitGenesis_def Let_def)
  have "sorted_wrt (<) (map sk_Id (GetAllStakings f1))" "GetStakingId f1 = 1" by code_simp+
  then show ?thesis using farming_genesis_roundtrip [OF _ s] s by blast
qed

end
