(* ===== verification/Chain.thy ===== *)
theory Chain
  imports Status_Index
begin

text \<open>
  The lowest layer of the state: the bank, the oracle's stores of prices (\<open>x/oracle/keeper/price.go\<close>) and of Bitcoin
  block headers (\<open>x/oracle/keeper/bitcoin.go\<close>), and what other modules read of the Bitcoin bridge: the fee rate, how long
  it is valid and the depth at which a deposit is confirmed.
\<close>

section \<open>State\<close>

record fee_rate =
  fr_Value :: int
  fr_Height :: int

record block_header =
  bh_Version :: int
  bh_Hash :: string
  bh_Height :: int
  bh_PreviousBlockHash :: string
  bh_MerkleRoot :: string
  bh_Nonce :: u64
  bh_Bits :: string
  bh_Time :: int
  bh_Ntx :: int

definition zero_header :: block_header where
  "zero_header = \<lparr>bh_Version = 0, bh_Hash = '''', bh_Height = 0, bh_PreviousBlockHash = '''', bh_MerkleRoot = '''',
     bh_Nonce = 0, bh_Bits = '''', bh_Time = 0, bh_Ntx = 0\<rparr>"

record header_store =
  hs_headers :: "(string, block_header) kv"
  hs_by_height :: "(int, string) kv"
  hs_best :: "block_header option"

record 'b chain =
  ch_bank :: 'b
  ch_prices :: "(string, string) kv"
  ch_headers :: header_store
  ch_fee_rate :: fee_rate
  ch_fee_validity :: int
  ch_deposit_depth :: int

text \<open>Block time is in nanoseconds since the epoch; \<open>Unix()\<close> is in seconds.\<close>

definition unix :: "int \<Rightarrow> int" where
  "unix t = t div 10 ^ 9"

abbreviation "ErrNoPrice \<equiv> External ''no price set''"

definition HasPrice :: "('b, 'x) chain_scheme \<Rightarrow> string \<Rightarrow> bool" where
  "HasPrice s symbol = kv_has (ch_prices s) symbol"

definition SetPrice :: "string \<Rightarrow> string \<Rightarrow> ('b, 'x) chain_scheme \<Rightarrow> ('b, 'x) chain_scheme" where
  "SetPrice symbol price s = s\<lparr>ch_prices := kv_set symbol price (ch_prices s)\<rparr>"

text \<open>
  \<open>parse\<close> is \<open>LegacyNewDecFromStr\<close>; its error is dropped by the code, and the price is then the
  nil decimal, here \<open>None\<close>.
\<close>

definition GetPrice :: "(string \<Rightarrow> dec option) \<Rightarrow> ('b, 'x) chain_scheme \<Rightarrow> string \<Rightarrow> dec option res" where
  "GetPrice parse s symbol =
     (case kv_get (ch_prices s) symbol of None \<Rightarrow> Inl ErrNoPrice | Some str \<Rightarrow> Inr (parse str))"

text \<open>The fee rate of the bridge (\<open>x/btcbridge/keeper/fee_rate.go\<close>), valid for a number of blocks.\<close>

abbreviation "ErrInvalidFeeRate \<equiv> Registered ''btcbridge'' 3103"

definition SetFeeRate :: "int \<Rightarrow> int \<Rightarrow> ('b, 'x) chain_scheme \<Rightarrow> ('b, 'x) chain_scheme" where
  "SetFeeRate height v s = s\<lparr>ch_fee_rate := \<lparr>fr_Value = v, fr_Height = height\<rparr>\<rparr>"

definition GetFeeRate :: "('b, 'x) chain_scheme \<Rightarrow> fee_rate" where
  "GetFeeRate s = ch_fee_rate s"

definition CheckFeeRate :: "int \<Rightarrow> fee_rate \<Rightarrow> ('b, 'x) chain_scheme \<Rightarrow> unit res" where
  "CheckFeeRate height r s =
     (if fr_Value r = 0 \<or> ch_fee_validity s < height - fr_Height r then Inl ErrInvalidFeeRate else Inr ())"

section \<open>Bitcoin block headers\<close>

abbreviation "ErrInvalidBlockHeader \<equiv> Registered ''oracle'' 1100"
abbreviation "ErrInvalidBlockHeaders \<equiv> Registered ''oracle'' 1101"

definition HasBlockHeader :: "('b, 'x) chain_scheme \<Rightarrow> string \<Rightarrow> bool" where
  "HasBlockHeader s h = kv_has (hs_headers (ch_headers s)) h"

definition GetBlockHeader :: "('b, 'x) chain_scheme \<Rightarrow> string \<Rightarrow> block_header" where
  "GetBlockHeader s h = (case kv_get (hs_headers (ch_headers s)) h of None \<Rightarrow> zero_header | Some x \<Rightarrow> x)"

definition GetBestBlockHeader :: "('b, 'x) chain_scheme \<Rightarrow> block_header" where
  "GetBestBlockHeader s = (case hs_best (ch_headers s) of None \<Rightarrow> zero_header | Some x \<Rightarrow> x)"

definition SetBlockHeader :: "block_header \<Rightarrow> ('b, 'x) chain_scheme \<Rightarrow> ('b, 'x) chain_scheme" where
  "SetBlockHeader h s = s\<lparr>ch_headers := (ch_headers s)
     \<lparr>hs_headers := kv_set (bh_Hash h) h (hs_headers (ch_headers s)),
      hs_by_height := kv_set (bh_Height h) (bh_Hash h) (hs_by_height (ch_headers s))\<rparr>\<rparr>"

definition SetBestBlockHeader :: "block_header \<Rightarrow> ('b, 'x) chain_scheme \<Rightarrow> ('b, 'x) chain_scheme" where
  "SetBestBlockHeader h s = s\<lparr>ch_headers := (ch_headers s)\<lparr>hs_best := Some h\<rparr>\<rparr>"

definition GetBlockHashByHeight :: "('b, 'x) chain_scheme \<Rightarrow> int \<Rightarrow> string" where
  "GetBlockHashByHeight s n = (case kv_get (hs_by_height (ch_headers s)) n of None \<Rightarrow> '''' | Some h \<Rightarrow> h)"

definition GetBlockHeaderByHeight :: "('b, 'x) chain_scheme \<Rightarrow> int \<Rightarrow> block_header" where
  "GetBlockHeaderByHeight s n = GetBlockHeader s (GetBlockHashByHeight s n)"

text \<open>
  The headers are stored in the order of their heights as long as each continues the one before it; the
  headers before the first that does not stay stored. The result is whether all were stored.
\<close>

fun store_headers :: "block_header list \<Rightarrow> block_header \<Rightarrow> ('b, 'x) chain_scheme \<Rightarrow> bool \<times> ('b, 'x) chain_scheme" where
  "store_headers [] best s = (True, SetBestBlockHeader best s)"
| "store_headers (h # hs) best s =
     (if bh_Hash best \<noteq> '''' \<and> bh_Hash best \<noteq> bh_PreviousBlockHash h then (False, s)
      else store_headers hs h (SetBlockHeader h s))"

definition SetBlockHeaders :: "block_header list \<Rightarrow> ('b, 'x) chain_scheme \<Rightarrow> unit res \<times> ('b, 'x) chain_scheme" where
  "SetBlockHeaders hs s =
     (if hs = [] then (Inr (), s)
      else case store_headers (sort_key bh_Height hs) (GetBestBlockHeader s) s of
        (True, s) \<Rightarrow> (Inr (), s)
      | (False, s) \<Rightarrow> (Inl ErrInvalidBlockHeaders, s))"

end
