(* ===== verification/Tss.thy ===== *)
theory Tss
  imports Chain
begin

text \<open>
  The signing requests of the threshold-signing module (\<open>x/tss/keeper/signing.go\<close>), with their status index, as far as
  the lending protocol uses them. The records of the modules extend each
  other, so a function of one module applies to the state of every module above it:
  \<open>chain\<close> (bank, oracle and fee rate), \<open>tss\<close>, \<open>dlc\<close>, \<open>liq\<close>, \<open>lending\<close>.
\<close>

section \<open>Signing requests\<close>

datatype signing_status = SIGNING_UNSPECIFIED | SIGNING_PENDING | SIGNING_SIGNED | SIGNING_FAILED

fun signing_status_code :: "signing_status \<Rightarrow> nat" where
  "signing_status_code SIGNING_UNSPECIFIED = 0"
| "signing_status_code SIGNING_PENDING = 1"
| "signing_status_code SIGNING_SIGNED = 2"
| "signing_status_code SIGNING_FAILED = 3"

lemma signing_status_code_inj: "signing_status_code a = signing_status_code b \<Longrightarrow> a = b"
  by (cases a; cases b) auto

text \<open>The index is iterated in the order of the status numbers.\<close>

instantiation signing_status :: linorder
begin

definition less_eq_signing_status :: "signing_status \<Rightarrow> signing_status \<Rightarrow> bool" where
  "less_eq_signing_status a b \<longleftrightarrow> signing_status_code a \<le> signing_status_code b"

definition less_signing_status :: "signing_status \<Rightarrow> signing_status \<Rightarrow> bool" where
  "less_signing_status a b \<longleftrightarrow> signing_status_code a < signing_status_code b"

instance
  by standard
    (auto simp: less_eq_signing_status_def less_signing_status_def dest: signing_status_code_inj)

end

datatype signing_type = SIGNING_TYPE_SCHNORR | SIGNING_TYPE_SCHNORR_WITH_TWEAK
  | SIGNING_TYPE_SCHNORR_WITH_COMMITMENT | SIGNING_TYPE_SCHNORR_ADAPTOR

record signing_options =
  so_Tweak :: string
  so_Nonce :: string
  so_AdaptorPoint :: string

record signing_request =
  sr_Id :: u64
  sr_Module :: string
  sr_ScopedId :: string
  sr_Type :: signing_type
  sr_Intent :: int
  sr_PubKey :: string
  sr_SigHashes :: "string list"
  sr_Options :: "signing_options option"
  sr_CreationTime :: int
  sr_Status :: signing_status

definition zero_signing_request :: signing_request where
  "zero_signing_request = \<lparr>sr_Id = 0, sr_Module = '''', sr_ScopedId = '''', sr_Type = SIGNING_TYPE_SCHNORR,
     sr_Intent = 0, sr_PubKey = '''', sr_SigHashes = [], sr_Options = None, sr_CreationTime = 0,
     sr_Status = SIGNING_UNSPECIFIED\<rparr>"

record 'b tss = "'b chain" +
  tss_request_id :: "u64 option"
  tss_requests :: "(u64, signing_request) kv"
  tss_by_status :: "(signing_status \<times> u64, unit) kv"

definition GetSigningRequestId :: "('b, 'x) tss_scheme \<Rightarrow> u64" where
  "GetSigningRequestId s = (case tss_request_id s of None \<Rightarrow> 0 | Some i \<Rightarrow> i)"

definition IncrementSigningRequestId :: "('b, 'x) tss_scheme \<Rightarrow> u64 \<times> ('b, 'x) tss_scheme" where
  "IncrementSigningRequestId s = (let i = GetSigningRequestId s + 1 in (i, s\<lparr>tss_request_id := Some i\<rparr>))"

definition HasSigningRequest :: "('b, 'x) tss_scheme \<Rightarrow> u64 \<Rightarrow> bool" where
  "HasSigningRequest s i = kv_has (tss_requests s) i"

definition GetSigningRequest :: "('b, 'x) tss_scheme \<Rightarrow> u64 \<Rightarrow> signing_request" where
  "GetSigningRequest s i = (case kv_get (tss_requests s) i of None \<Rightarrow> zero_signing_request | Some r \<Rightarrow> r)"

definition RemoveSigningRequestStatus :: "u64 \<Rightarrow> ('b, 'x) tss_scheme \<Rightarrow> ('b, 'x) tss_scheme" where
  "RemoveSigningRequestStatus i s =
     s\<lparr>tss_by_status := kv_del (sr_Status (GetSigningRequest s i), i) (tss_by_status s)\<rparr>"

definition SetSigningRequestStatus ::
  "u64 \<Rightarrow> signing_status \<Rightarrow> ('b, 'x) tss_scheme \<Rightarrow> ('b, 'x) tss_scheme" where
  "SetSigningRequestStatus i st s =
     (let s = (if HasSigningRequest s i then RemoveSigningRequestStatus i s else s)
      in s\<lparr>tss_by_status := kv_set (st, i) () (tss_by_status s)\<rparr>)"

definition SetSigningRequest :: "signing_request \<Rightarrow> ('b, 'x) tss_scheme \<Rightarrow> ('b, 'x) tss_scheme" where
  "SetSigningRequest r s =
     (let s = SetSigningRequestStatus (sr_Id r) (sr_Status r) s
      in s\<lparr>tss_requests := kv_set (sr_Id r) r (tss_requests s)\<rparr>)"

definition GetSigningRequestsByStatus :: "('b, 'x) tss_scheme \<Rightarrow> signing_status \<Rightarrow> signing_request list" where
  "GetSigningRequestsByStatus s st = map (GetSigningRequest s) (ids_with st (tss_by_status s))"

definition GetAllSigningRequests :: "('b, 'x) tss_scheme \<Rightarrow> signing_request list" where
  "GetAllSigningRequests s = map snd (tss_requests s)"

definition InitiateSigningRequest ::
  "int \<Rightarrow> string \<Rightarrow> string \<Rightarrow> signing_type \<Rightarrow> int \<Rightarrow> string \<Rightarrow> string list \<Rightarrow> signing_options option \<Rightarrow>
   ('b, 'x) tss_scheme \<Rightarrow> signing_request \<times> ('b, 'x) tss_scheme" where
  "InitiateSigningRequest now m scoped ty intent pk hashes opts s =
     (case IncrementSigningRequestId s of (i, s) \<Rightarrow>
      let r = \<lparr>sr_Id = i, sr_Module = m, sr_ScopedId = scoped, sr_Type = ty, sr_Intent = intent,
               sr_PubKey = pk, sr_SigHashes = hashes, sr_Options = opts, sr_CreationTime = now,
               sr_Status = SIGNING_PENDING\<rparr>
      in (r, SetSigningRequest r s))"

section \<open>Simplification rules and the status index\<close>

lemma SetSigningRequest_simps [simp]:
  "tss_requests (SetSigningRequest r s) = kv_set (sr_Id r) r (tss_requests s)"
  "tss_request_id (SetSigningRequest r s) = tss_request_id s"
  "ch_bank (SetSigningRequest r s) = ch_bank s"
  "ch_prices (SetSigningRequest r s) = ch_prices s"
  "ch_fee_rate (SetSigningRequest r s) = ch_fee_rate s"
  "ch_fee_validity (SetSigningRequest r s) = ch_fee_validity s"
  "ch_headers (SetSigningRequest r s) = ch_headers s"
  "ch_deposit_depth (SetSigningRequest r s) = ch_deposit_depth s"
  "tss.more (SetSigningRequest r s) = tss.more s"
  by (simp_all add: SetSigningRequest_def SetSigningRequestStatus_def RemoveSigningRequestStatus_def Let_def)

lemma SetSigningRequest_by_status:
  "tss_by_status (SetSigningRequest r s) =
     kv_set (sr_Status r, sr_Id r) ()
       (case kv_get (tss_requests s) (sr_Id r) of None \<Rightarrow> tss_by_status s
        | Some y \<Rightarrow> kv_del (sr_Status y, sr_Id r) (tss_by_status s))"
  by (auto simp: SetSigningRequest_def SetSigningRequestStatus_def RemoveSigningRequestStatus_def Let_def
      HasSigningRequest_def GetSigningRequest_def kv_has_def split: option.splits)

interpretation sreq: status_indexed tss_requests tss_by_status SetSigningRequest sr_Id sr_Status
  by unfold_locales (simp_all add: SetSigningRequest_by_status)

text \<open>A new signing request leaves everything but the signing store alone.\<close>

definition tss_frame :: "('b, 'x) tss_scheme \<Rightarrow> ('b, 'x) tss_scheme \<Rightarrow> bool" where
  "tss_frame s s' \<longleftrightarrow> ch_bank s' = ch_bank s \<and> ch_prices s' = ch_prices s
     \<and> ch_fee_rate s' = ch_fee_rate s \<and> ch_fee_validity s' = ch_fee_validity s
     \<and> ch_headers s' = ch_headers s \<and> ch_deposit_depth s' = ch_deposit_depth s \<and> tss.more s' = tss.more s"

lemma InitiateSigningRequest_frame:
  "tss_frame s (snd (InitiateSigningRequest now m scoped ty intent pk hashes opts s))"
  by (simp add: tss_frame_def InitiateSigningRequest_def IncrementSigningRequestId_def Let_def)

end
