(* ===== verification/Go_Strings.thy ===== *)
theory Go_Strings
  imports Prelude
begin

text \<open>
  The functions of Go's standard library on strings the program uses: decimal formatting and
  \<open>strconv.ParseUint\<close> of identifiers, and the decoding of hexadecimal strings. Identifiers
  are passed between modules as decimal strings (\<open>ToScopedId\<close>, \<open>FromScopedId\<close>); they
  survive the trip.
\<close>

section \<open>Decimal numbers\<close>

definition digit_char :: "nat \<Rightarrow> char" where
  "digit_char d = char_of (48 + d)"

definition char_digit :: "char \<Rightarrow> nat option" where
  "char_digit c = (if 48 \<le> (of_char c :: nat) \<and> (of_char c :: nat) \<le> 57 then Some (of_char c - 48) else None)"

text \<open>\<open>fmt.Sprintf("%d", n)\<close> for a non-negative number.\<close>

fun dec_string :: "nat \<Rightarrow> string" where
  "dec_string n = (if n < 10 then [digit_char n] else dec_string (n div 10) @ [digit_char (n mod 10)])"

declare dec_string.simps [simp del]

text \<open>
  \<open>strconv.ParseUint(s, 10, 64)\<close> with the error dropped: an empty or malformed string reads as 0, a
  number beyond 64 bits as the largest one.
\<close>

fun parse_digits :: "nat \<Rightarrow> string \<Rightarrow> nat option" where
  "parse_digits acc [] = Some acc"
| "parse_digits acc (c # cs) =
     (case char_digit c of None \<Rightarrow> None | Some d \<Rightarrow> parse_digits (10 * acc + d) cs)"

definition parse_uint :: "string \<Rightarrow> u64" where
  "parse_uint s = (if s = [] then 0 else
     case parse_digits 0 s of None \<Rightarrow> 0 | Some n \<Rightarrow> if n < 2 ^ 64 then word_of_nat n else - 1)"

lemma char_digit_digit [simp]: "d < 10 \<Longrightarrow> char_digit (digit_char d) = Some d"
  by (simp add: char_digit_def digit_char_def)

lemma parse_digits_append:
  "parse_digits acc (xs @ ys) =
     (case parse_digits acc xs of None \<Rightarrow> None | Some n \<Rightarrow> parse_digits n ys)"
  by (induction xs arbitrary: acc) (auto split: option.splits)

lemma parse_digits_dec_string: "parse_digits 0 (dec_string n) = Some n"
proof (induction n rule: less_induct)
  case (less n)
  show ?case
  proof (cases "n < 10")
    case True
    then show ?thesis by (simp add: dec_string.simps [of n])
  next
    case False
    then have "parse_digits 0 (dec_string (n div 10)) = Some (n div 10)" by (intro less) simp
    then show ?thesis using False
      by (subst dec_string.simps) (simp add: parse_digits_append)
  qed
qed

lemma dec_string_not_Nil: "dec_string n \<noteq> []"
  by (subst dec_string.simps) auto

definition ToScopedId :: "u64 \<Rightarrow> string" where
  "ToScopedId i = dec_string (unat i)"

definition FromScopedId :: "string \<Rightarrow> u64" where
  "FromScopedId s = parse_uint s"

lemma FromScopedId_ToScopedId: "FromScopedId (ToScopedId i) = i"
  using unsigned_less [of i, where ?'a = nat]
  by (simp add: FromScopedId_def ToScopedId_def parse_uint_def parse_digits_dec_string dec_string_not_Nil)

section \<open>Hexadecimal strings\<close>

definition hex_digit :: "char \<Rightarrow> nat option" where
  "hex_digit c = (let n = of_char c :: nat in
     if 48 \<le> n \<and> n \<le> 57 then Some (n - 48)
     else if 97 \<le> n \<and> n \<le> 102 then Some (n - 87)
     else if 65 \<le> n \<and> n \<le> 70 then Some (n - 55) else None)"

text \<open>
  \<open>hex.DecodeString\<close>: the bytes decoded before the first malformed pair, and whether all of the
  string was well formed.
\<close>

fun hex_decode :: "string \<Rightarrow> string \<times> bool" where
  "hex_decode [] = ([], True)"
| "hex_decode [c] = ([], False)"
| "hex_decode (c # d # cs) =
     (case (hex_digit c, hex_digit d) of
        (Some h, Some l) \<Rightarrow> (case hex_decode cs of (bs, ok) \<Rightarrow> (char_of (16 * h + l) # bs, ok))
      | _ \<Rightarrow> ([], False))"

text \<open>\<open>hex.EncodeToString\<close>, and that decoding inverts it.\<close>

definition hex_char :: "nat \<Rightarrow> char" where
  "hex_char n = char_of (if n < 10 then 48 + n else 87 + n)"

definition hex_encode :: "string \<Rightarrow> string" where
  "hex_encode bs = concat (map (\<lambda>b. let n = of_char b :: nat in [hex_char (n div 16), hex_char (n mod 16)]) bs)"

lemma hex_digit_char: "n < 16 \<Longrightarrow> hex_digit (hex_char n) = Some n"
  by (auto simp: hex_digit_def hex_char_def Let_def)

lemma hex_decode_encode: "hex_decode (hex_encode bs) = (bs, True)"
proof (induction bs)
  case Nil
  then show ?case by (simp add: hex_encode_def)
next
  case (Cons b bs)
  have less: "(of_char b :: nat) < 256" by (cases b) (simp add: of_char_def horner_sum_simps)
  then have "(of_char b :: nat) div 16 < 16" by (simp add: less_mult_imp_div_less)
  then have "hex_decode (hex_encode (b # bs)) =
      (char_of (16 * (of_char b div 16) + of_char b mod 16 :: nat) # bs, True)"
    using Cons by (simp add: hex_encode_def Let_def hex_digit_char)
  then show ?case by simp
qed

section \<open>64-bit signed arithmetic\<close>

text \<open>The \<open>int64\<close> operations of Go wrap around.\<close>

definition i64 :: "int \<Rightarrow> int" where
  "i64 x = (x + 2 ^ 63) mod 2 ^ 64 - 2 ^ 63"

lemma i64_id: "- (2 ^ 63) \<le> x \<Longrightarrow> x < 2 ^ 63 \<Longrightarrow> i64 x = x"
  by (simp add: i64_def)

lemma i64_bounds: "- (2 ^ 63) \<le> i64 x" "i64 x < 2 ^ 63"
  using pos_mod_bound [of "2 ^ 64" "x + 2 ^ 63"] pos_mod_sign [of "2 ^ 64" "x + 2 ^ 63"]
  by (simp_all add: i64_def)

end
