(* ===== verification/Dlc.thy ===== *)
theory Dlc
  imports Tss Go_Strings
begin

text \<open>
  The discreet-log-contract module (\<open>x/dlc\<close>): oracles and their nonces, the events bound
  to loans, the attestations of triggered events, and the DCMs. A nonce received from a DKG makes a
  lending event that waits in a queue; a loan takes an event from the queue; the event is triggered
  with one of its outcomes, which requests a signature, and the signature becomes its
  attestation.
\<close>

abbreviation "dlc_ErrInvalidNonce \<equiv> Registered ''dlc'' 1100"
abbreviation "dlc_ErrDCMAlreadyExists \<equiv> Registered ''dlc'' 1102"
abbreviation "dlc_ErrOracleDoesNotExist \<equiv> Registered ''dlc'' 1103"
abbreviation "dlc_ErrOracleAlreadyExists \<equiv> Registered ''dlc'' 1104"
abbreviation "dlc_ErrEventDoesNotExist \<equiv> Registered ''dlc'' 1105"
abbreviation "dlc_ErrEventNotTriggered \<equiv> Registered ''dlc'' 1106"
abbreviation "dlc_ErrAttestationAlreadyExists \<equiv> Registered ''dlc'' 1107"

section \<open>Data\<close>

datatype dlc_event_type = EVENT_UNSPECIFIED | EVENT_PRICE | EVENT_DATE | EVENT_LENDING

record dlc_event =
  ev_Id :: u64
  ev_Type :: dlc_event_type
  ev_Nonce :: string
  ev_Pubkey :: string
  ev_Description :: string
  ev_Outcomes :: "string list"
  ev_HasTriggered :: bool
  ev_OutcomeIndex :: int
  ev_PublishAt :: int
  ev_TriggerAt :: int

record dlc_attestation =
  at_Id :: u64
  at_EventId :: u64
  at_Outcome :: string
  at_Pubkey :: string
  at_Signature :: string
  at_Time :: int

record dcm =
  dcm_Id :: u64
  dcm_DkgId :: u64
  dcm_Pubkey :: string
  dcm_Time :: int
  dcm_Enabled :: bool

record dlc_oracle =
  or_Id :: u64
  or_DkgId :: u64
  or_Pubkey :: string
  or_Time :: int
  or_Enabled :: bool

record dlc_nonce =
  no_Index :: u64
  no_Nonce :: string
  no_OraclePubkey :: string
  no_Time :: int

definition zero_event :: dlc_event where
  "zero_event = \<lparr>ev_Id = 0, ev_Type = EVENT_UNSPECIFIED, ev_Nonce = '''', ev_Pubkey = '''',
     ev_Description = '''', ev_Outcomes = [], ev_HasTriggered = False, ev_OutcomeIndex = 0,
     ev_PublishAt = 0, ev_TriggerAt = 0\<rparr>"

definition zero_attestation :: dlc_attestation where
  "zero_attestation = \<lparr>at_Id = 0, at_EventId = 0, at_Outcome = '''', at_Pubkey = '''',
     at_Signature = '''', at_Time = 0\<rparr>"

definition zero_dcm :: dcm where
  "zero_dcm = \<lparr>dcm_Id = 0, dcm_DkgId = 0, dcm_Pubkey = '''', dcm_Time = 0, dcm_Enabled = True\<rparr>"

definition zero_oracle :: dlc_oracle where
  "zero_oracle = \<lparr>or_Id = 0, or_DkgId = 0, or_Pubkey = '''', or_Time = 0, or_Enabled = True\<rparr>"

record 'b dlc = "'b tss" +
  dl_oracle_id :: "u64 option"
  dl_dcm_id :: "u64 option"
  dl_event_id :: "u64 option"
  dl_pending_count :: u64
  dl_attestation_id :: "u64 option"
  dl_oracles :: "(u64, dlc_oracle) kv"
  dl_oracle_by_key :: "(string, u64) kv"
  dl_dcms :: "(u64, dcm) kv"
  dl_dcm_by_key :: "(string, u64) kv"
  dl_nonce_index :: "(u64, u64) kv"
  dl_nonces :: "(u64 \<times> u64, dlc_nonce) kv"
  dl_nonce_values :: "(string, unit) kv"
  dl_events :: "(u64, dlc_event) kv"
  dl_event_status :: "(bool \<times> u64, unit) kv"
  dl_pending :: "(u64, unit) kv"
  dl_attestations :: "(u64, dlc_attestation) kv"
  dl_attestation_by_event :: "(u64, u64) kv"

definition counter :: "u64 option \<Rightarrow> u64" where
  "counter c = (case c of None \<Rightarrow> 0 | Some i \<Rightarrow> i)"

section \<open>Events\<close>

definition GetEventId :: "('b, 'x) dlc_scheme \<Rightarrow> u64" where
  "GetEventId s = counter (dl_event_id s)"

definition IncrementEventId :: "('b, 'x) dlc_scheme \<Rightarrow> u64 \<times> ('b, 'x) dlc_scheme" where
  "IncrementEventId s = (let i = GetEventId s + 1 in (i, s\<lparr>dl_event_id := Some i\<rparr>))"

definition HasEvent :: "('b, 'x) dlc_scheme \<Rightarrow> u64 \<Rightarrow> bool" where
  "HasEvent s i = kv_has (dl_events s) i"

definition GetEvent :: "('b, 'x) dlc_scheme \<Rightarrow> u64 \<Rightarrow> dlc_event" where
  "GetEvent s i = (case kv_get (dl_events s) i of None \<Rightarrow> zero_event | Some e \<Rightarrow> e)"

definition RemoveEventStatus :: "u64 \<Rightarrow> ('b, 'x) dlc_scheme \<Rightarrow> ('b, 'x) dlc_scheme" where
  "RemoveEventStatus i s =
     s\<lparr>dl_event_status := kv_del (ev_HasTriggered (GetEvent s i), i) (dl_event_status s)\<rparr>"

definition SetEventStatus :: "u64 \<Rightarrow> bool \<Rightarrow> ('b, 'x) dlc_scheme \<Rightarrow> ('b, 'x) dlc_scheme" where
  "SetEventStatus i trig s =
     (let s = (if HasEvent s i then RemoveEventStatus i s else s)
      in s\<lparr>dl_event_status := kv_set (trig, i) () (dl_event_status s)\<rparr>)"

definition SetEvent :: "dlc_event \<Rightarrow> ('b, 'x) dlc_scheme \<Rightarrow> ('b, 'x) dlc_scheme" where
  "SetEvent e s =
     (let s = SetEventStatus (ev_Id e) (ev_HasTriggered e) s
      in s\<lparr>dl_events := kv_set (ev_Id e) e (dl_events s)\<rparr>)"

definition GetPendingLendingEventCount :: "('b, 'x) dlc_scheme \<Rightarrow> u64" where
  "GetPendingLendingEventCount s = dl_pending_count s"

definition IncreasePendingLendingEventCount :: "('b, 'x) dlc_scheme \<Rightarrow> ('b, 'x) dlc_scheme" where
  "IncreasePendingLendingEventCount s = s\<lparr>dl_pending_count := dl_pending_count s + 1\<rparr>"

definition DecreasePendingLendingEventCount :: "('b, 'x) dlc_scheme \<Rightarrow> ('b, 'x) dlc_scheme" where
  "DecreasePendingLendingEventCount s =
     (if dl_pending_count s = 0 then s else s\<lparr>dl_pending_count := dl_pending_count s - 1\<rparr>)"

definition AddLendingEventToPendingQueue :: "dlc_event \<Rightarrow> ('b, 'x) dlc_scheme \<Rightarrow> ('b, 'x) dlc_scheme" where
  "AddLendingEventToPendingQueue e s =
     IncreasePendingLendingEventCount (s\<lparr>dl_pending := kv_set (ev_Id e) () (dl_pending s)\<rparr>)"

definition RemoveLendingEventFromPendingQueue :: "dlc_event \<Rightarrow> ('b, 'x) dlc_scheme \<Rightarrow> ('b, 'x) dlc_scheme" where
  "RemoveLendingEventFromPendingQueue e s =
     DecreasePendingLendingEventCount (s\<lparr>dl_pending := kv_del (ev_Id e) (dl_pending s)\<rparr>)"

text \<open>The first event of the pending queue, which is removed from it.\<close>

definition GetAvailableLendingEvent :: "('b, 'x) dlc_scheme \<Rightarrow> dlc_event option \<times> ('b, 'x) dlc_scheme" where
  "GetAvailableLendingEvent s =
     (case kv_keys (dl_pending s) of [] \<Rightarrow> (None, s)
      | i # _ \<Rightarrow> let e = GetEvent s i in (Some e, RemoveLendingEventFromPendingQueue e s))"

text \<open>
  \<open>digest\<close> is the base64 of the SHA-256 of the outcome. An outcome index outside the outcomes
  panics.
\<close>

definition TriggerDLCEvent ::
  "(string \<Rightarrow> string) \<Rightarrow> int \<Rightarrow> u64 \<Rightarrow> nat \<Rightarrow> ('b, 'x) dlc_scheme \<Rightarrow> ('b, 'x) dlc_scheme res" where
  "TriggerDLCEvent digest now i k s =
     (let e = (GetEvent s i)\<lparr>ev_HasTriggered := True, ev_OutcomeIndex := int k, ev_TriggerAt := now\<rparr>;
          s = SetEvent e s
      in if length (ev_Outcomes e) \<le> k then Inl Panic
         else Inr (snd (InitiateSigningRequest now ''dlc'' (ToScopedId (ev_Id e))
           SIGNING_TYPE_SCHNORR_WITH_COMMITMENT 0 (ev_Pubkey e) [digest (ev_Outcomes e ! k)]
           (Some \<lparr>so_Tweak = '''', so_Nonce = ev_Nonce e, so_AdaptorPoint = ''''\<rparr>) s)))"

definition GetAllEvents :: "('b, 'x) dlc_scheme \<Rightarrow> dlc_event list" where
  "GetAllEvents s = map snd (dl_events s)"

definition GetEventsByStatus :: "('b, 'x) dlc_scheme \<Rightarrow> bool \<Rightarrow> dlc_event list" where
  "GetEventsByStatus s trig = map (GetEvent s) (ids_with trig (dl_event_status s))"

section \<open>Attestations\<close>

definition GetAttestationId :: "('b, 'x) dlc_scheme \<Rightarrow> u64" where
  "GetAttestationId s = counter (dl_attestation_id s)"

definition IncrementAttestationId :: "('b, 'x) dlc_scheme \<Rightarrow> u64 \<times> ('b, 'x) dlc_scheme" where
  "IncrementAttestationId s = (let i = GetAttestationId s + 1 in (i, s\<lparr>dl_attestation_id := Some i\<rparr>))"

definition GetAttestation :: "('b, 'x) dlc_scheme \<Rightarrow> u64 \<Rightarrow> dlc_attestation" where
  "GetAttestation s i = (case kv_get (dl_attestations s) i of None \<Rightarrow> zero_attestation | Some a \<Rightarrow> a)"

definition SetAttestation :: "dlc_attestation \<Rightarrow> ('b, 'x) dlc_scheme \<Rightarrow> ('b, 'x) dlc_scheme" where
  "SetAttestation a s =
     s\<lparr>dl_attestations := kv_set (at_Id a) a (dl_attestations s),
       dl_attestation_by_event := kv_set (at_EventId a) (at_Id a) (dl_attestation_by_event s)\<rparr>"

definition HasAttestationByEvent :: "('b, 'x) dlc_scheme \<Rightarrow> u64 \<Rightarrow> bool" where
  "HasAttestationByEvent s i = kv_has (dl_attestation_by_event s) i"

definition GetAttestationByEvent :: "('b, 'x) dlc_scheme \<Rightarrow> u64 \<Rightarrow> dlc_attestation option" where
  "GetAttestationByEvent s i = map_option (GetAttestation s) (kv_get (dl_attestation_by_event s) i)"

text \<open>The triggered outcome is indexed again here: an index outside the outcomes panics.\<close>

definition HandleAttestation ::
  "int \<Rightarrow> u64 \<Rightarrow> string \<Rightarrow> ('b, 'x) dlc_scheme \<Rightarrow> ('b, 'x) dlc_scheme res" where
  "HandleAttestation now i sig s =
     (if \<not> HasEvent s i then Inl dlc_ErrEventDoesNotExist
      else let e = GetEvent s i in
      if \<not> ev_HasTriggered e then Inl dlc_ErrEventNotTriggered
      else if HasAttestationByEvent s i then Inl dlc_ErrAttestationAlreadyExists
      else case IncrementAttestationId s of (j, s) \<Rightarrow>
      if ev_OutcomeIndex e < 0 \<or> int (length (ev_Outcomes e)) \<le> ev_OutcomeIndex e then Inl Panic
      else Inr (SetAttestation \<lparr>at_Id = j, at_EventId = i, at_Outcome = ev_Outcomes e ! nat (ev_OutcomeIndex e),
             at_Pubkey = ev_Pubkey e, at_Signature = sig, at_Time = now\<rparr> s))"

definition dlc_SigningCompletedHandler ::
  "int \<Rightarrow> string \<Rightarrow> string list \<Rightarrow> ('b, 'x) dlc_scheme \<Rightarrow> ('b, 'x) dlc_scheme res" where
  "dlc_SigningCompletedHandler now scoped sigs s =
     (case sigs of [] \<Rightarrow> Inl Panic | sig # _ \<Rightarrow> HandleAttestation now (FromScopedId scoped) sig s)"

section \<open>DCMs\<close>

definition GetDCMId :: "('b, 'x) dlc_scheme \<Rightarrow> u64" where
  "GetDCMId s = counter (dl_dcm_id s)"

definition IncrementDCMId :: "('b, 'x) dlc_scheme \<Rightarrow> u64 \<times> ('b, 'x) dlc_scheme" where
  "IncrementDCMId s = (let i = GetDCMId s + 1 in (i, s\<lparr>dl_dcm_id := Some i\<rparr>))"

definition HasDCM :: "('b, 'x) dlc_scheme \<Rightarrow> u64 \<Rightarrow> bool" where
  "HasDCM s i = kv_has (dl_dcms s) i"

definition GetDCM :: "('b, 'x) dlc_scheme \<Rightarrow> u64 \<Rightarrow> dcm" where
  "GetDCM s i = (case kv_get (dl_dcms s) i of None \<Rightarrow> zero_dcm | Some d \<Rightarrow> d)"

definition SetDCM :: "dcm \<Rightarrow> ('b, 'x) dlc_scheme \<Rightarrow> ('b, 'x) dlc_scheme" where
  "SetDCM d s = s\<lparr>dl_dcms := kv_set (dcm_Id d) d (dl_dcms s)\<rparr>"

definition HasDCMByPubKey :: "('b, 'x) dlc_scheme \<Rightarrow> string \<Rightarrow> bool" where
  "HasDCMByPubKey s k = kv_has (dl_dcm_by_key s) k"

definition GetDCMByPubKey :: "('b, 'x) dlc_scheme \<Rightarrow> string \<Rightarrow> dcm option" where
  "GetDCMByPubKey s k = map_option (GetDCM s) (kv_get (dl_dcm_by_key s) k)"

definition SetDCMByPubKey :: "u64 \<Rightarrow> string \<Rightarrow> ('b, 'x) dlc_scheme \<Rightarrow> ('b, 'x) dlc_scheme" where
  "SetDCMByPubKey i k s = s\<lparr>dl_dcm_by_key := kv_set k i (dl_dcm_by_key s)\<rparr>"

definition CreateDCM :: "int \<Rightarrow> u64 \<Rightarrow> string \<Rightarrow> ('b, 'x) dlc_scheme \<Rightarrow> ('b, 'x) dlc_scheme res" where
  "CreateDCM now dkg pk s =
     (let bz = fst (hex_decode pk) in
      if HasDCMByPubKey s bz then Inl dlc_ErrDCMAlreadyExists
      else case IncrementDCMId s of (i, s) \<Rightarrow>
      Inr (SetDCMByPubKey i bz (SetDCM
        \<lparr>dcm_Id = i, dcm_DkgId = dkg, dcm_Pubkey = pk, dcm_Time = now, dcm_Enabled = True\<rparr> s)))"

definition GetDCMs :: "('b, 'x) dlc_scheme \<Rightarrow> bool \<Rightarrow> dcm list" where
  "GetDCMs s en = filter (\<lambda>d. dcm_Enabled d = en) (map snd (dl_dcms s))"

section \<open>Oracles and nonces\<close>

definition GetOracleId :: "('b, 'x) dlc_scheme \<Rightarrow> u64" where
  "GetOracleId s = counter (dl_oracle_id s)"

definition IncrementOracleId :: "('b, 'x) dlc_scheme \<Rightarrow> u64 \<times> ('b, 'x) dlc_scheme" where
  "IncrementOracleId s = (let i = GetOracleId s + 1 in (i, s\<lparr>dl_oracle_id := Some i\<rparr>))"

definition GetOracle :: "('b, 'x) dlc_scheme \<Rightarrow> u64 \<Rightarrow> dlc_oracle" where
  "GetOracle s i = (case kv_get (dl_oracles s) i of None \<Rightarrow> zero_oracle | Some x \<Rightarrow> x)"

definition HasOracleByPubKey :: "('b, 'x) dlc_scheme \<Rightarrow> string \<Rightarrow> bool" where
  "HasOracleByPubKey s k = kv_has (dl_oracle_by_key s) k"

definition GetOracleByPubKey :: "('b, 'x) dlc_scheme \<Rightarrow> string \<Rightarrow> dlc_oracle option" where
  "GetOracleByPubKey s k = map_option (GetOracle s) (kv_get (dl_oracle_by_key s) k)"

definition CreateOracle :: "int \<Rightarrow> u64 \<Rightarrow> string \<Rightarrow> ('b, 'x) dlc_scheme \<Rightarrow> ('b, 'x) dlc_scheme res" where
  "CreateOracle now dkg pk s =
     (let bz = fst (hex_decode pk) in
      if HasOracleByPubKey s bz then Inl dlc_ErrOracleAlreadyExists
      else case IncrementOracleId s of (i, s) \<Rightarrow>
      Inr (s\<lparr>dl_oracles := kv_set i \<lparr>or_Id = i, or_DkgId = dkg, or_Pubkey = pk, or_Time = now,
               or_Enabled = True\<rparr> (dl_oracles s),
             dl_oracle_by_key := kv_set bz i (dl_oracle_by_key s)\<rparr>))"

definition GetEventTypeFromIntent :: "int \<Rightarrow> dlc_event_type" where
  "GetEventTypeFromIntent intent =
     (if intent = 20000 then EVENT_DATE else if intent = 30000 then EVENT_LENDING else EVENT_PRICE)"

definition HasNonce :: "('b, 'x) dlc_scheme \<Rightarrow> string \<Rightarrow> bool" where
  "HasNonce s bz = kv_has (dl_nonce_values s) bz"

definition GetNonceIndex :: "('b, 'x) dlc_scheme \<Rightarrow> u64 \<Rightarrow> u64" where
  "GetNonceIndex s oid = counter (kv_get (dl_nonce_index s) oid)"

definition IncrementNonceIndex :: "u64 \<Rightarrow> ('b, 'x) dlc_scheme \<Rightarrow> u64 \<times> ('b, 'x) dlc_scheme" where
  "IncrementNonceIndex oid s =
     (let i = GetNonceIndex s oid + 1 in (i, s\<lparr>dl_nonce_index := kv_set oid i (dl_nonce_index s)\<rparr>))"

definition SetNonce :: "dlc_nonce \<Rightarrow> u64 \<Rightarrow> ('b, 'x) dlc_scheme \<Rightarrow> ('b, 'x) dlc_scheme" where
  "SetNonce n oid s = s\<lparr>dl_nonces := kv_set (oid, no_Index n) n (dl_nonces s)\<rparr>"

definition SetNonceByValue :: "string \<Rightarrow> ('b, 'x) dlc_scheme \<Rightarrow> ('b, 'x) dlc_scheme" where
  "SetNonceByValue bz s = s\<lparr>dl_nonce_values := kv_set bz () (dl_nonce_values s)\<rparr>"

text \<open>
  A price or date event is not stored: the handler returns after it has drawn the nonce index and the
  event id.
\<close>

definition HandleNonce ::
  "int \<Rightarrow> string \<Rightarrow> int \<Rightarrow> string \<Rightarrow> ('b, 'x) dlc_scheme \<Rightarrow> ('b, 'x) dlc_scheme res" where
  "HandleNonce now pk intent nonce s =
     (let bz = fst (hex_decode nonce); pkbz = fst (hex_decode pk) in
      if HasNonce s bz then Inl dlc_ErrInvalidNonce
      else case GetOracleByPubKey s pkbz of None \<Rightarrow> Inl dlc_ErrOracleDoesNotExist | Some ora \<Rightarrow>
      (case IncrementNonceIndex (or_Id ora) s of (n, s) \<Rightarrow>
       let dn = \<lparr>no_Index = n, no_Nonce = nonce, no_OraclePubkey = pk, no_Time = now\<rparr> in
       case IncrementEventId s of (i, s) \<Rightarrow>
       let e = zero_event\<lparr>ev_Id := i, ev_Type := GetEventTypeFromIntent intent, ev_Nonce := nonce,
                 ev_Pubkey := pk, ev_OutcomeIndex := - 1, ev_PublishAt := now\<rparr> in
       if ev_Type e = EVENT_LENDING then
         Inr (SetEvent e (SetNonceByValue bz (SetNonce dn (or_Id ora) (AddLendingEventToPendingQueue e s))))
       else Inr s))"

definition HandleNonces ::
  "int \<Rightarrow> string \<Rightarrow> string list \<Rightarrow> int \<Rightarrow> ('b, 'x) dlc_scheme \<Rightarrow> ('b, 'x) dlc_scheme res" where
  "HandleNonces now pk nonces intent s = fold_res (HandleNonce now pk intent) nonces s"

definition DKGCompletedHandler ::
  "int \<Rightarrow> u64 \<Rightarrow> string \<Rightarrow> int \<Rightarrow> string list \<Rightarrow> ('b, 'x) dlc_scheme \<Rightarrow> ('b, 'x) dlc_scheme res" where
  "DKGCompletedHandler now i ty intent pks s =
     (if ty = ''dcm'' then (case pks of [] \<Rightarrow> Inl Panic | pk # _ \<Rightarrow> CreateDCM now i pk s)
      else if ty = ''nonce'' then
        (case pks of [] \<Rightarrow> Inl Panic | pk # nonces \<Rightarrow>
           bind_res (CreateOracle now i pk s) (HandleNonces now pk nonces intent))
      else Inr s)"

end
