(* ===== verification/Base64.thy ===== *)
theory Base64
  imports Go_Strings
begin

text \<open>
  \<open>base64.StdEncoding.DecodeString\<close> of Go's standard library, and big-endian integers. Line
  breaks are skipped, the padding is required, trailing bits are ignored.
\<close>

definition b64_digit :: "char \<Rightarrow> nat option" where
  "b64_digit c = (let n = of_char c :: nat in
     if 65 \<le> n \<and> n \<le> 90 then Some (n - 65)
     else if 97 \<le> n \<and> n \<le> 122 then Some (n - 71)
     else if 48 \<le> n \<and> n \<le> 57 then Some (n + 4)
     else if n = 43 then Some 62 else if n = 47 then Some 63 else None)"

definition b64_pad :: char where
  "b64_pad = CHR 0x3D"

text \<open>
  One group of four characters at a time: the bytes decoded before the first malformed group, and
  whether all of the string was well formed. A padded group ends the string; the bytes of a padded
  group that is not the last are decoded, with an error.
\<close>

fun b64_groups :: "string \<Rightarrow> string \<times> bool" where
  "b64_groups [] = ([], True)"
| "b64_groups (a # b # c # d # cs) =
     (case (b64_digit a, b64_digit b) of
        (Some x, Some y) \<Rightarrow>
          (case (b64_digit c, b64_digit d) of
             (Some z, Some w) \<Rightarrow>
               (case b64_groups cs of (bs, ok) \<Rightarrow>
                 (char_of (4 * x + y div 16) # char_of (16 * (y mod 16) + z div 4) # char_of (64 * (z mod 4) + w) # bs, ok))
           | (Some z, None) \<Rightarrow>
               if d = b64_pad then ([char_of (4 * x + y div 16), char_of (16 * (y mod 16) + z div 4)], cs = [])
               else ([], False)
           | (None, _) \<Rightarrow> if c = b64_pad \<and> d = b64_pad then ([char_of (4 * x + y div 16)], cs = []) else ([], False))
      | _ \<Rightarrow> ([], False))"
| "b64_groups _ = ([], False)"

definition b64_decode :: "string \<Rightarrow> string \<times> bool" where
  "b64_decode s = b64_groups (filter (\<lambda>c. (of_char c :: nat) \<noteq> 10 \<and> (of_char c :: nat) \<noteq> 13) s)"

text \<open>\<open>binary.BigEndian.PutUint64\<close>\<close>

definition be64 :: "u64 \<Rightarrow> string" where
  "be64 w = map (\<lambda>k. char_of (unat w div 256 ^ (7 - k) mod 256)) [0..<8]"

text \<open>The padding decides the length: three bytes for a full group, two or one for a padded one.\<close>

lemma b64_length_le: "length (fst (b64_groups s)) * 4 \<le> length s * 3"
  by (induction s rule: b64_groups.induct) (auto split: option.splits prod.splits)

end
