(* ===== verification/Btc.thy ===== *)
theory Btc
  imports Chain Base64
begin

text \<open>
  Bitcoin transactions as the lending protocol builds and inspects them. A transaction is its
  inputs and outputs, a partially signed transaction (PSBT) a transaction with the data of its
  inputs. Serialisation, hashing, script and signature operations belong to \<open>btcd\<close> and to the
  curve library and are fields of the record \<open>btc_env\<close>.
\<close>

record tx_out =
  to_Value :: int
  to_PkScript :: string

record tx_in =
  ti_Hash :: string
  ti_Index :: int
  ti_Sequence :: int
  ti_Witness :: "string list"

record msg_tx =
  mt_Version :: int
  mt_TxIn :: "tx_in list"
  mt_TxOut :: "tx_out list"
  mt_LockTime :: int

record spend_sig =
  ss_PubKey :: string
  ss_LeafHash :: string
  ss_Signature :: string

record psbt_input =
  pi_WitnessUtxo :: "tx_out option"
  pi_InternalKey :: string
  pi_LeafScripts :: "(string \<times> string) list"
  pi_ScriptSigs :: "spend_sig list"
  pi_KeySig :: string
  pi_SighashType :: int

record psbt =
  ps_Tx :: msg_tx
  ps_Inputs :: "psbt_input list"

record utxo =
  ut_Txid :: string
  ut_Vout :: u64
  ut_Amount :: u64
  ut_PkScript :: string

definition DefaultSigHashType :: int where
  "DefaultSigHashType = 0"

text \<open>
  The third-party operations: \<open>tx_decode\<close> is \<open>MsgTx.Deserialize\<close>, \<open>tx_sane\<close> the structural checks of \<open>btcd\<close>, \<open>hash_bytes\<close> the
  32 bytes of a printed hash, \<open>merkle_branch\<close> the hash of two nodes of a Merkle tree, \<open>pk_script_of\<close> is \<open>DecodeAddress\<close> followed by \<open>PayToAddrScript\<close>,
  \<open>taproot_script\<close> the key-path script of a public key, \<open>mempool_vsize\<close> and \<open>tx_weight\<close> the sizes of a
  transaction with its witnesses, \<open>relay_dust\<close> the dust rule at the minimum relay fee. The
  leaf scripts of an input are pairs of control block and script.
\<close>

record 'b btc_env = "'b env" +
  tx_hash :: "msg_tx \<Rightarrow> string"
  tx_decode :: "string \<Rightarrow> msg_tx res"
  tx_sane :: "msg_tx \<Rightarrow> bool"
  hash_bytes :: "string \<Rightarrow> string"
  merkle_branch :: "string \<Rightarrow> string \<Rightarrow> string"
  hash_ok :: "string \<Rightarrow> bool"
  mempool_vsize :: "msg_tx \<Rightarrow> int"
  tx_weight :: "msg_tx \<Rightarrow> int"
  relay_dust :: "tx_out \<Rightarrow> bool"
  valid_btc_address :: "string \<Rightarrow> bool"
  pk_script_of :: "string \<Rightarrow> string res"
  taproot_script :: "string \<Rightarrow> string res"
  psbt_parse :: "string \<Rightarrow> psbt res"
  psbt_encode :: "psbt \<Rightarrow> string res"
  psbt_new :: "msg_tx \<Rightarrow> psbt res"
  psbt_finalize :: "psbt \<Rightarrow> psbt res"
  psbt_extract :: "psbt \<Rightarrow> msg_tx res"
  psbt_fee :: "psbt \<Rightarrow> int res"
  tx_serialize :: "msg_tx \<Rightarrow> string res"
  taproot_sighash :: "psbt \<Rightarrow> nat \<Rightarrow> string res"
  tapscript_sighash :: "psbt \<Rightarrow> nat \<Rightarrow> string \<Rightarrow> string res"
  leaf_hash :: "string \<Rightarrow> string"
  base64 :: "string \<Rightarrow> string"
  schnorr_verify :: "string \<Rightarrow> string \<Rightarrow> string \<Rightarrow> bool"
  adaptor_verify :: "string \<Rightarrow> string \<Rightarrow> string \<Rightarrow> string \<Rightarrow> bool"

section \<open>Outputs and sizes\<close>

definition OP_RETURN :: char where
  "OP_RETURN = char_of (106 :: nat)"

definition IsOpReturnOutput :: "tx_out \<Rightarrow> bool" where
  "IsOpReturnOutput out = (case to_PkScript out of [] \<Rightarrow> False | c # _ \<Rightarrow> c = OP_RETURN)"

definition btcbridge_IsDustOut :: "('b, 'e) btc_env_scheme \<Rightarrow> tx_out \<Rightarrow> bool" where
  "btcbridge_IsDustOut E out \<longleftrightarrow> \<not> IsOpReturnOutput out \<and> relay_dust E out"

text \<open>The address is assumed to be valid; the script of an invalid one is empty.\<close>

definition IsDustOut :: "('b, 'e) btc_env_scheme \<Rightarrow> int \<Rightarrow> string \<Rightarrow> bool" where
  "IsDustOut E v addr =
     (let out = \<lparr>to_Value = v, to_PkScript = (case pk_script_of E addr of Inl _ \<Rightarrow> [] | Inr s \<Rightarrow> s)\<rparr>
      in \<not> IsOpReturnOutput out \<and> relay_dust E out)"

definition PopulateTxWithDummyWitness :: "msg_tx \<Rightarrow> nat \<Rightarrow> msg_tx" where
  "PopulateTxWithDummyWitness tx n =
     tx\<lparr>mt_TxIn := map (\<lambda>i. if ti_Witness i = [] then i\<lparr>ti_Witness := [replicate n (char_of (0 :: nat))]\<rparr> else i)
          (mt_TxIn tx)\<rparr>"

definition GetTxVirtualSize :: "('b, 'e) btc_env_scheme \<Rightarrow> msg_tx \<Rightarrow> nat \<Rightarrow> int" where
  "GetTxVirtualSize E tx n = mempool_vsize E (PopulateTxWithDummyWitness tx n)"

definition MaxTransactionWeight :: int where
  "MaxTransactionWeight = 400000"

definition CheckTransactionWeight :: "error \<Rightarrow> ('b, 'e) btc_env_scheme \<Rightarrow> msg_tx \<Rightarrow> nat \<Rightarrow> unit res" where
  "CheckTransactionWeight err E tx n =
     (if MaxTransactionWeight < tx_weight E (PopulateTxWithDummyWitness tx n) then Inl err else Inr ())"

text \<open>An input that spends an unspent output; the hash string is parsed and a malformed one panics.\<close>

definition AddUTXOToTx :: "('b, 'e) btc_env_scheme \<Rightarrow> 'u utxo_scheme \<Rightarrow> msg_tx \<Rightarrow> msg_tx res" where
  "AddUTXOToTx E u tx =
     (if \<not> hash_ok E (ut_Txid u) then Inl Panic
      else Inr (tx\<lparr>mt_TxIn := mt_TxIn tx @
        [\<lparr>ti_Hash = ut_Txid u, ti_Index = uint (ut_Vout u) mod 2 ^ 32, ti_Sequence = 0, ti_Witness = []\<rparr>]\<rparr>))"

definition NewMsgTx :: msg_tx where
  "NewMsgTx = \<lparr>mt_Version = 2, mt_TxIn = [], mt_TxOut = [], mt_LockTime = 0\<rparr>"

text \<open>Sums of amounts in \<open>int64\<close>.\<close>

definition in_amount :: "'u utxo_scheme list \<Rightarrow> int" where
  "in_amount us = fold (\<lambda>u a. i64 (a + sint (ut_Amount u))) us 0"

definition out_amount :: "tx_out list \<Rightarrow> int" where
  "out_amount os = fold (\<lambda>out a. i64 (a + to_Value out)) os 0"

definition signed_index :: "'a list \<Rightarrow> nat \<Rightarrow> 'a res" where
  "signed_index xs i = (if i < length xs then Inr (xs ! i) else Inl Panic)"

lemma out_amount_sum:
  assumes "\<And>out. out \<in> set os \<Longrightarrow> 0 \<le> to_Value out" "a + sum_list (map to_Value os) < 2 ^ 63" "0 \<le> a"
  shows "fold (\<lambda>out a. i64 (a + to_Value out)) os a = a + sum_list (map to_Value os)"
  using assms
proof (induction os arbitrary: a)
  case Nil
  then show ?case by simp
next
  case (Cons out os)
  have nn: "0 \<le> sum_list (map to_Value os)" using Cons.prems(1) by (intro sum_list_nonneg) auto
  have "0 \<le> to_Value out" using Cons.prems(1) by simp
  then have "i64 (a + to_Value out) = a + to_Value out"
    using Cons.prems(2,3) nn by (intro i64_id) auto
  then show ?case using Cons.IH [of "a + to_Value out"] Cons.prems by simp
qed

end
