(* ===== verification/Liquidation.thy ===== *)
theory Liquidation
  imports Dlc Btc
begin

text \<open>
  The liquidation module (\<open>x/liquidation\<close>): the liquidations of defaulted or under-collateralised
  loans, the partial liquidations by liquidators and their records. The parts of the module that
  call back into lending (settlement, block handlers) follow in \<open>Liquidation_Flow\<close>.
\<close>

abbreviation "liq_ErrInvalidSender \<equiv> Registered ''liquidation'' 1100"
abbreviation "liq_ErrInvalidAmount \<equiv> Registered ''liquidation'' 1101"
abbreviation "liq_ErrLiquidationDoesNotExist \<equiv> Registered ''liquidation'' 1102"
abbreviation "liq_ErrInvalidLiquidationStatus \<equiv> Registered ''liquidation'' 1103"
abbreviation "liq_ErrInvalidPrice \<equiv> Registered ''liquidation'' 1104"
abbreviation "liq_ErrInvalidParams \<equiv> Registered ''liquidation'' 2100"
abbreviation "ErrBech32Addr \<equiv> External ''bech32''"
abbreviation "ErrGovInvalidSigner \<equiv> External ''gov: invalid signer''"

section \<open>Data\<close>

datatype liquidation_status = LQ_UNSPECIFIED | LQ_LIQUIDATING | LQ_LIQUIDATED | LQ_SETTLING | LQ_SETTLED

fun liquidation_status_code :: "liquidation_status \<Rightarrow> nat" where
  "liquidation_status_code LQ_UNSPECIFIED = 0"
| "liquidation_status_code LQ_LIQUIDATING = 1"
| "liquidation_status_code LQ_LIQUIDATED = 2"
| "liquidation_status_code LQ_SETTLING = 3"
| "liquidation_status_code LQ_SETTLED = 4"

lemma liquidation_status_code_inj: "liquidation_status_code a = liquidation_status_code b \<Longrightarrow> a = b"
  by (cases a; cases b) auto

instantiation liquidation_status :: linorder
begin

definition less_eq_liquidation_status :: "liquidation_status \<Rightarrow> liquidation_status \<Rightarrow> bool" where
  "less_eq_liquidation_status a b \<longleftrightarrow> liquidation_status_code a \<le> liquidation_status_code b"

definition less_liquidation_status :: "liquidation_status \<Rightarrow> liquidation_status \<Rightarrow> bool" where
  "less_liquidation_status a b \<longleftrightarrow> liquidation_status_code a < liquidation_status_code b"

instance
  by standard
    (auto simp: less_eq_liquidation_status_def less_liquidation_status_def dest: liquidation_status_code_inj)

end

record asset_metadata =
  am_Denom :: string
  am_Symbol :: string
  am_Decimals :: int
  am_PriceSymbol :: string
  am_IsBasePriceAsset :: bool

record liquidation =
  lq_Id :: u64
  lq_LoanId :: string
  lq_Debtor :: string
  lq_DCM :: string
  lq_CollateralAmount :: coin
  lq_ActualCollateralAmount :: coin
  lq_DebtAmount :: coin
  lq_CollateralAsset :: asset_metadata
  lq_DebtAsset :: asset_metadata
  lq_LiquidationPrice :: "dec option"
  lq_LiquidationTime :: int
  lq_LiquidatedCollateralAmount :: coin
  lq_LiquidatedDebtAmount :: coin
  lq_LiquidationBonusAmount :: coin
  lq_ProtocolLiquidationFee :: coin
  lq_UnliquidatedCollateralAmount :: coin
  lq_AccruedInterest :: coin
  lq_LiquidationCet :: string
  lq_SettlementTx :: string
  lq_SettlementTxId :: string
  lq_Status :: liquidation_status

record liquidation_record =
  lr_Id :: u64
  lr_LiquidationId :: u64
  lr_Liquidator :: string
  lr_DebtAmount :: coin
  lr_CollateralAmount :: coin
  lr_BonusAmount :: coin
  lr_Time :: int

record liquidation_params =
  lp_MinLiquidationFactor :: dec
  lp_LiquidationBonusFactor :: dec
  lp_ProtocolLiquidationFeeFactor :: dec
  lp_ProtocolLiquidationFeeCollector :: string

definition nil_coin :: coin where
  "nil_coin = \<lparr>Denom = '''', Amount = 0\<rparr>"

definition zero_asset_metadata :: asset_metadata where
  "zero_asset_metadata = \<lparr>am_Denom = '''', am_Symbol = '''', am_Decimals = 0, am_PriceSymbol = '''',
     am_IsBasePriceAsset = False\<rparr>"

definition zero_liquidation :: liquidation where
  "zero_liquidation = \<lparr>lq_Id = 0, lq_LoanId = '''', lq_Debtor = '''', lq_DCM = '''',
     lq_CollateralAmount = nil_coin, lq_ActualCollateralAmount = nil_coin, lq_DebtAmount = nil_coin,
     lq_CollateralAsset = zero_asset_metadata, lq_DebtAsset = zero_asset_metadata,
     lq_LiquidationPrice = None, lq_LiquidationTime = 0, lq_LiquidatedCollateralAmount = nil_coin,
     lq_LiquidatedDebtAmount = nil_coin, lq_LiquidationBonusAmount = nil_coin,
     lq_ProtocolLiquidationFee = nil_coin, lq_UnliquidatedCollateralAmount = nil_coin,
     lq_AccruedInterest = nil_coin, lq_LiquidationCet = '''', lq_SettlementTx = '''',
     lq_SettlementTxId = '''', lq_Status = LQ_UNSPECIFIED\<rparr>"

definition zero_liquidation_record :: liquidation_record where
  "zero_liquidation_record = \<lparr>lr_Id = 0, lr_LiquidationId = 0, lr_Liquidator = '''', lr_DebtAmount = nil_coin,
     lr_CollateralAmount = nil_coin, lr_BonusAmount = nil_coin, lr_Time = 0\<rparr>"

text \<open>The environment of the module adds the SDK's decimal parser and the digest of an outcome.\<close>

record 'b lq_env = "'b btc_env" +
  parse_dec :: "string \<Rightarrow> dec option"
  outcome_digest :: "string \<Rightarrow> string"

record 'b liq = "'b dlc" +
  li_params :: liquidation_params
  li_id :: "u64 option"
  li_record_id :: "u64 option"
  li_store :: "(u64, liquidation) kv"
  li_by_status :: "(liquidation_status \<times> u64, unit) kv"
  li_records :: "(u64, liquidation_record) kv"
  li_records_by :: "(u64 \<times> u64, unit) kv"

abbreviation liquidation_acc :: acct where
  "liquidation_acc \<equiv> ModuleAcc ''liquidation''"

section \<open>Parameters\<close>

definition liquidation_DefaultParams :: "string \<Rightarrow> liquidation_params" where
  "liquidation_DefaultParams gov = \<lparr>lp_MinLiquidationFactor = 2 * 10 ^ 16,
     lp_LiquidationBonusFactor = 5 * 10 ^ 16, lp_ProtocolLiquidationFeeFactor = 10 ^ 17,
     lp_ProtocolLiquidationFeeCollector = gov\<rparr>"

definition liquidation_Params_Validate :: "('b, 'e) env_scheme \<Rightarrow> liquidation_params \<Rightarrow> unit res" where
  "liquidation_Params_Validate E p =
     (if \<not> 0 < lp_MinLiquidationFactor p \<or> dec_one < lp_MinLiquidationFactor p then Inl liq_ErrInvalidParams
      else if \<not> 0 < lp_LiquidationBonusFactor p \<or> 10 ^ 17 < lp_LiquidationBonusFactor p then Inl liq_ErrInvalidParams
      else if lp_ProtocolLiquidationFeeFactor p < 0 \<or> dec_one \<le> lp_ProtocolLiquidationFeeFactor p
      then Inl liq_ErrInvalidParams
      else if \<not> bech32_ok E (lp_ProtocolLiquidationFeeCollector p) then Inl liq_ErrInvalidParams
      else Inr ())"

definition liquidation_UpdateParams ::
  "('b, 'e) env_scheme \<Rightarrow> string \<Rightarrow> string \<Rightarrow> liquidation_params \<Rightarrow> ('b, 'x) liq_scheme \<Rightarrow> ('b, 'x) liq_scheme res" where
  "liquidation_UpdateParams E authority signer p s =
     (if authority \<noteq> signer then Inl ErrGovInvalidSigner
      else if \<not> bech32_ok E signer then Inl ErrBech32Addr
      else bind_res (liquidation_Params_Validate E p) (\<lambda>_. Inr (s\<lparr>li_params := p\<rparr>)))"

section \<open>Prices and amounts\<close>

definition liquidation_GetPricePair :: "liquidation \<Rightarrow> string" where
  "liquidation_GetPricePair l =
     (if am_IsBasePriceAsset (lq_CollateralAsset l)
      then am_PriceSymbol (lq_CollateralAsset l) @ am_PriceSymbol (lq_DebtAsset l)
      else am_PriceSymbol (lq_DebtAsset l) @ am_PriceSymbol (lq_CollateralAsset l))"

text \<open>
  \<open>NewIntWithDecimal(1, n)\<close> panics on a negative exponent and the decimal division on a zero
  divisor.
\<close>

definition GetCollateralAmount ::
  "('b, 'e) env_scheme \<Rightarrow> int \<Rightarrow> int \<Rightarrow> int \<Rightarrow> dec \<Rightarrow> bool \<Rightarrow> int res" where
  "GetCollateralAmount E debt dd cd price base =
     (if dd < 0 \<or> cd < 0 then Inl Panic
      else if base then
        (if price = 0 then Inl Panic
         else Inr (truncate_int (dec_quo E (to_dec (tdiv (debt * 10 ^ nat cd) (10 ^ nat dd))) price)))
      else Inr (truncate_int (dec_quo_int E (dec_mul E (to_dec (debt * 10 ^ nat cd)) price) (10 ^ nat dd))))"

definition GetDebtAmount ::
  "('b, 'e) env_scheme \<Rightarrow> int \<Rightarrow> int \<Rightarrow> int \<Rightarrow> dec \<Rightarrow> bool \<Rightarrow> int res" where
  "GetDebtAmount E coll cd dd price base =
     (if dd < 0 \<or> cd < 0 then Inl Panic
      else if base then
        Inr (truncate_int (dec_quo_int E (dec_mul E (to_dec (coll * 10 ^ nat dd)) price) (10 ^ nat cd)))
      else
        (if price = 0 then Inl Panic
         else Inr (truncate_int (dec_quo E (to_dec (tdiv (coll * 10 ^ nat dd) (10 ^ nat cd))) price))))"

text \<open>\<open>Int.Int64\<close> panics outside the 64-bit range.\<close>

definition to_int64 :: "int \<Rightarrow> int res" where
  "to_int64 x = (if - (2 ^ 63) \<le> x \<and> x < 2 ^ 63 then Inr x else Inl Panic)"

definition LiquidationNetworkFeeReserve :: int where
  "LiquidationNetworkFeeReserve = 10000"

definition DefaultDustOutValue :: int where
  "DefaultDustOutValue = 546"

section \<open>The stores\<close>

definition GetLiquidationId :: "('b, 'x) liq_scheme \<Rightarrow> u64" where
  "GetLiquidationId s = counter (li_id s)"

definition IncrementLiquidationId :: "('b, 'x) liq_scheme \<Rightarrow> u64 \<times> ('b, 'x) liq_scheme" where
  "IncrementLiquidationId s = (let i = GetLiquidationId s + 1 in (i, s\<lparr>li_id := Some i\<rparr>))"

definition HasLiquidation :: "('b, 'x) liq_scheme \<Rightarrow> u64 \<Rightarrow> bool" where
  "HasLiquidation s i = kv_has (li_store s) i"

definition GetLiquidation :: "('b, 'x) liq_scheme \<Rightarrow> u64 \<Rightarrow> liquidation" where
  "GetLiquidation s i = (case kv_get (li_store s) i of None \<Rightarrow> zero_liquidation | Some l \<Rightarrow> l)"

definition RemoveLiquidationStatus :: "u64 \<Rightarrow> ('b, 'x) liq_scheme \<Rightarrow> ('b, 'x) liq_scheme" where
  "RemoveLiquidationStatus i s =
     s\<lparr>li_by_status := kv_del (lq_Status (GetLiquidation s i), i) (li_by_status s)\<rparr>"

definition SetLiquidationStatus ::
  "u64 \<Rightarrow> liquidation_status \<Rightarrow> ('b, 'x) liq_scheme \<Rightarrow> ('b, 'x) liq_scheme" where
  "SetLiquidationStatus i st s =
     (let s = (if HasLiquidation s i then RemoveLiquidationStatus i s else s)
      in s\<lparr>li_by_status := kv_set (st, i) () (li_by_status s)\<rparr>)"

definition SetLiquidation :: "liquidation \<Rightarrow> ('b, 'x) liq_scheme \<Rightarrow> ('b, 'x) liq_scheme" where
  "SetLiquidation l s =
     (let s = SetLiquidationStatus (lq_Id l) (lq_Status l) s
      in s\<lparr>li_store := kv_set (lq_Id l) l (li_store s)\<rparr>)"

definition CreateLiquidation ::
  "liquidation \<Rightarrow> ('b, 'x) liq_scheme \<Rightarrow> (liquidation \<times> ('b, 'x) liq_scheme) res" where
  "CreateLiquidation l s =
     (case IncrementLiquidationId s of (i, s) \<Rightarrow>
      bind_res (coin_sub (lq_ActualCollateralAmount l) (lq_LiquidatedCollateralAmount l)) (\<lambda>u.
      bind_res (coin_sub_amount u LiquidationNetworkFeeReserve) (\<lambda>u.
      let l = l\<lparr>lq_Id := i, lq_UnliquidatedCollateralAmount := u, lq_Status := LQ_LIQUIDATING\<rparr>
      in Inr (l, SetLiquidation l s))))"

definition GetAllLiquidations :: "('b, 'x) liq_scheme \<Rightarrow> liquidation list" where
  "GetAllLiquidations s = map snd (li_store s)"

definition GetLiquidationsByStatus :: "('b, 'x) liq_scheme \<Rightarrow> liquidation_status \<Rightarrow> liquidation list" where
  "GetLiquidationsByStatus s st = map (GetLiquidation s) (ids_with st (li_by_status s))"

definition GetLiquidationRecordId :: "('b, 'x) liq_scheme \<Rightarrow> u64" where
  "GetLiquidationRecordId s = counter (li_record_id s)"

definition IncrementLiquidationRecordId :: "('b, 'x) liq_scheme \<Rightarrow> u64 \<times> ('b, 'x) liq_scheme" where
  "IncrementLiquidationRecordId s =
     (let i = GetLiquidationRecordId s + 1 in (i, s\<lparr>li_record_id := Some i\<rparr>))"

definition HasLiquidationRecord :: "('b, 'x) liq_scheme \<Rightarrow> u64 \<Rightarrow> bool" where
  "HasLiquidationRecord s i = kv_has (li_records s) i"

definition GetLiquidationRecord :: "('b, 'x) liq_scheme \<Rightarrow> u64 \<Rightarrow> liquidation_record" where
  "GetLiquidationRecord s i =
     (case kv_get (li_records s) i of None \<Rightarrow> zero_liquidation_record | Some r \<Rightarrow> r)"

definition SetLiquidationRecord :: "liquidation_record \<Rightarrow> ('b, 'x) liq_scheme \<Rightarrow> ('b, 'x) liq_scheme" where
  "SetLiquidationRecord r s =
     s\<lparr>li_records := kv_set (lr_Id r) r (li_records s),
       li_records_by := kv_set (lr_LiquidationId r, lr_Id r) () (li_records_by s)\<rparr>"

definition GetAllLiquidationRecords :: "('b, 'x) liq_scheme \<Rightarrow> liquidation_record list" where
  "GetAllLiquidationRecords s = map snd (li_records s)"

definition GetLiquidationRecords :: "('b, 'x) liq_scheme \<Rightarrow> u64 \<Rightarrow> liquidation_record list" where
  "GetLiquidationRecords s i = map (GetLiquidationRecord s) (ids_with i (li_records_by s))"

section \<open>Liquidating\<close>

text \<open>The debt a liquidator must bring: the minimum, or all that remains when less remains.\<close>

definition min_liquidation_debt :: "('b, 'e) env_scheme \<Rightarrow> ('b, 'x) liq_scheme \<Rightarrow> liquidation \<Rightarrow> int" where
  "min_liquidation_debt E s l =
     truncate_int (dec_mul E (to_dec (Amount (lq_DebtAmount l))) (lp_MinLiquidationFactor (li_params s)))"

definition HandleLiquidation ::
  "('b, 'e) lq_env_scheme \<Rightarrow> int \<Rightarrow> string \<Rightarrow> u64 \<Rightarrow> coin \<Rightarrow> ('b, 'x) liq_scheme \<Rightarrow>
   (liquidation_record \<times> ('b, 'x) liq_scheme) res" where
  "HandleLiquidation E now liquidator i debt s =
     (if \<not> HasLiquidation s i then Inl liq_ErrLiquidationDoesNotExist
      else let l = GetLiquidation s i in
      if lq_Status l \<noteq> LQ_LIQUIDATING then Inl liq_ErrInvalidLiquidationStatus
      else if Denom debt \<noteq> am_Denom (lq_DebtAsset l) then Inl liq_ErrInvalidAmount
      else let rc = lq_UnliquidatedCollateralAmount l in
      bind_res (coin_sub (lq_DebtAmount l) (lq_LiquidatedDebtAmount l)) (\<lambda>rd.
      if Amount rc = 0 \<or> Amount rd = 0 then Inl liq_ErrInvalidAmount
      else let m = min_liquidation_debt E s l in
      if m \<le> Amount rd \<and> Amount debt < m then Inl liq_ErrInvalidAmount
      else if Amount rd < m \<and> Amount debt < Amount rd then Inl liq_ErrInvalidAmount
      else if Denom rd \<noteq> Denom debt then Inl Panic
      else let debt = (if Amount rd < Amount debt then rd else debt) in
      case GetPrice (parse_dec E) s (liquidation_GetPricePair l) of
        Inl _ \<Rightarrow> Inl liq_ErrInvalidPrice
      | Inr None \<Rightarrow> Inl Panic
      | Inr (Some price) \<Rightarrow>
      let cd = am_Decimals (lq_CollateralAsset l); dd = am_Decimals (lq_DebtAsset l);
          base = am_IsBasePriceAsset (lq_CollateralAsset l) in
      bind_res (GetCollateralAmount E (Amount debt) dd cd price base) (\<lambda>c0.
      bind_res (if Amount rc < c0
                then bind_res (GetDebtAmount E (Amount rc) cd dd price base) (\<lambda>d. Inr (Amount rc, debt\<lparr>Amount := d\<rparr>))
                else Inr (c0, debt)) (\<lambda>(c, debt).
      if \<not> bech32_ok E liquidator then Inl Panic
      else bind_res (send_coins E (ch_bank s) (Account liquidator) liquidation_acc [debt]) (\<lambda>b.
      let s = s\<lparr>ch_bank := b\<rparr> in
      bind_res (coin_sub_amount rc c) (\<lambda>rc.
      let bd = truncate_int (dec_mul E (to_dec (Amount debt)) (lp_LiquidationBonusFactor (li_params s))) in
      bind_res (GetCollateralAmount E bd dd cd price base) (\<lambda>bonus0.
      let bonus = (if Amount rc < bonus0 then Amount rc else bonus0) in
      bind_res (to_int64 (c + bonus)) (\<lambda>out.
      if IsDustOut E out liquidator then Inl liq_ErrInvalidAmount
      else let fee = truncate_int (dec_mul E (to_dec bonus) (lp_ProtocolLiquidationFeeFactor (li_params s))) in
      bind_res (coin_add (lq_LiquidatedDebtAmount l) debt) (\<lambda>ld.
      bind_res (coin_sub_amount (lq_UnliquidatedCollateralAmount l) c) (\<lambda>u.
      bind_res (coin_sub_amount u bonus) (\<lambda>u.
      let l = l\<lparr>lq_LiquidatedCollateralAmount :=
                  coin_add_amount (coin_add_amount (lq_LiquidatedCollateralAmount l) c) bonus,
                lq_LiquidatedDebtAmount := ld,
                lq_LiquidationBonusAmount := coin_add_amount (lq_LiquidationBonusAmount l) bonus,
                lq_ProtocolLiquidationFee := coin_add_amount (lq_ProtocolLiquidationFee l) fee,
                lq_UnliquidatedCollateralAmount := u\<rparr> in
      case IncrementLiquidationRecordId s of (j, s) \<Rightarrow>
      bind_res (new_coin E (am_Denom (lq_CollateralAsset l)) c) (\<lambda>cc.
      bind_res (new_coin E (am_Denom (lq_CollateralAsset l)) (bonus - fee)) (\<lambda>bc.
      let r = \<lparr>lr_Id = j, lr_LiquidationId = i, lr_Liquidator = liquidator, lr_DebtAmount = debt,
               lr_CollateralAmount = cc, lr_BonusAmount = bc, lr_Time = now\<rparr>
      in Inr (r, SetLiquidationRecord r (SetLiquidation l s)))))))))))))))"

record msg_liquidate =
  ml_Liquidator :: string
  ml_LiquidationId :: u64
  ml_DebtAmount :: coin

definition MsgLiquidate_ValidateBasic :: "('b, 'e) lq_env_scheme \<Rightarrow> msg_liquidate \<Rightarrow> unit res" where
  "MsgLiquidate_ValidateBasic E m =
     (if \<not> bech32_ok E (ml_Liquidator m) then Inl ErrBech32Addr
      else if \<not> valid_btc_address E (ml_Liquidator m) then Inl liq_ErrInvalidSender
      else if \<not> coin_valid E (ml_DebtAmount m) \<or> \<not> 0 < Amount (ml_DebtAmount m) then Inl liq_ErrInvalidAmount
      else Inr ())"

definition Liquidate ::
  "('b, 'e) lq_env_scheme \<Rightarrow> int \<Rightarrow> msg_liquidate \<Rightarrow> ('b, 'x) liq_scheme \<Rightarrow> ('b, 'x) liq_scheme res" where
  "Liquidate E now m s =
     bind_res (MsgLiquidate_ValidateBasic E m) (\<lambda>_.
     bind_res (HandleLiquidation E now (ml_Liquidator m) (ml_LiquidationId m) (ml_DebtAmount m) s) (\<lambda>(r, s).
     Inr s))"

end
