(* ===== verification/Liquidation_Inv.thy ===== *)
theory Liquidation_Inv
  imports Liquidation
begin

text \<open>
  A liquidation never takes more collateral than is left nor repays more debt than is owed: the
  rounding of the conversions between debt and collateral is always against the liquidator. The
  accounting of a liquidation is an invariant of the module's operations.
\<close>

section \<open>Conversions\<close>

lemma dec_quo_bound:
  assumes "dec_ok E" "0 < b"
  shows "dec_quo E a b * b < a * 10 ^ 18 + b" "a * 10 ^ 18 - b < dec_quo E a b * b"
proof -
  have "\<bar>dec_quo E a b * b - a * 10 ^ 18\<bar> < \<bar>b\<bar>"
    using assms unfolding dec_ok_def by (metis less_irrefl)
  then show "dec_quo E a b * b < a * 10 ^ 18 + b" "a * 10 ^ 18 - b < dec_quo E a b * b"
    using assms(2) by linarith+
qed

lemma dec_quo_nonneg:
  assumes "dec_ok E" "0 < b" "0 \<le> a"
  shows "0 \<le> dec_quo E a b"
proof (rule ccontr)
  assume "\<not> 0 \<le> dec_quo E a b"
  then have "dec_quo E a b * b \<le> - 1 * b" using assms(2) by (intro mult_right_mono) auto
  then show False using dec_quo_bound(2) [OF assms(1,2), of a] assms(3) by simp
qed

lemma dec_quo_int_pos: "dec_ok E \<Longrightarrow> 0 < i \<Longrightarrow> 0 \<le> a \<Longrightarrow> dec_quo_int E a i = a div i"
  unfolding dec_ok_def by simp

lemma convert_by_mul:
  assumes "dec_ok E" "0 \<le> x" "0 \<le> p"
  shows "truncate_int (dec_quo_int E (dec_mul E (to_dec x) p) (10 ^ k)) = x * p div 10 ^ k div 10 ^ 18"
proof -
  have "0 \<le> x * p div 10 ^ k" using assms by (simp add: pos_imp_zdiv_nonneg_iff)
  then show ?thesis using assms by (simp add: dec_mul_to_dec dec_quo_int_pos truncate_int_nonneg)
qed

lemma convert_by_quo:
  assumes "dec_ok E" "0 \<le> x" "0 < p"
  shows "truncate_int (dec_quo E (to_dec (tdiv x (10 ^ k))) p) = dec_quo E (to_dec (x div 10 ^ k)) p div 10 ^ 18"
    and "0 \<le> dec_quo E (to_dec (x div 10 ^ k)) p div 10 ^ 18"
proof -
  have "0 \<le> x div 10 ^ k" using assms by (simp add: pos_imp_zdiv_nonneg_iff)
  then have "0 \<le> dec_quo E (to_dec (x div 10 ^ k)) p"
    using assms by (intro dec_quo_nonneg) (simp_all add: to_dec_def)
  then show "truncate_int (dec_quo E (to_dec (tdiv x (10 ^ k))) p) = dec_quo E (to_dec (x div 10 ^ k)) p div 10 ^ 18"
    "0 \<le> dec_quo E (to_dec (x div 10 ^ k)) p div 10 ^ 18"
    using assms by (simp_all add: truncate_int_nonneg pos_imp_zdiv_nonneg_iff)
qed

text \<open>What a quotient rounded to a multiple of \<open>10 ^ -18\<close> and then truncated says of its operands.\<close>

lemma quo_trunc_le:
  assumes "dec_ok E" "0 < p" "n \<le> dec_quo E (to_dec X) p div 10 ^ 18"
  shows "(n - 1) * p < X * 10 ^ 18"
proof -
  have "n * 10 ^ 18 \<le> dec_quo E (to_dec X) p" using assms(3) by (simp add: le_zdiv_iff)
  then have "n * 10 ^ 18 * p \<le> dec_quo E (to_dec X) p * p" using assms(2) by (intro mult_right_mono) auto
  also have "\<dots> < to_dec X * 10 ^ 18 + p" using dec_quo_bound(1) [OF assms(1,2)] .
  finally have "n * 10 ^ 18 * p < X * 10 ^ 18 * 10 ^ 18 + p" by (simp add: to_dec_def)
  then have "((n - 1) * p) * 10 ^ 18 + p * 10 ^ 18 < (X * 10 ^ 18) * 10 ^ 18 + p" by (simp add: algebra_simps)
  moreover have "p \<le> p * 10 ^ 18" using assms(2) by simp
  ultimately have "((n - 1) * p) * 10 ^ 18 < (X * 10 ^ 18) * 10 ^ 18" by linarith
  then show ?thesis by (rule mult_right_less_imp_less) simp
qed

text \<open>
  Converting a debt into collateral, capping the collateral at what is left and converting back
  never gives more than the debt.
\<close>

lemma debt_capped:
  assumes dec: "dec_ok E" and nn: "0 \<le> d" "0 \<le> r" and p: "0 < p"
    and c: "GetCollateralAmount E d dd cd p base = Inr c" and less: "r < c"
    and d': "GetDebtAmount E r cd dd p base = Inr d'"
  shows "0 \<le> d' \<and> d' \<le> d"
proof (cases base)
  case True
  have dec_nn: "0 \<le> dd" "0 \<le> cd" using c by (auto simp: GetCollateralAmount_def split: if_splits)
  define X where "X = d * 10 ^ nat cd div 10 ^ nat dd"
  have "c = dec_quo E (to_dec X) p div 10 ^ 18"
    using c True dec_nn p nn convert_by_quo(1) [OF dec _ p, of "d * 10 ^ nat cd" "nat dd"]
    by (simp add: GetCollateralAmount_def X_def)
  then have "(r + 1 - 1) * p < X * 10 ^ 18" using less by (intro quo_trunc_le [OF dec p]) simp
  then have rp: "r * p \<le> X * 10 ^ 18" by simp
  have X: "X * 10 ^ nat dd \<le> d * 10 ^ nat cd" unfolding X_def by (simp add: minus_mod_eq_div_mult [symmetric])
  have eq: "d' = r * 10 ^ nat dd * p div 10 ^ nat cd div 10 ^ 18"
    using d' True dec_nn p nn by (simp add: GetDebtAmount_def convert_by_mul [OF dec])
  have "r * 10 ^ nat dd * p = r * p * 10 ^ nat dd" by simp
  also have "\<dots> \<le> X * 10 ^ 18 * 10 ^ nat dd" using rp by (rule mult_right_mono) simp
  also have "\<dots> = X * 10 ^ nat dd * 10 ^ 18" by simp
  also have "\<dots> \<le> d * 10 ^ nat cd * 10 ^ 18" using X by (rule mult_right_mono) simp
  finally have "r * 10 ^ nat dd * p div (10 ^ nat cd * 10 ^ 18) \<le> d * 10 ^ nat cd * 10 ^ 18 div (10 ^ nat cd * 10 ^ 18)"
    by (rule zdiv_mono1) simp
  also have "\<dots> = d" by (simp add: mult.assoc)
  finally have "d' \<le> d" unfolding eq by (simp add: zdiv_zmult2_eq)
  moreover have "0 \<le> d'" unfolding eq using nn p by (simp add: pos_imp_zdiv_nonneg_iff)
  ultimately show ?thesis by simp
next
  case False
  have dec_nn: "0 \<le> dd" "0 \<le> cd" using c by (auto simp: GetCollateralAmount_def split: if_splits)
  have c_eq: "c = d * 10 ^ nat cd * p div 10 ^ nat dd div 10 ^ 18"
    using c False dec_nn p nn by (simp add: GetCollateralAmount_def convert_by_mul [OF dec])
  define Y where "Y = r * 10 ^ nat dd div 10 ^ nat cd"
  have eq: "d' = dec_quo E (to_dec Y) p div 10 ^ 18" and "0 \<le> d'"
    using d' False dec_nn p nn convert_by_quo [OF dec _ p, of "r * 10 ^ nat dd" "nat cd"]
    by (simp_all add: GetDebtAmount_def Y_def)
  moreover have "d' \<le> d"
  proof (rule ccontr)
    assume "\<not> d' \<le> d"
    then have "(d + 1 - 1) * p < Y * 10 ^ 18" unfolding eq by (intro quo_trunc_le [OF dec p]) simp
    then have "d * p \<le> Y * 10 ^ 18" by simp
    then have "d * p * 10 ^ nat cd \<le> Y * 10 ^ 18 * 10 ^ nat cd" by (rule mult_right_mono) simp
    also have "\<dots> = Y * 10 ^ nat cd * 10 ^ 18" by simp
    also have "\<dots> \<le> r * 10 ^ nat dd * 10 ^ 18"
      by (rule mult_right_mono) (simp_all add: Y_def minus_mod_eq_div_mult [symmetric])
    finally have "d * 10 ^ nat cd * p div (10 ^ nat dd * 10 ^ 18) \<le> r * 10 ^ nat dd * 10 ^ 18 div (10 ^ nat dd * 10 ^ 18)"
      by (intro zdiv_mono1) (simp_all add: ac_simps)
    also have "\<dots> = r" by (simp add: mult.assoc)
    finally have "c \<le> r" unfolding c_eq by (simp add: zdiv_zmult2_eq)
    then show False using less by simp
  qed
  ultimately show ?thesis by simp
qed

lemma GetCollateralAmount_nonneg:
  assumes dec: "dec_ok E" and d: "0 \<le> d" and p: "0 < p" and c: "GetCollateralAmount E d dd cd p base = Inr c"
  shows "0 \<le> c"
proof (cases base)
  case True
  have "c = truncate_int (dec_quo E (to_dec (tdiv (d * 10 ^ nat cd) (10 ^ nat dd))) p)"
    using c True p by (auto simp del: tdiv_nonneg simp: GetCollateralAmount_def split: if_splits)
  then show ?thesis using convert_by_quo [OF dec _ p, of "d * 10 ^ nat cd" "nat dd"] d by (simp del: tdiv_nonneg)
next
  case False
  have "c = truncate_int (dec_quo_int E (dec_mul E (to_dec (d * 10 ^ nat cd)) p) (10 ^ nat dd))"
    using c False by (auto simp: GetCollateralAmount_def split: if_splits)
  then show ?thesis using d p by (simp add: convert_by_mul [OF dec] pos_imp_zdiv_nonneg_iff)
qed

section \<open>The status index\<close>

lemma SetLiquidation_simps [simp]:
  "li_store (SetLiquidation l s) = kv_set (lq_Id l) l (li_store s)"
  "li_params (SetLiquidation l s) = li_params s"
  "li_id (SetLiquidation l s) = li_id s"
  "li_record_id (SetLiquidation l s) = li_record_id s"
  "li_records (SetLiquidation l s) = li_records s"
  "li_records_by (SetLiquidation l s) = li_records_by s"
  "ch_bank (SetLiquidation l s) = ch_bank s"
  "ch_prices (SetLiquidation l s) = ch_prices s"
  "dl_events (SetLiquidation l s) = dl_events s"
  "liq.more (SetLiquidation l s) = liq.more s"
  by (simp_all add: SetLiquidation_def SetLiquidationStatus_def RemoveLiquidationStatus_def Let_def)

lemma SetLiquidation_by_status:
  "li_by_status (SetLiquidation l s) =
     kv_set (lq_Status l, lq_Id l) ()
       (case kv_get (li_store s) (lq_Id l) of None \<Rightarrow> li_by_status s
        | Some y \<Rightarrow> kv_del (lq_Status y, lq_Id l) (li_by_status s))"
  by (auto simp: SetLiquidation_def SetLiquidationStatus_def RemoveLiquidationStatus_def Let_def
      HasLiquidation_def GetLiquidation_def kv_has_def split: option.splits)

interpretation liqs: status_indexed li_store li_by_status SetLiquidation lq_Id lq_Status
  by unfold_locales (simp_all add: SetLiquidation_by_status)

lemma GetLiquidation_Some: "kv_get (li_store s) i = Some l \<Longrightarrow> GetLiquidation s i = l"
  by (simp add: GetLiquidation_def)

section \<open>What a liquidation does\<close>

text \<open>The step of a liquidator, unfolded: the amounts and the state it leaves.\<close>

definition liquidated :: "liquidation \<Rightarrow> coin \<Rightarrow> int \<Rightarrow> int \<Rightarrow> int \<Rightarrow> liquidation" where
  "liquidated l debt c bonus fee =
     l\<lparr>lq_LiquidatedCollateralAmount :=
         coin_add_amount (coin_add_amount (lq_LiquidatedCollateralAmount l) c) bonus,
       lq_LiquidatedDebtAmount := coin_add_amount (lq_LiquidatedDebtAmount l) (Amount debt),
       lq_LiquidationBonusAmount := coin_add_amount (lq_LiquidationBonusAmount l) bonus,
       lq_ProtocolLiquidationFee := coin_add_amount (lq_ProtocolLiquidationFee l) fee,
       lq_UnliquidatedCollateralAmount := coin_add_amount (lq_UnliquidatedCollateralAmount l) (- c - bonus)\<rparr>"

lemma HandleLiquidation_Inr:
  assumes "HandleLiquidation E now liquidator i debt s = Inr (r, s')"
  obtains l price c0 c d bonus0 bonus fee b j where
    "kv_get (li_store s) i = Some l" "lq_Status l = LQ_LIQUIDATING"
    "Denom (lq_LiquidatedDebtAmount l) = Denom (lq_DebtAmount l)" "Denom (lq_DebtAmount l) = Denom debt"
    "Amount (lq_LiquidatedDebtAmount l) < Amount (lq_DebtAmount l)"
    "GetPrice (parse_dec E) s (liquidation_GetPricePair l) = Inr (Some price)"
    "GetCollateralAmount E (min (Amount debt) (Amount (lq_DebtAmount l) - Amount (lq_LiquidatedDebtAmount l)))
       (am_Decimals (lq_DebtAsset l)) (am_Decimals (lq_CollateralAsset l)) price
       (am_IsBasePriceAsset (lq_CollateralAsset l)) = Inr c0"
    "if Amount (lq_UnliquidatedCollateralAmount l) < c0
     then c = Amount (lq_UnliquidatedCollateralAmount l) \<and>
       GetDebtAmount E (Amount (lq_UnliquidatedCollateralAmount l)) (am_Decimals (lq_CollateralAsset l))
         (am_Decimals (lq_DebtAsset l)) price (am_IsBasePriceAsset (lq_CollateralAsset l)) = Inr d
     else c = c0 \<and> d = min (Amount debt) (Amount (lq_DebtAmount l) - Amount (lq_LiquidatedDebtAmount l))"
    "send_coins E (ch_bank s) (Account liquidator) liquidation_acc [\<lparr>Denom = Denom debt, Amount = d\<rparr>] = Inr b"
    "GetCollateralAmount E (truncate_int (dec_mul E (to_dec d) (lp_LiquidationBonusFactor (li_params s))))
       (am_Decimals (lq_DebtAsset l)) (am_Decimals (lq_CollateralAsset l)) price
       (am_IsBasePriceAsset (lq_CollateralAsset l)) = Inr bonus0"
    "bonus = min bonus0 (Amount (lq_UnliquidatedCollateralAmount l) - c)"
    "fee = truncate_int (dec_mul E (to_dec bonus) (lp_ProtocolLiquidationFeeFactor (li_params s)))"
    "c + bonus \<le> Amount (lq_UnliquidatedCollateralAmount l)" "0 \<le> c" "fee \<le> bonus"
    "j = GetLiquidationRecordId s + 1"
    "r = \<lparr>lr_Id = j, lr_LiquidationId = i, lr_Liquidator = liquidator,
       lr_DebtAmount = \<lparr>Denom = Denom debt, Amount = d\<rparr>,
       lr_CollateralAmount = \<lparr>Denom = am_Denom (lq_CollateralAsset l), Amount = c\<rparr>,
       lr_BonusAmount = \<lparr>Denom = am_Denom (lq_CollateralAsset l), Amount = bonus - fee\<rparr>, lr_Time = now\<rparr>"
    "s' = SetLiquidationRecord r (SetLiquidation (liquidated l \<lparr>Denom = Denom debt, Amount = d\<rparr> c bonus fee)
       (s\<lparr>ch_bank := b, li_record_id := Some j\<rparr>))"
proof -
  show ?thesis
    using assms [unfolded HandleLiquidation_def Let_def IncrementLiquidationRecordId_def prod.case]
  proof (elim peel, goal_cases)
    case (1 rd price c0 cd c dc b rc bonus0 out ld u u' cc bc)
    define l where "l = GetLiquidation s i"
    note F = 1 [folded l_def]
    have l: "kv_get (li_store s) i = Some l"
      using F(1) by (auto simp: l_def HasLiquidation_def GetLiquidation_def kv_has_def)
    have rd: "Amount rd = Amount (lq_DebtAmount l) - Amount (lq_LiquidatedDebtAmount l)"
      and dens: "Denom (lq_LiquidatedDebtAmount l) = Denom (lq_DebtAmount l)" "Denom (lq_DebtAmount l) = Denom debt"
      and less: "Amount (lq_LiquidatedDebtAmount l) < Amount (lq_DebtAmount l)"
      using F(4,5,8) by (auto simp: res_simps)
    have m: "Amount (if Amount rd < Amount debt then rd else debt) =
        min (Amount debt) (Amount (lq_DebtAmount l) - Amount (lq_LiquidatedDebtAmount l))"
      "Denom (if Amount rd < Amount debt then rd else debt) = Denom debt"
      using rd F(8) by auto
    have dc: "dc = \<lparr>Denom = Denom debt, Amount = Amount dc\<rparr>"
      using F(11,12) m by (intro coin_eqI) (auto simp: bind_res_eq_Inr split: if_splits)
    define bonus where "bonus = min bonus0 (Amount (lq_UnliquidatedCollateralAmount l) - c)"
    have bonus: "(if Amount rc < bonus0 then Amount rc else bonus0) = bonus"
      using F(15) by (auto simp: bonus_def res_simps)
    note G = F [unfolded bonus]
    show ?thesis
    proof (rule that [of l price c0 c "Amount dc" b bonus0 bonus])
      show "if Amount (lq_UnliquidatedCollateralAmount l) < c0
        then c = Amount (lq_UnliquidatedCollateralAmount l) \<and>
          GetDebtAmount E (Amount (lq_UnliquidatedCollateralAmount l)) (am_Decimals (lq_CollateralAsset l))
            (am_Decimals (lq_DebtAsset l)) price (am_IsBasePriceAsset (lq_CollateralAsset l)) = Inr (Amount dc)
        else c = c0 \<and> Amount dc = min (Amount debt) (Amount (lq_DebtAmount l) - Amount (lq_LiquidatedDebtAmount l))"
        using F(11,12) m by (auto simp: bind_res_eq_Inr split: if_splits)
    qed (use l F(2,9) dens less G(10) [unfolded m] G(14-) dc in
        \<open>auto simp: res_simps bonus_def liquidated_def GetLiquidationRecordId_def\<close>)
  qed
qed

section \<open>The accounting invariant\<close>

text \<open>
  Of one liquidation: what is liquidated stays within the debt and within the collateral, the
  reserve for the network fee is kept, and the protocol's fee is a part of the bonus.
\<close>

definition liq_ok :: "liquidation \<Rightarrow> bool" where
  "liq_ok l \<longleftrightarrow>
     Denom (lq_LiquidatedDebtAmount l) = Denom (lq_DebtAmount l)
   \<and> 0 \<le> Amount (lq_LiquidatedDebtAmount l) \<and> Amount (lq_LiquidatedDebtAmount l) \<le> Amount (lq_DebtAmount l)
   \<and> 0 \<le> Amount (lq_ProtocolLiquidationFee l)
   \<and> Amount (lq_ProtocolLiquidationFee l) \<le> Amount (lq_LiquidationBonusAmount l)
   \<and> Amount (lq_LiquidationBonusAmount l) \<le> Amount (lq_LiquidatedCollateralAmount l)
   \<and> 0 \<le> Amount (lq_UnliquidatedCollateralAmount l)
   \<and> (lq_Status l = LQ_LIQUIDATING \<or> lq_Status l = LQ_LIQUIDATED \<longrightarrow>
        Amount (lq_LiquidatedCollateralAmount l) + Amount (lq_UnliquidatedCollateralAmount l)
          + LiquidationNetworkFeeReserve = Amount (lq_ActualCollateralAmount l))"

text \<open>The total of a measure over the records of one liquidation.\<close>

definition record_sum :: "(liquidation_record \<Rightarrow> int) \<Rightarrow> u64 \<Rightarrow> ('b, 'x) liq_scheme \<Rightarrow> int" where
  "record_sum f i s = kv_sum (\<lambda>r. if lr_LiquidationId r = i then f r else 0) (li_records s)"

definition record_collateral :: "liquidation_record \<Rightarrow> int" where
  "record_collateral r = Amount (lr_CollateralAmount r) + Amount (lr_BonusAmount r)"

definition record_debt :: "liquidation_record \<Rightarrow> int" where
  "record_debt r = Amount (lr_DebtAmount r)"

definition books_ok :: "('b, 'x) liq_scheme \<Rightarrow> liquidation \<Rightarrow> bool" where
  "books_ok s l \<longleftrightarrow>
     record_sum record_debt (lq_Id l) s = Amount (lq_LiquidatedDebtAmount l)
   \<and> record_sum record_collateral (lq_Id l) s + Amount (lq_ProtocolLiquidationFee l)
       = Amount (lq_LiquidatedCollateralAmount l)"

definition liq_params_ok :: "liquidation_params \<Rightarrow> bool" where
  "liq_params_ok p \<longleftrightarrow> 0 \<le> lp_LiquidationBonusFactor p
     \<and> 0 \<le> lp_ProtocolLiquidationFeeFactor p \<and> lp_ProtocolLiquidationFeeFactor p \<le> dec_one"

definition record_ok :: "liquidation_record \<Rightarrow> bool" where
  "record_ok r \<longleftrightarrow> Denom (lr_BonusAmount r) = Denom (lr_CollateralAmount r)
     \<and> 0 \<le> Amount (lr_CollateralAmount r) \<and> 0 \<le> Amount (lr_BonusAmount r)"

definition records_ok :: "('b, 'x) liq_scheme \<Rightarrow> bool" where
  "records_ok s \<longleftrightarrow> index_ok (li_records s) (li_records_by s) lr_Id lr_LiquidationId
   \<and> (\<forall>j r. kv_get (li_records s) j = Some r \<longrightarrow>
        j \<le> GetLiquidationRecordId s \<and> lr_LiquidationId r \<le> GetLiquidationId s \<and> record_ok r)"

definition liq_inv :: "('b, 'x) liq_scheme \<Rightarrow> bool" where
  "liq_inv s \<longleftrightarrow>
     index_ok (li_store s) (li_by_status s) lq_Id lq_Status
   \<and> records_ok s \<and> liq_params_ok (li_params s)
   \<and> (\<forall>i l. kv_get (li_store s) i = Some l \<longrightarrow> i \<le> GetLiquidationId s \<and> liq_ok l \<and> books_ok s l)"

text \<open>The invariant speaks of the liquidation store only.\<close>

definition liq_same :: "('b, 'x) liq_scheme \<Rightarrow> ('b, 'x) liq_scheme \<Rightarrow> bool" where
  "liq_same s s' \<longleftrightarrow> li_params s' = li_params s \<and> li_id s' = li_id s \<and> li_record_id s' = li_record_id s
     \<and> li_store s' = li_store s \<and> li_by_status s' = li_by_status s \<and> li_records s' = li_records s
     \<and> li_records_by s' = li_records_by s"

lemma liq_same_inv: "liq_same s s' \<Longrightarrow> liq_inv s' \<longleftrightarrow> liq_inv s"
  by (simp add: liq_same_def liq_inv_def records_ok_def books_ok_def record_sum_def
      GetLiquidationRecordId_def GetLiquidationId_def)

lemma liq_invD:
  assumes "liq_inv s" "kv_get (li_store s) i = Some l"
  shows "lq_Id l = i" "i \<le> GetLiquidationId s" "liq_ok l" "books_ok s l"
  using assms by (auto simp: liq_inv_def index_ok_def)

text \<open>Writing a liquidation back without touching what is liquidated.\<close>

lemma liq_inv_SetLiquidation:
  assumes "liq_inv s" "kv_get (li_store s) (lq_Id l) = Some l0" "liq_ok l"
    "lq_LiquidatedDebtAmount l = lq_LiquidatedDebtAmount l0"
    "lq_LiquidatedCollateralAmount l = lq_LiquidatedCollateralAmount l0"
    "lq_ProtocolLiquidationFee l = lq_ProtocolLiquidationFee l0"
  shows "liq_inv (SetLiquidation l s)"
proof -
  have "index_ok (li_store (SetLiquidation l s)) (li_by_status (SetLiquidation l s)) lq_Id lq_Status"
    using assms(1) by (intro liqs.put_index_ok) (simp add: liq_inv_def)
  moreover have "books_ok s l"
    using liq_invD(1,4) [OF assms(1,2)] assms(4-) by (simp add: books_ok_def)
  ultimately show ?thesis
    using assms(1,3) liq_invD(2) [OF assms(1,2)]
    by (auto simp: liq_inv_def records_ok_def books_ok_def record_sum_def GetLiquidationRecordId_def
        GetLiquidationId_def split: if_splits)
qed

section \<open>Liquidating keeps the books\<close>

text \<open>What the amounts of one step satisfy, whatever the price.\<close>

lemma liquidation_amounts:
  assumes dec: "dec_ok E" and p: "0 < price" and nn: "0 \<le> d0" "0 \<le> u" and par: "liq_params_ok q"
    and c0: "GetCollateralAmount E d0 dd cd price base = Inr c0"
    and step: "if u < c0 then c = u \<and> GetDebtAmount E u cd dd price base = Inr d else c = c0 \<and> d = d0"
    and b0: "GetCollateralAmount E (truncate_int (dec_mul E (to_dec d) (lp_LiquidationBonusFactor q))) dd cd price base
       = Inr bonus0"
    and bonus: "bonus = min bonus0 (u - c)"
    and fee: "fee = truncate_int (dec_mul E (to_dec bonus) (lp_ProtocolLiquidationFeeFactor q))"
  shows "0 \<le> d" "d \<le> d0" "0 \<le> c" "c \<le> u" "0 \<le> bonus" "c + bonus \<le> u" "0 \<le> fee" "fee \<le> bonus"
proof -
  have "0 \<le> d \<and> d \<le> d0"
    using step debt_capped [OF dec nn p c0, of d] nn by (auto split: if_splits)
  then show d: "0 \<le> d" "d \<le> d0" by auto
  show c: "0 \<le> c" "c \<le> u"
    using step nn GetCollateralAmount_nonneg [OF dec nn(1) p c0] by (auto split: if_splits)
  have q: "0 \<le> lp_LiquidationBonusFactor q" "0 \<le> lp_ProtocolLiquidationFeeFactor q"
    "lp_ProtocolLiquidationFeeFactor q \<le> 10 ^ 18"
    using par by (simp_all add: liq_params_ok_def dec_one_def)
  have "0 \<le> truncate_int (dec_mul E (to_dec d) (lp_LiquidationBonusFactor q))"
    using d q by (simp add: truncate_mul_bounds [OF dec] pos_imp_zdiv_nonneg_iff)
  then have "0 \<le> bonus0" using GetCollateralAmount_nonneg [OF dec _ p b0] by simp
  then show bon: "0 \<le> bonus" "c + bonus \<le> u" using c by (auto simp: bonus)
  have fee_eq: "fee = bonus * lp_ProtocolLiquidationFeeFactor q div 10 ^ 18"
    unfolding fee by (rule truncate_mul_bounds [OF dec bon(1) q(2)])
  show "0 \<le> fee" unfolding fee_eq using bon q by (simp add: pos_imp_zdiv_nonneg_iff)
  have "bonus * lp_ProtocolLiquidationFeeFactor q \<le> bonus * 10 ^ 18"
    using bon q by (intro mult_left_mono) auto
  then have "fee \<le> bonus * 10 ^ 18 div 10 ^ 18" unfolding fee_eq by (rule zdiv_mono1) simp
  then show "fee \<le> bonus" by simp
qed

lemma liquidated_ok:
  assumes "liq_ok l" "lq_Status l = LQ_LIQUIDATING" "0 \<le> Amount dc"
    "Amount (lq_LiquidatedDebtAmount l) + Amount dc \<le> Amount (lq_DebtAmount l)"
    "0 \<le> c" "0 \<le> bonus" "c + bonus \<le> Amount (lq_UnliquidatedCollateralAmount l)" "0 \<le> fee" "fee \<le> bonus"
  shows "liq_ok (liquidated l dc c bonus fee)"
  using assms by (simp add: liq_ok_def liquidated_def)

text \<open>A record under a fresh id adds to the books of its liquidation only.\<close>

lemma record_sum_new:
  assumes "records_ok s" "kv_get (li_records s) (lr_Id r) = None"
  shows "record_sum f i (SetLiquidationRecord r s) = record_sum f i s + (if lr_LiquidationId r = i then f r else 0)"
  using assms by (simp add: record_sum_def SetLiquidationRecord_def kv_sum_set records_ok_def index_ok_def)

lemma records_ok_new:
  assumes "records_ok s" "lr_Id r = GetLiquidationRecordId s + 1" "GetLiquidationRecordId s \<noteq> - 1"
    "lr_LiquidationId r \<le> GetLiquidationId s" "record_ok r"
  shows "records_ok (SetLiquidationRecord r (s\<lparr>li_record_id := Some (lr_Id r)\<rparr>))"
    and "kv_get (li_records s) (lr_Id r) = None"
proof -
  have le: "j < GetLiquidationRecordId s + 1" if "j \<le> GetLiquidationRecordId s" for j
    using u64_succ(2) [OF assms(3) that] .
  show new: "kv_get (li_records s) (lr_Id r) = None"
  proof (rule ccontr)
    assume "kv_get (li_records s) (lr_Id r) \<noteq> None"
    then have "lr_Id r \<le> GetLiquidationRecordId s" using assms(1) by (auto simp: records_ok_def)
    then show False using le assms(2) by fastforce
  qed
  have "j \<le> GetLiquidationRecordId s + 1" if "j \<le> GetLiquidationRecordId s" for j
    using le [OF that] by simp
  then show "records_ok (SetLiquidationRecord r (s\<lparr>li_record_id := Some (lr_Id r)\<rparr>))"
    using assms(1,2,4,5) new
    by (auto simp: records_ok_def index_ok_def SetLiquidationRecord_def GetLiquidationRecordId_def GetLiquidationId_def
        counter_def split: if_splits)
qed

definition price_ok :: "(string \<Rightarrow> dec option) \<Rightarrow> ('b, 'x) chain_scheme \<Rightarrow> bool" where
  "price_ok parse s \<longleftrightarrow> (\<forall>pair p. GetPrice parse s pair = Inr (Some p) \<longrightarrow> 0 < p)"

lemma HandleLiquidation_inv:
  assumes inv: "liq_inv s" and dec: "dec_ok E" and pr: "price_ok (parse_dec E) s" and nn: "0 \<le> Amount debt"
    and id: "GetLiquidationRecordId s \<noteq> - 1"
    and step: "HandleLiquidation E now liquidator i debt s = Inr (r, s')"
  shows "liq_inv s'"
proof (rule HandleLiquidation_Inr [OF step])
  fix l price c0 c d bonus0 bonus fee b j
  assume l: "kv_get (li_store s) i = Some l" and st: "lq_Status l = LQ_LIQUIDATING"
    and less: "Amount (lq_LiquidatedDebtAmount l) < Amount (lq_DebtAmount l)"
    and price: "GetPrice (parse_dec E) s (liquidation_GetPricePair l) = Inr (Some price)"
    and c0: "GetCollateralAmount E (min (Amount debt) (Amount (lq_DebtAmount l) - Amount (lq_LiquidatedDebtAmount l)))
       (am_Decimals (lq_DebtAsset l)) (am_Decimals (lq_CollateralAsset l)) price
       (am_IsBasePriceAsset (lq_CollateralAsset l)) = Inr c0"
    and cd: "if Amount (lq_UnliquidatedCollateralAmount l) < c0
     then c = Amount (lq_UnliquidatedCollateralAmount l) \<and>
       GetDebtAmount E (Amount (lq_UnliquidatedCollateralAmount l)) (am_Decimals (lq_CollateralAsset l))
         (am_Decimals (lq_DebtAsset l)) price (am_IsBasePriceAsset (lq_CollateralAsset l)) = Inr d
     else c = c0 \<and> d = min (Amount debt) (Amount (lq_DebtAmount l) - Amount (lq_LiquidatedDebtAmount l))"
    and b0: "GetCollateralAmount E (truncate_int (dec_mul E (to_dec d) (lp_LiquidationBonusFactor (li_params s))))
       (am_Decimals (lq_DebtAsset l)) (am_Decimals (lq_CollateralAsset l)) price
       (am_IsBasePriceAsset (lq_CollateralAsset l)) = Inr bonus0"
    and bonus: "bonus = min bonus0 (Amount (lq_UnliquidatedCollateralAmount l) - c)"
    and fee: "fee = truncate_int (dec_mul E (to_dec bonus) (lp_ProtocolLiquidationFeeFactor (li_params s)))"
    and j: "j = GetLiquidationRecordId s + 1"
    and r: "r = \<lparr>lr_Id = j, lr_LiquidationId = i, lr_Liquidator = liquidator,
       lr_DebtAmount = \<lparr>Denom = Denom debt, Amount = d\<rparr>,
       lr_CollateralAmount = \<lparr>Denom = am_Denom (lq_CollateralAsset l), Amount = c\<rparr>,
       lr_BonusAmount = \<lparr>Denom = am_Denom (lq_CollateralAsset l), Amount = bonus - fee\<rparr>, lr_Time = now\<rparr>"
    and s': "s' = SetLiquidationRecord r (SetLiquidation (liquidated l \<lparr>Denom = Denom debt, Amount = d\<rparr> c bonus fee)
       (s\<lparr>ch_bank := b, li_record_id := Some j\<rparr>))"
  define l' where "l' = liquidated l \<lparr>Denom = Denom debt, Amount = d\<rparr> c bonus fee"
  note old = liq_invD [OF inv l]
  have l'_id: "lq_Id l' = i" using old(1) by (simp add: l'_def liquidated_def)
  have "0 < price" using pr price by (auto simp: price_ok_def)
  from liquidation_amounts [OF dec this _ _ _ c0 cd b0 bonus fee]
  have am: "0 \<le> d" "d \<le> Amount (lq_DebtAmount l) - Amount (lq_LiquidatedDebtAmount l)" "0 \<le> c" "0 \<le> bonus"
    "c + bonus \<le> Amount (lq_UnliquidatedCollateralAmount l)" "0 \<le> fee" "fee \<le> bonus"
    using inv nn less old(3) by (auto simp: liq_inv_def liq_ok_def)
  have ok: "liq_ok l'" unfolding l'_def by (rule liquidated_ok) (use old(3) st am in auto)
  define s0 where "s0 = s\<lparr>ch_bank := b\<rparr>"
  have rec: "records_ok (SetLiquidationRecord r (s\<lparr>li_record_id := Some (lr_Id r)\<rparr>))"
    and new: "kv_get (li_records s) (lr_Id r) = None"
    using records_ok_new [of s r] inv id old(2) am by (simp_all add: liq_inv_def record_ok_def r j)
  have recs: "records_ok s'"
    using rec by (simp add: s' records_ok_def SetLiquidationRecord_def GetLiquidationRecordId_def
        GetLiquidationId_def r)
  have sum: "record_sum f k s' = record_sum f k s + (if k = i then f r else 0)" for f k
    using record_sum_new [OF _ new, of f k] inv
    by (auto simp: record_sum_def liq_inv_def s' SetLiquidationRecord_def r)
  have books: "books_ok s' l'"
    using old(1,4) l'_id unfolding books_ok_def sum
    by (simp add: l'_def liquidated_def r record_debt_def record_collateral_def)
  have other: "books_ok s' m" if "kv_get (li_store s) k = Some m" "k \<noteq> i" for k m
    using liq_invD(1,4) [OF inv that(1)] that(2) by (simp add: books_ok_def sum)
  have "index_ok (li_store s') (li_by_status s') lq_Id lq_Status"
    using liqs.put_index_ok [of "s\<lparr>ch_bank := b, li_record_id := Some j\<rparr>" l'] inv
    by (simp add: s' l'_def SetLiquidationRecord_def liq_inv_def)
  moreover have "k \<le> GetLiquidationId s' \<and> liq_ok m \<and> books_ok s' m" if "kv_get (li_store s') k = Some m" for k m
    using that l'_id ok books other old(2) liq_invD(2,3) [OF inv]
    by (auto simp: s' SetLiquidationRecord_def GetLiquidationId_def l'_def [symmetric] split: if_splits)
  moreover have "li_params s' = li_params s" by (simp add: s' SetLiquidationRecord_def)
  ultimately show ?thesis using inv recs by (simp add: liq_inv_def)
qed

section \<open>Opening a liquidation\<close>

definition fresh_liquidation :: "liquidation \<Rightarrow> bool" where
  "fresh_liquidation l \<longleftrightarrow>
     Denom (lq_LiquidatedDebtAmount l) = Denom (lq_DebtAmount l) \<and> 0 \<le> Amount (lq_DebtAmount l)
   \<and> Amount (lq_LiquidatedDebtAmount l) = 0 \<and> Amount (lq_LiquidatedCollateralAmount l) = 0
   \<and> Amount (lq_LiquidationBonusAmount l) = 0 \<and> Amount (lq_ProtocolLiquidationFee l) = 0
   \<and> Denom (lq_LiquidatedCollateralAmount l) = Denom (lq_ActualCollateralAmount l)"

lemma CreateLiquidation_Inr:
  "CreateLiquidation l s = Inr (l', s') \<longleftrightarrow>
     Denom (lq_ActualCollateralAmount l) = Denom (lq_LiquidatedCollateralAmount l)
   \<and> Amount (lq_LiquidatedCollateralAmount l) \<le> Amount (lq_ActualCollateralAmount l)
   \<and> LiquidationNetworkFeeReserve \<le> Amount (lq_ActualCollateralAmount l) - Amount (lq_LiquidatedCollateralAmount l)
   \<and> l' = l\<lparr>lq_Id := GetLiquidationId s + 1, lq_UnliquidatedCollateralAmount :=
       coin_add_amount (lq_ActualCollateralAmount l) (- Amount (lq_LiquidatedCollateralAmount l) - LiquidationNetworkFeeReserve),
       lq_Status := LQ_LIQUIDATING\<rparr>
   \<and> s' = SetLiquidation l' (s\<lparr>li_id := Some (GetLiquidationId s + 1)\<rparr>)"
  by (auto simp: CreateLiquidation_def IncrementLiquidationId_def Let_def res_simps)

text \<open>
  A liquidation can be opened exactly when the output of the liquidation transaction covers the
  reserve for the network fee; otherwise the subtraction of coins panics.
\<close>

lemma CreateLiquidation_total:
  assumes "fresh_liquidation l"
  shows "(\<exists>r. CreateLiquidation l s = Inr r) \<longleftrightarrow> LiquidationNetworkFeeReserve \<le> Amount (lq_ActualCollateralAmount l)"
proof -
  have "(\<exists>r. CreateLiquidation l s = Inr r) \<longleftrightarrow> (\<exists>l' s'. CreateLiquidation l s = Inr (l', s'))" by auto
  then show ?thesis
    using assms by (auto simp: CreateLiquidation_Inr fresh_liquidation_def LiquidationNetworkFeeReserve_def)
qed

lemma record_sum_none:
  assumes "records_ok s" "GetLiquidationId s < i"
  shows "record_sum f i s = 0"
proof -
  have "(if lr_LiquidationId (snd p) = i then f (snd p) else 0) = 0" if "p \<in> set (li_records s)" for p
  proof -
    have "kv_get (li_records s) (fst p) = Some (snd p)"
      using assms(1) that kv_ok_distinct [of "li_records s"]
      by (cases p) (auto simp: kv_get_def records_ok_def index_ok_def kv_keys_def)
    then show ?thesis using assms by (fastforce simp: records_ok_def)
  qed
  then have "map (\<lambda>p. if lr_LiquidationId (snd p) = i then f (snd p) else 0) (li_records s) =
      map (\<lambda>p. 0) (li_records s)" by simp
  then show ?thesis unfolding record_sum_def kv_sum_def by (simp only:) (simp add: sum_list_triv)
qed

lemma CreateLiquidation_inv:
  assumes inv: "liq_inv s" and id: "GetLiquidationId s \<noteq> - 1" and fresh: "fresh_liquidation l"
    and step: "CreateLiquidation l s = Inr (l', s')"
  shows "liq_inv s'" "kv_get (li_store s) (lq_Id l') = None" "liq_ok l'"
proof -
  define i where "i = GetLiquidationId s + 1"
  note st = step [unfolded CreateLiquidation_Inr, folded i_def]
  have less: "k < i" if "k \<le> GetLiquidationId s" for k unfolding i_def by (rule u64_succ(2) [OF id that])
  have l'_id: "lq_Id l' = i" using st by simp
  show "kv_get (li_store s) (lq_Id l') = None"
    using liq_invD(2) [OF inv, of i] less l'_id by (cases "kv_get (li_store s) i") fastforce+
  show ok: "liq_ok l'"
    using st fresh by (auto simp: liq_ok_def fresh_liquidation_def LiquidationNetworkFeeReserve_def)
  have sums: "record_sum f k s' = record_sum f k s" for f k using st by (simp add: record_sum_def)
  have zero: "record_sum f i s = 0" for f using record_sum_none [of s i f] inv less by (simp add: liq_inv_def)
  have books: "books_ok s' l'" unfolding books_ok_def sums l'_id zero using st fresh by (simp add: fresh_liquidation_def)
  have cid: "GetLiquidationId s' = i" "GetLiquidationRecordId s' = GetLiquidationRecordId s"
    using st by (simp_all add: GetLiquidationId_def GetLiquidationRecordId_def counter_def)
  have recs: "records_ok s'"
    unfolding records_ok_def cid using inv st less by (fastforce simp: liq_inv_def records_ok_def)
  have idx: "index_ok (li_store s') (li_by_status s') lq_Id lq_Status"
    using liqs.put_index_ok [of "s\<lparr>li_id := Some i\<rparr>" l'] inv st by (simp add: liq_inv_def)
  have "k \<le> i \<and> liq_ok m \<and> books_ok s' m" if "kv_get (li_store s') k = Some m" for k m
  proof (cases "k = i")
    case True
    then show ?thesis using that st l'_id ok books by (auto split: if_splits)
  next
    case False
    then have k: "kv_get (li_store s) k = Some m" using that st l'_id by (simp split: if_splits)
    then show ?thesis using liq_invD(2-4) [OF inv k] less by (force simp: books_ok_def sums)
  qed
  moreover have "li_params s' = li_params s" using st by simp
  ultimately show "liq_inv s'" using idx recs inv unfolding liq_inv_def cid by simp
qed

lemma liquidation_UpdateParams_inv:
  assumes "liq_inv s" "liquidation_UpdateParams E authority signer p s = Inr s'"
  shows "liq_inv s'"
  using assms
  by (auto simp: liquidation_UpdateParams_def liquidation_Params_Validate_def res_simps liq_inv_def records_ok_def
      books_ok_def record_sum_def GetLiquidationRecordId_def GetLiquidationId_def liq_params_ok_def split: if_splits)

end
