(* ===== verification/Lending_Types.thy ===== *)
theory Lending_Types
  imports Liquidation_Inv
begin

text \<open>
  The data of the lending module (\<open>proto/bitway/lending\<close>), its state on top of the state of the
  liquidation module, and the pure functions of \<open>x/lending/types\<close>: interest, fees, liquidation
  price, loan-to-value check, caps and the validation of pool configurations and parameters.
\<close>

abbreviation "ln_ErrInvalidAmount \<equiv> Registered ''lending'' 1000"
abbreviation "ln_ErrInvalidParams \<equiv> Registered ''lending'' 1001"
abbreviation "ErrUnexpected \<equiv> Registered ''lending'' 1002"
abbreviation "ErrInvalidPoolId \<equiv> Registered ''lending'' 2000"
abbreviation "ErrInvalidPoolConfig \<equiv> Registered ''lending'' 2001"
abbreviation "ErrPoolAlreadyExists \<equiv> Registered ''lending'' 2002"
abbreviation "ErrPoolDoesNotExist \<equiv> Registered ''lending'' 2003"
abbreviation "ErrPoolPaused \<equiv> Registered ''lending'' 2004"
abbreviation "ErrPoolNotActive \<equiv> Registered ''lending'' 2005"
abbreviation "ErrInsufficientLiquidity \<equiv> Registered ''lending'' 2006"
abbreviation "ErrSupplyCapExceeded \<equiv> Registered ''lending'' 2007"
abbreviation "ErrInvalidPubKey \<equiv> Registered ''lending'' 3001"
abbreviation "ErrInvalidMaturity \<equiv> Registered ''lending'' 3002"
abbreviation "ErrDuplicatedVault \<equiv> Registered ''lending'' 3003"
abbreviation "ErrBorrowCapExceeded \<equiv> Registered ''lending'' 3004"
abbreviation "ErrInvalidDCM \<equiv> Registered ''lending'' 3005"
abbreviation "ErrEmptyLoanId \<equiv> Registered ''lending'' 3006"
abbreviation "ErrLoanDoesNotExist \<equiv> Registered ''lending'' 3007"
abbreviation "ErrInvalidDepositTxs \<equiv> Registered ''lending'' 3008"
abbreviation "ErrInvalidDepositTx \<equiv> Registered ''lending'' 3009"
abbreviation "ErrInvalidCET \<equiv> Registered ''lending'' 3010"
abbreviation "ErrInvalidEvent \<equiv> Registered ''lending'' 3011"
abbreviation "ErrInsufficientCollateral \<equiv> Registered ''lending'' 3012"
abbreviation "ln_ErrInsufficientUTXOs \<equiv> Registered ''lending'' 3015"
abbreviation "ErrDustOutput \<equiv> Registered ''lending'' 3016"
abbreviation "ln_ErrMaxTransactionWeightExceeded \<equiv> Registered ''lending'' 3017"
abbreviation "ErrInvalidVault \<equiv> Registered ''lending'' 4001"
abbreviation "ErrInvalidBlockHash \<equiv> Registered ''lending'' 4002"
abbreviation "ErrInvalidProof \<equiv> Registered ''lending'' 4003"
abbreviation "ErrDepositTxDoesNotExist \<equiv> Registered ''lending'' 4004"
abbreviation "ErrMismatchedBorrower \<equiv> Registered ''lending'' 5001"
abbreviation "ErrInvalidTx \<equiv> Registered ''lending'' 5002"
abbreviation "ErrRedemptionDoesNotExist \<equiv> Registered ''lending'' 5003"
abbreviation "ErrDCMSignaturesAlreadyExist \<equiv> Registered ''lending'' 5004"
abbreviation "ErrRepaymentAdaptorSigsAlreadyExist \<equiv> Registered ''lending'' 6001"
abbreviation "ErrLiquidationSignaturesAlreadyExist \<equiv> Registered ''lending'' 6002"
abbreviation "ErrInvalidAdaptorSignatures \<equiv> Registered ''lending'' 6003"
abbreviation "ErrInvalidAdaptorSignature \<equiv> Registered ''lending'' 6004"
abbreviation "ErrInvalidLoanStatus \<equiv> Registered ''lending'' 7001"
abbreviation "ErrInvalidSignatures \<equiv> Registered ''lending'' 7002"
abbreviation "ErrInvalidSignature \<equiv> Registered ''lending'' 7003"
abbreviation "ErrInvalidSigningIntent \<equiv> Registered ''lending'' 7004"
abbreviation "ErrInvalidReferrer \<equiv> Registered ''lending'' 8001"
abbreviation "ErrInvalidReferralCode \<equiv> Registered ''lending'' 8002"
abbreviation "ErrInvalidReferralFeeFactor \<equiv> Registered ''lending'' 8003"
abbreviation "ErrReferrerAlreadyExists \<equiv> Registered ''lending'' 8004"
abbreviation "ErrReferrerDoesNotExist \<equiv> Registered ''lending'' 8005"

section \<open>Pools\<close>

datatype pool_status = INACTIVE | ACTIVE | PAUSED

record tranche_config =
  tc_Maturity :: int
  tc_BorrowAPR :: dec

record pool_config =
  pc_CollateralAsset :: asset_metadata
  pc_LendingAsset :: asset_metadata
  pc_SupplyCap :: int
  pc_BorrowCap :: int
  pc_MinBorrowAmount :: int
  pc_MaxBorrowAmount :: int
  pc_Tranches :: "tranche_config list"
  pc_RequestFee :: coin
  pc_OriginationFeeFactor :: dec
  pc_ReserveFactor :: dec
  pc_MaxLtv :: dec
  pc_LiquidationThreshold :: dec
  pc_Paused :: bool

record pool_tranche =
  pt_Maturity :: int
  pt_BorrowIndex :: dec
  pt_TotalBorrowed :: int
  pt_TotalReserve :: int

record lending_pool =
  po_Id :: string
  po_Supply :: coin
  po_AvailableAmount :: int
  po_BorrowedAmount :: int
  po_TotalBorrowed :: int
  po_ReserveAmount :: int
  po_TotalReserve :: int
  po_TotalYTokens :: coin
  po_Tranches :: "pool_tranche list"
  po_Config :: pool_config
  po_Status :: pool_status

definition zero_pool_config :: pool_config where
  "zero_pool_config = \<lparr>pc_CollateralAsset = zero_asset_metadata, pc_LendingAsset = zero_asset_metadata,
     pc_SupplyCap = 0, pc_BorrowCap = 0, pc_MinBorrowAmount = 0, pc_MaxBorrowAmount = 0, pc_Tranches = [],
     pc_RequestFee = nil_coin, pc_OriginationFeeFactor = 0, pc_ReserveFactor = 0, pc_MaxLtv = 0,
     pc_LiquidationThreshold = 0, pc_Paused = False\<rparr>"

definition zero_pool :: lending_pool where
  "zero_pool = \<lparr>po_Id = '''', po_Supply = nil_coin, po_AvailableAmount = 0, po_BorrowedAmount = 0,
     po_TotalBorrowed = 0, po_ReserveAmount = 0, po_TotalReserve = 0, po_TotalYTokens = nil_coin,
     po_Tranches = [], po_Config = zero_pool_config, po_Status = INACTIVE\<rparr>"

section \<open>Loans\<close>

datatype loan_status = LOAN_Unspecified | LOAN_Requested | LOAN_Cancelled | LOAN_Authorized | LOAN_Rejected
  | LOAN_Open | LOAN_Repaid | LOAN_Defaulted | LOAN_Liquidated | LOAN_Closed

fun loan_status_code :: "loan_status \<Rightarrow> nat" where
  "loan_status_code LOAN_Unspecified = 0"
| "loan_status_code LOAN_Requested = 1"
| "loan_status_code LOAN_Cancelled = 2"
| "loan_status_code LOAN_Authorized = 3"
| "loan_status_code LOAN_Rejected = 4"
| "loan_status_code LOAN_Open = 5"
| "loan_status_code LOAN_Repaid = 6"
| "loan_status_code LOAN_Defaulted = 7"
| "loan_status_code LOAN_Liquidated = 8"
| "loan_status_code LOAN_Closed = 9"

lemma loan_status_code_inj: "loan_status_code a = loan_status_code b \<Longrightarrow> a = b"
  by (cases a; cases b) auto

text \<open>Go compares the enum's numbers (\<open>loan.Status >= LoanStatus_Open\<close>) and the index is in their order.\<close>

instantiation loan_status :: linorder
begin

definition less_eq_loan_status :: "loan_status \<Rightarrow> loan_status \<Rightarrow> bool" where
  "less_eq_loan_status a b \<longleftrightarrow> loan_status_code a \<le> loan_status_code b"

definition less_loan_status :: "loan_status \<Rightarrow> loan_status \<Rightarrow> bool" where
  "less_loan_status a b \<longleftrightarrow> loan_status_code a < loan_status_code b"

instance
  by standard (auto simp: less_eq_loan_status_def less_loan_status_def dest: loan_status_code_inj)

end

datatype authorization_status = AUTH_PENDING | AUTH_AUTHORIZED | AUTH_REJECTED

record authorization =
  au_Id :: u64
  au_DepositTxs :: "string list"
  au_Status :: authorization_status

record referrer =
  rf_Name :: string
  rf_ReferralCode :: string
  rf_Address :: string
  rf_ReferralFeeFactor :: dec

record loan =
  lo_VaultAddress :: string
  lo_Borrower :: string
  lo_BorrowerPubKey :: string
  lo_BorrowerAuthPubKey :: string
  lo_DCM :: string
  lo_MaturityTime :: int
  lo_FinalTimeout :: int
  lo_PoolId :: string
  lo_BorrowAmount :: coin
  lo_RequestFee :: coin
  lo_OriginationFee :: int
  lo_Interest :: int
  lo_ProtocolFee :: int
  lo_Maturity :: int
  lo_BorrowAPR :: dec
  lo_StartBorrowIndex :: dec
  lo_LiquidationPrice :: dec
  lo_DlcEventId :: u64
  lo_Authorizations :: "authorization list"
  lo_CollateralAmount :: int
  lo_LiquidationId :: u64
  lo_Referrer :: "referrer option"
  lo_CreateAt :: int
  lo_DisburseAt :: int
  lo_Status :: loan_status

definition zero_loan :: loan where
  "zero_loan = \<lparr>lo_VaultAddress = '''', lo_Borrower = '''', lo_BorrowerPubKey = '''', lo_BorrowerAuthPubKey = '''',
     lo_DCM = '''', lo_MaturityTime = 0, lo_FinalTimeout = 0, lo_PoolId = '''', lo_BorrowAmount = nil_coin,
     lo_RequestFee = nil_coin, lo_OriginationFee = 0, lo_Interest = 0, lo_ProtocolFee = 0, lo_Maturity = 0,
     lo_BorrowAPR = 0, lo_StartBorrowIndex = 0, lo_LiquidationPrice = 0, lo_DlcEventId = 0,
     lo_Authorizations = [], lo_CollateralAmount = 0, lo_LiquidationId = 0, lo_Referrer = None,
     lo_CreateAt = 0, lo_DisburseAt = 0, lo_Status = LOAN_Unspecified\<rparr>"

datatype deposit_status = DEPOSIT_PENDING | DEPOSIT_VERIFIED | DEPOSIT_REDEEMING | DEPOSIT_REDEEMED

record deposit_log =
  dp_Txid :: string
  dp_VaultAddress :: string
  dp_AuthorizationId :: u64
  dp_DepositTx :: string
  dp_Status :: deposit_status

definition zero_deposit_log :: deposit_log where
  "zero_deposit_log = \<lparr>dp_Txid = '''', dp_VaultAddress = '''', dp_AuthorizationId = 0, dp_DepositTx = '''',
     dp_Status = DEPOSIT_PENDING\<rparr>"

record repayment =
  rp_LoanId :: string
  rp_Amount :: coin
  rp_CreateAt :: int

definition zero_repayment :: repayment where
  "zero_repayment = \<lparr>rp_LoanId = '''', rp_Amount = nil_coin, rp_CreateAt = 0\<rparr>"

record redemption =
  re_Id :: u64
  re_LoanId :: string
  re_Txid :: string
  re_Tx :: string
  re_Signatures :: "string list"
  re_DCMSignatures :: "string list"
  re_CreateAt :: int

definition zero_redemption :: redemption where
  "zero_redemption = \<lparr>re_Id = 0, re_LoanId = '''', re_Txid = '''', re_Tx = '''', re_Signatures = [],
     re_DCMSignatures = [], re_CreateAt = 0\<rparr>"

datatype cet_type = CET_LIQUIDATION | CET_DEFAULT_LIQUIDATION | CET_REPAYMENT

record leaf_script =
  ls_Script :: string
  ls_ControlBlock :: string

record liquidation_cet =
  lc_Tx :: string
  lc_BorrowerAdaptorSignatures :: "string list"
  lc_BorrowerAdaptedSignatures :: "string list"
  lc_DCMSignatures :: "string list"
  lc_SignedTxHex :: string

record repayment_cet =
  rc_Tx :: string
  rc_DCMAdaptorSignatures :: "string list"
  rc_DCMAdaptedSignatures :: "string list"
  rc_BorrowerSignatures :: "string list"
  rc_SignedTxHex :: string

record dlc_meta =
  dm_LiquidationCet :: liquidation_cet
  dm_DefaultLiquidationCet :: liquidation_cet
  dm_RepaymentCet :: repayment_cet
  dm_TimeoutRefundTx :: string
  dm_VaultUtxos :: "utxo list"
  dm_InternalKey :: string
  dm_LiquidationScript :: leaf_script
  dm_RepaymentScript :: leaf_script
  dm_TimeoutRefundScript :: leaf_script

definition zero_liquidation_cet :: liquidation_cet where
  "zero_liquidation_cet = \<lparr>lc_Tx = '''', lc_BorrowerAdaptorSignatures = [], lc_BorrowerAdaptedSignatures = [],
     lc_DCMSignatures = [], lc_SignedTxHex = ''''\<rparr>"

definition zero_repayment_cet :: repayment_cet where
  "zero_repayment_cet = \<lparr>rc_Tx = '''', rc_DCMAdaptorSignatures = [], rc_DCMAdaptedSignatures = [],
     rc_BorrowerSignatures = [], rc_SignedTxHex = ''''\<rparr>"

definition zero_leaf_script :: leaf_script where
  "zero_leaf_script = \<lparr>ls_Script = '''', ls_ControlBlock = ''''\<rparr>"

definition zero_dlc_meta :: dlc_meta where
  "zero_dlc_meta = \<lparr>dm_LiquidationCet = zero_liquidation_cet, dm_DefaultLiquidationCet = zero_liquidation_cet,
     dm_RepaymentCet = zero_repayment_cet, dm_TimeoutRefundTx = '''', dm_VaultUtxos = [], dm_InternalKey = '''',
     dm_LiquidationScript = zero_leaf_script, dm_RepaymentScript = zero_leaf_script,
     dm_TimeoutRefundScript = zero_leaf_script\<rparr>"

record lending_params =
  lnp_FinalTimeoutDuration :: int
  lnp_MaxLiquidationFeeRateMultiplier :: int
  lnp_RequestFeeCollector :: string
  lnp_OriginationFeeCollector :: string
  lnp_ProtocolFeeCollector :: string

section \<open>State and environment\<close>

record 'b lending = "'b liq" +
  ln_params :: lending_params
  ln_redemption_id :: "u64 option"
  ln_pools :: "(string, lending_pool) kv"
  ln_loans :: "(string, loan) kv"
  ln_by_status :: "(loan_status \<times> string, unit) kv"
  ln_by_address :: "(string \<times> string, unit) kv"
  ln_by_oracle :: "(string \<times> string, unit) kv"
  ln_liq_queue :: "(string, unit) kv"
  ln_auth_ids :: "(string, u64) kv"
  ln_deposits :: "(string, deposit_log) kv"
  ln_repayments :: "(string, repayment) kv"
  ln_dlc_metas :: "(string, dlc_meta) kv"
  ln_redemptions :: "(u64, redemption) kv"
  ln_referrers :: "(string, referrer) kv"

text \<open>
  The environment adds the blocks per year of the mint module, the SDK's \<open>RoundInt\<close>, Go's \<open>%.g\<close>
  rendering and \<open>shopspring\<close> rendering of a decimal, the taproot vault of the keys of a loan, the
  signature point of an outcome, the adaptor operation and the parsers of keys and signatures,
  and the bridge's check of a confirmed transaction, which gives the transaction's hash.
\<close>

record 'b lenv = "'b lq_env" +
  blocks_per_year :: u64
  round_int :: "dec \<Rightarrow> int"
  float_g :: "dec \<Rightarrow> string"
  decimal_string :: "dec \<Rightarrow> string"
  CreateVaultAddress :: "string \<Rightarrow> string \<Rightarrow> string \<Rightarrow> int \<Rightarrow> string res"
  BuildDLCMeta :: "string \<Rightarrow> string \<Rightarrow> string \<Rightarrow> int \<Rightarrow> dlc_meta res"
  GetSignaturePoint :: "string \<Rightarrow> string \<Rightarrow> string \<Rightarrow> string res"
  sha256 :: "string \<Rightarrow> string"
  Adapt :: "string \<Rightarrow> string \<Rightarrow> string"
  pubkey_ok :: "string \<Rightarrow> bool"
  signature_ok :: "string \<Rightarrow> bool"
  adaptor_signature_ok :: "string \<Rightarrow> bool"

abbreviation lending_acc :: acct where
  "lending_acc \<equiv> ModuleAcc ''lending''"

abbreviation escrow_acc :: acct where
  "escrow_acc \<equiv> ModuleAcc ''lending_escrow''"

end
