(* ===== verification/Lending_Math.thy ===== *)
theory Lending_Math
  imports Lending_Types
begin

text \<open>
  The pure functions of \<open>x/lending/types/lending.go\<close>, \<open>utils.go\<close> and \<open>params.go\<close>. Division by zero and
  the power of ten with a negative exponent panic; multiplication of a maturity by the blocks
  per year is in 64 bits.
\<close>

section \<open>Interest, fees and prices\<close>

definition InitialBorrowIndex :: dec where
  "InitialBorrowIndex = dec_one"

definition OneYear :: u64 where
  "OneYear = 31536000"

definition quo :: "('b, 'e) env_scheme \<Rightarrow> dec \<Rightarrow> dec \<Rightarrow> dec res" where
  "quo E a b = (if b = 0 then Inl Panic else Inr (dec_quo E a b))"

definition quo_int :: "('b, 'e) env_scheme \<Rightarrow> dec \<Rightarrow> int \<Rightarrow> dec res" where
  "quo_int E a b = (if b = 0 then Inl Panic else Inr (dec_quo_int E a b))"

definition pow10 :: "int \<Rightarrow> int res" where
  "pow10 n = (if n < 0 then Inl Panic else Inr (10 ^ nat n))"

definition GetExchangeRate :: "('b, 'e) env_scheme \<Rightarrow> int \<Rightarrow> int \<Rightarrow> int \<Rightarrow> int \<Rightarrow> dec res" where
  "GetExchangeRate E available borrowed reserve ytokens =
     (if ytokens = 0 then Inr dec_one else quo E (to_dec (available + borrowed - reserve)) (to_dec ytokens))"

definition GetInterest :: "('b, 'e) env_scheme \<Rightarrow> int \<Rightarrow> dec \<Rightarrow> dec \<Rightarrow> int res" where
  "GetInterest E amount start index =
     bind_res (quo E (dec_mul E (to_dec amount) index) start) (\<lambda>x. Inr (truncate_int x - amount))"

definition borrow_rate_per_block :: "('b, 'e) env_scheme \<Rightarrow> dec \<Rightarrow> u64 \<Rightarrow> dec res" where
  "borrow_rate_per_block E apr bpy = quo E apr (to_dec (sint bpy))"

definition GetTotalInterest :: "('b, 'e) env_scheme \<Rightarrow> int \<Rightarrow> int \<Rightarrow> dec \<Rightarrow> u64 \<Rightarrow> int res" where
  "GetTotalInterest E amount maturity apr bpy =
     (let totalBlocks = (word_of_int maturity * bpy) div OneYear in
      bind_res (borrow_rate_per_block E apr bpy) (\<lambda>rate.
      Inr (truncate_int (dec_mul E (to_dec amount) (dec_power E (dec_one + rate) (unat totalBlocks))) - amount)))"

definition GetProtocolFee :: "('b, 'e) env_scheme \<Rightarrow> int \<Rightarrow> dec \<Rightarrow> int" where
  "GetProtocolFee E interest factor = truncate_int (dec_mul E (to_dec interest) factor)"

text \<open>
  The number of digits of the integer part, or minus the number of zeros that the rendering of a
  fraction has between the point and its first other digit. A \<open>range\<close> over the rendering ends at the first digit that
  is not zero (the \<open>break\<close> leaves the loop; a character that is no digit is skipped).
\<close>

fun count_zeros :: "string \<Rightarrow> int" where
  "count_zeros [] = 0"
| "count_zeros (c # cs) =
     (if c = CHR ''0'' then count_zeros cs - 1
      else case char_digit c of Some _ \<Rightarrow> 0 | None \<Rightarrow> count_zeros cs)"

definition after_point :: "string \<Rightarrow> string option" where
  "after_point s = (case dropWhile (\<lambda>c. c \<noteq> CHR ''.'') s of [] \<Rightarrow> None | _ # frac \<Rightarrow> Some frac)"

definition int_string :: "int \<Rightarrow> string" where
  "int_string n = (if n < 0 then CHR ''-'' # dec_string (nat (- n)) else dec_string (nat n))"

definition digitOrZeroCount :: "('b, 'e) lenv_scheme \<Rightarrow> dec \<Rightarrow> int res" where
  "digitOrZeroCount E n =
     (if dec_one \<le> n then bind_res (to_int64 (round_int E n)) (\<lambda>k. Inr (int (length (int_string k))))
      else if 0 < n then
        (case after_point (float_g E n) of None \<Rightarrow> Inr 0 | Some frac \<Rightarrow> Inr (count_zeros frac))
      else Inr 0)"

definition PricePrecision :: dec where
  "PricePrecision = 10 ^ 15"

definition NormalizePrice :: "('b, 'e) lenv_scheme \<Rightarrow> dec \<Rightarrow> bool \<Rightarrow> dec res" where
  "NormalizePrice E price base =
     bind_res (digitOrZeroCount E price) (\<lambda>n.
     let adjust = ((\<lambda>a. a * 10) ^^ nat n) PricePrecision;
         adjust = ((\<lambda>a. tdiv a 10) ^^ nat (- n)) adjust in
     bind_res (quo E (if base then price + adjust else price) adjust) (\<lambda>q.
     Inr (dec_mul E (to_dec (truncate_int q)) adjust)))"

definition GetLiquidationPrice ::
  "('b, 'e) lenv_scheme \<Rightarrow> int \<Rightarrow> int \<Rightarrow> int \<Rightarrow> int \<Rightarrow> int \<Rightarrow> dec \<Rightarrow> u64 \<Rightarrow> dec \<Rightarrow> bool \<Rightarrow> dec res" where
  "GetLiquidationPrice E collateral cd borrow bd maturity apr bpy lltv base =
     bind_res (GetTotalInterest E borrow maturity apr bpy) (\<lambda>interest.
     bind_res (if base then
         bind_res (pow10 cd) (\<lambda>c10.
         bind_res (quo E (to_dec ((borrow + interest) * c10)) lltv) (\<lambda>x.
         bind_res (quo_int E x collateral) (\<lambda>x.
         bind_res (pow10 bd) (quo_int E x))))
       else
         bind_res (pow10 bd) (\<lambda>b10.
         bind_res (quo_int E (dec_mul E (to_dec (collateral * b10)) lltv) (borrow + interest)) (\<lambda>x.
         bind_res (pow10 cd) (quo_int E x)))) (\<lambda>price.
     NormalizePrice E price base))"

definition ToBeLiquidated :: "dec \<Rightarrow> dec \<Rightarrow> bool \<Rightarrow> bool" where
  "ToBeLiquidated price lprice base = (if base then price \<le> lprice else lprice \<le> price)"

definition CheckLTV ::
  "('b, 'e) env_scheme \<Rightarrow> int \<Rightarrow> int \<Rightarrow> int \<Rightarrow> int \<Rightarrow> dec \<Rightarrow> dec \<Rightarrow> bool \<Rightarrow> bool res" where
  "CheckLTV E collateral cd borrow bd maxLTV price base =
     bind_res (pow10 bd) (\<lambda>b10.
     bind_res (if base then Inr (dec_mul E (dec_mul E (to_dec (collateral * b10)) maxLTV) price)
               else quo E (dec_mul E (to_dec (collateral * b10)) maxLTV) price) (\<lambda>v.
     bind_res (pow10 cd) (\<lambda>c10.
     bind_res (quo_int E v c10) (\<lambda>v. Inr (borrow \<le> truncate_int v)))))"

definition lending_GetPricePair :: "pool_config \<Rightarrow> string" where
  "lending_GetPricePair c =
     (if am_IsBasePriceAsset (pc_CollateralAsset c)
      then am_PriceSymbol (pc_CollateralAsset c) @ am_PriceSymbol (pc_LendingAsset c)
      else am_PriceSymbol (pc_LendingAsset c) @ am_PriceSymbol (pc_CollateralAsset c))"

definition FormatPriceWithPair :: "('b, 'e) lenv_scheme \<Rightarrow> dec \<Rightarrow> string \<Rightarrow> string" where
  "FormatPriceWithPair E price pair = decimal_string E price @ pair"

definition Y_TOKEN_DENOM_PREFIX :: string where
  "Y_TOKEN_DENOM_PREFIX = ''y''"

definition YTokenDenom :: "string \<Rightarrow> string" where
  "YTokenDenom i = Y_TOKEN_DENOM_PREFIX @ i"

definition has_prefix :: "string \<Rightarrow> string \<Rightarrow> bool" where
  "has_prefix s p \<longleftrightarrow> take (length p) s = p"

definition PoolIdFromYTokenDenom :: "string \<Rightarrow> string" where
  "PoolIdFromYTokenDenom d = (if has_prefix d Y_TOKEN_DENOM_PREFIX then drop (length Y_TOKEN_DENOM_PREFIX) d else d)"

lemma PoolIdFromYTokenDenom_YTokenDenom: "PoolIdFromYTokenDenom (YTokenDenom i) = i"
  by (simp add: PoolIdFromYTokenDenom_def YTokenDenom_def has_prefix_def)

lemma YTokenDenom_PoolIdFromYTokenDenom:
  "has_prefix d Y_TOKEN_DENOM_PREFIX \<Longrightarrow> YTokenDenom (PoolIdFromYTokenDenom d) = d"
  unfolding PoolIdFromYTokenDenom_def YTokenDenom_def has_prefix_def by (metis append_take_drop_id)

definition ToLiquidationAssetMeta :: "asset_metadata \<Rightarrow> asset_metadata" where
  "ToLiquidationAssetMeta m = \<lparr>am_Denom = am_Denom m, am_Symbol = am_Symbol m, am_Decimals = am_Decimals m,
     am_PriceSymbol = am_PriceSymbol m, am_IsBasePriceAsset = am_IsBasePriceAsset m\<rparr>"

section \<open>Caps and conditions\<close>

definition HasSupplyCap :: "lending_pool \<Rightarrow> bool" where
  "HasSupplyCap p \<longleftrightarrow> 0 < pc_SupplyCap (po_Config p)"

definition HasBorrowCap :: "lending_pool \<Rightarrow> bool" where
  "HasBorrowCap p \<longleftrightarrow> 0 < pc_BorrowCap (po_Config p)"

definition HasMinBorrowAmountLimit :: "lending_pool \<Rightarrow> bool" where
  "HasMinBorrowAmountLimit p \<longleftrightarrow> 0 < pc_MinBorrowAmount (po_Config p)"

definition HasMaxBorrowAmountLimit :: "lending_pool \<Rightarrow> bool" where
  "HasMaxBorrowAmountLimit p \<longleftrightarrow> 0 < pc_MaxBorrowAmount (po_Config p)"

definition HasReferralFee :: "loan \<Rightarrow> bool" where
  "HasReferralFee l = (case lo_Referrer l of None \<Rightarrow> False | Some r \<Rightarrow> 0 < rf_ReferralFeeFactor r)"

definition CheckSupplyCap :: "lending_pool \<Rightarrow> int \<Rightarrow> unit res" where
  "CheckSupplyCap p a =
     (if HasSupplyCap p \<and> pc_SupplyCap (po_Config p) < Amount (po_Supply p) + a then Inl ErrSupplyCapExceeded
      else Inr ())"

definition CheckBorrowCap :: "lending_pool \<Rightarrow> int \<Rightarrow> unit res" where
  "CheckBorrowCap p a =
     (if HasBorrowCap p \<and> pc_BorrowCap (po_Config p) < po_BorrowedAmount p + a then Inl ErrBorrowCapExceeded
      else Inr ())"

definition CheckBorrowAmountLimit :: "lending_pool \<Rightarrow> int \<Rightarrow> unit res" where
  "CheckBorrowAmountLimit p a =
     (if HasMinBorrowAmountLimit p \<and> a < pc_MinBorrowAmount (po_Config p) then Inl ln_ErrInvalidAmount
      else if HasMaxBorrowAmountLimit p \<and> pc_MaxBorrowAmount (po_Config p) < a then Inl ln_ErrInvalidAmount
      else Inr ())"

definition LoanDisbursed :: "loan \<Rightarrow> bool" where
  "LoanDisbursed l \<longleftrightarrow> LOAN_Open \<le> lo_Status l"

definition CollateralRedeemable :: "loan \<Rightarrow> bool" where
  "CollateralRedeemable l =
     (if lo_Authorizations l \<noteq> [] then lo_Status l = LOAN_Rejected
      else lo_Status l = LOAN_Requested \<or> lo_Status l = LOAN_Cancelled \<or> lo_Status l = LOAN_Rejected)"

definition GetTrancheConfig :: "tranche_config list \<Rightarrow> int \<Rightarrow> tranche_config option" where
  "GetTrancheConfig ts m = find (\<lambda>t. tc_Maturity t = m) ts"

definition GetTranche :: "pool_tranche list \<Rightarrow> int \<Rightarrow> pool_tranche option" where
  "GetTranche ts m = find (\<lambda>t. pt_Maturity t = m) ts"

definition NewTranche :: "tranche_config \<Rightarrow> pool_tranche" where
  "NewTranche c = \<lparr>pt_Maturity = tc_Maturity c, pt_BorrowIndex = InitialBorrowIndex, pt_TotalBorrowed = 0,
     pt_TotalReserve = 0\<rparr>"

definition NewTranches :: "tranche_config list \<Rightarrow> pool_tranche list" where
  "NewTranches cs = map NewTranche cs"

section \<open>Validation\<close>

definition validateAssetMetadata :: "('b, 'e) env_scheme \<Rightarrow> asset_metadata \<Rightarrow> unit res" where
  "validateAssetMetadata E m =
     (if \<not> valid_denom E (am_Denom m) then Inl ErrInvalidPoolConfig
      else if am_Symbol m = [] then Inl ErrInvalidPoolConfig
      else if am_Decimals m < 0 then Inl ErrInvalidPoolConfig
      else if am_PriceSymbol m = [] then Inl ErrInvalidPoolConfig
      else Inr ())"

definition validateAssetsMetadata :: "('b, 'e) env_scheme \<Rightarrow> asset_metadata \<Rightarrow> asset_metadata \<Rightarrow> unit res" where
  "validateAssetsMetadata E c l =
     bind_res (validateAssetMetadata E c) (\<lambda>_.
     bind_res (validateAssetMetadata E l) (\<lambda>_.
     if am_IsBasePriceAsset c = am_IsBasePriceAsset l then Inl ErrInvalidPoolConfig else Inr ()))"

fun check_tranches :: "int set \<Rightarrow> tranche_config list \<Rightarrow> unit res" where
  "check_tranches seen [] = Inr ()"
| "check_tranches seen (t # ts) =
     (if tc_Maturity t \<le> 0 then Inl ErrInvalidPoolConfig
      else if tc_Maturity t \<in> seen then Inl ErrInvalidPoolConfig
      else if \<not> 0 < tc_BorrowAPR t \<or> dec_one \<le> tc_BorrowAPR t then Inl ErrInvalidPoolConfig
      else check_tranches (insert (tc_Maturity t) seen) ts)"

definition validatePoolTranches :: "tranche_config list \<Rightarrow> unit res" where
  "validatePoolTranches ts = (if ts = [] then Inl ErrInvalidPoolConfig else check_tranches {} ts)"

definition ValidatePoolConfig :: "('b, 'e) env_scheme \<Rightarrow> pool_config \<Rightarrow> unit res" where
  "ValidatePoolConfig E c =
     bind_res (validateAssetsMetadata E (pc_CollateralAsset c) (pc_LendingAsset c)) (\<lambda>_.
     if pc_SupplyCap c < 0 then Inl ErrInvalidPoolConfig
     else if pc_BorrowCap c < 0 then Inl ErrInvalidPoolConfig
     else if pc_MinBorrowAmount c < 0 then Inl ErrInvalidPoolConfig
     else if pc_MaxBorrowAmount c < 0 then Inl ErrInvalidPoolConfig
     else if 0 < pc_MinBorrowAmount c \<and> 0 < pc_MaxBorrowAmount c \<and> pc_MaxBorrowAmount c < pc_MinBorrowAmount c
     then Inl ErrInvalidPoolConfig
     else bind_res (validatePoolTranches (pc_Tranches c)) (\<lambda>_.
     if \<not> coin_valid E (pc_RequestFee c) \<or> \<not> 0 < Amount (pc_RequestFee c) then Inl ErrInvalidPoolConfig
     else if pc_OriginationFeeFactor c < 0 \<or> dec_one \<le> pc_OriginationFeeFactor c then Inl ErrInvalidPoolConfig
     else if pc_ReserveFactor c < 0 \<or> dec_one \<le> pc_ReserveFactor c then Inl ErrInvalidPoolConfig
     else if \<not> 0 < pc_LiquidationThreshold c \<or> dec_one \<le> pc_LiquidationThreshold c then Inl ErrInvalidPoolConfig
     else if \<not> 0 < pc_MaxLtv c \<or> dec_one \<le> pc_MaxLtv c \<or> pc_LiquidationThreshold c \<le> pc_MaxLtv c
     then Inl ErrInvalidPoolConfig
     else Inr ()))"

definition ValidatePoolConfigUpdate :: "pool_config \<Rightarrow> pool_config \<Rightarrow> unit res" where
  "ValidatePoolConfigUpdate c c' =
     (if pc_CollateralAsset c' \<noteq> pc_CollateralAsset c then Inl ErrInvalidPoolConfig
      else if pc_LendingAsset c' \<noteq> pc_LendingAsset c then Inl ErrInvalidPoolConfig
      else Inr ())"

text \<open>Durations are in nanoseconds.\<close>

definition MinFinalTimeoutDuration :: int where
  "MinFinalTimeoutDuration = 90 * 24 * 3600 * 10 ^ 9"

definition lending_DefaultParams :: "string \<Rightarrow> lending_params" where
  "lending_DefaultParams gov = \<lparr>lnp_FinalTimeoutDuration = 365 * 24 * 3600 * 10 ^ 9,
     lnp_MaxLiquidationFeeRateMultiplier = 5, lnp_RequestFeeCollector = gov, lnp_OriginationFeeCollector = gov,
     lnp_ProtocolFeeCollector = gov\<rparr>"

definition lending_Params_Validate :: "('b, 'e) env_scheme \<Rightarrow> lending_params \<Rightarrow> unit res" where
  "lending_Params_Validate E p =
     (if lnp_FinalTimeoutDuration p < MinFinalTimeoutDuration then Inl ln_ErrInvalidParams
      else if lnp_MaxLiquidationFeeRateMultiplier p < 0 then Inl ln_ErrInvalidParams
      else if \<not> bech32_ok E (lnp_RequestFeeCollector p) then Inl ln_ErrInvalidParams
      else if \<not> bech32_ok E (lnp_OriginationFeeCollector p) then Inl ln_ErrInvalidParams
      else if \<not> bech32_ok E (lnp_ProtocolFeeCollector p) then Inl ln_ErrInvalidParams
      else Inr ())"

section \<open>Referral codes\<close>

definition alnum :: "char \<Rightarrow> bool" where
  "alnum c = (let n = of_char c :: nat in
     48 \<le> n \<and> n \<le> 57 \<or> 65 \<le> n \<and> n \<le> 90 \<or> 97 \<le> n \<and> n \<le> 122)"

definition ReferralCodeRegex :: "string \<Rightarrow> bool" where
  "ReferralCodeRegex s \<longleftrightarrow> length s = 8 \<and> list_all alnum s"

definition ascii_lower :: "char \<Rightarrow> char" where
  "ascii_lower c = (let n = of_char c :: nat in if 65 \<le> n \<and> n \<le> 90 then char_of (n + 32) else c)"

definition ReferrerKey :: "string \<Rightarrow> string" where
  "ReferrerKey code = map ascii_lower code"

definition MaxReferrerNameLength :: nat where
  "MaxReferrerNameLength = 70"

end
