(* ===== verification/Lending_Pool.thy ===== *)
theory Lending_Pool
  imports Lending_Math
begin

text \<open>
  The pools of the lending module: \<open>x/lending/keeper/pool.go\<close>, \<open>msg_server_pool.go\<close>, the
  parameters and the begin blocker, which accrues the interest of every tranche.
\<close>

section \<open>Store\<close>

definition SetPool :: "lending_pool \<Rightarrow> ('b, 'x) lending_scheme \<Rightarrow> ('b, 'x) lending_scheme" where
  "SetPool p s = s\<lparr>ln_pools := kv_set (po_Id p) p (ln_pools s)\<rparr>"

definition HasPool :: "('b, 'x) lending_scheme \<Rightarrow> string \<Rightarrow> bool" where
  "HasPool s i = kv_has (ln_pools s) i"

definition GetPool :: "('b, 'x) lending_scheme \<Rightarrow> string \<Rightarrow> lending_pool" where
  "GetPool s i = (case kv_get (ln_pools s) i of None \<Rightarrow> zero_pool | Some p \<Rightarrow> p)"

definition GetAllPools :: "('b, 'x) lending_scheme \<Rightarrow> lending_pool list" where
  "GetAllPools s = map snd (ln_pools s)"

definition GetPools :: "('b, 'x) lending_scheme \<Rightarrow> pool_status \<Rightarrow> lending_pool list" where
  "GetPools s st = filter (\<lambda>p. po_Status p = st) (GetAllPools s)"

section \<open>Hooks of borrowing and repaying\<close>

text \<open>The first tranche of the maturity is changed.\<close>

fun update_tranche :: "int \<Rightarrow> (pool_tranche \<Rightarrow> pool_tranche) \<Rightarrow> pool_tranche list \<Rightarrow> pool_tranche list" where
  "update_tranche m f [] = []"
| "update_tranche m f (t # ts) = (if pt_Maturity t = m then f t # ts else t # update_tranche m f ts)"

definition AfterPoolBorrowed ::
  "string \<Rightarrow> int \<Rightarrow> coin \<Rightarrow> ('b, 'x) lending_scheme \<Rightarrow> ('b, 'x) lending_scheme" where
  "AfterPoolBorrowed i maturity amount s =
     (let p = GetPool s i;
          p = p\<lparr>po_AvailableAmount := po_AvailableAmount p - Amount amount,
                po_BorrowedAmount := po_BorrowedAmount p + Amount amount,
                po_TotalBorrowed := po_TotalBorrowed p + Amount amount,
                po_Tranches := update_tranche maturity
                  (\<lambda>t. t\<lparr>pt_TotalBorrowed := pt_TotalBorrowed t + Amount amount\<rparr>) (po_Tranches p)\<rparr>
      in SetPool p s)"

definition normalize_tranche :: "pool_tranche \<Rightarrow> pool_tranche" where
  "normalize_tranche t = t\<lparr>pt_TotalBorrowed := (if pt_TotalBorrowed t < 0 then 0 else pt_TotalBorrowed t),
     pt_TotalReserve := (if pt_TotalReserve t < 0 then 0 else pt_TotalReserve t)\<rparr>"

definition NormalizePool :: "lending_pool \<Rightarrow> lending_pool" where
  "NormalizePool p = p\<lparr>po_TotalBorrowed := (if po_TotalBorrowed p < 0 then 0 else po_TotalBorrowed p),
     po_TotalReserve := (if po_TotalReserve p < 0 then 0 else po_TotalReserve p),
     po_Tranches := map normalize_tranche (po_Tranches p)\<rparr>"

definition AfterPoolRepaid ::
  "string \<Rightarrow> int \<Rightarrow> coin \<Rightarrow> int \<Rightarrow> int \<Rightarrow> int \<Rightarrow> ('b, 'x) lending_scheme \<Rightarrow> ('b, 'x) lending_scheme res" where
  "AfterPoolRepaid i maturity amount interest protocolFee actualProtocolFee s =
     (let p = GetPool s i;
          repaid = Amount amount + interest;
          actual = repaid - protocolFee in
      bind_res (coin_sub_amount (coin_add_amount (po_Supply p) interest) protocolFee) (\<lambda>supply.
      let p = p\<lparr>po_Supply := supply,
                po_AvailableAmount := po_AvailableAmount p + actual,
                po_BorrowedAmount := po_BorrowedAmount p - Amount amount,
                po_TotalBorrowed := po_TotalBorrowed p - repaid,
                po_ReserveAmount := po_ReserveAmount p + actualProtocolFee,
                po_TotalReserve := po_TotalReserve p - protocolFee,
                po_Tranches := update_tranche maturity
                  (\<lambda>t. t\<lparr>pt_TotalBorrowed := pt_TotalBorrowed t - repaid\<rparr>) (po_Tranches p)\<rparr>
      in Inr (SetPool (NormalizePool p) s)))"

definition RebalancePool ::
  "string \<Rightarrow> int \<Rightarrow> int \<Rightarrow> int \<Rightarrow> ('b, 'x) lending_scheme \<Rightarrow> ('b, 'x) lending_scheme" where
  "RebalancePool i maturity borrowedDelta reserveDelta s =
     (let p = GetPool s i;
          p = p\<lparr>po_TotalBorrowed := po_TotalBorrowed p - borrowedDelta,
                po_TotalReserve := po_TotalReserve p - reserveDelta,
                po_Tranches := update_tranche maturity
                  (\<lambda>t. t\<lparr>pt_TotalBorrowed := pt_TotalBorrowed t - borrowedDelta,
                         pt_TotalReserve := pt_TotalReserve t - reserveDelta\<rparr>) (po_Tranches p)\<rparr>
      in SetPool (NormalizePool p) s)"

section \<open>Interest accrual\<close>

text \<open>One tranche in one block. A tranche without a configuration dereferences nil.\<close>

definition accrue_tranche :: "('b, 'e) env_scheme \<Rightarrow> u64 \<Rightarrow> pool_config \<Rightarrow> pool_tranche \<Rightarrow> pool_tranche res" where
  "accrue_tranche E bpy c t =
     (case GetTrancheConfig (pc_Tranches c) (pt_Maturity t) of None \<Rightarrow> Inl Panic | Some tc \<Rightarrow>
      bind_res (borrow_rate_per_block E (tc_BorrowAPR tc) bpy) (\<lambda>rate.
      let ratio = dec_one + rate;
          reserveDelta = truncate_int (dec_mul E (dec_mul E (to_dec (pt_TotalBorrowed t)) rate) (pc_ReserveFactor c)) in
      Inr (t\<lparr>pt_BorrowIndex := dec_mul E (pt_BorrowIndex t) ratio,
             pt_TotalBorrowed := truncate_int (dec_mul E (to_dec (pt_TotalBorrowed t)) ratio),
             pt_TotalReserve := pt_TotalReserve t + reserveDelta\<rparr>)))"

fun map_res :: "('a \<Rightarrow> 'c res) \<Rightarrow> 'a list \<Rightarrow> 'c list res" where
  "map_res f [] = Inr []"
| "map_res f (x # xs) = bind_res (f x) (\<lambda>y. bind_res (map_res f xs) (\<lambda>ys. Inr (y # ys)))"

definition UpdatePoolTranches :: "('b, 'e) lenv_scheme \<Rightarrow> lending_pool \<Rightarrow> lending_pool res" where
  "UpdatePoolTranches E p =
     bind_res (map_res (accrue_tranche E (blocks_per_year E) (po_Config p)) (po_Tranches p)) (\<lambda>ts.
     Inr (p\<lparr>po_Tranches := ts\<rparr>))"

definition UpdatePool :: "('b, 'e) lenv_scheme \<Rightarrow> lending_pool \<Rightarrow> lending_pool res" where
  "UpdatePool E p =
     bind_res (UpdatePoolTranches E p) (\<lambda>p.
     Inr (p\<lparr>po_TotalBorrowed := sum_list (map pt_TotalBorrowed (po_Tranches p)),
            po_TotalReserve := sum_list (map pt_TotalReserve (po_Tranches p))\<rparr>))"

definition update_pool_step ::
  "('b, 'e) lenv_scheme \<Rightarrow> lending_pool \<Rightarrow> ('b, 'x) lending_scheme \<Rightarrow> ('b, 'x) lending_scheme res" where
  "update_pool_step E p s =
     (if po_Status p \<noteq> INACTIVE then bind_res (UpdatePool E p) (\<lambda>p. Inr (SetPool p s)) else Inr s)"

definition updatePools :: "('b, 'e) lenv_scheme \<Rightarrow> ('b, 'x) lending_scheme \<Rightarrow> ('b, 'x) lending_scheme res" where
  "updatePools E s = fold_res (update_pool_step E) (GetAllPools s) s"

definition lending_BeginBlocker :: "('b, 'e) lenv_scheme \<Rightarrow> ('b, 'x) lending_scheme \<Rightarrow> ('b, 'x) lending_scheme res" where
  "lending_BeginBlocker E s = updatePools E s"

section \<open>Configuration\<close>

definition UpdatePoolStatus :: "pool_config \<Rightarrow> lending_pool \<Rightarrow> lending_pool" where
  "UpdatePoolStatus c p =
     (if pc_Paused c \<and> \<not> pc_Paused (po_Config p) then p\<lparr>po_Status := PAUSED\<rparr>
      else if \<not> pc_Paused c \<and> pc_Paused (po_Config p)
      then p\<lparr>po_Status := (if Amount (po_Supply p) = 0 then INACTIVE else ACTIVE)\<rparr>
      else p)"

text \<open>A new maturity adds a tranche; the old configuration decides what is new.\<close>

definition OnPoolTranchesConfigChanged :: "tranche_config list \<Rightarrow> lending_pool \<Rightarrow> lending_pool" where
  "OnPoolTranchesConfigChanged cs p =
     fold (\<lambda>c p. case GetTrancheConfig (pc_Tranches (po_Config p)) (tc_Maturity c) of
        None \<Rightarrow> p\<lparr>po_Tranches := po_Tranches p @ [NewTranche c]\<rparr> | Some _ \<Rightarrow> p) cs p"

section \<open>Shares\<close>

text \<open>What the shares of a pool are worth.\<close>

definition pool_value :: "lending_pool \<Rightarrow> int" where
  "pool_value p = po_AvailableAmount p + po_TotalBorrowed p - po_TotalReserve p"

definition int_quo :: "int \<Rightarrow> int \<Rightarrow> int res" where
  "int_quo a b = (if b = 0 then Inl Panic else Inr (tdiv a b))"

definition GetYTokenAmount :: "lending_pool \<Rightarrow> int \<Rightarrow> int res" where
  "GetYTokenAmount p deposit = int_quo (deposit * Amount (po_TotalYTokens p)) (pool_value p)"

definition GetUnderlyingAssetAmount :: "lending_pool \<Rightarrow> int \<Rightarrow> int res" where
  "GetUnderlyingAssetAmount p y = int_quo (y * pool_value p) (Amount (po_TotalYTokens p))"

section \<open>Messages\<close>

definition lending_UpdateParams ::
  "('b, 'e) env_scheme \<Rightarrow> string \<Rightarrow> string \<Rightarrow> lending_params \<Rightarrow> ('b, 'x) lending_scheme \<Rightarrow> ('b, 'x) lending_scheme res" where
  "lending_UpdateParams E authority signer p s =
     (if authority \<noteq> signer then Inl ErrGovInvalidSigner
      else if \<not> bech32_ok E signer then Inl ErrBech32Addr
      else bind_res (lending_Params_Validate E p) (\<lambda>_. Inr (s\<lparr>ln_params := p\<rparr>)))"

definition MsgCreatePool_ValidateBasic :: "('b, 'e) env_scheme \<Rightarrow> string \<Rightarrow> string \<Rightarrow> pool_config \<Rightarrow> unit res" where
  "MsgCreatePool_ValidateBasic E signer i c =
     (if \<not> bech32_ok E signer then Inl ErrBech32Addr
      else if \<not> valid_denom E (YTokenDenom i) then Inl ErrInvalidPoolId
      else ValidatePoolConfig E c)"

definition CreatePool ::
  "('b, 'e) env_scheme \<Rightarrow> string \<Rightarrow> string \<Rightarrow> string \<Rightarrow> pool_config \<Rightarrow> ('b, 'x) lending_scheme \<Rightarrow>
   ('b, 'x) lending_scheme res" where
  "CreatePool E authority signer i c s =
     (if authority \<noteq> signer then Inl ErrGovInvalidSigner
      else bind_res (MsgCreatePool_ValidateBasic E signer i c) (\<lambda>_.
      if HasPool s i then Inl ErrPoolAlreadyExists
      else if has_supply E (ch_bank s) (YTokenDenom i) then Inl ErrInvalidPoolId
      else bind_res (new_coin E (am_Denom (pc_LendingAsset c)) 0) (\<lambda>supply.
      bind_res (new_coin E (YTokenDenom i) 0) (\<lambda>yt.
      Inr (SetPool (zero_pool\<lparr>po_Id := i, po_Supply := supply, po_TotalYTokens := yt,
        po_Tranches := NewTranches (pc_Tranches c), po_Config := c, po_Status := INACTIVE\<rparr>) s)))))"

record msg_add_liquidity =
  mal_Lender :: string
  mal_PoolId :: string
  mal_Amount :: coin

definition MsgAddLiquidity_ValidateBasic :: "('b, 'e) env_scheme \<Rightarrow> msg_add_liquidity \<Rightarrow> unit res" where
  "MsgAddLiquidity_ValidateBasic E m =
     (if \<not> bech32_ok E (mal_Lender m) then Inl ErrBech32Addr
      else if mal_PoolId m = [] then Inl ErrInvalidPoolId
      else if \<not> coin_valid E (mal_Amount m) \<or> \<not> 0 < Amount (mal_Amount m) then Inl ln_ErrInvalidAmount
      else Inr ())"

definition AddLiquidity ::
  "('b, 'e) env_scheme \<Rightarrow> msg_add_liquidity \<Rightarrow> ('b, 'x) lending_scheme \<Rightarrow> ('b, 'x) lending_scheme res" where
  "AddLiquidity E m s =
     bind_res (MsgAddLiquidity_ValidateBasic E m) (\<lambda>_.
     if \<not> HasPool s (mal_PoolId m) then Inl ErrPoolDoesNotExist
     else let p = GetPool s (mal_PoolId m); a = mal_Amount m in
     if po_Status p = PAUSED then Inl ErrPoolPaused
     else if Denom a \<noteq> am_Denom (pc_LendingAsset (po_Config p)) then Inl ln_ErrInvalidAmount
     else bind_res (CheckSupplyCap p (Amount a)) (\<lambda>_.
     bind_res (if Amount (po_Supply p) = 0 then Inr (p\<lparr>po_Status := ACTIVE\<rparr>, Amount a)
               else bind_res (GetYTokenAmount p (Amount a)) (\<lambda>y. Inr (p, y))) (\<lambda>(p, y).
     bind_res (coin_add (po_Supply p) a) (\<lambda>supply.
     let p = p\<lparr>po_Supply := supply, po_AvailableAmount := po_AvailableAmount p + Amount a,
               po_TotalYTokens := coin_add_amount (po_TotalYTokens p) y\<rparr>;
         s = SetPool p s in
     bind_res (new_coin E (YTokenDenom (po_Id p)) y) (\<lambda>yt.
     bind_res (send_coins E (ch_bank s) (Account (mal_Lender m)) lending_acc [a]) (\<lambda>b.
     bind_res (mint_coins E b ''lending'' [yt]) (\<lambda>b.
     bind_res (send_coins E b lending_acc (Account (mal_Lender m)) [yt]) (\<lambda>b.
     Inr (s\<lparr>ch_bank := b\<rparr>)))))))))"

record msg_remove_liquidity =
  mrl_Lender :: string
  mrl_YTokens :: coin

definition MsgRemoveLiquidity_ValidateBasic :: "('b, 'e) env_scheme \<Rightarrow> msg_remove_liquidity \<Rightarrow> unit res" where
  "MsgRemoveLiquidity_ValidateBasic E m =
     (if \<not> bech32_ok E (mrl_Lender m) then Inl ErrBech32Addr
      else if \<not> has_prefix (Denom (mrl_YTokens m)) Y_TOKEN_DENOM_PREFIX then Inl ln_ErrInvalidAmount
      else if \<not> coin_valid E (mrl_YTokens m) \<or> \<not> 0 < Amount (mrl_YTokens m) then Inl ln_ErrInvalidAmount
      else Inr ())"

definition RemoveLiquidity ::
  "('b, 'e) env_scheme \<Rightarrow> msg_remove_liquidity \<Rightarrow> ('b, 'x) lending_scheme \<Rightarrow> ('b, 'x) lending_scheme res" where
  "RemoveLiquidity E m s =
     bind_res (MsgRemoveLiquidity_ValidateBasic E m) (\<lambda>_.
     let i = PoolIdFromYTokenDenom (Denom (mrl_YTokens m)) in
     if \<not> HasPool s i then Inl ErrPoolDoesNotExist
     else let p = GetPool s i; yt = mrl_YTokens m in
     if po_Status p \<noteq> ACTIVE then Inl ErrPoolNotActive
     else bind_res (GetUnderlyingAssetAmount p (Amount yt)) (\<lambda>w.
     if po_AvailableAmount p < w then Inl ErrInsufficientLiquidity
     else bind_res (coin_sub_amount (po_Supply p) w) (\<lambda>supply.
     bind_res (coin_sub (po_TotalYTokens p) yt) (\<lambda>ytokens.
     let p = p\<lparr>po_Supply := supply, po_AvailableAmount := po_AvailableAmount p - w, po_TotalYTokens := ytokens\<rparr>;
         s = SetPool p s in
     bind_res (new_coin E (Denom (po_Supply p)) w) (\<lambda>asset.
     bind_res (send_coins E (ch_bank s) (Account (mrl_Lender m)) lending_acc [yt]) (\<lambda>b.
     bind_res (burn_coins E b ''lending'' [yt]) (\<lambda>b.
     bind_res (send_coins E b lending_acc (Account (mrl_Lender m)) [asset]) (\<lambda>b.
     Inr (s\<lparr>ch_bank := b\<rparr>)))))))))"

definition MsgUpdatePoolConfig_ValidateBasic :: "('b, 'e) env_scheme \<Rightarrow> string \<Rightarrow> string \<Rightarrow> pool_config \<Rightarrow> unit res" where
  "MsgUpdatePoolConfig_ValidateBasic E signer i c =
     (if \<not> bech32_ok E signer then Inl ErrBech32Addr
      else if i = [] then Inl ErrInvalidPoolId
      else ValidatePoolConfig E c)"

definition UpdatePoolConfig ::
  "('b, 'e) env_scheme \<Rightarrow> string \<Rightarrow> string \<Rightarrow> string \<Rightarrow> pool_config \<Rightarrow> ('b, 'x) lending_scheme \<Rightarrow>
   ('b, 'x) lending_scheme res" where
  "UpdatePoolConfig E authority signer i c s =
     (if authority \<noteq> signer then Inl ErrGovInvalidSigner
      else bind_res (MsgUpdatePoolConfig_ValidateBasic E signer i c) (\<lambda>_.
      if \<not> HasPool s i then Inl ErrPoolDoesNotExist
      else let p = GetPool s i in
      bind_res (ValidatePoolConfigUpdate (po_Config p) c) (\<lambda>_.
      let p = OnPoolTranchesConfigChanged (pc_Tranches c) (UpdatePoolStatus c p)
      in Inr (SetPool (p\<lparr>po_Config := c\<rparr>) s))))"

end
