(* ===== verification/Settlement.thy ===== *)
theory Settlement
  imports Liquidation_Inv
begin

text \<open>
  The settlement transaction of a completed liquidation (\<open>x/liquidation/types/bitcoin.go\<close>): it
  spends the output of the liquidation transaction, pays every liquidator the collateral and
  bonus of the record, the protocol its fee and the debtor the rest. With the books of
  \<open>Liquidation_Inv\<close> the reserved network fee always leaves enough for every output.
\<close>

abbreviation "liq_ErrInsufficientUTXOs \<equiv> Registered ''liquidation'' 3100"
abbreviation "liq_ErrMaxTransactionWeightExceeded \<equiv> Registered ''liquidation'' 3101"
abbreviation "liq_ErrFailedToBuildTx \<equiv> Registered ''liquidation'' 3102"

definition DefaultWitnessSize :: nat where
  "DefaultWitnessSize = 64"

section \<open>Building the transaction\<close>

text \<open>The last output is the change; it is dropped when it is dust or nothing.\<close>

definition with_change ::
  "('b, 'e) btc_env_scheme \<Rightarrow> msg_tx \<Rightarrow> tx_out list \<Rightarrow> int \<Rightarrow> string \<Rightarrow> msg_tx \<times> int" where
  "with_change E tx outs change script =
     (let out = \<lparr>to_Value = change, to_PkScript = script\<rparr> in
      if 0 < change \<and> \<not> btcbridge_IsDustOut E out then (tx\<lparr>mt_TxOut := outs @ [out]\<rparr>, change)
      else (tx\<lparr>mt_TxOut := outs\<rparr>, 0))"

definition BuildUnsignedTransaction ::
  "('b, 'e) btc_env_scheme \<Rightarrow> utxo list \<Rightarrow> tx_out list \<Rightarrow> int \<Rightarrow> string \<Rightarrow> (msg_tx \<times> int) res" where
  "BuildUnsignedTransaction E us outs rate script =
     bind_res (fold_res (AddUTXOToTx E) us NewMsgTx) (\<lambda>tx.
     let spare = i64 (in_amount us - out_amount outs);
         fee = i64 (GetTxVirtualSize E (tx\<lparr>mt_TxOut := outs @ [\<lparr>to_Value = 0, to_PkScript = script\<rparr>]\<rparr>) DefaultWitnessSize * rate);
         change = i64 (spare - fee);
         feeWithoutChange = i64 (GetTxVirtualSize E (tx\<lparr>mt_TxOut := outs\<rparr>) DefaultWitnessSize * rate) in
     if change < 0 \<and> i64 (spare - feeWithoutChange) < 0 then Inl liq_ErrInsufficientUTXOs
     else case with_change E tx outs change script of (tx, change) \<Rightarrow>
     bind_res (CheckTransactionWeight liq_ErrMaxTransactionWeightExceeded E tx DefaultWitnessSize) (\<lambda>_.
     Inr (tx, change)))"

definition BuildUnsignedTransactionWithFee ::
  "('b, 'e) btc_env_scheme \<Rightarrow> utxo list \<Rightarrow> tx_out list \<Rightarrow> int \<Rightarrow> string \<Rightarrow> (msg_tx \<times> int) res" where
  "BuildUnsignedTransactionWithFee E us outs fee script =
     bind_res (fold_res (AddUTXOToTx E) us NewMsgTx) (\<lambda>tx.
     let change = i64 (i64 (in_amount us - out_amount outs) - fee) in
     if change < 0 then Inl liq_ErrInsufficientUTXOs
     else case with_change E tx outs change script of (tx, change) \<Rightarrow>
     if fee < GetTxVirtualSize E tx DefaultWitnessSize then Inl liq_ErrFailedToBuildTx
     else bind_res (CheckTransactionWeight liq_ErrMaxTransactionWeightExceeded E tx DefaultWitnessSize) (\<lambda>_.
     Inr (tx, change)))"

text \<open>The outputs to the liquidators, in the order of the records.\<close>

definition record_out :: "('b, 'e) btc_env_scheme \<Rightarrow> liquidation_record \<Rightarrow> tx_out list \<Rightarrow> tx_out list res" where
  "record_out E r outs =
     bind_res (pk_script_of E (lr_Liquidator r)) (\<lambda>script.
     bind_res (coin_add (lr_CollateralAmount r) (lr_BonusAmount r)) (\<lambda>c.
     bind_res (to_int64 (Amount c)) (\<lambda>v.
     Inr (outs @ [\<lparr>to_Value = v, to_PkScript = script\<rparr>]))))"

text \<open>The inputs get the outputs they spend; \<open>f\<close> sets their other fields.\<close>

definition set_witness_utxos :: "(psbt_input \<Rightarrow> psbt_input) \<Rightarrow> 'u utxo_scheme list \<Rightarrow> psbt \<Rightarrow> psbt res" where
  "set_witness_utxos f us p =
     (if length (ps_Inputs p) < length us then Inl Panic
      else Inr (p\<lparr>ps_Inputs :=
        map (\<lambda>(inp, u). (f inp)\<lparr>pi_WitnessUtxo := Some \<lparr>to_Value = sint (ut_Amount u), to_PkScript = ut_PkScript u\<rparr>\<rparr>)
          (zip (ps_Inputs p) us) @ drop (length us) (ps_Inputs p)\<rparr>))"

text \<open>A fee rate of 0, or one too high for the amounts, falls back to the reserved network fee.\<close>

definition BuildBatchTransferPsbt ::
  "('b, 'e) btc_env_scheme \<Rightarrow> utxo list \<Rightarrow> liquidation_record list \<Rightarrow> string \<Rightarrow> int \<Rightarrow> int \<Rightarrow> int \<Rightarrow> string \<Rightarrow>
   (psbt \<times> int) res" where
  "BuildBatchTransferPsbt E us recs collector protocolFee rate reserved change =
     bind_res (fold_res (record_out E) recs []) (\<lambda>outs.
     bind_res (pk_script_of E collector) (\<lambda>feeScript.
     let feeOut = \<lparr>to_Value = protocolFee, to_PkScript = feeScript\<rparr>;
         outs = (if btcbridge_IsDustOut E feeOut then outs else outs @ [feeOut]) in
     bind_res (pk_script_of E change) (\<lambda>script.
     bind_res (if rate \<noteq> 0 then
                 (case BuildUnsignedTransaction E us outs rate script of
                    Inl e \<Rightarrow> if e = liq_ErrInsufficientUTXOs then Inr None else Inl e
                  | Inr r \<Rightarrow> Inr (Some r))
               else Inr None) (\<lambda>r.
     bind_res (case r of Some r \<Rightarrow> Inr r
               | None \<Rightarrow> BuildUnsignedTransactionWithFee E us outs reserved script) (\<lambda>(tx, changeAmount).
     bind_res (psbt_new E tx) (\<lambda>p.
     bind_res (set_witness_utxos (\<lambda>inp. inp\<lparr>pi_SighashType := DefaultSigHashType\<rparr>) us p) (\<lambda>p.
     Inr (p, changeAmount))))))))"

definition sighashes :: "(psbt \<Rightarrow> nat \<Rightarrow> string res) \<Rightarrow> ('b, 'e) btc_env_scheme \<Rightarrow> psbt \<Rightarrow> string list res" where
  "sighashes h E p = fold_res (\<lambda>i hs. bind_res (h p i) (\<lambda>x. Inr (hs @ [base64 E x]))) [0..<length (ps_Inputs p)] []"

definition BuildSettlementTransaction ::
  "('b, 'e) btc_env_scheme \<Rightarrow> liquidation \<Rightarrow> liquidation_record list \<Rightarrow> string \<Rightarrow> int \<Rightarrow> int \<Rightarrow>
   (string \<times> string \<times> string list \<times> int) res" where
  "BuildSettlementTransaction E l recs collector rate reserved =
     bind_res (psbt_parse E (lq_LiquidationCet l)) (\<lambda>cet.
     case mt_TxOut (ps_Tx cet) of [] \<Rightarrow> Inl Panic | out # _ \<Rightarrow>
     let u = \<lparr>ut_Txid = tx_hash E (ps_Tx cet), ut_Vout = 0, ut_Amount = word_of_int (to_Value out),
              ut_PkScript = to_PkScript out\<rparr> in
     bind_res (to_int64 (Amount (lq_ProtocolLiquidationFee l))) (\<lambda>fee.
     bind_res (BuildBatchTransferPsbt E [u] recs collector fee rate reserved (lq_Debtor l)) (\<lambda>(p, change).
     bind_res (psbt_encode E p) (\<lambda>b64.
     bind_res (sighashes (taproot_sighash E) E p) (\<lambda>hs.
     Inr (b64, tx_hash E (ps_Tx p), hs, change))))))"

section \<open>The outputs fit into the collateral\<close>

lemma record_outs:
  assumes "fold_res (record_out E) recs outs0 = Inr outs"
  shows "map to_Value outs = map to_Value outs0 @ map record_collateral recs"
  using assms
  by (induction recs arbitrary: outs0)
    (auto simp: record_out_def res_simps to_int64_def record_collateral_def split: if_splits)

lemma GetLiquidationRecords_sum:
  assumes "records_ok s"
  shows "sum_list (map f (GetLiquidationRecords s i)) = record_sum f i s"
    and "r \<in> set (GetLiquidationRecords s i) \<Longrightarrow> record_ok r"
proof -
  have idx: "index_ok (li_records s) (li_records_by s) lr_Id lr_LiquidationId"
    and ok: "\<And>j r. kv_get (li_records s) j = Some r \<Longrightarrow> record_ok r"
    using assms by (auto simp: records_ok_def)
  have stored: "\<exists>r. kv_get (li_records s) j = Some r" if "j \<in> set (ids_with i (li_records_by s))" for j
    using idx that by (auto simp: index_ok_def set_ids_with)
  have eq: "GetLiquidationRecords s i = map (\<lambda>j. the (kv_get (li_records s) j)) (ids_with i (li_records_by s))"
    unfolding GetLiquidationRecords_def
    by (rule map_cong) (use stored in \<open>fastforce simp: GetLiquidationRecord_def\<close>)+
  show "sum_list (map f (GetLiquidationRecords s i)) = record_sum f i s"
    unfolding eq record_sum_def sum_ids_with [OF idx, of f i, symmetric] by (simp add: comp_def)
  show "record_ok r" if "r \<in> set (GetLiquidationRecords s i)"
    using that stored ok unfolding eq by fastforce
qed

lemma sint_i64: "sint (word_of_int v :: 64 word) = v" if "0 \<le> v" "v < 2 ^ 63"
  using that by (simp add: signed_of_int signed_take_bit_int_eq_self)

lemma with_change_outs:
  assumes "with_change E tx outs change script = (tx', change')"
  shows "\<exists>rest. mt_TxOut tx' = outs @ rest \<and> sum_list (map to_Value rest) = change'"
    and "change' = 0 \<or> change' = change \<and> 0 < change"
  using assms by (auto simp: with_change_def Let_def split: if_splits)

text \<open>What both ways of building the transaction need of the amounts.\<close>

definition outs_fit :: "utxo list \<Rightarrow> tx_out list \<Rightarrow> int \<Rightarrow> int \<Rightarrow> bool" where
  "outs_fit us outs spare avail \<longleftrightarrow>
     i64 (in_amount us - out_amount outs) = spare \<and> sum_list (map to_Value outs) + spare = avail
   \<and> 0 \<le> spare \<and> spare < 2 ^ 63"

lemma outs_fitI:
  assumes "in_amount us = avail" "avail < 2 ^ 63" "\<And>out. out \<in> set outs \<Longrightarrow> 0 \<le> to_Value out"
    "sum_list (map to_Value outs) \<le> avail"
  shows "outs_fit us outs (avail - sum_list (map to_Value outs)) avail"
proof -
  have nn: "0 \<le> sum_list (map to_Value outs)" using assms(3) by (intro sum_list_nonneg) auto
  have "out_amount outs = sum_list (map to_Value outs)"
    using out_amount_sum [of outs 0] assms by (simp add: out_amount_def)
  then show ?thesis using assms nn by (simp add: outs_fit_def i64_id)
qed

lemma BuildUnsignedTransaction_fits:
  assumes fit: "outs_fit us outs spare avail"
    and fee: "\<And>tx. 0 \<le> GetTxVirtualSize E tx DefaultWitnessSize * rate" "\<And>tx. GetTxVirtualSize E tx DefaultWitnessSize * rate < 2 ^ 63"
    and run: "BuildUnsignedTransaction E us outs rate script = Inr (tx, change)"
  shows "(\<exists>rest. mt_TxOut tx = outs @ rest \<and> sum_list (map to_Value rest) = change) \<and> 0 \<le> change
    \<and> sum_list (map to_Value (mt_TxOut tx)) \<le> avail"
proof -
  obtain tx0 c where w: "with_change E tx0 outs c script = (tx, change)" and c: "c \<le> spare"
  proof -
    from run show ?thesis
      unfolding BuildUnsignedTransaction_def Let_def
    proof (elim peel, goal_cases)
      case (1 tx0 tx' change' u)
      have "i64 (i64 (in_amount us - out_amount outs) - i64 (GetTxVirtualSize E (tx0\<lparr>mt_TxOut := outs @ [\<lparr>to_Value = 0, to_PkScript = script\<rparr>]\<rparr>) DefaultWitnessSize * rate)) \<le> spare"
      proof -
        define k where "k = GetTxVirtualSize E (tx0\<lparr>mt_TxOut := outs @ [\<lparr>to_Value = 0, to_PkScript = script\<rparr>]\<rparr>) DefaultWitnessSize * rate"
        have k: "0 \<le> k" "k < 2 ^ 63" unfolding k_def by (rule fee)+
        have "i64 k = k" using k by (intro i64_id) simp_all
        moreover have "i64 (spare - k) = spare - k" using k fit by (intro i64_id) (simp_all add: outs_fit_def)
        ultimately show ?thesis using k fit unfolding k_def [symmetric] by (simp add: outs_fit_def)
      qed
      moreover have "(tx', change') = (tx, change)" using 1(5) by simp
      ultimately show ?thesis by (intro that [OF 1(3) [unfolded \<open>(tx', change') = (tx, change)\<close>]])
    qed
  qed
  from with_change_outs [OF w] c fit show ?thesis by (auto simp: outs_fit_def)
qed

lemma BuildUnsignedTransactionWithFee_fits:
  assumes fit: "outs_fit us outs spare avail" and fee: "0 \<le> fee" "fee \<le> spare"
  shows "BuildUnsignedTransactionWithFee E us outs fee script \<noteq> Inl liq_ErrInsufficientUTXOs"
    and "BuildUnsignedTransactionWithFee E us outs fee script = Inr (tx, change) \<Longrightarrow>
      (\<exists>rest. mt_TxOut tx = outs @ rest \<and> sum_list (map to_Value rest) = change) \<and> 0 \<le> change
      \<and> sum_list (map to_Value (mt_TxOut tx)) + fee \<le> avail"
proof -
  have eq: "i64 (i64 (in_amount us - out_amount outs) - fee) = spare - fee"
    using fit fee by (simp add: outs_fit_def i64_id)
  have add: "fold_res (AddUTXOToTx E) us tx \<noteq> Inl liq_ErrInsufficientUTXOs" for tx
    by (induction us arbitrary: tx) (auto simp: AddUTXOToTx_def)
  show "BuildUnsignedTransactionWithFee E us outs fee script \<noteq> Inl liq_ErrInsufficientUTXOs"
    unfolding BuildUnsignedTransactionWithFee_def eq Let_def using fee add [of NewMsgTx]
    by (auto simp: bind_res_def CheckTransactionWeight_def split: sum.splits prod.splits if_splits)
  assume run: "BuildUnsignedTransactionWithFee E us outs fee script = Inr (tx, change)"
  obtain tx0 where w: "with_change E tx0 outs (spare - fee) script = (tx, change)"
  proof -
    from run show ?thesis
      unfolding BuildUnsignedTransactionWithFee_def Let_def eq
    proof (elim peel, goal_cases)
      case (1 tx0 tx' change' u)
      then show ?thesis using that [of tx0] by simp
    qed
  qed
  from with_change_outs [OF w] fee fit
  show "(\<exists>rest. mt_TxOut tx = outs @ rest \<and> sum_list (map to_Value rest) = change) \<and> 0 \<le> change
      \<and> sum_list (map to_Value (mt_TxOut tx)) + fee \<le> avail"
    by (auto simp: outs_fit_def)
qed

text \<open>
  The outputs of a completed liquidation: with the books in order, the liquidators, the protocol
  and the network fee share what the liquidation transaction pays, and the rest is the
  unliquidated collateral.
\<close>

lemma settlement_outs_fit:
  assumes inv: "liq_inv s" and l: "kv_get (li_store s) i = Some l" and st: "lq_Status l = LQ_LIQUIDATED"
    and act: "Amount (lq_ActualCollateralAmount l) < 2 ^ 63"
    and u: "ut_Amount u = word_of_int (Amount (lq_ActualCollateralAmount l))"
    and run: "fold_res (record_out E) (GetLiquidationRecords s i) [] = Inr outs0"
    and outs: "outs = outs0 @ rest" "map to_Value rest = [] \<or> map to_Value rest = [Amount (lq_ProtocolLiquidationFee l)]"
  shows "\<exists>spare. outs_fit [u] outs spare (Amount (lq_ActualCollateralAmount l)) \<and> LiquidationNetworkFeeReserve \<le> spare"
proof -
  note old = liq_invD [OF inv l]
  have rec: "records_ok s" using inv by (simp add: liq_inv_def)
  have vals: "map to_Value outs0 = map record_collateral (GetLiquidationRecords s i)"
    using record_outs [OF run] by simp
  have sum0: "sum_list (map to_Value outs0) + Amount (lq_ProtocolLiquidationFee l) = Amount (lq_LiquidatedCollateralAmount l)"
    unfolding vals GetLiquidationRecords_sum(1) [OF rec] using old(1,4) by (simp add: books_ok_def)
  have acc: "Amount (lq_LiquidatedCollateralAmount l) + Amount (lq_UnliquidatedCollateralAmount l) + LiquidationNetworkFeeReserve
      = Amount (lq_ActualCollateralAmount l)" "0 \<le> Amount (lq_UnliquidatedCollateralAmount l)" "0 \<le> Amount (lq_ProtocolLiquidationFee l)"
    "0 \<le> Amount (lq_LiquidatedCollateralAmount l)"
    using old(3) st by (auto simp: liq_ok_def)
  have rest: "0 \<le> x" if "x \<in> set (map to_Value rest)" for x using outs(2) acc(3) that by auto
  have "\<And>x. x \<in> set (map to_Value outs0) \<Longrightarrow> 0 \<le> x"
    unfolding vals using GetLiquidationRecords_sum(2) [OF rec] by (auto simp: record_collateral_def record_ok_def)
  then have nn: "0 \<le> to_Value out" if "out \<in> set outs" for out using that rest outs(1) by auto
  have le: "sum_list (map to_Value outs) + LiquidationNetworkFeeReserve \<le> Amount (lq_ActualCollateralAmount l)"
    using sum0 acc outs by auto
  have "in_amount [u] = Amount (lq_ActualCollateralAmount l)"
    using act acc u by (simp add: in_amount_def sint_i64 i64_id LiquidationNetworkFeeReserve_def)
  from outs_fitI [OF this act nn] le show ?thesis
    by (intro exI [of _ "Amount (lq_ActualCollateralAmount l) - sum_list (map to_Value outs)"])
      (simp add: LiquidationNetworkFeeReserve_def)
qed

lemma settlement_outputs:
  assumes inv: "liq_inv s" and l: "kv_get (li_store s) i = Some l" and st: "lq_Status l = LQ_LIQUIDATED"
    and act: "Amount (lq_ActualCollateralAmount l) < 2 ^ 63"
    and u: "ut_Amount u = word_of_int (Amount (lq_ActualCollateralAmount l))"
    and fee: "\<And>tx. 0 \<le> GetTxVirtualSize E tx DefaultWitnessSize * rate" "\<And>tx. GetTxVirtualSize E tx DefaultWitnessSize * rate < 2 ^ 63"
    and new: "\<And>tx p. psbt_new E tx = Inr p \<Longrightarrow> ps_Tx p = tx"
    and run: "BuildBatchTransferPsbt E [u] (GetLiquidationRecords s i) collector (Amount (lq_ProtocolLiquidationFee l))
      rate LiquidationNetworkFeeReserve debtor = Inr (p, change)"
  shows "(\<exists>rest. map to_Value (mt_TxOut (ps_Tx p)) = map record_collateral (GetLiquidationRecords s i) @ rest)
    \<and> sum_list (map to_Value (mt_TxOut (ps_Tx p))) \<le> Amount (lq_ActualCollateralAmount l) \<and> 0 \<le> change"
  using run unfolding BuildBatchTransferPsbt_def Let_def
proof (elim peel, goal_cases)
  case (1 outs0 feeScript script r txc tx change' p0 p1)
  define rest where "rest = (if btcbridge_IsDustOut E \<lparr>to_Value = Amount (lq_ProtocolLiquidationFee l), to_PkScript = feeScript\<rparr>
    then [] else [\<lparr>to_Value = Amount (lq_ProtocolLiquidationFee l), to_PkScript = feeScript\<rparr>])"
  define outs where "outs = outs0 @ rest"
  have outs_eq: "(if btcbridge_IsDustOut E \<lparr>to_Value = Amount (lq_ProtocolLiquidationFee l), to_PkScript = feeScript\<rparr>
      then outs0 else outs0 @ [\<lparr>to_Value = Amount (lq_ProtocolLiquidationFee l), to_PkScript = feeScript\<rparr>]) = outs"
    by (simp add: outs_def rest_def)
  have "map to_Value rest = [] \<or> map to_Value rest = [Amount (lq_ProtocolLiquidationFee l)]" by (simp add: rest_def)
  from settlement_outs_fit [OF inv l st act u 1(1) outs_def this]
  obtain spare where fit: "outs_fit [u] outs spare (Amount (lq_ActualCollateralAmount l))" "LiquidationNetworkFeeReserve \<le> spare"
    by (elim exE conjE)
  note F = 1(4,5) [unfolded outs_eq 1(6)]
  have built: "(\<exists>rest. mt_TxOut tx = outs @ rest \<and> sum_list (map to_Value rest) = change') \<and> 0 \<le> change'
    \<and> sum_list (map to_Value (mt_TxOut tx)) \<le> Amount (lq_ActualCollateralAmount l)"
  proof (cases r)
    case None
    from F(2) [unfolded None] BuildUnsignedTransactionWithFee_fits(2) [OF fit(1) _ fit(2), of E script tx change']
    show ?thesis by (auto simp: LiquidationNetworkFeeReserve_def)
  next
    case (Some rr)
    then have "BuildUnsignedTransaction E [u] outs rate script = Inr (tx, change')"
      using F by (auto split: if_splits sum.splits)
    from BuildUnsignedTransaction_fits [OF fit(1) fee this] show ?thesis .
  qed
  have "ps_Tx p0 = tx" using new 1(7) by simp
  then have ps: "ps_Tx p = tx" "change' = change" using 1(8,9) by (auto simp: set_witness_utxos_def split: if_splits)
  have "map to_Value outs0 = map record_collateral (GetLiquidationRecords s i)"
    using record_outs [OF 1(1)] by simp
  then show ?case using built unfolding ps outs_def by auto
qed

end
