(* ===== verification/Lending_Cet.thy ===== *)
theory Lending_Cet
  imports Lending_Math Settlement
begin

text \<open>
  The contract execution transactions (CETs) of a loan, \<open>x/lending/types/dlc.go\<close> and
  \<open>bitcoin.go\<close>: the vault outputs of the deposits, the checks of the liquidation and repayment
  transactions a borrower submits, the signed transactions, and the refund transaction.
\<close>

abbreviation "ErrHex \<equiv> External ''hex''"

definition hex_res :: "string \<Rightarrow> string res" where
  "hex_res h = (case hex_decode h of (b, ok) \<Rightarrow> if ok then Inr b else Inl ErrHex)"

text \<open>An error of a callee replaced by the error of the caller; a panic is not caught.\<close>

definition wrap_err :: "error \<Rightarrow> 'a res \<Rightarrow> 'a res" where
  "wrap_err e m = (case m of Inl Panic \<Rightarrow> Inl Panic | Inl _ \<Rightarrow> Inl e | Inr x \<Rightarrow> Inr x)"

text \<open>A value whose error is dropped and which is then dereferenced.\<close>

definition must :: "'a res \<Rightarrow> 'a res" where
  "must m = wrap_err Panic m"

section \<open>Scripts and sizes\<close>

definition UnwrapLeafScript :: "leaf_script \<Rightarrow> (string \<times> string) res" where
  "UnwrapLeafScript l =
     bind_res (hex_res (ls_Script l)) (\<lambda>sc. bind_res (hex_res (ls_ControlBlock l)) (\<lambda>cb. Inr (sc, cb)))"

text \<open>The same with the error dropped: both results are empty then.\<close>

definition unwrap_leaf :: "leaf_script \<Rightarrow> string \<times> string" where
  "unwrap_leaf l = (case UnwrapLeafScript l of Inl _ \<Rightarrow> ([], []) | Inr x \<Rightarrow> x)"

definition GetCetWitnessSize :: "string \<Rightarrow> string \<Rightarrow> nat" where
  "GetCetWitnessSize sc cb = 64 + 64 + length sc + length cb"

definition CheckCetFeeRate :: "('b, 'e) btc_env_scheme \<Rightarrow> psbt \<Rightarrow> nat \<Rightarrow> int \<Rightarrow> int \<Rightarrow> unit res" where
  "CheckCetFeeRate E p n rate mult =
     (let vsize = GetTxVirtualSize E (ps_Tx p) n in
      bind_res (wrap_err ErrInvalidCET (psbt_fee E p)) (\<lambda>fee.
      if fee < vsize then Inl ErrInvalidCET
      else if 0 < mult \<and> i64 (i64 (vsize * rate) * mult) < fee then Inl ErrInvalidCET
      else Inr ()))"

definition GetPkScriptFromPubKey :: "('b, 'e) btc_env_scheme \<Rightarrow> string \<Rightarrow> string res" where
  "GetPkScriptFromPubKey E pk = bind_res (hex_res pk) (taproot_script E)"

definition GetSignaturePointFromEvent :: "('b, 'e) lenv_scheme \<Rightarrow> dlc_event \<Rightarrow> nat \<Rightarrow> string res" where
  "GetSignaturePointFromEvent E e k =
     bind_res (hex_res (ev_Pubkey e)) (\<lambda>pk.
     bind_res (hex_res (ev_Nonce e)) (\<lambda>nonce.
     bind_res (signed_index (ev_Outcomes e) k) (\<lambda>out.
     GetSignaturePoint E pk nonce (sha256 E out))))"

section \<open>Deposits\<close>

definition vault_value :: "string \<Rightarrow> psbt \<Rightarrow> int" where
  "vault_value script p = sum_list (map to_Value (filter (\<lambda>out. to_PkScript out = script) (mt_TxOut (ps_Tx p))))"

definition parse_deposit ::
  "('b, 'e) btc_env_scheme \<Rightarrow> string \<Rightarrow> string \<Rightarrow> psbt list \<times> string list \<times> int \<Rightarrow> (psbt list \<times> string list \<times> int) res" where
  "parse_deposit E script tx = (\<lambda>(ps, hs, a).
     bind_res (must (psbt_parse E tx)) (\<lambda>p.
     if \<not> list_ex (\<lambda>out. to_PkScript out = script) (mt_TxOut (ps_Tx p)) then Inl ErrInvalidDepositTx
     else Inr (ps @ [p], hs @ [tx_hash E (ps_Tx p)], a + vault_value script p)))"

definition ParseDepositTxs ::
  "('b, 'e) btc_env_scheme \<Rightarrow> string list \<Rightarrow> string \<Rightarrow> (psbt list \<times> string list \<times> int) res" where
  "ParseDepositTxs E txs script = fold_res (parse_deposit E script) txs ([], [], 0)"

definition getVaultUtxosFromDepositTx :: "('b, 'e) btc_env_scheme \<Rightarrow> psbt \<Rightarrow> string \<Rightarrow> utxo list res" where
  "getVaultUtxosFromDepositTx E p script =
     (let us = map (\<lambda>(i, out). \<lparr>ut_Txid = tx_hash E (ps_Tx p), ut_Vout = word_of_nat i,
                 ut_Amount = word_of_int (to_Value out), ut_PkScript = to_PkScript out\<rparr>)
            (filter (\<lambda>(i, out). to_PkScript out = script) (zip [0..<length (mt_TxOut (ps_Tx p))] (mt_TxOut (ps_Tx p))))
      in if us = [] then Inl ErrInvalidDepositTx else Inr us)"

definition GetVaultUtxos :: "('b, 'e) btc_env_scheme \<Rightarrow> psbt list \<Rightarrow> string \<Rightarrow> utxo list res" where
  "GetVaultUtxos E ps script =
     fold_res (\<lambda>p us. bind_res (getVaultUtxosFromDepositTx E p script) (\<lambda>vs. Inr (us @ vs))) ps []"

section \<open>Verification of the submitted transactions\<close>

definition LiquidationCetSequence :: int where
  "LiquidationCetSequence = 2 ^ 32 - 1"

text \<open>One input against the vault output it must spend; \<open>seq\<close> is the required sequence number, if any.\<close>

definition check_cet_input :: "int option \<Rightarrow> string \<Rightarrow> psbt \<Rightarrow> utxo list \<Rightarrow> nat \<Rightarrow> unit res" where
  "check_cet_input seq script p us i =
     bind_res (signed_index (mt_TxIn (ps_Tx p)) i) (\<lambda>txin.
     bind_res (signed_index us i) (\<lambda>u.
     if ti_Hash txin \<noteq> ut_Txid u then Inl ErrInvalidCET
     else if ti_Index txin \<noteq> uint (ut_Vout u) mod 2 ^ 32 then Inl ErrInvalidCET
     else if seq \<noteq> None \<and> Some (ti_Sequence txin) \<noteq> seq then Inl ErrInvalidCET
     else bind_res (signed_index (ps_Inputs p) i) (\<lambda>inp.
     case pi_WitnessUtxo inp of None \<Rightarrow> Inl ErrInvalidCET
     | Some w \<Rightarrow> if to_PkScript w \<noteq> script then Inl ErrInvalidCET
                 else if to_Value w \<noteq> sint (ut_Amount u) then Inl ErrInvalidCET
                 else Inr ())))"

definition check_cet_inputs :: "int option \<Rightarrow> string \<Rightarrow> psbt \<Rightarrow> utxo list \<Rightarrow> unit res" where
  "check_cet_inputs seq script p us =
     (if length (mt_TxIn (ps_Tx p)) \<noteq> length us then Inl ErrInvalidCET
      else fold_res (\<lambda>i _. check_cet_input seq script p us i) [0..<length us] ())"

definition VerifyLiquidationCet ::
  "('b, 'e) lenv_scheme \<Rightarrow> dlc_meta \<Rightarrow> psbt list \<Rightarrow> string \<Rightarrow> string \<Rightarrow> string \<Rightarrow> string \<Rightarrow> string list \<Rightarrow> string \<Rightarrow>
   int \<Rightarrow> int \<Rightarrow> unit res" where
  "VerifyLiquidationCet E m deposits vaultScript authKey dcmKey cet sigs point rate mult =
     bind_res (wrap_err ErrInvalidCET (psbt_parse E cet)) (\<lambda>p.
     bind_res (GetPkScriptFromPubKey E dcmKey) (\<lambda>dcmScript.
     case mt_TxOut (ps_Tx p) of
       [out] \<Rightarrow>
         if to_PkScript out \<noteq> dcmScript then Inl ErrInvalidCET
         else if btcbridge_IsDustOut E out then Inl ErrInvalidCET
         else bind_res (UnwrapLeafScript (dm_LiquidationScript m)) (\<lambda>(sc, cb).
         let n = GetCetWitnessSize sc cb in
         bind_res (CheckCetFeeRate E p n rate mult) (\<lambda>_.
         bind_res (CheckTransactionWeight ln_ErrMaxTransactionWeightExceeded E (ps_Tx p) n) (\<lambda>_.
         bind_res (GetVaultUtxos E deposits vaultScript) (\<lambda>us.
         bind_res (check_cet_inputs (Some LiquidationCetSequence) vaultScript p us) (\<lambda>_.
         if length sigs \<noteq> length (ps_Inputs p) then Inl ErrInvalidAdaptorSignatures
         else bind_res (wrap_err ErrInvalidPubKey (hex_res authKey)) (\<lambda>key.
         fold_res (\<lambda>(i, sig) _.
           bind_res (tapscript_sighash E p i sc) (\<lambda>h.
           bind_res (wrap_err ErrInvalidAdaptorSignature (hex_res sig)) (\<lambda>sb.
           if adaptor_verify E sb h key point then Inr () else Inl ErrInvalidAdaptorSignature)))
           (zip [0..<length sigs] sigs) ()))))))
     | _ \<Rightarrow> Inl ErrInvalidCET))"

definition VerifyRepaymentCet ::
  "('b, 'e) lenv_scheme \<Rightarrow> dlc_meta \<Rightarrow> psbt list \<Rightarrow> string \<Rightarrow> string \<Rightarrow> string \<Rightarrow> string list \<Rightarrow> unit res" where
  "VerifyRepaymentCet E m deposits vaultScript borrowerKey cet sigs =
     bind_res (wrap_err ErrInvalidCET (psbt_parse E cet)) (\<lambda>p.
     if mt_TxOut (ps_Tx p) = [] then Inl ErrInvalidCET
     else if list_ex (btcbridge_IsDustOut E) (mt_TxOut (ps_Tx p)) then Inl ErrInvalidCET
     else bind_res (UnwrapLeafScript (dm_RepaymentScript m)) (\<lambda>(sc, cb).
     let n = GetCetWitnessSize sc cb in
     bind_res (CheckCetFeeRate E p n 0 0) (\<lambda>_.
     bind_res (CheckTransactionWeight ln_ErrMaxTransactionWeightExceeded E (ps_Tx p) n) (\<lambda>_.
     bind_res (GetVaultUtxos E deposits vaultScript) (\<lambda>us.
     bind_res (check_cet_inputs None vaultScript p us) (\<lambda>_.
     if length sigs \<noteq> length (ps_Inputs p) then Inl ErrInvalidSignatures
     else bind_res (wrap_err ErrInvalidPubKey (hex_res borrowerKey)) (\<lambda>key.
     fold_res (\<lambda>(i, sig) _.
       bind_res (tapscript_sighash E p i sc) (\<lambda>h.
       bind_res (wrap_err ErrInvalidSignature (hex_res sig)) (\<lambda>sb.
       if schnorr_verify E sb h key then Inr () else Inl ErrInvalidSignature)))
       (zip [0..<length sigs] sigs) ())))))))"

definition VerifyCets ::
  "('b, 'e) lenv_scheme \<Rightarrow> dlc_meta \<Rightarrow> psbt list \<Rightarrow> string \<Rightarrow> loan \<Rightarrow> dlc_event \<Rightarrow> string \<Rightarrow> string list \<Rightarrow>
   string list \<Rightarrow> string \<Rightarrow> string list \<Rightarrow> int \<Rightarrow> int \<Rightarrow> unit res" where
  "VerifyCets E m deposits vaultScript l e lcet lsigs dsigs rcet rsigs rate mult =
     bind_res (GetSignaturePointFromEvent E e 0) (\<lambda>lp.
     bind_res (GetSignaturePointFromEvent E e 1) (\<lambda>dp.
     bind_res (wrap_err ErrInvalidCET
       (VerifyLiquidationCet E m deposits vaultScript (lo_BorrowerAuthPubKey l) (lo_DCM l) lcet lsigs lp rate mult)) (\<lambda>_.
     bind_res (wrap_err ErrInvalidCET
       (VerifyLiquidationCet E m deposits vaultScript (lo_BorrowerAuthPubKey l) (lo_DCM l) lcet dsigs dp rate mult)) (\<lambda>_.
     wrap_err ErrInvalidCET (VerifyRepaymentCet E m deposits vaultScript (lo_BorrowerPubKey l) rcet rsigs)))))"

section \<open>Signing and refunding\<close>

definition GetCetSigHashes :: "('b, 'e) btc_env_scheme \<Rightarrow> dlc_meta \<Rightarrow> cet_type \<Rightarrow> string list res" where
  "GetCetSigHashes E m ty =
     (let (cet, script) = (case ty of
          CET_LIQUIDATION \<Rightarrow> (lc_Tx (dm_LiquidationCet m), ls_Script (dm_LiquidationScript m))
        | CET_DEFAULT_LIQUIDATION \<Rightarrow> (lc_Tx (dm_DefaultLiquidationCet m), ls_Script (dm_LiquidationScript m))
        | CET_REPAYMENT \<Rightarrow> (rc_Tx (dm_RepaymentCet m), ls_Script (dm_RepaymentScript m))) in
      bind_res (psbt_parse E cet) (\<lambda>p.
      bind_res (hex_res script) (\<lambda>sc.
      sighashes (\<lambda>p i. tapscript_sighash E p i sc) E p)))"

definition GetLiquidationCetOutput :: "('b, 'e) btc_env_scheme \<Rightarrow> string \<Rightarrow> int res" where
  "GetLiquidationCetOutput E cet =
     bind_res (must (psbt_parse E cet)) (\<lambda>p.
     bind_res (signed_index (mt_TxOut (ps_Tx p)) 0) (\<lambda>out. Inr (to_Value out)))"

text \<open>The signatures of input \<open>i\<close>; indexing beyond the signatures or into an empty leaf script panics.\<close>

definition sign_cet_input ::
  "('b, 'e) btc_env_scheme \<Rightarrow> string \<Rightarrow> string list \<Rightarrow> string \<Rightarrow> string list \<Rightarrow> psbt_input \<Rightarrow> nat \<Rightarrow> psbt_input res" where
  "sign_cet_input E bkey bsigs dkey dsigs inp i =
     bind_res (bind_res (signed_index bsigs i) hex_res) (\<lambda>bs.
     bind_res (bind_res (signed_index dsigs i) hex_res) (\<lambda>ds.
     bind_res (signed_index (pi_LeafScripts inp) 0) (\<lambda>(cb, sc).
     Inr (inp\<lparr>pi_ScriptSigs :=
       [\<lparr>ss_PubKey = dkey, ss_LeafHash = leaf_hash E sc, ss_Signature = ds\<rparr>,
        \<lparr>ss_PubKey = bkey, ss_LeafHash = leaf_hash E sc, ss_Signature = bs\<rparr>]\<rparr>))))"

definition BuildSignedCet ::
  "('b, 'e) btc_env_scheme \<Rightarrow> string \<Rightarrow> string \<Rightarrow> string list \<Rightarrow> string \<Rightarrow> string list \<Rightarrow> (string \<times> string) res" where
  "BuildSignedCet E cet borrowerKey bsigs dcmKey dsigs =
     bind_res (psbt_parse E cet) (\<lambda>p.
     bind_res (hex_res borrowerKey) (\<lambda>bkey.
     bind_res (hex_res dcmKey) (\<lambda>dkey.
     bind_res (fold_res (\<lambda>(i, inp) ins. bind_res (sign_cet_input E bkey bsigs dkey dsigs inp i) (\<lambda>inp. Inr (ins @ [inp])))
       (zip [0..<length (ps_Inputs p)] (ps_Inputs p)) []) (\<lambda>ins.
     bind_res (psbt_finalize E (p\<lparr>ps_Inputs := ins\<rparr>)) (\<lambda>p.
     bind_res (psbt_extract E p) (\<lambda>tx.
     bind_res (tx_serialize E tx) (\<lambda>b.
     Inr (b, tx_hash E tx))))))))"

definition GetLiquidationCetAndType :: "dlc_meta \<Rightarrow> loan_status \<Rightarrow> liquidation_cet \<times> cet_type" where
  "GetLiquidationCetAndType m st =
     (if st = LOAN_Liquidated then (dm_LiquidationCet m, CET_LIQUIDATION)
      else (dm_DefaultLiquidationCet m, CET_DEFAULT_LIQUIDATION))"

definition UpdateLiquidationCet :: "cet_type \<Rightarrow> liquidation_cet \<Rightarrow> dlc_meta \<Rightarrow> dlc_meta" where
  "UpdateLiquidationCet ty c m =
     (if ty = CET_LIQUIDATION then m\<lparr>dm_LiquidationCet := c\<rparr> else m\<lparr>dm_DefaultLiquidationCet := c\<rparr>)"

definition lending_BuildUnsignedTransaction ::
  "('b, 'e) btc_env_scheme \<Rightarrow> utxo list \<Rightarrow> string \<Rightarrow> int \<Rightarrow> nat \<Rightarrow> msg_tx res" where
  "lending_BuildUnsignedTransaction E us script rate n =
     bind_res (fold_res (AddUTXOToTx E) us NewMsgTx) (\<lambda>tx.
     let fee = i64 (GetTxVirtualSize E (tx\<lparr>mt_TxOut := [\<lparr>to_Value = 0, to_PkScript = script\<rparr>]\<rparr>) n * rate);
         change = i64 (in_amount us - fee);
         out = \<lparr>to_Value = change, to_PkScript = script\<rparr>;
         tx = tx\<lparr>mt_TxOut := [out]\<rparr> in
     if change \<le> 0 then Inl ln_ErrInsufficientUTXOs
     else if btcbridge_IsDustOut E out then Inl ErrDustOutput
     else bind_res (CheckTransactionWeight ln_ErrMaxTransactionWeightExceeded E tx n) (\<lambda>_. Inr tx))"

definition BuildPsbt :: "('b, 'e) btc_env_scheme \<Rightarrow> utxo list \<Rightarrow> string \<Rightarrow> int \<Rightarrow> nat \<Rightarrow> psbt res" where
  "BuildPsbt E us script rate n =
     bind_res (lending_BuildUnsignedTransaction E us script rate n) (\<lambda>tx.
     bind_res (psbt_new E tx) (set_witness_utxos (\<lambda>inp. inp) us))"

text \<open>Every input carries the default signature hash type, the internal key and one leaf script.\<close>

definition attach_leaf :: "string \<Rightarrow> string \<Rightarrow> string \<Rightarrow> psbt \<Rightarrow> psbt" where
  "attach_leaf key cb sc p =
     p\<lparr>ps_Inputs := map (\<lambda>inp. inp\<lparr>pi_SighashType := DefaultSigHashType, pi_InternalKey := key, pi_LeafScripts := [(cb, sc)]\<rparr>) (ps_Inputs p)\<rparr>"

definition CreateTimeoutRefundTransaction ::
  "('b, 'e) btc_env_scheme \<Rightarrow> psbt list \<Rightarrow> string \<Rightarrow> string \<Rightarrow> string \<Rightarrow> leaf_script \<Rightarrow> int \<Rightarrow> int \<Rightarrow> string res" where
  "CreateTimeoutRefundTransaction E deposits vaultScript borrowerScript key leaf lockTime rate =
     bind_res (GetVaultUtxos E deposits vaultScript) (\<lambda>us.
     bind_res (UnwrapLeafScript leaf) (\<lambda>(sc, cb).
     bind_res (BuildPsbt E us borrowerScript rate (64 + length sc + length cb)) (\<lambda>p.
     psbt_encode E (attach_leaf key cb sc (p\<lparr>ps_Tx := (ps_Tx p)\<lparr>mt_LockTime := lockTime mod 2 ^ 32\<rparr>\<rparr>)))))"

end
