(* ===== verification/Lending_Store.thy ===== *)
theory Lending_Store
  imports Lending_Pool Lending_Cet
begin

text \<open>
  The stores of loans, deposits, repayments, redemptions, authorizations, referrers and CET data
  (\<open>x/lending/keeper/loan.go\<close>, \<open>authorization.go\<close>, \<open>referral.go\<close>, \<open>redemption.go\<close>, \<open>dlc.go\<close>) and the
  interest a loan owes.
\<close>

section \<open>Loans\<close>

definition HasLoan :: "('b, 'x) lending_scheme \<Rightarrow> string \<Rightarrow> bool" where
  "HasLoan s i = kv_has (ln_loans s) i"

definition GetLoan :: "('b, 'x) lending_scheme \<Rightarrow> string \<Rightarrow> loan" where
  "GetLoan s i = (case kv_get (ln_loans s) i of None \<Rightarrow> zero_loan | Some l \<Rightarrow> l)"

definition RemoveLoanStatus :: "string \<Rightarrow> ('b, 'x) lending_scheme \<Rightarrow> ('b, 'x) lending_scheme" where
  "RemoveLoanStatus i s = s\<lparr>ln_by_status := kv_del (lo_Status (GetLoan s i), i) (ln_by_status s)\<rparr>"

definition SetLoanStatus :: "string \<Rightarrow> loan_status \<Rightarrow> ('b, 'x) lending_scheme \<Rightarrow> ('b, 'x) lending_scheme" where
  "SetLoanStatus i st s =
     (let s = (if HasLoan s i then RemoveLoanStatus i s else s)
      in s\<lparr>ln_by_status := kv_set (st, i) () (ln_by_status s)\<rparr>)"

definition SetLoan :: "loan \<Rightarrow> ('b, 'x) lending_scheme \<Rightarrow> ('b, 'x) lending_scheme" where
  "SetLoan l s =
     (let s = SetLoanStatus (lo_VaultAddress l) (lo_Status l) s
      in s\<lparr>ln_loans := kv_set (lo_VaultAddress l) l (ln_loans s)\<rparr>)"

definition SetLoanByAddress :: "loan \<Rightarrow> ('b, 'x) lending_scheme \<Rightarrow> ('b, 'x) lending_scheme" where
  "SetLoanByAddress l s = s\<lparr>ln_by_address := kv_set (lo_Borrower l, lo_VaultAddress l) () (ln_by_address s)\<rparr>"

text \<open>The oracle key is decoded from hexadecimal, with the error dropped.\<close>

definition SetLoanByOracle :: "string \<Rightarrow> string \<Rightarrow> ('b, 'x) lending_scheme \<Rightarrow> ('b, 'x) lending_scheme" where
  "SetLoanByOracle i pk s = s\<lparr>ln_by_oracle := kv_set (fst (hex_decode pk), i) () (ln_by_oracle s)\<rparr>"

definition AddToLiquidationQueue :: "string \<Rightarrow> ('b, 'x) lending_scheme \<Rightarrow> ('b, 'x) lending_scheme" where
  "AddToLiquidationQueue i s = s\<lparr>ln_liq_queue := kv_set i () (ln_liq_queue s)\<rparr>"

definition RemoveFromLiquidationQueue :: "string \<Rightarrow> ('b, 'x) lending_scheme \<Rightarrow> ('b, 'x) lending_scheme" where
  "RemoveFromLiquidationQueue i s = s\<lparr>ln_liq_queue := kv_del i (ln_liq_queue s)\<rparr>"

definition GetLoans :: "('b, 'x) lending_scheme \<Rightarrow> loan_status \<Rightarrow> loan list" where
  "GetLoans s st = map (GetLoan s) (ids_with st (ln_by_status s))"

definition GetAllLoans :: "('b, 'x) lending_scheme \<Rightarrow> loan list" where
  "GetAllLoans s = map snd (ln_loans s)"

text \<open>
  A walk over the loans of one status. The callback gets the loan as it is stored when its turn
  comes; the keys are those at the start of the walk.
\<close>

definition IterateLoansByStatus ::
  "loan_status \<Rightarrow> (loan \<Rightarrow> ('b, 'x) lending_scheme \<Rightarrow> ('b, 'x) lending_scheme res) \<Rightarrow>
   ('b, 'x) lending_scheme \<Rightarrow> ('b, 'x) lending_scheme res" where
  "IterateLoansByStatus st cb s = fold_res (\<lambda>i s. cb (GetLoan s i) s) (ids_with st (ln_by_status s)) s"

definition IterateLiquidationQueue ::
  "(loan \<Rightarrow> ('b, 'x) lending_scheme \<Rightarrow> ('b, 'x) lending_scheme res) \<Rightarrow>
   ('b, 'x) lending_scheme \<Rightarrow> ('b, 'x) lending_scheme res" where
  "IterateLiquidationQueue cb s = fold_res (\<lambda>i s. cb (GetLoan s i) s) (kv_keys (ln_liq_queue s)) s"

section \<open>Deposits, repayments, redemptions\<close>

definition SetDepositLog :: "deposit_log \<Rightarrow> ('b, 'x) lending_scheme \<Rightarrow> ('b, 'x) lending_scheme" where
  "SetDepositLog d s = s\<lparr>ln_deposits := kv_set (dp_Txid d) d (ln_deposits s)\<rparr>"

definition NewDepositLog ::
  "string \<Rightarrow> string \<Rightarrow> u64 \<Rightarrow> string \<Rightarrow> ('b, 'x) lending_scheme \<Rightarrow> ('b, 'x) lending_scheme" where
  "NewDepositLog txid vault auth tx s =
     SetDepositLog \<lparr>dp_Txid = txid, dp_VaultAddress = vault, dp_AuthorizationId = auth, dp_DepositTx = tx,
       dp_Status = DEPOSIT_PENDING\<rparr> s"

definition HasDepositLog :: "('b, 'x) lending_scheme \<Rightarrow> string \<Rightarrow> bool" where
  "HasDepositLog s i = kv_has (ln_deposits s) i"

definition GetDepositLog :: "('b, 'x) lending_scheme \<Rightarrow> string \<Rightarrow> deposit_log" where
  "GetDepositLog s i = (case kv_get (ln_deposits s) i of None \<Rightarrow> zero_deposit_log | Some d \<Rightarrow> d)"

definition GetDepositLogs :: "('b, 'x) lending_scheme \<Rightarrow> string \<Rightarrow> deposit_log list" where
  "GetDepositLogs s i = filter (\<lambda>d. dp_VaultAddress d = i) (map snd (ln_deposits s))"

definition SetRepayment :: "repayment \<Rightarrow> ('b, 'x) lending_scheme \<Rightarrow> ('b, 'x) lending_scheme" where
  "SetRepayment r s = s\<lparr>ln_repayments := kv_set (rp_LoanId r) r (ln_repayments s)\<rparr>"

definition HasRepayment :: "('b, 'x) lending_scheme \<Rightarrow> string \<Rightarrow> bool" where
  "HasRepayment s i = kv_has (ln_repayments s) i"

definition GetRepayment :: "('b, 'x) lending_scheme \<Rightarrow> string \<Rightarrow> repayment" where
  "GetRepayment s i = (case kv_get (ln_repayments s) i of None \<Rightarrow> zero_repayment | Some r \<Rightarrow> r)"

definition GetRedemptionId :: "('b, 'x) lending_scheme \<Rightarrow> u64" where
  "GetRedemptionId s = counter (ln_redemption_id s)"

definition IncrementRedemptionId :: "('b, 'x) lending_scheme \<Rightarrow> u64 \<times> ('b, 'x) lending_scheme" where
  "IncrementRedemptionId s = (let i = GetRedemptionId s + 1 in (i, s\<lparr>ln_redemption_id := Some i\<rparr>))"

definition HasRedemption :: "('b, 'x) lending_scheme \<Rightarrow> u64 \<Rightarrow> bool" where
  "HasRedemption s i = kv_has (ln_redemptions s) i"

definition SetRedemption :: "redemption \<Rightarrow> ('b, 'x) lending_scheme \<Rightarrow> ('b, 'x) lending_scheme" where
  "SetRedemption r s = s\<lparr>ln_redemptions := kv_set (re_Id r) r (ln_redemptions s)\<rparr>"

definition GetRedemption :: "('b, 'x) lending_scheme \<Rightarrow> u64 \<Rightarrow> redemption" where
  "GetRedemption s i = (case kv_get (ln_redemptions s) i of None \<Rightarrow> zero_redemption | Some r \<Rightarrow> r)"

section \<open>Authorizations\<close>

definition GetAuthorizationId :: "('b, 'x) lending_scheme \<Rightarrow> string \<Rightarrow> u64" where
  "GetAuthorizationId s i = counter (kv_get (ln_auth_ids s) i)"

definition IncrementAuthorizationId ::
  "string \<Rightarrow> ('b, 'x) lending_scheme \<Rightarrow> u64 \<times> ('b, 'x) lending_scheme" where
  "IncrementAuthorizationId i s =
     (let n = GetAuthorizationId s i + 1 in (n, s\<lparr>ln_auth_ids := kv_set i n (ln_auth_ids s)\<rparr>))"

definition HasAuthorization :: "('b, 'x) lending_scheme \<Rightarrow> string \<Rightarrow> u64 \<Rightarrow> bool" where
  "HasAuthorization s i n \<longleftrightarrow> HasLoan s i \<and> n \<noteq> 0 \<and> unat n \<le> length (lo_Authorizations (GetLoan s i))"

text \<open>\<open>None\<close> is the nil pointer; the id 0 indexes before the first element.\<close>

definition GetAuthorization :: "('b, 'x) lending_scheme \<Rightarrow> string \<Rightarrow> u64 \<Rightarrow> authorization option res" where
  "GetAuthorization s i n =
     (let as = lo_Authorizations (GetLoan s i) in
      if length as < unat n then Inr None
      else if n = 0 then Inl Panic
      else Inr (Some (as ! (unat n - 1))))"

definition GetDeposits :: "('b, 'x) lending_scheme \<Rightarrow> authorization \<Rightarrow> deposit_log list" where
  "GetDeposits s a = map (GetDepositLog s) (au_DepositTxs a)"

definition DepositsVerified :: "('b, 'x) lending_scheme \<Rightarrow> authorization \<Rightarrow> bool" where
  "DepositsVerified s a = list_all (\<lambda>tx. dp_Status (GetDepositLog s tx) = DEPOSIT_VERIFIED) (au_DepositTxs a)"

definition CreateAuthorization ::
  "string \<Rightarrow> string list \<Rightarrow> ('b, 'x) lending_scheme \<Rightarrow> authorization \<times> ('b, 'x) lending_scheme" where
  "CreateAuthorization i hs s =
     (case IncrementAuthorizationId i s of (n, s) \<Rightarrow> (\<lparr>au_Id = n, au_DepositTxs = hs, au_Status = AUTH_PENDING\<rparr>, s))"

section \<open>Referrers\<close>

definition SetReferrer :: "referrer \<Rightarrow> ('b, 'x) lending_scheme \<Rightarrow> ('b, 'x) lending_scheme" where
  "SetReferrer r s = s\<lparr>ln_referrers := kv_set (ReferrerKey (rf_ReferralCode r)) r (ln_referrers s)\<rparr>"

definition HasReferrer :: "('b, 'x) lending_scheme \<Rightarrow> string \<Rightarrow> bool" where
  "HasReferrer s code = kv_has (ln_referrers s) (ReferrerKey code)"

definition GetReferrer :: "('b, 'x) lending_scheme \<Rightarrow> string \<Rightarrow> referrer option" where
  "GetReferrer s code = kv_get (ln_referrers s) (ReferrerKey code)"

definition GetAllReferrers :: "('b, 'x) lending_scheme \<Rightarrow> referrer list" where
  "GetAllReferrers s = map snd (ln_referrers s)"

section \<open>CET data and DLC events of a loan\<close>

definition SetDLCMeta :: "string \<Rightarrow> dlc_meta \<Rightarrow> ('b, 'x) lending_scheme \<Rightarrow> ('b, 'x) lending_scheme" where
  "SetDLCMeta i m s = s\<lparr>ln_dlc_metas := kv_set i m (ln_dlc_metas s)\<rparr>"

definition GetDLCMeta :: "('b, 'x) lending_scheme \<Rightarrow> string \<Rightarrow> dlc_meta" where
  "GetDLCMeta s i = (case kv_get (ln_dlc_metas s) i of None \<Rightarrow> zero_dlc_meta | Some m \<Rightarrow> m)"

definition UpdateDLCMeta ::
  "('b, 'e) lenv_scheme \<Rightarrow> string \<Rightarrow> psbt list \<Rightarrow> string \<Rightarrow> string list \<Rightarrow> string list \<Rightarrow> string \<Rightarrow> string list \<Rightarrow> int \<Rightarrow>
   ('b, 'x) lending_scheme \<Rightarrow> ('b, 'x) lending_scheme res" where
  "UpdateDLCMeta E i deposits lcet lsigs dsigs rcet rsigs rate s =
     (let l = GetLoan s i; m = GetDLCMeta s i;
          vaultScript = (case pk_script_of E i of Inl _ \<Rightarrow> [] | Inr sc \<Rightarrow> sc) in
      bind_res (GetVaultUtxos E deposits vaultScript) (\<lambda>us.
      bind_res (psbt_parse E lcet) (\<lambda>lp.
      bind_res (psbt_parse E rcet) (\<lambda>rp.
      let key = fst (hex_decode (dm_InternalKey m));
          (lsc, lcb) = unwrap_leaf (dm_LiquidationScript m);
          (rsc, rcb) = unwrap_leaf (dm_RepaymentScript m) in
      bind_res (psbt_encode E (attach_leaf key lcb lsc lp)) (\<lambda>lcet.
      bind_res (psbt_encode E (attach_leaf key rcb rsc rp)) (\<lambda>rcet.
      bind_res (GetPkScriptFromPubKey E (lo_BorrowerPubKey l)) (\<lambda>bscript.
      bind_res (case CreateTimeoutRefundTransaction E deposits vaultScript bscript key (dm_TimeoutRefundScript m)
                  (lo_FinalTimeout l) rate of Inl Panic \<Rightarrow> Inl Panic | Inl _ \<Rightarrow> Inr [] | Inr tx \<Rightarrow> Inr tx) (\<lambda>refund.
      Inr (SetDLCMeta i (m\<lparr>
        dm_LiquidationCet := zero_liquidation_cet\<lparr>lc_Tx := lcet, lc_BorrowerAdaptorSignatures := lsigs\<rparr>,
        dm_DefaultLiquidationCet := zero_liquidation_cet\<lparr>lc_Tx := lcet, lc_BorrowerAdaptorSignatures := dsigs\<rparr>,
        dm_RepaymentCet := zero_repayment_cet\<lparr>rc_Tx := rcet, rc_BorrowerSignatures := rsigs\<rparr>,
        dm_TimeoutRefundTx := refund,
        dm_VaultUtxos := us\<rparr>) s)))))))))"

definition UpdateDLCEvent :: "loan \<Rightarrow> ('b, 'x) lending_scheme \<Rightarrow> ('b, 'x) lending_scheme" where
  "UpdateDLCEvent l s =
     SetEvent ((GetEvent s (lo_DlcEventId l))\<lparr>
       ev_Description := ''DLC event for loan '' @ lo_VaultAddress l,
       ev_Outcomes := ['''', int_string (lo_MaturityTime l), ''Repaid'']\<rparr>) s"

definition UpdateDLCEventLiquidatedOutcome ::
  "('b, 'e) lenv_scheme \<Rightarrow> ('b, 'x) lending_scheme \<Rightarrow> loan \<Rightarrow> dec \<Rightarrow> dlc_event \<Rightarrow> dlc_event res" where
  "UpdateDLCEventLiquidatedOutcome E s l price e =
     (if ev_Outcomes e = [] then Inl Panic
      else Inr (e\<lparr>ev_Outcomes := (ev_Outcomes e)
        [0 := FormatPriceWithPair E price (lending_GetPricePair (po_Config (GetPool s (lo_PoolId l))))]\<rparr>))"

section \<open>What a loan owes\<close>

definition keeper_GetLiquidationPrice ::
  "('b, 'e) lenv_scheme \<Rightarrow> ('b, 'x) lending_scheme \<Rightarrow> loan \<Rightarrow> int \<Rightarrow> dec res" where
  "keeper_GetLiquidationPrice E s l collateral =
     (let c = po_Config (GetPool s (lo_PoolId l)) in
      GetLiquidationPrice E collateral (am_Decimals (pc_CollateralAsset c)) (Amount (lo_BorrowAmount l))
        (am_Decimals (pc_LendingAsset c)) (lo_Maturity l) (lo_BorrowAPR l) (blocks_per_year E)
        (pc_LiquidationThreshold c) (am_IsBasePriceAsset (pc_CollateralAsset c)))"

definition GetCurrentBorrowIndex :: "('b, 'x) lending_scheme \<Rightarrow> loan \<Rightarrow> dec res" where
  "GetCurrentBorrowIndex s l =
     (case GetTranche (po_Tranches (GetPool s (lo_PoolId l))) (lo_Maturity l) of
        None \<Rightarrow> Inl Panic | Some t \<Rightarrow> Inr (pt_BorrowIndex t))"

definition open_interest :: "('b, 'e) env_scheme \<Rightarrow> ('b, 'x) lending_scheme \<Rightarrow> loan \<Rightarrow> int res" where
  "open_interest E s l =
     bind_res (GetCurrentBorrowIndex s l) (GetInterest E (Amount (lo_BorrowAmount l)) (lo_StartBorrowIndex l))"

definition GetCurrentInterest :: "('b, 'e) env_scheme \<Rightarrow> ('b, 'x) lending_scheme \<Rightarrow> loan \<Rightarrow> coin res" where
  "GetCurrentInterest E s l =
     bind_res (case lo_Status l of
         LOAN_Open \<Rightarrow> open_interest E s l
       | LOAN_Repaid \<Rightarrow> bind_res (coin_sub (rp_Amount (GetRepayment s (lo_VaultAddress l))) (lo_BorrowAmount l)) (\<lambda>c. Inr (Amount c))
       | LOAN_Closed \<Rightarrow> bind_res (coin_sub (rp_Amount (GetRepayment s (lo_VaultAddress l))) (lo_BorrowAmount l)) (\<lambda>c. Inr (Amount c))
       | LOAN_Defaulted \<Rightarrow> Inr (Amount (lq_DebtAmount (GetLiquidation s (lo_LiquidationId l))) - Amount (lo_BorrowAmount l))
       | LOAN_Liquidated \<Rightarrow> Inr (Amount (lq_DebtAmount (GetLiquidation s (lo_LiquidationId l))) - Amount (lo_BorrowAmount l))
       | _ \<Rightarrow> Inr 0)
     (new_coin E (Denom (lo_BorrowAmount l)))"

end
