(* ===== verification/Lending_Flow.thy ===== *)
theory Lending_Flow
  imports Lending_Store
begin

text \<open>
  The life of a loan after its application, driven by the end blocker and by the callbacks of
  the signing module: \<open>x/lending/keeper/approval.go\<close>, \<open>repayment.go\<close>, \<open>liquidation.go\<close>,
  \<open>redemption.go\<close>, \<open>tss.go\<close> and \<open>x/lending/module/abci.go\<close>.
\<close>

text \<open>A send to an account given by its address; \<open>MustAccAddressFromBech32\<close> panics on a malformed one.\<close>

definition pay :: "('b, 'e) env_scheme \<Rightarrow> acct \<Rightarrow> string \<Rightarrow> coin \<Rightarrow> 'b \<Rightarrow> 'b res" where
  "pay E from addr c b = (if \<not> bech32_ok E addr then Inl Panic else send_coins E b from (Account addr) [c])"

definition pay_if :: "('b, 'e) env_scheme \<Rightarrow> acct \<Rightarrow> string \<Rightarrow> coin \<Rightarrow> 'b \<Rightarrow> 'b res" where
  "pay_if E from addr c b = (if 0 < Amount c then pay E from addr c b else Inr b)"

definition referrer_address :: "loan \<Rightarrow> string" where
  "referrer_address l = (case lo_Referrer l of None \<Rightarrow> [] | Some r \<Rightarrow> rf_Address r)"

definition referral_cut :: "('b, 'e) env_scheme \<Rightarrow> loan \<Rightarrow> int \<Rightarrow> int" where
  "referral_cut E l fee =
     (case lo_Referrer l of None \<Rightarrow> 0
      | Some r \<Rightarrow> truncate_int (dec_mul E (to_dec fee) (rf_ReferralFeeFactor r)))"

section \<open>Approval\<close>

definition set_auth_status :: "u64 \<Rightarrow> authorization_status \<Rightarrow> loan \<Rightarrow> loan res" where
  "set_auth_status n st l =
     (let k = unat (n - 1) in
      if length (lo_Authorizations l) \<le> k then Inl Panic
      else Inr (l\<lparr>lo_Authorizations := (lo_Authorizations l)[k := (lo_Authorizations l ! k)\<lparr>au_Status := st\<rparr>]\<rparr>))"

definition reject :: "loan \<Rightarrow> u64 \<Rightarrow> ('b, 'x) lending_scheme \<Rightarrow> ('b, 'x) lending_scheme res" where
  "reject l n s =
     bind_res (if 0 < n then set_auth_status n AUTH_REJECTED l else Inr l) (\<lambda>l.
     Inr (SetLoan (l\<lparr>lo_Status := LOAN_Rejected\<rparr>) s))"

definition handleOriginationFee ::
  "('b, 'e) env_scheme \<Rightarrow> loan \<Rightarrow> ('b, 'x) lending_scheme \<Rightarrow> ('b, 'x) lending_scheme res" where
  "handleOriginationFee E l s =
     bind_res (new_coin E (Denom (lo_BorrowAmount l)) (lo_OriginationFee l)) (\<lambda>fee.
     bind_res (new_coin E (Denom (lo_BorrowAmount l)) 0) (\<lambda>ref.
     bind_res (if HasReferralFee l then
                 (let ref = ref\<lparr>Amount := referral_cut E l (Amount fee)\<rparr>
                  in bind_res (coin_sub fee ref) (\<lambda>fee. Inr (fee, ref)))
               else Inr (fee, ref)) (\<lambda>(fee, ref).
     bind_res (pay_if E lending_acc (lnp_OriginationFeeCollector (ln_params s)) fee (ch_bank s)) (\<lambda>b.
     bind_res (pay_if E lending_acc (referrer_address l) ref b) (\<lambda>b.
     Inr (s\<lparr>ch_bank := b\<rparr>))))))"

definition approve ::
  "('b, 'e) lenv_scheme \<Rightarrow> int \<Rightarrow> loan \<Rightarrow> ('b, 'x) lending_scheme \<Rightarrow> ('b, 'x) lending_scheme res" where
  "approve E now l s =
     (let p = GetPool s (lo_PoolId l) in
      if po_Status p \<noteq> ACTIVE then Inl ErrPoolNotActive
      else if po_AvailableAmount p < Amount (lo_BorrowAmount l) then Inl ErrInsufficientLiquidity
      else bind_res (new_coin E (Denom (lo_BorrowAmount l)) (Amount (lo_BorrowAmount l) - lo_OriginationFee l)) (\<lambda>amount.
      bind_res (wrap_err ErrUnexpected (pay E lending_acc (lo_Borrower l) amount (ch_bank s))) (\<lambda>b.
      let s = s\<lparr>ch_bank := b\<rparr> in
      bind_res (if 0 < lo_OriginationFee l then wrap_err ErrUnexpected (handleOriginationFee E l s) else Inr s) (\<lambda>s.
      let s = AfterPoolBorrowed (lo_PoolId l) (lo_Maturity l) (lo_BorrowAmount l) s in
      case GetTranche (po_Tranches p) (lo_Maturity l) of None \<Rightarrow> Inl Panic | Some t \<Rightarrow>
      bind_res (GetTotalInterest E (Amount (lo_BorrowAmount l)) (lo_MaturityTime l - unix now) (lo_BorrowAPR l)
        (blocks_per_year E)) (\<lambda>interest.
      let l = l\<lparr>lo_StartBorrowIndex := pt_BorrowIndex t, lo_Interest := interest,
                lo_ProtocolFee := GetProtocolFee E interest (pc_ReserveFactor (po_Config p)),
                lo_DisburseAt := now, lo_Status := LOAN_Open\<rparr>
      in Inr (SetLoan l s))))))"

definition RepaymentCetSigned :: "('b, 'x) lending_scheme \<Rightarrow> string \<Rightarrow> bool" where
  "RepaymentCetSigned s i \<longleftrightarrow> rc_DCMAdaptorSignatures (dm_RepaymentCet (GetDLCMeta s i)) \<noteq> []"

text \<open>The checks after the deposits are verified, and the disbursement or the rejection.\<close>

definition try_approve ::
  "('b, 'e) lenv_scheme \<Rightarrow> int \<Rightarrow> loan \<Rightarrow> u64 \<Rightarrow> dec \<Rightarrow> ('b, 'x) lending_scheme \<Rightarrow> ('b, 'x) lending_scheme res" where
  "try_approve E now l n price s =
     (let p = GetPool s (lo_PoolId l); c = po_Config p in
      bind_res (CheckLTV E (lo_CollateralAmount l) (am_Decimals (pc_CollateralAsset c)) (Amount (lo_BorrowAmount l))
        (am_Decimals (pc_LendingAsset c)) (pc_MaxLtv c) price (am_IsBasePriceAsset (pc_CollateralAsset c))) (\<lambda>ok.
      if \<not> ok then reject l n s
      else case CheckBorrowCap p (Amount (lo_BorrowAmount l)) of Inl _ \<Rightarrow> reject l n s
      | Inr _ \<Rightarrow>
      (case approve E now l s of
         Inl e \<Rightarrow> if e = Panic \<or> e = ErrUnexpected then Inl e else reject l n s
       | Inr s \<Rightarrow> bind_res (set_auth_status n AUTH_AUTHORIZED (GetLoan s (lo_VaultAddress l))) (\<lambda>l.
           Inr (SetLoan l s)))))"

definition HandleApproval ::
  "('b, 'e) lenv_scheme \<Rightarrow> int \<Rightarrow> loan \<Rightarrow> ('b, 'x) lending_scheme \<Rightarrow> ('b, 'x) lending_scheme res" where
  "HandleApproval E now l s =
     (let c = po_Config (GetPool s (lo_PoolId l)); n = GetAuthorizationId s (lo_VaultAddress l) in
      if lo_MaturityTime l \<le> unix now then reject l n s
      else if n = 0 then Inr s
      else case GetPrice (parse_dec E) s (lending_GetPricePair c) of Inl _ \<Rightarrow> Inr s
      | Inr None \<Rightarrow> Inl Panic
      | Inr (Some price) \<Rightarrow>
      if ToBeLiquidated price (lo_LiquidationPrice l) (am_IsBasePriceAsset (pc_CollateralAsset c)) then reject l n s
      else if \<not> RepaymentCetSigned s (lo_VaultAddress l) then Inr s
      else bind_res (GetAuthorization s (lo_VaultAddress l) n) (\<lambda>a.
      case a of None \<Rightarrow> Inl Panic
      | Some a \<Rightarrow> if DepositsVerified s a then try_approve E now l n price s else Inr s))"

section \<open>Repayment\<close>

definition GetRepaymentCetAdaptorPoint :: "('b, 'e) lenv_scheme \<Rightarrow> ('b, 'x) lending_scheme \<Rightarrow> string \<Rightarrow> string res" where
  "GetRepaymentCetAdaptorPoint E s i =
     GetSignaturePointFromEvent E (GetEvent s (lo_DlcEventId (GetLoan s i))) 2"

definition InitiateRepaymentCetSigningRequest ::
  "('b, 'e) lenv_scheme \<Rightarrow> int \<Rightarrow> string \<Rightarrow> ('b, 'x) lending_scheme \<Rightarrow> ('b, 'x) lending_scheme res" where
  "InitiateRepaymentCetSigningRequest E now i s =
     bind_res (GetRepaymentCetAdaptorPoint E s i) (\<lambda>point.
     bind_res (GetCetSigHashes E (GetDLCMeta s i) CET_REPAYMENT) (\<lambda>hs.
     Inr (snd (InitiateSigningRequest now ''lending'' i SIGNING_TYPE_SCHNORR_ADAPTOR 0 (lo_DCM (GetLoan s i)) hs
       (Some \<lparr>so_Tweak = '''', so_Nonce = '''', so_AdaptorPoint = hex_encode point\<rparr>) s))))"

definition HandleRepaymentAdaptorSignatures ::
  "string \<Rightarrow> string list \<Rightarrow> ('b, 'x) lending_scheme \<Rightarrow> ('b, 'x) lending_scheme res" where
  "HandleRepaymentAdaptorSignatures i sigs s =
     (if \<not> HasLoan s i then Inl ErrLoanDoesNotExist
      else if LoanDisbursed (GetLoan s i) then Inl ErrInvalidLoanStatus
      else let m = GetDLCMeta s i in
      if rc_DCMAdaptorSignatures (dm_RepaymentCet m) \<noteq> [] then Inl ErrRepaymentAdaptorSigsAlreadyExist
      else Inr (SetDLCMeta i (m\<lparr>dm_RepaymentCet := (dm_RepaymentCet m)\<lparr>rc_DCMAdaptorSignatures := sigs\<rparr>\<rparr>) s))"

definition CompleteRepayment ::
  "('b, 'e) env_scheme \<Rightarrow> loan \<Rightarrow> ('b, 'x) lending_scheme \<Rightarrow> ('b, 'x) lending_scheme res" where
  "CompleteRepayment E l s =
     (let p = GetPool s (lo_PoolId l); r = GetRepayment s (lo_VaultAddress l) in
      bind_res (coin_sub (rp_Amount r) (lo_BorrowAmount l)) (\<lambda>interest.
      bind_res (new_coin E (Denom interest) (GetProtocolFee E (Amount interest) (pc_ReserveFactor (po_Config p)))) (\<lambda>protocolFee.
      bind_res (if 0 < Amount protocolFee \<and> HasReferralFee l then
                  (let ref = referral_cut E l (Amount protocolFee)
                   in bind_res (coin_sub_amount protocolFee ref) (\<lambda>actual. Inr (actual, ref)))
                else Inr (protocolFee, 0)) (\<lambda>(actual, ref).
      bind_res (coin_sub (rp_Amount r) protocolFee) (\<lambda>amount.
      bind_res (send_coins E (ch_bank s) escrow_acc lending_acc [amount]) (\<lambda>b.
      bind_res (pay_if E escrow_acc (lnp_ProtocolFeeCollector (ln_params s)) actual b) (\<lambda>b.
      bind_res (if 0 < ref then bind_res (new_coin E (Denom protocolFee) ref) (\<lambda>c. pay E escrow_acc (referrer_address l) c b)
                else Inr b) (\<lambda>b.
      bind_res (AfterPoolRepaid (lo_PoolId l) (lo_Maturity l) (lo_BorrowAmount l) (Amount interest)
        (Amount protocolFee) (Amount actual) (s\<lparr>ch_bank := b\<rparr>)) (\<lambda>s.
      Inr (SetLoan (l\<lparr>lo_Status := LOAN_Closed\<rparr>) s))))))))))"

section \<open>Liquidation\<close>

text \<open>
  Opening the liquidation of a defaulted or under-collateralised loan: \<open>l\<close> has its new status, \<open>cet\<close> is
  the transaction that moves the collateral, \<open>ty\<close> names its kind, \<open>intent\<close> and \<open>k\<close> are the signing intent
  and the outcome.
\<close>

definition open_liquidation ::
  "('b, 'e) lenv_scheme \<Rightarrow> int \<Rightarrow> loan \<Rightarrow> dec option \<Rightarrow> int \<Rightarrow> string \<Rightarrow> cet_type \<Rightarrow> int \<Rightarrow> nat \<Rightarrow>
   ('b, 'x) lending_scheme \<Rightarrow> ('b, 'x) lending_scheme res" where
  "open_liquidation E now l price interest cet ty intent k s =
     (let c = po_Config (GetPool s (lo_PoolId l)); m = GetDLCMeta s (lo_VaultAddress l);
          hs = (case GetCetSigHashes E m ty of Inl _ \<Rightarrow> [] | Inr hs \<Rightarrow> hs);
          cden = am_Denom (pc_CollateralAsset c); dden = am_Denom (pc_LendingAsset c) in
      bind_res (new_coin E cden (lo_CollateralAmount l)) (\<lambda>collateral.
      bind_res (bind_res (GetLiquidationCetOutput E cet) (new_coin E cden)) (\<lambda>actual.
      bind_res (new_coin E dden (Amount (lo_BorrowAmount l) + interest)) (\<lambda>debt.
      bind_res (new_coin E cden 0) (\<lambda>czero.
      bind_res (new_coin E dden 0) (\<lambda>dzero.
      bind_res (CreateLiquidation (zero_liquidation\<lparr>lq_LoanId := lo_VaultAddress l, lq_Debtor := lo_Borrower l,
          lq_DCM := lo_DCM l, lq_CollateralAmount := collateral, lq_ActualCollateralAmount := actual,
          lq_DebtAmount := debt, lq_CollateralAsset := ToLiquidationAssetMeta (pc_CollateralAsset c),
          lq_DebtAsset := ToLiquidationAssetMeta (pc_LendingAsset c), lq_LiquidationPrice := price,
          lq_LiquidationTime := now, lq_LiquidatedCollateralAmount := czero, lq_LiquidatedDebtAmount := dzero,
          lq_LiquidationBonusAmount := czero, lq_ProtocolLiquidationFee := czero, lq_LiquidationCet := cet\<rparr>) s) (\<lambda>(lq, s).
      let s = SetLoan (l\<lparr>lo_LiquidationId := lq_Id lq\<rparr>) s;
          s = AddToLiquidationQueue (lo_VaultAddress l) s in
      bind_res (TriggerDLCEvent (outcome_digest E) now (lo_DlcEventId l) k s) (\<lambda>s.
      Inr (snd (InitiateSigningRequest now ''lending'' (lo_VaultAddress l) SIGNING_TYPE_SCHNORR intent (lo_DCM l) hs None s))))))))))"

text \<open>
  A price that is not set reads as zero. A loan of another status than open is never passed in; if it
  were, the missing interest would be dereferenced.
\<close>

definition lending_HandleLiquidation ::
  "('b, 'e) lenv_scheme \<Rightarrow> int \<Rightarrow> loan \<Rightarrow> ('b, 'x) lending_scheme \<Rightarrow> ('b, 'x) lending_scheme res" where
  "lending_HandleLiquidation E now l s =
     (let c = po_Config (GetPool s (lo_PoolId l)); m = GetDLCMeta s (lo_VaultAddress l);
          price = (case GetPrice (parse_dec E) s (lending_GetPricePair c) of Inl _ \<Rightarrow> Some 0 | Inr p \<Rightarrow> p);
          idle = (if lo_Status l = LOAN_Defaulted \<or> lo_Status l = LOAN_Liquidated then Inl Panic else Inr s) in
      if lo_MaturityTime l \<le> unix now then
        bind_res (GetCurrentInterest E s l) (\<lambda>i.
        open_liquidation E now (l\<lparr>lo_Status := LOAN_Defaulted\<rparr>) price (Amount i)
          (lc_Tx (dm_DefaultLiquidationCet m)) CET_DEFAULT_LIQUIDATION 2 1 s)
      else case price of None \<Rightarrow> Inl Panic
      | Some p \<Rightarrow>
        if p \<noteq> 0 \<and> ToBeLiquidated p (lo_LiquidationPrice l) (am_IsBasePriceAsset (pc_CollateralAsset c)) then
          bind_res (GetCurrentInterest E s l) (\<lambda>i.
          open_liquidation E now (l\<lparr>lo_Status := LOAN_Liquidated\<rparr>) price (Amount i)
            (lc_Tx (dm_LiquidationCet m)) CET_LIQUIDATION 1 0 s)
        else idle)"

definition HandleLiquidationSignatures ::
  "string \<Rightarrow> string list \<Rightarrow> ('b, 'x) lending_scheme \<Rightarrow> ('b, 'x) lending_scheme res" where
  "HandleLiquidationSignatures i sigs s =
     (if \<not> HasLoan s i then Inl ErrLoanDoesNotExist
      else if lo_Status (GetLoan s i) \<noteq> LOAN_Liquidated then Inl ErrInvalidLoanStatus
      else let m = GetDLCMeta s i in
      if lc_DCMSignatures (dm_LiquidationCet m) \<noteq> [] then Inl ErrLiquidationSignaturesAlreadyExist
      else Inr (SetDLCMeta i (m\<lparr>dm_LiquidationCet := (dm_LiquidationCet m)\<lparr>lc_DCMSignatures := sigs\<rparr>\<rparr>) s))"

definition handleDefaultLiquidationSignatures ::
  "string \<Rightarrow> string list \<Rightarrow> ('b, 'x) lending_scheme \<Rightarrow> ('b, 'x) lending_scheme res" where
  "handleDefaultLiquidationSignatures i sigs s =
     (if \<not> HasLoan s i then Inl ErrLoanDoesNotExist
      else if lo_Status (GetLoan s i) \<noteq> LOAN_Defaulted then Inl ErrInvalidLoanStatus
      else let m = GetDLCMeta s (lo_VaultAddress (GetLoan s i)) in
      if lc_DCMSignatures (dm_DefaultLiquidationCet m) \<noteq> [] then Inl ErrLiquidationSignaturesAlreadyExist
      else Inr (SetDLCMeta i (m\<lparr>dm_DefaultLiquidationCet := (dm_DefaultLiquidationCet m)\<lparr>lc_DCMSignatures := sigs\<rparr>\<rparr>) s))"

definition DeductLiquidationAccruedInterest ::
  "('b, 'e) env_scheme \<Rightarrow> loan \<Rightarrow> lending_pool \<Rightarrow> int \<Rightarrow> ('b, 'x) lending_scheme \<Rightarrow> ('b, 'x) lending_scheme" where
  "DeductLiquidationAccruedInterest E l p accrued s =
     RebalancePool (lo_PoolId l) (lo_Maturity l) accrued (GetProtocolFee E accrued (pc_ReserveFactor (po_Config p))) s"

definition HandleLiquidatedDebt ::
  "('b, 'e) env_scheme \<Rightarrow> string \<Rightarrow> acct \<Rightarrow> coin \<Rightarrow> int \<Rightarrow> ('b, 'x) lending_scheme \<Rightarrow> ('b, 'x) lending_scheme res" where
  "HandleLiquidatedDebt E i from debt accrued s =
     (let l = GetLoan s i; p = GetPool s (lo_PoolId l) in
      bind_res (GetCurrentInterest E s l) (\<lambda>int0.
      bind_res (new_coin E (Denom debt) 0) (\<lambda>zero.
      bind_res (if Amount int0 < Amount debt
                then bind_res (coin_sub_amount debt (Amount int0)) (\<lambda>pr. Inr (pr, Amount int0))
                else Inr (zero, Amount debt)) (\<lambda>(principal, interest).
      let protocolFee = GetProtocolFee E interest (pc_ReserveFactor (po_Config p));
          ref = (if 0 < protocolFee \<and> HasReferralFee l then referral_cut E l protocolFee else 0);
          actual = protocolFee - ref in
      bind_res (coin_sub_amount debt protocolFee) (\<lambda>amount.
      bind_res (send_coins E (ch_bank s) from lending_acc [amount]) (\<lambda>b.
      bind_res (pay_if E from (lnp_ProtocolFeeCollector (ln_params s)) \<lparr>Denom = Denom debt, Amount = actual\<rparr> b) (\<lambda>b.
      bind_res (pay_if E from (referrer_address l) \<lparr>Denom = Denom debt, Amount = ref\<rparr> b) (\<lambda>b.
      bind_res (AfterPoolRepaid (lo_PoolId l) (lo_Maturity l) principal interest protocolFee actual (s\<lparr>ch_bank := b\<rparr>)) (\<lambda>s.
      Inr (DeductLiquidationAccruedInterest E l p accrued s))))))))))"

definition GetLiquidationAccruedInterest :: "('b, 'e) env_scheme \<Rightarrow> ('b, 'x) lending_scheme \<Rightarrow> string \<Rightarrow> int res" where
  "GetLiquidationAccruedInterest E s i =
     (let l = GetLoan s i in
      bind_res (open_interest E s l) (\<lambda>cur.
      bind_res (GetCurrentInterest E s l) (\<lambda>c. Inr (cur - Amount c))))"

section \<open>Redemption and the callbacks of the signing module\<close>

text \<open>One input of the redemption transaction: its signatures, and its deposit is redeemed.\<close>

definition redeem_input_signed ::
  "('b, 'e) lenv_scheme \<Rightarrow> string \<Rightarrow> string \<Rightarrow> string list \<Rightarrow> string list \<Rightarrow> nat \<times> tx_in \<times> psbt_input \<Rightarrow>
   psbt_input list \<times> ('b, 'x) lending_scheme \<Rightarrow> (psbt_input list \<times> ('b, 'x) lending_scheme) res" where
  "redeem_input_signed E bkey dkey sigs bsigs = (\<lambda>(i, ti, inp) (ins, s).
     bind_res (signed_index sigs i) (\<lambda>ds.
     bind_res (signed_index bsigs i) (\<lambda>bs.
     bind_res (signed_index (pi_LeafScripts inp) 0) (\<lambda>(cb, sc).
     Inr (ins @ [inp\<lparr>pi_ScriptSigs :=
       [\<lparr>ss_PubKey = dkey, ss_LeafHash = leaf_hash E sc, ss_Signature = fst (hex_decode ds)\<rparr>,
        \<lparr>ss_PubKey = bkey, ss_LeafHash = leaf_hash E sc, ss_Signature = fst (hex_decode bs)\<rparr>]\<rparr>],
      SetDepositLog ((GetDepositLog s (ti_Hash ti))\<lparr>dp_Status := DEPOSIT_REDEEMED\<rparr>) s)))))"

definition HandleRedemptionSignatures ::
  "('b, 'e) lenv_scheme \<Rightarrow> u64 \<Rightarrow> string list \<Rightarrow> ('b, 'x) lending_scheme \<Rightarrow> ('b, 'x) lending_scheme res" where
  "HandleRedemptionSignatures E i sigs s =
     (if \<not> HasRedemption s i then Inl ErrRedemptionDoesNotExist
      else let r = GetRedemption s i in
      if re_DCMSignatures r \<noteq> [] then Inl ErrDCMSignaturesAlreadyExist
      else let l = GetLoan s (re_LoanId r) in
      bind_res (must (psbt_parse E (re_Tx r))) (\<lambda>p.
      bind_res (fold_res (redeem_input_signed E (fst (hex_decode (lo_BorrowerPubKey l))) (fst (hex_decode (lo_DCM l)))
          sigs (re_Signatures r))
        (zip [0..<length (mt_TxIn (ps_Tx p))] (zip (mt_TxIn (ps_Tx p)) (ps_Inputs p))) ([], s)) (\<lambda>(ins, s).
      bind_res (psbt_finalize E (p\<lparr>ps_Inputs := ins\<rparr>)) (\<lambda>p.
      bind_res (psbt_encode E p) (\<lambda>tx.
      Inr (SetRedemption (r\<lparr>re_Tx := tx, re_DCMSignatures := sigs\<rparr>) s))))))"

definition lending_SigningCompletedHandler ::
  "('b, 'e) lenv_scheme \<Rightarrow> string \<Rightarrow> int \<Rightarrow> string list \<Rightarrow> ('b, 'x) lending_scheme \<Rightarrow> ('b, 'x) lending_scheme res" where
  "lending_SigningCompletedHandler E scoped intent sigs s =
     (if intent = 0 then HandleRepaymentAdaptorSignatures scoped sigs s
      else if intent = 1 then HandleLiquidationSignatures scoped sigs s
      else if intent = 2 then handleDefaultLiquidationSignatures scoped sigs s
      else if intent = 3 then HandleRedemptionSignatures E (FromScopedId scoped) sigs s
      else Inl ErrInvalidSigningIntent)"

section \<open>The end blocker\<close>

definition handleApprovals ::
  "('b, 'e) lenv_scheme \<Rightarrow> int \<Rightarrow> ('b, 'x) lending_scheme \<Rightarrow> ('b, 'x) lending_scheme res" where
  "handleApprovals E now s =
     bind_res (IterateLoansByStatus LOAN_Requested (HandleApproval E now) s)
       (IterateLoansByStatus LOAN_Authorized (HandleApproval E now))"

definition handleLiquidations ::
  "('b, 'e) lenv_scheme \<Rightarrow> int \<Rightarrow> ('b, 'x) lending_scheme \<Rightarrow> ('b, 'x) lending_scheme res" where
  "handleLiquidations E now s = IterateLoansByStatus LOAN_Open (lending_HandleLiquidation E now) s"

text \<open>The secret is the second half of the event's signature; a shorter one panics.\<close>

definition adapt_signatures :: "('b, 'e) lenv_scheme \<Rightarrow> dlc_attestation \<Rightarrow> string list \<Rightarrow> string list res" where
  "adapt_signatures E a sigs =
     (let sig = fst (hex_decode (at_Signature a)) in
      if length sig < 32 then Inl Panic
      else Inr (map (\<lambda>x. hex_encode (Adapt E (fst (hex_decode x)) (drop 32 sig))) sigs))"

definition handle_liquidated_loan ::
  "('b, 'e) lenv_scheme \<Rightarrow> loan \<Rightarrow> ('b, 'x) lending_scheme \<Rightarrow> ('b, 'x) lending_scheme res" where
  "handle_liquidated_loan E l s =
     (let m = GetDLCMeta s (lo_VaultAddress l); (cet, ty) = GetLiquidationCetAndType m (lo_Status l) in
      bind_res (if lc_BorrowerAdaptedSignatures cet = [] then
                  (case GetAttestationByEvent s (lo_DlcEventId l) of None \<Rightarrow> Inr None
                   | Some a \<Rightarrow> bind_res (adapt_signatures E a (lc_BorrowerAdaptorSignatures cet)) (\<lambda>xs.
                       Inr (Some (cet\<lparr>lc_BorrowerAdaptedSignatures := xs\<rparr>))))
                else Inr (Some cet)) (\<lambda>r.
      case r of None \<Rightarrow> Inr s
      | Some cet \<Rightarrow>
      bind_res (if lc_DCMSignatures cet \<noteq> [] then
                  (case BuildSignedCet E (lc_Tx cet) (lo_BorrowerAuthPubKey l) (lc_BorrowerAdaptedSignatures cet)
                      (lo_DCM l) (lc_DCMSignatures cet) of
                     Inl Panic \<Rightarrow> Inl Panic
                   | Inl _ \<Rightarrow> Inr (cet, s)
                   | Inr (tx, _) \<Rightarrow> Inr (cet\<lparr>lc_SignedTxHex := hex_encode tx\<rparr>, RemoveFromLiquidationQueue (lo_VaultAddress l) s))
                else Inr (cet, s)) (\<lambda>(cet, s).
      Inr (SetDLCMeta (lo_VaultAddress l) (UpdateLiquidationCet ty cet m) s))))"

definition handleLiquidatedLoans ::
  "('b, 'e) lenv_scheme \<Rightarrow> ('b, 'x) lending_scheme \<Rightarrow> ('b, 'x) lending_scheme res" where
  "handleLiquidatedLoans E s = IterateLiquidationQueue (handle_liquidated_loan E) s"

definition handle_repayment ::
  "('b, 'e) lenv_scheme \<Rightarrow> loan \<Rightarrow> ('b, 'x) lending_scheme \<Rightarrow> ('b, 'x) lending_scheme res" where
  "handle_repayment E l s =
     (let m = GetDLCMeta s (lo_VaultAddress l); cet = dm_RepaymentCet m in
      bind_res (if rc_DCMAdaptedSignatures cet = [] then
                  (case GetAttestationByEvent s (lo_DlcEventId l) of None \<Rightarrow> Inr None
                   | Some a \<Rightarrow> bind_res (adapt_signatures E a (rc_DCMAdaptorSignatures cet)) (\<lambda>xs.
                       Inr (Some (cet\<lparr>rc_DCMAdaptedSignatures := xs\<rparr>))))
                else Inr (Some cet)) (\<lambda>r.
      case r of None \<Rightarrow> Inr s
      | Some cet \<Rightarrow>
      bind_res (case BuildSignedCet E (rc_Tx cet) (lo_BorrowerPubKey l) (rc_BorrowerSignatures cet)
                    (lo_DCM l) (rc_DCMAdaptedSignatures cet) of
                  Inl Panic \<Rightarrow> Inl Panic
                | Inl _ \<Rightarrow> Inr (cet, s)
                | Inr (tx, _) \<Rightarrow> bind_res (CompleteRepayment E l s) (\<lambda>s. Inr (cet\<lparr>rc_SignedTxHex := hex_encode tx\<rparr>, s))) (\<lambda>(cet, s).
      Inr (SetDLCMeta (lo_VaultAddress l) (m\<lparr>dm_RepaymentCet := cet\<rparr>) s))))"

definition handleRepayments ::
  "('b, 'e) lenv_scheme \<Rightarrow> ('b, 'x) lending_scheme \<Rightarrow> ('b, 'x) lending_scheme res" where
  "handleRepayments E s = IterateLoansByStatus LOAN_Repaid (handle_repayment E) s"

definition lending_EndBlocker ::
  "('b, 'e) lenv_scheme \<Rightarrow> int \<Rightarrow> ('b, 'x) lending_scheme \<Rightarrow> ('b, 'x) lending_scheme res" where
  "lending_EndBlocker E now s =
     bind_res (handleApprovals E now s) (\<lambda>s.
     bind_res (handleLiquidations E now s) (\<lambda>s.
     bind_res (handleLiquidatedLoans E s) (handleRepayments E)))"

end
