(* ===== verification/Spv.thy ===== *)
theory Spv
  imports Btc
begin

text \<open>
  The inclusion of a Bitcoin transaction in the chain of block headers the oracle keeps: Merkle proofs
  (\<open>x/btcbridge/types/merkle_proof.go\<close>) and \<open>ValidateTransaction\<close> of \<open>x/btcbridge/keeper/keeper.go\<close>, which lending and
  the bridge use for deposits and withdrawals.
\<close>

abbreviation "ErrBlockNotFound \<equiv> Registered ''btcbridge'' 2101"
abbreviation "ErrTransactionNotIncluded \<equiv> Registered ''btcbridge'' 2102"
abbreviation "ErrNotConfirmed \<equiv> Registered ''btcbridge'' 2103"
abbreviation "ErrInvalidBtcTransaction \<equiv> Registered ''btcbridge'' 2106"
abbreviation "ErrBase64 \<equiv> External ''base64''"
abbreviation "ErrTxSanity \<equiv> External ''blockchain.CheckTransactionSanity''"
abbreviation "ErrHash \<equiv> External ''chainhash.NewHashFromStr''"

definition i32 :: "int \<Rightarrow> int" where
  "i32 x = (x + 2 ^ 31) mod 2 ^ 32 - 2 ^ 31"

lemma i32_id: "- (2 ^ 31) \<le> x \<Longrightarrow> x < 2 ^ 31 \<Longrightarrow> i32 x = x"
  by (simp add: i32_def)

text \<open>
  A step of the proof is a byte for the side and the sibling; without a sibling the node is paired with
  itself. An empty step panics. \<open>None\<close> is a malformed proof.
\<close>

fun merkle_walk :: "('b, 'e) btc_env_scheme \<Rightarrow> string list \<Rightarrow> string \<Rightarrow> string option res" where
  "merkle_walk E [] current = Inr (Some current)"
| "merkle_walk E (proof # proofs) current =
     (case b64_decode proof of (bytes, ok) \<Rightarrow>
        if \<not> ok then Inr None else
        (case bytes of
           [] \<Rightarrow> Inl Panic
         | position # rest \<Rightarrow>
             if rest \<noteq> [] \<and> length rest \<noteq> 32 then Inr None
             else let p = (if rest = [] then current else rest)
               in merkle_walk E proofs (if (of_char position :: nat) = 0 then merkle_branch E current p else merkle_branch E p current)))"

definition VerifyMerkleProof :: "('b, 'e) btc_env_scheme \<Rightarrow> string list \<Rightarrow> string \<Rightarrow> string \<Rightarrow> bool res" where
  "VerifyMerkleProof E proofs txHash root = bind_res (merkle_walk E proofs txHash) (\<lambda>r. Inr (r = Some root))"

text \<open>A transaction in base64, and its structural checks.\<close>

definition decode_tx :: "('b, 'e) btc_env_scheme \<Rightarrow> string \<Rightarrow> msg_tx res" where
  "decode_tx E s = (case b64_decode s of (bytes, ok) \<Rightarrow> if \<not> ok then Inl ErrBase64 else tx_decode E bytes)"

definition sane_tx :: "('b, 'e) btc_env_scheme \<Rightarrow> string \<Rightarrow> msg_tx res" where
  "sane_tx E s = bind_res (decode_tx E s) (\<lambda>tx. if tx_sane E tx then Inr tx else Inl ErrTxSanity)"

text \<open>The previous transaction is checked when it is given; its hash must be that of the first input.\<close>

definition ValidateTransaction ::
  "('b, 'e) btc_env_scheme \<Rightarrow> string \<Rightarrow> string \<Rightarrow> string \<Rightarrow> string list \<Rightarrow> int \<Rightarrow> ('b, 'x) chain_scheme \<Rightarrow>
   (msg_tx \<times> msg_tx option) res" where
  "ValidateTransaction E txBytes prevTxBytes blockHash proof depth s =
     (if \<not> HasBlockHeader s blockHash then Inl ErrBlockNotFound
      else let header = GetBlockHeader s blockHash in
      if i32 (i32 (bh_Height (GetBestBlockHeader s) - bh_Height header) + 1) < depth then Inl ErrNotConfirmed
      else bind_res (sane_tx E txBytes) (\<lambda>tx.
      bind_res (if prevTxBytes = '''' then Inr None
                else bind_res (sane_tx E prevTxBytes) (\<lambda>prev.
                  bind_res (signed_index (mt_TxIn tx) 0) (\<lambda>ti.
                  if ti_Hash ti \<noteq> tx_hash E prev then Inl ErrInvalidBtcTransaction else Inr (Some prev)))) (\<lambda>prev.
      if \<not> hash_ok E (bh_MerkleRoot header) then Inl ErrHash
      else bind_res (VerifyMerkleProof E proof (hash_bytes E (tx_hash E tx)) (hash_bytes E (bh_MerkleRoot header))) (\<lambda>ok.
      if \<not> ok then Inl ErrTransactionNotIncluded else Inr (tx, prev)))))"

end
