(* ===== verification/Lending_Msgs.thy ===== *)
theory Lending_Msgs
  imports Lending_Flow Spv
begin

text \<open>
  The messages of borrowers, relayers and governance on loans: \<open>x/lending/keeper/msg_server_loan.go\<close>
  with the \<open>ValidateBasic\<close> functions of \<open>x/lending/types/msg_*.go\<close>.
\<close>

section \<open>Apply\<close>

record msg_apply =
  ma_Borrower :: string
  ma_BorrowerPubkey :: string
  ma_BorrowerAuthPubkey :: string
  ma_PoolId :: string
  ma_BorrowAmount :: coin
  ma_Maturity :: int
  ma_DCMId :: u64
  ma_ReferralCode :: string

definition MsgApply_ValidateBasic :: "('b, 'e) lenv_scheme \<Rightarrow> msg_apply \<Rightarrow> unit res" where
  "MsgApply_ValidateBasic E m =
     (if \<not> bech32_ok E (ma_Borrower m) then Inl ErrBech32Addr
      else bind_res (wrap_err ErrInvalidPubKey (hex_res (ma_BorrowerPubkey m))) (\<lambda>pk.
      if \<not> pubkey_ok E pk then Inl ErrInvalidPubKey
      else bind_res (wrap_err ErrInvalidPubKey (hex_res (ma_BorrowerAuthPubkey m))) (\<lambda>apk.
      if \<not> pubkey_ok E apk then Inl ErrInvalidPubKey
      else if ma_PoolId m = [] then Inl ErrInvalidPoolId
      else if \<not> coin_valid E (ma_BorrowAmount m) \<or> \<not> 0 < Amount (ma_BorrowAmount m) then Inl ln_ErrInvalidAmount
      else if ma_Maturity m \<le> 0 then Inl ErrInvalidMaturity
      else if ma_ReferralCode m \<noteq> [] \<and> \<not> ReferralCodeRegex (ma_ReferralCode m) then Inl ErrInvalidReferralCode
      else Inr ())))"

definition FinalTimeoutDuration :: "('b, 'x) lending_scheme \<Rightarrow> int" where
  "FinalTimeoutDuration s = tdiv (lnp_FinalTimeoutDuration (ln_params s)) (10 ^ 9)"

definition Apply ::
  "('b, 'e) lenv_scheme \<Rightarrow> int \<Rightarrow> msg_apply \<Rightarrow> ('b, 'x) lending_scheme \<Rightarrow> ('b, 'x) lending_scheme res" where
  "Apply E now m s =
     bind_res (MsgApply_ValidateBasic E m) (\<lambda>_.
     if \<not> HasPool s (ma_PoolId m) then Inl ErrPoolDoesNotExist
     else let p = GetPool s (ma_PoolId m); c = po_Config p in
     if po_Status p \<noteq> ACTIVE then Inl ErrPoolNotActive
     else if Denom (ma_BorrowAmount m) \<noteq> Denom (po_Supply p) then Inl ln_ErrInvalidAmount
     else bind_res (CheckBorrowAmountLimit p (Amount (ma_BorrowAmount m))) (\<lambda>_.
     bind_res (CheckBorrowCap p (Amount (ma_BorrowAmount m))) (\<lambda>_.
     if po_AvailableAmount p < Amount (ma_BorrowAmount m) then Inl ErrInsufficientLiquidity
     else case GetTrancheConfig (pc_Tranches c) (ma_Maturity m) of None \<Rightarrow> Inl ErrInvalidMaturity | Some tc \<Rightarrow>
     bind_res (pay E (Account (ma_Borrower m)) (lnp_RequestFeeCollector (ln_params s)) (pc_RequestFee c) (ch_bank s)) (\<lambda>b.
     let s = s\<lparr>ch_bank := b\<rparr> in
     if \<not> HasDCM s (ma_DCMId m) then Inl ErrInvalidDCM
     else let dcm = GetDCM s (ma_DCMId m);
              maturityTime = unix (now + i64 (tc_Maturity tc * 10 ^ 9));
              finalTimeout = maturityTime + FinalTimeoutDuration s in
     bind_res (CreateVaultAddress E (ma_BorrowerPubkey m) (ma_BorrowerAuthPubkey m) (dcm_Pubkey dcm) finalTimeout) (\<lambda>vault.
     if HasLoan s vault then Inl ErrDuplicatedVault
     else bind_res (BuildDLCMeta E (ma_BorrowerPubkey m) (ma_BorrowerAuthPubkey m) (dcm_Pubkey dcm) finalTimeout) (\<lambda>dm.
     case GetAvailableLendingEvent s of (None, _) \<Rightarrow> Inl ErrInvalidEvent
     | (Some e, s) \<Rightarrow>
     let l = zero_loan\<lparr>lo_VaultAddress := vault, lo_Borrower := ma_Borrower m,
               lo_BorrowerPubKey := ma_BorrowerPubkey m, lo_BorrowerAuthPubKey := ma_BorrowerAuthPubkey m,
               lo_DCM := dcm_Pubkey dcm, lo_MaturityTime := maturityTime, lo_FinalTimeout := finalTimeout,
               lo_PoolId := ma_PoolId m, lo_BorrowAmount := ma_BorrowAmount m, lo_RequestFee := pc_RequestFee c,
               lo_OriginationFee := truncate_int (dec_mul E (to_dec (Amount (ma_BorrowAmount m))) (pc_OriginationFeeFactor c)),
               lo_Maturity := tc_Maturity tc, lo_BorrowAPR := tc_BorrowAPR tc, lo_DlcEventId := ev_Id e,
               lo_Referrer := GetReferrer s (ma_ReferralCode m), lo_CreateAt := now, lo_Status := LOAN_Requested\<rparr>;
         s = SetLoan l s;
         s = SetLoanByAddress l s;
         s = SetLoanByOracle vault (ev_Pubkey e) s;
         s = SetDLCMeta vault dm s
     in Inr (UpdateDLCEvent l s)))))))"

section \<open>SubmitCets\<close>

record msg_submit_cets =
  msc_Borrower :: string
  msc_LoanId :: string
  msc_DepositTxs :: "string list"
  msc_LiquidationCet :: string
  msc_LiquidationAdaptorSignatures :: "string list"
  msc_DefaultLiquidationAdaptorSignatures :: "string list"
  msc_RepaymentCet :: string
  msc_RepaymentSignatures :: "string list"

definition deposit_hash :: "('b, 'e) btc_env_scheme \<Rightarrow> string \<Rightarrow> string list \<Rightarrow> string list res" where
  "deposit_hash E tx hs =
     bind_res (wrap_err ErrInvalidDepositTx (psbt_parse E tx)) (\<lambda>p.
     let h = tx_hash E (ps_Tx p) in
     if h \<in> set hs then Inl ErrInvalidDepositTx else Inr (hs @ [h]))"

definition hex_sig_ok :: "(string \<Rightarrow> bool) \<Rightarrow> string \<Rightarrow> bool" where
  "hex_sig_ok ok sig = (case hex_decode sig of (b, good) \<Rightarrow> good \<and> ok b)"

definition MsgSubmitCets_ValidateBasic :: "('b, 'e) lenv_scheme \<Rightarrow> msg_submit_cets \<Rightarrow> unit res" where
  "MsgSubmitCets_ValidateBasic E m =
     (if \<not> bech32_ok E (msc_Borrower m) then Inl ErrBech32Addr
      else if msc_LoanId m = [] then Inl ErrEmptyLoanId
      else if msc_DepositTxs m = [] then Inl ErrInvalidDepositTxs
      else bind_res (fold_res (deposit_hash E) (msc_DepositTxs m) []) (\<lambda>hs.
      bind_res (wrap_err ErrInvalidCET (psbt_parse E (msc_LiquidationCet m))) (\<lambda>lp.
      if \<not> list_all (\<lambda>ti. ti_Hash ti \<in> set hs) (mt_TxIn (ps_Tx lp)) then Inl ErrInvalidCET
      else if length (msc_LiquidationAdaptorSignatures m) \<noteq> length (ps_Inputs lp) then Inl ErrInvalidAdaptorSignatures
      else if length (msc_DefaultLiquidationAdaptorSignatures m) \<noteq> length (ps_Inputs lp) then Inl ErrInvalidAdaptorSignatures
      else if \<not> list_all (hex_sig_ok (adaptor_signature_ok E)) (msc_LiquidationAdaptorSignatures m)
      then Inl ErrInvalidAdaptorSignature
      else if \<not> list_all (hex_sig_ok (adaptor_signature_ok E)) (msc_DefaultLiquidationAdaptorSignatures m)
      then Inl ErrInvalidAdaptorSignature
      else bind_res (wrap_err ErrInvalidCET (psbt_parse E (msc_RepaymentCet m))) (\<lambda>rp.
      if \<not> list_all (\<lambda>ti. ti_Hash ti \<in> set hs) (mt_TxIn (ps_Tx rp)) then Inl ErrInvalidCET
      else if length (msc_RepaymentSignatures m) \<noteq> length (ps_Inputs rp) then Inl ErrInvalidSignatures
      else if \<not> list_all (hex_sig_ok (signature_ok E)) (msc_RepaymentSignatures m) then Inl ErrInvalidSignature
      else Inr ()))))"

definition log_deposit ::
  "string \<Rightarrow> u64 \<Rightarrow> string \<times> string \<Rightarrow> ('b, 'x) lending_scheme \<Rightarrow> ('b, 'x) lending_scheme" where
  "log_deposit loanId auth = (\<lambda>(h, tx) s. if HasDepositLog s h then s else NewDepositLog h loanId auth tx s)"

definition SubmitCets ::
  "('b, 'e) lenv_scheme \<Rightarrow> int \<Rightarrow> int \<Rightarrow> msg_submit_cets \<Rightarrow> ('b, 'x) lending_scheme \<Rightarrow> ('b, 'x) lending_scheme res" where
  "SubmitCets E height now m s =
     bind_res (MsgSubmitCets_ValidateBasic E m) (\<lambda>_.
     if \<not> HasLoan s (msc_LoanId m) then Inl ErrLoanDoesNotExist
     else let l = GetLoan s (msc_LoanId m) in
     if msc_Borrower m \<noteq> lo_Borrower l then Inl ErrMismatchedBorrower
     else if lo_Status l \<noteq> LOAN_Requested then Inl ErrInvalidLoanStatus
     else let vaultScript = (case pk_script_of E (lo_VaultAddress l) of Inl _ \<Rightarrow> [] | Inr sc \<Rightarrow> sc) in
     bind_res (ParseDepositTxs E (msc_DepositTxs m) vaultScript) (\<lambda>(deposits, hs, collateral).
     if collateral = 0 then Inl ErrInsufficientCollateral
     else bind_res (keeper_GetLiquidationPrice E s l collateral) (\<lambda>price.
     bind_res (UpdateDLCEventLiquidatedOutcome E s l price (GetEvent s (lo_DlcEventId l))) (\<lambda>e.
     let rate = GetFeeRate s in
     bind_res (CheckFeeRate height rate s) (\<lambda>_.
     bind_res (VerifyCets E (GetDLCMeta s (msc_LoanId m)) deposits vaultScript l e (msc_LiquidationCet m)
       (msc_LiquidationAdaptorSignatures m) (msc_DefaultLiquidationAdaptorSignatures m) (msc_RepaymentCet m)
       (msc_RepaymentSignatures m) (fr_Value rate) (lnp_MaxLiquidationFeeRateMultiplier (ln_params s))) (\<lambda>_.
     bind_res (UpdateDLCMeta E (msc_LoanId m) deposits (msc_LiquidationCet m) (msc_LiquidationAdaptorSignatures m)
       (msc_DefaultLiquidationAdaptorSignatures m) (msc_RepaymentCet m) (msc_RepaymentSignatures m) (fr_Value rate) s) (\<lambda>s.
     bind_res (InitiateRepaymentCetSigningRequest E now (lo_VaultAddress l) s) (\<lambda>s.
     case CreateAuthorization (msc_LoanId m) hs s of (a, s) \<Rightarrow>
     let s = fold (log_deposit (msc_LoanId m) (au_Id a)) (zip hs (msc_DepositTxs m)) s;
         l = l\<lparr>lo_Authorizations := lo_Authorizations l @ [a], lo_CollateralAmount := collateral,
               lo_LiquidationPrice := price, lo_Status := LOAN_Authorized\<rparr>
     in Inr (SetEvent e (SetLoan l s))))))))))"

section \<open>Deposits and redemption\<close>

record msg_submit_deposit =
  msd_Relayer :: string
  msd_Vault :: string
  msd_DepositTx :: string
  msd_BlockHash :: string
  msd_Proof :: "string list"

definition MsgSubmitDepositTransaction_ValidateBasic :: "('b, 'e) lenv_scheme \<Rightarrow> msg_submit_deposit \<Rightarrow> unit res" where
  "MsgSubmitDepositTransaction_ValidateBasic E m =
     (if \<not> bech32_ok E (msd_Relayer m) then Inl ErrBech32Addr
      else bind_res (wrap_err ErrInvalidVault (pk_script_of E (msd_Vault m))) (\<lambda>script.
      bind_res (wrap_err ErrInvalidDepositTx (decode_tx E (msd_DepositTx m))) (\<lambda>tx.
      if \<not> list_ex (\<lambda>out. to_PkScript out = script) (mt_TxOut tx) then Inl ErrInvalidDepositTx
      else if \<not> hash_ok E (msd_BlockHash m) then Inl ErrInvalidBlockHash
      else if msd_Proof m = [] then Inl ErrInvalidProof
      else Inr ())))"

definition SubmitDepositTransaction ::
  "('b, 'e) lenv_scheme \<Rightarrow> msg_submit_deposit \<Rightarrow> ('b, 'x) lending_scheme \<Rightarrow> ('b, 'x) lending_scheme res" where
  "SubmitDepositTransaction E m s =
     bind_res (MsgSubmitDepositTransaction_ValidateBasic E m) (\<lambda>_.
     if \<not> HasLoan s (msd_Vault m) then Inl ErrInvalidVault
     else let st = lo_Status (GetLoan s (msd_Vault m)) in
     if st \<noteq> LOAN_Requested \<and> st \<noteq> LOAN_Cancelled \<and> st \<noteq> LOAN_Authorized \<and> st \<noteq> LOAN_Rejected
     then Inl ErrInvalidLoanStatus
     else bind_res (wrap_err ErrInvalidDepositTx (ValidateTransaction E (msd_DepositTx m) '''' (msd_BlockHash m) (msd_Proof m) (ch_deposit_depth s) s)) (\<lambda>(tx, _).
     let h = tx_hash E tx in
     bind_res (if HasDepositLog s h then
                 (let d = GetDepositLog s h
                  in if dp_Status d \<noteq> DEPOSIT_PENDING then Inl ErrInvalidDepositTx else Inr d)
               else Inr \<lparr>dp_Txid = h, dp_VaultAddress = msd_Vault m,
                 dp_AuthorizationId = GetAuthorizationId s (msd_Vault m) + 1, dp_DepositTx = msd_DepositTx m,
                 dp_Status = DEPOSIT_PENDING\<rparr>) (\<lambda>d.
     Inr (SetDepositLog (d\<lparr>dp_Status := DEPOSIT_VERIFIED\<rparr>) s))))"

record msg_redeem =
  mre_Borrower :: string
  mre_LoanId :: string
  mre_Tx :: string
  mre_Signatures :: "string list"

definition MsgRedeem_ValidateBasic :: "('b, 'e) lenv_scheme \<Rightarrow> msg_redeem \<Rightarrow> unit res" where
  "MsgRedeem_ValidateBasic E m =
     (if \<not> bech32_ok E (mre_Borrower m) then Inl ErrBech32Addr
      else if mre_LoanId m = [] then Inl ErrEmptyLoanId
      else bind_res (wrap_err ErrInvalidTx (psbt_parse E (mre_Tx m))) (\<lambda>p.
      if length (mre_Signatures m) \<noteq> length (ps_Inputs p) then Inl ErrInvalidSignatures
      else if \<not> list_all (hex_sig_ok (signature_ok E)) (mre_Signatures m) then Inl ErrInvalidSignature
      else Inr ()))"

text \<open>
  One input of the redemption: its deposit must belong to the loan and be verified, and the borrower
  must have signed. The deposit is then being redeemed, so that a second input of the same deposit
  transaction is refused.
\<close>

definition redeem_input ::
  "('b, 'e) lenv_scheme \<Rightarrow> msg_redeem \<Rightarrow> string \<Rightarrow> string \<Rightarrow> string \<Rightarrow> string \<Rightarrow> nat \<times> tx_in \<Rightarrow>
   psbt \<times> string list \<times> ('b, 'x) lending_scheme \<Rightarrow> (psbt \<times> string list \<times> ('b, 'x) lending_scheme) res" where
  "redeem_input E m bkey key sc cb = (\<lambda>(i, ti) (p, hs, s).
     if \<not> HasDepositLog s (ti_Hash ti) then Inl ErrDepositTxDoesNotExist
     else let d = GetDepositLog s (ti_Hash ti) in
     if dp_VaultAddress d \<noteq> mre_LoanId m then Inl ErrInvalidDepositTx
     else if dp_Status d \<noteq> DEPOSIT_VERIFIED then Inl ErrInvalidDepositTx
     else bind_res (signed_index (mre_Signatures m) i) (\<lambda>sig.
     bind_res (tapscript_sighash E p i sc) (\<lambda>h.
     if \<not> schnorr_verify E (fst (hex_decode sig)) h bkey then Inl ErrInvalidSignature
     else if length (ps_Inputs p) \<le> i then Inl Panic
     else Inr (p\<lparr>ps_Inputs := (ps_Inputs p)[i := (ps_Inputs p ! i)\<lparr>pi_InternalKey := key, pi_LeafScripts := [(cb, sc)]\<rparr>]\<rparr>,
               hs @ [base64 E h],
               SetDepositLog (d\<lparr>dp_Status := DEPOSIT_REDEEMING\<rparr>) s))))"

definition Redeem ::
  "('b, 'e) lenv_scheme \<Rightarrow> int \<Rightarrow> msg_redeem \<Rightarrow> ('b, 'x) lending_scheme \<Rightarrow> ('b, 'x) lending_scheme res" where
  "Redeem E now m s =
     bind_res (MsgRedeem_ValidateBasic E m) (\<lambda>_.
     if \<not> HasLoan s (mre_LoanId m) then Inl ErrLoanDoesNotExist
     else let l = GetLoan s (mre_LoanId m) in
     if mre_Borrower m \<noteq> lo_Borrower l then Inl ErrMismatchedBorrower
     else if \<not> CollateralRedeemable l then Inl ErrInvalidLoanStatus
     else let dm = GetDLCMeta s (mre_LoanId m) in
     bind_res (must (psbt_parse E (mre_Tx m))) (\<lambda>p.
     let bkey = fst (hex_decode (lo_BorrowerPubKey l));
         key = fst (hex_decode (dm_InternalKey dm));
         (sc, cb) = unwrap_leaf (dm_RepaymentScript dm);
         n = GetCetWitnessSize sc cb in
     bind_res (CheckCetFeeRate E p n 0 0) (\<lambda>_.
     bind_res (CheckTransactionWeight ln_ErrMaxTransactionWeightExceeded E (ps_Tx p) n) (\<lambda>_.
     bind_res (fold_res (redeem_input E m bkey key sc cb) (zip [0..<length (mt_TxIn (ps_Tx p))] (mt_TxIn (ps_Tx p))) (p, [], s))
       (\<lambda>(p, hs, s).
     bind_res (psbt_encode E p) (\<lambda>tx.
     case IncrementRedemptionId s of (i, s) \<Rightarrow>
     let r = \<lparr>re_Id = i, re_LoanId = mre_LoanId m, re_Txid = tx_hash E (ps_Tx p), re_Tx = tx,
              re_Signatures = mre_Signatures m, re_DCMSignatures = [], re_CreateAt = now\<rparr>;
         s = SetRedemption r s;
         s = snd (InitiateSigningRequest now ''lending'' (ToScopedId i) SIGNING_TYPE_SCHNORR 3 (lo_DCM l) hs None s)
     in Inr (if lo_Status l = LOAN_Requested then SetLoan (l\<lparr>lo_Status := LOAN_Cancelled\<rparr>) s else s)))))))"

section \<open>Repay\<close>

record msg_repay =
  mrp_Borrower :: string
  mrp_LoanId :: string

definition MsgRepay_ValidateBasic :: "('b, 'e) env_scheme \<Rightarrow> msg_repay \<Rightarrow> unit res" where
  "MsgRepay_ValidateBasic E m =
     (if \<not> bech32_ok E (mrp_Borrower m) then Inl ErrBech32Addr
      else if mrp_LoanId m = [] then Inl ErrEmptyLoanId else Inr ())"

text \<open>Anyone may repay: the sender is not compared with the borrower of the loan.\<close>

definition Repay ::
  "('b, 'e) lenv_scheme \<Rightarrow> int \<Rightarrow> msg_repay \<Rightarrow> ('b, 'x) lending_scheme \<Rightarrow> ('b, 'x) lending_scheme res" where
  "Repay E now m s =
     bind_res (MsgRepay_ValidateBasic E m) (\<lambda>_.
     if \<not> HasLoan s (mrp_LoanId m) then Inl ErrLoanDoesNotExist
     else let l = GetLoan s (mrp_LoanId m) in
     if lo_Status l \<noteq> LOAN_Open then Inl ErrInvalidLoanStatus
     else bind_res (GetCurrentInterest E s l) (\<lambda>interest.
     bind_res (coin_add (lo_BorrowAmount l) interest) (\<lambda>amount.
     bind_res (send_coins E (ch_bank s) (Account (mrp_Borrower m)) escrow_acc [amount]) (\<lambda>b.
     let s = s\<lparr>ch_bank := b\<rparr>;
         s = SetLoan (l\<lparr>lo_Status := LOAN_Repaid\<rparr>) s;
         s = SetRepayment \<lparr>rp_LoanId = mrp_LoanId m, rp_Amount = amount, rp_CreateAt = now\<rparr> s
     in TriggerDLCEvent (outcome_digest E) now (lo_DlcEventId l) 2 s))))"

section \<open>Referrers\<close>

definition MsgReferrer_ValidateBasic :: "('b, 'e) env_scheme \<Rightarrow> string \<Rightarrow> referrer \<Rightarrow> unit res" where
  "MsgReferrer_ValidateBasic E signer r =
     (if \<not> bech32_ok E signer then Inl ErrBech32Addr
      else if MaxReferrerNameLength < length (rf_Name r) then Inl ErrInvalidReferrer
      else if \<not> ReferralCodeRegex (rf_ReferralCode r) then Inl ErrInvalidReferralCode
      else if \<not> bech32_ok E (rf_Address r) then Inl ErrBech32Addr
      else if rf_ReferralFeeFactor r < 0 \<or> dec_one < rf_ReferralFeeFactor r then Inl ErrInvalidReferralFeeFactor
      else Inr ())"

definition RegisterReferrer ::
  "('b, 'e) env_scheme \<Rightarrow> string \<Rightarrow> string \<Rightarrow> referrer \<Rightarrow> ('b, 'x) lending_scheme \<Rightarrow> ('b, 'x) lending_scheme res" where
  "RegisterReferrer E authority signer r s =
     (if authority \<noteq> signer then Inl ErrGovInvalidSigner
      else bind_res (MsgReferrer_ValidateBasic E signer r) (\<lambda>_.
      if HasReferrer s (rf_ReferralCode r) then Inl ErrReferrerAlreadyExists
      else Inr (SetReferrer r s)))"

text \<open>The stored code keeps its spelling.\<close>

definition UpdateReferrer ::
  "('b, 'e) env_scheme \<Rightarrow> string \<Rightarrow> string \<Rightarrow> referrer \<Rightarrow> ('b, 'x) lending_scheme \<Rightarrow> ('b, 'x) lending_scheme res" where
  "UpdateReferrer E authority signer r s =
     (if authority \<noteq> signer then Inl ErrGovInvalidSigner
      else bind_res (MsgReferrer_ValidateBasic E signer r) (\<lambda>_.
      case GetReferrer s (rf_ReferralCode r) of None \<Rightarrow> Inl ErrReferrerDoesNotExist
      | Some old \<Rightarrow> Inr (SetReferrer (old\<lparr>rf_Name := rf_Name r, rf_Address := rf_Address r,
          rf_ReferralFeeFactor := rf_ReferralFeeFactor r\<rparr>) s)))"

section \<open>Genesis\<close>

record lending_genesis =
  lg_Params :: lending_params
  lg_Pools :: "lending_pool list"

definition lending_InitGenesis :: "lending_genesis \<Rightarrow> ('b, 'x) lending_scheme \<Rightarrow> ('b, 'x) lending_scheme" where
  "lending_InitGenesis g s = fold SetPool (lg_Pools g) (s\<lparr>ln_params := lg_Params g\<rparr>)"

text \<open>The export starts from the default genesis and sets the pools only.\<close>

definition lending_ExportGenesis :: "string \<Rightarrow> ('b, 'x) lending_scheme \<Rightarrow> lending_genesis" where
  "lending_ExportGenesis gov s = \<lparr>lg_Params = lending_DefaultParams gov, lg_Pools = GetAllPools s\<rparr>"

end
