(* ===== verification/Liquidation_Flow.thy ===== *)
theory Liquidation_Flow
  imports Lending_Msgs
begin

text \<open>
  The parts of the liquidation module that use lending: the block handlers of
  \<open>x/liquidation/module/abci.go\<close>, the settlement of \<open>x/liquidation/keeper/settlement.go\<close> with its
  signing callback, and the genesis.
\<close>

section \<open>The end blocker\<close>

text \<open>
  A liquidation ends when no collateral or no debt is left, or when the collateral that is left or that
  the rest of the debt is worth is dust.
\<close>

definition liquidation_done ::
  "('b, 'e) lenv_scheme \<Rightarrow> ('b, 'x) lending_scheme \<Rightarrow> liquidation \<Rightarrow> bool res" where
  "liquidation_done E s l =
     bind_res (coin_sub (lq_DebtAmount l) (lq_LiquidatedDebtAmount l)) (\<lambda>rd.
     if Amount (lq_UnliquidatedCollateralAmount l) = 0 \<or> Amount rd = 0 then Inr True
     else bind_res (to_int64 (Amount (lq_UnliquidatedCollateralAmount l))) (\<lambda>rc.
     if rc < DefaultDustOutValue then Inr True
     else if min_liquidation_debt E s l \<le> Amount rd then Inr False
     else case GetPrice (parse_dec E) s (liquidation_GetPricePair l) of Inl _ \<Rightarrow> Inr False
     | Inr None \<Rightarrow> Inl Panic
     | Inr (Some price) \<Rightarrow>
     bind_res (GetCollateralAmount E (Amount rd) (am_Decimals (lq_DebtAsset l)) (am_Decimals (lq_CollateralAsset l))
       price (am_IsBasePriceAsset (lq_CollateralAsset l))) (\<lambda>c.
     bind_res (to_int64 c) (\<lambda>c. Inr (c < DefaultDustOutValue)))))"

definition pending_liquidation_step ::
  "('b, 'e) lenv_scheme \<Rightarrow> liquidation \<Rightarrow> ('b, 'x) lending_scheme \<Rightarrow> ('b, 'x) lending_scheme res" where
  "pending_liquidation_step E l s =
     bind_res (liquidation_done E s l) (\<lambda>fin.
     Inr (if fin then SetLiquidation (l\<lparr>lq_Status := LQ_LIQUIDATED\<rparr>) s else s))"

definition handlePendingLiquidations ::
  "('b, 'e) lenv_scheme \<Rightarrow> ('b, 'x) lending_scheme \<Rightarrow> ('b, 'x) lending_scheme res" where
  "handlePendingLiquidations E s =
     fold_res (pending_liquidation_step E) (GetLiquidationsByStatus s LQ_LIQUIDATING) s"

text \<open>A settlement transaction that cannot be built is tried again in the next block.\<close>

definition completed_liquidation_step ::
  "('b, 'e) lenv_scheme \<Rightarrow> int \<Rightarrow> int \<Rightarrow> liquidation \<Rightarrow> ('b, 'x) lending_scheme \<Rightarrow> ('b, 'x) lending_scheme res" where
  "completed_liquidation_step E now rate l s =
     (case BuildSettlementTransaction E l (GetLiquidationRecords s (lq_Id l))
        (lp_ProtocolLiquidationFeeCollector (li_params s)) rate LiquidationNetworkFeeReserve of
        Inl Panic \<Rightarrow> Inl Panic
      | Inl _ \<Rightarrow> Inr s
      | Inr (tx, txid, hs, change) \<Rightarrow>
        bind_res (new_coin E (am_Denom (lq_CollateralAsset l)) change) (\<lambda>c.
        let s = SetLiquidation (l\<lparr>lq_UnliquidatedCollateralAmount := c, lq_SettlementTx := tx,
                  lq_SettlementTxId := txid, lq_Status := LQ_SETTLING\<rparr>) s
        in Inr (snd (InitiateSigningRequest now ''liquidation'' (ToScopedId (lq_Id l)) SIGNING_TYPE_SCHNORR_WITH_TWEAK 0
             (lq_DCM l) hs (Some \<lparr>so_Tweak = '''', so_Nonce = '''', so_AdaptorPoint = ''''\<rparr>) s))))"

definition handleCompletedLiquidations ::
  "('b, 'e) lenv_scheme \<Rightarrow> int \<Rightarrow> ('b, 'x) lending_scheme \<Rightarrow> ('b, 'x) lending_scheme res" where
  "handleCompletedLiquidations E now s =
     fold_res (completed_liquidation_step E now (fr_Value (GetFeeRate s))) (GetLiquidationsByStatus s LQ_LIQUIDATED) s"

definition liquidation_EndBlocker ::
  "('b, 'e) lenv_scheme \<Rightarrow> int \<Rightarrow> ('b, 'x) lending_scheme \<Rightarrow> ('b, 'x) lending_scheme res" where
  "liquidation_EndBlocker E now s =
     bind_res (handlePendingLiquidations E s) (handleCompletedLiquidations E now)"

section \<open>The begin blocker\<close>

definition accrue_liquidation ::
  "('b, 'e) lenv_scheme \<Rightarrow> liquidation \<Rightarrow> ('b, 'x) lending_scheme \<Rightarrow> ('b, 'x) lending_scheme res" where
  "accrue_liquidation E l s =
     (if lq_Status l \<noteq> LQ_SETTLED then
        bind_res (GetLiquidationAccruedInterest E s (lq_LoanId l)) (\<lambda>i.
        bind_res (new_coin E (Denom (lq_DebtAmount l)) i) (\<lambda>c.
        Inr (SetLiquidation (l\<lparr>lq_AccruedInterest := c\<rparr>) s)))
      else Inr s)"

definition calculateAccruedInterest ::
  "('b, 'e) lenv_scheme \<Rightarrow> ('b, 'x) lending_scheme \<Rightarrow> ('b, 'x) lending_scheme res" where
  "calculateAccruedInterest E s = fold_res (accrue_liquidation E) (GetAllLiquidations s) s"

definition liquidation_BeginBlocker ::
  "('b, 'e) lenv_scheme \<Rightarrow> ('b, 'x) lending_scheme \<Rightarrow> ('b, 'x) lending_scheme res" where
  "liquidation_BeginBlocker E s = calculateAccruedInterest E s"

section \<open>Settlement\<close>

definition key_sign_inputs :: "string list \<Rightarrow> psbt_input list \<Rightarrow> psbt_input list res" where
  "key_sign_inputs sigs ins =
     (if length sigs < length ins then Inl Panic
      else Inr (map (\<lambda>(inp, sig). inp\<lparr>pi_KeySig := fst (hex_decode sig)\<rparr>) (zip ins sigs)))"

definition HandleSettlementSignatures ::
  "('b, 'e) lenv_scheme \<Rightarrow> u64 \<Rightarrow> string list \<Rightarrow> ('b, 'x) lending_scheme \<Rightarrow> ('b, 'x) lending_scheme res" where
  "HandleSettlementSignatures E i sigs s =
     (if \<not> HasLiquidation s i then Inl liq_ErrLiquidationDoesNotExist
      else let l = GetLiquidation s i in
      if lq_Status l \<noteq> LQ_SETTLING then Inl liq_ErrInvalidLiquidationStatus
      else bind_res (psbt_parse E (lq_SettlementTx l)) (\<lambda>p.
      bind_res (key_sign_inputs sigs (ps_Inputs p)) (\<lambda>ins.
      bind_res (psbt_finalize E (p\<lparr>ps_Inputs := ins\<rparr>)) (\<lambda>p.
      bind_res (psbt_encode E p) (\<lambda>tx.
      bind_res (HandleLiquidatedDebt E (lq_LoanId l) liquidation_acc (lq_LiquidatedDebtAmount l)
        (Amount (lq_AccruedInterest l)) s) (\<lambda>s.
      Inr (SetLiquidation (l\<lparr>lq_SettlementTx := tx, lq_Status := LQ_SETTLED\<rparr>) s)))))))"

definition liquidation_SigningCompletedHandler ::
  "('b, 'e) lenv_scheme \<Rightarrow> string \<Rightarrow> string list \<Rightarrow> ('b, 'x) lending_scheme \<Rightarrow> ('b, 'x) lending_scheme res" where
  "liquidation_SigningCompletedHandler E scoped sigs s = HandleSettlementSignatures E (FromScopedId scoped) sigs s"

section \<open>Genesis\<close>

record liquidation_genesis =
  lqg_Params :: liquidation_params
  lqg_Liquidations :: "liquidation list"
  lqg_Records :: "liquidation_record list"

definition liquidation_InitGenesis :: "liquidation_genesis \<Rightarrow> ('b, 'x) liq_scheme \<Rightarrow> ('b, 'x) liq_scheme" where
  "liquidation_InitGenesis g s =
     fold SetLiquidationRecord (lqg_Records g) (fold SetLiquidation (lqg_Liquidations g) (s\<lparr>li_params := lqg_Params g\<rparr>))"

definition liquidation_ExportGenesis :: "('b, 'x) liq_scheme \<Rightarrow> liquidation_genesis" where
  "liquidation_ExportGenesis s = \<lparr>lqg_Params = li_params s, lqg_Liquidations = GetAllLiquidations s,
     lqg_Records = GetAllLiquidationRecords s\<rparr>"

end
