(* ===== verification/Lending_Inv.thy ===== *)
theory Lending_Inv
  imports Liquidation_Flow
begin

text \<open>
  Which fields the writing operations of the protocol leave alone, the status indexes of loans and
  events, and the invariants of pools and loans.
\<close>

section \<open>Frames\<close>

lemma InitiateSigningRequest_lending_frame [simp]:
  "ch_bank (snd (InitiateSigningRequest now m scoped ty intent pk hs opts s)) = ch_bank s"
  "ch_prices (snd (InitiateSigningRequest now m scoped ty intent pk hs opts s)) = ch_prices s"
  "ch_fee_rate (snd (InitiateSigningRequest now m scoped ty intent pk hs opts s)) = ch_fee_rate s"
  "ch_fee_validity (snd (InitiateSigningRequest now m scoped ty intent pk hs opts s)) = ch_fee_validity s"
  "ch_headers (snd (InitiateSigningRequest now m scoped ty intent pk hs opts s)) = ch_headers s"
  "ch_deposit_depth (snd (InitiateSigningRequest now m scoped ty intent pk hs opts s)) = ch_deposit_depth s"
  "dl_event_id (snd (InitiateSigningRequest now m scoped ty intent pk hs opts s)) = dl_event_id s"
  "dl_events (snd (InitiateSigningRequest now m scoped ty intent pk hs opts s)) = dl_events s"
  "dl_event_status (snd (InitiateSigningRequest now m scoped ty intent pk hs opts s)) = dl_event_status s"
  "dl_pending (snd (InitiateSigningRequest now m scoped ty intent pk hs opts s)) = dl_pending s"
  "dl_pending_count (snd (InitiateSigningRequest now m scoped ty intent pk hs opts s)) = dl_pending_count s"
  "dl_attestation_id (snd (InitiateSigningRequest now m scoped ty intent pk hs opts s)) = dl_attestation_id s"
  "dl_attestations (snd (InitiateSigningRequest now m scoped ty intent pk hs opts s)) = dl_attestations s"
  "dl_attestation_by_event (snd (InitiateSigningRequest now m scoped ty intent pk hs opts s)) = dl_attestation_by_event s"
  "dl_dcms (snd (InitiateSigningRequest now m scoped ty intent pk hs opts s)) = dl_dcms s"
  "li_params (snd (InitiateSigningRequest now m scoped ty intent pk hs opts s)) = li_params s"
  "li_id (snd (InitiateSigningRequest now m scoped ty intent pk hs opts s)) = li_id s"
  "li_record_id (snd (InitiateSigningRequest now m scoped ty intent pk hs opts s)) = li_record_id s"
  "li_store (snd (InitiateSigningRequest now m scoped ty intent pk hs opts s)) = li_store s"
  "li_by_status (snd (InitiateSigningRequest now m scoped ty intent pk hs opts s)) = li_by_status s"
  "li_records (snd (InitiateSigningRequest now m scoped ty intent pk hs opts s)) = li_records s"
  "li_records_by (snd (InitiateSigningRequest now m scoped ty intent pk hs opts s)) = li_records_by s"
  "ln_params (snd (InitiateSigningRequest now m scoped ty intent pk hs opts s)) = ln_params s"
  "ln_pools (snd (InitiateSigningRequest now m scoped ty intent pk hs opts s)) = ln_pools s"
  "ln_loans (snd (InitiateSigningRequest now m scoped ty intent pk hs opts s)) = ln_loans s"
  "ln_by_status (snd (InitiateSigningRequest now m scoped ty intent pk hs opts s)) = ln_by_status s"
  "ln_liq_queue (snd (InitiateSigningRequest now m scoped ty intent pk hs opts s)) = ln_liq_queue s"
  "ln_auth_ids (snd (InitiateSigningRequest now m scoped ty intent pk hs opts s)) = ln_auth_ids s"
  "ln_deposits (snd (InitiateSigningRequest now m scoped ty intent pk hs opts s)) = ln_deposits s"
  "ln_repayments (snd (InitiateSigningRequest now m scoped ty intent pk hs opts s)) = ln_repayments s"
  "ln_dlc_metas (snd (InitiateSigningRequest now m scoped ty intent pk hs opts s)) = ln_dlc_metas s"
  "ln_redemptions (snd (InitiateSigningRequest now m scoped ty intent pk hs opts s)) = ln_redemptions s"
  "ln_redemption_id (snd (InitiateSigningRequest now m scoped ty intent pk hs opts s)) = ln_redemption_id s"
  "ln_referrers (snd (InitiateSigningRequest now m scoped ty intent pk hs opts s)) = ln_referrers s"
  by (simp_all add: InitiateSigningRequest_def IncrementSigningRequestId_def SetSigningRequest_def SetSigningRequestStatus_def RemoveSigningRequestStatus_def Let_def)

lemma SetEvent_frame [simp]:
  "ch_bank (SetEvent e s) = ch_bank s"
  "ch_prices (SetEvent e s) = ch_prices s"
  "ch_fee_rate (SetEvent e s) = ch_fee_rate s"
  "ch_fee_validity (SetEvent e s) = ch_fee_validity s"
  "ch_headers (SetEvent e s) = ch_headers s"
  "ch_deposit_depth (SetEvent e s) = ch_deposit_depth s"
  "tss_request_id (SetEvent e s) = tss_request_id s"
  "tss_requests (SetEvent e s) = tss_requests s"
  "tss_by_status (SetEvent e s) = tss_by_status s"
  "dl_event_id (SetEvent e s) = dl_event_id s"
  "dl_pending (SetEvent e s) = dl_pending s"
  "dl_pending_count (SetEvent e s) = dl_pending_count s"
  "dl_attestation_id (SetEvent e s) = dl_attestation_id s"
  "dl_attestations (SetEvent e s) = dl_attestations s"
  "dl_attestation_by_event (SetEvent e s) = dl_attestation_by_event s"
  "dl_dcms (SetEvent e s) = dl_dcms s"
  "li_params (SetEvent e s) = li_params s"
  "li_id (SetEvent e s) = li_id s"
  "li_record_id (SetEvent e s) = li_record_id s"
  "li_store (SetEvent e s) = li_store s"
  "li_by_status (SetEvent e s) = li_by_status s"
  "li_records (SetEvent e s) = li_records s"
  "li_records_by (SetEvent e s) = li_records_by s"
  "ln_params (SetEvent e s) = ln_params s"
  "ln_pools (SetEvent e s) = ln_pools s"
  "ln_loans (SetEvent e s) = ln_loans s"
  "ln_by_status (SetEvent e s) = ln_by_status s"
  "ln_liq_queue (SetEvent e s) = ln_liq_queue s"
  "ln_auth_ids (SetEvent e s) = ln_auth_ids s"
  "ln_deposits (SetEvent e s) = ln_deposits s"
  "ln_repayments (SetEvent e s) = ln_repayments s"
  "ln_dlc_metas (SetEvent e s) = ln_dlc_metas s"
  "ln_redemptions (SetEvent e s) = ln_redemptions s"
  "ln_redemption_id (SetEvent e s) = ln_redemption_id s"
  "ln_referrers (SetEvent e s) = ln_referrers s"
  by (simp_all add: SetEvent_def SetEventStatus_def RemoveEventStatus_def Let_def)

lemma SetLoan_frame [simp]:
  "ch_bank (SetLoan l s) = ch_bank s"
  "ch_prices (SetLoan l s) = ch_prices s"
  "ch_fee_rate (SetLoan l s) = ch_fee_rate s"
  "ch_fee_validity (SetLoan l s) = ch_fee_validity s"
  "ch_headers (SetLoan l s) = ch_headers s"
  "ch_deposit_depth (SetLoan l s) = ch_deposit_depth s"
  "tss_request_id (SetLoan l s) = tss_request_id s"
  "tss_requests (SetLoan l s) = tss_requests s"
  "tss_by_status (SetLoan l s) = tss_by_status s"
  "dl_event_id (SetLoan l s) = dl_event_id s"
  "dl_events (SetLoan l s) = dl_events s"
  "dl_event_status (SetLoan l s) = dl_event_status s"
  "dl_pending (SetLoan l s) = dl_pending s"
  "dl_pending_count (SetLoan l s) = dl_pending_count s"
  "dl_attestation_id (SetLoan l s) = dl_attestation_id s"
  "dl_attestations (SetLoan l s) = dl_attestations s"
  "dl_attestation_by_event (SetLoan l s) = dl_attestation_by_event s"
  "dl_dcms (SetLoan l s) = dl_dcms s"
  "li_params (SetLoan l s) = li_params s"
  "li_id (SetLoan l s) = li_id s"
  "li_record_id (SetLoan l s) = li_record_id s"
  "li_store (SetLoan l s) = li_store s"
  "li_by_status (SetLoan l s) = li_by_status s"
  "li_records (SetLoan l s) = li_records s"
  "li_records_by (SetLoan l s) = li_records_by s"
  "ln_params (SetLoan l s) = ln_params s"
  "ln_pools (SetLoan l s) = ln_pools s"
  "ln_liq_queue (SetLoan l s) = ln_liq_queue s"
  "ln_auth_ids (SetLoan l s) = ln_auth_ids s"
  "ln_deposits (SetLoan l s) = ln_deposits s"
  "ln_repayments (SetLoan l s) = ln_repayments s"
  "ln_dlc_metas (SetLoan l s) = ln_dlc_metas s"
  "ln_redemptions (SetLoan l s) = ln_redemptions s"
  "ln_redemption_id (SetLoan l s) = ln_redemption_id s"
  "ln_referrers (SetLoan l s) = ln_referrers s"
  by (simp_all add: SetLoan_def SetLoanStatus_def RemoveLoanStatus_def Let_def)

lemma SetLiquidation_frame [simp]:
  "ch_bank (SetLiquidation l s) = ch_bank s"
  "ch_prices (SetLiquidation l s) = ch_prices s"
  "ch_fee_rate (SetLiquidation l s) = ch_fee_rate s"
  "ch_fee_validity (SetLiquidation l s) = ch_fee_validity s"
  "ch_headers (SetLiquidation l s) = ch_headers s"
  "ch_deposit_depth (SetLiquidation l s) = ch_deposit_depth s"
  "tss_request_id (SetLiquidation l s) = tss_request_id s"
  "tss_requests (SetLiquidation l s) = tss_requests s"
  "tss_by_status (SetLiquidation l s) = tss_by_status s"
  "dl_event_id (SetLiquidation l s) = dl_event_id s"
  "dl_events (SetLiquidation l s) = dl_events s"
  "dl_event_status (SetLiquidation l s) = dl_event_status s"
  "dl_pending (SetLiquidation l s) = dl_pending s"
  "dl_pending_count (SetLiquidation l s) = dl_pending_count s"
  "dl_attestation_id (SetLiquidation l s) = dl_attestation_id s"
  "dl_attestations (SetLiquidation l s) = dl_attestations s"
  "dl_attestation_by_event (SetLiquidation l s) = dl_attestation_by_event s"
  "dl_dcms (SetLiquidation l s) = dl_dcms s"
  "li_params (SetLiquidation l s) = li_params s"
  "li_id (SetLiquidation l s) = li_id s"
  "li_record_id (SetLiquidation l s) = li_record_id s"
  "li_records (SetLiquidation l s) = li_records s"
  "li_records_by (SetLiquidation l s) = li_records_by s"
  "ln_params (SetLiquidation l s) = ln_params s"
  "ln_pools (SetLiquidation l s) = ln_pools s"
  "ln_loans (SetLiquidation l s) = ln_loans s"
  "ln_by_status (SetLiquidation l s) = ln_by_status s"
  "ln_liq_queue (SetLiquidation l s) = ln_liq_queue s"
  "ln_auth_ids (SetLiquidation l s) = ln_auth_ids s"
  "ln_deposits (SetLiquidation l s) = ln_deposits s"
  "ln_repayments (SetLiquidation l s) = ln_repayments s"
  "ln_dlc_metas (SetLiquidation l s) = ln_dlc_metas s"
  "ln_redemptions (SetLiquidation l s) = ln_redemptions s"
  "ln_redemption_id (SetLiquidation l s) = ln_redemption_id s"
  "ln_referrers (SetLiquidation l s) = ln_referrers s"
  by (simp_all add: SetLiquidation_def SetLiquidationStatus_def RemoveLiquidationStatus_def Let_def)


lemmas plain_updates = SetPool_def SetLoanByAddress_def SetLoanByOracle_def AddToLiquidationQueue_def
  RemoveFromLiquidationQueue_def SetDepositLog_def NewDepositLog_def SetRepayment_def SetRedemption_def
  SetReferrer_def SetDLCMeta_def

section \<open>Status indexes of loans and events\<close>

lemma SetLoan_loans [simp]: "ln_loans (SetLoan l s) = kv_set (lo_VaultAddress l) l (ln_loans s)"
  by (simp add: SetLoan_def SetLoanStatus_def RemoveLoanStatus_def Let_def)

lemma SetLoan_by_status:
  "ln_by_status (SetLoan l s) =
     kv_set (lo_Status l, lo_VaultAddress l) ()
       (case kv_get (ln_loans s) (lo_VaultAddress l) of None \<Rightarrow> ln_by_status s
        | Some y \<Rightarrow> kv_del (lo_Status y, lo_VaultAddress l) (ln_by_status s))"
  by (auto simp: SetLoan_def SetLoanStatus_def RemoveLoanStatus_def Let_def HasLoan_def GetLoan_def kv_has_def
      split: option.splits)

interpretation loans: status_indexed ln_loans ln_by_status SetLoan lo_VaultAddress lo_Status
  by unfold_locales (simp_all add: SetLoan_by_status)

lemma SetEvent_events [simp]: "dl_events (SetEvent e s) = kv_set (ev_Id e) e (dl_events s)"
  by (simp add: SetEvent_def SetEventStatus_def RemoveEventStatus_def Let_def)

lemma SetEvent_status:
  "dl_event_status (SetEvent e s) =
     kv_set (ev_HasTriggered e, ev_Id e) ()
       (case kv_get (dl_events s) (ev_Id e) of None \<Rightarrow> dl_event_status s
        | Some y \<Rightarrow> kv_del (ev_HasTriggered y, ev_Id e) (dl_event_status s))"
  by (auto simp: SetEvent_def SetEventStatus_def RemoveEventStatus_def Let_def HasEvent_def GetEvent_def kv_has_def
      split: option.splits)

interpretation events: status_indexed dl_events dl_event_status SetEvent ev_Id ev_HasTriggered
  by unfold_locales (simp_all add: SetEvent_status)

section \<open>Pools\<close>

definition config_ok :: "pool_config \<Rightarrow> bool" where
  "config_ok c \<longleftrightarrow> 0 \<le> pc_ReserveFactor c \<and> pc_ReserveFactor c \<le> dec_one
   \<and> 0 \<le> pc_OriginationFeeFactor c \<and> pc_OriginationFeeFactor c \<le> dec_one
   \<and> (\<forall>t \<in> set (pc_Tranches c). 0 \<le> tc_BorrowAPR t)"

text \<open>
  What a pool keeps: the supply is what is available plus what is lent out, nothing goes below
  zero, and the denoms of the pool are those of its configuration and of its id.
\<close>

definition pool_ok :: "lending_pool \<Rightarrow> bool" where
  "pool_ok p \<longleftrightarrow> Amount (po_Supply p) = po_AvailableAmount p + po_BorrowedAmount p \<and> 0 \<le> po_AvailableAmount p
   \<and> Denom (po_Supply p) = am_Denom (pc_LendingAsset (po_Config p))
   \<and> Denom (po_TotalYTokens p) = YTokenDenom (po_Id p) \<and> 0 \<le> Amount (po_TotalYTokens p)
   \<and> 0 \<le> po_TotalBorrowed p \<and> 0 \<le> po_TotalReserve p
   \<and> (\<forall>t \<in> set (po_Tranches p). 0 \<le> pt_TotalBorrowed t \<and> 0 \<le> pt_TotalReserve t \<and> 0 \<le> pt_BorrowIndex t)
   \<and> config_ok (po_Config p)"

definition pools_ok :: "('b, 'x) lending_scheme \<Rightarrow> bool" where
  "pools_ok s \<longleftrightarrow> kv_ok (ln_pools s)
   \<and> (\<forall>i p. kv_get (ln_pools s) i = Some p \<longrightarrow> po_Id p = i \<and> pool_ok p)"

lemma HasPool_Some: "HasPool s i \<longleftrightarrow> kv_get (ln_pools s) i = Some (GetPool s i)"
  by (cases "kv_get (ln_pools s) i") (auto simp: HasPool_def kv_has_def GetPool_def)

lemma pools_okD:
  assumes "pools_ok s" "HasPool s i"
  shows "po_Id (GetPool s i) = i" "pool_ok (GetPool s i)"
  using assms by (auto simp: pools_ok_def HasPool_Some)

lemma GetPool_SetPool: "GetPool (SetPool p s) i = (if i = po_Id p then p else GetPool s i)"
  by (simp add: GetPool_def SetPool_def)

lemma HasPool_SetPool: "HasPool (SetPool p s) i \<longleftrightarrow> i = po_Id p \<or> HasPool s i"
  by (simp add: HasPool_def SetPool_def)

lemma pools_ok_SetPool: "pools_ok s \<Longrightarrow> pool_ok p \<Longrightarrow> pools_ok (SetPool p s)"
  by (auto simp: pools_ok_def SetPool_def split: if_splits)

lemma pools_ok_cong: "ln_pools s' = ln_pools s \<Longrightarrow> pools_ok s' \<longleftrightarrow> pools_ok s"
  by (simp add: pools_ok_def)

lemma ValidatePoolConfig_ok: 
  assumes "ValidatePoolConfig E c = Inr ()"
  shows "config_ok c" "valid_denom E (am_Denom (pc_LendingAsset c))"
proof -
  have tr: "check_tranches seen ts = Inr () \<Longrightarrow> \<forall>t \<in> set ts. 0 \<le> tc_BorrowAPR t" for seen ts
    by (induction ts arbitrary: seen) (auto split: if_splits)
  show "config_ok c" "valid_denom E (am_Denom (pc_LendingAsset c))"
    using assms tr [of "{}" "pc_Tranches c"]
    by (auto simp: ValidatePoolConfig_def config_ok_def validatePoolTranches_def validateAssetsMetadata_def
        validateAssetMetadata_def res_simps dec_one_def split: if_splits)
qed

lemma set_update_tranche: "t \<in> set (update_tranche m f ts) \<Longrightarrow> t \<in> set ts \<or> (\<exists>u \<in> set ts. t = f u)"
  by (induction ts) (auto split: if_splits)

lemma update_tranche_maturity:
  "(\<And>t. pt_Maturity (f t) = pt_Maturity t) \<Longrightarrow> map pt_Maturity (update_tranche m f ts) = map pt_Maturity ts"
  by (induction ts) auto

subsection \<open>Hooks\<close>

text \<open>Writing a pool back with \<open>x\<close> more available and \<open>y\<close> more lent out.\<close>

definition pool_moved :: "string \<Rightarrow> int \<Rightarrow> int \<Rightarrow> ('b, 'x) lending_scheme \<Rightarrow> ('b, 'x) lending_scheme \<Rightarrow> bool" where
  "pool_moved i x y s s' \<longleftrightarrow> (\<exists>p. s' = s\<lparr>ln_pools := kv_set i p (ln_pools s)\<rparr> \<and> po_Id p = i
     \<and> po_AvailableAmount p = po_AvailableAmount (GetPool s i) + x
     \<and> po_BorrowedAmount p = po_BorrowedAmount (GetPool s i) + y
     \<and> Denom (po_Supply p) = Denom (po_Supply (GetPool s i)) \<and> po_Config p = po_Config (GetPool s i))"

lemma pool_moved_SetPool:
  assumes "po_Id p = i" "po_AvailableAmount p = po_AvailableAmount (GetPool s i) + x"
    "po_BorrowedAmount p = po_BorrowedAmount (GetPool s i) + y"
    "Denom (po_Supply p) = Denom (po_Supply (GetPool s i))" "po_Config p = po_Config (GetPool s i)"
  shows "pool_moved i x y s (SetPool p s)"
  unfolding pool_moved_def by (rule exI [of _ p]) (use assms in \<open>simp add: SetPool_def\<close>)

lemma AfterPoolBorrowed_pool:
  assumes "pools_ok s" "HasPool s i" "0 \<le> Amount a" "Amount a \<le> po_AvailableAmount (GetPool s i)"
  shows "pools_ok (AfterPoolBorrowed i m a s)"
    and "pool_moved i (- Amount a) (Amount a) s (AfterPoolBorrowed i m a s)"
proof -
  note p = pools_okD [OF assms(1,2)]
  show "pool_moved i (- Amount a) (Amount a) s (AfterPoolBorrowed i m a s)"
    unfolding AfterPoolBorrowed_def Let_def by (rule pool_moved_SetPool) (use p(1) in simp_all)
  have tr: "0 \<le> pt_TotalBorrowed t \<and> 0 \<le> pt_TotalReserve t \<and> 0 \<le> pt_BorrowIndex t"
    if "t \<in> set (update_tranche m (\<lambda>t. t\<lparr>pt_TotalBorrowed := pt_TotalBorrowed t + Amount a\<rparr>) (po_Tranches (GetPool s i)))" for t
    using set_update_tranche [OF that] p(2) assms(3) by (auto simp: pool_ok_def)
  show "pools_ok (AfterPoolBorrowed i m a s)"
    unfolding AfterPoolBorrowed_def Let_def
    by (rule pools_ok_SetPool [OF assms(1)]) (use p(2) assms(3,4) tr in \<open>auto simp: pool_ok_def\<close>)
qed

lemma NormalizePool_simps [simp]:
  "po_Id (NormalizePool p) = po_Id p" "po_Supply (NormalizePool p) = po_Supply p"
  "po_AvailableAmount (NormalizePool p) = po_AvailableAmount p" "po_BorrowedAmount (NormalizePool p) = po_BorrowedAmount p"
  "po_TotalYTokens (NormalizePool p) = po_TotalYTokens p" "po_Config (NormalizePool p) = po_Config p"
  "po_Status (NormalizePool p) = po_Status p" "po_ReserveAmount (NormalizePool p) = po_ReserveAmount p"
  by (simp_all add: NormalizePool_def)

lemma pool_ok_NormalizePool:
  assumes "Amount (po_Supply p) = po_AvailableAmount p + po_BorrowedAmount p" "0 \<le> po_AvailableAmount p"
    "Denom (po_Supply p) = am_Denom (pc_LendingAsset (po_Config p))" "Denom (po_TotalYTokens p) = YTokenDenom (po_Id p)"
    "0 \<le> Amount (po_TotalYTokens p)" "config_ok (po_Config p)" "\<forall>t \<in> set (po_Tranches p). 0 \<le> pt_BorrowIndex t"
  shows "pool_ok (NormalizePool p)"
  using assms by (auto simp: pool_ok_def NormalizePool_def normalize_tranche_def)

lemma AfterPoolRepaid_pool:
  assumes "pools_ok s" "HasPool s i" "0 \<le> Amount a" "0 \<le> interest" "fee \<le> interest"
    and run: "AfterPoolRepaid i m a interest fee actual s = Inr s'"
  shows "pools_ok s'" and "pool_moved i (Amount a + interest - fee) (- Amount a) s s'"
proof -
  note p = pools_okD [OF assms(1,2)]
  have tr: "0 \<le> pt_BorrowIndex t"
    if "t \<in> set (update_tranche m (\<lambda>t. t\<lparr>pt_TotalBorrowed := pt_TotalBorrowed t - (Amount a + interest)\<rparr>) (po_Tranches (GetPool s i)))" for t
    using set_update_tranche [OF that] p(2) by (auto simp: pool_ok_def)
  from run obtain p' where s': "s' = SetPool (NormalizePool p') s"
    and p': "po_Id p' = i" "po_Config p' = po_Config (GetPool s i)" "Denom (po_Supply p') = Denom (po_Supply (GetPool s i))"
      "po_TotalYTokens p' = po_TotalYTokens (GetPool s i)"
      "Amount (po_Supply p') = Amount (po_Supply (GetPool s i)) + interest - fee"
      "po_AvailableAmount p' = po_AvailableAmount (GetPool s i) + Amount a + interest - fee"
      "po_BorrowedAmount p' = po_BorrowedAmount (GetPool s i) - Amount a"
      "po_Tranches p' = update_tranche m (\<lambda>t. t\<lparr>pt_TotalBorrowed := pt_TotalBorrowed t - (Amount a + interest)\<rparr>) (po_Tranches (GetPool s i))"
    unfolding AfterPoolRepaid_def Let_def using p(1) by (elim bindE) (auto simp: res_simps)
  have "pool_ok (NormalizePool p')"
    by (rule pool_ok_NormalizePool) (use p p' assms(3-5) tr in \<open>auto simp: pool_ok_def\<close>)
  then show "pools_ok s'" unfolding s' by (rule pools_ok_SetPool [OF assms(1)])
  show "pool_moved i (Amount a + interest - fee) (- Amount a) s s'" unfolding s'
    by (rule pool_moved_SetPool) (use p' in simp_all)
qed

lemma RebalancePool_pool:
  assumes "pools_ok s" "HasPool s i"
  shows "pools_ok (RebalancePool i m db dr s)" and "pool_moved i 0 0 s (RebalancePool i m db dr s)"
proof -
  note p = pools_okD [OF assms]
  have tr: "0 \<le> pt_BorrowIndex t"
    if "t \<in> set (update_tranche m (\<lambda>t. t\<lparr>pt_TotalBorrowed := pt_TotalBorrowed t - db, pt_TotalReserve := pt_TotalReserve t - dr\<rparr>)
      (po_Tranches (GetPool s i)))" for t
    using set_update_tranche [OF that] p(2) by (auto simp: pool_ok_def)
  show "pools_ok (RebalancePool i m db dr s)" unfolding RebalancePool_def Let_def
    by (rule pools_ok_SetPool [OF assms(1)], rule pool_ok_NormalizePool) (use p(2) tr in \<open>auto simp: pool_ok_def\<close>)
  show "pool_moved i 0 0 s (RebalancePool i m db dr s)" unfolding RebalancePool_def Let_def
    by (rule pool_moved_SetPool) (use p(1) in simp_all)
qed

end
