(* ===== verification/Lending_Books.thy ===== *)
theory Lending_Books
  imports Lending_Inv
begin

text \<open>
  The books of the lending protocol: what its three module accounts owe, the principal that is
  outstanding on the loans of a pool, the link between a liquidated loan and its liquidation, and how the
  writes shared by the operations change them.
\<close>

section \<open>The accounts\<close>

definition pool_holds :: "string \<Rightarrow> lending_pool \<Rightarrow> int" where
  "pool_holds d p = (if Denom (po_Supply p) = d then po_AvailableAmount p else 0)"

definition repayment_due :: "('b, 'x) lending_scheme \<Rightarrow> string \<Rightarrow> loan \<Rightarrow> int" where
  "repayment_due s d l =
     (if lo_Status l = LOAN_Repaid then coins_amount [rp_Amount (GetRepayment s (lo_VaultAddress l))] d else 0)"

definition debt_held :: "string \<Rightarrow> liquidation \<Rightarrow> int" where
  "debt_held d l = (if lq_Status l = LQ_SETTLED then 0 else coins_amount [lq_LiquidatedDebtAmount l] d)"

text \<open>What an account holds above what the books say it must hold.\<close>

definition lending_gap :: "('b, 'e) env_scheme \<Rightarrow> ('b, 'x) lending_scheme \<Rightarrow> string \<Rightarrow> int" where
  "lending_gap E s d = balance E (ch_bank s) lending_acc d - kv_sum (pool_holds d) (ln_pools s)"

definition escrow_gap :: "('b, 'e) env_scheme \<Rightarrow> ('b, 'x) lending_scheme \<Rightarrow> string \<Rightarrow> int" where
  "escrow_gap E s d = balance E (ch_bank s) escrow_acc d - kv_sum (repayment_due s d) (ln_loans s)"

definition liquidation_gap :: "('b, 'e) env_scheme \<Rightarrow> ('b, 'x) lending_scheme \<Rightarrow> string \<Rightarrow> int" where
  "liquidation_gap E s d = balance E (ch_bank s) liquidation_acc d - kv_sum (debt_held d) (li_store s)"

definition gaps_kept :: "('b, 'e) env_scheme \<Rightarrow> ('b, 'x) lending_scheme \<Rightarrow> ('b, 'x) lending_scheme \<Rightarrow> bool" where
  "gaps_kept E s s' \<longleftrightarrow> (\<forall>d. lending_gap E s' d = lending_gap E s d \<and> escrow_gap E s' d = escrow_gap E s d
     \<and> liquidation_gap E s' d = liquidation_gap E s d)"

section \<open>Outstanding principal\<close>

text \<open>
  The principal of a loan is outstanding from its disbursement. A repayment ends it; the
  settlement of a liquidation pays the interest of the debt first and the principal with the rest.
\<close>

definition recovered :: "liquidation \<Rightarrow> int \<Rightarrow> int" where
  "recovered lq b = (if lq_Status lq = LQ_SETTLED
     then max 0 (Amount (lq_LiquidatedDebtAmount lq) - (Amount (lq_DebtAmount lq) - b)) else 0)"

definition in_liquidation :: "loan \<Rightarrow> bool" where
  "in_liquidation l \<longleftrightarrow> lo_Status l = LOAN_Defaulted \<or> lo_Status l = LOAN_Liquidated"

definition outstanding :: "('b, 'x) lending_scheme \<Rightarrow> loan \<Rightarrow> int" where
  "outstanding s l =
     (if lo_Status l = LOAN_Open \<or> lo_Status l = LOAN_Repaid then Amount (lo_BorrowAmount l)
      else if in_liquidation l
      then Amount (lo_BorrowAmount l) - recovered (GetLiquidation s (lo_LiquidationId l)) (Amount (lo_BorrowAmount l))
      else 0)"

definition owed_by :: "('b, 'x) lending_scheme \<Rightarrow> string \<Rightarrow> loan \<Rightarrow> int" where
  "owed_by s i l = (if lo_PoolId l = i then outstanding s l else 0)"

definition owed :: "('b, 'x) lending_scheme \<Rightarrow> string \<Rightarrow> int" where
  "owed s i = kv_sum (owed_by s i) (ln_loans s)"

section \<open>The invariant\<close>

definition referrer_ok :: "referrer option \<Rightarrow> bool" where
  "referrer_ok r \<longleftrightarrow> (case r of None \<Rightarrow> True | Some r \<Rightarrow> rf_ReferralFeeFactor r \<le> dec_one)"

definition loan_ok :: "('b, 'x) lending_scheme \<Rightarrow> loan \<Rightarrow> bool" where
  "loan_ok s l \<longleftrightarrow> HasPool s (lo_PoolId l)
   \<and> Denom (lo_BorrowAmount l) = Denom (po_Supply (GetPool s (lo_PoolId l)))
   \<and> 0 \<le> Amount (lo_BorrowAmount l) \<and> 0 \<le> lo_OriginationFee l \<and> referrer_ok (lo_Referrer l)
   \<and> (in_liquidation l \<longrightarrow> (\<exists>lq. kv_get (li_store s) (lo_LiquidationId l) = Some lq \<and> lq_LoanId lq = lo_VaultAddress l))"

definition liq_link :: "('b, 'x) lending_scheme \<Rightarrow> liquidation \<Rightarrow> bool" where
  "liq_link s lq \<longleftrightarrow> (\<exists>l. kv_get (ln_loans s) (lq_LoanId lq) = Some l \<and> in_liquidation l
     \<and> lo_LiquidationId l = lq_Id lq \<and> Denom (lq_DebtAmount lq) = Denom (lo_BorrowAmount l)
     \<and> Amount (lo_BorrowAmount l) \<le> Amount (lq_DebtAmount lq))"

text \<open>Only a loan that has left the first status has authorizations.\<close>

definition auths_ok :: "('b, 'x) lending_scheme \<Rightarrow> bool" where
  "auths_ok s \<longleftrightarrow> (\<forall>i. kv_has (ln_auth_ids s) i \<longrightarrow>
     (\<exists>l. kv_get (ln_loans s) i = Some l \<and> lo_Status l \<noteq> LOAN_Requested))"

definition lending_inv :: "('b, 'x) lending_scheme \<Rightarrow> bool" where
  "lending_inv s \<longleftrightarrow> pools_ok s \<and> index_ok (ln_loans s) (ln_by_status s) lo_VaultAddress lo_Status \<and> liq_inv s
   \<and> (\<forall>i l. kv_get (ln_loans s) i = Some l \<longrightarrow> loan_ok s l)
   \<and> (\<forall>i lq. kv_get (li_store s) i = Some lq \<longrightarrow> liq_link s lq)
   \<and> (\<forall>i. po_BorrowedAmount (GetPool s i) = owed s i) \<and> auths_ok s
   \<and> (\<forall>k. referrer_ok (kv_get (ln_referrers s) k))"

lemma lending_invD:
  assumes "lending_inv s"
  shows "pools_ok s" "index_ok (ln_loans s) (ln_by_status s) lo_VaultAddress lo_Status" "liq_inv s"
    "kv_ok (ln_loans s)" "kv_ok (ln_pools s)" "kv_ok (li_store s)"
    "kv_get (ln_loans s) i = Some l \<Longrightarrow> loan_ok s l" "kv_get (ln_loans s) i = Some l \<Longrightarrow> lo_VaultAddress l = i"
    "kv_get (li_store s) j = Some lq \<Longrightarrow> liq_link s lq" "kv_get (li_store s) j = Some lq \<Longrightarrow> lq_Id lq = j"
    "po_BorrowedAmount (GetPool s k) = owed s k" "auths_ok s"
    "referrer_ok (kv_get (ln_referrers s) n)"
  using assms by (auto simp: lending_inv_def pools_ok_def index_ok_def liq_inv_def)

section \<open>The life of a loan\<close>

inductive loan_life :: "loan_status \<Rightarrow> loan_status \<Rightarrow> bool" where
  authorize: "loan_life LOAN_Requested LOAN_Authorized"
| cancel: "loan_life LOAN_Requested LOAN_Cancelled"
| expire: "loan_life LOAN_Requested LOAN_Rejected"
| reject: "loan_life LOAN_Authorized LOAN_Rejected"
| disburse: "loan_life LOAN_Authorized LOAN_Open"
| repay: "loan_life LOAN_Open LOAN_Repaid"
| default: "loan_life LOAN_Open LOAN_Defaulted"
| liquidate: "loan_life LOAN_Open LOAN_Liquidated"
| close: "loan_life LOAN_Repaid LOAN_Closed"

inductive_cases loan_life_fromE: "loan_life a b"

code_pred loan_life .

lemmas loan_lives = loan_life.intros [THEN r_into_rtranclp [where r = loan_life]]

text \<open>What a loan is, from its application to its end.\<close>

definition loan_terms :: "loan \<Rightarrow> string \<times> string \<times> string \<times> string \<times> coin \<times> int \<times> int \<times> int \<times> dec \<times> u64 \<times> referrer option" where
  "loan_terms l = (lo_Borrower l, lo_BorrowerPubKey l, lo_DCM l, lo_PoolId l, lo_BorrowAmount l, lo_OriginationFee l,
     lo_MaturityTime l, lo_Maturity l, lo_BorrowAPR l, lo_DlcEventId l, lo_Referrer l)"

lemma loan_terms_iff:
  "loan_terms l = loan_terms m \<longleftrightarrow> lo_Borrower l = lo_Borrower m \<and> lo_BorrowerPubKey l = lo_BorrowerPubKey m
   \<and> lo_DCM l = lo_DCM m \<and> lo_PoolId l = lo_PoolId m \<and> lo_BorrowAmount l = lo_BorrowAmount m
   \<and> lo_OriginationFee l = lo_OriginationFee m \<and> lo_MaturityTime l = lo_MaturityTime m \<and> lo_Maturity l = lo_Maturity m
   \<and> lo_BorrowAPR l = lo_BorrowAPR m \<and> lo_DlcEventId l = lo_DlcEventId m \<and> lo_Referrer l = lo_Referrer m"
  by (simp add: loan_terms_def)

definition lives_on :: "loan option \<Rightarrow> loan option \<Rightarrow> bool" where
  "lives_on a b = (case a of
       None \<Rightarrow> (case b of None \<Rightarrow> True | Some l \<Rightarrow> loan_life\<^sup>*\<^sup>* LOAN_Requested (lo_Status l))
     | Some l \<Rightarrow> (case b of None \<Rightarrow> False
         | Some m \<Rightarrow> loan_life\<^sup>*\<^sup>* (lo_Status l) (lo_Status m) \<and> loan_terms m = loan_terms l))"

definition lifecycle :: "('b, 'x) lending_scheme \<Rightarrow> ('b, 'x) lending_scheme \<Rightarrow> bool" where
  "lifecycle s s' \<longleftrightarrow> (\<forall>k. lives_on (kv_get (ln_loans s) k) (kv_get (ln_loans s') k))"

lemma lives_on_refl: "lives_on a a"
  by (simp add: lives_on_def split: option.splits)

lemma lives_on_trans: "lives_on a b \<Longrightarrow> lives_on b c \<Longrightarrow> lives_on a c"
  by (auto simp: lives_on_def split: option.splits intro: rtranclp_trans)

lemma lifecycle_refl: "ln_loans s' = ln_loans s \<Longrightarrow> lifecycle s s'"
  by (simp add: lifecycle_def lives_on_refl)

lemma lifecycle_SetLoan:
  assumes "ln_loans s' = kv_set (lo_VaultAddress l) l (ln_loans s)"
    and "lives_on (kv_get (ln_loans s) (lo_VaultAddress l)) (Some l)"
  shows "lifecycle s s'"
  using assms by (simp add: lifecycle_def lives_on_refl)

text \<open>Nothing leads back to the first status.\<close>

lemma loan_life_not_Requested: "loan_life\<^sup>*\<^sup>* a b \<Longrightarrow> b = LOAN_Requested \<Longrightarrow> a = LOAN_Requested"
  by (induction rule: rtranclp_induct) (auto elim: loan_life_fromE)

text \<open>
  What an operation promises: the invariant again, every account holds as much above its books as
  before, and every loan lives on under its terms.
\<close>

definition keeps :: "('b, 'e) env_scheme \<Rightarrow> ('b, 'x) lending_scheme \<Rightarrow> ('b, 'x) lending_scheme \<Rightarrow> bool" where
  "keeps E s s' \<longleftrightarrow> lending_inv s' \<and> gaps_kept E s s' \<and> lifecycle s s'"

lemma keeps_refl: "lending_inv s \<Longrightarrow> keeps E s s"
  by (simp add: keeps_def gaps_kept_def lifecycle_refl)

lemma keeps_trans: "keeps E s s' \<Longrightarrow> keeps E s' s'' \<Longrightarrow> keeps E s s''"
  by (auto simp: keeps_def gaps_kept_def lifecycle_def intro: lives_on_trans)

lemma keepsD: "keeps E s s' \<Longrightarrow> lending_inv s'"
  by (simp add: keeps_def)

lemma keeps_fold:
  assumes "fold_res f xs s = Inr s'" "lending_inv s"
    and step: "\<And>x s s'. x \<in> set xs \<Longrightarrow> lending_inv s \<Longrightarrow> f x s = Inr s' \<Longrightarrow> keeps E s s'"
  shows "keeps E s s'"
  using assms(1) keeps_refl [OF assms(2)]
  by (rule fold_res_invariant) (blast intro: keeps_trans step dest: keepsD)

section \<open>What the books read\<close>

text \<open>States that agree on what the invariant and the books read.\<close>

definition books_same :: "('b, 'x) lending_scheme \<Rightarrow> ('b, 'x) lending_scheme \<Rightarrow> bool" where
  "books_same s s' \<longleftrightarrow> ln_pools s' = ln_pools s \<and> ln_loans s' = ln_loans s \<and> ln_by_status s' = ln_by_status s
     \<and> ln_repayments s' = ln_repayments s \<and> ln_auth_ids s' = ln_auth_ids s \<and> ln_referrers s' = ln_referrers s \<and> li_params s' = li_params s \<and> li_id s' = li_id s
     \<and> li_record_id s' = li_record_id s \<and> li_store s' = li_store s \<and> li_by_status s' = li_by_status s
     \<and> li_records s' = li_records s \<and> li_records_by s' = li_records_by s"

lemma books_same_refl: "books_same s s"
  by (simp add: books_same_def)

lemma books_same_trans: "books_same s s' \<Longrightarrow> books_same s' s'' \<Longrightarrow> books_same s s''"
  by (simp add: books_same_def)

lemma books_same_liq: "books_same s s' \<Longrightarrow> liq_inv s' \<longleftrightarrow> liq_inv s"
  by (simp add: books_same_def liq_inv_def records_ok_def books_ok_def record_sum_def
      GetLiquidationRecordId_def GetLiquidationId_def)

lemma outstanding_cong: "li_store s' = li_store s \<Longrightarrow> outstanding s' l = outstanding s l"
  by (simp add: outstanding_def GetLiquidation_def)

lemma owed_cong: "li_store s' = li_store s \<Longrightarrow> ln_loans s' = ln_loans s \<Longrightarrow> owed s' i = owed s i"
proof -
  assume eq: "li_store s' = li_store s" "ln_loans s' = ln_loans s"
  have "owed_by s' i = owed_by s i" by (rule ext) (simp add: owed_by_def outstanding_cong [OF eq(1)])
  then show "owed s' i = owed s i" by (simp add: owed_def eq)
qed

lemma loan_ok_cong:
  assumes "li_store s' = li_store s" "ln_pools s' = ln_pools s"
  shows "loan_ok s' l = loan_ok s l"
  using assms by (simp add: loan_ok_def HasPool_def GetPool_def)

lemma books_same_inv: "books_same s s' \<Longrightarrow> lending_inv s' \<longleftrightarrow> lending_inv s"
proof -
  assume same: "books_same s s'"
  then have eq: "ln_pools s' = ln_pools s" "ln_loans s' = ln_loans s" "ln_by_status s' = ln_by_status s" "li_store s' = li_store s"
    "ln_auth_ids s' = ln_auth_ids s" "ln_referrers s' = ln_referrers s"
    by (simp_all add: books_same_def)
  have "liq_link s' = liq_link s" "GetPool s' = GetPool s" by (auto simp: liq_link_def eq GetPool_def)
  then show "lending_inv s' \<longleftrightarrow> lending_inv s"
    unfolding lending_inv_def eq books_same_liq [OF same] pools_ok_cong [OF eq(1)]
      loan_ok_cong [OF eq(4,1)] owed_cong [OF eq(4,2)] auths_ok_def by simp
qed

text \<open>A write elsewhere, with payments that leave the module accounts alone.\<close>

lemma keeps_same:
  assumes "lending_inv s" "books_same s s'"
    and "\<And>m d. balance E (ch_bank s') (ModuleAcc m) d = balance E (ch_bank s) (ModuleAcc m) d"
  shows "keeps E s s'"
proof -
  have "repayment_due s' = repayment_due s"
    using assms(2) by (intro ext) (simp add: repayment_due_def GetRepayment_def books_same_def)
  then show ?thesis
    using assms books_same_inv [OF assms(2)]
    by (simp add: keeps_def gaps_kept_def lending_gap_def escrow_gap_def liquidation_gap_def books_same_def lifecycle_refl)
qed

section \<open>One loan is written\<close>

lemma kv_sum_cong:
  assumes "kv_ok m" "\<And>k v. kv_get m k = Some v \<Longrightarrow> f v = g v"
  shows "kv_sum f m = kv_sum g m"
proof -
  have "f (snd p) = g (snd p)" if "p \<in> set m" for p
    using assms(2) [of "fst p" "snd p"] that kv_ok_distinct [OF assms(1)]
    by (cases p) (auto simp: kv_get_def kv_keys_def)
  then show ?thesis unfolding kv_sum_def by (metis (mono_tags, lifting) map_cong)
qed

lemma kv_sum_set_other:
  assumes ok: "kv_ok m" and eq: "\<And>k v. kv_get m k = Some v \<Longrightarrow> k \<noteq> i \<Longrightarrow> g v = f v"
  shows "kv_sum g (kv_set i x m) = kv_sum f m - (case kv_get m i of None \<Rightarrow> 0 | Some w \<Rightarrow> f w) + g x"
proof -
  have del: "kv_sum h m = kv_sum h (kv_del i m) + (case kv_get m i of None \<Rightarrow> 0 | Some w \<Rightarrow> h w)" for h
    using ok
  proof (induction m)
    case Nil
    then show ?case by (simp add: kv_del_def)
  next
    case (Cons p m)
    obtain k v where p: "p = (k, v)" by fastforce
    have okm: "kv_ok m" using Cons.prems by (simp add: kv_ok_def kv_keys_def)
    have "kv_get m k = None" using Cons.prems p kv_ok_Cons_absent [of k v m k] by simp
    then show ?case using Cons.IH [OF okm] p by (auto simp: kv_sum_def kv_del_def kv_get_Cons)
  qed
  have "kv_sum g (kv_del i m) = kv_sum f (kv_del i m)"
    by (rule kv_sum_cong [OF kv_ok_del [OF ok]]) (use eq in \<open>auto split: if_splits\<close>)
  then show ?thesis using del [of g] del [of f] kv_sum_set [OF ok, of g i x] by simp
qed

text \<open>What the loan contributed before and contributes now, when nothing changes for the others.\<close>

lemma owed_SetLoan:
  assumes "kv_ok (ln_loans s)" "ln_loans s' = kv_set (lo_VaultAddress l) l (ln_loans s)"
    and "\<And>k m. kv_get (ln_loans s) k = Some m \<Longrightarrow> k \<noteq> lo_VaultAddress l \<Longrightarrow> outstanding s' m = outstanding s m"
  shows "owed s' i = owed s i
    - (case kv_get (ln_loans s) (lo_VaultAddress l) of None \<Rightarrow> 0 | Some m \<Rightarrow> owed_by s i m) + owed_by s' i l"
  unfolding owed_def assms(2) by (rule kv_sum_set_other [OF assms(1)]) (use assms(3) in \<open>auto simp: owed_by_def\<close>)

lemma due_SetLoan:
  assumes "kv_ok (ln_loans s)" "ln_loans s' = kv_set (lo_VaultAddress l) l (ln_loans s)"
    and "\<And>k m. kv_get (ln_loans s) k = Some m \<Longrightarrow> lo_VaultAddress m = k"
    and "\<And>k. k \<noteq> lo_VaultAddress l \<Longrightarrow> GetRepayment s' k = GetRepayment s k"
  shows "kv_sum (repayment_due s' d) (ln_loans s') = kv_sum (repayment_due s d) (ln_loans s)
    - (case kv_get (ln_loans s) (lo_VaultAddress l) of None \<Rightarrow> 0 | Some m \<Rightarrow> repayment_due s d m) + repayment_due s' d l"
  unfolding assms(2) by (rule kv_sum_set_other [OF assms(1)]) (use assms(3,4) in \<open>auto simp: repayment_due_def\<close>)

text \<open>A pool is written back with \<open>x\<close> more available and \<open>y\<close> more lent out.\<close>

lemma pool_movedD:
  assumes "pool_moved i x y s s'" "HasPool s i" "kv_ok (ln_pools s)"
  shows "HasPool s' = HasPool s" "Denom (po_Supply (GetPool s' j)) = Denom (po_Supply (GetPool s j))"
    "po_Config (GetPool s' j) = po_Config (GetPool s j)"
    "po_BorrowedAmount (GetPool s' j) = po_BorrowedAmount (GetPool s j) + (if j = i then y else 0)"
    "kv_sum (pool_holds d) (ln_pools s') = kv_sum (pool_holds d) (ln_pools s)
       + (if Denom (po_Supply (GetPool s i)) = d then x else 0)"
    "\<exists>ps. s' = s\<lparr>ln_pools := ps\<rparr>"
  using assms by (auto simp: pool_moved_def HasPool_def GetPool_def fun_eq_iff kv_has_def kv_sum_set pool_holds_def split: if_splits)

lemma kv_set_set: "kv_set k w (kv_set k v m) = kv_set k w m"
  by (induction m) auto

lemma pool_moved_trans:
  assumes "pool_moved i x y s t" "pool_moved i x' y' t u"
  shows "pool_moved i (x + x') (y + y') s u"
  using assms by (auto simp: pool_moved_def GetPool_def kv_set_set)

lemma held_SetLiquidation:
  assumes "kv_ok (li_store s)" "kv_get (li_store s) (lq_Id l) = Some l0" "li_store s' = kv_set (lq_Id l) l (li_store s)"
  shows "kv_sum (debt_held d) (li_store s') = kv_sum (debt_held d) (li_store s) - debt_held d l0 + debt_held d l"
  unfolding assms(3) kv_sum_set [OF assms(1)] assms(2) by simp

end
