(* ===== verification/Lending_Ops.thy ===== *)
theory Lending_Ops
  imports Lending_Books
begin

text \<open>
  Every operation on pools and loans keeps the invariant and the books: borrowing, repaying and the
  writes of a loan.
\<close>

section \<open>Payments\<close>

lemma pay_module:
  assumes "bank_ok E" "pay E from addr c b = Inr b'"
  shows "balance E b' (ModuleAcc m) d = balance E b (ModuleAcc m) d
    - (if ModuleAcc m = from \<and> Denom c = d then Amount c else 0)"
  using assms(2) by (auto simp: pay_def bank_send [OF assms(1)] split: if_splits)

lemma pay_if_module:
  assumes "bank_ok E" "pay_if E from addr c b = Inr b'" "0 \<le> Amount c"
  shows "balance E b' (ModuleAcc m) d = balance E b (ModuleAcc m) d
    - (if ModuleAcc m = from \<and> Denom c = d then Amount c else 0)"
  using assms(2,3) by (auto simp: pay_if_def pay_module [OF assms(1)] split: if_splits)

lemma referral_cut_nonneg:
  assumes "dec_ok E" "HasReferralFee l" "0 \<le> fee"
  shows "0 \<le> referral_cut E l fee"
  using assms(2,3)
  by (auto simp: HasReferralFee_def referral_cut_def truncate_mul_bounds [OF assms(1)] pos_imp_zdiv_nonneg_iff split: option.splits)

section \<open>Writing a loan\<close>

definition pending :: "loan \<Rightarrow> bool" where
  "pending l \<longleftrightarrow> lo_Status l < LOAN_Open"

lemma not_disbursed:
  assumes "pending l"
  shows "outstanding s l = 0" "\<not> in_liquidation l" "lo_Status l \<noteq> LOAN_Repaid" "lo_Status l \<noteq> LOAN_Open"
  using assms by (auto simp: pending_def outstanding_def in_liquidation_def less_loan_status_def)

lemma lending_inv_SetLoanI:
  assumes "index_ok (ln_loans t) (ln_by_status t) lo_VaultAddress lo_Status" "pools_ok t" "liq_inv t" "loan_ok t l"
    and "\<And>k m. kv_get (ln_loans t) k = Some m \<Longrightarrow> k \<noteq> lo_VaultAddress l \<Longrightarrow> loan_ok t m"
    and "\<And>j lq. kv_get (li_store t) j = Some lq \<Longrightarrow> liq_link (SetLoan l t) lq"
    and "\<And>i. po_BorrowedAmount (GetPool t i) = owed (SetLoan l t) i" and "auths_ok (SetLoan l t)"
    and "\<And>k. referrer_ok (kv_get (ln_referrers t) k)"
  shows "lending_inv (SetLoan l t)"
proof -
  have idx: "index_ok (ln_loans (SetLoan l t)) (ln_by_status (SetLoan l t)) lo_VaultAddress lo_Status"
    by (rule loans.put_index_ok [OF assms(1)])
  have liq: "liq_inv (SetLoan l t)"
    using assms(3) by (simp add: liq_inv_def records_ok_def books_ok_def record_sum_def GetLiquidationRecordId_def
        GetLiquidationId_def SetLoan_def SetLoanStatus_def RemoveLoanStatus_def Let_def)
  have ok: "loan_ok (SetLoan l t) m = loan_ok t m" for m
    by (rule loan_ok_cong) (simp_all add: SetLoan_def SetLoanStatus_def RemoveLoanStatus_def Let_def)
  have "pools_ok (SetLoan l t)" "GetPool (SetLoan l t) = GetPool t"
    using assms(2) by (simp_all add: pools_ok_def fun_eq_iff GetPool_def)
  then show ?thesis
    using idx liq assms(4-) unfolding lending_inv_def ok by (auto simp: SetLoan_def SetLoanStatus_def RemoveLoanStatus_def Let_def)
qed

lemma SetLoan_li [simp]: "li_store (SetLoan l s) = li_store s" "li_by_status (SetLoan l s) = li_by_status s"
  by (simp_all add: SetLoan_def SetLoanStatus_def RemoveLoanStatus_def Let_def)

lemma GetRepayment_SetLoan [simp]: "GetRepayment (SetLoan l s) = GetRepayment s"
  by (rule ext) (simp add: GetRepayment_def)

lemma repayment_due_SetLoan [simp]: "repayment_due (SetLoan l s) d m = repayment_due s d m"
  by (simp add: repayment_due_def)

lemma outstanding_SetLoan [simp]: "outstanding (SetLoan l s) m = outstanding s m"
  by (rule outstanding_cong) simp

lemma auths_ok_SetLoan:
  assumes "auths_ok s" "kv_get (ln_loans s) (lo_VaultAddress l) = Some l0" "loan_life\<^sup>*\<^sup>* (lo_Status l0) (lo_Status l)"
    "ln_loans t = ln_loans s" "ln_auth_ids t = ln_auth_ids s"
  shows "auths_ok (SetLoan l t)"
  using assms loan_life_not_Requested [OF assms(3)] by (auto simp: auths_ok_def)

text \<open>A link is read from one loan.\<close>

lemma liq_link_SetLoan:
  assumes "liq_link s lq" "kv_get (ln_loans s) (lo_VaultAddress l) = Some l0" "ln_loans t = ln_loans s"
    "in_liquidation l0 \<Longrightarrow> in_liquidation l \<and> lo_LiquidationId l = lo_LiquidationId l0 \<and> lo_BorrowAmount l = lo_BorrowAmount l0"
  shows "liq_link (SetLoan l t) lq"
  using assms by (auto simp: liq_link_def)

lemma keeps_SetLoan:
  assumes inv: "lending_inv s" and old: "kv_get (ln_loans s) (lo_VaultAddress l) = Some l0"
    and terms: "loan_terms l = loan_terms l0" "lo_LiquidationId l = lo_LiquidationId l0"
    and st: "lo_Status l = lo_Status l0 \<or> pending l \<and> pending l0" and life: "loan_life\<^sup>*\<^sup>* (lo_Status l0) (lo_Status l)"
  shows "keeps E s (SetLoan l s)"
proof -
  note I = lending_invD [OF inv] and same = terms(1) [unfolded loan_terms_iff] terms(2)
  have liq: "in_liquidation l \<longleftrightarrow> in_liquidation l0"
    using st not_disbursed(2) [of l] not_disbursed(2) [of l0] by (auto simp: in_liquidation_def)
  have out: "outstanding s l = outstanding s l0"
    using st not_disbursed(1) [of l s] not_disbursed(1) [of l0 s] same by (auto simp: outstanding_def in_liquidation_def)
  have due: "repayment_due s d l = repayment_due s d l0" for d
    using st not_disbursed(3) [of l] not_disbursed(3) [of l0] I(8) [OF old] by (auto simp: repayment_due_def)
  have owed: "owed (SetLoan l s) i = owed s i" for i
    by (subst owed_SetLoan [OF I(4) SetLoan_loans]) (use old out same in \<open>auto simp: owed_by_def\<close>)
  have "loan_ok s l" using I(7) [OF old] same liq I(8) [OF old] by (simp add: loan_ok_def)
  then have "lending_inv (SetLoan l s)"
    using I(1-3) I(7) I(11) I(13) liq_link_SetLoan [OF I(9) old refl] liq same auths_ok_SetLoan [OF I(12) old life refl refl]
    by (intro lending_inv_SetLoanI) (auto simp: owed)
  moreover have "lifecycle s (SetLoan l s)"
    by (rule lifecycle_SetLoan [OF SetLoan_loans]) (use old life terms in \<open>simp add: lives_on_def\<close>)
  moreover have "kv_sum (repayment_due (SetLoan l s) d) (ln_loans (SetLoan l s)) = kv_sum (repayment_due s d) (ln_loans s)" for d
    by (subst due_SetLoan [OF I(4) SetLoan_loans]) (use I(8) old due in simp_all)
  ultimately show ?thesis by (simp add: keeps_def gaps_kept_def lending_gap_def escrow_gap_def liquidation_gap_def)
qed

section \<open>Disbursing a loan\<close>

lemma someE: "(case m of None \<Rightarrow> Inl e | Some x \<Rightarrow> f x) = Inr y \<Longrightarrow> (\<And>x. m = Some x \<Longrightarrow> f x = Inr y \<Longrightarrow> P) \<Longrightarrow> P"
  by (auto split: option.splits)

lemma wrap_err_Inr [res_simps]: "wrap_err e m = Inr x \<longleftrightarrow> m = Inr x"
  by (auto simp: wrap_err_def split: sum.splits error.splits)

text \<open>The origination fee is split between the collector and the referrer: together it leaves the module account.\<close>

lemma handleOriginationFee_bank:
  assumes "bank_ok E" "dec_ok E" "0 \<le> lo_OriginationFee l" "handleOriginationFee E l s = Inr s'"
  shows "\<exists>b. s' = s\<lparr>ch_bank := b\<rparr> \<and> (\<forall>m d. balance E b (ModuleAcc m) d = balance E (ch_bank s) (ModuleAcc m) d
    - (if m = ''lending'' \<and> Denom (lo_BorrowAmount l) = d then lo_OriginationFee l else 0))"
  using assms(4) [unfolded handleOriginationFee_def]
proof (elim peel, goal_cases)
  case (1 fee ref fr fee' ref' b b')
  have split: "Denom fee' = Denom (lo_BorrowAmount l)" "Denom ref' = Denom (lo_BorrowAmount l)" "0 \<le> Amount fee'" "0 \<le> Amount ref'"
    "Amount fee' + Amount ref' = lo_OriginationFee l"
    using 1(1-4) referral_cut_nonneg [OF assms(2) _ assms(3)] assms(3) by (auto simp: res_simps Let_def split: if_splits)
  show ?case
    using 1(7) split pay_if_module [OF assms(1) 1(5)] pay_if_module [OF assms(1) 1(6)]
    by (intro exI [of _ b']) auto
qed

lemma approve_Inr:
  assumes "bank_ok E" "dec_ok E" "0 \<le> lo_OriginationFee l" "approve E now l s = Inr s'"
  obtains l' b where "po_Status (GetPool s (lo_PoolId l)) = ACTIVE"
    "Amount (lo_BorrowAmount l) \<le> po_AvailableAmount (GetPool s (lo_PoolId l))"
    "s' = SetLoan l' (AfterPoolBorrowed (lo_PoolId l) (lo_Maturity l) (lo_BorrowAmount l) (s\<lparr>ch_bank := b\<rparr>))"
    "\<exists>i a p. l' = l\<lparr>lo_StartBorrowIndex := i, lo_Interest := a, lo_ProtocolFee := p, lo_DisburseAt := now, lo_Status := LOAN_Open\<rparr>"
    "\<And>m d. balance E b (ModuleAcc m) d = balance E (ch_bank s) (ModuleAcc m) d
       - (if m = ''lending'' \<and> Denom (lo_BorrowAmount l) = d then Amount (lo_BorrowAmount l) else 0)"
  using assms(4) [unfolded approve_def Let_def]
proof (elim peel someE, goal_cases)
  case (1 amount b s1 t interest)
  have amount: "Denom amount = Denom (lo_BorrowAmount l)" "Amount amount = Amount (lo_BorrowAmount l) - lo_OriginationFee l"
    using 1(4) by (auto simp: res_simps)
  have b: "balance E b (ModuleAcc m) d = balance E (ch_bank s) (ModuleAcc m) d
      - (if m = ''lending'' \<and> Denom amount = d then Amount amount else 0)" for m d
    using pay_module [OF assms(1)] 1(5) by (auto simp: wrap_err_Inr)
  obtain b1 where b1: "s1 = s\<lparr>ch_bank := b1\<rparr>"
    "\<And>m d. balance E b1 (ModuleAcc m) d = balance E b (ModuleAcc m) d
      - (if m = ''lending'' \<and> Denom (lo_BorrowAmount l) = d then lo_OriginationFee l else 0)"
  proof (cases "0 < lo_OriginationFee l")
    case True
    then have "handleOriginationFee E l (s\<lparr>ch_bank := b\<rparr>) = Inr s1" using 1(6) by (simp add: wrap_err_Inr)
    from handleOriginationFee_bank [OF assms(1-3) this] show ?thesis by (auto intro: that)
  next
    case False
    then show ?thesis using 1(6) assms(3) by (intro that [of b]) auto
  qed
  show ?case
    by (rule 1(1) [of _ b1]) (use 1 b b1 amount in auto)
qed

text \<open>Reading a loan is unchanged by a write to the pools.\<close>

lemma loan_ok_pool_moved:
  assumes "pool_moved i x y s t" "HasPool s i" "kv_ok (ln_pools s)" "loan_ok s l"
  shows "loan_ok t l"
  using assms(4) pool_movedD(1,2,6) [OF assms(1-3)] by (auto simp: loan_ok_def)

text \<open>
  One loan changes together with its pool, its repayment and the balances: \<open>t\<close> is the state with the new
  balances, \<open>l\<close> the new version of \<open>l0\<close>.
\<close>

lemma keeps_loan_change:
  assumes inv: "lending_inv s" and old: "kv_get (ln_loans s) (lo_VaultAddress l) = Some l0"
    and terms: "loan_terms l = loan_terms l0" and life: "loan_life\<^sup>*\<^sup>* (lo_Status l0) (lo_Status l)"
    and notliq: "\<not> in_liquidation l0" "\<not> in_liquidation l"
    and t: "t = s\<lparr>ch_bank := b, ln_pools := ps, ln_repayments := rs\<rparr>" and pools: "pools_ok t"
    and pool: "HasPool t = HasPool s" "\<And>j. Denom (po_Supply (GetPool t j)) = Denom (po_Supply (GetPool s j))"
      "\<And>j. po_BorrowedAmount (GetPool t j) = po_BorrowedAmount (GetPool s j) + (if j = lo_PoolId l then y else 0)"
    and y: "y = outstanding s l - outstanding s l0"
    and reps: "\<And>k. k \<noteq> lo_VaultAddress l \<Longrightarrow> kv_get rs k = kv_get (ln_repayments s) k"
    and bal: "\<And>d. balance E b lending_acc d - balance E (ch_bank s) lending_acc d
        = kv_sum (pool_holds d) ps - kv_sum (pool_holds d) (ln_pools s)"
      "\<And>d. balance E b escrow_acc d = balance E (ch_bank s) escrow_acc d + repayment_due t d l - repayment_due s d l0"
      "\<And>d. balance E b liquidation_acc d = balance E (ch_bank s) liquidation_acc d"
  shows "keeps E s (SetLoan l t)"
proof -
  note I = lending_invD [OF inv] and same = terms [unfolded loan_terms_iff]
  have out: "outstanding t m = outstanding s m" for m by (rule outstanding_cong) (simp add: t)
  have ok: "loan_ok t m" if "loan_ok s m" for m using that pool(1,2) by (simp add: loan_ok_def t)
  have "loan_ok s l" using I(7) [OF old] same notliq by (simp add: loan_ok_def)
  have owed: "owed (SetLoan l t) i = owed s i + (if i = lo_PoolId l then y else 0)" for i
    by (subst owed_SetLoan [where s = s, OF I(4)]) (use old y same in \<open>auto simp: owed_by_def t out [unfolded t]\<close>)
  have bor: "po_BorrowedAmount (GetPool t i) = owed (SetLoan l t) i" for i
    unfolding owed pool(3) using I(11) [of i] by simp
  have liq: "liq_inv t" using I(3)
    by (simp add: t liq_inv_def records_ok_def books_ok_def record_sum_def GetLiquidationRecordId_def GetLiquidationId_def)
  have "lending_inv (SetLoan l t)"
  proof (rule lending_inv_SetLoanI)
    show "liq_link (SetLoan l t) lq" if "kv_get (li_store t) j = Some lq" for j lq
      by (rule liq_link_SetLoan [OF I(9) old]) (use that notliq in \<open>auto simp: t\<close>)
    show "auths_ok (SetLoan l t)" by (rule auths_ok_SetLoan [OF I(12) old life]) (simp_all add: t)
  qed (use I(2,7,13) pools liq bor ok [OF \<open>loan_ok s l\<close>] ok in \<open>auto simp: t\<close>)
  moreover have "lifecycle s (SetLoan l t)"
    by (rule lifecycle_SetLoan [where l = l]) (use old life terms in \<open>simp_all add: lives_on_def t\<close>)
  moreover have "kv_sum (repayment_due (SetLoan l t) d) (ln_loans (SetLoan l t)) = kv_sum (repayment_due s d) (ln_loans s)
      + repayment_due t d l - repayment_due s d l0" for d
    by (subst due_SetLoan [where s = s, OF I(4)]) (use I(8) old reps in \<open>auto simp: t GetRepayment_def repayment_due_def\<close>)
  moreover have "balance E b lending_acc d = balance E (ch_bank s) lending_acc d
      + kv_sum (pool_holds d) ps - kv_sum (pool_holds d) (ln_pools s)" for d using bal(1) [of d] by linarith
  ultimately show ?thesis
    unfolding keeps_def gaps_kept_def lending_gap_def escrow_gap_def liquidation_gap_def by (simp add: t bal(2,3) [unfolded t])
qed

lemma keeps_loan_pool:
  assumes inv: "lending_inv s" and old: "kv_get (ln_loans s) (lo_VaultAddress l) = Some l0"
    and terms: "loan_terms l = loan_terms l0" and life: "loan_life\<^sup>*\<^sup>* (lo_Status l0) (lo_Status l)"
    and notliq: "\<not> in_liquidation l0" "\<not> in_liquidation l"
    and moved: "pool_moved (lo_PoolId l) x y (s\<lparr>ch_bank := b\<rparr>) t" "pools_ok t"
    and y: "y = outstanding s l - outstanding s l0"
    and bal: "\<And>d. balance E b lending_acc d = balance E (ch_bank s) lending_acc d + (if Denom (lo_BorrowAmount l) = d then x else 0)"
      "\<And>d. balance E b escrow_acc d = balance E (ch_bank s) escrow_acc d + repayment_due s d l - repayment_due s d l0"
      "\<And>d. balance E b liquidation_acc d = balance E (ch_bank s) liquidation_acc d"
  shows "keeps E s (SetLoan l t)"
proof -
  note I = lending_invD [OF inv] and same = terms [unfolded loan_terms_iff]
  let ?s = "s\<lparr>ch_bank := b\<rparr>"
  have pool: "HasPool ?s (lo_PoolId l)" "kv_ok (ln_pools ?s)" and den: "Denom (lo_BorrowAmount l) = Denom (po_Supply (GetPool s (lo_PoolId l)))"
    using I(7) [OF old] same I(5) by (auto simp: loan_ok_def HasPool_def)
  note P = pool_movedD [OF moved(1) pool]
  obtain ps where t: "t = s\<lparr>ch_bank := b, ln_pools := ps, ln_repayments := ln_repayments s\<rparr>" using P(6) by auto
  have "HasPool t = HasPool s" "GetPool ?s = GetPool s" using P(1) by (auto simp: HasPool_def GetPool_def fun_eq_iff)
  moreover have "repayment_due t d l = repayment_due s d l" for d by (simp add: t repayment_due_def GetRepayment_def)
  moreover have "kv_sum (pool_holds d) ps = kv_sum (pool_holds d) (ln_pools s) + (if Denom (lo_BorrowAmount l) = d then x else 0)" for d
    using P(5) [of d] den by (simp add: t GetPool_def)
  ultimately show ?thesis
    by (intro keeps_loan_change [OF inv old terms life notliq t moved(2) _ _ _ y]) (use P(2,4) bal in simp_all)
qed

lemma approve_keeps:
  assumes "bank_ok E" "dec_ok E" "lending_inv s" "kv_get (ln_loans s) (lo_VaultAddress l) = Some l" "lo_Status l = LOAN_Authorized"
    "approve E now l s = Inr s'"
  shows "keeps E s s'" "\<exists>m. ln_loans s' = kv_set (lo_VaultAddress l) m (ln_loans s) \<and> lo_Status m = LOAN_Open"
    "li_id s' = li_id s"
proof -
  have ok: "loan_ok s l" "pools_ok s" using lending_invD(1,7) [OF assms(3)] assms(4) by auto
  then have fee: "0 \<le> lo_OriginationFee l" by (simp add: loan_ok_def)
  obtain l' b where act: "po_Status (GetPool s (lo_PoolId l)) = ACTIVE" and A: "Amount (lo_BorrowAmount l) \<le> po_AvailableAmount (GetPool s (lo_PoolId l))"
    "s' = SetLoan l' (AfterPoolBorrowed (lo_PoolId l) (lo_Maturity l) (lo_BorrowAmount l) (s\<lparr>ch_bank := b\<rparr>))"
    "\<exists>i a p. l' = l\<lparr>lo_StartBorrowIndex := i, lo_Interest := a, lo_ProtocolFee := p, lo_DisburseAt := now, lo_Status := LOAN_Open\<rparr>"
    "\<And>m d. balance E b (ModuleAcc m) d = balance E (ch_bank s) (ModuleAcc m) d
       - (if m = ''lending'' \<and> Denom (lo_BorrowAmount l) = d then Amount (lo_BorrowAmount l) else 0)"
    by (rule approve_Inr [OF assms(1,2) fee assms(6)]) (rule that)
  have l': "lo_VaultAddress l' = lo_VaultAddress l" "loan_terms l' = loan_terms l" "lo_Status l' = LOAN_Open"
    using A(3) by (auto simp: loan_terms_iff)
  have pre: "pools_ok (s\<lparr>ch_bank := b\<rparr>)" "HasPool (s\<lparr>ch_bank := b\<rparr>) (lo_PoolId l)" "0 \<le> Amount (lo_BorrowAmount l)"
    "Amount (lo_BorrowAmount l) \<le> po_AvailableAmount (GetPool (s\<lparr>ch_bank := b\<rparr>) (lo_PoolId l))"
    using ok A(1) by (simp_all add: pools_ok_def loan_ok_def HasPool_def GetPool_def)
  show "keeps E s s'"
    unfolding A(2)
    by (rule keeps_loan_pool [OF assms(3), where ?l0.0 = l and b = b and x = "- Amount (lo_BorrowAmount l)",
          OF _ _ _ _ _ _ AfterPoolBorrowed_pool(1) [OF pre]])
      (use assms(4,5) l' AfterPoolBorrowed_pool(2) [OF pre] A(4) in
        \<open>auto simp: in_liquidation_def outstanding_def repayment_due_def loan_terms_iff intro: loan_lives\<close>)
  show "\<exists>m. ln_loans s' = kv_set (lo_VaultAddress l) m (ln_loans s) \<and> lo_Status m = LOAN_Open" "li_id s' = li_id s"
    using l' by (auto simp add: A(2) AfterPoolBorrowed_def SetPool_def Let_def)
qed

section \<open>Walking over loans\<close>

text \<open>A handler of one loan leaves the other loans alone and opens at most \<open>k\<close> liquidations.\<close>

definition handles :: "('b, 'e) env_scheme \<Rightarrow> nat \<Rightarrow> string \<Rightarrow> ('b, 'x) lending_scheme \<Rightarrow> ('b, 'x) lending_scheme \<Rightarrow> bool" where
  "handles E k v s s' \<longleftrightarrow> keeps E s s' \<and> (\<forall>j. j \<noteq> v \<longrightarrow> kv_get (ln_loans s') j = kv_get (ln_loans s) j)
     \<and> unat (GetLiquidationId s') \<le> unat (GetLiquidationId s) + k"

lemma handles_refl: "lending_inv s \<Longrightarrow> handles E k v s s"
  by (simp add: handles_def keeps_refl)

lemma handles_trans: "handles E 0 v s s' \<Longrightarrow> handles E k v s' s'' \<Longrightarrow> handles E k v s s''"
  by (auto simp: handles_def intro: keeps_trans)

lemma handles_dom: "handles E k v s s' \<Longrightarrow> kv_has (ln_loans s) v \<Longrightarrow> kv_has (ln_loans s') j \<longleftrightarrow> kv_has (ln_loans s) j"
  by (cases "j = v") (auto simp: handles_def keeps_def lifecycle_def lives_on_def kv_has_def split: option.splits dest: spec [where x = v])

text \<open>A walk over loans adds no loan and opens at most \<open>n\<close> liquidations.\<close>

definition walks :: "('b, 'e) env_scheme \<Rightarrow> nat \<Rightarrow> ('b, 'x) lending_scheme \<Rightarrow> ('b, 'x) lending_scheme \<Rightarrow> bool" where
  "walks E n s s' \<longleftrightarrow> keeps E s s' \<and> (\<forall>j. kv_has (ln_loans s') j \<longleftrightarrow> kv_has (ln_loans s) j)
     \<and> unat (GetLiquidationId s') \<le> unat (GetLiquidationId s) + n"

lemma walks_keeps: "walks E n s s' \<Longrightarrow> keeps E s s'"
  by (simp add: walks_def)

lemma walks_trans: "walks E 0 s s' \<Longrightarrow> walks E n s' s'' \<Longrightarrow> walks E n s s''"
  by (auto simp: walks_def intro: keeps_trans)

lemma iterate_keeps:
  assumes run: "fold_res (\<lambda>i s. cb (GetLoan s i) s) js s = Inr s'" and inv: "lending_inv s" and dist: "distinct js"
    and st: "\<And>i. i \<in> set js \<Longrightarrow> \<exists>l. kv_get (ln_loans s) i = Some l \<and> lo_Status l = st"
    and room: "unat (GetLiquidationId s) + k * length js < 2 ^ 64"
    and step: "\<And>l t t'. lending_inv t \<Longrightarrow> kv_get (ln_loans t) (lo_VaultAddress l) = Some l \<Longrightarrow> lo_Status l = st \<Longrightarrow>
      unat (GetLiquidationId t) + k < 2 ^ 64 \<Longrightarrow> cb l t = Inr t' \<Longrightarrow> handles E k (lo_VaultAddress l) t t'"
  shows "walks E (k * length js) s s'"
  using assms(1-5)
proof (induction js arbitrary: s)
  case Nil
  then show ?case by (simp add: walks_def keeps_refl)
next
  case (Cons i js)
  from Cons.prems(1) obtain t where t: "cb (GetLoan s i) s = Inr t" "fold_res (\<lambda>i s. cb (GetLoan s i) s) js t = Inr s'"
    by (auto simp: bind_res_eq_Inr)
  obtain l where l: "kv_get (ln_loans s) i = Some l" "lo_Status l = st" using Cons.prems(4) by auto
  then have i: "GetLoan s i = l" "lo_VaultAddress l = i" using lending_invD(8) [OF Cons.prems(2)] by (simp_all add: GetLoan_def)
  have h: "handles E k i s t"
    using step [OF Cons.prems(2), of l t] l i t(1) Cons.prems(5) by simp
  have "walks E (k * length js) t s'"
  proof (rule Cons.IH [OF t(2)])
    show "lending_inv t" using h by (simp add: handles_def keeps_def)
    show "distinct js" using Cons.prems(3) by simp
    show "\<exists>l. kv_get (ln_loans t) j = Some l \<and> lo_Status l = st" if "j \<in> set js" for j
      using Cons.prems(3) Cons.prems(4) [of j] that h by (auto simp: handles_def)
    show "unat (GetLiquidationId t) + k * length js < 2 ^ 64"
      using Cons.prems(5) h by (simp add: handles_def)
  qed
  then show ?case using h handles_dom [OF h] l(1) by (auto simp: walks_def handles_def kv_has_def intro: keeps_trans)
qed

lemma IterateLoansByStatus_keeps:
  assumes "IterateLoansByStatus st cb s = Inr s'" "lending_inv s"
    and "unat (GetLiquidationId s) + k * length (ids_with st (ln_by_status s)) < 2 ^ 64"
    and "\<And>l t t'. lending_inv t \<Longrightarrow> kv_get (ln_loans t) (lo_VaultAddress l) = Some l \<Longrightarrow> lo_Status l = st \<Longrightarrow>
      unat (GetLiquidationId t) + k < 2 ^ 64 \<Longrightarrow> cb l t = Inr t' \<Longrightarrow> handles E k (lo_VaultAddress l) t t'"
  shows "walks E (k * length (ids_with st (ln_by_status s))) s s'"
proof (rule iterate_keeps [OF assms(1) [unfolded IterateLoansByStatus_def] assms(2) _ _ assms(3,4)])
  note idx = lending_invD(2) [OF assms(2)]
  show "distinct (ids_with st (ln_by_status s))" using idx by (simp add: index_ok_def distinct_ids_with)
  show "\<exists>l. kv_get (ln_loans s) i = Some l \<and> lo_Status l = st" if "i \<in> set (ids_with st (ln_by_status s))" for i
    using loans.ids_with_iff [OF idx] that by auto
qed

section \<open>Approval\<close>

lemma set_auth_status_Inr:
  "set_auth_status n st l = Inr l' \<Longrightarrow> \<exists>as. l' = l\<lparr>lo_Authorizations := as\<rparr>"
  by (auto simp: set_auth_status_def Let_def split: if_splits)

lemma handles_SetLoan:
  assumes "keeps E s (SetLoan l s)"
  shows "handles E k (lo_VaultAddress l) s (SetLoan l s)"
  using assms by (simp add: handles_def GetLiquidationId_def)

lemma reject_handles:
  assumes "lending_inv s" "kv_get (ln_loans s) (lo_VaultAddress l) = Some l"
    "lo_Status l = LOAN_Requested \<or> lo_Status l = LOAN_Authorized" "reject l n s = Inr s'"
  shows "handles E 0 (lo_VaultAddress l) s s'"
proof -
  obtain as where s': "s' = SetLoan (l\<lparr>lo_Authorizations := as, lo_Status := LOAN_Rejected\<rparr>) s"
  proof (cases "0 < n")
    case True
    then obtain l' where l': "set_auth_status n AUTH_REJECTED l = Inr l'" "s' = SetLoan (l'\<lparr>lo_Status := LOAN_Rejected\<rparr>) s"
      using assms(4) by (auto simp: reject_def bind_res_eq_Inr)
    from set_auth_status_Inr [OF l'(1)] show ?thesis using l'(2) by (auto intro: that)
  next
    case False
    then show ?thesis using assms(4) that [of "lo_Authorizations l"] by (simp add: reject_def)
  qed
  have "keeps E s s'" unfolding s'
    by (rule keeps_SetLoan [OF assms(1), where ?l0.0 = l])
      (use assms(2,3) in \<open>auto simp: loan_terms_iff pending_def less_loan_status_def intro: loan_lives\<close>)
  from handles_SetLoan [OF this [unfolded s'], of 0] show ?thesis unfolding s' by simp
qed

text \<open>What a step of the approval does: nothing, a rejection, or an attempt to disburse under all its conditions.\<close>

lemma HandleApproval_cases:
  assumes "HandleApproval E now l s = Inr s'"
  obtains "s' = s"
  | "reject l (GetAuthorizationId s (lo_VaultAddress l)) s = Inr s'"
  | price a where "unix now < lo_MaturityTime l" "GetAuthorizationId s (lo_VaultAddress l) \<noteq> 0"
    "GetPrice (parse_dec E) s (lending_GetPricePair (po_Config (GetPool s (lo_PoolId l)))) = Inr (Some price)"
    "\<not> ToBeLiquidated price (lo_LiquidationPrice l) (am_IsBasePriceAsset (pc_CollateralAsset (po_Config (GetPool s (lo_PoolId l)))))"
    "RepaymentCetSigned s (lo_VaultAddress l)"
    "GetAuthorization s (lo_VaultAddress l) (GetAuthorizationId s (lo_VaultAddress l)) = Inr (Some a)" "DepositsVerified s a"
    "try_approve E now l (GetAuthorizationId s (lo_VaultAddress l)) price s = Inr s'"
proof -
  let ?c = "po_Config (GetPool s (lo_PoolId l))" and ?n = "GetAuthorizationId s (lo_VaultAddress l)"
  note run = assms [unfolded HandleApproval_def Let_def]
  consider "lo_MaturityTime l \<le> unix now" | "unix now < lo_MaturityTime l" "?n = 0" | "unix now < lo_MaturityTime l" "?n \<noteq> 0"
    by linarith
  then show thesis
  proof cases
    case 1
    then show thesis using run by (intro that(2)) simp
  next
    case 2
    then show thesis using run by (intro that(1)) simp
  next
    case 3
    then have r: "(case GetPrice (parse_dec E) s (lending_GetPricePair ?c) of Inl _ \<Rightarrow> Inr s | Inr None \<Rightarrow> Inl Panic
      | Inr (Some price) \<Rightarrow>
      if ToBeLiquidated price (lo_LiquidationPrice l) (am_IsBasePriceAsset (pc_CollateralAsset ?c)) then reject l ?n s
      else if \<not> RepaymentCetSigned s (lo_VaultAddress l) then Inr s
      else bind_res (GetAuthorization s (lo_VaultAddress l) ?n) (\<lambda>a.
      case a of None \<Rightarrow> Inl Panic
      | Some a \<Rightarrow> if DepositsVerified s a then try_approve E now l ?n price s else Inr s)) = Inr s'"
      using run by simp
    show thesis
    proof (cases "GetPrice (parse_dec E) s (lending_GetPricePair ?c)")
      case (Inl e)
      then show thesis using r by (intro that(1)) simp
    next
      case (Inr q)
      then obtain price where p: "GetPrice (parse_dec E) s (lending_GetPricePair ?c) = Inr (Some price)"
        using r by (cases q) simp_all
      note r' = r [unfolded p sum.case option.case]
      consider "ToBeLiquidated price (lo_LiquidationPrice l) (am_IsBasePriceAsset (pc_CollateralAsset ?c))"
        | "\<not> ToBeLiquidated price (lo_LiquidationPrice l) (am_IsBasePriceAsset (pc_CollateralAsset ?c))" "\<not> RepaymentCetSigned s (lo_VaultAddress l)"
        | "\<not> ToBeLiquidated price (lo_LiquidationPrice l) (am_IsBasePriceAsset (pc_CollateralAsset ?c))" "RepaymentCetSigned s (lo_VaultAddress l)"
        by blast
      then show thesis
      proof cases
        case 1
        then show thesis using r' by (intro that(2)) simp
      next
        case 2
        then show thesis using r' by (intro that(1)) simp
      next
        case go: 3
        then obtain a where a: "GetAuthorization s (lo_VaultAddress l) ?n = Inr (Some a)"
          and t: "(if DepositsVerified s a then try_approve E now l ?n price s else Inr s) = Inr s'"
          using r' by (auto elim!: bindE split: option.splits)
        then show thesis using that(1) that(3) [OF 3 p go a] by (cases "DepositsVerified s a") simp_all
      qed
    qed
  qed
qed

lemma try_approve_cases:
  assumes "try_approve E now l n price s = Inr s'"
  obtains "reject l n s = Inr s'"
  | t l' where "CheckLTV E (lo_CollateralAmount l) (am_Decimals (pc_CollateralAsset (po_Config (GetPool s (lo_PoolId l)))))
      (Amount (lo_BorrowAmount l)) (am_Decimals (pc_LendingAsset (po_Config (GetPool s (lo_PoolId l)))))
      (pc_MaxLtv (po_Config (GetPool s (lo_PoolId l)))) price
      (am_IsBasePriceAsset (pc_CollateralAsset (po_Config (GetPool s (lo_PoolId l))))) = Inr True"
    "CheckBorrowCap (GetPool s (lo_PoolId l)) (Amount (lo_BorrowAmount l)) = Inr ()" "approve E now l s = Inr t"
    "set_auth_status n AUTH_AUTHORIZED (GetLoan t (lo_VaultAddress l)) = Inr l'" "s' = SetLoan l' t"
proof -
  note run = assms [unfolded try_approve_def Let_def]
  from run obtain ok where ok: "CheckLTV E (lo_CollateralAmount l) (am_Decimals (pc_CollateralAsset (po_Config (GetPool s (lo_PoolId l)))))
      (Amount (lo_BorrowAmount l)) (am_Decimals (pc_LendingAsset (po_Config (GetPool s (lo_PoolId l)))))
      (pc_MaxLtv (po_Config (GetPool s (lo_PoolId l)))) price
      (am_IsBasePriceAsset (pc_CollateralAsset (po_Config (GetPool s (lo_PoolId l))))) = Inr ok" by (elim bindE)
  note run' = run [unfolded ok bind_res_Inr]
  show thesis
  proof (cases "ok \<and> CheckBorrowCap (GetPool s (lo_PoolId l)) (Amount (lo_BorrowAmount l)) = Inr () \<and> (\<exists>t. approve E now l s = Inr t)")
    case True
    then obtain t where t: "approve E now l s = Inr t" by auto
    from run' True t obtain l' where "set_auth_status n AUTH_AUTHORIZED (GetLoan t (lo_VaultAddress l)) = Inr l'" "s' = SetLoan l' t"
      by (auto simp: bind_res_eq_Inr)
    then show thesis using that(2) [OF _ _ t] ok True by simp
  next
    case False
    then show thesis using run' that(1)
      by (cases ok; cases "CheckBorrowCap (GetPool s (lo_PoolId l)) (Amount (lo_BorrowAmount l))"; cases "approve E now l s")
        (simp_all split: if_splits)
  qed
qed

lemma GetAuthorizationId_Requested:
  assumes "lending_inv s" "kv_get (ln_loans s) i = Some l" "lo_Status l = LOAN_Requested"
  shows "GetAuthorizationId s i = 0"
  using lending_invD(12) [OF assms(1)] assms(2,3)
  by (auto simp: auths_ok_def GetAuthorizationId_def counter_def kv_has_def split: option.splits)

lemma HandleApproval_handles:
  assumes ok: "bank_ok E" "dec_ok E" and inv: "lending_inv s" and l: "kv_get (ln_loans s) (lo_VaultAddress l) = Some l"
    "lo_Status l = LOAN_Requested \<or> lo_Status l = LOAN_Authorized"
    and run: "HandleApproval E now l s = Inr s'"
  shows "handles E 0 (lo_VaultAddress l) s s'"
  using run
proof (cases rule: HandleApproval_cases)
  case 1
  then show ?thesis by (simp add: handles_refl [OF inv])
next
  case 2
  then show ?thesis by (rule reject_handles [OF inv l])
next
  case (3 price a)
  have auth: "lo_Status l = LOAN_Authorized" using GetAuthorizationId_Requested [OF inv l(1)] 3(2) l(2) by auto
  from 3(8) show ?thesis
  proof (cases rule: try_approve_cases)
    case 1
    then show ?thesis by (rule reject_handles [OF inv l])
  next
    case (2 t l')
    have op: "keeps E s t" "handles E 0 (lo_VaultAddress l) s t" "kv_get (ln_loans t) (lo_VaultAddress l) \<noteq> None"
      using approve_keeps [OF ok inv l(1) auth 2(3)] by (auto simp: handles_def GetLiquidationId_def)
    obtain m where m: "kv_get (ln_loans t) (lo_VaultAddress l) = Some m" "GetLoan t (lo_VaultAddress l) = m" "lo_VaultAddress m = lo_VaultAddress l"
      using op(3) lending_invD(8) [OF keepsD [OF op(1)]] by (auto simp: GetLoan_def)
    obtain as where l': "l' = m\<lparr>lo_Authorizations := as\<rparr>" using set_auth_status_Inr [OF 2(4)] m(2) by auto
    have "keeps E t (SetLoan l' t)"
      by (rule keeps_SetLoan [OF keepsD [OF op(1)], where ?l0.0 = m]) (use m l' in \<open>auto simp: loan_terms_iff\<close>)
    then have "handles E 0 (lo_VaultAddress l) t s'" using handles_SetLoan m(3) l' 2(5) by fastforce
    then show ?thesis by (rule handles_trans [OF op(2)])
  qed
qed

lemma id_room: "unat (i :: u64) + 0 * n < 2 ^ 64"
  using unsigned_less [of i] by simp

lemma handleApprovals_walks:
  assumes "bank_ok E" "dec_ok E" "lending_inv s" "handleApprovals E now s = Inr s'"
  shows "walks E 0 s s'"
proof -
  obtain t where t: "IterateLoansByStatus LOAN_Requested (HandleApproval E now) s = Inr t"
    "IterateLoansByStatus LOAN_Authorized (HandleApproval E now) t = Inr s'"
    using assms(4) unfolding handleApprovals_def by (elim bindE)
  have "walks E (0 * length (ids_with LOAN_Requested (ln_by_status s))) s t"
    by (rule IterateLoansByStatus_keeps [OF t(1) assms(3) id_room]) (rule HandleApproval_handles [OF assms(1,2)], simp_all)
  then have 1: "walks E 0 s t" by simp
  have "walks E (0 * length (ids_with LOAN_Authorized (ln_by_status t))) t s'"
    by (rule IterateLoansByStatus_keeps [OF t(2) keepsD [OF walks_keeps [OF 1]] id_room])
      (rule HandleApproval_handles [OF assms(1,2)], simp_all)
  then have "walks E 0 t s'" by simp
  with 1 show ?thesis by (rule walks_trans)
qed

section \<open>Repayment\<close>

lemma GetProtocolFee_bounds:
  assumes "dec_ok E" "0 \<le> interest" "config_ok c"
  shows "0 \<le> GetProtocolFee E interest (pc_ReserveFactor c)" "GetProtocolFee E interest (pc_ReserveFactor c) \<le> interest"
proof -
  have f: "0 \<le> pc_ReserveFactor c" "pc_ReserveFactor c \<le> 10 ^ 18" using assms(3) by (simp_all add: config_ok_def dec_one_def)
  have eq: "GetProtocolFee E interest (pc_ReserveFactor c) = interest * pc_ReserveFactor c div 10 ^ 18"
    unfolding GetProtocolFee_def by (rule truncate_mul_bounds [OF assms(1,2) f(1)])
  show "0 \<le> GetProtocolFee E interest (pc_ReserveFactor c)" unfolding eq using assms(2) f by (simp add: pos_imp_zdiv_nonneg_iff)
  have "interest * pc_ReserveFactor c div 10 ^ 18 \<le> interest * 10 ^ 18 div 10 ^ 18"
    by (rule zdiv_mono1) (use assms(2) f in \<open>auto intro: mult_left_mono\<close>)
  then show "GetProtocolFee E interest (pc_ReserveFactor c) \<le> interest" unfolding eq by simp
qed

text \<open>
  A repayment leaves the escrow whole: the pool gets it less the protocol's fee, and the collector and the referrer
  share the fee.
\<close>

lemma CompleteRepayment_Inr:
  assumes ok: "bank_ok E" "dec_ok E" "config_ok (po_Config (GetPool s (lo_PoolId l)))"
    and run: "CompleteRepayment E l s = Inr s'"
  obtains b t interest fee actual where
    "interest = Amount (rp_Amount (GetRepayment s (lo_VaultAddress l))) - Amount (lo_BorrowAmount l)" "0 \<le> interest"
    "Denom (rp_Amount (GetRepayment s (lo_VaultAddress l))) = Denom (lo_BorrowAmount l)"
    "fee = GetProtocolFee E interest (pc_ReserveFactor (po_Config (GetPool s (lo_PoolId l))))" "0 \<le> fee" "fee \<le> interest"
    "0 \<le> actual" "actual \<le> fee"
    "AfterPoolRepaid (lo_PoolId l) (lo_Maturity l) (lo_BorrowAmount l) interest fee actual (s\<lparr>ch_bank := b\<rparr>) = Inr t"
    "s' = SetLoan (l\<lparr>lo_Status := LOAN_Closed\<rparr>) t"
    "\<And>m d. balance E b (ModuleAcc m) d = balance E (ch_bank s) (ModuleAcc m) d
       + (if m = ''lending'' \<and> Denom (lo_BorrowAmount l) = d then Amount (lo_BorrowAmount l) + interest - fee else 0)
       - (if m = ''lending_escrow'' \<and> Denom (lo_BorrowAmount l) = d then Amount (lo_BorrowAmount l) + interest else 0)"
  using run [unfolded CompleteRepayment_def Let_def]
proof (elim peel, goal_cases)
  case (1 interest fee ar actual ref amount b b' b'' t)
  let ?r = "rp_Amount (GetRepayment s (lo_VaultAddress l))"
  have i: "Amount interest = Amount ?r - Amount (lo_BorrowAmount l)" "0 \<le> Amount interest" "Denom ?r = Denom (lo_BorrowAmount l)"
    "Denom interest = Denom (lo_BorrowAmount l)"
    using 1(2) by (auto simp: res_simps)
  have f: "Amount fee = GetProtocolFee E (Amount interest) (pc_ReserveFactor (po_Config (GetPool s (lo_PoolId l))))"
    "Denom fee = Denom (lo_BorrowAmount l)" using 1(3) i by (auto simp: res_simps)
  have fee: "0 \<le> Amount fee" "Amount fee \<le> Amount interest"
    unfolding f using GetProtocolFee_bounds [OF ok(2) i(2) ok(3)] by auto
  have ref: "0 \<le> ref" "0 \<le> Amount actual" "Amount actual + ref = Amount fee" "Denom actual = Denom (lo_BorrowAmount l)"
    using 1(4,5) referral_cut_nonneg [OF ok(2) _ fee(1)] fee f(2) by (auto simp: res_simps bind_res_eq_Inr split: if_splits)
  have a: "Denom amount = Denom (lo_BorrowAmount l)" "Amount amount = Amount ?r - Amount fee" using 1(6) i f by (auto simp: res_simps)
  have b'': "balance E b'' (ModuleAcc m) d = balance E b' (ModuleAcc m) d
      - (if m = ''lending_escrow'' \<and> Denom (lo_BorrowAmount l) = d then ref else 0)" for m d
    using 1(9) ref(1) f(2) pay_module [OF ok(1)] by (auto simp: res_simps bind_res_eq_Inr split: if_splits)
  show ?case
    by (rule 1(1) [OF i(1-3) f(1) fee ref(2) _ 1(10) 1(11) [symmetric, simplified]])
      (use ref i a b'' bank_send [OF ok(1) 1(7)] pay_if_module [OF ok(1) 1(8) ref(2)] in auto)
qed

lemma AfterPoolRepaid_frame:
  assumes "AfterPoolRepaid i m a interest fee actual s = Inr t"
  shows "\<exists>ps. t = s\<lparr>ln_pools := ps\<rparr>"
  using assms by (auto simp: AfterPoolRepaid_def Let_def bind_res_eq_Inr SetPool_def)

lemma CompleteRepayment_handles:
  assumes ok: "bank_ok E" "dec_ok E" and inv: "lending_inv s" and l: "kv_get (ln_loans s) (lo_VaultAddress l) = Some l"
    "lo_Status l = LOAN_Repaid" and run: "CompleteRepayment E l s = Inr s'"
  shows "handles E 0 (lo_VaultAddress l) s s'"
proof -
  note I = lending_invD [OF inv]
  have lok: "loan_ok s l" "HasPool s (lo_PoolId l)" "0 \<le> Amount (lo_BorrowAmount l)" using I(7) [OF l(1)] by (auto simp: loan_ok_def)
  then have "config_ok (po_Config (GetPool s (lo_PoolId l)))" using pools_okD(2) [OF I(1)] by (simp add: pool_ok_def)
  from CompleteRepayment_Inr [OF ok this run] obtain b t interest fee actual where C:
    "interest = Amount (rp_Amount (GetRepayment s (lo_VaultAddress l))) - Amount (lo_BorrowAmount l)" "0 \<le> interest"
    "Denom (rp_Amount (GetRepayment s (lo_VaultAddress l))) = Denom (lo_BorrowAmount l)" "0 \<le> fee" "fee \<le> interest"
    "AfterPoolRepaid (lo_PoolId l) (lo_Maturity l) (lo_BorrowAmount l) interest fee actual (s\<lparr>ch_bank := b\<rparr>) = Inr t"
    "s' = SetLoan (l\<lparr>lo_Status := LOAN_Closed\<rparr>) t"
    "\<And>m d. balance E b (ModuleAcc m) d = balance E (ch_bank s) (ModuleAcc m) d
       + (if m = ''lending'' \<and> Denom (lo_BorrowAmount l) = d then Amount (lo_BorrowAmount l) + interest - fee else 0)
       - (if m = ''lending_escrow'' \<and> Denom (lo_BorrowAmount l) = d then Amount (lo_BorrowAmount l) + interest else 0)" by metis
  have pre: "pools_ok (s\<lparr>ch_bank := b\<rparr>)" "HasPool (s\<lparr>ch_bank := b\<rparr>) (lo_PoolId l)"
    using I(1) lok(2) by (simp_all add: pools_ok_def HasPool_def)
  note P = AfterPoolRepaid_pool [OF pre lok(3) C(2,5,6)]
  have "keeps E s s'" unfolding C(7)
    by (rule keeps_loan_pool [OF inv, where ?l0.0 = l and b = b and x = "Amount (lo_BorrowAmount l) + interest - fee"
        and y = "- Amount (lo_BorrowAmount l)", OF _ _ _ _ _ _ P(1)])
      (use l P(2) C(1,3,8) in \<open>auto simp: in_liquidation_def outstanding_def repayment_due_def loan_terms_iff
        intro: loan_lives\<close>)
  then show ?thesis
    using AfterPoolRepaid_frame [OF C(6)] by (auto simp: handles_def C(7) GetLiquidationId_def)
qed

lemma handle_repayment_cases:
  assumes "handle_repayment E l s = Inr s'"
  obtains "s' = s" | m where "s' = SetDLCMeta (lo_VaultAddress l) m s"
  | m t where "CompleteRepayment E l s = Inr t" "s' = SetDLCMeta (lo_VaultAddress l) m t"
proof -
  obtain r where r: "(case r of None \<Rightarrow> Inr s
      | Some cet \<Rightarrow>
      bind_res (case BuildSignedCet E (rc_Tx cet) (lo_BorrowerPubKey l) (rc_BorrowerSignatures cet)
                    (lo_DCM l) (rc_DCMAdaptedSignatures cet) of
                  Inl Panic \<Rightarrow> Inl Panic
                | Inl _ \<Rightarrow> Inr (cet, s)
                | Inr (tx, _) \<Rightarrow> bind_res (CompleteRepayment E l s) (\<lambda>s. Inr (cet\<lparr>rc_SignedTxHex := hex_encode tx\<rparr>, s))) (\<lambda>(cet, t).
      Inr (SetDLCMeta (lo_VaultAddress l) ((GetDLCMeta s (lo_VaultAddress l))\<lparr>dm_RepaymentCet := cet\<rparr>) t))) = Inr s'"
    using assms unfolding handle_repayment_def Let_def by (elim bindE) (rule that)
  show thesis
  proof (cases r)
    case None
    then show thesis using r that(1) by simp
  next
    case (Some cet)
    show thesis
    proof (cases "BuildSignedCet E (rc_Tx cet) (lo_BorrowerPubKey l) (rc_BorrowerSignatures cet) (lo_DCM l) (rc_DCMAdaptedSignatures cet)")
      case (Inl e)
      then show thesis using r Some that(2) by (cases e) auto
    next
      case (Inr q)
      then show thesis using r Some that(3) by (cases q) (auto simp: bind_res_eq_Inr)
    qed
  qed
qed

lemma keeps_plain: "lending_inv s \<Longrightarrow> books_same s s' \<Longrightarrow> ch_bank s' = ch_bank s \<Longrightarrow> keeps E s s'"
  by (rule keeps_same) simp_all

lemma handles_plain: "handles E k v s t \<Longrightarrow> books_same t s' \<Longrightarrow> ch_bank s' = ch_bank t \<Longrightarrow> handles E k v s s'"
  using keeps_plain [of t s' E] keeps_trans [of E s t s']
  by (auto simp: handles_def books_same_def GetLiquidationId_def keepsD)

lemma SetDLCMeta_plain: "books_same s (SetDLCMeta i m s)" "ch_bank (SetDLCMeta i m s) = ch_bank s"
  by (simp_all add: SetDLCMeta_def books_same_def)

lemma handle_repayment_handles:
  assumes ok: "bank_ok E" "dec_ok E" and inv: "lending_inv s" and l: "kv_get (ln_loans s) (lo_VaultAddress l) = Some l"
    "lo_Status l = LOAN_Repaid" and run: "handle_repayment E l s = Inr s'"
  shows "handles E 0 (lo_VaultAddress l) s s'"
  using run
proof (cases rule: handle_repayment_cases)
  case 1
  then show ?thesis by (simp add: handles_refl [OF inv])
next
  case (2 m)
  then show ?thesis using handles_plain [OF handles_refl [OF inv] SetDLCMeta_plain] by simp
next
  case (3 m t)
  then show ?thesis using handles_plain [OF CompleteRepayment_handles [OF ok inv l 3(1)] SetDLCMeta_plain] by simp
qed

lemma handleRepayments_keeps:
  assumes "bank_ok E" "dec_ok E" "lending_inv s" "handleRepayments E s = Inr s'"
  shows "keeps E s s'"
  by (rule walks_keeps, rule IterateLoansByStatus_keeps [OF assms(4) [unfolded handleRepayments_def] assms(3) id_room])
    (rule handle_repayment_handles [OF assms(1,2)], simp_all)

lemma TriggerDLCEvent_plain:
  assumes "TriggerDLCEvent dg now i k s = Inr s'"
  shows "books_same s s'" "ch_bank s' = ch_bank s"
  using assms by (auto simp: TriggerDLCEvent_def Let_def books_same_def split: if_splits)

end
