(* ===== verification/Lending_Liq_Ops.thy ===== *)
theory Lending_Liq_Ops
  imports Lending_Ops
begin

text \<open>
  The operations that move a loan into liquidation and settle it, the messages of borrowers, lenders and
  liquidators and the block handlers keep the invariant and the books.
\<close>

section \<open>Repay\<close>

lemma SetRepayment_SetLoan: "SetRepayment r (SetLoan l s) = SetLoan l (SetRepayment r s)"
  by (simp add: SetRepayment_def SetLoan_def SetLoanStatus_def RemoveLoanStatus_def HasLoan_def GetLoan_def Let_def)

lemma GetLoan_Some:
  assumes "lending_inv s" "HasLoan s i"
  shows "kv_get (ln_loans s) i = Some (GetLoan s i)" "lo_VaultAddress (GetLoan s i) = i"
  using assms lending_invD(8) [OF assms(1)] by (auto simp: HasLoan_def kv_has_def GetLoan_def)

lemma Repay_Inr:
  assumes "Repay E now m s = Inr s'"
  obtains interest b where "HasLoan s (mrp_LoanId m)" "lo_Status (GetLoan s (mrp_LoanId m)) = LOAN_Open"
    "GetCurrentInterest E s (GetLoan s (mrp_LoanId m)) = Inr interest"
    "Denom interest = Denom (lo_BorrowAmount (GetLoan s (mrp_LoanId m)))"
    "send_coins E (ch_bank s) (Account (mrp_Borrower m)) escrow_acc
       [coin_add_amount (lo_BorrowAmount (GetLoan s (mrp_LoanId m))) (Amount interest)] = Inr b"
    "TriggerDLCEvent (outcome_digest E) now (lo_DlcEventId (GetLoan s (mrp_LoanId m))) 2
       (SetLoan ((GetLoan s (mrp_LoanId m))\<lparr>lo_Status := LOAN_Repaid\<rparr>)
       (SetRepayment \<lparr>rp_LoanId = mrp_LoanId m,
         rp_Amount = coin_add_amount (lo_BorrowAmount (GetLoan s (mrp_LoanId m))) (Amount interest), rp_CreateAt = now\<rparr>
       (s\<lparr>ch_bank := b\<rparr>))) = Inr s'"
  using assms [unfolded Repay_def Let_def]
proof (elim peel, goal_cases)
  case (1 u interest amount b)
  show ?case by (rule 1(1)) (use 1 in \<open>auto simp: res_simps SetRepayment_SetLoan\<close>)
qed

lemma Repay_keeps:
  assumes ok: "bank_ok E" and inv: "lending_inv s" and run: "Repay E now m s = Inr s'"
  shows "keeps E s s'"
  using run
proof (cases rule: Repay_Inr)
  case (1 interest b)
  define l where "l = GetLoan s (mrp_LoanId m)"
  define r where "r = \<lparr>rp_LoanId = mrp_LoanId m, rp_Amount = coin_add_amount (lo_BorrowAmount l) (Amount interest), rp_CreateAt = now\<rparr>"
  note R = 1 [folded l_def, folded r_def]
  have l: "kv_get (ln_loans s) (mrp_LoanId m) = Some l" "lo_VaultAddress l = mrp_LoanId m"
    using GetLoan_Some [OF inv R(1)] by (simp_all add: l_def)
  define t where "t = SetRepayment r (s\<lparr>ch_bank := b\<rparr>)"
  have t: "t = s\<lparr>ch_bank := b, ln_pools := ln_pools s, ln_repayments := kv_set (mrp_LoanId m) r (ln_repayments s)\<rparr>"
    by (simp add: t_def SetRepayment_def r_def)
  have "keeps E s (SetLoan (l\<lparr>lo_Status := LOAN_Repaid\<rparr>) t)"
  proof (rule keeps_loan_change [OF inv, where ?l0.0 = l and y = 0, OF _ _ _ _ _ t])
    show "pools_ok t" using lending_invD(1) [OF inv] by (simp add: t pools_ok_def)
    show "loan_life\<^sup>*\<^sup>* (lo_Status l) (lo_Status (l\<lparr>lo_Status := LOAN_Repaid\<rparr>))"
      using R(2) by (auto intro: loan_lives)
    show "balance E b escrow_acc d = balance E (ch_bank s) escrow_acc d
        + repayment_due t d (l\<lparr>lo_Status := LOAN_Repaid\<rparr>) - repayment_due s d l" for d
      using R(2) l(2) bank_send [OF ok R(5)] by (simp add: repayment_due_def t GetRepayment_def r_def)
  qed (use l R(2) bank_send [OF ok R(5)] in
      \<open>auto simp: loan_terms_iff in_liquidation_def outstanding_def t HasPool_def GetPool_def fun_eq_iff\<close>)
  moreover have "keeps E (SetLoan (l\<lparr>lo_Status := LOAN_Repaid\<rparr>) t) s'"
    using keeps_plain [OF keepsD [OF calculation] TriggerDLCEvent_plain [OF R(6) [folded t_def]]] .
  ultimately show ?thesis by (rule keeps_trans)
qed

section \<open>Opening a liquidation\<close>

lemma open_liquidation_Inr:
  assumes "open_liquidation E now l price interest cet ty intent k s = Inr s'"
  obtains lq0 lq where "fresh_liquidation lq0" "lq_LoanId lq0 = lo_VaultAddress l"
    "lq_DebtAmount lq0 = \<lparr>Denom = am_Denom (pc_LendingAsset (po_Config (GetPool s (lo_PoolId l)))),
       Amount = Amount (lo_BorrowAmount l) + interest\<rparr>"
    "CreateLiquidation lq0 s = Inr (lq, SetLiquidation lq (s\<lparr>li_id := Some (GetLiquidationId s + 1)\<rparr>))"
    "books_same (SetLoan (l\<lparr>lo_LiquidationId := lq_Id lq\<rparr>) (SetLiquidation lq (s\<lparr>li_id := Some (GetLiquidationId s + 1)\<rparr>))) s'"
    "ch_bank s' = ch_bank s"
  using assms [unfolded open_liquidation_def Let_def]
proof (elim peel, goal_cases)
  case (1 collateral actual out debt czero dzero c lq t t')
  have c: "c = (lq, SetLiquidation lq (s\<lparr>li_id := Some (GetLiquidationId s + 1)\<rparr>))"
    using 1(8,9) by (simp add: CreateLiquidation_Inr)
  have t: "t = SetLiquidation lq (s\<lparr>li_id := Some (GetLiquidationId s + 1)\<rparr>)" using c 1(9) by simp
  note tr = TriggerDLCEvent_plain [OF 1(10) [unfolded t]]
  have "books_same (SetLoan (l\<lparr>lo_LiquidationId := lq_Id lq\<rparr>) t) s'" "ch_bank s' = ch_bank s"
    using tr 1(11) by (auto simp: t books_same_def AddToLiquidationQueue_def)
  then show ?case
    by (intro 1(1) [OF _ _ _ 1(8) [unfolded 1(9) [symmetric] c]])
      (use 1(2-7) in \<open>auto simp: fresh_liquidation_def res_simps zero_liquidation_def t\<close>)
qed

lemma open_liquidation_handles:
  assumes inv: "lending_inv s" and l0: "kv_get (ln_loans s) (lo_VaultAddress l) = Some l0" "lo_Status l0 = LOAN_Open"
    and l: "loan_terms l = loan_terms l0" "in_liquidation l" "0 \<le> interest"
    and id: "unat (GetLiquidationId s) + 1 < 2 ^ 64"
    and run: "open_liquidation E now l price interest cet ty intent k s = Inr s'"
  shows "handles E 1 (lo_VaultAddress l) s s'"
  using run
proof (cases rule: open_liquidation_Inr)
  case (1 lq0 lq)
  note I = lending_invD [OF inv] and same = l(1) [unfolded loan_terms_iff]
  define i where "i = GetLiquidationId s + 1"
  define t where "t = SetLiquidation lq (s\<lparr>li_id := Some i\<rparr>)"
  define m where "m = l\<lparr>lo_LiquidationId := lq_Id lq\<rparr>"
  note O = 1 [folded i_def, folded t_def, folded m_def]
  have "GetLiquidationId s \<noteq> - 1"
  proof
    assume "GetLiquidationId s = - 1"
    then have "unat (GetLiquidationId s) = 2 ^ 64 - 1" by (simp add: unsigned_minus_1_eq_mask mask_eq_exp_minus_1)
    then show False using id by simp
  qed
  note C = CreateLiquidation_inv [OF I(3) this O(1,4)]
  have lq: "lq_Id lq = i" "lq_Status lq = LQ_LIQUIDATING" "lq_LoanId lq = lo_VaultAddress l" "Amount (lq_LiquidatedDebtAmount lq) = 0"
    "lq_DebtAmount lq = lq_DebtAmount lq0"
    using O(1,2,4) by (auto simp: CreateLiquidation_Inr i_def fresh_liquidation_def)
  have new: "kv_get (li_store s) i = None" using C(2) lq(1) by simp
  have tf: "ln_loans t = ln_loans s" "ln_by_status t = ln_by_status s" "ln_pools t = ln_pools s" "ln_auth_ids t = ln_auth_ids s"
    "ch_bank t = ch_bank s" "ln_repayments t = ln_repayments s" "li_store t = kv_set i lq (li_store s)" "li_id t = Some i"
    "ln_referrers t = ln_referrers s"
    by (simp_all add: t_def lq(1))
  have pools: "GetPool t = GetPool s" "HasPool t = HasPool s" by (simp_all add: fun_eq_iff GetPool_def HasPool_def tf)
  have other: "lo_LiquidationId n \<noteq> i" if "kv_get (ln_loans s) j = Some n" "in_liquidation n" for j n
    using I(7) [OF that(1)] that(2) new by (auto simp: loan_ok_def)
  have l0_ok: "loan_ok s l0" "\<not> in_liquidation l0" using I(7) [OF l0(1)] l0(2) by (auto simp: in_liquidation_def)
  have out: "outstanding t n = outstanding s n" if "kv_get (ln_loans s) j = Some n" for j n
    using other [OF that] by (simp add: outstanding_def GetLiquidation_def tf)
  have out_m: "outstanding t m = outstanding s l0"
    using l(2) l0(2) same by (simp add: outstanding_def in_liquidation_def m_def GetLiquidation_def tf lq recovered_def)
  have m: "lo_VaultAddress m = lo_VaultAddress l" "lo_PoolId m = lo_PoolId l0" "lo_BorrowAmount m = lo_BorrowAmount l0" "in_liquidation m"
    "lo_LiquidationId m = i" using l(2) same lq(1) by (simp_all add: m_def in_liquidation_def)
  have owed: "owed (SetLoan m t) j = owed s j" for j
    by (subst owed_SetLoan [where s = s and l = m, OF I(4)]) (use l0(1) m out out_m in \<open>auto simp: owed_by_def tf\<close>)
  have den: "Denom (lo_BorrowAmount l0) = am_Denom (pc_LendingAsset (po_Config (GetPool s (lo_PoolId l))))"
    using l0_ok(1) same pools_okD(2) [OF I(1)] by (auto simp: loan_ok_def pool_ok_def)
  have "lending_inv (SetLoan m t)"
  proof (rule lending_inv_SetLoanI)
    show "loan_ok t m" using l0_ok(1) same m by (auto simp: loan_ok_def pools tf m_def lq)
    show "loan_ok t n" if "kv_get (ln_loans t) j = Some n" for j n
      using I(7) [of j n] that new by (auto simp: loan_ok_def pools tf)
    show "liq_link (SetLoan m t) q" if "kv_get (li_store t) j = Some q" for j q
    proof (cases "j = i")
      case True
      then have "q = lq" using that by (simp add: tf)
      then show ?thesis using lq m O(3) den l(3) same by (simp add: liq_link_def)
    next
      case False
      then have "kv_get (li_store s) j = Some q" using that by (simp add: tf)
      from I(9) [OF this] show ?thesis using m l0 l0_ok(2) by (auto simp: liq_link_def tf)
    qed
    show "auths_ok (SetLoan m t)"
      using I(12) l0 m(1) l(2) by (auto simp: auths_ok_def tf m_def in_liquidation_def)
  qed (use I(1,2,13) C(1) owed I(11) in \<open>auto simp: tf pools pools_ok_def\<close>)
  moreover have "lifecycle s (SetLoan m t)"
    by (rule lifecycle_SetLoan [where l = m])
      (use l0 m l in \<open>auto simp: lives_on_def tf loan_terms_iff m_def in_liquidation_def intro: loan_lives\<close>)
  moreover have "kv_sum (repayment_due (SetLoan m t) d) (ln_loans (SetLoan m t)) = kv_sum (repayment_due s d) (ln_loans s)" for d
    by (subst due_SetLoan [where s = s and l = m, OF I(4)])
      (use I(8) l0 m in \<open>auto simp: tf GetRepayment_def repayment_due_def in_liquidation_def\<close>)
  moreover have "kv_sum (debt_held d) (li_store (SetLoan m t)) = kv_sum (debt_held d) (li_store s)" for d
    using new lq(4) by (simp add: tf kv_sum_set [OF I(6)] debt_held_def)
  ultimately have "keeps E s (SetLoan m t)"
    by (simp add: keeps_def gaps_kept_def lending_gap_def escrow_gap_def liquidation_gap_def tf)
  moreover have "unat i = unat (GetLiquidationId s) + 1"
    using \<open>GetLiquidationId s \<noteq> - 1\<close> unfolding i_def by (metis add.commute add_eq_0_iff2 plus_1_eq_Suc unatSuc)
  ultimately have "handles E 1 (lo_VaultAddress l) s (SetLoan m t)"
    using m(1) by (simp add: handles_def tf GetLiquidationId_def counter_def)
  then show ?thesis by (rule handles_plain) (use O(5,6) in \<open>simp_all add: tf\<close>)
qed

lemma GetCurrentInterest_nonneg: "GetCurrentInterest E s l = Inr c \<Longrightarrow> 0 \<le> Amount c \<and> Denom c = Denom (lo_BorrowAmount l)"
  by (auto simp: GetCurrentInterest_def bind_res_eq_Inr new_coin_Inr)

lemma lending_HandleLiquidation_cases:
  assumes "lending_HandleLiquidation E now l s = Inr s'"
  obtains "s' = s"
  | price i cet ty where "lo_MaturityTime l \<le> unix now" "GetCurrentInterest E s l = Inr i"
    "open_liquidation E now (l\<lparr>lo_Status := LOAN_Defaulted\<rparr>) price (Amount i) cet ty 2 1 s = Inr s'"
  | price i cet ty where "unix now < lo_MaturityTime l"
    "GetPrice (parse_dec E) s (lending_GetPricePair (po_Config (GetPool s (lo_PoolId l)))) = Inr (Some price)"
    "ToBeLiquidated price (lo_LiquidationPrice l) (am_IsBasePriceAsset (pc_CollateralAsset (po_Config (GetPool s (lo_PoolId l)))))"
    "GetCurrentInterest E s l = Inr i"
    "open_liquidation E now (l\<lparr>lo_Status := LOAN_Liquidated\<rparr>) (Some price) (Amount i) cet ty 1 0 s = Inr s'"
proof -
  let ?c = "po_Config (GetPool s (lo_PoolId l))"
  note run = assms [unfolded lending_HandleLiquidation_def Let_def]
  show thesis
  proof (cases "lo_MaturityTime l \<le> unix now")
    case True
    then show thesis using run that(2) by (auto elim!: bindE)
  next
    case False
    define q where "q = (case GetPrice (parse_dec E) s (lending_GetPricePair ?c) of Inl _ \<Rightarrow> Some 0 | Inr p \<Rightarrow> p)"
    obtain p where p: "q = Some p" using run False by (cases q) (simp_all add: q_def)
    note run' = run [folded q_def, unfolded p option.case]
    show thesis
    proof (cases "p \<noteq> 0 \<and> ToBeLiquidated p (lo_LiquidationPrice l) (am_IsBasePriceAsset (pc_CollateralAsset ?c))")
      case True
      then have "GetPrice (parse_dec E) s (lending_GetPricePair ?c) = Inr (Some p)" using p by (auto simp: q_def split: sum.splits)
      then show thesis using run' False True that(3) by (auto elim!: bindE)
    next
      case no: False
      then have "(if lo_Status l = LOAN_Defaulted \<or> lo_Status l = LOAN_Liquidated then Inl Panic else Inr s) = Inr s'"
        using run' False by (simp only: no if_False)
      then show thesis using that(1) by (auto split: if_splits)
    qed
  qed
qed

lemma lending_HandleLiquidation_handles:
  assumes inv: "lending_inv s" and l: "kv_get (ln_loans s) (lo_VaultAddress l) = Some l" "lo_Status l = LOAN_Open"
    and id: "unat (GetLiquidationId s) + 1 < 2 ^ 64" and run: "lending_HandleLiquidation E now l s = Inr s'"
  shows "handles E 1 (lo_VaultAddress l) s s'"
  using run
proof (cases rule: lending_HandleLiquidation_cases)
  case 1
  then show ?thesis by (simp add: handles_refl [OF inv])
next
  case (2 price i cet ty)
  have nn: "0 \<le> Amount i" using GetCurrentInterest_nonneg [OF 2(2)] by simp
  show ?thesis
    using open_liquidation_handles [OF inv _ l(2) _ _ nn id 2(3)] l by (simp add: loan_terms_iff in_liquidation_def)
next
  case (3 price i cet ty)
  have nn: "0 \<le> Amount i" using GetCurrentInterest_nonneg [OF 3(4)] by simp
  show ?thesis
    using open_liquidation_handles [OF inv _ l(2) _ _ nn id 3(5)] l by (simp add: loan_terms_iff in_liquidation_def)
qed

section \<open>The end blocker\<close>

lemma length_kv: "kv_ok m \<Longrightarrow> length m = card {k. kv_has m k}"
proof -
  assume "kv_ok m"
  then have "card (set (kv_keys m)) = length (kv_keys m)" by (intro distinct_card kv_ok_distinct)
  moreover have "set (kv_keys m) = {k. kv_has m k}" by (auto simp: set_kv_keys)
  ultimately show ?thesis by (simp add: kv_keys_def)
qed

lemma walks_length:
  assumes "lending_inv s" "walks E n s s'"
  shows "length (ln_loans s') = length (ln_loans s)"
proof -
  have "lending_inv s'" "{k. kv_has (ln_loans s') k} = {k. kv_has (ln_loans s) k}"
    using assms(2) by (simp_all add: walks_def keeps_def)
  then show ?thesis
    using length_kv [OF lending_invD(4) [OF assms(1)]] length_kv [OF lending_invD(4) [of s']] by simp
qed

lemma open_ids_length:
  assumes "lending_inv s"
  shows "length (ids_with st (ln_by_status s)) \<le> length (ln_loans s)"
proof -
  note idx = lending_invD(2) [OF assms]
  have sub: "set (ids_with st (ln_by_status s)) \<subseteq> set (kv_keys (ln_loans s))"
    using loans.ids_with_iff [OF idx] by (auto simp: set_kv_keys kv_has_def)
  have "length (ids_with st (ln_by_status s)) = card (set (ids_with st (ln_by_status s)))"
    using idx by (simp add: index_ok_def distinct_card distinct_ids_with)
  also have "\<dots> \<le> card (set (kv_keys (ln_loans s)))" using sub by (rule card_mono [rotated]) simp
  also have "\<dots> \<le> length (ln_loans s)" by (metis card_length kv_keys_def length_map)
  finally show ?thesis .
qed

lemma handleLiquidations_keeps:
  assumes "lending_inv s" "unat (GetLiquidationId s) + length (ln_loans s) < 2 ^ 64" "handleLiquidations E now s = Inr s'"
  shows "keeps E s s'"
proof -
  have room: "unat (GetLiquidationId s) + 1 * length (ids_with LOAN_Open (ln_by_status s)) < 2 ^ 64"
    using assms(2) open_ids_length [OF assms(1), of LOAN_Open] by simp
  show ?thesis
    by (rule walks_keeps, rule IterateLoansByStatus_keeps [OF assms(3) [unfolded handleLiquidations_def] assms(1) room])
      (rule lending_HandleLiquidation_handles, simp_all)
qed

lemma handle_liquidated_loan_plain:
  assumes "handle_liquidated_loan E l s = Inr s'"
  shows "books_same s s'" "ch_bank s' = ch_bank s"
proof -
  have rq: "books_same s (RemoveFromLiquidationQueue i s)" "ch_bank (RemoveFromLiquidationQueue i s) = ch_bank s" for i
    by (simp_all add: books_same_def RemoveFromLiquidationQueue_def)
  have "books_same s s' \<and> ch_bank s' = ch_bank s"
    using assms [unfolded handle_liquidated_loan_def Let_def]
  proof (elim peel, goal_cases)
    case (1 cet ty r)
    show ?case
    proof (cases r)
      case None
      then show ?thesis using 1 by (simp add: books_same_refl)
    next
      case (Some c)
      from 1(3) [unfolded Some option.case] show ?thesis
      proof (elim peel, goal_cases)
        case (1 ct c' t)
        have "t = s \<or> t = RemoveFromLiquidationQueue (lo_VaultAddress l) s"
          using 1(1,2) by (auto split: if_splits sum.splits error.splits)
        then show ?case using 1(3) rq by (auto simp: SetDLCMeta_def books_same_def)
      qed
    qed
  qed
  then show "books_same s s'" "ch_bank s' = ch_bank s" by auto
qed

lemma handleLiquidatedLoans_keeps:
  assumes "lending_inv s" "handleLiquidatedLoans E s = Inr s'"
  shows "keeps E s s'"
  by (rule keeps_fold [OF assms(2) [unfolded handleLiquidatedLoans_def IterateLiquidationQueue_def] assms(1)])
    (rule keeps_plain, simp_all add: handle_liquidated_loan_plain)

lemma lending_EndBlocker_keeps:
  assumes "bank_ok E" "dec_ok E" "lending_inv s" "unat (GetLiquidationId s) + length (ln_loans s) < 2 ^ 64"
    and "lending_EndBlocker E now s = Inr s'"
  shows "keeps E s s'"
proof -
  obtain s1 s2 s3 where r: "handleApprovals E now s = Inr s1" "handleLiquidations E now s1 = Inr s2"
    "handleLiquidatedLoans E s2 = Inr s3" "handleRepayments E s3 = Inr s'"
    using assms(5) unfolding lending_EndBlocker_def by (elim bindE)
  note 1 = handleApprovals_walks [OF assms(1-3) r(1)]
  note k1 = walks_keeps [OF 1]
  have "unat (GetLiquidationId s1) + length (ln_loans s1) < 2 ^ 64"
    using 1 walks_length [OF assms(3) 1] assms(4) by (simp add: walks_def)
  note k2 = keeps_trans [OF k1 handleLiquidations_keeps [OF keepsD [OF k1] this r(2)]]
  note k3 = keeps_trans [OF k2 handleLiquidatedLoans_keeps [OF keepsD [OF k2] r(3)]]
  show ?thesis by (rule keeps_trans [OF k3 handleRepayments_keeps [OF assms(1,2) keepsD [OF k3] r(4)]])
qed

end
