(* ===== verification/Lending_Pool_Ops.thy ===== *)
theory Lending_Pool_Ops
  imports Lending_Liq_Ops
begin

text \<open>
  The messages of lenders and governance on pools and the accrual of interest: what they do to a pool, and
  that they keep the invariant and the books.
\<close>

section \<open>Pools\<close>

lemma keeps_pool_write:
  assumes inv: "lending_inv s" and has: "HasPool s i"
    and moved: "pool_moved i x 0 (s\<lparr>ch_bank := b\<rparr>) t" "pools_ok t"
    and bal: "\<And>d. balance E b lending_acc d = balance E (ch_bank s) lending_acc d + (if Denom (po_Supply (GetPool s i)) = d then x else 0)"
      "\<And>m d. m \<noteq> ''lending'' \<Longrightarrow> balance E b (ModuleAcc m) d = balance E (ch_bank s) (ModuleAcc m) d"
  shows "keeps E s t"
proof -
  note I = lending_invD [OF inv]
  let ?s = "s\<lparr>ch_bank := b\<rparr>"
  have pool: "HasPool ?s i" "kv_ok (ln_pools ?s)" using has I(5) by (simp_all add: HasPool_def)
  note P = pool_movedD [OF moved(1) pool]
  obtain ps where t: "t = s\<lparr>ch_bank := b, ln_pools := ps\<rparr>" using P(6) by auto
  have eq: "HasPool t = HasPool s" "GetPool ?s = GetPool s" using P(1) by (auto simp: HasPool_def GetPool_def fun_eq_iff)
  have ok: "loan_ok t l = loan_ok s l" for l using P(2) eq by (simp add: loan_ok_def t)
  have "owed t j = owed s j" for j by (rule owed_cong) (simp_all add: t)
  moreover have "liq_inv t" "liq_link t = liq_link s" "auths_ok t" using I(3,12)
    by (simp_all add: t liq_inv_def records_ok_def books_ok_def record_sum_def GetLiquidationRecordId_def GetLiquidationId_def
        liq_link_def fun_eq_iff auths_ok_def)
  ultimately have "lending_inv t"
    unfolding lending_inv_def ok P(4) using inv moved(2) eq(2) I(11) by (auto simp: lending_inv_def t)
  moreover have "repayment_due t = repayment_due s" by (simp add: fun_eq_iff repayment_due_def t GetRepayment_def)
  ultimately show ?thesis
    using P(5) eq(2) bal by (simp add: keeps_def gaps_kept_def lending_gap_def escrow_gap_def liquidation_gap_def t lifecycle_refl)
qed

lemma SetPool_bank: "(SetPool p s)\<lparr>ch_bank := b\<rparr> = SetPool p (s\<lparr>ch_bank := b\<rparr>)"
  by (simp add: SetPool_def)

lemma int_quo_Inr [res_simps]: "int_quo a b = Inr c \<longleftrightarrow> b \<noteq> 0 \<and> c = tdiv a b"
  by (auto simp: int_quo_def)

text \<open>What a successful deposit and a successful withdrawal do.\<close>

lemma AddLiquidity_Inr:
  assumes "AddLiquidity E m s = Inr s'"
  obtains p y b b1 b2 where "HasPool s (mal_PoolId m)" "p = GetPool s (mal_PoolId m)" "po_Status p \<noteq> PAUSED"
    "Denom (mal_Amount m) = am_Denom (pc_LendingAsset (po_Config p))" "Denom (po_Supply p) = Denom (mal_Amount m)"
    "0 < Amount (mal_Amount m)" "CheckSupplyCap p (Amount (mal_Amount m)) = Inr ()"
    "if Amount (po_Supply p) = 0 then y = Amount (mal_Amount m)
     else pool_value p \<noteq> 0 \<and> y = tdiv (Amount (mal_Amount m) * Amount (po_TotalYTokens p)) (pool_value p)"
    "0 \<le> y" "send_coins E (ch_bank s) (Account (mal_Lender m)) lending_acc [mal_Amount m] = Inr b1"
    "mint_coins E b1 ''lending'' [\<lparr>Denom = YTokenDenom (po_Id p), Amount = y\<rparr>] = Inr b2"
    "send_coins E b2 lending_acc (Account (mal_Lender m)) [\<lparr>Denom = YTokenDenom (po_Id p), Amount = y\<rparr>] = Inr b"
    "s' = SetPool (p\<lparr>po_Status := (if Amount (po_Supply p) = 0 then ACTIVE else po_Status p),
       po_Supply := coin_add_amount (po_Supply p) (Amount (mal_Amount m)),
       po_AvailableAmount := po_AvailableAmount p + Amount (mal_Amount m),
       po_TotalYTokens := coin_add_amount (po_TotalYTokens p) y\<rparr>) (s\<lparr>ch_bank := b\<rparr>)"
  using assms [unfolded AddLiquidity_def Let_def]
proof (elim peel, goal_cases)
  case (1 u u' py p' y sup yt b1 b2 b)
  define p where "p = GetPool s (mal_PoolId m)"
  note F = 1 [folded p_def]
  have y: "if Amount (po_Supply p) = 0 then y = Amount (mal_Amount m) \<and> p' = p\<lparr>po_Status := ACTIVE\<rparr>
     else pool_value p \<noteq> 0 \<and> y = tdiv (Amount (mal_Amount m) * Amount (po_TotalYTokens p)) (pool_value p) \<and> p' = p"
    using F(7,8) by (auto simp: GetYTokenAmount_def int_quo_Inr bind_res_eq_Inr split: if_splits)
  have p': "p' = p\<lparr>po_Status := (if Amount (po_Supply p) = 0 then ACTIVE else po_Status p)\<rparr>" using y by (auto split: if_splits)
  show ?case
    by (rule F(1) [OF _ refl F(4)])
      (use F y in \<open>auto simp: p' res_simps SetPool_def MsgAddLiquidity_ValidateBasic_def split: if_splits\<close>)
qed

lemma AddLiquidity_keeps:
  assumes ok: "bank_ok E" and inv: "lending_inv s" and run: "AddLiquidity E m s = Inr s'"
  shows "keeps E s s'"
  using run
proof (cases rule: AddLiquidity_Inr)
  case (1 p y b b1 b2)
  let ?a = "Amount (mal_Amount m)"
  have p: "po_Id p = mal_PoolId m" "pool_ok p" using pools_okD [OF lending_invD(1) [OF inv] 1(1)] 1(2) by simp_all
  let ?p = "p\<lparr>po_Status := (if Amount (po_Supply p) = 0 then ACTIVE else po_Status p),
       po_Supply := coin_add_amount (po_Supply p) ?a, po_AvailableAmount := po_AvailableAmount p + ?a,
       po_TotalYTokens := coin_add_amount (po_TotalYTokens p) y\<rparr>"
  have pools: "pools_ok s'" unfolding 1(13)
    by (rule pools_ok_SetPool) (use lending_invD(1) [OF inv] p(2) 1(6,9) in \<open>auto simp: pools_ok_def pool_ok_def\<close>)
  have bal: "balance E b (ModuleAcc k) d = balance E (ch_bank s) (ModuleAcc k) d
      + (if k = ''lending'' \<and> Denom (mal_Amount m) = d then ?a else 0)" for k d
    using bank_send [OF ok 1(10)] bank_mint [OF ok 1(11)] bank_send [OF ok 1(12)] by simp
  show ?thesis
    by (rule keeps_pool_write [OF inv 1(1), where x = "?a" and b = b, OF _ pools], unfold 1(13), rule pool_moved_SetPool)
      (use p(1) 1(2,5) bal in \<open>simp_all add: GetPool_def\<close>)
qed

lemma RemoveLiquidity_Inr:
  assumes "RemoveLiquidity E m s = Inr s'"
  obtains p w b b1 b2 where "HasPool s (PoolIdFromYTokenDenom (Denom (mrl_YTokens m)))"
    "p = GetPool s (PoolIdFromYTokenDenom (Denom (mrl_YTokens m)))" "po_Status p = ACTIVE" "0 < Amount (mrl_YTokens m)"
    "Amount (po_TotalYTokens p) \<noteq> 0" "w = tdiv (Amount (mrl_YTokens m) * pool_value p) (Amount (po_TotalYTokens p))"
    "w \<le> po_AvailableAmount p" "0 \<le> w" "Denom (po_TotalYTokens p) = Denom (mrl_YTokens m)"
    "Amount (mrl_YTokens m) \<le> Amount (po_TotalYTokens p)"
    "send_coins E (ch_bank s) (Account (mrl_Lender m)) lending_acc [mrl_YTokens m] = Inr b1"
    "burn_coins E b1 ''lending'' [mrl_YTokens m] = Inr b2"
    "send_coins E b2 lending_acc (Account (mrl_Lender m)) [\<lparr>Denom = Denom (po_Supply p), Amount = w\<rparr>] = Inr b"
    "s' = SetPool (p\<lparr>po_Supply := coin_add_amount (po_Supply p) (- w), po_AvailableAmount := po_AvailableAmount p - w,
       po_TotalYTokens := coin_add_amount (po_TotalYTokens p) (- Amount (mrl_YTokens m))\<rparr>) (s\<lparr>ch_bank := b\<rparr>)"
  using assms [unfolded RemoveLiquidity_def Let_def]
proof (elim peel, goal_cases)
  case (1 u w sup yts asset b1 b2 b)
  define p where "p = GetPool s (PoolIdFromYTokenDenom (Denom (mrl_YTokens m)))"
  note F = 1 [folded p_def]
  have w: "Amount (po_TotalYTokens p) \<noteq> 0" "w = tdiv (Amount (mrl_YTokens m) * pool_value p) (Amount (po_TotalYTokens p))"
    using F(5) by (auto simp: GetUnderlyingAssetAmount_def int_quo_Inr)
  show ?case
    by (rule F(1) [OF _ refl])
      (use F w in \<open>auto simp: res_simps SetPool_def MsgRemoveLiquidity_ValidateBasic_def split: if_splits\<close>)
qed

lemma RemoveLiquidity_keeps:
  assumes ok: "bank_ok E" and inv: "lending_inv s" and run: "RemoveLiquidity E m s = Inr s'"
  shows "keeps E s s'"
  using run
proof (cases rule: RemoveLiquidity_Inr)
  case (1 p w b b1 b2)
  let ?y = "Amount (mrl_YTokens m)"
  have p: "po_Id p = PoolIdFromYTokenDenom (Denom (mrl_YTokens m))" "pool_ok p"
    using pools_okD [OF lending_invD(1) [OF inv] 1(1)] 1(2) by simp_all
  have pools: "pools_ok s'" unfolding 1(14)
    by (rule pools_ok_SetPool) (use lending_invD(1) [OF inv] p(2) 1(7,10) in \<open>auto simp: pools_ok_def pool_ok_def\<close>)
  have bal: "balance E b (ModuleAcc k) d = balance E (ch_bank s) (ModuleAcc k) d
      - (if k = ''lending'' \<and> Denom (po_Supply p) = d then w else 0)" for k d
    using bank_send [OF ok 1(11)] bank_burn [OF ok 1(12)] bank_send [OF ok 1(13)] by simp
  show ?thesis
    by (rule keeps_pool_write [OF inv 1(1), where x = "- w" and b = b, OF _ pools], unfold 1(14), rule pool_moved_SetPool)
      (use p(1) 1(2) bal in \<open>simp_all add: GetPool_def\<close>)
qed

text \<open>A pool that is written back with the same balances.\<close>

lemma keeps_pool_update:
  assumes "lending_inv s" "HasPool s i" "pool_ok p" "po_Id p = i" "po_AvailableAmount p = po_AvailableAmount (GetPool s i)"
    "po_BorrowedAmount p = po_BorrowedAmount (GetPool s i)" "Denom (po_Supply p) = Denom (po_Supply (GetPool s i))"
    "t = SetPool p s"
  shows "keeps E s t"
proof -
  note I = lending_invD [OF assms(1)]
  have ps: "pools_ok t" unfolding assms(8) by (rule pools_ok_SetPool [OF I(1) assms(3)])
  have t: "t = s\<lparr>ln_pools := kv_set i p (ln_pools s)\<rparr>" using assms(4,8) by (simp add: SetPool_def)
  have get: "kv_get (ln_pools s) i = Some (GetPool s i)" using assms(2) by (simp add: HasPool_Some)
  have has: "HasPool t = HasPool s" using assms(2) by (auto simp: t HasPool_def fun_eq_iff)
  have gp: "GetPool t j = (if j = i then p else GetPool s j)" for j by (simp add: t GetPool_def)
  have li: "li_store t = li_store s" by (simp add: t)
  have ok: "loan_ok t l = loan_ok s l" for l using assms(7) by (simp add: loan_ok_def has gp li)
  have "owed t j = owed s j" for j by (rule owed_cong) (simp_all add: t)
  then have bor: "po_BorrowedAmount (GetPool t j) = owed t j" for j using I(11) [of j] I(11) [of i] assms(6) by (simp add: gp)
  have "liq_inv t" "liq_link t = liq_link s" "auths_ok t" using I(3,12)
    by (simp_all add: t liq_inv_def records_ok_def books_ok_def record_sum_def GetLiquidationRecordId_def GetLiquidationId_def
        liq_link_def fun_eq_iff auths_ok_def)
  then have "lending_inv t" unfolding lending_inv_def ok using assms(1) ps bor by (auto simp: lending_inv_def t)
  moreover have "repayment_due t = repayment_due s" by (simp add: fun_eq_iff repayment_due_def t GetRepayment_def)
  moreover have "kv_sum (pool_holds d) (ln_pools t) = kv_sum (pool_holds d) (ln_pools s)" for d
    using assms(5,7) get by (simp add: t kv_sum_set [OF I(5)] pool_holds_def)
  ultimately show ?thesis
    by (simp add: keeps_def gaps_kept_def lending_gap_def escrow_gap_def liquidation_gap_def lifecycle_refl t)
qed

lemma tranches_config_changed [simp]:
  "po_Id (OnPoolTranchesConfigChanged cs p) = po_Id p" "po_Supply (OnPoolTranchesConfigChanged cs p) = po_Supply p"
  "po_AvailableAmount (OnPoolTranchesConfigChanged cs p) = po_AvailableAmount p"
  "po_BorrowedAmount (OnPoolTranchesConfigChanged cs p) = po_BorrowedAmount p"
  "po_TotalYTokens (OnPoolTranchesConfigChanged cs p) = po_TotalYTokens p"
  "po_TotalBorrowed (OnPoolTranchesConfigChanged cs p) = po_TotalBorrowed p"
  "po_TotalReserve (OnPoolTranchesConfigChanged cs p) = po_TotalReserve p"
  "po_Config (OnPoolTranchesConfigChanged cs p) = po_Config p"
  "po_Status (OnPoolTranchesConfigChanged cs p) = po_Status p"
  unfolding OnPoolTranchesConfigChanged_def
  by (induction cs arbitrary: p) (auto split: option.splits)

lemma tranches_config_changed_tranches:
  assumes "t \<in> set (po_Tranches (OnPoolTranchesConfigChanged cs p))"
  shows "t \<in> set (po_Tranches p) \<or> (\<exists>c \<in> set cs. t = NewTranche c)"
  using assms unfolding OnPoolTranchesConfigChanged_def
proof (induction cs arbitrary: p)
  case Nil
  then show ?case by simp
next
  case (Cons c cs)
  from Cons.prems have "t \<in> set (po_Tranches (fold (\<lambda>c p. case GetTrancheConfig (pc_Tranches (po_Config p)) (tc_Maturity c) of
        None \<Rightarrow> p\<lparr>po_Tranches := po_Tranches p @ [NewTranche c]\<rparr> | Some _ \<Rightarrow> p) cs
      (case GetTrancheConfig (pc_Tranches (po_Config p)) (tc_Maturity c) of
        None \<Rightarrow> p\<lparr>po_Tranches := po_Tranches p @ [NewTranche c]\<rparr> | Some _ \<Rightarrow> p)))" by simp
  from Cons.IH [OF this] show ?case by (auto split: option.splits)
qed

lemma UpdatePoolStatus_simps [simp]:
  "po_Id (UpdatePoolStatus c p) = po_Id p" "po_Supply (UpdatePoolStatus c p) = po_Supply p"
  "po_AvailableAmount (UpdatePoolStatus c p) = po_AvailableAmount p" "po_BorrowedAmount (UpdatePoolStatus c p) = po_BorrowedAmount p"
  "po_TotalYTokens (UpdatePoolStatus c p) = po_TotalYTokens p" "po_TotalBorrowed (UpdatePoolStatus c p) = po_TotalBorrowed p"
  "po_TotalReserve (UpdatePoolStatus c p) = po_TotalReserve p" "po_Config (UpdatePoolStatus c p) = po_Config p"
  "po_Tranches (UpdatePoolStatus c p) = po_Tranches p"
  by (simp_all add: UpdatePoolStatus_def)

lemma UpdatePoolConfig_keeps:
  assumes inv: "lending_inv s" and run: "UpdatePoolConfig E authority signer i c s = Inr s'"
  shows "keeps E s s'"
  using run [unfolded UpdatePoolConfig_def Let_def]
proof (elim peel, goal_cases)
  case (1 u u')
  let ?p = "GetPool s i"
  have has: "HasPool s i" using 1(3) by simp
  have p: "po_Id ?p = i" "pool_ok ?p" using pools_okD [OF lending_invD(1) [OF inv] has] by auto
  have c: "config_ok c" using 1(2) ValidatePoolConfig_ok(1) [of E c]
    by (cases u) (auto simp: MsgUpdatePoolConfig_ValidateBasic_def split: if_splits)
  have same: "pc_LendingAsset c = pc_LendingAsset (po_Config ?p)" using 1(4) by (auto simp: ValidatePoolConfigUpdate_def split: if_splits)
  have "pool_ok (OnPoolTranchesConfigChanged (pc_Tranches c) (UpdatePoolStatus c ?p)\<lparr>po_Config := c\<rparr>)"
    using p(2) c same tranches_config_changed_tranches [of _ "pc_Tranches c" "UpdatePoolStatus c ?p"]
    by (fastforce simp: pool_ok_def NewTranche_def InitialBorrowIndex_def dec_one_def)
  then show ?case by (rule keeps_pool_update [OF inv has]) (use p 1(5) in simp_all)
qed

lemma CreatePool_keeps:
  assumes inv: "lending_inv s" and run: "CreatePool E authority signer i c s = Inr s'"
  shows "keeps E s s'"
  using run [unfolded CreatePool_def]
proof (elim peel, goal_cases)
  case (1 u sup yt)
  note I = lending_invD [OF inv]
  let ?p = "zero_pool\<lparr>po_Id := i, po_Supply := sup, po_TotalYTokens := yt,
        po_Tranches := NewTranches (pc_Tranches c), po_Config := c, po_Status := INACTIVE\<rparr>"
  have none: "kv_get (ln_pools s) i = None" using 1(3) by (simp add: HasPool_def kv_has_def)
  have c: "config_ok c" using 1(2) ValidatePoolConfig_ok(1) [of E c]
    by (cases u) (auto simp: MsgCreatePool_ValidateBasic_def split: if_splits)
  have t: "s' = s\<lparr>ln_pools := kv_set i ?p (ln_pools s)\<rparr>" using 1(7) by (simp add: SetPool_def)
  have p: "pool_ok ?p" using 1(5,6) c
    by (auto simp: pool_ok_def zero_pool_def res_simps NewTranches_def NewTranche_def InitialBorrowIndex_def dec_one_def)
  have gp: "GetPool s' j = (if j = i then ?p else GetPool s j)" and has: "HasPool s' j \<longleftrightarrow> j = i \<or> HasPool s j" for j
    by (simp_all add: t GetPool_def HasPool_def)
  have li: "li_store s' = li_store s" by (simp add: t)
  have ps: "pools_ok s'" using pools_ok_SetPool [OF I(1) p] 1(7) by simp
  have ok: "loan_ok s' l" if "loan_ok s l" for l
  proof -
    have "HasPool s (lo_PoolId l)" "lo_PoolId l \<noteq> i" using that none by (auto simp: loan_ok_def HasPool_def kv_has_def)
    then show ?thesis using that by (simp add: loan_ok_def has gp li)
  qed
  have "owed s' j = owed s j" for j by (rule owed_cong) (simp_all add: t)
  then have bor: "po_BorrowedAmount (GetPool s' j) = owed s' j" for j
  proof -
    have "po_BorrowedAmount ?p = po_BorrowedAmount (GetPool s i)" using none by (simp add: GetPool_def zero_pool_def)
    then show ?thesis using \<open>owed s' j = owed s j\<close> I(11) [of j] I(11) [of i] by (simp add: gp)
  qed
  have "liq_inv s'" "liq_link s' = liq_link s" "auths_ok s'" using I(3,12)
    by (simp_all add: t liq_inv_def records_ok_def books_ok_def record_sum_def GetLiquidationRecordId_def GetLiquidationId_def
        liq_link_def fun_eq_iff auths_ok_def)
  then have "lending_inv s'" using inv ps bor ok by (auto simp: lending_inv_def t)
  moreover have "repayment_due s' = repayment_due s" by (simp add: fun_eq_iff repayment_due_def t GetRepayment_def)
  moreover have "kv_sum (pool_holds d) (ln_pools s') = kv_sum (pool_holds d) (ln_pools s)" for d
    using none by (simp add: t kv_sum_set [OF I(5)] pool_holds_def zero_pool_def)
  ultimately show ?case
    by (simp add: keeps_def gaps_kept_def lending_gap_def escrow_gap_def liquidation_gap_def lifecycle_refl t)
qed

section \<open>Interest accrual\<close>

definition blocks_ok :: "('b, 'e) lenv_scheme \<Rightarrow> bool" where
  "blocks_ok E \<longleftrightarrow> 0 < sint (blocks_per_year E)"

lemma dec_mul_ge:
  assumes "dec_ok E" "0 \<le> a" "dec_one \<le> b"
  shows "a \<le> dec_mul E a b"
proof (rule ccontr)
  assume "\<not> a \<le> dec_mul E a b"
  then have "dec_mul E a b * 10 ^ 18 \<le> (a - 1) * 10 ^ 18" by (intro mult_right_mono) auto
  moreover have "a * 10 ^ 18 \<le> a * b" using assms(2,3) by (intro mult_left_mono) (simp_all add: dec_one_def)
  moreover have "2 * \<bar>dec_mul E a b * 10 ^ 18 - a * b\<bar> \<le> 10 ^ 18" using assms(1) unfolding dec_ok_def by blast
  moreover define x where "x = dec_mul E a b * 10 ^ 18"
  moreover define z where "z = a * b"
  ultimately show False by (simp add: left_diff_distrib abs_le_iff)
qed

lemma dec_mul_le:
  assumes "dec_ok E" "0 \<le> a" "b \<le> dec_one"
  shows "dec_mul E a b \<le> a"
proof (rule ccontr)
  assume "\<not> dec_mul E a b \<le> a"
  then have "(a + 1) * 10 ^ 18 \<le> dec_mul E a b * 10 ^ 18" by (intro mult_right_mono) auto
  moreover have "a * b \<le> a * 10 ^ 18" using assms(2,3) by (intro mult_left_mono) (simp_all add: dec_one_def)
  moreover have "2 * \<bar>dec_mul E a b * 10 ^ 18 - a * b\<bar> \<le> 10 ^ 18" using assms(1) unfolding dec_ok_def by blast
  moreover define x where "x = dec_mul E a b * 10 ^ 18"
  moreover define z where "z = a * b"
  ultimately show False by (simp add: distrib_right abs_le_iff)
qed

text \<open>
  One block of interest: what a tranche lent out and its index only grow, and the reserve takes at most
  the interest of the block.
\<close>

lemma accrue_tranche_Inr:
  assumes dec: "dec_ok E" and bpy: "0 < sint bpy" and c: "config_ok c" and run: "accrue_tranche E bpy c t = Inr t'"
    and t: "0 \<le> pt_TotalBorrowed t" "0 \<le> pt_BorrowIndex t"
  shows "pt_Maturity t' = pt_Maturity t" "pt_TotalBorrowed t \<le> pt_TotalBorrowed t'" "pt_TotalReserve t \<le> pt_TotalReserve t'"
    "pt_BorrowIndex t \<le> pt_BorrowIndex t'"
    "pt_TotalReserve t' - pt_TotalReserve t \<le> pt_TotalBorrowed t' - pt_TotalBorrowed t"
proof -
  obtain tc rate where r: "GetTrancheConfig (pc_Tranches c) (pt_Maturity t) = Some tc"
    "borrow_rate_per_block E (tc_BorrowAPR tc) bpy = Inr rate"
    "t' = t\<lparr>pt_BorrowIndex := dec_mul E (pt_BorrowIndex t) (dec_one + rate),
       pt_TotalBorrowed := truncate_int (dec_mul E (to_dec (pt_TotalBorrowed t)) (dec_one + rate)),
       pt_TotalReserve := pt_TotalReserve t
         + truncate_int (dec_mul E (dec_mul E (to_dec (pt_TotalBorrowed t)) rate) (pc_ReserveFactor c))\<rparr>"
    using run unfolding accrue_tranche_def by (auto simp: Let_def elim!: someE bindE)
  have apr: "0 \<le> tc_BorrowAPR tc" using c r(1) by (auto simp: config_ok_def GetTrancheConfig_def find_Some_iff)
  have rate: "0 \<le> rate"
    using r(2) dec_quo_nonneg [OF dec, of "to_dec (sint bpy)" "tc_BorrowAPR tc"] bpy apr
    by (auto simp: borrow_rate_per_block_def quo_def to_dec_def split: if_splits)
  have rf: "0 \<le> pc_ReserveFactor c" "pc_ReserveFactor c \<le> dec_one" using c by (simp_all add: config_ok_def)
  define x where "x = pt_TotalBorrowed t * rate"
  have x: "0 \<le> x" using t(1) rate by (simp add: x_def)
  have tb: "truncate_int (dec_mul E (to_dec (pt_TotalBorrowed t)) (dec_one + rate)) = pt_TotalBorrowed t + x div 10 ^ 18"
    using truncate_mul_bounds [OF dec t(1), of "dec_one + rate"] rate by (simp add: dec_one_def distrib_left x_def)
  have rd: "truncate_int (dec_mul E (dec_mul E (to_dec (pt_TotalBorrowed t)) rate) (pc_ReserveFactor c)) = dec_mul E x (pc_ReserveFactor c) div 10 ^ 18"
    using dec_mul_nonneg [OF dec x rf(1)] by (simp add: dec_mul_to_dec [OF dec] x_def truncate_int_nonneg)
  have "dec_mul E x (pc_ReserveFactor c) div 10 ^ 18 \<le> x div 10 ^ 18"
    by (rule zdiv_mono1 [OF dec_mul_le [OF dec x rf(2)]]) simp
  moreover have "0 \<le> dec_mul E x (pc_ReserveFactor c) div 10 ^ 18" "0 \<le> x div 10 ^ 18"
    using dec_mul_nonneg [OF dec x rf(1)] x by (simp_all add: pos_imp_zdiv_nonneg_iff)
  moreover have "pt_BorrowIndex t \<le> dec_mul E (pt_BorrowIndex t) (dec_one + rate)"
    by (rule dec_mul_ge [OF dec t(2)]) (use rate in simp)
  ultimately show "pt_Maturity t' = pt_Maturity t" "pt_TotalBorrowed t \<le> pt_TotalBorrowed t'" "pt_TotalReserve t \<le> pt_TotalReserve t'"
    "pt_BorrowIndex t \<le> pt_BorrowIndex t'"
    "pt_TotalReserve t' - pt_TotalReserve t \<le> pt_TotalBorrowed t' - pt_TotalBorrowed t"
    using tb rd by (simp_all add: r(3))
qed

lemma map_res_Inr: "map_res f xs = Inr ys \<longleftrightarrow> list_all2 (\<lambda>x y. f x = Inr y) xs ys"
proof (induction xs arbitrary: ys)
  case Nil
  then show ?case by auto
next
  case (Cons x xs)
  then show ?case by (auto simp: bind_res_eq_Inr list_all2_Cons1)
qed

lemma UpdatePool_Inr:
  assumes "UpdatePool E p = Inr p'"
  shows "\<exists>ts. list_all2 (\<lambda>t t'. accrue_tranche E (blocks_per_year E) (po_Config p) t = Inr t') (po_Tranches p) ts
    \<and> p' = p\<lparr>po_Tranches := ts, po_TotalBorrowed := sum_list (map pt_TotalBorrowed ts), po_TotalReserve := sum_list (map pt_TotalReserve ts)\<rparr>"
  using assms by (auto simp: UpdatePool_def UpdatePoolTranches_def bind_res_eq_Inr map_res_Inr)

lemma UpdatePool_ok:
  assumes dec: "dec_ok E" and bpy: "blocks_ok E" and ok: "pool_ok p" and run: "UpdatePool E p = Inr p'"
  shows "pool_ok p'" "po_Id p' = po_Id p" "po_AvailableAmount p' = po_AvailableAmount p"
    "po_BorrowedAmount p' = po_BorrowedAmount p" "po_Supply p' = po_Supply p"
proof -
  obtain ts where ts: "list_all2 (\<lambda>t t'. accrue_tranche E (blocks_per_year E) (po_Config p) t = Inr t') (po_Tranches p) ts"
    and p': "p' = p\<lparr>po_Tranches := ts, po_TotalBorrowed := sum_list (map pt_TotalBorrowed ts), po_TotalReserve := sum_list (map pt_TotalReserve ts)\<rparr>"
    using UpdatePool_Inr [OF run] by auto
  have c: "config_ok (po_Config p)" using ok by (simp add: pool_ok_def)
  have "0 \<le> pt_TotalBorrowed t' \<and> 0 \<le> pt_TotalReserve t' \<and> 0 \<le> pt_BorrowIndex t'" if t': "t' \<in> set ts" for t'
  proof -
    obtain t where t: "t \<in> set (po_Tranches p)" "accrue_tranche E (blocks_per_year E) (po_Config p) t = Inr t'"
      using ts t' by (induction rule: list_all2_induct) auto
    then have "0 \<le> pt_TotalBorrowed t" "0 \<le> pt_TotalReserve t" "0 \<le> pt_BorrowIndex t" using ok by (auto simp: pool_ok_def)
    then show ?thesis using accrue_tranche_Inr(2,3,4) [OF dec bpy [unfolded blocks_ok_def] c t(2)] by linarith
  qed
  then show "pool_ok p'" using ok by (auto simp: p' pool_ok_def intro!: sum_list_nonneg)
qed (use UpdatePool_Inr [OF run] in auto)

lemma update_pools_keeps:
  assumes dec: "dec_ok E" and bpy: "blocks_ok E"
    and "fold_res (update_pool_step E) ps s = Inr s'" "lending_inv s" "distinct (map po_Id ps)"
    and "\<And>p. p \<in> set ps \<Longrightarrow> HasPool s (po_Id p) \<and> GetPool s (po_Id p) = p"
  shows "keeps E s s'"
  using assms(3-6)
proof (induction ps arbitrary: s)
  case Nil
  then show ?case by (simp add: keeps_refl)
next
  case (Cons p ps)
  obtain t where t: "update_pool_step E p s = Inr t" "fold_res (update_pool_step E) ps t = Inr s'"
    using Cons.prems(1) by (auto simp: bind_res_eq_Inr)
  have p: "HasPool s (po_Id p)" "GetPool s (po_Id p) = p" using Cons.prems(4) [of p] by auto
  have "keeps E s t \<and> (\<forall>j. j \<noteq> po_Id p \<longrightarrow> HasPool t j = HasPool s j \<and> GetPool t j = GetPool s j)"
  proof (cases "po_Status p = INACTIVE")
    case True
    then have "t = s" using t(1) by (simp add: update_pool_step_def)
    then show ?thesis using keeps_refl [OF Cons.prems(2)] by simp
  next
    case False
    then obtain p' where p': "UpdatePool E p = Inr p'" "t = SetPool p' s"
      using t(1) by (auto simp: update_pool_step_def bind_res_eq_Inr)
    have "pool_ok p" using pools_okD(2) [OF lending_invD(1) [OF Cons.prems(2)] p(1)] p(2) by simp
    note U = UpdatePool_ok [OF dec bpy this p'(1)]
    have "keeps E s t" by (rule keeps_pool_update [OF Cons.prems(2) p(1) U(1) _ _ _ _ p'(2)]) (use U p in simp_all)
    then show ?thesis using U(2) by (simp add: p'(2) GetPool_SetPool HasPool_SetPool)
  qed
  then have k: "keeps E s t" and other: "\<And>j. j \<noteq> po_Id p \<Longrightarrow> HasPool t j = HasPool s j \<and> GetPool t j = GetPool s j" by auto
  have "keeps E t s'"
  proof (rule Cons.IH [OF t(2) keepsD [OF k]])
    show "distinct (map po_Id ps)" using Cons.prems(3) by simp
    show "HasPool t (po_Id q) \<and> GetPool t (po_Id q) = q" if "q \<in> set ps" for q
    proof -
      have "po_Id q \<noteq> po_Id p" using Cons.prems(3) imageI [OF that, of po_Id] by auto
      then show ?thesis using Cons.prems(4) [of q] other [of "po_Id q"] that by simp
    qed
  qed
  with k show ?case by (rule keeps_trans)
qed

lemma lending_BeginBlocker_keeps:
  assumes "dec_ok E" "blocks_ok E" "lending_inv s" "lending_BeginBlocker E s = Inr s'"
  shows "keeps E s s'"
proof (rule update_pools_keeps [OF assms(1,2) assms(4) [unfolded lending_BeginBlocker_def updatePools_def] assms(3)])
  note I = lending_invD(1,5) [OF assms(3)]
  have get: "kv_get (ln_pools s) (fst q) = Some (snd q)" if "q \<in> set (ln_pools s)" for q
    using that kv_ok_distinct [OF I(2)] by (cases q) (auto simp: kv_get_def kv_keys_def)
  then have id: "po_Id (snd q) = fst q" if "q \<in> set (ln_pools s)" for q using I(1) that by (auto simp: pools_ok_def)
  have "map po_Id (GetAllPools s) = kv_keys (ln_pools s)"
    using id by (simp add: GetAllPools_def kv_keys_def)
  then show "distinct (map po_Id (GetAllPools s))" using kv_ok_distinct [OF I(2)] by simp
  show "HasPool s (po_Id p) \<and> GetPool s (po_Id p) = p" if "p \<in> set (GetAllPools s)" for p
    using that get id by (fastforce simp: GetAllPools_def HasPool_def kv_has_def GetPool_def)
qed

end
