(* ===== verification/Lending_Msg_Ops.thy ===== *)
theory Lending_Msg_Ops
  imports Lending_Pool_Ops
begin

text \<open>
  The messages of borrowers and relayers and the callbacks of the signing module: what a successful
  one does, and that it keeps the invariant and the books.
\<close>

section \<open>Apply\<close>

lemma GetAvailableLendingEvent_plain:
  assumes "GetAvailableLendingEvent s = (x, s')"
  shows "books_same s s'" "ch_bank s' = ch_bank s" "ln_params s' = ln_params s" "ln_referrers s' = ln_referrers s"
  using assms by (auto simp: GetAvailableLendingEvent_def RemoveLendingEventFromPendingQueue_def
      DecreasePendingLendingEventCount_def books_same_def Let_def split: list.splits)

lemma eventE: "(case p of (None, x) \<Rightarrow> Inl e | (Some a, s) \<Rightarrow> f a s) = Inr y \<Longrightarrow> (\<And>a s. p = (Some a, s) \<Longrightarrow> f a s = Inr y \<Longrightarrow> P) \<Longrightarrow> P"
  by (auto split: prod.splits option.splits)

lemma Apply_Inr:
  assumes "Apply E now m s = Inr s'"
  obtains p tc b vault dm e t l where "HasPool s (ma_PoolId m)" "p = GetPool s (ma_PoolId m)" "po_Status p = ACTIVE"
    "Denom (ma_BorrowAmount m) = Denom (po_Supply p)" "0 < Amount (ma_BorrowAmount m)"
    "CheckBorrowAmountLimit p (Amount (ma_BorrowAmount m)) = Inr ()" "CheckBorrowCap p (Amount (ma_BorrowAmount m)) = Inr ()"
    "Amount (ma_BorrowAmount m) \<le> po_AvailableAmount p" "GetTrancheConfig (pc_Tranches (po_Config p)) (ma_Maturity m) = Some tc"
    "pay E (Account (ma_Borrower m)) (lnp_RequestFeeCollector (ln_params s)) (pc_RequestFee (po_Config p)) (ch_bank s) = Inr b"
    "HasDCM s (ma_DCMId m)"
    "CreateVaultAddress E (ma_BorrowerPubkey m) (ma_BorrowerAuthPubkey m) (dcm_Pubkey (GetDCM s (ma_DCMId m)))
       (unix (now + i64 (tc_Maturity tc * 10 ^ 9)) + FinalTimeoutDuration s) = Inr vault" "\<not> HasLoan s vault"
    "GetAvailableLendingEvent (s\<lparr>ch_bank := b\<rparr>) = (Some e, t)"
    "l = zero_loan\<lparr>lo_VaultAddress := vault, lo_Borrower := ma_Borrower m,
       lo_BorrowerPubKey := ma_BorrowerPubkey m, lo_BorrowerAuthPubKey := ma_BorrowerAuthPubkey m,
       lo_DCM := dcm_Pubkey (GetDCM s (ma_DCMId m)), lo_MaturityTime := unix (now + i64 (tc_Maturity tc * 10 ^ 9)),
       lo_FinalTimeout := unix (now + i64 (tc_Maturity tc * 10 ^ 9)) + FinalTimeoutDuration s,
       lo_PoolId := ma_PoolId m, lo_BorrowAmount := ma_BorrowAmount m, lo_RequestFee := pc_RequestFee (po_Config p),
       lo_OriginationFee := truncate_int (dec_mul E (to_dec (Amount (ma_BorrowAmount m))) (pc_OriginationFeeFactor (po_Config p))),
       lo_Maturity := tc_Maturity tc, lo_BorrowAPR := tc_BorrowAPR tc, lo_DlcEventId := ev_Id e,
       lo_Referrer := GetReferrer s (ma_ReferralCode m), lo_CreateAt := now, lo_Status := LOAN_Requested\<rparr>"
    "s' = UpdateDLCEvent l (SetDLCMeta vault dm (SetLoanByOracle vault (ev_Pubkey e) (SetLoanByAddress l (SetLoan l t))))"
  using assms [unfolded Apply_def Let_def]
proof (elim peel someE eventE, goal_cases)
  case (1 u u' u'' tc b vault dm e t)
  have "GetReferrer t = GetReferrer s" "FinalTimeoutDuration t = FinalTimeoutDuration s"
    using GetAvailableLendingEvent_plain(3,4) [OF 1(15)] by (simp_all add: GetReferrer_def FinalTimeoutDuration_def fun_eq_iff)
  then show ?case
    by (intro 1(1) [OF _ refl])
      (use 1 in \<open>auto simp: MsgApply_ValidateBasic_def bind_res_eq_Inr HasDCM_def GetDCM_def HasLoan_def FinalTimeoutDuration_def split: if_splits\<close>)
qed

text \<open>A loan under a new address.\<close>

lemma keeps_new_loan:
  assumes inv: "lending_inv s" and new: "kv_get (ln_loans s) (lo_VaultAddress l) = None" and ok: "loan_ok s l"
    and st: "lo_Status l = LOAN_Requested"
  shows "keeps E s (SetLoan l s)"
proof -
  note I = lending_invD [OF inv]
  have zero: "outstanding s l = 0" "repayment_due s d l = 0" for d
    using st by (simp_all add: outstanding_def in_liquidation_def repayment_due_def)
  have owed: "owed (SetLoan l s) i = owed s i" for i
    by (subst owed_SetLoan [OF I(4) SetLoan_loans]) (use new zero in \<open>auto simp: owed_by_def\<close>)
  have "lending_inv (SetLoan l s)"
  proof (rule lending_inv_SetLoanI)
    show "liq_link (SetLoan l s) lq" if "kv_get (li_store s) j = Some lq" for j lq
      using I(9) [OF that] new by (auto simp: liq_link_def)
    show "auths_ok (SetLoan l s)" using I(12) new by (auto simp: auths_ok_def)
  qed (use I(1-3) I(7) I(11,13) ok owed in auto)
  moreover have "lifecycle s (SetLoan l s)"
    by (rule lifecycle_SetLoan [OF SetLoan_loans]) (use new st in \<open>simp add: lives_on_def\<close>)
  moreover have "kv_sum (repayment_due (SetLoan l s) d) (ln_loans (SetLoan l s)) = kv_sum (repayment_due s d) (ln_loans s)" for d
    by (subst due_SetLoan [OF I(4) SetLoan_loans]) (use I(8) new zero in simp_all)
  ultimately show ?thesis by (simp add: keeps_def gaps_kept_def lending_gap_def escrow_gap_def liquidation_gap_def)
qed

lemma Apply_keeps:
  assumes ok: "bank_ok E" "dec_ok E" and inv: "lending_inv s" and run: "Apply E now m s = Inr s'"
  shows "keeps E s s'"
  using run
proof (cases rule: Apply_Inr)
  case (1 p tc b vault dm e t l)
  note ev = GetAvailableLendingEvent_plain [OF 1(14)]
  have same: "books_same s t" using ev(1) by (simp add: books_same_def)
  have k: "keeps E s t" by (rule keeps_same [OF inv same]) (use ev(2) pay_module [OF ok(1) 1(10)] in simp)
  have pools: "GetPool t = GetPool s" "HasPool t = HasPool s"
    using same by (simp_all add: books_same_def GetPool_def HasPool_def fun_eq_iff)
  have c: "config_ok (po_Config p)" using pools_okD(2) [OF lending_invD(1) [OF inv] 1(1)] 1(2) by (simp add: pool_ok_def)
  have "0 \<le> Amount (ma_BorrowAmount m) * pc_OriginationFeeFactor (po_Config p)" using c 1(5) by (simp add: config_ok_def)
  then have "0 \<le> lo_OriginationFee l"
    using truncate_mul_bounds [OF ok(2), of "Amount (ma_BorrowAmount m)" "pc_OriginationFeeFactor (po_Config p)"] c 1(5)
    by (simp add: 1(15) config_ok_def pos_imp_zdiv_nonneg_iff)
  then have l: "loan_ok t l" "lo_Status l = LOAN_Requested" "lo_VaultAddress l = vault"
    using 1(1,2,4,5) lending_invD(13) [OF inv, of "ReferrerKey (ma_ReferralCode m)"]
    by (simp_all add: loan_ok_def pools 1(15) in_liquidation_def GetReferrer_def)
  have "kv_get (ln_loans t) (lo_VaultAddress l) = None" using 1(13) same l(3) by (simp add: HasLoan_def kv_has_def books_same_def)
  note k2 = keeps_trans [OF k keeps_new_loan [OF keepsD [OF k] this l(1,2)]]
  have plain: "books_same (SetLoan l t) s'" "ch_bank s' = ch_bank (SetLoan l t)"
    by (simp_all add: 1(16) UpdateDLCEvent_def SetDLCMeta_def SetLoanByOracle_def SetLoanByAddress_def books_same_def)
  show ?thesis by (rule keeps_trans [OF k2 keeps_plain [OF keepsD [OF k2] plain]])
qed

section \<open>SubmitCets\<close>

lemma UpdateDLCMeta_plain:
  assumes "UpdateDLCMeta E i deposits lcet lsigs dsigs rcet rsigs rate s = Inr s'"
  shows "\<exists>m. s' = SetDLCMeta i m s"
  using assms [unfolded UpdateDLCMeta_def Let_def] by (elim peel) auto

lemma InitiateRepaymentCetSigningRequest_plain:
  assumes "InitiateRepaymentCetSigningRequest E now i s = Inr s'"
  shows "books_same s s'" "ch_bank s' = ch_bank s" "ln_auth_ids s' = ln_auth_ids s" "ln_deposits s' = ln_deposits s"
  using assms by (auto simp: InitiateRepaymentCetSigningRequest_def bind_res_eq_Inr books_same_def)

lemma log_deposits_plain:
  "books_same s (fold (log_deposit i a) xs s) \<and> ch_bank (fold (log_deposit i a) xs s) = ch_bank s"
proof (induction xs arbitrary: s)
  case Nil
  then show ?case by (simp add: books_same_refl)
next
  case (Cons x xs)
  have "books_same s (log_deposit i a x s) \<and> ch_bank (log_deposit i a x s) = ch_bank s"
    by (cases x) (simp add: log_deposit_def books_same_def NewDepositLog_def SetDepositLog_def)
  then show ?case using Cons.IH [of "log_deposit i a x s"] by (auto intro: books_same_trans)
qed

lemma SubmitCets_Inr:
  assumes "SubmitCets E height now m s = Inr s'"
  obtains l deposits hs collateral price e script where "HasLoan s (msc_LoanId m)" "l = GetLoan s (msc_LoanId m)"
    "msc_Borrower m = lo_Borrower l" "lo_Status l = LOAN_Requested"
    "ParseDepositTxs E (msc_DepositTxs m) script = Inr (deposits, hs, collateral)" "collateral \<noteq> 0"
    "keeper_GetLiquidationPrice E s l collateral = Inr price"
    "UpdateDLCEventLiquidatedOutcome E s l price (GetEvent s (lo_DlcEventId l)) = Inr e"
    "CheckFeeRate height (GetFeeRate s) s = Inr ()"
    "VerifyCets E (GetDLCMeta s (msc_LoanId m)) deposits script l e (msc_LiquidationCet m)
       (msc_LiquidationAdaptorSignatures m) (msc_DefaultLiquidationAdaptorSignatures m) (msc_RepaymentCet m)
       (msc_RepaymentSignatures m) (fr_Value (GetFeeRate s)) (lnp_MaxLiquidationFeeRateMultiplier (ln_params s)) = Inr ()"
    "books_same ((SetLoan (l\<lparr>lo_Authorizations := lo_Authorizations l @
         [\<lparr>au_Id = GetAuthorizationId s (msc_LoanId m) + 1, au_DepositTxs = hs, au_Status = AUTH_PENDING\<rparr>],
         lo_CollateralAmount := collateral, lo_LiquidationPrice := price, lo_Status := LOAN_Authorized\<rparr>) s)
       \<lparr>ln_auth_ids := kv_set (msc_LoanId m) (GetAuthorizationId s (msc_LoanId m) + 1) (ln_auth_ids s)\<rparr>) s'"
    "ch_bank s' = ch_bank s"
  using assms [unfolded SubmitCets_def Let_def]
proof (elim peel, goal_cases)
  case (1 u d deposits hc hs collateral price e u2 u3 t1 t2 a t3)
  define l where "l = GetLoan s (msc_LoanId m)"
  note F = 1 [folded l_def]
  obtain dm where t1: "t1 = SetDLCMeta (msc_LoanId m) dm s" using UpdateDLCMeta_plain [OF F(14)] by auto
  note t2 = InitiateRepaymentCetSigningRequest_plain [OF F(15)]
  have t3: "t3 = t2\<lparr>ln_auth_ids := kv_set (msc_LoanId m) (GetAuthorizationId s (msc_LoanId m) + 1) (ln_auth_ids s)\<rparr>"
    and a: "a = \<lparr>au_Id = GetAuthorizationId s (msc_LoanId m) + 1, au_DepositTxs = hs, au_Status = AUTH_PENDING\<rparr>"
    using F(16) t2(3) t1
    by (auto simp: CreateAuthorization_def IncrementAuthorizationId_def GetAuthorizationId_def Let_def SetDLCMeta_def)
  note log = log_deposits_plain [of t3 "msc_LoanId m" "au_Id a" "zip hs (msc_DepositTxs m)"]
  have plain: "books_same (s\<lparr>ln_auth_ids := kv_set (msc_LoanId m) (GetAuthorizationId s (msc_LoanId m) + 1) (ln_auth_ids s)\<rparr>)
      (fold (log_deposit (msc_LoanId m) (au_Id a)) (zip hs (msc_DepositTxs m)) t3)"
    "ch_bank (fold (log_deposit (msc_LoanId m) (au_Id a)) (zip hs (msc_DepositTxs m)) t3) = ch_bank s"
    using log t2(1,2) by (simp_all add: t3 t1 books_same_def SetDLCMeta_def)
  have same: "books_same ((SetLoan l' s)\<lparr>ln_auth_ids := kv_set (msc_LoanId m) (GetAuthorizationId s (msc_LoanId m) + 1) (ln_auth_ids s)\<rparr>) s'"
    if "s' = SetEvent e (SetLoan l' (fold (log_deposit (msc_LoanId m) (au_Id a)) (zip hs (msc_DepositTxs m)) t3))" for l'
    using plain(1) unfolding that books_same_def by (simp add: SetLoan_by_status split: option.split)
  have bank: "ch_bank s' = ch_bank s" using F(17) plain(2) by auto
  show ?case
    by (rule F(1) [OF _ refl _ _ F(6) [unfolded F(7,8)] _ F(10,11)])
      (use F(2-9,12,13,17) bank same a in auto)
qed

text \<open>The first authorization of a loan that has left its first status.\<close>

lemma keeps_auth:
  assumes inv: "lending_inv s" and "kv_get (ln_loans s) i = Some l" "lo_Status l \<noteq> LOAN_Requested"
  shows "keeps E s (s\<lparr>ln_auth_ids := kv_set i n (ln_auth_ids s)\<rparr>)"
proof -
  let ?t = "s\<lparr>ln_auth_ids := kv_set i n (ln_auth_ids s)\<rparr>"
  have same: "books_same s (?t\<lparr>ln_auth_ids := ln_auth_ids s\<rparr>)" by (simp add: books_same_def)
  have "auths_ok ?t" using lending_invD(12) [OF inv] assms(2,3) by (auto simp: auths_ok_def)
  moreover have "loan_ok ?t = loan_ok s" "liq_link ?t = liq_link s" "GetPool ?t = GetPool s" "pools_ok ?t = pools_ok s"
    "liq_inv ?t = liq_inv s"
    by (simp_all add: fun_eq_iff loan_ok_def liq_link_def HasPool_def GetPool_def
        pools_ok_def liq_inv_def records_ok_def books_ok_def record_sum_def GetLiquidationRecordId_def GetLiquidationId_def)
  moreover have "owed ?t j = owed s j" for j by (rule owed_cong) simp_all
  ultimately have "lending_inv ?t" using inv by (simp add: lending_inv_def)
  moreover have "repayment_due ?t = repayment_due s" by (simp add: fun_eq_iff repayment_due_def GetRepayment_def)
  ultimately show ?thesis
    by (simp add: keeps_def gaps_kept_def lending_gap_def escrow_gap_def liquidation_gap_def lifecycle_refl)
qed

lemma SubmitCets_keeps:
  assumes inv: "lending_inv s" and run: "SubmitCets E height now m s = Inr s'"
  shows "keeps E s s'"
  using run
proof (cases rule: SubmitCets_Inr)
  case (1 l deposits hs collateral price e script)
  have l: "kv_get (ln_loans s) (msc_LoanId m) = Some l" "lo_VaultAddress l = msc_LoanId m"
    using GetLoan_Some [OF inv 1(1)] 1(2) by simp_all
  let ?l = "l\<lparr>lo_Authorizations := lo_Authorizations l @
         [\<lparr>au_Id = GetAuthorizationId s (msc_LoanId m) + 1, au_DepositTxs = hs, au_Status = AUTH_PENDING\<rparr>],
         lo_CollateralAmount := collateral, lo_LiquidationPrice := price, lo_Status := LOAN_Authorized\<rparr>"
  have k: "keeps E s (SetLoan ?l s)"
    by (rule keeps_SetLoan [OF inv, where ?l0.0 = l])
      (use l 1(4) in \<open>auto simp: loan_terms_iff pending_def less_loan_status_def intro: loan_lives\<close>)
  have "keeps E (SetLoan ?l s) ((SetLoan ?l s)\<lparr>ln_auth_ids := kv_set (msc_LoanId m) (GetAuthorizationId s (msc_LoanId m) + 1)
       (ln_auth_ids (SetLoan ?l s))\<rparr>)"
    by (rule keeps_auth [OF keepsD [OF k], where l = ?l]) (use l in simp_all)
  note k2 = keeps_trans [OF k this]
  show ?thesis by (rule keeps_trans [OF k2 keeps_plain [OF keepsD [OF k2]]]) (use 1(11,12) in simp_all)
qed

section \<open>Deposits and redemption\<close>

lemma SubmitDepositTransaction_Inr:
  assumes "SubmitDepositTransaction E m s = Inr s'"
  obtains tx prev h d where "HasLoan s (msd_Vault m)"
    "ValidateTransaction E (msd_DepositTx m) [] (msd_BlockHash m) (msd_Proof m) (ch_deposit_depth s) s = Inr (tx, prev)" "h = tx_hash E tx"
    "if HasDepositLog s h then d = GetDepositLog s h \<and> dp_Status d = DEPOSIT_PENDING else dp_Txid d = h \<and> dp_VaultAddress d = msd_Vault m"
    "s' = SetDepositLog (d\<lparr>dp_Status := DEPOSIT_VERIFIED\<rparr>) s"
  using assms [unfolded SubmitDepositTransaction_def Let_def]
proof (elim peel, goal_cases)
  case (1 u x tx prev d)
  show ?case by (rule 1(1) [of tx prev "tx_hash E tx" d]) (use 1(2-) in \<open>auto simp: wrap_err_Inr split: if_splits\<close>)
qed

lemma SubmitDepositTransaction_keeps:
  assumes "lending_inv s" "SubmitDepositTransaction E m s = Inr s'"
  shows "keeps E s s'"
  using assms(2)
  by (cases rule: SubmitDepositTransaction_Inr) (auto simp: SetDepositLog_def books_same_def intro!: keeps_plain [OF assms(1)])

lemma redeem_inputs_plain:
  assumes "fold_res (redeem_input E m bkey key sc cb) xs (p, hs, s) = Inr (p', hs', s')"
  shows "books_same s s'" "ch_bank s' = ch_bank s"
proof -
  have "case (p', hs', s') of (_, _, t) \<Rightarrow> books_same s t \<and> ch_bank t = ch_bank s"
  proof (rule fold_res_invariant [OF assms])
    show "case (p, hs, s) of (_, _, t) \<Rightarrow> books_same s t \<and> ch_bank t = ch_bank s" by (simp add: books_same_refl)
  next
    fix x st st'
    assume "case st of (_, _, t) \<Rightarrow> books_same s t \<and> ch_bank t = ch_bank s" "redeem_input E m bkey key sc cb x st = Inr st'"
    then show "case st' of (_, _, t) \<Rightarrow> books_same s t \<and> ch_bank t = ch_bank s"
      by (cases x; cases st) (auto simp: redeem_input_def Let_def bind_res_eq_Inr SetDepositLog_def books_same_def split: if_splits)
  qed
  then show "books_same s s'" "ch_bank s' = ch_bank s" by auto
qed

lemma Redeem_Inr:
  assumes "Redeem E now m s = Inr s'"
  obtains l t where "HasLoan s (mre_LoanId m)" "l = GetLoan s (mre_LoanId m)" "mre_Borrower m = lo_Borrower l"
    "CollateralRedeemable l" "books_same s t" "ch_bank t = ch_bank s"
    "s' = (if lo_Status l = LOAN_Requested then SetLoan (l\<lparr>lo_Status := LOAN_Cancelled\<rparr>) t else t)"
  using assms [unfolded Redeem_def Let_def]
proof (elim peel, goal_cases)
  case (1 u p sc cb u2 u3 phs p' hs' hs t tx i t2)
  let ?r = "\<lparr>re_Id = i, re_LoanId = mre_LoanId m, re_Txid = tx_hash E (ps_Tx p'), re_Tx = tx,
    re_Signatures = mre_Signatures m, re_DCMSignatures = [], re_CreateAt = now\<rparr>"
  show ?case
    by (rule 1(1) [OF _ refl, where t = "snd (InitiateSigningRequest now ''lending'' (ToScopedId i) SIGNING_TYPE_SCHNORR 3
        (lo_DCM (GetLoan s (mre_LoanId m))) hs None (SetRedemption ?r t2))"])
      (use 1(2-) redeem_inputs_plain [OF 1(10) [unfolded 1(11,12)]] in
        \<open>auto simp: IncrementRedemptionId_def SetRedemption_def books_same_def Let_def\<close>)
qed

lemma Redeem_keeps:
  assumes inv: "lending_inv s" and run: "Redeem E now m s = Inr s'"
  shows "keeps E s s'"
  using run
proof (cases rule: Redeem_Inr)
  case (1 l t)
  have k: "keeps E s t" by (rule keeps_plain [OF inv 1(5,6)])
  have l: "kv_get (ln_loans t) (lo_VaultAddress l) = Some l"
    using GetLoan_Some [OF inv 1(1)] 1(2,5) by (simp add: books_same_def)
  have "keeps E t (SetLoan (l\<lparr>lo_Status := LOAN_Cancelled\<rparr>) t)" if "lo_Status l = LOAN_Requested"
    by (rule keeps_SetLoan [OF keepsD [OF k], where ?l0.0 = l])
      (use l that in \<open>auto simp: loan_terms_iff pending_def less_loan_status_def intro: loan_lives\<close>)
  then show ?thesis using k keeps_trans [OF k] by (simp add: 1(7))
qed

section \<open>Callbacks and parameters\<close>

lemma redeem_inputs_signed_plain:
  assumes "fold_res (redeem_input_signed E bkey dkey sigs bsigs) xs (ins, s) = Inr (ins', s')"
  shows "books_same s s'" "ch_bank s' = ch_bank s"
proof -
  have "case (ins', s') of (_, t) \<Rightarrow> books_same s t \<and> ch_bank t = ch_bank s"
  proof (rule fold_res_invariant [OF assms])
    show "case (ins, s) of (_, t) \<Rightarrow> books_same s t \<and> ch_bank t = ch_bank s" by (simp add: books_same_refl)
  next
    fix x st st'
    assume "case st of (_, t) \<Rightarrow> books_same s t \<and> ch_bank t = ch_bank s" "redeem_input_signed E bkey dkey sigs bsigs x st = Inr st'"
    then show "case st' of (_, t) \<Rightarrow> books_same s t \<and> ch_bank t = ch_bank s"
      by (cases x; cases st) (auto simp: redeem_input_signed_def bind_res_eq_Inr SetDepositLog_def books_same_def)
  qed
  then show "books_same s s'" "ch_bank s' = ch_bank s" by auto
qed

lemma HandleRedemptionSignatures_plain:
  assumes "HandleRedemptionSignatures E i sigs s = Inr s'"
  shows "books_same s s' \<and> ch_bank s' = ch_bank s"
  using assms [unfolded HandleRedemptionSignatures_def Let_def]
proof (elim peel, goal_cases)
  case (1 p ist ins t p2 tx)
  then show ?case using redeem_inputs_signed_plain [OF 1(4) [unfolded 1(5)]] by (auto simp: SetRedemption_def books_same_def)
qed

lemma lending_callback_plain:
  assumes "lending_SigningCompletedHandler E scoped intent sigs s = Inr s'"
  shows "books_same s s' \<and> ch_bank s' = ch_bank s"
proof -
  have "books_same s s' \<and> ch_bank s' = ch_bank s"
    if "HandleRepaymentAdaptorSignatures scoped sigs s = Inr s' \<or> HandleLiquidationSignatures scoped sigs s = Inr s'
      \<or> handleDefaultLiquidationSignatures scoped sigs s = Inr s'"
    using that
    by (auto simp: SetDLCMeta_def books_same_def HandleRepaymentAdaptorSignatures_def HandleLiquidationSignatures_def handleDefaultLiquidationSignatures_def
        Let_def split: if_splits)
  then show ?thesis using assms
    by (auto simp: lending_SigningCompletedHandler_def dest: HandleRedemptionSignatures_plain split: if_splits)
qed

lemma HandleNonce_plain:
  assumes "HandleNonce now pk intent nonce s = Inr s'"
  shows "books_same s s' \<and> ch_bank s' = ch_bank s"
  using assms [unfolded HandleNonce_def Let_def]
  by (elim peel someE)
    (auto simp: IncrementNonceIndex_def IncrementEventId_def AddLendingEventToPendingQueue_def IncreasePendingLendingEventCount_def
      SetNonce_def SetNonceByValue_def books_same_def Let_def split: if_splits)

lemma DKGCompletedHandler_plain:
  assumes "DKGCompletedHandler now i ty intent pks s = Inr s'"
  shows "books_same s s' \<and> ch_bank s' = ch_bank s"
proof -
  have dcm: "books_same s s' \<and> ch_bank s' = ch_bank s" if "CreateDCM now i pk s = Inr s'" for pk
    using that by (auto simp: CreateDCM_def Let_def IncrementDCMId_def SetDCMByPubKey_def SetDCM_def books_same_def split: if_splits)
  have ora: "books_same s t \<and> ch_bank t = ch_bank s" if "CreateOracle now i pk s = Inr t" for pk t
    using that by (auto simp: CreateOracle_def Let_def IncrementOracleId_def books_same_def split: if_splits)
  have non: "books_same s s' \<and> ch_bank s' = ch_bank s"
    if t: "CreateOracle now i pk s = Inr t" "HandleNonces now pk ns intent t = Inr s'" for pk t ns
  proof (rule fold_res_invariant [OF t(2) [unfolded HandleNonces_def]])
    show "books_same s t \<and> ch_bank t = ch_bank s" by (rule ora [OF t(1)])
    show "books_same s v \<and> ch_bank v = ch_bank s"
      if "books_same s u \<and> ch_bank u = ch_bank s" "HandleNonce now pk intent x u = Inr v" for x u v
      using HandleNonce_plain [OF that(2)] that(1) by (auto intro: books_same_trans)
  qed
  show ?thesis using assms dcm non books_same_refl
    by (auto simp: DKGCompletedHandler_def bind_res_eq_Inr split: if_splits list.splits)
qed

lemma dlc_callback_plain:
  assumes "dlc_SigningCompletedHandler now scoped sigs s = Inr s'"
  shows "books_same s s' \<and> ch_bank s' = ch_bank s"
  using assms by (auto simp: dlc_SigningCompletedHandler_def HandleAttestation_def IncrementAttestationId_def SetAttestation_def
      books_same_def Let_def split: if_splits list.splits)

lemma lending_params_plain:
  "lending_UpdateParams E authority signer p s = Inr s' \<Longrightarrow> books_same s s' \<and> ch_bank s' = ch_bank s"
  by (auto simp: lending_UpdateParams_def bind_res_eq_Inr books_same_def split: if_splits)

lemma keeps_SetReferrer:
  assumes inv: "lending_inv s" and r: "rf_ReferralFeeFactor r \<le> dec_one"
  shows "keeps E s (SetReferrer r s)"
proof -
  let ?t = "SetReferrer r s"
  have same: "books_same s (?t\<lparr>ln_referrers := ln_referrers s\<rparr>)" by (simp add: SetReferrer_def books_same_def)
  have "referrer_ok (kv_get (ln_referrers ?t) k)" for k
    using lending_invD(13) [OF inv, of k] r by (simp add: SetReferrer_def referrer_ok_def)
  moreover have "loan_ok ?t = loan_ok s" "liq_link ?t = liq_link s" "GetPool ?t = GetPool s" "pools_ok ?t = pools_ok s"
    "liq_inv ?t = liq_inv s" "auths_ok ?t = auths_ok s" "ln_loans ?t = ln_loans s" "ln_by_status ?t = ln_by_status s"
    "li_store ?t = li_store s" "repayment_due ?t = repayment_due s" "ch_bank ?t = ch_bank s" "ln_pools ?t = ln_pools s"
    by (simp_all add: fun_eq_iff loan_ok_def liq_link_def HasPool_def GetPool_def SetReferrer_def auths_ok_def
        pools_ok_def liq_inv_def records_ok_def books_ok_def record_sum_def GetLiquidationRecordId_def GetLiquidationId_def
        repayment_due_def GetRepayment_def)
  moreover have "owed ?t j = owed s j" for j by (rule owed_cong) (simp_all add: SetReferrer_def)
  ultimately show ?thesis using inv
    by (simp add: lending_inv_def keeps_def gaps_kept_def lending_gap_def escrow_gap_def liquidation_gap_def lifecycle_refl)
qed

lemma RegisterReferrer_keeps:
  assumes "lending_inv s" "RegisterReferrer E authority signer r s = Inr s'"
  shows "keeps E s s'"
  using assms(2) keeps_SetReferrer [OF assms(1), of r]
  by (auto simp: RegisterReferrer_def bind_res_eq_Inr MsgReferrer_ValidateBasic_def split: if_splits)

lemma UpdateReferrer_keeps:
  assumes "lending_inv s" "UpdateReferrer E authority signer r s = Inr s'"
  shows "keeps E s s'"
  using assms(2)
  by (auto simp: UpdateReferrer_def bind_res_eq_Inr MsgReferrer_ValidateBasic_def intro!: keeps_SetReferrer [OF assms(1)] split: if_splits option.splits)

end
