(* ===== verification/Lending_Settle_Ops.thy ===== *)
theory Lending_Settle_Ops
  imports Lending_Msg_Ops
begin

text \<open>
  The operations of the liquidation module on the combined state: liquidators pay in, the block
  handlers close and settle liquidations, and the settled debt goes to the pool. They keep
  the invariant and the books of both modules.
\<close>

section \<open>Writing a liquidation\<close>

lemma keeps_liquidation_write:
  assumes inv: "lending_inv s" and old: "kv_get (li_store s) (lq_Id lq) = Some l0"
    and same: "lq_LoanId lq = lq_LoanId l0" "lq_DebtAmount lq = lq_DebtAmount l0"
    and unsettled: "lq_Status lq \<noteq> LQ_SETTLED" "lq_Status l0 \<noteq> LQ_SETTLED"
    and t: "ln_pools t = ln_pools s" "ln_loans t = ln_loans s" "ln_by_status t = ln_by_status s"
      "ln_repayments t = ln_repayments s" "ln_auth_ids t = ln_auth_ids s" "ln_referrers t = ln_referrers s"
      "li_store t = kv_set (lq_Id lq) lq (li_store s)"
    and liq: "liq_inv t"
    and bal: "\<And>m d. balance E (ch_bank t) (ModuleAcc m) d = balance E (ch_bank s) (ModuleAcc m) d
       + (if m = ''liquidation'' then debt_held d lq - debt_held d l0 else 0)"
  shows "keeps E s t"
proof -
  note I = lending_invD [OF inv]
  have pools: "GetPool t = GetPool s" "HasPool t = HasPool s" by (simp_all add: fun_eq_iff GetPool_def HasPool_def t)
  have out: "outstanding t l = outstanding s l" for l
    using old unsettled by (auto simp: outstanding_def GetLiquidation_def t recovered_def)
  have "owed_by t i = owed_by s i" for i by (rule ext) (simp add: owed_by_def out)
  then have owed: "owed t i = owed s i" for i by (simp add: owed_def t)
  have ok: "loan_ok t l" if "loan_ok s l" for l
    using that old same(1) by (auto simp: loan_ok_def pools t)
  have link: "liq_link t q" if "kv_get (li_store t) j = Some q" for j q
    using that I(9) [OF old] I(9) [of j q] I(10) [OF old] same by (auto simp: t liq_link_def split: if_splits)
  have "lending_inv t"
    unfolding lending_inv_def owed pools t(2,3,6) using I(1-3,7,11,12,13) liq ok link by (auto simp: pools_ok_def t auths_ok_def)
  moreover have "repayment_due t = repayment_due s" by (simp add: fun_eq_iff repayment_due_def t GetRepayment_def)
  moreover have "kv_sum (debt_held d) (li_store t) = kv_sum (debt_held d) (li_store s) - debt_held d l0 + debt_held d lq" for d
    by (rule held_SetLiquidation [OF I(6) old t(7)])
  ultimately show ?thesis
    by (simp add: keeps_def gaps_kept_def lending_gap_def escrow_gap_def liquidation_gap_def lifecycle_refl t(1,2) bal)
qed

section \<open>Liquidators\<close>

lemma Liquidate_Inr:
  assumes "Liquidate E now m s = Inr s'"
  obtains r where "0 < Amount (ml_DebtAmount m)"
    "HandleLiquidation E now (ml_Liquidator m) (ml_LiquidationId m) (ml_DebtAmount m) s = Inr (r, s')"
  using assms [unfolded Liquidate_def]
proof (elim peel, goal_cases)
  case (1 u rs r t)
  then show ?case by (auto simp: MsgLiquidate_ValidateBasic_def split: if_splits)
qed

lemma Liquidate_keeps:
  assumes ok: "bank_ok E" "dec_ok E" and inv: "lending_inv s" and pr: "price_ok (parse_dec E) s"
    and id: "GetLiquidationRecordId s \<noteq> - 1" and run: "Liquidate E now m s = Inr s'"
  shows "keeps E s s'"
  using run
proof (cases rule: Liquidate_Inr)
  case (1 r)
  have liq: "liq_inv s'" using HandleLiquidation_inv [OF lending_invD(3) [OF inv] ok(2) pr _ id 1(2)] 1(1) by simp
  from 1(2) show ?thesis
  proof (cases rule: HandleLiquidation_Inr)
    case (1 l price c0 c d bonus0 bonus fee b j)
    let ?d = "\<lparr>Denom = Denom (ml_DebtAmount m), Amount = d\<rparr>"
    have lid: "lq_Id l = ml_LiquidationId m" by (rule lending_invD(10) [OF inv 1(1)])
    show ?thesis
    proof (rule keeps_liquidation_write [OF inv, where lq = "liquidated l ?d c bonus fee" and ?l0.0 = l])
      show "kv_get (li_store s) (lq_Id (liquidated l ?d c bonus fee)) = Some l" using 1(1) lid by (simp add: liquidated_def)
      show "balance E (ch_bank s') (ModuleAcc k) x = balance E (ch_bank s) (ModuleAcc k) x
          + (if k = ''liquidation'' then debt_held x (liquidated l ?d c bonus fee) - debt_held x l else 0)" for k x
        using bank_send [OF ok(1) 1(9)] 1(2-4,18)
        by (simp add: SetLiquidationRecord_def debt_held_def liquidated_def)
    qed (use 1(2,18) liq in \<open>simp_all add: liquidated_def SetLiquidationRecord_def\<close>)
  qed
qed

section \<open>The block handlers\<close>

text \<open>
  The handlers get the liquidations as they were at the start of the walk; a step writes its own
  liquidation only, so each is still current when its turn comes.
\<close>

lemma liquidations_keep:
  assumes "fold_res f ls s = Inr s'" "lending_inv s" "distinct (map lq_Id ls)"
    and "\<And>l. l \<in> set ls \<Longrightarrow> kv_get (li_store s) (lq_Id l) = Some l \<and> P l"
    and step: "\<And>l t t'. lending_inv t \<Longrightarrow> kv_get (li_store t) (lq_Id l) = Some l \<Longrightarrow> P l \<Longrightarrow> f l t = Inr t' \<Longrightarrow>
      keeps E t t' \<and> (\<forall>j. j \<noteq> lq_Id l \<longrightarrow> kv_get (li_store t') j = kv_get (li_store t) j)"
  shows "keeps E s s'"
  using assms(1-4)
proof (induction ls arbitrary: s)
  case Nil
  then show ?case by (simp add: keeps_refl)
next
  case (Cons l ls)
  obtain t where t: "f l s = Inr t" "fold_res f ls t = Inr s'" using Cons.prems(1) by (auto simp: bind_res_eq_Inr)
  have k: "keeps E s t" "\<And>j. j \<noteq> lq_Id l \<Longrightarrow> kv_get (li_store t) j = kv_get (li_store s) j"
    using step [OF Cons.prems(2) _ _ t(1)] Cons.prems(4) [of l] by auto
  have "keeps E t s'"
  proof (rule Cons.IH [OF t(2) keepsD [OF k(1)]])
    show "distinct (map lq_Id ls)" using Cons.prems(3) by simp
    show "kv_get (li_store t) (lq_Id q) = Some q \<and> P q" if "q \<in> set ls" for q
    proof -
      have "lq_Id q \<noteq> lq_Id l" using Cons.prems(3) imageI [OF that, of lq_Id] by auto
      then show ?thesis using Cons.prems(4) [of q] k(2) that by simp
    qed
  qed
  with k(1) show ?case by (rule keeps_trans)
qed

lemma by_status_current:
  assumes "lending_inv s"
  shows "distinct (map lq_Id (GetLiquidationsByStatus s st))"
    and "l \<in> set (GetLiquidationsByStatus s st) \<Longrightarrow> kv_get (li_store s) (lq_Id l) = Some l \<and> lq_Status l = st"
proof -
  note idx = lending_invD(3) [OF assms, unfolded liq_inv_def, THEN conjunct1]
  have cur: "kv_get (li_store s) i = Some (GetLiquidation s i) \<and> lq_Status (GetLiquidation s i) = st \<and> lq_Id (GetLiquidation s i) = i"
    if "i \<in> set (ids_with st (li_by_status s))" for i
    using liqs.ids_with_iff [OF idx] that lending_invD(10) [OF assms] by (auto simp: GetLiquidation_def)
  have "map lq_Id (GetLiquidationsByStatus s st) = ids_with st (li_by_status s)"
    using cur by (simp add: GetLiquidationsByStatus_def map_idI)
  then show "distinct (map lq_Id (GetLiquidationsByStatus s st))" using idx by (simp add: index_ok_def distinct_ids_with)
  show "l \<in> set (GetLiquidationsByStatus s st) \<Longrightarrow> kv_get (li_store s) (lq_Id l) = Some l \<and> lq_Status l = st"
    using cur by (auto simp: GetLiquidationsByStatus_def)
qed

lemma all_current:
  assumes "lending_inv s"
  shows "distinct (map lq_Id (GetAllLiquidations s))"
    and "l \<in> set (GetAllLiquidations s) \<Longrightarrow> kv_get (li_store s) (lq_Id l) = Some l"
proof -
  note ok = lending_invD(6) [OF assms]
  have get: "kv_get (li_store s) (fst q) = Some (snd q)" if "q \<in> set (li_store s)" for q
    using that kv_ok_distinct [OF ok] by (cases q) (auto simp: kv_get_def kv_keys_def)
  then have id: "lq_Id (snd q) = fst q" if "q \<in> set (li_store s)" for q using lending_invD(10) [OF assms] that by blast
  have "map lq_Id (GetAllLiquidations s) = kv_keys (li_store s)" using id by (simp add: GetAllLiquidations_def kv_keys_def)
  then show "distinct (map lq_Id (GetAllLiquidations s))" using kv_ok_distinct [OF ok] by simp
  show "l \<in> set (GetAllLiquidations s) \<Longrightarrow> kv_get (li_store s) (lq_Id l) = Some l"
    using get id by (auto simp: GetAllLiquidations_def)
qed

text \<open>A liquidation is written back with another status or interest.\<close>

lemma keeps_SetLiquidation:
  assumes inv: "lending_inv s" and old: "kv_get (li_store s) (lq_Id lq) = Some l0" and ok: "liq_ok lq"
    and same: "lq_LoanId lq = lq_LoanId l0" "lq_DebtAmount lq = lq_DebtAmount l0"
      "lq_LiquidatedDebtAmount lq = lq_LiquidatedDebtAmount l0"
      "lq_LiquidatedCollateralAmount lq = lq_LiquidatedCollateralAmount l0"
      "lq_ProtocolLiquidationFee lq = lq_ProtocolLiquidationFee l0"
    and unsettled: "lq_Status lq \<noteq> LQ_SETTLED" "lq_Status l0 \<noteq> LQ_SETTLED"
  shows "keeps E s (SetLiquidation lq s)"
  by (rule keeps_liquidation_write [OF inv old same(1,2) unsettled])
    (use liq_inv_SetLiquidation [OF lending_invD(3) [OF inv] old ok same(3-5)] same(3) unsettled in \<open>simp_all add: debt_held_def\<close>)

lemma handlePendingLiquidations_keeps:
  assumes inv: "lending_inv s" and run: "handlePendingLiquidations E s = Inr s'"
  shows "keeps E s s'"
proof (rule liquidations_keep [OF run [unfolded handlePendingLiquidations_def] inv by_status_current(1) [OF inv] by_status_current(2) [OF inv]])
  fix l t t'
  assume t: "lending_inv t" "kv_get (li_store t) (lq_Id l) = Some l" "lq_Status l = LQ_LIQUIDATING" "pending_liquidation_step E l t = Inr t'"
  have ok: "liq_ok l" by (rule liq_invD(3) [OF lending_invD(3) [OF t(1)] t(2)])
  have "keeps E t (SetLiquidation (l\<lparr>lq_Status := LQ_LIQUIDATED\<rparr>) t)"
    by (rule keeps_SetLiquidation [OF t(1), where ?l0.0 = l]) (use t(2,3) ok in \<open>simp_all add: liq_ok_def\<close>)
  then show "keeps E t t' \<and> (\<forall>j. j \<noteq> lq_Id l \<longrightarrow> kv_get (li_store t') j = kv_get (li_store t) j)"
    using t(4) keeps_refl [OF t(1)] by (auto simp: pending_liquidation_step_def bind_res_eq_Inr split: if_splits)
qed

lemma completed_liquidation_step_cases:
  assumes "completed_liquidation_step E now rate l s = Inr s'"
  obtains "s' = s"
  | tx txid hs change lq where "BuildSettlementTransaction E l (GetLiquidationRecords s (lq_Id l))
        (lp_ProtocolLiquidationFeeCollector (li_params s)) rate LiquidationNetworkFeeReserve = Inr (tx, txid, hs, change)"
    "0 \<le> change"
    "lq = l\<lparr>lq_UnliquidatedCollateralAmount := \<lparr>Denom = am_Denom (lq_CollateralAsset l), Amount = change\<rparr>, lq_SettlementTx := tx,
       lq_SettlementTxId := txid, lq_Status := LQ_SETTLING\<rparr>"
    "books_same (SetLiquidation lq s) s'" "ch_bank s' = ch_bank s"
proof (cases "BuildSettlementTransaction E l (GetLiquidationRecords s (lq_Id l))
        (lp_ProtocolLiquidationFeeCollector (li_params s)) rate LiquidationNetworkFeeReserve")
  case (Inl e)
  then show thesis using assms that(1) by (cases e) (auto simp: completed_liquidation_step_def)
next
  case (Inr q)
  then obtain tx txid hs change where q: "q = (tx, txid, hs, change)" by (cases q)
  show thesis
    by (rule that(2) [OF Inr [unfolded q]])
      (use assms [unfolded completed_liquidation_step_def Inr q] in \<open>auto simp: bind_res_eq_Inr new_coin_Inr books_same_def Let_def\<close>)
qed

lemma handleCompletedLiquidations_keeps:
  assumes inv: "lending_inv s" and run: "handleCompletedLiquidations E now s = Inr s'"
  shows "keeps E s s'"
proof (rule liquidations_keep [OF run [unfolded handleCompletedLiquidations_def] inv by_status_current(1) [OF inv] by_status_current(2) [OF inv]])
  fix l t t'
  assume t: "lending_inv t" "kv_get (li_store t) (lq_Id l) = Some l" "lq_Status l = LQ_LIQUIDATED"
    "completed_liquidation_step E now (fr_Value (GetFeeRate s)) l t = Inr t'"
  have ok: "liq_ok l" by (rule liq_invD(3) [OF lending_invD(3) [OF t(1)] t(2)])
  from t(4) show "keeps E t t' \<and> (\<forall>j. j \<noteq> lq_Id l \<longrightarrow> kv_get (li_store t') j = kv_get (li_store t) j)"
  proof (cases rule: completed_liquidation_step_cases)
    case 1
    then show ?thesis using keeps_refl [OF t(1)] by simp
  next
    case (2 tx txid hs change lq)
    have k: "keeps E t (SetLiquidation lq t)"
      by (rule keeps_SetLiquidation [OF t(1), where ?l0.0 = l]) (use t(2,3) ok 2(2,3) in \<open>simp_all add: liq_ok_def\<close>)
    have "keeps E t t'" by (rule keeps_trans [OF k keeps_plain [OF keepsD [OF k] 2(4)]]) (use 2(5) in simp)
    then show ?thesis using 2(3,4) by (simp add: books_same_def)
  qed
qed

lemma liquidation_EndBlocker_keeps:
  assumes "lending_inv s" "liquidation_EndBlocker E now s = Inr s'"
  shows "keeps E s s'"
proof -
  obtain t where t: "handlePendingLiquidations E s = Inr t" "handleCompletedLiquidations E now t = Inr s'"
    using assms(2) unfolding liquidation_EndBlocker_def by (elim bindE)
  note k = handlePendingLiquidations_keeps [OF assms(1) t(1)]
  show ?thesis by (rule keeps_trans [OF k handleCompletedLiquidations_keeps [OF keepsD [OF k] t(2)]])
qed

lemma liquidation_BeginBlocker_keeps:
  assumes inv: "lending_inv s" and run: "liquidation_BeginBlocker E s = Inr s'"
  shows "keeps E s s'"
proof (rule liquidations_keep [OF run [unfolded liquidation_BeginBlocker_def calculateAccruedInterest_def] inv all_current(1) [OF inv],
      where P = "\<lambda>_. True"])
  show "kv_get (li_store s) (lq_Id l) = Some l \<and> True" if "l \<in> set (GetAllLiquidations s)" for l
    using all_current(2) [OF inv that] by simp
next
  fix l t t'
  assume t: "lending_inv t" "kv_get (li_store t) (lq_Id l) = Some l" "accrue_liquidation E l t = Inr t'"
  have ok: "liq_ok l" by (rule liq_invD(3) [OF lending_invD(3) [OF t(1)] t(2)])
  have k: "keeps E t (SetLiquidation (l\<lparr>lq_AccruedInterest := c\<rparr>) t)" if "lq_Status l \<noteq> LQ_SETTLED" for c
    by (rule keeps_SetLiquidation [OF t(1), where ?l0.0 = l]) (use t(2) ok that in \<open>simp_all add: liq_ok_def\<close>)
  show "keeps E t t' \<and> (\<forall>j. j \<noteq> lq_Id l \<longrightarrow> kv_get (li_store t') j = kv_get (li_store t) j)"
    using t(3) k keeps_refl [OF t(1)] by (auto simp: accrue_liquidation_def bind_res_eq_Inr split: if_splits)
qed

section \<open>Settlement\<close>

text \<open>
  The debt that liquidators paid: the interest of the debt is covered first, the principal with the
  rest; the pool gets all of it less the protocol's fee.
\<close>

lemma HandleLiquidatedDebt_Inr:
  assumes ok: "bank_ok E" "dec_ok E" and inv: "lending_inv s"
    and l: "kv_get (ln_loans s) i = Some l" "in_liquidation l"
    and lq: "kv_get (li_store s) (lo_LiquidationId l) = Some lq"
    and debt: "Denom debt = Denom (lo_BorrowAmount l)" "0 \<le> Amount debt"
    and run: "HandleLiquidatedDebt E i liquidation_acc debt accrued s = Inr s'"
  obtains b principal fee where
    "principal = max 0 (Amount debt - (Amount (lq_DebtAmount lq) - Amount (lo_BorrowAmount l)))" "0 \<le> fee"
    "fee = GetProtocolFee E (Amount debt - principal) (pc_ReserveFactor (po_Config (GetPool s (lo_PoolId l))))"
    "pools_ok s'" "pool_moved (lo_PoolId l) (Amount debt - fee) (- principal) (s\<lparr>ch_bank := b\<rparr>) s'"
    "\<And>m d. balance E b (ModuleAcc m) d = balance E (ch_bank s) (ModuleAcc m) d
       + (if m = ''lending'' \<and> Denom debt = d then Amount debt - fee else 0)
       - (if m = ''liquidation'' \<and> Denom debt = d then Amount debt else 0)"
proof -
  note I = lending_invD [OF inv]
  have gl: "GetLoan s i = l" using l(1) by (simp add: GetLoan_def)
  have lok: "loan_ok s l" by (rule I(7) [OF l(1)])
  then have has: "HasPool s (lo_PoolId l)" and ref_ok: "referrer_ok (lo_Referrer l)" by (simp_all add: loan_ok_def)
  let ?c = "po_Config (GetPool s (lo_PoolId l))"
  have c: "config_ok ?c" using pools_okD(2) [OF I(1) has] by (simp add: pool_ok_def)
  show thesis
    using run [unfolded HandleLiquidatedDebt_def gl Let_def]
  proof (elim peel, goal_cases)
    case (1 int0 zero pi principal interest amount b b' b'' t)
    have int0: "Amount int0 = Amount (lq_DebtAmount lq) - Amount (lo_BorrowAmount l)" "0 \<le> Amount int0"
      using 1(1) l(2) lq by (auto simp: GetCurrentInterest_def in_liquidation_def GetLiquidation_def new_coin_Inr)
    have zero: "Amount zero = 0" using 1(2) by (simp add: new_coin_Inr)
    have split: "Amount principal = max 0 (Amount debt - (Amount (lq_DebtAmount lq) - Amount (lo_BorrowAmount l)))"
      "Amount principal + interest = Amount debt" "0 \<le> interest" "0 \<le> Amount principal"
      using 1(3,4) int0 zero debt(2) by (auto simp: res_simps split: if_splits)
    define fee where "fee = GetProtocolFee E interest (pc_ReserveFactor ?c)"
    define ref where "ref = (if 0 < fee \<and> HasReferralFee l then referral_cut E l fee else 0)"
    note F = 1 [folded fee_def, folded ref_def]
    note fee = GetProtocolFee_bounds [OF ok(2) split(3) c, folded fee_def]
    have ref: "0 \<le> ref" "ref \<le> fee"
    proof -
      show "0 \<le> ref" using referral_cut_nonneg [OF ok(2) _ fee(1)] by (simp add: ref_def)
      have "referral_cut E l fee \<le> fee" if hr: "HasReferralFee l"
      proof -
        obtain r where r: "lo_Referrer l = Some r" "0 < rf_ReferralFeeFactor r" "rf_ReferralFeeFactor r \<le> 10 ^ 18"
          using hr ref_ok by (auto simp: HasReferralFee_def referrer_ok_def dec_one_def split: option.splits)
        have "fee * rf_ReferralFeeFactor r div 10 ^ 18 \<le> fee * 10 ^ 18 div 10 ^ 18"
          by (rule zdiv_mono1) (use fee r in \<open>auto intro: mult_left_mono\<close>)
        then show ?thesis using r truncate_mul_bounds [OF ok(2) fee(1), of "rf_ReferralFeeFactor r"] by (simp add: referral_cut_def)
      qed
      then show "ref \<le> fee" using fee by (simp add: ref_def)
    qed
    have amount: "Denom amount = Denom debt" "Amount amount = Amount debt - fee" using F(5) by (auto simp: res_simps)
    have bal: "balance E b'' (ModuleAcc m) d = balance E (ch_bank s) (ModuleAcc m) d
       + (if m = ''lending'' \<and> Denom debt = d then Amount debt - fee else 0)
       - (if m = ''liquidation'' \<and> Denom debt = d then Amount debt else 0)" for m d
      using bank_send [OF ok(1) F(6)] pay_if_module [OF ok(1) F(7)] pay_if_module [OF ok(1) F(8)] ref amount by simp
    have pre: "pools_ok (s\<lparr>ch_bank := b''\<rparr>)" "HasPool (s\<lparr>ch_bank := b''\<rparr>) (lo_PoolId l)"
      using I(1) has by (simp_all add: pools_ok_def HasPool_def)
    note P = AfterPoolRepaid_pool [OF pre split(4) split(3) fee(2) F(9)]
    have "kv_ok (ln_pools (s\<lparr>ch_bank := b''\<rparr>))" using I(5) by simp
    note D = pool_movedD [OF P(2) pre(2) this]
    have has': "HasPool t (lo_PoolId l)" using D(1) pre(2) by simp
    have s': "s' = DeductLiquidationAccruedInterest E l (GetPool s (lo_PoolId l)) accrued t" using F(10) by simp
    note R = RebalancePool_pool [OF P(1) has']
    have "pool_moved (lo_PoolId l) (Amount debt - fee) (- Amount principal) (s\<lparr>ch_bank := b''\<rparr>) s'"
      using pool_moved_trans [OF P(2) R(2)] split(2) by (simp add: s' DeductLiquidationAccruedInterest_def)
    moreover have "pools_ok s'" using R(1) by (simp add: s' DeductLiquidationAccruedInterest_def)
    moreover have "fee = GetProtocolFee E (Amount debt - Amount principal) (pc_ReserveFactor ?c)"
    proof -
      have "interest = Amount debt - Amount principal" using split(2) by linarith
      then show ?thesis by (simp add: fee_def)
    qed
    ultimately show thesis using bal split(1) fee(1) by (intro that [of "Amount principal" fee b''])
  qed
qed

lemma kv_set_same:
  assumes "kv_ok m" "kv_get m i = Some x"
  shows "kv_set i x m = m"
  by (rule kv_ext) (use assms in auto)

lemma HandleSettlementSignatures_Inr:
  assumes "HandleSettlementSignatures E i sigs s = Inr s'"
  obtains lq t tx where "HasLiquidation s i" "lq = GetLiquidation s i" "lq_Status lq = LQ_SETTLING"
    "HandleLiquidatedDebt E (lq_LoanId lq) liquidation_acc (lq_LiquidatedDebtAmount lq) (Amount (lq_AccruedInterest lq)) s = Inr t"
    "s' = SetLiquidation (lq\<lparr>lq_SettlementTx := tx, lq_Status := LQ_SETTLED\<rparr>) t"
  using assms [unfolded HandleSettlementSignatures_def Let_def]
proof (elim peel, goal_cases)
  case (1 p ins p2 tx t)
  show ?case by (rule 1(1) [OF _ refl]) (use 1(2-) in auto)
qed

lemma HandleSettlementSignatures_keeps:
  assumes ok: "bank_ok E" "dec_ok E" and inv: "lending_inv s" and run: "HandleSettlementSignatures E i sigs s = Inr s'"
  shows "keeps E s s'"
  using run
proof (cases rule: HandleSettlementSignatures_Inr)
  case (1 lq t tx)
  note I = lending_invD [OF inv]
  have lq: "kv_get (li_store s) i = Some lq" using 1(1,2) by (auto simp: HasLiquidation_def kv_has_def GetLiquidation_def)
  have id: "lq_Id lq = i" by (rule I(10) [OF lq])
  obtain l where l: "kv_get (ln_loans s) (lq_LoanId lq) = Some l" "in_liquidation l" "lo_LiquidationId l = i"
    "Denom (lq_DebtAmount lq) = Denom (lo_BorrowAmount l)" using I(9) [OF lq] id by (auto simp: liq_link_def)
  have lok: "liq_ok lq" by (rule liq_invD(3) [OF I(3) lq])
  let ?d = "lq_LiquidatedDebtAmount lq"
  have d: "Denom ?d = Denom (lo_BorrowAmount l)" "0 \<le> Amount ?d" using lok l(4) by (simp_all add: liq_ok_def)
  have lq': "kv_get (li_store s) (lo_LiquidationId l) = Some lq" using lq l(3) by simp
  from HandleLiquidatedDebt_Inr [OF ok inv l(1,2) lq' d 1(4)] obtain b principal fee where H:
    "principal = max 0 (Amount ?d - (Amount (lq_DebtAmount lq) - Amount (lo_BorrowAmount l)))"
    "pools_ok t" "pool_moved (lo_PoolId l) (Amount ?d - fee) (- principal) (s\<lparr>ch_bank := b\<rparr>) t"
    "\<And>m x. balance E b (ModuleAcc m) x = balance E (ch_bank s) (ModuleAcc m) x
       + (if m = ''lending'' \<and> Denom ?d = x then Amount ?d - fee else 0)
       - (if m = ''liquidation'' \<and> Denom ?d = x then Amount ?d else 0)" by metis
  let ?q = "lq\<lparr>lq_SettlementTx := tx, lq_Status := LQ_SETTLED\<rparr>"
  have s': "s' = SetLiquidation ?q t" by (rule 1(5))
  have has: "HasPool (s\<lparr>ch_bank := b\<rparr>) (lo_PoolId l)" "kv_ok (ln_pools (s\<lparr>ch_bank := b\<rparr>))"
    and den: "Denom (lo_BorrowAmount l) = Denom (po_Supply (GetPool s (lo_PoolId l)))"
    using I(7) [OF l(1)] I(5) by (simp_all add: loan_ok_def HasPool_def)
  note P = pool_movedD [OF H(3) has]
  obtain ps where t: "t = s\<lparr>ch_bank := b, ln_pools := ps\<rparr>" using P(6) by auto
  have st: "li_store s' = kv_set i ?q (li_store s)" "ln_loans s' = ln_loans s" by (simp_all add: s' t id)
  have liq: "liq_inv s'"
    unfolding s'
  proof (rule liq_inv_SetLiquidation)
    show "liq_inv t" using I(3)
      by (simp add: t liq_inv_def records_ok_def books_ok_def record_sum_def GetLiquidationRecordId_def GetLiquidationId_def)
  qed (use lq id lok in \<open>simp_all add: t liq_ok_def\<close>)
  have pools: "HasPool s' = HasPool s" "\<And>j. Denom (po_Supply (GetPool s' j)) = Denom (po_Supply (GetPool s j))"
    "\<And>j. po_BorrowedAmount (GetPool s' j) = po_BorrowedAmount (GetPool s j) + (if j = lo_PoolId l then - principal else 0)"
    using P(1,2,4) by (simp_all add: s' GetPool_def HasPool_def fun_eq_iff)
  have lok': "loan_ok s' m" if "kv_get (ln_loans s) k = Some m" for k m
    using I(7) [OF that] lq by (auto simp: loan_ok_def pools st)
  have vault: "lo_VaultAddress l = lq_LoanId lq" by (rule I(8) [OF l(1)])
  have out: "outstanding s' m = outstanding s m" if m: "kv_get (ln_loans s) k = Some m" "k \<noteq> lq_LoanId lq" for k m
  proof (cases "in_liquidation m \<and> lo_LiquidationId m = i")
    case True
    then have "lq_LoanId lq = lo_VaultAddress m" using I(7) [OF m(1)] lq by (auto simp: loan_ok_def)
    then show ?thesis using I(8) [OF m(1)] m(2) by simp
  next
    case False
    then show ?thesis by (auto simp: outstanding_def GetLiquidation_def st)
  qed
  have out_l: "outstanding s' l = outstanding s l - principal"
    using l(2,3) H(1) lq 1(3) by (auto simp: outstanding_def GetLiquidation_def st recovered_def in_liquidation_def)
  have owed: "owed s' j = owed s j + (if j = lo_PoolId l then - principal else 0)" for j
  proof -
    have "owed s' j = kv_sum (owed_by s' j) (kv_set (lq_LoanId lq) l (ln_loans s))" by (simp add: owed_def st kv_set_same [OF I(4) l(1)])
    also have "\<dots> = owed s j - owed_by s j l + owed_by s' j l"
    proof -
      have "owed_by s' j m = owed_by s j m" if "kv_get (ln_loans s) k = Some m" "k \<noteq> lq_LoanId lq" for k m
        using out [OF that] by (simp add: owed_by_def)
      from kv_sum_set_other [OF I(4) this, where x = l] show ?thesis by (simp add: owed_def l(1))
    qed
    finally show ?thesis using out_l by (simp add: owed_by_def)
  qed
  have link: "liq_link s' q" if "kv_get (li_store s') j = Some q" for j q
    using that I(9) [OF lq] I(9) [of j q] by (auto simp: st liq_link_def split: if_splits)
  have "lending_inv s'"
    unfolding lending_inv_def owed pools(3) using I(2,7,11,12,13) liq lok' link H(2)
    by (auto simp: s' t pools_ok_def auths_ok_def)
  moreover have "repayment_due s' = repayment_due s" by (simp add: fun_eq_iff repayment_due_def s' t GetRepayment_def)
  moreover have "kv_sum (debt_held x) (li_store s') = kv_sum (debt_held x) (li_store s) - (if Denom ?d = x then Amount ?d else 0)" for x
    using held_SetLiquidation [OF I(6), of ?q lq s' x] lq id 1(3) st(1) by (simp add: debt_held_def)
  moreover have "kv_sum (pool_holds x) ps = kv_sum (pool_holds x) (ln_pools s) + (if Denom ?d = x then Amount ?d - fee else 0)" for x
    using P(5) [of x] den d(1) by (simp add: t GetPool_def)
  ultimately show ?thesis
    by (simp add: keeps_def gaps_kept_def lending_gap_def escrow_gap_def liquidation_gap_def lifecycle_refl s' t H(4))
qed

lemma liquidation_callback_keeps:
  assumes "bank_ok E" "dec_ok E" "lending_inv s" "liquidation_SigningCompletedHandler E scoped sigs s = Inr s'"
  shows "keeps E s s'"
  by (rule HandleSettlementSignatures_keeps [OF assms(1-3) assms(4) [unfolded liquidation_SigningCompletedHandler_def]])

lemma liquidation_params_keeps:
  assumes inv: "lending_inv s" and run: "liquidation_UpdateParams E authority signer p s = Inr s'"
  shows "keeps E s s'"
proof -
  have s': "s' = s\<lparr>li_params := p\<rparr>" using run by (auto simp: liquidation_UpdateParams_def bind_res_eq_Inr split: if_splits)
  have "liq_inv s'" by (rule liquidation_UpdateParams_inv [OF lending_invD(3) [OF inv] run])
  moreover have "loan_ok s' = loan_ok s" "liq_link s' = liq_link s" "GetPool s' = GetPool s" "pools_ok s' = pools_ok s"
    "auths_ok s' = auths_ok s" "repayment_due s' = repayment_due s"
    by (simp_all add: fun_eq_iff loan_ok_def liq_link_def HasPool_def GetPool_def s' auths_ok_def pools_ok_def
        repayment_due_def GetRepayment_def)
  moreover have "owed s' j = owed s j" for j by (rule owed_cong) (simp_all add: s')
  ultimately show ?thesis using inv
    by (simp add: lending_inv_def keeps_def gaps_kept_def lending_gap_def escrow_gap_def liquidation_gap_def lifecycle_refl s')
qed

end
