(* ===== verification/Lending_Reach.thy ===== *)
theory Lending_Reach
  imports Lending_Settle_Ops
begin

text \<open>
  The lending protocol as a transition system: one rule per message, block handler and callback of
  the lending, liquidation and DLC modules, and the writes of the modules below (prices, fee rate,
  the status of signing requests, transfers of other accounts). A rejected message leaves no state, so only the successful
  runs are steps. Every step keeps the invariant and the books of \<open>Lending_Books\<close>, so every
  reachable state has them.
\<close>

inductive lending_step ::
  "('b, 'e) lenv_scheme \<Rightarrow> string \<Rightarrow> ('b, 'x) lending_scheme \<Rightarrow> ('b, 'x) lending_scheme \<Rightarrow> bool"
  for E :: "('b, 'e) lenv_scheme" and gov :: string where
  create_pool: "CreatePool E gov signer i c s = Inr s' \<Longrightarrow> lending_step E gov s s'"
| add_liquidity: "AddLiquidity E ma s = Inr s' \<Longrightarrow> lending_step E gov s s'"
| remove_liquidity: "RemoveLiquidity E mr s = Inr s' \<Longrightarrow> lending_step E gov s s'"
| update_pool_config: "UpdatePoolConfig E gov signer i c s = Inr s' \<Longrightarrow> lending_step E gov s s'"
| lending_params: "lending_UpdateParams E gov signer lp s = Inr s' \<Longrightarrow> lending_step E gov s s'"
| liquidation_params: "liquidation_UpdateParams E gov signer qp s = Inr s' \<Longrightarrow> lending_step E gov s s'"
| register_referrer: "RegisterReferrer E gov signer r s = Inr s' \<Longrightarrow> lending_step E gov s s'"
| update_referrer: "UpdateReferrer E gov signer r s = Inr s' \<Longrightarrow> lending_step E gov s s'"
| apply_loan: "Apply E now mp s = Inr s' \<Longrightarrow> lending_step E gov s s'"
| submit_cets: "SubmitCets E height now mc s = Inr s' \<Longrightarrow> lending_step E gov s s'"
| submit_deposit: "SubmitDepositTransaction E md s = Inr s' \<Longrightarrow> lending_step E gov s s'"
| redeem: "Redeem E now me s = Inr s' \<Longrightarrow> lending_step E gov s s'"
| repay: "Repay E now my s = Inr s' \<Longrightarrow> lending_step E gov s s'"
| liquidate: "Liquidate E now ml s = Inr s' \<Longrightarrow> price_ok (parse_dec E) s \<Longrightarrow> GetLiquidationRecordId s \<noteq> - 1 \<Longrightarrow>
    lending_step E gov s s'"
| lending_begin: "lending_BeginBlocker E s = Inr s' \<Longrightarrow> lending_step E gov s s'"
| lending_end: "lending_EndBlocker E now s = Inr s' \<Longrightarrow> unat (GetLiquidationId s) + length (ln_loans s) < 2 ^ 64 \<Longrightarrow>
    lending_step E gov s s'"
| liquidation_begin: "liquidation_BeginBlocker E s = Inr s' \<Longrightarrow> lending_step E gov s s'"
| liquidation_end: "liquidation_EndBlocker E now s = Inr s' \<Longrightarrow> lending_step E gov s s'"
| lending_signed: "lending_SigningCompletedHandler E scoped intent sigs s = Inr s' \<Longrightarrow> lending_step E gov s s'"
| liquidation_signed: "liquidation_SigningCompletedHandler E scoped sigs s = Inr s' \<Longrightarrow> lending_step E gov s s'"
| dlc_signed: "dlc_SigningCompletedHandler now scoped sigs s = Inr s' \<Longrightarrow> lending_step E gov s s'"
| dkg_completed: "DKGCompletedHandler now dkg ty intent pks s = Inr s' \<Longrightarrow> lending_step E gov s s'"
| set_price: "lending_step E gov s (SetPrice symbol price s)"
| set_fee_rate: "lending_step E gov s (SetFeeRate height rate s)"
| set_headers: "lending_step E gov s (snd (SetBlockHeaders hs s))"
| bridge_params: "lending_step E gov s (s\<lparr>ch_fee_validity := v, ch_deposit_depth := d\<rparr>)"
| signing_done: "lending_step E gov s (SetSigningRequest r s)"
| transfers: "(\<And>m d. balance E b (ModuleAcc m) d = balance E (ch_bank s) (ModuleAcc m) d) \<Longrightarrow>
    lending_step E gov s (s\<lparr>ch_bank := b\<rparr>)"

text \<open>The empty chain the protocol starts from.\<close>

definition lending_fresh :: "('b, 'x) lending_scheme \<Rightarrow> bool" where
  "lending_fresh s \<longleftrightarrow> ln_pools s = [] \<and> ln_loans s = [] \<and> ln_by_status s = [] \<and> ln_auth_ids s = []
   \<and> ln_referrers s = [] \<and> li_store s = [] \<and> li_by_status s = [] \<and> li_records s = [] \<and> li_records_by s = []
   \<and> liq_params_ok (li_params s)"

inductive lending_reachable ::
  "('b, 'e) lenv_scheme \<Rightarrow> string \<Rightarrow> ('b, 'x) lending_scheme \<Rightarrow> ('b, 'x) lending_scheme \<Rightarrow> bool"
  for E :: "('b, 'e) lenv_scheme" and gov :: string and s0 :: "('b, 'x) lending_scheme" where
  start: "lending_reachable E gov s0 s0"
| step: "lending_reachable E gov s0 s \<Longrightarrow> lending_step E gov s s' \<Longrightarrow> lending_reachable E gov s0 s'"

text \<open>The hypotheses on the third-party operations.\<close>

definition env_ok :: "('b, 'e) lenv_scheme \<Rightarrow> bool" where
  "env_ok E \<longleftrightarrow> bank_ok E \<and> dec_ok E \<and> blocks_ok E"

lemma lending_fresh_inv: "lending_fresh s \<Longrightarrow> lending_inv s"
  by (simp add: lending_fresh_def lending_inv_def pools_ok_def index_ok_def liq_inv_def records_ok_def auths_ok_def
      referrer_ok_def owed_def GetPool_def zero_pool_def)

lemma store_headers_plain:
  "books_same s (snd (store_headers hs best s)) \<and> ch_bank (snd (store_headers hs best s)) = ch_bank s
   \<and> ln_params (snd (store_headers hs best s)) = ln_params s"
  by (induction hs best s rule: store_headers.induct) (simp_all add: books_same_def SetBlockHeader_def SetBestBlockHeader_def)

lemma SetBlockHeaders_plain:
  "books_same s (snd (SetBlockHeaders hs s))" "ch_bank (snd (SetBlockHeaders hs s)) = ch_bank s"
  "ln_params (snd (SetBlockHeaders hs s)) = ln_params s"
  using store_headers_plain [of s "sort_key bh_Height hs" "GetBestBlockHeader s"]
  by (auto simp: SetBlockHeaders_def books_same_refl split: prod.splits bool.splits)

lemma lending_step_keeps:
  assumes env: "env_ok E" and inv: "lending_inv s" and step: "lending_step E gov s s'"
  shows "keeps E s s'"
proof -
  have ok: "bank_ok E" "dec_ok E" "blocks_ok E" using env by (simp_all add: env_ok_def)
  from step inv show ?thesis
  proof cases
    case create_pool
    then show ?thesis by (rule CreatePool_keeps [OF inv])
  next
    case add_liquidity
    then show ?thesis by (rule AddLiquidity_keeps [OF ok(1) inv])
  next
    case remove_liquidity
    then show ?thesis by (rule RemoveLiquidity_keeps [OF ok(1) inv])
  next
    case update_pool_config
    then show ?thesis by (rule UpdatePoolConfig_keeps [OF inv])
  next
    case lending_params
    then show ?thesis using keeps_plain [OF inv] lending_params_plain by blast
  next
    case liquidation_params
    then show ?thesis by (rule liquidation_params_keeps [OF inv])
  next
    case register_referrer
    then show ?thesis by (rule RegisterReferrer_keeps [OF inv])
  next
    case update_referrer
    then show ?thesis by (rule UpdateReferrer_keeps [OF inv])
  next
    case apply_loan
    then show ?thesis by (rule Apply_keeps [OF ok(1,2) inv])
  next
    case submit_cets
    then show ?thesis by (rule SubmitCets_keeps [OF inv])
  next
    case submit_deposit
    then show ?thesis by (rule SubmitDepositTransaction_keeps [OF inv])
  next
    case redeem
    then show ?thesis by (rule Redeem_keeps [OF inv])
  next
    case repay
    then show ?thesis by (rule Repay_keeps [OF ok(1) inv])
  next
    case liquidate
    then show ?thesis by (intro Liquidate_keeps [OF ok(1,2) inv])
  next
    case lending_begin
    then show ?thesis by (rule lending_BeginBlocker_keeps [OF ok(2,3) inv])
  next
    case lending_end
    then show ?thesis by (intro lending_EndBlocker_keeps [OF ok(1,2) inv])
  next
    case liquidation_begin
    then show ?thesis by (rule liquidation_BeginBlocker_keeps [OF inv])
  next
    case liquidation_end
    then show ?thesis by (rule liquidation_EndBlocker_keeps [OF inv])
  next
    case lending_signed
    then show ?thesis using keeps_plain [OF inv] lending_callback_plain by blast
  next
    case liquidation_signed
    then show ?thesis by (rule liquidation_callback_keeps [OF ok(1,2) inv])
  next
    case dlc_signed
    then show ?thesis using keeps_plain [OF inv] dlc_callback_plain by blast
  next
    case dkg_completed
    then show ?thesis using keeps_plain [OF inv] DKGCompletedHandler_plain by blast
  next
    case set_price
    then show ?thesis by (intro keeps_plain [OF inv]) (simp_all add: SetPrice_def books_same_def)
  next
    case set_fee_rate
    then show ?thesis by (intro keeps_plain [OF inv]) (simp_all add: SetFeeRate_def books_same_def)
  next
    case set_headers
    then show ?thesis by (intro keeps_plain [OF inv]) (simp_all add: SetBlockHeaders_plain)
  next
    case bridge_params
    then show ?thesis by (intro keeps_plain [OF inv]) (simp_all add: books_same_def)
  next
    case signing_done
    then show ?thesis
      by (intro keeps_plain [OF inv]) (simp_all add: books_same_def SetSigningRequest_def SetSigningRequestStatus_def
          RemoveSigningRequestStatus_def Let_def)
  next
    case transfers
    then show ?thesis by (intro keeps_same [OF inv]) (simp_all add: books_same_def)
  qed
qed

lemma lending_reachable_keeps:
  assumes "env_ok E" "lending_fresh s0" "lending_reachable E gov s0 s"
  shows "keeps E s0 s"
  using assms(3)
  by induction (blast intro: keeps_refl lending_fresh_inv [OF assms(2)] keeps_trans lending_step_keeps [OF assms(1)] keepsD)+

lemma lending_reachable_inv:
  assumes "env_ok E" "lending_fresh s0" "lending_reachable E gov s0 s"
  shows "lending_inv s"
  by (rule keepsD [OF lending_reachable_keeps [OF assms]])

text \<open>A run between two reachable states.\<close>

lemma lending_run_keeps:
  assumes "env_ok E" "lending_inv s" "(lending_step E gov)\<^sup>*\<^sup>* s s'"
  shows "keeps E s s'"
  using assms(3)
  by induction (blast intro: keeps_refl assms(2) keeps_trans lending_step_keeps [OF assms(1)] keepsD)+

end
