(* ===== verification/Node_Env.thy ===== *)
theory Node_Env
  imports Lending_Reach
begin

text \<open>
  The third-party operations the modules for threshold signing and discreet log contracts use beyond those of the lending
  protocol: \<open>ed25519_verify\<close> takes key, message and signature, \<open>taproot_output_key\<close> is the serialized output
  key of an internal key and a script root, \<open>MaxMonikerLength\<close> is the constant of the staking module, \<open>rand_perm\<close>
  is \<open>Perm\<close> of a generator of \<open>math/rand\<close> seeded with its first argument.
\<close>

record 'b nenv = "'b lenv" +
  ed25519_verify :: "string \<Rightarrow> string \<Rightarrow> string \<Rightarrow> bool"
  taproot_output_key :: "string \<Rightarrow> string \<Rightarrow> string res"
  MaxMonikerLength :: nat
  rand_perm :: "int \<Rightarrow> nat \<Rightarrow> nat list"

end
