(* ===== verification/Lending_Sample.thy ===== *)
theory Lending_Sample
  imports Node_Env Sample_Env
begin

text \<open>
  A run of the lending protocol on a concrete environment: a pool is created and funded, a loan is
  applied for, secured by a deposit and disbursed; then it is repaid, or the price falls and the
  collateral is liquidated and settled. The witnesses of the properties are states of this run.
\<close>

section \<open>The environment\<close>

text \<open>
  A transaction is named by its lock time; the encoding of a PSBT is that name. Prices are written
  as whole numbers, and a year has twelve blocks. The Bitcoin chain has one block with one transaction.
\<close>

definition sample_tx :: "int \<Rightarrow> tx_in list \<Rightarrow> tx_out list \<Rightarrow> msg_tx" where
  "sample_tx n ins outs = \<lparr>mt_Version = 2, mt_TxIn = ins, mt_TxOut = outs, mt_LockTime = n\<rparr>"

definition sample_input :: "tx_out option \<Rightarrow> psbt_input" where
  "sample_input w = \<lparr>pi_WitnessUtxo = w, pi_InternalKey = '''', pi_LeafScripts = [(''cb'', ''leaf'')], pi_ScriptSigs = [], pi_KeySig = '''',
     pi_SighashType = 0\<rparr>"

definition vault_out :: tx_out where
  "vault_out = \<lparr>to_Value = 10 ^ 8, to_PkScript = ''pay vault''\<rparr>"

definition spend_vault :: "int \<Rightarrow> tx_out list \<Rightarrow> psbt" where
  "spend_vault n outs = \<lparr>ps_Tx = sample_tx n [\<lparr>ti_Hash = ''1'', ti_Index = 0, ti_Sequence = 2 ^ 32 - 1, ti_Witness = []\<rparr>] outs,
     ps_Inputs = [sample_input (Some vault_out)]\<rparr>"

definition sample_psbt :: "string \<Rightarrow> psbt res" where
  "sample_psbt x = (if x = ''1'' then Inr \<lparr>ps_Tx = sample_tx 1 [] [vault_out], ps_Inputs = []\<rparr>
     else if x = ''2'' then Inr (spend_vault 2 [\<lparr>to_Value = 99990000, to_PkScript = ''pay '' @ fst (hex_decode ''dc'')\<rparr>])
     else if x = ''3'' then Inr (spend_vault 3 [\<lparr>to_Value = 99990000, to_PkScript = ''pay bob''\<rparr>])
     else if x = ''0'' then Inr \<lparr>ps_Tx = sample_tx 0 [] [], ps_Inputs = [sample_input None]\<rparr>
     else Inl (External ''psbt''))"

definition sample_price :: "string \<Rightarrow> dec option" where
  "sample_price x = map_option (\<lambda>n. to_dec (int n)) (parse_digits 0 x)"

fun rounded_power :: "dec \<Rightarrow> nat \<Rightarrow> dec \<Rightarrow> dec" where
  "rounded_power d 0 a = a"
| "rounded_power d (Suc n) a = rounded_power d n (round_div (a * d) (10 ^ 18))"

definition sample_lenv :: "ledger nenv" where
  "sample_lenv = \<lparr>send_coins = ledger_send, mint_coins = ledger_mint, burn_coins = ledger_burn,
     balance = ledger_balance, has_supply = ledger_has_supply,
     bech32_ok = (\<lambda>a. a \<noteq> ''''), valid_denom = (\<lambda>d. d \<noteq> ''''),
     dec_mul = (\<lambda>a b. round_div (a * b) (10 ^ 18)),
     dec_quo = (\<lambda>a b. tdiv (a * 10 ^ 18) b), dec_quo_int = tdiv,
     dec_power = (\<lambda>d n. rounded_power d n dec_one),
     tx_hash = (\<lambda>tx. int_string (mt_LockTime tx)),
     tx_decode = (\<lambda>x. case sample_psbt x of Inl e \<Rightarrow> Inl e | Inr p \<Rightarrow> Inr (ps_Tx p)), tx_sane = (\<lambda>_. True),
     hash_bytes = (\<lambda>h. h), merkle_branch = (\<lambda>a b. a), hash_ok = (\<lambda>h. h \<noteq> ''''),
     mempool_vsize = (\<lambda>_. 200), tx_weight = (\<lambda>_. 800), relay_dust = (\<lambda>out. to_Value out < 546),
     valid_btc_address = (\<lambda>a. a \<noteq> ''''),
     pk_script_of = (\<lambda>a. if a = '''' then Inl (External ''address'') else Inr (''pay '' @ a)),
     taproot_script = (\<lambda>k. Inr (''pay '' @ k)), psbt_parse = sample_psbt,
     psbt_encode = (\<lambda>p. Inr (int_string (mt_LockTime (ps_Tx p)))),
     psbt_new = (\<lambda>tx. Inr \<lparr>ps_Tx = tx, ps_Inputs = map (\<lambda>_. sample_input None) (mt_TxIn tx)\<rparr>),
     psbt_finalize = Inr, psbt_extract = (\<lambda>p. Inr (ps_Tx p)), psbt_fee = (\<lambda>_. Inr 1000),
     tx_serialize = (\<lambda>tx. Inr (int_string (mt_LockTime tx))),
     taproot_sighash = (\<lambda>p i. Inr ''key hash''), tapscript_sighash = (\<lambda>p i sc. Inr ''leaf hash''),
     leaf_hash = (\<lambda>sc. sc), base64 = (\<lambda>x. x),
     schnorr_verify = (\<lambda>sig h k. sig \<noteq> ''''), adaptor_verify = (\<lambda>sig h k point. sig \<noteq> ''''),
     parse_dec = sample_price, outcome_digest = (\<lambda>x. x),
     blocks_per_year = 12, round_int = (\<lambda>d. (d + 5 * 10 ^ 17) div 10 ^ 18), float_g = (\<lambda>_. ''0.1''),
     decimal_string = (\<lambda>d. int_string (d div 10 ^ 18)),
     CreateVaultAddress = (\<lambda>_ _ _ _. Inr ''vault''),
     BuildDLCMeta = (\<lambda>_ _ _ _. Inr (zero_dlc_meta\<lparr>dm_LiquidationScript := \<lparr>ls_Script = ''aa'', ls_ControlBlock = ''ab''\<rparr>,
       dm_RepaymentScript := \<lparr>ls_Script = ''ba'', ls_ControlBlock = ''bb''\<rparr>\<rparr>)),
     GetSignaturePoint = (\<lambda>pk nonce h. Inr (pk @ nonce @ h)), sha256 = (\<lambda>x. x), Adapt = (\<lambda>sig secret. sig),
     pubkey_ok = (\<lambda>k. k \<noteq> ''''), signature_ok = (\<lambda>x. x \<noteq> ''''), adaptor_signature_ok = (\<lambda>x. x \<noteq> ''''),
     ed25519_verify = (\<lambda>key msg sig. key \<noteq> [] \<and> take 32 sig = key),
     taproot_output_key = (\<lambda>key root. Inr (key @ root)), MaxMonikerLength = 70, rand_perm = (\<lambda>seed n. [0..<n])\<rparr>"

lemma sample_lenv_simps [simp]:
  "send_coins sample_lenv = ledger_send"
  "mint_coins sample_lenv = ledger_mint"
  "burn_coins sample_lenv = ledger_burn"
  "balance sample_lenv = ledger_balance"
  "has_supply sample_lenv = ledger_has_supply"
  "bech32_ok sample_lenv = (\<lambda>a. a \<noteq> '''')"
  "valid_denom sample_lenv = (\<lambda>d. d \<noteq> '''')"
  "dec_mul sample_lenv = (\<lambda>a b. round_div (a * b) (10 ^ 18))"
  "dec_quo sample_lenv = (\<lambda>a b. tdiv (a * 10 ^ 18) b)"
  "dec_quo_int sample_lenv = tdiv"
  "dec_power sample_lenv = (\<lambda>d n. rounded_power d n dec_one)"
  "tx_hash sample_lenv = (\<lambda>tx. int_string (mt_LockTime tx))"
  "hash_ok sample_lenv = (\<lambda>h. h \<noteq> '''')"
  "mempool_vsize sample_lenv = (\<lambda>_. 200)"
  "tx_weight sample_lenv = (\<lambda>_. 800)"
  "relay_dust sample_lenv = (\<lambda>out. to_Value out < 546)"
  "valid_btc_address sample_lenv = (\<lambda>a. a \<noteq> '''')"
  "pk_script_of sample_lenv = (\<lambda>a. if a = '''' then Inl (External ''address'') else Inr (''pay '' @ a))"
  "taproot_script sample_lenv = (\<lambda>k. Inr (''pay '' @ k))"
  "psbt_parse sample_lenv = sample_psbt"
  "psbt_encode sample_lenv = (\<lambda>p. Inr (int_string (mt_LockTime (ps_Tx p))))"
  "psbt_new sample_lenv = (\<lambda>tx. Inr \<lparr>ps_Tx = tx, ps_Inputs = map (\<lambda>_. sample_input None) (mt_TxIn tx)\<rparr>)"
  "psbt_finalize sample_lenv = Inr"
  "psbt_extract sample_lenv = (\<lambda>p. Inr (ps_Tx p))"
  "psbt_fee sample_lenv = (\<lambda>_. Inr 1000)"
  "tx_serialize sample_lenv = (\<lambda>tx. Inr (int_string (mt_LockTime tx)))"
  "taproot_sighash sample_lenv = (\<lambda>p i. Inr ''key hash'')"
  "tapscript_sighash sample_lenv = (\<lambda>p i sc. Inr ''leaf hash'')"
  "leaf_hash sample_lenv = (\<lambda>sc. sc)"
  "base64 sample_lenv = (\<lambda>x. x)"
  "schnorr_verify sample_lenv = (\<lambda>sig h k. sig \<noteq> '''')"
  "adaptor_verify sample_lenv = (\<lambda>sig h k point. sig \<noteq> '''')"
  "parse_dec sample_lenv = sample_price"
  "outcome_digest sample_lenv = (\<lambda>x. x)"
  "blocks_per_year sample_lenv = 12"
  "round_int sample_lenv = (\<lambda>d. (d + 5 * 10 ^ 17) div 10 ^ 18)"
  "float_g sample_lenv = (\<lambda>_. ''0.1'')"
  "decimal_string sample_lenv = (\<lambda>d. int_string (d div 10 ^ 18))"
  "CreateVaultAddress sample_lenv = (\<lambda>_ _ _ _. Inr ''vault'')"
  "BuildDLCMeta sample_lenv = (\<lambda>_ _ _ _. Inr (zero_dlc_meta\<lparr>dm_LiquidationScript := \<lparr>ls_Script = ''aa'', ls_ControlBlock = ''ab''\<rparr>, dm_RepaymentScript := \<lparr>ls_Script = ''ba'', ls_ControlBlock = ''bb''\<rparr>\<rparr>))"
  "GetSignaturePoint sample_lenv = (\<lambda>pk nonce h. Inr (pk @ nonce @ h))"
  "sha256 sample_lenv = (\<lambda>x. x)"
  "Adapt sample_lenv = (\<lambda>sig secret. sig)"
  "pubkey_ok sample_lenv = (\<lambda>k. k \<noteq> '''')"
  "signature_ok sample_lenv = (\<lambda>x. x \<noteq> '''')"
  "adaptor_signature_ok sample_lenv = (\<lambda>x. x \<noteq> '''')"
  "tx_decode sample_lenv = (\<lambda>x. case sample_psbt x of Inl e \<Rightarrow> Inl e | Inr p \<Rightarrow> Inr (ps_Tx p))"
  "tx_sane sample_lenv = (\<lambda>_. True)"
  "hash_bytes sample_lenv = (\<lambda>h. h)"
  "merkle_branch sample_lenv = (\<lambda>a b. a)"
  "ed25519_verify sample_lenv = (\<lambda>key msg sig. key \<noteq> [] \<and> take 32 sig = key)"
  "taproot_output_key sample_lenv = (\<lambda>key root. Inr (key @ root))"
  "MaxMonikerLength sample_lenv = 70"
  "rand_perm sample_lenv = (\<lambda>seed n. [0..<n])"
  by (simp_all add: sample_lenv_def)

lemma sample_lenv_ok: "env_ok sample_lenv"
proof -
  have "bank_ok sample_lenv" using sample_bank_ok unfolding bank_ok_def by (simp add: sample_env_def sample_lenv_def)
  moreover have "dec_ok sample_lenv" using sample_dec_ok unfolding dec_ok_def by (simp add: sample_env_def sample_lenv_def)
  ultimately show ?thesis by (simp add: env_ok_def blocks_ok_def sample_lenv_def)
qed

section \<open>The run\<close>

definition sample_config :: pool_config where
  "sample_config = \<lparr>
     pc_CollateralAsset = \<lparr>am_Denom = ''sat'', am_Symbol = ''BTC'', am_Decimals = 8, am_PriceSymbol = ''BTC'', am_IsBasePriceAsset = True\<rparr>,
     pc_LendingAsset = \<lparr>am_Denom = ''uusdc'', am_Symbol = ''USDC'', am_Decimals = 6, am_PriceSymbol = ''USDC'', am_IsBasePriceAsset = False\<rparr>,
     pc_SupplyCap = 0, pc_BorrowCap = 0, pc_MinBorrowAmount = 0, pc_MaxBorrowAmount = 0,
     pc_Tranches = [\<lparr>tc_Maturity = 31536000, tc_BorrowAPR = 10 ^ 17\<rparr>],
     pc_RequestFee = \<lparr>Denom = ''ubtw'', Amount = 10\<rparr>, pc_OriginationFeeFactor = 10 ^ 16, pc_ReserveFactor = 10 ^ 17,
     pc_MaxLtv = 6 * 10 ^ 17, pc_LiquidationThreshold = 8 * 10 ^ 17, pc_Paused = False\<rparr>"

definition sample_header :: block_header where
  "sample_header = zero_header\<lparr>bh_Hash := ''b'', bh_Height := 7, bh_MerkleRoot := ''1''\<rparr>"

definition s_genesis :: "ledger lending" where
  "s_genesis = \<lparr>ch_bank = [(Account ''alice'', ''uusdc'', 10 ^ 11), (Account ''bob'', ''uusdc'', 10 ^ 10), (Account ''bob'', ''ubtw'', 100),
       (Account ''carol'', ''uusdc'', 10 ^ 11)],
     ch_prices = [], ch_headers = \<lparr>hs_headers = [(''b'', sample_header)], hs_by_height = [(7, ''b'')], hs_best = Some sample_header\<rparr>,
     ch_fee_rate = \<lparr>fr_Value = 0, fr_Height = 0\<rparr>, ch_fee_validity = 100, ch_deposit_depth = 1,
     tss_request_id = None, tss_requests = [], tss_by_status = [],
     dl_oracle_id = None, dl_dcm_id = None, dl_event_id = None, dl_pending_count = 0, dl_attestation_id = None,
     dl_oracles = [], dl_oracle_by_key = [], dl_dcms = [], dl_dcm_by_key = [], dl_nonce_index = [], dl_nonces = [],
     dl_nonce_values = [], dl_events = [], dl_event_status = [], dl_pending = [], dl_attestations = [], dl_attestation_by_event = [],
     li_params = liquidation_DefaultParams ''gov'', li_id = None, li_record_id = None, li_store = [], li_by_status = [],
     li_records = [], li_records_by = [],
     ln_params = lending_DefaultParams ''gov'', ln_redemption_id = None, ln_pools = [], ln_loans = [], ln_by_status = [],
     ln_by_address = [], ln_by_oracle = [], ln_liq_queue = [], ln_auth_ids = [], ln_deposits = [], ln_repayments = [],
     ln_dlc_metas = [], ln_redemptions = [], ln_referrers = []\<rparr>"

lemma s_genesis_simps [simp]:
  "ch_bank s_genesis = [(Account ''alice'', ''uusdc'', 10 ^ 11), (Account ''bob'', ''uusdc'', 10 ^ 10), (Account ''bob'', ''ubtw'', 100), (Account ''carol'', ''uusdc'', 10 ^ 11)]"
  "ch_prices s_genesis = []"
  "ch_fee_rate s_genesis = \<lparr>fr_Value = 0, fr_Height = 0\<rparr>"
  "ch_headers s_genesis = \<lparr>hs_headers = [(''b'', sample_header)], hs_by_height = [(7, ''b'')], hs_best = Some sample_header\<rparr>"
  "ch_deposit_depth s_genesis = 1"
  "ch_fee_validity s_genesis = 100"
  "tss_request_id s_genesis = None"
  "tss_requests s_genesis = []"
  "tss_by_status s_genesis = []"
  "dl_oracle_id s_genesis = None"
  "dl_dcm_id s_genesis = None"
  "dl_event_id s_genesis = None"
  "dl_pending_count s_genesis = 0"
  "dl_attestation_id s_genesis = None"
  "dl_oracles s_genesis = []"
  "dl_oracle_by_key s_genesis = []"
  "dl_dcms s_genesis = []"
  "dl_dcm_by_key s_genesis = []"
  "dl_nonce_index s_genesis = []"
  "dl_nonces s_genesis = []"
  "dl_nonce_values s_genesis = []"
  "dl_events s_genesis = []"
  "dl_event_status s_genesis = []"
  "dl_pending s_genesis = []"
  "dl_attestations s_genesis = []"
  "dl_attestation_by_event s_genesis = []"
  "li_params s_genesis = liquidation_DefaultParams ''gov''"
  "li_id s_genesis = None"
  "li_record_id s_genesis = None"
  "li_store s_genesis = []"
  "li_by_status s_genesis = []"
  "li_records s_genesis = []"
  "li_records_by s_genesis = []"
  "ln_params s_genesis = lending_DefaultParams ''gov''"
  "ln_redemption_id s_genesis = None"
  "ln_pools s_genesis = []"
  "ln_loans s_genesis = []"
  "ln_by_status s_genesis = []"
  "ln_by_address s_genesis = []"
  "ln_by_oracle s_genesis = []"
  "ln_liq_queue s_genesis = []"
  "ln_auth_ids s_genesis = []"
  "ln_deposits s_genesis = []"
  "ln_repayments s_genesis = []"
  "ln_dlc_metas s_genesis = []"
  "ln_redemptions s_genesis = []"
  "ln_referrers s_genesis = []"
  by (simp_all add: s_genesis_def)

text \<open>The messages of the run.\<close>

definition sample_deposit :: msg_add_liquidity where
  "sample_deposit = \<lparr>mal_Lender = ''alice'', mal_PoolId = ''main'', mal_Amount = \<lparr>Denom = ''uusdc'', Amount = 10 ^ 11\<rparr>\<rparr>"

definition sample_apply :: msg_apply where
  "sample_apply = \<lparr>ma_Borrower = ''bob'', ma_BorrowerPubkey = ''b0'', ma_BorrowerAuthPubkey = ''b1'', ma_PoolId = ''main'',
     ma_BorrowAmount = \<lparr>Denom = ''uusdc'', Amount = 3 * 10 ^ 10\<rparr>, ma_Maturity = 31536000, ma_DCMId = 1, ma_ReferralCode = ''''\<rparr>"

definition sample_cets :: msg_submit_cets where
  "sample_cets = \<lparr>msc_Borrower = ''bob'', msc_LoanId = ''vault'', msc_DepositTxs = [''1''],
     msc_LiquidationCet = ''2'', msc_LiquidationAdaptorSignatures = [''51''], msc_DefaultLiquidationAdaptorSignatures = [''52''],
     msc_RepaymentCet = ''3'', msc_RepaymentSignatures = [''53'']\<rparr>"

definition sample_deposit_tx :: msg_submit_deposit where
  "sample_deposit_tx = \<lparr>msd_Relayer = ''relayer'', msd_Vault = ''vault'', msd_DepositTx = ''MQ=='', msd_BlockHash = ''b'', msd_Proof = [''AA=='']\<rparr>"

text \<open>The states of the run, each by what changed since the one before.\<close>

definition pool_new :: lending_pool where
  "pool_new = \<lparr>
     po_Id = ''main'', po_Supply = \<lparr>Denom = ''uusdc'', Amount = 0\<rparr>, po_AvailableAmount = 0,
     po_BorrowedAmount = 0, po_TotalBorrowed = 0, po_ReserveAmount = 0, po_TotalReserve = 0,
     po_TotalYTokens = \<lparr>Denom = ''ymain'', Amount = 0\<rparr>, po_Tranches = [\<lparr>pt_Maturity = 31536000,
     pt_BorrowIndex = 1000000000000000000, pt_TotalBorrowed = 0, pt_TotalReserve = 0\<rparr>],
     po_Config = sample_config, po_Status = INACTIVE\<rparr>"

definition s_pool :: "ledger lending" where
  "s_pool = s_genesis\<lparr>
     ln_pools := [(''main'', pool_new)]\<rparr>"

definition pool_funded :: lending_pool where
  "pool_funded = pool_new\<lparr>
     po_Supply := \<lparr>Denom = ''uusdc'', Amount = 100000000000\<rparr>, po_AvailableAmount := 100000000000,
     po_TotalYTokens := \<lparr>Denom = ''ymain'', Amount = 100000000000\<rparr>, po_Status := ACTIVE\<rparr>"

definition s_funded :: "ledger lending" where
  "s_funded = s_pool\<lparr>
     ch_bank := [(Account ''alice'', ''ymain'', 100000000000), (lending_acc, ''ymain'', - 100000000000), (lending_acc,
     ''ymain'', 100000000000), (lending_acc, ''uusdc'', 100000000000), (Account ''alice'', ''uusdc'', - 100000000000)]
     @ ch_bank s_pool,
     ln_pools := [(''main'', pool_funded)]\<rparr>"

definition s_dcm :: "ledger lending" where
  "s_dcm = s_funded\<lparr>
     dl_dcm_id := Some 1,
     dl_dcms := [(1, \<lparr>dcm_Id = 1, dcm_DkgId = 1, dcm_Pubkey = ''dc'', dcm_Time = 0,
     dcm_Enabled = True\<rparr>)],
     dl_dcm_by_key := [([char_of (220 :: nat)], 1)]\<rparr>"

definition event_event :: dlc_event where
  "event_event = \<lparr>
     ev_Id = 1, ev_Type = EVENT_LENDING, ev_Nonce = ''0b'', ev_Pubkey = ''0a'', ev_Description = [], ev_Outcomes = [],
     ev_HasTriggered = False, ev_OutcomeIndex = - 1, ev_PublishAt = 0, ev_TriggerAt = 0\<rparr>"

definition s_event :: "ledger lending" where
  "s_event = s_dcm\<lparr>
     dl_oracle_id := Some 1,
     dl_event_id := Some 1,
     dl_pending_count := 1,
     dl_oracles := [(1, \<lparr>or_Id = 1, or_DkgId = 2, or_Pubkey = ''0a'', or_Time = 0, or_Enabled = True\<rparr>)],
     dl_oracle_by_key := [([char_of (10 :: nat)], 1)],
     dl_nonce_index := [(1, 1)],
     dl_nonces := [((1, 1), \<lparr>no_Index = 1, no_Nonce = ''0b'', no_OraclePubkey = ''0a'', no_Time = 0\<rparr>)],
     dl_nonce_values := [([char_of (11 :: nat)], ())],
     dl_events := [(1, event_event)],
     dl_event_status := [((False, 1), ())],
     dl_pending := [(1, ())]\<rparr>"

definition s_ready :: "ledger lending" where
  "s_ready = s_event\<lparr>
     ch_prices := [(''BTCUSDC'', ''60000'')],
     ch_fee_rate := \<lparr>fr_Value = 2, fr_Height = 1\<rparr>\<rparr>"

definition event_applied :: dlc_event where
  "event_applied = event_event\<lparr>
     ev_Description := ''DLC event for loan vault'', ev_Outcomes := [[], ''31536000'', ''Repaid'']\<rparr>"

definition loan_applied :: loan where
  "loan_applied = \<lparr>
     lo_VaultAddress = ''vault'', lo_Borrower = ''bob'', lo_BorrowerPubKey = ''b0'', lo_BorrowerAuthPubKey = ''b1'',
     lo_DCM = ''dc'', lo_MaturityTime = 31536000, lo_FinalTimeout = 63072000, lo_PoolId = ''main'',
     lo_BorrowAmount = \<lparr>Denom = ''uusdc'', Amount = 30000000000\<rparr>,
     lo_RequestFee = \<lparr>Denom = ''ubtw'', Amount = 10\<rparr>, lo_OriginationFee = 300000000, lo_Interest = 0,
     lo_ProtocolFee = 0, lo_Maturity = 31536000, lo_BorrowAPR = 100000000000000000, lo_StartBorrowIndex = 0,
     lo_LiquidationPrice = 0, lo_DlcEventId = 1, lo_Authorizations = [], lo_CollateralAmount = 0,
     lo_LiquidationId = 0, lo_Referrer = None, lo_CreateAt = 0, lo_DisburseAt = 0, lo_Status = LOAN_Requested\<rparr>"

definition meta_applied :: dlc_meta where
  "meta_applied = \<lparr>
     dm_LiquidationCet = \<lparr>lc_Tx = [], lc_BorrowerAdaptorSignatures = [], lc_BorrowerAdaptedSignatures = [],
     lc_DCMSignatures = [], lc_SignedTxHex = []\<rparr>, dm_DefaultLiquidationCet = \<lparr>lc_Tx = [],
     lc_BorrowerAdaptorSignatures = [], lc_BorrowerAdaptedSignatures = [], lc_DCMSignatures = [],
     lc_SignedTxHex = []\<rparr>, dm_RepaymentCet = \<lparr>rc_Tx = [], rc_DCMAdaptorSignatures = [],
     rc_DCMAdaptedSignatures = [], rc_BorrowerSignatures = [], rc_SignedTxHex = []\<rparr>, dm_TimeoutRefundTx = [],
     dm_VaultUtxos = [], dm_InternalKey = [], dm_LiquidationScript = \<lparr>ls_Script = ''aa'',
     ls_ControlBlock = ''ab''\<rparr>, dm_RepaymentScript = \<lparr>ls_Script = ''ba'',
     ls_ControlBlock = ''bb''\<rparr>, dm_TimeoutRefundScript = \<lparr>ls_Script = [], ls_ControlBlock = []\<rparr>\<rparr>"

definition s_applied :: "ledger lending" where
  "s_applied = s_ready\<lparr>
     ch_bank := [(Account ''gov'', ''ubtw'', 10), (Account ''bob'', ''ubtw'', - 10)] @ ch_bank s_ready,
     dl_pending_count := 0,
     dl_events := [(1, event_applied)],
     dl_pending := [],
     ln_loans := [(''vault'', loan_applied)],
     ln_by_status := [((LOAN_Requested, ''vault''), ())],
     ln_by_address := [((''bob'', ''vault''), ())],
     ln_by_oracle := [(([char_of (10 :: nat)], ''vault''), ())],
     ln_dlc_metas := [(''vault'', meta_applied)]\<rparr>"

lemma s_applied_simps:
  "ch_bank s_applied = [(Account ''gov'', ''ubtw'', 10), (Account ''bob'', ''ubtw'', - 10), (Account ''alice'',
     ''ymain'', 100000000000), (lending_acc, ''ymain'', - 100000000000), (lending_acc, ''ymain'', 100000000000),
     (lending_acc, ''uusdc'', 100000000000), (Account ''alice'', ''uusdc'', - 100000000000), (Account ''alice'',
     ''uusdc'', 100000000000), (Account ''bob'', ''uusdc'', 10000000000), (Account ''bob'', ''ubtw'', 100), (Account
     ''carol'', ''uusdc'', 100000000000)]"
  "ch_prices s_applied = [(''BTCUSDC'', ''60000'')]"
  "ch_fee_rate s_applied = \<lparr>fr_Value = 2, fr_Height = 1\<rparr>"
  "ch_fee_validity s_applied = ch_fee_validity s_genesis"
  "ch_headers s_applied = ch_headers s_genesis"
  "ch_deposit_depth s_applied = 1"
  "tss_request_id s_applied = tss_request_id s_genesis"
  "tss_requests s_applied = tss_requests s_genesis"
  "tss_by_status s_applied = tss_by_status s_genesis"
  "dl_oracle_id s_applied = Some 1"
  "dl_dcm_id s_applied = Some 1"
  "dl_event_id s_applied = Some 1"
  "dl_pending_count s_applied = dl_pending_count s_genesis"
  "dl_attestation_id s_applied = dl_attestation_id s_genesis"
  "dl_oracles s_applied = [(1, \<lparr>or_Id = 1, or_DkgId = 2, or_Pubkey = ''0a'', or_Time = 0, or_Enabled =
     True\<rparr>)]"
  "dl_oracle_by_key s_applied = [([char_of (10 :: nat)], 1)]"
  "dl_dcms s_applied = [(1, \<lparr>dcm_Id = 1, dcm_DkgId = 1, dcm_Pubkey = ''dc'', dcm_Time = 0, dcm_Enabled =
     True\<rparr>)]"
  "dl_dcm_by_key s_applied = [([char_of (220 :: nat)], 1)]"
  "dl_nonce_index s_applied = [(1, 1)]"
  "dl_nonces s_applied = [((1, 1), \<lparr>no_Index = 1, no_Nonce = ''0b'', no_OraclePubkey = ''0a'', no_Time =
     0\<rparr>)]"
  "dl_nonce_values s_applied = [([char_of (11 :: nat)], ())]"
  "dl_events s_applied = [(1, event_applied)]"
  "dl_event_status s_applied = [((False, 1), ())]"
  "dl_pending s_applied = dl_pending s_genesis"
  "dl_attestations s_applied = dl_attestations s_genesis"
  "dl_attestation_by_event s_applied = dl_attestation_by_event s_genesis"
  "li_params s_applied = li_params s_genesis"
  "li_id s_applied = li_id s_genesis"
  "li_record_id s_applied = li_record_id s_genesis"
  "li_store s_applied = li_store s_genesis"
  "li_by_status s_applied = li_by_status s_genesis"
  "li_records s_applied = li_records s_genesis"
  "li_records_by s_applied = li_records_by s_genesis"
  "ln_params s_applied = ln_params s_genesis"
  "ln_redemption_id s_applied = ln_redemption_id s_genesis"
  "ln_pools s_applied = [(''main'', pool_funded)]"
  "ln_loans s_applied = [(''vault'', loan_applied)]"
  "ln_by_status s_applied = [((LOAN_Requested, ''vault''), ())]"
  "ln_by_address s_applied = [((''bob'', ''vault''), ())]"
  "ln_by_oracle s_applied = [(([char_of (10 :: nat)], ''vault''), ())]"
  "ln_liq_queue s_applied = ln_liq_queue s_genesis"
  "ln_auth_ids s_applied = ln_auth_ids s_genesis"
  "ln_deposits s_applied = ln_deposits s_genesis"
  "ln_repayments s_applied = ln_repayments s_genesis"
  "ln_dlc_metas s_applied = [(''vault'', meta_applied)]"
  "ln_redemptions s_applied = ln_redemptions s_genesis"
  "ln_referrers s_applied = ln_referrers s_genesis"
  by (simp_all add: s_applied_def s_ready_def s_event_def s_dcm_def s_funded_def s_pool_def)

definition event_cets :: dlc_event where
  "event_cets = event_applied\<lparr>
     ev_Outcomes := [''41500BTCUSDC'', ''31536000'', ''Repaid'']\<rparr>"

definition loan_cets :: loan where
  "loan_cets = loan_applied\<lparr>
     lo_LiquidationPrice := 41500000000000000000000, lo_Authorizations := [\<lparr>au_Id = 1, au_DepositTxs = [''1''],
     au_Status = AUTH_PENDING\<rparr>], lo_CollateralAmount := 100000000, lo_Status := LOAN_Authorized\<rparr>"

definition meta_cets :: dlc_meta where
  "meta_cets = meta_applied\<lparr>
     dm_LiquidationCet := \<lparr>lc_Tx = ''2'', lc_BorrowerAdaptorSignatures = [''51''],
     lc_BorrowerAdaptedSignatures = [], lc_DCMSignatures = [], lc_SignedTxHex = []\<rparr>,
     dm_DefaultLiquidationCet := \<lparr>lc_Tx = ''2'', lc_BorrowerAdaptorSignatures = [''52''],
     lc_BorrowerAdaptedSignatures = [], lc_DCMSignatures = [], lc_SignedTxHex = []\<rparr>,
     dm_RepaymentCet := \<lparr>rc_Tx = ''3'', rc_DCMAdaptorSignatures = [], rc_DCMAdaptedSignatures = [],
     rc_BorrowerSignatures = [''53''], rc_SignedTxHex = []\<rparr>, dm_TimeoutRefundTx := ''63072000'',
     dm_VaultUtxos := [\<lparr>ut_Txid = ''1'', ut_Vout = 0, ut_Amount = 100000000,
     ut_PkScript = ''pay vault''\<rparr>]\<rparr>"

definition s_cets :: "ledger lending" where
  "s_cets = s_applied\<lparr>
     tss_request_id := Some 1,
     tss_requests := tss_requests s_applied @ [(1, \<lparr>sr_Id = 1, sr_Module = ''lending'',
     sr_ScopedId = ''vault'', sr_Type = SIGNING_TYPE_SCHNORR_ADAPTOR, sr_Intent = 0, sr_PubKey = ''dc'',
     sr_SigHashes = [''leaf hash''], sr_Options = Some \<lparr>so_Tweak = [], so_Nonce = [],
     so_AdaptorPoint = hex_encode ([char_of (10 :: nat), char_of (11 :: nat)] @ ''Repaid'')\<rparr>, sr_CreationTime = 0, sr_Status = SIGNING_PENDING\<rparr>)],
     tss_by_status := [((SIGNING_PENDING, 1), ())],
     dl_events := [(1, event_cets)],
     ln_loans := [(''vault'', loan_cets)],
     ln_by_status := [((LOAN_Authorized, ''vault''), ())],
     ln_auth_ids := [(''vault'', 1)],
     ln_deposits := [(''1'', \<lparr>dp_Txid = ''1'', dp_VaultAddress = ''vault'', dp_AuthorizationId = 1,
     dp_DepositTx = ''1'', dp_Status = DEPOSIT_PENDING\<rparr>)],
     ln_dlc_metas := [(''vault'', meta_cets)]\<rparr>"

definition meta_adaptor :: dlc_meta where
  "meta_adaptor = meta_cets\<lparr>
     dm_RepaymentCet := \<lparr>rc_Tx = ''3'', rc_DCMAdaptorSignatures = [''54''], rc_DCMAdaptedSignatures = [],
     rc_BorrowerSignatures = [''53''], rc_SignedTxHex = []\<rparr>\<rparr>"

definition s_adaptor :: "ledger lending" where
  "s_adaptor = s_cets\<lparr>
     ln_dlc_metas := [(''vault'', meta_adaptor)]\<rparr>"

definition s_verified :: "ledger lending" where
  "s_verified = s_adaptor\<lparr>
     ln_deposits := [(''1'', \<lparr>dp_Txid = ''1'', dp_VaultAddress = ''vault'', dp_AuthorizationId = 1,
     dp_DepositTx = ''1'', dp_Status = DEPOSIT_VERIFIED\<rparr>)]\<rparr>"

lemma s_verified_simps:
  "ch_bank s_verified = [(Account ''gov'', ''ubtw'', 10), (Account ''bob'', ''ubtw'', - 10), (Account ''alice'',
     ''ymain'', 100000000000), (lending_acc, ''ymain'', - 100000000000), (lending_acc, ''ymain'', 100000000000),
     (lending_acc, ''uusdc'', 100000000000), (Account ''alice'', ''uusdc'', - 100000000000), (Account ''alice'',
     ''uusdc'', 100000000000), (Account ''bob'', ''uusdc'', 10000000000), (Account ''bob'', ''ubtw'', 100), (Account
     ''carol'', ''uusdc'', 100000000000)]"
  "ch_prices s_verified = [(''BTCUSDC'', ''60000'')]"
  "ch_fee_rate s_verified = \<lparr>fr_Value = 2, fr_Height = 1\<rparr>"
  "ch_fee_validity s_verified = ch_fee_validity s_genesis"
  "ch_headers s_verified = ch_headers s_genesis"
  "ch_deposit_depth s_verified = 1"
  "tss_request_id s_verified = Some 1"
  "tss_requests s_verified = [(1, \<lparr>sr_Id = 1, sr_Module = ''lending'', sr_ScopedId = ''vault'', sr_Type =
     SIGNING_TYPE_SCHNORR_ADAPTOR, sr_Intent = 0, sr_PubKey = ''dc'', sr_SigHashes = [''leaf hash''], sr_Options =
     Some \<lparr>so_Tweak = [], so_Nonce = [], so_AdaptorPoint = hex_encode ([char_of (10 :: nat), char_of (11 :: nat)] @ ''Repaid'')\<rparr>, sr_CreationTime = 0,
     sr_Status = SIGNING_PENDING\<rparr>)]"
  "tss_by_status s_verified = [((SIGNING_PENDING, 1), ())]"
  "dl_oracle_id s_verified = Some 1"
  "dl_dcm_id s_verified = Some 1"
  "dl_event_id s_verified = Some 1"
  "dl_pending_count s_verified = dl_pending_count s_genesis"
  "dl_attestation_id s_verified = dl_attestation_id s_genesis"
  "dl_oracles s_verified = [(1, \<lparr>or_Id = 1, or_DkgId = 2, or_Pubkey = ''0a'', or_Time = 0, or_Enabled =
     True\<rparr>)]"
  "dl_oracle_by_key s_verified = [([char_of (10 :: nat)], 1)]"
  "dl_dcms s_verified = [(1, \<lparr>dcm_Id = 1, dcm_DkgId = 1, dcm_Pubkey = ''dc'', dcm_Time = 0, dcm_Enabled =
     True\<rparr>)]"
  "dl_dcm_by_key s_verified = [([char_of (220 :: nat)], 1)]"
  "dl_nonce_index s_verified = [(1, 1)]"
  "dl_nonces s_verified = [((1, 1), \<lparr>no_Index = 1, no_Nonce = ''0b'', no_OraclePubkey = ''0a'', no_Time =
     0\<rparr>)]"
  "dl_nonce_values s_verified = [([char_of (11 :: nat)], ())]"
  "dl_events s_verified = [(1, event_cets)]"
  "dl_event_status s_verified = [((False, 1), ())]"
  "dl_pending s_verified = dl_pending s_genesis"
  "dl_attestations s_verified = dl_attestations s_genesis"
  "dl_attestation_by_event s_verified = dl_attestation_by_event s_genesis"
  "li_params s_verified = li_params s_genesis"
  "li_id s_verified = li_id s_genesis"
  "li_record_id s_verified = li_record_id s_genesis"
  "li_store s_verified = li_store s_genesis"
  "li_by_status s_verified = li_by_status s_genesis"
  "li_records s_verified = li_records s_genesis"
  "li_records_by s_verified = li_records_by s_genesis"
  "ln_params s_verified = ln_params s_genesis"
  "ln_redemption_id s_verified = ln_redemption_id s_genesis"
  "ln_pools s_verified = [(''main'', pool_funded)]"
  "ln_loans s_verified = [(''vault'', loan_cets)]"
  "ln_by_status s_verified = [((LOAN_Authorized, ''vault''), ())]"
  "ln_by_address s_verified = [((''bob'', ''vault''), ())]"
  "ln_by_oracle s_verified = [(([char_of (10 :: nat)], ''vault''), ())]"
  "ln_liq_queue s_verified = ln_liq_queue s_genesis"
  "ln_auth_ids s_verified = [(''vault'', 1)]"
  "ln_deposits s_verified = [(''1'', \<lparr>dp_Txid = ''1'', dp_VaultAddress = ''vault'', dp_AuthorizationId = 1,
     dp_DepositTx = ''1'', dp_Status = DEPOSIT_VERIFIED\<rparr>)]"
  "ln_repayments s_verified = ln_repayments s_genesis"
  "ln_dlc_metas s_verified = [(''vault'', meta_adaptor)]"
  "ln_redemptions s_verified = ln_redemptions s_genesis"
  "ln_referrers s_verified = ln_referrers s_genesis"
  by (simp_all add: s_verified_def s_adaptor_def s_cets_def s_applied_simps)

definition pool_open :: lending_pool where
  "pool_open = pool_funded\<lparr>
     po_AvailableAmount := 70000000000, po_BorrowedAmount := 30000000000, po_TotalBorrowed := 30000000000,
     po_Tranches := [\<lparr>pt_Maturity = 31536000, pt_BorrowIndex = 1000000000000000000,
     pt_TotalBorrowed = 30000000000, pt_TotalReserve = 0\<rparr>]\<rparr>"

definition loan_open :: loan where
  "loan_open = loan_cets\<lparr>
     lo_Interest := 3141392023, lo_ProtocolFee := 314139202, lo_StartBorrowIndex := 1000000000000000000,
     lo_Authorizations := [\<lparr>au_Id = 1, au_DepositTxs = [''1''], au_Status = AUTH_AUTHORIZED\<rparr>],
     lo_Status := LOAN_Open\<rparr>"

definition s_open :: "ledger lending" where
  "s_open = s_verified\<lparr>
     ch_bank := [(Account ''gov'', ''uusdc'', 300000000), (lending_acc, ''uusdc'', - 300000000), (Account ''bob'',
     ''uusdc'', 29700000000), (lending_acc, ''uusdc'', - 29700000000)] @ ch_bank s_verified,
     ln_pools := [(''main'', pool_open)],
     ln_loans := [(''vault'', loan_open)],
     ln_by_status := [((LOAN_Open, ''vault''), ())]\<rparr>"

definition pool_accrued :: lending_pool where
  "pool_accrued = pool_open\<lparr>
     po_TotalBorrowed := 30249999999, po_TotalReserve := 24999999, po_Tranches := [\<lparr>pt_Maturity = 31536000,
     pt_BorrowIndex = 1008333333333333333, pt_TotalBorrowed = 30249999999, pt_TotalReserve = 24999999\<rparr>]\<rparr>"

definition s_accrued :: "ledger lending" where
  "s_accrued = s_open\<lparr>
     ln_pools := [(''main'', pool_accrued)]\<rparr>"

lemma s_accrued_simps:
  "ch_bank s_accrued = [(Account ''gov'', ''uusdc'', 300000000), (lending_acc, ''uusdc'', - 300000000), (Account
     ''bob'', ''uusdc'', 29700000000), (lending_acc, ''uusdc'', - 29700000000), (Account ''gov'', ''ubtw'', 10),
     (Account ''bob'', ''ubtw'', - 10), (Account ''alice'', ''ymain'', 100000000000), (lending_acc, ''ymain'', -
     100000000000), (lending_acc, ''ymain'', 100000000000), (lending_acc, ''uusdc'', 100000000000), (Account
     ''alice'', ''uusdc'', - 100000000000), (Account ''alice'', ''uusdc'', 100000000000), (Account ''bob'',
     ''uusdc'', 10000000000), (Account ''bob'', ''ubtw'', 100), (Account ''carol'', ''uusdc'', 100000000000)]"
  "ch_prices s_accrued = [(''BTCUSDC'', ''60000'')]"
  "ch_fee_rate s_accrued = \<lparr>fr_Value = 2, fr_Height = 1\<rparr>"
  "ch_fee_validity s_accrued = ch_fee_validity s_genesis"
  "ch_headers s_accrued = ch_headers s_genesis"
  "ch_deposit_depth s_accrued = 1"
  "tss_request_id s_accrued = Some 1"
  "tss_requests s_accrued = [(1, \<lparr>sr_Id = 1, sr_Module = ''lending'', sr_ScopedId = ''vault'', sr_Type =
     SIGNING_TYPE_SCHNORR_ADAPTOR, sr_Intent = 0, sr_PubKey = ''dc'', sr_SigHashes = [''leaf hash''], sr_Options =
     Some \<lparr>so_Tweak = [], so_Nonce = [], so_AdaptorPoint = hex_encode ([char_of (10 :: nat), char_of (11 :: nat)] @ ''Repaid'')\<rparr>, sr_CreationTime = 0,
     sr_Status = SIGNING_PENDING\<rparr>)]"
  "tss_by_status s_accrued = [((SIGNING_PENDING, 1), ())]"
  "dl_oracle_id s_accrued = Some 1"
  "dl_dcm_id s_accrued = Some 1"
  "dl_event_id s_accrued = Some 1"
  "dl_pending_count s_accrued = dl_pending_count s_genesis"
  "dl_attestation_id s_accrued = dl_attestation_id s_genesis"
  "dl_oracles s_accrued = [(1, \<lparr>or_Id = 1, or_DkgId = 2, or_Pubkey = ''0a'', or_Time = 0, or_Enabled =
     True\<rparr>)]"
  "dl_oracle_by_key s_accrued = [([char_of (10 :: nat)], 1)]"
  "dl_dcms s_accrued = [(1, \<lparr>dcm_Id = 1, dcm_DkgId = 1, dcm_Pubkey = ''dc'', dcm_Time = 0, dcm_Enabled =
     True\<rparr>)]"
  "dl_dcm_by_key s_accrued = [([char_of (220 :: nat)], 1)]"
  "dl_nonce_index s_accrued = [(1, 1)]"
  "dl_nonces s_accrued = [((1, 1), \<lparr>no_Index = 1, no_Nonce = ''0b'', no_OraclePubkey = ''0a'', no_Time =
     0\<rparr>)]"
  "dl_nonce_values s_accrued = [([char_of (11 :: nat)], ())]"
  "dl_events s_accrued = [(1, event_cets)]"
  "dl_event_status s_accrued = [((False, 1), ())]"
  "dl_pending s_accrued = dl_pending s_genesis"
  "dl_attestations s_accrued = dl_attestations s_genesis"
  "dl_attestation_by_event s_accrued = dl_attestation_by_event s_genesis"
  "li_params s_accrued = li_params s_genesis"
  "li_id s_accrued = li_id s_genesis"
  "li_record_id s_accrued = li_record_id s_genesis"
  "li_store s_accrued = li_store s_genesis"
  "li_by_status s_accrued = li_by_status s_genesis"
  "li_records s_accrued = li_records s_genesis"
  "li_records_by s_accrued = li_records_by s_genesis"
  "ln_params s_accrued = ln_params s_genesis"
  "ln_redemption_id s_accrued = ln_redemption_id s_genesis"
  "ln_pools s_accrued = [(''main'', pool_accrued)]"
  "ln_loans s_accrued = [(''vault'', loan_open)]"
  "ln_by_status s_accrued = [((LOAN_Open, ''vault''), ())]"
  "ln_by_address s_accrued = [((''bob'', ''vault''), ())]"
  "ln_by_oracle s_accrued = [(([char_of (10 :: nat)], ''vault''), ())]"
  "ln_liq_queue s_accrued = ln_liq_queue s_genesis"
  "ln_auth_ids s_accrued = [(''vault'', 1)]"
  "ln_deposits s_accrued = [(''1'', \<lparr>dp_Txid = ''1'', dp_VaultAddress = ''vault'', dp_AuthorizationId = 1,
     dp_DepositTx = ''1'', dp_Status = DEPOSIT_VERIFIED\<rparr>)]"
  "ln_repayments s_accrued = ln_repayments s_genesis"
  "ln_dlc_metas s_accrued = [(''vault'', meta_adaptor)]"
  "ln_redemptions s_accrued = ln_redemptions s_genesis"
  "ln_referrers s_accrued = ln_referrers s_genesis"
  by (simp_all add: s_accrued_def s_open_def s_verified_simps)

definition event_repaid :: dlc_event where
  "event_repaid = event_cets\<lparr>
     ev_HasTriggered := True, ev_OutcomeIndex := 2\<rparr>"

definition loan_repaid :: loan where
  "loan_repaid = loan_open\<lparr>
     lo_Status := LOAN_Repaid\<rparr>"

definition s_repaid :: "ledger lending" where
  "s_repaid = s_accrued\<lparr>
     ch_bank := [(escrow_acc, ''uusdc'', 30249999999), (Account ''bob'', ''uusdc'', - 30249999999)] @ ch_bank
     s_accrued,
     tss_request_id := Some 2,
     tss_requests := tss_requests s_accrued @ [(2, \<lparr>sr_Id = 2, sr_Module = ''dlc'', sr_ScopedId = ''1'',
     sr_Type = SIGNING_TYPE_SCHNORR_WITH_COMMITMENT, sr_Intent = 0, sr_PubKey = ''0a'', sr_SigHashes = [''Repaid''],
     sr_Options = Some \<lparr>so_Tweak = [], so_Nonce = ''0b'', so_AdaptorPoint = []\<rparr>, sr_CreationTime = 0,
     sr_Status = SIGNING_PENDING\<rparr>)],
     tss_by_status := [((SIGNING_PENDING, 1), ()), ((SIGNING_PENDING, 2), ())],
     dl_events := [(1, event_repaid)],
     dl_event_status := [((True, 1), ())],
     ln_loans := [(''vault'', loan_repaid)],
     ln_by_status := [((LOAN_Repaid, ''vault''), ())],
     ln_repayments := [(''vault'', \<lparr>rp_LoanId = ''vault'', rp_Amount = \<lparr>Denom = ''uusdc'',
     Amount = 30249999999\<rparr>, rp_CreateAt = 0\<rparr>)]\<rparr>"

definition s_attested :: "ledger lending" where
  "s_attested = s_repaid\<lparr>
     dl_attestation_id := Some 1,
     dl_attestations := [(1, \<lparr>at_Id = 1, at_EventId = 1, at_Outcome = ''Repaid'', at_Pubkey = ''0a'',
     at_Signature = ''1111111111111111111111111111111111111111111111111111111111111111'', at_Time = 0\<rparr>)],
     dl_attestation_by_event := [(1, 1)]\<rparr>"

definition pool_closed :: lending_pool where
  "pool_closed = pool_accrued\<lparr>
     po_Supply := \<lparr>Denom = ''uusdc'', Amount = 100225000000\<rparr>, po_AvailableAmount := 100225000000,
     po_BorrowedAmount := 0, po_TotalBorrowed := 0, po_ReserveAmount := 24999999, po_TotalReserve := 0,
     po_Tranches := [\<lparr>pt_Maturity = 31536000, pt_BorrowIndex = 1008333333333333333, pt_TotalBorrowed = 0,
     pt_TotalReserve = 24999999\<rparr>]\<rparr>"

definition loan_closed :: loan where
  "loan_closed = loan_repaid\<lparr>
     lo_Status := LOAN_Closed\<rparr>"

definition meta_closed :: dlc_meta where
  "meta_closed = meta_adaptor\<lparr>
     dm_RepaymentCet := \<lparr>rc_Tx = ''3'', rc_DCMAdaptorSignatures = [''54''], rc_DCMAdaptedSignatures = [''54''],
     rc_BorrowerSignatures = [''53''], rc_SignedTxHex = ''33''\<rparr>\<rparr>"

definition s_closed :: "ledger lending" where
  "s_closed = s_attested\<lparr>
     ch_bank := [(Account ''gov'', ''uusdc'', 24999999), (escrow_acc, ''uusdc'', - 24999999), (lending_acc, ''uusdc'',
     30225000000), (escrow_acc, ''uusdc'', - 30225000000)] @ ch_bank s_attested,
     ln_pools := [(''main'', pool_closed)],
     ln_loans := [(''vault'', loan_closed)],
     ln_by_status := [((LOAN_Closed, ''vault''), ())],
     ln_dlc_metas := [(''vault'', meta_closed)]\<rparr>"

definition s_fallen :: "ledger lending" where
  "s_fallen = s_accrued\<lparr>
     ch_prices := [(''BTCUSDC'', ''40000'')]\<rparr>"

definition event_liquidating :: dlc_event where
  "event_liquidating = event_cets\<lparr>
     ev_HasTriggered := True, ev_OutcomeIndex := 0\<rparr>"

definition liq_liquidating :: liquidation where
  "liq_liquidating = \<lparr>
     lq_Id = 1, lq_LoanId = ''vault'', lq_Debtor = ''bob'', lq_DCM = ''dc'',
     lq_CollateralAmount = \<lparr>Denom = ''sat'', Amount = 100000000\<rparr>,
     lq_ActualCollateralAmount = \<lparr>Denom = ''sat'', Amount = 99990000\<rparr>,
     lq_DebtAmount = \<lparr>Denom = ''uusdc'', Amount = 30249999999\<rparr>,
     lq_CollateralAsset = \<lparr>am_Denom = ''sat'', am_Symbol = ''BTC'', am_Decimals = 8, am_PriceSymbol = ''BTC'',
     am_IsBasePriceAsset = True\<rparr>, lq_DebtAsset = \<lparr>am_Denom = ''uusdc'', am_Symbol = ''USDC'',
     am_Decimals = 6, am_PriceSymbol = ''USDC'', am_IsBasePriceAsset = False\<rparr>, lq_LiquidationPrice = Some
     40000000000000000000000, lq_LiquidationTime = 0, lq_LiquidatedCollateralAmount = \<lparr>Denom = ''sat'',
     Amount = 0\<rparr>, lq_LiquidatedDebtAmount = \<lparr>Denom = ''uusdc'', Amount = 0\<rparr>,
     lq_LiquidationBonusAmount = \<lparr>Denom = ''sat'', Amount = 0\<rparr>,
     lq_ProtocolLiquidationFee = \<lparr>Denom = ''sat'', Amount = 0\<rparr>,
     lq_UnliquidatedCollateralAmount = \<lparr>Denom = ''sat'', Amount = 99980000\<rparr>,
     lq_AccruedInterest = \<lparr>Denom = [], Amount = 0\<rparr>, lq_LiquidationCet = ''2'', lq_SettlementTx = [],
     lq_SettlementTxId = [], lq_Status = LQ_LIQUIDATING\<rparr>"

definition loan_liquidating :: loan where
  "loan_liquidating = loan_open\<lparr>
     lo_LiquidationId := 1, lo_Status := LOAN_Liquidated\<rparr>"

definition s_liquidating :: "ledger lending" where
  "s_liquidating = s_fallen\<lparr>
     tss_request_id := Some 3,
     tss_requests := [(1, \<lparr>sr_Id = 1, sr_Module = ''lending'', sr_ScopedId = ''vault'',
     sr_Type = SIGNING_TYPE_SCHNORR_ADAPTOR, sr_Intent = 0, sr_PubKey = ''dc'', sr_SigHashes = [''leaf hash''],
     sr_Options = Some \<lparr>so_Tweak = [], so_Nonce = [], so_AdaptorPoint = hex_encode ([char_of (10 :: nat), char_of (11 :: nat)] @ ''Repaid'')\<rparr>,
     sr_CreationTime = 0, sr_Status = SIGNING_PENDING\<rparr>), (2, \<lparr>sr_Id = 2, sr_Module = ''dlc'',
     sr_ScopedId = ''1'', sr_Type = SIGNING_TYPE_SCHNORR_WITH_COMMITMENT, sr_Intent = 0, sr_PubKey = ''0a'',
     sr_SigHashes = [''41500BTCUSDC''], sr_Options = Some \<lparr>so_Tweak = [], so_Nonce = ''0b'',
     so_AdaptorPoint = []\<rparr>, sr_CreationTime = 0, sr_Status = SIGNING_PENDING\<rparr>), (3, \<lparr>sr_Id = 3,
     sr_Module = ''lending'', sr_ScopedId = ''vault'', sr_Type = SIGNING_TYPE_SCHNORR, sr_Intent = 1,
     sr_PubKey = ''dc'', sr_SigHashes = [''leaf hash''], sr_Options = None, sr_CreationTime = 0,
     sr_Status = SIGNING_PENDING\<rparr>)],
     tss_by_status := [((SIGNING_PENDING, 1), ()), ((SIGNING_PENDING, 2), ()), ((SIGNING_PENDING, 3), ())],
     dl_events := [(1, event_liquidating)],
     dl_event_status := [((True, 1), ())],
     li_id := Some 1,
     li_store := [(1, liq_liquidating)],
     li_by_status := [((LQ_LIQUIDATING, 1), ())],
     ln_loans := [(''vault'', loan_liquidating)],
     ln_by_status := [((LOAN_Liquidated, ''vault''), ())],
     ln_liq_queue := [(''vault'', ())]\<rparr>"

lemma s_liquidating_simps:
  "ch_bank s_liquidating = [(Account ''gov'', ''uusdc'', 300000000), (lending_acc, ''uusdc'', - 300000000), (Account
     ''bob'', ''uusdc'', 29700000000), (lending_acc, ''uusdc'', - 29700000000), (Account ''gov'', ''ubtw'', 10),
     (Account ''bob'', ''ubtw'', - 10), (Account ''alice'', ''ymain'', 100000000000), (lending_acc, ''ymain'', -
     100000000000), (lending_acc, ''ymain'', 100000000000), (lending_acc, ''uusdc'', 100000000000), (Account
     ''alice'', ''uusdc'', - 100000000000), (Account ''alice'', ''uusdc'', 100000000000), (Account ''bob'',
     ''uusdc'', 10000000000), (Account ''bob'', ''ubtw'', 100), (Account ''carol'', ''uusdc'', 100000000000)]"
  "ch_prices s_liquidating = [(''BTCUSDC'', ''40000'')]"
  "ch_fee_rate s_liquidating = \<lparr>fr_Value = 2, fr_Height = 1\<rparr>"
  "ch_fee_validity s_liquidating = ch_fee_validity s_genesis"
  "ch_headers s_liquidating = ch_headers s_genesis"
  "ch_deposit_depth s_liquidating = 1"
  "tss_request_id s_liquidating = Some 3"
  "tss_requests s_liquidating = [(1, \<lparr>sr_Id = 1, sr_Module = ''lending'', sr_ScopedId = ''vault'', sr_Type =
     SIGNING_TYPE_SCHNORR_ADAPTOR, sr_Intent = 0, sr_PubKey = ''dc'', sr_SigHashes = [''leaf hash''], sr_Options =
     Some \<lparr>so_Tweak = [], so_Nonce = [], so_AdaptorPoint = hex_encode ([char_of (10 :: nat), char_of (11 :: nat)] @ ''Repaid'')\<rparr>, sr_CreationTime = 0,
     sr_Status = SIGNING_PENDING\<rparr>), (2, \<lparr>sr_Id = 2, sr_Module = ''dlc'', sr_ScopedId = ''1'', sr_Type
     = SIGNING_TYPE_SCHNORR_WITH_COMMITMENT, sr_Intent = 0, sr_PubKey = ''0a'', sr_SigHashes = [''41500BTCUSDC''],
     sr_Options = Some \<lparr>so_Tweak = [], so_Nonce = ''0b'', so_AdaptorPoint = []\<rparr>, sr_CreationTime = 0,
     sr_Status = SIGNING_PENDING\<rparr>), (3, \<lparr>sr_Id = 3, sr_Module = ''lending'', sr_ScopedId = ''vault'',
     sr_Type = SIGNING_TYPE_SCHNORR, sr_Intent = 1, sr_PubKey = ''dc'', sr_SigHashes = [''leaf hash''], sr_Options =
     None, sr_CreationTime = 0, sr_Status = SIGNING_PENDING\<rparr>)]"
  "tss_by_status s_liquidating = [((SIGNING_PENDING, 1), ()), ((SIGNING_PENDING, 2), ()), ((SIGNING_PENDING, 3), ())]"
  "dl_oracle_id s_liquidating = Some 1"
  "dl_dcm_id s_liquidating = Some 1"
  "dl_event_id s_liquidating = Some 1"
  "dl_pending_count s_liquidating = dl_pending_count s_genesis"
  "dl_attestation_id s_liquidating = dl_attestation_id s_genesis"
  "dl_oracles s_liquidating = [(1, \<lparr>or_Id = 1, or_DkgId = 2, or_Pubkey = ''0a'', or_Time = 0, or_Enabled =
     True\<rparr>)]"
  "dl_oracle_by_key s_liquidating = [([char_of (10 :: nat)], 1)]"
  "dl_dcms s_liquidating = [(1, \<lparr>dcm_Id = 1, dcm_DkgId = 1, dcm_Pubkey = ''dc'', dcm_Time = 0, dcm_Enabled =
     True\<rparr>)]"
  "dl_dcm_by_key s_liquidating = [([char_of (220 :: nat)], 1)]"
  "dl_nonce_index s_liquidating = [(1, 1)]"
  "dl_nonces s_liquidating = [((1, 1), \<lparr>no_Index = 1, no_Nonce = ''0b'', no_OraclePubkey = ''0a'', no_Time =
     0\<rparr>)]"
  "dl_nonce_values s_liquidating = [([char_of (11 :: nat)], ())]"
  "dl_events s_liquidating = [(1, event_liquidating)]"
  "dl_event_status s_liquidating = [((True, 1), ())]"
  "dl_pending s_liquidating = dl_pending s_genesis"
  "dl_attestations s_liquidating = dl_attestations s_genesis"
  "dl_attestation_by_event s_liquidating = dl_attestation_by_event s_genesis"
  "li_params s_liquidating = li_params s_genesis"
  "li_id s_liquidating = Some 1"
  "li_record_id s_liquidating = li_record_id s_genesis"
  "li_store s_liquidating = [(1, liq_liquidating)]"
  "li_by_status s_liquidating = [((LQ_LIQUIDATING, 1), ())]"
  "li_records s_liquidating = li_records s_genesis"
  "li_records_by s_liquidating = li_records_by s_genesis"
  "ln_params s_liquidating = ln_params s_genesis"
  "ln_redemption_id s_liquidating = ln_redemption_id s_genesis"
  "ln_pools s_liquidating = [(''main'', pool_accrued)]"
  "ln_loans s_liquidating = [(''vault'', loan_liquidating)]"
  "ln_by_status s_liquidating = [((LOAN_Liquidated, ''vault''), ())]"
  "ln_by_address s_liquidating = [((''bob'', ''vault''), ())]"
  "ln_by_oracle s_liquidating = [(([char_of (10 :: nat)], ''vault''), ())]"
  "ln_liq_queue s_liquidating = [(''vault'', ())]"
  "ln_auth_ids s_liquidating = [(''vault'', 1)]"
  "ln_deposits s_liquidating = [(''1'', \<lparr>dp_Txid = ''1'', dp_VaultAddress = ''vault'', dp_AuthorizationId = 1,
     dp_DepositTx = ''1'', dp_Status = DEPOSIT_VERIFIED\<rparr>)]"
  "ln_repayments s_liquidating = ln_repayments s_genesis"
  "ln_dlc_metas s_liquidating = [(''vault'', meta_adaptor)]"
  "ln_redemptions s_liquidating = ln_redemptions s_genesis"
  "ln_referrers s_liquidating = ln_referrers s_genesis"
  by (simp_all add: s_liquidating_def s_fallen_def s_accrued_simps)

definition liq_part :: liquidation where
  "liq_part = liq_liquidating\<lparr>
     lq_LiquidatedCollateralAmount := \<lparr>Denom = ''sat'', Amount = 26250000\<rparr>,
     lq_LiquidatedDebtAmount := \<lparr>Denom = ''uusdc'', Amount = 10000000000\<rparr>,
     lq_LiquidationBonusAmount := \<lparr>Denom = ''sat'', Amount = 1250000\<rparr>,
     lq_ProtocolLiquidationFee := \<lparr>Denom = ''sat'', Amount = 125000\<rparr>,
     lq_UnliquidatedCollateralAmount := \<lparr>Denom = ''sat'', Amount = 73730000\<rparr>\<rparr>"

definition s_part :: "ledger lending" where
  "s_part = s_liquidating\<lparr>
     ch_bank := [(liquidation_acc, ''uusdc'', 10000000000), (Account ''carol'', ''uusdc'', - 10000000000)] @ ch_bank
     s_liquidating,
     li_record_id := Some 1,
     li_store := [(1, liq_part)],
     li_records := li_records s_liquidating @ [(1, \<lparr>lr_Id = 1, lr_LiquidationId = 1, lr_Liquidator = ''carol'',
     lr_DebtAmount = \<lparr>Denom = ''uusdc'', Amount = 10000000000\<rparr>,
     lr_CollateralAmount = \<lparr>Denom = ''sat'', Amount = 25000000\<rparr>,
     lr_BonusAmount = \<lparr>Denom = ''sat'', Amount = 1125000\<rparr>, lr_Time = 0\<rparr>)],
     li_records_by := [((1, 1), ())]\<rparr>"

definition liq_full :: liquidation where
  "liq_full = liq_part\<lparr>
     lq_LiquidatedCollateralAmount := \<lparr>Denom = ''sat'', Amount = 79406248\<rparr>,
     lq_LiquidatedDebtAmount := \<lparr>Denom = ''uusdc'', Amount = 30249999999\<rparr>,
     lq_LiquidationBonusAmount := \<lparr>Denom = ''sat'', Amount = 3781249\<rparr>,
     lq_ProtocolLiquidationFee := \<lparr>Denom = ''sat'', Amount = 378124\<rparr>,
     lq_UnliquidatedCollateralAmount := \<lparr>Denom = ''sat'', Amount = 20573752\<rparr>\<rparr>"

definition s_full :: "ledger lending" where
  "s_full = s_part\<lparr>
     ch_bank := [(liquidation_acc, ''uusdc'', 20249999999), (Account ''carol'', ''uusdc'', - 20249999999)] @ ch_bank
     s_part,
     li_record_id := Some 2,
     li_store := [(1, liq_full)],
     li_records := li_records s_part @ [(2, \<lparr>lr_Id = 2, lr_LiquidationId = 1, lr_Liquidator = ''carol'',
     lr_DebtAmount = \<lparr>Denom = ''uusdc'', Amount = 20249999999\<rparr>,
     lr_CollateralAmount = \<lparr>Denom = ''sat'', Amount = 50624999\<rparr>,
     lr_BonusAmount = \<lparr>Denom = ''sat'', Amount = 2278125\<rparr>, lr_Time = 0\<rparr>)],
     li_records_by := [((1, 1), ()), ((1, 2), ())]\<rparr>"

definition liq_settling :: liquidation where
  "liq_settling = liq_full\<lparr>
     lq_UnliquidatedCollateralAmount := \<lparr>Denom = ''sat'', Amount = 20583352\<rparr>, lq_SettlementTx := ''0'',
     lq_SettlementTxId := ''0'', lq_Status := LQ_SETTLING\<rparr>"

definition s_settling :: "ledger lending" where
  "s_settling = s_full\<lparr>
     tss_request_id := Some 4,
     tss_requests := tss_requests s_full @ [(4, \<lparr>sr_Id = 4, sr_Module = ''liquidation'', sr_ScopedId = ''1'',
     sr_Type = SIGNING_TYPE_SCHNORR_WITH_TWEAK, sr_Intent = 0, sr_PubKey = ''dc'', sr_SigHashes = [''key hash''],
     sr_Options = Some \<lparr>so_Tweak = [], so_Nonce = [], so_AdaptorPoint = []\<rparr>, sr_CreationTime = 0,
     sr_Status = SIGNING_PENDING\<rparr>)],
     tss_by_status := [((SIGNING_PENDING, 1), ()), ((SIGNING_PENDING, 2), ()), ((SIGNING_PENDING, 3), ()),
     ((SIGNING_PENDING, 4), ())],
     li_store := [(1, liq_settling)],
     li_by_status := [((LQ_SETTLING, 1), ())]\<rparr>"

definition liq_settled :: liquidation where
  "liq_settled = liq_settling\<lparr>
     lq_Status := LQ_SETTLED\<rparr>"

definition pool_settled :: lending_pool where
  "pool_settled = pool_accrued\<lparr>
     po_Supply := \<lparr>Denom = ''uusdc'', Amount = 100225000000\<rparr>, po_AvailableAmount := 100225000000,
     po_BorrowedAmount := 0, po_TotalBorrowed := 0, po_ReserveAmount := 24999999, po_TotalReserve := 0,
     po_Tranches := [\<lparr>pt_Maturity = 31536000, pt_BorrowIndex = 1008333333333333333, pt_TotalBorrowed = 0,
     pt_TotalReserve = 24999999\<rparr>]\<rparr>"

definition s_settled :: "ledger lending" where
  "s_settled = s_settling\<lparr>
     ch_bank := [(Account ''gov'', ''uusdc'', 24999999), (liquidation_acc, ''uusdc'', - 24999999), (lending_acc,
     ''uusdc'', 30225000000), (liquidation_acc, ''uusdc'', - 30225000000)] @ ch_bank s_settling,
     li_store := [(1, liq_settled)],
     li_by_status := [((LQ_SETTLED, 1), ())],
     ln_pools := [(''main'', pool_settled)]\<rparr>"

end
