(* ===== verification/Oracle.thy ===== *)
theory Oracle
  imports Node_Env Lending_Sample
begin

text \<open>
  The vote extensions of the oracle (\<open>x/oracle/abci/extension.go\<close>, \<open>types/cache.go\<close>, \<open>types/block_header.go\<close>). Each validator extends its
  vote with the prices it has seen and with the next Bitcoin block headers. The next block carries the extended votes as its first
  transaction; its \<open>PreBlocker\<close> stores the stake-weighted prices and the headers that at least half of the power of the votes agrees on.
  A Go map is a list of pairs with different keys or a key-value store; where the code ranges over a map and stops, the order is a
  parameter. The decimals are unbounded.
\<close>

section \<open>Data\<close>

record vote_ext =
  ve_Height :: int
  ve_Prices :: "(string \<times> string) list"
  ve_Blocks :: "block_header list"
  ve_HasError :: bool

text \<open>A vote of the extended commit; \<open>ev_Commit\<close> tells whether it is a vote for the block.\<close>

record ext_vote =
  ev_Commit :: bool
  ev_Address :: string
  ev_Power :: int
  ev_Extension :: string

datatype ext_status = ACCEPT | REJECT

record wire_header =
  wh_Version :: int
  wh_PrevBlock :: string
  wh_MerkleRoot :: string
  wh_Timestamp :: int
  wh_Bits :: "32 word"
  wh_Nonce :: "32 word"

record price_quote =
  pq_Price :: string
  pq_Time :: int

text \<open>What a validator keeps in memory: the latest quote of each symbol and exchange, and the time of the last extension in milliseconds.\<close>

record oracle_node =
  on_Cache :: "(string \<times> string, price_quote) kv"
  on_LastSync :: int

text \<open>
  The third-party operations: the protobuf decoding of an extension and of a commit and the encoding of a commit, \<open>ValidateVoteExtensions\<close> of the
  SDK, the sanity check and the hash of a header of \<open>btcd\<close>, the number \<open>SetString\<close> reads from the bits of a header, the Bitcoin node, the printing of a
  decimal, and the order in which Go ranges over the keys of a map.
\<close>

record 'b oenv = "'b nenv" +
  decode_ext :: "string \<Rightarrow> vote_ext res"
  decode_commit :: "string \<Rightarrow> ext_vote list res"
  encode_commit :: "ext_vote list \<Rightarrow> string res"
  validate_votes :: "int \<Rightarrow> ext_vote list \<Rightarrow> unit res"
  header_sane :: "wire_header \<Rightarrow> bool"
  block_hash :: "wire_header \<Rightarrow> string"
  bits_number :: "string \<Rightarrow> int"
  rpc_block_count :: "int res"
  rpc_block_hash :: "int \<Rightarrow> string res"
  rpc_header :: "string \<Rightarrow> block_header res"
  print_dec :: "dec \<Rightarrow> string"
  map_order :: "string list \<Rightarrow> string list"

abbreviation "ErrInsufficientVotingPower \<equiv> Registered ''oracle'' 1200"

text \<open>The height from which extensions are enabled is a consensus parameter that may be missing.\<close>

definition voteExtensionEnabled :: "int option \<Rightarrow> int \<Rightarrow> bool" where
  "voteExtensionEnabled enableHeight height \<longleftrightarrow> (case enableHeight of None \<Rightarrow> False | Some h \<Rightarrow> h < height \<and> h \<noteq> 0)"

section \<open>Headers\<close>

text \<open>An error of \<open>NewHashFromStr\<close> is dropped and its nil result dereferenced.\<close>

definition ToWireHeader :: "('b, 'e) oenv_scheme \<Rightarrow> block_header \<Rightarrow> wire_header res" where
  "ToWireHeader E h =
     (if \<not> hash_ok E (bh_PreviousBlockHash h) \<or> \<not> hash_ok E (bh_MerkleRoot h) then Inl Panic
      else Inr \<lparr>wh_Version = bh_Version h, wh_PrevBlock = hash_bytes E (bh_PreviousBlockHash h), wh_MerkleRoot = hash_bytes E (bh_MerkleRoot h),
        wh_Timestamp = bh_Time h, wh_Bits = word_of_int (bits_number E (bh_Bits h)), wh_Nonce = ucast (bh_Nonce h)\<rparr>)"

definition BlockHeader_Validate :: "('b, 'e) oenv_scheme \<Rightarrow> block_header \<Rightarrow> unit res" where
  "BlockHeader_Validate E h =
     bind_res (ToWireHeader E h) (\<lambda>w.
     if \<not> header_sane E w then Inl ErrInvalidBlockHeader
     else if bh_Hash h \<noteq> block_hash E w then Inl ErrInvalidBlockHeader else Inr ())"

text \<open>The headers form a chain: the code rejects one that has both the wrong height and the wrong previous hash.\<close>

fun headers_from :: "('b, 'e) oenv_scheme \<Rightarrow> (int \<times> string) option \<Rightarrow> block_header list \<Rightarrow> unit res" where
  "headers_from E prev [] = Inr ()"
| "headers_from E prev (h # hs) =
     bind_res (BlockHeader_Validate E h) (\<lambda>_.
     case prev of
       Some (n, x) \<Rightarrow> if bh_Height h \<noteq> n + 1 \<and> bh_PreviousBlockHash h \<noteq> x then Inl ErrInvalidBlockHeaders
         else headers_from E (Some (bh_Height h, bh_Hash h)) hs
     | None \<Rightarrow> headers_from E (Some (bh_Height h, bh_Hash h)) hs)"

definition BlockHeaders_Validate :: "('b, 'e) oenv_scheme \<Rightarrow> block_header list \<Rightarrow> unit res" where
  "BlockHeaders_Validate E hs = (if hs = [] then Inl ErrInvalidBlockHeaders else headers_from E None hs)"

section \<open>Extending a vote\<close>

definition CachePrice :: "string \<Rightarrow> string \<Rightarrow> string \<Rightarrow> int \<Rightarrow> oracle_node \<Rightarrow> oracle_node" where
  "CachePrice exchange symbol price time s =
     (if symbol = '''' \<or> price = '''' then s
      else s\<lparr>on_Cache := kv_set (symbol, exchange) \<lparr>pq_Price = price, pq_Time = time\<rparr> (on_Cache s)\<rparr>)"

text \<open>The readable prices of a symbol that are newer than the last extension.\<close>

definition fresh_prices :: "('b, 'e) oenv_scheme \<Rightarrow> oracle_node \<Rightarrow> string \<Rightarrow> dec list" where
  "fresh_prices E s symbol =
     List.map_filter (\<lambda>((sym, _), q). if sym = symbol \<and> on_LastSync s < pq_Time q then parse_dec E (pq_Price q) else None) (on_Cache s)"

definition getAllVolumeWeightedPrices :: "('b, 'e) oenv_scheme \<Rightarrow> oracle_node \<Rightarrow> (string \<times> string) list" where
  "getAllVolumeWeightedPrices E s =
     map (\<lambda>symbol. let ps = fresh_prices E s symbol in (symbol, print_dec E (dec_quo_int E (sum_list ps) (int (length ps)))))
       (filter (\<lambda>symbol. fresh_prices E s symbol \<noteq> []) (remdups (map (fst \<circ> fst) (on_Cache s))))"

text \<open>At odd heights: the header six blocks deep when it is the next, or else up to ten headers after the best one.\<close>

definition getBitcoinHeaders :: "('b, 'e) oenv_scheme \<Rightarrow> ('c, 'x) chain_scheme \<Rightarrow> int \<Rightarrow> block_header list res" where
  "getBitcoinHeaders E s height =
     (if height mod 2 = 0 then Inr []
      else bind_res (rpc_block_count E) (\<lambda>count.
      let best = count - 6 + 1 in
      bind_res (rpc_block_hash E best) (\<lambda>hash.
      bind_res (rpc_header E hash) (\<lambda>b.
      let l = GetBestBlockHeader s in
      if bh_Height l = 0 \<or> bh_Hash l = bh_PreviousBlockHash b then Inr [b\<lparr>bh_Ntx := 0\<rparr>]
      else if bh_Hash l = hash then Inr []
      else map_res (\<lambda>n. bind_res (rpc_block_hash E n) (\<lambda>x. bind_res (rpc_header E x) (\<lambda>b. Inr (b\<lparr>bh_Ntx := 0\<rparr>))))
        [bh_Height l + 1 .. min (sint (word_of_int best :: 32 word)) (bh_Height l + 10)]))))"

definition ExtendVote ::
  "('b, 'e) oenv_scheme \<Rightarrow> bool \<Rightarrow> int option \<Rightarrow> ('c, 'x) chain_scheme \<Rightarrow> int \<Rightarrow> int \<Rightarrow> oracle_node \<Rightarrow> vote_ext option \<times> oracle_node" where
  "ExtendVote E enabled enableHeight s height now m =
     (if \<not> enabled \<or> \<not> voteExtensionEnabled enableHeight height then (None, m)
      else let prices = getAllVolumeWeightedPrices E m; r = getBitcoinHeaders E s height
        in (Some \<lparr>ve_Height = height, ve_Prices = prices, ve_Blocks = (case r of Inl _ \<Rightarrow> [] | Inr hs \<Rightarrow> hs),
              ve_HasError = (case r of Inl _ \<Rightarrow> True | Inr _ \<Rightarrow> False)\<rparr>, m\<lparr>on_LastSync := now div 10 ^ 6\<rparr>))"

fun validate_blocks :: "('b, 'e) oenv_scheme \<Rightarrow> block_header list \<Rightarrow> unit res" where
  "validate_blocks E [] = Inr ()"
| "validate_blocks E (h # hs) = (case BlockHeader_Validate E h of
     Inl e \<Rightarrow> Inl (if e = Panic then Panic else ErrInvalidBlockHeader)
   | Inr _ \<Rightarrow> validate_blocks E hs)"

definition VerifyVoteExtension :: "('b, 'e) oenv_scheme \<Rightarrow> int option \<Rightarrow> int \<Rightarrow> string \<Rightarrow> ext_status res" where
  "VerifyVoteExtension E enableHeight height ext =
     (if \<not> voteExtensionEnabled enableHeight height then Inr ACCEPT
      else if 20 * 1024 < length ext then Inr REJECT
      else bind_res (decode_ext E ext) (\<lambda>x.
      if ve_Height x \<noteq> height then Inl (External ''vote extension height'')
      else bind_res (validate_blocks E (ve_Blocks x)) (\<lambda>_. Inr ACCEPT)))"

section \<open>The proposal\<close>

definition PrepareProposal ::
  "('b, 'e) oenv_scheme \<Rightarrow> int option \<Rightarrow> int \<Rightarrow> ext_vote list \<Rightarrow> string list \<Rightarrow> string list res" where
  "PrepareProposal E enableHeight height commit txs =
     (if \<not> voteExtensionEnabled enableHeight height then Inr txs
      else bind_res (validate_votes E height commit) (\<lambda>_.
      case encode_commit E commit of
        Inl _ \<Rightarrow> Inl (External ''failed to encode injected vote extension tx'')
      | Inr bz \<Rightarrow> Inr (bz # txs)))"

definition ProcessProposal :: "('b, 'e) oenv_scheme \<Rightarrow> int option \<Rightarrow> int \<Rightarrow> string list \<Rightarrow> ext_status res" where
  "ProcessProposal E enableHeight height txs =
     (if \<not> voteExtensionEnabled enableHeight height then Inr ACCEPT
      else case txs of
        [] \<Rightarrow> Inr ACCEPT
      | bz # _ \<Rightarrow> (case decode_commit E bz of
          Inl _ \<Rightarrow> Inr REJECT
        | Inr commit \<Rightarrow> bind_res (validate_votes E height commit) (\<lambda>_. Inr ACCEPT)))"

section \<open>The tally\<close>

text \<open>
  For each symbol the sum of the prices times their powers and the sum of the powers, both decimals; for each
  list of headers, under the hash of their hashes, the power that voted for it; and the total power.
\<close>

record vote_tally =
  vt_Prices :: "(string, dec \<times> dec) kv"
  vt_Headers :: "(string, int \<times> block_header list) kv"
  vt_Total :: int

definition add_price :: "('b, 'e) oenv_scheme \<Rightarrow> int \<Rightarrow> string \<times> string \<Rightarrow> (string, dec \<times> dec) kv \<Rightarrow> (string, dec \<times> dec) kv" where
  "add_price E pw x m = (case parse_dec E (snd x) of
     None \<Rightarrow> m
   | Some p \<Rightarrow> if p \<le> 0 then m
       else case kv_get m (fst x) of
         Some (a, w) \<Rightarrow> kv_set (fst x) (a + p * pw, w + to_dec pw) m
       | None \<Rightarrow> kv_set (fst x) (p * pw, to_dec pw) m)"

definition headers_key :: "('b, 'e) oenv_scheme \<Rightarrow> block_header list \<Rightarrow> string" where
  "headers_key E hs = hex_encode (sha256 E (concat (map bh_Hash hs)))"

definition add_headers :: "('b, 'e) oenv_scheme \<Rightarrow> int \<Rightarrow> block_header list \<Rightarrow> (string, int \<times> block_header list) kv \<Rightarrow>
   (string, int \<times> block_header list) kv" where
  "add_headers E pw hs m =
     (let k = headers_key E hs
      in kv_set k (case kv_get m k of Some (n, _) \<Rightarrow> i64 (n + pw) | None \<Rightarrow> pw, hs) m)"

definition tally_vote :: "('b, 'e) oenv_scheme \<Rightarrow> ext_vote \<Rightarrow> vote_tally \<Rightarrow> vote_tally res" where
  "tally_vote E v t =
     (if \<not> ev_Commit v then Inr t
      else bind_res (decode_ext E (ev_Extension v)) (\<lambda>x.
        Inr \<lparr>vt_Prices = fold (add_price E (ev_Power v)) (ve_Prices x) (vt_Prices t),
             vt_Headers = add_headers E (ev_Power v) (ve_Blocks x) (vt_Headers t), vt_Total = i64 (vt_Total t + ev_Power v)\<rparr>))"

text \<open>\<open>RoundInt64\<close> of a sum of powers is exact and panics when it does not fit.\<close>

definition power_of :: "dec \<Rightarrow> int res" where
  "power_of w = (let n = w div 10 ^ 18 in if - (2 ^ 63) \<le> n \<and> n < 2 ^ 63 then Inr n else Inl Panic)"

definition final_price :: "('b, 'e) oenv_scheme \<Rightarrow> int \<Rightarrow> string \<times> dec \<times> dec \<Rightarrow> (string \<times> dec) list res" where
  "final_price E tot x = (case x of (symbol, a, w) \<Rightarrow>
     if a \<le> 0 then Inr []
     else bind_res (power_of w) (\<lambda>n.
       if i64 (n * 2) < tot then Inr []
       else if w = 0 then Inl Panic
       else Inr [(symbol, dec_quo E a w)]))"

definition selected_headers :: "('b, 'e) oenv_scheme \<Rightarrow> vote_tally \<Rightarrow> block_header list" where
  "selected_headers E t =
     (case find (\<lambda>k. case kv_get (vt_Headers t) k of None \<Rightarrow> False | Some (n, _) \<Rightarrow> vt_Total t \<le> i64 (n * 2))
        (map_order E (kv_keys (vt_Headers t))) of
       None \<Rightarrow> []
     | Some k \<Rightarrow> (case kv_get (vt_Headers t) k of None \<Rightarrow> [] | Some (_, hs) \<Rightarrow> hs))"

definition extractPricesAndBlockHeaders ::
  "('b, 'e) oenv_scheme \<Rightarrow> ext_vote list \<Rightarrow> ((string \<times> dec) list \<times> block_header list) res" where
  "extractPricesAndBlockHeaders E votes =
     bind_res (fold_res (tally_vote E) votes \<lparr>vt_Prices = [], vt_Headers = [], vt_Total = 0\<rparr>) (\<lambda>t.
     if vt_Total t = 0 then Inl ErrInsufficientVotingPower
     else bind_res (map_res (final_price E (vt_Total t)) (vt_Prices t)) (\<lambda>ps. Inr (concat ps, selected_headers E t)))"

text \<open>An error of the headers is logged, those stored before it stay.\<close>

definition PreBlocker ::
  "('b, 'e) oenv_scheme \<Rightarrow> int option \<Rightarrow> int \<Rightarrow> string list \<Rightarrow> ('c, 'x) chain_scheme \<Rightarrow> ('c, 'x) chain_scheme res" where
  "PreBlocker E enableHeight height txs s =
     (if \<not> voteExtensionEnabled enableHeight height then Inr s
      else case txs of
        [] \<Rightarrow> Inr s
      | bz # _ \<Rightarrow>
        bind_res (decode_commit E bz) (\<lambda>votes.
        bind_res (extractPricesAndBlockHeaders E votes) (\<lambda>(prices, headers).
        let s = fold (\<lambda>(symbol, p) s. if 0 < p then SetPrice symbol (print_dec E p) s else s) prices s;
            s = SetPrice ''BTCTBTC'' ''1.0'' s
        in Inr (snd (SetBlockHeaders headers s)))))"

section \<open>Genesis\<close>

text \<open>The parameters of the module are stored and never read. The export has only them.\<close>

definition oracle_InitGenesis :: "('b, 'e) oenv_scheme \<Rightarrow> block_header list \<Rightarrow> (string \<times> dec) list \<Rightarrow> ('c, 'x) chain_scheme \<Rightarrow> ('c, 'x) chain_scheme" where
  "oracle_InitGenesis E blocks prices s =
     fold (\<lambda>(symbol, p). SetPrice symbol (print_dec E p)) prices (snd (SetBlockHeaders blocks s))"

definition GetAllPrices :: "('b, 'e) oenv_scheme \<Rightarrow> ('c, 'x) chain_scheme \<Rightarrow> (string \<times> dec option) list" where
  "GetAllPrices E s = map (\<lambda>(symbol, str). (symbol, parse_dec E str)) (ch_prices s)"


section \<open>What the tally counts\<close>

text \<open>The positive prices of a symbol in the votes for the block, with their powers.\<close>

definition prices_in :: "('b, 'e) oenv_scheme \<Rightarrow> string \<Rightarrow> int \<Rightarrow> (string \<times> string) list \<Rightarrow> (dec \<times> int) list" where
  "prices_in E symbol pw ps = List.map_filter (\<lambda>(sym, str). if sym \<noteq> symbol then None
     else case parse_dec E str of None \<Rightarrow> None | Some p \<Rightarrow> if p \<le> 0 then None else Some (p, pw)) ps"

definition vote_reports :: "('b, 'e) oenv_scheme \<Rightarrow> string \<Rightarrow> ext_vote \<Rightarrow> (dec \<times> int) list" where
  "vote_reports E symbol v = (if \<not> ev_Commit v then [] else case decode_ext E (ev_Extension v) of
     Inl _ \<Rightarrow> [] | Inr x \<Rightarrow> prices_in E symbol (ev_Power v) (ve_Prices x))"

definition reports :: "('b, 'e) oenv_scheme \<Rightarrow> string \<Rightarrow> ext_vote list \<Rightarrow> (dec \<times> int) list" where
  "reports E symbol vs = concat (map (vote_reports E symbol) vs)"

definition committed :: "ext_vote list \<Rightarrow> int" where
  "committed vs = sum_list (map (\<lambda>v. if ev_Commit v then ev_Power v else 0) vs)"

text \<open>The power of the votes for a list of headers with the given key.\<close>

definition header_vote :: "('b, 'e) oenv_scheme \<Rightarrow> string \<Rightarrow> ext_vote \<Rightarrow> int" where
  "header_vote E k v = (if \<not> ev_Commit v then 0 else case decode_ext E (ev_Extension v) of
     Inl _ \<Rightarrow> 0 | Inr x \<Rightarrow> if headers_key E (ve_Blocks x) = k then ev_Power v else 0)"

definition header_power :: "('b, 'e) oenv_scheme \<Rightarrow> string \<Rightarrow> ext_vote list \<Rightarrow> int" where
  "header_power E k vs = sum_list (map (header_vote E k) vs)"

definition weighted :: "(dec \<times> int) list \<Rightarrow> dec \<times> dec" where
  "weighted rs = (sum_list (map (\<lambda>(p, w). p * w) rs), to_dec (sum_list (map snd rs)))"

lemma to_dec_add: "to_dec (a + b) = to_dec a + to_dec b"
  by (simp add: to_dec_def distrib_right)

lemma weighted_append: "weighted (rs @ rs') = (fst (weighted rs) + fst (weighted rs'), snd (weighted rs) + snd (weighted rs'))"
  by (simp add: weighted_def to_dec_add)

lemma prices_in_Cons: "prices_in E symbol pw (x # ps) = prices_in E symbol pw [x] @ prices_in E symbol pw ps"
  by (auto simp: prices_in_def List.map_filter_def)

text \<open>Where a symbol stands in the tally after the reports \<open>rs\<close> of it.\<close>

definition counts :: "(string, dec \<times> dec) kv \<Rightarrow> string \<Rightarrow> (dec \<times> int) list \<Rightarrow> bool" where
  "counts m symbol rs \<longleftrightarrow> kv_get m symbol = (if rs = [] then None else Some (weighted rs))"

lemma add_price_get:
  "kv_get (add_price E pw x m) symbol = (let rs = prices_in E symbol pw [x] in
     if rs = [] then kv_get m symbol
     else Some (case kv_get m symbol of None \<Rightarrow> weighted rs | Some (a, w) \<Rightarrow> (a + fst (weighted rs), w + snd (weighted rs))))"
proof -
  obtain sym str where x: "x = (sym, str)" by fastforce
  show ?thesis
    by (cases "parse_dec E str")
      (auto simp: add_price_def x prices_in_def List.map_filter_def weighted_def split: option.splits)
qed

lemma add_price_counts:
  assumes "counts m symbol rs" "kv_ok m"
  shows "counts (add_price E pw x m) symbol (rs @ prices_in E symbol pw [x])" "kv_ok (add_price E pw x m)"
proof -
  show "counts (add_price E pw x m) symbol (rs @ prices_in E symbol pw [x])"
    using assms(1) unfolding counts_def add_price_get Let_def
    by (cases "rs = []"; cases "prices_in E symbol pw [x] = []") (simp_all add: weighted_append case_prod_unfold)
  show "kv_ok (add_price E pw x m)"
    using assms(2) by (auto simp: add_price_def split: option.splits)
qed

lemma add_prices_counts:
  assumes "counts m symbol rs" "kv_ok m"
  shows "counts (fold (add_price E pw) ps m) symbol (rs @ prices_in E symbol pw ps) \<and> kv_ok (fold (add_price E pw) ps m)"
  using assms
proof (induction ps arbitrary: m rs)
  case Nil
  then show ?case by (simp add: prices_in_def List.map_filter_def)
next
  case (Cons x ps)
  from Cons.IH [OF add_price_counts [OF Cons.prems]] show ?case by (subst prices_in_Cons) simp
qed

lemma tally_prices:
  assumes "fold_res (tally_vote E) vs t = Inr t'" "counts (vt_Prices t) symbol rs" "kv_ok (vt_Prices t)"
  shows "counts (vt_Prices t') symbol (rs @ reports E symbol vs) \<and> kv_ok (vt_Prices t')"
  using assms
proof (induction vs arbitrary: t rs)
  case (Cons v vs)
  obtain u where u: "tally_vote E v t = Inr u" "fold_res (tally_vote E) vs u = Inr t'" using Cons.prems(1) by (auto simp: bind_res_eq_Inr)
  have "counts (vt_Prices u) symbol (rs @ vote_reports E symbol v) \<and> kv_ok (vt_Prices u)"
  proof (cases "ev_Commit v")
    case True
    then obtain x where "decode_ext E (ev_Extension v) = Inr x" "vt_Prices u = fold (add_price E (ev_Power v)) (ve_Prices x) (vt_Prices t)"
      using u(1) by (auto simp: tally_vote_def bind_res_eq_Inr)
    then show ?thesis using add_prices_counts [OF Cons.prems(2,3), of E "ev_Power v" "ve_Prices x"] True by (simp add: vote_reports_def)
  next
    case False
    then show ?thesis using u(1) Cons.prems(2,3) by (simp add: tally_vote_def vote_reports_def)
  qed
  then show ?case using Cons.IH [OF u(2), of "rs @ vote_reports E symbol v"] by (simp add: reports_def)
qed (simp add: reports_def)

lemma tally_total:
  assumes "fold_res (tally_vote E) vs t = Inr t'" "\<forall>v \<in> set vs. 0 \<le> ev_Power v" "0 \<le> vt_Total t" "vt_Total t + committed vs < 2 ^ 62"
  shows "vt_Total t' = vt_Total t + committed vs"
  using assms
proof (induction vs arbitrary: t)
  case (Cons v vs)
  obtain u where u: "tally_vote E v t = Inr u" "fold_res (tally_vote E) vs u = Inr t'" using Cons.prems(1) by (auto simp: bind_res_eq_Inr)
  have nn: "0 \<le> committed vs" unfolding committed_def using Cons.prems(2) by (intro sum_list_nonneg) auto
  have "vt_Total u = vt_Total t + (if ev_Commit v then ev_Power v else 0)"
    using u(1) Cons.prems(2-4) nn by (auto simp: tally_vote_def bind_res_eq_Inr committed_def i64_id split: if_splits)
  moreover from this have "0 \<le> vt_Total u" "vt_Total u + committed vs < 2 ^ 62" using Cons.prems(2-4) by (auto simp: committed_def)
  ultimately show ?case using Cons.IH [OF u(2)] Cons.prems(2) by (simp add: committed_def)
qed (simp add: committed_def)

lemma map_res_in: "map_res f xs = Inr ys \<Longrightarrow> y \<in> set ys \<Longrightarrow> \<exists>x \<in> set xs. f x = Inr y"
  by (induction xs arbitrary: ys) (auto simp: bind_res_eq_Inr)

lemma weighted_between:
  assumes "\<forall>(p, w) \<in> set rs. lo \<le> p \<and> p \<le> hi \<and> 0 \<le> w"
  shows "lo * sum_list (map snd rs) \<le> fst (weighted rs) \<and> fst (weighted rs) \<le> hi * sum_list (map snd rs)"
  using assms
proof (induction rs)
  case (Cons x rs)
  obtain p w where x: "x = (p, w)" by fastforce
  have "lo * w \<le> p * w" "p * w \<le> hi * w" using Cons.prems x by (auto intro: mult_right_mono)
  then show ?case using Cons x by (simp add: weighted_def distrib_left)
qed (simp add: weighted_def)

lemma quo_between:
  assumes "dec_ok E" "0 < W" "lo * W \<le> a" "a \<le> hi * W"
  shows "lo \<le> dec_quo E a (to_dec W) \<and> dec_quo E a (to_dec W) \<le> hi"
proof -
  let ?q = "dec_quo E a (to_dec W)"
  have "to_dec W \<noteq> 0" using assms(2) by (simp add: to_dec_def)
  then have "\<bar>?q * to_dec W - a * 10 ^ 18\<bar> < \<bar>to_dec W\<bar>" using assms(1) unfolding dec_ok_def by blast
  then have "\<bar>(?q * W - a) * 10 ^ 18\<bar> < W * 10 ^ 18" using assms(2) by (simp add: to_dec_def algebra_simps)
  then have "\<bar>?q * W - a\<bar> < W" using assms(2) by (simp add: abs_mult)
  then have "(lo - 1) * W < ?q * W" "?q * W < (hi + 1) * W" using assms(3,4) by (simp_all add: algebra_simps)
  then show ?thesis using assms(2) by (simp add: mult_less_cancel_right)
qed

text \<open>
  C?. The prices of the oracle. A price is only set when validators with at least half of the power of the votes for the block
  reported a positive price for its symbol, and it lies between the smallest and the largest price they reported: no rounding and no validator
  can move it out of the range of the reports.
\<close>

theorem oracle_price_bounds:
  assumes "extractPricesAndBlockHeaders E votes = Inr (prices, headers)" "(symbol, p) \<in> set prices" "dec_ok E"
    and "\<forall>v \<in> set votes. 0 \<le> ev_Power v" "committed votes < 2 ^ 62"
  shows "committed votes \<le> 2 * sum_list (map snd (reports E symbol votes)) \<and> reports E symbol votes \<noteq> []
    \<and> (\<forall>lo hi. (\<forall>(q, w) \<in> set (reports E symbol votes). lo \<le> q \<and> q \<le> hi) \<longrightarrow> lo \<le> p \<and> p \<le> hi)"
proof -
  let ?rs = "reports E symbol votes" and ?W = "sum_list (map snd (reports E symbol votes))"
  obtain t ps where t: "fold_res (tally_vote E) votes \<lparr>vt_Prices = [], vt_Headers = [], vt_Total = 0\<rparr> = Inr t"
    and ps: "map_res (final_price E (vt_Total t)) (vt_Prices t) = Inr ps" "prices = concat ps"
    using assms(1) by (auto simp: extractPricesAndBlockHeaders_def bind_res_eq_Inr split: if_splits)
  have counts: "counts (vt_Prices t) symbol ?rs" "kv_ok (vt_Prices t)"
    using tally_prices [OF t, of symbol "[]"] by (simp_all add: counts_def)
  have tot: "vt_Total t = committed votes" using tally_total [OF t assms(4)] assms(5) by simp
  obtain x where x: "x \<in> set (vt_Prices t)" "\<exists>y. final_price E (vt_Total t) x = Inr y \<and> (symbol, p) \<in> set y"
    using assms(2) map_res_in [OF ps(1)] unfolding ps(2) by fastforce
  obtain sym a w where xw: "x = (sym, a, w)" using prod_cases3 by blast
  have fin: "0 < a" "sym = symbol" "p = dec_quo E a w" and half: "\<exists>n. power_of w = Inr n \<and> \<not> i64 (n * 2) < vt_Total t"
    using x(2) by (auto simp: final_price_def xw bind_res_eq_Inr split: if_splits)
  have "kv_get (vt_Prices t) symbol = Some (a, w)"
    using x(1) kv_ok_distinct [OF counts(2)] unfolding xw fin(2) by (simp add: kv_get_def kv_keys_def)
  then have rs: "?rs \<noteq> []" "weighted ?rs = (a, w)" using counts(1) by (auto simp: counts_def split: if_splits)
  have w: "w = to_dec ?W" "a = fst (weighted ?rs)" using rs(2) by (auto simp: weighted_def)
  have nn: "0 \<le> k" if "(q, k) \<in> set ?rs" for q k
    using that assms(4) by (auto simp: reports_def vote_reports_def prices_in_def List.map_filter_def split: if_splits sum.splits option.splits)
  have W: "0 \<le> ?W" using nn by (intro sum_list_nonneg) auto
  have "power_of w = Inr ?W \<and> \<not> i64 (?W * 2) < committed votes"
    using half unfolding w(1) power_of_def tot by (auto simp: to_dec_def Let_def split: if_splits)
  then have i: "committed votes \<le> i64 (?W * 2)" "?W < 2 ^ 63" unfolding w(1) power_of_def by (auto simp: to_dec_def Let_def split: if_splits)
  have enough: "committed votes \<le> 2 * ?W"
  proof (cases "?W < 2 ^ 62")
    case True
    then have "i64 (?W * 2) = ?W * 2" using W by (intro i64_id) simp_all
    then show ?thesis using i(1) by simp
  qed (use assms(5) in simp)
  have pos: "0 < ?W"
  proof (rule ccontr)
    assume "\<not> 0 < ?W"
    then have zero: "?W = 0" using W by simp
    have "\<forall>x \<in> set ?rs. snd x = 0" using nn zero sum_list_nonneg_eq_0_iff [of "map snd ?rs"] by fastforce
    then have "map (\<lambda>(q, k). q * k) ?rs = map (\<lambda>_. 0) ?rs" by (intro map_cong) auto
    then have "fst (weighted ?rs) = sum_list (map (\<lambda>_. 0) ?rs)" unfolding weighted_def fst_conv by (rule arg_cong)
    also have "\<dots> = 0" by (rule sum_list_0)
    finally show False using fin(1) w(2) by simp
  qed
  have range: "lo \<le> p \<and> p \<le> hi" if "\<forall>(q, k) \<in> set ?rs. lo \<le> q \<and> q \<le> hi" for lo hi
  proof -
    have "lo * ?W \<le> a \<and> a \<le> hi * ?W" unfolding w(2) by (rule weighted_between) (use that nn in blast)
    then show ?thesis using quo_between [OF assms(3) pos, of lo a hi] fin(3) w(1) by simp
  qed
  show ?thesis using enough rs(1) range by blast
qed

section \<open>The headers that are stored\<close>

text \<open>Each header continues the one before it; the first may follow a best header that does not exist.\<close>

fun linked :: "block_header \<Rightarrow> block_header list \<Rightarrow> bool" where
  "linked best [] \<longleftrightarrow> True"
| "linked best (h # hs) \<longleftrightarrow> (bh_Hash best = '''' \<or> bh_Hash best = bh_PreviousBlockHash h) \<and> linked h hs"

lemma best_SetBlockHeader [simp]: "GetBestBlockHeader (SetBlockHeader h s) = GetBestBlockHeader s"
  by (simp add: GetBestBlockHeader_def SetBlockHeader_def)

lemma best_SetPrice [simp]: "GetBestBlockHeader (SetPrice symbol p s) = GetBestBlockHeader s"
  by (simp add: GetBestBlockHeader_def SetPrice_def)

lemma best_set_prices [simp]:
  "GetBestBlockHeader (fold (\<lambda>(symbol, p) s. if 0 < p then SetPrice symbol (print_dec E p) s else s) prices s) = GetBestBlockHeader s"
  by (induction prices arbitrary: s) auto

lemma store_headers_best:
  "store_headers hs best s = (b, s') \<Longrightarrow>
     b = linked best hs \<and> GetBestBlockHeader s' = (if b then last (best # hs) else GetBestBlockHeader s)"
proof (induction hs arbitrary: best s)
  case Nil
  then show ?case by (auto simp: GetBestBlockHeader_def SetBestBlockHeader_def)
next
  case (Cons h hs)
  show ?case
  proof (cases "bh_Hash best \<noteq> '''' \<and> bh_Hash best \<noteq> bh_PreviousBlockHash h")
    case False
    then have "store_headers hs h (SetBlockHeader h s) = (b, s')" using Cons.prems by (simp only: store_headers.simps if_False)
    from Cons.IH [OF this] False show ?thesis by auto
  qed (use Cons.prems in auto)
qed

lemma SetBlockHeaders_best:
  "GetBestBlockHeader (snd (SetBlockHeaders hs s)) =
     (if hs \<noteq> [] \<and> linked (GetBestBlockHeader s) (sort_key bh_Height hs) then last (sort_key bh_Height hs) else GetBestBlockHeader s)"
proof (cases "hs = []")
  case False
  obtain b s' where r: "store_headers (sort_key bh_Height hs) (GetBestBlockHeader s) s = (b, s')" by fastforce
  have "sort_key bh_Height hs \<noteq> []" using False by (metis length_0_conv length_sort)
  then show ?thesis using False r store_headers_best [OF r] by (cases b) (auto simp: SetBlockHeaders_def)
qed (simp add: SetBlockHeaders_def)

text \<open>The lists of headers with the given key in the votes for the block, in their order.\<close>

definition vote_lists :: "('b, 'e) oenv_scheme \<Rightarrow> string \<Rightarrow> ext_vote \<Rightarrow> block_header list list" where
  "vote_lists E k v = (if \<not> ev_Commit v then [] else case decode_ext E (ev_Extension v) of
     Inl _ \<Rightarrow> [] | Inr x \<Rightarrow> if headers_key E (ve_Blocks x) = k then [ve_Blocks x] else [])"

definition header_lists :: "('b, 'e) oenv_scheme \<Rightarrow> string \<Rightarrow> ext_vote list \<Rightarrow> block_header list list" where
  "header_lists E k vs = concat (map (vote_lists E k) vs)"

lemma header_power_append: "header_power E k (vs @ us) = header_power E k vs + header_power E k us"
  by (simp add: header_power_def)

lemma header_lists_append: "header_lists E k (vs @ us) = header_lists E k vs @ header_lists E k us"
  by (simp add: header_lists_def)

lemma vote_lists_one: "vote_lists E k v = [] \<and> header_vote E k v = 0 \<or>
    (\<exists>x. ev_Commit v \<and> decode_ext E (ev_Extension v) = Inr x \<and> headers_key E (ve_Blocks x) = k
      \<and> vote_lists E k v = [ve_Blocks x] \<and> header_vote E k v = ev_Power v)"
  by (cases "decode_ext E (ev_Extension v)") (simp_all add: vote_lists_def header_vote_def)

lemma header_lists_key:
  assumes "hs \<in> set (header_lists E k vs)"
  shows "headers_key E hs = k \<and> (\<exists>v \<in> set vs. ev_Commit v \<and> (\<exists>x. decode_ext E (ev_Extension v) = Inr x \<and> ve_Blocks x = hs))"
proof -
  obtain v where "v \<in> set vs" "hs \<in> set (vote_lists E k v)" using assms by (auto simp: header_lists_def)
  then show ?thesis using vote_lists_one [of E k v] by auto
qed

lemma header_power_none: "header_lists E k vs = [] \<Longrightarrow> header_power E k vs = 0"
proof (induction vs)
  case (Cons v vs)
  then show ?case using vote_lists_one [of E k v] by (auto simp: header_lists_def header_power_def)
qed (simp add: header_power_def)

lemma header_power_bounds:
  assumes "\<forall>v \<in> set vs. 0 \<le> ev_Power v"
  shows "0 \<le> header_power E k vs \<and> header_power E k vs \<le> committed vs"
  using assms unfolding header_power_def committed_def
  by (induction vs) (auto simp: header_vote_def split: sum.splits)

lemma header_power_disjoint:
  assumes "\<forall>v \<in> set vs. 0 \<le> ev_Power v" "k \<noteq> k'"
  shows "header_power E k vs + header_power E k' vs \<le> committed vs"
  using assms unfolding header_power_def committed_def
  by (induction vs) (auto simp: header_vote_def split: sum.splits)

text \<open>What the tally keeps of the headers after the votes \<open>vs\<close>.\<close>

definition headers_count :: "('b, 'e) oenv_scheme \<Rightarrow> ext_vote list \<Rightarrow> vote_tally \<Rightarrow> bool" where
  "headers_count E vs t \<longleftrightarrow> (\<forall>k. kv_get (vt_Headers t) k =
     (if header_lists E k vs = [] then None else Some (header_power E k vs, last (header_lists E k vs))))"

lemma headers_count_step:
  assumes "headers_count E vs t" "tally_vote E v t = Inr u" "\<forall>w \<in> set (vs @ [v]). 0 \<le> ev_Power w" "committed (vs @ [v]) < 2 ^ 62"
  shows "headers_count E (vs @ [v]) u"
proof (cases "ev_Commit v")
  case False
  then have "header_lists E k (vs @ [v]) = header_lists E k vs \<and> header_power E k (vs @ [v]) = header_power E k vs" for k
    by (simp add: header_lists_def header_power_def vote_lists_def header_vote_def)
  then show ?thesis using assms(1,2) False by (simp add: tally_vote_def headers_count_def)
next
  case True
  then obtain x where x: "decode_ext E (ev_Extension v) = Inr x"
    "vt_Headers u = add_headers E (ev_Power v) (ve_Blocks x) (vt_Headers t)"
    using assms(2) by (auto simp: tally_vote_def bind_res_eq_Inr)
  show ?thesis unfolding headers_count_def
  proof
    fix k
    have one: "header_lists E k [v] = (if headers_key E (ve_Blocks x) = k then [ve_Blocks x] else [])"
      "header_power E k [v] = (if headers_key E (ve_Blocks x) = k then ev_Power v else 0)"
      using True x(1) by (simp_all add: header_lists_def header_power_def vote_lists_def header_vote_def)
    have b: "i64 (header_power E k (vs @ [v])) = header_power E k (vs @ [v])"
      using header_power_bounds [OF assms(3), of E k] assms(4) by (intro i64_id) simp_all
    show "kv_get (vt_Headers u) k = (if header_lists E k (vs @ [v]) = [] then None
        else Some (header_power E k (vs @ [v]), last (header_lists E k (vs @ [v]))))"
      using assms(1) b header_power_none [of E k vs]
      unfolding x(2) add_headers_def Let_def header_lists_append header_power_append one headers_count_def by auto
  qed
qed

lemma tally_headers:
  assumes "fold_res (tally_vote E) us t = Inr t'" "headers_count E vs t" "\<forall>w \<in> set (vs @ us). 0 \<le> ev_Power w" "committed (vs @ us) < 2 ^ 62"
  shows "headers_count E (vs @ us) t'"
  using assms
proof (induction us arbitrary: t vs)
  case (Cons v us)
  obtain u where u: "tally_vote E v t = Inr u" "fold_res (tally_vote E) us u = Inr t'" using Cons.prems(1) by (auto simp: bind_res_eq_Inr)
  have "0 \<le> committed us" unfolding committed_def using Cons.prems(3) by (intro sum_list_nonneg) auto
  then have "committed (vs @ [v]) < 2 ^ 62" using Cons.prems(4) by (simp add: committed_def)
  then have "headers_count E (vs @ [v]) u" using headers_count_step [OF Cons.prems(2) u(1)] Cons.prems(3) by simp
  from Cons.IH [OF u(2) this] Cons.prems(3,4) show ?case by simp
qed simp

lemma selected_headers_some:
  assumes "headers_count E vs t" "vt_Total t = committed vs" "\<forall>w \<in> set vs. 0 \<le> ev_Power w" "committed vs < 2 ^ 62"
    and "selected_headers E t = hs" "hs \<noteq> []"
  shows "header_lists E (headers_key E hs) vs \<noteq> [] \<and> hs = last (header_lists E (headers_key E hs) vs)
    \<and> committed vs \<le> 2 * header_power E (headers_key E hs) vs"
proof -
  let ?P = "\<lambda>k. case kv_get (vt_Headers t) k of None \<Rightarrow> False | Some (n, _) \<Rightarrow> vt_Total t \<le> i64 (n * 2)"
  obtain k where f: "find ?P (map_order E (kv_keys (vt_Headers t))) = Some k"
    using assms(5,6) by (auto simp: selected_headers_def split: option.splits)
  then have P: "?P k" by (auto simp: find_Some_iff)
  then obtain n l where k: "kv_get (vt_Headers t) k = Some (n, l)" "vt_Total t \<le> i64 (n * 2)" by (auto split: option.splits)
  have "hs = l" using assms(5) k(1) f by (simp add: selected_headers_def)
  then have h: "header_lists E k vs \<noteq> []" "n = header_power E k vs" "hs = last (header_lists E k vs)"
    using assms(1) k(1) by (auto simp: headers_count_def split: if_splits)
  have key: "headers_key E hs = k" using header_lists_key [of hs E k vs] h by simp
  have b: "0 \<le> n" "n \<le> committed vs" using header_power_bounds [OF assms(3), of E k] h(2) by simp_all
  have "i64 (n * 2) = n * 2" using b assms(4) by (intro i64_id) simp_all
  then show ?thesis using k(2) h key assms(2) by simp
qed

lemma extract_tally:
  assumes "extractPricesAndBlockHeaders E votes = Inr (prices, headers)" "\<forall>v \<in> set votes. 0 \<le> ev_Power v" "committed votes < 2 ^ 62"
  shows "\<exists>t. headers_count E votes t \<and> vt_Total t = committed votes \<and> selected_headers E t = headers"
proof -
  obtain t where t: "fold_res (tally_vote E) votes \<lparr>vt_Prices = [], vt_Headers = [], vt_Total = 0\<rparr> = Inr t" "headers = selected_headers E t"
    using assms(1) by (auto simp: extractPricesAndBlockHeaders_def bind_res_eq_Inr split: if_splits)
  have "headers_count E [] \<lparr>vt_Prices = [], vt_Headers = [], vt_Total = 0\<rparr>" by (simp add: headers_count_def header_lists_def)
  from tally_headers [OF t(1) this] tally_total [OF t(1) assms(2)] assms(2,3) t(2) show ?thesis by auto
qed

text \<open>
  C?. The best header. A block moves the best header only to the last of the headers that a validator reported, that validators
  with at least half of the power of the votes for the block agree on by their hashes, and that form a chain from the best header before it.
\<close>

theorem oracle_chain_extends:
  assumes "PreBlocker E enableHeight height (bz # txs) s = Inr s'" "decode_commit E bz = Inr votes"
    and "\<forall>v \<in> set votes. 0 \<le> ev_Power v" "committed votes < 2 ^ 62"
  shows "GetBestBlockHeader s' = GetBestBlockHeader s
    \<or> (\<exists>hs. hs \<noteq> [] \<and> linked (GetBestBlockHeader s) (sort_key bh_Height hs) \<and> GetBestBlockHeader s' = last (sort_key bh_Height hs)
        \<and> committed votes \<le> 2 * header_power E (headers_key E hs) votes
        \<and> (\<exists>v \<in> set votes. ev_Commit v \<and> (\<exists>x. decode_ext E (ev_Extension v) = Inr x \<and> ve_Blocks x = hs)))"
proof (cases "voteExtensionEnabled enableHeight height")
  case True
  obtain prices headers where x: "extractPricesAndBlockHeaders E votes = Inr (prices, headers)"
    and s': "GetBestBlockHeader s' = (if headers \<noteq> [] \<and> linked (GetBestBlockHeader s) (sort_key bh_Height headers)
      then last (sort_key bh_Height headers) else GetBestBlockHeader s)"
    using assms(1,2) True by (auto simp: PreBlocker_def bind_res_eq_Inr Let_def SetBlockHeaders_best)
  obtain t where t: "headers_count E votes t" "vt_Total t = committed votes" "selected_headers E t = headers"
    using extract_tally [OF x assms(3,4)] by blast
  show ?thesis
  proof (cases "headers = []")
    case False
    from selected_headers_some [OF t(1,2) assms(3,4) t(3) False]
    have "headers \<in> set (header_lists E (headers_key E headers) votes)" "committed votes \<le> 2 * header_power E (headers_key E headers) votes"
      by (metis last_in_set, simp)
    then show ?thesis using s' False header_lists_key by (metis (no_types, lifting))
  qed (use s' in simp)
qed (use assms(1) in \<open>simp add: PreBlocker_def\<close>)

text \<open>
  C?. The heights of the headers are not agreed on. The votes are counted by the hashes of the headers and their validation
  does not read the height, so the last validator of the commit that reports the hashes of the majority decides the heights that are stored.
\<close>

theorem header_heights_unauthenticated:
  assumes "extractPricesAndBlockHeaders E (vs @ [v]) = Inr (prices, headers)" "ev_Commit v" "decode_ext E (ev_Extension v) = Inr x"
    and "ve_Blocks x \<noteq> []" "map bh_Hash (ve_Blocks x) = map bh_Hash hs"
    and "committed (vs @ [v]) < 2 * header_power E (headers_key E hs) (vs @ [v])"
    and "\<forall>w \<in> set (vs @ [v]). 0 \<le> ev_Power w" "committed (vs @ [v]) < 2 ^ 62" "\<forall>ks. set (map_order E ks) = set ks"
  shows "headers = ve_Blocks x \<and> (\<forall>h n. BlockHeader_Validate E (h\<lparr>bh_Height := n\<rparr>) = BlockHeader_Validate E h)"
proof -
  let ?votes = "vs @ [v]" and ?k = "headers_key E hs"
  obtain t where t: "headers_count E ?votes t" "vt_Total t = committed ?votes" "selected_headers E t = headers"
    using extract_tally [OF assms(1,7,8)] by blast
  have k: "headers_key E (ve_Blocks x) = ?k" by (simp add: headers_key_def assms(5))
  have last: "header_lists E ?k ?votes \<noteq> []" "last (header_lists E ?k ?votes) = ve_Blocks x"
    using assms(2,3) k by (simp_all add: header_lists_def vote_lists_def)
  let ?P = "\<lambda>k. case kv_get (vt_Headers t) k of None \<Rightarrow> False | Some (n, _) \<Rightarrow> vt_Total t \<le> i64 (n * 2)"
  have get: "kv_get (vt_Headers t) ?k = Some (header_power E ?k ?votes, ve_Blocks x)" using t(1) last by (simp add: headers_count_def)
  have b: "0 \<le> header_power E k ?votes" "header_power E k ?votes \<le> committed ?votes" for k
    using header_power_bounds [OF assms(7), of E k] by simp_all
  have i: "i64 (header_power E k ?votes * 2) = header_power E k ?votes * 2" for k
    using b [of k] assms(8) by (intro i64_id) simp_all
  have P: "?P ?k" using get i [of ?k] assms(6) t(2) by simp
  have unique: "k' = ?k" if "?P k'" for k'
  proof (rule ccontr)
    assume "k' \<noteq> ?k"
    from header_power_disjoint [OF assms(7) this, of E] have "2 * header_power E k' ?votes < committed ?votes" using assms(6) by simp
    then show False using that t(1,2) i [of k'] by (auto simp: headers_count_def split: if_splits)
  qed
  have "?k \<in> set (map_order E (kv_keys (vt_Headers t)))"
    using assms(9) get by (simp add: kv_keys_def kv_get_def map_of_SomeD image_iff) (metis map_of_SomeD fst_conv)
  then obtain k' where f: "find ?P (map_order E (kv_keys (vt_Headers t))) = Some k'"
    using P by (cases "find ?P (map_order E (kv_keys (vt_Headers t)))") (auto simp: find_None_iff)
  then have "k' = ?k" using unique [of k'] by (auto simp: find_Some_iff)
  then have "headers = ve_Blocks x" using f get t(3) by (simp add: selected_headers_def)
  then show ?thesis by (simp add: BlockHeader_Validate_def ToWireHeader_def)
qed

section \<open>A concrete block\<close>

text \<open>
  Three validators of equal power report the next header. The last of them gives it the height 999; the price of the
  block is the mean of the three reports.
\<close>

definition sample_next :: block_header where
  "sample_next = zero_header\<lparr>bh_Hash := ''next'', bh_Height := 21, bh_PreviousBlockHash := ''best'', bh_MerkleRoot := ''root''\<rparr>"

definition sample_ext :: "string \<Rightarrow> int \<Rightarrow> vote_ext" where
  "sample_ext p n = \<lparr>ve_Height = 7, ve_Prices = [(''BTCUSDC'', p)], ve_Blocks = [sample_next\<lparr>bh_Height := n\<rparr>], ve_HasError = False\<rparr>"

definition sample_votes :: "ext_vote list" where
  "sample_votes = [\<lparr>ev_Commit = True, ev_Address = ''val1'', ev_Power = 10, ev_Extension = ''one''\<rparr>,
     \<lparr>ev_Commit = True, ev_Address = ''val2'', ev_Power = 10, ev_Extension = ''two''\<rparr>]"

definition sample_last :: ext_vote where
  "sample_last = \<lparr>ev_Commit = True, ev_Address = ''val3'', ev_Power = 10, ev_Extension = ''high''\<rparr>"

definition sample_oenv :: "ledger oenv" where
  "sample_oenv = nenv.extend sample_lenv
     (oenv.fields (\<lambda>x. if x = ''one'' then Inr (sample_ext ''40000'' 21) else if x = ''two'' then Inr (sample_ext ''40002'' 21)
         else if x = ''high'' then Inr (sample_ext ''40004'' 999) else Inl (External ''unmarshal''))
       (\<lambda>x. if x = ''commit'' then Inr (sample_votes @ [sample_last]) else Inl (External ''unmarshal'')) (\<lambda>_. Inr ''commit'') (\<lambda>_ _. Inr ())
       (\<lambda>_. True) (\<lambda>_. ''next'') (\<lambda>_. 0) (Inr 26) (\<lambda>_. Inr ''next'') (\<lambda>_. Inr sample_next) (\<lambda>p. int_string (p div 10 ^ 18)) (\<lambda>ks. ks))"

lemma sample_oenv_simps [simp]:
  "decode_commit sample_oenv ''commit'' = Inr (sample_votes @ [sample_last])"
  "decode_ext sample_oenv ''high'' = Inr (sample_ext ''40004'' 999)" "map_order sample_oenv = (\<lambda>ks. ks)"
  "decode_ext sample_oenv ''one'' = Inr (sample_ext ''40000'' 21)" "decode_ext sample_oenv ''two'' = Inr (sample_ext ''40002'' 21)"
  "sha256 sample_oenv = (\<lambda>x. x)"
  by (simp_all add: sample_oenv_def nenv.extend_def oenv.fields_def sample_lenv_def)

definition o_start :: "ledger chain" where
  "o_start = \<lparr>ch_bank = [], ch_prices = [],
     ch_headers = \<lparr>hs_headers = [], hs_by_height = [], hs_best = Some (zero_header\<lparr>bh_Hash := ''best'', bh_Height := 20\<rparr>)\<rparr>,
     ch_fee_rate = \<lparr>fr_Value = 4, fr_Height = 5\<rparr>, ch_fee_validity = 100, ch_deposit_depth = 6\<rparr>"

lemma sample_votes_ok: "\<forall>v \<in> set (sample_votes @ [sample_last]). 0 \<le> ev_Power v" "committed (sample_votes @ [sample_last]) = 30"
  by (simp_all add: sample_votes_def sample_last_def committed_def)

lemma sample_parse [simp]: "parse_dec sample_oenv ''40000'' = Some (to_dec 40000)" "parse_dec sample_oenv ''40002'' = Some (to_dec 40002)"
  "parse_dec sample_oenv ''40004'' = Some (to_dec 40004)"
  by (simp_all add: sample_oenv_def nenv.extend_def oenv.fields_def sample_lenv_def sample_price_def char_digit_def)

definition sample_key :: string where
  "sample_key = headers_key sample_oenv [sample_next]"

lemma sample_keys [simp]: "headers_key sample_oenv [sample_next\<lparr>bh_Height := n\<rparr>] = sample_key"
  by (simp add: sample_key_def headers_key_def)

lemma sample_tally: "fold_res (tally_vote sample_oenv) (sample_votes @ [sample_last]) \<lparr>vt_Prices = [], vt_Headers = [], vt_Total = 0\<rparr> =
    Inr \<lparr>vt_Prices = [(''BTCUSDC'', to_dec 1200060, to_dec 30)], vt_Headers = [(sample_key, 30, [sample_next\<lparr>bh_Height := 999\<rparr>])], vt_Total = 30\<rparr>"
  by (simp add: sample_votes_def sample_last_def tally_vote_def sample_ext_def add_price_def add_headers_def to_dec_def kv_set_def kv_get_def i64_id)

lemma sample_extract: "extractPricesAndBlockHeaders sample_oenv (sample_votes @ [sample_last]) =
    Inr ([(''BTCUSDC'', to_dec 40002)], [sample_next\<lparr>bh_Height := 999\<rparr>])"
  unfolding extractPricesAndBlockHeaders_def sample_tally
  by (simp add: final_price_def power_of_def to_dec_def i64_id selected_headers_def kv_keys_def kv_get_def)
    (simp add: sample_oenv_def nenv.extend_def oenv.fields_def sample_lenv_def tdiv_def)

lemma sample_block: "\<exists>s'. PreBlocker sample_oenv (Some 1) 8 [''commit''] o_start = Inr s' \<and>
    GetBestBlockHeader s' = sample_next\<lparr>bh_Height := 999\<rparr>"
  by (simp add: PreBlocker_def voteExtensionEnabled_def sample_extract Let_def SetBlockHeaders_best del: fold.simps)
    (simp add: o_start_def GetBestBlockHeader_def SetPrice_def sample_next_def to_dec_def)

theorem oracle_price_bounds_witness:
  "committed (sample_votes @ [sample_last]) \<le> 2 * sum_list (map snd (reports sample_oenv ''BTCUSDC'' (sample_votes @ [sample_last])))"
proof -
  have "dec_ok sample_oenv"
    using sample_lenv_ok by (simp add: env_ok_def dec_ok_def sample_oenv_def nenv.extend_def oenv.fields_def sample_lenv_def)
  from oracle_price_bounds [OF sample_extract _ this sample_votes_ok(1), of "''BTCUSDC''" "to_dec 40002"] sample_votes_ok(2) show ?thesis by simp
qed

theorem oracle_chain_extends_witness:
  "\<exists>s'. PreBlocker sample_oenv (Some 1) 8 [''commit''] o_start = Inr s' \<and> GetBestBlockHeader s' \<noteq> GetBestBlockHeader o_start
    \<and> (\<exists>hs. hs \<noteq> [] \<and> linked (GetBestBlockHeader o_start) (sort_key bh_Height hs) \<and> GetBestBlockHeader s' = last (sort_key bh_Height hs))"
proof -
  obtain s' where s': "PreBlocker sample_oenv (Some 1) 8 [''commit''] o_start = Inr s'" "bh_Height (GetBestBlockHeader s') = 999"
    using sample_block by auto
  have "bh_Height (GetBestBlockHeader o_start) = 20" by (simp add: o_start_def GetBestBlockHeader_def)
  then have d: "GetBestBlockHeader s' \<noteq> GetBestBlockHeader o_start" using s'(2) by auto
  from oracle_chain_extends [OF s'(1) sample_oenv_simps(1) sample_votes_ok(1)] sample_votes_ok(2) d s'(1) show ?thesis by auto
qed

text \<open>Two validators of three report height 21; the header of the block has height 999.\<close>

theorem header_heights_unauthenticated_witness:
  "extractPricesAndBlockHeaders sample_oenv (sample_votes @ [sample_last]) = Inr ([(''BTCUSDC'', to_dec 40002)], ve_Blocks (sample_ext ''40004'' 999))
    \<and> map bh_Height (ve_Blocks (sample_ext ''40004'' 999)) = [999]"
proof -
  let ?vs = "sample_votes @ [sample_last]"
  have h: "header_power sample_oenv (headers_key sample_oenv [sample_next]) ?vs = 30"
    by (simp add: header_power_def header_vote_def sample_votes_def sample_last_def sample_ext_def headers_key_def)
  have "ev_Commit sample_last" "decode_ext sample_oenv (ev_Extension sample_last) = Inr (sample_ext ''40004'' 999)"
    by (simp_all add: sample_last_def)
  from header_heights_unauthenticated [OF sample_extract this, of "[sample_next]"] h sample_votes_ok sample_extract
  show ?thesis by (simp add: sample_ext_def)
qed

end
