(* ===== verification/Dkg.thy ===== *)
theory Dkg
  imports Node_Env Base64
begin

text \<open>
  The rest of the threshold-signing module (\<open>x/tss\<close>): its parameters, the requests for
  distributed key generation (\<open>keeper/dkg.go\<close>) and for the refreshing of key shares
  (\<open>keeper/refreshing.go\<close>), with the completions their participants submit. The record \<open>node\<close> holds
  the state of the lending protocol (bank, oracle, signing requests, DLC, liquidations, pools and loans) beside
  these stores and those of the theory \<open>Dlc_Oracles\<close>.
\<close>

abbreviation "tss_ErrInvalidPubKey \<equiv> Registered ''tss'' 1000"
abbreviation "tss_ErrInvalidPubKeys \<equiv> Registered ''tss'' 1001"
abbreviation "tss_ErrInvalidSignature \<equiv> Registered ''tss'' 1002"
abbreviation "tss_ErrInvalidSignatures \<equiv> Registered ''tss'' 1003"
abbreviation "tss_ErrDKGRequestDoesNotExist \<equiv> Registered ''tss'' 2000"
abbreviation "tss_ErrInvalidDKGStatus \<equiv> Registered ''tss'' 2001"
abbreviation "tss_ErrDKGRequestExpired \<equiv> Registered ''tss'' 2002"
abbreviation "tss_ErrUnauthorizedParticipant \<equiv> Registered ''tss'' 2003"
abbreviation "tss_ErrDKGCompletionAlreadyExists \<equiv> Registered ''tss'' 2004"
abbreviation "tss_ErrInvalidDKGCompletion \<equiv> Registered ''tss'' 2005"
abbreviation "tss_ErrInvalidDKGParticipantNum \<equiv> Registered ''tss'' 2006"
abbreviation "tss_ErrInvalidDKGThreshold \<equiv> Registered ''tss'' 2007"
abbreviation "tss_ErrSigningRequestDoesNotExist \<equiv> Registered ''tss'' 3000"
abbreviation "tss_ErrInvalidSigningStatus \<equiv> Registered ''tss'' 3001"
abbreviation "tss_ErrInvalidDKGs \<equiv> Registered ''tss'' 4000"
abbreviation "tss_ErrInvalidParticipants \<equiv> Registered ''tss'' 4001"
abbreviation "tss_ErrInvalidTimeoutDuration \<equiv> Registered ''tss'' 4002"
abbreviation "tss_ErrRefreshingRequestDoesNotExist \<equiv> Registered ''tss'' 4003"
abbreviation "tss_ErrInvalidRefreshingStatus \<equiv> Registered ''tss'' 4004"
abbreviation "tss_ErrRefreshingRequestExpired \<equiv> Registered ''tss'' 4005"
abbreviation "tss_ErrRefreshingCompletionAlreadyExists \<equiv> Registered ''tss'' 4006"
abbreviation "tss_ErrInvalidParams \<equiv> Registered ''tss'' 5000"

type_synonym u32 = "32 word"

section \<open>Data\<close>

datatype dkg_status = DKG_UNSPECIFIED | DKG_PENDING | DKG_COMPLETED | DKG_FAILED | DKG_TIMEDOUT

fun dkg_status_code :: "dkg_status \<Rightarrow> nat" where
  "dkg_status_code DKG_UNSPECIFIED = 0"
| "dkg_status_code DKG_PENDING = 1"
| "dkg_status_code DKG_COMPLETED = 2"
| "dkg_status_code DKG_FAILED = 3"
| "dkg_status_code DKG_TIMEDOUT = 4"

lemma dkg_status_code_inj: "dkg_status_code a = dkg_status_code b \<Longrightarrow> a = b"
  by (cases a; cases b) auto

instantiation dkg_status :: linorder
begin

definition less_eq_dkg_status :: "dkg_status \<Rightarrow> dkg_status \<Rightarrow> bool" where
  "less_eq_dkg_status a b \<longleftrightarrow> dkg_status_code a \<le> dkg_status_code b"

definition less_dkg_status :: "dkg_status \<Rightarrow> dkg_status \<Rightarrow> bool" where
  "less_dkg_status a b \<longleftrightarrow> dkg_status_code a < dkg_status_code b"

instance
  by standard (auto simp: less_eq_dkg_status_def less_dkg_status_def dest: dkg_status_code_inj)

end

record dkg_request =
  dk_Id :: u64
  dk_Module :: string
  dk_Type :: string
  dk_Intent :: int
  dk_Participants :: "string list"
  dk_Threshold :: u32
  dk_BatchSize :: u32
  dk_ExpirationTime :: int
  dk_Status :: dkg_status

record dkg_completion =
  dkc_Id :: u64
  dkc_Sender :: string
  dkc_PubKeys :: "string list"
  dkc_ConsensusPubkey :: string
  dkc_Signature :: string

datatype refreshing_status = REFRESHING_UNSPECIFIED | REFRESHING_PENDING | REFRESHING_COMPLETED | REFRESHING_TIMEDOUT

record refreshing_request =
  rfr_Id :: u64
  rfr_DkgId :: u64
  rfr_RemovedParticipants :: "string list"
  rfr_ExpirationTime :: int
  rfr_Status :: refreshing_status

record refreshing_completion =
  rfc_Id :: u64
  rfc_Sender :: string
  rfc_ConsensusPubkey :: string
  rfc_Signature :: string

record dkg_participant =
  dpt_Moniker :: string
  dpt_ConsensusPubkey :: string

record tss_params =
  tp_AllowedDkgParticipants :: "dkg_participant list"
  tp_DkgTimeoutDuration :: int

record dlc_params =
  np_NonceQueueSize :: u32
  np_NonceGenerationBatchSize :: u32
  np_NonceGenerationInterval :: int
  np_NonceGenerationTimeoutDuration :: int
  np_AllowedOracleParticipants :: "string list"
  np_OracleParticipantNum :: u32
  np_OracleParticipantThreshold :: u32

record participant_liveness =
  lv_ConsensusPubkey :: string
  lv_IsAlive :: bool
  lv_LastDkgId :: u64
  lv_LastBlockHeight :: int

text \<open>The zero value of \<open>time.Time\<close>, the first of January of the year 1, in nanoseconds.\<close>

definition zero_time :: int where
  "zero_time = - 62135596800000000000"

definition zero_dkg_request :: dkg_request where
  "zero_dkg_request = \<lparr>dk_Id = 0, dk_Module = '''', dk_Type = '''', dk_Intent = 0, dk_Participants = [], dk_Threshold = 0,
     dk_BatchSize = 0, dk_ExpirationTime = zero_time, dk_Status = DKG_UNSPECIFIED\<rparr>"

definition zero_refreshing_request :: refreshing_request where
  "zero_refreshing_request = \<lparr>rfr_Id = 0, rfr_DkgId = 0, rfr_RemovedParticipants = [], rfr_ExpirationTime = zero_time,
     rfr_Status = REFRESHING_UNSPECIFIED\<rparr>"

definition zero_liveness :: participant_liveness where
  "zero_liveness = \<lparr>lv_ConsensusPubkey = '''', lv_IsAlive = False, lv_LastDkgId = 0, lv_LastBlockHeight = 0\<rparr>"

text \<open>Completions are stored under the id of the request and the consensus key of the participant.\<close>

record 'b node =
  nd_chain :: "'b lending"
  nd_tss_params :: tss_params
  nd_dkg_id :: "u64 option"
  nd_dkgs :: "(u64, dkg_request) kv"
  nd_dkg_by_status :: "(dkg_status \<times> u64, unit) kv"
  nd_completions :: "(u64 \<times> string, dkg_completion) kv"
  nd_refreshing_id :: "u64 option"
  nd_refreshings :: "(u64, refreshing_request) kv"
  nd_refreshing_completions :: "(u64 \<times> string, refreshing_completion) kv"
  nd_dlc_params :: dlc_params
  nd_liveness :: "(string, participant_liveness) kv"

section \<open>Parameters\<close>

definition MinDKGParticipantNum :: int where
  "MinDKGParticipantNum = 2"

definition MinDKGThreshold :: int where
  "MinDKGThreshold = 2"

definition CheckDKGParticipantNum :: "int \<Rightarrow> unit res" where
  "CheckDKGParticipantNum n = (if n < MinDKGParticipantNum then Inl tss_ErrInvalidDKGParticipantNum else Inr ())"

text \<open>The threshold ratio is one half, rounded up.\<close>

definition CheckDKGThreshold :: "int \<Rightarrow> int \<Rightarrow> unit res" where
  "CheckDKGThreshold n threshold =
     (if threshold < MinDKGThreshold then Inl tss_ErrInvalidDKGThreshold
      else if n < threshold then Inl tss_ErrInvalidDKGThreshold
      else if threshold < - (- (5 * 10 ^ 17 * n) div 10 ^ 18) then Inl tss_ErrInvalidDKGThreshold
      else Inr ())"

text \<open>A base64 string of an ed25519 public key.\<close>

definition consensus_key_ok :: "string \<Rightarrow> bool" where
  "consensus_key_ok k \<longleftrightarrow> snd (b64_decode k) \<and> length (fst (b64_decode k)) = 32"

definition validateDKGParticipants :: "('b, 'e) nenv_scheme \<Rightarrow> dkg_participant list \<Rightarrow> unit res" where
  "validateDKGParticipants E ps =
     (if ps = [] then Inr ()
      else if int (length ps) < MinDKGParticipantNum then Inl tss_ErrInvalidParams
      else bind_res (fold_res (\<lambda>p seen.
        if MaxMonikerLength E < length (dpt_Moniker p) then Inl tss_ErrInvalidParams
        else if \<not> consensus_key_ok (dpt_ConsensusPubkey p) then Inl tss_ErrInvalidParams
        else if dpt_ConsensusPubkey p \<in> set seen then Inl tss_ErrInvalidParams
        else Inr (dpt_ConsensusPubkey p # seen)) ps []) (\<lambda>_. Inr ()))"

definition validateDKGTimeoutDuration :: "int \<Rightarrow> unit res" where
  "validateDKGTimeoutDuration d = (if d \<le> 0 then Inl tss_ErrInvalidParams else Inr ())"

definition tss_Params_Validate :: "('b, 'e) nenv_scheme \<Rightarrow> tss_params \<Rightarrow> unit res" where
  "tss_Params_Validate E p =
     bind_res (validateDKGParticipants E (tp_AllowedDkgParticipants p)) (\<lambda>_.
     validateDKGTimeoutDuration (tp_DkgTimeoutDuration p))"

definition tss_DefaultParams :: tss_params where
  "tss_DefaultParams = \<lparr>tp_AllowedDkgParticipants = [], tp_DkgTimeoutDuration = 86400 * 10 ^ 9\<rparr>"

definition AllowedDKGParticipants :: "('b, 'x) node_scheme \<Rightarrow> string list" where
  "AllowedDKGParticipants s = map dpt_ConsensusPubkey (tp_AllowedDkgParticipants (nd_tss_params s))"

definition tss_UpdateParams ::
  "('b, 'e) nenv_scheme \<Rightarrow> string \<Rightarrow> string \<Rightarrow> tss_params \<Rightarrow> ('b, 'x) node_scheme \<Rightarrow> ('b, 'x) node_scheme res" where
  "tss_UpdateParams E authority signer p s =
     (if authority \<noteq> signer then Inl ErrGovInvalidSigner
      else if \<not> bech32_ok E signer then Inl ErrBech32Addr
      else bind_res (tss_Params_Validate E p) (\<lambda>_. Inr (s\<lparr>nd_tss_params := p\<rparr>)))"

section \<open>DKG requests\<close>

definition GetNextDKGRequestId :: "('b, 'x) node_scheme \<Rightarrow> u64" where
  "GetNextDKGRequestId s = (case nd_dkg_id s of None \<Rightarrow> 1 | Some i \<Rightarrow> i + 1)"

definition SetDKGRequestId :: "u64 \<Rightarrow> ('b, 'x) node_scheme \<Rightarrow> ('b, 'x) node_scheme" where
  "SetDKGRequestId i s = s\<lparr>nd_dkg_id := Some i\<rparr>"

definition HasDKGRequest :: "('b, 'x) node_scheme \<Rightarrow> u64 \<Rightarrow> bool" where
  "HasDKGRequest s i = kv_has (nd_dkgs s) i"

definition GetDKGRequest :: "('b, 'x) node_scheme \<Rightarrow> u64 \<Rightarrow> dkg_request" where
  "GetDKGRequest s i = (case kv_get (nd_dkgs s) i of None \<Rightarrow> zero_dkg_request | Some r \<Rightarrow> r)"

definition RemoveDKGRequestStatus :: "u64 \<Rightarrow> ('b, 'x) node_scheme \<Rightarrow> ('b, 'x) node_scheme" where
  "RemoveDKGRequestStatus i s = s\<lparr>nd_dkg_by_status := kv_del (dk_Status (GetDKGRequest s i), i) (nd_dkg_by_status s)\<rparr>"

definition SetDKGRequestStatus :: "u64 \<Rightarrow> dkg_status \<Rightarrow> ('b, 'x) node_scheme \<Rightarrow> ('b, 'x) node_scheme" where
  "SetDKGRequestStatus i st s =
     (let s = (if HasDKGRequest s i then RemoveDKGRequestStatus i s else s)
      in s\<lparr>nd_dkg_by_status := kv_set (st, i) () (nd_dkg_by_status s)\<rparr>)"

definition SetDKGRequest :: "dkg_request \<Rightarrow> ('b, 'x) node_scheme \<Rightarrow> ('b, 'x) node_scheme" where
  "SetDKGRequest r s =
     (let s = SetDKGRequestStatus (dk_Id r) (dk_Status r) s
      in s\<lparr>nd_dkgs := kv_set (dk_Id r) r (nd_dkgs s)\<rparr>)"

definition GetDKGRequestsByStatus :: "('b, 'x) node_scheme \<Rightarrow> dkg_status \<Rightarrow> dkg_request list" where
  "GetDKGRequestsByStatus s st = map (GetDKGRequest s) (ids_with st (nd_dkg_by_status s))"

definition GetPendingDKGRequests :: "('b, 'x) node_scheme \<Rightarrow> dkg_request list" where
  "GetPendingDKGRequests s = GetDKGRequestsByStatus s DKG_PENDING"

definition GetAllDKGRequests :: "('b, 'x) node_scheme \<Rightarrow> dkg_request list" where
  "GetAllDKGRequests s = map snd (nd_dkgs s)"

definition SetDKGCompletion :: "dkg_completion \<Rightarrow> ('b, 'x) node_scheme \<Rightarrow> ('b, 'x) node_scheme" where
  "SetDKGCompletion c s = s\<lparr>nd_completions := kv_set (dkc_Id c, dkc_ConsensusPubkey c) c (nd_completions s)\<rparr>"

definition HasDKGCompletion :: "('b, 'x) node_scheme \<Rightarrow> u64 \<Rightarrow> string \<Rightarrow> bool" where
  "HasDKGCompletion s i k = kv_has (nd_completions s) (i, k)"

text \<open>The entries of a store under one first component of the key, in order.\<close>

definition under :: "'i \<Rightarrow> ('i \<times> 'k, 'v) kv \<Rightarrow> 'v list" where
  "under i m = map snd (filter (\<lambda>p. fst (fst p) = i) m)"

definition GetDKGCompletions :: "('b, 'x) node_scheme \<Rightarrow> u64 \<Rightarrow> dkg_completion list" where
  "GetDKGCompletions s i = under i (nd_completions s)"

definition GetCompletedDKGParticipants :: "('b, 'x) node_scheme \<Rightarrow> u64 \<Rightarrow> string list" where
  "GetCompletedDKGParticipants s i = map dkc_ConsensusPubkey (GetDKGCompletions s i)"

definition GetAbsentDKGParticipants :: "('b, 'x) node_scheme \<Rightarrow> dkg_request \<Rightarrow> string list" where
  "GetAbsentDKGParticipants s r =
     (let completed = GetCompletedDKGParticipants s (dk_Id r)
      in if completed = [] then dk_Participants r
         else filter (\<lambda>p. p \<notin> set completed) (dk_Participants r))"

definition GetDKGPubKeys :: "('b, 'x) node_scheme \<Rightarrow> u64 \<Rightarrow> string list res" where
  "GetDKGPubKeys s i = (case GetDKGCompletions s i of [] \<Rightarrow> Inl Panic | c # _ \<Rightarrow> Inr (dkc_PubKeys c))"

definition GetExpirationTime :: "int \<Rightarrow> int \<Rightarrow> int" where
  "GetExpirationTime now timeout = (if timeout = 0 then zero_time else now + timeout)"

definition InitiateDKG ::
  "int \<Rightarrow> string \<Rightarrow> string \<Rightarrow> int \<Rightarrow> string list \<Rightarrow> u32 \<Rightarrow> u32 \<Rightarrow> int \<Rightarrow> ('b, 'x) node_scheme \<Rightarrow>
   dkg_request \<times> ('b, 'x) node_scheme" where
  "InitiateDKG now m ty intent participants threshold batch timeout s =
     (let timeout = (if timeout = 0 then tp_DkgTimeoutDuration (nd_tss_params s) else timeout);
          r = \<lparr>dk_Id = GetNextDKGRequestId s, dk_Module = m, dk_Type = ty, dk_Intent = intent, dk_Participants = participants,
               dk_Threshold = threshold, dk_BatchSize = batch, dk_ExpirationTime = GetExpirationTime now timeout,
               dk_Status = DKG_PENDING\<rparr>
      in (r, SetDKGRequestId (dk_Id r) (SetDKGRequest r s)))"

section \<open>Signed completions\<close>

text \<open>A key of the wrong length panics in \<open>ed25519.Verify\<close>; errors of the decoding are dropped.\<close>

definition VerifySignature :: "('b, 'e) nenv_scheme \<Rightarrow> string \<Rightarrow> string \<Rightarrow> string \<Rightarrow> bool res" where
  "VerifySignature E sig pk msg =
     (let key = fst (b64_decode pk) in
      if length key \<noteq> 32 then Inl Panic else Inr (ed25519_verify E key msg (fst (hex_decode sig))))"

definition GetDKGCompletionSigMsg :: "('b, 'e) nenv_scheme \<Rightarrow> u64 \<Rightarrow> string list \<Rightarrow> string" where
  "GetDKGCompletionSigMsg E i pks = sha256 E (be64 i @ concat (map (\<lambda>pk. fst (hex_decode pk)) pks))"

definition GetRefreshingCompletionSigMsg :: "('b, 'e) nenv_scheme \<Rightarrow> u64 \<Rightarrow> string list \<Rightarrow> string" where
  "GetRefreshingCompletionSigMsg E i pks = sha256 E (be64 i @ concat (map (\<lambda>pk. fst (hex_decode pk)) pks))"

definition ParticipantExists :: "string list \<Rightarrow> string \<Rightarrow> bool" where
  "ParticipantExists ps p \<longleftrightarrow> p \<in> set ps"

text \<open>All completions have the keys of the first.\<close>

definition CheckDKGCompletions :: "dkg_completion list \<Rightarrow> bool" where
  "CheckDKGCompletions cs =
     (case cs of [] \<Rightarrow> False | c # rest \<Rightarrow> list_all (\<lambda>c'. dkc_PubKeys c' = dkc_PubKeys c) rest)"

definition CompleteDKG ::
  "('b, 'e) nenv_scheme \<Rightarrow> int \<Rightarrow> string \<Rightarrow> u64 \<Rightarrow> string list \<Rightarrow> string \<Rightarrow> string \<Rightarrow> ('b, 'x) node_scheme \<Rightarrow> ('b, 'x) node_scheme res" where
  "CompleteDKG E now sender i pks k sig s =
     (if \<not> HasDKGRequest s i then Inl tss_ErrDKGRequestDoesNotExist
      else let r = GetDKGRequest s i in
      if dk_Status r \<noteq> DKG_PENDING then Inl tss_ErrInvalidDKGStatus
      else if dk_ExpirationTime r \<le> now then Inl tss_ErrDKGRequestExpired
      else if \<not> ParticipantExists (dk_Participants r) k then Inl tss_ErrUnauthorizedParticipant
      else if HasDKGCompletion s i k then Inl tss_ErrDKGCompletionAlreadyExists
      else if length pks \<noteq> unat (dk_BatchSize r) then Inl tss_ErrInvalidDKGCompletion
      else bind_res (VerifySignature E sig k (GetDKGCompletionSigMsg E i pks)) (\<lambda>ok.
      if \<not> ok then Inl tss_ErrInvalidSignature
      else Inr (SetDKGCompletion \<lparr>dkc_Id = i, dkc_Sender = sender, dkc_PubKeys = pks, dkc_ConsensusPubkey = k,
             dkc_Signature = sig\<rparr> s)))"

section \<open>Refreshing requests\<close>

definition GetRefreshingRequestId :: "('b, 'x) node_scheme \<Rightarrow> u64" where
  "GetRefreshingRequestId s = counter (nd_refreshing_id s)"

definition IncrementRefreshingRequestId :: "('b, 'x) node_scheme \<Rightarrow> u64 \<times> ('b, 'x) node_scheme" where
  "IncrementRefreshingRequestId s = (let i = GetRefreshingRequestId s + 1 in (i, s\<lparr>nd_refreshing_id := Some i\<rparr>))"

definition SetRefreshingRequest :: "refreshing_request \<Rightarrow> ('b, 'x) node_scheme \<Rightarrow> ('b, 'x) node_scheme" where
  "SetRefreshingRequest r s = s\<lparr>nd_refreshings := kv_set (rfr_Id r) r (nd_refreshings s)\<rparr>"

definition HasRefreshingRequest :: "('b, 'x) node_scheme \<Rightarrow> u64 \<Rightarrow> bool" where
  "HasRefreshingRequest s i = kv_has (nd_refreshings s) i"

definition GetRefreshingRequest :: "('b, 'x) node_scheme \<Rightarrow> u64 \<Rightarrow> refreshing_request" where
  "GetRefreshingRequest s i = (case kv_get (nd_refreshings s) i of None \<Rightarrow> zero_refreshing_request | Some r \<Rightarrow> r)"

definition GetRefreshingParticipants :: "('b, 'x) node_scheme \<Rightarrow> refreshing_request \<Rightarrow> string list" where
  "GetRefreshingParticipants s r =
     filter (\<lambda>p. p \<notin> set (rfr_RemovedParticipants r)) (dk_Participants (GetDKGRequest s (rfr_DkgId r)))"

definition GetRefreshingRequests :: "('b, 'x) node_scheme \<Rightarrow> refreshing_status \<Rightarrow> refreshing_request list" where
  "GetRefreshingRequests s st = filter (\<lambda>r. rfr_Status r = st) (map snd (nd_refreshings s))"

definition GetPendingRefreshingRequests :: "('b, 'x) node_scheme \<Rightarrow> refreshing_request list" where
  "GetPendingRefreshingRequests s = filter (\<lambda>r. rfr_Status r = REFRESHING_PENDING) (map snd (nd_refreshings s))"

definition SetRefreshingCompletion :: "refreshing_completion \<Rightarrow> ('b, 'x) node_scheme \<Rightarrow> ('b, 'x) node_scheme" where
  "SetRefreshingCompletion c s =
     s\<lparr>nd_refreshing_completions := kv_set (rfc_Id c, rfc_ConsensusPubkey c) c (nd_refreshing_completions s)\<rparr>"

definition HasRefreshingCompletion :: "('b, 'x) node_scheme \<Rightarrow> u64 \<Rightarrow> string \<Rightarrow> bool" where
  "HasRefreshingCompletion s i k = kv_has (nd_refreshing_completions s) (i, k)"

definition GetRefreshingCompletions :: "('b, 'x) node_scheme \<Rightarrow> u64 \<Rightarrow> refreshing_completion list" where
  "GetRefreshingCompletions s i = under i (nd_refreshing_completions s)"

definition InitiateRefreshingRequest ::
  "int \<Rightarrow> u64 \<Rightarrow> string list \<Rightarrow> int \<Rightarrow> ('b, 'x) node_scheme \<Rightarrow> refreshing_request \<times> ('b, 'x) node_scheme" where
  "InitiateRefreshingRequest now dkg removed timeout s =
     (case IncrementRefreshingRequestId s of (i, s) \<Rightarrow>
      let r = \<lparr>rfr_Id = i, rfr_DkgId = dkg, rfr_RemovedParticipants = removed,
               rfr_ExpirationTime = GetExpirationTime now timeout, rfr_Status = REFRESHING_PENDING\<rparr>
      in (r, SetRefreshingRequest r s))"

definition CompleteRefreshing ::
  "('b, 'e) nenv_scheme \<Rightarrow> int \<Rightarrow> string \<Rightarrow> u64 \<Rightarrow> string \<Rightarrow> string \<Rightarrow> ('b, 'x) node_scheme \<Rightarrow> ('b, 'x) node_scheme res" where
  "CompleteRefreshing E now sender i k sig s =
     (if \<not> HasRefreshingRequest s i then Inl tss_ErrRefreshingRequestDoesNotExist
      else let r = GetRefreshingRequest s i in
      if rfr_Status r \<noteq> REFRESHING_PENDING then Inl tss_ErrInvalidRefreshingStatus
      else if rfr_ExpirationTime r \<noteq> zero_time \<and> rfr_ExpirationTime r \<le> now then Inl tss_ErrRefreshingRequestExpired
      else if \<not> ParticipantExists (GetRefreshingParticipants s r) k then Inl tss_ErrUnauthorizedParticipant
      else if HasRefreshingCompletion s i k then Inl tss_ErrRefreshingCompletionAlreadyExists
      else bind_res (GetDKGPubKeys s (rfr_DkgId r)) (\<lambda>pks.
      bind_res (VerifySignature E sig k (GetRefreshingCompletionSigMsg E i pks)) (\<lambda>ok.
      if \<not> ok then Inl tss_ErrInvalidSignature
      else Inr (SetRefreshingCompletion \<lparr>rfc_Id = i, rfc_Sender = sender, rfc_ConsensusPubkey = k, rfc_Signature = sig\<rparr> s))))"

section \<open>The status index\<close>

lemma SetDKGRequest_simps [simp]:
  "nd_dkgs (SetDKGRequest r s) = kv_set (dk_Id r) r (nd_dkgs s)"
  "nd_completions (SetDKGRequest r s) = nd_completions s" "nd_dkg_id (SetDKGRequest r s) = nd_dkg_id s"
  "nd_refreshings (SetDKGRequest r s) = nd_refreshings s" "nd_tss_params (SetDKGRequest r s) = nd_tss_params s"
  "nd_refreshing_id (SetDKGRequest r s) = nd_refreshing_id s"
  "nd_refreshing_completions (SetDKGRequest r s) = nd_refreshing_completions s"
  "nd_chain (SetDKGRequest r s) = nd_chain s" "nd_dlc_params (SetDKGRequest r s) = nd_dlc_params s" "nd_liveness (SetDKGRequest r s) = nd_liveness s"
  by (simp_all add: SetDKGRequest_def SetDKGRequestStatus_def RemoveDKGRequestStatus_def Let_def)

lemma SetDKGRequest_by_status:
  "nd_dkg_by_status (SetDKGRequest r s) =
     kv_set (dk_Status r, dk_Id r) ()
       (case kv_get (nd_dkgs s) (dk_Id r) of None \<Rightarrow> nd_dkg_by_status s
        | Some y \<Rightarrow> kv_del (dk_Status y, dk_Id r) (nd_dkg_by_status s))"
  by (auto simp: SetDKGRequest_def SetDKGRequestStatus_def RemoveDKGRequestStatus_def Let_def
      HasDKGRequest_def GetDKGRequest_def kv_has_def split: option.splits)

interpretation dkgs: status_indexed nd_dkgs nd_dkg_by_status SetDKGRequest dk_Id dk_Status
  by unfold_locales (simp_all add: SetDKGRequest_by_status)

end
