(* ===== verification/Bridge_Env.thy ===== *)
theory Bridge_Env
  imports Dkg
begin

text \<open>
  The third-party operations the Bitcoin bridge uses beyond those of the other modules. The state \<open>'b\<close> is that of
  the modules outside the repository: the bank and, here, the IBC modules.

  \<^item> \<open>parse_coin\<close> and \<open>coin_string\<close> are \<open>ParseCoinNormalized\<close> and \<open>Coin.String\<close>, \<open>coins_valid\<close> is \<open>Coins.Validate\<close>;
    \<open>bank_supply\<close>, \<open>spendable\<close> and \<open>no_spendable\<close> are queries of the bank; \<open>module_address\<close> is the address of a module
    account; \<open>val_bech32_ok\<close> checks the address of a validator, \<open>secp256k1_key_ok\<close> the bytes of a public key.
  \<^item> \<open>u128_parse\<close> is \<open>uint128.FromString\<close>.
  \<^item> \<open>script_tokens\<close> are the opcodes and data the tokenizer of \<open>txscript\<close> returns for a script, and whether it
    reached the end without an error; \<open>build_script\<close> runs a script builder; \<open>script_address\<close> is the address
    \<open>ParsePkScript\<close> finds in a script, \<open>script_class\<close> its class and \<open>is_null_data\<close> the test for an \<open>OP_RETURN\<close> script.
  \<^item> \<open>encode_address\<close> is the string a decoded address is encoded to. \<open>sighash_of\<close> is \<open>CalcTaprootSignatureHash\<close>
    of an input of a psbt with a signature hash type.
  \<^item> The \<open>ibc_\<close> operations are those of the IBC modules: the port of the transfer module, the height of the
    client of a channel, the transfer, the total escrow of a denom, the address of an escrow account, the
    data of a transfer packet and whether it returns a token to its source.
\<close>

datatype script_op = AddOp nat | AddData string

datatype script_class = TaprootTy | WitnessPubKeyHashTy | OtherTy

record ibc_transfer_msg =
  itm_SourcePort :: string
  itm_SourceChannel :: string
  itm_Token :: coin
  itm_Sender :: string
  itm_Receiver :: string
  itm_TimeoutHeight :: "u64 \<times> u64"
  itm_TimeoutTimestamp :: u64
  itm_Memo :: string

record ibc_packet =
  ipk_SourcePort :: string
  ipk_SourceChannel :: string
  ipk_DestChannel :: string
  ipk_Sequence :: u64
  ipk_Data :: string

record ibc_token_data =
  itd_Denom :: string
  itd_Amount :: string
  itd_Sender :: string
  itd_Receiver :: string
  itd_Memo :: string

record 'b benv = "'b nenv" +
  parse_coin :: "string \<Rightarrow> coin res"
  coin_string :: "coin \<Rightarrow> string"
  coins_valid :: "coin list \<Rightarrow> bool"
  bank_supply :: "'b \<Rightarrow> string \<Rightarrow> int"
  spendable :: "'b \<Rightarrow> acct \<Rightarrow> string \<Rightarrow> int"
  no_spendable :: "'b \<Rightarrow> acct \<Rightarrow> bool"
  module_address :: "string \<Rightarrow> string"
  val_bech32_ok :: "string \<Rightarrow> bool"
  secp256k1_key_ok :: "string \<Rightarrow> bool"
  u128_parse :: "string \<Rightarrow> nat option"
  script_tokens :: "string \<Rightarrow> (nat \<times> string) list \<times> bool"
  build_script :: "script_op list \<Rightarrow> string res"
  script_address :: "string \<Rightarrow> string res"
  script_class_of :: "string \<Rightarrow> script_class"
  is_null_data :: "string \<Rightarrow> bool"
  encode_address :: "string \<Rightarrow> string"
  sighash_of :: "psbt \<Rightarrow> nat \<Rightarrow> int \<Rightarrow> string res"
  ibc_port :: "'b \<Rightarrow> string"
  ibc_client_height :: "'b \<Rightarrow> string \<Rightarrow> string \<Rightarrow> (u64 \<times> u64) res"
  ibc_transfer :: "'b \<Rightarrow> ibc_transfer_msg \<Rightarrow> 'b \<times> u64 res"
  ibc_total_escrow :: "'b \<Rightarrow> string \<Rightarrow> coin"
  ibc_set_total_escrow :: "'b \<Rightarrow> coin \<Rightarrow> 'b"
  ibc_escrow_address :: "string \<Rightarrow> string \<Rightarrow> string"
  ibc_token_data :: "string \<Rightarrow> ibc_token_data option"
  ibc_denom_prefix :: "string \<Rightarrow> string \<Rightarrow> string"
  int_of_string :: "string \<Rightarrow> int option"

end
