(* ===== verification/Runes.thy ===== *)
theory Runes
  imports Bridge_Env
begin

text \<open>
  The runes protocol as the bridge uses it, \<open>x/btcbridge/types/varint.go\<close> and \<open>runes.go\<close>: integers in LEB128, edicts and
  the scripts that carry them, rune ids and their keys, and balances. A \<open>uint128\<close> is a natural number; its
  operations panic when they leave 128 bits.
\<close>

abbreviation "ErrInvalidRunes \<equiv> Registered ''btcbridge'' 5100"
abbreviation "ErrInvalidRuneId \<equiv> Registered ''btcbridge'' 5101"
abbreviation "ErrVarint \<equiv> External ''varint''"
abbreviation "ErrParseUint \<equiv> External ''strconv.ParseUint''"

section \<open>Integers in LEB128\<close>

text \<open>The loops of \<open>EncodeUint32\<close>, \<open>EncodeUint64\<close> and \<open>EncodeBigInt\<close> are the same on the value.\<close>

fun encode_uint :: "nat \<Rightarrow> string" where
  "encode_uint n = (if 128 \<le> n then char_of (n mod 128 + 128) # encode_uint (n div 128) else [char_of n])"

declare encode_uint.simps [simp del]

definition EncodeUint32 :: "u32 \<Rightarrow> string" where
  "EncodeUint32 w = encode_uint (unat w)"

definition EncodeUint64 :: "u64 \<Rightarrow> string" where
  "EncodeUint64 w = encode_uint (unat w)"

definition EncodeUint128 :: "nat \<Rightarrow> string" where
  "EncodeUint128 n = encode_uint n"

text \<open>The value and the number of bytes read. \<open>i\<close> is the index of the next byte.\<close>

fun decode_from :: "nat \<Rightarrow> nat \<Rightarrow> string \<Rightarrow> (nat \<times> nat) res" where
  "decode_from i n [] = Inl ErrVarint"
| "decode_from i n (b # bs) =
     (if 18 < i then Inl ErrVarint
      else let value = of_char b mod 128 in
      if i = 18 \<and> 4 \<le> value then Inl ErrVarint
      else let n = or n (push_bit (7 * i) value) in
      if (of_char b :: nat) < 128 then Inr (n, i + 1) else decode_from (i + 1) n bs)"

definition Decode :: "string \<Rightarrow> (nat \<times> nat) res" where
  "Decode bz = decode_from 0 0 bz"

lemma decode_from_length: "decode_from i n bs = Inr (v, k) \<Longrightarrow> i < k"
  by (induction i n bs rule: decode_from.induct) (fastforce simp: Let_def split: if_splits)+

function DecodeVec :: "string \<Rightarrow> nat list res" where
  "DecodeVec payload =
     (if payload = [] then Inr []
      else case Decode payload of
        Inl e \<Rightarrow> Inl e
      | Inr (v, k) \<Rightarrow> bind_res (DecodeVec (drop k payload)) (\<lambda>vs. Inr (v # vs)))"
  by pat_completeness auto
termination
  by (relation "measure length") (auto simp: Decode_def dest: decode_from_length)

declare DecodeVec.simps [simp del]

section \<open>Rune ids\<close>

record rune_id =
  ri_Block :: u64
  ri_Tx :: u32

record edict =
  ed_Id :: rune_id
  ed_Amount :: string
  ed_Output :: u32

text \<open>\<open>strings.Split\<close> at a character, and \<open>strconv.ParseUint(s, 10, bits)\<close>.\<close>

fun split_at :: "char \<Rightarrow> string \<Rightarrow> string list" where
  "split_at c [] = [[]]"
| "split_at c (x # xs) = (if x = c then [] # split_at c xs
     else case split_at c xs of [] \<Rightarrow> [[x]] | p # ps \<Rightarrow> (x # p) # ps)"

definition parse_uint_bits :: "nat \<Rightarrow> string \<Rightarrow> nat res" where
  "parse_uint_bits bits s = (if s = [] then Inl ErrParseUint else
     case parse_digits 0 s of None \<Rightarrow> Inl ErrParseUint | Some n \<Rightarrow> if n < 2 ^ bits then Inr n else Inl ErrParseUint)"

definition RuneId_ToString :: "rune_id \<Rightarrow> string" where
  "RuneId_ToString r = dec_string (unat (ri_Block r)) @ '':'' @ dec_string (unat (ri_Tx r))"

definition RuneId_FromString :: "string \<Rightarrow> rune_id res" where
  "RuneId_FromString s =
     (case split_at (CHR '':'') s of
        [b, t] \<Rightarrow> bind_res (parse_uint_bits 64 b) (\<lambda>block. bind_res (parse_uint_bits 32 t) (\<lambda>tx.
          Inr \<lparr>ri_Block = word_of_nat block, ri_Tx = word_of_nat tx\<rparr>))
      | _ \<Rightarrow> Inl ErrInvalidRuneId)"

definition MustRuneId :: "string \<Rightarrow> rune_id res" where
  "MustRuneId s = (case RuneId_FromString s of Inl _ \<Rightarrow> Inl Panic | Inr r \<Rightarrow> Inr r)"

text \<open>The bytes of a number, least significant first.\<close>

definition le_bytes :: "nat \<Rightarrow> nat \<Rightarrow> string" where
  "le_bytes k n = map (\<lambda>i. char_of (n div 256 ^ i mod 256)) [0..<k]"

text \<open>
  \<open>MarshalToBytes\<close> fills twelve bytes: \<open>PutUint64\<close> writes the block to the first eight, and then
  \<open>PutUint32\<close> writes the index of the transaction to the first four of them.
\<close>

definition RuneId_MarshalToBytes :: "rune_id \<Rightarrow> string" where
  "RuneId_MarshalToBytes r =
     le_bytes 4 (unat (ri_Tx r)) @ drop 4 (le_bytes 8 (unat (ri_Block r))) @ replicate 4 (char_of (0 :: nat))"

definition MarshalRuneIdFromString :: "string \<Rightarrow> string res" where
  "MarshalRuneIdFromString s = bind_res (MustRuneId s) (\<lambda>r. Inr (RuneId_MarshalToBytes r))"

definition RunesProtocolName :: string where
  "RunesProtocolName = ''runes''"

definition RuneId_Denom :: "rune_id \<Rightarrow> string" where
  "RuneId_Denom r = RunesProtocolName @ ''/'' @ RuneId_ToString r"

definition has_prefix :: "string \<Rightarrow> string \<Rightarrow> bool" where
  "has_prefix p s \<longleftrightarrow> take (length p) s = p"

definition trim_prefix :: "string \<Rightarrow> string \<Rightarrow> string" where
  "trim_prefix p s = (if has_prefix p s then drop (length p) s else s)"

definition RuneId_FromDenom :: "string \<Rightarrow> rune_id res" where
  "RuneId_FromDenom d = MustRuneId (trim_prefix (RunesProtocolName @ ''/'') d)"

section \<open>Amounts and balances\<close>

definition RuneAmountFromString :: "('b, 'e) benv_scheme \<Rightarrow> string \<Rightarrow> nat res" where
  "RuneAmountFromString E s = (case u128_parse E s of None \<Rightarrow> Inl Panic | Some n \<Rightarrow> Inr n)"

definition u128_add :: "nat \<Rightarrow> nat \<Rightarrow> nat res" where
  "u128_add a b = (if a + b < 2 ^ 128 then Inr (a + b) else Inl Panic)"

text \<open>\<open>PutBytes\<close> is little-endian.\<close>

definition MarshalRuneAmount :: "nat \<Rightarrow> string" where
  "MarshalRuneAmount n = le_bytes 16 n"

definition MarshalRuneAmountFromString :: "('b, 'e) benv_scheme \<Rightarrow> string \<Rightarrow> string res" where
  "MarshalRuneAmountFromString E s = bind_res (RuneAmountFromString E s) (\<lambda>n. Inr (MarshalRuneAmount n))"

definition UnmarshalRuneAmount :: "string \<Rightarrow> nat" where
  "UnmarshalRuneAmount bz = foldr (\<lambda>c n. of_char c + 256 * n) (take 16 bz) 0"

record rune_balance =
  rb_Id :: string
  rb_Amount :: string

primrec first_index :: "('a \<Rightarrow> bool) \<Rightarrow> 'a list \<Rightarrow> nat option" where
  "first_index P [] = None"
| "first_index P (x # xs) = (if P x then Some 0 else map_option Suc (first_index P xs))"

text \<open>The index of a balance, or none, with its amount.\<close>

definition GetBalance :: "('b, 'e) benv_scheme \<Rightarrow> rune_balance list \<Rightarrow> string \<Rightarrow> (nat option \<times> nat) res" where
  "GetBalance E rbs i =
     (case first_index (\<lambda>r. rb_Id r = i) rbs of
        None \<Rightarrow> Inr (None, 0)
      | Some k \<Rightarrow> bind_res (RuneAmountFromString E (rb_Amount (rbs ! k))) (\<lambda>n. Inr (Some k, n)))"

definition merge_balance :: "('b, 'e) benv_scheme \<Rightarrow> rune_balance \<Rightarrow> rune_balance list \<Rightarrow> rune_balance list res" where
  "merge_balance E ob rbs =
     bind_res (GetBalance E rbs (rb_Id ob)) (\<lambda>(i, b).
     case i of
       Some k \<Rightarrow> if b = 0 then Inr (rbs @ [ob])
         else bind_res (RuneAmountFromString E (rb_Amount ob)) (\<lambda>a.
              bind_res (u128_add b a) (\<lambda>n. Inr (rbs[k := (rbs ! k)\<lparr>rb_Amount := dec_string n\<rparr>])))
     | None \<Rightarrow> Inr (rbs @ [ob]))"

definition RuneBalances_Merge :: "('b, 'e) benv_scheme \<Rightarrow> rune_balance list \<Rightarrow> rune_balance list \<Rightarrow> rune_balance list res" where
  "RuneBalances_Merge E rbs other = fold_res (merge_balance E) other rbs"

definition RuneBalances_Update :: "rune_balance list \<Rightarrow> string \<Rightarrow> nat \<Rightarrow> rune_balance list" where
  "RuneBalances_Update rbs i amount =
     (case first_index (\<lambda>r. rb_Id r = i) rbs of
        None \<Rightarrow> rbs
      | Some k \<Rightarrow> if amount \<noteq> 0 then rbs[k := (rbs ! k)\<lparr>rb_Amount := dec_string amount\<rparr>]
          else take k rbs @ drop (Suc k) rbs)"

section \<open>Edicts\<close>

definition OP_13 :: nat where
  "OP_13 = 93"

definition OP_PUSHDATA4 :: nat where
  "OP_PUSHDATA4 = 78"

definition EdictLen :: nat where
  "EdictLen = 4"

definition RunesOutValue :: int where
  "RunesOutValue = 546"

text \<open>\<open>big.Int.Uint64\<close> keeps the low 64 bits, and \<open>uint32\<close> the low 32 of these.\<close>

definition parse_edict :: "nat \<Rightarrow> nat list \<Rightarrow> edict res" where
  "parse_edict outs vs =
     (let output = word_of_nat (vs ! 3) :: u32 in
      if (word_of_nat outs :: u32) < output then Inl ErrInvalidRunes
      else Inr \<lparr>ed_Id = \<lparr>ri_Block = word_of_nat (vs ! 0), ri_Tx = word_of_nat (vs ! 1)\<rparr>,
             ed_Amount = dec_string (vs ! 2), ed_Output = output\<rparr>)"

fun parse_edicts :: "nat \<Rightarrow> nat list \<Rightarrow> edict list res" where
  "parse_edicts outs (a # b # c # d # vs) =
     bind_res (parse_edict outs [a, b, c, d]) (\<lambda>e. bind_res (parse_edicts outs vs) (\<lambda>es. Inr (e # es)))"
| "parse_edicts outs _ = Inr []"

definition ParseEdicts :: "msg_tx \<Rightarrow> string \<Rightarrow> edict list res" where
  "ParseEdicts tx payload =
     bind_res (DecodeVec payload) (\<lambda>vs.
     if length vs < EdictLen + 1 \<or> length (drop 1 vs) mod EdictLen \<noteq> 0 \<or> vs ! 0 \<noteq> 0 then Inl ErrInvalidRunes
     else parse_edicts (length (mt_TxOut tx)) (drop 1 vs))"

definition IsSmallInt :: "nat \<Rightarrow> bool" where
  "IsSmallInt opc \<longleftrightarrow> opc = 0 \<or> 81 \<le> opc \<and> opc \<le> 96"

text \<open>The data of the pushes that follow the magic number.\<close>

fun runes_payload :: "(nat \<times> string) list \<Rightarrow> string res" where
  "runes_payload [] = Inr []"
| "runes_payload ((opc, dat) # ts) =
     (if IsSmallInt opc \<or> opc \<le> OP_PUSHDATA4 then bind_res (runes_payload ts) (\<lambda>p. Inr (dat @ p)) else Inl ErrInvalidRunes)"

text \<open>The payload of the first output that is a runes script, if there is one.\<close>

fun find_runes :: "('b, 'e) benv_scheme \<Rightarrow> tx_out list \<Rightarrow> string option res" where
  "find_runes E [] = Inr None"
| "find_runes E (out # outs) =
     (case script_tokens E (to_PkScript out) of
        ((op1, _) # (op2, _) # ts, ok) \<Rightarrow>
          if op1 = of_char OP_RETURN \<and> op2 = OP_13
          then bind_res (runes_payload ts) (\<lambda>p. if \<not> ok then Inl ErrInvalidRunes else Inr (Some p))
          else find_runes E outs
      | _ \<Rightarrow> find_runes E outs)"

definition ParseRunes :: "('b, 'e) benv_scheme \<Rightarrow> msg_tx \<Rightarrow> edict list res" where
  "ParseRunes E tx = bind_res (find_runes E (mt_TxOut tx)) (\<lambda>p.
     case p of None \<Rightarrow> Inr [] | Some payload \<Rightarrow> ParseEdicts tx payload)"

definition Edict_MustMarshalLEB128 :: "('b, 'e) benv_scheme \<Rightarrow> edict \<Rightarrow> string res" where
  "Edict_MustMarshalLEB128 E e =
     bind_res (RuneAmountFromString E (ed_Amount e)) (\<lambda>amount.
     Inr (EncodeUint64 (ri_Block (ed_Id e)) @ EncodeUint32 (ri_Tx (ed_Id e)) @ EncodeUint128 amount
       @ EncodeUint32 (ed_Output e)))"

definition BuildEdictScript :: "('b, 'e) benv_scheme \<Rightarrow> string \<Rightarrow> nat \<Rightarrow> u32 \<Rightarrow> string res" where
  "BuildEdictScript E runeId amount output =
     bind_res (MustRuneId runeId) (\<lambda>i.
     bind_res (Edict_MustMarshalLEB128 E \<lparr>ed_Id = i, ed_Amount = dec_string amount, ed_Output = output\<rparr>) (\<lambda>payload.
     build_script E [AddOp (of_char OP_RETURN), AddOp OP_13, AddData (char_of (0 :: nat) # payload)]))"

section \<open>Round trips\<close>

subsection \<open>Integers\<close>

lemma of_char_of_nat: "n < 256 \<Longrightarrow> (of_char (char_of (n :: nat)) :: nat) = n"
  by simp

lemma or_push:
  assumes "n < 2 ^ k"
  shows "or n (push_bit k (v :: nat)) = n + v * 2 ^ k"
proof -
  have "take_bit k n = n" using assms by (simp add: take_bit_nat_eq_self)
  then have "\<not> bit n j \<or> \<not> bit (push_bit k v) j" for j
    using bit_take_bit_iff [of k n j] by (auto simp: bit_push_bit_iff)
  then have "n + push_bit k v = or n (push_bit k v)" by (rule disjunctive_add)
  then show ?thesis by (simp add: push_bit_eq_mult)
qed

lemma encode_uint_step: "128 \<le> n \<Longrightarrow> encode_uint n = char_of (n mod 128 + 128) # encode_uint (n div 128)"
  and encode_uint_last: "n < 128 \<Longrightarrow> encode_uint n = [char_of n]"
  by (simp_all add: encode_uint.simps [of n])

lemma decode_encode_from:
  assumes "acc < 2 ^ (7 * i)" "acc + n * 2 ^ (7 * i) < 2 ^ 128" "i \<le> 18"
  shows "decode_from i acc (encode_uint n @ bs) = Inr (acc + n * 2 ^ (7 * i), i + length (encode_uint n))"
  using assms
proof (induction n arbitrary: i acc rule: less_induct)
  case (less n)
  let ?p = "(2 :: nat) ^ (7 * i)"
  show ?case
  proof (cases "n < 128")
    case True
    have "\<not> (i = 18 \<and> 4 \<le> n)"
    proof
      assume "i = 18 \<and> 4 \<le> n"
      then have "4 * 2 ^ 126 \<le> n * ?p" by (intro mult_mono) auto
      then show False using less.prems(2) by simp
    qed
    then show ?thesis
      using True less.prems by (simp add: encode_uint_last or_push)
  next
    case False
    have i: "i < 18"
    proof (rule ccontr)
      assume "\<not> i < 18"
      then have "i = 18" using less.prems(3) by simp
      then have "128 * 2 ^ 126 \<le> n * ?p" using False by (intro mult_mono) auto
      then show False using less.prems(2) by simp
    qed
    define acc' where "acc' = acc + n mod 128 * ?p"
    have p: "(2 :: nat) ^ (7 * (i + 1)) = 128 * ?p" by (simp add: power_add)
    have n: "n * ?p = (128 * (n div 128) + n mod 128) * ?p" by simp
    have total: "acc' + n div 128 * 2 ^ (7 * (i + 1)) = acc + n * ?p"
      unfolding p acc'_def n by (simp only: algebra_simps)
    have "acc' < ?p + n mod 128 * ?p" unfolding acc'_def using less.prems(1) by simp
    also have "\<dots> = (n mod 128 + 1) * ?p" by simp
    also have "\<dots> \<le> 128 * ?p" by (intro mult_right_mono) (auto simp: Suc_le_eq)
    finally have small: "acc' < 2 ^ (7 * (i + 1))" unfolding p .
    have step: "decode_from i acc (encode_uint n @ bs) = decode_from (i + 1) acc' (encode_uint (n div 128) @ bs)"
      using False i less.prems(1) by (simp add: encode_uint_step Let_def or_push acc'_def)
    have "n div 128 < n" using False by simp
    then show ?thesis
      unfolding step using less.IH [OF _ small] total less.prems(2) i False by (simp add: encode_uint_step)
  qed
qed

lemma Decode_encode: "n < 2 ^ 128 \<Longrightarrow> Decode (encode_uint n @ bs) = Inr (n, length (encode_uint n))"
  using decode_encode_from [of 0 0 n bs] by (simp add: Decode_def)

lemma encode_uint_not_Nil [simp]: "encode_uint n \<noteq> []"
  by (simp add: encode_uint.simps)

lemma DecodeVec_Nil [simp]: "DecodeVec [] = Inr []"
  by (simp add: DecodeVec.simps)

lemma DecodeVec_encode: "n < 2 ^ 128 \<Longrightarrow> DecodeVec (encode_uint n @ bs) = bind_res (DecodeVec bs) (\<lambda>vs. Inr (n # vs))"
  by (subst DecodeVec.simps) (simp add: Decode_encode)

lemma DecodeVec_concat: "(\<And>n. n \<in> set ns \<Longrightarrow> n < 2 ^ 128) \<Longrightarrow> DecodeVec (concat (map encode_uint ns)) = Inr ns"
  by (induction ns) (simp_all add: DecodeVec_encode)

subsection \<open>Rune ids and amounts\<close>

lemma split_at_append: "c \<notin> set xs \<Longrightarrow> split_at c (xs @ c # ys) = xs # split_at c ys"
  by (induction xs) auto

lemma split_at_none: "c \<notin> set xs \<Longrightarrow> split_at c xs = [xs]"
  by (induction xs) auto

lemma digit_char_code: "d < 10 \<Longrightarrow> (of_char (digit_char d) :: nat) = 48 + d"
  by (simp add: digit_char_def)

lemma dec_string_digits: "c \<in> set (dec_string n) \<Longrightarrow> (of_char c :: nat) < 58"
  by (induction n rule: dec_string.induct)
    (subst (asm) (2) dec_string.simps, auto simp: digit_char_code split: if_splits)

lemma dec_string_no_colon: "CHR '':'' \<notin> set (dec_string n)"
proof
  assume "CHR '':'' \<in> set (dec_string n)"
  then have "(of_char (CHR '':'') :: nat) < 58" by (rule dec_string_digits)
  then show False by simp
qed

lemma parse_uint_bits_dec: "n < 2 ^ bits \<Longrightarrow> parse_uint_bits bits (dec_string n) = Inr n"
  by (simp add: parse_uint_bits_def dec_string_not_Nil parse_digits_dec_string)

lemma RuneId_FromString_ToString: "RuneId_FromString (RuneId_ToString r) = Inr r"
proof -
  have "split_at (CHR '':'') (RuneId_ToString r) = [dec_string (unat (ri_Block r)), dec_string (unat (ri_Tx r))]"
    by (simp add: RuneId_ToString_def split_at_append split_at_none dec_string_no_colon)
  moreover have "parse_uint_bits 64 (dec_string (unat (ri_Block r))) = Inr (unat (ri_Block r))"
    using unsigned_less [of "ri_Block r", where 'a = nat] by (intro parse_uint_bits_dec) simp
  moreover have "parse_uint_bits 32 (dec_string (unat (ri_Tx r))) = Inr (unat (ri_Tx r))"
    using unsigned_less [of "ri_Tx r", where 'a = nat] by (intro parse_uint_bits_dec) simp
  ultimately show ?thesis by (simp add: RuneId_FromString_def)
qed

lemma RuneId_FromDenom_Denom: "RuneId_FromDenom (RuneId_Denom r) = Inr r"
  by (simp add: RuneId_FromDenom_def RuneId_Denom_def trim_prefix_def has_prefix_def MustRuneId_def RunesProtocolName_def
      RuneId_FromString_ToString)

lemma le_bytes_Suc: "le_bytes (Suc k) n = char_of (n mod 256) # le_bytes k (n div 256)"
  by (simp add: le_bytes_def upt_conv_Cons map_Suc_upt [symmetric] div_mult2_eq [symmetric] del: upt_Suc)

lemma foldr_le_bytes: "foldr (\<lambda>c m. of_char c + 256 * m) (le_bytes k n) 0 = n mod 256 ^ k"
proof (induction k arbitrary: n)
  case 0
  then show ?case by (simp add: le_bytes_def)
next
  case (Suc k)
  then show ?case by (simp add: le_bytes_Suc mod_mult2_eq)
qed

lemma length_le_bytes [simp]: "length (le_bytes k n) = k"
  by (simp add: le_bytes_def)

lemma UnmarshalRuneAmount_Marshal: "n < 2 ^ 128 \<Longrightarrow> UnmarshalRuneAmount (MarshalRuneAmount n) = n"
  by (simp add: UnmarshalRuneAmount_def MarshalRuneAmount_def foldr_le_bytes)

lemma le_bytes_mod: "le_bytes k (n mod 256 ^ k) = le_bytes k n"
proof (induction k arbitrary: n)
  case 0
  then show ?case by (simp add: le_bytes_def)
next
  case (Suc k)
  have "n mod 256 ^ Suc k = 256 * (n div 256 mod 256 ^ k) + n mod 256" by (simp add: mod_mult2_eq)
  then show ?case using Suc.IH [of "n div 256"] by (simp add: le_bytes_Suc)
qed

lemma le_bytes_inj: "le_bytes k n = le_bytes k m \<longleftrightarrow> n mod 256 ^ k = m mod 256 ^ k"
  using foldr_le_bytes le_bytes_mod by metis

text \<open>The key keeps the index of the transaction and the high half of the block.\<close>

lemma drop_le_bytes: "j \<le> k \<Longrightarrow> drop j (le_bytes k n) = le_bytes (k - j) (n div 256 ^ j)"
proof (induction j arbitrary: k n)
  case 0
  then show ?case by simp
next
  case (Suc j)
  then obtain k' where "k = Suc k'" by (cases k) auto
  then show ?case using Suc by (simp add: le_bytes_Suc div_mult2_eq)
qed

lemma rune_key_eq:
  "RuneId_MarshalToBytes r = RuneId_MarshalToBytes r' \<longleftrightarrow>
     ri_Tx r = ri_Tx r' \<and> unat (ri_Block r) div 2 ^ 32 = unat (ri_Block r') div 2 ^ 32"
proof -
  have tx: "unat (w :: u32) mod 4294967296 = unat w" for w
    using unsigned_less [of w, where 'a = nat] by simp
  have blk: "unat (w :: u64) div 4294967296 mod 4294967296 = unat w div 4294967296" for w
  proof -
    have "unat w div 4294967296 < 4294967296"
      by (rule less_mult_imp_div_less) (use unsigned_less [of w, where 'a = nat] in simp)
    then show ?thesis by simp
  qed
  show ?thesis
    by (simp add: RuneId_MarshalToBytes_def drop_le_bytes le_bytes_inj tx blk word_unat_eq_iff)
qed

subsection \<open>Edict scripts\<close>

text \<open>
  Documented behaviour of the third-party operations: \<open>uint128.FromString\<close> reads the decimal numbers of 128 bits,
  and the tokenizer returns the opcodes and the data a script builder was given, the data under a push opcode, when the
  opcodes themselves push nothing.
\<close>

definition u128_ok :: "('b, 'e) benv_scheme \<Rightarrow> bool" where
  "u128_ok E \<longleftrightarrow> (\<forall>n < 2 ^ 128. u128_parse E (dec_string n) = Some n)"

definition scripts_ok :: "('b, 'e) benv_scheme \<Rightarrow> bool" where
  "scripts_ok E \<longleftrightarrow> (\<forall>a b d script. build_script E [AddOp a, AddOp b, AddData d] = Inr script \<and> 2 \<le> length d
       \<and> OP_PUSHDATA4 < a \<and> OP_PUSHDATA4 < b \<longrightarrow>
     (\<exists>push \<le> OP_PUSHDATA4. script_tokens E script = ([(a, []), (b, []), (push, d)], True)))"

definition edict_numbers :: "rune_id \<Rightarrow> nat \<Rightarrow> u32 \<Rightarrow> nat list" where
  "edict_numbers r n k = [0, unat (ri_Block r), unat (ri_Tx r), n, unat k]"

lemma edict_numbers_decode:
  assumes "n < 2 ^ 128"
  shows "DecodeVec (concat (map encode_uint (edict_numbers r n k))) = Inr (edict_numbers r n k)"
proof (rule DecodeVec_concat)
  have "unat (w :: u64) < 2 ^ 128" for w using unsigned_less [of w, where 'a = nat] by simp
  moreover have "unat (w :: u32) < 2 ^ 128" for w using unsigned_less [of w, where 'a = nat] by simp
  ultimately show "m < 2 ^ 128" if "m \<in> set (edict_numbers r n k)" for m
    using that assms by (auto simp: edict_numbers_def)
qed

lemma length_encode_uint: "1 \<le> length (encode_uint n)"
  by (cases "encode_uint n") simp_all

lemma BuildEdictScript_parse:
  assumes "u128_ok E" "scripts_ok E" "n < 2 ^ 128" "BuildEdictScript E (RuneId_ToString r) n k = Inr script"
    "mt_TxOut tx = \<lparr>to_Value = v, to_PkScript = script\<rparr> # outs" "unat k \<le> length (mt_TxOut tx)" "length (mt_TxOut tx) < 2 ^ 32"
  shows "ParseRunes E tx = Inr [\<lparr>ed_Id = r, ed_Amount = dec_string n, ed_Output = k\<rparr>]"
proof -
  let ?ns = "edict_numbers r n k"
  define payload where "payload = concat (map encode_uint ?ns)"
  have "u128_parse E (dec_string n) = Some n" using assms(1,3) by (simp add: u128_ok_def)
  then have "build_script E [AddOp (of_char OP_RETURN), AddOp OP_13, AddData payload] = Inr script"
    using assms(4) by (simp add: BuildEdictScript_def MustRuneId_def RuneId_FromString_ToString Edict_MustMarshalLEB128_def
        RuneAmountFromString_def EncodeUint64_def EncodeUint32_def EncodeUint128_def payload_def edict_numbers_def encode_uint_last)
  moreover have "2 \<le> length payload"
    using length_encode_uint [of "unat (ri_Block r)"] by (simp add: payload_def edict_numbers_def encode_uint_last)
  moreover have ops: "OP_PUSHDATA4 < of_char OP_RETURN" "OP_PUSHDATA4 < OP_13"
    by (simp_all add: OP_PUSHDATA4_def OP_13_def OP_RETURN_def)
  ultimately obtain push where push: "push \<le> OP_PUSHDATA4"
    "script_tokens E script = ([(of_char OP_RETURN, []), (OP_13, []), (push, payload)], True)"
    using assms(2) ops unfolding scripts_ok_def by blast
  have out: "\<not> word_of_nat (length (mt_TxOut tx)) < k"
    using assms(6,7) by (simp add: word_less_nat_alt unat_of_nat)
  have "ParseRunes E tx = ParseEdicts tx payload"
    using push by (simp add: ParseRunes_def assms(5))
  also have "\<dots> = Inr [\<lparr>ed_Id = r, ed_Amount = dec_string n, ed_Output = k\<rparr>]"
    using edict_numbers_decode [OF assms(3)] out
    by (simp add: ParseEdicts_def payload_def) (simp add: edict_numbers_def EdictLen_def parse_edict_def Let_def)
  finally show ?thesis .
qed

end
