(* ===== verification/Incentive.thy ===== *)
theory Incentive
  imports Bridge_Env
begin

text \<open>
  The incentive module (\<open>x/incentive\<close>): a fixed reward for each deposit and each withdrawal over the bridge, paid from the
  account of the module while it has the coins, with the rewards of each address and statistics over all.
\<close>

abbreviation "ErrDepositIncentiveNotEnabled \<equiv> Registered ''incentive'' 1001"
abbreviation "ErrWithdrawIncentiveNotEnabled \<equiv> Registered ''incentive'' 1002"
abbreviation "incentive_ErrInvalidParams \<equiv> Registered ''incentive'' 1003"

abbreviation incentive_acc :: acct where
  "incentive_acc \<equiv> ModuleAcc ''incentive''"

section \<open>State\<close>

record incentive_params =
  ip_Enabled :: bool
  ip_RewardPerDeposit :: coin
  ip_RewardPerWithdraw :: coin

record address_rewards =
  ar_Address :: string
  ar_DepositCount :: u64
  ar_WithdrawCount :: u64
  ar_DepositReward :: coin
  ar_WithdrawReward :: coin
  ar_TotalAmount :: coin

record reward_stats =
  rs_AddressCount :: u64
  rs_TxCount :: u64
  rs_TotalRewardAmount :: coin

record 'b incentive = "'b chain" +
  ic_params :: incentive_params
  ic_rewards :: "(string, address_rewards) kv"
  ic_stats :: "reward_stats option"

definition zero_coin :: coin where
  "zero_coin = \<lparr>Denom = '''', Amount = 0\<rparr>"

definition zero_rewards :: address_rewards where
  "zero_rewards = \<lparr>ar_Address = '''', ar_DepositCount = 0, ar_WithdrawCount = 0, ar_DepositReward = zero_coin,
     ar_WithdrawReward = zero_coin, ar_TotalAmount = zero_coin\<rparr>"

definition zero_stats :: reward_stats where
  "zero_stats = \<lparr>rs_AddressCount = 0, rs_TxCount = 0, rs_TotalRewardAmount = zero_coin\<rparr>"

section \<open>Parameters\<close>

definition incentive_Params_Validate :: "('b, 'e) env_scheme \<Rightarrow> incentive_params \<Rightarrow> unit res" where
  "incentive_Params_Validate E p =
     (if \<not> coin_valid E (ip_RewardPerDeposit p) then Inl incentive_ErrInvalidParams
      else if \<not> coin_valid E (ip_RewardPerWithdraw p) then Inl incentive_ErrInvalidParams
      else Inr ())"

definition incentive_UpdateParams ::
  "('b, 'e) env_scheme \<Rightarrow> string \<Rightarrow> string \<Rightarrow> incentive_params \<Rightarrow> ('b, 'x) incentive_scheme \<Rightarrow> ('b, 'x) incentive_scheme res" where
  "incentive_UpdateParams E gov signer p s =
     (if gov \<noteq> signer then Inl ErrGovInvalidSigner
      else if \<not> bech32_ok E signer then Inl ErrBech32Addr
      else bind_res (incentive_Params_Validate E p) (\<lambda>_. Inr (s\<lparr>ic_params := p\<rparr>)))"

definition IncentiveEnabled :: "('b, 'e) benv_scheme \<Rightarrow> ('b, 'x) incentive_scheme \<Rightarrow> bool" where
  "IncentiveEnabled E s \<longleftrightarrow> ip_Enabled (ic_params s) \<and> \<not> no_spendable E (ch_bank s) incentive_acc"

definition DepositIncentiveEnabled :: "('b, 'e) benv_scheme \<Rightarrow> ('b, 'x) incentive_scheme \<Rightarrow> bool" where
  "DepositIncentiveEnabled E s \<longleftrightarrow> IncentiveEnabled E s \<and> 0 < Amount (ip_RewardPerDeposit (ic_params s))
     \<and> 0 < balance E (ch_bank s) incentive_acc (Denom (ip_RewardPerDeposit (ic_params s)))"

definition WithdrawIncentiveEnabled :: "('b, 'e) benv_scheme \<Rightarrow> ('b, 'x) incentive_scheme \<Rightarrow> bool" where
  "WithdrawIncentiveEnabled E s \<longleftrightarrow> IncentiveEnabled E s \<and> 0 < Amount (ip_RewardPerWithdraw (ic_params s))
     \<and> 0 < balance E (ch_bank s) incentive_acc (Denom (ip_RewardPerWithdraw (ic_params s)))"

section \<open>Rewards\<close>

definition HasRewards :: "('b, 'x) incentive_scheme \<Rightarrow> string \<Rightarrow> bool" where
  "HasRewards s a = kv_has (ic_rewards s) a"

definition incentive_GetRewards :: "('b, 'x) incentive_scheme \<Rightarrow> string \<Rightarrow> address_rewards" where
  "incentive_GetRewards s a = (case kv_get (ic_rewards s) a of None \<Rightarrow> zero_rewards | Some r \<Rightarrow> r)"

definition SetRewards :: "address_rewards \<Rightarrow> ('b, 'x) incentive_scheme \<Rightarrow> ('b, 'x) incentive_scheme" where
  "SetRewards r s = s\<lparr>ic_rewards := kv_set (ar_Address r) r (ic_rewards s)\<rparr>"

definition GetRewardStats :: "('b, 'x) incentive_scheme \<Rightarrow> reward_stats" where
  "GetRewardStats s = (case ic_stats s of None \<Rightarrow> zero_stats | Some r \<Rightarrow> r)"

definition SetRewardStats :: "reward_stats \<Rightarrow> ('b, 'x) incentive_scheme \<Rightarrow> ('b, 'x) incentive_scheme" where
  "SetRewardStats r s = s\<lparr>ic_stats := Some r\<rparr>"

definition AddDepositReward :: "string \<Rightarrow> coin \<Rightarrow> ('b, 'x) incentive_scheme \<Rightarrow> ('b, 'x) incentive_scheme" where
  "AddDepositReward a c s =
     (let r = incentive_GetRewards s a;
          r = (if ar_Address r = '''' then r\<lparr>ar_Address := a, ar_DepositReward := c, ar_TotalAmount := c\<rparr>
               else r\<lparr>ar_DepositReward := coin_add_amount c (Amount (ar_DepositReward r)),
                      ar_TotalAmount := coin_add_amount c (Amount (ar_TotalAmount r))\<rparr>)
      in SetRewards (r\<lparr>ar_DepositCount := ar_DepositCount r + 1\<rparr>) s)"

definition AddWithdrawReward :: "string \<Rightarrow> coin \<Rightarrow> ('b, 'x) incentive_scheme \<Rightarrow> ('b, 'x) incentive_scheme" where
  "AddWithdrawReward a c s =
     (let r = incentive_GetRewards s a;
          r = (if ar_Address r = '''' then r\<lparr>ar_Address := a, ar_WithdrawReward := c, ar_TotalAmount := c\<rparr>
               else r\<lparr>ar_WithdrawReward := coin_add_amount c (Amount (ar_WithdrawReward r)),
                      ar_TotalAmount := coin_add_amount c (Amount (ar_TotalAmount r))\<rparr>)
      in SetRewards (r\<lparr>ar_WithdrawCount := ar_WithdrawCount r + 1\<rparr>) s)"

definition UpdateRewardStats :: "string \<Rightarrow> coin \<Rightarrow> ('b, 'x) incentive_scheme \<Rightarrow> ('b, 'x) incentive_scheme" where
  "UpdateRewardStats a c s =
     (let t = GetRewardStats s;
          t = (if HasRewards s a then t else t\<lparr>rs_AddressCount := rs_AddressCount t + 1\<rparr>);
          t = t\<lparr>rs_TotalRewardAmount := if rs_TxCount t = 0 then c else coin_add_amount c (Amount (rs_TotalRewardAmount t))\<rparr>
      in SetRewardStats (t\<lparr>rs_TxCount := rs_TxCount t + 1\<rparr>) s)"

definition pay_reward :: "('b, 'e) benv_scheme \<Rightarrow> string \<Rightarrow> coin \<Rightarrow> ('b, 'x) incentive_scheme \<Rightarrow> ('b, 'x) incentive_scheme res" where
  "pay_reward E a c s =
     (if \<not> bech32_ok E a then Inl Panic
      else bind_res (send_coins E (ch_bank s) incentive_acc (Account a) [c]) (\<lambda>b. Inr (UpdateRewardStats a c (s\<lparr>ch_bank := b\<rparr>))))"

definition DistributeDepositReward ::
  "('b, 'e) benv_scheme \<Rightarrow> string \<Rightarrow> ('b, 'x) incentive_scheme \<Rightarrow> ('b, 'x) incentive_scheme res" where
  "DistributeDepositReward E a s =
     (if \<not> DepositIncentiveEnabled E s then Inl ErrDepositIncentiveNotEnabled
      else let c = ip_RewardPerDeposit (ic_params s)
        in bind_res (pay_reward E a c s) (\<lambda>s. Inr (AddDepositReward a c s)))"

definition DistributeWithdrawReward ::
  "('b, 'e) benv_scheme \<Rightarrow> string \<Rightarrow> ('b, 'x) incentive_scheme \<Rightarrow> ('b, 'x) incentive_scheme res" where
  "DistributeWithdrawReward E a s =
     (if \<not> WithdrawIncentiveEnabled E s then Inl ErrWithdrawIncentiveNotEnabled
      else let c = ip_RewardPerWithdraw (ic_params s)
        in bind_res (pay_reward E a c s) (\<lambda>s. Inr (AddWithdrawReward a c s)))"

section \<open>Genesis\<close>

text \<open>Only the parameters are exported.\<close>

definition incentive_InitGenesis :: "incentive_params \<Rightarrow> ('b, 'x) incentive_scheme \<Rightarrow> ('b, 'x) incentive_scheme" where
  "incentive_InitGenesis p s = s\<lparr>ic_params := p\<rparr>"

definition incentive_ExportGenesis :: "('b, 'x) incentive_scheme \<Rightarrow> incentive_params" where
  "incentive_ExportGenesis s = ic_params s"

text \<open>The error of a call whose caller ignores it; a panic is not ignored.\<close>

definition try_res :: "'s res \<Rightarrow> 's \<Rightarrow> 's res" where
  "try_res r s = (case r of Inl e \<Rightarrow> if e = Panic then Inl Panic else Inr s | Inr s' \<Rightarrow> Inr s')"

lemma try_res_simps [simp]: "try_res (Inr t) s = Inr t" "e \<noteq> Panic \<Longrightarrow> try_res (Inl e) s = Inr s" "try_res (Inl Panic) s = Inl Panic"
  by (simp_all add: try_res_def)

lemma try_res_Inr: "try_res r s = Inr t \<longleftrightarrow> r = Inr t \<or> (\<exists>e. r = Inl e \<and> e \<noteq> Panic \<and> t = s)"
  by (auto simp: try_res_def split: sum.splits)

end
