(* ===== verification/Bridge_Types.thy ===== *)
theory Bridge_Types
  imports Runes Incentive
begin

text \<open>
  The data of the Bitcoin bridge (\<open>x/btcbridge\<close>): its parameters with the vaults (\<open>types/params.go\<close>,
  \<open>keeper/params.go\<close>), the records of its stores and the stores themselves, and the operations of the stores of
  withdrawal requests, signing requests and minted transactions (\<open>keeper/withdraw.go\<close>, \<open>keeper/deposit.go\<close>). The stores of unspent outputs, rate
  limits and keys have their own theories.
\<close>

abbreviation "btcbridge_ErrInvalidParams \<equiv> Registered ''btcbridge'' 1000"
abbreviation "ErrTransactionAlreadyMinted \<equiv> Registered ''btcbridge'' 2107"
abbreviation "ErrInvalidDepositTransaction \<equiv> Registered ''btcbridge'' 2108"
abbreviation "ErrInvalidDepositAmount \<equiv> Registered ''btcbridge'' 2109"
abbreviation "ErrDepositNotEnabled \<equiv> Registered ''btcbridge'' 2110"
abbreviation "ErrUntrustedNonBtcRelayer \<equiv> Registered ''btcbridge'' 2111"
abbreviation "ErrUntrustedFeeProvider \<equiv> Registered ''btcbridge'' 2112"
abbreviation "ErrInvalidWithdrawAmount \<equiv> Registered ''btcbridge'' 3100"
abbreviation "ErrAssetNotSupported \<equiv> Registered ''btcbridge'' 3102"
abbreviation "btcbridge_ErrDustOutput \<equiv> Registered ''btcbridge'' 3104"
abbreviation "btcbridge_ErrInsufficientUTXOs \<equiv> Registered ''btcbridge'' 3105"
abbreviation "ErrMaxTransactionWeightExceeded \<equiv> Registered ''btcbridge'' 3106"
abbreviation "ErrMaxUTXONumExceeded \<equiv> Registered ''btcbridge'' 3107"
abbreviation "ErrFailToSerializePsbt \<equiv> Registered ''btcbridge'' 3108"
abbreviation "ErrInvalidTxHash \<equiv> Registered ''btcbridge'' 3109"
abbreviation "btcbridge_ErrInvalidSignatures \<equiv> Registered ''btcbridge'' 3110"
abbreviation "btcbridge_ErrInvalidSignature \<equiv> Registered ''btcbridge'' 3111"
abbreviation "btcbridge_ErrSigningRequestDoesNotExist \<equiv> Registered ''btcbridge'' 3112"
abbreviation "ErrSigningRequestConfirmed \<equiv> Registered ''btcbridge'' 3113"
abbreviation "ErrWithdrawNotEnabled \<equiv> Registered ''btcbridge'' 3114"
abbreviation "ErrRateLimitReached \<equiv> Registered ''btcbridge'' 3115"
abbreviation "ErrUTXODoesNotExist \<equiv> Registered ''btcbridge'' 4100"
abbreviation "ErrUTXOLocked \<equiv> Registered ''btcbridge'' 4101"
abbreviation "ErrUTXOUnlocked \<equiv> Registered ''btcbridge'' 4102"
abbreviation "ErrInvalidRelayers \<equiv> Registered ''btcbridge'' 6100"
abbreviation "ErrInvalidFeeProviders \<equiv> Registered ''btcbridge'' 6101"
abbreviation "btcbridge_ErrInvalidDKGParams \<equiv> Registered ''btcbridge'' 7100"
abbreviation "btcbridge_ErrDKGRequestDoesNotExist \<equiv> Registered ''btcbridge'' 7101"
abbreviation "ErrDKGCompletionRequestExists \<equiv> Registered ''btcbridge'' 7102"
abbreviation "ErrInvalidDKGCompletionRequest \<equiv> Registered ''btcbridge'' 7103"
abbreviation "ErrUnauthorizedDKGCompletionRequest \<equiv> Registered ''btcbridge'' 7104"
abbreviation "ErrInvalidVaultVersion \<equiv> Registered ''btcbridge'' 7105"
abbreviation "btcbridge_ErrInvalidVault \<equiv> Registered ''btcbridge'' 7106"
abbreviation "ErrVaultDoesNotExist \<equiv> Registered ''btcbridge'' 7107"
abbreviation "ErrInvalidPsbt \<equiv> Registered ''btcbridge'' 7108"
abbreviation "ErrInvalidConsolidation \<equiv> Registered ''btcbridge'' 8100"
abbreviation "ErrInvalidIBCTransferScript \<equiv> Registered ''btcbridge'' 10000"
abbreviation "ErrInvalidDenom \<equiv> External ''sdk.ValidateDenom''"
abbreviation "ErrParsePubKey \<equiv> External ''secp256k1.ParsePubKey''"
abbreviation "ErrDecodeAddress \<equiv> External ''btcutil.DecodeAddress''"
abbreviation "ErrInvalidCoins \<equiv> External ''sdk.Coins.Validate''"

section \<open>Enumerations\<close>

datatype asset_type = ASSET_UNSPECIFIED | ASSET_BTC | ASSET_BRC20 | ASSET_RUNES

datatype bridge_status = BS_UNSPECIFIED | BS_PENDING | BS_BROADCASTED | BS_CONFIRMED | BS_FAILED

fun bridge_status_code :: "bridge_status \<Rightarrow> nat" where
  "bridge_status_code BS_UNSPECIFIED = 0"
| "bridge_status_code BS_PENDING = 1"
| "bridge_status_code BS_BROADCASTED = 2"
| "bridge_status_code BS_CONFIRMED = 3"
| "bridge_status_code BS_FAILED = 4"

lemma bridge_status_code_inj: "bridge_status_code a = bridge_status_code b \<Longrightarrow> a = b"
  by (cases a; cases b) auto

instantiation bridge_status :: linorder
begin

definition less_eq_bridge_status :: "bridge_status \<Rightarrow> bridge_status \<Rightarrow> bool" where
  "less_eq_bridge_status a b \<longleftrightarrow> bridge_status_code a \<le> bridge_status_code b"

definition less_bridge_status :: "bridge_status \<Rightarrow> bridge_status \<Rightarrow> bool" where
  "less_bridge_status a b \<longleftrightarrow> bridge_status_code a < bridge_status_code b"

instance
  by standard (auto simp: less_eq_bridge_status_def less_bridge_status_def dest: bridge_status_code_inj)

end

section \<open>Parameters\<close>

record vault =
  va_Address :: string
  va_PubKey :: string
  va_AssetType :: asset_type
  va_Version :: u64

record bridge_params =
  bp_DepositConfirmationDepth :: int
  bp_WithdrawConfirmationDepth :: int
  bp_MaxAcceptableBlockDepth :: u64
  bp_BtcVoucherDenom :: string
  bp_DepositEnabled :: bool
  bp_WithdrawEnabled :: bool
  bp_TrustedNonBtcRelayers :: "string list"
  bp_TrustedFeeProviders :: "string list"
  bp_FeeRateValidityPeriod :: int
  bp_Vaults :: "vault list"
  bp_MaxUtxoNum :: u32
  bp_BtcBatchWithdrawPeriod :: int
  bp_MaxBtcBatchWithdrawNum :: u32
  bp_BtcMinDeposit :: int
  bp_BtcMinWithdraw :: int
  bp_BtcMaxWithdraw :: int
  bp_DepositFee :: int
  bp_WithdrawFee :: int
  bp_Collector :: string
  bp_DkgTimeoutPeriod :: int
  bp_ParticipantUpdateTransitionPeriod :: int
  bp_GlobalPeriod :: int
  bp_GlobalSupplyPercentageQuota :: u32
  bp_AddressPeriod :: int
  bp_AddressQuota :: int
  bp_TimeoutHeightOffset :: u64
  bp_TimeoutDuration :: int
  bp_MaxSponsorFee :: "coin list"

definition validateConfirmationParams :: "int \<Rightarrow> int \<Rightarrow> unit res" where
  "validateConfirmationParams d w = (if d \<le> 0 \<or> w \<le> 0 then Inl btcbridge_ErrInvalidParams else Inr ())"

definition validateNonBtcRelayers :: "('b, 'e) benv_scheme \<Rightarrow> string list \<Rightarrow> unit res" where
  "validateNonBtcRelayers E rs = (if list_all (bech32_ok E) rs then Inr () else Inl ErrInvalidRelayers)"

definition validateFeeProviders :: "('b, 'e) benv_scheme \<Rightarrow> string list \<Rightarrow> unit res" where
  "validateFeeProviders E ps = (if list_all (bech32_ok E) ps then Inr () else Inl ErrInvalidFeeProviders)"

definition validateFeeRateValidityPeriod :: "int \<Rightarrow> unit res" where
  "validateFeeRateValidityPeriod p = (if p \<le> 0 then Inl btcbridge_ErrInvalidParams else Inr ())"

fun validate_vaults :: "('b, 'e) benv_scheme \<Rightarrow> string list \<Rightarrow> vault list \<Rightarrow> unit res" where
  "validate_vaults E seen [] = Inr ()"
| "validate_vaults E seen (v # vs) =
     (if \<not> bech32_ok E (va_Address v) then Inl ErrBech32Addr
      else if va_Address v \<in> set seen then Inl btcbridge_ErrInvalidParams
      else bind_res (if va_PubKey v = [] then Inr ()
                     else bind_res (hex_res (va_PubKey v)) (\<lambda>k.
                       if secp256k1_key_ok E k then Inr () else Inl ErrParsePubKey)) (\<lambda>_.
      if va_AssetType v = ASSET_UNSPECIFIED then Inl btcbridge_ErrInvalidParams
      else validate_vaults E (va_Address v # seen) vs))"

definition validateVaults :: "('b, 'e) benv_scheme \<Rightarrow> vault list \<Rightarrow> unit res" where
  "validateVaults E vs = validate_vaults E [] vs"

definition validateWithdrawParams :: "bridge_params \<Rightarrow> unit res" where
  "validateWithdrawParams p =
     (if bp_MaxUtxoNum p = 0 \<or> bp_BtcBatchWithdrawPeriod p = 0 \<or> bp_MaxBtcBatchWithdrawNum p = 0
      then Inl btcbridge_ErrInvalidParams else Inr ())"

definition validateProtocolParams :: "('b, 'e) benv_scheme \<Rightarrow> bridge_params \<Rightarrow> unit res" where
  "validateProtocolParams E p =
     (if bp_BtcMaxWithdraw p < bp_BtcMinWithdraw p then Inl btcbridge_ErrInvalidParams
      else if (bp_DepositFee p \<noteq> 0 \<or> bp_WithdrawFee p \<noteq> 0) \<and> bp_Collector p = [] then Inl btcbridge_ErrInvalidParams
      else if bp_Collector p \<noteq> [] \<and> \<not> bech32_ok E (bp_Collector p) then Inl btcbridge_ErrInvalidParams
      else Inr ())"

definition validateTSSParams :: "bridge_params \<Rightarrow> unit res" where
  "validateTSSParams p =
     (if bp_DkgTimeoutPeriod p = 0 \<or> bp_ParticipantUpdateTransitionPeriod p = 0 then Inl btcbridge_ErrInvalidParams
      else Inr ())"

definition validateRateLimitParams :: "bridge_params \<Rightarrow> unit res" where
  "validateRateLimitParams p =
     (if bp_GlobalPeriod p \<le> 0 \<or> bp_AddressPeriod p \<le> 0 then Inl btcbridge_ErrInvalidParams
      else if bp_GlobalSupplyPercentageQuota p = 0 \<or> 100 < bp_GlobalSupplyPercentageQuota p then Inl btcbridge_ErrInvalidParams
      else if bp_AddressQuota p < 0 then Inl btcbridge_ErrInvalidParams
      else Inr ())"

definition validateIBCParams :: "bridge_params \<Rightarrow> unit res" where
  "validateIBCParams p = (if bp_TimeoutDuration p < 0 then Inl btcbridge_ErrInvalidParams else Inr ())"

definition validateFeeSponsorshipParams :: "('b, 'e) benv_scheme \<Rightarrow> bridge_params \<Rightarrow> unit res" where
  "validateFeeSponsorshipParams E p = (if coins_valid E (bp_MaxSponsorFee p) then Inr () else Inl ErrInvalidCoins)"

definition btcbridge_Params_Validate :: "('b, 'e) benv_scheme \<Rightarrow> bridge_params \<Rightarrow> unit res" where
  "btcbridge_Params_Validate E p =
     bind_res (validateConfirmationParams (bp_DepositConfirmationDepth p) (bp_WithdrawConfirmationDepth p)) (\<lambda>_.
     bind_res (if valid_denom E (bp_BtcVoucherDenom p) then Inr () else Inl ErrInvalidDenom) (\<lambda>_.
     bind_res (validateNonBtcRelayers E (bp_TrustedNonBtcRelayers p)) (\<lambda>_.
     bind_res (validateFeeProviders E (bp_TrustedFeeProviders p)) (\<lambda>_.
     bind_res (validateFeeRateValidityPeriod (bp_FeeRateValidityPeriod p)) (\<lambda>_.
     bind_res (validateVaults E (bp_Vaults p)) (\<lambda>_.
     bind_res (validateWithdrawParams p) (\<lambda>_.
     bind_res (validateProtocolParams E p) (\<lambda>_.
     bind_res (validateTSSParams p) (\<lambda>_.
     bind_res (validateRateLimitParams p) (\<lambda>_.
     bind_res (validateIBCParams p) (\<lambda>_.
     validateFeeSponsorshipParams E p)))))))))))"

text \<open>The vaults are searched in the order of the list; the search by asset type first sorts it by falling version.\<close>

definition SelectVaultByAddress :: "vault list \<Rightarrow> string \<Rightarrow> vault option" where
  "SelectVaultByAddress vs a = find (\<lambda>v. va_Address v = a) vs"

definition SelectVaultByPubKey :: "vault list \<Rightarrow> string \<Rightarrow> vault option" where
  "SelectVaultByPubKey vs k = find (\<lambda>v. va_PubKey v = k) vs"

definition SelectVaultByAssetType :: "vault list \<Rightarrow> asset_type \<Rightarrow> vault option" where
  "SelectVaultByAssetType vs t = find (\<lambda>v. va_AssetType v = t) (sort_key (\<lambda>v. - uint (va_Version v)) vs)"

definition SelectVaultByPkScript :: "('b, 'e) benv_scheme \<Rightarrow> vault list \<Rightarrow> string \<Rightarrow> vault option" where
  "SelectVaultByPkScript E vs script = find (\<lambda>v. pk_script_of E (va_Address v) = Inr script) vs"

definition AssetTypeFromDenom :: "string \<Rightarrow> bridge_params \<Rightarrow> asset_type" where
  "AssetTypeFromDenom d p =
     (if d = bp_BtcVoucherDenom p then ASSET_BTC
      else if has_prefix (RunesProtocolName @ ''/'') d then ASSET_RUNES else ASSET_UNSPECIFIED)"

definition SupportedAssetTypes :: "asset_type list" where
  "SupportedAssetTypes = [ASSET_BTC, ASSET_RUNES]"

end
