(* ===== verification/Bridge_Store.thy ===== *)
theory Bridge_Store
  imports Bridge_Types
begin

text \<open>
  The state of the bridge and its stores of parameters, withdrawal requests, signing requests and minted transactions.
  Each field of the record \<open>bridge\<close> is a store prefix of \<open>types/keys.go\<close>; the
  fee rate, its validity and the depth of deposits are in the layer \<open>chain\<close>, where other modules read them.
\<close>

section \<open>State\<close>

record bridge_utxo = utxo +
  bu_Address :: string
  bu_Height :: u64
  bu_IsLocked :: bool
  bu_Runes :: "rune_balance list"

record withdraw_request =
  wr_Address :: string
  wr_Amount :: string
  wr_Sequence :: u64
  wr_Txid :: string

record bridge_signing =
  bs_Address :: string
  bs_Sequence :: u64
  bs_Type :: asset_type
  bs_Txid :: string
  bs_Psbt :: string
  bs_CreationTime :: int
  bs_Status :: bridge_status

record ibc_withdraw_request =
  iw_ChannelId :: string
  iw_Sequence :: u64
  iw_Address :: string
  iw_Amount :: string

record global_limit =
  gl_StartTime :: int
  gl_EndTime :: int
  gl_Quota :: int
  gl_Used :: int

record address_limit =
  al_StartTime :: int
  al_EndTime :: int
  al_Quota :: int

record rate_limit =
  rl_Global :: global_limit
  rl_Address :: address_limit

record address_limit_details =
  ad_Address :: string
  ad_Used :: int

record bridge_participant =
  bpt_Moniker :: string
  bpt_OperatorAddress :: string
  bpt_ConsensusPubkey :: string

record bridge_dkg =
  bd_Id :: u64
  bd_Participants :: "bridge_participant list"
  bd_Threshold :: u32
  bd_VaultTypes :: "asset_type list"
  bd_EnableTransfer :: bool
  bd_TargetUtxoNum :: u32
  bd_Expiration :: int
  bd_Status :: dkg_status

record bridge_dkg_completion =
  bc_Id :: u64
  bc_Sender :: string
  bc_Vaults :: "string list"
  bc_ConsensusPubkey :: string
  bc_Signature :: string

type_synonym outpoint = "string \<times> u64"

record 'b bridge = "'b incentive" +
  br_params :: bridge_params
  br_withdraw_seq :: u64
  br_withdraws :: "(u64, withdraw_request) kv"
  br_withdraws_by_tx :: "(string \<times> u64, unit) kv"
  br_withdraw_queue :: "(u64, unit) kv"
  br_signing_seq :: u64
  br_signings :: "(u64, bridge_signing) kv"
  br_signing_by_tx :: "(string, u64) kv"
  br_signing_by_status :: "(bridge_status \<times> u64, unit) kv"
  br_minted :: "(string, unit) kv"
  br_utxos :: "(outpoint, bridge_utxo) kv"
  br_owned :: "(string \<times> outpoint, unit) kv"
  br_owned_by_amount :: "(string \<times> u64 \<times> outpoint, unit) kv"
  br_owned_runes :: "(string \<times> string \<times> string \<times> outpoint, unit) kv"
  br_dkg_id :: "u64 option"
  br_dkgs :: "(u64, bridge_dkg) kv"
  br_dkg_completions :: "(u64 \<times> string, bridge_dkg_completion) kv"
  br_vault_version :: u64
  br_refreshing_id :: u64
  br_refreshings :: "(u64, refreshing_request) kv"
  br_refreshing_completions :: "(u64 \<times> string, refreshing_completion) kv"
  br_ibc_queue :: "(string \<times> u64, ibc_withdraw_request) kv"
  br_rate_limit :: "rate_limit option"
  br_address_limits :: "(string, address_limit_details) kv"

text \<open>
  An operation that may fail after it has written to the state is a pair of its result and the state; a message that fails leaves no trace.
\<close>

definition commit :: "unit res \<times> 's \<Rightarrow> 's res" where
  "commit r = (case r of (Inl e, s) \<Rightarrow> Inl e | (Inr _, s) \<Rightarrow> Inr s)"

lemma commit_simps [simp]: "commit (Inl e, s) = Inl e" "commit (Inr u, s) = Inr s"
  by (simp_all add: commit_def)

text \<open>\<open>Int64\<close> of an amount that does not fit panics.\<close>

definition to_int64 :: "int \<Rightarrow> int res" where
  "to_int64 n = (if - (2 ^ 63) \<le> n \<and> n < 2 ^ 63 then Inr n else Inl Panic)"

definition coin_safe_sub :: "coin \<Rightarrow> coin \<Rightarrow> coin res" where
  "coin_safe_sub a b = (if Denom a \<noteq> Denom b \<or> Amount a < Amount b then Inl (External ''Coin.SafeSub'')
     else Inr (a\<lparr>Amount := Amount a - Amount b\<rparr>))"

section \<open>Parameters\<close>

definition GetParams :: "('b, 'x) bridge_scheme \<Rightarrow> bridge_params" where
  "GetParams s = br_params s"

definition SetParams :: "bridge_params \<Rightarrow> ('b, 'x) bridge_scheme \<Rightarrow> ('b, 'x) bridge_scheme" where
  "SetParams p s = s\<lparr>br_params := p, ch_fee_validity := bp_FeeRateValidityPeriod p,
     ch_deposit_depth := bp_DepositConfirmationDepth p\<rparr>"

definition BtcDenom :: "('b, 'x) bridge_scheme \<Rightarrow> string" where
  "BtcDenom s = bp_BtcVoucherDenom (GetParams s)"

definition ProtocolDepositFeeEnabled :: "('b, 'x) bridge_scheme \<Rightarrow> bool" where
  "ProtocolDepositFeeEnabled s \<longleftrightarrow> 0 < bp_DepositFee (GetParams s)"

definition ProtocolWithdrawFeeEnabled :: "('b, 'x) bridge_scheme \<Rightarrow> bool" where
  "ProtocolWithdrawFeeEnabled s \<longleftrightarrow> 0 < bp_WithdrawFee (GetParams s)"

definition RateLimitParamsSet :: "('b, 'x) bridge_scheme \<Rightarrow> bool" where
  "RateLimitParamsSet s \<longleftrightarrow> 0 < bp_GlobalPeriod (GetParams s)"

definition IsTrustedNonBtcRelayer :: "('b, 'x) bridge_scheme \<Rightarrow> string \<Rightarrow> bool" where
  "IsTrustedNonBtcRelayer s a \<longleftrightarrow> a \<in> set (bp_TrustedNonBtcRelayers (GetParams s))"

definition IsTrustedFeeProvider :: "('b, 'x) bridge_scheme \<Rightarrow> string \<Rightarrow> bool" where
  "IsTrustedFeeProvider s a \<longleftrightarrow> a \<in> set (bp_TrustedFeeProviders (GetParams s))"

definition GetVaultByAssetTypeAndVersion :: "('b, 'x) bridge_scheme \<Rightarrow> asset_type \<Rightarrow> u64 \<Rightarrow> vault option" where
  "GetVaultByAssetTypeAndVersion s t v = find (\<lambda>x. va_AssetType x = t \<and> va_Version x = v) (bp_Vaults (GetParams s))"

definition GetVaultVersionByAddress :: "('b, 'x) bridge_scheme \<Rightarrow> string \<Rightarrow> u64 \<times> bool" where
  "GetVaultVersionByAddress s a = (case find (\<lambda>x. va_Address x = a) (bp_Vaults (GetParams s)) of
     Some v \<Rightarrow> (va_Version v, True) | None \<Rightarrow> (0, False))"

definition GetMaxUtxoNum :: "('b, 'x) bridge_scheme \<Rightarrow> nat" where
  "GetMaxUtxoNum s = unat (bp_MaxUtxoNum (GetParams s))"

section \<open>Withdrawal requests\<close>

definition zero_withdraw_request :: withdraw_request where
  "zero_withdraw_request = \<lparr>wr_Address = '''', wr_Amount = '''', wr_Sequence = 0, wr_Txid = ''''\<rparr>"

definition GetWithdrawRequestSequence :: "('b, 'x) bridge_scheme \<Rightarrow> u64" where
  "GetWithdrawRequestSequence s = br_withdraw_seq s"

definition IncreaseWithdrawRequestSequence :: "('b, 'x) bridge_scheme \<Rightarrow> u64 \<times> ('b, 'x) bridge_scheme" where
  "IncreaseWithdrawRequestSequence s = (let n = GetWithdrawRequestSequence s + 1 in (n, s\<lparr>br_withdraw_seq := n\<rparr>))"

definition NewWithdrawRequest ::
  "string \<Rightarrow> string \<Rightarrow> ('b, 'x) bridge_scheme \<Rightarrow> withdraw_request \<times> ('b, 'x) bridge_scheme" where
  "NewWithdrawRequest sender amount s = (case IncreaseWithdrawRequestSequence s of (n, s) \<Rightarrow>
     (\<lparr>wr_Address = sender, wr_Amount = amount, wr_Sequence = n, wr_Txid = ''''\<rparr>, s))"

definition GetWithdrawRequest :: "('b, 'x) bridge_scheme \<Rightarrow> u64 \<Rightarrow> withdraw_request" where
  "GetWithdrawRequest s n = (case kv_get (br_withdraws s) n of None \<Rightarrow> zero_withdraw_request | Some r \<Rightarrow> r)"

definition SetWithdrawRequestByTxHash :: "withdraw_request \<Rightarrow> ('b, 'x) bridge_scheme \<Rightarrow> ('b, 'x) bridge_scheme" where
  "SetWithdrawRequestByTxHash r s = s\<lparr>br_withdraws_by_tx := kv_set (wr_Txid r, wr_Sequence r) () (br_withdraws_by_tx s)\<rparr>"

definition SetWithdrawRequest :: "withdraw_request \<Rightarrow> ('b, 'x) bridge_scheme \<Rightarrow> ('b, 'x) bridge_scheme" where
  "SetWithdrawRequest r s =
     (let s = s\<lparr>br_withdraws := kv_set (wr_Sequence r) r (br_withdraws s)\<rparr>
      in if wr_Txid r \<noteq> '''' then SetWithdrawRequestByTxHash r s else s)"

definition AddToBtcWithdrawRequestQueue :: "withdraw_request \<Rightarrow> ('b, 'x) bridge_scheme \<Rightarrow> ('b, 'x) bridge_scheme" where
  "AddToBtcWithdrawRequestQueue r s = s\<lparr>br_withdraw_queue := kv_set (wr_Sequence r) () (br_withdraw_queue s)\<rparr>"

definition RemoveFromBtcWithdrawRequestQueue :: "withdraw_request \<Rightarrow> ('b, 'x) bridge_scheme \<Rightarrow> ('b, 'x) bridge_scheme" where
  "RemoveFromBtcWithdrawRequestQueue r s = s\<lparr>br_withdraw_queue := kv_del (wr_Sequence r) (br_withdraw_queue s)\<rparr>"

text \<open>At most \<open>maxNum\<close> elements, all when it is 0.\<close>

definition take_max :: "nat \<Rightarrow> 'a list \<Rightarrow> 'a list" where
  "take_max n xs = (if n = 0 then xs else take n xs)"

definition GetPendingBtcWithdrawRequests :: "('b, 'x) bridge_scheme \<Rightarrow> u32 \<Rightarrow> withdraw_request list" where
  "GetPendingBtcWithdrawRequests s maxNum = map (GetWithdrawRequest s) (take_max (unat maxNum) (kv_keys (br_withdraw_queue s)))"

definition GetWithdrawRequestsByTxHash :: "('b, 'x) bridge_scheme \<Rightarrow> string \<Rightarrow> withdraw_request list" where
  "GetWithdrawRequestsByTxHash s h = map (GetWithdrawRequest s) (ids_with h (br_withdraws_by_tx s))"

definition GetAllWithdrawRequests :: "('b, 'x) bridge_scheme \<Rightarrow> withdraw_request list" where
  "GetAllWithdrawRequests s = map snd (br_withdraws s)"

definition GetWithdrawRequestsByAddress :: "('b, 'x) bridge_scheme \<Rightarrow> string \<Rightarrow> withdraw_request list" where
  "GetWithdrawRequestsByAddress s a = take 100 (filter (\<lambda>r. wr_Address r = a) (GetAllWithdrawRequests s))"

section \<open>Signing requests\<close>

definition zero_bridge_signing :: bridge_signing where
  "zero_bridge_signing = \<lparr>bs_Address = '''', bs_Sequence = 0, bs_Type = ASSET_UNSPECIFIED, bs_Txid = '''', bs_Psbt = '''',
     bs_CreationTime = zero_time, bs_Status = BS_UNSPECIFIED\<rparr>"

definition GetSigningRequestSequence :: "('b, 'x) bridge_scheme \<Rightarrow> u64" where
  "GetSigningRequestSequence s = br_signing_seq s"

definition IncrementSigningRequestSequence :: "('b, 'x) bridge_scheme \<Rightarrow> u64 \<times> ('b, 'x) bridge_scheme" where
  "IncrementSigningRequestSequence s = (let n = GetSigningRequestSequence s + 1 in (n, s\<lparr>br_signing_seq := n\<rparr>))"

definition btcbridge_HasSigningRequest :: "('b, 'x) bridge_scheme \<Rightarrow> u64 \<Rightarrow> bool" where
  "btcbridge_HasSigningRequest s n = kv_has (br_signings s) n"

definition HasSigningRequestByTxHash :: "('b, 'x) bridge_scheme \<Rightarrow> string \<Rightarrow> bool" where
  "HasSigningRequestByTxHash s h = kv_has (br_signing_by_tx s) h"

definition btcbridge_GetSigningRequest :: "('b, 'x) bridge_scheme \<Rightarrow> u64 \<Rightarrow> bridge_signing" where
  "btcbridge_GetSigningRequest s n = (case kv_get (br_signings s) n of None \<Rightarrow> zero_bridge_signing | Some r \<Rightarrow> r)"

definition GetSigningRequestByTxHash :: "('b, 'x) bridge_scheme \<Rightarrow> string \<Rightarrow> bridge_signing option" where
  "GetSigningRequestByTxHash s h = map_option (btcbridge_GetSigningRequest s) (kv_get (br_signing_by_tx s) h)"

definition btcbridge_RemoveSigningRequestStatus :: "u64 \<Rightarrow> ('b, 'x) bridge_scheme \<Rightarrow> ('b, 'x) bridge_scheme" where
  "btcbridge_RemoveSigningRequestStatus n s = s\<lparr>br_signing_by_status :=
     kv_del (bs_Status (btcbridge_GetSigningRequest s n), n) (br_signing_by_status s)\<rparr>"

definition btcbridge_SetSigningRequestStatus ::
  "u64 \<Rightarrow> bridge_status \<Rightarrow> ('b, 'x) bridge_scheme \<Rightarrow> ('b, 'x) bridge_scheme" where
  "btcbridge_SetSigningRequestStatus n st s =
     (let s = (if btcbridge_HasSigningRequest s n then btcbridge_RemoveSigningRequestStatus n s else s)
      in s\<lparr>br_signing_by_status := kv_set (st, n) () (br_signing_by_status s)\<rparr>)"

definition btcbridge_SetSigningRequest :: "bridge_signing \<Rightarrow> ('b, 'x) bridge_scheme \<Rightarrow> ('b, 'x) bridge_scheme" where
  "btcbridge_SetSigningRequest r s =
     (let s = btcbridge_SetSigningRequestStatus (bs_Sequence r) (bs_Status r) s
      in s\<lparr>br_signings := kv_set (bs_Sequence r) r (br_signings s),
           br_signing_by_tx := kv_set (bs_Txid r) (bs_Sequence r) (br_signing_by_tx s)\<rparr>)"

definition btcbridge_GetSigningRequestsByStatus :: "('b, 'x) bridge_scheme \<Rightarrow> bridge_status \<Rightarrow> bridge_signing list" where
  "btcbridge_GetSigningRequestsByStatus s st = map (btcbridge_GetSigningRequest s) (ids_with st (br_signing_by_status s))"

definition btcbridge_GetAllSigningRequests :: "('b, 'x) bridge_scheme \<Rightarrow> bridge_signing list" where
  "btcbridge_GetAllSigningRequests s = map snd (br_signings s)"

definition GetSigningRequestsByAddr :: "('b, 'x) bridge_scheme \<Rightarrow> string \<Rightarrow> bridge_signing list" where
  "GetSigningRequestsByAddr s a = take 100 (filter (\<lambda>r. bs_Address r = a) (btcbridge_GetAllSigningRequests s))"

section \<open>Minted transactions\<close>

definition existsInHistory :: "('b, 'x) bridge_scheme \<Rightarrow> string \<Rightarrow> bool" where
  "existsInHistory s h = kv_has (br_minted s) h"

definition addToMintHistory :: "string \<Rightarrow> ('b, 'x) bridge_scheme \<Rightarrow> ('b, 'x) bridge_scheme" where
  "addToMintHistory h s = s\<lparr>br_minted := kv_set h () (br_minted s)\<rparr>"

definition GetAllMintHistories :: "('b, 'x) bridge_scheme \<Rightarrow> string list" where
  "GetAllMintHistories s = kv_keys (br_minted s)"

end
