(* ===== verification/Bridge_Utxo.thy ===== *)
theory Bridge_Utxo
  imports Bridge_Store
begin

text \<open>
  The unspent outputs of the vaults (\<open>keeper/utxo.go\<close>). An output is stored under its outpoint; the indexes by owner, by
  owner and amount and by owner and rune hold the outputs that may be spent. The keys of the index by rune are the bytes of
  \<open>RuneId.MarshalToBytes\<close> and \<open>MarshalRuneAmount\<close>.
\<close>

section \<open>Views\<close>

definition zero_utxo :: bridge_utxo where
  "zero_utxo = \<lparr>ut_Txid = '''', ut_Vout = 0, ut_Amount = 0, ut_PkScript = '''', bu_Address = '''', bu_Height = 0,
     bu_IsLocked = False, bu_Runes = []\<rparr>"

definition outpoint :: "bridge_utxo \<Rightarrow> outpoint" where
  "outpoint u = (ut_Txid u, ut_Vout u)"

definition HasUTXO :: "('b, 'x) bridge_scheme \<Rightarrow> outpoint \<Rightarrow> bool" where
  "HasUTXO s op = kv_has (br_utxos s) op"

definition GetUTXO :: "('b, 'x) bridge_scheme \<Rightarrow> outpoint \<Rightarrow> bridge_utxo" where
  "GetUTXO s op = (case kv_get (br_utxos s) op of None \<Rightarrow> zero_utxo | Some u \<Rightarrow> u)"

definition IsUTXOLocked :: "('b, 'x) bridge_scheme \<Rightarrow> outpoint \<Rightarrow> bool" where
  "IsUTXOLocked s op \<longleftrightarrow> HasUTXO s op \<and> bu_IsLocked (GetUTXO s op)"

definition GetAllUTXOs :: "('b, 'x) bridge_scheme \<Rightarrow> bridge_utxo list" where
  "GetAllUTXOs s = map snd (br_utxos s)"

definition GetUTXOsByAddr :: "('b, 'x) bridge_scheme \<Rightarrow> string \<Rightarrow> bridge_utxo list" where
  "GetUTXOsByAddr s a = filter (\<lambda>u. bu_Address u = a) (GetAllUTXOs s)"

definition GetUnlockedUTXOsByAddr :: "('b, 'x) bridge_scheme \<Rightarrow> string \<Rightarrow> bridge_utxo list" where
  "GetUnlockedUTXOsByAddr s a = map (GetUTXO s) (ids_with a (br_owned s))"

definition GetUnlockedUTXOsByAddrAndThreshold ::
  "('b, 'x) bridge_scheme \<Rightarrow> string \<Rightarrow> int \<Rightarrow> u32 \<Rightarrow> bridge_utxo list" where
  "GetUnlockedUTXOsByAddrAndThreshold s a threshold maxNum =
     take_max (unat maxNum) (filter (\<lambda>u. ut_Amount u \<le> word_of_int threshold) (GetUnlockedUTXOsByAddr s a))"

definition GetMinimumUTXOInAmount :: "('b, 'x) bridge_scheme \<Rightarrow> string \<Rightarrow> bridge_utxo option" where
  "GetMinimumUTXOInAmount s a = (case ids_with a (br_owned_by_amount s) of [] \<Rightarrow> None | (_, op) # _ \<Rightarrow> Some (GetUTXO s op))"

text \<open>
  The iterator over the outputs of an owner: first the smallest, then from the largest down until the key of the
  smallest is reached.
\<close>

record utxo_iterator =
  it_Minimum :: "bridge_utxo option"
  it_UTXOs :: "bridge_utxo list"

definition GetUTXOIteratorByAddr :: "('b, 'x) bridge_scheme \<Rightarrow> string \<Rightarrow> utxo_iterator" where
  "GetUTXOIteratorByAddr s a =
     (let m = GetMinimumUTXOInAmount s a
      in \<lparr>it_Minimum = m,
          it_UTXOs = map (\<lambda>(_, op). GetUTXO s op)
            (takeWhile (\<lambda>k. map_option (\<lambda>u. (ut_Amount u, outpoint u)) m \<noteq> Some k) (rev (ids_with a (br_owned_by_amount s))))\<rparr>)"

text \<open>The outputs of an owner with a rune, with the amounts of the keys.\<close>

definition rune_entries :: "('b, 'x) bridge_scheme \<Rightarrow> string \<Rightarrow> string \<Rightarrow> (nat \<times> bridge_utxo) list" where
  "rune_entries s a idkey =
     map (\<lambda>(am, op). (UnmarshalRuneAmount am, GetUTXO s op))
       (map (\<lambda>(_, _, k). k) (filter (\<lambda>(b, i, _). b = a \<and> i = idkey) (kv_keys (br_owned_runes s))))"

fun target_runes ::
  "('b, 'e) benv_scheme \<Rightarrow> nat \<Rightarrow> nat \<Rightarrow> (nat \<times> bridge_utxo) list \<Rightarrow> bridge_utxo list \<Rightarrow> nat \<Rightarrow> rune_balance list \<Rightarrow>
   (bridge_utxo list \<times> nat \<times> rune_balance list) res" where
  "target_runes E maxNum target [] us tot bals = Inr (us, tot, bals)"
| "target_runes E maxNum target ((am, u) # es) us tot bals =
     (let us = us @ [u]
      in bind_res (u128_add tot am) (\<lambda>tot.
         bind_res (RuneBalances_Merge E bals (bu_Runes u)) (\<lambda>bals.
         if maxNum \<noteq> 0 \<and> maxNum \<le> length us \<or> target \<le> tot then Inr (us, tot, bals)
         else target_runes E maxNum target es us tot bals)))"

definition GetTargetRunesUTXOs ::
  "('b, 'e) benv_scheme \<Rightarrow> ('b, 'x) bridge_scheme \<Rightarrow> string \<Rightarrow> string \<Rightarrow> nat \<Rightarrow> nat \<Rightarrow>
   (bridge_utxo list \<times> rune_balance list) res" where
  "GetTargetRunesUTXOs E s a runeId target maxNum =
     bind_res (MarshalRuneIdFromString runeId) (\<lambda>idkey.
     bind_res (target_runes E maxNum target (rev (rune_entries s a idkey)) [] 0 []) (\<lambda>(us, total, bals).
     if total < target then Inr ([], []) else Inr (us, RuneBalances_Update bals runeId (total - target))))"

fun runes_below ::
  "('b, 'e) benv_scheme \<Rightarrow> nat \<Rightarrow> nat \<Rightarrow> (nat \<times> bridge_utxo) list \<Rightarrow> bridge_utxo list \<Rightarrow> rune_balance list \<Rightarrow>
   (bridge_utxo list \<times> rune_balance list) res" where
  "runes_below E maxNum threshold [] us bals = Inr (us, bals)"
| "runes_below E maxNum threshold ((am, u) # es) us bals =
     (if threshold < am then runes_below E maxNum threshold es us bals
      else let us = us @ [u]
        in bind_res (RuneBalances_Merge E bals (bu_Runes u)) (\<lambda>bals.
           if maxNum \<noteq> 0 \<and> maxNum \<le> length us then Inr (us, bals) else runes_below E maxNum threshold es us bals))"

definition GetTargetRunesUTXOsByAddrAndThreshold ::
  "('b, 'e) benv_scheme \<Rightarrow> ('b, 'x) bridge_scheme \<Rightarrow> string \<Rightarrow> string \<Rightarrow> nat \<Rightarrow> u32 \<Rightarrow>
   (bridge_utxo list \<times> rune_balance list) res" where
  "GetTargetRunesUTXOsByAddrAndThreshold E s a runeId threshold maxNum =
     bind_res (MarshalRuneIdFromString runeId) (\<lambda>idkey.
     runes_below E (unat maxNum) threshold (rune_entries s a idkey) [] [])"

definition GetUnlockedUTXOCountAndBalancesByAddr ::
  "('b, 'e) benv_scheme \<Rightarrow> ('b, 'x) bridge_scheme \<Rightarrow> string \<Rightarrow> (u32 \<times> int \<times> rune_balance list) res" where
  "GetUnlockedUTXOCountAndBalancesByAddr E s a =
     (let us = GetUnlockedUTXOsByAddr s a
      in bind_res (fold_res (\<lambda>u bals. RuneBalances_Merge E bals (bu_Runes u)) us []) (\<lambda>bals.
         Inr (of_nat (length us), in_amount us, bals)))"

section \<open>Updates\<close>

definition SetUTXO :: "bridge_utxo \<Rightarrow> ('b, 'x) bridge_scheme \<Rightarrow> ('b, 'x) bridge_scheme" where
  "SetUTXO u s = s\<lparr>br_utxos := kv_set (outpoint u) u (br_utxos s)\<rparr>"

definition SetOwnerUTXO :: "bridge_utxo \<Rightarrow> ('b, 'x) bridge_scheme \<Rightarrow> ('b, 'x) bridge_scheme" where
  "SetOwnerUTXO u s = s\<lparr>br_owned := kv_set (bu_Address u, outpoint u) () (br_owned s)\<rparr>"

definition SetOwnerUTXOByAmount :: "bridge_utxo \<Rightarrow> ('b, 'x) bridge_scheme \<Rightarrow> ('b, 'x) bridge_scheme" where
  "SetOwnerUTXOByAmount u s =
     s\<lparr>br_owned_by_amount := kv_set (bu_Address u, ut_Amount u, outpoint u) () (br_owned_by_amount s)\<rparr>"

definition rune_key :: "('b, 'e) benv_scheme \<Rightarrow> string \<Rightarrow> outpoint \<Rightarrow> rune_balance \<Rightarrow> (string \<times> string \<times> string \<times> outpoint) res" where
  "rune_key E a op r =
     bind_res (MarshalRuneIdFromString (rb_Id r)) (\<lambda>i.
     bind_res (MarshalRuneAmountFromString E (rb_Amount r)) (\<lambda>am. Inr (a, i, am, op)))"

definition SetOwnerRunesUTXO ::
  "('b, 'e) benv_scheme \<Rightarrow> bridge_utxo \<Rightarrow> rune_balance \<Rightarrow> ('b, 'x) bridge_scheme \<Rightarrow> ('b, 'x) bridge_scheme res" where
  "SetOwnerRunesUTXO E u r s = bind_res (rune_key E (bu_Address u) (outpoint u) r) (\<lambda>k.
     Inr (s\<lparr>br_owned_runes := kv_set k () (br_owned_runes s)\<rparr>))"

definition LockUTXO :: "outpoint \<Rightarrow> ('b, 'x) bridge_scheme \<Rightarrow> ('b, 'x) bridge_scheme res" where
  "LockUTXO op s =
     (if \<not> HasUTXO s op then Inl ErrUTXODoesNotExist
      else let u = GetUTXO s op in
      if bu_IsLocked u then Inl ErrUTXOLocked else Inr (SetUTXO (u\<lparr>bu_IsLocked := True\<rparr>) s))"

definition UnlockUTXO :: "outpoint \<Rightarrow> ('b, 'x) bridge_scheme \<Rightarrow> ('b, 'x) bridge_scheme res" where
  "UnlockUTXO op s =
     (if \<not> HasUTXO s op then Inl ErrUTXODoesNotExist
      else let u = GetUTXO s op in
      if \<not> bu_IsLocked u then Inl ErrUTXOUnlocked else Inr (SetUTXO (u\<lparr>bu_IsLocked := False\<rparr>) s))"

definition saveUTXO :: "('b, 'e) benv_scheme \<Rightarrow> bridge_utxo \<Rightarrow> ('b, 'x) bridge_scheme \<Rightarrow> ('b, 'x) bridge_scheme res" where
  "saveUTXO E u s = fold_res (SetOwnerRunesUTXO E u) (bu_Runes u) (SetOwnerUTXOByAmount u (SetOwnerUTXO u (SetUTXO u s)))"

definition delete_rune :: "('b, 'e) benv_scheme \<Rightarrow> string \<Rightarrow> outpoint \<Rightarrow> rune_balance \<Rightarrow> ('b, 'x) bridge_scheme \<Rightarrow>
   ('b, 'x) bridge_scheme res" where
  "delete_rune E a op r s = bind_res (rune_key E a op r) (\<lambda>k. Inr (s\<lparr>br_owned_runes := kv_del k (br_owned_runes s)\<rparr>))"

definition removeUTXO :: "('b, 'e) benv_scheme \<Rightarrow> outpoint \<Rightarrow> ('b, 'x) bridge_scheme \<Rightarrow> ('b, 'x) bridge_scheme res" where
  "removeUTXO E op s =
     (let u = GetUTXO s op
      in fold_res (delete_rune E (bu_Address u) op) (bu_Runes u)
         (s\<lparr>br_utxos := kv_del op (br_utxos s), br_owned := kv_del (bu_Address u, op) (br_owned s),
            br_owned_by_amount := kv_del (bu_Address u, ut_Amount u, op) (br_owned_by_amount s)\<rparr>))"

definition SpendUTXO :: "('b, 'e) benv_scheme \<Rightarrow> outpoint \<Rightarrow> ('b, 'x) bridge_scheme \<Rightarrow> ('b, 'x) bridge_scheme res" where
  "SpendUTXO E op s = (if \<not> HasUTXO s op then Inl ErrUTXODoesNotExist else removeUTXO E op s)"

text \<open>
  The loops over a list of outputs stop at the first error, the outputs before it stay changed. The callers of \<open>SpendUTXOs\<close>
  ignore its error, but not a panic.
\<close>

fun each_utxo :: "(outpoint \<Rightarrow> 's \<Rightarrow> 's res) \<Rightarrow> bridge_utxo list \<Rightarrow> 's \<Rightarrow> unit res \<times> 's" where
  "each_utxo f [] s = (Inr (), s)"
| "each_utxo f (u # us) s = (case f (outpoint u) s of Inl e \<Rightarrow> (Inl e, s) | Inr s \<Rightarrow> each_utxo f us s)"

definition LockUTXOs :: "bridge_utxo list \<Rightarrow> ('b, 'x) bridge_scheme \<Rightarrow> unit res \<times> ('b, 'x) bridge_scheme" where
  "LockUTXOs us s = each_utxo LockUTXO us s"

definition UnlockUTXOs :: "bridge_utxo list \<Rightarrow> ('b, 'x) bridge_scheme \<Rightarrow> unit res \<times> ('b, 'x) bridge_scheme" where
  "UnlockUTXOs us s = each_utxo UnlockUTXO us s"

definition SpendUTXOs ::
  "('b, 'e) benv_scheme \<Rightarrow> bridge_utxo list \<Rightarrow> ('b, 'x) bridge_scheme \<Rightarrow> unit res \<times> ('b, 'x) bridge_scheme" where
  "SpendUTXOs E us s = each_utxo (SpendUTXO E) us s"

definition ignore_err :: "unit res \<times> 's \<Rightarrow> 's res" where
  "ignore_err r = (case r of (Inl Panic, s) \<Rightarrow> Inl Panic | (_, s) \<Rightarrow> Inr s)"

lemma ignore_err_simps [simp]:
  "ignore_err (Inl Panic, s) = Inl Panic" "ignore_err (Inr u, s) = Inr s" "e \<noteq> Panic \<Longrightarrow> ignore_err (Inl e, s) = Inr s"
  by (simp_all add: ignore_err_def split: error.splits)

text \<open>The change of a transaction is stored locked and not indexed, and the transaction counts as minted.\<close>

definition lock_change :: "string \<Rightarrow> bridge_utxo option \<Rightarrow> ('b, 'x) bridge_scheme \<Rightarrow> ('b, 'x) bridge_scheme" where
  "lock_change h u s = (case u of None \<Rightarrow> s | Some u \<Rightarrow> addToMintHistory h (SetUTXO (u\<lparr>bu_IsLocked := True\<rparr>) s))"

definition lockChangeUTXOs :: "string \<Rightarrow> bridge_utxo option list \<Rightarrow> ('b, 'x) bridge_scheme \<Rightarrow> ('b, 'x) bridge_scheme" where
  "lockChangeUTXOs h us s = fold (lock_change h) us s"

definition unlockChangeUTXOs ::
  "('b, 'e) benv_scheme \<Rightarrow> string \<Rightarrow> ('b, 'x) bridge_scheme \<Rightarrow> ('b, 'x) bridge_scheme res" where
  "unlockChangeUTXOs E h s =
     fold_res (\<lambda>u. saveUTXO E (u\<lparr>bu_IsLocked := False\<rparr>)) (map snd (filter (\<lambda>((t, _), _). t = h) (br_utxos s))) s"

definition VaultTransferCompleted :: "('b, 'x) bridge_scheme \<Rightarrow> string \<Rightarrow> bool" where
  "VaultTransferCompleted s v \<longleftrightarrow> ids_with v (br_owned s) = []"

end
