(* ===== verification/Bridge_Tx.thy ===== *)
theory Bridge_Tx
  imports Bridge_Utxo
begin

text \<open>
  The Bitcoin transactions the bridge builds (\<open>x/btcbridge/types/bitcoin.go\<close>). Payment outputs are added until
  they cover the outputs and the fee of the transaction at the fee rate; what is left is the change, unless it is dust.
  The sizes of a transaction are those with a dummy witness for the script of each input.
\<close>

section \<open>Sizes\<close>

definition MagicSequence :: int where
  "MagicSequence = 2 ^ 31 + 222"

definition dummy_witness :: "('b, 'e) benv_scheme \<Rightarrow> string \<Rightarrow> string" where
  "dummy_witness E script = replicate (case script_class_of E script of TaprootTy \<Rightarrow> 65 | WitnessPubKeyHashTy \<Rightarrow> 106 | OtherTy \<Rightarrow> 0)
     (char_of (0 :: nat))"

definition PopulateTxWithDummyTaprootWitness :: "msg_tx \<Rightarrow> msg_tx" where
  "PopulateTxWithDummyTaprootWitness tx =
     tx\<lparr>mt_TxIn := map (\<lambda>i. i\<lparr>ti_Witness := [replicate 65 (char_of (0 :: nat))]\<rparr>) (mt_TxIn tx)\<rparr>"

text \<open>There must be an output for each input.\<close>

definition btcbridge_PopulateTxWithDummyWitness :: "('b, 'e) benv_scheme \<Rightarrow> msg_tx \<Rightarrow> bridge_utxo list \<Rightarrow> msg_tx res" where
  "btcbridge_PopulateTxWithDummyWitness E tx us =
     (if us = [] then Inr (PopulateTxWithDummyTaprootWitness tx)
      else if length us < length (mt_TxIn tx) then Inl Panic
      else Inr (tx\<lparr>mt_TxIn := map (\<lambda>(i, u). i\<lparr>ti_Witness := [dummy_witness E (ut_PkScript u)]\<rparr>) (zip (mt_TxIn tx) us)\<rparr>))"

definition btcbridge_GetTxVirtualSize :: "('b, 'e) benv_scheme \<Rightarrow> msg_tx \<Rightarrow> bridge_utxo list \<Rightarrow> int res" where
  "btcbridge_GetTxVirtualSize E tx us =
     bind_res (btcbridge_PopulateTxWithDummyWitness E tx us) (\<lambda>tx. Inr (mempool_vsize E tx))"

definition btcbridge_CheckTransactionWeight :: "('b, 'e) benv_scheme \<Rightarrow> msg_tx \<Rightarrow> bridge_utxo list \<Rightarrow> unit res" where
  "btcbridge_CheckTransactionWeight E tx us =
     bind_res (btcbridge_PopulateTxWithDummyWitness E tx us) (\<lambda>tx.
     if MaxTransactionWeight < tx_weight E tx then Inl ErrMaxTransactionWeightExceeded else Inr ())"

section \<open>Inputs\<close>

definition btcbridge_AddUTXOToTx :: "('b, 'e) benv_scheme \<Rightarrow> bridge_utxo \<Rightarrow> msg_tx \<Rightarrow> msg_tx res" where
  "btcbridge_AddUTXOToTx E u tx =
     (if \<not> hash_ok E (ut_Txid u) then Inl Panic
      else Inr (tx\<lparr>mt_TxIn := mt_TxIn tx @
        [\<lparr>ti_Hash = ut_Txid u, ti_Index = uint (ut_Vout u) mod 2 ^ 32, ti_Sequence = MagicSequence, ti_Witness = []\<rparr>]\<rparr>))"

text \<open>
  Adds the last of the outputs \<open>us\<close>. The difference of inputs and outputs so far is \<open>diff\<close>. With the change output the fee is paid when the change is positive, and the
  change is dropped when it is dust; without it the fee is smaller. The boolean tells whether the transaction is complete.
\<close>

definition AddPaymentUTXOToTx ::
  "('b, 'e) benv_scheme \<Rightarrow> bridge_utxo list \<Rightarrow> bridge_utxo \<Rightarrow> int \<Rightarrow> tx_out \<Rightarrow> int \<Rightarrow> nat \<Rightarrow> msg_tx \<Rightarrow> (bool \<times> msg_tx) res" where
  "AddPaymentUTXOToTx E us u diff changeOut feeRate maxNum tx =
     (let us = us @ [u]
      in if maxNum < length us then Inl ErrMaxUTXONumExceeded
      else bind_res (btcbridge_AddUTXOToTx E u tx) (\<lambda>tx.
      let outs = mt_TxOut tx; v = sint (ut_Amount u)
      in bind_res (btcbridge_GetTxVirtualSize E (tx\<lparr>mt_TxOut := outs @ [changeOut]\<rparr>) us) (\<lambda>size.
      let change = i64 (i64 (v + diff) - i64 (size * feeRate));
          out = changeOut\<lparr>to_Value := change\<rparr>
      in if 0 < change then
           Inr (True, if btcbridge_IsDustOut E out then tx else tx\<lparr>mt_TxOut := outs @ [out]\<rparr>)
         else if change = 0 then Inr (True, tx)
         else bind_res (btcbridge_GetTxVirtualSize E tx us) (\<lambda>size.
           Inr (0 \<le> i64 (i64 (v + diff) - i64 (size * feeRate)), tx)))))"

fun add_payments ::
  "('b, 'e) benv_scheme \<Rightarrow> bridge_utxo list \<Rightarrow> bridge_utxo list \<Rightarrow> int \<Rightarrow> bridge_utxo list \<Rightarrow> tx_out \<Rightarrow> int \<Rightarrow> nat \<Rightarrow> msg_tx \<Rightarrow>
   (bridge_utxo list \<times> msg_tx) res" where
  "add_payments E us selected diff [] changeOut feeRate maxNum tx = Inl btcbridge_ErrInsufficientUTXOs"
| "add_payments E us selected diff (u # rest) changeOut feeRate maxNum tx =
     bind_res (AddPaymentUTXOToTx E us u diff changeOut feeRate maxNum tx) (\<lambda>(ok, tx).
     if ok then Inr (selected @ [u], tx)
     else add_payments E (us @ [u]) (selected @ [u]) (i64 (diff + sint (ut_Amount u))) rest changeOut feeRate maxNum tx)"

definition AddPaymentUTXOsToTx ::
  "('b, 'e) benv_scheme \<Rightarrow> bridge_utxo list \<Rightarrow> int \<Rightarrow> utxo_iterator \<Rightarrow> tx_out \<Rightarrow> int \<Rightarrow> nat \<Rightarrow> msg_tx \<Rightarrow>
   (bridge_utxo list \<times> msg_tx) res" where
  "AddPaymentUTXOsToTx E us diff it changeOut feeRate maxNum tx =
     (case it_Minimum it of
        None \<Rightarrow> Inl btcbridge_ErrInsufficientUTXOs
      | Some m \<Rightarrow> add_payments E us [] diff (m # it_UTXOs it) changeOut feeRate maxNum tx)"

section \<open>Transactions\<close>

text \<open>The last output is the change.\<close>

definition GetChangeUTXO :: "('b, 'e) benv_scheme \<Rightarrow> msg_tx \<Rightarrow> string \<Rightarrow> bridge_utxo res" where
  "GetChangeUTXO E tx change =
     (if mt_TxOut tx = [] then Inl Panic
      else let out = last (mt_TxOut tx)
        in Inr \<lparr>ut_Txid = tx_hash E tx, ut_Vout = of_nat (length (mt_TxOut tx) - 1), ut_Amount = word_of_int (to_Value out),
          ut_PkScript = to_PkScript out, bu_Address = change, bu_Height = 0, bu_IsLocked = False, bu_Runes = []\<rparr>)"

definition GetRunesChangeUTXO :: "rune_balance list \<Rightarrow> string \<Rightarrow> string \<Rightarrow> u32 \<Rightarrow> bridge_utxo" where
  "GetRunesChangeUTXO bals change script idx =
     \<lparr>ut_Txid = '''', ut_Vout = ucast idx, ut_Amount = word_of_int RunesOutValue, ut_PkScript = script, bu_Address = change,
      bu_Height = 0, bu_IsLocked = False, bu_Runes = bals\<rparr>"

text \<open>\<open>change\<close> is the address of the change and \<open>script\<close> its script.\<close>

definition btcbridge_BuildUnsignedTransaction ::
  "('b, 'e) benv_scheme \<Rightarrow> bridge_utxo list \<Rightarrow> tx_out list \<Rightarrow> utxo_iterator \<Rightarrow> int \<Rightarrow> string \<Rightarrow> nat \<Rightarrow>
   (msg_tx \<times> bridge_utxo list \<times> bridge_utxo option) res" where
  "btcbridge_BuildUnsignedTransaction E us outs it feeRate change maxNum =
     bind_res (fold_res (btcbridge_AddUTXOToTx E) us NewMsgTx) (\<lambda>tx.
     if list_ex (btcbridge_IsDustOut E) outs then Inl btcbridge_ErrDustOutput
     else bind_res (pk_script_of E change) (\<lambda>script.
     bind_res (AddPaymentUTXOsToTx E us (i64 (in_amount us - out_amount outs)) it \<lparr>to_Value = 0, to_PkScript = script\<rparr>
       feeRate maxNum (tx\<lparr>mt_TxOut := outs\<rparr>)) (\<lambda>(selected, tx).
     bind_res (btcbridge_CheckTransactionWeight E tx (us @ selected)) (\<lambda>_.
     if length outs < length (mt_TxOut tx)
     then bind_res (GetChangeUTXO E tx (encode_address E change)) (\<lambda>c. Inr (tx, selected, Some c))
     else Inr (tx, selected, None)))))"

definition BuildUnsignedTransactionWithoutExtraChange ::
  "('b, 'e) benv_scheme \<Rightarrow> bridge_utxo list \<Rightarrow> tx_out list \<Rightarrow> bridge_utxo list \<Rightarrow> int \<Rightarrow> msg_tx res" where
  "BuildUnsignedTransactionWithoutExtraChange E us outs payments feeRate =
     bind_res (fold_res (btcbridge_AddUTXOToTx E) (us @ payments) NewMsgTx) (\<lambda>tx.
     if list_ex (btcbridge_IsDustOut E) (butlast outs) then Inl btcbridge_ErrDustOutput
     else let tx = tx\<lparr>mt_TxOut := outs\<rparr>
     in bind_res (btcbridge_GetTxVirtualSize E tx (us @ payments)) (\<lambda>size.
     let change = i64 (i64 (in_amount (us @ payments) - out_amount outs) - i64 (size * feeRate))
     in if change \<le> 0 then Inl btcbridge_ErrInsufficientUTXOs
     else if outs = [] then Inl Panic
     else let out = (last outs)\<lparr>to_Value := i64 (to_Value (last outs) + change)\<rparr>; tx = tx\<lparr>mt_TxOut := butlast outs @ [out]\<rparr>
     in if btcbridge_IsDustOut E out then Inl btcbridge_ErrDustOutput
     else bind_res (btcbridge_CheckTransactionWeight E tx (us @ payments)) (\<lambda>_. Inr tx)))"

text \<open>The data of the inputs of a psbt for the outputs they spend; a psbt without an input for an output panics.\<close>

definition fill_inputs :: "bridge_utxo list \<Rightarrow> psbt \<Rightarrow> psbt res" where
  "fill_inputs us p =
     (if length (ps_Inputs p) < length us then Inl Panic
      else Inr (p\<lparr>ps_Inputs := map (\<lambda>(i, u). i\<lparr>pi_SighashType := DefaultSigHashType,
          pi_WitnessUtxo := Some \<lparr>to_Value = sint (ut_Amount u), to_PkScript = ut_PkScript u\<rparr>\<rparr>) (zip (ps_Inputs p) us)
        @ drop (length us) (ps_Inputs p)\<rparr>))"

definition new_psbt :: "('b, 'e) benv_scheme \<Rightarrow> msg_tx \<Rightarrow> bridge_utxo list \<Rightarrow> psbt res" where
  "new_psbt E tx us = bind_res (psbt_new E tx) (fill_inputs us)"

definition BuildPsbt ::
  "('b, 'e) benv_scheme \<Rightarrow> utxo_iterator \<Rightarrow> string \<Rightarrow> int \<Rightarrow> int \<Rightarrow> string \<Rightarrow> nat \<Rightarrow>
   (psbt \<times> bridge_utxo list \<times> bridge_utxo option) res" where
  "BuildPsbt E it recipient amount feeRate change maxNum =
     bind_res (pk_script_of E recipient) (\<lambda>script.
     if \<not> valid_btc_address E change then Inl ErrDecodeAddress
     else bind_res (btcbridge_BuildUnsignedTransaction E [] [\<lparr>to_Value = amount, to_PkScript = script\<rparr>] it feeRate change maxNum)
       (\<lambda>(tx, selected, c).
     bind_res (new_psbt E tx selected) (\<lambda>p. Inr (p, selected, c))))"

definition BuildTransferAllBtcPsbt ::
  "('b, 'e) benv_scheme \<Rightarrow> bridge_utxo list \<Rightarrow> string \<Rightarrow> int \<Rightarrow> (psbt \<times> bridge_utxo) res" where
  "BuildTransferAllBtcPsbt E us recipient feeRate =
     bind_res (pk_script_of E recipient) (\<lambda>script.
     bind_res (BuildUnsignedTransactionWithoutExtraChange E [] [\<lparr>to_Value = 0, to_PkScript = script\<rparr>] us feeRate) (\<lambda>tx.
     bind_res (new_psbt E tx us) (\<lambda>p.
     bind_res (GetChangeUTXO E tx recipient) (\<lambda>c. Inr (p, c)))))"

definition withdraw_out :: "('b, 'e) benv_scheme \<Rightarrow> withdraw_request \<Rightarrow> tx_out res" where
  "withdraw_out E r =
     bind_res (pk_script_of E (wr_Address r)) (\<lambda>script.
     case parse_coin E (wr_Amount r) of
       Inl _ \<Rightarrow> Inl Panic
     | Inr c \<Rightarrow> if Amount c < 2 ^ 64 then Inr \<lparr>to_Value = i64 (Amount c), to_PkScript = script\<rparr> else Inl Panic)"

definition BuildBtcBatchWithdrawPsbt ::
  "('b, 'e) benv_scheme \<Rightarrow> utxo_iterator \<Rightarrow> withdraw_request list \<Rightarrow> int \<Rightarrow> string \<Rightarrow> nat \<Rightarrow>
   (psbt \<times> bridge_utxo list \<times> bridge_utxo option) res" where
  "BuildBtcBatchWithdrawPsbt E it reqs feeRate change maxNum =
     bind_res (map_res (withdraw_out E) reqs) (\<lambda>outs.
     if \<not> valid_btc_address E change then Inl ErrDecodeAddress
     else bind_res (btcbridge_BuildUnsignedTransaction E [] outs it feeRate change maxNum) (\<lambda>(tx, selected, c).
     bind_res (new_psbt E tx selected) (\<lambda>p. Inr (p, selected, c))))"

text \<open>
  The transaction that moves a rune: the script with the edict, the output of the remaining runes if there are any, the
  output of the recipient, and the change.
\<close>

definition BuildRunesPsbt ::
  "('b, 'e) benv_scheme \<Rightarrow> bridge_utxo list \<Rightarrow> utxo_iterator \<Rightarrow> string \<Rightarrow> string \<Rightarrow> nat \<Rightarrow> int \<Rightarrow> rune_balance list \<Rightarrow> string \<Rightarrow>
   string \<Rightarrow> nat \<Rightarrow> (psbt \<times> bridge_utxo list \<times> bridge_utxo option \<times> bridge_utxo option) res" where
  "BuildRunesPsbt E us it recipient runeId amount feeRate delta runesChange change maxNum =
     bind_res (pk_script_of E recipient) (\<lambda>rscript.
     if \<not> valid_btc_address E change then Inl ErrDecodeAddress
     else bind_res (pk_script_of E runesChange) (\<lambda>cscript.
     let keep = delta \<noteq> [];
         idx = (if keep then 2 else 1 :: u32)
     in bind_res (BuildEdictScript E runeId amount idx) (\<lambda>script.
     let outs = [\<lparr>to_Value = 0, to_PkScript = script\<rparr>]
           @ (if keep then [\<lparr>to_Value = RunesOutValue, to_PkScript = cscript\<rparr>] else [])
           @ [\<lparr>to_Value = RunesOutValue, to_PkScript = rscript\<rparr>]
     in bind_res (btcbridge_BuildUnsignedTransaction E us outs it feeRate change maxNum) (\<lambda>(tx, selected, c).
     bind_res (new_psbt E tx (us @ selected)) (\<lambda>p.
     Inr (p, selected, c, if keep then Some ((GetRunesChangeUTXO delta runesChange cscript 1)\<lparr>ut_Txid := tx_hash E tx\<rparr>) else None))))))"

definition BuildTransferAllRunesPsbt ::
  "('b, 'e) benv_scheme \<Rightarrow> bridge_utxo list \<Rightarrow> utxo_iterator \<Rightarrow> string \<Rightarrow> rune_balance list \<Rightarrow> int \<Rightarrow> string \<Rightarrow> nat \<Rightarrow>
   (psbt \<times> bridge_utxo list \<times> bridge_utxo option \<times> bridge_utxo) res" where
  "BuildTransferAllRunesPsbt E us it recipient delta feeRate change maxNum =
     bind_res (pk_script_of E recipient) (\<lambda>rscript.
     if \<not> valid_btc_address E change then Inl ErrDecodeAddress
     else let outs = [\<lparr>to_Value = 0, to_PkScript = [OP_RETURN, char_of OP_13]\<rparr>, \<lparr>to_Value = RunesOutValue, to_PkScript = rscript\<rparr>]
     in bind_res (btcbridge_BuildUnsignedTransaction E us outs it feeRate change maxNum) (\<lambda>(tx, selected, c).
     bind_res (new_psbt E tx (us @ selected)) (\<lambda>p.
     Inr (p, selected, c, (GetRunesChangeUTXO delta recipient rscript 1)\<lparr>ut_Txid := tx_hash E tx\<rparr>))))"

section \<open>Signers\<close>

definition MustAddressFromPkScript :: "('b, 'e) benv_scheme \<Rightarrow> string \<Rightarrow> string res" where
  "MustAddressFromPkScript E script = (case script_address E script of Inl _ \<Rightarrow> Inl Panic | Inr a \<Rightarrow> Inr a)"

definition MustPkScriptFromAddress :: "('b, 'e) benv_scheme \<Rightarrow> string \<Rightarrow> string res" where
  "MustPkScriptFromAddress E a = (case pk_script_of E a of Inl _ \<Rightarrow> Inl Panic | Inr s \<Rightarrow> Inr s)"

definition GetSigners :: "('b, 'e) benv_scheme \<Rightarrow> string \<Rightarrow> string list res" where
  "GetSigners E b64 = (case psbt_parse E b64 of
     Inl _ \<Rightarrow> Inl Panic
   | Inr p \<Rightarrow> map_res (\<lambda>i. case pi_WitnessUtxo i of None \<Rightarrow> Inl Panic | Some out \<Rightarrow> MustAddressFromPkScript E (to_PkScript out)) (ps_Inputs p))"

end
