(* ===== verification/Bridge_Deposit.thy ===== *)
theory Bridge_Deposit
  imports Bridge_Utxo Spv
begin

text \<open>
  Deposits: the minting of voucher tokens for a Bitcoin transaction that pays a vault (\<open>keeper/deposit.go\<close> and
  \<open>types/policy.go\<close>), and what follows a deposit (\<open>keeper/hooks.go\<close>): the reward, and the transfer over IBC when the
  transaction asks for it (\<open>types/ibc.go\<close>, \<open>keeper/ibc.go\<close>).
\<close>

abbreviation bridge_acc :: acct where
  "bridge_acc \<equiv> ModuleAcc ''btcbridge''"

section \<open>The rules of deposits\<close>

definition MaxNonVaultOutNum :: nat where
  "MaxNonVaultOutNum = 2"

definition RunesMaxNonVaultOutNum :: nat where
  "RunesMaxNonVaultOutNum = 3"

definition RunesEdictNum :: nat where
  "RunesEdictNum = 1"

text \<open>The last address outside the vaults that is paid, and the number of outputs that pay no vault.\<close>

fun nonvault_outs :: "('b, 'e) benv_scheme \<Rightarrow> vault list \<Rightarrow> tx_out list \<Rightarrow> string option \<Rightarrow> nat \<Rightarrow> (string option \<times> nat) res" where
  "nonvault_outs E vs [] r n = Inr (r, n)"
| "nonvault_outs E vs (out # outs) r n =
     (if IsOpReturnOutput out then nonvault_outs E vs outs r (Suc n)
      else bind_res (script_address E (to_PkScript out)) (\<lambda>a.
        if SelectVaultByAddress vs a = None then nonvault_outs E vs outs (Some a) (Suc n)
        else nonvault_outs E vs outs r n))"

text \<open>The recipient: that address, or else the one the first input spends from.\<close>

definition extract_recipient ::
  "('b, 'e) benv_scheme \<Rightarrow> nat \<Rightarrow> msg_tx \<Rightarrow> msg_tx \<Rightarrow> vault list \<Rightarrow> string res" where
  "extract_recipient E limit tx prevTx vs =
     bind_res (nonvault_outs E vs (mt_TxOut tx) None 0) (\<lambda>(r, n).
     if limit < n then Inl ErrInvalidDepositTransaction
     else case r of
       Some a \<Rightarrow> Inr a
     | None \<Rightarrow>
         bind_res (signed_index (mt_TxIn tx) 0) (\<lambda>i.
         bind_res (signed_index (mt_TxOut prevTx) (nat (ti_Index i))) (\<lambda>out. script_address E (to_PkScript out))))"

definition ExtractCommonRecipientAddr :: "('b, 'e) benv_scheme \<Rightarrow> msg_tx \<Rightarrow> msg_tx \<Rightarrow> vault list \<Rightarrow> string res" where
  "ExtractCommonRecipientAddr E tx prevTx vs = extract_recipient E MaxNonVaultOutNum tx prevTx vs"

definition ExtractRunesRecipientAddr :: "('b, 'e) benv_scheme \<Rightarrow> msg_tx \<Rightarrow> msg_tx \<Rightarrow> vault list \<Rightarrow> string res" where
  "ExtractRunesRecipientAddr E tx prevTx vs = extract_recipient E RunesMaxNonVaultOutNum tx prevTx vs"

definition ExtractRecipientAddr :: "('b, 'e) benv_scheme \<Rightarrow> msg_tx \<Rightarrow> msg_tx \<Rightarrow> vault list \<Rightarrow> bool \<Rightarrow> string res" where
  "ExtractRecipientAddr E tx prevTx vs isRunes =
     (if isRunes then ExtractRunesRecipientAddr E tx prevTx vs else ExtractCommonRecipientAddr E tx prevTx vs)"

definition CheckRunesDepositTransaction :: "('b, 'e) benv_scheme \<Rightarrow> msg_tx \<Rightarrow> vault list \<Rightarrow> edict option res" where
  "CheckRunesDepositTransaction E tx vs =
     bind_res (case ParseRunes E tx of Inl Panic \<Rightarrow> Inl Panic | Inl _ \<Rightarrow> Inl ErrInvalidDepositTransaction | Inr es \<Rightarrow> Inr es) (\<lambda>es.
     case es of
       [] \<Rightarrow> Inr None
     | e # _ \<Rightarrow>
       if length es \<noteq> RunesEdictNum then Inl ErrInvalidDepositTransaction
       else if ed_Output e = of_nat (length (mt_TxOut tx)) then Inl ErrInvalidDepositTransaction
       else bind_res (signed_index (mt_TxOut tx) (unat (ed_Output e))) (\<lambda>out.
       case SelectVaultByPkScript E vs (to_PkScript out) of
         None \<Rightarrow> Inl ErrInvalidDepositTransaction
       | Some v \<Rightarrow> if va_AssetType v \<noteq> ASSET_RUNES then Inl ErrInvalidDepositTransaction else Inr (Some e)))"

section \<open>Outputs to the vaults\<close>

text \<open>The first output that pays a BTC vault, with its index and the address of the vault.\<close>

fun btc_output :: "('b, 'e) benv_scheme \<Rightarrow> vault list \<Rightarrow> tx_out list \<Rightarrow> nat \<Rightarrow> (tx_out \<times> nat \<times> string) res" where
  "btc_output E vs [] i = Inl ErrInvalidDepositTransaction"
| "btc_output E vs (out # outs) i =
     (if IsOpReturnOutput out then btc_output E vs outs (Suc i)
      else bind_res (script_address E (to_PkScript out)) (\<lambda>a.
        case SelectVaultByAddress vs a of
          None \<Rightarrow> btc_output E vs outs (Suc i)
        | Some v \<Rightarrow> if va_AssetType v = ASSET_BTC then Inr (out, i, va_Address v) else btc_output E vs outs (Suc i)))"

definition getOutputForMintBTC :: "('b, 'e) benv_scheme \<Rightarrow> ('b, 'x) bridge_scheme \<Rightarrow> msg_tx \<Rightarrow> (tx_out \<times> nat \<times> string) res" where
  "getOutputForMintBTC E s tx = btc_output E (bp_Vaults (GetParams s)) (mt_TxOut tx) 0"

text \<open>The last outputs that pay a runes vault and a BTC vault.\<close>

type_synonym vault_out = "(tx_out \<times> nat \<times> string) option"

fun runes_outputs ::
  "('b, 'e) benv_scheme \<Rightarrow> vault list \<Rightarrow> tx_out list \<Rightarrow> nat \<Rightarrow> vault_out \<Rightarrow> vault_out \<Rightarrow> (vault_out \<times> vault_out) res" where
  "runes_outputs E vs [] i r b = Inr (r, b)"
| "runes_outputs E vs (out # outs) i r b =
     (if IsOpReturnOutput out then runes_outputs E vs outs (Suc i) r b
      else bind_res (script_address E (to_PkScript out)) (\<lambda>a.
        case SelectVaultByAddress vs a of
          None \<Rightarrow> runes_outputs E vs outs (Suc i) r b
        | Some v \<Rightarrow>
            let x = Some (out, i, va_Address v)
            in if va_AssetType v = ASSET_RUNES then runes_outputs E vs outs (Suc i) x b
               else if va_AssetType v = ASSET_BTC then runes_outputs E vs outs (Suc i) r x
               else runes_outputs E vs outs (Suc i) r b))"

definition getOutputsForMintRunes ::
  "('b, 'e) benv_scheme \<Rightarrow> ('b, 'x) bridge_scheme \<Rightarrow> msg_tx \<Rightarrow> edict \<Rightarrow> ((tx_out \<times> nat \<times> string) \<times> vault_out) res" where
  "getOutputsForMintRunes E s tx e =
     bind_res (runes_outputs E (bp_Vaults (GetParams s)) (mt_TxOut tx) 0 None None) (\<lambda>(r, b).
     case r of
       None \<Rightarrow> Inl ErrInvalidDepositTransaction
     | Some (out, i, v) \<Rightarrow>
         if i \<noteq> unat (ed_Output e) then Inl ErrInvalidDepositTransaction
         else if ProtocolDepositFeeEnabled s \<and> b = None then Inl ErrInvalidDepositTransaction
         else Inr ((out, i, v), b))"

section \<open>Minting\<close>

text \<open>An operation of the bank on the state.\<close>

definition on_bank :: "('b \<Rightarrow> 'b res) \<Rightarrow> ('b, 'x) chain_scheme \<Rightarrow> ('b, 'x) chain_scheme res" where
  "on_bank f s = bind_res (f (ch_bank s)) (\<lambda>b. Inr (s\<lparr>ch_bank := b\<rparr>))"

definition deposit_utxo :: "('b, 'e) benv_scheme \<Rightarrow> string \<Rightarrow> u64 \<Rightarrow> tx_out \<times> nat \<times> string \<Rightarrow> rune_balance list \<Rightarrow> bridge_utxo" where
  "deposit_utxo E h height x rs = (case x of (out, i, v) \<Rightarrow>
     \<lparr>ut_Txid = h, ut_Vout = of_nat i, ut_Amount = word_of_int (to_Value out), ut_PkScript = to_PkScript out, bu_Address = v,
      bu_Height = height, bu_IsLocked = False, bu_Runes = rs\<rparr>)"

definition mintBTCWithProtocolFee ::
  "('b, 'e) benv_scheme \<Rightarrow> string \<Rightarrow> coin \<Rightarrow> ('b, 'x) bridge_scheme \<Rightarrow> (coin \<times> ('b, 'x) bridge_scheme) res" where
  "mintBTCWithProtocolFee E recipient amount s =
     (let p = GetParams s
      in bind_res (if ProtocolDepositFeeEnabled s
                   then bind_res (new_coin E (bp_BtcVoucherDenom p) (bp_DepositFee p)) (\<lambda>fee.
                     if \<not> bech32_ok E (bp_Collector p) then Inl Panic
                     else bind_res (coin_safe_sub amount fee) (\<lambda>amount.
                     bind_res (on_bank (\<lambda>b. send_coins E b bridge_acc (Account (bp_Collector p)) [fee]) s) (\<lambda>s. Inr (amount, s))))
                   else Inr (amount, s)) (\<lambda>(amount, s).
         bind_res (to_int64 (Amount amount)) (\<lambda>n.
         if n < bp_BtcMinDeposit p then Inl ErrInvalidDepositAmount
         else bind_res (on_bank (\<lambda>b. send_coins E b bridge_acc (Account recipient) [amount]) s) (\<lambda>s. Inr (amount, s)))))"

definition mintBTC ::
  "('b, 'e) benv_scheme \<Rightarrow> string \<Rightarrow> u64 \<Rightarrow> string \<Rightarrow> tx_out \<times> nat \<times> string \<Rightarrow> string \<Rightarrow> ('b, 'x) bridge_scheme \<Rightarrow>
   (coin \<times> ('b, 'x) bridge_scheme) res" where
  "mintBTC E h height recipient x denom s =
     bind_res (new_coin E denom (to_Value (fst x))) (\<lambda>amount.
     if \<not> bech32_ok E recipient then Inl ErrBech32Addr
     else bind_res (on_bank (\<lambda>b. mint_coins E b ''btcbridge'' [amount]) s) (\<lambda>s.
     bind_res (mintBTCWithProtocolFee E recipient amount s) (\<lambda>(actual, s).
     bind_res (saveUTXO E (deposit_utxo E h height x []) s) (\<lambda>s. Inr (actual, s)))))"

text \<open>The whole value of the BTC output of a runes deposit is minted, and the fee is sent on.\<close>

definition handleRunesProtocolFee ::
  "('b, 'e) benv_scheme \<Rightarrow> string \<Rightarrow> u64 \<Rightarrow> tx_out \<times> nat \<times> string \<Rightarrow> ('b, 'x) bridge_scheme \<Rightarrow> ('b, 'x) bridge_scheme res" where
  "handleRunesProtocolFee E h height x s =
     (let p = GetParams s
      in bind_res (new_coin E (bp_BtcVoucherDenom p) (to_Value (fst x))) (\<lambda>amount.
         bind_res (new_coin E (bp_BtcVoucherDenom p) (bp_DepositFee p)) (\<lambda>fee.
         if \<not> bech32_ok E (bp_Collector p) then Inl Panic
         else if Amount amount < Amount fee then Inl ErrInvalidDepositAmount
         else bind_res (on_bank (\<lambda>b. mint_coins E b ''btcbridge'' [amount]) s) (\<lambda>s.
         bind_res (on_bank (\<lambda>b. send_coins E b bridge_acc (Account (bp_Collector p)) [fee]) s) (\<lambda>s.
         saveUTXO E (deposit_utxo E h height x []) s)))))"

definition mintRunes ::
  "('b, 'e) benv_scheme \<Rightarrow> string \<Rightarrow> u64 \<Rightarrow> string \<Rightarrow> tx_out \<times> nat \<times> string \<Rightarrow> vault_out \<Rightarrow> edict \<Rightarrow> ('b, 'x) bridge_scheme \<Rightarrow>
   (coin \<times> ('b, 'x) bridge_scheme) res" where
  "mintRunes E h height recipient x btc e s =
     bind_res (RuneAmountFromString E (ed_Amount e)) (\<lambda>n.
     bind_res (new_coin E (RuneId_Denom (ed_Id e)) (int n)) (\<lambda>c.
     if \<not> bech32_ok E recipient then Inl ErrBech32Addr
     else bind_res (on_bank (\<lambda>b. mint_coins E b ''btcbridge'' [c]) s) (\<lambda>s.
     bind_res (on_bank (\<lambda>b. send_coins E b bridge_acc (Account recipient) [c]) s) (\<lambda>s.
     bind_res (if ProtocolDepositFeeEnabled s
               then (case btc of None \<Rightarrow> Inl Panic | Some y \<Rightarrow> handleRunesProtocolFee E h height y s) else Inr s) (\<lambda>s.
     bind_res (saveUTXO E (deposit_utxo E h height x [\<lparr>rb_Id = RuneId_ToString (ed_Id e), rb_Amount = ed_Amount e\<rparr>]) s) (\<lambda>s.
     Inr (c, s)))))))"

text \<open>The amount is paid out to the recipient of the transaction, once for each transaction.\<close>

definition Mint ::
  "('b, 'e) benv_scheme \<Rightarrow> string \<Rightarrow> msg_tx \<Rightarrow> msg_tx option \<Rightarrow> u64 \<Rightarrow> ('b, 'x) bridge_scheme \<Rightarrow>
   (asset_type \<times> string \<times> coin \<times> ('b, 'x) bridge_scheme) res" where
  "Mint E sender tx prevTx height s =
     (let h = tx_hash E tx; vs = bp_Vaults (GetParams s) in
      if existsInHistory s h then Inl ErrTransactionAlreadyMinted
      else let s = addToMintHistory h s
      in bind_res (CheckRunesDepositTransaction E tx vs) (\<lambda>edict.
         let isRunes = edict \<noteq> None in
         if isRunes \<and> \<not> IsTrustedNonBtcRelayer s sender then Inl ErrUntrustedNonBtcRelayer
         else case prevTx of None \<Rightarrow> Inl Panic | Some prev \<Rightarrow>
         bind_res (ExtractRecipientAddr E tx prev vs isRunes) (\<lambda>addr.
         let recipient = encode_address E addr in
         case edict of
           None \<Rightarrow>
             bind_res (getOutputForMintBTC E s tx) (\<lambda>x.
             bind_res (mintBTC E h height recipient x (bp_BtcVoucherDenom (GetParams s)) s) (\<lambda>(c, s).
             Inr (ASSET_BTC, recipient, c, s)))
         | Some e \<Rightarrow>
             bind_res (getOutputsForMintRunes E s tx e) (\<lambda>(x, btc).
             bind_res (mintRunes E h height recipient x btc e s) (\<lambda>(c, s).
             Inr (ASSET_RUNES, recipient, c, s))))))"

end
