(* ===== verification/Bridge_Limit.thy ===== *)
theory Bridge_Limit
  imports Bridge_Store
begin

text \<open>
  The rate limits of withdrawals (\<open>keeper/rate_limit.go\<close> and \<open>updateRateLimit\<close> of \<open>module/abci.go\<close>): a quota
  of the supply and a quota for each address, for periods of time. Amounts are \<open>int64\<close>; a limit with the quota 0 is disabled.
\<close>

definition zero_rate_limit :: rate_limit where
  "zero_rate_limit = \<lparr>rl_Global = \<lparr>gl_StartTime = zero_time, gl_EndTime = zero_time, gl_Quota = 0, gl_Used = 0\<rparr>,
     rl_Address = \<lparr>al_StartTime = zero_time, al_EndTime = zero_time, al_Quota = 0\<rparr>\<rparr>"

definition SetRateLimit :: "rate_limit \<Rightarrow> ('b, 'x) bridge_scheme \<Rightarrow> ('b, 'x) bridge_scheme" where
  "SetRateLimit r s = s\<lparr>br_rate_limit := Some r\<rparr>"

definition HasRateLimit :: "('b, 'x) bridge_scheme \<Rightarrow> bool" where
  "HasRateLimit s \<longleftrightarrow> br_rate_limit s \<noteq> None"

definition GetRateLimit :: "('b, 'x) bridge_scheme \<Rightarrow> rate_limit" where
  "GetRateLimit s = (case br_rate_limit s of None \<Rightarrow> zero_rate_limit | Some r \<Rightarrow> r)"

definition SetAddressRateLimitDetails :: "address_limit_details \<Rightarrow> ('b, 'x) bridge_scheme \<Rightarrow> ('b, 'x) bridge_scheme" where
  "SetAddressRateLimitDetails d s = s\<lparr>br_address_limits := kv_set (ad_Address d) d (br_address_limits s)\<rparr>"

definition HasAddressRateLimitDetails :: "('b, 'x) bridge_scheme \<Rightarrow> string \<Rightarrow> bool" where
  "HasAddressRateLimitDetails s a = kv_has (br_address_limits s) a"

definition GetAddressRateLimitDetails :: "('b, 'x) bridge_scheme \<Rightarrow> string \<Rightarrow> address_limit_details" where
  "GetAddressRateLimitDetails s a = (case kv_get (br_address_limits s) a of
     None \<Rightarrow> \<lparr>ad_Address = '''', ad_Used = 0\<rparr> | Some d \<Rightarrow> d)"

definition RemoveAllAddressRateLimitDetails :: "('b, 'x) bridge_scheme \<Rightarrow> ('b, 'x) bridge_scheme" where
  "RemoveAllAddressRateLimitDetails s =
     s\<lparr>br_address_limits := fold (\<lambda>d m. kv_del (ad_Address d) m) (map snd (br_address_limits s)) (br_address_limits s)\<rparr>"

definition GlobalRateLimitEnabled :: "rate_limit \<Rightarrow> bool" where
  "GlobalRateLimitEnabled r \<longleftrightarrow> 0 < gl_Quota (rl_Global r)"

definition AddressRateLimitEnabled :: "rate_limit \<Rightarrow> bool" where
  "AddressRateLimitEnabled r \<longleftrightarrow> 0 < al_Quota (rl_Address r)"

definition CheckGlobalRateLimit :: "rate_limit \<Rightarrow> int \<Rightarrow> unit res" where
  "CheckGlobalRateLimit r amount =
     (if \<not> GlobalRateLimitEnabled r then Inr ()
      else if gl_Quota (rl_Global r) < i64 (gl_Used (rl_Global r) + amount) then Inl ErrRateLimitReached
      else Inr ())"

definition CheckAddressRateLimit :: "('b, 'x) bridge_scheme \<Rightarrow> rate_limit \<Rightarrow> string \<Rightarrow> int \<Rightarrow> unit res" where
  "CheckAddressRateLimit s r a amount =
     (if \<not> AddressRateLimitEnabled r then Inr ()
      else if \<not> HasAddressRateLimitDetails s a
        then (if al_Quota (rl_Address r) < amount then Inl ErrRateLimitReached else Inr ())
      else if al_Quota (rl_Address r) < i64 (ad_Used (GetAddressRateLimitDetails s a) + amount) then Inl ErrRateLimitReached
      else Inr ())"

definition CheckRateLimit :: "('b, 'x) bridge_scheme \<Rightarrow> string \<Rightarrow> int \<Rightarrow> unit res" where
  "CheckRateLimit s a amount =
     (if \<not> HasRateLimit s then Inr ()
      else bind_res (CheckAddressRateLimit s (GetRateLimit s) a amount) (\<lambda>_. CheckGlobalRateLimit (GetRateLimit s) amount))"

text \<open>The quotas are updated whether or not there is a limit yet.\<close>

definition UpdateRateLimitUsedQuotas :: "string \<Rightarrow> int \<Rightarrow> ('b, 'x) bridge_scheme \<Rightarrow> ('b, 'x) bridge_scheme" where
  "UpdateRateLimitUsedQuotas a amount s =
     (let r = GetRateLimit s;
          g = rl_Global r;
          d = (if HasAddressRateLimitDetails s a
               then (let d = GetAddressRateLimitDetails s a in d\<lparr>ad_Used := i64 (ad_Used d + amount)\<rparr>)
               else \<lparr>ad_Address = a, ad_Used = amount\<rparr>)
      in SetAddressRateLimitDetails d (SetRateLimit (r\<lparr>rl_Global := g\<lparr>gl_Used := i64 (gl_Used g + amount)\<rparr>\<rparr>) s))"

definition HandleRateLimit :: "string \<Rightarrow> coin \<Rightarrow> ('b, 'x) bridge_scheme \<Rightarrow> ('b, 'x) bridge_scheme res" where
  "HandleRateLimit a c s =
     (if Denom c \<noteq> BtcDenom s then Inr s
      else bind_res (to_int64 (Amount c)) (\<lambda>n.
      bind_res (CheckRateLimit s a n) (\<lambda>_. Inr (UpdateRateLimitUsedQuotas a n s))))"

definition GetGlobalRateLimitQuota :: "('b, 'e) benv_scheme \<Rightarrow> ('b, 'x) bridge_scheme \<Rightarrow> u32 \<Rightarrow> int res" where
  "GetGlobalRateLimitQuota E s percentage =
     (if percentage = 100 then Inr 0
      else bind_res (to_int64 (bank_supply E (ch_bank s) (BtcDenom s))) (\<lambda>supply.
        Inr (tdiv (i64 (supply * uint percentage)) 100)))"

definition UpdateRateLimitTotalQuotas ::
  "('b, 'e) benv_scheme \<Rightarrow> u32 \<Rightarrow> int \<Rightarrow> ('b, 'x) bridge_scheme \<Rightarrow> ('b, 'x) bridge_scheme res" where
  "UpdateRateLimitTotalQuotas E percentage addressQuota s =
     (let r = GetRateLimit s; g = rl_Global r; a = rl_Address r
      in bind_res (GetGlobalRateLimitQuota E s percentage) (\<lambda>quota.
         Inr (SetRateLimit (r\<lparr>rl_Global := g\<lparr>gl_Quota := quota\<rparr>, rl_Address := a\<lparr>al_Quota := addressQuota\<rparr>\<rparr>) s)))"

definition NewGlobalRateLimit :: "('b, 'e) benv_scheme \<Rightarrow> int \<Rightarrow> ('b, 'x) bridge_scheme \<Rightarrow> global_limit res" where
  "NewGlobalRateLimit E now s =
     bind_res (GetGlobalRateLimitQuota E s (bp_GlobalSupplyPercentageQuota (GetParams s))) (\<lambda>quota.
     Inr \<lparr>gl_StartTime = now, gl_EndTime = now + bp_GlobalPeriod (GetParams s), gl_Quota = quota, gl_Used = 0\<rparr>)"

definition NewAddressRateLimit :: "int \<Rightarrow> ('b, 'x) bridge_scheme \<Rightarrow> address_limit" where
  "NewAddressRateLimit now s = \<lparr>al_StartTime = now, al_EndTime = now + bp_AddressPeriod (GetParams s),
     al_Quota = bp_AddressQuota (GetParams s)\<rparr>"

definition NewRateLimit :: "('b, 'e) benv_scheme \<Rightarrow> int \<Rightarrow> ('b, 'x) bridge_scheme \<Rightarrow> rate_limit res" where
  "NewRateLimit E now s = bind_res (NewGlobalRateLimit E now s) (\<lambda>g.
     Inr \<lparr>rl_Global = g, rl_Address = NewAddressRateLimit now s\<rparr>)"

definition updateRateLimit :: "('b, 'e) benv_scheme \<Rightarrow> int \<Rightarrow> ('b, 'x) bridge_scheme \<Rightarrow> ('b, 'x) bridge_scheme res" where
  "updateRateLimit E now s =
     (if \<not> HasRateLimit s
      then (if RateLimitParamsSet s then bind_res (NewRateLimit E now s) (\<lambda>r. Inr (SetRateLimit r s)) else Inr s)
      else let r = GetRateLimit s in
      bind_res (if gl_EndTime (rl_Global r) \<le> now
                then bind_res (NewGlobalRateLimit E now s) (\<lambda>g. Inr (r\<lparr>rl_Global := g\<rparr>)) else Inr r) (\<lambda>r.
      if al_EndTime (rl_Address r) \<le> now
      then (let s = RemoveAllAddressRateLimitDetails s in Inr (SetRateLimit (r\<lparr>rl_Address := NewAddressRateLimit now s\<rparr>) s))
      else Inr (SetRateLimit r s)))"

end
