(* ===== verification/Bridge_Hooks.thy ===== *)
theory Bridge_Hooks
  imports Bridge_Deposit Bridge_Limit
begin

text \<open>
  What follows a deposit or a withdrawal (\<open>keeper/hooks.go\<close>): the reward of the incentive module and, for a deposit, the
  transfer over IBC its transaction may ask for with an \<open>OP_RETURN\<close> script (\<open>types/ibc.go\<close>, \<open>keeper/ibc.go\<close>). Coins that come
  back over IBC are queued for withdrawal.
\<close>

section \<open>IBC scripts\<close>

definition IBCTransferMagicNumber :: nat where
  "IBCTransferMagicNumber = 90"

definition ChannelPrefix :: string where
  "ChannelPrefix = ''channel-''"

definition be_bytes :: "nat \<Rightarrow> nat \<Rightarrow> string" where
  "be_bytes k n = rev (le_bytes k n)"

definition be_nat :: "string \<Rightarrow> nat" where
  "be_nat bs = foldl (\<lambda>n c. 256 * n + of_char c) 0 bs"

definition GetUnprefixedChannelId :: "string \<Rightarrow> string res" where
  "GetUnprefixedChannelId c =
     (if \<not> has_prefix ChannelPrefix c then Inl (External ''channel: ErrInvalidChannelIdentifier'')
      else bind_res (parse_uint_bits 32 (drop (length ChannelPrefix) c)) (\<lambda>n. Inr (be_bytes 4 n)))"

definition NormalizeChannelId :: "string \<Rightarrow> string" where
  "NormalizeChannelId bs = (if length bs \<noteq> 4 then '''' else ChannelPrefix @ dec_string (be_nat bs))"

definition BuildIBCTransferScript :: "('b, 'e) benv_scheme \<Rightarrow> string \<Rightarrow> string \<Rightarrow> string res" where
  "BuildIBCTransferScript E channelId recipient =
     bind_res (GetUnprefixedChannelId channelId) (\<lambda>c.
     build_script E [AddOp 106, AddOp IBCTransferMagicNumber, AddData c, AddData recipient])"

fun GetIBCTransferScript :: "tx_out list \<Rightarrow> string" where
  "GetIBCTransferScript [] = ''''"
| "GetIBCTransferScript (out # outs) =
     (if IsOpReturnOutput out \<and> 1 < length (to_PkScript out) \<and> (of_char (to_PkScript out ! 1) :: nat) = IBCTransferMagicNumber
      then to_PkScript out else GetIBCTransferScript outs)"

definition ParseIBCTransferScript :: "('b, 'e) benv_scheme \<Rightarrow> string \<Rightarrow> (string \<times> string) res" where
  "ParseIBCTransferScript E script = (case script_tokens E script of
     ((op1, _) # (op2, _) # (_, c) # (_, r) # rest, ok) \<Rightarrow>
       if op1 \<noteq> 106 \<or> op2 \<noteq> IBCTransferMagicNumber \<or> length c \<noteq> 4 \<or> rest \<noteq> [] then Inl ErrInvalidIBCTransferScript
       else Inr (NormalizeChannelId c, r)
   | _ \<Rightarrow> Inl ErrInvalidIBCTransferScript)"

section \<open>Transfers\<close>

definition getTimeoutHeight :: "u64 \<times> u64 \<Rightarrow> u64 \<Rightarrow> u64 \<times> u64" where
  "getTimeoutHeight h offset = (if offset = 0 then (0, 0) else (fst h, snd h + offset))"

definition getTimeoutTimestamp :: "int \<Rightarrow> int \<Rightarrow> u64" where
  "getTimeoutTimestamp now duration = (if duration = 0 then 0 else word_of_int now + word_of_int duration)"

definition UnescrowToken ::
  "('b, 'e) benv_scheme \<Rightarrow> string \<Rightarrow> string \<Rightarrow> string \<Rightarrow> coin \<Rightarrow> ('b, 'x) bridge_scheme \<Rightarrow> ('b, 'x) bridge_scheme res" where
  "UnescrowToken E portId channelId recipient token s =
     (if \<not> bech32_ok E recipient then Inl Panic
      else bind_res (on_bank (\<lambda>b. send_coins E b (Account (ibc_escrow_address E portId channelId)) (Account recipient) [token]) s) (\<lambda>s.
      bind_res (coin_sub (ibc_total_escrow E (ch_bank s) (Denom token)) token) (\<lambda>c.
      Inr (s\<lparr>ch_bank := ibc_set_total_escrow E (ch_bank s) c\<rparr>))))"

text \<open>
  A transfer that fails after the coins were put into escrow is undone. The result is the sequence of the
  packet, with the state also when the transfer failed.
\<close>

definition IBCTransfer ::
  "('b, 'e) benv_scheme \<Rightarrow> int \<Rightarrow> string \<Rightarrow> string \<Rightarrow> coin \<Rightarrow> string \<Rightarrow> ('b, 'x) bridge_scheme \<Rightarrow> u64 res \<times> ('b, 'x) bridge_scheme" where
  "IBCTransfer E now sender recipient token channelId s =
     (let portId = ibc_port E (ch_bank s) in
      case ibc_client_height E (ch_bank s) portId channelId of
        Inl e \<Rightarrow> (Inl e, s)
      | Inr h \<Rightarrow>
        let m = \<lparr>itm_SourcePort = portId, itm_SourceChannel = channelId, itm_Token = token, itm_Sender = sender, itm_Receiver = recipient,
              itm_TimeoutHeight = getTimeoutHeight h (bp_TimeoutHeightOffset (GetParams s)),
              itm_TimeoutTimestamp = getTimeoutTimestamp now (bp_TimeoutDuration (GetParams s)), itm_Memo = ''BTC bridge | Bitway''\<rparr>;
            before = ibc_total_escrow E (ch_bank s) (Denom token)
        in (case ibc_transfer E (ch_bank s) m of
             (b, Inr n) \<Rightarrow> (Inr n, s\<lparr>ch_bank := b\<rparr>)
           | (b, Inl e) \<Rightarrow>
               let s = s\<lparr>ch_bank := b\<rparr>
               in if Amount before < Amount (ibc_total_escrow E b (Denom token))
                  then (case UnescrowToken E portId channelId sender token s of Inl _ \<Rightarrow> (Inl Panic, s) | Inr s \<Rightarrow> (Inl e, s))
                  else (Inl e, s)))"

definition forget :: "'a res \<times> 's \<Rightarrow> 's res" where
  "forget r = (if fst r = Inl Panic then Inl Panic else Inr (snd r))"

definition AfterDeposit ::
  "('b, 'e) benv_scheme \<Rightarrow> int \<Rightarrow> string \<Rightarrow> coin \<Rightarrow> msg_tx \<Rightarrow> ('b, 'x) bridge_scheme \<Rightarrow> ('b, 'x) bridge_scheme res" where
  "AfterDeposit E now addr amount tx s =
     bind_res (if DepositIncentiveEnabled E s then try_res (DistributeDepositReward E addr s) s else Inr s) (\<lambda>s.
     let script = GetIBCTransferScript (mt_TxOut tx)
     in if script = '''' then Inr s
        else case ParseIBCTransferScript E script of
          Inl _ \<Rightarrow> Inr s
        | Inr (channelId, recipient) \<Rightarrow> forget (IBCTransfer E now addr recipient amount channelId s))"

definition withdraw_reward :: "('b, 'e) benv_scheme \<Rightarrow> withdraw_request \<Rightarrow> ('b, 'x) bridge_scheme \<Rightarrow> ('b, 'x) bridge_scheme res" where
  "withdraw_reward E r s = try_res (DistributeWithdrawReward E (wr_Address r) s) s"

definition AfterWithdraw :: "('b, 'e) benv_scheme \<Rightarrow> string \<Rightarrow> ('b, 'x) bridge_scheme \<Rightarrow> ('b, 'x) bridge_scheme res" where
  "AfterWithdraw E h s =
     (if WithdrawIncentiveEnabled E s then fold_res (withdraw_reward E) (GetWithdrawRequestsByTxHash s h) s else Inr s)"

section \<open>Coins that come back\<close>

definition AddToIBCWithdrawRequestQueue ::
  "('b, 'e) benv_scheme \<Rightarrow> string \<Rightarrow> u64 \<Rightarrow> string \<Rightarrow> int \<Rightarrow> ('b, 'x) bridge_scheme \<Rightarrow> ('b, 'x) bridge_scheme res" where
  "AddToIBCWithdrawRequestQueue E channelId sequence recipient amount s =
     bind_res (new_coin E (BtcDenom s) amount) (\<lambda>c.
     Inr (s\<lparr>br_ibc_queue := kv_set (channelId, sequence) \<lparr>iw_ChannelId = channelId, iw_Sequence = sequence, iw_Address = recipient,
       iw_Amount = coin_string E c\<rparr> (br_ibc_queue s)\<rparr>))"

definition RemoveFromIBCWithdrawRequestQueue :: "string \<Rightarrow> u64 \<Rightarrow> ('b, 'x) bridge_scheme \<Rightarrow> ('b, 'x) bridge_scheme" where
  "RemoveFromIBCWithdrawRequestQueue channelId sequence s = s\<lparr>br_ibc_queue := kv_del (channelId, sequence) (br_ibc_queue s)\<rparr>"

definition GetPendingIBCWithdrawRequests :: "('b, 'x) bridge_scheme \<Rightarrow> u32 \<Rightarrow> ibc_withdraw_request list" where
  "GetPendingIBCWithdrawRequests s maxNum = take_max (unat maxNum) (map snd (br_ibc_queue s))"

text \<open>\<open>ReceiverChainIsSource\<close> tests for the prefix of the sender.\<close>

definition CheckBTCT :: "('b, 'e) benv_scheme \<Rightarrow> ibc_packet \<Rightarrow> ibc_token_data \<Rightarrow> ('b, 'x) bridge_scheme \<Rightarrow> bool" where
  "CheckBTCT E p d s \<longleftrightarrow>
     (let prefix = ibc_denom_prefix E (ipk_SourcePort p) (ipk_SourceChannel p)
      in has_prefix prefix (itd_Denom d) \<and> drop (length prefix) (itd_Denom d) = BtcDenom s)"

definition CallbackAddress :: string where
  "CallbackAddress = ''btcbridge''"

definition IBCReceivePacketCallback ::
  "('b, 'e) benv_scheme \<Rightarrow> ibc_packet \<Rightarrow> string \<Rightarrow> ('b, 'x) bridge_scheme \<Rightarrow> ('b, 'x) bridge_scheme res" where
  "IBCReceivePacketCallback E p contractAddress s =
     (if contractAddress \<noteq> CallbackAddress then Inr s
      else if \<not> bp_WithdrawEnabled (GetParams s) then Inr s
      else case ibc_token_data E (ipk_Data p) of
        None \<Rightarrow> Inr s
      | Some d \<Rightarrow>
        if \<not> CheckBTCT E p d s then Inr s
        else if \<not> valid_btc_address E (itd_Receiver d) then Inr s
        else case int_of_string E (itd_Amount d) of
          None \<Rightarrow> Inr s
        | Some n \<Rightarrow>
          if n < - (2 ^ 63) \<or> 2 ^ 63 \<le> n then Inr s
          else bind_res (CheckRateLimit s (itd_Receiver d) n) (\<lambda>_.
            AddToIBCWithdrawRequestQueue E (ipk_DestChannel p) (ipk_Sequence p) (itd_Receiver d) n s))"

end
