(* ===== verification/Bridge_Withdraw.thy ===== *)
theory Bridge_Withdraw
  imports Bridge_Tx Bridge_Hooks
begin

text \<open>
  Withdrawals (\<open>keeper/withdraw.go\<close>): a request to withdraw BTC burns the coins and the estimated network fee and waits for
  the next batch, a request to withdraw a rune makes a signing request at once. A signing request holds a psbt the
  participants of the vault sign; it is confirmed when its transaction is in the chain of headers.
\<close>

section \<open>Burning\<close>

definition BurnAsset :: "('b, 'e) benv_scheme \<Rightarrow> string \<Rightarrow> coin \<Rightarrow> ('b, 'x) bridge_scheme \<Rightarrow> unit res \<times> ('b, 'x) bridge_scheme" where
  "BurnAsset E a c s =
     (if \<not> bech32_ok E a then (Inl Panic, s)
      else case on_bank (\<lambda>b. send_coins E b (Account a) bridge_acc [c]) s of
        Inl e \<Rightarrow> (Inl e, s)
      | Inr s \<Rightarrow> (case on_bank (\<lambda>b. burn_coins E b ''btcbridge'' [c]) s of Inl e \<Rightarrow> (Inl e, s) | Inr s \<Rightarrow> (Inr (), s)))"

definition getBtcNetworkFee :: "('b, 'e) benv_scheme \<Rightarrow> ('b, 'x) bridge_scheme \<Rightarrow> string \<Rightarrow> coin res" where
  "getBtcNetworkFee E s packet =
     bind_res (psbt_parse E packet) (\<lambda>p.
     bind_res (psbt_fee E p) (\<lambda>fee. new_coin E (BtcDenom s) fee))"

definition BurnBtcNetworkFee :: "('b, 'e) benv_scheme \<Rightarrow> string \<Rightarrow> string \<Rightarrow> ('b, 'x) bridge_scheme \<Rightarrow> ('b, 'x) bridge_scheme res" where
  "BurnBtcNetworkFee E a packet s =
     bind_res (getBtcNetworkFee E s packet) (\<lambda>fee. commit (BurnAsset E a fee s))"

section \<open>Transactions\<close>

definition encode_psbt :: "('b, 'e) benv_scheme \<Rightarrow> psbt \<Rightarrow> string res" where
  "encode_psbt E p = (case psbt_encode E p of Inl _ \<Rightarrow> Inl ErrFailToSerializePsbt | Inr b \<Rightarrow> Inr b)"

definition vault_address :: "vault option \<Rightarrow> string res" where
  "vault_address v = (case v of None \<Rightarrow> Inl Panic | Some v \<Rightarrow> Inr (va_Address v))"

text \<open>\<open>uint128.FromBig\<close> panics on a number that does not fit.\<close>

definition to_u128 :: "int \<Rightarrow> nat res" where
  "to_u128 n = (if 0 \<le> n \<and> n < 2 ^ 128 then Inr (nat n) else Inl Panic)"

definition BuildWithdrawBtcTx ::
  "('b, 'e) benv_scheme \<Rightarrow> ('b, 'x) bridge_scheme \<Rightarrow> string \<Rightarrow> coin \<Rightarrow> int \<Rightarrow> string \<Rightarrow> psbt res" where
  "BuildWithdrawBtcTx E s sender amount feeRate v =
     bind_res (to_int64 (Amount amount)) (\<lambda>n.
     bind_res (BuildPsbt E (GetUTXOIteratorByAddr s v) sender n feeRate v (GetMaxUtxoNum s)) (\<lambda>(p, _). Inr p))"

text \<open>The runes to spend and the psbt that moves them.\<close>

definition withdraw_runes ::
  "('b, 'e) benv_scheme \<Rightarrow> ('b, 'x) bridge_scheme \<Rightarrow> string \<Rightarrow> coin \<Rightarrow> int \<Rightarrow> string \<Rightarrow> string \<Rightarrow>
   (bridge_utxo list \<times> psbt \<times> bridge_utxo list \<times> bridge_utxo option \<times> bridge_utxo option) res" where
  "withdraw_runes E s sender amount feeRate v btcVault =
     bind_res (RuneId_FromDenom (Denom amount)) (\<lambda>i.
     bind_res (to_u128 (Amount amount)) (\<lambda>n.
     bind_res (GetTargetRunesUTXOs E s v (RuneId_ToString i) n (GetMaxUtxoNum s)) (\<lambda>(us, delta).
     if us = [] then Inl btcbridge_ErrInsufficientUTXOs
     else bind_res (BuildRunesPsbt E us (GetUTXOIteratorByAddr s btcVault) sender (RuneId_ToString i) n feeRate delta v btcVault
       (GetMaxUtxoNum s)) (\<lambda>r. Inr (us, r)))))"

definition BuildWithdrawRunesTx ::
  "('b, 'e) benv_scheme \<Rightarrow> ('b, 'x) bridge_scheme \<Rightarrow> string \<Rightarrow> coin \<Rightarrow> int \<Rightarrow> string \<Rightarrow> string \<Rightarrow> psbt res" where
  "BuildWithdrawRunesTx E s sender amount feeRate v btcVault =
     bind_res (withdraw_runes E s sender amount feeRate v btcVault) (\<lambda>(_, p, _). Inr p)"

definition BuildWithdrawTx :: "('b, 'e) benv_scheme \<Rightarrow> ('b, 'x) bridge_scheme \<Rightarrow> string \<Rightarrow> coin \<Rightarrow> int \<Rightarrow> psbt res" where
  "BuildWithdrawTx E s sender amount feeRate =
     (let vs = bp_Vaults (GetParams s); btc = SelectVaultByAssetType vs ASSET_BTC in
      case AssetTypeFromDenom (Denom amount) (GetParams s) of
        ASSET_BTC \<Rightarrow> bind_res (vault_address btc) (\<lambda>v. BuildWithdrawBtcTx E s sender amount feeRate v)
      | ASSET_RUNES \<Rightarrow>
          bind_res (vault_address (SelectVaultByAssetType vs ASSET_RUNES)) (\<lambda>r.
          bind_res (vault_address btc) (\<lambda>v. BuildWithdrawRunesTx E s sender amount feeRate r v))
      | _ \<Rightarrow> Inl ErrAssetNotSupported)"

definition EstimateWithdrawalNetworkFee ::
  "('b, 'e) benv_scheme \<Rightarrow> ('b, 'x) bridge_scheme \<Rightarrow> string \<Rightarrow> coin \<Rightarrow> int \<Rightarrow> coin res" where
  "EstimateWithdrawalNetworkFee E s a amount feeRate =
     bind_res (BuildWithdrawTx E s a amount feeRate) (\<lambda>p.
     bind_res (encode_psbt E p) (\<lambda>b. getBtcNetworkFee E s b))"

section \<open>Signing requests\<close>

text \<open>The outputs a transaction spends are removed, its change is locked, and it gets a pending signing request.\<close>

definition spend_all ::
  "('b, 'e) benv_scheme \<Rightarrow> bridge_utxo list list \<Rightarrow> ('b, 'x) bridge_scheme \<Rightarrow> ('b, 'x) bridge_scheme res" where
  "spend_all E uss s = fold_res (\<lambda>us s. ignore_err (SpendUTXOs E us s)) uss s"

definition new_signing ::
  "int \<Rightarrow> string \<Rightarrow> asset_type \<Rightarrow> string \<Rightarrow> string \<Rightarrow> ('b, 'x) bridge_scheme \<Rightarrow> bridge_signing \<times> ('b, 'x) bridge_scheme" where
  "new_signing now a t h b64 s = (case IncrementSigningRequestSequence s of (n, s) \<Rightarrow>
     (\<lparr>bs_Address = a, bs_Sequence = n, bs_Type = t, bs_Txid = h, bs_Psbt = b64, bs_CreationTime = now, bs_Status = BS_PENDING\<rparr>, s))"

text \<open>The request is made, not yet stored.\<close>

definition issue_signing ::
  "('b, 'e) benv_scheme \<Rightarrow> int \<Rightarrow> string \<Rightarrow> asset_type \<Rightarrow> psbt \<Rightarrow> bridge_utxo list list \<Rightarrow> bridge_utxo option list \<Rightarrow>
   ('b, 'x) bridge_scheme \<Rightarrow> (bridge_signing \<times> ('b, 'x) bridge_scheme) res" where
  "issue_signing E now a t p spent changes s =
     bind_res (encode_psbt E p) (\<lambda>b64.
     let h = tx_hash E (ps_Tx p)
     in bind_res (spend_all E spent s) (\<lambda>s. Inr (new_signing now a t h b64 (lockChangeUTXOs h changes s))))"

definition store_signing :: "bridge_signing \<times> ('b, 'x) bridge_scheme \<Rightarrow> bridge_signing \<times> ('b, 'x) bridge_scheme" where
  "store_signing r = (fst r, btcbridge_SetSigningRequest (fst r) (snd r))"

definition NewRunesSigningRequest ::
  "('b, 'e) benv_scheme \<Rightarrow> int \<Rightarrow> string \<Rightarrow> coin \<Rightarrow> int \<Rightarrow> string \<Rightarrow> string \<Rightarrow> ('b, 'x) bridge_scheme \<Rightarrow>
   (bridge_signing \<times> ('b, 'x) bridge_scheme) res" where
  "NewRunesSigningRequest E now sender amount feeRate v btcVault s =
     bind_res (withdraw_runes E s sender amount feeRate v btcVault) (\<lambda>(us, p, selected, c, rc).
     bind_res (issue_signing E now sender ASSET_RUNES p [us, selected] [c, rc] s) (\<lambda>r. Inr (store_signing r)))"

definition BuildBtcBatchWithdrawSigningRequest ::
  "('b, 'e) benv_scheme \<Rightarrow> int \<Rightarrow> withdraw_request list \<Rightarrow> int \<Rightarrow> string \<Rightarrow> ('b, 'x) bridge_scheme \<Rightarrow>
   (bridge_signing \<times> ('b, 'x) bridge_scheme) res" where
  "BuildBtcBatchWithdrawSigningRequest E now reqs feeRate v s =
     bind_res (BuildBtcBatchWithdrawPsbt E (GetUTXOIteratorByAddr s v) reqs feeRate v (GetMaxUtxoNum s)) (\<lambda>(p, selected, c).
     bind_res (issue_signing E now (module_address E ''btcbridge'') ASSET_BTC p [selected] [c] s) (\<lambda>r. Inr (store_signing r)))"

section \<open>Requests\<close>

definition HandleBtcWithdrawal ::
  "('b, 'e) benv_scheme \<Rightarrow> int \<Rightarrow> string \<Rightarrow> coin \<Rightarrow> ('b, 'x) bridge_scheme \<Rightarrow> (withdraw_request \<times> ('b, 'x) bridge_scheme) res" where
  "HandleBtcWithdrawal E height sender amount s =
     (case NewWithdrawRequest sender (coin_string E amount) s of (r, s) \<Rightarrow>
        let s = AddToBtcWithdrawRequestQueue r (SetWithdrawRequest r s)
        in bind_res (CheckFeeRate height (GetFeeRate s) s) (\<lambda>_.
           bind_res (EstimateWithdrawalNetworkFee E s sender amount (fr_Value (GetFeeRate s))) (\<lambda>fee.
           bind_res (commit (BurnAsset E sender amount s)) (\<lambda>s.
           bind_res (commit (BurnAsset E sender fee s)) (\<lambda>s. Inr (r, s))))))"

definition HandleRunesWithdrawal ::
  "('b, 'e) benv_scheme \<Rightarrow> int \<Rightarrow> int \<Rightarrow> string \<Rightarrow> coin \<Rightarrow> ('b, 'x) bridge_scheme \<Rightarrow>
   (withdraw_request \<times> ('b, 'x) bridge_scheme) res" where
  "HandleRunesWithdrawal E height now sender amount s =
     (case NewWithdrawRequest sender (coin_string E amount) s of (r, s) \<Rightarrow>
        let vs = bp_Vaults (GetParams s)
        in bind_res (CheckFeeRate height (GetFeeRate s) s) (\<lambda>_.
           bind_res (vault_address (SelectVaultByAssetType vs ASSET_RUNES)) (\<lambda>rv.
           bind_res (vault_address (SelectVaultByAssetType vs ASSET_BTC)) (\<lambda>bv.
           bind_res (NewRunesSigningRequest E now sender amount (fr_Value (GetFeeRate s)) rv bv s) (\<lambda>(q, s).
           let r = r\<lparr>wr_Txid := bs_Txid q\<rparr>; s = SetWithdrawRequest r s
           in bind_res (commit (BurnAsset E sender amount s)) (\<lambda>s.
              bind_res (BurnBtcNetworkFee E sender (bs_Psbt q) s) (\<lambda>s.
              bind_res (new_coin E (BtcDenom s) RunesOutValue) (\<lambda>c.
              bind_res (commit (BurnAsset E sender c s)) (\<lambda>s. Inr (r, s))))))))))"

definition HandleWithdrawal ::
  "('b, 'e) benv_scheme \<Rightarrow> int \<Rightarrow> int \<Rightarrow> string \<Rightarrow> coin \<Rightarrow> ('b, 'x) bridge_scheme \<Rightarrow>
   (withdraw_request \<times> ('b, 'x) bridge_scheme) res" where
  "HandleWithdrawal E height now sender amount s =
     (case AssetTypeFromDenom (Denom amount) (GetParams s) of
        ASSET_BTC \<Rightarrow> HandleBtcWithdrawal E height sender amount s
      | ASSET_RUNES \<Rightarrow> HandleRunesWithdrawal E height now sender amount s
      | _ \<Rightarrow> Inl ErrAssetNotSupported)"

text \<open>The fee is taken off an amount of BTC, and is paid on top of an amount of a rune.\<close>

definition HandleWithdrawProtocolFee ::
  "('b, 'e) benv_scheme \<Rightarrow> string \<Rightarrow> coin \<Rightarrow> ('b, 'x) bridge_scheme \<Rightarrow> (coin \<times> ('b, 'x) bridge_scheme) res" where
  "HandleWithdrawProtocolFee E sender amount s =
     (let p = GetParams s
      in bind_res (new_coin E (bp_BtcVoucherDenom p) (bp_WithdrawFee p)) (\<lambda>fee.
         if \<not> bech32_ok E (bp_Collector p) then Inl Panic
         else bind_res (if Denom amount = bp_BtcVoucherDenom p
                        then (case coin_safe_sub amount fee of
                            Inl _ \<Rightarrow> Inl ErrInvalidWithdrawAmount
                          | Inr w \<Rightarrow> bind_res (to_int64 (Amount w)) (\<lambda>n.
                              if n < bp_BtcMinWithdraw p \<or> bp_BtcMaxWithdraw p < n then Inl ErrInvalidWithdrawAmount else Inr w))
                        else Inr amount) (\<lambda>w.
         bind_res (on_bank (\<lambda>b. send_coins E b (Account sender) (Account (bp_Collector p)) [fee]) s) (\<lambda>s. Inr (w, s)))))"

section \<open>Confirmation\<close>

definition ProcessBitcoinWithdrawTransaction ::
  "('b, 'e) benv_scheme \<Rightarrow> string \<Rightarrow> string \<Rightarrow> string list \<Rightarrow> ('b, 'x) bridge_scheme \<Rightarrow> ('b, 'x) bridge_scheme res" where
  "ProcessBitcoinWithdrawTransaction E txBytes blockHash proof s =
     bind_res (ValidateTransaction E txBytes '''' blockHash proof (bp_WithdrawConfirmationDepth (GetParams s)) s) (\<lambda>(tx, _).
     let h = tx_hash E tx in
     case GetSigningRequestByTxHash s h of
       None \<Rightarrow> Inl btcbridge_ErrSigningRequestDoesNotExist
     | Some q \<Rightarrow>
       if bs_Status q = BS_CONFIRMED then Inl ErrSigningRequestConfirmed
       else bind_res (unlockChangeUTXOs E h (btcbridge_SetSigningRequest (q\<lparr>bs_Status := BS_CONFIRMED\<rparr>) s)) (\<lambda>s.
         if bs_Type q = ASSET_BTC then AfterWithdraw E h s else Inr s))"

definition ProcessBitcoinDepositTransaction ::
  "('b, 'e) benv_scheme \<Rightarrow> int \<Rightarrow> string \<Rightarrow> string \<Rightarrow> string \<Rightarrow> string \<Rightarrow> string list \<Rightarrow> ('b, 'x) bridge_scheme \<Rightarrow>
   ('b, 'x) bridge_scheme res" where
  "ProcessBitcoinDepositTransaction E now sender txBytes prevTxBytes blockHash proof s =
     bind_res (ValidateTransaction E txBytes prevTxBytes blockHash proof (bp_DepositConfirmationDepth (GetParams s)) s) (\<lambda>(tx, prev).
     bind_res (Mint E sender tx prev (word_of_int (bh_Height (GetBlockHeader s blockHash))) s) (\<lambda>(t, recipient, c, s).
     if t = ASSET_BTC then AfterDeposit E now recipient c tx s else Inr s))"

end
