(* ===== verification/Bridge_Vaults.thy ===== *)
theory Bridge_Vaults
  imports Bridge_Withdraw
begin

text \<open>
  The vaults (\<open>keeper/transfer.go\<close> and \<open>keeper/consolidate.go\<close>): new versions of the vaults, the transfer of the
  assets of one version to another, with transactions that are given or that the bridge builds, and the consolidation of small
  outputs of a vault. Each transaction gets a signing request in the name of the authority.
\<close>

section \<open>Versions\<close>

definition CheckVaults :: "('b, 'x) bridge_scheme \<Rightarrow> string list \<Rightarrow> asset_type list \<Rightarrow> unit res" where
  "CheckVaults s vs ts =
     (if length vs \<noteq> length ts then Inl ErrInvalidDKGCompletionRequest
      else if list_ex (\<lambda>v. SelectVaultByAddress (bp_Vaults (GetParams s)) v \<noteq> None) vs then Inl ErrInvalidDKGCompletionRequest
      else Inr ())"

definition GetLatestVaultVersion :: "('b, 'x) bridge_scheme \<Rightarrow> u64" where
  "GetLatestVaultVersion s = br_vault_version s"

definition SetVaultVersion :: "u64 \<Rightarrow> ('b, 'x) bridge_scheme \<Rightarrow> ('b, 'x) bridge_scheme" where
  "SetVaultVersion v s = s\<lparr>br_vault_version := v\<rparr>"

definition IncreaseVaultVersion :: "('b, 'x) bridge_scheme \<Rightarrow> u64 \<times> ('b, 'x) bridge_scheme" where
  "IncreaseVaultVersion s = (let v = GetLatestVaultVersion s + 1 in (v, SetVaultVersion v s))"

text \<open>A vault without an asset type panics; there is a type for each vault.\<close>

definition UpdateVaults :: "string list \<Rightarrow> asset_type list \<Rightarrow> ('b, 'x) bridge_scheme \<Rightarrow> ('b, 'x) bridge_scheme res" where
  "UpdateVaults vs ts s =
     (case IncreaseVaultVersion s of (n, s) \<Rightarrow>
        if length ts < length vs then Inl Panic
        else let p = GetParams s in
          Inr (SetParams (p\<lparr>bp_Vaults := bp_Vaults p @
            map (\<lambda>(v, t). \<lparr>va_Address = v, va_PubKey = '''', va_AssetType = t, va_Version = n\<rparr>) (zip vs ts)\<rparr>) s))"

definition VaultsTransferCompleted :: "('b, 'x) bridge_scheme \<Rightarrow> u64 \<Rightarrow> bool res" where
  "VaultsTransferCompleted s n =
     bind_res (vault_address (GetVaultByAssetTypeAndVersion s ASSET_BTC n)) (\<lambda>b.
     bind_res (vault_address (GetVaultByAssetTypeAndVersion s ASSET_RUNES n)) (\<lambda>r.
     Inr (VaultTransferCompleted s b \<and> VaultTransferCompleted s r)))"

section \<open>Transfers with given transactions\<close>

definition checkUtxoCount :: "('b, 'x) bridge_scheme \<Rightarrow> nat \<Rightarrow> unit res" where
  "checkUtxoCount s n = (if GetMaxUtxoNum s < n then Inl ErrMaxUTXONumExceeded else Inr ())"

text \<open>An input spends an unlocked output of a vault of the source version; the psbt tells its script and value, and without it the transfer panics.\<close>

definition transfer_input ::
  "('b, 'e) benv_scheme \<Rightarrow> vault \<Rightarrow> asset_type \<Rightarrow> tx_in \<times> psbt_input option \<Rightarrow> rune_balance list \<times> ('b, 'x) bridge_scheme \<Rightarrow>
   (rune_balance list \<times> ('b, 'x) bridge_scheme) res" where
  "transfer_input E src t x r = (case (x, r) of ((ti, pi), (bals, s)) \<Rightarrow>
     let op = (ti_Hash ti, word_of_int (ti_Index ti)) in
     if \<not> HasUTXO s op then Inl ErrUTXODoesNotExist
     else if IsUTXOLocked s op then Inl ErrUTXOLocked
     else let u = GetUTXO s op in
     case Option.bind pi pi_WitnessUtxo of
       None \<Rightarrow> Inl Panic
     | Some out \<Rightarrow>
       if ut_PkScript u \<noteq> to_PkScript out \<or> ut_Amount u \<noteq> word_of_int (to_Value out) then Inl ErrInvalidPsbt
       else case SelectVaultByAddress (bp_Vaults (GetParams s)) (bu_Address u) of
         None \<Rightarrow> Inl ErrVaultDoesNotExist
       | Some v \<Rightarrow>
         if va_Version v \<noteq> va_Version src then Inl ErrInvalidVaultVersion
         else if t = ASSET_BTC \<and> va_AssetType v \<noteq> va_AssetType src then Inl btcbridge_ErrInvalidVault
         else bind_res (if t = ASSET_RUNES \<and> va_AssetType v = ASSET_RUNES then RuneBalances_Merge E bals (bu_Runes u) else Inr bals) (\<lambda>bals.
           bind_res (ignore_err (case SpendUTXO E op s of Inl e \<Rightarrow> (Inl e, s) | Inr s \<Rightarrow> (Inr (), s))) (\<lambda>s. Inr (bals, s))))"

text \<open>An output pays a vault of the destination version; the runes go to the output with the index 1.\<close>

definition transfer_output ::
  "('b, 'e) benv_scheme \<Rightarrow> string \<Rightarrow> vault \<Rightarrow> asset_type \<Rightarrow> rune_balance list \<Rightarrow> nat \<times> tx_out \<Rightarrow> ('b, 'x) bridge_scheme \<Rightarrow>
   ('b, 'x) bridge_scheme res" where
  "transfer_output E h dest t bals x s = (case x of (i, out) \<Rightarrow>
     if is_null_data E (to_PkScript out) then Inr s
     else case SelectVaultByPkScript E (bp_Vaults (GetParams s)) (to_PkScript out) of
       None \<Rightarrow> Inl ErrVaultDoesNotExist
     | Some v \<Rightarrow>
       let u = \<lparr>ut_Txid = h, ut_Vout = of_nat i, ut_Amount = word_of_int (to_Value out), ut_PkScript = to_PkScript out,
             bu_Address = va_Address v, bu_Height = 0, bu_IsLocked = True, bu_Runes = []\<rparr>
       in if va_Version v \<noteq> va_Version dest then Inl btcbridge_ErrInvalidVault
       else if t = ASSET_BTC \<and> va_AssetType v \<noteq> va_AssetType dest then Inl btcbridge_ErrInvalidVault
       else if va_AssetType v = ASSET_RUNES \<and> i \<noteq> 1 then Inl ErrInvalidRunes
       else if va_AssetType v = ASSET_BTC then Inr (SetUTXO u s)
       else if va_AssetType v = ASSET_RUNES
         then (if bals = [] then Inl ErrInvalidRunes else Inr (SetUTXO (u\<lparr>bu_Runes := bals\<rparr>) s))
       else Inr s)"

definition handleTransferVaultTx ::
  "('b, 'e) benv_scheme \<Rightarrow> psbt \<Rightarrow> vault \<Rightarrow> vault \<Rightarrow> asset_type \<Rightarrow> ('b, 'x) bridge_scheme \<Rightarrow> ('b, 'x) bridge_scheme res" where
  "handleTransferVaultTx E p src dest t s =
     (let tx = ps_Tx p; h = tx_hash E tx in
      bind_res (checkUtxoCount s (length (mt_TxIn tx))) (\<lambda>_.
      bind_res (if t = ASSET_RUNES
                then (case ParseRunes E tx of Inl Panic \<Rightarrow> Inl Panic | Inl _ \<Rightarrow> Inl ErrInvalidRunes
                  | Inr es \<Rightarrow> if length es \<noteq> RunesEdictNum then Inl ErrInvalidRunes else Inr ()) else Inr ()) (\<lambda>_.
      bind_res (fold_res (transfer_input E src t)
        (zip (mt_TxIn tx) (map Some (ps_Inputs p) @ replicate (length (mt_TxIn tx)) None)) ([], s)) (\<lambda>(bals, s).
      bind_res (fold_res (transfer_output E h dest t bals) (zip [0..<length (mt_TxOut tx)] (mt_TxOut tx)) s) (\<lambda>s.
      Inr (addToMintHistory h s))))))"

section \<open>Transfers the bridge builds\<close>

definition BuildTransferVaultBtcSigningRequest ::
  "('b, 'e) benv_scheme \<Rightarrow> int \<Rightarrow> string \<Rightarrow> vault \<Rightarrow> vault \<Rightarrow> u32 \<Rightarrow> int \<Rightarrow> ('b, 'x) bridge_scheme \<Rightarrow>
   (bridge_signing \<times> ('b, 'x) bridge_scheme) res" where
  "BuildTransferVaultBtcSigningRequest E now gov src dest target feeRate s =
     (let n = min (unat target) (GetMaxUtxoNum s);
          us = take (max n 1) (GetUnlockedUTXOsByAddr s (va_Address src))
      in if us = [] then Inl btcbridge_ErrInsufficientUTXOs
      else bind_res (BuildTransferAllBtcPsbt E us (va_Address dest) feeRate) (\<lambda>(p, c).
        issue_signing E now gov ASSET_BTC p [us] [Some c] s))"

definition BuildTransferVaultRunesSigningRequest ::
  "('b, 'e) benv_scheme \<Rightarrow> int \<Rightarrow> string \<Rightarrow> vault \<Rightarrow> vault \<Rightarrow> u32 \<Rightarrow> int \<Rightarrow> ('b, 'x) bridge_scheme \<Rightarrow>
   (bridge_signing \<times> ('b, 'x) bridge_scheme) res" where
  "BuildTransferVaultRunesSigningRequest E now gov src dest target feeRate s =
     (let n = min (unat target) (GetMaxUtxoNum s);
          us = take (max n 1) (GetUnlockedUTXOsByAddr s (va_Address src))
      in bind_res (fold_res (\<lambda>u bals. RuneBalances_Merge E bals (bu_Runes u)) us []) (\<lambda>bals.
         if us = [] then Inl btcbridge_ErrInsufficientUTXOs
         else case GetVaultByAssetTypeAndVersion s ASSET_BTC (va_Version src) of
           None \<Rightarrow> Inl ErrVaultDoesNotExist
         | Some sb \<Rightarrow> (case GetVaultByAssetTypeAndVersion s ASSET_BTC (va_Version dest) of
             None \<Rightarrow> Inl ErrVaultDoesNotExist
           | Some db \<Rightarrow>
             bind_res (BuildTransferAllRunesPsbt E us (GetUTXOIteratorByAddr s (va_Address sb)) (va_Address dest) bals feeRate
               (va_Address db) (GetMaxUtxoNum s)) (\<lambda>(p, selected, c, r).
             issue_signing E now gov ASSET_RUNES p [us, selected] [c, Some r] s))))"

text \<open>A psbt that is given must parse, or the transfer panics.\<close>

definition transfer_psbt ::
  "('b, 'e) benv_scheme \<Rightarrow> int \<Rightarrow> string \<Rightarrow> vault \<Rightarrow> vault \<Rightarrow> asset_type \<Rightarrow> string \<Rightarrow> ('b, 'x) bridge_scheme \<Rightarrow>
   ('b, 'x) bridge_scheme res" where
  "transfer_psbt E now gov src dest t b64 s =
     (case psbt_parse E b64 of
        Inl _ \<Rightarrow> Inl Panic
      | Inr p \<Rightarrow> bind_res (handleTransferVaultTx E p src dest t s) (\<lambda>s.
          Inr (snd (store_signing (new_signing now gov t (tx_hash E (ps_Tx p)) b64 s)))))"

definition keeper_TransferVault ::
  "('b, 'e) benv_scheme \<Rightarrow> int \<Rightarrow> int \<Rightarrow> string \<Rightarrow> u64 \<Rightarrow> u64 \<Rightarrow> asset_type \<Rightarrow> string list \<Rightarrow> u32 \<Rightarrow> ('b, 'x) bridge_scheme \<Rightarrow>
   ('b, 'x) bridge_scheme res" where
  "keeper_TransferVault E height now gov srcVersion destVersion t psbts target s =
     (case GetVaultByAssetTypeAndVersion s t srcVersion of
        None \<Rightarrow> Inl ErrVaultDoesNotExist
      | Some src \<Rightarrow> (case GetVaultByAssetTypeAndVersion s t destVersion of
          None \<Rightarrow> Inl ErrVaultDoesNotExist
        | Some dest \<Rightarrow>
          if psbts \<noteq> [] then fold_res (transfer_psbt E now gov src dest t) psbts s
          else bind_res (CheckFeeRate height (GetFeeRate s) s) (\<lambda>_.
            let feeRate = fr_Value (GetFeeRate s)
            in bind_res (case t of
                ASSET_BTC \<Rightarrow> BuildTransferVaultBtcSigningRequest E now gov src dest target feeRate s
              | ASSET_RUNES \<Rightarrow> BuildTransferVaultRunesSigningRequest E now gov src dest target feeRate s
              | _ \<Rightarrow> Inl Panic) (\<lambda>r. Inr (snd (store_signing r))))))"

section \<open>Consolidation\<close>

definition limit_num :: "('b, 'x) bridge_scheme \<Rightarrow> u32 \<Rightarrow> u32" where
  "limit_num s n = (if of_nat (GetMaxUtxoNum s) < n then of_nat (GetMaxUtxoNum s) else n)"

definition handleBtcConsolidation ::
  "('b, 'e) benv_scheme \<Rightarrow> int \<Rightarrow> string \<Rightarrow> u64 \<Rightarrow> int \<Rightarrow> u32 \<Rightarrow> int \<Rightarrow> ('b, 'x) bridge_scheme \<Rightarrow> ('b, 'x) bridge_scheme res" where
  "handleBtcConsolidation E now gov version threshold maxNum feeRate s =
     (case GetVaultByAssetTypeAndVersion s ASSET_BTC version of
        None \<Rightarrow> Inl ErrVaultDoesNotExist
      | Some v \<Rightarrow>
        let us = GetUnlockedUTXOsByAddrAndThreshold s (va_Address v) threshold (limit_num s maxNum)
        in if us = [] then Inl btcbridge_ErrInsufficientUTXOs
        else bind_res (BuildTransferAllBtcPsbt E us (va_Address v) feeRate) (\<lambda>(p, c).
          bind_res (issue_signing E now gov ASSET_BTC p [us] [Some c] s) (\<lambda>r. Inr (snd (store_signing r)))))"

record runes_consolidation =
  rc_RuneId :: string
  rc_TargetThreshold :: string
  rc_MaxNum :: u32

definition handleRunesConsolidation ::
  "('b, 'e) benv_scheme \<Rightarrow> int \<Rightarrow> string \<Rightarrow> u64 \<Rightarrow> int \<Rightarrow> runes_consolidation \<Rightarrow> ('b, 'x) bridge_scheme \<Rightarrow>
   ('b, 'x) bridge_scheme res" where
  "handleRunesConsolidation E now gov version feeRate c s =
     (case GetVaultByAssetTypeAndVersion s ASSET_RUNES version of
        None \<Rightarrow> Inl ErrVaultDoesNotExist
      | Some v \<Rightarrow> (case GetVaultByAssetTypeAndVersion s ASSET_BTC version of
          None \<Rightarrow> Inl ErrVaultDoesNotExist
        | Some bv \<Rightarrow>
          bind_res (RuneAmountFromString E (rc_TargetThreshold c)) (\<lambda>threshold.
          bind_res (GetTargetRunesUTXOsByAddrAndThreshold E s (va_Address v) (rc_RuneId c) threshold (limit_num s (rc_MaxNum c))) (\<lambda>(us, bals).
          if us = [] then Inl btcbridge_ErrInsufficientUTXOs
          else bind_res (BuildTransferAllRunesPsbt E us (GetUTXOIteratorByAddr s (va_Address bv)) (va_Address v) bals feeRate
            (va_Address bv) (GetMaxUtxoNum s)) (\<lambda>(p, selected, c, r).
          bind_res (issue_signing E now gov ASSET_RUNES p [us, selected] [c, Some r] s) (\<lambda>r. Inr (snd (store_signing r))))))))"

definition keeper_ConsolidateVaults ::
  "('b, 'e) benv_scheme \<Rightarrow> int \<Rightarrow> int \<Rightarrow> string \<Rightarrow> u64 \<Rightarrow> (int \<times> u32) option \<Rightarrow> runes_consolidation list \<Rightarrow>
   ('b, 'x) bridge_scheme \<Rightarrow> ('b, 'x) bridge_scheme res" where
  "keeper_ConsolidateVaults E height now gov version btc runes s =
     bind_res (CheckFeeRate height (GetFeeRate s) s) (\<lambda>_.
     let feeRate = fr_Value (GetFeeRate s)
     in bind_res (case btc of None \<Rightarrow> Inr s
          | Some (threshold, n) \<Rightarrow> handleBtcConsolidation E now gov version threshold n feeRate s) (\<lambda>s.
        fold_res (handleRunesConsolidation E now gov version feeRate) runes s))"

end
