(* ===== verification/Bridge_Keys.thy ===== *)
theory Bridge_Keys
  imports Bridge_Vaults
begin

text \<open>
  The keys of the vaults (\<open>keeper/dkg.go\<close>, \<open>keeper/refresh.go\<close>, \<open>types/tss.go\<close> and the handlers of \<open>module/abci.go\<close>): requests
  for the generation of vaults, which complete when all participants submit the same vaults, and requests for the
  refreshing of key shares, which may remove participants. The participants the tss module allows are an argument.
\<close>

abbreviation "btcbridge_ErrInvalidDKGs \<equiv> Registered ''btcbridge'' 9000"
abbreviation "btcbridge_ErrInvalidParticipants \<equiv> Registered ''btcbridge'' 9001"
abbreviation "btcbridge_ErrInvalidTimeoutDuration \<equiv> Registered ''btcbridge'' 9002"
abbreviation "btcbridge_ErrInvalidPubKey \<equiv> Registered ''btcbridge'' 9003"
abbreviation "btcbridge_ErrInvalidDKGStatus \<equiv> Registered ''btcbridge'' 9004"
abbreviation "btcbridge_ErrRefreshingRequestDoesNotExist \<equiv> Registered ''btcbridge'' 9005"
abbreviation "btcbridge_ErrInvalidRefreshingStatus \<equiv> Registered ''btcbridge'' 9006"
abbreviation "btcbridge_ErrRefreshingRequestExpired \<equiv> Registered ''btcbridge'' 9007"
abbreviation "btcbridge_ErrUnauthorizedParticipant \<equiv> Registered ''btcbridge'' 9008"
abbreviation "btcbridge_ErrRefreshingCompletionAlreadyExists \<equiv> Registered ''btcbridge'' 9009"

section \<open>Generation\<close>

definition zero_bridge_dkg :: bridge_dkg where
  "zero_bridge_dkg = \<lparr>bd_Id = 0, bd_Participants = [], bd_Threshold = 0, bd_VaultTypes = [], bd_EnableTransfer = False,
     bd_TargetUtxoNum = 0, bd_Expiration = zero_time, bd_Status = DKG_UNSPECIFIED\<rparr>"

definition btcbridge_GetNextDKGRequestID :: "('b, 'x) bridge_scheme \<Rightarrow> u64" where
  "btcbridge_GetNextDKGRequestID s = (case br_dkg_id s of None \<Rightarrow> 1 | Some n \<Rightarrow> n + 1)"

definition btcbridge_SetDKGRequestID :: "u64 \<Rightarrow> ('b, 'x) bridge_scheme \<Rightarrow> ('b, 'x) bridge_scheme" where
  "btcbridge_SetDKGRequestID n s = s\<lparr>br_dkg_id := Some n\<rparr>"

definition btcbridge_SetDKGRequest :: "bridge_dkg \<Rightarrow> ('b, 'x) bridge_scheme \<Rightarrow> ('b, 'x) bridge_scheme" where
  "btcbridge_SetDKGRequest r s = s\<lparr>br_dkgs := kv_set (bd_Id r) r (br_dkgs s)\<rparr>"

definition btcbridge_HasDKGRequest :: "('b, 'x) bridge_scheme \<Rightarrow> u64 \<Rightarrow> bool" where
  "btcbridge_HasDKGRequest s n = kv_has (br_dkgs s) n"

definition btcbridge_GetDKGRequest :: "('b, 'x) bridge_scheme \<Rightarrow> u64 \<Rightarrow> bridge_dkg" where
  "btcbridge_GetDKGRequest s n = (case kv_get (br_dkgs s) n of None \<Rightarrow> zero_bridge_dkg | Some r \<Rightarrow> r)"

definition btcbridge_GetAllDKGRequests :: "('b, 'x) bridge_scheme \<Rightarrow> bridge_dkg list" where
  "btcbridge_GetAllDKGRequests s = map snd (br_dkgs s)"

definition btcbridge_GetDKGRequests :: "('b, 'x) bridge_scheme \<Rightarrow> dkg_status \<Rightarrow> bridge_dkg list" where
  "btcbridge_GetDKGRequests s st = filter (\<lambda>r. bd_Status r = st) (btcbridge_GetAllDKGRequests s)"

definition btcbridge_GetPendingDKGRequests :: "('b, 'x) bridge_scheme \<Rightarrow> bridge_dkg list" where
  "btcbridge_GetPendingDKGRequests s = filter (\<lambda>r. bd_Status r = DKG_PENDING) (btcbridge_GetAllDKGRequests s)"

definition GetDKGRequestExpirationTime :: "int \<Rightarrow> ('b, 'x) bridge_scheme \<Rightarrow> int" where
  "GetDKGRequestExpirationTime now s = now + bp_DkgTimeoutPeriod (GetParams s)"

definition SetDKGCompletionRequest :: "bridge_dkg_completion \<Rightarrow> ('b, 'x) bridge_scheme \<Rightarrow> ('b, 'x) bridge_scheme" where
  "SetDKGCompletionRequest c s = s\<lparr>br_dkg_completions := kv_set (bc_Id c, bc_ConsensusPubkey c) c (br_dkg_completions s)\<rparr>"

definition HasDKGCompletionRequest :: "('b, 'x) bridge_scheme \<Rightarrow> u64 \<Rightarrow> string \<Rightarrow> bool" where
  "HasDKGCompletionRequest s n k = kv_has (br_dkg_completions s) (n, k)"

definition GetDKGCompletionRequests :: "('b, 'x) bridge_scheme \<Rightarrow> u64 \<Rightarrow> bridge_dkg_completion list" where
  "GetDKGCompletionRequests s n = under n (br_dkg_completions s)"

definition btcbridge_ParticipantExists :: "bridge_participant list \<Rightarrow> string \<Rightarrow> bool" where
  "btcbridge_ParticipantExists ps k = list_ex (\<lambda>p. bpt_ConsensusPubkey p = k) ps"

definition CheckDKGCompletionRequests :: "bridge_dkg_completion list \<Rightarrow> bool" where
  "CheckDKGCompletionRequests cs = (case cs of [] \<Rightarrow> False | c # cs \<Rightarrow> list_all (\<lambda>d. bc_Vaults d = bc_Vaults c) cs)"

text \<open>The message a participant signs is the hash of the id and the addresses of the vaults, one after the other.\<close>

definition btcbridge_GetDKGCompletionSigMsg :: "('b, 'e) nenv_scheme \<Rightarrow> bridge_dkg_completion \<Rightarrow> string" where
  "btcbridge_GetDKGCompletionSigMsg E c = sha256 E (be64 (bc_Id c) @ concat (bc_Vaults c))"

definition btcbridge_InitiateDKG ::
  "string list \<Rightarrow> int \<Rightarrow> bridge_participant list \<Rightarrow> u32 \<Rightarrow> asset_type list \<Rightarrow> bool \<Rightarrow> u32 \<Rightarrow> ('b, 'x) bridge_scheme \<Rightarrow>
   (bridge_dkg \<times> ('b, 'x) bridge_scheme) res" where
  "btcbridge_InitiateDKG allowed now ps threshold ts enable target s =
     (if allowed \<noteq> [] \<and> list_ex (\<lambda>p. bpt_ConsensusPubkey p \<notin> set allowed) ps then Inl btcbridge_ErrInvalidDKGParams
      else let r = \<lparr>bd_Id = btcbridge_GetNextDKGRequestID s, bd_Participants = ps, bd_Threshold = threshold, bd_VaultTypes = ts,
             bd_EnableTransfer = enable, bd_TargetUtxoNum = target, bd_Expiration = GetDKGRequestExpirationTime now s,
             bd_Status = DKG_PENDING\<rparr>
        in Inr (r, btcbridge_SetDKGRequestID (bd_Id r) (btcbridge_SetDKGRequest r s)))"

definition btcbridge_CompleteDKG ::
  "('b, 'e) benv_scheme \<Rightarrow> int \<Rightarrow> bridge_dkg_completion \<Rightarrow> ('b, 'x) bridge_scheme \<Rightarrow> ('b, 'x) bridge_scheme res" where
  "btcbridge_CompleteDKG E now c s =
     (if \<not> btcbridge_HasDKGRequest s (bc_Id c) then Inl btcbridge_ErrDKGRequestDoesNotExist
      else let r = btcbridge_GetDKGRequest s (bc_Id c) in
      if \<not> btcbridge_ParticipantExists (bd_Participants r) (bc_ConsensusPubkey c) then Inl ErrUnauthorizedDKGCompletionRequest
      else if HasDKGCompletionRequest s (bc_Id c) (bc_ConsensusPubkey c) then Inl ErrDKGCompletionRequestExists
      else if bd_Status r \<noteq> DKG_PENDING then Inl ErrInvalidDKGCompletionRequest
      else if bd_Expiration r \<le> now then Inl ErrInvalidDKGCompletionRequest
      else bind_res (CheckVaults s (bc_Vaults c) (bd_VaultTypes r)) (\<lambda>_.
      bind_res (VerifySignature E (bc_Signature c) (bc_ConsensusPubkey c) (btcbridge_GetDKGCompletionSigMsg E c)) (\<lambda>ok.
      if \<not> ok then Inl ErrInvalidDKGCompletionRequest else Inr (SetDKGCompletionRequest c s))))"

text \<open>The end blocker times out, fails or completes the pending requests it finds at its start.\<close>

definition bridge_handle_dkg :: "int \<Rightarrow> bridge_dkg \<Rightarrow> ('b, 'x) bridge_scheme \<Rightarrow> ('b, 'x) bridge_scheme res" where
  "bridge_handle_dkg now r s =
     (if bd_Expiration r \<le> now then Inr (btcbridge_SetDKGRequest (r\<lparr>bd_Status := DKG_TIMEDOUT\<rparr>) s)
      else let cs = GetDKGCompletionRequests s (bd_Id r) in
      if length cs \<noteq> length (bd_Participants r) then Inr s
      else if \<not> CheckDKGCompletionRequests cs then Inr (btcbridge_SetDKGRequest (r\<lparr>bd_Status := DKG_FAILED\<rparr>) s)
      else bind_res (UpdateVaults (bc_Vaults (hd cs)) (bd_VaultTypes r) s) (\<lambda>s.
        Inr (btcbridge_SetDKGRequest (r\<lparr>bd_Status := DKG_COMPLETED\<rparr>) s)))"

definition btcbridge_handleDKGRequests :: "int \<Rightarrow> ('b, 'x) bridge_scheme \<Rightarrow> ('b, 'x) bridge_scheme res" where
  "btcbridge_handleDKGRequests now s = fold_res (bridge_handle_dkg now) (btcbridge_GetPendingDKGRequests s) s"

section \<open>Refreshing\<close>

definition btcbridge_GetRefreshingRequestId :: "('b, 'x) bridge_scheme \<Rightarrow> u64" where
  "btcbridge_GetRefreshingRequestId s = br_refreshing_id s"

definition btcbridge_IncrementRefreshingRequestId :: "('b, 'x) bridge_scheme \<Rightarrow> u64 \<times> ('b, 'x) bridge_scheme" where
  "btcbridge_IncrementRefreshingRequestId s =
     (let n = btcbridge_GetRefreshingRequestId s + 1 in (n, s\<lparr>br_refreshing_id := n\<rparr>))"

definition btcbridge_SetRefreshingRequest :: "refreshing_request \<Rightarrow> ('b, 'x) bridge_scheme \<Rightarrow> ('b, 'x) bridge_scheme" where
  "btcbridge_SetRefreshingRequest r s = s\<lparr>br_refreshings := kv_set (rfr_Id r) r (br_refreshings s)\<rparr>"

definition btcbridge_HasRefreshingRequest :: "('b, 'x) bridge_scheme \<Rightarrow> u64 \<Rightarrow> bool" where
  "btcbridge_HasRefreshingRequest s n = kv_has (br_refreshings s) n"

definition btcbridge_GetRefreshingRequest :: "('b, 'x) bridge_scheme \<Rightarrow> u64 \<Rightarrow> refreshing_request" where
  "btcbridge_GetRefreshingRequest s n = (case kv_get (br_refreshings s) n of None \<Rightarrow> zero_refreshing_request | Some r \<Rightarrow> r)"

definition btcbridge_GetRefreshingParticipants :: "('b, 'x) bridge_scheme \<Rightarrow> refreshing_request \<Rightarrow> bridge_participant list" where
  "btcbridge_GetRefreshingParticipants s r =
     filter (\<lambda>p. bpt_ConsensusPubkey p \<notin> set (rfr_RemovedParticipants r)) (bd_Participants (btcbridge_GetDKGRequest s (rfr_DkgId r)))"

definition btcbridge_GetRefreshingRequests :: "('b, 'x) bridge_scheme \<Rightarrow> refreshing_status \<Rightarrow> refreshing_request list" where
  "btcbridge_GetRefreshingRequests s st = filter (\<lambda>r. rfr_Status r = st) (map snd (br_refreshings s))"

definition btcbridge_GetPendingRefreshingRequests :: "('b, 'x) bridge_scheme \<Rightarrow> refreshing_request list" where
  "btcbridge_GetPendingRefreshingRequests s = filter (\<lambda>r. rfr_Status r = REFRESHING_PENDING) (map snd (br_refreshings s))"

definition btcbridge_SetRefreshingCompletion :: "refreshing_completion \<Rightarrow> ('b, 'x) bridge_scheme \<Rightarrow> ('b, 'x) bridge_scheme" where
  "btcbridge_SetRefreshingCompletion c s =
     s\<lparr>br_refreshing_completions := kv_set (rfc_Id c, rfc_ConsensusPubkey c) c (br_refreshing_completions s)\<rparr>"

definition btcbridge_HasRefreshingCompletion :: "('b, 'x) bridge_scheme \<Rightarrow> u64 \<Rightarrow> string \<Rightarrow> bool" where
  "btcbridge_HasRefreshingCompletion s n k = kv_has (br_refreshing_completions s) (n, k)"

definition btcbridge_GetRefreshingCompletions :: "('b, 'x) bridge_scheme \<Rightarrow> u64 \<Rightarrow> refreshing_completion list" where
  "btcbridge_GetRefreshingCompletions s n = under n (br_refreshing_completions s)"

text \<open>A refreshing without a timeout never expires.\<close>

definition btcbridge_InitiateRefreshingRequest ::
  "int \<Rightarrow> u64 \<Rightarrow> string list \<Rightarrow> int \<Rightarrow> ('b, 'x) bridge_scheme \<Rightarrow> ('b, 'x) bridge_scheme" where
  "btcbridge_InitiateRefreshingRequest now dkgId removed timeout s =
     (case btcbridge_IncrementRefreshingRequestId s of (n, s) \<Rightarrow>
        btcbridge_SetRefreshingRequest \<lparr>rfr_Id = n, rfr_DkgId = dkgId, rfr_RemovedParticipants = removed,
          rfr_ExpirationTime = GetExpirationTime now timeout, rfr_Status = REFRESHING_PENDING\<rparr> s)"

definition btcbridge_CompleteRefreshing ::
  "('b, 'e) benv_scheme \<Rightarrow> int \<Rightarrow> string \<Rightarrow> u64 \<Rightarrow> string \<Rightarrow> string \<Rightarrow> ('b, 'x) bridge_scheme \<Rightarrow> ('b, 'x) bridge_scheme res" where
  "btcbridge_CompleteRefreshing E now sender n k sig s =
     (if \<not> btcbridge_HasRefreshingRequest s n then Inl btcbridge_ErrRefreshingRequestDoesNotExist
      else let r = btcbridge_GetRefreshingRequest s n in
      if rfr_Status r \<noteq> REFRESHING_PENDING then Inl btcbridge_ErrInvalidRefreshingStatus
      else if rfr_ExpirationTime r \<noteq> zero_time \<and> rfr_ExpirationTime r \<le> now then Inl btcbridge_ErrRefreshingRequestExpired
      else if \<not> btcbridge_ParticipantExists (btcbridge_GetRefreshingParticipants s r) k then Inl btcbridge_ErrUnauthorizedParticipant
      else if btcbridge_HasRefreshingCompletion s n k then Inl btcbridge_ErrRefreshingCompletionAlreadyExists
      else bind_res (VerifySignature E sig k (sha256 E (be64 n))) (\<lambda>ok.
      if \<not> ok then Inl btcbridge_ErrInvalidSignature
      else Inr (btcbridge_SetRefreshingCompletion \<lparr>rfc_Id = n, rfc_Sender = sender, rfc_ConsensusPubkey = k, rfc_Signature = sig\<rparr> s)))"

definition bridge_handle_refreshing :: "int \<Rightarrow> refreshing_request \<Rightarrow> ('b, 'x) bridge_scheme \<Rightarrow> ('b, 'x) bridge_scheme" where
  "bridge_handle_refreshing now r s =
     (if rfr_ExpirationTime r \<noteq> zero_time \<and> rfr_ExpirationTime r \<le> now
      then btcbridge_SetRefreshingRequest (r\<lparr>rfr_Status := REFRESHING_TIMEDOUT\<rparr>) s
      else if length (btcbridge_GetRefreshingCompletions s (rfr_Id r)) \<noteq> length (btcbridge_GetRefreshingParticipants s r) then s
      else let s = btcbridge_SetRefreshingRequest (r\<lparr>rfr_Status := REFRESHING_COMPLETED\<rparr>) s
        in btcbridge_SetDKGRequest ((btcbridge_GetDKGRequest s (rfr_DkgId r))\<lparr>bd_Participants := btcbridge_GetRefreshingParticipants s r\<rparr>) s)"

definition btcbridge_handleRefreshingRequests :: "int \<Rightarrow> ('b, 'x) bridge_scheme \<Rightarrow> ('b, 'x) bridge_scheme" where
  "btcbridge_handleRefreshingRequests now s = fold (bridge_handle_refreshing now) (btcbridge_GetPendingRefreshingRequests s) s"

end
