(* ===== verification/Dlc_Oracles.thy ===== *)
theory Dlc_Oracles
  imports Dkg
begin

text \<open>
  The rest of the discreet-log-contract module (\<open>x/dlc\<close>): its parameters, the liveness of the oracle
  participants (\<open>keeper/liveness.go\<close>), the choice of the participants of a key generation
  (\<open>keeper/oracle.go\<close>), the messages, the end blocker that keeps the queue of nonces filled, the callbacks
  of the key generation, and the genesis.
\<close>

abbreviation "dlc_ErrInvalidParticipants \<equiv> Registered ''dlc'' 1108"
abbreviation "dlc_ErrInvalidThreshold \<equiv> Registered ''dlc'' 1109"
abbreviation "dlc_ErrInvalidTimeoutDuration \<equiv> Registered ''dlc'' 1110"
abbreviation "dlc_ErrInvalidParams \<equiv> Registered ''dlc'' 2100"

section \<open>Parameters\<close>

definition dlc_DefaultParams :: dlc_params where
  "dlc_DefaultParams = \<lparr>np_NonceQueueSize = 1000, np_NonceGenerationBatchSize = 100, np_NonceGenerationInterval = 50,
     np_NonceGenerationTimeoutDuration = 24 * 3600 * 10 ^ 9, np_AllowedOracleParticipants = [], np_OracleParticipantNum = 3,
     np_OracleParticipantThreshold = 2\<rparr>"

definition validateOracleParticipants :: "string list \<Rightarrow> unit res" where
  "validateOracleParticipants ps = (if list_all consensus_key_ok ps then Inr () else Inl dlc_ErrInvalidParams)"

definition validateOracleParticipantNum :: "dlc_params \<Rightarrow> unit res" where
  "validateOracleParticipantNum p =
     bind_res (wrap_err dlc_ErrInvalidParams (CheckDKGParticipantNum (uint (np_OracleParticipantNum p)))) (\<lambda>_.
     if np_AllowedOracleParticipants p \<noteq> [] \<and> word_of_nat (length (np_AllowedOracleParticipants p)) < np_OracleParticipantNum p
     then Inl dlc_ErrInvalidParams else Inr ())"

definition dlc_Params_Validate :: "dlc_params \<Rightarrow> unit res" where
  "dlc_Params_Validate p =
     (if np_NonceQueueSize p = 0 then Inl dlc_ErrInvalidParams
      else if np_NonceGenerationBatchSize p < 2 then Inl dlc_ErrInvalidParams
      else if np_NonceGenerationInterval p \<le> 0 then Inl dlc_ErrInvalidParams
      else if np_NonceGenerationTimeoutDuration p < 0 then Inl dlc_ErrInvalidParams
      else bind_res (validateOracleParticipants (np_AllowedOracleParticipants p)) (\<lambda>_.
      bind_res (validateOracleParticipantNum p) (\<lambda>_.
      wrap_err dlc_ErrInvalidParams (CheckDKGThreshold (uint (np_OracleParticipantNum p)) (uint (np_OracleParticipantThreshold p))))))"

definition ValidateOracleParticipantAllowlist :: "('b, 'x) node_scheme \<Rightarrow> string list \<Rightarrow> unit res" where
  "ValidateOracleParticipantAllowlist s ps =
     (let base = AllowedDKGParticipants s in
      if ps \<noteq> [] \<and> base \<noteq> [] \<and> \<not> set ps \<subseteq> set base then Inl dlc_ErrInvalidParams else Inr ())"

section \<open>Liveness\<close>

definition SetOracleParticipantLiveness :: "participant_liveness \<Rightarrow> ('b, 'x) node_scheme \<Rightarrow> ('b, 'x) node_scheme" where
  "SetOracleParticipantLiveness l s = s\<lparr>nd_liveness := kv_set (lv_ConsensusPubkey l) l (nd_liveness s)\<rparr>"

definition RemoveOracleParticipantLiveness :: "string \<Rightarrow> ('b, 'x) node_scheme \<Rightarrow> ('b, 'x) node_scheme" where
  "RemoveOracleParticipantLiveness k s = s\<lparr>nd_liveness := kv_del k (nd_liveness s)\<rparr>"

definition HasOracleParticipantLiveness :: "('b, 'x) node_scheme \<Rightarrow> string \<Rightarrow> bool" where
  "HasOracleParticipantLiveness s k = kv_has (nd_liveness s) k"

definition GetOracleParticipantLiveness :: "('b, 'x) node_scheme \<Rightarrow> string \<Rightarrow> participant_liveness" where
  "GetOracleParticipantLiveness s k = (case kv_get (nd_liveness s) k of None \<Rightarrow> zero_liveness | Some l \<Rightarrow> l)"

definition GetAllOracleParticipantsLiveness :: "('b, 'x) node_scheme \<Rightarrow> participant_liveness list" where
  "GetAllOracleParticipantsLiveness s = map snd (nd_liveness s)"

definition GetOracleParticipantsLiveness :: "('b, 'x) node_scheme \<Rightarrow> bool \<Rightarrow> participant_liveness list" where
  "GetOracleParticipantsLiveness s alive = filter (\<lambda>l. lv_IsAlive l = alive) (map snd (nd_liveness s))"

definition IsOracleParticipantAlive :: "('b, 'x) node_scheme \<Rightarrow> string \<Rightarrow> bool" where
  "IsOracleParticipantAlive s k \<longleftrightarrow> HasOracleParticipantLiveness s k \<and> lv_IsAlive (GetOracleParticipantLiveness s k)"

definition fresh_liveness :: "string \<Rightarrow> participant_liveness" where
  "fresh_liveness k = zero_liveness\<lparr>lv_ConsensusPubkey := k, lv_IsAlive := True\<rparr>"

definition UpdateOracleParticipantsLiveness ::
  "string list \<Rightarrow> string list \<Rightarrow> ('b, 'x) node_scheme \<Rightarrow> ('b, 'x) node_scheme" where
  "UpdateOracleParticipantsLiveness old new s =
     (let s = fold (\<lambda>p s. if p \<in> set new then s else RemoveOracleParticipantLiveness p s) old s
      in fold (\<lambda>p s. if p \<in> set old then s else SetOracleParticipantLiveness (fresh_liveness p) s) new s)"

section \<open>Participants\<close>

definition GetOracleParticipantBaseSet :: "('b, 'x) node_scheme \<Rightarrow> string list" where
  "GetOracleParticipantBaseSet s =
     (let base = AllowedDKGParticipants s; allowed = np_AllowedOracleParticipants (nd_dlc_params s) in
      if base = [] then allowed else filter (\<lambda>p. p \<in> set base) allowed)"

text \<open>The random choice is seeded with the block time.\<close>

definition SelectOracleParticipants :: "('b, 'e) nenv_scheme \<Rightarrow> int \<Rightarrow> string list \<Rightarrow> nat \<Rightarrow> string list" where
  "SelectOracleParticipants E now base n =
     (if length base < n then []
      else if length base = n then base
      else map (\<lambda>i. base ! i) (take n (rand_perm E (unix now) (length base))))"

definition GetAllAliveOracleParticipants :: "('b, 'x) node_scheme \<Rightarrow> string list" where
  "GetAllAliveOracleParticipants s = filter (IsOracleParticipantAlive s) (GetOracleParticipantBaseSet s)"

definition OracleParticipantNum :: "('b, 'x) node_scheme \<Rightarrow> nat" where
  "OracleParticipantNum s = unat (np_OracleParticipantNum (nd_dlc_params s))"

definition GetRandomOracleParticipants :: "('b, 'e) nenv_scheme \<Rightarrow> int \<Rightarrow> ('b, 'x) node_scheme \<Rightarrow> string list" where
  "GetRandomOracleParticipants E now s =
     SelectOracleParticipants E now (GetOracleParticipantBaseSet s) (OracleParticipantNum s)"

definition GetAliveOracleParticipants :: "('b, 'e) nenv_scheme \<Rightarrow> int \<Rightarrow> ('b, 'x) node_scheme \<Rightarrow> string list" where
  "GetAliveOracleParticipants E now s =
     SelectOracleParticipants E now (GetAllAliveOracleParticipants s) (OracleParticipantNum s)"

definition GetOracleParticipants :: "('b, 'e) nenv_scheme \<Rightarrow> int \<Rightarrow> ('b, 'x) node_scheme \<Rightarrow> string list" where
  "GetOracleParticipants E now s =
     (let alive = GetAliveOracleParticipants E now s
      in if alive \<noteq> [] then alive else GetRandomOracleParticipants E now s)"

section \<open>Messages\<close>

record msg_create_dcm =
  mcd_Authority :: string
  mcd_Participants :: "string list"
  mcd_Threshold :: u32
  mcd_TimeoutDuration :: int

text \<open>A list of consensus keys without duplicates.\<close>

definition check_keys :: "error \<Rightarrow> string list \<Rightarrow> unit res" where
  "check_keys e ps = bind_res (fold_res (\<lambda>p seen.
     if \<not> consensus_key_ok p then Inl e else if p \<in> set seen then Inl e else Inr (p # seen)) ps []) (\<lambda>_. Inr ())"

definition MsgCreateDCM_ValidateBasic :: "('b, 'e) nenv_scheme \<Rightarrow> msg_create_dcm \<Rightarrow> unit res" where
  "MsgCreateDCM_ValidateBasic E m =
     (if \<not> bech32_ok E (mcd_Authority m) then Inl ErrBech32Addr
      else bind_res (wrap_err dlc_ErrInvalidParticipants (CheckDKGParticipantNum (int (length (mcd_Participants m))))) (\<lambda>_.
      bind_res (wrap_err dlc_ErrInvalidThreshold
        (CheckDKGThreshold (int (length (mcd_Participants m))) (uint (mcd_Threshold m)))) (\<lambda>_.
      bind_res (check_keys dlc_ErrInvalidParticipants (mcd_Participants m)) (\<lambda>_.
      if mcd_TimeoutDuration m < 0 then Inl dlc_ErrInvalidTimeoutDuration else Inr ()))))"

definition dlc_CreateDCM ::
  "('b, 'e) nenv_scheme \<Rightarrow> string \<Rightarrow> int \<Rightarrow> msg_create_dcm \<Rightarrow> ('b, 'x) node_scheme \<Rightarrow> ('b, 'x) node_scheme res" where
  "dlc_CreateDCM E authority now m s =
     (if authority \<noteq> mcd_Authority m then Inl ErrGovInvalidSigner
      else bind_res (MsgCreateDCM_ValidateBasic E m) (\<lambda>_.
      let base = AllowedDKGParticipants s in
      if base \<noteq> [] \<and> \<not> set (mcd_Participants m) \<subseteq> set base then Inl dlc_ErrInvalidParticipants
      else Inr (snd (InitiateDKG now ''dlc'' ''dcm'' 0 (mcd_Participants m) (mcd_Threshold m) 1 (mcd_TimeoutDuration m) s))))"

definition dlc_UpdateParams ::
  "('b, 'e) nenv_scheme \<Rightarrow> string \<Rightarrow> string \<Rightarrow> dlc_params \<Rightarrow> ('b, 'x) node_scheme \<Rightarrow> ('b, 'x) node_scheme res" where
  "dlc_UpdateParams E authority signer p s =
     (if authority \<noteq> signer then Inl ErrGovInvalidSigner
      else if \<not> bech32_ok E signer then Inl ErrBech32Addr
      else bind_res (dlc_Params_Validate p) (\<lambda>_.
      bind_res (ValidateOracleParticipantAllowlist s (np_AllowedOracleParticipants p)) (\<lambda>_.
      Inr (UpdateOracleParticipantsLiveness (np_AllowedOracleParticipants (nd_dlc_params s))
        (np_AllowedOracleParticipants p) (s\<lparr>nd_dlc_params := p\<rparr>)))))"

section \<open>The end blocker\<close>

definition generateLendingEventNonces ::
  "('b, 'e) nenv_scheme \<Rightarrow> int \<Rightarrow> int \<Rightarrow> ('b, 'x) node_scheme \<Rightarrow> ('b, 'x) node_scheme res" where
  "generateLendingEventNonces E height now s =
     (let p = nd_dlc_params s in
      if np_NonceGenerationInterval p = 0 then Inl Panic
      else if height mod np_NonceGenerationInterval p \<noteq> 0 then Inr s
      else if unat (np_NonceQueueSize p) \<le> unat (GetPendingLendingEventCount (nd_chain s)) then Inr s
      else if length (GetOracleParticipantBaseSet s) < OracleParticipantNum s then Inr s
      else Inr (snd (InitiateDKG now ''dlc'' ''nonce'' 30000 (GetOracleParticipants E now s) (np_OracleParticipantThreshold p)
             (np_NonceGenerationBatchSize p) (np_NonceGenerationTimeoutDuration p) s)))"

definition checkOracleParticipantLiveness ::
  "('b, 'e) nenv_scheme \<Rightarrow> int \<Rightarrow> int \<Rightarrow> ('b, 'x) node_scheme \<Rightarrow> ('b, 'x) node_scheme" where
  "checkOracleParticipantLiveness E height now s =
     (if height mod 2000 \<noteq> 0 then s
      else if length (GetOracleParticipantBaseSet s) < OracleParticipantNum s then s
      else snd (InitiateDKG now ''dlc'' ''liveness_check'' 0 (GetRandomOracleParticipants E now s)
             (np_OracleParticipantThreshold (nd_dlc_params s)) 1 (300 * 10 ^ 9) s))"

definition dlc_EndBlocker ::
  "('b, 'e) nenv_scheme \<Rightarrow> int \<Rightarrow> int \<Rightarrow> ('b, 'x) node_scheme \<Rightarrow> ('b, 'x) node_scheme res" where
  "dlc_EndBlocker E height now s =
     bind_res (generateLendingEventNonces E height now s) (\<lambda>s. Inr (checkOracleParticipantLiveness E height now s))"

section \<open>Callbacks\<close>

definition DKGCompletionReceivedHandler :: "int \<Rightarrow> u64 \<Rightarrow> string \<Rightarrow> string \<Rightarrow> ('b, 'x) node_scheme \<Rightarrow> ('b, 'x) node_scheme" where
  "DKGCompletionReceivedHandler height i ty p s =
     (if (ty = ''nonce'' \<or> ty = ''liveness_check'') \<and> HasOracleParticipantLiveness s p
      then SetOracleParticipantLiveness ((GetOracleParticipantLiveness s p)\<lparr>lv_IsAlive := True, lv_LastDkgId := i,
             lv_LastBlockHeight := height\<rparr>) s
      else s)"

definition absent_step :: "u64 \<Rightarrow> string \<Rightarrow> ('b, 'x) node_scheme \<Rightarrow> ('b, 'x) node_scheme" where
  "absent_step i p s =
     (if HasOracleParticipantLiveness s p then
        let l = GetOracleParticipantLiveness s p in
        if i < lv_LastDkgId l then s else SetOracleParticipantLiveness (l\<lparr>lv_IsAlive := False\<rparr>) s
      else s)"

definition DKGTimeoutHandler :: "u64 \<Rightarrow> string \<Rightarrow> string list \<Rightarrow> ('b, 'x) node_scheme \<Rightarrow> ('b, 'x) node_scheme" where
  "DKGTimeoutHandler i ty absent s =
     (if ty = ''nonce'' \<or> ty = ''liveness_check'' then
        if length absent = length (dk_Participants (GetDKGRequest s i)) then s else fold (absent_step i) absent s
      else s)"

text \<open>
  The end blocker of the threshold-signing module keeps what a callback has written before it fails. The
  callback of a completed key generation is therefore given with its effects: the state and the error.
\<close>

fun fold_until :: "('a \<Rightarrow> 's \<Rightarrow> 's res) \<Rightarrow> 'a list \<Rightarrow> 's \<Rightarrow> 's \<times> error option" where
  "fold_until f [] s = (s, None)"
| "fold_until f (x # xs) s = (case f x s of Inl e \<Rightarrow> (s, Some e) | Inr s \<Rightarrow> fold_until f xs s)"

definition DKGCompletedEffects ::
  "int \<Rightarrow> u64 \<Rightarrow> string \<Rightarrow> int \<Rightarrow> string list \<Rightarrow> ('b, 'x) dlc_scheme \<Rightarrow> ('b, 'x) dlc_scheme \<times> error option" where
  "DKGCompletedEffects now i ty intent pks s =
     (if ty = ''dcm'' then
        (case pks of [] \<Rightarrow> (s, Some Panic)
         | pk # _ \<Rightarrow> (case CreateDCM now i pk s of Inl e \<Rightarrow> (s, Some e) | Inr s \<Rightarrow> (s, None)))
      else if ty = ''nonce'' then
        (case pks of [] \<Rightarrow> (s, Some Panic)
         | pk # nonces \<Rightarrow> (case CreateOracle now i pk s of Inl e \<Rightarrow> (s, Some e)
             | Inr s \<Rightarrow> fold_until (HandleNonce now pk intent) nonces s))
      else (s, None))"

lemma fold_until_None: "fold_until f xs s = (s', None) \<longleftrightarrow> fold_res f xs s = Inr s'"
  by (induction xs arbitrary: s) (auto split: sum.splits simp: bind_res_def)

lemma DKGCompletedEffects_None:
  "DKGCompletedEffects now i ty intent pks s = (s', None) \<longleftrightarrow> DKGCompletedHandler now i ty intent pks s = Inr s'"
  by (auto simp: DKGCompletedEffects_def DKGCompletedHandler_def HandleNonces_def bind_res_def fold_until_None
      split: list.splits sum.splits)

section \<open>Genesis\<close>

record dlc_genesis =
  dlg_Params :: dlc_params
  dlg_Events :: "dlc_event list"
  dlg_Attestations :: "dlc_attestation list"

definition dlc_InitGenesis :: "dlc_genesis \<Rightarrow> ('b, 'x) node_scheme \<Rightarrow> ('b, 'x) node_scheme" where
  "dlc_InitGenesis g s =
     (let s = s\<lparr>nd_dlc_params := dlg_Params g\<rparr>;
          s = fold (\<lambda>p. SetOracleParticipantLiveness (fresh_liveness p)) (np_AllowedOracleParticipants (dlg_Params g)) s
      in s\<lparr>nd_chain := fold SetAttestation (dlg_Attestations g) (fold SetEvent (dlg_Events g) (nd_chain s))\<rparr>)"

definition dlc_ExportGenesis :: "('b, 'x) node_scheme \<Rightarrow> dlc_genesis" where
  "dlc_ExportGenesis s = \<lparr>dlg_Params = nd_dlc_params s, dlg_Events = GetAllEvents (nd_chain s),
     dlg_Attestations = map snd (dl_attestations (nd_chain s))\<rparr>"

end
