(* ===== verification/Tss_Msgs.thy ===== *)
theory Tss_Msgs
  imports Dlc_Oracles
begin

text \<open>
  The messages of the threshold-signing module (\<open>x/tss/keeper/msg_server.go\<close>), the verification of signatures
  (\<open>keeper/signing.go\<close>), its end blocker (\<open>module/abci.go\<close>) and its genesis. The callbacks are those
  that \<open>app.go\<close> and the keepers register: the key generation calls the DLC module, a
  completed signing request calls the DLC, lending or liquidation module that made it; another module has
  no handler, and the call of a nil function panics.
\<close>

section \<open>Signatures\<close>

definition SchnorrSignatureSize :: nat where
  "SchnorrSignatureSize = 64"

definition SchnorrAdaptorSignatureSize :: nat where
  "SchnorrAdaptorSignatureSize = 65"

text \<open>One signature of a request; options that are missing are dereferenced.\<close>

definition verify_one :: "('b, 'e) nenv_scheme \<Rightarrow> signing_request \<Rightarrow> string \<times> string \<Rightarrow> unit res" where
  "verify_one E r = (\<lambda>(signature, hash64).
     let sig = fst (hex_decode signature); h = fst (b64_decode hash64); pk = fst (hex_decode (sr_PubKey r)) in
     case sr_Type r of
       SIGNING_TYPE_SCHNORR \<Rightarrow>
         if length sig \<noteq> SchnorrSignatureSize then Inl tss_ErrInvalidSignature
         else if \<not> schnorr_verify E sig h pk then Inl tss_ErrInvalidSignature else Inr ()
     | SIGNING_TYPE_SCHNORR_WITH_TWEAK \<Rightarrow>
         if length sig \<noteq> SchnorrSignatureSize then Inl tss_ErrInvalidSignature
         else (case sr_Options r of None \<Rightarrow> Inl Panic | Some opts \<Rightarrow>
         bind_res (taproot_output_key E pk (fst (hex_decode (so_Tweak opts)))) (\<lambda>tweaked.
         if \<not> schnorr_verify E sig h tweaked then Inl tss_ErrInvalidSignature else Inr ()))
     | SIGNING_TYPE_SCHNORR_WITH_COMMITMENT \<Rightarrow>
         if length sig \<noteq> SchnorrSignatureSize then Inl tss_ErrInvalidSignature
         else (case sr_Options r of None \<Rightarrow> Inl Panic | Some opts \<Rightarrow>
         if take 32 sig \<noteq> fst (hex_decode (so_Nonce opts)) then Inl tss_ErrInvalidSignature
         else if \<not> schnorr_verify E sig h pk then Inl tss_ErrInvalidSignature else Inr ())
     | SIGNING_TYPE_SCHNORR_ADAPTOR \<Rightarrow>
         if length sig \<noteq> SchnorrAdaptorSignatureSize then Inl tss_ErrInvalidSignature
         else (case sr_Options r of None \<Rightarrow> Inl Panic | Some opts \<Rightarrow>
         if \<not> adaptor_verify E sig h pk (fst (hex_decode (so_AdaptorPoint opts))) then Inl tss_ErrInvalidSignature
         else Inr ()))"

definition VerifySignatures :: "('b, 'e) nenv_scheme \<Rightarrow> signing_request \<Rightarrow> string list \<Rightarrow> unit res" where
  "VerifySignatures E r sigs =
     (if length sigs \<noteq> length (sr_SigHashes r) then Inl tss_ErrInvalidSignatures
      else fold_res (\<lambda>x _. verify_one E r x) (zip sigs (sr_SigHashes r)) ())"

section \<open>Validation\<close>

definition sig_hex_ok :: "nat list \<Rightarrow> string \<Rightarrow> bool" where
  "sig_hex_ok sizes sig \<longleftrightarrow> snd (hex_decode sig) \<and> length (fst (hex_decode sig)) \<in> set sizes"

record msg_complete_dkg =
  mcp_Sender :: string
  mcp_Id :: u64
  mcp_PubKeys :: "string list"
  mcp_ConsensusPubkey :: string
  mcp_Signature :: string

definition MsgCompleteDKG_ValidateBasic :: "('b, 'e) nenv_scheme \<Rightarrow> msg_complete_dkg \<Rightarrow> unit res" where
  "MsgCompleteDKG_ValidateBasic E m =
     (if \<not> bech32_ok E (mcp_Sender m) then Inl ErrBech32Addr
      else if mcp_PubKeys m = [] then Inl tss_ErrInvalidPubKeys
      else if \<not> list_all (\<lambda>pk. snd (hex_decode pk) \<and> pubkey_ok E (fst (hex_decode pk))) (mcp_PubKeys m) then Inl tss_ErrInvalidPubKey
      else if \<not> consensus_key_ok (mcp_ConsensusPubkey m) then Inl tss_ErrInvalidPubKey
      else if \<not> sig_hex_ok [64] (mcp_Signature m) then Inl tss_ErrInvalidSignature
      else Inr ())"

record msg_complete_refreshing =
  mcr_Sender :: string
  mcr_Id :: u64
  mcr_ConsensusPubkey :: string
  mcr_Signature :: string

definition MsgCompleteRefreshing_ValidateBasic :: "('b, 'e) nenv_scheme \<Rightarrow> msg_complete_refreshing \<Rightarrow> unit res" where
  "MsgCompleteRefreshing_ValidateBasic E m =
     (if \<not> bech32_ok E (mcr_Sender m) then Inl ErrBech32Addr
      else if \<not> consensus_key_ok (mcr_ConsensusPubkey m) then Inl tss_ErrInvalidPubKey
      else if \<not> sig_hex_ok [64] (mcr_Signature m) then Inl tss_ErrInvalidSignature
      else Inr ())"

record msg_refresh =
  mrf_Authority :: string
  mrf_DkgIds :: "u64 list"
  mrf_RemovedParticipants :: "string list"
  mrf_TimeoutDuration :: int

definition MsgRefresh_ValidateBasic :: "('b, 'e) nenv_scheme \<Rightarrow> msg_refresh \<Rightarrow> unit res" where
  "MsgRefresh_ValidateBasic E m =
     (if \<not> bech32_ok E (mrf_Authority m) then Inl ErrBech32Addr
      else if mrf_DkgIds m = [] then Inl tss_ErrInvalidDKGs
      else if mrf_RemovedParticipants m = [] then Inl tss_ErrInvalidParticipants
      else bind_res (check_keys tss_ErrInvalidParticipants (mrf_RemovedParticipants m)) (\<lambda>_.
      if mrf_TimeoutDuration m < 0 then Inl tss_ErrInvalidTimeoutDuration else Inr ()))"

definition MsgSubmitSignatures_ValidateBasic :: "('b, 'e) nenv_scheme \<Rightarrow> string \<Rightarrow> string list \<Rightarrow> unit res" where
  "MsgSubmitSignatures_ValidateBasic E sender sigs =
     (if \<not> bech32_ok E sender then Inl ErrBech32Addr
      else if sigs = [] then Inl tss_ErrInvalidSignatures
      else if \<not> list_all (sig_hex_ok [SchnorrSignatureSize, SchnorrAdaptorSignatureSize]) sigs then Inl tss_ErrInvalidSignature
      else Inr ())"

section \<open>Messages\<close>

definition tss_CompleteDKG ::
  "('b, 'e) nenv_scheme \<Rightarrow> int \<Rightarrow> int \<Rightarrow> msg_complete_dkg \<Rightarrow> ('b, 'x) node_scheme \<Rightarrow> ('b, 'x) node_scheme res" where
  "tss_CompleteDKG E height now m s =
     bind_res (MsgCompleteDKG_ValidateBasic E m) (\<lambda>_.
     bind_res (CompleteDKG E now (mcp_Sender m) (mcp_Id m) (mcp_PubKeys m) (mcp_ConsensusPubkey m) (mcp_Signature m) s) (\<lambda>s.
     let r = GetDKGRequest s (mcp_Id m) in
     if dk_Module r = ''dlc'' then Inr (DKGCompletionReceivedHandler height (dk_Id r) (dk_Type r) (mcp_ConsensusPubkey m) s)
     else Inl Panic))"

text \<open>The handler of a completed signing request.\<close>

definition signing_handler ::
  "('b, 'e) nenv_scheme \<Rightarrow> int \<Rightarrow> signing_request \<Rightarrow> string list \<Rightarrow> 'b lending \<Rightarrow> 'b lending res" where
  "signing_handler E now r sigs s =
     (if sr_Module r = ''dlc'' then dlc_SigningCompletedHandler now (sr_ScopedId r) sigs s
      else if sr_Module r = ''lending'' then lending_SigningCompletedHandler E (sr_ScopedId r) (sr_Intent r) sigs s
      else if sr_Module r = ''liquidation'' then liquidation_SigningCompletedHandler E (sr_ScopedId r) sigs s
      else Inl Panic)"

definition SubmitSignatures ::
  "('b, 'e) nenv_scheme \<Rightarrow> int \<Rightarrow> string \<Rightarrow> u64 \<Rightarrow> string list \<Rightarrow> ('b, 'x) node_scheme \<Rightarrow> ('b, 'x) node_scheme res" where
  "SubmitSignatures E now sender i sigs s =
     bind_res (MsgSubmitSignatures_ValidateBasic E sender sigs) (\<lambda>_.
     if \<not> HasSigningRequest (nd_chain s) i then Inl tss_ErrSigningRequestDoesNotExist
     else let r = GetSigningRequest (nd_chain s) i in
     if sr_Status r \<noteq> SIGNING_PENDING then Inl tss_ErrInvalidSigningStatus
     else bind_res (VerifySignatures E r sigs) (\<lambda>_.
     bind_res (signing_handler E now r sigs (nd_chain s)) (\<lambda>c.
     Inr (s\<lparr>nd_chain := SetSigningRequest (r\<lparr>sr_Status := SIGNING_SIGNED\<rparr>) c\<rparr>))))"

definition refresh_one ::
  "int \<Rightarrow> msg_refresh \<Rightarrow> u64 \<Rightarrow> ('b, 'x) node_scheme \<Rightarrow> ('b, 'x) node_scheme res" where
  "refresh_one now m i s =
     (if \<not> HasDKGRequest s i then Inl tss_ErrDKGRequestDoesNotExist
      else let r = GetDKGRequest s i in
      if dk_Status r \<noteq> DKG_COMPLETED then Inl tss_ErrInvalidDKGStatus
      else let n = int (length (dk_Participants r)) - int (length (mrf_RemovedParticipants m)) in
      if n < MinDKGParticipantNum then Inl tss_ErrInvalidParticipants
      else if word_of_int n < dk_Threshold r then Inl tss_ErrInvalidParticipants
      else if \<not> set (mrf_RemovedParticipants m) \<subseteq> set (dk_Participants r) then Inl tss_ErrInvalidParticipants
      else Inr (snd (InitiateRefreshingRequest now i (mrf_RemovedParticipants m) (mrf_TimeoutDuration m) s)))"

definition Refresh ::
  "('b, 'e) nenv_scheme \<Rightarrow> string \<Rightarrow> int \<Rightarrow> msg_refresh \<Rightarrow> ('b, 'x) node_scheme \<Rightarrow> ('b, 'x) node_scheme res" where
  "Refresh E authority now m s =
     (if authority \<noteq> mrf_Authority m then Inl ErrGovInvalidSigner
      else bind_res (MsgRefresh_ValidateBasic E m) (\<lambda>_. fold_res (refresh_one now m) (mrf_DkgIds m) s))"

definition tss_CompleteRefreshing ::
  "('b, 'e) nenv_scheme \<Rightarrow> int \<Rightarrow> msg_complete_refreshing \<Rightarrow> ('b, 'x) node_scheme \<Rightarrow> ('b, 'x) node_scheme res" where
  "tss_CompleteRefreshing E now m s =
     bind_res (MsgCompleteRefreshing_ValidateBasic E m) (\<lambda>_.
     CompleteRefreshing E now (mcr_Sender m) (mcr_Id m) (mcr_ConsensusPubkey m) (mcr_Signature m) s)"

section \<open>The end blocker\<close>

definition expired :: "int \<Rightarrow> int \<Rightarrow> bool" where
  "expired now t \<longleftrightarrow> t \<noteq> zero_time \<and> t \<le> now"

definition handle_dkg :: "int \<Rightarrow> dkg_request \<Rightarrow> ('b, 'x) node_scheme \<Rightarrow> ('b, 'x) node_scheme res" where
  "handle_dkg now r s =
     (if expired now (dk_ExpirationTime r) then
        let r = r\<lparr>dk_Status := DKG_TIMEDOUT\<rparr>; s = SetDKGRequest r s in
        if dk_Module r = ''dlc'' then Inr (DKGTimeoutHandler (dk_Id r) (dk_Type r) (GetAbsentDKGParticipants s r) s)
        else Inl Panic
      else let cs = GetDKGCompletions s (dk_Id r) in
      if length cs \<noteq> length (dk_Participants r) then Inr s
      else if \<not> CheckDKGCompletions cs then Inr (SetDKGRequest (r\<lparr>dk_Status := DKG_FAILED\<rparr>) s)
      else if dk_Module r \<noteq> ''dlc'' then Inl Panic
      else (case DKGCompletedEffects now (dk_Id r) (dk_Type r) (dk_Intent r) (dkc_PubKeys (hd cs)) (nd_chain s) of
              (_, Some Panic) \<Rightarrow> Inl Panic
            | (c, Some _) \<Rightarrow> Inr (SetDKGRequest (r\<lparr>dk_Status := DKG_FAILED\<rparr>) (s\<lparr>nd_chain := c\<rparr>))
            | (c, None) \<Rightarrow> Inr (SetDKGRequest (r\<lparr>dk_Status := DKG_COMPLETED\<rparr>) (s\<lparr>nd_chain := c\<rparr>))))"

definition handleDKGRequests :: "int \<Rightarrow> ('b, 'x) node_scheme \<Rightarrow> ('b, 'x) node_scheme res" where
  "handleDKGRequests now s = fold_res (handle_dkg now) (GetPendingDKGRequests s) s"

definition handle_refreshing :: "int \<Rightarrow> refreshing_request \<Rightarrow> ('b, 'x) node_scheme \<Rightarrow> ('b, 'x) node_scheme" where
  "handle_refreshing now r s =
     (if expired now (rfr_ExpirationTime r) then SetRefreshingRequest (r\<lparr>rfr_Status := REFRESHING_TIMEDOUT\<rparr>) s
      else if length (GetRefreshingCompletions s (rfr_Id r)) \<noteq> length (GetRefreshingParticipants s r) then s
      else let r = r\<lparr>rfr_Status := REFRESHING_COMPLETED\<rparr>; s = SetRefreshingRequest r s in
      SetDKGRequest ((GetDKGRequest s (rfr_DkgId r))\<lparr>dk_Participants := GetRefreshingParticipants s r\<rparr>) s)"

definition handleRefreshingRequests :: "int \<Rightarrow> ('b, 'x) node_scheme \<Rightarrow> ('b, 'x) node_scheme" where
  "handleRefreshingRequests now s = fold (handle_refreshing now) (GetPendingRefreshingRequests s) s"

definition tss_EndBlocker :: "int \<Rightarrow> ('b, 'x) node_scheme \<Rightarrow> ('b, 'x) node_scheme res" where
  "tss_EndBlocker now s = bind_res (handleDKGRequests now s) (\<lambda>s. Inr (handleRefreshingRequests now s))"

section \<open>Genesis\<close>

record tss_genesis =
  tsg_Params :: tss_params
  tsg_DkgRequests :: "dkg_request list"
  tsg_SigningRequests :: "signing_request list"

definition tss_InitGenesis :: "tss_genesis \<Rightarrow> ('b, 'x) node_scheme \<Rightarrow> ('b, 'x) node_scheme" where
  "tss_InitGenesis g s =
     (let s = fold SetDKGRequest (tsg_DkgRequests g) (s\<lparr>nd_tss_params := tsg_Params g\<rparr>)
      in s\<lparr>nd_chain := fold SetSigningRequest (tsg_SigningRequests g) (nd_chain s)\<rparr>)"

definition tss_ExportGenesis :: "('b, 'x) node_scheme \<Rightarrow> tss_genesis" where
  "tss_ExportGenesis s = \<lparr>tsg_Params = nd_tss_params s, tsg_DkgRequests = GetAllDKGRequests s,
     tsg_SigningRequests = GetAllSigningRequests (nd_chain s)\<rparr>"

end
