(* ===== verification/Bridge_Msgs.thy ===== *)
theory Bridge_Msgs
  imports Bridge_Keys Tss_Msgs
begin

text \<open>
  The messages of the bridge (\<open>types/msg_*.go\<close> and \<open>keeper/msg_server.go\<close>). The fields of a message are the
  arguments of its handler; the validation is the first step of the handler. \<open>gov\<close> is the authority of the keeper.
\<close>

abbreviation "btcbridge_ErrInvalidBtcAddress \<equiv> Registered ''btcbridge'' 3101"
abbreviation "btcbridge_ErrInvalidFeeRate \<equiv> Registered ''btcbridge'' 3103"
abbreviation "ErrInvalidRequest \<equiv> Registered ''sdk'' 18"

section \<open>Validation\<close>

definition MsgSubmitDeposit_ValidateBasic ::
  "('b, 'e) benv_scheme \<Rightarrow> string \<Rightarrow> string \<Rightarrow> string \<Rightarrow> string \<Rightarrow> string list \<Rightarrow> unit res" where
  "MsgSubmitDeposit_ValidateBasic E sender blockHash prevTx tx proof =
     (if \<not> bech32_ok E sender then Inl ErrBech32Addr
      else if blockHash = [] \<or> prevTx = [] \<or> tx = [] \<or> proof = [] then Inl ErrInvalidBtcTransaction else Inr ())"

definition MsgSubmitWithdraw_ValidateBasic ::
  "('b, 'e) benv_scheme \<Rightarrow> string \<Rightarrow> string \<Rightarrow> string \<Rightarrow> string list \<Rightarrow> unit res" where
  "MsgSubmitWithdraw_ValidateBasic E sender blockHash tx proof =
     (if \<not> bech32_ok E sender then Inl ErrBech32Addr
      else if blockHash = [] \<or> tx = [] \<or> proof = [] then Inl ErrInvalidBtcTransaction else Inr ())"

definition MsgSubmitFeeRate_ValidateBasic :: "('b, 'e) benv_scheme \<Rightarrow> string \<Rightarrow> int \<Rightarrow> unit res" where
  "MsgSubmitFeeRate_ValidateBasic E sender rate =
     (if \<not> bech32_ok E sender then Inl ErrBech32Addr else if rate \<le> 0 then Inl btcbridge_ErrInvalidFeeRate else Inr ())"

definition MsgUpdateTrusted_ValidateBasic :: "error \<Rightarrow> ('b, 'e) benv_scheme \<Rightarrow> string \<Rightarrow> string list \<Rightarrow> unit res" where
  "MsgUpdateTrusted_ValidateBasic err E sender as =
     (if \<not> bech32_ok E sender then Inl ErrBech32Addr
      else if as = [] then Inl err
      else if \<not> list_all (bech32_ok E) as then Inl ErrBech32Addr else Inr ())"

definition MsgWithdrawToBitcoin_ValidateBasic :: "('b, 'e) benv_scheme \<Rightarrow> string \<Rightarrow> string \<Rightarrow> unit res" where
  "MsgWithdrawToBitcoin_ValidateBasic E sender amount =
     (if \<not> bech32_ok E sender then Inl ErrBech32Addr
      else if \<not> valid_btc_address E sender then Inl btcbridge_ErrInvalidBtcAddress
      else bind_res (parse_coin E amount) (\<lambda>_. Inr ()))"

definition MsgSubmitSignatures_ValidateBasic :: "('b, 'e) benv_scheme \<Rightarrow> string \<Rightarrow> string \<Rightarrow> string list \<Rightarrow> unit res" where
  "MsgSubmitSignatures_ValidateBasic E sender txid sigs =
     (if \<not> bech32_ok E sender then Inl ErrBech32Addr
      else if txid = [] \<or> \<not> hash_ok E txid then Inl ErrInvalidTxHash
      else if sigs = [] then Inl btcbridge_ErrInvalidSignatures
      else if \<not> list_all (hex_sig_ok (signature_ok E)) sigs then Inl btcbridge_ErrInvalidSignature else Inr ())"

definition ensureRunesConsolidations :: "('b, 'e) benv_scheme \<Rightarrow> runes_consolidation list \<Rightarrow> unit res" where
  "ensureRunesConsolidations E cs = fold_res (\<lambda>c _.
     bind_res (RuneId_FromString (rc_RuneId c)) (\<lambda>_.
     case u128_parse E (rc_TargetThreshold c) of
       None \<Rightarrow> Inl ErrInvalidConsolidation
     | Some n \<Rightarrow> if n = 0 then Inl ErrInvalidConsolidation else Inr ())) cs ()"

definition MsgConsolidateVaults_ValidateBasic ::
  "('b, 'e) benv_scheme \<Rightarrow> string \<Rightarrow> (int \<times> u32) option \<Rightarrow> runes_consolidation list \<Rightarrow> unit res" where
  "MsgConsolidateVaults_ValidateBasic E signer btc runes =
     (if \<not> bech32_ok E signer then Inl ErrBech32Addr
      else if btc = None \<and> runes = [] then Inl ErrInvalidConsolidation
      else bind_res (case btc of Some (t, _) \<Rightarrow> if t \<le> 0 then Inl ErrInvalidConsolidation else Inr () | None \<Rightarrow> Inr ()) (\<lambda>_.
        if runes = [] then Inr () else ensureRunesConsolidations E runes))"

definition MsgInitiateDKG_participant ::
  "('b, 'e) benv_scheme \<Rightarrow> bridge_participant \<Rightarrow> string list \<Rightarrow> string list res" where
  "MsgInitiateDKG_participant E p seen =
     (if MaxMonikerLength E < length (bpt_Moniker p) then Inl btcbridge_ErrInvalidDKGParams
      else if bpt_OperatorAddress p \<noteq> [] \<and> \<not> val_bech32_ok E (bpt_OperatorAddress p) then Inl ErrBech32Addr
      else if \<not> consensus_key_ok (bpt_ConsensusPubkey p) then Inl btcbridge_ErrInvalidDKGParams
      else if bpt_ConsensusPubkey p \<in> set seen then Inl btcbridge_ErrInvalidDKGParams
      else Inr (bpt_ConsensusPubkey p # seen))"

definition btcbridge_MsgInitiateDKG_ValidateBasic ::
  "('b, 'e) benv_scheme \<Rightarrow> string \<Rightarrow> bridge_participant list \<Rightarrow> u32 \<Rightarrow> asset_type list \<Rightarrow> bool \<Rightarrow> u32 \<Rightarrow> unit res" where
  "btcbridge_MsgInitiateDKG_ValidateBasic E signer ps threshold ts enable target =
     (if \<not> bech32_ok E signer then Inl ErrBech32Addr
      else bind_res (wrap_err btcbridge_ErrInvalidDKGParams (CheckDKGParticipantNum (int (length ps)))) (\<lambda>_.
      bind_res (wrap_err btcbridge_ErrInvalidDKGParams (CheckDKGThreshold (int (length ps)) (uint threshold))) (\<lambda>_.
      bind_res (fold_res (MsgInitiateDKG_participant E) ps []) (\<lambda>_.
      if ts \<noteq> SupportedAssetTypes then Inl btcbridge_ErrInvalidDKGParams
      else if enable \<and> target = 0 then Inl btcbridge_ErrInvalidDKGParams else Inr ()))))"

definition Ed25519SignatureSize :: nat where
  "Ed25519SignatureSize = 64"

definition btcbridge_MsgCompleteDKG_ValidateBasic :: "('b, 'e) benv_scheme \<Rightarrow> bridge_dkg_completion \<Rightarrow> unit res" where
  "btcbridge_MsgCompleteDKG_ValidateBasic E c =
     (if \<not> bech32_ok E (bc_Sender c) then Inl ErrBech32Addr
      else if bc_Vaults c = [] then Inl ErrInvalidDKGCompletionRequest
      else if \<not> list_all (bech32_ok E) (bc_Vaults c) \<or> \<not> distinct (bc_Vaults c) then Inl ErrInvalidDKGCompletionRequest
      else if \<not> consensus_key_ok (bc_ConsensusPubkey c) then Inl ErrInvalidDKGCompletionRequest
      else if \<not> sig_hex_ok [Ed25519SignatureSize] (bc_Signature c) then Inl ErrInvalidDKGCompletionRequest
      else Inr ())"

definition btcbridge_MsgRefresh_ValidateBasic ::
  "('b, 'e) benv_scheme \<Rightarrow> string \<Rightarrow> u64 list \<Rightarrow> string list \<Rightarrow> int \<Rightarrow> unit res" where
  "btcbridge_MsgRefresh_ValidateBasic E signer ids removed timeout =
     (if \<not> bech32_ok E signer then Inl ErrBech32Addr
      else if ids = [] then Inl btcbridge_ErrInvalidDKGs
      else if removed = [] then Inl btcbridge_ErrInvalidParticipants
      else if \<not> list_all consensus_key_ok removed \<or> \<not> distinct removed then Inl btcbridge_ErrInvalidParticipants
      else if timeout < 0 then Inl btcbridge_ErrInvalidTimeoutDuration else Inr ())"

definition btcbridge_MsgCompleteRefreshing_ValidateBasic ::
  "('b, 'e) benv_scheme \<Rightarrow> string \<Rightarrow> string \<Rightarrow> string \<Rightarrow> unit res" where
  "btcbridge_MsgCompleteRefreshing_ValidateBasic E sender k sig =
     (if \<not> bech32_ok E sender then Inl ErrBech32Addr
      else if \<not> consensus_key_ok k then Inl btcbridge_ErrInvalidPubKey
      else if \<not> sig_hex_ok [Ed25519SignatureSize] sig then Inl btcbridge_ErrInvalidSignature else Inr ())"

definition transfer_psbt_ok :: "('b, 'e) benv_scheme \<Rightarrow> string \<Rightarrow> unit res" where
  "transfer_psbt_ok E b64 =
     bind_res (psbt_parse E b64) (\<lambda>p.
     bind_res (btcbridge_CheckTransactionWeight E (ps_Tx p) []) (\<lambda>_.
     bind_res (fold_res (\<lambda>(ti, pi) _.
         if ti_Sequence ti \<noteq> MagicSequence then Inl ErrInvalidPsbt
         else case pi of None \<Rightarrow> Inl Panic | Some pi \<Rightarrow> if pi_SighashType pi \<noteq> DefaultSigHashType then Inl ErrInvalidPsbt else Inr ())
       (zip (mt_TxIn (ps_Tx p)) (map Some (ps_Inputs p) @ replicate (length (mt_TxIn (ps_Tx p))) None)) ()) (\<lambda>_.
     if list_ex (btcbridge_IsDustOut E) (mt_TxOut (ps_Tx p)) then Inl btcbridge_ErrDustOutput else Inr ())))"

definition MsgTransferVault_ValidateBasic ::
  "('b, 'e) benv_scheme \<Rightarrow> string \<Rightarrow> u64 \<Rightarrow> u64 \<Rightarrow> asset_type \<Rightarrow> string list \<Rightarrow> u32 \<Rightarrow> unit res" where
  "MsgTransferVault_ValidateBasic E signer src dest t psbts target =
     (if \<not> bech32_ok E signer then Inl ErrBech32Addr
      else if src = dest then Inl ErrInvalidVaultVersion
      else if t = ASSET_UNSPECIFIED then Inl ErrInvalidRequest
      else bind_res (fold_res (\<lambda>b _. transfer_psbt_ok E b) psbts ()) (\<lambda>_.
      if psbts = [] \<and> target = 0 then Inl ErrInvalidRequest else Inr ()))"

section \<open>Deposits and withdrawals\<close>

definition btcbridge_SubmitDepositTransaction ::
  "('b, 'e) benv_scheme \<Rightarrow> int \<Rightarrow> string \<Rightarrow> string \<Rightarrow> string \<Rightarrow> string \<Rightarrow> string list \<Rightarrow> ('b, 'x) bridge_scheme \<Rightarrow>
   ('b, 'x) bridge_scheme res" where
  "btcbridge_SubmitDepositTransaction E now sender blockHash prevTx tx proof s =
     bind_res (MsgSubmitDeposit_ValidateBasic E sender blockHash prevTx tx proof) (\<lambda>_.
     if \<not> bp_DepositEnabled (GetParams s) then Inl ErrDepositNotEnabled
     else ProcessBitcoinDepositTransaction E now sender tx prevTx blockHash proof s)"

definition SubmitWithdrawTransaction ::
  "('b, 'e) benv_scheme \<Rightarrow> string \<Rightarrow> string \<Rightarrow> string \<Rightarrow> string list \<Rightarrow> ('b, 'x) bridge_scheme \<Rightarrow> ('b, 'x) bridge_scheme res" where
  "SubmitWithdrawTransaction E sender blockHash tx proof s =
     bind_res (MsgSubmitWithdraw_ValidateBasic E sender blockHash tx proof) (\<lambda>_.
     ProcessBitcoinWithdrawTransaction E tx blockHash proof s)"

definition SubmitFeeRate ::
  "('b, 'e) benv_scheme \<Rightarrow> int \<Rightarrow> string \<Rightarrow> int \<Rightarrow> ('b, 'x) bridge_scheme \<Rightarrow> ('b, 'x) bridge_scheme res" where
  "SubmitFeeRate E height sender rate s =
     bind_res (MsgSubmitFeeRate_ValidateBasic E sender rate) (\<lambda>_.
     if \<not> IsTrustedFeeProvider s sender then Inl ErrUntrustedFeeProvider else Inr (SetFeeRate height rate s))"

definition UpdateTrustedNonBtcRelayers ::
  "('b, 'e) benv_scheme \<Rightarrow> string \<Rightarrow> string list \<Rightarrow> ('b, 'x) bridge_scheme \<Rightarrow> ('b, 'x) bridge_scheme res" where
  "UpdateTrustedNonBtcRelayers E sender as s =
     bind_res (MsgUpdateTrusted_ValidateBasic ErrInvalidRelayers E sender as) (\<lambda>_.
     if \<not> IsTrustedNonBtcRelayer s sender then Inl ErrUntrustedNonBtcRelayer
     else Inr (SetParams ((GetParams s)\<lparr>bp_TrustedNonBtcRelayers := as\<rparr>) s))"

definition UpdateTrustedFeeProviders ::
  "('b, 'e) benv_scheme \<Rightarrow> string \<Rightarrow> string list \<Rightarrow> ('b, 'x) bridge_scheme \<Rightarrow> ('b, 'x) bridge_scheme res" where
  "UpdateTrustedFeeProviders E sender as s =
     bind_res (MsgUpdateTrusted_ValidateBasic ErrInvalidFeeProviders E sender as) (\<lambda>_.
     if \<not> IsTrustedFeeProvider s sender then Inl ErrUntrustedFeeProvider
     else Inr (SetParams ((GetParams s)\<lparr>bp_TrustedFeeProviders := as\<rparr>) s))"

definition WithdrawToBitcoin ::
  "('b, 'e) benv_scheme \<Rightarrow> int \<Rightarrow> int \<Rightarrow> string \<Rightarrow> string \<Rightarrow> ('b, 'x) bridge_scheme \<Rightarrow>
   (withdraw_request \<times> ('b, 'x) bridge_scheme) res" where
  "WithdrawToBitcoin E height now sender amount s =
     bind_res (MsgWithdrawToBitcoin_ValidateBasic E sender amount) (\<lambda>_.
     if \<not> bp_WithdrawEnabled (GetParams s) then Inl ErrWithdrawNotEnabled
     else bind_res (parse_coin E amount) (\<lambda>c.
     bind_res (HandleRateLimit sender c s) (\<lambda>s.
     bind_res (if ProtocolWithdrawFeeEnabled s then HandleWithdrawProtocolFee E sender c s else Inr (c, s)) (\<lambda>(c, s).
     HandleWithdrawal E height now sender c s))))"

section \<open>Signatures\<close>

text \<open>The signature of an input is verified with the key in the taproot script of the output it spends.\<close>

definition sign_input :: "('b, 'e) benv_scheme \<Rightarrow> psbt \<Rightarrow> nat \<times> string \<Rightarrow> psbt_input list \<Rightarrow> psbt_input list res" where
  "sign_input E p x is = (case x of (i, signature) \<Rightarrow>
     let pin = ps_Inputs p ! i; sig = fst (hex_decode signature) in
     bind_res (sighash_of E p i (pi_SighashType pin)) (\<lambda>h.
     case pi_WitnessUtxo pin of
       None \<Rightarrow> Inl Panic
     | Some out \<Rightarrow>
       if length (to_PkScript out) < 34 then Inl Panic
       else if \<not> schnorr_verify E sig h (take 32 (drop 2 (to_PkScript out))) then Inl btcbridge_ErrInvalidSignature
       else Inr (is[i := (is ! i)\<lparr>pi_KeySig := sig\<rparr>])))"

definition btcbridge_SubmitSignatures ::
  "('b, 'e) benv_scheme \<Rightarrow> string \<Rightarrow> string \<Rightarrow> string list \<Rightarrow> ('b, 'x) bridge_scheme \<Rightarrow> ('b, 'x) bridge_scheme res" where
  "btcbridge_SubmitSignatures E sender txid sigs s =
     bind_res (MsgSubmitSignatures_ValidateBasic E sender txid sigs) (\<lambda>_.
     case GetSigningRequestByTxHash s txid of
       None \<Rightarrow> Inl btcbridge_ErrSigningRequestDoesNotExist
     | Some q \<Rightarrow>
       if bs_Status q \<noteq> BS_PENDING then Inr s
       else (case psbt_parse E (bs_Psbt q) of
         Inl _ \<Rightarrow> Inl Panic
       | Inr p \<Rightarrow>
         if length sigs \<noteq> length (ps_Inputs p) then Inl btcbridge_ErrInvalidSignatures
         else bind_res (fold_res (sign_input E p) (zip [0..<length sigs] sigs) (ps_Inputs p)) (\<lambda>is.
           bind_res (psbt_finalize E (p\<lparr>ps_Inputs := is\<rparr>)) (\<lambda>p.
           bind_res (encode_psbt E p) (\<lambda>b64.
           Inr (btcbridge_SetSigningRequest (q\<lparr>bs_Psbt := b64, bs_Status := BS_BROADCASTED\<rparr>) s))))))"

section \<open>Vaults and keys\<close>

definition btcbridge_ConsolidateVaults ::
  "('b, 'e) benv_scheme \<Rightarrow> int \<Rightarrow> int \<Rightarrow> string \<Rightarrow> string \<Rightarrow> u64 \<Rightarrow> (int \<times> u32) option \<Rightarrow> runes_consolidation list \<Rightarrow>
   ('b, 'x) bridge_scheme \<Rightarrow> ('b, 'x) bridge_scheme res" where
  "btcbridge_ConsolidateVaults E height now gov signer version btc runes s =
     (if gov \<noteq> signer then Inl ErrGovInvalidSigner
      else bind_res (MsgConsolidateVaults_ValidateBasic E signer btc runes) (\<lambda>_.
        keeper_ConsolidateVaults E height now gov version btc runes s))"

definition btcbridge_TransferVault ::
  "('b, 'e) benv_scheme \<Rightarrow> int \<Rightarrow> int \<Rightarrow> string \<Rightarrow> string \<Rightarrow> u64 \<Rightarrow> u64 \<Rightarrow> asset_type \<Rightarrow> string list \<Rightarrow> u32 \<Rightarrow>
   ('b, 'x) bridge_scheme \<Rightarrow> ('b, 'x) bridge_scheme res" where
  "btcbridge_TransferVault E height now gov signer src dest t psbts target s =
     (if gov \<noteq> signer then Inl ErrGovInvalidSigner
      else bind_res (MsgTransferVault_ValidateBasic E signer src dest t psbts target) (\<lambda>_.
        keeper_TransferVault E height now gov src dest t psbts target s))"

definition msg_InitiateDKG ::
  "('b, 'e) benv_scheme \<Rightarrow> string list \<Rightarrow> int \<Rightarrow> string \<Rightarrow> string \<Rightarrow> bridge_participant list \<Rightarrow> u32 \<Rightarrow> asset_type list \<Rightarrow> bool \<Rightarrow> u32 \<Rightarrow>
   ('b, 'x) bridge_scheme \<Rightarrow> ('b, 'x) bridge_scheme res" where
  "msg_InitiateDKG E allowed now gov signer ps threshold ts enable target s =
     (if gov \<noteq> signer then Inl ErrGovInvalidSigner
      else bind_res (btcbridge_MsgInitiateDKG_ValidateBasic E signer ps threshold ts enable target) (\<lambda>_.
        bind_res (btcbridge_InitiateDKG allowed now ps threshold ts enable target s) (\<lambda>(_, s). Inr s)))"

definition msg_CompleteDKG ::
  "('b, 'e) benv_scheme \<Rightarrow> int \<Rightarrow> bridge_dkg_completion \<Rightarrow> ('b, 'x) bridge_scheme \<Rightarrow> ('b, 'x) bridge_scheme res" where
  "msg_CompleteDKG E now c s =
     bind_res (btcbridge_MsgCompleteDKG_ValidateBasic E c) (\<lambda>_. btcbridge_CompleteDKG E now c s)"

definition bridge_refresh_one ::
  "int \<Rightarrow> string list \<Rightarrow> int \<Rightarrow> u64 \<Rightarrow> ('b, 'x) bridge_scheme \<Rightarrow> ('b, 'x) bridge_scheme res" where
  "bridge_refresh_one now removed timeout dkgId s =
     (if \<not> btcbridge_HasDKGRequest s dkgId then Inl btcbridge_ErrDKGRequestDoesNotExist
      else let r = btcbridge_GetDKGRequest s dkgId; n = int (length (bd_Participants r)) - int (length removed) in
      if bd_Status r \<noteq> DKG_COMPLETED then Inl btcbridge_ErrInvalidDKGStatus
      else if n < MinDKGParticipantNum then Inl btcbridge_ErrInvalidParticipants
      else if word_of_int n < bd_Threshold r then Inl btcbridge_ErrInvalidParticipants
      else if \<not> list_all (btcbridge_ParticipantExists (bd_Participants r)) removed then Inl btcbridge_ErrInvalidParticipants
      else Inr (btcbridge_InitiateRefreshingRequest now dkgId removed timeout s))"

definition btcbridge_Refresh ::
  "('b, 'e) benv_scheme \<Rightarrow> int \<Rightarrow> string \<Rightarrow> string \<Rightarrow> u64 list \<Rightarrow> string list \<Rightarrow> int \<Rightarrow> ('b, 'x) bridge_scheme \<Rightarrow>
   ('b, 'x) bridge_scheme res" where
  "btcbridge_Refresh E now gov signer ids removed timeout s =
     (if gov \<noteq> signer then Inl ErrGovInvalidSigner
      else bind_res (btcbridge_MsgRefresh_ValidateBasic E signer ids removed timeout) (\<lambda>_.
        fold_res (bridge_refresh_one now removed timeout) ids s))"

definition msg_CompleteRefreshing ::
  "('b, 'e) benv_scheme \<Rightarrow> int \<Rightarrow> string \<Rightarrow> u64 \<Rightarrow> string \<Rightarrow> string \<Rightarrow> ('b, 'x) bridge_scheme \<Rightarrow> ('b, 'x) bridge_scheme res" where
  "msg_CompleteRefreshing E now sender n k sig s =
     bind_res (btcbridge_MsgCompleteRefreshing_ValidateBasic E sender k sig) (\<lambda>_. btcbridge_CompleteRefreshing E now sender n k sig s)"

definition btcbridge_UpdateParams ::
  "('b, 'e) benv_scheme \<Rightarrow> string \<Rightarrow> string \<Rightarrow> bridge_params \<Rightarrow> ('b, 'x) bridge_scheme \<Rightarrow> ('b, 'x) bridge_scheme res" where
  "btcbridge_UpdateParams E gov signer p s =
     (if gov \<noteq> signer then Inl ErrGovInvalidSigner
      else if \<not> bech32_ok E signer then Inl ErrBech32Addr
      else bind_res (btcbridge_Params_Validate E p) (\<lambda>_.
      let s = SetParams p s
      in if HasRateLimit s then UpdateRateLimitTotalQuotas E (bp_GlobalSupplyPercentageQuota p) (bp_AddressQuota p) s else Inr s))"

end
