(* ===== verification/Bridge_End.thy ===== *)
theory Bridge_End
  imports Bridge_Msgs
begin

text \<open>
  The end of a block (\<open>module/abci.go\<close>) and the genesis (\<open>module/genesis.go\<close>) of the bridge. An error of a step is logged
  and what the step has written before it stays written; only a panic stops the block.
\<close>

text \<open>The rest \<open>f\<close> of a step after a call whose error ends it.\<close>

definition after_res :: "'s res \<Rightarrow> 's \<Rightarrow> ('s \<Rightarrow> 's res) \<Rightarrow> 's res" where
  "after_res r s f = (case r of Inl e \<Rightarrow> if e = Panic then Inl Panic else Inr s | Inr t \<Rightarrow> f t)"

lemma after_res_Inr: "after_res r s f = Inr u \<longleftrightarrow> (\<exists>e. r = Inl e \<and> e \<noteq> Panic \<and> u = s) \<or> (\<exists>t. r = Inr t \<and> f t = Inr u)"
  by (auto simp: after_res_def split: sum.splits)

section \<open>Withdrawals that came over IBC\<close>

text \<open>The amount to withdraw and the network fee, the error of any of the checks, or a panic.\<close>

definition ibc_withdraw_amount ::
  "('b, 'e) benv_scheme \<Rightarrow> int \<Rightarrow> coin \<Rightarrow> string \<Rightarrow> coin \<Rightarrow> ('b, 'x) bridge_scheme \<Rightarrow> (coin \<times> coin) res" where
  "ibc_withdraw_amount E feeRate protocolFee a amount s =
     (let p = GetParams s
      in if Denom amount \<noteq> BtcDenom s then Inl Panic
      else if spendable E (ch_bank s) (Account a) (BtcDenom s) < Amount amount then Inl (External ''insufficient balance'')
      else bind_res (coin_safe_sub amount protocolFee) (\<lambda>w.
      bind_res (to_int64 (Amount w)) (\<lambda>n.
      if n < bp_BtcMinWithdraw p \<or> bp_BtcMaxWithdraw p < n then Inl ErrInvalidWithdrawAmount
      else bind_res (EstimateWithdrawalNetworkFee E s a w feeRate) (\<lambda>fee.
      bind_res (coin_safe_sub w fee) (\<lambda>w.
      bind_res (to_int64 (Amount w)) (\<lambda>n.
      if n < bp_BtcMinWithdraw p then Inl ErrInvalidWithdrawAmount else Inr (w, fee)))))))"

text \<open>The quota, the burning and the fee, up to the step that fails.\<close>

definition ibc_withdraw_pay ::
  "('b, 'e) benv_scheme \<Rightarrow> coin \<Rightarrow> string \<Rightarrow> coin \<Rightarrow> coin \<times> coin \<Rightarrow> ('b, 'x) bridge_scheme \<Rightarrow> unit res \<times> ('b, 'x) bridge_scheme" where
  "ibc_withdraw_pay E protocolFee a amount wa s =
     (case HandleRateLimit a amount s of
        Inl e \<Rightarrow> (Inl e, s)
      | Inr s \<Rightarrow> (case BurnAsset E a (coin_add_amount (fst wa) (Amount (snd wa))) s of
          (Inl e, s) \<Rightarrow> (Inl e, s)
        | (Inr _, s) \<Rightarrow>
            (case on_bank (\<lambda>b. send_coins E b (Account a) (Account (bp_Collector (GetParams s))) [protocolFee]) s of
               Inl e \<Rightarrow> (Inl e, s)
             | Inr s \<Rightarrow> (Inr (), s))))"

text \<open>Whatever happens the request leaves the queue.\<close>

definition ibc_withdraw_one ::
  "('b, 'e) benv_scheme \<Rightarrow> int \<Rightarrow> coin \<Rightarrow> ibc_withdraw_request \<Rightarrow> ('b, 'x) bridge_scheme \<Rightarrow> ('b, 'x) bridge_scheme res" where
  "ibc_withdraw_one E feeRate protocolFee r s =
     (let a = iw_Address r; dequeue = RemoveFromIBCWithdrawRequestQueue (iw_ChannelId r) (iw_Sequence r) in
      if \<not> bech32_ok E a then Inl Panic
      else case parse_coin E (iw_Amount r) of
        Inl _ \<Rightarrow> Inl Panic
      | Inr amount \<Rightarrow>
        (case ibc_withdraw_amount E feeRate protocolFee a amount s of
           Inl e \<Rightarrow> if e = Panic then Inl Panic else Inr (dequeue s)
         | Inr wa \<Rightarrow>
           (case ibc_withdraw_pay E protocolFee a amount wa s of
              (Inl e, s) \<Rightarrow> if e = Panic then Inl Panic else Inr (dequeue s)
            | (Inr _, s) \<Rightarrow>
                (case NewWithdrawRequest a (coin_string E (fst wa)) s of (q, s) \<Rightarrow>
                   Inr (dequeue (AddToBtcWithdrawRequestQueue q (SetWithdrawRequest q s)))))))"

definition handleIBCWithdrawRequests ::
  "('b, 'e) benv_scheme \<Rightarrow> int \<Rightarrow> ('b, 'x) bridge_scheme \<Rightarrow> ('b, 'x) bridge_scheme res" where
  "handleIBCWithdrawRequests E height s =
     (let p = GetParams s; rs = GetPendingIBCWithdrawRequests s (bp_MaxBtcBatchWithdrawNum p) in
      if rs = [] then Inr s
      else case CheckFeeRate height (GetFeeRate s) s of
        Inl e \<Rightarrow> if e = Panic then Inl Panic else Inr s
      | Inr _ \<Rightarrow>
        bind_res (new_coin E (BtcDenom s) (bp_WithdrawFee p)) (\<lambda>fee.
        if \<not> bech32_ok E (bp_Collector p) then Inl Panic
        else fold_res (ibc_withdraw_one E (fr_Value (GetFeeRate s)) fee) rs s))"

section \<open>The batch of withdrawals\<close>

text \<open>A request gets the transaction of the batch and leaves the queue.\<close>

definition batch_one :: "string \<Rightarrow> withdraw_request \<Rightarrow> ('b, 'x) bridge_scheme \<Rightarrow> ('b, 'x) bridge_scheme" where
  "batch_one h r s = (let r = r\<lparr>wr_Txid := h\<rparr> in RemoveFromBtcWithdrawRequestQueue r (SetWithdrawRequest r s))"

definition handleBtcWithdrawRequests ::
  "('b, 'e) benv_scheme \<Rightarrow> int \<Rightarrow> int \<Rightarrow> ('b, 'x) bridge_scheme \<Rightarrow> ('b, 'x) bridge_scheme res" where
  "handleBtcWithdrawRequests E height now s =
     (let p = GetParams s in
      if \<not> bp_WithdrawEnabled p then Inr s
      else if bp_BtcBatchWithdrawPeriod p = 0 then Inl Panic
      else if height mod bp_BtcBatchWithdrawPeriod p \<noteq> 0 then Inr s
      else let rs = GetPendingBtcWithdrawRequests s (bp_MaxBtcBatchWithdrawNum p) in
      if rs = [] then Inr s
      else case CheckFeeRate height (GetFeeRate s) s of
        Inl e \<Rightarrow> if e = Panic then Inl Panic else Inr s
      | Inr _ \<Rightarrow> (case SelectVaultByAssetType (bp_Vaults p) ASSET_BTC of
          None \<Rightarrow> Inr s
        | Some v \<Rightarrow> (case BuildBtcBatchWithdrawSigningRequest E now rs (fr_Value (GetFeeRate s)) (va_Address v) s of
            Inl e \<Rightarrow> if e = Panic then Inl Panic else Inr s
          | Inr (q, s) \<Rightarrow> Inr (fold (batch_one (bs_Txid q)) rs s))))"

section \<open>The transfer of vaults\<close>

text \<open>
  A completed generation with the transfer enabled moves the assets of the version before its own, first the runes and,
  when none is left, the BTC. The version before the first is \<open>2 ^ 64 - 1\<close>, and has no vaults.
\<close>

definition vault_transfer_one ::
  "('b, 'e) benv_scheme \<Rightarrow> int \<Rightarrow> int \<Rightarrow> string \<Rightarrow> bridge_dkg \<Rightarrow> ('b, 'x) bridge_scheme \<Rightarrow> ('b, 'x) bridge_scheme res" where
  "vault_transfer_one E height now gov r s =
     (if \<not> bd_EnableTransfer r then Inr s
      else case GetDKGCompletionRequests s (bd_Id r) of
        [] \<Rightarrow> Inl Panic
      | c # _ \<Rightarrow> (case bc_Vaults c of
          [] \<Rightarrow> Inl Panic
        | v # _ \<Rightarrow>
          let src = fst (GetVaultVersionByAddress s v) - 1; dest = GetLatestVaultVersion s
          in bind_res (VaultsTransferCompleted s src) (\<lambda>completed.
             if completed then Inr s
             else bind_res (vault_address (GetVaultByAssetTypeAndVersion s ASSET_BTC src)) (\<lambda>bv.
             bind_res (vault_address (GetVaultByAssetTypeAndVersion s ASSET_RUNES src)) (\<lambda>rv.
             after_res (if VaultTransferCompleted s rv then Inr s
                   else keeper_TransferVault E height now gov src dest ASSET_RUNES [] (bd_TargetUtxoNum r) s) s (\<lambda>s.
               if VaultTransferCompleted s rv \<and> \<not> VaultTransferCompleted s bv
               then try_res (keeper_TransferVault E height now gov src dest ASSET_BTC [] (bd_TargetUtxoNum r) s) s
               else Inr s))))))"

definition handleVaultTransfer ::
  "('b, 'e) benv_scheme \<Rightarrow> int \<Rightarrow> int \<Rightarrow> string \<Rightarrow> ('b, 'x) bridge_scheme \<Rightarrow> ('b, 'x) bridge_scheme res" where
  "handleVaultTransfer E height now gov s =
     fold_res (vault_transfer_one E height now gov) (btcbridge_GetDKGRequests s DKG_COMPLETED) s"

section \<open>The end of a block\<close>

definition btcbridge_EndBlocker ::
  "('b, 'e) benv_scheme \<Rightarrow> int \<Rightarrow> int \<Rightarrow> string \<Rightarrow> ('b, 'x) bridge_scheme \<Rightarrow> ('b, 'x) bridge_scheme res" where
  "btcbridge_EndBlocker E height now gov s =
     bind_res (btcbridge_handleDKGRequests now s) (\<lambda>s.
     bind_res (handleIBCWithdrawRequests E height (btcbridge_handleRefreshingRequests now s)) (\<lambda>s.
     bind_res (handleBtcWithdrawRequests E height now s) (\<lambda>s.
     bind_res (updateRateLimit E now s) (\<lambda>s.
     handleVaultTransfer E height now gov s))))"

section \<open>Genesis\<close>

record bridge_genesis =
  bg_Params :: bridge_params
  bg_Utxos :: "bridge_utxo list"
  bg_DkgRequests :: "bridge_dkg list"
  bg_DkgCompletions :: "bridge_dkg_completion list"
  bg_SigningRequests :: "bridge_signing list"
  bg_WithdrawRequests :: "withdraw_request list"
  bg_PendingBtcWithdrawRequests :: "withdraw_request list"
  bg_MintedTxHashes :: "string list"

definition genesis_signing :: "bridge_signing \<Rightarrow> ('b, 'x) bridge_scheme \<Rightarrow> ('b, 'x) bridge_scheme" where
  "genesis_signing q s = snd (IncrementSigningRequestSequence (btcbridge_SetSigningRequest q s))"

definition genesis_withdraw :: "withdraw_request \<Rightarrow> ('b, 'x) bridge_scheme \<Rightarrow> ('b, 'x) bridge_scheme" where
  "genesis_withdraw r s = snd (IncreaseWithdrawRequestSequence (SetWithdrawRequest r s))"

definition genesis_vault_version :: "vault list \<Rightarrow> ('b, 'x) bridge_scheme \<Rightarrow> ('b, 'x) bridge_scheme" where
  "genesis_vault_version vs s = (if vs = [] then s else SetVaultVersion (va_Version (last (sort_key va_Version vs))) s)"

text \<open>Every output is saved as one that may be spent, also a locked one.\<close>

definition btcbridge_InitGenesis ::
  "('b, 'e) benv_scheme \<Rightarrow> int \<Rightarrow> bridge_genesis \<Rightarrow> ('b, 'x) bridge_scheme \<Rightarrow> ('b, 'x) bridge_scheme res" where
  "btcbridge_InitGenesis E now g s =
     bind_res (fold_res (saveUTXO E) (bg_Utxos g) (SetParams (bg_Params g) s)) (\<lambda>s.
     let s = fold (\<lambda>r s. btcbridge_SetDKGRequestID (bd_Id r) (btcbridge_SetDKGRequest r s)) (bg_DkgRequests g) s;
         s = fold SetDKGCompletionRequest (bg_DkgCompletions g) s;
         s = fold genesis_signing (bg_SigningRequests g) s;
         s = fold genesis_withdraw (bg_WithdrawRequests g) s;
         s = fold AddToBtcWithdrawRequestQueue (bg_PendingBtcWithdrawRequests g) s;
         s = fold addToMintHistory (bg_MintedTxHashes g) s;
         s = genesis_vault_version (bp_Vaults (bg_Params g)) s
     in bind_res (NewRateLimit E now s) (\<lambda>r. Inr (SetRateLimit r s)))"

definition btcbridge_ExportGenesis :: "('b, 'x) bridge_scheme \<Rightarrow> bridge_genesis" where
  "btcbridge_ExportGenesis s =
     \<lparr>bg_Params = GetParams s, bg_Utxos = GetAllUTXOs s, bg_DkgRequests = btcbridge_GetAllDKGRequests s,
      bg_DkgCompletions = concat (map (\<lambda>r. GetDKGCompletionRequests s (bd_Id r)) (btcbridge_GetAllDKGRequests s)),
      bg_SigningRequests = btcbridge_GetAllSigningRequests s, bg_WithdrawRequests = GetAllWithdrawRequests s,
      bg_PendingBtcWithdrawRequests = GetPendingBtcWithdrawRequests s 0, bg_MintedTxHashes = GetAllMintHistories s\<rparr>"

end
