(* ===== verification/Bridge_Life.thy ===== *)
theory Bridge_Life
  imports Bridge_End
begin

text \<open>
  How the stores of minted transactions, signing requests and withdrawal requests change. Each operation of
  the bridge relates its states by the preorders \<open>sadv\<close> and \<open>wadv\<close>: minted transactions stay minted, requests are
  numbered by their counters and never removed, their terms stay and their status moves forward. A counter cannot wrap
  while there are fewer requests than numbers, which is what \<open>few\<close> says of the later state. The second part has one lemma for each
  operation that leaves these stores alone: \<open>wview\<close> and \<open>sview\<close> are the parts of the state with the two kinds of requests.
\<close>

section \<open>Counted stores\<close>

definition few :: "('k, 'v) kv \<Rightarrow> bool" where
  "few m \<longleftrightarrow> length m < 2 ^ 64 - 1"

definition counted :: "(u64, 'v) kv \<Rightarrow> u64 \<Rightarrow> bool" where
  "counted m n \<longleftrightarrow> kv_ok m \<and> unat n \<le> length m \<and> (\<forall>k. kv_has m k \<longrightarrow> k \<le> n)"

definition kept :: "('v \<Rightarrow> 'v \<Rightarrow> bool) \<Rightarrow> ('k, 'v) kv \<Rightarrow> ('k, 'v) kv \<Rightarrow> bool" where
  "kept R m m' \<longleftrightarrow> (\<forall>k x. kv_get m k = Some x \<longrightarrow> (\<exists>y. kv_get m' k = Some y \<and> R x y))"

lemma length_kv_set: "kv_ok m \<Longrightarrow> length (kv_set k v m) = (if kv_has m k then length m else Suc (length m))"
proof (induction m)
  case Nil
  then show ?case by simp
next
  case (Cons p m)
  obtain k' v' where p: "p = (k', v')" by fastforce
  have ok: "kv_ok m" using Cons.prems by (simp add: kv_ok_def kv_keys_def)
  show ?case
  proof (cases "k' < k")
    case True
    then show ?thesis using Cons.IH [OF ok] p by (auto simp: kv_has_def kv_get_Cons)
  next
    case False
    then have "kv_get m k = None" using Cons.prems p kv_ok_Cons_absent by fastforce
    then show ?thesis using False p by (auto simp: kv_has_def kv_get_Cons)
  qed
qed

lemma length_kv_set_le: "length m \<le> length (kv_set k v m)"
  by (induction m) auto

lemma counted_add:
  assumes "counted m n" "few (kv_set (n + 1) v m)"
  shows "n \<noteq> - 1" "\<not> kv_has m (n + 1)" "counted (kv_set (n + 1) v m) (n + 1)"
proof -
  show n: "n \<noteq> - 1"
  proof
    assume n: "n = - 1"
    have "unat n = 2 ^ 64 - 1" unfolding n by (simp add: unsigned_minus_1_eq_mask mask_eq_exp_minus_1)
    then have "2 ^ 64 - 1 \<le> length m" using assms(1) by (simp add: counted_def)
    then show False using assms(2) length_kv_set_le [of m "n + 1" v] by (simp add: few_def)
  qed
  show new: "\<not> kv_has m (n + 1)" using assms(1) u64_succ(1) [OF n] by (auto simp: counted_def)
  have "n + 1 \<noteq> 0" using n by (metis add_eq_0_iff2)
  then have "unat (n + 1) = Suc (unat n)" by (simp add: unatSuc add.commute)
  then show "counted (kv_set (n + 1) v m) (n + 1)"
    using assms(1) new u64_succ(2) [OF n, THEN less_imp_le] by (auto simp: counted_def length_kv_set)
qed

lemma counted_update: "counted m n \<Longrightarrow> kv_has m k \<Longrightarrow> counted (kv_set k v m) n"
  by (auto simp: counted_def length_kv_set)

lemma kept_refl: "(\<And>x. R x x) \<Longrightarrow> kept R m m"
  by (simp add: kept_def)

lemma kept_trans: "kept R m m' \<Longrightarrow> kept R m' m'' \<Longrightarrow> (\<And>x y z. R x y \<Longrightarrow> R y z \<Longrightarrow> R x z) \<Longrightarrow> kept R m m''"
  unfolding kept_def by meson

lemma kept_set: "(\<And>x. R x x) \<Longrightarrow> (\<And>y. kv_get m k = Some y \<Longrightarrow> R y v) \<Longrightarrow> kept R m (kv_set k v m)"
  by (auto simp: kept_def)

section \<open>Signing requests\<close>

lemma bridge_status_less: "BS_PENDING < BS_BROADCASTED" "BS_PENDING < BS_CONFIRMED" "BS_BROADCASTED < BS_CONFIRMED"
  by (simp_all add: less_bridge_status_def)

definition sig_next :: "bridge_signing \<Rightarrow> bridge_signing \<Rightarrow> bool" where
  "sig_next q q' \<longleftrightarrow> bs_Address q' = bs_Address q \<and> bs_Sequence q' = bs_Sequence q \<and> bs_Type q' = bs_Type q
     \<and> bs_Txid q' = bs_Txid q \<and> bs_CreationTime q' = bs_CreationTime q \<and> bs_Status q \<le> bs_Status q'
     \<and> (BS_PENDING < bs_Status q \<longrightarrow> bs_Psbt q' = bs_Psbt q)"

lemma sig_next_refl [simp]: "sig_next q q"
  by (simp add: sig_next_def)

lemma sig_next_trans: "sig_next a b \<Longrightarrow> sig_next b c \<Longrightarrow> sig_next a c"
  unfolding sig_next_def by (auto dest: order.strict_trans2 order.trans)

definition signing_inv :: "('b, 'x) bridge_scheme \<Rightarrow> bool" where
  "signing_inv s \<longleftrightarrow> index_ok (br_signings s) (br_signing_by_status s) bs_Sequence bs_Status
     \<and> counted (br_signings s) (br_signing_seq s)
     \<and> (\<forall>n q. kv_get (br_signings s) n = Some q \<longrightarrow> bs_Status q \<in> {BS_PENDING, BS_BROADCASTED, BS_CONFIRMED})
     \<and> (\<forall>h n. kv_get (br_signing_by_tx s) h = Some n \<longrightarrow> (\<exists>q. kv_get (br_signings s) n = Some q \<and> bs_Txid q = h))"

lemma signing_invD:
  assumes "signing_inv s"
  shows "index_ok (br_signings s) (br_signing_by_status s) bs_Sequence bs_Status" "counted (br_signings s) (br_signing_seq s)"
    and "kv_get (br_signings s) n = Some q \<Longrightarrow> bs_Status q \<in> {BS_PENDING, BS_BROADCASTED, BS_CONFIRMED}"
    and "kv_get (br_signing_by_tx s) h = Some n \<Longrightarrow> \<exists>q. kv_get (br_signings s) n = Some q \<and> bs_Txid q = h"
  using assms unfolding signing_inv_def by blast+

lemma bridge_signing_by_status:
  "br_signings (btcbridge_SetSigningRequest q s) = kv_set (bs_Sequence q) q (br_signings s)"
  "br_signing_by_status (btcbridge_SetSigningRequest q s) = kv_set (bs_Status q, bs_Sequence q) ()
     (case kv_get (br_signings s) (bs_Sequence q) of None \<Rightarrow> br_signing_by_status s
      | Some y \<Rightarrow> kv_del (bs_Status y, bs_Sequence q) (br_signing_by_status s))"
  by (auto simp: btcbridge_SetSigningRequest_def btcbridge_SetSigningRequestStatus_def btcbridge_RemoveSigningRequestStatus_def
      btcbridge_HasSigningRequest_def btcbridge_GetSigningRequest_def kv_has_def Let_def split: option.splits)

interpretation bsig: status_indexed br_signings br_signing_by_status btcbridge_SetSigningRequest bs_Sequence bs_Status
  by unfold_locales (simp_all add: bridge_signing_by_status)

lemma SetSigningRequest_frame [simp]:
  "br_signing_by_tx (btcbridge_SetSigningRequest q s) = kv_set (bs_Txid q) (bs_Sequence q) (br_signing_by_tx s)"
  "br_signing_seq (btcbridge_SetSigningRequest q s) = br_signing_seq s"
  "br_minted (btcbridge_SetSigningRequest q s) = br_minted s"
  "br_withdraws (btcbridge_SetSigningRequest q s) = br_withdraws s"
  "br_withdraws_by_tx (btcbridge_SetSigningRequest q s) = br_withdraws_by_tx s"
  "br_withdraw_queue (btcbridge_SetSigningRequest q s) = br_withdraw_queue s"
  "br_withdraw_seq (btcbridge_SetSigningRequest q s) = br_withdraw_seq s"
  by (simp_all add: btcbridge_SetSigningRequest_def btcbridge_SetSigningRequestStatus_def btcbridge_RemoveSigningRequestStatus_def Let_def)

definition sadv :: "('b, 'x) bridge_scheme \<Rightarrow> ('b, 'x) bridge_scheme \<Rightarrow> bool" where
  "sadv s s' \<longleftrightarrow> (\<forall>h. kv_has (br_minted s) h \<longrightarrow> kv_has (br_minted s') h)
     \<and> length (br_signings s) \<le> length (br_signings s')
     \<and> (few (br_signings s') \<longrightarrow> signing_inv s \<longrightarrow> signing_inv s' \<and> kept sig_next (br_signings s) (br_signings s'))"

lemma sadv_refl [simp]: "sadv s s"
  by (simp add: sadv_def kept_refl)

lemma sadv_trans [trans]: "sadv a b \<Longrightarrow> sadv b c \<Longrightarrow> sadv a c"
  unfolding sadv_def by (auto simp: few_def intro: kept_trans [OF _ _ sig_next_trans])

text \<open>A new request, with the next number.\<close>

lemma sadv_new:
  assumes "br_signing_seq t = br_signing_seq s + 1" "bs_Sequence q = br_signing_seq s + 1" "bs_Status q = BS_PENDING"
    and "br_signings t = br_signings s" "br_signing_by_status t = br_signing_by_status s" "br_signing_by_tx t = br_signing_by_tx s"
    and "\<And>h. kv_has (br_minted s) h \<Longrightarrow> kv_has (br_minted t) h"
  shows "sadv s (btcbridge_SetSigningRequest q t)"
proof -
  have "signing_inv (btcbridge_SetSigningRequest q t) \<and> kept sig_next (br_signings s) (br_signings (btcbridge_SetSigningRequest q t))"
    if few: "few (br_signings (btcbridge_SetSigningRequest q t))" and inv: "signing_inv s"
  proof -
    have c: "counted (br_signings s) (br_signing_seq s)" using inv by (simp add: signing_inv_def)
    note add = counted_add [OF c few [unfolded bsig.prim_put assms]]
    have "index_ok (br_signings t) (br_signing_by_status t) bs_Sequence bs_Status" using inv assms(4,5) by (simp add: signing_inv_def)
    from bsig.put_index_ok [OF this, of q] have idx: "index_ok (kv_set (br_signing_seq s + 1) q (br_signings s))
        (br_signing_by_status (btcbridge_SetSigningRequest q t)) bs_Sequence bs_Status"
      using assms by (simp add: bsig.prim_put)
    have tx: "n \<noteq> br_signing_seq s + 1" if "kv_get (br_signing_by_tx s) h = Some n" for h n
      using inv add(2) that by (force simp: signing_inv_def kv_has_def)
    have "signing_inv (btcbridge_SetSigningRequest q t)"
      using inv assms add idx tx unfolding signing_inv_def by (auto simp: bsig.prim_put)
    then show ?thesis using add(2) assms by (auto simp: bsig.prim_put kv_has_def intro!: kept_set)
  qed
  then show ?thesis using assms by (auto simp: sadv_def bsig.prim_put length_kv_set_le)
qed

text \<open>A new version of a stored request.\<close>

lemma sadv_update:
  assumes "signing_inv s \<Longrightarrow> \<exists>p. kv_get (br_signings s) (bs_Sequence q) = Some p \<and> sig_next p q"
    and "bs_Status q \<in> {BS_PENDING, BS_BROADCASTED, BS_CONFIRMED}"
  shows "sadv s (btcbridge_SetSigningRequest q s)"
proof -
  have "signing_inv (btcbridge_SetSigningRequest q s) \<and> kept sig_next (br_signings s) (br_signings (btcbridge_SetSigningRequest q s))"
    if inv: "signing_inv s"
  proof -
    obtain p where p: "kv_get (br_signings s) (bs_Sequence q) = Some p" and nx: "sig_next p q" using assms(1) inv by blast
    have idx: "index_ok (br_signings (btcbridge_SetSigningRequest q s)) (br_signing_by_status (btcbridge_SetSigningRequest q s)) bs_Sequence bs_Status"
      using inv by (intro bsig.put_index_ok) (simp add: signing_inv_def)
    have tx: "\<exists>r. kv_get (kv_set (bs_Sequence q) q (br_signings s)) n = Some r \<and> bs_Txid r = h"
      if h: "kv_get (kv_set (bs_Txid q) (bs_Sequence q) (br_signing_by_tx s)) h = Some n" for h n
    proof (cases "h = bs_Txid q")
      case True
      then show ?thesis using h by simp
    next
      case False
      then obtain r where r: "kv_get (br_signings s) n = Some r" "bs_Txid r = h"
        using signing_invD(4) [OF inv, of h n] h by auto
      then have "n \<noteq> bs_Sequence q" using False p nx by (auto simp: sig_next_def)
      then show ?thesis using r by simp
    qed
    have "counted (kv_set (bs_Sequence q) q (br_signings s)) (br_signing_seq s)"
      using inv p by (intro counted_update) (simp_all add: signing_inv_def kv_has_def)
    then have "signing_inv (btcbridge_SetSigningRequest q s)"
      using inv assms(2) idx tx by (auto simp: signing_inv_def bsig.prim_put)
    moreover have "kept sig_next (br_signings s) (kv_set (bs_Sequence q) q (br_signings s))"
      using p nx by (intro kept_set) auto
    ultimately show ?thesis by (simp add: bsig.prim_put)
  qed
  then show ?thesis by (auto simp: sadv_def bsig.prim_put length_kv_set_le)
qed

lemma GetSigningRequestByTxHash_stored:
  assumes "signing_inv s" "GetSigningRequestByTxHash s h = Some q"
  shows "kv_get (br_signings s) (bs_Sequence q) = Some q" "bs_Txid q = h"
proof -
  obtain n where n: "kv_get (br_signing_by_tx s) h = Some n" "q = btcbridge_GetSigningRequest s n"
    using assms(2) by (auto simp: GetSigningRequestByTxHash_def)
  obtain r where r: "kv_get (br_signings s) n = Some r" "bs_Txid r = h"
    using n(1) assms(1) unfolding signing_inv_def by blast
  have "bs_Sequence r = n" using r(1) assms(1) unfolding signing_inv_def index_ok_def by blast
  then show "kv_get (br_signings s) (bs_Sequence q) = Some q" "bs_Txid q = h"
    using n(2) r by (simp_all add: btcbridge_GetSigningRequest_def)
qed

section \<open>Withdrawal requests\<close>

definition wd_next :: "withdraw_request \<Rightarrow> withdraw_request \<Rightarrow> bool" where
  "wd_next r r' \<longleftrightarrow> wr_Address r' = wr_Address r \<and> wr_Amount r' = wr_Amount r \<and> wr_Sequence r' = wr_Sequence r
     \<and> (wr_Txid r \<noteq> '''' \<longrightarrow> wr_Txid r' = wr_Txid r)"

lemma wd_next_refl [simp]: "wd_next r r"
  by (simp add: wd_next_def)

lemma wd_next_trans: "wd_next a b \<Longrightarrow> wd_next b c \<Longrightarrow> wd_next a c"
  by (auto simp: wd_next_def)

definition withdraw_inv :: "('b, 'x) bridge_scheme \<Rightarrow> bool" where
  "withdraw_inv s \<longleftrightarrow> counted (br_withdraws s) (br_withdraw_seq s)
     \<and> kv_ok (br_withdraw_queue s) \<and> kv_ok (br_withdraws_by_tx s)
     \<and> (\<forall>n r. kv_get (br_withdraws s) n = Some r \<longrightarrow> wr_Sequence r = n)
     \<and> (\<forall>n. kv_has (br_withdraw_queue s) n \<longrightarrow> (\<exists>r. kv_get (br_withdraws s) n = Some r \<and> wr_Txid r = ''''))
     \<and> (\<forall>h n. kv_has (br_withdraws_by_tx s) (h, n) \<longleftrightarrow> h \<noteq> '''' \<and> (\<exists>r. kv_get (br_withdraws s) n = Some r \<and> wr_Txid r = h))"

definition wadv :: "('b, 'x) bridge_scheme \<Rightarrow> ('b, 'x) bridge_scheme \<Rightarrow> bool" where
  "wadv s s' \<longleftrightarrow> length (br_withdraws s) \<le> length (br_withdraws s')
     \<and> (few (br_withdraws s') \<longrightarrow> withdraw_inv s \<longrightarrow> withdraw_inv s' \<and> kept wd_next (br_withdraws s) (br_withdraws s'))"

lemma wadv_refl [simp]: "wadv s s"
  by (simp add: wadv_def kept_refl)

lemma wadv_trans [trans]: "wadv a b \<Longrightarrow> wadv b c \<Longrightarrow> wadv a c"
  unfolding wadv_def by (auto simp: few_def intro: kept_trans [OF _ _ wd_next_trans])

lemma SetWithdrawRequest_frame [simp]:
  "br_withdraws (SetWithdrawRequest r s) = kv_set (wr_Sequence r) r (br_withdraws s)"
  "br_withdraws_by_tx (SetWithdrawRequest r s) =
     (if wr_Txid r = '''' then br_withdraws_by_tx s else kv_set (wr_Txid r, wr_Sequence r) () (br_withdraws_by_tx s))"
  "br_withdraw_queue (SetWithdrawRequest r s) = br_withdraw_queue s"
  "br_withdraw_seq (SetWithdrawRequest r s) = br_withdraw_seq s"
  by (simp_all add: SetWithdrawRequest_def SetWithdrawRequestByTxHash_def Let_def)

lemma withdraw_invD:
  assumes "withdraw_inv s"
  shows "counted (br_withdraws s) (br_withdraw_seq s)" "kv_ok (br_withdraw_queue s)" "kv_ok (br_withdraws_by_tx s)"
    and "kv_get (br_withdraws s) n = Some r \<Longrightarrow> wr_Sequence r = n"
    and "kv_has (br_withdraw_queue s) n \<Longrightarrow> \<exists>r. kv_get (br_withdraws s) n = Some r \<and> wr_Txid r = ''''"
    and "kv_has (br_withdraws_by_tx s) (h, n) \<longleftrightarrow> h \<noteq> '''' \<and> (\<exists>r. kv_get (br_withdraws s) n = Some r \<and> wr_Txid r = h)"
  using assms unfolding withdraw_inv_def by simp_all

text \<open>A request that is stored under its number, and was without a transaction before or is new.\<close>

lemma withdraw_inv_set:
  assumes inv: "withdraw_inv s" and old: "\<And>p. kv_get (br_withdraws s) (wr_Sequence r) = Some p \<Longrightarrow> wr_Txid p = ''''"
    and c: "counted (kv_set (wr_Sequence r) r (br_withdraws s)) n"
    and t: "br_withdraws t = br_withdraws s" "br_withdraws_by_tx t = br_withdraws_by_tx s" "br_withdraw_seq t = n"
      "kv_ok (br_withdraw_queue t)" "\<And>k. kv_has (br_withdraw_queue t) k \<Longrightarrow> kv_has (br_withdraw_queue s) k \<and> k \<noteq> wr_Sequence r"
  shows "withdraw_inv (SetWithdrawRequest r t)" (is "withdraw_inv ?u")
proof -
  note D = withdraw_invD [OF inv]
  have get: "kv_get (br_withdraws ?u) k = (if k = wr_Sequence r then Some r else kv_get (br_withdraws s) k)" for k using t(1) by simp
  have "\<exists>x. kv_get (br_withdraws ?u) k = Some x \<and> wr_Txid x = ''''" if "kv_has (br_withdraw_queue ?u) k" for k
    unfolding get using D(5) [of k] t(5) [of k] that by simp
  moreover have "kv_has (br_withdraws_by_tx ?u) (h, k) \<longleftrightarrow> h \<noteq> '''' \<and> (\<exists>x. kv_get (br_withdraws ?u) k = Some x \<and> wr_Txid x = h)" for h k
  proof (cases "k = wr_Sequence r")
    case True
    have "\<not> kv_has (br_withdraws_by_tx s) (h, k)" using D(6) [of h k] old True by auto
    then show ?thesis unfolding get using t(2) True by auto
  next
    case False
    then show ?thesis unfolding get using D(6) [of h k] t(2) by simp
  qed
  moreover have "wr_Sequence x = k" if "kv_get (br_withdraws ?u) k = Some x" for k x
    using that D(4) [of k x] unfolding get by (simp split: if_splits)
  moreover have "kv_ok (br_withdraws_by_tx ?u)" "kv_ok (br_withdraw_queue ?u)" "counted (br_withdraws ?u) (br_withdraw_seq ?u)"
    using D(3) t c by simp_all
  ultimately show ?thesis unfolding withdraw_inv_def by blast
qed

lemma wadv_new:
  assumes "br_withdraw_seq t = br_withdraw_seq s + 1" "wr_Sequence r = br_withdraw_seq s + 1"
    and t: "br_withdraws t = br_withdraws s" "br_withdraws_by_tx t = br_withdraws_by_tx s" "br_withdraw_queue t = br_withdraw_queue s"
  shows "wadv s (SetWithdrawRequest r t)"
    and "wr_Txid r = '''' \<Longrightarrow> wadv s (AddToBtcWithdrawRequestQueue r (SetWithdrawRequest r t))"
proof -
  have *: "withdraw_inv (SetWithdrawRequest r t) \<and> kept wd_next (br_withdraws s) (kv_set (wr_Sequence r) r (br_withdraws s))"
    if few: "few (kv_set (wr_Sequence r) r (br_withdraws s))" and inv: "withdraw_inv s"
  proof -
    note D = withdraw_invD [OF inv]
    note add = counted_add [OF D(1) few [unfolded assms(2)]]
    have new: "kv_get (br_withdraws s) (wr_Sequence r) = None" using add(2) assms(2) by (simp add: kv_has_def)
    have q: "k \<noteq> wr_Sequence r" if "kv_has (br_withdraw_queue s) k" for k using D(5) [OF that] new by auto
    have "withdraw_inv (SetWithdrawRequest r t)"
      by (rule withdraw_inv_set [OF inv _ _ t(1,2) assms(1)]) (use new add(3) assms(2) D(2) q t in auto)
    moreover have "kept wd_next (br_withdraws s) (kv_set (wr_Sequence r) r (br_withdraws s))" by (rule kept_set) (use new in auto)
    ultimately show ?thesis by blast
  qed
  show "wadv s (SetWithdrawRequest r t)" using * t by (simp add: wadv_def length_kv_set_le)
  show "wadv s (AddToBtcWithdrawRequestQueue r (SetWithdrawRequest r t))" if r: "wr_Txid r = ''''"
  proof -
    have "withdraw_inv (AddToBtcWithdrawRequestQueue r u)" if inv: "withdraw_inv u" and u: "kv_get (br_withdraws u) (wr_Sequence r) = Some r"
      for u :: "('a, 'b) bridge_scheme"
    proof -
      note D = withdraw_invD [OF inv]
      have "\<exists>x. kv_get (br_withdraws u) k = Some x \<and> wr_Txid x = ''''" if "kv_has (kv_set (wr_Sequence r) () (br_withdraw_queue u)) k" for k
        using that D(5) [of k] u r by auto
      then show ?thesis using D(1-4,6) unfolding withdraw_inv_def by (simp add: AddToBtcWithdrawRequestQueue_def)
    qed
    from this [of "SetWithdrawRequest r t"] show ?thesis using * t by (simp add: wadv_def length_kv_set_le AddToBtcWithdrawRequestQueue_def)
  qed
qed

text \<open>A queued request gets its transaction.\<close>

lemma wadv_batch_one:
  assumes "withdraw_inv s \<Longrightarrow> kv_get (br_withdraws s) (wr_Sequence r) = Some r \<and> wr_Txid r = ''''"
  shows "wadv s (batch_one h r s)"
proof -
  let ?r = "r\<lparr>wr_Txid := h\<rparr>"
  have eq: "batch_one h r s = SetWithdrawRequest ?r (RemoveFromBtcWithdrawRequestQueue r s)"
    by (simp add: batch_one_def Let_def RemoveFromBtcWithdrawRequestQueue_def SetWithdrawRequest_def SetWithdrawRequestByTxHash_def)
  have "withdraw_inv (batch_one h r s) \<and> kept wd_next (br_withdraws s) (kv_set (wr_Sequence r) ?r (br_withdraws s))" if inv: "withdraw_inv s"
  proof -
    note D = withdraw_invD [OF inv]
    have r: "kv_get (br_withdraws s) (wr_Sequence r) = Some r" "wr_Txid r = ''''" using assms inv by auto
    have c: "counted (kv_set (wr_Sequence r) ?r (br_withdraws s)) (br_withdraw_seq s)" by (rule counted_update [OF D(1)]) (simp add: kv_has_def r)
    have "withdraw_inv (batch_one h r s)"
      unfolding eq by (rule withdraw_inv_set [OF inv]) (use r c D(2) in \<open>auto simp: RemoveFromBtcWithdrawRequestQueue_def\<close>)
    moreover have "kept wd_next (br_withdraws s) (kv_set (wr_Sequence r) ?r (br_withdraws s))" by (rule kept_set) (use r in \<open>auto simp: wd_next_def\<close>)
    ultimately show ?thesis by blast
  qed
  then show ?thesis by (simp add: wadv_def length_kv_set_le eq RemoveFromBtcWithdrawRequestQueue_def)
qed

definition wview :: "('b, 'x) bridge_scheme \<Rightarrow>
   (u64, withdraw_request) kv \<times> (string \<times> u64, unit) kv \<times> (u64, unit) kv \<times> u64" where
  "wview s = (br_withdraws s, br_withdraws_by_tx s, br_withdraw_queue s, br_withdraw_seq s)"

definition sview :: "('b, 'x) bridge_scheme \<Rightarrow>
   (string, unit) kv \<times> (u64, bridge_signing) kv \<times> (bridge_status \<times> u64, unit) kv \<times> (string, u64) kv \<times> u64" where
  "sview s = (br_minted s, br_signings s, br_signing_by_status s, br_signing_by_tx s, br_signing_seq s)"

definition frame :: "('b, 'x) bridge_scheme \<Rightarrow> ('b, 'x) bridge_scheme \<Rightarrow> bool" where
  "frame s s' \<longleftrightarrow> sview s' = sview s \<and> wview s' = wview s"

text \<open>Signing requests may advance, withdrawal requests stay; and both may advance.\<close>

definition signs :: "('b, 'x) bridge_scheme \<Rightarrow> ('b, 'x) bridge_scheme \<Rightarrow> bool" where
  "signs s s' \<longleftrightarrow> sadv s s' \<and> wview s' = wview s"

definition adv :: "('b, 'x) bridge_scheme \<Rightarrow> ('b, 'x) bridge_scheme \<Rightarrow> bool" where
  "adv s s' \<longleftrightarrow> sadv s s' \<and> wadv s s'"

lemma sadv_view: "sview s' = sview s \<Longrightarrow> sadv s s'"
  by (simp add: sadv_def sview_def signing_inv_def kept_refl)

lemma wadv_view: "wview s' = wview s \<Longrightarrow> wadv s s'"
  by (simp add: wadv_def wview_def withdraw_inv_def kept_refl)

lemma wadv_view_left: "wview s' = wview s \<Longrightarrow> wadv s' t \<Longrightarrow> wadv s t"
  by (rule wadv_trans [OF wadv_view])

lemma frame_refl [simp]: "frame s s" and signs_refl [simp]: "signs s s" and adv_refl [simp]: "adv s s"
  by (simp_all add: frame_def signs_def adv_def)

lemma frame_trans [trans]: "frame a b \<Longrightarrow> frame b c \<Longrightarrow> frame a c"
  by (simp add: frame_def)

lemma signs_trans [trans]: "signs a b \<Longrightarrow> signs b c \<Longrightarrow> signs a c"
  by (auto simp: signs_def intro: sadv_trans)

lemma adv_trans [trans]: "adv a b \<Longrightarrow> adv b c \<Longrightarrow> adv a c"
  by (auto simp: adv_def intro: sadv_trans wadv_trans)

lemma frame_signs: "frame s s' \<Longrightarrow> signs s s'"
  by (simp add: frame_def signs_def sadv_view)

lemma signs_adv: "signs s s' \<Longrightarrow> adv s s'"
  by (simp add: signs_def adv_def wadv_view)

lemma frame_adv: "frame s s' \<Longrightarrow> adv s s'"
  by (simp add: signs_adv frame_signs)

lemma frame_I:
  assumes "br_minted s' = br_minted s" "br_signings s' = br_signings s" "br_signing_by_status s' = br_signing_by_status s"
    "br_signing_by_tx s' = br_signing_by_tx s" "br_signing_seq s' = br_signing_seq s" "br_withdraws s' = br_withdraws s"
    "br_withdraws_by_tx s' = br_withdraws_by_tx s" "br_withdraw_queue s' = br_withdraw_queue s" "br_withdraw_seq s' = br_withdraw_seq s"
  shows "frame s s'"
  using assms by (simp add: frame_def sview_def wview_def)

text \<open>A loop whose body is related by a preorder.\<close>

lemma fold_res_rel:
  assumes "fold_res f xs s = Inr s'" "\<And>s. R s s" "\<And>a b c. R a b \<Longrightarrow> R b c \<Longrightarrow> R a c" "\<And>x s s'. x \<in> set xs \<Longrightarrow> f x s = Inr s' \<Longrightarrow> R s s'"
  shows "R s s'"
  using assms(1)
  by (rule fold_res_invariant [where P = "R s"]) (use assms(2-4) in blast)+

lemma fold_rel:
  assumes "\<And>s. R s s" "\<And>a b c. R a b \<Longrightarrow> R b c \<Longrightarrow> R a c" "\<And>x s. x \<in> set xs \<Longrightarrow> R s (f x s)"
  shows "R s (fold f xs s)"
  using assms(3) by (induction xs arbitrary: s) (auto intro: assms(1,2))

lemma fold_res_frame:
  assumes "fold_res f xs s = Inr s'" "\<And>x s s'. x \<in> set xs \<Longrightarrow> f x s = Inr s' \<Longrightarrow> frame s s'"
  shows "frame s s'"
  by (rule fold_res_rel [OF assms(1) frame_refl frame_trans assms(2)])

lemma fold_res_signs:
  assumes "fold_res f xs s = Inr s'" "\<And>x s s'. x \<in> set xs \<Longrightarrow> f x s = Inr s' \<Longrightarrow> signs s s'"
  shows "signs s s'"
  by (rule fold_res_rel [OF assms(1) signs_refl signs_trans assms(2)])

lemma fold_res_adv:
  assumes "fold_res f xs s = Inr s'" "\<And>x s s'. x \<in> set xs \<Longrightarrow> f x s = Inr s' \<Longrightarrow> adv s s'"
  shows "adv s s'"
  by (rule fold_res_rel [OF assms(1) adv_refl adv_trans assms(2)])

lemma fold_frame: "(\<And>x s. x \<in> set xs \<Longrightarrow> frame s (f x s)) \<Longrightarrow> frame s (fold f xs s)"
  by (rule fold_rel [OF frame_refl frame_trans])

section \<open>Operations that change neither\<close>

lemma on_bank_frame: "on_bank f s = Inr s' \<Longrightarrow> frame s s'"
  by (auto simp: on_bank_def bind_res_eq_Inr intro!: frame_I)

lemma SetParams_frame: "frame s (SetParams p s)"
  by (auto simp: SetParams_def intro!: frame_I)

lemma SetUTXO_frame: "frame s (SetUTXO u s)"
  by (auto simp: SetUTXO_def intro!: frame_I)

lemma owner_frame:
  "frame s (SetOwnerUTXO u s)" "frame s (SetOwnerUTXOByAmount u s)"
  "SetOwnerRunesUTXO E u r s = Inr s' \<Longrightarrow> frame s s'" "delete_rune E a op r s = Inr s' \<Longrightarrow> frame s s'"
  by (auto simp: SetOwnerUTXOByAmount_def SetOwnerUTXO_def SetOwnerRunesUTXO_def delete_rune_def bind_res_eq_Inr intro!: frame_I)

lemma saveUTXO_frame: "saveUTXO E u s = Inr s' \<Longrightarrow> frame s s'"
  unfolding saveUTXO_def
  by (drule fold_res_frame, erule owner_frame(3)) (blast intro: frame_trans owner_frame SetUTXO_frame)

lemma removeUTXO_frame: "removeUTXO E op s = Inr s' \<Longrightarrow> frame s s'"
  unfolding removeUTXO_def Let_def
  by (drule fold_res_frame, erule owner_frame(4)) (erule frame_trans [rotated], auto intro!: frame_I)

lemma SpendUTXO_frame: "SpendUTXO E op s = Inr s' \<Longrightarrow> frame s s'"
  by (auto simp: SpendUTXO_def split: if_splits dest: removeUTXO_frame)

lemma SpendUTXOs_frame: "frame s (snd (SpendUTXOs E us s))"
  unfolding SpendUTXOs_def
  by (induction us arbitrary: s) (auto split: sum.splits dest!: SpendUTXO_frame intro: frame_trans)

lemma ignore_err_eq: "ignore_err r = Inr s' \<Longrightarrow> s' = snd r"
  by (auto simp: ignore_err_def split: prod.splits sum.splits error.splits)

lemma spend_all_frame: "spend_all E uss s = Inr s' \<Longrightarrow> frame s s'"
  unfolding spend_all_def by (erule fold_res_frame) (auto dest: ignore_err_eq intro: SpendUTXOs_frame)

lemma unlockChangeUTXOs_frame: "unlockChangeUTXOs E h s = Inr s' \<Longrightarrow> frame s s'"
  unfolding unlockChangeUTXOs_def by (erule fold_res_frame) (rule saveUTXO_frame)

lemma incentive_frame:
  "frame s (UpdateRewardStats a c s)" "frame s (AddDepositReward a c s)" "frame s (AddWithdrawReward a c s)"
  "frame s (s\<lparr>ch_bank := b\<rparr>)"
  by (auto simp: UpdateRewardStats_def AddDepositReward_def AddWithdrawReward_def SetRewardStats_def SetRewards_def Let_def intro!: frame_I)

lemma pay_reward_frame: "pay_reward E a c s = Inr s' \<Longrightarrow> frame s s'"
  by (auto simp: pay_reward_def bind_res_eq_Inr split: if_splits intro: frame_trans incentive_frame)

lemma DistributeDepositReward_frame: "DistributeDepositReward E a s = Inr s' \<Longrightarrow> frame s s'"
  and DistributeWithdrawReward_frame: "DistributeWithdrawReward E a s = Inr s' \<Longrightarrow> frame s s'"
  by (auto simp: DistributeDepositReward_def DistributeWithdrawReward_def bind_res_eq_Inr Let_def split: if_splits
      dest!: pay_reward_frame intro: frame_trans incentive_frame)

lemma UnescrowToken_frame: "UnescrowToken E p c r t s = Inr s' \<Longrightarrow> frame s s'"
  by (auto simp: UnescrowToken_def bind_res_eq_Inr split: if_splits dest!: on_bank_frame intro: frame_trans incentive_frame)

lemma IBCTransfer_frame: "frame s (snd (IBCTransfer E now a r c ch s))"
  by (auto simp: IBCTransfer_def Let_def split: sum.splits prod.splits intro: incentive_frame dest!: UnescrowToken_frame)
    (blast intro: frame_trans incentive_frame)

lemma AfterDeposit_frame: "AfterDeposit E now a c tx s = Inr s' \<Longrightarrow> frame s s'"
proof -
  assume "AfterDeposit E now a c tx s = Inr s'"
  then obtain t where t: "(if DepositIncentiveEnabled E s then try_res (DistributeDepositReward E a s) s else Inr s) = Inr t"
    and s': "s' = t \<or> s' \<in> {snd (IBCTransfer E now a r c ch t) | ch r. True}"
    by (fastforce simp: AfterDeposit_def bind_res_eq_Inr Let_def forget_def split: if_splits sum.splits)
  have "frame s t" using t by (auto simp: try_res_Inr split: if_splits dest: DistributeDepositReward_frame)
  then show ?thesis using s' IBCTransfer_frame by (blast intro: frame_trans)
qed

lemma AfterWithdraw_frame: "AfterWithdraw E h s = Inr s' \<Longrightarrow> frame s s'"
  by (auto simp: AfterWithdraw_def split: if_splits)
    (erule fold_res_frame, auto simp: withdraw_reward_def try_res_Inr dest: DistributeWithdrawReward_frame)

lemma queue_frame:
  "AddToIBCWithdrawRequestQueue E c n r a s = Inr s' \<Longrightarrow> frame s s'"
  "frame s (RemoveFromIBCWithdrawRequestQueue c n s)"
  by (auto simp: AddToIBCWithdrawRequestQueue_def RemoveFromIBCWithdrawRequestQueue_def bind_res_eq_Inr intro!: frame_I)

lemma IBCReceivePacketCallback_frame: "IBCReceivePacketCallback E p c s = Inr s' \<Longrightarrow> frame s s'"
  by (auto simp: IBCReceivePacketCallback_def bind_res_eq_Inr split: if_splits option.splits dest: queue_frame(1))

lemma limit_frame: "frame s (SetRateLimit r s)" "frame s (SetAddressRateLimitDetails d s)" "frame s (RemoveAllAddressRateLimitDetails s)"
  by (auto simp: SetRateLimit_def SetAddressRateLimitDetails_def RemoveAllAddressRateLimitDetails_def intro!: frame_I)

lemma HandleRateLimit_frame: "HandleRateLimit a c s = Inr s' \<Longrightarrow> frame s s'"
  by (auto simp: HandleRateLimit_def UpdateRateLimitUsedQuotas_def bind_res_eq_Inr Let_def split: if_splits intro: frame_trans limit_frame)

lemma UpdateRateLimitTotalQuotas_frame: "UpdateRateLimitTotalQuotas E p q s = Inr s' \<Longrightarrow> frame s s'"
  by (auto simp: UpdateRateLimitTotalQuotas_def bind_res_eq_Inr Let_def intro: limit_frame)

lemma updateRateLimit_frame: "updateRateLimit E now s = Inr s' \<Longrightarrow> frame s s'"
  by (auto simp: updateRateLimit_def bind_res_eq_Inr Let_def split: if_splits intro: frame_trans limit_frame)

lemma BurnAsset_frame: "frame s (snd (BurnAsset E a c s))"
  by (auto simp: BurnAsset_def split: sum.splits dest!: on_bank_frame intro: frame_trans)

lemma commit_eq: "commit r = Inr s' \<Longrightarrow> s' = snd r"
  by (auto simp: commit_def split: prod.splits sum.splits)

lemma commit_BurnAsset_frame: "commit (BurnAsset E a c s) = Inr s' \<Longrightarrow> frame s s'"
  using BurnAsset_frame commit_eq by metis

lemma BurnBtcNetworkFee_frame: "BurnBtcNetworkFee E a p s = Inr s' \<Longrightarrow> frame s s'"
  by (auto simp: BurnBtcNetworkFee_def bind_res_eq_Inr dest: commit_BurnAsset_frame)

lemma HandleWithdrawProtocolFee_frame: "HandleWithdrawProtocolFee E a c s = Inr (w, s') \<Longrightarrow> frame s s'"
  by (auto simp: HandleWithdrawProtocolFee_def bind_res_eq_Inr Let_def split: if_splits dest: on_bank_frame)

lemma UpdateVaults_frame: "UpdateVaults vs ts s = Inr s' \<Longrightarrow> frame s s'"
  by (auto simp: UpdateVaults_def IncreaseVaultVersion_def SetVaultVersion_def SetParams_def Let_def split: if_splits intro!: frame_I)

lemma keys_frame:
  "frame s (btcbridge_SetDKGRequest r s)" "frame s (btcbridge_SetDKGRequestID n s)" "frame s (SetDKGCompletionRequest c s)"
  "frame s (btcbridge_SetRefreshingRequest f s)" "frame s (btcbridge_SetRefreshingCompletion fc s)"
  by (auto simp: btcbridge_SetDKGRequest_def btcbridge_SetDKGRequestID_def SetDKGCompletionRequest_def
      btcbridge_SetRefreshingRequest_def btcbridge_SetRefreshingCompletion_def intro!: frame_I)

lemma btcbridge_InitiateDKG_frame: "btcbridge_InitiateDKG al now ps th ts en tg s = Inr (r, s') \<Longrightarrow> frame s s'"
  by (auto simp: btcbridge_InitiateDKG_def Let_def split: if_splits intro: frame_trans keys_frame)

lemma btcbridge_CompleteDKG_frame: "btcbridge_CompleteDKG E now c s = Inr s' \<Longrightarrow> frame s s'"
  by (auto simp: btcbridge_CompleteDKG_def Let_def bind_res_eq_Inr split: if_splits intro: keys_frame)

lemma btcbridge_handleDKGRequests_frame: "btcbridge_handleDKGRequests now s = Inr s' \<Longrightarrow> frame s s'"
  unfolding btcbridge_handleDKGRequests_def
  by (erule fold_res_frame)
    (auto simp: bridge_handle_dkg_def Let_def bind_res_eq_Inr split: if_splits dest!: UpdateVaults_frame intro: frame_trans keys_frame)

lemma btcbridge_InitiateRefreshingRequest_frame: "frame s (btcbridge_InitiateRefreshingRequest now d rm t s)"
  by (auto simp: btcbridge_InitiateRefreshingRequest_def btcbridge_IncrementRefreshingRequestId_def btcbridge_SetRefreshingRequest_def
      Let_def intro!: frame_I)

lemma btcbridge_CompleteRefreshing_frame: "btcbridge_CompleteRefreshing E now a n k sg s = Inr s' \<Longrightarrow> frame s s'"
  by (auto simp: btcbridge_CompleteRefreshing_def Let_def bind_res_eq_Inr split: if_splits intro: keys_frame)

lemma btcbridge_handleRefreshingRequests_frame: "frame s (btcbridge_handleRefreshingRequests now s)"
  unfolding btcbridge_handleRefreshingRequests_def
  by (rule fold_frame) (auto simp: bridge_handle_refreshing_def Let_def intro: frame_trans keys_frame)

end
