(* ===== verification/Bridge_Reach.thy ===== *)
theory Bridge_Reach
  imports Bridge_Life
begin

text \<open>
  The bridge as a transition system: a step is a message, a callback, the end of a block, a header the oracle stores
  or a change of the bank by another module. Every step advances the stores of requests, and so does every run.
\<close>

section \<open>Signing requests\<close>

lemma lock_signs:
  "signs s (addToMintHistory h s)" "signs s (lock_change h u s)" "signs s (lockChangeUTXOs h us s)"
proof -
  show mint: "signs s (addToMintHistory h s)" for s :: "('a, 'b) bridge_scheme"
    by (simp add: signs_def wview_def sadv_def addToMintHistory_def signing_inv_def kept_refl)
  have lock: "signs s (lock_change h u s)" for u and s :: "('a, 'b) bridge_scheme"
    by (auto simp: lock_change_def split: option.splits intro: signs_trans [OF frame_signs [OF SetUTXO_frame] mint])
  then show "signs s (lock_change h u s)" .
  show "signs s (lockChangeUTXOs h us s)"
    unfolding lockChangeUTXOs_def by (rule fold_rel [where R = signs, OF signs_refl], erule (1) signs_trans, rule lock)
qed

lemma store_signing_signs: "signs s (snd (store_signing (new_signing now a t h b s)))"
proof -
  let ?q = "fst (new_signing now a t h b s)" and ?t = "snd (new_signing now a t h b s)"
  have "sadv s (btcbridge_SetSigningRequest ?q ?t)"
    by (rule sadv_new) (simp_all add: new_signing_def IncrementSigningRequestSequence_def GetSigningRequestSequence_def Let_def)
  moreover have "wview (btcbridge_SetSigningRequest ?q ?t) = wview s"
    by (simp add: wview_def new_signing_def IncrementSigningRequestSequence_def Let_def)
  ultimately show ?thesis by (simp add: signs_def store_signing_def)
qed

lemma issue_signing_signs:
  assumes "issue_signing E now a t p spent changes s = Inr r"
  shows "signs s (snd (store_signing r))"
proof -
  obtain b u where u: "spend_all E spent s = Inr u"
    and r: "r = new_signing now a t (tx_hash E (ps_Tx p)) b (lockChangeUTXOs (tx_hash E (ps_Tx p)) changes u)"
    using assms by (auto simp: issue_signing_def bind_res_eq_Inr Let_def)
  show ?thesis
    unfolding r using frame_signs [OF spend_all_frame [OF u]] lock_signs(3) store_signing_signs by (blast intro: signs_trans)
qed

lemma NewRunesSigningRequest_signs: "NewRunesSigningRequest E now a c f v bv s = Inr (q, s') \<Longrightarrow> signs s s'"
  by (auto simp: NewRunesSigningRequest_def bind_res_eq_Inr dest!: issue_signing_signs)

lemma BuildBtcBatchWithdrawSigningRequest_signs:
  "BuildBtcBatchWithdrawSigningRequest E now rs f v s = Inr (q, s') \<Longrightarrow> signs s s'"
  by (auto simp: BuildBtcBatchWithdrawSigningRequest_def bind_res_eq_Inr dest!: issue_signing_signs)

section \<open>Vaults\<close>

lemma transfer_input_frame: "transfer_input E src t x (bals, s) = Inr (bals', s') \<Longrightarrow> frame s s'"
  by (auto simp: transfer_input_def Let_def bind_res_eq_Inr split: prod.splits if_splits option.splits sum.splits
      dest!: ignore_err_eq SpendUTXO_frame)

lemma transfer_inputs_frame: "fold_res (transfer_input E src t) xs (bals, s) = Inr (bals', s') \<Longrightarrow> frame s s'"
proof (induction xs arbitrary: bals s)
  case (Cons x xs)
  then obtain b u where "transfer_input E src t x (bals, s) = Inr (b, u)" "fold_res (transfer_input E src t) xs (b, u) = Inr (bals', s')"
    by (auto simp: bind_res_eq_Inr)
  then show ?case using Cons.IH transfer_input_frame by (blast intro: frame_trans)
qed simp

lemma transfer_output_frame: "transfer_output E h dest t bals x s = Inr s' \<Longrightarrow> frame s s'"
  by (auto simp: transfer_output_def Let_def split: prod.splits if_splits option.splits intro: SetUTXO_frame)

lemma handleTransferVaultTx_signs:
  assumes "handleTransferVaultTx E p src dest t s = Inr s'"
  shows "signs s s'"
proof -
  obtain bals u v where "fold_res (transfer_input E src t)
      (zip (mt_TxIn (ps_Tx p)) (map Some (ps_Inputs p) @ replicate (length (mt_TxIn (ps_Tx p))) None)) ([], s) = Inr (bals, u)"
    and "fold_res (transfer_output E (tx_hash E (ps_Tx p)) dest t bals) (zip [0..<length (mt_TxOut (ps_Tx p))] (mt_TxOut (ps_Tx p))) u = Inr v"
    and s': "s' = addToMintHistory (tx_hash E (ps_Tx p)) v"
    using assms unfolding handleTransferVaultTx_def Let_def by (auto elim!: peel)
  then have "frame s u" "frame u v" by (blast intro: transfer_inputs_frame fold_res_frame transfer_output_frame)+
  then show ?thesis unfolding s' using lock_signs(1) by (blast intro: signs_trans frame_signs)
qed

lemma keeper_TransferVault_signs:
  assumes "keeper_TransferVault E height now gov sv dv t psbts target s = Inr s'"
  shows "signs s s'"
proof -
  have psbt: "signs s s'" if "transfer_psbt E now gov src dest t b s = Inr s'" for src dest b s s'
    using that by (auto simp: transfer_psbt_def bind_res_eq_Inr split: sum.splits
        intro: signs_trans [OF handleTransferVaultTx_signs store_signing_signs])
  have built: "signs s (snd (store_signing r))"
    if "BuildTransferVaultBtcSigningRequest E now gov src dest target f s = Inr r \<or>
        BuildTransferVaultRunesSigningRequest E now gov src dest target f s = Inr r" for src dest f r
    using that by (auto simp: BuildTransferVaultBtcSigningRequest_def BuildTransferVaultRunesSigningRequest_def Let_def bind_res_eq_Inr
        split: if_splits option.splits dest!: issue_signing_signs)
  show ?thesis
    using assms unfolding keeper_TransferVault_def
    by (auto simp: bind_res_eq_Inr Let_def split: option.splits if_splits asset_type.splits
        intro: built fold_res_signs [OF _ psbt])
qed

lemma keeper_ConsolidateVaults_signs:
  assumes "keeper_ConsolidateVaults E height now gov version btc runes s = Inr s'"
  shows "signs s s'"
proof -
  have btc: "signs s s'" if "handleBtcConsolidation E now gov version th n f s = Inr s'" for th n f s s'
    using that by (auto simp: handleBtcConsolidation_def Let_def bind_res_eq_Inr split: option.splits if_splits dest: issue_signing_signs)
  have runes: "signs s s'" if "handleRunesConsolidation E now gov version f c s = Inr s'" for f c s s'
    using that by (auto simp: handleRunesConsolidation_def Let_def bind_res_eq_Inr split: option.splits if_splits dest: issue_signing_signs)
  show ?thesis
    using assms unfolding keeper_ConsolidateVaults_def
    by (auto simp: bind_res_eq_Inr Let_def split: option.splits intro: signs_trans btc fold_res_signs [OF _ runes])
qed

section \<open>Deposits and confirmations\<close>

lemma mint_frame:
  "mintBTCWithProtocolFee E r c s = Inr (c', s') \<Longrightarrow> frame s s'"
  "mintBTC E h ht r x d s = Inr (c', s') \<Longrightarrow> frame s s'"
  "handleRunesProtocolFee E h ht x s = Inr s' \<Longrightarrow> frame s s'"
  "mintRunes E h ht r x btc e s = Inr (c', s') \<Longrightarrow> frame s s'"
proof -
  show fee: "frame s s'" if "mintBTCWithProtocolFee E r c s = Inr (c', s')" for s c c' s'
    using that by (auto simp: mintBTCWithProtocolFee_def Let_def bind_res_eq_Inr split: if_splits dest!: on_bank_frame intro: frame_trans)
  show "frame s s'" if "mintBTC E h ht r x d s = Inr (c', s')"
    using that by (auto simp: mintBTC_def bind_res_eq_Inr split: if_splits dest!: on_bank_frame fee saveUTXO_frame intro: frame_trans)
  show runes: "frame s s'" if "handleRunesProtocolFee E h ht x s = Inr s'" for s x s'
    using that unfolding handleRunesProtocolFee_def Let_def by (elim peel) (blast dest: on_bank_frame saveUTXO_frame intro: frame_trans)
  show "frame s s'" if "mintRunes E h ht r x btc e s = Inr (c', s')"
    using that unfolding mintRunes_def
  proof (elim peel, goal_cases)
    case (1 n c u v w y)
    have "frame v w" using 1(6) by (auto split: if_splits option.splits dest: runes)
    then show ?case using 1(4,5,7,8) by (auto dest!: on_bank_frame saveUTXO_frame intro: frame_trans)
  qed
qed

lemma Mint_signs: "Mint E a tx prev ht s = Inr (t, r, c, s') \<Longrightarrow> signs s s' \<and> kv_has (br_minted s') (tx_hash E tx) \<and> \<not> kv_has (br_minted s) (tx_hash E tx)"
proof -
  assume *: "Mint E a tx prev ht s = Inr (t, r, c, s')"
  have fr: "frame (addToMintHistory (tx_hash E tx) s) s'" and new: "\<not> existsInHistory s (tx_hash E tx)"
    using * by (auto simp: Mint_def Let_def bind_res_eq_Inr split: if_splits option.splits dest: mint_frame)
  then have "br_minted s' = br_minted (addToMintHistory (tx_hash E tx) s)" by (simp add: frame_def sview_def)
  then show ?thesis
    using signs_trans [OF lock_signs(1) frame_signs [OF fr]] new by (simp add: addToMintHistory_def existsInHistory_def)
qed

lemma ProcessBitcoinDepositTransaction_signs:
  assumes "ProcessBitcoinDepositTransaction E now a tx prev bh proof s = Inr s'"
  shows "signs s s' \<and> (\<exists>m. sane_tx E tx = Inr m \<and> kv_has (br_minted s') (tx_hash E m) \<and> \<not> kv_has (br_minted s) (tx_hash E m))"
proof -
  obtain m pv t r c u where v: "ValidateTransaction E tx prev bh proof (bp_DepositConfirmationDepth (GetParams s)) s = Inr (m, pv)"
    and mint: "Mint E a m pv (word_of_int (bh_Height (GetBlockHeader s bh))) s = Inr (t, r, c, u)"
    and after: "(if t = ASSET_BTC then AfterDeposit E now r c m u else Inr u) = Inr s'"
    using assms by (auto simp: ProcessBitcoinDepositTransaction_def bind_res_eq_Inr)
  have m: "sane_tx E tx = Inr m" using v unfolding ValidateTransaction_def Let_def by (auto elim!: peel)
  have fr: "frame u s'" using after by (auto split: if_splits dest: AfterDeposit_frame)
  then have "br_minted s' = br_minted u" by (simp add: frame_def sview_def)
  then show ?thesis using Mint_signs [OF mint] frame_signs [OF fr] m by (auto intro: signs_trans)
qed

lemma sadv_GetSigningRequestByTxHash:
  assumes "GetSigningRequestByTxHash s h = Some q" "sig_next q q'" "bs_Status q' \<in> {BS_PENDING, BS_BROADCASTED, BS_CONFIRMED}"
  shows "sadv s (btcbridge_SetSigningRequest q' s)"
  using assms GetSigningRequestByTxHash_stored [OF _ assms(1)] by (intro sadv_update) (auto simp: sig_next_def)

lemma signs_SetSigningRequest: "sadv s (btcbridge_SetSigningRequest q s) \<Longrightarrow> signs s (btcbridge_SetSigningRequest q s)"
  by (simp add: signs_def wview_def)

lemma ProcessBitcoinWithdrawTransaction_signs:
  assumes "ProcessBitcoinWithdrawTransaction E tx bh proof s = Inr s'"
  shows "signs s s'"
proof -
  obtain m q u where q: "GetSigningRequestByTxHash s (tx_hash E m) = Some q" "bs_Status q \<noteq> BS_CONFIRMED"
    and u: "unlockChangeUTXOs E (tx_hash E m) (btcbridge_SetSigningRequest (q\<lparr>bs_Status := BS_CONFIRMED\<rparr>) s) = Inr u"
    and after: "(if bs_Type q = ASSET_BTC then AfterWithdraw E (tx_hash E m) u else Inr u) = Inr s'"
    using assms by (auto simp: ProcessBitcoinWithdrawTransaction_def bind_res_eq_Inr Let_def split: option.splits if_splits)
  have st: "bs_Status q \<in> {BS_PENDING, BS_BROADCASTED, BS_CONFIRMED}" if "signing_inv s"
    using GetSigningRequestByTxHash_stored(1) [OF that q(1)] signing_invD(3) [OF that] by blast
  have "sadv s (btcbridge_SetSigningRequest (q\<lparr>bs_Status := BS_CONFIRMED\<rparr>) s)"
  proof (rule sadv_update)
    assume inv: "signing_inv s"
    have "sig_next q (q\<lparr>bs_Status := BS_CONFIRMED\<rparr>)" using st [OF inv] by (auto simp: sig_next_def less_eq_bridge_status_def)
    then show "\<exists>p. kv_get (br_signings s) (bs_Sequence (q\<lparr>bs_Status := BS_CONFIRMED\<rparr>)) = Some p \<and> sig_next p (q\<lparr>bs_Status := BS_CONFIRMED\<rparr>)"
      using GetSigningRequestByTxHash_stored(1) [OF inv q(1)] by simp
  qed simp
  then have "signs s (btcbridge_SetSigningRequest (q\<lparr>bs_Status := BS_CONFIRMED\<rparr>) s)" by (rule signs_SetSigningRequest)
  also have "signs \<dots> u" by (rule frame_signs [OF unlockChangeUTXOs_frame [OF u]])
  also have "signs u s'" using after by (auto split: if_splits intro: frame_signs AfterWithdraw_frame)
  finally show ?thesis .
qed

lemma btcbridge_SubmitSignatures_signs:
  assumes "btcbridge_SubmitSignatures E a txid sigs s = Inr s'"
  shows "signs s s'"
proof (cases "s' = s")
  case False
  then obtain q b where q: "GetSigningRequestByTxHash s txid = Some q" "bs_Status q = BS_PENDING"
    and s': "s' = btcbridge_SetSigningRequest (q\<lparr>bs_Psbt := b, bs_Status := BS_BROADCASTED\<rparr>) s"
    using assms by (auto simp: btcbridge_SubmitSignatures_def bind_res_eq_Inr split: option.splits if_splits sum.splits)
  show ?thesis
    unfolding s' using q by (intro signs_SetSigningRequest sadv_GetSigningRequestByTxHash [OF q(1)])
      (auto simp: sig_next_def less_eq_bridge_status_def less_bridge_status_def)
qed simp

section \<open>Withdrawals\<close>

lemma NewWithdrawRequest_eq:
  "NewWithdrawRequest a m s = (\<lparr>wr_Address = a, wr_Amount = m, wr_Sequence = br_withdraw_seq s + 1, wr_Txid = ''''\<rparr>,
     s\<lparr>br_withdraw_seq := br_withdraw_seq s + 1\<rparr>)"
  by (simp add: NewWithdrawRequest_def IncreaseWithdrawRequestSequence_def GetWithdrawRequestSequence_def Let_def)

lemma SetWithdrawRequest_sview: "sview (SetWithdrawRequest r s) = sview s"
  "sview (AddToBtcWithdrawRequestQueue r s) = sview s" "sview (RemoveFromBtcWithdrawRequestQueue r s) = sview s"
  by (simp_all add: SetWithdrawRequest_def SetWithdrawRequestByTxHash_def AddToBtcWithdrawRequestQueue_def
      RemoveFromBtcWithdrawRequestQueue_def sview_def Let_def)

text \<open>A request is made and queued.\<close>

lemma queue_new_adv:
  assumes "NewWithdrawRequest a m s = (r, t)"
  shows "adv s (AddToBtcWithdrawRequestQueue r (SetWithdrawRequest r t))"
proof -
  have r: "r = \<lparr>wr_Address = a, wr_Amount = m, wr_Sequence = br_withdraw_seq s + 1, wr_Txid = ''''\<rparr>"
    and t: "t = s\<lparr>br_withdraw_seq := br_withdraw_seq s + 1\<rparr>"
    using assms by (simp_all add: NewWithdrawRequest_eq)
  have "wadv s (AddToBtcWithdrawRequestQueue r (SetWithdrawRequest r t))" unfolding r t by (rule wadv_new(2)) simp_all
  moreover have "sview t = sview s" by (simp add: t sview_def)
  ultimately show ?thesis by (simp add: adv_def sadv_view SetWithdrawRequest_sview)
qed

lemma HandleBtcWithdrawal_adv:
  assumes "HandleBtcWithdrawal E height a c s = Inr (r, s')"
  shows "adv s s'"
proof -
  obtain q t u fee where q: "NewWithdrawRequest a (coin_string E c) s = (q, t)"
    and "commit (BurnAsset E a c (AddToBtcWithdrawRequestQueue q (SetWithdrawRequest q t))) = Inr u"
    and "commit (BurnAsset E a fee u) = Inr s'"
    using assms unfolding HandleBtcWithdrawal_def Let_def by (auto elim!: peel)
  then show ?thesis using queue_new_adv [OF q] by (blast intro: adv_trans frame_adv commit_BurnAsset_frame)
qed

lemma HandleRunesWithdrawal_adv:
  assumes "HandleRunesWithdrawal E height now a c s = Inr (r, s')"
  shows "adv s s'"
proof -
  obtain q t g u v w x f rv bv k where q: "NewWithdrawRequest a (coin_string E c) s = (q, t)"
    and g: "NewRunesSigningRequest E now a c f rv bv t = Inr (g, u)"
    and burn: "commit (BurnAsset E a c (SetWithdrawRequest (q\<lparr>wr_Txid := bs_Txid g\<rparr>) u)) = Inr v"
      "BurnBtcNetworkFee E a (bs_Psbt g) v = Inr w" "commit (BurnAsset E a k w) = Inr s'"
    using assms unfolding HandleRunesWithdrawal_def Let_def by (auto elim!: peel)
  have t: "q = \<lparr>wr_Address = a, wr_Amount = coin_string E c, wr_Sequence = br_withdraw_seq s + 1, wr_Txid = ''''\<rparr>"
    "t = s\<lparr>br_withdraw_seq := br_withdraw_seq s + 1\<rparr>"
    using q by (simp_all add: NewWithdrawRequest_eq)
  have u: "sadv t u" "wview u = wview t" using NewRunesSigningRequest_signs [OF g] by (simp_all add: signs_def)
  have "wadv s (SetWithdrawRequest (q\<lparr>wr_Txid := bs_Txid g\<rparr>) u)"
    by (rule wadv_new(1)) (use u(2) t in \<open>simp_all add: wview_def\<close>)
  moreover have "sadv s (SetWithdrawRequest (q\<lparr>wr_Txid := bs_Txid g\<rparr>) u)"
    using u(1) sadv_view [of t s] sadv_view [of "SetWithdrawRequest (q\<lparr>wr_Txid := bs_Txid g\<rparr>) u" u]
    by (auto simp: t sview_def SetWithdrawRequest_sview [unfolded sview_def] intro: sadv_trans)
  ultimately have "adv s (SetWithdrawRequest (q\<lparr>wr_Txid := bs_Txid g\<rparr>) u)" by (simp add: adv_def)
  then show ?thesis using burn by (blast intro: adv_trans frame_adv commit_BurnAsset_frame BurnBtcNetworkFee_frame)
qed

lemma WithdrawToBitcoin_adv:
  assumes "WithdrawToBitcoin E height now a m s = Inr (r, s')"
  shows "adv s s'"
proof -
  obtain c t d u where "HandleRateLimit a c s = Inr t"
    and fee: "(if ProtocolWithdrawFeeEnabled t then HandleWithdrawProtocolFee E a c t else Inr (c, t)) = Inr (d, u)"
    and w: "HandleWithdrawal E height now a d u = Inr (r, s')"
    using assms unfolding WithdrawToBitcoin_def by (auto elim!: peel)
  then have "adv s t" by (blast intro: frame_adv HandleRateLimit_frame)
  also have "adv t u" using fee by (auto split: if_splits intro: frame_adv HandleWithdrawProtocolFee_frame)
  also have "adv u s'" using w by (auto simp: HandleWithdrawal_def split: asset_type.splits dest: HandleBtcWithdrawal_adv HandleRunesWithdrawal_adv)
  finally show ?thesis .
qed

lemma ibc_withdraw_pay_frame: "frame s (snd (ibc_withdraw_pay E fee a c wa s))"
proof (cases "HandleRateLimit a c s")
  case (Inr t)
  let ?b = "BurnAsset E a (coin_add_amount (fst wa) (Amount (snd wa))) t"
  have "frame s t" using Inr by (rule HandleRateLimit_frame)
  moreover have "frame t (snd ?b)" by (rule BurnAsset_frame)
  moreover have "frame (snd ?b) (snd (ibc_withdraw_pay E fee a c wa s))"
    by (cases ?b) (auto simp: ibc_withdraw_pay_def Inr split: sum.splits dest: on_bank_frame)
  ultimately show ?thesis by (blast intro: frame_trans)
qed (simp add: ibc_withdraw_pay_def)

lemma ibc_withdraw_one_adv:
  assumes "ibc_withdraw_one E f fee r s = Inr s'"
  shows "adv s s'"
proof -
  let ?d = "RemoveFromIBCWithdrawRequestQueue (iw_ChannelId r) (iw_Sequence r)"
  have d: "adv t (?d t)" for t by (rule frame_adv [OF queue_frame(2)])
  consider "s' = ?d s" | c wa where "s' = ?d (snd (ibc_withdraw_pay E fee (iw_Address r) c wa s))"
    | c wa q t m where "NewWithdrawRequest (iw_Address r) m (snd (ibc_withdraw_pay E fee (iw_Address r) c wa s)) = (q, t)"
        "s' = ?d (AddToBtcWithdrawRequestQueue q (SetWithdrawRequest q t))"
    using assms by (auto simp: ibc_withdraw_one_def Let_def split: if_splits sum.splits prod.splits)
      (metis snd_conv)+
  then show ?thesis
  proof cases
    case 1
    then show ?thesis using d by simp
  next
    case 2
    then show ?thesis using adv_trans [OF frame_adv [OF ibc_withdraw_pay_frame] d] by simp
  next
    case 3
    show ?thesis unfolding 3(2) by (rule adv_trans [OF frame_adv [OF ibc_withdraw_pay_frame] adv_trans [OF queue_new_adv [OF 3(1)] d]])
  qed
qed

lemma handleIBCWithdrawRequests_adv: "handleIBCWithdrawRequests E height s = Inr s' \<Longrightarrow> adv s s'"
  by (auto simp: handleIBCWithdrawRequests_def Let_def bind_res_eq_Inr split: if_splits sum.splits
      intro: fold_res_adv [OF _ ibc_withdraw_one_adv])

text \<open>The batch: the requests are different, and none has a transaction.\<close>

lemma batch_one_frame: "sview (batch_one h r s) = sview s"
  by (simp add: batch_one_def Let_def SetWithdrawRequest_sview)

lemma batch_adv:
  assumes "distinct (map wr_Sequence rs)"
    and "withdraw_inv s \<Longrightarrow> \<forall>r \<in> set rs. kv_get (br_withdraws s) (wr_Sequence r) = Some r \<and> wr_Txid r = ''''"
  shows "adv s (fold (batch_one h) rs s)"
  using assms
proof (induction rs arbitrary: s)
  case (Cons r rs)
  let ?t = "batch_one h r s"
  have get: "kv_get (br_withdraws ?t) n = (if n = wr_Sequence r then Some (r\<lparr>wr_Txid := h\<rparr>) else kv_get (br_withdraws s) n)" for n
    by (simp add: batch_one_def Let_def RemoveFromBtcWithdrawRequestQueue_def)
  have len: "length (br_withdraws t) \<le> length (br_withdraws (fold (batch_one h) xs t))" for t :: "('a, 'b) bridge_scheme" and xs
    by (rule fold_rel [where R = "\<lambda>a b. length (br_withdraws a) \<le> length (br_withdraws b)"])
      (auto simp: batch_one_def Let_def RemoveFromBtcWithdrawRequestQueue_def length_kv_set_le)
  have one: "wadv s ?t" by (rule wadv_batch_one) (use Cons.prems(2) in simp)
  show ?case
  proof (cases "withdraw_inv s")
    case True
    have rest: "kv_get (br_withdraws ?t) (wr_Sequence x) = Some x \<and> wr_Txid x = ''''" if x: "x \<in> set rs" for x
    proof -
      have "wr_Sequence r \<notin> wr_Sequence ` set rs" using Cons.prems(1) by simp
      then have "wr_Sequence x \<noteq> wr_Sequence r" using x by (metis image_eqI)
      then show ?thesis using Cons.prems(2) True x by (simp add: get)
    qed
    have "adv s ?t" using one by (simp add: adv_def sadv_view batch_one_frame)
    moreover have "adv ?t (fold (batch_one h) rs ?t)"
      by (rule Cons.IH) (use Cons.prems(1) rest in simp_all)
    ultimately have "adv s (fold (batch_one h) rs ?t)" by (rule adv_trans)
    then show ?thesis by simp
  next
    case False
    have "sview (fold (batch_one h) xs t) = sview t" for xs and t :: "('a, 'b) bridge_scheme"
      by (induction xs arbitrary: t) (simp_all add: batch_one_frame)
    then have "sadv s (fold (batch_one h) (r # rs) s)" by (intro sadv_view)
    moreover have "wadv s (fold (batch_one h) (r # rs) s)" using False len unfolding wadv_def by blast
    ultimately show ?thesis by (simp add: adv_def)
  qed
qed simp

lemma pending_requests:
  assumes "withdraw_inv s"
  shows "distinct (map wr_Sequence (GetPendingBtcWithdrawRequests s m))"
    and "r \<in> set (GetPendingBtcWithdrawRequests s m) \<Longrightarrow> kv_get (br_withdraws s) (wr_Sequence r) = Some r \<and> wr_Txid r = ''''"
proof -
  note D = withdraw_invD [OF assms]
  have get: "\<exists>r. kv_get (br_withdraws s) n = Some r \<and> GetWithdrawRequest s n = r \<and> wr_Sequence r = n \<and> wr_Txid r = ''''"
    if "kv_has (br_withdraw_queue s) n" for n
    using D(4,5) that by (force simp: GetWithdrawRequest_def)
  have sub: "set (take_max (unat m) (kv_keys (br_withdraw_queue s))) \<subseteq> set (kv_keys (br_withdraw_queue s))"
    "distinct (take_max (unat m) (kv_keys (br_withdraw_queue s)))"
    using kv_ok_distinct [OF D(2)] by (auto simp: take_max_def dest: in_set_takeD)
  have "map (\<lambda>n. wr_Sequence (GetWithdrawRequest s n)) (take_max (unat m) (kv_keys (br_withdraw_queue s)))
      = take_max (unat m) (kv_keys (br_withdraw_queue s))"
    by (rule map_idI) (use sub(1) get in \<open>auto simp: set_kv_keys\<close>)
  then show "distinct (map wr_Sequence (GetPendingBtcWithdrawRequests s m))"
    using sub(2) by (simp add: GetPendingBtcWithdrawRequests_def comp_def)
  show "kv_get (br_withdraws s) (wr_Sequence r) = Some r \<and> wr_Txid r = ''''" if "r \<in> set (GetPendingBtcWithdrawRequests s m)"
    using that sub(1) get by (auto simp: GetPendingBtcWithdrawRequests_def set_kv_keys)
qed

lemma handleBtcWithdrawRequests_adv:
  assumes "handleBtcWithdrawRequests E height now s = Inr s'"
  shows "adv s s'"
proof (cases "s' = s")
  case False
  let ?rs = "GetPendingBtcWithdrawRequests s (bp_MaxBtcBatchWithdrawNum (GetParams s))"
  obtain f v q t where t: "BuildBtcBatchWithdrawSigningRequest E now ?rs f v s = Inr (q, t)"
    and s': "s' = fold (batch_one (bs_Txid q)) ?rs t"
    using assms False by (auto simp: handleBtcWithdrawRequests_def Let_def split: if_splits sum.splits option.splits)
  have signs: "signs s t" using t by (rule BuildBtcBatchWithdrawSigningRequest_signs)
  then have same: "wview t = wview s" by (simp add: signs_def)
  have inv: "withdraw_inv s" if "withdraw_inv t" using that same by (simp add: wview_def withdraw_inv_def)
  show ?thesis
  proof (cases "withdraw_inv t")
    case True
    note P = pending_requests [OF inv [OF True], where m = "bp_MaxBtcBatchWithdrawNum (GetParams s)"]
    have "adv t s'"
      unfolding s' by (rule batch_adv) (use P same in \<open>auto simp: wview_def\<close>)
    then show ?thesis using signs by (auto intro: adv_trans signs_adv)
  next
    case False
    have "\<not> withdraw_inv s" using False same by (simp add: wview_def withdraw_inv_def)
    moreover have "length (br_withdraws t) \<le> length (br_withdraws s')"
      unfolding s' by (rule fold_rel [where R = "\<lambda>a b. length (br_withdraws a) \<le> length (br_withdraws b)"])
        (auto simp: batch_one_def Let_def RemoveFromBtcWithdrawRequestQueue_def length_kv_set_le)
    ultimately have "wadv s s'" using same by (simp add: wadv_def wview_def)
    moreover have "sview (fold (batch_one h) xs u) = sview u" for h xs and u :: "('a, 'b) bridge_scheme"
      by (induction xs arbitrary: u) (simp_all add: batch_one_frame)
    then have "sadv t s'" unfolding s' by (intro sadv_view)
    ultimately show ?thesis using signs by (auto simp: adv_def signs_def intro: sadv_trans)
  qed
qed simp

section \<open>The end of a block\<close>

lemma vault_transfer_one_signs:
  assumes "vault_transfer_one E height now gov r s = Inr s'"
  shows "signs s s'"
  using assms
  by (auto simp: vault_transfer_one_def Let_def bind_res_eq_Inr try_res_Inr after_res_Inr split: if_splits list.splits
      dest!: keeper_TransferVault_signs intro: signs_trans)

lemma btcbridge_EndBlocker_adv:
  assumes "btcbridge_EndBlocker E height now gov s = Inr s'"
  shows "adv s s'"
proof -
  obtain a b c d where a: "btcbridge_handleDKGRequests now s = Inr a"
    and b: "handleIBCWithdrawRequests E height (btcbridge_handleRefreshingRequests now a) = Inr b"
    and c: "handleBtcWithdrawRequests E height now b = Inr c"
    and d: "updateRateLimit E now c = Inr d"
    and e: "handleVaultTransfer E height now gov d = Inr s'"
    using assms unfolding btcbridge_EndBlocker_def by (auto elim!: peel)
  have "adv s a" by (rule frame_adv [OF btcbridge_handleDKGRequests_frame [OF a]])
  also have "adv a (btcbridge_handleRefreshingRequests now a)" by (rule frame_adv [OF btcbridge_handleRefreshingRequests_frame])
  also have "adv \<dots> b" by (rule handleIBCWithdrawRequests_adv [OF b])
  also have "adv b c" by (rule handleBtcWithdrawRequests_adv [OF c])
  also have "adv c d" by (rule frame_adv [OF updateRateLimit_frame [OF d]])
  also have "adv d s'"
    using e unfolding handleVaultTransfer_def by (intro signs_adv) (erule fold_res_signs, rule vault_transfer_one_signs)
  finally show ?thesis .
qed

section \<open>Runs\<close>

text \<open>
  The messages with their arguments, the callback of the IBC modules, the end of a block, and what other modules do: a
  transfer of coins, an update of the incentive parameters, new block headers.
\<close>

inductive bridge_step :: "('b, 'e) benv_scheme \<Rightarrow> string \<Rightarrow> 'b bridge \<Rightarrow> 'b bridge \<Rightarrow> bool" for E gov where
  deposit: "btcbridge_SubmitDepositTransaction E now sender bh prev tx proof s = Inr s' \<Longrightarrow> bridge_step E gov s s'"
| confirm: "SubmitWithdrawTransaction E sender bh tx proof s = Inr s' \<Longrightarrow> bridge_step E gov s s'"
| fee_rate: "SubmitFeeRate E height sender rate s = Inr s' \<Longrightarrow> bridge_step E gov s s'"
| relayers: "UpdateTrustedNonBtcRelayers E sender rs s = Inr s' \<Longrightarrow> bridge_step E gov s s'"
| providers: "UpdateTrustedFeeProviders E sender rs s = Inr s' \<Longrightarrow> bridge_step E gov s s'"
| withdraw: "WithdrawToBitcoin E height now sender amount s = Inr (r, s') \<Longrightarrow> bridge_step E gov s s'"
| sign: "btcbridge_SubmitSignatures E sender txid sigs s = Inr s' \<Longrightarrow> bridge_step E gov s s'"
| consolidate: "btcbridge_ConsolidateVaults E height now gov signer version btc runes s = Inr s' \<Longrightarrow> bridge_step E gov s s'"
| transfer: "btcbridge_TransferVault E height now gov signer src dest t psbts target s = Inr s' \<Longrightarrow> bridge_step E gov s s'"
| initiate: "msg_InitiateDKG E allowed now gov signer ps threshold ts enable target s = Inr s' \<Longrightarrow> bridge_step E gov s s'"
| complete: "msg_CompleteDKG E now c s = Inr s' \<Longrightarrow> bridge_step E gov s s'"
| refresh: "btcbridge_Refresh E now gov signer ids removed timeout s = Inr s' \<Longrightarrow> bridge_step E gov s s'"
| refreshed: "msg_CompleteRefreshing E now sender n k sig s = Inr s' \<Longrightarrow> bridge_step E gov s s'"
| params: "btcbridge_UpdateParams E gov signer p s = Inr s' \<Longrightarrow> bridge_step E gov s s'"
| received: "IBCReceivePacketCallback E packet contract s = Inr s' \<Longrightarrow> bridge_step E gov s s'"
| end_block: "btcbridge_EndBlocker E height now gov s = Inr s' \<Longrightarrow> bridge_step E gov s s'"
| bank: "bridge_step E gov s (s\<lparr>ch_bank := b\<rparr>)"
| incentive: "incentive_UpdateParams E gov signer ip s = Inr s' \<Longrightarrow> bridge_step E gov s s'"
| headers: "SetBlockHeaders hs s = (r, s') \<Longrightarrow> bridge_step E gov s s'"

inductive bridge_run :: "('b, 'e) benv_scheme \<Rightarrow> string \<Rightarrow> 'b bridge \<Rightarrow> 'b bridge \<Rightarrow> bool" for E gov where
  bridge_start: "bridge_run E gov s s"
| bridge_more: "bridge_run E gov s t \<Longrightarrow> bridge_step E gov t u \<Longrightarrow> bridge_run E gov s u"

lemma SetBlockHeaders_frame:
  assumes "SetBlockHeaders hs s = (r, s')"
  shows "frame s s'"
proof -
  have "frame s (snd (store_headers xs b s))" for xs b and s :: "('a, 'b) bridge_scheme"
  proof (induction xs arbitrary: b s)
    case Nil
    then show ?case by (auto simp: SetBestBlockHeader_def intro!: frame_I)
  next
    case (Cons x xs)
    have "frame s (SetBlockHeader x s)" by (auto simp: SetBlockHeader_def intro!: frame_I)
    then show ?case using Cons.IH [of "SetBlockHeader x s" x] by (auto intro: frame_trans)
  qed
  then show ?thesis using assms by (auto simp: SetBlockHeaders_def split: if_splits prod.splits bool.splits) (metis snd_conv)+
qed

lemma bridge_refresh_frame: "fold_res (bridge_refresh_one now rm t) ids s = Inr s' \<Longrightarrow> frame s s'"
  by (erule fold_res_frame)
    (auto simp: bridge_refresh_one_def Let_def split: if_splits intro: btcbridge_InitiateRefreshingRequest_frame)

theorem bridge_step_adv: "bridge_step E gov s s' \<Longrightarrow> adv s s'"
proof (induction rule: bridge_step.induct)
  case (deposit now sender bh prev tx pf s s')
  then show ?case
    by (auto simp: btcbridge_SubmitDepositTransaction_def bind_res_eq_Inr split: if_splits dest: ProcessBitcoinDepositTransaction_signs intro: signs_adv)
next
  case (confirm sender bh tx pf s s')
  then show ?case
    by (auto simp: SubmitWithdrawTransaction_def bind_res_eq_Inr intro: signs_adv ProcessBitcoinWithdrawTransaction_signs)
next
  case (fee_rate height sender rate s s')
  then show ?case
    by (auto simp: SubmitFeeRate_def SetFeeRate_def bind_res_eq_Inr split: if_splits intro!: frame_adv frame_I)
next
  case (relayers sender rs s s')
  then show ?case
    by (auto simp: UpdateTrustedNonBtcRelayers_def bind_res_eq_Inr split: if_splits intro: frame_adv SetParams_frame)
next
  case (providers sender rs s s')
  then show ?case
    by (auto simp: UpdateTrustedFeeProviders_def bind_res_eq_Inr split: if_splits intro: frame_adv SetParams_frame)
next
  case (consolidate height now signer version btc runes s s')
  then show ?case
    by (auto simp: btcbridge_ConsolidateVaults_def bind_res_eq_Inr split: if_splits intro: signs_adv keeper_ConsolidateVaults_signs)
next
  case (transfer height now signer src dest t psbts target s s')
  then show ?case
    by (auto simp: btcbridge_TransferVault_def bind_res_eq_Inr split: if_splits intro: signs_adv keeper_TransferVault_signs)
next
  case (initiate allowed now signer ps threshold ts enable target s s')
  then show ?case
    by (auto simp: msg_InitiateDKG_def bind_res_eq_Inr split: if_splits intro: frame_adv btcbridge_InitiateDKG_frame)
next
  case (complete now c s s')
  then show ?case by (auto simp: msg_CompleteDKG_def bind_res_eq_Inr intro: frame_adv btcbridge_CompleteDKG_frame)
next
  case (refresh now signer ids removed timeout s s')
  then show ?case by (auto simp: btcbridge_Refresh_def bind_res_eq_Inr split: if_splits intro: frame_adv bridge_refresh_frame)
next
  case (refreshed now sender n k sig s s')
  then show ?case by (auto simp: msg_CompleteRefreshing_def bind_res_eq_Inr intro: frame_adv btcbridge_CompleteRefreshing_frame)
next
  case (params signer p s s')
  then show ?case
    by (auto simp: btcbridge_UpdateParams_def bind_res_eq_Inr Let_def split: if_splits
        dest!: UpdateRateLimitTotalQuotas_frame intro: frame_adv frame_trans [OF SetParams_frame] SetParams_frame)
next
  case (incentive signer ip s s')
  then show ?case by (auto simp: incentive_UpdateParams_def bind_res_eq_Inr split: if_splits intro!: frame_adv frame_I)
qed (blast intro: frame_adv signs_adv WithdrawToBitcoin_adv btcbridge_SubmitSignatures_signs IBCReceivePacketCallback_frame
    btcbridge_EndBlocker_adv incentive_frame SetBlockHeaders_frame)+

theorem bridge_run_adv: "bridge_run E gov s s' \<Longrightarrow> adv s s'"
  by (induction rule: bridge_run.induct) (auto intro: adv_trans bridge_step_adv)

end
