(* ===== verification/Bridge_Sample.thy ===== *)
theory Bridge_Sample
  imports Bridge_Reach Lending_Sample
begin

text \<open>
  A concrete environment and a run of the bridge on it: a deposit of 1000000 satoshis, a request to withdraw half of
  it, and the batch that pays it. The hash of a transaction names the outputs it spends, a coin is printed as its number and its denom, the
  transactions and the psbt are told apart by the length of their bytes. The witnesses of the properties of the bridge are
  states of this run.
\<close>

section \<open>The environment\<close>

definition spend_hash :: "msg_tx \<Rightarrow> string" where
  "spend_hash tx = ''tx'' @ concat (map ti_Hash (mt_TxIn tx))"

definition sample_in :: "string \<Rightarrow> tx_in" where
  "sample_in h = \<lparr>ti_Hash = h, ti_Index = 0, ti_Sequence = MagicSequence, ti_Witness = []\<rparr>"

definition prev_tx :: msg_tx where
  "prev_tx = \<lparr>mt_Version = 2, mt_TxIn = [], mt_TxOut = [\<lparr>to_Value = 2000000, to_PkScript = ''pay alice''\<rparr>], mt_LockTime = 0\<rparr>"

definition deposit_tx :: msg_tx where
  "deposit_tx = \<lparr>mt_Version = 2, mt_TxIn = [sample_in ''tx''],
     mt_TxOut = [\<lparr>to_Value = 1000000, to_PkScript = ''pay vaultb''\<rparr>, \<lparr>to_Value = 900000, to_PkScript = ''pay alice''\<rparr>], mt_LockTime = 0\<rparr>"

text \<open>Another deposit of the same values, and the transaction it spends.\<close>

definition second_prev :: msg_tx where
  "second_prev = prev_tx\<lparr>mt_TxIn := [sample_in ''z'']\<rparr>"

definition second_tx :: msg_tx where
  "second_tx = deposit_tx\<lparr>mt_TxIn := [sample_in ''txz'']\<rparr>"

definition withdraw_tx :: msg_tx where
  "withdraw_tx = \<lparr>mt_Version = 2, mt_TxIn = [sample_in ''txtx''],
     mt_TxOut = [\<lparr>to_Value = 499900, to_PkScript = ''pay alice''\<rparr>, \<lparr>to_Value = 499300, to_PkScript = ''pay vaultb''\<rparr>], mt_LockTime = 0\<rparr>"

definition withdraw_psbt :: psbt where
  "withdraw_psbt = \<lparr>ps_Tx = withdraw_tx, ps_Inputs = [(sample_input (Some \<lparr>to_Value = 1000000, to_PkScript = ''pay vaultb''\<rparr>))]\<rparr>"

definition bridge_txs :: "string \<Rightarrow> msg_tx res" where
  "bridge_txs x = (if length x = 3 then Inr deposit_tx else if length x = 6 then Inr prev_tx else if length x = 9 then Inr withdraw_tx
     else if length x = 12 then Inr second_tx else if length x = 15 then Inr second_prev
     else Inl (External ''decode''))"

definition is_digit :: "char \<Rightarrow> bool" where
  "is_digit c \<longleftrightarrow> (48 :: nat) \<le> of_char c \<and> of_char c \<le> (57 :: nat)"

definition sample_coin :: "string \<Rightarrow> coin res" where
  "sample_coin x = (if takeWhile is_digit x = [] then Inl (External ''coin'')
     else Inr \<lparr>Denom = dropWhile is_digit x, Amount = foldl (\<lambda>n c. 10 * n + int (of_char c) - 48) 0 (takeWhile is_digit x)\<rparr>)"

fun print_int :: "int \<Rightarrow> string" where
  "print_int n = (if n < 10 then [char_of (48 + n)] else print_int (n div 10) @ [char_of (48 + n mod 10)])"

declare print_int.simps [simp del]

fun sample_script :: "script_op list \<Rightarrow> string res" where
  "sample_script [AddOp a, AddOp b, AddData d] =
     (if a < 256 \<and> b < 256 \<and> length d \<le> 75 then Inr (char_of a # char_of b # char_of (length d) # d) else Inl (External ''script''))"
| "sample_script _ = Inl (External ''script'')"

fun sample_tokens :: "string \<Rightarrow> (nat \<times> string) list \<times> bool" where
  "sample_tokens (a # b # l # d) = ([(of_char a, []), (of_char b, []), (of_char l, d)], True)"
| "sample_tokens _ = ([], False)"

definition sample_benv :: "ledger benv" where
  "sample_benv = nenv.extend (sample_lenv\<lparr>tx_hash := spend_hash, tx_decode := bridge_txs, psbt_fee := (\<lambda>_. Inr 800),
       merkle_branch := (\<lambda>a b. ''root''), psbt_parse := (\<lambda>_. Inr withdraw_psbt),
       psbt_encode := (\<lambda>p. Inr (spend_hash (ps_Tx p)))\<rparr>)
     (benv.fields sample_coin (\<lambda>c. print_int (Amount c) @ Denom c) (\<lambda>cs. list_all (\<lambda>c. 0 \<le> Amount c) cs)
       (\<lambda>b d. sum_list (map (\<lambda>(_, d', x). if d' = d then x else 0) b)) ledger_balance (\<lambda>b a. b = []) (\<lambda>m. m) (\<lambda>a. a \<noteq> '''') (\<lambda>k. True)
       (parse_digits 0) sample_tokens sample_script
       (\<lambda>x. if take 4 x = ''pay '' then Inr (drop 4 x) else Inl (External ''script'')) (\<lambda>_. WitnessPubKeyHashTy) (\<lambda>x. False) (\<lambda>a. a)
       (\<lambda>p i t. Inr ''hash'') (\<lambda>b. ''transfer'') (\<lambda>b p c. Inr (0, 100)) (\<lambda>b m. (b, Inr 1)) (\<lambda>b d. \<lparr>Denom = d, Amount = 0\<rparr>) (\<lambda>b c. b)
       (\<lambda>p c. ''escrow'') (\<lambda>x. None) (\<lambda>p c. p @ c) (\<lambda>x. None))"

lemma sample_benv_simps [simp]:
  "tx_hash sample_benv = spend_hash" "tx_decode sample_benv = bridge_txs" "tx_sane sample_benv = (\<lambda>_. True)"
  "hash_bytes sample_benv = (\<lambda>h. h)" "merkle_branch sample_benv = (\<lambda>a b. ''root'')" "hash_ok sample_benv = (\<lambda>h. h \<noteq> '''')"
  "send_coins sample_benv = ledger_send" "mint_coins sample_benv = ledger_mint" "burn_coins sample_benv = ledger_burn"
  "balance sample_benv = ledger_balance" "bech32_ok sample_benv = (\<lambda>a. a \<noteq> '''')" "valid_denom sample_benv = (\<lambda>d. d \<noteq> '''')"
  "parse_coin sample_benv = sample_coin" "u128_parse sample_benv = parse_digits 0" "script_tokens sample_benv = sample_tokens"
  "build_script sample_benv = sample_script"
  "script_address sample_benv = (\<lambda>x. if take 4 x = ''pay '' then Inr (drop 4 x) else Inl (External ''script''))"
  by (simp_all add: sample_benv_def nenv.extend_def benv.fields_def sample_lenv_def)

lemma sample_benv_bank: "bank_ok sample_benv"
  using sample_bank_ok by (simp add: bank_ok_def sample_env_def)

lemma sample_u128_ok: "u128_ok sample_benv"
  by (simp add: u128_ok_def parse_digits_dec_string)

lemma sample_scripts_ok: "scripts_ok sample_benv"
  by (auto simp: scripts_ok_def OP_PUSHDATA4_def split: if_splits)

section \<open>The run\<close>

definition vault_b :: vault where
  "vault_b = \<lparr>va_Address = ''vaultb'', va_PubKey = '''', va_AssetType = ASSET_BTC, va_Version = 1\<rparr>"

definition vault_r :: vault where
  "vault_r = \<lparr>va_Address = ''vaultr'', va_PubKey = '''', va_AssetType = ASSET_RUNES, va_Version = 1\<rparr>"

definition sample_bridge_params :: bridge_params where
  "sample_bridge_params = \<lparr>bp_DepositConfirmationDepth = 6, bp_WithdrawConfirmationDepth = 6, bp_MaxAcceptableBlockDepth = 100,
     bp_BtcVoucherDenom = ''sat'', bp_DepositEnabled = True, bp_WithdrawEnabled = True, bp_TrustedNonBtcRelayers = [''relayer''],
     bp_TrustedFeeProviders = [''feeder''], bp_FeeRateValidityPeriod = 100, bp_Vaults = [vault_b, vault_r], bp_MaxUtxoNum = 10,
     bp_BtcBatchWithdrawPeriod = 10, bp_MaxBtcBatchWithdrawNum = 5, bp_BtcMinDeposit = 1000, bp_BtcMinWithdraw = 1000,
     bp_BtcMaxWithdraw = 10000000, bp_DepositFee = 400, bp_WithdrawFee = 100, bp_Collector = ''fees'', bp_DkgTimeoutPeriod = 100,
     bp_ParticipantUpdateTransitionPeriod = 100, bp_GlobalPeriod = 1000, bp_GlobalSupplyPercentageQuota = 60, bp_AddressPeriod = 1000,
     bp_AddressQuota = 600000, bp_TimeoutHeightOffset = 0, bp_TimeoutDuration = 0, bp_MaxSponsorFee = []\<rparr>"

definition sample_header :: block_header where
  "sample_header = zero_header\<lparr>bh_Hash := ''blk'', bh_Height := 10, bh_MerkleRoot := ''root''\<rparr>"

definition b_start :: "ledger bridge" where
  "b_start = \<lparr>ch_bank = [], ch_prices = [],
     ch_headers = \<lparr>hs_headers = [(''blk'', sample_header)], hs_by_height = [(10, ''blk'')], hs_best = Some (sample_header\<lparr>bh_Height := 20\<rparr>)\<rparr>,
     ch_fee_rate = \<lparr>fr_Value = 4, fr_Height = 5\<rparr>, ch_fee_validity = 100, ch_deposit_depth = 6,
     ic_params = \<lparr>ip_Enabled = False, ip_RewardPerDeposit = zero_coin, ip_RewardPerWithdraw = zero_coin\<rparr>, ic_rewards = [], ic_stats = None,
     br_params = sample_bridge_params, br_withdraw_seq = 0, br_withdraws = [], br_withdraws_by_tx = [], br_withdraw_queue = [],
     br_signing_seq = 0, br_signings = [], br_signing_by_tx = [], br_signing_by_status = [], br_minted = [], br_utxos = [],
     br_owned = [], br_owned_by_amount = [], br_owned_runes = [], br_dkg_id = None, br_dkgs = [], br_dkg_completions = [],
     br_vault_version = 1, br_refreshing_id = 0, br_refreshings = [], br_refreshing_completions = [], br_ibc_queue = [],
     br_rate_limit = None, br_address_limits = []\<rparr>"

definition deposited_utxo :: bridge_utxo where
  "deposited_utxo = \<lparr>ut_Txid = ''txtx'', ut_Vout = 0, ut_Amount = 1000000, ut_PkScript = ''pay vaultb'', bu_Address = ''vaultb'',
     bu_Height = 10, bu_IsLocked = False, bu_Runes = []\<rparr>"

definition b_deposited :: "ledger bridge" where
  "b_deposited = b_start\<lparr>ch_bank := [(Account ''alice'', ''sat'', 999600), (ModuleAcc ''btcbridge'', ''sat'', - 999600),
       (Account ''fees'', ''sat'', 400), (ModuleAcc ''btcbridge'', ''sat'', - 400), (ModuleAcc ''btcbridge'', ''sat'', 1000000)],
     br_minted := [(''txtx'', ())], br_utxos := [((''txtx'', 0), deposited_utxo)], br_owned := [((''vaultb'', ''txtx'', 0), ())],
     br_owned_by_amount := [((''vaultb'', 1000000, ''txtx'', 0), ())]\<rparr>"

lemma run_deposit:
  "btcbridge_SubmitDepositTransaction sample_benv 0 ''relayer'' ''blk'' ''AAAAAAAA'' ''AAAA'' [''AA==''] b_start = Inr b_deposited"
  by code_simp

definition request_1 :: "string \<Rightarrow> withdraw_request" where
  "request_1 h = \<lparr>wr_Address = ''alice'', wr_Amount = ''499900sat'', wr_Sequence = 1, wr_Txid = h\<rparr>"

definition sample_limit :: "int \<Rightarrow> int \<Rightarrow> int \<Rightarrow> int \<Rightarrow> int \<Rightarrow> rate_limit" where
  "sample_limit start end quota used aquota = \<lparr>rl_Global = \<lparr>gl_StartTime = start, gl_EndTime = end, gl_Quota = quota, gl_Used = used\<rparr>,
     rl_Address = \<lparr>al_StartTime = start, al_EndTime = end, al_Quota = aquota\<rparr>\<rparr>"

definition b_requested :: "ledger bridge" where
  "b_requested = b_deposited\<lparr>ch_bank := [(bridge_acc, ''sat'', - 800), (bridge_acc, ''sat'', 800), (Account ''alice'', ''sat'', - 800),
       (bridge_acc, ''sat'', - 499900), (bridge_acc, ''sat'', 499900), (Account ''alice'', ''sat'', - 499900),
       (Account ''fees'', ''sat'', 100), (Account ''alice'', ''sat'', - 100)] @ ch_bank b_deposited,
     br_withdraw_seq := 1, br_withdraws := [(1, request_1 '''')], br_withdraw_queue := [(1, ())],
     br_rate_limit := Some (sample_limit zero_time zero_time 0 500000 0),
     br_address_limits := [(''alice'', \<lparr>ad_Address = ''alice'', ad_Used = 500000\<rparr>)]\<rparr>"

definition signing_1 :: "bridge_status \<Rightarrow> bridge_signing" where
  "signing_1 st = \<lparr>bs_Address = ''btcbridge'', bs_Sequence = 1, bs_Type = ASSET_BTC, bs_Txid = ''txtxtx'', bs_Psbt = ''txtxtx'',
     bs_CreationTime = 5, bs_Status = st\<rparr>"

definition change_utxo :: "bool \<Rightarrow> bridge_utxo" where
  "change_utxo locked = \<lparr>ut_Txid = ''txtxtx'', ut_Vout = 1, ut_Amount = 499300, ut_PkScript = ''pay vaultb'', bu_Address = ''vaultb'',
     bu_Height = 0, bu_IsLocked = locked, bu_Runes = []\<rparr>"

definition b_batched :: "ledger bridge" where
  "b_batched = b_requested\<lparr>br_withdraws := [(1, request_1 ''txtxtx'')], br_withdraws_by_tx := [((''txtxtx'', 1), ())], br_withdraw_queue := [],
     br_signing_seq := 1, br_signings := [(1, signing_1 BS_PENDING)], br_signing_by_tx := [(''txtxtx'', 1)],
     br_signing_by_status := [((BS_PENDING, 1), ())], br_minted := [(''txtx'', ()), (''txtxtx'', ())],
     br_utxos := [((''txtxtx'', 1), change_utxo True)], br_owned := [], br_owned_by_amount := [],
     br_rate_limit := Some (sample_limit 5 1005 299580 0 600000), br_address_limits := []\<rparr>"

definition b_confirmed :: "ledger bridge" where
  "b_confirmed = b_batched\<lparr>br_signings := [(1, signing_1 BS_CONFIRMED)], br_signing_by_status := [((BS_CONFIRMED, 1), ())],
     br_utxos := [((''txtxtx'', 1), change_utxo False)], br_owned := [((''vaultb'', ''txtxtx'', 1), ())],
     br_owned_by_amount := [((''vaultb'', 499300, ''txtxtx'', 1), ())]\<rparr>"

lemma bridge_withdraw_run:
  "WithdrawToBitcoin sample_benv 20 5 ''alice'' ''500000sat'' b_deposited = Inr (request_1 '''', b_requested)"
  by code_simp

lemma run_batch: "btcbridge_EndBlocker sample_benv 20 5 ''gov'' b_requested = Inr b_batched"
  by code_simp

lemma run_confirm: "SubmitWithdrawTransaction sample_benv ''relayer'' ''blk'' ''AAAAAAAAAAAA'' [''AA==''] b_batched = Inr b_confirmed"
  by code_simp

lemma run_all: "bridge_run sample_benv ''gov'' b_deposited b_confirmed" "bridge_run sample_benv ''gov'' b_requested b_confirmed"
    "bridge_run sample_benv ''gov'' b_batched b_confirmed" "bridge_run sample_benv ''gov'' b_deposited b_deposited"
  by (meson bridge_run.intros bridge_step.withdraw [OF bridge_withdraw_run] bridge_step.end_block [OF run_batch] bridge_step.confirm [OF run_confirm])+

lemma bridge_second:
  "\<exists>s. btcbridge_SubmitDepositTransaction sample_benv 9 ''relayer'' ''blk'' (replicate 20 CHR ''A'') (replicate 16 CHR ''A'') [''AA==''] b_confirmed = Inr s"
proof -
  have "(case btcbridge_SubmitDepositTransaction sample_benv 9 ''relayer'' ''blk'' (replicate 20 CHR ''A'') (replicate 16 CHR ''A'') [''AA==''] b_confirmed
      of Inl _ \<Rightarrow> False | Inr _ \<Rightarrow> True)"
    by code_simp
  then show ?thesis by (simp split: sum.splits)
qed

lemma sample_txs:
  "sane_tx sample_benv ''AAAA'' = Inr deposit_tx" "sane_tx sample_benv (replicate 16 CHR ''A'') = Inr second_tx"
  "spend_hash deposit_tx = ''txtx''" "spend_hash second_tx = ''txtxz''"
  by code_simp+

end
