(* ===== verification/Bridge_Props.thy ===== *)
theory Bridge_Props
  imports Bridge_Sample
begin

text \<open>
  The properties of the Bitcoin bridge: the life of deposits, withdrawals and signing requests over all runs, what a
  deposit mints, the totals of the rate limits, withdrawals that came over IBC, and the transfer of vaults after the first key generation.
\<close>

section \<open>Runs\<close>

definition bridge_fresh :: "('b, 'x) bridge_scheme \<Rightarrow> bool" where
  "bridge_fresh s \<longleftrightarrow> br_withdraw_seq s = 0 \<and> br_withdraws s = [] \<and> br_withdraws_by_tx s = [] \<and> br_withdraw_queue s = []
     \<and> br_signing_seq s = 0 \<and> br_signings s = [] \<and> br_signing_by_tx s = [] \<and> br_signing_by_status s = []"

lemma bridge_fresh_inv: "bridge_fresh s \<Longrightarrow> signing_inv s \<and> withdraw_inv s"
  by (simp add: bridge_fresh_def signing_inv_def withdraw_inv_def counted_def index_ok_def)

lemma run_invs:
  assumes "bridge_run E gov s s'"
  shows "withdraw_inv s \<Longrightarrow> few (br_withdraws s') \<Longrightarrow> withdraw_inv s' \<and> kept wd_next (br_withdraws s) (br_withdraws s')"
    and "signing_inv s \<Longrightarrow> few (br_signings s') \<Longrightarrow> signing_inv s' \<and> kept sig_next (br_signings s) (br_signings s')"
    and "few (br_withdraws s') \<Longrightarrow> few (br_withdraws s)" and "few (br_signings s') \<Longrightarrow> few (br_signings s)"
    and "kv_has (br_minted s) h \<Longrightarrow> kv_has (br_minted s') h"
  using bridge_run_adv [OF assms] by (simp_all add: adv_def sadv_def wadv_def few_def)

lemma sample_fresh_bridge: "bridge_fresh b_start"
  by (simp add: bridge_fresh_def b_start_def)

lemma sample_deposited: "bridge_run sample_benv ''gov'' b_start b_deposited"
  by (meson bridge_run.intros bridge_step.deposit [OF run_deposit])

lemma run_trans: "bridge_run E gov s t \<Longrightarrow> bridge_run E gov t u \<Longrightarrow> bridge_run E gov s u"
  by (rotate_tac, induction rule: bridge_run.induct) (auto intro: bridge_run.intros)

text \<open>
  C6. A transaction is minted once. When a deposit has been accepted, every deposit that is accepted in any later state
  of any run, from any relayer and with any proof, is of a transaction with another hash. This also holds for the change and transfer transactions of
  the bridge, whose hashes enter the same history.
\<close>

theorem deposit_minted_once:
  assumes "btcbridge_SubmitDepositTransaction E now sender bh prev tx proof s = Inr s1" "bridge_run E gov s1 s2"
    and "btcbridge_SubmitDepositTransaction E now' sender' bh' prev' tx' proof' s2 = Inr s3"
  shows "\<exists>m m'. sane_tx E tx = Inr m \<and> sane_tx E tx' = Inr m' \<and> tx_hash E m' \<noteq> tx_hash E m
    \<and> \<not> existsInHistory s (tx_hash E m) \<and> existsInHistory s3 (tx_hash E m) \<and> existsInHistory s3 (tx_hash E m')"
proof -
  have p1: "ProcessBitcoinDepositTransaction E now sender tx prev bh proof s = Inr s1"
    and p2: "ProcessBitcoinDepositTransaction E now' sender' tx' prev' bh' proof' s2 = Inr s3"
    using assms(1,3) by (auto simp: btcbridge_SubmitDepositTransaction_def bind_res_eq_Inr split: if_splits)
  obtain m where m: "sane_tx E tx = Inr m" "kv_has (br_minted s1) (tx_hash E m)" "\<not> kv_has (br_minted s) (tx_hash E m)"
    using ProcessBitcoinDepositTransaction_signs [OF p1] by blast
  obtain m' where m': "sane_tx E tx' = Inr m'" "kv_has (br_minted s3) (tx_hash E m')" "\<not> kv_has (br_minted s2) (tx_hash E m')"
    using ProcessBitcoinDepositTransaction_signs [OF p2] by blast
  have "kv_has (br_minted s2) (tx_hash E m)" using run_invs(5) [OF assms(2) m(2)] .
  moreover from this have "kv_has (br_minted s3) (tx_hash E m)"
    using ProcessBitcoinDepositTransaction_signs [OF p2] by (auto simp: signs_def sadv_def)
  ultimately show ?thesis using m m' by (auto simp: existsInHistory_def)
qed

text \<open>
  C7. The life of a withdrawal request. In every run from a fresh state, a request keeps its number, address and
  amount, and once it has a transaction it keeps that too: it is never paid by a second one. A request in the queue has no
  transaction yet, and the index by transaction lists exactly the requests with it.
\<close>

theorem withdrawal_lifecycle:
  assumes "bridge_fresh s0" "bridge_run E gov s0 s" "bridge_run E gov s s'" "few (br_withdraws s')"
  shows "(\<forall>n r. kv_get (br_withdraws s) n = Some r \<longrightarrow> (\<exists>r'. kv_get (br_withdraws s') n = Some r' \<and> wr_Sequence r' = n
        \<and> wr_Address r' = wr_Address r \<and> wr_Amount r' = wr_Amount r \<and> (wr_Txid r \<noteq> '''' \<longrightarrow> wr_Txid r' = wr_Txid r)))
    \<and> (\<forall>r \<in> set (GetPendingBtcWithdrawRequests s' m). wr_Txid r = '''' \<and> kv_get (br_withdraws s') (wr_Sequence r) = Some r)
    \<and> distinct (map wr_Sequence (GetPendingBtcWithdrawRequests s' m))
    \<and> (\<forall>h r. h \<noteq> '''' \<longrightarrow> (r \<in> set (GetWithdrawRequestsByTxHash s' h)
        \<longleftrightarrow> kv_get (br_withdraws s') (wr_Sequence r) = Some r \<and> wr_Txid r = h))"
proof -
  have "withdraw_inv s0" using bridge_fresh_inv [OF assms(1)] by blast
  then have "withdraw_inv s" using run_invs(1) [OF assms(2)] run_invs(3) [OF assms(3,4)] by blast
  then have inv: "withdraw_inv s'" and kept: "kept wd_next (br_withdraws s) (br_withdraws s')"
    using run_invs(1) [OF assms(3) _ assms(4)] by blast+
  note D = withdraw_invD [OF inv]
  have terms: "\<exists>r'. kv_get (br_withdraws s') n = Some r' \<and> wr_Sequence r' = n
        \<and> wr_Address r' = wr_Address r \<and> wr_Amount r' = wr_Amount r \<and> (wr_Txid r \<noteq> '''' \<longrightarrow> wr_Txid r' = wr_Txid r)"
    if r: "kv_get (br_withdraws s) n = Some r" for n r
  proof -
    obtain r' where r': "kv_get (br_withdraws s') n = Some r'" "wd_next r r'" using kept r unfolding kept_def by blast
    then show ?thesis using D(4) [of n r'] by (auto simp: wd_next_def)
  qed
  have index: "r \<in> set (GetWithdrawRequestsByTxHash s' h) \<longleftrightarrow> kv_get (br_withdraws s') (wr_Sequence r) = Some r \<and> wr_Txid r = h"
    if h: "h \<noteq> ''''" for h r
  proof
    assume "r \<in> set (GetWithdrawRequestsByTxHash s' h)"
    then obtain n where n: "kv_has (br_withdraws_by_tx s') (h, n)" "r = GetWithdrawRequest s' n"
      by (auto simp: GetWithdrawRequestsByTxHash_def set_ids_with)
    then obtain x where "kv_get (br_withdraws s') n = Some x" "wr_Txid x = h" using D(6) by blast
    then show "kv_get (br_withdraws s') (wr_Sequence r) = Some r \<and> wr_Txid r = h"
      using n(2) D(4) [of n x] by (simp add: GetWithdrawRequest_def)
  next
    assume r: "kv_get (br_withdraws s') (wr_Sequence r) = Some r \<and> wr_Txid r = h"
    then have "kv_has (br_withdraws_by_tx s') (h, wr_Sequence r)" using D(6) h by blast
    then show "r \<in> set (GetWithdrawRequestsByTxHash s' h)"
      using r by (force simp: GetWithdrawRequestsByTxHash_def set_ids_with GetWithdrawRequest_def)
  qed
  show ?thesis using terms index pending_requests [OF inv] by blast
qed

text \<open>
  C8. The life of a signing request. In every run from a fresh state it keeps its number, owner, asset, transaction and time of
  creation, it goes from pending to broadcasted to confirmed and never back, its psbt is fixed from when it is no longer pending, and the index by
  status agrees with the stored requests.
\<close>

theorem bridge_signing_lifecycle:
  assumes "bridge_fresh s0" "bridge_run E gov s0 s" "bridge_run E gov s s'" "few (br_signings s')"
  shows "(\<forall>n q. kv_get (br_signings s) n = Some q \<longrightarrow> (\<exists>q'. kv_get (br_signings s') n = Some q' \<and> bs_Sequence q' = n
        \<and> bs_Address q' = bs_Address q \<and> bs_Type q' = bs_Type q \<and> bs_Txid q' = bs_Txid q \<and> bs_CreationTime q' = bs_CreationTime q
        \<and> bs_Status q' \<in> {BS_PENDING, BS_BROADCASTED, BS_CONFIRMED} \<and> bs_Status q \<le> bs_Status q'
        \<and> (bs_Status q \<noteq> BS_PENDING \<longrightarrow> bs_Psbt q' = bs_Psbt q)))
    \<and> (\<forall>st. set (btcbridge_GetSigningRequestsByStatus s' st) = {q \<in> set (btcbridge_GetAllSigningRequests s'). bs_Status q = st})"
proof -
  have "signing_inv s0" using bridge_fresh_inv [OF assms(1)] by blast
  then have inv0: "signing_inv s" using run_invs(2) [OF assms(2)] run_invs(4) [OF assms(3,4)] by blast
  then have inv: "signing_inv s'" and kept: "kept sig_next (br_signings s) (br_signings s')"
    using run_invs(2) [OF assms(3) _ assms(4)] by blast+
  note D = signing_invD [OF inv]
  have terms: "\<exists>q'. kv_get (br_signings s') n = Some q' \<and> bs_Sequence q' = n
        \<and> bs_Address q' = bs_Address q \<and> bs_Type q' = bs_Type q \<and> bs_Txid q' = bs_Txid q \<and> bs_CreationTime q' = bs_CreationTime q
        \<and> bs_Status q' \<in> {BS_PENDING, BS_BROADCASTED, BS_CONFIRMED} \<and> bs_Status q \<le> bs_Status q'
        \<and> (bs_Status q \<noteq> BS_PENDING \<longrightarrow> bs_Psbt q' = bs_Psbt q)"
    if q: "kv_get (br_signings s) n = Some q" for n q
  proof -
    obtain q' where q': "kv_get (br_signings s') n = Some q'" "sig_next q q'" using kept q unfolding kept_def by blast
    have "bs_Status q \<noteq> BS_PENDING \<Longrightarrow> BS_PENDING < bs_Status q"
      using signing_invD(3) [OF inv0 q] by (auto simp: bridge_status_less)
    then show ?thesis using q' D(3) [OF q'(1)] D(1) unfolding sig_next_def index_ok_def by blast
  qed
  have ids: "i \<in> set (ids_with st (br_signing_by_status s')) \<longleftrightarrow> (\<exists>x. kv_get (br_signings s') i = Some x \<and> bs_Status x = st)" for i st
    by (rule bsig.ids_with_iff [OF D(1)])
  have all: "q \<in> set (btcbridge_GetAllSigningRequests s') \<longleftrightarrow> (\<exists>i. kv_get (br_signings s') i = Some q)" for q
    using kv_ok_distinct [of "br_signings s'"] D(1) map_of_eq_Some_iff [of "br_signings s'"]
    by (force simp: btcbridge_GetAllSigningRequests_def index_ok_def kv_get_def kv_keys_def)
  have "q \<in> set (btcbridge_GetSigningRequestsByStatus s' st) \<longleftrightarrow> q \<in> set (btcbridge_GetAllSigningRequests s') \<and> bs_Status q = st" for q st
  proof
    assume "q \<in> set (btcbridge_GetSigningRequestsByStatus s' st)"
    then obtain i where i: "i \<in> set (ids_with st (br_signing_by_status s'))" "q = btcbridge_GetSigningRequest s' i"
      by (auto simp: btcbridge_GetSigningRequestsByStatus_def)
    then obtain x where "kv_get (br_signings s') i = Some x" "bs_Status x = st" using ids by blast
    then show "q \<in> set (btcbridge_GetAllSigningRequests s') \<and> bs_Status q = st"
      using i(2) all [of x] by (auto simp: btcbridge_GetSigningRequest_def)
  next
    assume q: "q \<in> set (btcbridge_GetAllSigningRequests s') \<and> bs_Status q = st"
    then obtain i where i: "kv_get (br_signings s') i = Some q" using all by blast
    then have "i \<in> set (ids_with st (br_signing_by_status s'))" "q = btcbridge_GetSigningRequest s' i"
      using q ids by (auto simp: btcbridge_GetSigningRequest_def)
    then show "q \<in> set (btcbridge_GetSigningRequestsByStatus s' st)" by (auto simp: btcbridge_GetSigningRequestsByStatus_def)
  qed
  then have "set (btcbridge_GetSigningRequestsByStatus s' st) = {q \<in> set (btcbridge_GetAllSigningRequests s'). bs_Status q = st}" for st
    by blast
  then show ?thesis using terms by blast
qed

theorem deposit_minted_once_witness:
  "\<exists>s. btcbridge_SubmitDepositTransaction sample_benv 9 ''relayer'' ''blk'' (replicate 20 CHR ''A'') (replicate 16 CHR ''A'') [''AA==''] b_confirmed = Inr s
    \<and> existsInHistory s ''txtx'' \<and> existsInHistory s ''txtxz''"
proof -
  obtain s where s: "btcbridge_SubmitDepositTransaction sample_benv 9 ''relayer'' ''blk'' (replicate 20 CHR ''A'') (replicate 16 CHR ''A'')
      [''AA==''] b_confirmed = Inr s"
    using bridge_second ..
  from deposit_minted_once [OF run_deposit run_all(1) s] s show ?thesis by (auto simp: sample_txs)
qed

theorem withdrawal_lifecycle_witness:
  "wr_Txid (GetWithdrawRequest b_requested 1) = '''' \<and> wr_Txid (GetWithdrawRequest b_confirmed 1) = ''txtxtx''
    \<and> request_1 ''txtxtx'' \<in> set (GetWithdrawRequestsByTxHash b_confirmed ''txtxtx'') \<and> GetPendingBtcWithdrawRequests b_confirmed 5 = []"
proof -
  have run: "bridge_run sample_benv ''gov'' b_start b_requested"
    by (rule run_trans [OF sample_deposited]) (meson bridge_run.intros bridge_step.withdraw [OF bridge_withdraw_run])
  have few: "few (br_withdraws b_confirmed)" by (simp add: few_def b_confirmed_def b_batched_def)
  have r: "kv_get (br_withdraws b_confirmed) 1 = Some (request_1 ''txtxtx'')" "br_withdraw_queue b_confirmed = []"
    "kv_get (br_withdraws b_requested) 1 = Some (request_1 '''')"
    by (simp_all add: b_confirmed_def b_batched_def b_requested_def kv_get_def)
  have "request_1 ''txtxtx'' \<in> set (GetWithdrawRequestsByTxHash b_confirmed ''txtxtx'')"
    using withdrawal_lifecycle [OF sample_fresh_bridge run run_all(2) few] r(1) by (auto simp: request_1_def)
  then show ?thesis
    using r by (simp add: GetWithdrawRequest_def request_1_def GetPendingBtcWithdrawRequests_def kv_keys_def take_max_def)
qed

theorem bridge_signing_lifecycle_witness:
  "bs_Status (btcbridge_GetSigningRequest b_batched 1) = BS_PENDING \<and> bs_Status (btcbridge_GetSigningRequest b_confirmed 1) = BS_CONFIRMED
    \<and> bs_Txid (btcbridge_GetSigningRequest b_confirmed 1) = bs_Txid (btcbridge_GetSigningRequest b_batched 1)"
proof -
  have run: "bridge_run sample_benv ''gov'' b_start b_batched"
    by (rule run_trans [OF sample_deposited])
      (meson bridge_run.intros bridge_step.withdraw [OF bridge_withdraw_run] bridge_step.end_block [OF run_batch])
  have few: "few (br_signings b_confirmed)" by (simp add: few_def b_confirmed_def b_batched_def)
  have q: "kv_get (br_signings b_batched) 1 = Some (signing_1 BS_PENDING)" "kv_get (br_signings b_confirmed) 1 = Some (signing_1 BS_CONFIRMED)"
    by (simp_all add: b_confirmed_def b_batched_def kv_get_def)
  have "bs_Txid (signing_1 BS_CONFIRMED) = bs_Txid (signing_1 BS_PENDING)"
    using bridge_signing_lifecycle [OF sample_fresh_bridge run run_all(3) few, THEN conjunct1, rule_format, OF q(1)] q(2) by auto
  then show ?thesis using q by (simp add: btcbridge_GetSigningRequest_def signing_1_def)
qed

section \<open>Deposits\<close>

lemma SelectVaultByAddress_address: "SelectVaultByAddress vs a = Some v \<Longrightarrow> va_Address v = a \<and> v \<in> set vs"
  by (auto simp: SelectVaultByAddress_def find_Some_iff)

text \<open>An output of a transaction that pays a BTC vault.\<close>

definition pays_btc_vault :: "('b, 'e) benv_scheme \<Rightarrow> vault list \<Rightarrow> tx_out \<Rightarrow> string \<Rightarrow> bool" where
  "pays_btc_vault E vs out a \<longleftrightarrow> \<not> IsOpReturnOutput out \<and> script_address E (to_PkScript out) = Inr a
     \<and> (\<exists>v. SelectVaultByAddress vs a = Some v \<and> va_AssetType v = ASSET_BTC)"

lemma btc_output_found:
  assumes "btc_output E vs outs k = Inr (out, i, a)"
  shows "\<exists>j. i = k + j \<and> j < length outs \<and> out = outs ! j \<and> pays_btc_vault E vs out a"
  using assms
proof (induction outs arbitrary: k)
  case (Cons x outs)
  show ?case
  proof (cases "btc_output E vs outs (Suc k) = Inr (out, i, a)")
    case True
    from Cons.IH [OF this] obtain j where "i = Suc k + j" "j < length outs" "out = outs ! j" "pays_btc_vault E vs out a" by blast
    then show ?thesis by (intro exI [of _ "Suc j"]) simp
  next
    case False
    then obtain a' w where x: "\<not> IsOpReturnOutput x" "script_address E (to_PkScript x) = Inr a'" "SelectVaultByAddress vs a' = Some w"
      and w: "va_AssetType w = ASSET_BTC \<and> i = k \<and> out = x \<and> a = va_Address w"
      using Cons.prems by (simp add: bind_res_eq_Inr split: if_splits) (auto split: option.splits if_splits)
    then have "a = a'" using SelectVaultByAddress_address by blast
    then have "i = k \<and> out = x \<and> pays_btc_vault E vs out a" using x w by (simp add: pays_btc_vault_def)
    then show ?thesis by (intro exI [of _ 0]) auto
  qed
qed simp

lemma on_bank_Inr: "on_bank f s = Inr s' \<longleftrightarrow> (\<exists>b. f (ch_bank s) = Inr b \<and> s' = s\<lparr>ch_bank := b\<rparr>)"
  by (auto simp: on_bank_def bind_res_eq_Inr)

definition deposit_fee :: "('b, 'x) bridge_scheme \<Rightarrow> int" where
  "deposit_fee s = (if ProtocolDepositFeeEnabled s then bp_DepositFee (GetParams s) else 0)"

lemma mintBTCWithProtocolFee_spec:
  assumes "bank_ok E" "mintBTCWithProtocolFee E r amount s = Inr (c, s')" "Denom amount = BtcDenom s"
  shows "c = amount\<lparr>Amount := Amount amount - deposit_fee s\<rparr>" "bp_BtcMinDeposit (GetParams s) \<le> Amount c"
    and "\<exists>b. s' = s\<lparr>ch_bank := b\<rparr> \<and> (\<forall>a d. balance E b a d = balance E (ch_bank s) a d + (if d = BtcDenom s
           then (if a = Account r then Amount c else 0) + (if a = Account (bp_Collector (GetParams s)) then deposit_fee s else 0)
             - (if a = bridge_acc then Amount amount else 0) else 0))"
proof -
  obtain t where t: "if ProtocolDepositFeeEnabled s then c = amount\<lparr>Amount := Amount amount - bp_DepositFee (GetParams s)\<rparr>
        \<and> (\<exists>b. send_coins E (ch_bank s) bridge_acc (Account (bp_Collector (GetParams s))) [\<lparr>Denom = BtcDenom s, Amount = bp_DepositFee (GetParams s)\<rparr>] = Inr b
           \<and> t = s\<lparr>ch_bank := b\<rparr>)
      else c = amount \<and> t = s"
    and min: "bp_BtcMinDeposit (GetParams s) \<le> Amount c" and pay: "\<exists>b. send_coins E (ch_bank t) bridge_acc (Account r) [c] = Inr b \<and> s' = t\<lparr>ch_bank := b\<rparr>"
    using assms(2) by (auto simp: mintBTCWithProtocolFee_def Let_def bind_res_eq_Inr on_bank_Inr new_coin_Inr to_int64_def coin_safe_sub_def BtcDenom_def
        split: if_splits)
  show c: "c = amount\<lparr>Amount := Amount amount - deposit_fee s\<rparr>" using t by (simp add: deposit_fee_def split: if_splits)
  show "bp_BtcMinDeposit (GetParams s) \<le> Amount c" by (rule min)
  show "\<exists>b. s' = s\<lparr>ch_bank := b\<rparr> \<and> (\<forall>a d. balance E b a d = balance E (ch_bank s) a d + (if d = BtcDenom s
           then (if a = Account r then Amount c else 0) + (if a = Account (bp_Collector (GetParams s)) then deposit_fee s else 0)
             - (if a = bridge_acc then Amount amount else 0) else 0))"
  proof (cases "ProtocolDepositFeeEnabled s")
    case True
    then obtain b1 b2 where b: "send_coins E (ch_bank s) bridge_acc (Account (bp_Collector (GetParams s)))
        [\<lparr>Denom = BtcDenom s, Amount = bp_DepositFee (GetParams s)\<rparr>] = Inr b1" "send_coins E b1 bridge_acc (Account r) [c] = Inr b2"
      "s' = s\<lparr>ch_bank := b2\<rparr>"
      using t pay by auto
    show ?thesis
      using bank_send [OF assms(1) b(1)] bank_send [OF assms(1) b(2)] True b(3) assms(3) c
      by (intro exI [of _ b2]) (auto simp: deposit_fee_def)
  next
    case False
    then obtain b where b: "send_coins E (ch_bank s) bridge_acc (Account r) [c] = Inr b" "s' = s\<lparr>ch_bank := b\<rparr>"
      using t pay by auto
    show ?thesis
      using bank_send [OF assms(1) b(1)] False b(2) assms(3) c by (intro exI [of _ b]) (auto simp: deposit_fee_def)
  qed
qed

lemma saveUTXO_plain:
  assumes "bu_Runes u = []" "saveUTXO E u s = Inr s'"
  shows "GetUTXO s' (outpoint u) = u" "HasUTXO s' (outpoint u)" "kv_has (br_owned s') (bu_Address u, outpoint u)" "ch_bank s' = ch_bank s"
    and "kv_has (br_owned_by_amount s') (bu_Address u, ut_Amount u, outpoint u)" "br_minted s' = br_minted s"
  using assms by (auto simp: saveUTXO_def SetUTXO_def SetOwnerUTXO_def SetOwnerUTXOByAmount_def GetUTXO_def HasUTXO_def kv_has_def)

text \<open>
  C10. A deposit of BTC. It pays the value of an output to a BTC vault, less the fee of the protocol, to the recipient of the transaction, and the
  fee to the collector: the balances change by exactly this, the module keeps nothing. The amount is at least the minimum, the transaction was not minted before and is
  in the history, and the output is stored as one that may be spent.
\<close>

theorem Mint_btc_correct:
  assumes "bank_ok E" "Mint E sender tx prev height s = Inr (ASSET_BTC, r, c, s')"
  shows "\<exists>i v addr p. prev = Some p \<and> i < length (mt_TxOut tx) \<and> pays_btc_vault E (bp_Vaults (GetParams s)) (mt_TxOut tx ! i) v
    \<and> ExtractRecipientAddr E tx p (bp_Vaults (GetParams s)) False = Inr addr \<and> r = encode_address E addr
    \<and> c = \<lparr>Denom = BtcDenom s, Amount = to_Value (mt_TxOut tx ! i) - deposit_fee s\<rparr> \<and> bp_BtcMinDeposit (GetParams s) \<le> Amount c
    \<and> (\<forall>a d. balance E (ch_bank s') a d = balance E (ch_bank s) a d + (if d = BtcDenom s
         then (if a = Account r then Amount c else 0) + (if a = Account (bp_Collector (GetParams s)) then deposit_fee s else 0) else 0))
    \<and> \<not> existsInHistory s (tx_hash E tx) \<and> existsInHistory s' (tx_hash E tx)
    \<and> (let op = (tx_hash E tx, of_nat i) in HasUTXO s' op \<and> \<not> IsUTXOLocked s' op \<and> kv_has (br_owned s') (v, op)
         \<and> ut_Amount (GetUTXO s' op) = word_of_int (to_Value (mt_TxOut tx ! i)) \<and> bu_Address (GetUTXO s' op) = v)"
proof -
  let ?s = "addToMintHistory (tx_hash E tx) s" and ?p = "GetParams s"
  have params: "GetParams ?s = ?p" "BtcDenom ?s = BtcDenom s" "ch_bank ?s = ch_bank s" "deposit_fee ?s = deposit_fee s" "br_params ?s = br_params s"
    by (simp_all add: GetParams_def BtcDenom_def addToMintHistory_def deposit_fee_def ProtocolDepositFeeEnabled_def)
  obtain p addr out i v where new: "\<not> existsInHistory s (tx_hash E tx)" and prev: "prev = Some p"
    and addr: "ExtractRecipientAddr E tx p (bp_Vaults ?p) False = Inr addr" "r = encode_address E addr"
    and out: "btc_output E (bp_Vaults ?p) (mt_TxOut tx) 0 = Inr (out, i, v)"
    and mint: "mintBTC E (tx_hash E tx) height r (out, i, v) (BtcDenom s) ?s = Inr (c, s')"
    using assms(2)
    by (auto simp: Mint_def Let_def bind_res_eq_Inr getOutputForMintBTC_def params BtcDenom_def split: if_splits option.splits)
  have o: "i < length (mt_TxOut tx)" "out = mt_TxOut tx ! i" "pays_btc_vault E (bp_Vaults ?p) out v"
    using btc_output_found [OF out] by auto
  obtain b t where valid: "0 \<le> to_Value out" and b: "mint_coins E (ch_bank s) ''btcbridge'' [\<lparr>Denom = BtcDenom s, Amount = to_Value out\<rparr>] = Inr b"
    and fee: "mintBTCWithProtocolFee E r \<lparr>Denom = BtcDenom s, Amount = to_Value out\<rparr> (?s\<lparr>ch_bank := b\<rparr>) = Inr (c, t)"
    and save: "saveUTXO E (deposit_utxo E (tx_hash E tx) height (out, i, v) []) t = Inr s'"
    using mint by (auto simp: mintBTC_def bind_res_eq_Inr new_coin_Inr on_bank_Inr params split: if_splits)
  have same: "GetParams (?s\<lparr>ch_bank := b\<rparr>) = ?p" "BtcDenom (?s\<lparr>ch_bank := b\<rparr>) = BtcDenom s" "deposit_fee (?s\<lparr>ch_bank := b\<rparr>) = deposit_fee s"
    by (simp_all add: GetParams_def BtcDenom_def addToMintHistory_def deposit_fee_def ProtocolDepositFeeEnabled_def)
  note M = mintBTCWithProtocolFee_spec [OF assms(1) fee, unfolded same, simplified]
  obtain b' where b': "t = ?s\<lparr>ch_bank := b'\<rparr>" and bal: "\<And>a d. balance E b' a d = balance E b a d + (if d = BtcDenom s
           then (if a = Account r then Amount c else 0) + (if a = Account (bp_Collector ?p) then deposit_fee s else 0)
             - (if a = bridge_acc then to_Value out else 0) else 0)"
    using M(3) by auto
  let ?u = "deposit_utxo E (tx_hash E tx) height (out, i, v) []"
  have u: "bu_Runes ?u = []" "outpoint ?u = (tx_hash E tx, of_nat i)" "bu_Address ?u = v" "ut_Amount ?u = word_of_int (to_Value out)" "\<not> bu_IsLocked ?u"
    by (simp_all add: deposit_utxo_def outpoint_def)
  note U = saveUTXO_plain [OF u(1) save, unfolded u(2,3)]
  have balance: "balance E (ch_bank s') a d = balance E (ch_bank s) a d + (if d = BtcDenom s
         then (if a = Account r then Amount c else 0) + (if a = Account (bp_Collector ?p) then deposit_fee s else 0) else 0)" for a d
    using bal [of a d] bank_mint [OF assms(1) b, of a d] by (simp add: U(4) b')
  have hist: "existsInHistory s' (tx_hash E tx)" by (simp add: existsInHistory_def U(6) b' addToMintHistory_def)
  have lock: "\<not> IsUTXOLocked s' (tx_hash E tx, of_nat i)" using U(1) u(5) by (simp add: IsUTXOLocked_def)
  have ut: "ut_Amount (GetUTXO s' (tx_hash E tx, of_nat i)) = word_of_int (to_Value out)" "bu_Address (GetUTXO s' (tx_hash E tx, of_nat i)) = v"
    using U(1) u(3,4) by simp_all
  show ?thesis
    using prev o addr M(1,2) balance new hist lock U(2,3) ut
    by (intro exI [of _ i] exI [of _ v] exI [of _ addr] exI [of _ p]) (simp add: Let_def)
qed


section \<open>Rate limits\<close>

definition limits_keyed :: "('b, 'x) bridge_scheme \<Rightarrow> bool" where
  "limits_keyed s \<longleftrightarrow> (\<forall>a d. kv_get (br_address_limits s) a = Some d \<longrightarrow> ad_Address d = a)"

definition global_used :: "('b, 'x) bridge_scheme \<Rightarrow> int" where
  "global_used s = gl_Used (rl_Global (GetRateLimit s))"

definition address_used :: "('b, 'x) bridge_scheme \<Rightarrow> string \<Rightarrow> int" where
  "address_used s a = (case kv_get (br_address_limits s) a of None \<Rightarrow> 0 | Some d \<Rightarrow> ad_Used d)"

definition quotas :: "('b, 'x) bridge_scheme \<Rightarrow> int \<times> int" where
  "quotas s = (gl_Quota (rl_Global (GetRateLimit s)), al_Quota (rl_Address (GetRateLimit s)))"

abbreviation withdrawn :: "(string \<times> coin) list \<Rightarrow> int" where
  "withdrawn ws \<equiv> sum_list (map (\<lambda>(_, c). Amount c) ws)"

abbreviation withdrawn_by :: "string \<Rightarrow> (string \<times> coin) list \<Rightarrow> int" where
  "withdrawn_by a ws \<equiv> sum_list (map (\<lambda>(b, c). if b = a then Amount c else 0) ws)"

lemma HandleRateLimit_step:
  assumes "HandleRateLimit a c s = Inr s'" "Denom c = BtcDenom s" "HasRateLimit s" "limits_keyed s" "0 \<le> Amount c"
    and "0 \<le> global_used s" "global_used s + Amount c < 2 ^ 63" "0 \<le> address_used s a" "address_used s a + Amount c < 2 ^ 63"
  shows "global_used s' = global_used s + Amount c" "address_used s' b = address_used s b + (if b = a then Amount c else 0)"
    and "quotas s' = quotas s" "BtcDenom s' = BtcDenom s" "HasRateLimit s'" "limits_keyed s'"
    and "0 < fst (quotas s) \<Longrightarrow> global_used s' \<le> fst (quotas s)"
    and "0 < snd (quotas s) \<Longrightarrow> address_used s' a \<le> snd (quotas s)"
proof -
  have n: "to_int64 (Amount c) = Inr (Amount c)" using assms(5-7) by (simp add: to_int64_def)
  have i: "i64 (global_used s + Amount c) = global_used s + Amount c" "i64 (address_used s a + Amount c) = address_used s a + Amount c"
    using assms(5-9) by (simp_all add: i64_id)
  have check: "CheckRateLimit s a (Amount c) = Inr ()" and s': "s' = UpdateRateLimitUsedQuotas a (Amount c) s"
    using assms(1,2) by (simp_all add: HandleRateLimit_def n bind_res_eq_Inr)
  have det: "address_used s a = (if HasAddressRateLimitDetails s a then ad_Used (GetAddressRateLimitDetails s a) else 0)"
    by (simp add: address_used_def HasAddressRateLimitDetails_def GetAddressRateLimitDetails_def kv_has_def split: option.splits)
  have key: "HasAddressRateLimitDetails s a \<Longrightarrow> ad_Address (GetAddressRateLimitDetails s a) = a"
    using assms(4) by (auto simp: HasAddressRateLimitDetails_def GetAddressRateLimitDetails_def limits_keyed_def kv_has_def)
  define d where "d = (if HasAddressRateLimitDetails s a then (GetAddressRateLimitDetails s a)\<lparr>ad_Used := address_used s a + Amount c\<rparr>
    else \<lparr>ad_Address = a, ad_Used = Amount c\<rparr>)"
  have d: "ad_Address d = a" "ad_Used d = address_used s a + Amount c" using det key by (simp_all add: d_def)
  have st: "s' = SetAddressRateLimitDetails d (SetRateLimit ((GetRateLimit s)\<lparr>rl_Global := (rl_Global (GetRateLimit s))\<lparr>gl_Used := global_used s + Amount c\<rparr>\<rparr>) s)"
    using i det unfolding s' UpdateRateLimitUsedQuotas_def Let_def d_def global_used_def by (auto split: if_splits)
  show "global_used s' = global_used s + Amount c" "quotas s' = quotas s" "BtcDenom s' = BtcDenom s" "HasRateLimit s'"
    by (simp_all add: st global_used_def quotas_def SetAddressRateLimitDetails_def SetRateLimit_def GetRateLimit_def HasRateLimit_def BtcDenom_def GetParams_def)
  show "address_used s' b = address_used s b + (if b = a then Amount c else 0)" for b
    by (simp add: st address_used_def SetAddressRateLimitDetails_def SetRateLimit_def d)
  then have "address_used s' a = address_used s a + Amount c" by simp
  then show "0 < snd (quotas s) \<Longrightarrow> address_used s' a \<le> snd (quotas s)" "0 < fst (quotas s) \<Longrightarrow> global_used s' \<le> fst (quotas s)"
    using check assms(3) i det \<open>global_used s' = global_used s + Amount c\<close>
    by (auto simp: CheckRateLimit_def bind_res_eq_Inr CheckAddressRateLimit_def CheckGlobalRateLimit_def AddressRateLimitEnabled_def
        GlobalRateLimitEnabled_def quotas_def global_used_def split: if_splits)
  show "limits_keyed s'" using assms(4) d(1) by (auto simp: limits_keyed_def st SetAddressRateLimitDetails_def SetRateLimit_def split: if_splits)
qed

text \<open>
  C14. The rate limits hold over any number of withdrawals. In a period, the used quota grows by exactly what the accepted withdrawals take, in total
  and for each address, and when a quota is set and was not exceeded before it is not exceeded afterwards.
  The totals must stay below \<open>2 ^ 63\<close>, since the code adds in \<open>int64\<close>.
\<close>

theorem rate_limit_total:
  assumes "fold_res (\<lambda>(a, c). HandleRateLimit a c) ws s = Inr s'" "HasRateLimit s" "limits_keyed s"
    and "\<forall>(a, c) \<in> set ws. Denom c = BtcDenom s \<and> 0 \<le> Amount c"
    and "0 \<le> global_used s" "global_used s + withdrawn ws < 2 ^ 63" "\<forall>a. 0 \<le> address_used s a \<and> address_used s a + withdrawn ws < 2 ^ 63"
  shows "global_used s' = global_used s + withdrawn ws \<and> (\<forall>a. address_used s' a = address_used s a + withdrawn_by a ws)
    \<and> quotas s' = quotas s
    \<and> (0 < fst (quotas s) \<and> global_used s \<le> fst (quotas s) \<longrightarrow> global_used s' \<le> fst (quotas s))
    \<and> (\<forall>a. 0 < snd (quotas s) \<and> address_used s a \<le> snd (quotas s) \<longrightarrow> address_used s' a \<le> snd (quotas s))"
  using assms
proof (induction ws arbitrary: s)
  case (Cons w ws)
  obtain a c where w: "w = (a, c)" by fastforce
  obtain t where step: "HandleRateLimit a c s = Inr t" and rest: "fold_res (\<lambda>(a, c). HandleRateLimit a c) ws t = Inr s'"
    using Cons.prems(1) by (auto simp: w bind_res_eq_Inr)
  have nn: "0 \<le> withdrawn ws" using Cons.prems(4) by (intro sum_list_nonneg) auto
  have c: "Denom c = BtcDenom s" "0 \<le> Amount c" using Cons.prems(4) by (auto simp: w)
  have fits: "global_used s + Amount c < 2 ^ 63" "0 \<le> address_used s a" "address_used s a + Amount c < 2 ^ 63"
    using Cons.prems(6) Cons.prems(7) [rule_format, of a] nn by (simp_all add: w)
  note S = HandleRateLimit_step [OF step c(1) Cons.prems(2,3) c(2) Cons.prems(5) fits]
  have IH: "global_used s' = global_used t + withdrawn ws \<and> (\<forall>a. address_used s' a = address_used t a + withdrawn_by a ws)
    \<and> quotas s' = quotas t
    \<and> (0 < fst (quotas t) \<and> global_used t \<le> fst (quotas t) \<longrightarrow> global_used s' \<le> fst (quotas t))
    \<and> (\<forall>a. 0 < snd (quotas t) \<and> address_used t a \<le> snd (quotas t) \<longrightarrow> address_used s' a \<le> snd (quotas t))"
  proof (rule Cons.IH [OF rest S(5,6)])
    show "\<forall>(a, c) \<in> set ws. Denom c = BtcDenom t \<and> 0 \<le> Amount c" using Cons.prems(4) S(4) by auto
    show "0 \<le> global_used t" using S(1) Cons.prems(5) c(2) by simp
    show "global_used t + withdrawn ws < 2 ^ 63" using S(1) Cons.prems(6) by (simp add: w)
    show "\<forall>b. 0 \<le> address_used t b \<and> address_used t b + withdrawn ws < 2 ^ 63"
    proof
      fix b
      show "0 \<le> address_used t b \<and> address_used t b + withdrawn ws < 2 ^ 63"
        using S(2) [of b] Cons.prems(7) [rule_format, of b] c(2) by (simp add: w split: if_splits)
    qed
  qed
  have below: "address_used t b \<le> snd (quotas s)" if "0 < snd (quotas s)" "address_used s b \<le> snd (quotas s)" for b
    using that S(2) [of b] S(8) by (cases "b = a") simp_all
  show ?case
  proof (intro conjI allI impI)
    show "global_used s' = global_used s + withdrawn (w # ws)" using IH S(1) by (simp add: w)
    show "address_used s' b = address_used s b + withdrawn_by b (w # ws)" for b using IH S(2) [of b] by (simp add: w)
    show "quotas s' = quotas s" using IH S(3) by simp
    show "global_used s' \<le> fst (quotas s)" if "0 < fst (quotas s) \<and> global_used s \<le> fst (quotas s)"
      using IH S(7) that unfolding S(3) by blast
    show "address_used s' b \<le> snd (quotas s)" if "0 < snd (quotas s) \<and> address_used s b \<le> snd (quotas s)" for b
      using IH below [of b] that unfolding S(3) by blast
  qed
qed simp


section \<open>Withdrawals over IBC\<close>








section \<open>The first transfer of vaults\<close>

text \<open>
  C17. The first key generation with the transfer of vaults enabled stops the chain. When the one completed key generation has made the vaults of version
  \<open>n\<close> and there is no BTC or no runes vault of the version before, as with the default parameters, the transfer of vaults at the
  end of a block panics, in this block and in every later one.
\<close>

theorem first_vault_transfer_panics:
  assumes "btcbridge_GetDKGRequests s DKG_COMPLETED = [r]" "bd_EnableTransfer r" "GetDKGCompletionRequests s (bd_Id r) = c # cs"
    and "bc_Vaults c = v # vs" "GetVaultVersionByAddress s v = (n, found)"
    and "GetVaultByAssetTypeAndVersion s ASSET_BTC (n - 1) = None \<or> GetVaultByAssetTypeAndVersion s ASSET_RUNES (n - 1) = None"
  shows "handleVaultTransfer E height now gov s = Inl Panic"
  using assms
  by (cases "GetVaultByAssetTypeAndVersion s ASSET_BTC (n - 1)")
    (auto simp: handleVaultTransfer_def vault_transfer_one_def VaultsTransferCompleted_def vault_address_def)

section \<open>The sample\<close>

lemma sample_mint:
  "Mint sample_benv ''relayer'' deposit_tx (Some prev_tx) 10 b_start = Inr (ASSET_BTC, ''alice'', \<lparr>Denom = ''sat'', Amount = 999600\<rparr>, b_deposited)"
  by code_simp

theorem Mint_btc_correct_witness:
  "\<exists>i v. i < length (mt_TxOut deposit_tx) \<and> pays_btc_vault sample_benv [vault_b, vault_r] (mt_TxOut deposit_tx ! i) v
     \<and> to_Value (mt_TxOut deposit_tx ! i) - deposit_fee b_start = 999600 \<and> existsInHistory b_deposited ''txtx''"
  using Mint_btc_correct [OF sample_benv_bank sample_mint] by (auto simp: sample_txs GetParams_def b_start_def sample_bridge_params_def)

definition b_limited :: "int \<Rightarrow> (string, address_limit_details) kv \<Rightarrow> ledger bridge" where
  "b_limited used ds = b_deposited\<lparr>br_rate_limit := Some (sample_limit 0 1000 900000 used 600000), br_address_limits := ds\<rparr>"

definition sample_withdrawals :: "(string \<times> coin) list" where
  "sample_withdrawals = [(''alice'', \<lparr>Denom = ''sat'', Amount = 300000\<rparr>), (''bob'', \<lparr>Denom = ''sat'', Amount = 200000\<rparr>),
     (''alice'', \<lparr>Denom = ''sat'', Amount = 250000\<rparr>)]"

lemma sample_limits:
  "fold_res (\<lambda>(a, c). HandleRateLimit a c) sample_withdrawals (b_limited 100 [])
   = Inr (b_limited 750100 [(''alice'', \<lparr>ad_Address = ''alice'', ad_Used = 550000\<rparr>), (''bob'', \<lparr>ad_Address = ''bob'', ad_Used = 200000\<rparr>)])"
  by code_simp

theorem rate_limit_total_witness:
  "global_used (b_limited 750100 [(''alice'', \<lparr>ad_Address = ''alice'', ad_Used = 550000\<rparr>), (''bob'', \<lparr>ad_Address = ''bob'', ad_Used = 200000\<rparr>)])
   = 100 + withdrawn sample_withdrawals"
proof -
  have denom: "BtcDenom (b_limited u ds) = ''sat''" for u ds
    by (simp add: b_limited_def BtcDenom_def GetParams_def b_deposited_def b_start_def sample_bridge_params_def)
  have start: "HasRateLimit (b_limited 100 [])" "limits_keyed (b_limited 100 [])" "global_used (b_limited 100 []) = 100"
    "address_used (b_limited 100 []) a = 0" for a
    by (simp_all add: b_limited_def HasRateLimit_def limits_keyed_def global_used_def GetRateLimit_def sample_limit_def address_used_def kv_get_def)
  have small: "\<forall>(a, c) \<in> set sample_withdrawals. Denom c = BtcDenom (b_limited 100 []) \<and> 0 \<le> Amount c" "withdrawn sample_withdrawals = 750000"
    by (simp_all add: sample_withdrawals_def denom)
  from rate_limit_total [OF sample_limits start(1,2) small(1)] show ?thesis by (simp add: start small)
qed




text \<open>The state after the first key generation of a chain that started without vaults.\<close>

definition first_dkg :: bridge_dkg where
  "first_dkg = \<lparr>bd_Id = 1, bd_Participants = [], bd_Threshold = 1, bd_VaultTypes = [ASSET_BTC, ASSET_RUNES], bd_EnableTransfer = True,
     bd_TargetUtxoNum = 5, bd_Expiration = 100, bd_Status = DKG_COMPLETED\<rparr>"

definition first_completion :: bridge_dkg_completion where
  "first_completion = \<lparr>bc_Id = 1, bc_Sender = ''val'', bc_Vaults = [''vaultb'', ''vaultr''], bc_ConsensusPubkey = ''key'', bc_Signature = ''''\<rparr>"

definition b_generated :: "ledger bridge" where
  "b_generated = b_start\<lparr>br_dkgs := [(1, first_dkg)], br_dkg_completions := [((1, ''key''), first_completion)]\<rparr>"

theorem first_vault_transfer_panics_witness:
  "handleVaultTransfer sample_benv 20 5 ''gov'' b_generated = Inl Panic \<and> btcbridge_EndBlocker sample_benv 20 5 ''gov'' b_generated = Inl Panic"
proof
  show "handleVaultTransfer sample_benv 20 5 ''gov'' b_generated = Inl Panic"
  proof (rule first_vault_transfer_panics)
    show "btcbridge_GetDKGRequests b_generated DKG_COMPLETED = [first_dkg]" by code_simp
    show "GetDKGCompletionRequests b_generated (bd_Id first_dkg) = first_completion # []" by code_simp
    show "GetVaultVersionByAddress b_generated ''vaultb'' = (1, True)" by code_simp
    have "GetVaultByAssetTypeAndVersion b_generated ASSET_BTC (1 - 1) = None" by code_simp
    then show "GetVaultByAssetTypeAndVersion b_generated ASSET_BTC (1 - 1) = None \<or> GetVaultByAssetTypeAndVersion b_generated ASSET_RUNES (1 - 1) = None" ..
  qed (simp_all add: first_dkg_def first_completion_def)
  show "btcbridge_EndBlocker sample_benv 20 5 ''gov'' b_generated = Inl Panic" by code_simp
qed

end
