(* ===== verification/Bridge_Build.thy ===== *)
theory Bridge_Build
  imports Bridge_Sample
begin

text \<open>
  What the transactions the bridge builds look like: their inputs, outputs, fee and change, and how they are stored
  as signing requests. The arithmetic of the code is in 64 bits; the lemmas on the fee assume that no amount
  reaches \<open>2 ^ 60\<close>, far above all satoshis there are. The last part is the batch of withdrawals as a whole: the requests it
  pays get its hash and leave the queue.
\<close>

section \<open>Inputs and sizes\<close>

definition spend_input :: "bridge_utxo \<Rightarrow> tx_in" where
  "spend_input u = \<lparr>ti_Hash = ut_Txid u, ti_Index = uint (ut_Vout u) mod 2 ^ 32, ti_Sequence = MagicSequence, ti_Witness = []\<rparr>"

lemma AddUTXOToTx_eq:
  "btcbridge_AddUTXOToTx E u tx = Inr tx' \<longleftrightarrow> hash_ok E (ut_Txid u) \<and> tx' = tx\<lparr>mt_TxIn := mt_TxIn tx @ [spend_input u]\<rparr>"
  by (auto simp: btcbridge_AddUTXOToTx_def spend_input_def)

lemma AddUTXOs_eq:
  "fold_res (btcbridge_AddUTXOToTx E) us tx = Inr tx' \<Longrightarrow> tx' = tx\<lparr>mt_TxIn := mt_TxIn tx @ map spend_input us\<rparr>"
proof (induction us arbitrary: tx)
  case (Cons u us)
  then show ?case
    using Cons.IH [of "tx\<lparr>mt_TxIn := mt_TxIn tx @ [spend_input u]\<rparr>"] by (auto simp: bind_res_eq_Inr AddUTXOToTx_eq)
qed simp

text \<open>
  Documented behaviour of the size of a transaction: it does not depend on the values of the outputs, an output makes it
  no smaller.
\<close>

definition sizes_ok :: "('b, 'e) benv_scheme \<Rightarrow> int \<Rightarrow> bool" where
  "sizes_ok E rate \<longleftrightarrow> (\<forall>tx out. mempool_vsize E tx \<le> mempool_vsize E (tx\<lparr>mt_TxOut := mt_TxOut tx @ [out]\<rparr>))
     \<and> (\<forall>tx outs out v. mempool_vsize E (tx\<lparr>mt_TxOut := outs @ [out\<lparr>to_Value := v\<rparr>]\<rparr>) = mempool_vsize E (tx\<lparr>mt_TxOut := outs @ [out]\<rparr>))
     \<and> (\<forall>tx. 0 \<le> mempool_vsize E tx) \<and> 0 \<le> rate"

text \<open>
  The fee of every transaction with at most \<open>n\<close> inputs and one of the given lists of outputs fits. The inputs of the bridge have witnesses
  of bounded length.
\<close>

definition fees_fit :: "('b, 'e) benv_scheme \<Rightarrow> int \<Rightarrow> nat \<Rightarrow> tx_out list \<Rightarrow> tx_out \<Rightarrow> bool" where
  "fees_fit E rate n outs co \<longleftrightarrow> (\<forall>tx us sz. length us \<le> n \<and> us \<noteq> [] \<and> mt_TxOut tx \<in> {outs, outs @ [co]}
     \<and> btcbridge_GetTxVirtualSize E tx us = Inr sz \<longrightarrow> sz * rate < 2 ^ 62)"

lemma populate_outs:
  "btcbridge_PopulateTxWithDummyWitness E (tx\<lparr>mt_TxOut := outs\<rparr>) us =
     bind_res (btcbridge_PopulateTxWithDummyWitness E tx us) (\<lambda>tx. Inr (tx\<lparr>mt_TxOut := outs\<rparr>))"
  by (auto simp: btcbridge_PopulateTxWithDummyWitness_def PopulateTxWithDummyTaprootWitness_def)

lemma populate_same_outs: "btcbridge_PopulateTxWithDummyWitness E tx us = Inr p \<Longrightarrow> mt_TxOut p = mt_TxOut tx"
  by (auto simp: btcbridge_PopulateTxWithDummyWitness_def PopulateTxWithDummyTaprootWitness_def split: if_splits)

definition fee_covers :: "('b, 'e) benv_scheme \<Rightarrow> int \<Rightarrow> bridge_utxo list \<Rightarrow> msg_tx \<Rightarrow> int \<Rightarrow> bool" where
  "fee_covers E rate us tx fee \<longleftrightarrow> (\<exists>sz. btcbridge_GetTxVirtualSize E tx us = Inr sz \<and> sz * rate \<le> fee)"

lemma size_with_change:
  assumes "sizes_ok E rate" "btcbridge_GetTxVirtualSize E (tx\<lparr>mt_TxOut := mt_TxOut tx @ [out]\<rparr>) us = Inr sz" "sz * rate \<le> fee"
  shows "fee_covers E rate us (tx\<lparr>mt_TxOut := mt_TxOut tx @ [out\<lparr>to_Value := v\<rparr>]\<rparr>) fee" "fee_covers E rate us tx fee"
proof -
  obtain p where p: "btcbridge_PopulateTxWithDummyWitness E tx us = Inr p" and sz: "sz = mempool_vsize E (p\<lparr>mt_TxOut := mt_TxOut tx @ [out]\<rparr>)"
    using assms(2) by (auto simp: btcbridge_GetTxVirtualSize_def populate_outs bind_res_eq_Inr)
  have outs: "mt_TxOut p = mt_TxOut tx" by (rule populate_same_outs [OF p])
  show "fee_covers E rate us (tx\<lparr>mt_TxOut := mt_TxOut tx @ [out\<lparr>to_Value := v\<rparr>]\<rparr>) fee"
    using assms(1,3) sz unfolding fee_covers_def sizes_ok_def by (simp add: btcbridge_GetTxVirtualSize_def populate_outs p)
  have "mempool_vsize E p \<le> sz" using assms(1) unfolding sz outs [symmetric] sizes_ok_def by blast
  then have "mempool_vsize E p * rate \<le> sz * rate" using assms(1) by (simp add: sizes_ok_def mult_right_mono)
  then show "fee_covers E rate us tx fee"
    using assms(3) unfolding fee_covers_def by (simp add: btcbridge_GetTxVirtualSize_def p)
qed

section \<open>Payments\<close>

abbreviation amounts :: "bridge_utxo list \<Rightarrow> int" where
  "amounts us \<equiv> sum_list (map (\<lambda>u. uint (ut_Amount u)) us)"

abbreviation values_of :: "tx_out list \<Rightarrow> int" where
  "values_of outs \<equiv> sum_list (map to_Value outs)"

lemma amounts_nonneg: "0 \<le> amounts us"
  by (induction us) simp_all

lemma sint_amount: "uint (w :: u64) < 2 ^ 63 \<Longrightarrow> sint w = uint w"
proof -
  assume small: "uint w < 2 ^ 63"
  have "- (2 ^ 63) \<le> uint w" by (rule order_trans [OF _ uint_ge_0]) simp
  then have "signed_take_bit 63 (uint w) = uint w" using small by (rule signed_take_bit_int_eq_self)
  then show ?thesis by (simp add: sint_uint)
qed

lemma i64_small: "\<bar>x\<bar> < 2 ^ 63 \<Longrightarrow> i64 x = x"
  by (intro i64_id) auto

text \<open>The change of a transaction: none, or one output that pays something and is not dust.\<close>

definition change_ok :: "('b, 'e) benv_scheme \<Rightarrow> tx_out \<Rightarrow> tx_out list \<Rightarrow> bool" where
  "change_ok E co extra \<longleftrightarrow> extra = [] \<or> (\<exists>v > 0. extra = [co\<lparr>to_Value := v\<rparr>] \<and> \<not> btcbridge_IsDustOut E (co\<lparr>to_Value := v\<rparr>))"

text \<open>
  One payment output \<open>u\<close> with the difference \<open>diff\<close> of the values so far: the transaction grows by an input and, when it is complete,
  possibly by the change, and its fee is what is left over.
\<close>

lemma AddPayment_shape:
  assumes "AddPaymentUTXOToTx E us u diff co rate maxNum tx = Inr (ok, tx')"
  obtains extra where "length us < maxNum" "change_ok E co extra" "\<not> ok \<longrightarrow> extra = []"
    "tx' = tx\<lparr>mt_TxIn := mt_TxIn tx @ [spend_input u], mt_TxOut := mt_TxOut tx @ extra\<rparr>"
proof -
  have len: "length us < maxNum" using assms by (auto simp: AddPaymentUTXOToTx_def Let_def split: if_splits)
  let ?tx = "tx\<lparr>mt_TxIn := mt_TxIn tx @ [spend_input u]\<rparr>"
  let ?none = "?tx\<lparr>mt_TxOut := mt_TxOut tx @ []\<rparr>"
  have eq: "?tx = ?none" by simp
  consider "tx' = ?tx" | (change) v where "0 < v" "ok" "\<not> btcbridge_IsDustOut E (co\<lparr>to_Value := v\<rparr>)"
      "tx' = ?tx\<lparr>mt_TxOut := mt_TxOut tx @ [co\<lparr>to_Value := v\<rparr>]\<rparr>"
    using assms by (auto simp: AddPaymentUTXOToTx_def Let_def bind_res_eq_Inr AddUTXOToTx_eq split: if_splits)
  then show ?thesis
  proof cases
    case 1
    then show ?thesis using that [OF len, of "[]"] eq by (simp add: change_ok_def)
  next
    case change
    then show ?thesis using that [OF len, of "[co\<lparr>to_Value := v\<rparr>]"] by (auto simp: change_ok_def)
  qed
qed


lemma vsize_nonneg:
  assumes "sizes_ok E rate" "btcbridge_GetTxVirtualSize E tx us = Inr sz" shows "0 \<le> sz * rate"
  using assms by (auto simp: sizes_ok_def btcbridge_GetTxVirtualSize_def bind_res_eq_Inr)

lemma fees_fitD:
  assumes "fees_fit E rate n outs co" "length us \<le> n" "us \<noteq> []" "mt_TxOut tx \<in> {outs, outs @ [co]}"
    "btcbridge_GetTxVirtualSize E tx us = Inr sz"
  shows "sz * rate < 2 ^ 62"
  using assms unfolding fees_fit_def by blast

lemma small_sums:
  fixes d a k :: int
  assumes "\<bar>d\<bar> < 2 ^ 61" "0 \<le> a" "a < 2 ^ 61"
  shows "\<bar>a + d\<bar> < 2 ^ 63" "0 \<le> k \<Longrightarrow> k < 2 ^ 62 \<Longrightarrow> \<bar>d + a - k\<bar> < 2 ^ 63"
  using assms by (simp_all add: abs_less_iff)

lemma AddPayment_fee:
  assumes step: "AddPaymentUTXOToTx E us u diff co rate maxNum tx = Inr (True, tx')" and ok: "sizes_ok E rate"
    and fit: "fees_fit E rate maxNum (mt_TxOut tx) co" and co: "to_Value co = 0"
    and small: "\<bar>diff\<bar> < 2 ^ 61" "uint (ut_Amount u) < 2 ^ 61"
    and shape: "tx' = tx\<lparr>mt_TxIn := mt_TxIn tx @ [spend_input u], mt_TxOut := mt_TxOut tx @ extra\<rparr>"
  shows "fee_covers E rate (us @ [u]) tx' (diff + uint (ut_Amount u) - values_of extra)"
proof -
  let ?tx = "tx\<lparr>mt_TxIn := mt_TxIn tx @ [spend_input u]\<rparr>" and ?us = "us @ [u]" and ?left = "diff + uint (ut_Amount u)"
  have outs: "mt_TxOut tx' = mt_TxOut tx @ extra" using shape by simp
  have len: "length ?us \<le> maxNum" using step by (auto simp: AddPaymentUTXOToTx_def Let_def split: if_splits)
  obtain sz where sz: "btcbridge_GetTxVirtualSize E (?tx\<lparr>mt_TxOut := mt_TxOut ?tx @ [co]\<rparr>) ?us = Inr sz"
    using step by (auto simp: AddPaymentUTXOToTx_def Let_def bind_res_eq_Inr AddUTXOToTx_eq split: if_splits)
  have szb: "sz * rate < 2 ^ 62" by (rule fees_fitD [OF fit len _ _ sz]) simp_all
  have left: "i64 (sint (ut_Amount u) + diff) = ?left"
  proof -
    have "sint (ut_Amount u) = uint (ut_Amount u)" using small by (intro sint_amount) simp
    moreover have "\<bar>uint (ut_Amount u) + diff\<bar> < 2 ^ 63" by (rule small_sums(1) [OF small(1) uint_ge_0 small(2)])
    ultimately show ?thesis by (simp add: i64_small add.commute)
  qed
  have fee: "i64 (i64 (sint (ut_Amount u) + diff) - i64 (k * rate)) = ?left - k * rate" if "0 \<le> k * rate" "k * rate < 2 ^ 62" for k
  proof -
    have "\<bar>?left - k * rate\<bar> < 2 ^ 63" by (rule small_sums(2) [OF small(1) uint_ge_0 small(2) that])
    moreover have "i64 (k * rate) = k * rate" using that by (intro i64_small) (simp add: abs_less_iff)
    ultimately show ?thesis unfolding left by (simp add: i64_small)
  qed
  note sz0 = vsize_nonneg [OF ok sz]
  let ?change = "?left - sz * rate"
  have "hash_ok E (ut_Txid u)"
    using step by (auto simp: AddPaymentUTXOToTx_def Let_def bind_res_eq_Inr AddUTXOToTx_eq split: if_splits)
  then have "btcbridge_AddUTXOToTx E u tx = Inr ?tx" by (simp add: AddUTXOToTx_eq)
  then have body: "AddPaymentUTXOToTx E us u diff co rate maxNum tx =
    (if 0 < ?change then Inr (True, if btcbridge_IsDustOut E (co\<lparr>to_Value := ?change\<rparr>) then ?tx
        else ?tx\<lparr>mt_TxOut := mt_TxOut ?tx @ [co\<lparr>to_Value := ?change\<rparr>]\<rparr>)
     else if ?change = 0 then Inr (True, ?tx)
     else bind_res (btcbridge_GetTxVirtualSize E ?tx ?us)
       (\<lambda>k. Inr (0 \<le> i64 (i64 (sint (ut_Amount u) + diff) - i64 (k * rate)), ?tx)))"
    using len unfolding AddPaymentUTXOToTx_def Let_def by (simp only: sz fee [OF sz0 szb] bind_res_Inr not_less [symmetric] if_False if_True simp_thms)
  show ?thesis
  proof (cases "0 \<le> ?change")
    case True
    have plain: "fee_covers E rate ?us ?tx ?left" by (rule size_with_change(2) [OF ok sz]) (use True in simp)
    have paid: "fee_covers E rate ?us (?tx\<lparr>mt_TxOut := mt_TxOut ?tx @ [co\<lparr>to_Value := ?change\<rparr>]\<rparr>) (?left - ?change)"
      by (rule size_with_change(1) [OF ok sz]) simp
    have "tx' = ?tx \<or> tx' = ?tx\<lparr>mt_TxOut := mt_TxOut ?tx @ [co\<lparr>to_Value := ?change\<rparr>]\<rparr>"
      using step True unfolding body by (auto split: if_splits)
    then show ?thesis
    proof
      assume "tx' = ?tx"
      then have "extra = []" using outs by simp
      then show ?thesis using plain \<open>tx' = ?tx\<close> by simp
    next
      assume eq: "tx' = ?tx\<lparr>mt_TxOut := mt_TxOut ?tx @ [co\<lparr>to_Value := ?change\<rparr>]\<rparr>"
      then have "mt_TxOut tx @ extra = mt_TxOut tx @ [co\<lparr>to_Value := ?change\<rparr>]" using outs by simp
      then show ?thesis using paid eq by simp
    qed
  next
    case False
    then have eq: "tx' = ?tx" and k: "\<exists>k. btcbridge_GetTxVirtualSize E ?tx ?us = Inr k \<and> 0 \<le> i64 (i64 (sint (ut_Amount u) + diff) - i64 (k * rate))"
      using step unfolding body by (auto simp: bind_res_eq_Inr)
    then obtain k where k: "btcbridge_GetTxVirtualSize E ?tx ?us = Inr k" "0 \<le> i64 (i64 (sint (ut_Amount u) + diff) - i64 (k * rate))" by blast
    have "k * rate < 2 ^ 62" by (rule fees_fitD [OF fit len _ _ k(1)]) simp_all
    then have "k * rate \<le> ?left" using fee [OF vsize_nonneg [OF ok k(1)]] k(2) by simp
    moreover have "extra = []" using outs eq by simp
    ultimately show ?thesis using k(1) eq by (auto simp: fee_covers_def)
  qed
qed


lemma amounts_split: "amounts (xs @ ys) = amounts xs + amounts ys"
  by simp

lemma add_payments_spec:
  assumes "add_payments E us sel diff rest co rate maxNum tx = Inr (sel', tx')" "sizes_ok E rate"
    "fees_fit E rate maxNum (mt_TxOut tx) co" "to_Value co = 0" "\<bar>diff\<bar> + amounts rest < 2 ^ 61"
  shows "\<exists>pre suf extra. rest = pre @ suf \<and> pre \<noteq> [] \<and> sel' = sel @ pre \<and> length (us @ pre) \<le> maxNum \<and> change_ok E co extra
    \<and> tx' = tx\<lparr>mt_TxIn := mt_TxIn tx @ map spend_input pre, mt_TxOut := mt_TxOut tx @ extra\<rparr>
    \<and> fee_covers E rate (us @ pre) tx' (diff + amounts pre - values_of extra)"
  using assms
proof (induction rest arbitrary: us sel diff tx)
  case (Cons u rest)
  obtain ok t where step: "AddPaymentUTXOToTx E us u diff co rate maxNum tx = Inr (ok, t)"
    and rest: "if ok then sel' = sel @ [u] \<and> tx' = t
      else add_payments E (us @ [u]) (sel @ [u]) (i64 (diff + sint (ut_Amount u))) rest co rate maxNum t = Inr (sel', tx')"
    using Cons.prems(1) by (auto simp: bind_res_eq_Inr split: if_splits)
  obtain extra where len: "length us < maxNum" and extra: "change_ok E co extra" "\<not> ok \<longrightarrow> extra = []"
    and t: "t = tx\<lparr>mt_TxIn := mt_TxIn tx @ [spend_input u], mt_TxOut := mt_TxOut tx @ extra\<rparr>"
    using AddPayment_shape [OF step] by blast
  have small: "\<bar>diff\<bar> < 2 ^ 61" "uint (ut_Amount u) < 2 ^ 61"
    using Cons.prems(5) amounts_nonneg [of rest] uint_ge_0 [of "ut_Amount u"] unfolding list.map sum_list.Cons by linarith+
  show ?case
  proof (cases ok)
    case True
    then have "fee_covers E rate (us @ [u]) t (diff + uint (ut_Amount u) - values_of extra)"
      using AddPayment_fee [OF _ Cons.prems(2-4) small t] step by simp
    then show ?thesis using True rest len extra t
      by (intro exI [of _ "[u]"] exI [of _ rest] exI [of _ extra]) simp
  next
    case False
    have "uint (ut_Amount u) < 2 ^ 63" using small(2) by simp
    then have amt: "sint (ut_Amount u) = uint (ut_Amount u)" by (rule sint_amount)
    have diff: "i64 (diff + sint (ut_Amount u)) = diff + uint (ut_Amount u)"
      unfolding amt by (rule i64_small) (use small_sums(1) [OF small(1) uint_ge_0 small(2)] in \<open>simp add: add.commute\<close>)
    have t': "t = tx\<lparr>mt_TxIn := mt_TxIn tx @ [spend_input u]\<rparr>" using t extra(2) False by simp
    have bound: "\<bar>diff + uint (ut_Amount u)\<bar> + amounts rest < 2 ^ 61"
      using Cons.prems(5) uint_ge_0 [of "ut_Amount u"] unfolding list.map sum_list.Cons by linarith
    have step: "add_payments E (us @ [u]) (sel @ [u]) (diff + uint (ut_Amount u)) rest co rate maxNum t = Inr (sel', tx')"
      using rest False unfolding diff by simp
    have fit: "fees_fit E rate maxNum (mt_TxOut t) co" using Cons.prems(3) t' by simp
    obtain pre suf extra where "rest = pre @ suf" "sel' = (sel @ [u]) @ pre" "length ((us @ [u]) @ pre) \<le> maxNum"
      "change_ok E co extra" "tx' = t\<lparr>mt_TxIn := mt_TxIn t @ map spend_input pre, mt_TxOut := mt_TxOut t @ extra\<rparr>"
      "fee_covers E rate ((us @ [u]) @ pre) tx' (diff + uint (ut_Amount u) + amounts pre - values_of extra)"
      using Cons.IH [OF step Cons.prems(2) fit Cons.prems(4) bound] by blast
    then show ?thesis using t'
      by (intro exI [of _ "u # pre"] exI [of _ suf] exI [of _ extra]) (simp add: algebra_simps)
  qed
qed simp

section \<open>The transaction\<close>

lemma in_amount_eq: "amounts us < 2 ^ 61 \<Longrightarrow> in_amount us = amounts us"
proof -
  have "fold (\<lambda>u a. i64 (a + sint (ut_Amount u))) us a = a + amounts us" if "0 \<le> a" "a + amounts us < 2 ^ 61" for a
    using that
  proof (induction us arbitrary: a)
    case (Cons u us)
    have u: "uint (ut_Amount u) < 2 ^ 61" "a < 2 ^ 61" and au: "a + uint (ut_Amount u) < 2 ^ 61"
      using Cons.prems amounts_nonneg [of us] uint_ge_0 [of "ut_Amount u"] unfolding list.map sum_list.Cons by linarith+
    have "uint (ut_Amount u) < 2 ^ 63" using u(1) by simp
    then have amt: "sint (ut_Amount u) = uint (ut_Amount u)" by (rule sint_amount)
    have "i64 (a + uint (ut_Amount u)) = a + uint (ut_Amount u)"
      by (rule i64_small) (use au Cons.prems(1) uint_ge_0 [of "ut_Amount u"] in simp)
    then show ?case using Cons.IH [of "a + uint (ut_Amount u)"] Cons.prems by (simp add: amt)
  qed simp
  then show "amounts us < 2 ^ 61 \<Longrightarrow> in_amount us = amounts us" by (simp add: in_amount_def)
qed

lemma out_amount_eq: "\<forall>out \<in> set outs. 0 \<le> to_Value out \<Longrightarrow> values_of outs < 2 ^ 61 \<Longrightarrow> out_amount outs = values_of outs"
  unfolding out_amount_def using out_amount_sum [of outs 0] by simp

definition payment_sources :: "utxo_iterator \<Rightarrow> bridge_utxo list" where
  "payment_sources it = (case it_Minimum it of None \<Rightarrow> [] | Some m \<Rightarrow> m # it_UTXOs it)"

lemma BuildUnsigned_spec:
  assumes build: "btcbridge_BuildUnsignedTransaction E us outs it rate change maxNum = Inr (tx, sel, c)"
    and ok: "sizes_ok E rate" and script: "pk_script_of E change = Inr script"
    and fit: "fees_fit E rate maxNum outs \<lparr>to_Value = 0, to_PkScript = script\<rparr>"
    and outs: "\<forall>out \<in> set outs. 0 \<le> to_Value out" "values_of outs < 2 ^ 60"
    and ins: "amounts us + amounts (payment_sources it) < 2 ^ 60"
  shows "\<exists>suf extra. payment_sources it = sel @ suf \<and> sel \<noteq> [] \<and> length (us @ sel) \<le> maxNum
    \<and> change_ok E \<lparr>to_Value = 0, to_PkScript = script\<rparr> extra
    \<and> tx = NewMsgTx\<lparr>mt_TxIn := map spend_input (us @ sel), mt_TxOut := outs @ extra\<rparr>
    \<and> fee_covers E rate (us @ sel) tx (amounts (us @ sel) - values_of (outs @ extra))
    \<and> btcbridge_CheckTransactionWeight E tx (us @ sel) = Inr ()
    \<and> (c = None \<longleftrightarrow> extra = []) \<and> (\<forall>x. c = Some x \<longrightarrow> ut_Txid x = tx_hash E tx \<and> ut_Vout x = of_nat (length outs)
        \<and> ut_Amount x = word_of_int (values_of extra) \<and> ut_PkScript x = script \<and> bu_Address x = encode_address E change)"
proof -
  obtain t where t: "fold_res (btcbridge_AddUTXOToTx E) us NewMsgTx = Inr t" and pay: "AddPaymentUTXOsToTx E us
      (i64 (in_amount us - out_amount outs)) it \<lparr>to_Value = 0, to_PkScript = script\<rparr> rate maxNum (t\<lparr>mt_TxOut := outs\<rparr>) = Inr (sel, tx)"
    and weight: "btcbridge_CheckTransactionWeight E tx (us @ sel) = Inr ()"
    and c: "if length outs < length (mt_TxOut tx) then GetChangeUTXO E tx (encode_address E change) = Inr (the c) \<and> c \<noteq> None else c = None"
    using build script by (auto simp: btcbridge_BuildUnsignedTransaction_def bind_res_eq_Inr split: if_splits)
  have t': "t = NewMsgTx\<lparr>mt_TxIn := map spend_input us\<rparr>" using AddUTXOs_eq [OF t] by (simp add: NewMsgTx_def)
  have nn: "0 \<le> values_of outs" using outs(1) by (intro sum_list_nonneg) auto
  have us: "amounts us < 2 ^ 60" and srcs: "amounts (payment_sources it) < 2 ^ 60"
    using ins amounts_nonneg [of us] amounts_nonneg [of "payment_sources it"] by linarith+
  have eqs: "in_amount us = amounts us" "out_amount outs = values_of outs"
    using us outs by (simp_all add: in_amount_eq out_amount_eq)
  have diff: "i64 (in_amount us - out_amount outs) = amounts us - values_of outs"
    unfolding eqs by (rule i64_small, rule less_trans [of _ "2 ^ 60"]) (use us nn outs(2) amounts_nonneg [of us] in linarith, simp)
  have bound: "\<bar>amounts us - values_of outs\<bar> + amounts (payment_sources it) < 2 ^ 61"
    using ins nn outs(2) amounts_nonneg [of us] amounts_nonneg [of "payment_sources it"] by (simp add: abs_if)
  have "add_payments E us [] (amounts us - values_of outs) (payment_sources it) \<lparr>to_Value = 0, to_PkScript = script\<rparr> rate maxNum
      (t\<lparr>mt_TxOut := outs\<rparr>) = Inr (sel, tx)"
    using pay unfolding diff by (auto simp: AddPaymentUTXOsToTx_def payment_sources_def split: option.splits)
  from add_payments_spec [OF this ok _ _ bound] fit obtain suf extra where
    spec: "payment_sources it = sel @ suf" "sel \<noteq> []" "length (us @ sel) \<le> maxNum"
      "change_ok E \<lparr>to_Value = 0, to_PkScript = script\<rparr> extra"
      "tx = NewMsgTx\<lparr>mt_TxIn := map spend_input (us @ sel), mt_TxOut := outs @ extra\<rparr>"
      "fee_covers E rate (us @ sel) tx (amounts us - values_of outs + amounts sel - values_of extra)"
    unfolding t' by auto
  have change: "(c = None \<longleftrightarrow> extra = []) \<and> (\<forall>x. c = Some x \<longrightarrow> ut_Txid x = tx_hash E tx \<and> ut_Vout x = of_nat (length outs)
      \<and> ut_Amount x = word_of_int (values_of extra) \<and> ut_PkScript x = script \<and> bu_Address x = encode_address E change)"
    using c spec(4) by (auto simp: change_ok_def spec(5) GetChangeUTXO_def)
  have "fee_covers E rate (us @ sel) tx (amounts (us @ sel) - values_of (outs @ extra))" using spec(6) by (simp add: algebra_simps)
  then show ?thesis using spec(1-5) weight change by (intro exI [of _ suf] exI [of _ extra] conjI) simp_all
qed

section \<open>Signing requests\<close>

lemma lockChangeUTXOs_views:
  "br_signing_seq (lockChangeUTXOs h us s) = br_signing_seq s" "wview (lockChangeUTXOs h us s) = wview s"
  by (induction us arbitrary: s)
    (auto simp: lockChangeUTXOs_def lock_change_def addToMintHistory_def SetUTXO_def wview_def split: option.splits)

lemma issue_signing_result:
  assumes "issue_signing E now a t p spent changes s = Inr (q, s')"
  shows "encode_psbt E p = Inr (bs_Psbt q)" "bs_Address q = a" "bs_Type q = t" "bs_Txid q = tx_hash E (ps_Tx p)"
    and "bs_CreationTime q = now" "bs_Status q = BS_PENDING" "bs_Sequence q = br_signing_seq s + 1" "wview s' = wview s"
proof -
  obtain b u where u: "spend_all E spent s = Inr u" "encode_psbt E p = Inr b"
    and r: "(q, s') = new_signing now a t (tx_hash E (ps_Tx p)) b (lockChangeUTXOs (tx_hash E (ps_Tx p)) changes u)"
    using assms by (auto simp: issue_signing_def bind_res_eq_Inr Let_def new_signing_def IncrementSigningRequestSequence_def)
  have "br_signing_seq u = br_signing_seq s" "wview u = wview s"
    using spend_all_frame [OF u(1)] by (simp_all add: frame_def sview_def)
  then show "encode_psbt E p = Inr (bs_Psbt q)" "bs_Address q = a" "bs_Type q = t" "bs_Txid q = tx_hash E (ps_Tx p)"
    "bs_CreationTime q = now" "bs_Status q = BS_PENDING" "bs_Sequence q = br_signing_seq s + 1" "wview s' = wview s"
    using r u(2) lockChangeUTXOs_views [of "tx_hash E (ps_Tx p)" changes u]
    by (auto simp: new_signing_def IncrementSigningRequestSequence_def GetSigningRequestSequence_def Let_def wview_def)
qed

text \<open>Documented behaviour of a new psbt: it holds the transaction.\<close>

definition psbt_keeps_tx :: "('b, 'e) benv_scheme \<Rightarrow> bool" where
  "psbt_keeps_tx E \<longleftrightarrow> (\<forall>tx p. psbt_new E tx = Inr p \<longrightarrow> ps_Tx p = tx)"

lemma new_psbt_tx: "psbt_keeps_tx E \<Longrightarrow> new_psbt E tx us = Inr p \<Longrightarrow> ps_Tx p = tx"
  by (auto simp: psbt_keeps_tx_def new_psbt_def fill_inputs_def bind_res_eq_Inr split: if_splits)

section \<open>The requests of a batch\<close>

lemma batch_one_get:
  "kv_get (br_withdraws (batch_one h r s)) n = (if n = wr_Sequence r then Some (r\<lparr>wr_Txid := h\<rparr>) else kv_get (br_withdraws s) n)"
  "kv_has (br_withdraw_queue (batch_one h r s)) n \<longleftrightarrow> n \<noteq> wr_Sequence r \<and> kv_has (br_withdraw_queue s) n"
  by (simp_all add: batch_one_def Let_def RemoveFromBtcWithdrawRequestQueue_def)

lemma batch_fold:
  assumes "distinct (map wr_Sequence rs)"
  shows "n \<notin> wr_Sequence ` set rs \<Longrightarrow> kv_get (br_withdraws (fold (batch_one h) rs s)) n = kv_get (br_withdraws s) n"
    and "r \<in> set rs \<Longrightarrow> kv_get (br_withdraws (fold (batch_one h) rs s)) (wr_Sequence r) = Some (r\<lparr>wr_Txid := h\<rparr>)"
    and "kv_has (br_withdraw_queue (fold (batch_one h) rs s)) n \<longleftrightarrow> n \<notin> wr_Sequence ` set rs \<and> kv_has (br_withdraw_queue s) n"
    and "sview (fold (batch_one h) rs s) = sview s"
proof -
  show same: "kv_get (br_withdraws (fold (batch_one h) rs s)) n = kv_get (br_withdraws s) n" if "n \<notin> wr_Sequence ` set rs" for n s rs
    using that by (induction rs arbitrary: s) (simp_all add: batch_one_get)
  show "kv_get (br_withdraws (fold (batch_one h) rs s)) (wr_Sequence r) = Some (r\<lparr>wr_Txid := h\<rparr>)" if "r \<in> set rs"
    using that assms
  proof (induction rs arbitrary: s)
    case (Cons x rs)
    show ?case
    proof (cases "r = x")
      case True
      then have "wr_Sequence r \<notin> wr_Sequence ` set rs" using Cons.prems(2) by simp
      then show ?thesis using same [of "wr_Sequence r" rs "batch_one h x s"] True by (simp add: batch_one_get)
    qed (use Cons in simp)
  qed simp
  show "kv_has (br_withdraw_queue (fold (batch_one h) rs s)) n \<longleftrightarrow> n \<notin> wr_Sequence ` set rs \<and> kv_has (br_withdraw_queue s) n"
    by (induction rs arbitrary: s) (auto simp: batch_one_get)
  show "sview (fold (batch_one h) rs s) = sview s"
    by (induction rs arbitrary: s) (simp_all add: batch_one_frame)
qed

text \<open>The output of a request pays its amount to its address.\<close>

definition pays :: "('b, 'e) benv_scheme \<Rightarrow> withdraw_request \<Rightarrow> tx_out \<Rightarrow> bool" where
  "pays E r out \<longleftrightarrow> pk_script_of E (wr_Address r) = Inr (to_PkScript out)
     \<and> (\<exists>c. parse_coin E (wr_Amount r) = Inr c \<and> to_Value out = i64 (Amount c))"

lemma withdraw_out_pays: "withdraw_out E r = Inr out \<Longrightarrow> pays E r out"
  by (cases "parse_coin E (wr_Amount r)") (auto simp: withdraw_out_def pays_def bind_res_eq_Inr split: if_splits)

lemma withdraw_outs_pay: "map_res (withdraw_out E) rs = Inr outs \<Longrightarrow> list_all2 (pays E) rs outs"
  by (induction rs arbitrary: outs) (auto simp: bind_res_eq_Inr withdraw_out_pays)

lemma store_signing_get:
  "GetSigningRequestByTxHash (btcbridge_SetSigningRequest q s) (bs_Txid q) = Some q"
  by (simp add: GetSigningRequestByTxHash_def btcbridge_GetSigningRequest_def bsig.prim_put)

text \<open>A batch that changes anything comes from a transaction the bridge has built.\<close>

lemma batch_built:
  assumes "handleBtcWithdrawRequests E height now s = Inr s'" "s' \<noteq> s"
  obtains v p sel c q t where "SelectVaultByAssetType (bp_Vaults (GetParams s)) ASSET_BTC = Some v"
    "BuildBtcBatchWithdrawPsbt E (GetUTXOIteratorByAddr s (va_Address v))
       (GetPendingBtcWithdrawRequests s (bp_MaxBtcBatchWithdrawNum (GetParams s))) (fr_Value (GetFeeRate s)) (va_Address v) (GetMaxUtxoNum s)
     = Inr (p, sel, c)"
    "issue_signing E now (module_address E ''btcbridge'') ASSET_BTC p [sel] [c] s = Inr (q, t)"
    "s' = fold (batch_one (bs_Txid q)) (GetPendingBtcWithdrawRequests s (bp_MaxBtcBatchWithdrawNum (GetParams s)))
       (btcbridge_SetSigningRequest q t)"
  using assms
  by (auto simp: handleBtcWithdrawRequests_def Let_def BuildBtcBatchWithdrawSigningRequest_def bind_res_eq_Inr store_signing_def
      split: if_splits sum.splits option.splits)


section \<open>Outputs\<close>

text \<open>Whatever the amounts are, the given outputs come first and at most one is added.\<close>

lemma add_payments_outs:
  "add_payments E us sel diff rest co rate maxNum tx = Inr (sel', tx') \<Longrightarrow> \<exists>extra. length extra \<le> 1 \<and> mt_TxOut tx' = mt_TxOut tx @ extra"
proof (induction rest arbitrary: us sel diff tx)
  case (Cons u rest)
  obtain ok t where step: "AddPaymentUTXOToTx E us u diff co rate maxNum tx = Inr (ok, t)"
    and rest: "if ok then tx' = t
      else add_payments E (us @ [u]) (sel @ [u]) (i64 (diff + sint (ut_Amount u))) rest co rate maxNum t = Inr (sel', tx')"
    using Cons.prems by (auto simp: bind_res_eq_Inr split: if_splits)
  obtain extra where extra: "change_ok E co extra" "\<not> ok \<longrightarrow> extra = []" "mt_TxOut t = mt_TxOut tx @ extra"
    using AddPayment_shape [OF step] by (metis msg_tx.select_convs(3) msg_tx.surjective msg_tx.update_convs(2,3))
  show ?case
  proof (cases ok)
    case True
    have "length extra \<le> 1" using extra(1) by (auto simp: change_ok_def)
    then show ?thesis using True rest extra(3) by auto
  next
    case False
    then show ?thesis using Cons.IH rest extra by fastforce
  qed
qed simp

lemma BuildUnsigned_outs:
  assumes "btcbridge_BuildUnsignedTransaction E us outs it rate change maxNum = Inr (tx, sel, c)"
  shows "\<exists>extra. length extra \<le> 1 \<and> mt_TxOut tx = outs @ extra"
proof -
  obtain t script diff where "AddPaymentUTXOsToTx E us diff it \<lparr>to_Value = 0, to_PkScript = script\<rparr> rate maxNum (t\<lparr>mt_TxOut := outs\<rparr>) = Inr (sel, tx)"
    using assms by (auto simp: btcbridge_BuildUnsignedTransaction_def bind_res_eq_Inr split: if_splits)
  then obtain rest where "add_payments E us [] diff rest \<lparr>to_Value = 0, to_PkScript = script\<rparr> rate maxNum (t\<lparr>mt_TxOut := outs\<rparr>) = Inr (sel, tx)"
    by (cases "it_Minimum it") (simp_all add: AddPaymentUTXOsToTx_def del: add_payments.simps(2))
  from add_payments_outs [OF this] show ?thesis by simp
qed

end
