(* ===== verification/Bridge_Wallet.thy ===== *)
theory Bridge_Wallet
  imports Bridge_Build
begin

text \<open>
  The wallet of the bridge: the stored outputs as a map from outpoints. Depositing, spending, locking the change and
  unlocking it are updates of this map, and the indexes by owner and by amount list exactly the outputs that are not locked.
\<close>

section \<open>The invariant\<close>

abbreviation wallet :: "('b, 'x) bridge_scheme \<Rightarrow> outpoint \<Rightarrow> bridge_utxo option" where
  "wallet s \<equiv> kv_get (br_utxos s)"

definition available :: "(outpoint \<Rightarrow> bridge_utxo option) \<Rightarrow> string \<Rightarrow> bridge_utxo set" where
  "available w a = {u \<in> ran w. \<not> bu_IsLocked u \<and> bu_Address u = a}"

definition utxo_inv :: "('b, 'x) bridge_scheme \<Rightarrow> bool" where
  "utxo_inv s \<longleftrightarrow> kv_ok (br_utxos s) \<and> kv_ok (br_owned s) \<and> kv_ok (br_owned_by_amount s)
     \<and> (\<forall>op u. wallet s op = Some u \<longrightarrow> outpoint u = op)
     \<and> (\<forall>a op. kv_has (br_owned s) (a, op) \<longleftrightarrow> (\<exists>u. wallet s op = Some u \<and> \<not> bu_IsLocked u \<and> bu_Address u = a))
     \<and> (\<forall>a m op. kv_has (br_owned_by_amount s) (a, m, op)
         \<longleftrightarrow> (\<exists>u. wallet s op = Some u \<and> \<not> bu_IsLocked u \<and> bu_Address u = a \<and> ut_Amount u = m))"

lemma utxo_invD:
  assumes "utxo_inv s"
  shows "kv_ok (br_utxos s)" "kv_ok (br_owned s)" "kv_ok (br_owned_by_amount s)" "wallet s op = Some u \<Longrightarrow> outpoint u = op"
    and "kv_has (br_owned s) (a, op) \<longleftrightarrow> (\<exists>u. wallet s op = Some u \<and> \<not> bu_IsLocked u \<and> bu_Address u = a)"
    and "kv_has (br_owned_by_amount s) (a, m, op) \<longleftrightarrow> (\<exists>u. wallet s op = Some u \<and> \<not> bu_IsLocked u \<and> bu_Address u = a \<and> ut_Amount u = m)"
  using assms unfolding utxo_inv_def by blast+

text \<open>The three stores of the wallet.\<close>

definition uview :: "('b, 'x) bridge_scheme \<Rightarrow>
   (outpoint, bridge_utxo) kv \<times> (string \<times> outpoint, unit) kv \<times> (string \<times> u64 \<times> outpoint, unit) kv" where
  "uview s = (br_utxos s, br_owned s, br_owned_by_amount s)"

lemma utxo_inv_view: "uview s' = uview s \<Longrightarrow> utxo_inv s' = utxo_inv s"
  by (simp add: uview_def utxo_inv_def)

section \<open>Updates\<close>

lemma saveUTXO_view:
  "saveUTXO E u s = Inr s' \<Longrightarrow> uview s' = (kv_set (outpoint u) u (br_utxos s), kv_set (bu_Address u, outpoint u) () (br_owned s),
     kv_set (bu_Address u, ut_Amount u, outpoint u) () (br_owned_by_amount s))"
proof -
  have "fold_res (SetOwnerRunesUTXO E u) rs t = Inr s' \<Longrightarrow> uview s' = uview t" for rs and t :: "('a, 'b) bridge_scheme"
    by (induction rs arbitrary: t) (auto simp: bind_res_eq_Inr SetOwnerRunesUTXO_def uview_def)
  then show "saveUTXO E u s = Inr s' \<Longrightarrow> uview s' = (kv_set (outpoint u) u (br_utxos s), kv_set (bu_Address u, outpoint u) () (br_owned s),
     kv_set (bu_Address u, ut_Amount u, outpoint u) () (br_owned_by_amount s))"
    by (simp add: saveUTXO_def SetUTXO_def SetOwnerUTXO_def SetOwnerUTXOByAmount_def uview_def)
qed

lemma saveUTXO_inv:
  assumes "utxo_inv s" "saveUTXO E u s = Inr s'" "\<not> bu_IsLocked u"
    and "\<And>v. wallet s (outpoint u) = Some v \<Longrightarrow> bu_IsLocked v \<or> (bu_Address v = bu_Address u \<and> ut_Amount v = ut_Amount u)"
  shows "utxo_inv s'" "wallet s' = (wallet s)(outpoint u \<mapsto> u)"
proof -
  have v: "br_utxos s' = kv_set (outpoint u) u (br_utxos s)" "br_owned s' = kv_set (bu_Address u, outpoint u) () (br_owned s)"
    "br_owned_by_amount s' = kv_set (bu_Address u, ut_Amount u, outpoint u) () (br_owned_by_amount s)"
    using saveUTXO_view [OF assms(2)] by (simp_all add: uview_def)
  show "wallet s' = (wallet s)(outpoint u \<mapsto> u)" by (auto simp: v)
  have "kv_has (br_owned s') (a, op) \<longleftrightarrow> (\<exists>x. wallet s' op = Some x \<and> \<not> bu_IsLocked x \<and> bu_Address x = a)"
    "kv_has (br_owned_by_amount s') (a, m, op) \<longleftrightarrow> (\<exists>x. wallet s' op = Some x \<and> \<not> bu_IsLocked x \<and> bu_Address x = a \<and> ut_Amount x = m)" for a m op
    using assms(3,4) utxo_invD(5,6) [OF assms(1)] by (auto simp: v)
  then show "utxo_inv s'" using utxo_invD(1-4) [OF assms(1)] unfolding utxo_inv_def by (simp add: v)
qed

lemma SetUTXO_locked_inv:
  assumes "utxo_inv s" "bu_IsLocked u" "wallet s (outpoint u) = None"
  shows "utxo_inv (SetUTXO u s)" "wallet (SetUTXO u s) = (wallet s)(outpoint u \<mapsto> u)"
proof -
  show "wallet (SetUTXO u s) = (wallet s)(outpoint u \<mapsto> u)" by (auto simp: SetUTXO_def)
  have "kv_has (br_owned s) (a, op) \<longleftrightarrow> (\<exists>x. wallet (SetUTXO u s) op = Some x \<and> \<not> bu_IsLocked x \<and> bu_Address x = a)"
    "kv_has (br_owned_by_amount s) (a, m, op)
      \<longleftrightarrow> (\<exists>x. wallet (SetUTXO u s) op = Some x \<and> \<not> bu_IsLocked x \<and> bu_Address x = a \<and> ut_Amount x = m)" for a m op
    using assms(2,3) utxo_invD(5,6) [OF assms(1)] by (auto simp: SetUTXO_def)
  then show "utxo_inv (SetUTXO u s)" using utxo_invD(1-4) [OF assms(1)] unfolding utxo_inv_def by (simp add: SetUTXO_def)
qed

lemma removeUTXO_view:
  assumes "removeUTXO E op s = Inr s'"
  shows "uview s' = (kv_del op (br_utxos s), kv_del (bu_Address (GetUTXO s op), op) (br_owned s),
     kv_del (bu_Address (GetUTXO s op), ut_Amount (GetUTXO s op), op) (br_owned_by_amount s))"
proof -
  have "fold_res (delete_rune E a op) rs t = Inr s' \<Longrightarrow> uview s' = uview t" for a rs and t :: "('a, 'b) bridge_scheme"
    by (induction rs arbitrary: t) (auto simp: bind_res_eq_Inr delete_rune_def uview_def)
  from this [OF assms [unfolded removeUTXO_def Let_def]] show ?thesis by (simp add: uview_def)
qed

lemma removeUTXO_inv:
  assumes "utxo_inv s" "removeUTXO E op s = Inr s'" "HasUTXO s op"
  shows "utxo_inv s'" "wallet s' = (wallet s)(op := None)"
proof -
  obtain u where u: "wallet s op = Some u" using assms(3) by (auto simp: HasUTXO_def kv_has_def)
  have v: "br_utxos s' = kv_del op (br_utxos s)" "br_owned s' = kv_del (bu_Address u, op) (br_owned s)"
    "br_owned_by_amount s' = kv_del (bu_Address u, ut_Amount u, op) (br_owned_by_amount s)"
    using removeUTXO_view [OF assms(2)] u by (simp_all add: uview_def GetUTXO_def)
  show "wallet s' = (wallet s)(op := None)" by (auto simp: v)
  have "kv_has (br_owned s') (a, p) \<longleftrightarrow> (\<exists>x. wallet s' p = Some x \<and> \<not> bu_IsLocked x \<and> bu_Address x = a)"
    "kv_has (br_owned_by_amount s') (a, m, p) \<longleftrightarrow> (\<exists>x. wallet s' p = Some x \<and> \<not> bu_IsLocked x \<and> bu_Address x = a \<and> ut_Amount x = m)" for a m p
    using u utxo_invD(5,6) [OF assms(1)] by (auto simp: v)
  then show "utxo_inv s'" using utxo_invD(1-4) [OF assms(1)] unfolding utxo_inv_def by (auto simp: v)
qed

section \<open>Spending and unlocking\<close>

text \<open>The keys of the runes of an output can be read.\<close>

definition runes_keyed :: "('b, 'e) benv_scheme \<Rightarrow> bridge_utxo \<Rightarrow> bool" where
  "runes_keyed E u \<longleftrightarrow> (\<forall>r \<in> set (bu_Runes u). \<exists>k. rune_key E (bu_Address u) (outpoint u) r = Inr k)"

lemma removeUTXO_total:
  assumes "wallet s op = Some u" "outpoint u = op" "runes_keyed E u"
  shows "\<exists>s'. removeUTXO E op s = Inr s'"
proof -
  have "\<exists>s'. fold_res (delete_rune E (bu_Address u) op) rs t = Inr s'" if "set rs \<subseteq> set (bu_Runes u)" for rs and t :: "('a, 'b) bridge_scheme"
    using that
  proof (induction rs arbitrary: t)
    case (Cons r rs)
    then obtain k where "rune_key E (bu_Address u) op r = Inr k" using assms(2,3) by (auto simp: runes_keyed_def)
    then show ?case using Cons by (auto simp: delete_rune_def)
  qed simp
  then show ?thesis using assms(1) by (simp add: removeUTXO_def Let_def GetUTXO_def)
qed

definition minus_outputs :: "(outpoint \<Rightarrow> bridge_utxo option) \<Rightarrow> bridge_utxo list \<Rightarrow> outpoint \<Rightarrow> bridge_utxo option" where
  "minus_outputs w us = w |` (- outpoint ` set us)"

lemma SpendUTXOs_inv:
  assumes "utxo_inv s" "\<forall>u \<in> set us. wallet s (outpoint u) = Some u \<and> runes_keyed E u" "distinct (map outpoint us)"
  shows "\<exists>s'. SpendUTXOs E us s = (Inr (), s') \<and> utxo_inv s' \<and> wallet s' = minus_outputs (wallet s) us"
  using assms
proof (induction us arbitrary: s)
  case (Cons u us)
  have u: "wallet s (outpoint u) = Some u" "HasUTXO s (outpoint u)" using Cons.prems(2) by (simp_all add: HasUTXO_def kv_has_def)
  obtain t where t: "removeUTXO E (outpoint u) s = Inr t" using removeUTXO_total [OF u(1)] Cons.prems(2) by auto
  note R = removeUTXO_inv [OF Cons.prems(1) t u(2)]
  have rest: "\<forall>v \<in> set us. wallet t (outpoint v) = Some v \<and> runes_keyed E v"
  proof
    fix v assume v: "v \<in> set us"
    then have "outpoint v \<noteq> outpoint u" using Cons.prems(3) by (auto simp: rev_image_eqI)
    then show "wallet t (outpoint v) = Some v \<and> runes_keyed E v" using Cons.prems(2) v by (simp add: R(2))
  qed
  from Cons.IH [OF R(1) rest] Cons.prems(3) obtain s' where s': "SpendUTXOs E us t = (Inr (), s')" "utxo_inv s'"
    "wallet s' = minus_outputs (wallet t) us" by auto
  have "wallet s' = minus_outputs (wallet s) (u # us)" unfolding s'(3) R(2) by (auto simp: minus_outputs_def restrict_map_def)
  then show ?case using s' u(2) t by (simp add: SpendUTXOs_def SpendUTXO_def)
qed (simp add: SpendUTXOs_def minus_outputs_def restrict_map_def)

lemma other_views:
  "uview (addToMintHistory h s) = uview s" "uview (snd (new_signing now a t h b s)) = uview s"
  by (simp_all add: addToMintHistory_def uview_def new_signing_def IncrementSigningRequestSequence_def Let_def)

text \<open>Unlocking the outputs of a transaction makes them available.\<close>

definition unlocked :: "string \<Rightarrow> (outpoint \<Rightarrow> bridge_utxo option) \<Rightarrow> outpoint \<Rightarrow> bridge_utxo option" where
  "unlocked h w = (\<lambda>op. map_option (\<lambda>u. if fst op = h then u\<lparr>bu_IsLocked := False\<rparr> else u) (w op))"

lemma unlock_fold:
  assumes "utxo_inv s" "fold_res (\<lambda>u. saveUTXO E (u\<lparr>bu_IsLocked := False\<rparr>)) us s = Inr s'" "distinct (map outpoint us)"
    and "\<forall>u \<in> set us. wallet s (outpoint u) = Some u"
  shows "utxo_inv s' \<and> wallet s' = (\<lambda>op. if op \<in> outpoint ` set us then map_option (\<lambda>u. u\<lparr>bu_IsLocked := False\<rparr>) (wallet s op) else wallet s op)"
  using assms
proof (induction us arbitrary: s)
  case (Cons u us)
  let ?u = "u\<lparr>bu_IsLocked := False\<rparr>"
  obtain t where t: "saveUTXO E ?u s = Inr t" and rest: "fold_res (\<lambda>u. saveUTXO E (u\<lparr>bu_IsLocked := False\<rparr>)) us t = Inr s'"
    using Cons.prems(2) by (auto simp: bind_res_eq_Inr)
  have op: "outpoint ?u = outpoint u" by (simp add: outpoint_def)
  have u: "wallet s (outpoint u) = Some u" using Cons.prems(4) by simp
  have S: "utxo_inv t" "wallet t = (wallet s)(outpoint u \<mapsto> ?u)"
    using saveUTXO_inv [OF Cons.prems(1) t] u by (simp_all add: op)
  have new: "outpoint u \<notin> outpoint ` set us" using Cons.prems(3) by simp
  have "\<forall>v \<in> set us. wallet t (outpoint v) = Some v"
  proof
    fix v assume v: "v \<in> set us"
    then have "outpoint v \<noteq> outpoint u" using new by (metis image_eqI)
    then show "wallet t (outpoint v) = Some v" using Cons.prems(4) v by (simp add: S(2))
  qed
  from Cons.IH [OF S(1) rest _ this] Cons.prems(3)
  have IH: "utxo_inv s'" "wallet s' = (\<lambda>op. if op \<in> outpoint ` set us then map_option (\<lambda>u. u\<lparr>bu_IsLocked := False\<rparr>) (wallet t op) else wallet t op)"
    by simp_all
  show ?case using IH(1) new u by (auto simp: IH(2) S(2) fun_eq_iff)
qed simp

lemma unlockChangeUTXOs_inv:
  assumes "utxo_inv s" "unlockChangeUTXOs E h s = Inr s'"
  shows "utxo_inv s'" "wallet s' = unlocked h (wallet s)"
proof -
  let ?us = "map snd (filter (\<lambda>((t, _), _). t = h) (br_utxos s))"
  have get: "wallet s op = Some u \<longleftrightarrow> (op, u) \<in> set (br_utxos s)" for op u
    using kv_ok_distinct [OF utxo_invD(1) [OF assms(1)]] by (auto simp: kv_get_def kv_keys_def)
  have keys: "outpoint u = op" if "(op, u) \<in> set (br_utxos s)" for op u
    using that get utxo_invD(4) [OF assms(1)] by blast
  have "map outpoint (map snd (br_utxos s)) = kv_keys (br_utxos s)"
    unfolding kv_keys_def using keys by (auto simp: comp_def)
  then have "distinct (map (outpoint \<circ> snd) (br_utxos s))" using kv_ok_distinct [OF utxo_invD(1) [OF assms(1)]] by simp
  then have dist: "distinct (map outpoint ?us)" by (simp add: distinct_map_filter)
  have stored: "\<forall>u \<in> set ?us. wallet s (outpoint u) = Some u"
    using keys get by fastforce
  have set: "op \<in> outpoint ` set ?us \<longleftrightarrow> fst op = h \<and> (\<exists>u. wallet s op = Some u)" for op
  proof
    assume "op \<in> outpoint ` set ?us"
    then obtain p u where p: "(p, u) \<in> set (br_utxos s)" "fst p = h" "op = outpoint u" by auto
    then show "fst op = h \<and> (\<exists>u. wallet s op = Some u)" using keys [OF p(1)] get by auto
  next
    assume "fst op = h \<and> (\<exists>u. wallet s op = Some u)"
    then obtain u where u: "(op, u) \<in> set (br_utxos s)" "fst op = h" using get by blast
    then have "u \<in> set ?us" by force
    then show "op \<in> outpoint ` set ?us" using keys [OF u(1)] by blast
  qed
  note F = unlock_fold [OF assms(1) assms(2) [unfolded unlockChangeUTXOs_def] dist stored]
  show "utxo_inv s'" using F ..
  show "wallet s' = unlocked h (wallet s)"
  proof
    fix op
    show "wallet s' op = unlocked h (wallet s) op"
      using F [THEN conjunct2] set [of op] by (cases "wallet s op") (auto simp: unlocked_def)
  qed
qed


section \<open>Views\<close>

lemma GetUTXO_stored: "wallet s op = Some u \<Longrightarrow> GetUTXO s op = u"
  by (simp add: GetUTXO_def)

lemma GetUnlockedUTXOsByAddr_available:
  assumes "utxo_inv s"
  shows "set (GetUnlockedUTXOsByAddr s a) = available (wallet s) a" "distinct (map outpoint (GetUnlockedUTXOsByAddr s a))"
proof -
  note D = utxo_invD [OF assms]
  have get: "op \<in> set (ids_with a (br_owned s)) \<longleftrightarrow> (\<exists>u. wallet s op = Some u \<and> \<not> bu_IsLocked u \<and> bu_Address u = a)" for op
    by (simp add: set_ids_with D(5))
  have out: "outpoint (GetUTXO s op) = op" if "op \<in> set (ids_with a (br_owned s))" for op
    using that get D(4) by (metis GetUTXO_stored)
  show "set (GetUnlockedUTXOsByAddr s a) = available (wallet s) a"
    unfolding GetUnlockedUTXOsByAddr_def available_def ran_def set_map using get GetUTXO_stored by (fastforce simp: image_iff)
  have "map outpoint (GetUnlockedUTXOsByAddr s a) = ids_with a (br_owned s)"
    unfolding GetUnlockedUTXOsByAddr_def map_map by (rule map_idI) (simp add: out)
  then show "distinct (map outpoint (GetUnlockedUTXOsByAddr s a))" using distinct_ids_with [OF D(2)] by simp
qed

lemma takeWhile_rev_distinct: "distinct (x # xs) \<Longrightarrow> takeWhile (\<lambda>y. x \<noteq> y) (rev xs @ [x]) = rev xs"
  by (subst takeWhile_append2) auto

text \<open>The iterator gives every available output of the owner once, the smallest first.\<close>

lemma payment_sources_available:
  assumes "utxo_inv s"
  shows "set (payment_sources (GetUTXOIteratorByAddr s a)) = available (wallet s) a"
    and "distinct (map outpoint (payment_sources (GetUTXOIteratorByAddr s a)))"
    and "u \<in> available (wallet s) a \<Longrightarrow> ut_Amount (hd (payment_sources (GetUTXOIteratorByAddr s a))) \<le> ut_Amount u"
proof -
  note D = utxo_invD [OF assms]
  let ?ks = "ids_with a (br_owned_by_amount s)" and ?P = "payment_sources (GetUTXOIteratorByAddr s a)"
  have get: "(m, op) \<in> set ?ks \<longleftrightarrow> (\<exists>u. wallet s op = Some u \<and> \<not> bu_IsLocked u \<and> bu_Address u = a \<and> ut_Amount u = m)" for m op
    by (simp add: set_ids_with D(6))
  have key: "ut_Amount (GetUTXO s op) = m \<and> outpoint (GetUTXO s op) = op" if "(m, op) \<in> set ?ks" for m op
    using that get D(4) by (metis GetUTXO_stored)
  have sorted: "sorted_wrt (<) ?ks" by (rule sorted_ids_with [OF D(3)])
  have dist: "distinct ?ks" by (rule distinct_ids_with [OF D(3)])
  have P: "?P = (case ?ks of [] \<Rightarrow> [] | k # ks \<Rightarrow> map (\<lambda>(_, op). GetUTXO s op) (k # rev ks))"
  proof (cases ?ks)
    case (Cons k ks)
    obtain m op where k: "k = (m, op)" by (cases k)
    have "(ut_Amount (GetUTXO s op), outpoint (GetUTXO s op)) = (m, op)" using key [of m op] Cons k by simp
    moreover have "takeWhile (\<lambda>y. k \<noteq> y) (rev ks @ [k]) = rev ks" by (rule takeWhile_rev_distinct) (use dist Cons in simp)
    ultimately show ?thesis
      by (simp add: payment_sources_def GetUTXOIteratorByAddr_def GetMinimumUTXOInAmount_def Let_def Cons k)
  qed (simp add: payment_sources_def GetUTXOIteratorByAddr_def GetMinimumUTXOInAmount_def Let_def)
  have map: "map outpoint (map (\<lambda>(_, op). GetUTXO s op) ks) = map snd ks" if "set ks \<subseteq> set ?ks" for ks
    using that key by (auto simp: case_prod_unfold)
  have "distinct (map snd ?ks)"
    unfolding distinct_map using dist by (auto intro!: inj_onI dest: key) (metis get option.inject)
  then show "distinct (map outpoint ?P)"
  proof (cases ?ks)
    case (Cons k ks)
    assume "distinct (map snd ?ks)"
    then have "distinct (map snd (k # rev ks))" by (simp add: Cons rev_map [symmetric])
    moreover have "map outpoint ?P = map snd (k # rev ks)" unfolding P Cons list.case by (rule map) (simp add: Cons)
    ultimately show ?thesis by metis
  qed (simp add: P)
  have set: "set ?P = (\<lambda>(_, op). GetUTXO s op) ` set ?ks" unfolding P by (cases ?ks) auto
  show av: "set ?P = available (wallet s) a"
    unfolding set available_def ran_def using get GetUTXO_stored by (fastforce simp: image_iff)
  show "ut_Amount (hd ?P) \<le> ut_Amount u" if u: "u \<in> available (wallet s) a"
  proof -
    obtain m op where k: "(m, op) \<in> set ?ks" "u = GetUTXO s op" using u unfolding av [symmetric] set by auto
    then obtain k ks where ks: "?ks = k # ks" by (cases ?ks) auto
    have "k \<le> (m, op)" using sorted k(1) unfolding ks by (auto simp: less_imp_le)
    then have "fst k \<le> m" by (auto simp: less_eq_prod_def)
    moreover have "ut_Amount (GetUTXO s (snd k)) = fst k" using key [of "fst k" "snd k"] ks by simp
    ultimately show ?thesis using key [OF k(1)] k(2) unfolding P ks by (simp add: case_prod_unfold)
  qed
qed

section \<open>Issuing a transaction\<close>

definition locked_change :: "bridge_utxo option \<Rightarrow> (outpoint \<Rightarrow> bridge_utxo option) \<Rightarrow> outpoint \<Rightarrow> bridge_utxo option" where
  "locked_change c w = (case c of None \<Rightarrow> w | Some u \<Rightarrow> w(outpoint u \<mapsto> u\<lparr>bu_IsLocked := True\<rparr>))"

lemma issue_signing_inv:
  assumes "utxo_inv s" "issue_signing E now a t p [sel] [c] s = Inr (q, s')"
    and "\<forall>u \<in> set sel. wallet s (outpoint u) = Some u \<and> runes_keyed E u" "distinct (map outpoint sel)"
    and "\<And>u. c = Some u \<Longrightarrow> wallet s (outpoint u) = None"
  shows "utxo_inv s'" "wallet s' = locked_change c (minus_outputs (wallet s) sel)"
proof -
  obtain u where u: "SpendUTXOs E sel s = (Inr (), u)" "utxo_inv u" "wallet u = minus_outputs (wallet s) sel"
    using SpendUTXOs_inv [OF assms(1,3,4)] by blast
  then have "spend_all E [sel] s = Inr u" by (simp add: spend_all_def)
  then obtain b where s': "new_signing now a t (tx_hash E (ps_Tx p)) b (lockChangeUTXOs (tx_hash E (ps_Tx p)) [c] u) = (q, s')"
    using assms(2) by (auto simp: issue_signing_def bind_res_eq_Inr Let_def)
  have view: "uview s' = uview (lockChangeUTXOs (tx_hash E (ps_Tx p)) [c] u)"
    using other_views(2) [of now a t "tx_hash E (ps_Tx p)" b] s' by (metis snd_conv)
  have lock: "utxo_inv (lockChangeUTXOs (tx_hash E (ps_Tx p)) [c] u)
      \<and> wallet (lockChangeUTXOs (tx_hash E (ps_Tx p)) [c] u) = locked_change c (wallet u)"
  proof (cases c)
    case (Some x)
    let ?x = "x\<lparr>bu_IsLocked := True\<rparr>"
    have op: "outpoint ?x = outpoint x" by (simp add: outpoint_def)
    have "wallet u (outpoint ?x) = None" using assms(5) [OF Some] by (simp add: u(3) op minus_outputs_def restrict_map_def)
    from SetUTXO_locked_inv [OF u(2) _ this]
    have "utxo_inv (SetUTXO ?x u)" "wallet (SetUTXO ?x u) = (wallet u)(outpoint x \<mapsto> ?x)" by (simp_all add: op)
    then show ?thesis
      using utxo_inv_view [OF other_views(1), of "tx_hash E (ps_Tx p)" "SetUTXO ?x u"]
      by (simp add: lockChangeUTXOs_def lock_change_def locked_change_def Some addToMintHistory_def)
  qed (simp add: lockChangeUTXOs_def lock_change_def locked_change_def u(2))
  then show "utxo_inv s'" "wallet s' = locked_change c (minus_outputs (wallet s) sel)"
    using utxo_inv_view [OF view] view by (simp_all add: uview_def u(3))
qed

end
