(* ===== verification/Bridge_Tx_Props.thy ===== *)
theory Bridge_Tx_Props
  imports Bridge_Wallet
begin

text \<open>
  Properties of the transactions the bridge builds: what they spend and pay, and the batch of withdrawals as a whole.
\<close>

text \<open>
  C12. The shape and the fee of a transaction the bridge builds. It spends the given outputs and a prefix of the payment
  outputs, the smallest first, never more than the limit; it pays exactly the given outputs and at most one change output, which is not dust; what it leaves as the fee
  is at least the fee rate times its size; its weight is within the limit; and the record of the change describes the last output. No amounts are lost or wrap.
\<close>

theorem built_transaction_pays:
  assumes "btcbridge_BuildUnsignedTransaction E us outs it rate change maxNum = Inr (tx, sel, c)"
    and "sizes_ok E rate" "pk_script_of E change = Inr script" "fees_fit E rate maxNum outs \<lparr>to_Value = 0, to_PkScript = script\<rparr>"
    and "\<forall>out \<in> set outs. 0 \<le> to_Value out" "values_of outs < 2 ^ 60" "amounts us + amounts (payment_sources it) < 2 ^ 60"
  shows "\<exists>suf extra. payment_sources it = sel @ suf \<and> sel \<noteq> [] \<and> length (us @ sel) \<le> maxNum
    \<and> change_ok E \<lparr>to_Value = 0, to_PkScript = script\<rparr> extra
    \<and> tx = NewMsgTx\<lparr>mt_TxIn := map spend_input (us @ sel), mt_TxOut := outs @ extra\<rparr>
    \<and> fee_covers E rate (us @ sel) tx (amounts (us @ sel) - values_of (outs @ extra))
    \<and> btcbridge_CheckTransactionWeight E tx (us @ sel) = Inr ()
    \<and> (c = None \<longleftrightarrow> extra = []) \<and> (\<forall>x. c = Some x \<longrightarrow> ut_Txid x = tx_hash E tx \<and> ut_Vout x = of_nat (length outs)
        \<and> ut_Amount x = word_of_int (values_of extra) \<and> ut_PkScript x = script \<and> bu_Address x = encode_address E change)"
  by (rule BuildUnsigned_spec [OF assms])

text \<open>
  C9. A batch of withdrawals. When the end of a block changes anything for the queued withdrawals, there is a transaction that pays
  each of the pending requests exactly its amount to its address, from outputs of the BTC vault, and its change goes back to the vault. A pending signing request
  for it is found under its hash; exactly the paid requests get the hash and leave the queue, all other requests and the rest of the queue stay as they are.
\<close>

theorem batch_correct:
  assumes run: "handleBtcWithdrawRequests E height now s = Inr s'" "s' \<noteq> s" and inv: "withdraw_inv s"
    and rs: "rs = GetPendingBtcWithdrawRequests s (bp_MaxBtcBatchWithdrawNum (GetParams s))" and outs: "map_res (withdraw_out E) rs = Inr outs"
    and rate: "rate = fr_Value (GetFeeRate s)" and v: "SelectVaultByAssetType (bp_Vaults (GetParams s)) ASSET_BTC = Some v"
    and script: "pk_script_of E (va_Address v) = Inr script" and env: "sizes_ok E rate" "psbt_keeps_tx E"
      "fees_fit E rate (GetMaxUtxoNum s) outs \<lparr>to_Value = 0, to_PkScript = script\<rparr>"
    and small: "\<forall>out \<in> set outs. 0 \<le> to_Value out" "values_of outs < 2 ^ 60"
      "amounts (payment_sources (GetUTXOIteratorByAddr s (va_Address v))) < 2 ^ 60"
  shows "\<exists>p sel extra q. list_all2 (pays E) rs outs \<and> set sel \<subseteq> set (payment_sources (GetUTXOIteratorByAddr s (va_Address v)))
    \<and> length sel \<le> GetMaxUtxoNum s \<and> change_ok E \<lparr>to_Value = 0, to_PkScript = script\<rparr> extra
    \<and> ps_Tx p = NewMsgTx\<lparr>mt_TxIn := map spend_input sel, mt_TxOut := outs @ extra\<rparr>
    \<and> fee_covers E rate sel (ps_Tx p) (amounts sel - values_of (outs @ extra))
    \<and> GetSigningRequestByTxHash s' (tx_hash E (ps_Tx p)) = Some q \<and> bs_Status q = BS_PENDING \<and> bs_Type q = ASSET_BTC
    \<and> encode_psbt E p = Inr (bs_Psbt q) \<and> bs_CreationTime q = now
    \<and> (\<forall>r \<in> set rs. kv_get (br_withdraws s') (wr_Sequence r) = Some (r\<lparr>wr_Txid := tx_hash E (ps_Tx p)\<rparr>))
    \<and> (\<forall>n. n \<notin> wr_Sequence ` set rs \<longrightarrow> kv_get (br_withdraws s') n = kv_get (br_withdraws s) n)
    \<and> (\<forall>n. kv_has (br_withdraw_queue s') n \<longleftrightarrow> n \<notin> wr_Sequence ` set rs \<and> kv_has (br_withdraw_queue s) n)"
proof -
  obtain p sel c q t where build: "BuildBtcBatchWithdrawPsbt E (GetUTXOIteratorByAddr s (va_Address v)) rs rate (va_Address v) (GetMaxUtxoNum s)
      = Inr (p, sel, c)" and issue: "issue_signing E now (module_address E ''btcbridge'') ASSET_BTC p [sel] [c] s = Inr (q, t)"
    and s': "s' = fold (batch_one (bs_Txid q)) rs (btcbridge_SetSigningRequest q t)"
    using batch_built [OF run] v unfolding rs rate by (metis option.inject)
  obtain tx where tx: "btcbridge_BuildUnsignedTransaction E [] outs (GetUTXOIteratorByAddr s (va_Address v)) rate (va_Address v) (GetMaxUtxoNum s)
      = Inr (tx, sel, c)" and p: "new_psbt E tx sel = Inr p"
    using build outs by (auto simp: BuildBtcBatchWithdrawPsbt_def bind_res_eq_Inr split: if_splits)
  have p_tx: "ps_Tx p = tx" using new_psbt_tx [OF env(2) p] .
  have ins: "amounts [] + amounts (payment_sources (GetUTXOIteratorByAddr s (va_Address v))) < 2 ^ 60" using small(3) by simp
  obtain suf extra where shape: "payment_sources (GetUTXOIteratorByAddr s (va_Address v)) = sel @ suf" "length ([] @ sel) \<le> GetMaxUtxoNum s"
    "change_ok E \<lparr>to_Value = 0, to_PkScript = script\<rparr> extra" "tx = NewMsgTx\<lparr>mt_TxIn := map spend_input ([] @ sel), mt_TxOut := outs @ extra\<rparr>"
    "fee_covers E rate ([] @ sel) tx (amounts ([] @ sel) - values_of (outs @ extra))"
    using BuildUnsigned_spec [OF tx env(1) script env(3) small(1,2) ins] by blast
  note q = issue_signing_result [OF issue]
  have ids: "distinct (map wr_Sequence rs)" unfolding rs by (rule pending_requests(1) [OF inv])
  note F = batch_fold [OF ids, where h = "bs_Txid q" and s = "btcbridge_SetSigningRequest q t"]
  have w: "br_withdraws (btcbridge_SetSigningRequest q t) = br_withdraws s" "br_withdraw_queue (btcbridge_SetSigningRequest q t) = br_withdraw_queue s"
    using q(8) by (simp_all add: wview_def)
  have "GetSigningRequestByTxHash s' (bs_Txid q) = GetSigningRequestByTxHash (btcbridge_SetSigningRequest q t) (bs_Txid q)"
    using F(4) unfolding s' by (simp add: GetSigningRequestByTxHash_def btcbridge_GetSigningRequest_def sview_def comp_def)
  then have get: "GetSigningRequestByTxHash s' (tx_hash E (ps_Tx p)) = Some q" by (simp add: store_signing_get q(4) [symmetric])
  have paid: "\<forall>r \<in> set rs. kv_get (br_withdraws s') (wr_Sequence r) = Some (r\<lparr>wr_Txid := tx_hash E (ps_Tx p)\<rparr>)"
    using F(2) unfolding s' q(4) by blast
  have rest: "\<forall>n. n \<notin> wr_Sequence ` set rs \<longrightarrow> kv_get (br_withdraws s') n = kv_get (br_withdraws s) n"
    "\<forall>n. kv_has (br_withdraw_queue s') n \<longleftrightarrow> n \<notin> wr_Sequence ` set rs \<and> kv_has (br_withdraw_queue s) n"
    using F(1,3) unfolding s' w by blast+
  show ?thesis
    using withdraw_outs_pay [OF outs] shape q(1,3,5,6) get paid rest p_tx
    by (intro exI [of _ p] exI [of _ sel] exI [of _ extra] exI [of _ q] conjI) auto
qed

text \<open>
  C13. The transaction that moves runes. Reading the transaction the bridge builds for a withdrawal of \<open>n\<close> of a rune gives back exactly one edict, with that rune, that amount and the
  output of the recipient; what is left of the spent runes goes to the vault with the output before it.
\<close>

theorem runes_withdrawal_roundtrip:
  assumes "BuildRunesPsbt E us it recipient (RuneId_ToString r) n rate delta runesChange change maxNum = Inr (p, sel, c, rc)"
    and "u128_ok E" "scripts_ok E" "psbt_keeps_tx E" "n < 2 ^ 128"
  shows "\<exists>k rscript. ParseRunes E (ps_Tx p) = Inr [\<lparr>ed_Id = r, ed_Amount = dec_string n, ed_Output = k\<rparr>]
    \<and> pk_script_of E recipient = Inr rscript \<and> unat k < length (mt_TxOut (ps_Tx p))
    \<and> mt_TxOut (ps_Tx p) ! unat k = \<lparr>to_Value = RunesOutValue, to_PkScript = rscript\<rparr>
    \<and> (rc = None \<longleftrightarrow> delta = []) \<and> (\<forall>u. rc = Some u \<longrightarrow> bu_Runes u = delta \<and> ut_Txid u = tx_hash E (ps_Tx p) \<and> ut_Vout u = 1 \<and> unat k = 2
         \<and> mt_TxOut (ps_Tx p) ! 1 = \<lparr>to_Value = RunesOutValue, to_PkScript = ut_PkScript u\<rparr> \<and> pk_script_of E runesChange = Inr (ut_PkScript u))"
proof -
  define k where "k = (if delta \<noteq> [] then 2 else 1 :: u32)"
  obtain rscript cscript script tx where scripts: "pk_script_of E recipient = Inr rscript" "pk_script_of E runesChange = Inr cscript"
    and edict: "BuildEdictScript E (RuneId_ToString r) n k = Inr script"
    and tx: "btcbridge_BuildUnsignedTransaction E us ([\<lparr>to_Value = 0, to_PkScript = script\<rparr>]
         @ (if delta \<noteq> [] then [\<lparr>to_Value = RunesOutValue, to_PkScript = cscript\<rparr>] else [])
         @ [\<lparr>to_Value = RunesOutValue, to_PkScript = rscript\<rparr>]) it rate change maxNum = Inr (tx, sel, c)"
    and p: "new_psbt E tx (us @ sel) = Inr p"
    and rc: "rc = (if delta \<noteq> [] then Some ((GetRunesChangeUTXO delta runesChange cscript 1)\<lparr>ut_Txid := tx_hash E tx\<rparr>) else None)"
    using assms(1) by (auto simp: BuildRunesPsbt_def Let_def bind_res_eq_Inr k_def split: if_splits)
  have p_tx: "ps_Tx p = tx" by (rule new_psbt_tx [OF assms(4) p])
  obtain extra where extra: "length extra \<le> 1" "mt_TxOut tx = \<lparr>to_Value = 0, to_PkScript = script\<rparr>
      # (if delta \<noteq> [] then [\<lparr>to_Value = RunesOutValue, to_PkScript = cscript\<rparr>] else [])
      @ \<lparr>to_Value = RunesOutValue, to_PkScript = rscript\<rparr> # extra"
    using BuildUnsigned_outs [OF tx] by auto
  have k: "unat k < length (mt_TxOut tx)" "mt_TxOut tx ! unat k = \<lparr>to_Value = RunesOutValue, to_PkScript = rscript\<rparr>"
    by (auto simp: extra(2) k_def)
  have "ParseRunes E tx = Inr [\<lparr>ed_Id = r, ed_Amount = dec_string n, ed_Output = k\<rparr>]"
    by (rule BuildEdictScript_parse [OF assms(2,3,5) edict extra(2)]) (use k(1) extra in auto)
  then show ?thesis
    using scripts k rc extra(2) unfolding p_tx
    by (intro exI [of _ k] exI [of _ rscript]) (auto simp: GetRunesChangeUTXO_def k_def)
qed


text \<open>
  C15. The payment outputs. The iterator of an owner, with its two indexes and its stop at the smallest output, gives the same as filtering the whole wallet: every
  output of the owner that is not locked, each once, and the first has the smallest amount.
\<close>

theorem iterator_available:
  assumes "utxo_inv s"
  shows "set (payment_sources (GetUTXOIteratorByAddr s a)) = set (filter (\<lambda>u. \<not> bu_IsLocked u) (GetUTXOsByAddr s a))
    \<and> distinct (map outpoint (payment_sources (GetUTXOIteratorByAddr s a)))
    \<and> (\<forall>u \<in> set (payment_sources (GetUTXOIteratorByAddr s a)).
         ut_Amount (hd (payment_sources (GetUTXOIteratorByAddr s a))) \<le> ut_Amount u)"
proof -
  have "ran (wallet s) = set (GetAllUTXOs s)"
    using ran_distinct [of "br_utxos s"] kv_ok_distinct [OF utxo_invD(1) [OF assms]]
    by (simp add: GetAllUTXOs_def kv_get_def [abs_def] kv_keys_def)
  then have "available (wallet s) a = set (filter (\<lambda>u. \<not> bu_IsLocked u) (GetUTXOsByAddr s a))"
    by (auto simp: available_def GetUTXOsByAddr_def)
  then show ?thesis using payment_sources_available [OF assms, where a = a] by metis
qed

section \<open>The sample\<close>

definition alice_out :: tx_out where
  "alice_out = \<lparr>to_Value = 499900, to_PkScript = ''pay alice''\<rparr>"

text \<open>The state after the batch of \<open>b_requested\<close> alone.\<close>

definition b_paid :: "ledger bridge" where
  "b_paid = b_batched\<lparr>br_rate_limit := br_rate_limit b_requested, br_address_limits := br_address_limits b_requested\<rparr>"

lemma sample_sizes: "mempool_vsize sample_benv = (\<lambda>_. 200)"
  "psbt_new sample_benv = (\<lambda>tx. Inr \<lparr>ps_Tx = tx, ps_Inputs = map (\<lambda>_. sample_input None) (mt_TxIn tx)\<rparr>)"
  "pk_script_of sample_benv ''vaultb'' = Inr ''pay vaultb''"
  by (simp_all add: sample_benv_def nenv.extend_def benv.fields_def sample_lenv_def)

lemma sample_sizes_ok: "sizes_ok sample_benv 4" "psbt_keeps_tx sample_benv" "fees_fit sample_benv 4 n outs co"
  by (auto simp: sizes_ok_def psbt_keeps_tx_def fees_fit_def sample_sizes btcbridge_GetTxVirtualSize_def bind_res_eq_Inr)

lemma sample_sources: "payment_sources (GetUTXOIteratorByAddr b_requested ''vaultb'') = [deposited_utxo]"
  by code_simp

lemma sample_build:
  "btcbridge_BuildUnsignedTransaction sample_benv [] [alice_out] (GetUTXOIteratorByAddr b_requested ''vaultb'') 4 ''vaultb'' 10
   = Inr (withdraw_tx, [deposited_utxo], Some (change_utxo False))"
  by code_simp

lemma sample_batch: "handleBtcWithdrawRequests sample_benv 20 5 b_requested = Inr b_paid"
  by code_simp

lemma sample_pending: "GetPendingBtcWithdrawRequests b_requested 5 = [request_1 '''']"
  "map_res (withdraw_out sample_benv) [request_1 ''''] = Inr [alice_out]"
  "SelectVaultByAssetType (bp_Vaults (GetParams b_requested)) ASSET_BTC = Some vault_b"
  by code_simp+

lemma sample_requested_fields: "bp_MaxBtcBatchWithdrawNum (GetParams b_requested) = 5" "fr_Value (GetFeeRate b_requested) = 4"
  "GetMaxUtxoNum b_requested = 10" "va_Address vault_b = ''vaultb''" "uint (ut_Amount deposited_utxo) = 1000000" "to_Value alice_out = 499900"
  by code_simp+

lemma sample_withdraw_inv: "withdraw_inv b_requested"
  by (auto simp: withdraw_inv_def counted_def b_requested_def b_deposited_def b_start_def request_1_def kv_ok_def kv_keys_def
      kv_has_def kv_get_Cons split: if_splits)

theorem built_transaction_pays_witness:
  "fee_covers sample_benv 4 [deposited_utxo] withdraw_tx 800 \<and> mt_TxIn withdraw_tx = [spend_input deposited_utxo]"
proof -
  obtain extra where extra: "withdraw_tx = NewMsgTx\<lparr>mt_TxIn := map spend_input ([] @ [deposited_utxo]), mt_TxOut := [alice_out] @ extra\<rparr>"
    "fee_covers sample_benv 4 ([] @ [deposited_utxo]) withdraw_tx (amounts ([] @ [deposited_utxo]) - values_of ([alice_out] @ extra))"
    using built_transaction_pays [OF sample_build sample_sizes_ok(1) sample_sizes(3) sample_sizes_ok(3)]
    by (auto simp: sample_sources sample_requested_fields)
  have "mt_TxOut withdraw_tx = [alice_out] @ extra" by (subst extra(1)) simp
  then have "values_of extra = 499300" by (auto simp: withdraw_tx_def alice_out_def)
  moreover have "mt_TxIn withdraw_tx = [spend_input deposited_utxo]" by (subst extra(1)) simp
  ultimately show ?thesis using extra(2) by (simp add: sample_requested_fields)
qed

theorem batch_correct_witness:
  "\<exists>(p :: psbt) q. GetSigningRequestByTxHash b_paid (tx_hash sample_benv (ps_Tx p)) = Some q \<and> bs_Status q = BS_PENDING
    \<and> to_Value (hd (mt_TxOut (ps_Tx p))) = 499900 \<and> kv_get (br_withdraws b_paid) 1 = Some (request_1 (tx_hash sample_benv (ps_Tx p)))"
proof -
  have differ: "b_paid \<noteq> b_requested"
    by (rule notI, drule arg_cong [where f = br_signing_seq]) (simp add: b_paid_def b_batched_def b_requested_def b_deposited_def b_start_def)
  have rs: "[request_1 ''''] = GetPendingBtcWithdrawRequests b_requested (bp_MaxBtcBatchWithdrawNum (GetParams b_requested))"
    by (simp add: sample_requested_fields sample_pending)
  have small: "\<forall>out \<in> set [alice_out]. 0 \<le> to_Value out" "values_of [alice_out] < 2 ^ 60"
    "amounts (payment_sources (GetUTXOIteratorByAddr b_requested (va_Address vault_b))) < 2 ^ 60"
    by (simp_all add: sample_requested_fields sample_sources)
  have script: "pk_script_of sample_benv (va_Address vault_b) = Inr ''pay vaultb''" by (simp add: sample_requested_fields sample_sizes)
  from batch_correct [OF sample_batch differ sample_withdraw_inv rs sample_pending(2) sample_requested_fields(2) [symmetric] sample_pending(3)
      script sample_sizes_ok small]
  show ?thesis
  proof (elim exE conjE, goal_cases)
    case (1 p sel extra q)
    have "mt_TxOut (ps_Tx p) = [alice_out] @ extra" using 1(5) by simp
    moreover have "kv_get (br_withdraws b_paid) 1 = Some (request_1 (tx_hash sample_benv (ps_Tx p)))"
      using 1(12) by (simp add: request_1_def)
    ultimately show ?case using 1(7,8) by (intro exI [of _ p] exI [of _ q]) (simp add: alice_out_def)
  qed
qed


lemma sample_utxo_inv: "utxo_inv b_requested" "utxo_inv b_batched"
  by (auto simp: utxo_inv_def b_batched_def b_requested_def b_deposited_def deposited_utxo_def change_utxo_def outpoint_def kv_ok_def kv_keys_def
      kv_has_def kv_get_Cons split: if_splits)



theorem iterator_available_witness:
  "set (payment_sources (GetUTXOIteratorByAddr b_requested ''vaultb'')) = {deposited_utxo}"
proof -
  have "filter (\<lambda>u. \<not> bu_IsLocked u) (GetUTXOsByAddr b_requested ''vaultb'') = [deposited_utxo]" by code_simp
  then show ?thesis using iterator_available [OF sample_utxo_inv(1), of "''vaultb''"] by simp
qed

definition sample_rune :: rune_id where
  "sample_rune = \<lparr>ri_Block = 2, ri_Tx = 3\<rparr>"

definition runes_utxo :: bridge_utxo where
  "runes_utxo = deposited_utxo\<lparr>ut_Txid := ''r'', bu_Address := ''vaultr'', ut_Amount := 546\<rparr>"

definition edict_script :: string where
  "edict_script = [OP_RETURN, char_of OP_13, char_of (5 :: nat), char_of (0 :: nat), char_of (2 :: nat), char_of (3 :: nat),
     char_of (70 :: nat), char_of (1 :: nat)]"

lemma sample_edict: "BuildEdictScript sample_benv (RuneId_ToString sample_rune) 70 1 = Inr edict_script"
  by (simp add: BuildEdictScript_def MustRuneId_def RuneId_FromString_ToString Edict_MustMarshalLEB128_def RuneAmountFromString_def
      parse_digits_dec_string EncodeUint64_def EncodeUint32_def EncodeUint128_def sample_rune_def encode_uint.simps OP_RETURN_def OP_13_def edict_script_def)

lemma sample_runes_build:
  "case btcbridge_BuildUnsignedTransaction sample_benv [runes_utxo]
     [\<lparr>to_Value = 0, to_PkScript = edict_script\<rparr>, \<lparr>to_Value = RunesOutValue, to_PkScript = ''pay alice''\<rparr>]
     (GetUTXOIteratorByAddr b_requested ''vaultb'') 4 ''vaultb'' 10 of Inl _ \<Rightarrow> False | Inr (tx, sel, c) \<Rightarrow> length (mt_TxIn tx) = 2 \<and> length sel = 1"
  by code_simp

lemma sample_runes:
  "\<exists>p sel c rc. BuildRunesPsbt sample_benv [runes_utxo] (GetUTXOIteratorByAddr b_requested ''vaultb'') ''alice'' (RuneId_ToString sample_rune) 70 4
     [] ''vaultr'' ''vaultb'' 10 = Inr (p, sel, c, rc)"
proof -
  have env: "pk_script_of sample_benv a = (if a = '''' then Inl (External ''address'') else Inr (''pay '' @ a))"
    "valid_btc_address sample_benv a \<longleftrightarrow> a \<noteq> ''''" for a
    by (simp_all add: sample_benv_def nenv.extend_def benv.fields_def sample_lenv_def)
  obtain tx sel c where build: "btcbridge_BuildUnsignedTransaction sample_benv [runes_utxo]
     [\<lparr>to_Value = 0, to_PkScript = edict_script\<rparr>, \<lparr>to_Value = RunesOutValue, to_PkScript = ''pay alice''\<rparr>]
     (GetUTXOIteratorByAddr b_requested ''vaultb'') 4 ''vaultb'' 10 = Inr (tx, sel, c)" and len: "length (mt_TxIn tx) = 2" "length sel = 1"
    using sample_runes_build by (auto split: sum.splits)
  obtain p where "new_psbt sample_benv tx (runes_utxo # sel) = Inr p" using len by (simp add: new_psbt_def fill_inputs_def sample_sizes)
  then show ?thesis by (simp add: BuildRunesPsbt_def Let_def env sample_edict build)
qed

theorem runes_withdrawal_roundtrip_witness:
  "\<exists>p sel c rc k. BuildRunesPsbt sample_benv [runes_utxo] (GetUTXOIteratorByAddr b_requested ''vaultb'') ''alice'' (RuneId_ToString sample_rune) 70 4
     [] ''vaultr'' ''vaultb'' 10 = Inr (p, sel, c, rc)
    \<and> ParseRunes sample_benv (ps_Tx p) = Inr [\<lparr>ed_Id = sample_rune, ed_Amount = dec_string 70, ed_Output = k\<rparr>]"
proof -
  obtain p sel c rc where p: "BuildRunesPsbt sample_benv [runes_utxo] (GetUTXOIteratorByAddr b_requested ''vaultb'') ''alice''
     (RuneId_ToString sample_rune) 70 4 [] ''vaultr'' ''vaultb'' 10 = Inr (p, sel, c, rc)" using sample_runes by blast
  from runes_withdrawal_roundtrip [OF p sample_u128_ok sample_scripts_ok sample_sizes_ok(2)] p show ?thesis by auto
qed

end
