(* ===== verification/Lending_Run.thy ===== *)
theory Lending_Run
  imports Lending_Sample
begin

text \<open>
  The steps of the run of \<open>Lending_Sample\<close>, evaluated by simplification, and that its states are
  reachable.
\<close>

section \<open>The simplification rules of the run\<close>

lemma bind_res_weak_cong: "m = m' \<Longrightarrow> bind_res m f = bind_res m' f"
  by simp

lemma digit_chars: "digit_char 0 = CHR ''0''" "digit_char 1 = CHR ''1''" "digit_char (Suc 0) = CHR ''1''" "digit_char 2 = CHR ''2''"
  "digit_char 3 = CHR ''3''" "digit_char 4 = CHR ''4''" "digit_char 5 = CHR ''5''" "digit_char 6 = CHR ''6''"
  "digit_char 7 = CHR ''7''" "digit_char 8 = CHR ''8''" "digit_char 9 = CHR ''9''"
  by code_simp+

lemma dec_string_run: "n < 10 \<Longrightarrow> dec_string n = [digit_char n]"
  "10 \<le> n \<Longrightarrow> dec_string n = dec_string (n div 10) @ [digit_char (n mod 10)]"
  by (simp_all add: dec_string.simps)

text \<open>Rules with conditions evaluate their arguments first.\<close>

lemma round_run: "0 \<le> x \<Longrightarrow> 0 < n \<Longrightarrow> round_div x n = (let q = x div n; r = x mod n in
    if 2 * r < n then q else if n < 2 * r then q + 1 else if even q then q else q + 1)"
  by (auto simp: round_div_def Let_def sgn_if)

lemma power_run: "rounded_power d (numeral k) a = rounded_power d (pred_numeral k) (round_div (a * d) (10 ^ 18))"
  "rounded_power d 1 a = round_div (a * d) (10 ^ 18)"
  by (simp_all add: numeral_eq_Suc)

text \<open>Writes to the indexed stores, by what is stored.\<close>

lemma SetLoan_run:
  "kv_get (ln_loans s) (lo_VaultAddress l) = r \<Longrightarrow> SetLoan l s = s\<lparr>
     ln_by_status := kv_set (lo_Status l, lo_VaultAddress l) ()
       (case r of None \<Rightarrow> ln_by_status s | Some y \<Rightarrow> kv_del (lo_Status y, lo_VaultAddress l) (ln_by_status s)),
     ln_loans := kv_set (lo_VaultAddress l) l (ln_loans s)\<rparr>"
  by (cases r) (auto simp: SetLoan_def SetLoanStatus_def RemoveLoanStatus_def HasLoan_def GetLoan_def kv_has_def)

lemma SetEvent_run:
  "kv_get (dl_events s) (ev_Id e) = r \<Longrightarrow> SetEvent e s = s\<lparr>
     dl_event_status := kv_set (ev_HasTriggered e, ev_Id e) ()
       (case r of None \<Rightarrow> dl_event_status s | Some y \<Rightarrow> kv_del (ev_HasTriggered y, ev_Id e) (dl_event_status s)),
     dl_events := kv_set (ev_Id e) e (dl_events s)\<rparr>"
  by (cases r) (auto simp: SetEvent_def SetEventStatus_def RemoveEventStatus_def HasEvent_def GetEvent_def kv_has_def)

lemma SetLiquidation_run:
  "kv_get (li_store s) (lq_Id l) = r \<Longrightarrow> SetLiquidation l s = s\<lparr>
     li_by_status := kv_set (lq_Status l, lq_Id l) ()
       (case r of None \<Rightarrow> li_by_status s | Some y \<Rightarrow> kv_del (lq_Status y, lq_Id l) (li_by_status s)),
     li_store := kv_set (lq_Id l) l (li_store s)\<rparr>"
  by (cases r) (auto simp: SetLiquidation_def SetLiquidationStatus_def RemoveLiquidationStatus_def HasLiquidation_def GetLiquidation_def kv_has_def)

lemma SetSigningRequest_run:
  "kv_get (tss_requests s) (sr_Id x) = r \<Longrightarrow> SetSigningRequest x s = s\<lparr>
     tss_by_status := kv_set (sr_Status x, sr_Id x) ()
       (case r of None \<Rightarrow> tss_by_status s | Some y \<Rightarrow> kv_del (sr_Status y, sr_Id x) (tss_by_status s)),
     tss_requests := kv_set (sr_Id x) x (tss_requests s)\<rparr>"
  by (cases r) (auto simp: SetSigningRequest_def SetSigningRequestStatus_def RemoveSigningRequestStatus_def HasSigningRequest_def
      GetSigningRequest_def kv_has_def)

lemmas write_run = SetLoan_run [OF refl] SetEvent_run [OF refl] SetLiquidation_run [OF refl] SetSigningRequest_run [OF refl]

lemmas store_run = write_run kv_has_def kv_get_Cons kv_del_def kv_keys_def counter_def ids_with_def

lemmas coin_run = coin_defs new_coin_def coin_valid_def dec_one_def to_dec_def truncate_int_def round_run power_run
  quo_def quo_int_def pow10_def zero_pool_config_def

lemmas bank_run = ledger_send_def ledger_mint_def ledger_burn_def entries_def covers_def ledger_balance_def coins_amount_def
  ledger_has_supply_def pay_def pay_if_def

lemmas pool_run = HasPool_def GetPool_def SetPool_def YTokenDenom_def Y_TOKEN_DENOM_PREFIX_def sample_config_def
  NewTranches_def NewTranche_def InitialBorrowIndex_def zero_pool_def

lemmas pool_states = s_pool_def pool_new_def s_funded_def pool_funded_def

lemma run_pool: "CreatePool sample_lenv ''gov'' ''gov'' ''main'' sample_config s_genesis = Inr s_pool"
  by (simp add: CreatePool_def MsgCreatePool_ValidateBasic_def ValidatePoolConfig_def validateAssetsMetadata_def validateAssetMetadata_def
      validatePoolTranches_def pool_run coin_run bank_run store_run pool_states cong: bind_res_weak_cong)

lemma run_funded: "AddLiquidity sample_lenv sample_deposit s_pool = Inr s_funded"
  by (simp add: AddLiquidity_def MsgAddLiquidity_ValidateBasic_def sample_deposit_def CheckSupplyCap_def HasSupplyCap_def
      pool_run coin_run bank_run store_run pool_states cong: bind_res_weak_cong)

lemmas dkg_run = DKGCompletedHandler_def CreateDCM_def HasDCMByPubKey_def IncrementDCMId_def GetDCMId_def SetDCMByPubKey_def SetDCM_def
  CreateOracle_def HasOracleByPubKey_def IncrementOracleId_def GetOracleId_def HandleNonces_def HandleNonce_def HasNonce_def
  GetOracleByPubKey_def GetOracle_def IncrementNonceIndex_def GetNonceIndex_def IncrementEventId_def GetEventId_def
  GetEventTypeFromIntent_def zero_event_def SetNonceByValue_def SetNonce_def AddLendingEventToPendingQueue_def
  IncreasePendingLendingEventCount_def GetEvent_def
  hex_digit_def

lemma run_dcm: "DKGCompletedHandler 0 1 ''dcm'' 0 [''dc''] s_funded = Inr s_dcm"
  by (simp add: dkg_run store_run pool_states s_dcm_def Let_def cong: bind_res_weak_cong)

lemma run_event: "DKGCompletedHandler 0 2 ''nonce'' 30000 [''0a'', ''0b''] s_dcm = Inr s_event"
  by (simp add: dkg_run store_run pool_states s_dcm_def s_event_def event_event_def Let_def cong: bind_res_weak_cong)

lemmas fee_run = SetPrice_def SetFeeRate_def GetPrice_def GetFeeRate_def CheckFeeRate_def

lemma run_ready: "SetPrice ''BTCUSDC'' ''60000'' (SetFeeRate 1 2 s_event) = s_ready"
  by (simp add: fee_run s_ready_def s_event_def s_dcm_def pool_states)

lemmas ready_states = s_dcm_def s_event_def event_event_def s_ready_def

lemmas loan_run = HasLoan_def GetLoan_def SetLoanByAddress_def SetLoanByOracle_def
  SetDLCMeta_def GetDLCMeta_def zero_loan_def zero_dlc_meta_def zero_liquidation_cet_def zero_repayment_cet_def zero_leaf_script_def
  nil_coin_def

lemmas apply_run = Apply_def MsgApply_ValidateBasic_def hex_res_def wrap_err_def sample_apply_def CheckBorrowAmountLimit_def
  HasMinBorrowAmountLimit_def HasMaxBorrowAmountLimit_def CheckBorrowCap_def HasBorrowCap_def GetTrancheConfig_def
  HasDCM_def GetDCM_def unix_def FinalTimeoutDuration_def lending_DefaultParams_def i64_def GetAvailableLendingEvent_def
  RemoveLendingEventFromPendingQueue_def DecreasePendingLendingEventCount_def GetReferrer_def ReferrerKey_def
  UpdateDLCEvent_def GetEvent_def int_string_def
  dec_string_run digit_chars

lemma run_applied: "Apply sample_lenv 0 sample_apply s_ready = Inr s_applied"
  apply (simp add: apply_run loan_run pool_run coin_run bank_run store_run pool_states ready_states hex_digit_def cong: bind_res_weak_cong)
  apply (simp only: Let_def option.case prod.case)
  apply (simp add: apply_run loan_run coin_run store_run hex_digit_def)
  apply (simp add: pool_states ready_states s_applied_def event_applied_def loan_applied_def meta_applied_def pool_run)
  done

section \<open>The transactions of the loan\<close>

lemma bindI: "m = Inr x \<Longrightarrow> f x = y \<Longrightarrow> bind_res m f = y"
  by simp

lemmas btc_run = sample_psbt_def sample_tx_def spend_vault_def sample_input_def vault_out_def GetPkScriptFromPubKey_def
  GetSignaturePointFromEvent_def signed_index_def vault_value_def parse_deposit_def ParseDepositTxs_def must_def
  getVaultUtxosFromDepositTx_def GetVaultUtxos_def LiquidationCetSequence_def check_cet_input_def check_cet_inputs_def
  UnwrapLeafScript_def unwrap_leaf_def GetCetWitnessSize_def CheckCetFeeRate_def GetTxVirtualSize_def CheckTransactionWeight_def
  MaxTransactionWeight_def btcbridge_IsDustOut_def IsOpReturnOutput_def OP_RETURN_def attach_leaf_def sighashes_def
  GetCetSigHashes_def

lemmas cets_run = SubmitCets_def MsgSubmitCets_ValidateBasic_def sample_cets_def deposit_hash_def hex_sig_ok_def wrap_err_def
  hex_res_def keeper_GetLiquidationPrice_def GetLiquidationPrice_def GetTotalInterest_def borrow_rate_per_block_def OneYear_def
  NormalizePrice_def digitOrZeroCount_def to_int64_def PricePrecision_def UpdateDLCEventLiquidatedOutcome_def FormatPriceWithPair_def
  lending_GetPricePair_def VerifyCets_def VerifyLiquidationCet_def VerifyRepaymentCet_def UpdateDLCMeta_def
  CreateTimeoutRefundTransaction_def BuildPsbt_def lending_BuildUnsignedTransaction_def NewMsgTx_def AddUTXOToTx_def
  InitiateRepaymentCetSigningRequest_def GetRepaymentCetAdaptorPoint_def InitiateSigningRequest_def IncrementSigningRequestId_def
  GetSigningRequestId_def
  hex_encode_def hex_char_def CreateAuthorization_def IncrementAuthorizationId_def GetAuthorizationId_def
  log_deposit_def HasDepositLog_def NewDepositLog_def SetDepositLog_def

lemmas event_run = GetEvent_def int_string_def
  dec_string_run digit_chars


lemmas applied_states = pool_new_def pool_funded_def event_event_def event_applied_def loan_applied_def meta_applied_def

lemma cets_valid: "MsgSubmitCets_ValidateBasic sample_lenv sample_cets = Inr ()"
  by (simp add: cets_run btc_run event_run hex_digit_def Let_def cong: bind_res_weak_cong)

lemma funpow_run: "(f ^^ numeral k) x = (f ^^ pred_numeral k) (f x)"
  by (simp add: numeral_eq_Suc funpow_swap1)

lemma cets_price: "keeper_GetLiquidationPrice sample_lenv s_applied loan_applied 100000000 = Inr 41500000000000000000000"
proof -
  have blocks: "unat ((word_of_int 31536000 * 12 :: u64) div 31536000) = 12" by code_simp
  have tot: "GetTotalInterest sample_lenv 30000000000 31536000 100000000000000000 12 = Inr 3141392023"
    by (simp add: GetTotalInterest_def borrow_rate_per_block_def OneYear_def blocks coin_run cong: bind_res_weak_cong)
  show ?thesis
   by (simp add: keeper_GetLiquidationPrice_def pool_run s_applied_simps applied_states store_run GetLiquidationPrice_def tot
     NormalizePrice_def digitOrZeroCount_def to_int64_def PricePrecision_def coin_run event_run funpow_run Let_def
     cong: bind_res_weak_cong)
qed

lemma cets_event: "UpdateDLCEventLiquidatedOutcome sample_lenv s_applied loan_applied 41500000000000000000000 event_applied = Inr event_cets"
  by (simp add: cets_run coin_run event_run pool_run s_applied_simps applied_states event_cets_def store_run Let_def cong: bind_res_weak_cong)

definition sample_deposit_psbt :: psbt where
  "sample_deposit_psbt = \<lparr>ps_Tx = sample_tx 1 [] [vault_out], ps_Inputs = []\<rparr>"

lemma cets_deposits: "ParseDepositTxs sample_lenv [''1''] ''pay vault'' = Inr ([sample_deposit_psbt], [''1''], 100000000)"
  by (simp add: cets_run btc_run event_run sample_deposit_psbt_def Let_def cong: bind_res_weak_cong)

abbreviation sample_utxo :: utxo where
  "sample_utxo \<equiv> \<lparr>ut_Txid = ''1'', ut_Vout = 0, ut_Amount = 100000000, ut_PkScript = ''pay vault''\<rparr>"

lemma cets_utxos: "GetVaultUtxos sample_lenv [sample_deposit_psbt] ''pay vault'' = Inr [sample_utxo]"
  by (simp add: btc_run event_run sample_deposit_psbt_def)

lemma cets_point:
  "k < 3 \<Longrightarrow> GetSignaturePointFromEvent sample_lenv event_cets k = Inr ([char_of (10 :: nat), char_of (11 :: nat)] @ ev_Outcomes event_cets ! k)"
  by (simp add: GetSignaturePointFromEvent_def hex_res_def hex_digit_def signed_index_def event_cets_def applied_states)

lemma cets_inputs:
  "check_cet_inputs (Some LiquidationCetSequence) ''pay vault'' (spend_vault n outs) [sample_utxo] = Inr ()"
  "check_cet_inputs None ''pay vault'' (spend_vault n outs) [sample_utxo] = Inr ()"
  by (simp_all add: btc_run)

lemma cets_leaf: "UnwrapLeafScript (dm_LiquidationScript meta_applied) = Inr ([char_of (170 :: nat)], [char_of (171 :: nat)])"
 "UnwrapLeafScript (dm_RepaymentScript meta_applied) = Inr ([char_of (186 :: nat)], [char_of (187 :: nat)])"
  by (simp_all add: UnwrapLeafScript_def hex_res_def hex_digit_def meta_applied_def)

lemma spend_vault_simps [simp]: "mt_TxOut (ps_Tx (spend_vault n outs)) = outs" "length (ps_Inputs (spend_vault n outs)) = 1"
  by (simp_all add: spend_vault_def sample_tx_def)

lemmas verify_run = wrap_err_def GetPkScriptFromPubKey_def hex_res_def hex_digit_def cets_utxos cets_inputs cets_leaf
    sample_psbt_def btcbridge_IsDustOut_def IsOpReturnOutput_def OP_RETURN_def CheckCetFeeRate_def GetTxVirtualSize_def CheckTransactionWeight_def
    MaxTransactionWeight_def i64_def

lemma cets_liquidation:
  "sig = ''51'' \<or> sig = ''52'' \<Longrightarrow>
    VerifyLiquidationCet sample_lenv meta_applied [sample_deposit_psbt] ''pay vault'' ''b1'' ''dc'' ''2'' [sig] point 2 5 = Inr ()"
  by (elim disjE) (simp_all add: VerifyLiquidationCet_def verify_run Let_def cong: bind_res_weak_cong)

lemma cets_repayment:
  "VerifyRepaymentCet sample_lenv meta_applied [sample_deposit_psbt] ''pay vault'' ''b0'' ''3'' [''53''] = Inr ()"
  by (simp add: VerifyRepaymentCet_def verify_run Let_def cong: bind_res_weak_cong)

lemma cets_verified:
  "VerifyCets sample_lenv meta_applied [sample_deposit_psbt] ''pay vault'' loan_applied event_cets ''2''
     [''51''] [''52''] ''3'' [''53''] 2 5 = Inr ()"
  by (simp add: VerifyCets_def cets_point cets_liquidation cets_repayment wrap_err_def loan_applied_def)

lemma cets_refund:
  "CreateTimeoutRefundTransaction sample_lenv [sample_deposit_psbt] ''pay vault'' bscript key (dm_TimeoutRefundScript meta_applied) 63072000 2
     = Inr ''63072000''"
  by (simp add: CreateTimeoutRefundTransaction_def cets_utxos UnwrapLeafScript_def hex_res_def meta_applied_def BuildPsbt_def
      lending_BuildUnsignedTransaction_def NewMsgTx_def AddUTXOToTx_def GetTxVirtualSize_def i64_def in_amount_def
      btcbridge_IsDustOut_def CheckTransactionWeight_def MaxTransactionWeight_def set_witness_utxos_def attach_leaf_def event_run Let_def
      cong: bind_res_weak_cong)

lemma cets_meta:
  "UpdateDLCMeta sample_lenv ''vault'' [sample_deposit_psbt] ''2'' [''51''] [''52''] ''3'' [''53''] 2 s_applied
     = Inr (s_applied\<lparr>ln_dlc_metas := [(''vault'', meta_cets)]\<rparr>)"
proof -
  have l: "GetLoan s_applied ''vault'' = loan_applied" "GetDLCMeta s_applied ''vault'' = meta_applied"
    by (simp_all add: GetLoan_def GetDLCMeta_def s_applied_simps store_run)
  have f: "lo_FinalTimeout loan_applied = 63072000" "lo_BorrowerPubKey loan_applied = ''b0''" by (simp_all add: loan_applied_def)
  have lf: "unwrap_leaf (dm_LiquidationScript meta_applied) = ([char_of (170 :: nat)], [char_of (171 :: nat)])"
     "unwrap_leaf (dm_RepaymentScript meta_applied) = ([char_of (186 :: nat)], [char_of (187 :: nat)])"
    by (simp_all add: unwrap_leaf_def cets_leaf)
  show ?thesis
    by (simp add: UpdateDLCMeta_def l f cets_utxos cets_refund lf GetPkScriptFromPubKey_def hex_res_def hex_digit_def
      sample_psbt_def attach_leaf_def spend_vault_def sample_tx_def event_run SetDLCMeta_def s_applied_simps meta_cets_def Let_def
      cong: bind_res_weak_cong)
       (simp add: meta_applied_def zero_liquidation_cet_def zero_repayment_cet_def)
qed

lemma cets_request:
  assumes "s = s_applied\<lparr>ln_dlc_metas := [(''vault'', meta_cets)]\<rparr>"
  shows "InitiateRepaymentCetSigningRequest sample_lenv 0 ''vault'' s = Inr (s\<lparr>tss_request_id := tss_request_id s_cets,
    tss_requests := tss_requests s_cets, tss_by_status := tss_by_status s_cets\<rparr>)"
proof -
  have l: "GetLoan s ''vault'' = loan_applied" "GetDLCMeta s ''vault'' = meta_cets" "GetEvent s 1 = event_applied"
    using assms by (simp_all add: GetLoan_def GetDLCMeta_def GetEvent_def s_applied_simps store_run)
  have p: "GetSignaturePointFromEvent sample_lenv event_applied 2 = Inr ([char_of (10 :: nat), char_of (11 :: nat)] @ ''Repaid'')"
    by (simp add: GetSignaturePointFromEvent_def hex_res_def hex_digit_def signed_index_def applied_states)
  have h: "GetCetSigHashes sample_lenv meta_cets CET_REPAYMENT = Inr [''leaf hash'']"
    by (simp add: GetCetSigHashes_def meta_cets_def meta_applied_def hex_res_def hex_digit_def sample_psbt_def sighashes_def)
  have k: "tss_request_id s = None" "tss_requests s = []" "tss_by_status s = []" "lo_DlcEventId loan_applied = 1" "lo_DCM loan_applied = ''dc''"
    using assms by (simp_all add: s_applied_simps loan_applied_def)
  show ?thesis
    by (simp add: InitiateRepaymentCetSigningRequest_def GetRepaymentCetAdaptorPoint_def l p h k InitiateSigningRequest_def
       IncrementSigningRequestId_def GetSigningRequestId_def 
       s_cets_def s_applied_simps store_run Let_def)
qed

lemma run_cets: "SubmitCets sample_lenv 2 0 sample_cets s_applied = Inr s_cets"
proof -
  have l: "GetLoan s_applied ''vault'' = loan_applied" "GetDLCMeta s_applied ''vault'' = meta_applied" "GetEvent s_applied 1 = event_applied"
    "HasLoan s_applied ''vault''" "GetFeeRate s_applied = \<lparr>fr_Value = 2, fr_Height = 1\<rparr>"
    by (simp_all add: GetLoan_def HasLoan_def GetDLCMeta_def GetEvent_def GetFeeRate_def s_applied_simps store_run)
  have f: "lo_Borrower loan_applied = ''bob''" "lo_Status loan_applied = LOAN_Requested" "lo_VaultAddress loan_applied = ''vault''"
    "lo_DlcEventId loan_applied = 1" "lo_Authorizations loan_applied = []"
    by (simp_all add: loan_applied_def)
  have e: "ev_Id event_cets = 1" "ev_HasTriggered event_cets \<longleftrightarrow> False" "ev_Id event_applied = 1" "ev_HasTriggered event_applied \<longleftrightarrow> False"
    by (simp_all add: event_cets_def event_applied_def event_event_def)
  have r: "CheckFeeRate 2 \<lparr>fr_Value = 2, fr_Height = 1\<rparr> s_applied = Inr ()"
    by (simp add: CheckFeeRate_def s_applied_simps)
  show ?thesis
    apply (simp only: SubmitCets_def cets_valid bind_res_Inr)
    apply (simp add: sample_cets_def l f r cets_deposits cets_price cets_event cets_verified cets_meta cets_request
       s_applied_simps lending_DefaultParams_def CreateAuthorization_def IncrementAuthorizationId_def GetAuthorizationId_def
       counter_def log_deposit_def HasDepositLog_def NewDepositLog_def SetDepositLog_def Let_def cong: bind_res_weak_cong)
    apply (simp add: f e event_run s_applied_simps store_run less_loan_status_def Let_def)
    apply (rule lending.equality)
    apply (simp_all add: f s_cets_def loan_cets_def s_applied_simps)
    done
qed


end
