(* ===== verification/Lending_Run_Loan.thy ===== *)
theory Lending_Run_Loan
  imports Lending_Run
begin

text \<open>
  The run of the loan: its disbursement, the interest of a block, its repayment and its end.
\<close>

section \<open>Disbursement\<close>

lemma run_adaptor: "lending_SigningCompletedHandler sample_lenv ''vault'' 0 [''54''] s_cets = Inr s_adaptor"
proof -
  have l: "HasLoan s_cets ''vault''" "GetLoan s_cets ''vault'' = loan_cets" "GetDLCMeta s_cets ''vault'' = meta_cets"
    by (simp_all add: HasLoan_def GetLoan_def GetDLCMeta_def s_cets_def store_run)
  have f: "\<not> LoanDisbursed loan_cets" "rc_DCMAdaptorSignatures (dm_RepaymentCet meta_cets) = []"
    by (simp_all add: LoanDisbursed_def less_eq_loan_status_def loan_cets_def loan_applied_def meta_cets_def)
  show ?thesis
    by (simp add: lending_SigningCompletedHandler_def HandleRepaymentAdaptorSignatures_def l f Let_def SetDLCMeta_def
        s_adaptor_def)
      (simp add: s_cets_def meta_adaptor_def meta_cets_def meta_applied_def)
qed

lemma sample_base64: "b64_decode ''MQ=='' = (''1'', True)" "b64_decode ''AA=='' = ([char_of (0 :: nat)], True)"
  by code_simp+

lemma run_verified: "SubmitDepositTransaction sample_lenv sample_deposit_tx s_adaptor = Inr s_verified"
proof -
  have v: "MsgSubmitDepositTransaction_ValidateBasic sample_lenv sample_deposit_tx = Inr ()"
    by (simp add: MsgSubmitDepositTransaction_ValidateBasic_def sample_deposit_tx_def decode_tx_def sample_base64 sample_psbt_def sample_tx_def vault_out_def wrap_err_def
        cong: bind_res_weak_cong)
  have l: "HasLoan s_adaptor ''vault''" "GetLoan s_adaptor ''vault'' = loan_cets"
    by (simp_all add: HasLoan_def GetLoan_def s_adaptor_def s_cets_def store_run)
  have d: "ln_deposits s_adaptor = [(''1'', \<lparr>dp_Txid = ''1'', dp_VaultAddress = ''vault'', dp_AuthorizationId = 1, dp_DepositTx = ''1'',
      dp_Status = DEPOSIT_PENDING\<rparr>)]"
    by (simp add: s_adaptor_def s_cets_def)
  have f: "lo_Status loan_cets = LOAN_Authorized" by (simp add: loan_cets_def)
  have c: "ch_headers s_adaptor = ch_headers s_genesis" "ch_deposit_depth s_adaptor = 1"
    by (simp_all add: s_adaptor_def s_cets_def s_applied_simps)
  have t: "ValidateTransaction sample_lenv ''MQ=='' '''' ''b'' [''AA==''] (ch_deposit_depth s_adaptor) s_adaptor
      = Inr (sample_tx 1 [] [vault_out], None)"
    by (simp add: ValidateTransaction_def HasBlockHeader_def GetBlockHeader_def GetBestBlockHeader_def c store_run sane_tx_def
        decode_tx_def sample_base64 sample_psbt_def sample_header_def zero_header_def i32_def VerifyMerkleProof_def sample_tx_def event_run
        Let_def)
  have h: "tx_hash sample_lenv (sample_tx 1 [] [vault_out]) = ''1''" by (simp add: sample_tx_def event_run)
  have e: "SetDepositLog (\<lparr>dp_Txid = ''1'', dp_VaultAddress = ''vault'', dp_AuthorizationId = 1, dp_DepositTx = ''1'',
      dp_Status = DEPOSIT_VERIFIED\<rparr>) s_adaptor = s_verified"
    by (simp add: SetDepositLog_def s_verified_def d)
  have g: "HasDepositLog s_adaptor ''1''" "GetDepositLog s_adaptor ''1'' = \<lparr>dp_Txid = ''1'', dp_VaultAddress = ''vault'', dp_AuthorizationId = 1, dp_DepositTx = ''1'',
      dp_Status = DEPOSIT_PENDING\<rparr>"
    by (simp_all add: HasDepositLog_def GetDepositLog_def d store_run)
  have m: "msd_Vault sample_deposit_tx = ''vault''" "msd_DepositTx sample_deposit_tx = ''MQ==''" "msd_BlockHash sample_deposit_tx = ''b''"
    "msd_Proof sample_deposit_tx = [''AA=='']"
    by (simp_all add: sample_deposit_tx_def)
  show ?thesis
    by (simp add: SubmitDepositTransaction_def v m l(1) l(2) f t wrap_err_def h [simplified] h g e Let_def)
qed

lemma run_approval: "HandleApproval sample_lenv 0 loan_cets s_verified = Inr s_open"
proof -
  have blocks: "unat ((word_of_int 31536000 * 12 :: u64) div 31536000) = 12" by code_simp
  have tot: "GetTotalInterest sample_lenv 30000000000 31536000 100000000000000000 12 = Inr 3141392023"
    by (simp add: GetTotalInterest_def borrow_rate_per_block_def OneYear_def blocks coin_run cong: bind_res_weak_cong)
  have l: "GetLoan s_verified ''vault'' = loan_cets" "GetPool s_verified ''main'' = pool_funded" "GetDLCMeta s_verified ''vault'' = meta_adaptor"
    "GetAuthorizationId s_verified ''vault'' = 1"
    by (simp_all add: GetLoan_def GetPool_def GetDLCMeta_def GetAuthorizationId_def s_verified_simps store_run)
  have f: "lo_VaultAddress loan_cets = ''vault''" "lo_PoolId loan_cets = ''main''" "lo_MaturityTime loan_cets = 31536000"
    "lo_LiquidationPrice loan_cets = 41500000000000000000000" "lo_CollateralAmount loan_cets = 100000000"
    "lo_BorrowAmount loan_cets = \<lparr>Denom = ''uusdc'', Amount = 30000000000\<rparr>"
    "lo_Authorizations loan_cets = [\<lparr>au_Id = 1, au_DepositTxs = [''1''], au_Status = AUTH_PENDING\<rparr>]"
    "lo_OriginationFee loan_cets = 300000000" "lo_Borrower loan_cets = ''bob''" "lo_Maturity loan_cets = 31536000"
    "lo_BorrowAPR loan_cets = 100000000000000000" "lo_Referrer loan_cets = None" "lo_Status loan_cets = LOAN_Authorized"
    by (simp_all add: loan_cets_def loan_applied_def)
  have p: "po_Config pool_funded = sample_config" "po_Status pool_funded = ACTIVE" "po_AvailableAmount pool_funded = 100000000000"
    "po_Tranches pool_funded = [\<lparr>pt_Maturity = 31536000, pt_BorrowIndex = 1000000000000000000, pt_TotalBorrowed = 0, pt_TotalReserve = 0\<rparr>]"
    "po_BorrowedAmount pool_funded = 0" "po_TotalBorrowed pool_funded = 0" "po_Id pool_funded = ''main''"
    by (simp_all add: pool_funded_def pool_new_def)
  have pr: "GetPrice sample_price s_verified ''BTCUSDC'' = Inr (Some 60000000000000000000000)"
    by (simp add: GetPrice_def s_verified_simps store_run sample_price_def to_dec_def char_digit_def)
  have dep: "DepositsVerified s_verified \<lparr>au_Id = 1, au_DepositTxs = [''1''], au_Status = AUTH_PENDING\<rparr>"
    by (simp add: DepositsVerified_def GetDepositLog_def s_verified_simps store_run)
  have sg: "RepaymentCetSigned s_verified ''vault''" by (simp add: RepaymentCetSigned_def l meta_adaptor_def)
  have app: "approve sample_lenv 0 loan_cets s_verified = Inr (s_verified\<lparr>ch_bank := ch_bank s_open, ln_pools := [(''main'', pool_open)],
     ln_loans := [(''vault'', loan_open\<lparr>lo_Authorizations := lo_Authorizations loan_cets\<rparr>)], ln_by_status := [((LOAN_Open, ''vault''), ())]\<rparr>)"
    apply (simp add: approve_def l f p lending_DefaultParams_def handleOriginationFee_def HasReferralFee_def bank_run coin_run wrap_err_def GetTranche_def GetProtocolFee_def
      unix_def tot sample_config_def s_verified_simps AfterPoolBorrowed_def GetPool_def SetPool_def store_run Let_def cong: bind_res_weak_cong)
    apply (rule lending.equality)
    apply (simp_all add: s_open_def s_verified_simps pool_open_def loan_open_def loan_cets_def loan_applied_def)
    done
  define t where "t = s_verified\<lparr>ch_bank := ch_bank s_open, ln_pools := [(''main'', pool_open)],
     ln_loans := [(''vault'', loan_open\<lparr>lo_Authorizations := lo_Authorizations loan_cets\<rparr>)], ln_by_status := [((LOAN_Open, ''vault''), ())]\<rparr>"
  note app = app [folded t_def]
  have lt: "CheckLTV sample_lenv 100000000 8 30000000000 6 600000000000000000 60000000000000000000000 True = Inr True"
    by (simp add: CheckLTV_def coin_run)
  have fin: "SetLoan loan_open t = s_open"
    by (rule lending.equality) (simp_all add: t_def s_open_def s_verified_simps loan_open_def loan_cets_def loan_applied_def store_run)
  have t: "GetLoan t ''vault'' = loan_open\<lparr>lo_Authorizations := lo_Authorizations loan_cets\<rparr>"
    by (simp add: t_def GetLoan_def store_run)
  have au: "set_auth_status 1 AUTH_AUTHORIZED (loan_open\<lparr>lo_Authorizations := lo_Authorizations loan_cets\<rparr>) = Inr loan_open"
    by (simp add: set_auth_status_def f) (simp add: loan_open_def loan_cets_def)
  show ?thesis
    by (simp add: HandleApproval_def l f p pr dep sg sample_config_def lending_GetPricePair_def ToBeLiquidated_def unix_def
       GetAuthorization_def try_approve_def lt CheckBorrowCap_def HasBorrowCap_def app t au [unfolded f] fin Let_def cong: bind_res_weak_cong)
qed

lemma run_open: "lending_EndBlocker sample_lenv 0 s_verified = Inr s_open"
proof -
  have st: "ln_by_status s_verified = [((LOAN_Authorized, ''vault''), ())]" "ln_by_status s_open = [((LOAN_Open, ''vault''), ())]"
      "ln_liq_queue s_open = []"
    by (simp_all add: s_verified_simps s_open_def)
  have lv: "GetLoan s_verified ''vault'' = loan_cets" by (simp add: GetLoan_def s_verified_simps store_run)
  have f: "lo_VaultAddress loan_cets = ''vault''" "lo_PoolId loan_cets = ''main''" "lo_MaturityTime loan_cets = 31536000"
    "lo_LiquidationPrice loan_cets = 41500000000000000000000"
    by (simp_all add: loan_cets_def loan_applied_def)
  have o: "GetLoan s_open ''vault'' = loan_open" "GetPool s_open ''main'' = pool_open" 
     "GetPrice sample_price s_open ''BTCUSDC'' = Inr (Some 60000000000000000000000)"
     "lo_PoolId loan_open = ''main''" "lo_MaturityTime loan_open = 31536000" "lo_LiquidationPrice loan_open = 41500000000000000000000"
     "po_Config pool_open = sample_config" "lo_Status loan_open = LOAN_Open"
    by (simp_all add: GetLoan_def GetPool_def GetPrice_def s_open_def s_verified_simps store_run loan_open_def f pool_open_def pool_funded_def pool_new_def
       sample_price_def to_dec_def char_digit_def)
  have hl: "lending_HandleLiquidation sample_lenv 0 loan_open s_open = Inr s_open"
    by (simp add: lending_HandleLiquidation_def o sample_config_def lending_GetPricePair_def ToBeLiquidated_def unix_def Let_def)
  show ?thesis
    by (simp add: lending_EndBlocker_def handleApprovals_def handleLiquidations_def handleLiquidatedLoans_def handleRepayments_def
       IterateLoansByStatus_def IterateLiquidationQueue_def st ids_with_def kv_keys_def lv o run_approval hl)
qed

section \<open>Interest, repayment and end\<close>

lemma run_accrued: "lending_BeginBlocker sample_lenv s_open = Inr s_accrued"
proof -
  have blocks: "unat ((word_of_int 31536000 * 12 :: u64) div 31536000) = 12" by code_simp
  have l: "ln_pools s_open = [(''main'', pool_open)]" "po_Status pool_open = ACTIVE" "po_Config pool_open = sample_config"
   "po_Tranches pool_open = [\<lparr>pt_Maturity = 31536000, pt_BorrowIndex = 1000000000000000000, pt_TotalBorrowed = 30000000000, pt_TotalReserve = 0\<rparr>]"
    by (simp_all add: s_open_def pool_open_def pool_funded_def pool_new_def)
  have "UpdatePool sample_lenv pool_open = Inr pool_accrued"
    by (simp add: UpdatePool_def UpdatePoolTranches_def accrue_tranche_def l sample_config_def GetTrancheConfig_def borrow_rate_per_block_def coin_run Let_def cong: bind_res_weak_cong)
      (simp add: pool_accrued_def)
  then show ?thesis
    by (simp add: lending_BeginBlocker_def updatePools_def GetAllPools_def update_pool_step_def l SetPool_def s_accrued_def)
      (simp add: pool_accrued_def pool_open_def pool_funded_def pool_new_def l store_run)
qed

definition sample_repay :: msg_repay where
  "sample_repay = \<lparr>mrp_Borrower = ''bob'', mrp_LoanId = ''vault''\<rparr>"

lemma accrued_interest: "GetCurrentInterest sample_lenv s_accrued loan_open = Inr \<lparr>Denom = ''uusdc'', Amount = 249999999\<rparr>"
  by (simp add: GetCurrentInterest_def open_interest_def GetCurrentBorrowIndex_def GetPool_def s_accrued_simps store_run
      pool_accrued_def loan_open_def loan_cets_def loan_applied_def GetTranche_def GetInterest_def coin_run Let_def cong: bind_res_weak_cong)

lemma scoped_one: "ToScopedId 1 = ''1''"
  by (simp add: ToScopedId_def dec_string_run digit_chars)

lemma run_repaid: "Repay sample_lenv 0 sample_repay s_accrued = Inr s_repaid"
proof -
  have v: "MsgRepay_ValidateBasic sample_lenv sample_repay = Inr ()" by (simp add: MsgRepay_ValidateBasic_def sample_repay_def)
  have l: "HasLoan s_accrued ''vault''" "GetLoan s_accrued ''vault'' = loan_open" "GetEvent s_accrued 1 = event_cets"
    by (simp_all add: HasLoan_def GetLoan_def GetEvent_def s_accrued_simps store_run)
  have f: "lo_VaultAddress loan_open = ''vault''" "lo_BorrowAmount loan_open = \<lparr>Denom = ''uusdc'', Amount = 30000000000\<rparr>"
    "lo_DlcEventId loan_open = 1" "lo_Status loan_open = LOAN_Open"
    by (simp_all add: loan_open_def loan_cets_def loan_applied_def)
  have e: "ev_Id event_cets = 1" "ev_HasTriggered event_cets \<longleftrightarrow> False" "ev_Outcomes event_cets = [''41500BTCUSDC'', ''31536000'', ''Repaid'']"
    "ev_Pubkey event_cets = ''0a''" "ev_Nonce event_cets = ''0b''"
    by (simp_all add: event_cets_def event_applied_def event_event_def)
  show ?thesis
    apply (simp add: Repay_def v)
    apply (simp add: sample_repay_def l f accrued_interest coin_run bank_run s_accrued_simps
      SetRepayment_def TriggerDLCEvent_def GetEvent_def store_run e scoped_one InitiateSigningRequest_def
      IncrementSigningRequestId_def GetSigningRequestId_def Let_def cong: bind_res_weak_cong)
    apply (rule lending.equality)
    apply (simp_all add: s_repaid_def s_accrued_simps loan_repaid_def event_repaid_def e f)
    apply (simp_all add: loan_open_def loan_cets_def loan_applied_def event_cets_def event_applied_def event_event_def)
    done
qed

lemma from_scoped_one: "FromScopedId ''1'' = 1" by (metis FromScopedId_ToScopedId scoped_one)

lemma run_attested: "dlc_SigningCompletedHandler 0 ''1'' [replicate 64 CHR ''1''] s_repaid = Inr s_attested"
proof -
  have l: "HasEvent s_repaid 1" "GetEvent s_repaid 1 = event_repaid" "dl_attestation_id s_repaid = None" "dl_attestation_by_event s_repaid = []"
     "dl_attestations s_repaid = []"
    by (simp_all add: HasEvent_def GetEvent_def s_repaid_def s_accrued_simps store_run)
  show ?thesis
    apply (simp add: dlc_SigningCompletedHandler_def HandleAttestation_def from_scoped_one l HasAttestationByEvent_def IncrementAttestationId_def GetAttestationId_def
      store_run SetAttestation_def)
    apply (simp add: s_attested_def event_repaid_def event_cets_def event_applied_def event_event_def l numeral_eq_Suc)
    done
qed

lemma attested_facts:
  "ln_by_status s_attested = [((LOAN_Repaid, ''vault''), ())]" "ln_liq_queue s_attested = []"
  "GetLoan s_attested ''vault'' = loan_repaid" "GetDLCMeta s_attested ''vault'' = meta_adaptor"
  "GetPool s_attested ''main'' = pool_accrued" 
  "GetRepayment s_attested ''vault'' = \<lparr>rp_LoanId = ''vault'', rp_Amount = \<lparr>Denom = ''uusdc'', Amount = 30249999999\<rparr>, rp_CreateAt = 0\<rparr>"
  "GetAttestationByEvent s_attested 1 = Some \<lparr>at_Id = 1, at_EventId = 1, at_Outcome = ''Repaid'', at_Pubkey = ''0a'',
     at_Signature = replicate 64 CHR ''1'', at_Time = 0\<rparr>"
  "ln_params s_attested = lending_DefaultParams ''gov''" "ln_pools s_attested = [(''main'', pool_accrued)]"
  "ln_loans s_attested = [(''vault'', loan_repaid)]" "ln_dlc_metas s_attested = [(''vault'', meta_adaptor)]"
  "ch_bank s_attested = [(escrow_acc, ''uusdc'', 30249999999), (Account ''bob'', ''uusdc'', - 30249999999)] @ ch_bank s_accrued"
  by (simp_all add: GetLoan_def GetDLCMeta_def GetPool_def GetRepayment_def GetAttestationByEvent_def GetAttestation_def
     s_attested_def s_repaid_def s_accrued_simps store_run numeral_eq_Suc)

lemma repaid_facts:
  "lo_VaultAddress loan_repaid = ''vault''" "lo_PoolId loan_repaid = ''main''" "lo_DlcEventId loan_repaid = 1"
  "lo_BorrowAmount loan_repaid = \<lparr>Denom = ''uusdc'', Amount = 30000000000\<rparr>" "lo_Referrer loan_repaid = None"
  "lo_BorrowerPubKey loan_repaid = ''b0''" "lo_DCM loan_repaid = ''dc''" "lo_Maturity loan_repaid = 31536000" "lo_Status loan_repaid = LOAN_Repaid"
  by (simp_all add: loan_repaid_def loan_open_def loan_cets_def loan_applied_def)

lemma run_completed: "CompleteRepayment sample_lenv loan_repaid s_attested = Inr (s_closed\<lparr>ln_dlc_metas := ln_dlc_metas s_attested\<rparr>)"
proof -
  have p: "po_Config pool_accrued = sample_config" "po_Id pool_accrued = ''main''"
     "po_Supply pool_accrued = \<lparr>Denom = ''uusdc'', Amount = 100000000000\<rparr>" "po_AvailableAmount pool_accrued = 70000000000"
     "po_BorrowedAmount pool_accrued = 30000000000" "po_TotalBorrowed pool_accrued = 30249999999" "po_ReserveAmount pool_accrued = 0"
     "po_TotalReserve pool_accrued = 24999999"
     "po_Tranches pool_accrued = [\<lparr>pt_Maturity = 31536000, pt_BorrowIndex = 1008333333333333333, pt_TotalBorrowed = 30249999999, pt_TotalReserve = 24999999\<rparr>]"
    by (simp_all add: pool_accrued_def pool_open_def pool_funded_def pool_new_def)
  have esc: "(\<Sum>(a', d', x)\<leftarrow>ch_bank s_accrued. if a' = escrow_acc \<and> d' = ''uusdc'' then x else 0) = 0"
    by (simp add: s_accrued_simps)
  have fp: "GetProtocolFee sample_lenv 249999999 (pc_ReserveFactor sample_config) = 24999999"
    by (simp add: GetProtocolFee_def sample_config_def coin_run)
  show "CompleteRepayment sample_lenv loan_repaid s_attested = Inr (s_closed\<lparr>ln_dlc_metas := ln_dlc_metas s_attested\<rparr>)"
    apply (simp add: CompleteRepayment_def attested_facts repaid_facts p fp esc HasReferralFee_def coin_run bank_run AfterPoolRepaid_def lending_DefaultParams_def
      GetPool_def store_run NormalizePool_def normalize_tranche_def SetPool_def Let_def cong: bind_res_weak_cong)
    apply (rule lending.equality)
    apply (simp_all add: s_closed_def attested_facts repaid_facts p pool_closed_def loan_closed_def)
    done
qed

lemma run_closed: "lending_EndBlocker sample_lenv 0 s_attested = Inr s_closed"
proof -
  have m: "dm_RepaymentCet meta_adaptor = \<lparr>rc_Tx = ''3'', rc_DCMAdaptorSignatures = [''54''], rc_DCMAdaptedSignatures = [],
     rc_BorrowerSignatures = [''53''], rc_SignedTxHex = []\<rparr>" by (simp add: meta_adaptor_def meta_cets_def)
  have ad: "adapt_signatures sample_lenv \<lparr>at_Id = 1, at_EventId = 1, at_Outcome = ''Repaid'', at_Pubkey = ''0a'',
         at_Signature = replicate 64 CHR ''1'', at_Time = 0\<rparr> [''54''] = Inr [''54'']"
    by (simp add: adapt_signatures_def numeral_eq_Suc) (simp add: hex_encode_def hex_char_def hex_digit_def, code_simp)
  have b: "BuildSignedCet sample_lenv ''3'' ''b0'' [''53''] ''dc'' [''54''] = Inr (''3'', ''3'')"
    by (simp add: BuildSignedCet_def sample_psbt_def spend_vault_def sample_tx_def sample_input_def hex_res_def hex_digit_def sign_cet_input_def signed_index_def event_run cong: bind_res_weak_cong)
  have hx: "hex_encode ''3'' = ''33''" by code_simp
  have hr: "handle_repayment sample_lenv loan_repaid s_attested = Inr s_closed"
    apply (simp add: handle_repayment_def attested_facts repaid_facts m ad b run_completed hx SetDLCMeta_def Let_def)
    apply (simp add: s_closed_def meta_closed_def m store_run attested_facts)
    done
  show ?thesis
    by (simp add: lending_EndBlocker_def handleApprovals_def handleLiquidations_def handleLiquidatedLoans_def handleRepayments_def
       IterateLoansByStatus_def IterateLiquidationQueue_def attested_facts ids_with_def kv_keys_def hr)
qed

end
