(* ===== verification/Lending_Run_Liq.thy ===== *)
theory Lending_Run_Liq
  imports Lending_Run
begin

text \<open>
  The run of the liquidation: the price falls, the end blocker opens the liquidation, two
  liquidators buy the collateral, and the settlement pays the pool.
\<close>

section \<open>The liquidation is opened\<close>

lemma scoped_run: "ToScopedId 1 = ''1''" "FromScopedId ''1'' = 1"
proof -
  show "ToScopedId 1 = ''1''" by (simp add: ToScopedId_def dec_string_run digit_chars)
  then show "FromScopedId ''1'' = 1" by (metis FromScopedId_ToScopedId)
qed

lemma accrued_interest': "GetCurrentInterest sample_lenv (s_accrued\<lparr>ch_prices := p\<rparr>) loan_open = Inr \<lparr>Denom = ''uusdc'', Amount = 249999999\<rparr>"
  by (simp add: GetCurrentInterest_def open_interest_def GetCurrentBorrowIndex_def GetPool_def s_accrued_simps store_run
      pool_accrued_def loan_open_def loan_cets_def loan_applied_def GetTranche_def GetInterest_def coin_run Let_def cong: bind_res_weak_cong)

lemma run_fallen: "SetPrice ''BTCUSDC'' ''40000'' s_accrued = s_fallen"
  by (simp add: SetPrice_def s_fallen_def s_accrued_simps store_run)

lemma s_fallen_simps:
  "ch_prices s_fallen = [(''BTCUSDC'', ''40000'')]" "ln_by_status s_fallen = [((LOAN_Open, ''vault''), ())]"
  "GetLoan s_fallen ''vault'' = loan_open" "GetDLCMeta s_fallen ''vault'' = meta_adaptor" "GetPool s_fallen ''main'' = pool_accrued"
  "GetEvent s_fallen 1 = event_cets" "li_id s_fallen = None" "li_store s_fallen = []" "li_by_status s_fallen = []"
  "ln_loans s_fallen = [(''vault'', loan_open)]" "ln_liq_queue s_fallen = []" "dl_events s_fallen = [(1, event_cets)]"
  "dl_event_status s_fallen = [((False, 1), ())]" "tss_request_id s_fallen = Some 1" "tss_requests s_fallen = tss_requests s_accrued"
  "tss_by_status s_fallen = [((SIGNING_PENDING, 1), ())]"
  by (simp_all add: s_fallen_def s_accrued_simps GetLoan_def GetDLCMeta_def GetPool_def GetEvent_def store_run)

lemma run_triggered: "lending_HandleLiquidation sample_lenv 0 loan_open s_fallen = Inr s_liquidating"
proof -
  have f: "lo_VaultAddress loan_open = ''vault''" "lo_BorrowAmount loan_open = \<lparr>Denom = ''uusdc'', Amount = 30000000000\<rparr>"
    "lo_DlcEventId loan_open = 1" "lo_Status loan_open = LOAN_Open" "lo_PoolId loan_open = ''main''" "lo_Borrower loan_open = ''bob''"
    "lo_DCM loan_open = ''dc''" "lo_CollateralAmount loan_open = 100000000" "lo_MaturityTime loan_open = 31536000"
    "lo_LiquidationPrice loan_open = 41500000000000000000000" "lo_Maturity loan_open = 31536000"
    by (simp_all add: loan_open_def loan_cets_def loan_applied_def)
  have p: "po_Config pool_accrued = sample_config" by (simp add: pool_accrued_def pool_open_def pool_funded_def pool_new_def)
  have e: "ev_Id event_cets = 1" "ev_HasTriggered event_cets \<longleftrightarrow> False" "ev_Outcomes event_cets = [''41500BTCUSDC'', ''31536000'', ''Repaid'']"
    "ev_Pubkey event_cets = ''0a''" "ev_Nonce event_cets = ''0b''"
    by (simp_all add: event_cets_def event_applied_def event_event_def)
  have pr: "GetPrice sample_price s_fallen ''BTCUSDC'' = Inr (Some 40000000000000000000000)"
    by (simp add: GetPrice_def s_fallen_simps store_run sample_price_def to_dec_def char_digit_def)
  have m: "lc_Tx (dm_LiquidationCet meta_adaptor) = ''2''" by (simp add: meta_adaptor_def meta_cets_def)
  have h: "GetCetSigHashes sample_lenv meta_adaptor CET_LIQUIDATION = Inr [''leaf hash'']"
    by (simp add: GetCetSigHashes_def meta_adaptor_def meta_cets_def meta_applied_def hex_res_def hex_digit_def sample_psbt_def sighashes_def
      spend_vault_def UnwrapLeafScript_def)
  have o: "GetLiquidationCetOutput sample_lenv ''2'' = Inr 99990000"
    by (simp add: GetLiquidationCetOutput_def sample_psbt_def must_def signed_index_def wrap_err_def)
  show ?thesis
    apply (simp add: lending_HandleLiquidation_def s_fallen_simps f p sample_config_def lending_GetPricePair_def pr unix_def ToBeLiquidated_def
       accrued_interest' [where p = "[(''BTCUSDC'', ''40000'')]", folded s_fallen_def] open_liquidation_def m h o coin_run Let_def CreateLiquidation_def IncrementLiquidationId_def
       GetLiquidationId_def LiquidationNetworkFeeReserve_def store_run cong: bind_res_weak_cong)
    apply (simp add: AddToLiquidationQueue_def TriggerDLCEvent_def InitiateSigningRequest_def IncrementSigningRequestId_def GetSigningRequestId_def
       GetEvent_def s_fallen_simps store_run e f scoped_run Let_def)
    apply (rule lending.equality)
    apply (simp_all add: s_liquidating_def s_fallen_simps loan_liquidating_def liq_liquidating_def event_liquidating_def s_accrued_simps zero_liquidation_def ToLiquidationAssetMeta_def
      store_run h nil_coin_def)
    apply (simp_all add: event_cets_def event_applied_def event_event_def)
    done
qed

lemma run_liquidating: "lending_EndBlocker sample_lenv 0 s_fallen = Inr s_liquidating"
proof -
  have f: "lo_VaultAddress loan_open = ''vault''" "lo_DlcEventId loan_open = 1"
    by (simp_all add: loan_open_def loan_cets_def loan_applied_def)
  have st: "ln_by_status s_liquidating = [((LOAN_Liquidated, ''vault''), ())]" "ln_liq_queue s_liquidating = [(''vault'', ())]"
     "GetDLCMeta s_liquidating ''vault'' = meta_adaptor" "GetLoan s_liquidating ''vault'' = loan_liquidating"
     "GetAttestationByEvent s_liquidating 1 = None"
    by (simp_all add: s_liquidating_simps GetDLCMeta_def GetLoan_def GetAttestationByEvent_def store_run)
  have hq: "handle_liquidated_loan sample_lenv loan_liquidating s_liquidating = Inr s_liquidating"
    by (simp add: handle_liquidated_loan_def loan_liquidating_def f st GetLiquidationCetAndType_def meta_adaptor_def meta_cets_def meta_applied_def Let_def)
  show ?thesis
    by (simp add: lending_EndBlocker_def handleApprovals_def handleLiquidations_def handleLiquidatedLoans_def handleRepayments_def
       IterateLoansByStatus_def IterateLiquidationQueue_def st s_fallen_simps ids_with_def kv_keys_def f run_triggered hq)
qed

section \<open>Liquidators\<close>

definition sample_liquidate :: "int \<Rightarrow> msg_liquidate" where
  "sample_liquidate n = \<lparr>ml_Liquidator = ''carol'', ml_LiquidationId = 1, ml_DebtAmount = \<lparr>Denom = ''uusdc'', Amount = n\<rparr>\<rparr>"

lemma sample_liquidate_simps [simp]: "ml_Liquidator (sample_liquidate n) = ''carol''" "ml_LiquidationId (sample_liquidate n) = 1"
  "ml_DebtAmount (sample_liquidate n) = \<lparr>Denom = ''uusdc'', Amount = n\<rparr>"
  by (simp_all add: sample_liquidate_def)

lemma liquidate_valid: "0 < n \<Longrightarrow> MsgLiquidate_ValidateBasic sample_lenv (sample_liquidate n) = Inr ()"
  by (simp add: MsgLiquidate_ValidateBasic_def coin_run)

lemma liq_fields:
  "lq_Status liq_liquidating = LQ_LIQUIDATING" "lq_DebtAmount liq_liquidating = \<lparr>Denom = ''uusdc'', Amount = 30249999999\<rparr>"
  "lq_DebtAsset liq_liquidating = \<lparr>am_Denom = ''uusdc'', am_Symbol = ''USDC'', am_Decimals = 6, am_PriceSymbol = ''USDC'', am_IsBasePriceAsset = False\<rparr>"
  "lq_CollateralAsset liq_liquidating = \<lparr>am_Denom = ''sat'', am_Symbol = ''BTC'', am_Decimals = 8, am_PriceSymbol = ''BTC'', am_IsBasePriceAsset = True\<rparr>"
  "lq_UnliquidatedCollateralAmount liq_liquidating = \<lparr>Denom = ''sat'', Amount = 99980000\<rparr>"
  "lq_LiquidatedDebtAmount liq_liquidating = \<lparr>Denom = ''uusdc'', Amount = 0\<rparr>"
  "lq_LiquidatedCollateralAmount liq_liquidating = \<lparr>Denom = ''sat'', Amount = 0\<rparr>"
  "lq_LiquidationBonusAmount liq_liquidating = \<lparr>Denom = ''sat'', Amount = 0\<rparr>"
  "lq_ProtocolLiquidationFee liq_liquidating = \<lparr>Denom = ''sat'', Amount = 0\<rparr>" "lq_Id liq_liquidating = 1"
  by (simp_all add: liq_liquidating_def)

lemma liq_part_fields:
  "lq_Status liq_part = LQ_LIQUIDATING" "lq_DebtAmount liq_part = \<lparr>Denom = ''uusdc'', Amount = 30249999999\<rparr>"
  "lq_DebtAsset liq_part = lq_DebtAsset liq_liquidating" "lq_CollateralAsset liq_part = lq_CollateralAsset liq_liquidating"
  "lq_UnliquidatedCollateralAmount liq_part = \<lparr>Denom = ''sat'', Amount = 73730000\<rparr>"
  "lq_LiquidatedDebtAmount liq_part = \<lparr>Denom = ''uusdc'', Amount = 10000000000\<rparr>"
  "lq_LiquidatedCollateralAmount liq_part = \<lparr>Denom = ''sat'', Amount = 26250000\<rparr>"
  "lq_LiquidationBonusAmount liq_part = \<lparr>Denom = ''sat'', Amount = 1250000\<rparr>"
  "lq_ProtocolLiquidationFee liq_part = \<lparr>Denom = ''sat'', Amount = 125000\<rparr>" "lq_Id liq_part = 1"
  by (simp_all add: liq_part_def liq_liquidating_def)

lemma liq_amounts:
  "GetCollateralAmount sample_lenv 10000000000 6 8 40000000000000000000000 True = Inr 25000000"
  "GetCollateralAmount sample_lenv 500000000 6 8 40000000000000000000000 True = Inr 1250000"
  "GetCollateralAmount sample_lenv 20249999999 6 8 40000000000000000000000 True = Inr 50624999"
  "GetCollateralAmount sample_lenv 1012499999 6 8 40000000000000000000000 True = Inr 2531249"
  by (simp_all add: GetCollateralAmount_def coin_run)

lemma liq_price: "ch_prices s = [(''BTCUSDC'', ''40000'')] \<Longrightarrow> GetPrice sample_price s ''BTCUSDC'' = Inr (Some 40000000000000000000000)"
  by (simp add: GetPrice_def store_run sample_price_def to_dec_def char_digit_def)

lemma liq_min: "li_params s = liquidation_DefaultParams ''gov'' \<Longrightarrow> lq_DebtAmount l = \<lparr>Denom = ''uusdc'', Amount = 30249999999\<rparr> \<Longrightarrow>
    min_liquidation_debt sample_lenv s l = 604999999"
  by (simp add: min_liquidation_debt_def liquidation_DefaultParams_def coin_run)

lemmas liquidate_run = Liquidate_def HandleLiquidation_def liquidate_valid liq_amounts liq_price liq_min liquidation_GetPricePair_def IsDustOut_def to_int64_def
  IsOpReturnOutput_def OP_RETURN_def IncrementLiquidationRecordId_def GetLiquidationRecordId_def SetLiquidationRecord_def coin_run bank_run

lemma run_part: "Liquidate sample_lenv 0 (sample_liquidate 10000000000) s_liquidating = Inr s_part"
proof -
  have l: "HasLiquidation s_liquidating 1" "GetLiquidation s_liquidating 1 = liq_liquidating" "li_params s_liquidating = liquidation_DefaultParams ''gov''"
     "ch_prices s_liquidating = [(''BTCUSDC'', ''40000'')]" "li_store s_liquidating = [(1, liq_liquidating)]" "li_by_status s_liquidating = [((LQ_LIQUIDATING, 1), ())]"
     "li_record_id s_liquidating = None" "li_records s_liquidating = []" "li_records_by s_liquidating = []"
    by (simp_all add: HasLiquidation_def GetLiquidation_def s_liquidating_simps store_run)
  have pr: "lp_LiquidationBonusFactor (liquidation_DefaultParams ''gov'') = 50000000000000000"
    "lp_ProtocolLiquidationFeeFactor (liquidation_DefaultParams ''gov'') = 100000000000000000"
    by (simp_all add: liquidation_DefaultParams_def)
  show ?thesis
    apply (simp add: liquidate_run l liq_fields pr s_liquidating_simps Let_def cong: bind_res_weak_cong)
    apply (simp add: l liq_fields store_run)
    apply (rule lending.equality)
    apply (simp_all add: s_part_def liq_part_def l liq_fields s_liquidating_simps)
    done
qed

lemma run_full: "Liquidate sample_lenv 0 (sample_liquidate 90000000000) s_part = Inr s_full"
proof -
  have l: "HasLiquidation s_part 1" "GetLiquidation s_part 1 = liq_part" "li_params s_part = liquidation_DefaultParams ''gov''"
     "ch_prices s_part = [(''BTCUSDC'', ''40000'')]" "li_store s_part = [(1, liq_part)]" "li_by_status s_part = [((LQ_LIQUIDATING, 1), ())]"
     "li_record_id s_part = Some 1" "li_records_by s_part = [((1, 1), ())]"
    and r: "li_records s_part = [(1, \<lparr>lr_Id = 1, lr_LiquidationId = 1, lr_Liquidator = ''carol'',
       lr_DebtAmount = \<lparr>Denom = ''uusdc'', Amount = 10000000000\<rparr>, lr_CollateralAmount = \<lparr>Denom = ''sat'', Amount = 25000000\<rparr>,
       lr_BonusAmount = \<lparr>Denom = ''sat'', Amount = 1125000\<rparr>, lr_Time = 0\<rparr>)]"
    and b: "ch_bank s_part = (liquidation_acc, ''uusdc'', 10000000000) # (Account ''carol'', ''uusdc'', - 10000000000) # ch_bank s_liquidating"
    by (simp_all add: HasLiquidation_def GetLiquidation_def s_part_def s_liquidating_simps store_run)
  have pr: "lp_LiquidationBonusFactor (liquidation_DefaultParams ''gov'') = 50000000000000000"
    "lp_ProtocolLiquidationFeeFactor (liquidation_DefaultParams ''gov'') = 100000000000000000"
    by (simp_all add: liquidation_DefaultParams_def)
  show ?thesis
    apply (simp add: liquidate_run l b liq_part_fields liq_fields pr s_liquidating_simps Let_def cong: bind_res_weak_cong)
    apply (simp add: l r liq_part_fields store_run)
    apply (rule lending.equality)
    apply (simp_all add: s_full_def liq_full_def l r b liq_part_fields s_liquidating_simps)
    done
qed

section \<open>Settlement\<close>

lemma liq_full_fields:
  "lq_Status liq_full = LQ_LIQUIDATING" "lq_DebtAmount liq_full = \<lparr>Denom = ''uusdc'', Amount = 30249999999\<rparr>"
  "lq_LiquidatedDebtAmount liq_full = \<lparr>Denom = ''uusdc'', Amount = 30249999999\<rparr>"
  "lq_UnliquidatedCollateralAmount liq_full = \<lparr>Denom = ''sat'', Amount = 20573752\<rparr>"
  "lq_ProtocolLiquidationFee liq_full = \<lparr>Denom = ''sat'', Amount = 378124\<rparr>" "lq_Id liq_full = 1"
  "lq_LiquidationCet liq_full = ''2''" "lq_Debtor liq_full = ''bob''" "lq_DCM liq_full = ''dc''"
  "lq_CollateralAsset liq_full = lq_CollateralAsset liq_liquidating"
  by (simp_all add: liq_full_def liq_part_def liq_liquidating_def)

lemma settle_records: "GetLiquidationRecords s_full 1 = map snd (li_records s_full)"
  "li_records s_full = [(1, \<lparr>lr_Id = 1, lr_LiquidationId = 1, lr_Liquidator = ''carol'',
       lr_DebtAmount = \<lparr>Denom = ''uusdc'', Amount = 10000000000\<rparr>, lr_CollateralAmount = \<lparr>Denom = ''sat'', Amount = 25000000\<rparr>,
       lr_BonusAmount = \<lparr>Denom = ''sat'', Amount = 1125000\<rparr>, lr_Time = 0\<rparr>),
    (2, \<lparr>lr_Id = 2, lr_LiquidationId = 1, lr_Liquidator = ''carol'',
     lr_DebtAmount = \<lparr>Denom = ''uusdc'', Amount = 20249999999\<rparr>,
     lr_CollateralAmount = \<lparr>Denom = ''sat'', Amount = 50624999\<rparr>,
     lr_BonusAmount = \<lparr>Denom = ''sat'', Amount = 2278125\<rparr>, lr_Time = 0\<rparr>)]"
  by (simp_all add: GetLiquidationRecords_def GetLiquidationRecord_def s_full_def s_part_def s_liquidating_simps store_run)

lemma settle_tx: "BuildSettlementTransaction sample_lenv liq_full' (GetLiquidationRecords s_full 1) ''gov'' 2 10000
    = Inr (''0'', ''0'', [''key hash''], 20583352)"
  if "liq_full' = liq_full\<lparr>lq_Status := LQ_LIQUIDATED\<rparr>"
  using that
  apply (simp add: BuildSettlementTransaction_def liq_full_fields sample_psbt_def settle_records)
  apply (simp add: BuildBatchTransferPsbt_def record_out_def coin_run to_int64_def btcbridge_IsDustOut_def IsOpReturnOutput_def OP_RETURN_def
    BuildUnsignedTransaction_def BuildUnsignedTransactionWithFee_def with_change_def spend_vault_def sample_tx_def NewMsgTx_def AddUTXOToTx_def in_amount_def out_amount_def
    i64_def GetTxVirtualSize_def CheckTransactionWeight_def MaxTransactionWeight_def set_witness_utxos_def sample_input_def sighashes_def event_run Let_def cong: bind_res_weak_cong)
  done

lemma s_full_simps:
  "li_store s_full = [(1, liq_full)]" "li_by_status s_full = [((LQ_LIQUIDATING, 1), ())]" "li_params s_full = liquidation_DefaultParams ''gov''"
  "ch_fee_rate s_full = \<lparr>fr_Value = 2, fr_Height = 1\<rparr>" "tss_request_id s_full = Some 3"
  "tss_requests s_full = tss_requests s_liquidating" "tss_by_status s_full = tss_by_status s_liquidating"
  "ln_pools s_full = [(''main'', pool_accrued)]" "ln_loans s_full = [(''vault'', loan_liquidating)]" "ln_params s_full = lending_DefaultParams ''gov''"
  "ch_bank s_full = [(liquidation_acc, ''uusdc'', 20249999999), (Account ''carol'', ''uusdc'', - 20249999999),
     (liquidation_acc, ''uusdc'', 10000000000), (Account ''carol'', ''uusdc'', - 10000000000)] @ ch_bank s_liquidating"
  by (simp_all add: s_full_def s_part_def s_liquidating_simps)

lemma run_settling: "liquidation_EndBlocker sample_lenv 0 s_full = Inr s_settling"
proof -
  let ?l = "liq_full\<lparr>lq_Status := LQ_LIQUIDATED\<rparr>"
  let ?t = "SetLiquidation ?l s_full"
  have g: "GetLiquidationsByStatus s_full LQ_LIQUIDATING = [liq_full]"
    by (simp add: GetLiquidationsByStatus_def GetLiquidation_def s_full_simps store_run)
  have d: "liquidation_done sample_lenv s_full liq_full = Inr True"
    by (simp add: liquidation_done_def liq_full_fields coin_run)
  have h: "handlePendingLiquidations sample_lenv s_full = Inr ?t"
    by (simp add: handlePendingLiquidations_def g pending_liquidation_step_def d)
  have g2: "GetLiquidationsByStatus ?t LQ_LIQUIDATED = [?l]"
    by (simp add: GetLiquidationsByStatus_def GetLiquidation_def s_full_simps store_run liq_full_fields)
  have r: "GetLiquidationRecords ?t 1 = GetLiquidationRecords s_full 1"
    by (simp add: GetLiquidationRecords_def GetLiquidationRecord_def)
  have p: "lp_ProtocolLiquidationFeeCollector (liquidation_DefaultParams ''gov'') = ''gov''"
    by (simp add: liquidation_DefaultParams_def)
  show ?thesis
    apply (simp add: liquidation_EndBlocker_def h handleCompletedLiquidations_def g2 completed_liquidation_step_def r
       settle_tx [OF refl] liq_full_fields liq_fields p s_full_simps GetFeeRate_def LiquidationNetworkFeeReserve_def coin_run scoped_run Let_def)
    apply (simp add: InitiateSigningRequest_def IncrementSigningRequestId_def GetSigningRequestId_def s_full_simps s_liquidating_simps store_run liq_full_fields Let_def)
    apply (rule lending.equality)
    apply (simp_all add: s_settling_def liq_settling_def liq_full_fields s_full_simps s_liquidating_simps)
    done
qed

lemma run_settled: "liquidation_SigningCompletedHandler sample_lenv ''1'' [''55''] s_settling = Inr s_settled"
proof -
  have l: "HasLiquidation s_settling 1" "GetLiquidation s_settling 1 = liq_settling" "GetLoan s_settling ''vault'' = loan_liquidating"
     "GetPool s_settling ''main'' = pool_accrued" "ln_params s_settling = lending_DefaultParams ''gov''" "li_store s_settling = [(1, liq_settling)]"
     "li_by_status s_settling = [((LQ_SETTLING, 1), ())]" "ln_pools s_settling = [(''main'', pool_accrued)]"
    by (simp_all add: HasLiquidation_def GetLiquidation_def GetLoan_def GetPool_def s_settling_def s_full_simps store_run)
  have b: "ch_bank s_settling = [(liquidation_acc, ''uusdc'', 20249999999), (Account ''carol'', ''uusdc'', - 20249999999),
     (liquidation_acc, ''uusdc'', 10000000000), (Account ''carol'', ''uusdc'', - 10000000000)] @ ch_bank s_liquidating"
    by (simp add: s_settling_def s_full_simps)
  have q: "lq_Status liq_settling = LQ_SETTLING" "lq_SettlementTx liq_settling = ''0''" "lq_LoanId liq_settling = ''vault''"
    "lq_LiquidatedDebtAmount liq_settling = \<lparr>Denom = ''uusdc'', Amount = 30249999999\<rparr>" "Amount (lq_AccruedInterest liq_settling) = 0"
    "lq_DebtAmount liq_settling = \<lparr>Denom = ''uusdc'', Amount = 30249999999\<rparr>" "lq_Id liq_settling = 1"
    by (simp_all add: liq_settling_def liq_full_def liq_part_def liq_liquidating_def)
  have f: "lo_VaultAddress loan_liquidating = ''vault''" "lo_PoolId loan_liquidating = ''main''" "lo_LiquidationId loan_liquidating = 1"
    "lo_BorrowAmount loan_liquidating = \<lparr>Denom = ''uusdc'', Amount = 30000000000\<rparr>" "lo_Referrer loan_liquidating = None"
    "lo_Maturity loan_liquidating = 31536000" "lo_Status loan_liquidating = LOAN_Liquidated"
    by (simp_all add: loan_liquidating_def loan_open_def loan_cets_def loan_applied_def)
  have p: "po_Config pool_accrued = sample_config" "po_Id pool_accrued = ''main''"
     "po_Supply pool_accrued = \<lparr>Denom = ''uusdc'', Amount = 100000000000\<rparr>" "po_AvailableAmount pool_accrued = 70000000000"
     "po_BorrowedAmount pool_accrued = 30000000000" "po_TotalBorrowed pool_accrued = 30249999999" "po_ReserveAmount pool_accrued = 0"
     "po_TotalReserve pool_accrued = 24999999"
     "po_Tranches pool_accrued = [\<lparr>pt_Maturity = 31536000, pt_BorrowIndex = 1008333333333333333, pt_TotalBorrowed = 30249999999, pt_TotalReserve = 24999999\<rparr>]"
    by (simp_all add: pool_accrued_def pool_open_def pool_funded_def pool_new_def)
  have fp: "GetProtocolFee sample_lenv 249999999 (pc_ReserveFactor sample_config) = 24999999" "GetProtocolFee sample_lenv 0 (pc_ReserveFactor sample_config) = 0"
    by (simp_all add: GetProtocolFee_def sample_config_def coin_run)
  have ci: "GetCurrentInterest sample_lenv s_settling loan_liquidating = Inr \<lparr>Denom = ''uusdc'', Amount = 249999999\<rparr>"
    by (simp add: GetCurrentInterest_def f l q coin_run)
  have hd: "HandleLiquidatedDebt sample_lenv ''vault'' liquidation_acc \<lparr>Denom = ''uusdc'', Amount = 30249999999\<rparr> 0 s_settling
    = Inr (s_settling\<lparr>ch_bank := [(Account ''gov'', ''uusdc'', 24999999), (liquidation_acc, ''uusdc'', - 24999999), (lending_acc,
     ''uusdc'', 30225000000), (liquidation_acc, ''uusdc'', - 30225000000)] @ ch_bank s_settling, ln_pools := [(''main'', pool_settled)]\<rparr>)"
    apply (simp add: HandleLiquidatedDebt_def l f ci p fp HasReferralFee_def coin_run bank_run b s_liquidating_simps lending_DefaultParams_def AfterPoolRepaid_def DeductLiquidationAccruedInterest_def
      RebalancePool_def GetPool_def store_run NormalizePool_def normalize_tranche_def SetPool_def Let_def cong: bind_res_weak_cong)
    apply (rule lending.equality)
    apply (simp_all add: l f p pool_settled_def)
    done
  show ?thesis
    apply (simp add: liquidation_SigningCompletedHandler_def scoped_run HandleSettlementSignatures_def l q hd sample_psbt_def key_sign_inputs_def
      sample_tx_def event_run store_run)
    apply (rule lending.equality)
    apply (simp_all add: s_settled_def liq_settled_def l q)
    done
qed

end
