(* ===== verification/Loan_Book.thy ===== *)
theory Loan_Book
  imports Lending_Reach
begin

text \<open>
  The abstract specification of the loans: a book that maps a vault to the terms of its loan and a
  status. Its only moves are a new entry in the first status and a move of one entry along the
  life of a loan. Every step of the protocol is a sequence of such moves.
\<close>

type_synonym loan_entry = "(string \<times> string \<times> string \<times> string \<times> coin \<times> int \<times> int \<times> int \<times> dec \<times> u64 \<times> referrer option) \<times> loan_status"
type_synonym loan_book = "string \<Rightarrow> loan_entry option"

inductive book_step :: "loan_book \<Rightarrow> loan_book \<Rightarrow> bool" where
  enter: "B i = None \<Longrightarrow> book_step B (B(i := Some (t, LOAN_Requested)))"
| move: "B i = Some (t, st) \<Longrightarrow> loan_life st st' \<Longrightarrow> book_step B (B(i := Some (t, st')))"

definition abs_book :: "('b, 'x) lending_scheme \<Rightarrow> loan_book" where
  "abs_book s i = map_option (\<lambda>l. (loan_terms l, lo_Status l)) (kv_get (ln_loans s) i)"

text \<open>One entry moves along its life.\<close>

lemma book_moves:
  assumes "loan_life\<^sup>*\<^sup>* st st'" "B i = Some (t, st)"
  shows "book_step\<^sup>*\<^sup>* B (B(i := Some (t, st')))"
  using assms(1)
proof (induction rule: rtranclp_induct)
  case base
  then show ?case using assms(2) by (simp add: fun_upd_idem)
next
  case (step y z)
  have "book_step (B(i := Some (t, y))) ((B(i := Some (t, y)))(i := Some (t, z)))"
    by (rule book_step.move [of _ i t y z]) (simp_all add: step.hyps(2))
  then have "book_step (B(i := Some (t, y))) (B(i := Some (t, z)))" by (simp only: fun_upd_upd)
  then have "book_step\<^sup>*\<^sup>* (B(i := Some (t, y))) (B(i := Some (t, z)))" by (rule r_into_rtranclp [where r = book_step])
  with step.IH show ?case by (rule rtranclp_trans [where r = book_step])
qed

definition entry_evolves :: "loan_entry option \<Rightarrow> loan_entry option \<Rightarrow> bool" where
  "entry_evolves a b = (case a of
       None \<Rightarrow> (case b of None \<Rightarrow> True | Some (t, st) \<Rightarrow> loan_life\<^sup>*\<^sup>* LOAN_Requested st)
     | Some (t, st) \<Rightarrow> (case b of None \<Rightarrow> False | Some (t', st') \<Rightarrow> t' = t \<and> loan_life\<^sup>*\<^sup>* st st'))"

lemma entry_steps:
  assumes "entry_evolves (B i) e"
  shows "book_step\<^sup>*\<^sup>* B (B(i := e))"
proof (cases "B i")
  case None
  show ?thesis
  proof (cases e)
    case None
    then show ?thesis using \<open>B i = None\<close> by (simp add: fun_upd_idem)
  next
    case (Some x)
    obtain t st where x: "x = (t, st)" by fastforce
    have life: "loan_life\<^sup>*\<^sup>* LOAN_Requested st" using assms None Some x by (simp add: entry_evolves_def)
    have "book_step B (B(i := Some (t, LOAN_Requested)))" by (rule book_step.enter [of B i, OF \<open>B i = None\<close>])
    moreover have "book_step\<^sup>*\<^sup>* (B(i := Some (t, LOAN_Requested))) ((B(i := Some (t, LOAN_Requested)))(i := Some (t, st)))"
      by (rule book_moves [OF life]) simp
    ultimately show ?thesis unfolding Some x by (simp add: converse_rtranclp_into_rtranclp)
  qed
next
  case (Some y)
  obtain t st where y: "y = (t, st)" by fastforce
  then obtain st' where "e = Some (t, st')" "loan_life\<^sup>*\<^sup>* st st'"
    using assms Some by (auto simp: entry_evolves_def split: option.splits)
  then show ?thesis using book_moves Some y by simp
qed

lemma book_steps:
  assumes "finite F" "\<And>i. entry_evolves (B i) (B' i)"
  shows "book_step\<^sup>*\<^sup>* B (\<lambda>i. if i \<in> F then B' i else B i)"
  using assms(1)
proof (induction F)
  case empty
  then show ?case by simp
next
  case (insert j F)
  define C where "C = (\<lambda>i. if i \<in> F then B' i else B i)"
  have "C j = B j" using insert.hyps by (simp add: C_def)
  then have "book_step\<^sup>*\<^sup>* C (C(j := B' j))" using assms(2) by (intro entry_steps) simp
  moreover have "C(j := B' j) = (\<lambda>i. if i \<in> insert j F then B' i else B i)" by (auto simp: C_def)
  ultimately show ?case using insert.IH [folded C_def] by simp
qed

lemma abs_book_dom: "finite (dom (abs_book s))"
proof -
  have "dom (abs_book s) = set (kv_keys (ln_loans s))"
    by (auto simp: abs_book_def set_kv_keys kv_has_def dom_def)
  then show ?thesis by simp
qed

lemma lifecycle_book:
  assumes "lifecycle s s'"
  shows "book_step\<^sup>*\<^sup>* (abs_book s) (abs_book s')"
proof -
  have ev: "entry_evolves (abs_book s i) (abs_book s' i)" for i
    using assms unfolding lifecycle_def abs_book_def entry_evolves_def lives_on_def
    by (cases "kv_get (ln_loans s) i"; cases "kv_get (ln_loans s') i") (auto dest: spec [where x = i])
  define F where "F = dom (abs_book s) \<union> dom (abs_book s')"
  have "finite F" unfolding F_def by (rule finite_UnI [OF abs_book_dom abs_book_dom])
  from book_steps [OF this, of "abs_book s" "abs_book s'"] ev
  have "book_step\<^sup>*\<^sup>* (abs_book s) (\<lambda>i. if i \<in> F then abs_book s' i else abs_book s i)" by blast
  moreover have "(\<lambda>i. if i \<in> F then abs_book s' i else abs_book s i) = abs_book s'" by (rule ext) (simp add: F_def domIff del: not_None_eq)
  ultimately show ?thesis by simp
qed

end
