(* ===== verification/Lending_Chain.thy ===== *)
theory Lending_Chain
  imports Lending_Run_Loan Lending_Run_Liq Loan_Book
begin

text \<open>
  The states of the run are reachable: the hypotheses of the properties hold on them.
\<close>

lemma sample_fresh: "lending_fresh s_genesis"
  by (simp add: lending_fresh_def liq_params_ok_def liquidation_DefaultParams_def dec_one_def)

lemma chain_step: "lending_reachable sample_lenv ''gov'' s_genesis s \<Longrightarrow> lending_step sample_lenv ''gov'' s s' \<Longrightarrow>
    lending_reachable sample_lenv ''gov'' s_genesis s'"
  by (rule lending_reachable.step)

lemma fee_step: "lending_step sample_lenv ''gov'' s (SetFeeRate h r s)"
  by (rule lending_step.set_fee_rate)

lemma chain_ready:
  "lending_reachable sample_lenv ''gov'' s_genesis s_pool"
  "lending_reachable sample_lenv ''gov'' s_genesis s_funded"
  "lending_reachable sample_lenv ''gov'' s_genesis s_dcm"
  "lending_reachable sample_lenv ''gov'' s_genesis s_event"
  "lending_reachable sample_lenv ''gov'' s_genesis s_ready"
proof -
  show 1: "lending_reachable sample_lenv ''gov'' s_genesis s_pool"
    by (rule chain_step [OF lending_reachable.start lending_step.create_pool [OF run_pool]])
  show 2: "lending_reachable sample_lenv ''gov'' s_genesis s_funded"
    by (rule chain_step [OF 1 lending_step.add_liquidity [OF run_funded]])
  show 3: "lending_reachable sample_lenv ''gov'' s_genesis s_dcm"
    by (rule chain_step [OF 2 lending_step.dkg_completed [OF run_dcm]])
  show 4: "lending_reachable sample_lenv ''gov'' s_genesis s_event"
    by (rule chain_step [OF 3 lending_step.dkg_completed [OF run_event]])
  show "lending_reachable sample_lenv ''gov'' s_genesis s_ready"
    unfolding run_ready [symmetric] by (rule chain_step [OF chain_step [OF 4 fee_step] lending_step.set_price])
qed

lemma chain_loan:
  "lending_reachable sample_lenv ''gov'' s_genesis s_applied"
  "lending_reachable sample_lenv ''gov'' s_genesis s_cets"
  "lending_reachable sample_lenv ''gov'' s_genesis s_adaptor"
  "lending_reachable sample_lenv ''gov'' s_genesis s_verified"
  "lending_reachable sample_lenv ''gov'' s_genesis s_open"
  "lending_reachable sample_lenv ''gov'' s_genesis s_accrued"
proof -
  show 1: "lending_reachable sample_lenv ''gov'' s_genesis s_applied"
    by (rule chain_step [OF chain_ready(5) lending_step.apply_loan [OF run_applied]])
  show 2: "lending_reachable sample_lenv ''gov'' s_genesis s_cets"
    by (rule chain_step [OF 1 lending_step.submit_cets [OF run_cets]])
  show 3: "lending_reachable sample_lenv ''gov'' s_genesis s_adaptor"
    by (rule chain_step [OF 2 lending_step.lending_signed [OF run_adaptor]])
  show 4: "lending_reachable sample_lenv ''gov'' s_genesis s_verified"
    by (rule chain_step [OF 3 lending_step.submit_deposit [OF run_verified]])
  show 5: "lending_reachable sample_lenv ''gov'' s_genesis s_open"
    by (rule chain_step [OF 4 lending_step.lending_end [OF run_open]])
      (simp add: GetLiquidationId_def counter_def s_verified_simps)
  show "lending_reachable sample_lenv ''gov'' s_genesis s_accrued"
    by (rule chain_step [OF 5 lending_step.lending_begin [OF run_accrued]])
qed

lemma chain_repaid:
  "lending_reachable sample_lenv ''gov'' s_genesis s_repaid"
  "lending_reachable sample_lenv ''gov'' s_genesis s_attested"
  "lending_reachable sample_lenv ''gov'' s_genesis s_closed"
proof -
  show 1: "lending_reachable sample_lenv ''gov'' s_genesis s_repaid"
    by (rule chain_step [OF chain_loan(6) lending_step.repay [OF run_repaid]])
  show 2: "lending_reachable sample_lenv ''gov'' s_genesis s_attested"
    by (rule chain_step [OF 1 lending_step.dlc_signed [OF run_attested]])
  show "lending_reachable sample_lenv ''gov'' s_genesis s_closed"
    by (rule chain_step [OF 2 lending_step.lending_end [OF run_closed]])
      (simp add: GetLiquidationId_def counter_def s_attested_def s_repaid_def s_accrued_simps)
qed

lemma sample_price_pos: "price_ok sample_price s" if "ch_prices s = [(''BTCUSDC'', ''40000'')]"
  using that by (auto simp: price_ok_def GetPrice_def store_run sample_price_def to_dec_def char_digit_def split: if_splits)

lemma chain_liquidated:
  "lending_reachable sample_lenv ''gov'' s_genesis s_fallen"
  "lending_reachable sample_lenv ''gov'' s_genesis s_liquidating"
  "lending_reachable sample_lenv ''gov'' s_genesis s_part"
  "lending_reachable sample_lenv ''gov'' s_genesis s_full"
  "lending_reachable sample_lenv ''gov'' s_genesis s_settling"
  "lending_reachable sample_lenv ''gov'' s_genesis s_settled"
proof -
  show 1: "lending_reachable sample_lenv ''gov'' s_genesis s_fallen"
    unfolding run_fallen [symmetric] by (rule chain_step [OF chain_loan(6) lending_step.set_price])
  show 2: "lending_reachable sample_lenv ''gov'' s_genesis s_liquidating"
    by (rule chain_step [OF 1 lending_step.lending_end [OF run_liquidating]])
      (simp add: GetLiquidationId_def counter_def s_fallen_simps)
  show 3: "lending_reachable sample_lenv ''gov'' s_genesis s_part"
    by (rule chain_step [OF 2 lending_step.liquidate [OF run_part]])
      (simp_all add: sample_price_pos s_liquidating_simps GetLiquidationRecordId_def counter_def)
  show 4: "lending_reachable sample_lenv ''gov'' s_genesis s_full"
    by (rule chain_step [OF 3 lending_step.liquidate [OF run_full]])
      (simp_all add: sample_price_pos s_part_def s_liquidating_simps GetLiquidationRecordId_def counter_def)
  show 5: "lending_reachable sample_lenv ''gov'' s_genesis s_settling"
    by (rule chain_step [OF 4 lending_step.liquidation_end [OF run_settling]])
  show "lending_reachable sample_lenv ''gov'' s_genesis s_settled"
    by (rule chain_step [OF 5 lending_step.liquidation_signed [OF run_settled]])
qed

end
