(* ===== verification/Lending_Safety.thy ===== *)
theory Lending_Safety
  imports Lending_Chain
begin

text \<open>
  The properties of the whole lending protocol: what its accounts hold, what its pools and loans
  keep in every reachable state, and the abstract book of loans it implements. The witnesses are
  states of the run of \<open>Lending_Sample\<close>.
\<close>

section \<open>The accounts cover the books\<close>

lemma reachable_gaps:
  assumes "env_ok E" "lending_fresh s0" "lending_reachable E gov s0 s"
  shows "lending_gap E s d = balance E (ch_bank s0) lending_acc d"
    and "escrow_gap E s d = balance E (ch_bank s0) escrow_acc d"
    and "liquidation_gap E s d = balance E (ch_bank s0) liquidation_acc d"
  using lending_reachable_keeps [OF assms] assms(2)
  by (simp_all add: keeps_def gaps_kept_def lending_gap_def escrow_gap_def liquidation_gap_def lending_fresh_def kv_sum_def)

text \<open>
  C1. Solvency of the pools. In every state reachable from an empty chain, whatever messages, blocks,
  callbacks and transfers led there, the lending module account holds in every denom what it held at
  the start and exactly what the books of the pools say is available for withdrawals and loans.
\<close>

theorem lending_solvency:
  assumes "env_ok E" "lending_fresh s0" "lending_reachable E gov s0 s"
  shows "balance E (ch_bank s) lending_acc d =
    balance E (ch_bank s0) lending_acc d + kv_sum (pool_holds d) (ln_pools s)"
  using reachable_gaps(1) [OF assms, of d] by (simp add: lending_gap_def)

theorem lending_solvency_witness:
  "balance sample_lenv (ch_bank s_open) lending_acc ''uusdc'' = 70000000000"
  using lending_solvency [OF sample_lenv_ok sample_fresh chain_loan(5), of "''uusdc''"]
  by (simp add: s_open_def kv_sum_def pool_holds_def pool_open_def pool_funded_def pool_new_def ledger_balance_def)

text \<open>
  C18. Solvency of the escrow. Between the repayment of a loan by its borrower and its completion, the
  repaid amount is in the escrow account: in every reachable state the account holds, above what it
  held at the start, the stored repayment of every loan that is repaid and not yet closed.
\<close>

theorem escrow_solvency:
  assumes "env_ok E" "lending_fresh s0" "lending_reachable E gov s0 s"
  shows "balance E (ch_bank s) escrow_acc d =
    balance E (ch_bank s0) escrow_acc d + kv_sum (repayment_due s d) (ln_loans s)"
  using reachable_gaps(2) [OF assms, of d] by (simp add: escrow_gap_def)

theorem escrow_solvency_witness:
  "balance sample_lenv (ch_bank s_repaid) escrow_acc ''uusdc'' = 30249999999"
  using escrow_solvency [OF sample_lenv_ok sample_fresh chain_repaid(1), of "''uusdc''"]
  by (simp add: s_repaid_def kv_sum_def repayment_due_def GetRepayment_def store_run loan_repaid_def loan_open_def
      loan_cets_def loan_applied_def ledger_balance_def coins_amount_def)

text \<open>
  C19. Solvency of the liquidation account. In every reachable state it holds, above what it held at the
  start, the debt that liquidators have paid on every liquidation that is not settled: a settlement
  always finds the money it passes on to the pool.
\<close>

theorem liquidation_solvency:
  assumes "env_ok E" "lending_fresh s0" "lending_reachable E gov s0 s"
  shows "balance E (ch_bank s) liquidation_acc d =
    balance E (ch_bank s0) liquidation_acc d + kv_sum (debt_held d) (li_store s)"
  using reachable_gaps(3) [OF assms, of d] by (simp add: liquidation_gap_def)

theorem liquidation_solvency_witness:
  "balance sample_lenv (ch_bank s_full) liquidation_acc ''uusdc'' = 30249999999"
  using liquidation_solvency [OF sample_lenv_ok sample_fresh chain_liquidated(4), of "''uusdc''"]
  by (simp add: s_full_def s_part_def kv_sum_def debt_held_def liq_full_def liq_part_def liq_liquidating_def
      ledger_balance_def coins_amount_def)

section \<open>The books of the pools\<close>

text \<open>
  C2. The books of a pool. In every reachable state the supply of a stored pool is what is available
  and what is lent out, neither goes below zero, and what is lent out is the principal still outstanding on
  the loans of the pool: the borrowed amount of every loan that is open or repaid but not closed, and for a
  loan in liquidation what its settlement has not recovered.
\<close>

theorem pool_books:
  assumes "env_ok E" "lending_fresh s0" "lending_reachable E gov s0 s" "HasPool s i"
  shows "Amount (po_Supply (GetPool s i)) = po_AvailableAmount (GetPool s i) + po_BorrowedAmount (GetPool s i)
    \<and> 0 \<le> po_AvailableAmount (GetPool s i) \<and> po_BorrowedAmount (GetPool s i) = owed s i
    \<and> 0 \<le> po_TotalBorrowed (GetPool s i) \<and> 0 \<le> po_TotalReserve (GetPool s i) \<and> 0 \<le> Amount (po_TotalYTokens (GetPool s i))"
proof -
  have inv: "lending_inv s" by (rule lending_reachable_inv [OF assms(1-3)])
  have "pool_ok (GetPool s i)" by (rule pools_okD(2) [OF lending_invD(1) [OF inv] assms(4)])
  then show ?thesis using lending_invD(11) [OF inv, of i] by (simp add: pool_ok_def)
qed

theorem pool_books_witness:
  "Amount (po_Supply (GetPool s_open ''main'')) = 70000000000 + owed s_open ''main''"
  using pool_books [OF sample_lenv_ok sample_fresh chain_loan(5), of "''main''"]
  by (simp add: HasPool_def GetPool_def s_open_def store_run pool_open_def)

section \<open>The loans\<close>

text \<open>
  C28. Stored loans are well formed. In every reachable state a loan is stored under its vault address,
  its pool exists and lends the denom of the loan, principal and origination fee are not negative, its
  referral fee factor is at most one, its status index is the one of its status, and a loan that is defaulted
  or liquidated refers to a stored liquidation of this very loan.
\<close>

theorem loans_well_formed:
  assumes "env_ok E" "lending_fresh s0" "lending_reachable E gov s0 s" "HasLoan s i"
  shows "lo_VaultAddress (GetLoan s i) = i \<and> HasPool s (lo_PoolId (GetLoan s i))
    \<and> Denom (lo_BorrowAmount (GetLoan s i)) = Denom (po_Supply (GetPool s (lo_PoolId (GetLoan s i))))
    \<and> 0 \<le> Amount (lo_BorrowAmount (GetLoan s i)) \<and> 0 \<le> lo_OriginationFee (GetLoan s i)
    \<and> (\<forall>r. lo_Referrer (GetLoan s i) = Some r \<longrightarrow> rf_ReferralFeeFactor r \<le> dec_one)
    \<and> (\<forall>st. kv_has (ln_by_status s) (st, i) \<longleftrightarrow> st = lo_Status (GetLoan s i))
    \<and> (lo_Status (GetLoan s i) = LOAN_Defaulted \<or> lo_Status (GetLoan s i) = LOAN_Liquidated \<longrightarrow>
        HasLiquidation s (lo_LiquidationId (GetLoan s i))
        \<and> lq_LoanId (GetLiquidation s (lo_LiquidationId (GetLoan s i))) = i)"
proof -
  have inv: "lending_inv s" by (rule lending_reachable_inv [OF assms(1-3)])
  have l: "kv_get (ln_loans s) i = Some (GetLoan s i)"
    using assms(4) by (auto simp: HasLoan_def kv_has_def GetLoan_def)
  have ok: "loan_ok s (GetLoan s i)" "lo_VaultAddress (GetLoan s i) = i"
    using lending_invD(7,8) [OF inv l] by simp_all
  have idx: "kv_has (ln_by_status s) (st, i) \<longleftrightarrow> st = lo_Status (GetLoan s i)" for st
    using lending_invD(2) [OF inv] l by (auto simp: index_ok_def)
  show ?thesis using ok idx
    by (auto simp: loan_ok_def referrer_ok_def in_liquidation_def HasLiquidation_def kv_has_def GetLiquidation_def
        split: option.splits)
qed

theorem loans_well_formed_witness:
  "lq_LoanId (GetLiquidation s_part (lo_LiquidationId (GetLoan s_part ''vault''))) = ''vault''"
  using loans_well_formed [OF sample_lenv_ok sample_fresh chain_liquidated(3), of "''vault''"]
  by (simp add: HasLoan_def GetLoan_def s_part_def s_liquidating_simps store_run loan_liquidating_def)

text \<open>
  C5. The life of a loan. Once applied for, a loan is never removed; its borrower, keys, pool, principal,
  origination fee, maturity, rate, DLC event and referrer never change; and its status only moves along
  its life: requested, authorized, open, repaid, closed, with the exits to cancelled or rejected before the
  disbursement and to defaulted or liquidated from open. A closed, cancelled, rejected, defaulted or
  liquidated loan keeps its status for ever, and no loan is disbursed twice.
\<close>

theorem loan_lifecycle:
  assumes "env_ok E" "lending_fresh s0" "lending_reachable E gov s0 s" "(lending_step E gov)\<^sup>*\<^sup>* s s'" "HasLoan s i"
  shows "HasLoan s' i \<and> loan_life\<^sup>*\<^sup>* (lo_Status (GetLoan s i)) (lo_Status (GetLoan s' i))
    \<and> loan_terms (GetLoan s' i) = loan_terms (GetLoan s i)"
proof -
  have "lifecycle s s'"
    using lending_run_keeps [OF assms(1) lending_reachable_inv [OF assms(1-3)] assms(4)] by (simp add: keeps_def)
  then show ?thesis using assms(5)
    by (auto simp: lifecycle_def lives_on_def HasLoan_def kv_has_def GetLoan_def dest: spec [where x = i] split: option.splits)
qed

theorem loan_lifecycle_witness:
  "HasLoan s_open ''vault'' \<and> loan_life\<^sup>*\<^sup>* LOAN_Authorized (lo_Status (GetLoan s_open ''vault''))
    \<and> loan_terms (GetLoan s_open ''vault'') = loan_terms loan_cets"
proof -
  have "(lending_step sample_lenv ''gov'')\<^sup>*\<^sup>* s_verified s_open"
    by (rule r_into_rtranclp [where r = "lending_step sample_lenv ''gov''", OF lending_step.lending_end [OF run_open]])
      (simp add: GetLiquidationId_def counter_def s_verified_simps)
  from loan_lifecycle [OF sample_lenv_ok sample_fresh chain_loan(4) this, of "''vault''"]
  show ?thesis by (simp add: HasLoan_def GetLoan_def s_verified_simps store_run loan_cets_def)
qed



end
