(* ===== verification/Lending_Pool_Props.thy ===== *)
theory Lending_Pool_Props
  imports Lending_Chain
begin

text \<open>
  The properties of the pools: what lenders pay and get, that the price of a share never falls through
  deposits and withdrawals, and what a block of interest does.
\<close>

section \<open>Deposits and withdrawals\<close>

lemma SetPool_run: "po_Id p = i \<Longrightarrow> SetPool p (s\<lparr>ch_bank := b\<rparr>) = s\<lparr>ch_bank := b, ln_pools := kv_set i p (ln_pools s)\<rparr>"
  by (simp add: SetPool_def)

lemma coin_minus: "coin_add_amount c (- x) = c\<lparr>Amount := Amount c - x\<rparr>"
  by (simp add: coin_add_amount_def)

text \<open>
  AddLiquidity. A deposit that succeeds was of a positive amount of the denom of an existing pool that is
  not paused, within its supply cap. It moves exactly the amount from the lender to the lending account and
  mints the lender shares: as many as the amount in a pool without supply, which it activates, otherwise
  the amount times the shares by the value of the pool, rounded down. Supply, available amount and shares
  of this pool grow by these amounts; no other balance, no other pool and nothing else changes.
\<close>

theorem AddLiquidity_correct:
  assumes "bank_ok E" "pools_ok s" "AddLiquidity E m s = Inr s'"
  shows "\<exists>y b. let p = GetPool s (mal_PoolId m); a = Amount (mal_Amount m); d0 = Denom (mal_Amount m) in
     HasPool s (mal_PoolId m) \<and> po_Status p \<noteq> PAUSED \<and> d0 = Denom (po_Supply p) \<and> 0 < a
   \<and> \<not> (0 < pc_SupplyCap (po_Config p) \<and> pc_SupplyCap (po_Config p) < Amount (po_Supply p) + a)
   \<and> y = (if Amount (po_Supply p) = 0 then a else tdiv (a * Amount (po_TotalYTokens p)) (pool_value p))
   \<and> s' = s\<lparr>ch_bank := b, ln_pools := kv_set (mal_PoolId m)
        (p\<lparr>po_Status := (if Amount (po_Supply p) = 0 then ACTIVE else po_Status p),
           po_Supply := (po_Supply p)\<lparr>Amount := Amount (po_Supply p) + a\<rparr>,
           po_AvailableAmount := po_AvailableAmount p + a,
           po_TotalYTokens := (po_TotalYTokens p)\<lparr>Amount := Amount (po_TotalYTokens p) + y\<rparr>\<rparr>) (ln_pools s)\<rparr>
   \<and> (\<forall>x d. balance E b x d = balance E (ch_bank s) x d
        + (if x = lending_acc \<and> d = d0 then a else 0) - (if x = Account (mal_Lender m) \<and> d = d0 then a else 0)
        + (if x = Account (mal_Lender m) \<and> d = YTokenDenom (mal_PoolId m) then y else 0))"
  using assms(3)
proof (cases rule: AddLiquidity_Inr)
  case (1 p y b b1 b2)
  have id: "po_Id p = mal_PoolId m" using pools_okD(1) [OF assms(2) 1(1)] 1(2) by simp
  have bal: "balance E b x d = balance E (ch_bank s) x d
        + (if x = lending_acc \<and> d = Denom (mal_Amount m) then Amount (mal_Amount m) else 0)
        - (if x = Account (mal_Lender m) \<and> d = Denom (mal_Amount m) then Amount (mal_Amount m) else 0)
        + (if x = Account (mal_Lender m) \<and> d = YTokenDenom (mal_PoolId m) then y else 0)" for x d
    using bank_send [OF assms(1) 1(10)] bank_mint [OF assms(1) 1(11)] bank_send [OF assms(1) 1(12)] by (simp add: id)
  have cap: "\<not> (0 < pc_SupplyCap (po_Config p) \<and> pc_SupplyCap (po_Config p) < Amount (po_Supply p) + Amount (mal_Amount m))"
    using 1(7) by (auto simp: CheckSupplyCap_def HasSupplyCap_def split: if_splits)
  show ?thesis
    unfolding Let_def 1(2) [symmetric]
    by (rule exI [of _ y], rule exI [of _ b])
      (use 1 id bal cap in \<open>auto simp: SetPool_def coin_add_amount_def split: if_splits\<close>)
qed

lemma sample_pools_ok: "pools_ok s_pool" "pools_ok s_funded" "pools_ok s_open" "pools_ok s_accrued"
  using lending_reachable_inv [OF sample_lenv_ok sample_fresh] chain_ready(1,2) chain_loan(5,6)
  by (blast dest: lending_invD(1))+

lemma sample_bank: "bank_ok sample_lenv" "dec_ok sample_lenv" "blocks_ok sample_lenv"
  using sample_lenv_ok by (simp_all add: env_ok_def)

theorem AddLiquidity_correct_witness:
  "GetPool s_pool ''main'' = pool_new \<and>
   (\<exists>b. s_funded = s_pool\<lparr>ch_bank := b, ln_pools := kv_set ''main'' (pool_new\<lparr>po_Status := ACTIVE,
      po_Supply := \<lparr>Denom = ''uusdc'', Amount = 100000000000\<rparr>, po_AvailableAmount := 100000000000,
      po_TotalYTokens := \<lparr>Denom = ''ymain'', Amount = 100000000000\<rparr>\<rparr>) (ln_pools s_pool)\<rparr>)"
proof -
  have p: "GetPool s_pool ''main'' = pool_new" by (simp add: GetPool_def s_pool_def store_run)
  show ?thesis
    using AddLiquidity_correct [OF sample_bank(1) sample_pools_ok(1) run_funded]
    by (auto simp: sample_deposit_def Let_def p pool_new_def)
qed

text \<open>
  RemoveLiquidity. A withdrawal that succeeds was of a positive number of shares of an existing active pool.
  It burns exactly these shares of the lender and pays the lender, out of what is available, their part of
  the value of the pool, rounded down; supply, available amount and shares of this pool fall by these amounts and
  nothing else changes.
\<close>

theorem RemoveLiquidity_correct:
  assumes "bank_ok E" "pools_ok s" "RemoveLiquidity E m s = Inr s'"
  shows "\<exists>w b. let i = PoolIdFromYTokenDenom (Denom (mrl_YTokens m)); p = GetPool s i; y = Amount (mrl_YTokens m) in
     HasPool s i \<and> po_Status p = ACTIVE \<and> 0 < y \<and> y \<le> Amount (po_TotalYTokens p)
   \<and> w = tdiv (y * pool_value p) (Amount (po_TotalYTokens p)) \<and> 0 \<le> w \<and> w \<le> po_AvailableAmount p
   \<and> s' = s\<lparr>ch_bank := b, ln_pools := kv_set i
        (p\<lparr>po_Supply := (po_Supply p)\<lparr>Amount := Amount (po_Supply p) - w\<rparr>, po_AvailableAmount := po_AvailableAmount p - w,
           po_TotalYTokens := (po_TotalYTokens p)\<lparr>Amount := Amount (po_TotalYTokens p) - y\<rparr>\<rparr>) (ln_pools s)\<rparr>
   \<and> (\<forall>x d. balance E b x d = balance E (ch_bank s) x d
        - (if x = lending_acc \<and> d = Denom (po_Supply p) then w else 0)
        + (if x = Account (mrl_Lender m) \<and> d = Denom (po_Supply p) then w else 0)
        - (if x = Account (mrl_Lender m) \<and> d = Denom (mrl_YTokens m) then y else 0))"
  using assms(3)
proof (cases rule: RemoveLiquidity_Inr)
  case (1 p w b b1 b2)
  define i where "i = PoolIdFromYTokenDenom (Denom (mrl_YTokens m))"
  note F = 1 [folded i_def]
  have id: "po_Id p = i" using pools_okD(1) [OF assms(2) F(1)] F(2) by simp
  have bal: "balance E b x d = balance E (ch_bank s) x d
        - (if x = lending_acc \<and> d = Denom (po_Supply p) then w else 0)
        + (if x = Account (mrl_Lender m) \<and> d = Denom (po_Supply p) then w else 0)
        - (if x = Account (mrl_Lender m) \<and> d = Denom (mrl_YTokens m) then Amount (mrl_YTokens m) else 0)" for x d
    using bank_send [OF assms(1) F(11)] bank_burn [OF assms(1) F(12)] bank_send [OF assms(1) F(13)] by simp
  show ?thesis
    unfolding Let_def i_def [symmetric] F(2) [symmetric]
  proof (intro exI [of _ w] exI [of _ b] conjI allI)
    show "s' = s\<lparr>ch_bank := b, ln_pools := kv_set i
        (p\<lparr>po_Supply := (po_Supply p)\<lparr>Amount := Amount (po_Supply p) - w\<rparr>, po_AvailableAmount := po_AvailableAmount p - w,
           po_TotalYTokens := (po_TotalYTokens p)\<lparr>Amount := Amount (po_TotalYTokens p) - Amount (mrl_YTokens m)\<rparr>\<rparr>) (ln_pools s)\<rparr>"
      unfolding F(14) coin_minus by (rule SetPool_run) (simp add: id)
  qed (rule F bal)+
qed

definition sample_withdraw :: msg_remove_liquidity where
  "sample_withdraw = \<lparr>mrl_Lender = ''alice'', mrl_YTokens = \<lparr>Denom = ''ymain'', Amount = 10000000000\<rparr>\<rparr>"

lemma run_withdraw: "\<exists>s'. RemoveLiquidity sample_lenv sample_withdraw s_funded = Inr s'"
proof -
  have i: "PoolIdFromYTokenDenom ''ymain'' = ''main''" by (simp add: PoolIdFromYTokenDenom_def has_prefix_def Y_TOKEN_DENOM_PREFIX_def)
  have v: "MsgRemoveLiquidity_ValidateBasic sample_lenv sample_withdraw = Inr ()"
    by (simp add: MsgRemoveLiquidity_ValidateBasic_def sample_withdraw_def has_prefix_def Y_TOKEN_DENOM_PREFIX_def coin_run)
  have p: "HasPool s_funded ''main''" "GetPool s_funded ''main'' = pool_funded"
    by (simp_all add: HasPool_def GetPool_def s_funded_def store_run)
  have f: "po_Status pool_funded = ACTIVE" "po_AvailableAmount pool_funded = 100000000000" "po_TotalBorrowed pool_funded = 0"
    "po_TotalReserve pool_funded = 0" "po_Supply pool_funded = \<lparr>Denom = ''uusdc'', Amount = 100000000000\<rparr>"
    "po_TotalYTokens pool_funded = \<lparr>Denom = ''ymain'', Amount = 100000000000\<rparr>"
    by (simp_all add: pool_funded_def pool_new_def)
  have b: "ch_bank s_funded = [(Account ''alice'', ''ymain'', 100000000000), (lending_acc, ''ymain'', - 100000000000), (lending_acc,
     ''ymain'', 100000000000), (lending_acc, ''uusdc'', 100000000000), (Account ''alice'', ''uusdc'', - 100000000000)] @ ch_bank s_genesis"
    by (simp add: s_funded_def s_pool_def)
  show ?thesis
    by (simp add: RemoveLiquidity_def v)
      (simp add: sample_withdraw_def i p f GetUnderlyingAssetAmount_def int_quo_def pool_value_def coin_run b bank_run SetPool_def Let_def
        cong: bind_res_weak_cong)
qed

theorem RemoveLiquidity_correct_witness:
  "\<exists>s'. RemoveLiquidity sample_lenv sample_withdraw s_funded = Inr s' \<and>
    (\<exists>b. s' = s_funded\<lparr>ch_bank := b, ln_pools := kv_set ''main'' (pool_funded\<lparr>
      po_Supply := \<lparr>Denom = ''uusdc'', Amount = 90000000000\<rparr>, po_AvailableAmount := 90000000000,
      po_TotalYTokens := \<lparr>Denom = ''ymain'', Amount = 90000000000\<rparr>\<rparr>) (ln_pools s_funded)\<rparr>)"
proof -
  obtain s' where run: "RemoveLiquidity sample_lenv sample_withdraw s_funded = Inr s'" using run_withdraw by blast
  have p: "GetPool s_funded ''main'' = pool_funded" by (simp add: GetPool_def s_funded_def store_run)
  have i: "PoolIdFromYTokenDenom ''ymain'' = ''main''" by (simp add: PoolIdFromYTokenDenom_def has_prefix_def Y_TOKEN_DENOM_PREFIX_def)
  show ?thesis
    using RemoveLiquidity_correct [OF sample_bank(1) sample_pools_ok(2) run] run
    by (auto simp: sample_withdraw_def Let_def p i pool_funded_def pool_new_def pool_value_def)
qed

section \<open>The price of a share\<close>

lemma div_times_le: "0 < v \<Longrightarrow> x div v * v \<le> (x :: int)"
  using div_mult_mod_eq [of x v] pos_mod_sign [of v x] by linarith

lemma share_mint:
  fixes a y v Y :: int
  assumes "0 \<le> a" "0 < v" "0 \<le> Y" "y = tdiv (a * Y) v"
  shows "y * v \<le> a * Y"
  using assms by (simp add: div_times_le)

lemma share_burn:
  fixes w y v Y :: int
  assumes "0 \<le> y" "0 \<le> v" "0 < Y" "w = tdiv (y * v) Y"
  shows "w * Y \<le> y * v"
  using assms by (simp add: div_times_le)

lemma AddLiquidity_pool:
  assumes "pools_ok s" "AddLiquidity E m s = Inr s'"
  obtains y where "GetPool s' j = (if j = mal_PoolId m then (GetPool s j)\<lparr>
      po_Status := (if Amount (po_Supply (GetPool s j)) = 0 then ACTIVE else po_Status (GetPool s j)),
      po_Supply := coin_add_amount (po_Supply (GetPool s j)) (Amount (mal_Amount m)),
      po_AvailableAmount := po_AvailableAmount (GetPool s j) + Amount (mal_Amount m),
      po_TotalYTokens := coin_add_amount (po_TotalYTokens (GetPool s j)) y\<rparr> else GetPool s j)"
    "0 < Amount (mal_Amount m)" "0 \<le> y" "0 \<le> Amount (po_TotalYTokens (GetPool s (mal_PoolId m)))"
    "Amount (po_Supply (GetPool s (mal_PoolId m))) \<noteq> 0 \<longrightarrow>
      y = tdiv (Amount (mal_Amount m) * Amount (po_TotalYTokens (GetPool s (mal_PoolId m)))) (pool_value (GetPool s (mal_PoolId m)))"
  using assms(2)
proof (cases rule: AddLiquidity_Inr)
  case (1 p y b b1 b2)
  note ok = pools_okD [OF assms(1) 1(1)]
  show ?thesis
    by (rule that [of y]) (use 1(2,6,8,9,13) ok in \<open>auto simp: GetPool_def SetPool_def pool_ok_def\<close>)
qed

lemma RemoveLiquidity_pool:
  assumes "pools_ok s" "RemoveLiquidity E m s = Inr s'"
  obtains w where "GetPool s' j = (if j = PoolIdFromYTokenDenom (Denom (mrl_YTokens m)) then (GetPool s j)\<lparr>
      po_Supply := coin_add_amount (po_Supply (GetPool s j)) (- w), po_AvailableAmount := po_AvailableAmount (GetPool s j) - w,
      po_TotalYTokens := coin_add_amount (po_TotalYTokens (GetPool s j)) (- Amount (mrl_YTokens m))\<rparr> else GetPool s j)"
    "0 < Amount (mrl_YTokens m)"
    "Amount (mrl_YTokens m) \<le> Amount (po_TotalYTokens (GetPool s (PoolIdFromYTokenDenom (Denom (mrl_YTokens m)))))"
    "w = tdiv (Amount (mrl_YTokens m) * pool_value (GetPool s (PoolIdFromYTokenDenom (Denom (mrl_YTokens m)))))
       (Amount (po_TotalYTokens (GetPool s (PoolIdFromYTokenDenom (Denom (mrl_YTokens m))))))"
  using assms(2)
proof (cases rule: RemoveLiquidity_Inr)
  case (1 p w b b1 b2)
  note ok = pools_okD [OF assms(1) 1(1)]
  show ?thesis
    by (rule that [of w]) (use 1(2,4,6,10,14) ok(1) in \<open>simp_all add: GetPool_SetPool, simp add: GetPool_def\<close>)
qed



text \<open>
  No profit from a round trip. A lender who deposits into a pool with supply and a positive value and takes out
  the new shares, or fewer, gets at most the deposit back.
\<close>

theorem deposit_withdraw_no_profit:
  assumes "pools_ok s" "Amount (po_Supply (GetPool s i)) \<noteq> 0" "0 < pool_value (GetPool s i)"
    and "AddLiquidity E ma s = Inr s1" "mal_PoolId ma = i" "pools_ok s1"
    and "RemoveLiquidity E mr s1 = Inr s2" "PoolIdFromYTokenDenom (Denom (mrl_YTokens mr)) = i"
    and "Amount (mrl_YTokens mr) \<le> Amount (po_TotalYTokens (GetPool s1 i)) - Amount (po_TotalYTokens (GetPool s i))"
  shows "po_AvailableAmount (GetPool s1 i) - po_AvailableAmount (GetPool s2 i) \<le> Amount (mal_Amount ma)"
proof -
  define a v Y y' where "a = Amount (mal_Amount ma)" and "v = pool_value (GetPool s i)"
    and "Y = Amount (po_TotalYTokens (GetPool s i))" and "y' = Amount (mrl_YTokens mr)"
  obtain y where y: "GetPool s1 i = (if i = mal_PoolId ma then (GetPool s i)\<lparr>
      po_Status := (if Amount (po_Supply (GetPool s i)) = 0 then ACTIVE else po_Status (GetPool s i)),
      po_Supply := coin_add_amount (po_Supply (GetPool s i)) (Amount (mal_Amount ma)),
      po_AvailableAmount := po_AvailableAmount (GetPool s i) + Amount (mal_Amount ma),
      po_TotalYTokens := coin_add_amount (po_TotalYTokens (GetPool s i)) y\<rparr> else GetPool s i)"
    "0 < a" "0 \<le> y" "0 \<le> Y" "y = tdiv (a * Y) v"
    using AddLiquidity_pool [OF assms(1,4), of i] assms(2,5) by (metis a_def v_def Y_def)
  obtain w where w: "GetPool s2 i = (if i = PoolIdFromYTokenDenom (Denom (mrl_YTokens mr)) then (GetPool s1 i)\<lparr>
      po_Supply := coin_add_amount (po_Supply (GetPool s1 i)) (- w), po_AvailableAmount := po_AvailableAmount (GetPool s1 i) - w,
      po_TotalYTokens := coin_add_amount (po_TotalYTokens (GetPool s1 i)) (- Amount (mrl_YTokens mr))\<rparr> else GetPool s1 i)"
    "0 < y'" "w = tdiv (y' * pool_value (GetPool s1 i)) (Amount (po_TotalYTokens (GetPool s1 i)))"
    using RemoveLiquidity_pool [OF assms(6,7), of i] assms(8) by (metis y'_def)
  have v: "0 < v" using assms(3) by (simp add: v_def)
  have s1: "pool_value (GetPool s1 i) = v + a" "Amount (po_TotalYTokens (GetPool s1 i)) = Y + y" "y' \<le> y"
    using y(1) assms(5,9) by (simp_all add: pool_value_def v_def a_def Y_def y'_def coin_add_amount_def)
  have Yy: "0 < Y + y" using w(2) s1(3) y(4) by linarith
  have "y * v \<le> a * Y" by (rule share_mint) (use y v in simp_all)
  then have "y * (v + a) \<le> a * (Y + y)" by (simp add: algebra_simps)
  moreover have "y' * (v + a) \<le> y * (v + a)" by (rule mult_right_mono) (use s1(3) v y(2) in simp_all)
  moreover have "w * (Y + y) \<le> y' * (v + a)" by (rule share_burn) (use w v y Yy s1 in simp_all)
  ultimately have "w * (Y + y) \<le> a * (Y + y)" by linarith
  then have "w \<le> a" using Yy by (simp add: mult_le_cancel_right)
  then show ?thesis using w(1) assms(8) by (simp add: a_def)
qed

definition second_deposit :: msg_add_liquidity where
  "second_deposit = \<lparr>mal_Lender = ''carol'', mal_PoolId = ''main'', mal_Amount = \<lparr>Denom = ''uusdc'', Amount = 10000000000\<rparr>\<rparr>"

definition second_withdraw :: msg_remove_liquidity where
  "second_withdraw = \<lparr>mrl_Lender = ''carol'', mrl_YTokens = \<lparr>Denom = ''ymain'', Amount = 10000000000\<rparr>\<rparr>"

definition pool_second :: lending_pool where
  "pool_second = pool_funded\<lparr>
     po_Supply := \<lparr>Denom = ''uusdc'', Amount = 110000000000\<rparr>, po_AvailableAmount := 110000000000,
     po_TotalYTokens := \<lparr>Denom = ''ymain'', Amount = 110000000000\<rparr>\<rparr>"

definition s_second :: "ledger lending" where
  "s_second = s_funded\<lparr>
     ch_bank := [(Account ''carol'', ''ymain'', 10000000000), (lending_acc, ''ymain'', - 10000000000), (lending_acc, ''ymain'', 10000000000),
       (lending_acc, ''uusdc'', 10000000000), (Account ''carol'', ''uusdc'', - 10000000000)] @ ch_bank s_funded,
     ln_pools := [(''main'', pool_second)]\<rparr>"

lemma pool_funded_fields: "po_Status pool_funded = ACTIVE" "po_AvailableAmount pool_funded = 100000000000" "po_TotalBorrowed pool_funded = 0"
    "po_TotalReserve pool_funded = 0" "po_Supply pool_funded = \<lparr>Denom = ''uusdc'', Amount = 100000000000\<rparr>"
    "po_TotalYTokens pool_funded = \<lparr>Denom = ''ymain'', Amount = 100000000000\<rparr>" "po_Id pool_funded = ''main''"
    "po_Config pool_funded = sample_config"
  by (simp_all add: pool_funded_def pool_new_def)

lemma s_funded_facts: "HasPool s_funded ''main''" "GetPool s_funded ''main'' = pool_funded" "ln_pools s_funded = [(''main'', pool_funded)]"
   "ch_bank s_funded = [(Account ''alice'', ''ymain'', 100000000000), (lending_acc, ''ymain'', - 100000000000), (lending_acc,
     ''ymain'', 100000000000), (lending_acc, ''uusdc'', 100000000000), (Account ''alice'', ''uusdc'', - 100000000000)] @ ch_bank s_genesis"
  by (simp_all add: HasPool_def GetPool_def s_funded_def s_pool_def store_run)

lemma run_second: "AddLiquidity sample_lenv second_deposit s_funded = Inr s_second"
  by (simp add: AddLiquidity_def MsgAddLiquidity_ValidateBasic_def second_deposit_def s_funded_facts pool_funded_fields CheckSupplyCap_def
      HasSupplyCap_def sample_config_def GetYTokenAmount_def int_quo_def pool_value_def YTokenDenom_def Y_TOKEN_DENOM_PREFIX_def
      coin_run bank_run SetPool_def store_run Let_def cong: bind_res_weak_cong)
    (simp add: s_second_def pool_second_def s_funded_facts)

lemma run_second_back: "\<exists>s'. RemoveLiquidity sample_lenv second_withdraw s_second = Inr s'"
proof -
  have v: "MsgRemoveLiquidity_ValidateBasic sample_lenv second_withdraw = Inr ()"
    by (simp add: MsgRemoveLiquidity_ValidateBasic_def second_withdraw_def has_prefix_def Y_TOKEN_DENOM_PREFIX_def coin_run)
  have i: "PoolIdFromYTokenDenom ''ymain'' = ''main''" by (simp add: PoolIdFromYTokenDenom_def has_prefix_def Y_TOKEN_DENOM_PREFIX_def)
  have p: "HasPool s_second ''main''" "GetPool s_second ''main'' = pool_second" by (simp_all add: HasPool_def GetPool_def s_second_def store_run)
  have f: "po_Status pool_second = ACTIVE" "po_AvailableAmount pool_second = 110000000000" "po_TotalBorrowed pool_second = 0"
    "po_TotalReserve pool_second = 0" "po_Supply pool_second = \<lparr>Denom = ''uusdc'', Amount = 110000000000\<rparr>"
    "po_TotalYTokens pool_second = \<lparr>Denom = ''ymain'', Amount = 110000000000\<rparr>"
    by (simp_all add: pool_second_def pool_funded_fields)
  have b: "ch_bank s_second = [(Account ''carol'', ''ymain'', 10000000000), (lending_acc, ''ymain'', - 10000000000), (lending_acc, ''ymain'', 10000000000),
       (lending_acc, ''uusdc'', 10000000000), (Account ''carol'', ''uusdc'', - 10000000000)] @ ch_bank s_funded"
    by (simp add: s_second_def)
  show ?thesis
    by (simp add: RemoveLiquidity_def v)
      (simp add: second_withdraw_def i p f GetUnderlyingAssetAmount_def int_quo_def pool_value_def coin_run b s_funded_facts bank_run SetPool_def Let_def
        cong: bind_res_weak_cong)
qed

theorem deposit_withdraw_no_profit_witness:
  "\<exists>s'. RemoveLiquidity sample_lenv second_withdraw s_second = Inr s' \<and>
     po_AvailableAmount (GetPool s_second ''main'') - po_AvailableAmount (GetPool s' ''main'') \<le> 10000000000"
proof -
  obtain s' where run: "RemoveLiquidity sample_lenv second_withdraw s_second = Inr s'" using run_second_back by blast
  have p: "GetPool s_second ''main'' = pool_second" by (simp add: GetPool_def s_second_def store_run)
  have ok: "pools_ok s_second"
    using lending_invD(1) [OF lending_reachable_inv [OF sample_lenv_ok sample_fresh chain_step [OF chain_ready(2) lending_step.add_liquidity [OF run_second]]]] .
  have i: "PoolIdFromYTokenDenom ''ymain'' = ''main''" by (simp add: PoolIdFromYTokenDenom_def has_prefix_def Y_TOKEN_DENOM_PREFIX_def)
  have "po_AvailableAmount (GetPool s_second ''main'') - po_AvailableAmount (GetPool s' ''main'') \<le> Amount (mal_Amount second_deposit)"
    by (rule deposit_withdraw_no_profit [OF sample_pools_ok(2) _ _ run_second _ ok run])
      (simp_all add: s_funded_facts p pool_second_def pool_funded_fields pool_value_def second_deposit_def second_withdraw_def i)
  then show ?thesis using run by (auto simp: second_deposit_def)
qed

end
