(* ===== verification/Lending_Accrual.thy ===== *)
theory Lending_Accrual
  imports Lending_Chain
begin

text \<open>
  The begin blocker of lending: what a block of interest does to every pool, and when it fails.
\<close>

section \<open>The walk over the pools\<close>




section \<open>A block of interest\<close>

text \<open>What a block may do to a tranche.\<close>

definition tranche_grows :: "pool_tranche \<Rightarrow> pool_tranche \<Rightarrow> bool" where
  "tranche_grows t t' \<longleftrightarrow> pt_Maturity t' = pt_Maturity t \<and> pt_TotalBorrowed t \<le> pt_TotalBorrowed t'
     \<and> pt_BorrowIndex t \<le> pt_BorrowIndex t' \<and> pt_TotalReserve t \<le> pt_TotalReserve t'
     \<and> pt_TotalReserve t' - pt_TotalReserve t \<le> pt_TotalBorrowed t' - pt_TotalBorrowed t"

lemma tranches_grow:
  assumes dec: "dec_ok E" and bpy: "blocks_ok E" and c: "config_ok c"
    and ts: "list_all2 (\<lambda>t t'. accrue_tranche E (blocks_per_year E) c t = Inr t') ts ts'"
    and ok: "\<forall>t \<in> set ts. 0 \<le> pt_TotalBorrowed t \<and> 0 \<le> pt_TotalReserve t \<and> 0 \<le> pt_BorrowIndex t"
  shows "list_all2 tranche_grows ts ts'"
  using ts ok
  by (induction rule: list_all2_induct)
    (use accrue_tranche_Inr [OF dec bpy [unfolded blocks_ok_def] c] in \<open>auto simp: tranche_grows_def\<close>)




section \<open>When a block fails\<close>

lemma accrue_total:
  assumes "blocks_ok E"
  shows "(\<exists>t'. accrue_tranche E (blocks_per_year E) c t = Inr t') \<longleftrightarrow> GetTrancheConfig (pc_Tranches c) (pt_Maturity t) \<noteq> None"
    and "GetTrancheConfig (pc_Tranches c) (pt_Maturity t) = None \<Longrightarrow> accrue_tranche E (blocks_per_year E) c t = Inl Panic"
proof -
  have "to_dec (sint (blocks_per_year E)) \<noteq> 0" using assms by (simp add: blocks_ok_def to_dec_def)
  then have "borrow_rate_per_block E a (blocks_per_year E) = Inr (dec_quo E a (to_dec (sint (blocks_per_year E))))" for a
    by (simp add: borrow_rate_per_block_def quo_def)
  then show "(\<exists>t'. accrue_tranche E (blocks_per_year E) c t = Inr t') \<longleftrightarrow> GetTrancheConfig (pc_Tranches c) (pt_Maturity t) \<noteq> None"
    "GetTrancheConfig (pc_Tranches c) (pt_Maturity t) = None \<Longrightarrow> accrue_tranche E (blocks_per_year E) c t = Inl Panic"
    by (auto simp: accrue_tranche_def Let_def split: option.split)
qed

definition configured :: "lending_pool \<Rightarrow> bool" where
  "configured p \<longleftrightarrow> (\<forall>t \<in> set (po_Tranches p). GetTrancheConfig (pc_Tranches (po_Config p)) (pt_Maturity t) \<noteq> None)"

lemma map_res_total:
  assumes "\<And>t. t \<in> set ts \<Longrightarrow> f t = Inl Panic \<or> (\<exists>y. f t = Inr y)"
  shows "map_res f ts = Inl Panic \<and> (\<exists>t \<in> set ts. f t = Inl Panic) \<or> (\<exists>ys. map_res f ts = Inr ys) \<and> (\<forall>t \<in> set ts. \<exists>y. f t = Inr y)"
  using assms
proof (induction ts)
  case Nil
  then show ?case by simp
next
  case (Cons t ts)
  then have IH: "map_res f ts = Inl Panic \<and> (\<exists>t \<in> set ts. f t = Inl Panic) \<or> (\<exists>ys. map_res f ts = Inr ys) \<and> (\<forall>t \<in> set ts. \<exists>y. f t = Inr y)"
    by simp
  from Cons.prems [of t] show ?case using IH by auto
qed

lemma UpdatePool_total:
  assumes "blocks_ok E"
  shows "if configured p then \<exists>p'. UpdatePool E p = Inr p' else UpdatePool E p = Inl Panic"
proof -
  have acc: "accrue_tranche E (blocks_per_year E) (po_Config p) t = Inl Panic \<or> (\<exists>y. accrue_tranche E (blocks_per_year E) (po_Config p) t = Inr y)" for t
    using accrue_total [OF assms, of "po_Config p" t] by blast
  let ?m = "map_res (accrue_tranche E (blocks_per_year E) (po_Config p)) (po_Tranches p)"
  have conf: "configured p \<longleftrightarrow> (\<forall>t \<in> set (po_Tranches p). \<exists>y. accrue_tranche E (blocks_per_year E) (po_Config p) t = Inr y)"
    unfolding configured_def accrue_total(1) [OF assms] ..
  from map_res_total [of "po_Tranches p" "accrue_tranche E (blocks_per_year E) (po_Config p)", OF acc]
  have "if configured p then \<exists>ys. ?m = Inr ys else ?m = Inl Panic"
    unfolding conf by auto
  then show ?thesis unfolding UpdatePool_def UpdatePoolTranches_def by (cases ?m) (simp_all split: if_splits)
qed



section \<open>The reserve after a repayment\<close>

lemma update_tranche_reserve:
  assumes "\<And>t. pt_TotalReserve (f t) = pt_TotalReserve t"
  shows "map pt_TotalReserve (update_tranche m f ts) = map pt_TotalReserve ts"
  using assms by (induction ts) auto

text \<open>
  The protocol fee of a repayment is counted twice against the lenders. A repayment takes its protocol fee off
  the reserve of the pool but not off the reserves of the tranches, from which the next block computes the
  reserve of the pool again: after that block the reserve is at least what the tranches held before the
  repayment, although the fee has been paid out.
\<close>

theorem repaid_fee_reserved_again:
  assumes "dec_ok E" "blocks_ok E" "pools_ok s" "HasPool s i" "0 \<le> Amount a" "0 \<le> interest" "fee \<le> interest"
    and "AfterPoolRepaid i m a interest fee actual s = Inr s1" "UpdatePool E (GetPool s1 i) = Inr p'"
  shows "po_TotalReserve (GetPool s1 i) = max 0 (po_TotalReserve (GetPool s i) - fee)
    \<and> sum_list (map pt_TotalReserve (po_Tranches (GetPool s i))) \<le> po_TotalReserve p'"
proof -
  have ok: "pools_ok s1" by (rule AfterPoolRepaid_pool(1) [OF assms(3-8)])
  have id: "po_Id (GetPool s i) = i" "pool_ok (GetPool s i)" using pools_okD [OF assms(3,4)] by simp_all
  obtain q where s1: "s1 = SetPool (NormalizePool q) s" "po_Id q = i"
    "po_TotalReserve q = po_TotalReserve (GetPool s i) - fee" "map pt_TotalReserve (po_Tranches q) = map pt_TotalReserve (po_Tranches (GetPool s i))"
    using assms(8) id(1) unfolding AfterPoolRepaid_def Let_def by (elim bindE) (auto simp: update_tranche_reserve)
  have g: "GetPool s1 i = NormalizePool q" using s1(1,2) by (simp add: GetPool_SetPool)
  have "map pt_TotalReserve (map normalize_tranche (po_Tranches q)) = map (max 0) (map pt_TotalReserve (po_Tranches q))"
    by (simp add: normalize_tranche_def max_def)
  also have "\<dots> = map pt_TotalReserve (po_Tranches (GetPool s i))"
    unfolding s1(4) using id(2) by (simp add: pool_ok_def max_def)
  finally have tr: "map pt_TotalReserve (po_Tranches (GetPool s1 i)) = map pt_TotalReserve (po_Tranches (GetPool s i))"
    unfolding g by (simp add: NormalizePool_def)
  have ok1: "pool_ok (GetPool s1 i)" by (rule pools_okD(2) [OF ok]) (use s1 in \<open>simp add: HasPool_SetPool\<close>)
  from UpdatePool_Inr [OF assms(9)] obtain ts where
    ts: "list_all2 (\<lambda>t t'. accrue_tranche E (blocks_per_year E) (po_Config (GetPool s1 i)) t = Inr t') (po_Tranches (GetPool s1 i)) ts"
    and p': "po_TotalReserve p' = sum_list (map pt_TotalReserve ts)" by auto
  have "list_all2 tranche_grows (po_Tranches (GetPool s1 i)) ts"
    by (rule tranches_grow [OF assms(1,2) _ ts]) (use ok1 in \<open>auto simp: pool_ok_def\<close>)
  then have "sum_list (map pt_TotalReserve (po_Tranches (GetPool s1 i))) \<le> sum_list (map pt_TotalReserve ts)"
    by (induction rule: list_all2_induct) (auto simp: tranche_grows_def)
  then show ?thesis using p' tr g s1(3) by (simp add: NormalizePool_def max_def)
qed

theorem repaid_fee_reserved_again_witness:
  "\<exists>s1 p'. AfterPoolRepaid ''main'' 31536000 \<lparr>Denom = ''uusdc'', Amount = 30000000000\<rparr> 249999999 24999999 24999999 s_accrued = Inr s1
    \<and> UpdatePool sample_lenv (GetPool s1 ''main'') = Inr p'
    \<and> po_TotalReserve (GetPool s1 ''main'') = 0 \<and> 24999999 \<le> po_TotalReserve p'"
proof -
  have p: "HasPool s_accrued ''main''" "GetPool s_accrued ''main'' = pool_accrued"
    by (simp_all add: HasPool_def GetPool_def s_accrued_simps store_run)
  have f: "po_Supply pool_accrued = \<lparr>Denom = ''uusdc'', Amount = 100000000000\<rparr>" "po_TotalReserve pool_accrued = 24999999"
    "po_Tranches pool_accrued = [\<lparr>pt_Maturity = 31536000, pt_BorrowIndex = 1008333333333333333, pt_TotalBorrowed = 30249999999, pt_TotalReserve = 24999999\<rparr>]"
    "po_Config pool_accrued = sample_config" "po_Id pool_accrued = ''main''"
    by (simp_all add: pool_accrued_def pool_open_def pool_funded_def pool_new_def)
  obtain s1 where s1: "AfterPoolRepaid ''main'' 31536000 \<lparr>Denom = ''uusdc'', Amount = 30000000000\<rparr> 249999999 24999999 24999999 s_accrued = Inr s1"
    by (simp add: AfterPoolRepaid_def p f coin_run Let_def)
  have ok: "pools_ok s_accrued" using lending_reachable_inv [OF sample_lenv_ok sample_fresh chain_loan(6)] by (rule lending_invD(1))
  have env: "dec_ok sample_lenv" "blocks_ok sample_lenv" using sample_lenv_ok by (simp_all add: env_ok_def)
  have "configured (GetPool s1 ''main'')"
    using s1 by (auto simp: AfterPoolRepaid_def p f coin_run Let_def GetPool_SetPool NormalizePool_def configured_def GetTrancheConfig_def
        sample_config_def normalize_tranche_def)
  then obtain p' where p': "UpdatePool sample_lenv (GetPool s1 ''main'') = Inr p'" using UpdatePool_total [OF env(2), of "GetPool s1 ''main''"] by auto
  show ?thesis
    using repaid_fee_reserved_again [OF env ok p(1) _ _ _ s1 p'] s1 p' by (auto simp: p f)
qed

end
