(* ===== verification/Lending_Loan_Props.thy ===== *)
theory Lending_Loan_Props
  imports Lending_Chain
begin

text \<open>
  The properties of the operations on a loan: application, collateral, disbursement, repayment,
  liquidation and redemption.
\<close>

lemma GetLoan_get: "kv_get (ln_loans s) i = Some l \<Longrightarrow> GetLoan s i = l"
  by (simp add: GetLoan_def)

section \<open>Application\<close>

text \<open>
  Apply. An application that succeeds was for a positive amount of the denom of an active pool, within
  its limits, its borrow cap and what it has available, for a maturity the pool offers. It charges the request
  fee and nothing else, draws the first pending DLC event, and stores one new loan, requested, under
  a vault address no loan had, with the terms of the message and of the pool; pools and other loans stay as
  they are.
\<close>

theorem Apply_correct:
  assumes "Apply E now m s = Inr s'"
  shows "\<exists>vault e tc. let p = GetPool s (ma_PoolId m); a = Amount (ma_BorrowAmount m); l = GetLoan s' vault in
     HasPool s (ma_PoolId m) \<and> po_Status p = ACTIVE \<and> Denom (ma_BorrowAmount m) = Denom (po_Supply p)
   \<and> 0 < a \<and> a \<le> po_AvailableAmount p \<and> CheckBorrowAmountLimit p a = Inr () \<and> CheckBorrowCap p a = Inr ()
   \<and> GetTrancheConfig (pc_Tranches (po_Config p)) (ma_Maturity m) = Some tc \<and> HasDCM s (ma_DCMId m)
   \<and> pay E (Account (ma_Borrower m)) (lnp_RequestFeeCollector (ln_params s)) (pc_RequestFee (po_Config p)) (ch_bank s)
       = Inr (ch_bank s')
   \<and> (\<exists>k ks. kv_keys (dl_pending s) = k # ks \<and> e = GetEvent s k)
   \<and> \<not> HasLoan s vault \<and> HasLoan s' vault \<and> lo_VaultAddress l = vault \<and> lo_Status l = LOAN_Requested
   \<and> lo_Borrower l = ma_Borrower m \<and> lo_BorrowerPubKey l = ma_BorrowerPubkey m \<and> lo_PoolId l = ma_PoolId m
   \<and> lo_BorrowAmount l = ma_BorrowAmount m \<and> lo_Maturity l = tc_Maturity tc \<and> lo_BorrowAPR l = tc_BorrowAPR tc
   \<and> lo_MaturityTime l = unix (now + i64 (tc_Maturity tc * 10 ^ 9))
   \<and> lo_OriginationFee l = truncate_int (dec_mul E (to_dec a) (pc_OriginationFeeFactor (po_Config p)))
   \<and> lo_DlcEventId l = ev_Id e \<and> lo_Referrer l = GetReferrer s (ma_ReferralCode m) \<and> lo_Authorizations l = []
   \<and> ln_pools s' = ln_pools s \<and> (\<forall>i. i \<noteq> vault \<longrightarrow> kv_get (ln_loans s') i = kv_get (ln_loans s) i)"
  using assms
proof (cases rule: Apply_Inr)
  case (1 p tc b vault dm e t l)
  note pl = GetAvailableLendingEvent_plain [OF 1(14)]
  have t: "ln_loans t = ln_loans s" "ln_pools t = ln_pools s" "ch_bank t = b" using pl by (simp_all add: books_same_def)
  have ev: "\<exists>k ks. kv_keys (dl_pending s) = k # ks \<and> e = GetEvent s k"
    using 1(14) by (auto simp: GetAvailableLendingEvent_def GetEvent_def Let_def split: list.splits)
  have v: "lo_VaultAddress l = vault" by (simp add: 1(15))
  have loans: "ln_loans s' = kv_set vault l (ln_loans s)"
    unfolding 1(16) by (simp add: UpdateDLCEvent_def SetDLCMeta_def SetLoanByOracle_def SetLoanByAddress_def t v)
  have rest: "ln_pools s' = ln_pools s" "ch_bank s' = b"
    unfolding 1(16) by (simp_all add: UpdateDLCEvent_def SetDLCMeta_def SetLoanByOracle_def SetLoanByAddress_def t)
  have g: "GetLoan s' vault = l" "HasLoan s' vault" using loans by (simp_all add: GetLoan_def HasLoan_def kv_has_def)
  show ?thesis
    unfolding Let_def 1(2) [symmetric]
    by (rule exI [of _ vault], rule exI [of _ e], rule exI [of _ tc])
      (use 1(1,3-11,13) ev in \<open>simp add: g rest loans, simp add: 1(15) zero_loan_def\<close>)
qed

theorem Apply_correct_witness:
  "\<exists>vault. \<not> HasLoan s_ready vault \<and> HasLoan s_applied vault \<and> lo_BorrowAmount (GetLoan s_applied vault) = \<lparr>Denom = ''uusdc'', Amount = 30000000000\<rparr>"
  using Apply_correct [OF run_applied] by (auto simp: Let_def sample_apply_def)

section \<open>Collateral\<close>




section \<open>Disbursement\<close>

lemma reject_status:
  assumes "reject l n s = Inr s'"
  shows "lo_Status (GetLoan s' (lo_VaultAddress l)) = LOAN_Rejected"
proof (cases "0 < n")
  case True
  then obtain l' where l': "set_auth_status n AUTH_REJECTED l = Inr l'" "s' = SetLoan (l'\<lparr>lo_Status := LOAN_Rejected\<rparr>) s"
    using assms by (auto simp: reject_def bind_res_eq_Inr)
  from set_auth_status_Inr [OF l'(1)] show ?thesis using l'(2) by (auto simp: GetLoan_def)
next
  case False
  then show ?thesis using assms by (auto simp: reject_def GetLoan_def)
qed

text \<open>
  C3. No loan is disbursed without its security. When a step of the approval leaves a loan open, the loan was
  authorized and not yet mature, every deposit of its current authorization had been verified on the Bitcoin
  chain, the DCM had signed the repayment CET, the oracle price was known and on the safe side of the liquidation
  price, the loan-to-value check passed at this price, the pool was active, had the amount available and was
  below its borrow cap; and exactly the borrowed amount has left the lending account.
\<close>

theorem disbursement_safe:
  assumes "bank_ok E" "dec_ok E" "lending_inv s" "kv_get (ln_loans s) (lo_VaultAddress l) = Some l"
    and "lo_Status l = LOAN_Requested \<or> lo_Status l = LOAN_Authorized"
    and "HandleApproval E now l s = Inr s'" "lo_Status (GetLoan s' (lo_VaultAddress l)) = LOAN_Open"
  shows "\<exists>a price. let p = GetPool s (lo_PoolId l); c = po_Config p in
     lo_Status l = LOAN_Authorized \<and> unix now < lo_MaturityTime l
   \<and> GetAuthorization s (lo_VaultAddress l) (GetAuthorizationId s (lo_VaultAddress l)) = Inr (Some a)
   \<and> (\<forall>tx \<in> set (au_DepositTxs a). dp_Status (GetDepositLog s tx) = DEPOSIT_VERIFIED)
   \<and> rc_DCMAdaptorSignatures (dm_RepaymentCet (GetDLCMeta s (lo_VaultAddress l))) \<noteq> []
   \<and> GetPrice (parse_dec E) s (lending_GetPricePair c) = Inr (Some price)
   \<and> \<not> ToBeLiquidated price (lo_LiquidationPrice l) (am_IsBasePriceAsset (pc_CollateralAsset c))
   \<and> CheckLTV E (lo_CollateralAmount l) (am_Decimals (pc_CollateralAsset c)) (Amount (lo_BorrowAmount l))
       (am_Decimals (pc_LendingAsset c)) (pc_MaxLtv c) price (am_IsBasePriceAsset (pc_CollateralAsset c)) = Inr True
   \<and> CheckBorrowCap p (Amount (lo_BorrowAmount l)) = Inr () \<and> po_Status p = ACTIVE
   \<and> Amount (lo_BorrowAmount l) \<le> po_AvailableAmount p
   \<and> (\<forall>d. balance E (ch_bank s') lending_acc d = balance E (ch_bank s) lending_acc d
        - (if d = Denom (lo_BorrowAmount l) then Amount (lo_BorrowAmount l) else 0))"
proof -
  have lok: "loan_ok s l" using lending_invD(7) [OF assms(3,4)] .
  have g: "GetLoan s (lo_VaultAddress l) = l" using assms(4) by (rule GetLoan_get)
  have auth: "lo_Status l = LOAN_Authorized" if "GetAuthorizationId s (lo_VaultAddress l) \<noteq> 0"
    using GetAuthorizationId_Requested [OF assms(3,4)] that assms(5) by auto
  from assms(6) show ?thesis
  proof (cases rule: HandleApproval_cases)
    case 1
    then show ?thesis using assms(5,7) g by auto
  next
    case 2
    then show ?thesis using reject_status [OF 2] assms(7) by simp
  next
    case (3 price a)
    from 3(8) show ?thesis
    proof (cases rule: try_approve_cases)
      case 1
      then show ?thesis using reject_status [OF 1] assms(7) by simp
    next
      case (2 t l')
      have fee: "0 \<le> lo_OriginationFee l" using lok by (simp add: loan_ok_def)
      from approve_Inr [OF assms(1,2) fee 2(3)] obtain l1 b where A:
        "po_Status (GetPool s (lo_PoolId l)) = ACTIVE" "Amount (lo_BorrowAmount l) \<le> po_AvailableAmount (GetPool s (lo_PoolId l))"
        "t = SetLoan l1 (AfterPoolBorrowed (lo_PoolId l) (lo_Maturity l) (lo_BorrowAmount l) (s\<lparr>ch_bank := b\<rparr>))"
        "\<And>m d. balance E b (ModuleAcc m) d = balance E (ch_bank s) (ModuleAcc m) d
          - (if m = ''lending'' \<and> Denom (lo_BorrowAmount l) = d then Amount (lo_BorrowAmount l) else 0)"
        by metis
      have bank: "ch_bank s' = b" by (simp add: 2(5) A(3) AfterPoolBorrowed_def SetPool_def Let_def)
      show ?thesis
        unfolding Let_def
        by (rule exI [of _ a], rule exI [of _ price])
          (use 3(1-7) 2(1,2) A(1,2,4) auth bank in \<open>auto simp: DepositsVerified_def list_all_iff RepaymentCetSigned_def\<close>)
    qed
  qed
qed

theorem disbursement_safe_witness:
  "\<exists>a. GetAuthorization s_verified ''vault'' (GetAuthorizationId s_verified ''vault'') = Inr (Some a)
    \<and> (\<forall>tx \<in> set (au_DepositTxs a). dp_Status (GetDepositLog s_verified tx) = DEPOSIT_VERIFIED)"
proof -
  have ok: "bank_ok sample_lenv" "dec_ok sample_lenv" using sample_lenv_ok by (simp_all add: env_ok_def)
  have f: "lo_VaultAddress loan_cets = ''vault''" "lo_Status loan_cets = LOAN_Authorized" by (simp_all add: loan_cets_def loan_applied_def)
  have l: "kv_get (ln_loans s_verified) (lo_VaultAddress loan_cets) = Some loan_cets" by (simp add: s_verified_simps store_run f)
  have o: "lo_Status (GetLoan s_open (lo_VaultAddress loan_cets)) = LOAN_Open" by (simp add: GetLoan_def s_open_def store_run f loan_open_def)
  show ?thesis
    using disbursement_safe [OF ok lending_reachable_inv [OF sample_lenv_ok sample_fresh chain_loan(4)] l _ run_approval o]
    by (auto simp: Let_def f)
qed

section \<open>Repayment\<close>





end
