(* ===== verification/Lending_Exit_Props.thy ===== *)
theory Lending_Exit_Props
  imports Lending_Chain
begin

text \<open>
  The properties of the ways out of a loan that is not repaid: the trigger of a liquidation and the
  redemption of the collateral; and the listing of loans by their status index.
\<close>

section \<open>The trigger of a liquidation\<close>

lemma open_liquidation_effect:
  assumes inv: "lending_inv s" and run: "open_liquidation E now (l\<lparr>lo_Status := st\<rparr>) price interest cet ty intent k s = Inr s'"
  shows "\<exists>lq. kv_get (li_store s') (GetLiquidationId s + 1) = Some lq \<and> lq_LoanId lq = lo_VaultAddress l
    \<and> lq_Status lq = LQ_LIQUIDATING
    \<and> lq_DebtAmount lq = \<lparr>Denom = am_Denom (pc_LendingAsset (po_Config (GetPool s (lo_PoolId l)))), Amount = Amount (lo_BorrowAmount l) + interest\<rparr>
    \<and> GetLoan s' (lo_VaultAddress l) = l\<lparr>lo_Status := st, lo_LiquidationId := GetLiquidationId s + 1\<rparr>
    \<and> ch_bank s' = ch_bank s \<and> ln_pools s' = ln_pools s"
  using run
proof (cases rule: open_liquidation_Inr)
  case (1 lq0 lq)
  from 1(4) have lq: "lq_Id lq = GetLiquidationId s + 1" "lq_LoanId lq = lq_LoanId lq0" "lq_DebtAmount lq = lq_DebtAmount lq0"
    "lq_Status lq = LQ_LIQUIDATING"
    by (auto simp: CreateLiquidation_def IncrementLiquidationId_def Let_def res_simps)
  have st: "li_store s' = kv_set (GetLiquidationId s + 1) lq (li_store s)" "ln_pools s' = ln_pools s"
    "ln_loans s' = kv_set (lo_VaultAddress l) (l\<lparr>lo_Status := st, lo_LiquidationId := GetLiquidationId s + 1\<rparr>) (ln_loans s)"
    using 1(5) lq(1) by (simp_all add: books_same_def)
  show ?thesis using st lq 1(2,3,6) by (simp add: GetLoan_def)
qed

text \<open>
  C21. Exactly the loans that must be are liquidated. The end blocker's step on an open loan makes it
  defaulted when its maturity has passed; otherwise liquidated when the oracle has a price other than
  zero that has reached the liquidation price; and otherwise leaves the state as it is. A triggered loan gets the
  next liquidation, open for liquidators, over its principal and the interest accrued so far; no coin moves and
  no pool changes.
\<close>

theorem liquidation_trigger:
  assumes "lending_inv s" "kv_get (ln_loans s) (lo_VaultAddress l) = Some l" "lo_Status l = LOAN_Open"
    and "lending_HandleLiquidation E now l s = Inr s'"
  shows "let c = po_Config (GetPool s (lo_PoolId l)); l' = GetLoan s' (lo_VaultAddress l);
       crossed = (\<exists>price. GetPrice (parse_dec E) s (lending_GetPricePair c) = Inr (Some price) \<and> price \<noteq> 0
         \<and> ToBeLiquidated price (lo_LiquidationPrice l) (am_IsBasePriceAsset (pc_CollateralAsset c))) in
     lo_Status l' = (if lo_MaturityTime l \<le> unix now then LOAN_Defaulted else if crossed then LOAN_Liquidated else LOAN_Open)
   \<and> (if lo_Status l' = LOAN_Open then s' = s
      else \<exists>lq i. GetCurrentInterest E s l = Inr i \<and> kv_get (li_store s') (lo_LiquidationId l') = Some lq
        \<and> lq_LoanId lq = lo_VaultAddress l \<and> lq_Status lq = LQ_LIQUIDATING
        \<and> Amount (lq_DebtAmount lq) = Amount (lo_BorrowAmount l) + Amount i
        \<and> l' = l\<lparr>lo_Status := lo_Status l', lo_LiquidationId := GetLiquidationId s + 1\<rparr>
        \<and> ch_bank s' = ch_bank s \<and> ln_pools s' = ln_pools s)"
proof -
  let ?c = "po_Config (GetPool s (lo_PoolId l))"
  have g: "GetLoan s (lo_VaultAddress l) = l" using assms(2) by (simp add: GetLoan_def)
  note run = assms(4) [unfolded lending_HandleLiquidation_def Let_def]
  show ?thesis
  proof (cases "lo_MaturityTime l \<le> unix now")
    case True
    then obtain i cet price where i: "GetCurrentInterest E s l = Inr i"
      "open_liquidation E now (l\<lparr>lo_Status := LOAN_Defaulted\<rparr>) price (Amount i) cet CET_DEFAULT_LIQUIDATION 2 1 s = Inr s'"
      using run by (auto elim!: bindE)
    from open_liquidation_effect [OF assms(1) i(2)] True i(1) show ?thesis by (auto simp: Let_def)
  next
    case False
    define q where "q = (case GetPrice (parse_dec E) s (lending_GetPricePair ?c) of Inl _ \<Rightarrow> Some 0 | Inr p \<Rightarrow> p)"
    obtain p where p: "q = Some p" using run False by (cases q) (simp_all add: q_def)
    note run' = run [folded q_def, unfolded p option.case]
    show ?thesis
    proof (cases "p \<noteq> 0 \<and> ToBeLiquidated p (lo_LiquidationPrice l) (am_IsBasePriceAsset (pc_CollateralAsset ?c))")
      case True
      then have pr: "GetPrice (parse_dec E) s (lending_GetPricePair ?c) = Inr (Some p)" using p by (auto simp: q_def split: sum.splits)
      obtain i cet where i: "GetCurrentInterest E s l = Inr i"
        "open_liquidation E now (l\<lparr>lo_Status := LOAN_Liquidated\<rparr>) (Some p) (Amount i) cet CET_LIQUIDATION 1 0 s = Inr s'"
        using run' False True by (auto elim!: bindE)
      from open_liquidation_effect [OF assms(1) i(2)] False True pr i(1) show ?thesis by (auto simp: Let_def)
    next
      case no: False
      have "s' = s" using run' False assms(3) by (simp only: no if_False) simp
      moreover have "\<not> (\<exists>price. GetPrice (parse_dec E) s (lending_GetPricePair ?c) = Inr (Some price) \<and> price \<noteq> 0
         \<and> ToBeLiquidated price (lo_LiquidationPrice l) (am_IsBasePriceAsset (pc_CollateralAsset ?c)))"
        using no p by (auto simp: q_def)
      ultimately show ?thesis using False g assms(3) by (simp add: Let_def)
    qed
  qed
qed

theorem liquidation_trigger_witness:
  "lo_Status (GetLoan s_liquidating ''vault'') = LOAN_Liquidated \<and> ln_pools s_liquidating = ln_pools s_fallen"
proof -
  have f: "lo_VaultAddress loan_open = ''vault''" "lo_Status loan_open = LOAN_Open" "lo_MaturityTime loan_open = 31536000"
    by (simp_all add: loan_open_def loan_cets_def loan_applied_def)
  have l: "kv_get (ln_loans s_fallen) (lo_VaultAddress loan_open) = Some loan_open" by (simp add: s_fallen_simps store_run f)
  have st: "lo_Status (GetLoan s_liquidating ''vault'') = LOAN_Liquidated"
    by (simp add: GetLoan_def s_liquidating_simps store_run loan_liquidating_def)
  show ?thesis
    using liquidation_trigger [OF lending_reachable_inv [OF sample_lenv_ok sample_fresh chain_liquidated(1)] l f(2) run_triggered] st
    by (auto simp: Let_def f)
qed

section \<open>Redemption of the collateral\<close>










section \<open>Listing\<close>

lemma ids_with_filter:
  fixes prim :: "('i::linorder, 'x) kv" and idx :: "('s::linorder \<times> 'i, unit) kv"
  assumes "index_ok prim idx oid ost"
  shows "ids_with st idx = map fst (filter (\<lambda>p. ost (snd p) = st) prim)"
proof -
  have ok: "kv_ok prim" "kv_ok idx" using assms by (simp_all add: index_ok_def)
  have sorted: "sorted_wrt (<) (map fst (filter (\<lambda>p. ost (snd p) = st) prim))"
    using ok(1) unfolding kv_ok_def kv_keys_def sorted_wrt_map by (rule sorted_wrt_filter)
  have get: "p \<in> set prim \<longleftrightarrow> kv_get prim (fst p) = Some (snd p)" for p
    using map_of_eq_Some_iff [of prim] kv_ok_distinct [OF ok(1)] by (cases p) (simp add: kv_keys_def kv_get_def)
  have "set (ids_with st idx) = set (map fst (filter (\<lambda>p. ost (snd p) = st) prim))"
  proof (rule set_eqI)
    fix i
    have "i \<in> set (ids_with st idx) \<longleftrightarrow> (\<exists>x. kv_get prim i = Some x \<and> ost x = st)" using assms by (simp add: set_ids_with index_ok_def)
    also have "\<dots> \<longleftrightarrow> (\<exists>p \<in> set prim. fst p = i \<and> ost (snd p) = st)" using get by force
    finally show "i \<in> set (ids_with st idx) \<longleftrightarrow> i \<in> set (map fst (filter (\<lambda>p. ost (snd p) = st) prim))" by auto
  qed
  then show ?thesis by (rule strict_sorted_equal [OF sorted sorted_ids_with [OF ok(2)]])
qed

text \<open>
  The status index lists the loans it should. In every reachable state the loans the block handlers
  visit for a status, found by walking the secondary index and reading each loan, are all stored loans of
  that status, each once, in the order of their vault addresses.
\<close>

theorem GetLoans_filter:
  assumes "env_ok E" "lending_fresh s0" "lending_reachable E gov s0 s"
  shows "GetLoans s st = filter (\<lambda>l. lo_Status l = st) (GetAllLoans s)"
proof -
  note idx = lending_invD(2) [OF lending_reachable_inv [OF assms]]
  have ok: "kv_ok (ln_loans s)" using idx by (simp add: index_ok_def)
  have get: "GetLoan s (fst p) = snd p" if "p \<in> set (ln_loans s)" for p
  proof -
    have "kv_get (ln_loans s) (fst p) = Some (snd p)"
      using that kv_ok_distinct [OF ok] by (cases p) (auto simp: kv_keys_def kv_get_def)
    then show ?thesis by (simp add: GetLoan_def)
  qed
  have "GetLoans s st = map (\<lambda>p. GetLoan s (fst p)) (filter (\<lambda>p. lo_Status (snd p) = st) (ln_loans s))"
    unfolding GetLoans_def ids_with_filter [OF idx] by simp
  also have "\<dots> = map snd (filter (\<lambda>p. lo_Status (snd p) = st) (ln_loans s))"
    by (rule map_cong [OF refl]) (auto simp: get)
  finally show ?thesis by (simp add: GetAllLoans_def filter_map comp_def)
qed

theorem GetLoans_filter_witness:
  "GetLoans s_open LOAN_Open = filter (\<lambda>l. lo_Status l = LOAN_Open) [loan_open]"
  using GetLoans_filter [OF sample_lenv_ok sample_fresh chain_loan(5), of LOAN_Open]
  by (simp add: GetAllLoans_def s_open_def)

end
