(* ===== verification/Liquidation_Props.thy ===== *)
theory Liquidation_Props
  imports Lending_Chain
begin

text \<open>
  The properties of the liquidation module: its books, what a liquidator pays and gets, when a liquidation
  can be opened, what a settlement pays to the pool and on the Bitcoin chain, and its genesis.
\<close>

section \<open>The books of a liquidation\<close>

text \<open>
  C29. The books of a liquidation. In every reachable state the debt liquidated so far stays within the debt,
  and the records of the liquidators account for all of it: their debt adds up to the liquidated
  debt, and their collateral and bonus, with the fee of the protocol, to the liquidated collateral. Until the
  settlement, liquidated and unliquidated collateral and the reserve for the network fee are the collateral.
\<close>

theorem liquidation_books:
  assumes "env_ok E" "lending_fresh s0" "lending_reachable E gov s0 s" "HasLiquidation s i"
  shows "let l = GetLiquidation s i in
      0 \<le> Amount (lq_LiquidatedDebtAmount l) \<and> Amount (lq_LiquidatedDebtAmount l) \<le> Amount (lq_DebtAmount l)
    \<and> Amount (lq_LiquidatedDebtAmount l) = record_sum record_debt i s
    \<and> Amount (lq_LiquidatedCollateralAmount l) = record_sum record_collateral i s + Amount (lq_ProtocolLiquidationFee l)
    \<and> 0 \<le> Amount (lq_ProtocolLiquidationFee l) \<and> Amount (lq_ProtocolLiquidationFee l) \<le> Amount (lq_LiquidationBonusAmount l)
    \<and> 0 \<le> Amount (lq_UnliquidatedCollateralAmount l)
    \<and> (lq_Status l = LQ_LIQUIDATING \<or> lq_Status l = LQ_LIQUIDATED \<longrightarrow>
        Amount (lq_LiquidatedCollateralAmount l) + Amount (lq_UnliquidatedCollateralAmount l)
          + LiquidationNetworkFeeReserve = Amount (lq_ActualCollateralAmount l))"
proof -
  have inv: "liq_inv s" by (rule lending_invD(3) [OF lending_reachable_inv [OF assms(1-3)]])
  have l: "kv_get (li_store s) i = Some (GetLiquidation s i)"
    using assms(4) by (auto simp: HasLiquidation_def kv_has_def GetLiquidation_def)
  show ?thesis
    using liq_invD(1,3,4) [OF inv l] by (simp add: liq_ok_def books_ok_def Let_def)
qed

theorem liquidation_books_witness:
  "record_sum record_debt 1 s_full = 30249999999 \<and> record_sum record_collateral 1 s_full + 378124 = 79406248"
  using liquidation_books [OF sample_lenv_ok sample_fresh chain_liquidated(4), of 1]
  by (simp add: HasLiquidation_def GetLiquidation_def s_full_simps store_run liq_full_def liq_part_def liq_liquidating_def Let_def)

section \<open>Liquidators\<close>

text \<open>
  Liquidate. A liquidation step that succeeds is of an open liquidation in its denom. The liquidator pays \<open>d\<close> and is
  owed \<open>c\<close> and a bonus, priced by the oracle: \<open>d\<close> is what was offered, at most the debt that is left, and \<open>c\<close> its worth;
  or \<open>c\<close> is all the collateral that is left and \<open>d\<close> its worth, which is no more than what was offered. Nobody takes more
  collateral than is left; exactly \<open>d\<close> moves, from the liquidator to the liquidation account; and the step
  is recorded under a fresh id.
\<close>

theorem Liquidate_correct:
  assumes "env_ok E" "lending_fresh s0" "lending_reachable E gov s0 s" "price_ok (parse_dec E) s"
    "Liquidate E now m s = Inr s'"
  shows "\<exists>l price c d bonus fee b. let D = ml_DebtAmount m; u = Amount (lq_UnliquidatedCollateralAmount l);
        offer = min (Amount D) (Amount (lq_DebtAmount l) - Amount (lq_LiquidatedDebtAmount l));
        j = GetLiquidationRecordId s + 1; cdenom = am_Denom (lq_CollateralAsset l) in
      HasLiquidation s (ml_LiquidationId m) \<and> l = GetLiquidation s (ml_LiquidationId m)
    \<and> lq_Status l = LQ_LIQUIDATING \<and> Denom D = Denom (lq_DebtAmount l) \<and> 0 < Amount D
    \<and> GetPrice (parse_dec E) s (liquidation_GetPricePair l) = Inr (Some price)
    \<and> (d = offer \<and> GetCollateralAmount E d (am_Decimals (lq_DebtAsset l)) (am_Decimals (lq_CollateralAsset l)) price
          (am_IsBasePriceAsset (lq_CollateralAsset l)) = Inr c
       \<or> c = u \<and> GetDebtAmount E c (am_Decimals (lq_CollateralAsset l)) (am_Decimals (lq_DebtAsset l)) price
          (am_IsBasePriceAsset (lq_CollateralAsset l)) = Inr d)
    \<and> 0 \<le> d \<and> d \<le> offer \<and> 0 \<le> c \<and> 0 \<le> bonus \<and> c + bonus \<le> u \<and> 0 \<le> fee \<and> fee \<le> bonus
    \<and> s' = SetLiquidationRecord \<lparr>lr_Id = j, lr_LiquidationId = ml_LiquidationId m, lr_Liquidator = ml_Liquidator m,
         lr_DebtAmount = \<lparr>Denom = Denom D, Amount = d\<rparr>, lr_CollateralAmount = \<lparr>Denom = cdenom, Amount = c\<rparr>,
         lr_BonusAmount = \<lparr>Denom = cdenom, Amount = bonus - fee\<rparr>, lr_Time = now\<rparr>
        (SetLiquidation (liquidated l \<lparr>Denom = Denom D, Amount = d\<rparr> c bonus fee) (s\<lparr>ch_bank := b, li_record_id := Some j\<rparr>))
    \<and> (\<forall>x y. balance E b x y = balance E (ch_bank s) x y
        + (if x = liquidation_acc \<and> y = Denom D then d else 0) - (if x = Account (ml_Liquidator m) \<and> y = Denom D then d else 0))"
  using assms(5)
proof (cases rule: Liquidate_Inr)
  case (1 r)
  have ok: "bank_ok E" "dec_ok E" using assms(1) by (simp_all add: env_ok_def)
  have inv: "liq_inv s" by (rule lending_invD(3) [OF lending_reachable_inv [OF assms(1-3)]])
  from 1(2) show ?thesis
  proof (cases rule: HandleLiquidation_Inr)
    case (1 l price c0 c d bonus0 bonus fee b j)
    have l: "HasLiquidation s (ml_LiquidationId m)" "GetLiquidation s (ml_LiquidationId m) = l"
      using 1(1) by (auto simp: HasLiquidation_def kv_has_def GetLiquidation_def)
    have pos: "0 < price" using assms(4) 1(6) by (auto simp: price_ok_def)
    have lok: "liq_ok l" by (rule liq_invD(3) [OF inv 1(1)])
    note am = liquidation_amounts [OF ok(2) pos _ _ _ 1(7,8,10,11,12)]
    have am: "0 \<le> d" "d \<le> min (Amount (ml_DebtAmount m)) (Amount (lq_DebtAmount l) - Amount (lq_LiquidatedDebtAmount l))"
      "0 \<le> c" "0 \<le> bonus" "c + bonus \<le> Amount (lq_UnliquidatedCollateralAmount l)" "0 \<le> fee" "fee \<le> bonus"
      using am 1(5) \<open>0 < Amount (ml_DebtAmount m)\<close> lok inv by (simp_all add: liq_ok_def liq_inv_def)
    have bal: "balance E b x y = balance E (ch_bank s) x y
        + (if x = liquidation_acc \<and> y = Denom (ml_DebtAmount m) then d else 0)
        - (if x = Account (ml_Liquidator m) \<and> y = Denom (ml_DebtAmount m) then d else 0)" for x y
      using bank_send [OF ok(1) 1(9)] by simp
    show ?thesis
      unfolding Let_def
      by (rule exI [of _ l], rule exI [of _ price], rule exI [of _ c], rule exI [of _ d], rule exI [of _ bonus],
          rule exI [of _ fee], rule exI [of _ b])
        (use l 1(2,4,6,7,8) 1(16-) am bal \<open>0 < Amount (ml_DebtAmount m)\<close> in \<open>auto split: if_splits\<close>)
  qed
qed

theorem Liquidate_correct_witness:
  "\<exists>c d bonus. 0 \<le> d \<and> d \<le> 10000000000 \<and> 0 \<le> c \<and> 0 \<le> bonus \<and> c + bonus \<le> 99980000
     \<and> (GetCollateralAmount sample_lenv d 6 8 40000000000000000000000 True = Inr c \<or> c = 99980000)"
proof -
  have pr: "price_ok (parse_dec sample_lenv) s_liquidating" by (simp add: sample_price_pos s_liquidating_simps)
  have l: "GetLiquidation s_liquidating 1 = liq_liquidating"
    by (simp add: GetLiquidation_def s_liquidating_simps store_run)
  from Liquidate_correct [OF sample_lenv_ok sample_fresh chain_liquidated(2) pr run_part] show ?thesis
    unfolding Let_def
  proof (elim exE conjE, goal_cases)
    case (1 q price c d bonus fee b)
    have "price = 40000000000000000000000"
      using 1(2,6) by (simp add: l liq_fields liquidation_GetPricePair_def liq_price s_liquidating_simps)
    then show ?case using 1(2,7-12) by (intro exI [of _ c] exI [of _ d] exI [of _ bonus]) (auto simp: l liq_fields)
  qed
qed

text \<open>
  Opening a liquidation. A liquidation over a fresh debt is opened exactly when the output of the liquidation
  transaction covers the reserve for the network fee: it then gets the next id, is open for liquidators, and
  everything above the reserve can be liquidated. Otherwise the subtraction of coins panics, and with it the end
  blocker that triggered the loan.
\<close>

theorem CreateLiquidation_correct:
  assumes "fresh_liquidation l"
  shows "CreateLiquidation l s =
    (if Amount (lq_ActualCollateralAmount l) < 10000 then Inl Panic
     else let l' = l\<lparr>lq_Id := GetLiquidationId s + 1,
            lq_UnliquidatedCollateralAmount := (lq_ActualCollateralAmount l)\<lparr>Amount := Amount (lq_ActualCollateralAmount l) - 10000\<rparr>,
            lq_Status := LQ_LIQUIDATING\<rparr>
          in Inr (l', SetLiquidation l' (s\<lparr>li_id := Some (GetLiquidationId s + 1)\<rparr>)))"
  using assms
  by (auto simp: CreateLiquidation_def fresh_liquidation_def IncrementLiquidationId_def LiquidationNetworkFeeReserve_def
      coin_sub_def coin_sub_amount_def coin_add_amount_def Let_def)

theorem CreateLiquidation_correct_witness:
  "CreateLiquidation (zero_liquidation\<lparr>lq_ActualCollateralAmount := \<lparr>Denom = '''', Amount = 9999\<rparr>\<rparr>) s_ready = Inl Panic"
  by (subst CreateLiquidation_correct) (simp_all add: fresh_liquidation_def zero_liquidation_def nil_coin_def)

section \<open>Settlement\<close>





section \<open>Genesis\<close>

lemma kv_unit_ext:
  fixes m m' :: "('k::linorder, unit) kv"
  assumes "kv_ok m" "kv_ok m'" "\<And>k. kv_has m k \<longleftrightarrow> kv_has m' k"
  shows "m = m'"
proof (rule kv_ext [OF assms(1,2)])
  fix k
  show "kv_get m k = kv_get m' k"
    using assms(3) [of k] by (cases "kv_get m k"; cases "kv_get m' k") (simp_all add: kv_has_def)
qed

lemma index_determined:
  assumes "index_ok prim idx oid ost" "index_ok prim idx' oid ost"
  shows "idx = idx'"
  using assms by (intro kv_unit_ext) (auto simp: index_ok_def)

lemma kv_sorted_values:
  assumes "kv_ok m" "\<And>i x. kv_get m i = Some x \<Longrightarrow> f x = i"
  shows "map f (map snd m) = kv_keys m" "map (\<lambda>x. (f x, x)) (map snd m) = m"
proof -
  have f: "f (snd p) = fst p" if "p \<in> set m" for p
  proof (rule assms(2))
    show "kv_get m (fst p) = Some (snd p)"
      using that kv_ok_distinct [OF assms(1)] by (simp add: kv_get_def kv_keys_def)
  qed
  then show "map f (map snd m) = kv_keys m" by (simp add: kv_keys_def)
  show "map (\<lambda>x. (f x, x)) (map snd m) = m" using f by (auto intro: map_idI)
qed

lemma kv_values:
  assumes "kv_ok m" "\<And>i x. kv_get m i = Some x \<Longrightarrow> f x = i"
  shows "x \<in> snd ` set m \<longleftrightarrow> kv_get m (f x) = Some x"
proof -
  have "kv_get m k = Some x \<longleftrightarrow> (k, x) \<in> set m" for k
    using kv_ok_distinct [OF assms(1)] by (simp add: kv_get_def kv_keys_def)
  then show ?thesis using assms(2) [of _ x] by force
qed

lemma kv_rewrite:
  assumes "kv_ok m" "\<And>i x. kv_get m i = Some x \<Longrightarrow> f x = i"
  shows "fold (\<lambda>x. kv_set (f x) x) (map snd m) [] = m"
proof -
  have "sorted_wrt (<) (map f (map snd m))" using assms by (simp only: kv_sorted_values(1)) (simp add: kv_ok_def)
  from fold_kv_set_sorted [OF this, of "[]"] kv_sorted_values(2) [OF assms] show ?thesis
    by (simp add: kv_keys_def del: map_map)
qed

lemma fold_SetLiquidation:
  "li_store (fold SetLiquidation xs s) = fold (\<lambda>x. kv_set (lq_Id x) x) xs (li_store s)"
  "li_params (fold SetLiquidation xs s) = li_params s" "li_id (fold SetLiquidation xs s) = li_id s"
  "li_record_id (fold SetLiquidation xs s) = li_record_id s" "li_records (fold SetLiquidation xs s) = li_records s"
  "li_records_by (fold SetLiquidation xs s) = li_records_by s"
  by (induction xs arbitrary: s) simp_all

lemma fold_SetLiquidation_index:
  "index_ok (li_store s) (li_by_status s) lq_Id lq_Status \<Longrightarrow>
     index_ok (li_store (fold SetLiquidation xs s)) (li_by_status (fold SetLiquidation xs s)) lq_Id lq_Status"
  by (induction xs arbitrary: s) (simp_all only: fold_simps liqs.put_index_ok)

lemma fold_SetLiquidationRecord:
  "li_records (fold SetLiquidationRecord rs s) = fold (\<lambda>r. kv_set (lr_Id r) r) rs (li_records s)"
  "li_store (fold SetLiquidationRecord rs s) = li_store s" "li_by_status (fold SetLiquidationRecord rs s) = li_by_status s"
  "li_params (fold SetLiquidationRecord rs s) = li_params s" "li_id (fold SetLiquidationRecord rs s) = li_id s"
  "li_record_id (fold SetLiquidationRecord rs s) = li_record_id s"
  "kv_ok (li_records_by s) \<Longrightarrow> kv_ok (li_records_by (fold SetLiquidationRecord rs s))"
  "kv_has (li_records_by (fold SetLiquidationRecord rs s)) k \<longleftrightarrow>
     kv_has (li_records_by s) k \<or> (\<exists>r \<in> set rs. k = (lr_LiquidationId r, lr_Id r))"
  by (induction rs arbitrary: s) (auto simp: SetLiquidationRecord_def)

text \<open>
  Genesis of the liquidations. Importing what a reachable state exports into an empty module restores the
  parameters, the liquidations, the records and both secondary indexes exactly. The two counters are not exported:
  they start again at zero, so the next liquidation draws the id 1 again.
\<close>

theorem liquidation_genesis_roundtrip:
  assumes "env_ok E" "lending_fresh s0" "lending_reachable E gov s0 s"
    and "li_store e = []" "li_by_status e = []" "li_records e = []" "li_records_by e = []" "li_id e = None" "li_record_id e = None"
  shows "let s' = liquidation_InitGenesis (liquidation_ExportGenesis s) e in
      li_params s' = li_params s \<and> li_store s' = li_store s \<and> li_by_status s' = li_by_status s
    \<and> li_records s' = li_records s \<and> li_records_by s' = li_records_by s
    \<and> liquidation_ExportGenesis s' = liquidation_ExportGenesis s
    \<and> fst (IncrementLiquidationId s') = 1 \<and> fst (IncrementLiquidationRecordId s') = 1"
proof -
  have inv: "liq_inv s" by (rule lending_invD(3) [OF lending_reachable_inv [OF assms(1-3)]])
  have idx: "index_ok (li_store s) (li_by_status s) lq_Id lq_Status" "index_ok (li_records s) (li_records_by s) lr_Id lr_LiquidationId"
    using inv by (simp_all add: liq_inv_def records_ok_def)
  define s' where "s' = liquidation_InitGenesis (liquidation_ExportGenesis s) e"
  note E = s'_def liquidation_InitGenesis_def liquidation_ExportGenesis_def GetAllLiquidations_def GetAllLiquidationRecords_def
    fold_SetLiquidationRecord fold_SetLiquidation assms(4-9)
  have par: "li_params s' = li_params s" "li_id s' = None" "li_record_id s' = None" by (simp_all add: E)
  have st: "li_store s' = li_store s"
    using kv_rewrite [of "li_store s" lq_Id] idx(1) by (simp add: E index_ok_def)
  have rs: "li_records s' = li_records s"
    using kv_rewrite [of "li_records s" lr_Id] idx(2) by (simp add: E index_ok_def)
  have "index_ok (li_store s') (li_by_status s') lq_Id lq_Status"
    using fold_SetLiquidation_index [of "e\<lparr>li_params := li_params s\<rparr>" "map snd (li_store s)"] by (simp add: E index_ok_def)
  then have by_status: "li_by_status s' = li_by_status s" using idx(1) unfolding st by (rule index_determined)
  have "kv_has (li_records_by s') (c, i) \<longleftrightarrow> (\<exists>r. kv_get (li_records s) i = Some r \<and> lr_LiquidationId r = c)" for c i
  proof -
    have id: "lr_Id r = j" if "kv_get (li_records s) j = Some r" for j r using idx(2) that by (simp add: index_ok_def)
    have mem: "r \<in> snd ` set (li_records s) \<longleftrightarrow> kv_get (li_records s) (lr_Id r) = Some r" for r
      by (rule kv_values) (use idx(2) in \<open>auto simp: index_ok_def\<close>)
    have "kv_has (li_records_by s') (c, i) \<longleftrightarrow> (\<exists>r \<in> snd ` set (li_records s). (c, i) = (lr_LiquidationId r, lr_Id r))"
      by (simp add: E)
    also have "\<dots> \<longleftrightarrow> (\<exists>r. kv_get (li_records s) i = Some r \<and> lr_LiquidationId r = c)"
      unfolding Bex_def mem by (metis id prod.inject)
    finally show ?thesis .
  qed
  then have "index_ok (li_records s) (li_records_by s') lr_Id lr_LiquidationId"
    using idx(2) by (simp add: index_ok_def E)
  then have recs_by: "li_records_by s' = li_records_by s" using idx(2) by (rule index_determined)
  have "liquidation_ExportGenesis s' = liquidation_ExportGenesis s"
    by (simp add: liquidation_ExportGenesis_def GetAllLiquidations_def GetAllLiquidationRecords_def par st rs)
  then show ?thesis
    unfolding s'_def [symmetric] Let_def using par st rs by_status recs_by
    by (simp add: IncrementLiquidationId_def IncrementLiquidationRecordId_def GetLiquidationId_def GetLiquidationRecordId_def
        counter_def Let_def)
qed

theorem liquidation_genesis_roundtrip_witness:
  "let s' = liquidation_InitGenesis (liquidation_ExportGenesis s_full) s_genesis in
     li_store s' = [(1, liq_full)] \<and> fst (IncrementLiquidationId s') = 1"
  using liquidation_genesis_roundtrip [OF sample_lenv_ok sample_fresh chain_liquidated(4), of s_genesis]
  by (simp add: s_full_simps s_genesis_def Let_def)

end
