(* ===== verification/Node.thy ===== *)
theory Node
  imports Tss_Msgs
begin

text \<open>
  The composed node: the messages and block handlers of every module as one transition system. The callbacks of the
  protocol are no longer steps of their own but happen inside \<open>SubmitSignatures\<close> and the end blocker
  of the threshold-signing module. The node refines the transition system of \<open>Lending_Reach\<close>: every step of
  the node is a run of it on the state of the protocol. The second part is the invariant of key generation.
\<close>

section \<open>The transition system\<close>

text \<open>The messages, block handlers and writes of the protocol without the callbacks.\<close>

inductive protocol_step :: "('b, 'e) lenv_scheme \<Rightarrow> string \<Rightarrow> 'b lending \<Rightarrow> 'b lending \<Rightarrow> bool"
  for E :: "('b, 'e) lenv_scheme" and gov :: string where
  create_pool: "CreatePool E gov signer i c s = Inr s' \<Longrightarrow> protocol_step E gov s s'"
| add_liquidity: "AddLiquidity E ma s = Inr s' \<Longrightarrow> protocol_step E gov s s'"
| remove_liquidity: "RemoveLiquidity E mr s = Inr s' \<Longrightarrow> protocol_step E gov s s'"
| update_pool_config: "UpdatePoolConfig E gov signer i c s = Inr s' \<Longrightarrow> protocol_step E gov s s'"
| lending_params: "lending_UpdateParams E gov signer lp s = Inr s' \<Longrightarrow> protocol_step E gov s s'"
| liquidation_params: "liquidation_UpdateParams E gov signer qp s = Inr s' \<Longrightarrow> protocol_step E gov s s'"
| register_referrer: "RegisterReferrer E gov signer r s = Inr s' \<Longrightarrow> protocol_step E gov s s'"
| update_referrer: "UpdateReferrer E gov signer r s = Inr s' \<Longrightarrow> protocol_step E gov s s'"
| apply_loan: "Apply E now mp s = Inr s' \<Longrightarrow> protocol_step E gov s s'"
| submit_cets: "SubmitCets E height now mc s = Inr s' \<Longrightarrow> protocol_step E gov s s'"
| submit_deposit: "SubmitDepositTransaction E md s = Inr s' \<Longrightarrow> protocol_step E gov s s'"
| redeem: "Redeem E now me s = Inr s' \<Longrightarrow> protocol_step E gov s s'"
| repay: "Repay E now my s = Inr s' \<Longrightarrow> protocol_step E gov s s'"
| liquidate: "Liquidate E now ml s = Inr s' \<Longrightarrow> price_ok (parse_dec E) s \<Longrightarrow> GetLiquidationRecordId s \<noteq> - 1 \<Longrightarrow>
    protocol_step E gov s s'"
| lending_begin: "lending_BeginBlocker E s = Inr s' \<Longrightarrow> protocol_step E gov s s'"
| lending_end: "lending_EndBlocker E now s = Inr s' \<Longrightarrow> unat (GetLiquidationId s) + length (ln_loans s) < 2 ^ 64 \<Longrightarrow>
    protocol_step E gov s s'"
| liquidation_begin: "liquidation_BeginBlocker E s = Inr s' \<Longrightarrow> protocol_step E gov s s'"
| liquidation_end: "liquidation_EndBlocker E now s = Inr s' \<Longrightarrow> protocol_step E gov s s'"
| set_price: "protocol_step E gov s (SetPrice symbol price s)"
| set_fee_rate: "protocol_step E gov s (SetFeeRate height rate s)"
| set_headers: "protocol_step E gov s (snd (SetBlockHeaders hs s))"
| bridge_params: "protocol_step E gov s (s\<lparr>ch_fee_validity := v, ch_deposit_depth := d\<rparr>)"
| transfers: "(\<And>m d. balance E b (ModuleAcc m) d = balance E (ch_bank s) (ModuleAcc m) d) \<Longrightarrow>
    protocol_step E gov s (s\<lparr>ch_bank := b\<rparr>)"

text \<open>There are ids left for new key generations: a 64-bit counter does not wrap around.\<close>

definition ids_left :: "('b, 'x) node_scheme \<Rightarrow> bool" where
  "ids_left n \<longleftrightarrow> unat (counter (nd_dkg_id n)) + 2 < 2 ^ 64"

inductive node_step :: "('b, 'e) nenv_scheme \<Rightarrow> string \<Rightarrow> 'b node \<Rightarrow> 'b node \<Rightarrow> bool"
  for E :: "('b, 'e) nenv_scheme" and gov :: string where
  protocol: "protocol_step E gov (nd_chain n) c \<Longrightarrow> node_step E gov n (n\<lparr>nd_chain := c\<rparr>)"
| submit_signatures: "SubmitSignatures E now sender i sigs n = Inr n' \<Longrightarrow> node_step E gov n n'"
| complete_dkg: "tss_CompleteDKG E height now mk n = Inr n' \<Longrightarrow> node_step E gov n n'"
| refresh: "Refresh E gov now mf n = Inr n' \<Longrightarrow> node_step E gov n n'"
| complete_refreshing: "tss_CompleteRefreshing E now mg n = Inr n' \<Longrightarrow> node_step E gov n n'"
| tss_params: "tss_UpdateParams E gov signer tp n = Inr n' \<Longrightarrow> node_step E gov n n'"
| dlc_params: "dlc_UpdateParams E gov signer np n = Inr n' \<Longrightarrow> node_step E gov n n'"
| create_dcm: "dlc_CreateDCM E gov now md n = Inr n' \<Longrightarrow> ids_left n \<Longrightarrow> node_step E gov n n'"
| dlc_end: "dlc_EndBlocker E height now n = Inr n' \<Longrightarrow> ids_left n \<Longrightarrow> node_step E gov n n'"
| tss_end: "tss_EndBlocker now n = Inr n' \<Longrightarrow> node_step E gov n n'"

definition node_fresh :: "'b node \<Rightarrow> bool" where
  "node_fresh n \<longleftrightarrow> lending_fresh (nd_chain n) \<and> nd_dkgs n = [] \<and> nd_dkg_by_status n = [] \<and> nd_completions n = []
     \<and> nd_refreshings n = []"

inductive node_reachable :: "('b, 'e) nenv_scheme \<Rightarrow> string \<Rightarrow> 'b node \<Rightarrow> 'b node \<Rightarrow> bool"
  for E :: "('b, 'e) nenv_scheme" and gov :: string and n0 :: "'b node" where
  start: "node_reachable E gov n0 n0"
| step: "node_reachable E gov n0 n \<Longrightarrow> node_step E gov n n' \<Longrightarrow> node_reachable E gov n0 n'"

section \<open>The node refines the protocol\<close>

lemma protocol_step_lending: "protocol_step E gov s s' \<Longrightarrow> lending_step E gov s s'"
  by (induction rule: protocol_step.induct) (blast intro: lending_step.intros)+

text \<open>What does not touch the state of the protocol.\<close>

lemma chain_simps [simp]:
  "nd_chain (SetOracleParticipantLiveness l n) = nd_chain n" "nd_chain (RemoveOracleParticipantLiveness k n) = nd_chain n"
  "nd_chain (SetDKGCompletion dc n) = nd_chain n" "nd_chain (SetDKGRequestId i n) = nd_chain n"
  "nd_chain (SetRefreshingRequest r n) = nd_chain n" "nd_chain (SetRefreshingCompletion rc n) = nd_chain n"
  "nd_chain (snd (InitiateDKG now m ty intent ps th bs to n)) = nd_chain n"
  "nd_chain (snd (InitiateRefreshingRequest now i ps to n)) = nd_chain n"
  by (simp_all add: SetOracleParticipantLiveness_def RemoveOracleParticipantLiveness_def SetDKGCompletion_def SetDKGRequestId_def
      SetRefreshingRequest_def SetRefreshingCompletion_def InitiateDKG_def InitiateRefreshingRequest_def
      IncrementRefreshingRequestId_def Let_def)

text \<open>Updates of the liveness only.\<close>

definition liveness_only :: "('b, 'x) node_scheme \<Rightarrow> ('b, 'x) node_scheme \<Rightarrow> bool" where
  "liveness_only n n' \<longleftrightarrow> (\<exists>l. n' = n\<lparr>nd_liveness := l\<rparr>)"

lemma liveness_only_refl: "liveness_only n n"
  unfolding liveness_only_def by (rule exI [of _ "nd_liveness n"]) simp

lemma liveness_only_trans: "liveness_only n t \<Longrightarrow> liveness_only t u \<Longrightarrow> liveness_only n u"
  by (auto simp: liveness_only_def)

lemma liveness_only_fold: "(\<And>x t. liveness_only t (f x t)) \<Longrightarrow> liveness_only n (fold f xs n)"
  by (induction xs arbitrary: n) (auto intro: liveness_only_refl liveness_only_trans)

lemma liveness_only_set: "liveness_only n (SetOracleParticipantLiveness l n)" "liveness_only n (RemoveOracleParticipantLiveness k n)"
  by (auto simp: liveness_only_def SetOracleParticipantLiveness_def RemoveOracleParticipantLiveness_def)

lemma liveness_only_handlers:
  fixes n :: "('b, 'x) node_scheme"
  shows "liveness_only n (DKGTimeoutHandler i ty absent n)" "liveness_only n (DKGCompletionReceivedHandler height i ty p n)"
  "liveness_only n (UpdateOracleParticipantsLiveness old new n)"
proof -
  have "liveness_only t (absent_step i p t)" for p and t :: "('b, 'x) node_scheme"
    by (simp add: absent_step_def Let_def liveness_only_refl liveness_only_set)
  then have "liveness_only n (fold (absent_step i) absent n)" by (rule liveness_only_fold)
  then show "liveness_only n (DKGTimeoutHandler i ty absent n)"
    by (simp add: DKGTimeoutHandler_def liveness_only_refl)
  show "liveness_only n (DKGCompletionReceivedHandler height i ty p n)"
    by (simp add: DKGCompletionReceivedHandler_def liveness_only_refl liveness_only_set)
  show "liveness_only n (UpdateOracleParticipantsLiveness old new n)"
    unfolding UpdateOracleParticipantsLiveness_def Let_def
    by (rule liveness_only_trans; rule liveness_only_fold) (simp_all add: liveness_only_refl liveness_only_set)
qed

lemma liveness_onlyD:
  assumes "liveness_only n n'"
  shows "nd_chain n' = nd_chain n" "nd_dkgs n' = nd_dkgs n" "nd_dkg_by_status n' = nd_dkg_by_status n" "nd_dkg_id n' = nd_dkg_id n"
    "nd_completions n' = nd_completions n" "nd_refreshings n' = nd_refreshings n"
  using assms by (auto simp: liveness_only_def)

text \<open>A callback that fails has done what it does for a shorter list of keys.\<close>

lemma fold_until_prefix: "fold_until f xs s = (s', e) \<Longrightarrow> \<exists>k. fold_res f (take k xs) s = Inr s'"
proof (induction xs arbitrary: s)
  case Nil
  then show ?case by simp
next
  case (Cons x xs)
  show ?case
  proof (cases "f x s")
    case (Inl e')
    then have "s' = s" using Cons.prems by simp
    then show ?thesis by (intro exI [of _ 0]) simp
  next
    case (Inr t)
    with Cons obtain k where "fold_res f (take k xs) t = Inr s'" by auto
    then show ?thesis using Inr by (intro exI [of _ "Suc k"]) simp
  qed
qed

lemma DKGCompletedEffects_run:
  assumes "DKGCompletedEffects now i ty intent pks s = (s', e)"
  shows "s' = s \<or> (\<exists>pks'. DKGCompletedHandler now i ty intent pks' s = Inr s')"
proof (cases "e = None")
  case True
  then show ?thesis using assms DKGCompletedEffects_None by metis
next
  case False
  show ?thesis
  proof (cases "ty = ''nonce'' \<and> (\<exists>pk ns t. pks = pk # ns \<and> CreateOracle now i pk s = Inr t)")
    case True
    then obtain pk ns t where t: "ty = ''nonce''" "pks = pk # ns" "CreateOracle now i pk s = Inr t" by blast
    with assms have "fold_until (HandleNonce now pk intent) ns t = (s', e)" by (simp add: DKGCompletedEffects_def)
    from fold_until_prefix [OF this] obtain k where "fold_res (HandleNonce now pk intent) (take k ns) t = Inr s'" ..
    then have "DKGCompletedHandler now i ty intent (pk # take k ns) s = Inr s'"
      using t by (simp add: DKGCompletedHandler_def HandleNonces_def)
    then show ?thesis by blast
  next
    case False
    then have "s' = s" using assms \<open>e \<noteq> None\<close>
      by (auto simp: DKGCompletedEffects_def split: if_splits list.splits sum.splits)
    then show ?thesis by simp
  qed
qed

lemma handle_dkg_chain:
  assumes "handle_dkg now r n = Inr n'"
  shows "nd_chain n' = nd_chain n \<or> lending_step E gov (nd_chain n) (nd_chain n')"
proof -
  have eff: "c = nd_chain n \<or> lending_step E gov (nd_chain n) c"
    if "DKGCompletedEffects now i ty intent pks (nd_chain n) = (c, e)" for i ty intent pks c e
    using DKGCompletedEffects_run [OF that] by (blast intro: lending_step.dkg_completed)
  show ?thesis
    using assms
    by (auto dest: eff simp: handle_dkg_def Let_def liveness_onlyD(1) [OF liveness_only_handlers(1)]
        split: if_splits prod.splits option.splits error.splits)
qed

lemma handleDKGRequests_chain:
  assumes "handleDKGRequests now n = Inr n'"
  shows "(lending_step E gov)\<^sup>*\<^sup>* (nd_chain n) (nd_chain n')"
  using assms unfolding handleDKGRequests_def
proof (rule fold_res_invariant)
  show "(lending_step E gov)\<^sup>*\<^sup>* (nd_chain n) (nd_chain n)" by simp
  show "(lending_step E gov)\<^sup>*\<^sup>* (nd_chain n) (nd_chain u)"
    if "(lending_step E gov)\<^sup>*\<^sup>* (nd_chain n) (nd_chain t)" "handle_dkg now r t = Inr u" for r t u
    using that(1) handle_dkg_chain [OF that(2), of E gov] by (auto intro: rtranclp.rtrancl_into_rtrancl)
qed

lemma handleRefreshingRequests_chain: "nd_chain (handleRefreshingRequests now n) = nd_chain n"
proof -
  have "nd_chain (fold (handle_refreshing now) xs n) = nd_chain n" for xs
    by (induction xs arbitrary: n) (simp_all add: handle_refreshing_def Let_def)
  then show ?thesis by (simp add: handleRefreshingRequests_def)
qed

lemma signing_handler_step: "signing_handler E now r sigs s = Inr s' \<Longrightarrow> lending_step E gov s s'"
  by (auto simp: signing_handler_def intro: lending_step.intros split: if_splits)

lemma node_step_chain:
  assumes "node_step E gov n n'"
  shows "(lending_step E gov)\<^sup>*\<^sup>* (nd_chain n) (nd_chain n')"
  using assms
proof cases
  case (protocol c)
  then show ?thesis by (auto intro: protocol_step_lending)
next
  case (submit_signatures now sender i sigs)
  then show ?thesis unfolding SubmitSignatures_def Let_def
  proof (elim peel, goal_cases)
    case (1 u v c)
    then have "lending_step E gov (nd_chain n) c" using signing_handler_step by blast
    moreover have "lending_step E gov c (nd_chain n')" using 1 by (auto intro: lending_step.signing_done)
    ultimately show ?case by (meson converse_rtranclp_into_rtranclp r_into_rtranclp)
  qed
next
  case (complete_dkg height now m)
  then show ?thesis unfolding tss_CompleteDKG_def Let_def
    by (elim peel) (auto simp: CompleteDKG_def Let_def bind_res_eq_Inr liveness_onlyD(1) [OF liveness_only_handlers(2)] split: if_splits)
next
  case (refresh now m)
  then obtain u where "fold_res (refresh_one now m) (mrf_DkgIds m) n = Inr n'"
    by (auto simp: Refresh_def bind_res_eq_Inr split: if_splits)
  then have "nd_chain n' = nd_chain n"
    by (rule fold_res_invariant) (auto simp: refresh_one_def Let_def split: if_splits)
  then show ?thesis by simp
next
  case (complete_refreshing now m)
  then show ?thesis
    by (auto simp: tss_CompleteRefreshing_def CompleteRefreshing_def Let_def bind_res_eq_Inr split: if_splits)
next
  case (tss_params signer p)
  then show ?thesis by (auto simp: tss_UpdateParams_def bind_res_eq_Inr split: if_splits)
next
  case (dlc_params signer p)
  then show ?thesis
    by (auto simp: dlc_UpdateParams_def bind_res_eq_Inr liveness_onlyD(1) [OF liveness_only_handlers(3)] split: if_splits)
next
  case (create_dcm now m)
  then show ?thesis by (auto simp: dlc_CreateDCM_def Let_def bind_res_eq_Inr split: if_splits)
next
  case (dlc_end height now)
  then show ?thesis
    by (auto simp: dlc_EndBlocker_def generateLendingEventNonces_def checkOracleParticipantLiveness_def Let_def bind_res_eq_Inr
        split: if_splits)
next
  case (tss_end now)
  then show ?thesis
    using handleDKGRequests_chain by (auto simp: tss_EndBlocker_def bind_res_eq_Inr handleRefreshingRequests_chain)
qed

lemma lending_reachable_run:
  assumes "lending_reachable E gov s0 s" "(lending_step E gov)\<^sup>*\<^sup>* s s'"
  shows "lending_reachable E gov s0 s'"
  using assms(2,1) by (induction rule: rtranclp.induct) (auto intro: lending_reachable.step)

lemma node_reachable_chain:
  assumes "node_reachable E gov n0 n"
  shows "lending_reachable E gov (nd_chain n0) (nd_chain n)"
  using assms by induction (auto intro: lending_reachable.start lending_reachable_run node_step_chain)

end
