(* ===== verification/Dkg_Inv.thy ===== *)
theory Dkg_Inv
  imports Node
begin

text \<open>
  The invariant of key generation on the composed node, and how a request may change: a stored completion
  is signed by its participant for the keys it holds, and a completed request has a completion with the same keys
  from every participant. Requests leave the pending status once, and refreshing removes participants of completed
  requests only.
\<close>

section \<open>The entries of a store under one id\<close>

lemma under_iff:
  assumes "kv_ok m"
  shows "c \<in> set (under i m) \<longleftrightarrow> (\<exists>k. kv_get m (i, k) = Some c)"
  using map_of_eq_Some_iff [of m] kv_ok_distinct [OF assms]
  by (force simp: under_def kv_get_def kv_keys_def)

lemma distinct_under:
  assumes "kv_ok m" "\<And>k c. kv_get m (i, k) = Some c \<Longrightarrow> f c = k"
  shows "distinct (map f (under i m))"
proof -
  have d: "distinct (map fst m)" using kv_ok_distinct [OF assms(1)] by (simp add: kv_keys_def)
  have "map f (under i m) = map (\<lambda>p. snd (fst p)) (filter (\<lambda>p. fst (fst p) = i) m)"
    using assms(2) map_of_eq_Some_iff [OF d] by (auto simp: under_def kv_get_def)
  moreover have "inj_on (\<lambda>p. snd (fst p)) (set (filter (\<lambda>p. fst (fst p) = i) m))"
  proof (rule inj_onI)
    fix p q assume "p \<in> set (filter (\<lambda>p. fst (fst p) = i) m)" "q \<in> set (filter (\<lambda>p. fst (fst p) = i) m)" "snd (fst p) = snd (fst q)"
    then have "p \<in> set m" "q \<in> set m" "fst p = fst q" by (auto simp: prod_eq_iff)
    then show "p = q" using d by (simp add: distinct_map inj_on_def)
  qed
  ultimately show ?thesis using d by (simp add: distinct_map)
qed

text \<open>Distinct elements of a list, as many as the list is long, are all of them.\<close>

lemma distinct_fills:
  assumes "distinct xs" "set xs \<subseteq> set ys" "length xs = length ys"
  shows "set xs = set ys"
proof (rule card_subset_eq)
  show "card (set xs) = card (set ys)"
    using assms distinct_card [of xs] card_length [of ys] card_mono [OF _ assms(2)] by simp
qed (use assms in auto)

section \<open>The invariant\<close>

definition completion_ok :: "('b, 'e) nenv_scheme \<Rightarrow> dkg_request \<Rightarrow> dkg_completion \<Rightarrow> bool" where
  "completion_ok E r c \<longleftrightarrow> length (dkc_PubKeys c) = unat (dk_BatchSize r)
     \<and> VerifySignature E (dkc_Signature c) (dkc_ConsensusPubkey c) (GetDKGCompletionSigMsg E (dkc_Id c) (dkc_PubKeys c)) = Inr True
     \<and> (dk_Status r = DKG_PENDING \<longrightarrow> dkc_ConsensusPubkey c \<in> set (dk_Participants r))"

definition agreed :: "(u64 \<times> string, dkg_completion) kv \<Rightarrow> dkg_request \<Rightarrow> bool" where
  "agreed cs r \<longleftrightarrow> (\<exists>pks. \<forall>k \<in> set (dk_Participants r). \<exists>c. kv_get cs (dk_Id r, k) = Some c \<and> dkc_PubKeys c = pks)"

definition dkg_inv :: "('b, 'e) nenv_scheme \<Rightarrow> 'b node \<Rightarrow> bool" where
  "dkg_inv E n \<longleftrightarrow>
     index_ok (nd_dkgs n) (nd_dkg_by_status n) dk_Id dk_Status \<and> kv_ok (nd_completions n) \<and> kv_ok (nd_refreshings n)
   \<and> (\<forall>i r. kv_get (nd_dkgs n) i = Some r \<longrightarrow> unat i \<le> unat (counter (nd_dkg_id n)) \<and> (dk_Status r = DKG_COMPLETED \<longrightarrow> agreed (nd_completions n) r))
   \<and> (\<forall>i k c. kv_get (nd_completions n) (i, k) = Some c \<longrightarrow>
        dkc_Id c = i \<and> dkc_ConsensusPubkey c = k \<and> (\<exists>r. kv_get (nd_dkgs n) i = Some r \<and> completion_ok E r c))
   \<and> (\<forall>j q. kv_get (nd_refreshings n) j = Some q \<longrightarrow>
        rfr_Id q = j \<and> (\<exists>r. kv_get (nd_dkgs n) (rfr_DkgId q) = Some r \<and> dk_Status r = DKG_COMPLETED))"

text \<open>How a stored request may have changed.\<close>

definition dkg_becomes :: "dkg_request \<Rightarrow> dkg_request \<Rightarrow> bool" where
  "dkg_becomes r r' \<longleftrightarrow>
     (\<exists>st ps. r' = r\<lparr>dk_Status := st, dk_Participants := ps\<rparr> \<and> set ps \<subseteq> set (dk_Participants r)
       \<and> (ps \<noteq> dk_Participants r \<longrightarrow> st = DKG_COMPLETED) \<and> (dk_Status r \<noteq> DKG_PENDING \<longrightarrow> st = dk_Status r))"

definition dkg_moves :: "'b node \<Rightarrow> 'b node \<Rightarrow> bool" where
  "dkg_moves n n' \<longleftrightarrow> (\<forall>i r. kv_get (nd_dkgs n) i = Some r \<longrightarrow> (\<exists>r'. kv_get (nd_dkgs n') i = Some r' \<and> dkg_becomes r r'))"

definition dkg_next :: "('b, 'e) nenv_scheme \<Rightarrow> 'b node \<Rightarrow> 'b node \<Rightarrow> bool" where
  "dkg_next E n n' \<longleftrightarrow> dkg_inv E n' \<and> dkg_moves n n'"

lemma dkg_becomes_refl: "dkg_becomes r r"
  unfolding dkg_becomes_def by (rule exI [of _ "dk_Status r"], rule exI [of _ "dk_Participants r"]) simp

lemma dkg_becomes_trans:
  assumes "dkg_becomes a b" "dkg_becomes b c"
  shows "dkg_becomes a c"
proof -
  obtain s ps where b: "b = a\<lparr>dk_Status := s, dk_Participants := ps\<rparr>" "set ps \<subseteq> set (dk_Participants a)"
      "ps \<noteq> dk_Participants a \<longrightarrow> s = DKG_COMPLETED" "dk_Status a \<noteq> DKG_PENDING \<longrightarrow> s = dk_Status a"
    using assms(1) by (auto simp: dkg_becomes_def)
  obtain s' ps' where c: "c = b\<lparr>dk_Status := s', dk_Participants := ps'\<rparr>" "set ps' \<subseteq> set ps"
      "ps' \<noteq> ps \<longrightarrow> s' = DKG_COMPLETED" "s \<noteq> DKG_PENDING \<longrightarrow> s' = s"
    using assms(2) b(1) by (auto simp: dkg_becomes_def)
  show ?thesis unfolding dkg_becomes_def
    by (rule exI [of _ s'], rule exI [of _ ps']) (use b c in auto)
qed

lemma dkg_moves_refl: "dkg_moves n n"
  by (auto simp: dkg_moves_def intro: dkg_becomes_refl)

lemma dkg_moves_trans: "dkg_moves a b \<Longrightarrow> dkg_moves b c \<Longrightarrow> dkg_moves a c"
  unfolding dkg_moves_def by (meson dkg_becomes_trans)

lemma dkg_next_inv: "dkg_next E n n' \<Longrightarrow> dkg_inv E n'"
  by (simp add: dkg_next_def)

lemma dkg_next_refl: "dkg_inv E n \<Longrightarrow> dkg_next E n n"
  by (simp add: dkg_next_def dkg_moves_refl)

lemma dkg_next_trans: "dkg_next E a b \<Longrightarrow> dkg_next E b c \<Longrightarrow> dkg_next E a c"
  using dkg_moves_trans by (auto simp: dkg_next_def)

lemma dkg_invD:
  assumes "dkg_inv E n"
  shows "index_ok (nd_dkgs n) (nd_dkg_by_status n) dk_Id dk_Status" "kv_ok (nd_completions n)" "kv_ok (nd_refreshings n)"
    "\<And>i r. kv_get (nd_dkgs n) i = Some r \<Longrightarrow> dk_Id r = i \<and> unat i \<le> unat (counter (nd_dkg_id n))"
    "\<And>i r. kv_get (nd_dkgs n) i = Some r \<Longrightarrow> dk_Status r = DKG_COMPLETED \<Longrightarrow> agreed (nd_completions n) r"
    "\<And>i k c. kv_get (nd_completions n) (i, k) = Some c \<Longrightarrow>
        dkc_Id c = i \<and> dkc_ConsensusPubkey c = k \<and> (\<exists>r. kv_get (nd_dkgs n) i = Some r \<and> completion_ok E r c)"
    "\<And>j q. kv_get (nd_refreshings n) j = Some q \<Longrightarrow>
        rfr_Id q = j \<and> (\<exists>r. kv_get (nd_dkgs n) (rfr_DkgId q) = Some r \<and> dk_Status r = DKG_COMPLETED)"
  using assms by (auto simp: dkg_inv_def index_ok_def)

lemma dkg_next_frame:
  assumes "dkg_inv E n" "nd_dkgs n' = nd_dkgs n" "nd_dkg_by_status n' = nd_dkg_by_status n" "nd_dkg_id n' = nd_dkg_id n"
    "nd_completions n' = nd_completions n" "nd_refreshings n' = nd_refreshings n"
  shows "dkg_next E n n'"
  using assms dkg_moves_refl [of n] by (simp add: dkg_next_def dkg_inv_def dkg_moves_def)

lemma dkg_next_liveness: "dkg_inv E n \<Longrightarrow> liveness_only n n' \<Longrightarrow> dkg_next E n n'"
  by (rule dkg_next_frame) (simp_all add: liveness_onlyD)

section \<open>The writes\<close>

text \<open>A new version of a stored request.\<close>

lemma SetDKGRequest_next:
  assumes inv: "dkg_inv E n" and r: "kv_get (nd_dkgs n) (dk_Id r) = Some r" and b: "dkg_becomes r r'"
    and np: "dk_Status r' \<noteq> DKG_PENDING" and ag: "dk_Status r' = DKG_COMPLETED \<Longrightarrow> agreed (nd_completions n) r'"
  shows "dkg_next E n (SetDKGRequest r' n)"
proof -
  note D = dkg_invD [OF inv]
  have i: "dk_Id r' = dk_Id r" "dk_BatchSize r' = dk_BatchSize r" using b by (auto simp: dkg_becomes_def)
  have st: "dk_Status r \<noteq> DKG_PENDING \<Longrightarrow> dk_Status r' = dk_Status r" using b by (auto simp: dkg_becomes_def)
  have ok: "index_ok (nd_dkgs (SetDKGRequest r' n)) (nd_dkg_by_status (SetDKGRequest r' n)) dk_Id dk_Status"
    by (rule dkgs.put_index_ok [OF D(1)])
  have co: "completion_ok E r' c" if "completion_ok E r c" for c using that np by (simp add: completion_ok_def i)
  have "dkg_moves n (SetDKGRequest r' n)"
    using r b by (auto simp: dkg_moves_def i intro: dkg_becomes_refl)
  moreover have "dkg_inv E (SetDKGRequest r' n)"
    unfolding dkg_inv_def
  proof (intro conjI allI impI, goal_cases)
    case 1 show ?case by (rule ok)
  next
    case 2 show ?case by (simp add: D(2))
  next
    case 3 show ?case by (simp add: D(3))
  next
    case (4 j q) then show ?case using D(4) [of j] D(4) [OF r] by (auto simp: i split: if_splits)
  next
    case (5 j q) then show ?case using D(5) [of j] ag by (auto split: if_splits)
  next
    case (6 j k c) then show ?case using D(6) [of j k c] by simp
  next
    case (7 j k c) then show ?case using D(6) [of j k c] by simp
  next
    case (8 j k c) then show ?case using D(6) [of j k c] r co by (auto simp: i)
  next
    case (9 j q) then show ?case using D(7) [of j q] by simp
  next
    case (10 j q) then show ?case using D(7) [of j q] r st by (auto simp: i)
  qed
  ultimately show ?thesis by (simp add: dkg_next_def)
qed

lemma InitiateDKG_next:
  assumes inv: "dkg_inv E n" and "unat (counter (nd_dkg_id n)) + 1 < 2 ^ 64"
  shows "dkg_next E n (snd (InitiateDKG now m ty intent ps th bs to n))"
proof -
  note D = dkg_invD [OF inv]
  define r where "r = fst (InitiateDKG now m ty intent ps th bs to n)"
  define n' where "n' = SetDKGRequestId (dk_Id r) (SetDKGRequest r n)"
  have n': "snd (InitiateDKG now m ty intent ps th bs to n) = n'"
    by (simp add: n'_def r_def InitiateDKG_def Let_def)
  have i: "dk_Id r = counter (nd_dkg_id n) + 1" "dk_Status r = DKG_PENDING"
    by (simp_all add: r_def InitiateDKG_def Let_def GetNextDKGRequestId_def counter_def split: option.splits)
  have u: "unat (dk_Id r) = unat (counter (nd_dkg_id n)) + 1" using assms(2) by (simp add: i(1) unat_word_ariths)
  have fresh: "kv_get (nd_dkgs n) (dk_Id r) = None" using D(4) [of "dk_Id r"] u by (cases "kv_get (nd_dkgs n) (dk_Id r)") auto
  have ok: "index_ok (nd_dkgs n') (nd_dkg_by_status n') dk_Id dk_Status"
    using dkgs.put_index_ok [OF D(1)] by (simp add: n'_def SetDKGRequestId_def)
  have s: "nd_dkgs n' = kv_set (dk_Id r) r (nd_dkgs n)" "nd_completions n' = nd_completions n" "nd_refreshings n' = nd_refreshings n"
      "nd_dkg_id n' = Some (dk_Id r)"
    by (simp_all add: n'_def SetDKGRequestId_def)
  have "dkg_moves n n'" using fresh by (auto simp: dkg_moves_def s intro: dkg_becomes_refl)
  moreover have "dkg_inv E n'"
    unfolding dkg_inv_def
  proof (intro conjI allI impI, goal_cases)
    case 1 show ?case by (rule ok)
  next
    case 2 show ?case by (simp add: s D(2))
  next
    case 3 show ?case by (simp add: s D(3))
  next
    case (4 j q) then show ?case using D(4) [of j] u by (auto simp: s counter_def split: if_splits)
  next
    case (5 j q) then show ?case using D(5) [of j] i by (auto simp: s split: if_splits)
  next
    case (6 j k c) then show ?case using D(6) [of j k c] by (simp add: s)
  next
    case (7 j k c) then show ?case using D(6) [of j k c] by (simp add: s)
  next
    case (8 j k c) then show ?case using D(6) [of j k c] fresh by (auto simp: s)
  next
    case (9 j q) then show ?case using D(7) [of j q] by (simp add: s)
  next
    case (10 j q) then show ?case using D(7) [of j q] fresh by (auto simp: s)
  qed
  ultimately show ?thesis unfolding n' by (simp add: dkg_next_def)
qed

lemma counter_InitiateDKG:
  assumes "unat (counter (nd_dkg_id n)) + 1 < 2 ^ 64"
  shows "unat (counter (nd_dkg_id (snd (InitiateDKG now m ty intent ps th bs to n)))) = unat (counter (nd_dkg_id n)) + 1"
proof -
  have "counter (nd_dkg_id (snd (InitiateDKG now m ty intent ps th bs to n))) = counter (nd_dkg_id n) + 1"
    by (simp add: InitiateDKG_def Let_def SetDKGRequestId_def GetNextDKGRequestId_def counter_def split: option.splits)
  then show ?thesis using assms by (simp add: unat_word_ariths)
qed

lemma SetDKGCompletion_next:
  assumes inv: "dkg_inv E n" and r: "kv_get (nd_dkgs n) (dkc_Id c) = Some r" "dk_Status r = DKG_PENDING" "completion_ok E r c"
  shows "dkg_next E n (SetDKGCompletion c n)"
proof -
  note D = dkg_invD [OF inv]
  have s: "nd_dkgs (SetDKGCompletion c n) = nd_dkgs n" "nd_dkg_by_status (SetDKGCompletion c n) = nd_dkg_by_status n"
      "nd_dkg_id (SetDKGCompletion c n) = nd_dkg_id n" "nd_refreshings (SetDKGCompletion c n) = nd_refreshings n"
      "nd_completions (SetDKGCompletion c n) = kv_set (dkc_Id c, dkc_ConsensusPubkey c) c (nd_completions n)"
    by (simp_all add: SetDKGCompletion_def)
  have "dkg_moves n (SetDKGCompletion c n)" using dkg_moves_refl [of n] by (simp add: dkg_moves_def s)
  moreover have "dkg_inv E (SetDKGCompletion c n)"
    unfolding dkg_inv_def
  proof (intro conjI allI impI, goal_cases)
    case 1 show ?case by (simp add: s D(1))
  next
    case 2 show ?case by (simp add: s D(2))
  next
    case 3 show ?case by (simp add: s D(3))
  next
    case (4 j q) then show ?case using D(4) [of j] by (simp add: s)
  next
    case (5 j q)
    then have "dkc_Id c \<noteq> dk_Id q" using r D(4) [of j q] by (auto simp: s)
    then show ?case using D(5) [of j q] 5 by (simp add: s agreed_def)
  next
    case (6 j k d) then show ?case using D(6) [of j k d] by (auto simp: s split: if_splits)
  next
    case (7 j k d) then show ?case using D(6) [of j k d] by (auto simp: s split: if_splits)
  next
    case (8 j k d) then show ?case using D(6) [of j k d] r by (auto simp: s split: if_splits)
  next
    case (9 j q) then show ?case using D(7) [of j q] by (simp add: s)
  next
    case (10 j q) then show ?case using D(7) [of j q] by (simp add: s)
  qed
  ultimately show ?thesis by (simp add: dkg_next_def)
qed

lemma SetRefreshingRequest_next:
  assumes inv: "dkg_inv E n" and r: "kv_get (nd_dkgs n) (rfr_DkgId q) = Some r" "dk_Status r = DKG_COMPLETED"
  shows "dkg_next E n (SetRefreshingRequest q n)"
  using inv r dkg_moves_refl [of n] by (auto simp: dkg_next_def dkg_inv_def dkg_moves_def SetRefreshingRequest_def)

section \<open>The handlers\<close>

lemma CompleteDKG_next:
  assumes "dkg_inv E n" "CompleteDKG E now sender i pks k sig n = Inr n'"
  shows "dkg_next E n n'"
  using assms(2) unfolding CompleteDKG_def Let_def
proof (elim peel, goal_cases)
  case (1 ok)
  then obtain r where r: "kv_get (nd_dkgs n) i = Some r" "GetDKGRequest n i = r"
    by (auto simp: HasDKGRequest_def kv_has_def GetDKGRequest_def)
  show ?case using SetDKGCompletion_next [OF assms(1), of "\<lparr>dkc_Id = i, dkc_Sender = sender, dkc_PubKeys = pks,
      dkc_ConsensusPubkey = k, dkc_Signature = sig\<rparr>" r] 1 r
    by (auto simp: completion_ok_def ParticipantExists_def)
qed

lemma refresh_one_next:
  assumes "dkg_inv E n" "refresh_one now m i n = Inr n'"
  shows "dkg_next E n n'"
proof -
  obtain r where r: "kv_get (nd_dkgs n) i = Some r" "dk_Status r = DKG_COMPLETED"
    using assms(2) by (auto simp: refresh_one_def Let_def HasDKGRequest_def kv_has_def GetDKGRequest_def split: if_splits)
  define u where "u = n\<lparr>nd_refreshing_id := Some (GetRefreshingRequestId n + 1)\<rparr>"
  have u: "dkg_next E n u" by (rule dkg_next_frame [OF assms(1)]) (simp_all add: u_def)
  have n': "n' = SetRefreshingRequest \<lparr>rfr_Id = GetRefreshingRequestId n + 1, rfr_DkgId = i,
      rfr_RemovedParticipants = mrf_RemovedParticipants m, rfr_ExpirationTime = GetExpirationTime now (mrf_TimeoutDuration m),
      rfr_Status = REFRESHING_PENDING\<rparr> u"
    using assms(2) by (auto simp: refresh_one_def InitiateRefreshingRequest_def IncrementRefreshingRequestId_def Let_def u_def split: if_splits)
  have "dkg_inv E u" using u by (simp add: dkg_next_def)
  then have "dkg_next E u n'" unfolding n' by (rule SetRefreshingRequest_next) (use r in \<open>simp_all add: u_def\<close>)
  with u show ?thesis by (rule dkg_next_trans)
qed

text \<open>A run over a list from a state that keeps the invariant.\<close>

lemma fold_res_next:
  assumes "dkg_inv E n" "fold_res f xs n = Inr n'" "\<And>x t u. dkg_inv E t \<Longrightarrow> f x t = Inr u \<Longrightarrow> dkg_next E t u"
  shows "dkg_next E n n'"
  using assms(2)
proof (rule fold_res_invariant)
  show "dkg_next E n n" using assms(1) by (rule dkg_next_refl)
  show "dkg_next E n u" if "dkg_next E n t" "f x t = Inr u" for x t u
    using that assms(3) [of t x u] dkg_next_trans [of E n t u] by (simp add: dkg_next_def)
qed

text \<open>When every participant has submitted its completion and they agree, so does the completed request.\<close>

lemma completions_agree:
  assumes inv: "dkg_inv E n" and r: "kv_get (nd_dkgs n) (dk_Id r) = Some r" "dk_Status r = DKG_PENDING"
    and len: "length (GetDKGCompletions n (dk_Id r)) = length (dk_Participants r)" and ck: "CheckDKGCompletions (GetDKGCompletions n (dk_Id r))"
  shows "agreed (nd_completions n) r"
proof -
  note D = dkg_invD [OF inv]
  let ?cs = "GetDKGCompletions n (dk_Id r)"
  have mem: "\<exists>k. kv_get (nd_completions n) (dk_Id r, k) = Some c" if "c \<in> set ?cs" for c
    using that by (simp add: GetDKGCompletions_def under_iff [OF D(2)])
  have part: "dkc_ConsensusPubkey c \<in> set (dk_Participants r)" if "c \<in> set ?cs" for c
    using mem [OF that] D(6) [of "dk_Id r" _ c] r by (auto simp: completion_ok_def)
  have "distinct (map dkc_ConsensusPubkey ?cs)"
    unfolding GetDKGCompletions_def by (rule distinct_under [OF D(2)]) (use D(6) in blast)
  then have keys: "set (map dkc_ConsensusPubkey ?cs) = set (dk_Participants r)"
    by (rule distinct_fills) (use part len in auto)
  have same: "dkc_PubKeys c = dkc_PubKeys (hd ?cs)" if "c \<in> set ?cs" for c
    using ck that by (auto simp: CheckDKGCompletions_def list_all_iff split: list.splits)
  have "\<exists>c. kv_get (nd_completions n) (dk_Id r, k) = Some c \<and> dkc_PubKeys c = dkc_PubKeys (hd ?cs)"
    if "k \<in> set (dk_Participants r)" for k
  proof -
    from that keys obtain c where c: "c \<in> set ?cs" "k = dkc_ConsensusPubkey c" by auto
    from mem [OF c(1)] obtain k' where "kv_get (nd_completions n) (dk_Id r, k') = Some c" ..
    then show ?thesis using D(6) [of "dk_Id r" k' c] c same by auto
  qed
  then show ?thesis by (auto simp: agreed_def)
qed

lemma dkg_becomes_status: "dk_Status r = DKG_PENDING \<Longrightarrow> dkg_becomes r (r\<lparr>dk_Status := st\<rparr>)"
  unfolding dkg_becomes_def by (rule exI [of _ st], rule exI [of _ "dk_Participants r"]) simp

lemma dkg_next_chain:
  assumes "dkg_inv E n"
  shows "dkg_next E n (n\<lparr>nd_chain := c\<rparr>)"
  by (rule dkg_next_frame [OF assms]) simp_all

lemma handle_dkg_next:
  assumes inv: "dkg_inv E n" and r: "kv_get (nd_dkgs n) (dk_Id r) = Some r" "dk_Status r = DKG_PENDING"
    and run: "handle_dkg now r n = Inr n'"
  shows "dkg_next E n n'" "i \<noteq> dk_Id r \<Longrightarrow> kv_get (nd_dkgs n') i = kv_get (nd_dkgs n) i"
proof -
  let ?put = "\<lambda>st c. SetDKGRequest (r\<lparr>dk_Status := st\<rparr>) (n\<lparr>nd_chain := c\<rparr>)"
  have put: "dkg_next E n (?put st c)" if "st \<noteq> DKG_PENDING" "st = DKG_COMPLETED \<Longrightarrow> agreed (nd_completions n) r" for st c
  proof (rule dkg_next_trans [OF dkg_next_chain [OF inv]])
    show "dkg_next E (n\<lparr>nd_chain := c\<rparr>) (?put st c)"
    proof (rule SetDKGRequest_next)
      show "dkg_inv E (n\<lparr>nd_chain := c\<rparr>)" using dkg_next_chain [OF inv] by (simp add: dkg_next_def)
    qed (use r that in \<open>auto simp: agreed_def intro: dkg_becomes_status\<close>)
  qed
  have upd: "n\<lparr>nd_chain := nd_chain n\<rparr> = n" by simp
  have cases: "n' = n \<or> (\<exists>st c. liveness_only (?put st c) n' \<and> st \<noteq> DKG_PENDING
      \<and> (st = DKG_COMPLETED \<longrightarrow> agreed (nd_completions n) r))"
  proof (cases "expired now (dk_ExpirationTime r)")
    case True
    then have "liveness_only (?put DKG_TIMEDOUT (nd_chain n)) n'"
      using run liveness_only_handlers(1) by (auto simp: handle_dkg_def Let_def upd split: if_splits)
    then show ?thesis by blast
  next
    case False
    show ?thesis
    proof (cases "n' = n")
      case False
      with run \<open>\<not> expired now _\<close> have len: "length (GetDKGCompletions n (dk_Id r)) = length (dk_Participants r)"
        by (auto simp: handle_dkg_def Let_def split: if_splits)
      have "(\<exists>c. n' = ?put DKG_FAILED c) \<or> (CheckDKGCompletions (GetDKGCompletions n (dk_Id r)) \<and> (\<exists>c. n' = ?put DKG_COMPLETED c))"
      proof (cases "CheckDKGCompletions (GetDKGCompletions n (dk_Id r))")
        case True
        then show ?thesis using run \<open>\<not> expired now _\<close> len
          by (auto simp: handle_dkg_def Let_def split: if_splits prod.splits option.splits error.splits)
      next
        case False
        then have "n' = ?put DKG_FAILED (nd_chain n)"
          using run \<open>\<not> expired now _\<close> len by (simp add: handle_dkg_def Let_def upd)
        then show ?thesis by blast
      qed
      then show ?thesis using completions_agree [OF inv r len] liveness_only_refl by blast
    qed simp
  qed
  show "dkg_next E n n'"
    using cases
  proof (elim disjE exE conjE)
    show "dkg_next E n n'" if "n' = n" using that dkg_next_refl [OF inv] by simp
  next
    fix st c
    assume l: "liveness_only (?put st c) n'" and st: "st \<noteq> DKG_PENDING" "st = DKG_COMPLETED \<longrightarrow> agreed (nd_completions n) r"
    have p: "dkg_next E n (?put st c)" by (rule put) (use st in auto)
    have "dkg_next E (?put st c) n'" by (rule dkg_next_liveness [OF dkg_next_inv [OF p] l])
    with p show "dkg_next E n n'" by (rule dkg_next_trans)
  qed
  show "kv_get (nd_dkgs n') i = kv_get (nd_dkgs n) i" if "i \<noteq> dk_Id r"
    using cases that by (auto dest: liveness_onlyD(2))
qed

lemma handle_dkgs_next:
  assumes "dkg_inv E n" "distinct (map dk_Id rs)" "\<And>r. r \<in> set rs \<Longrightarrow> kv_get (nd_dkgs n) (dk_Id r) = Some r \<and> dk_Status r = DKG_PENDING"
    "fold_res (handle_dkg now) rs n = Inr n'"
  shows "dkg_next E n n'"
  using assms
proof (induction rs arbitrary: n)
  case Nil
  then show ?case by (simp add: dkg_next_refl)
next
  case (Cons r rs)
  from Cons.prems(4) obtain t where t: "handle_dkg now r n = Inr t" "fold_res (handle_dkg now) rs t = Inr n'"
    by (auto simp: bind_res_eq_Inr)
  have r: "kv_get (nd_dkgs n) (dk_Id r) = Some r" "dk_Status r = DKG_PENDING" using Cons.prems(3) by auto
  note h = handle_dkg_next [OF Cons.prems(1) r t(1)]
  have "dkg_next E t n'"
  proof (rule Cons.IH)
    show "dkg_inv E t" using h(1) by (simp add: dkg_next_def)
    show "distinct (map dk_Id rs)" using Cons.prems(2) by simp
    show "kv_get (nd_dkgs t) (dk_Id q) = Some q \<and> dk_Status q = DKG_PENDING" if "q \<in> set rs" for q
    proof -
      have "dk_Id q \<noteq> dk_Id r" using that Cons.prems(2) by (metis distinct.simps(2) image_eqI list.simps(9) set_map)
      then show ?thesis using h(2) [of "dk_Id q"] Cons.prems(3) [of q] that by simp
    qed
  qed (rule t(2))
  with h(1) show ?case by (rule dkg_next_trans)
qed

lemma handleDKGRequests_next:
  assumes inv: "dkg_inv E n" and run: "handleDKGRequests now n = Inr n'"
  shows "dkg_next E n n'"
proof (rule handle_dkgs_next [OF inv])
  note D = dkg_invD [OF inv]
  have ids: "kv_get (nd_dkgs n) i = Some (GetDKGRequest n i) \<and> dk_Id (GetDKGRequest n i) = i \<and> dk_Status (GetDKGRequest n i) = DKG_PENDING"
    if "i \<in> set (ids_with DKG_PENDING (nd_dkg_by_status n))" for i
    using that D(4) by (auto simp: dkgs.ids_with_iff [OF D(1)] GetDKGRequest_def)
  have "map dk_Id (GetPendingDKGRequests n) = ids_with DKG_PENDING (nd_dkg_by_status n)"
    unfolding GetPendingDKGRequests_def GetDKGRequestsByStatus_def map_map comp_def by (rule map_idI) (use ids in blast)
  then show "distinct (map dk_Id (GetPendingDKGRequests n))"
    using distinct_ids_with [of "nd_dkg_by_status n"] D(1) by (simp add: index_ok_def)
  show "kv_get (nd_dkgs n) (dk_Id r) = Some r \<and> dk_Status r = DKG_PENDING" if "r \<in> set (GetPendingDKGRequests n)" for r
    using that ids by (auto simp: GetPendingDKGRequests_def GetDKGRequestsByStatus_def)
  show "fold_res (handle_dkg now) (GetPendingDKGRequests n) n = Inr n'" using run by (simp add: handleDKGRequests_def)
qed

lemma handle_refreshing_next:
  assumes inv: "dkg_inv E n" and r: "kv_get (nd_dkgs n) (rfr_DkgId q) = Some r" "dk_Status r = DKG_COMPLETED"
  shows "dkg_next E n (handle_refreshing now q n)"
proof -
  note D = dkg_invD [OF inv]
  have wr: "dkg_next E n (SetRefreshingRequest (q\<lparr>rfr_Status := st\<rparr>) n)" for st
    by (rule SetRefreshingRequest_next [OF inv]) (use r in simp_all)
  let ?q = "q\<lparr>rfr_Status := REFRESHING_COMPLETED\<rparr>"
  let ?u = "SetRefreshingRequest ?q n"
  have u: "nd_dkgs ?u = nd_dkgs n" "nd_completions ?u = nd_completions n" by (simp_all add: SetRefreshingRequest_def)
  have get: "GetDKGRequest ?u (rfr_DkgId q) = r" using r by (simp add: GetDKGRequest_def u)
  have id: "dk_Id r = rfr_DkgId q" using D(4) [OF r(1)] by simp
  have sub: "set (GetRefreshingParticipants ?u ?q) \<subseteq> set (dk_Participants r)"
    using get by (auto simp: GetRefreshingParticipants_def)
  let ?r = "r\<lparr>dk_Participants := GetRefreshingParticipants ?u ?q\<rparr>"
  have fin: "dkg_next E n (SetDKGRequest ?r ?u)"
  proof (rule dkg_next_trans [OF wr])
    show "dkg_next E ?u (SetDKGRequest ?r ?u)"
    proof (rule SetDKGRequest_next)
      show "dkg_inv E ?u" using wr by (simp add: dkg_next_def)
      show "kv_get (nd_dkgs ?u) (dk_Id r) = Some r" using r by (simp add: u id)
      show "dkg_becomes r ?r"
        unfolding dkg_becomes_def
        by (rule exI [of _ DKG_COMPLETED], rule exI [of _ "GetRefreshingParticipants ?u ?q"]) (use sub r in auto)
      have "agreed (nd_completions n) r" using D(5) r by simp
      then show "agreed (nd_completions ?u) ?r" using sub by (fastforce simp: agreed_def u)
    qed (use r in simp)
  qed
  show ?thesis using wr fin dkg_next_refl [OF inv] by (simp add: handle_refreshing_def Let_def get)
qed

lemma handle_refreshings_next:
  assumes "dkg_inv E n" "\<And>q. q \<in> set qs \<Longrightarrow> \<exists>r. kv_get (nd_dkgs n) (rfr_DkgId q) = Some r \<and> dk_Status r = DKG_COMPLETED"
  shows "dkg_next E n (fold (handle_refreshing now) qs n)"
  using assms
proof (induction qs arbitrary: n)
  case Nil
  then show ?case by (simp add: dkg_next_refl)
next
  case (Cons q qs)
  then obtain r where r: "kv_get (nd_dkgs n) (rfr_DkgId q) = Some r" "dk_Status r = DKG_COMPLETED" by auto
  note h = handle_refreshing_next [OF Cons.prems(1) r, of now]
  have keep: "\<exists>r. kv_get (nd_dkgs (handle_refreshing now q n)) i = Some r \<and> dk_Status r = DKG_COMPLETED"
    if "kv_get (nd_dkgs n) i = Some r'" "dk_Status r' = DKG_COMPLETED" for i r'
    using h that by (fastforce simp: dkg_next_def dkg_moves_def dkg_becomes_def)
  have "dkg_next E (handle_refreshing now q n) (fold (handle_refreshing now) qs (handle_refreshing now q n))"
  proof (rule Cons.IH)
    show "dkg_inv E (handle_refreshing now q n)" using h by (simp add: dkg_next_def)
    show "\<exists>r. kv_get (nd_dkgs (handle_refreshing now q n)) (rfr_DkgId p) = Some r \<and> dk_Status r = DKG_COMPLETED"
      if "p \<in> set qs" for p using keep Cons.prems(2) [of p] that by auto
  qed
  with h show ?case using dkg_next_trans [of E n] by simp
qed

lemma handleRefreshingRequests_next:
  assumes inv: "dkg_inv E n"
  shows "dkg_next E n (handleRefreshingRequests now n)"
  unfolding handleRefreshingRequests_def
proof (rule handle_refreshings_next [OF inv])
  note D = dkg_invD [OF inv]
  fix q assume "q \<in> set (GetPendingRefreshingRequests n)"
  then obtain j where "(j, q) \<in> set (nd_refreshings n)" by (auto simp: GetPendingRefreshingRequests_def)
  then have "kv_get (nd_refreshings n) j = Some q"
    using kv_ok_distinct [OF D(3)] by (simp add: kv_get_def kv_keys_def)
  then show "\<exists>r. kv_get (nd_dkgs n) (rfr_DkgId q) = Some r \<and> dk_Status r = DKG_COMPLETED" using D(7) by blast
qed

section \<open>Every step of the node\<close>

lemma node_step_next:
  assumes "node_step E gov n n'" and inv: "dkg_inv E n"
  shows "dkg_next E n n'"
  using assms(1)
proof cases
  case (protocol c)
  then show ?thesis using dkg_next_chain [OF inv] by simp
next
  case (submit_signatures now sender i sigs)
  then show ?thesis unfolding SubmitSignatures_def Let_def
    by (elim peel) (use dkg_next_chain [OF inv] in auto)
next
  case (complete_dkg height now m)
  then obtain u where u: "CompleteDKG E now (mcp_Sender m) (mcp_Id m) (mcp_PubKeys m) (mcp_ConsensusPubkey m) (mcp_Signature m) n = Inr u"
      "n' = DKGCompletionReceivedHandler height (dk_Id (GetDKGRequest u (mcp_Id m))) (dk_Type (GetDKGRequest u (mcp_Id m)))
        (mcp_ConsensusPubkey m) u"
    by (auto simp: tss_CompleteDKG_def Let_def bind_res_eq_Inr split: if_splits)
  note c = CompleteDKG_next [OF inv u(1)]
  have "dkg_next E u n'"
    unfolding u(2) by (rule dkg_next_liveness [OF dkg_next_inv [OF c] liveness_only_handlers(2)])
  with c show ?thesis by (rule dkg_next_trans)
next
  case (refresh now m)
  then have "fold_res (refresh_one now m) (mrf_DkgIds m) n = Inr n'"
    by (auto simp: Refresh_def bind_res_eq_Inr split: if_splits)
  then show ?thesis by (rule fold_res_next [OF inv]) (rule refresh_one_next)
next
  case (complete_refreshing now m)
  then obtain c where "n' = SetRefreshingCompletion c n"
    by (auto simp: tss_CompleteRefreshing_def CompleteRefreshing_def Let_def bind_res_eq_Inr split: if_splits)
  then show ?thesis using dkg_next_frame [OF inv] by (simp add: SetRefreshingCompletion_def)
next
  case (tss_params signer p)
  then have "n' = n\<lparr>nd_tss_params := p\<rparr>" by (auto simp: tss_UpdateParams_def bind_res_eq_Inr split: if_splits)
  then show ?thesis using dkg_next_frame [OF inv] by simp
next
  case (dlc_params signer p)
  then have l: "liveness_only (n\<lparr>nd_dlc_params := p\<rparr>) n'"
    using liveness_only_handlers(3) by (auto simp: dlc_UpdateParams_def bind_res_eq_Inr split: if_splits)
  have c: "dkg_next E n (n\<lparr>nd_dlc_params := p\<rparr>)" using dkg_next_frame [OF inv] by simp
  have "dkg_next E (n\<lparr>nd_dlc_params := p\<rparr>) n'" by (rule dkg_next_liveness [OF dkg_next_inv [OF c] l])
  with c show ?thesis by (rule dkg_next_trans)
next
  case (create_dcm now m)
  then show ?thesis using InitiateDKG_next [OF inv]
    by (auto simp: dlc_CreateDCM_def Let_def bind_res_eq_Inr ids_left_def split: if_splits)
next
  case (dlc_end height now)
  then obtain u where u: "generateLendingEventNonces E height now n = Inr u" "n' = checkOracleParticipantLiveness E height now u"
    by (auto simp: dlc_EndBlocker_def bind_res_eq_Inr)
  then have "u = n \<or> (\<exists>m ty intent ps th bs to. u = snd (InitiateDKG now m ty intent ps th bs to n))"
    unfolding generateLendingEventNonces_def Let_def by (force split: if_splits)
  then have c: "dkg_next E n u" "unat (counter (nd_dkg_id u)) + 1 < 2 ^ 64"
    using dlc_end(2) InitiateDKG_next [OF inv] dkg_next_refl [OF inv] by (auto simp: ids_left_def counter_InitiateDKG)
  then have "dkg_inv E u" by (simp add: dkg_next_def)
  then have "dkg_next E u n'"
    using InitiateDKG_next [OF _ c(2)] dkg_next_refl by (auto simp: u(2) checkOracleParticipantLiveness_def)
  with c(1) show ?thesis by (rule dkg_next_trans)
next
  case (tss_end now)
  then obtain u where u: "handleDKGRequests now n = Inr u" "n' = handleRefreshingRequests now u"
    by (auto simp: tss_EndBlocker_def bind_res_eq_Inr)
  note c = handleDKGRequests_next [OF inv u(1)]
  have "dkg_next E u n'" unfolding u(2) by (rule handleRefreshingRequests_next [OF dkg_next_inv [OF c]])
  with c show ?thesis by (rule dkg_next_trans)
qed

lemma node_fresh_inv: "node_fresh n \<Longrightarrow> dkg_inv E n"
  by (simp add: node_fresh_def dkg_inv_def index_ok_def)

lemma node_reachable_inv:
  assumes "node_reachable E gov n0 n" "node_fresh n0"
  shows "dkg_inv E n"
  using assms by (induction rule: node_reachable.induct) (auto simp: node_fresh_inv dkg_next_def dest: node_step_next)

text \<open>From a reachable node on, whatever is reached later.\<close>

lemma node_run_next:
  assumes "(node_step E gov)\<^sup>*\<^sup>* n n'" "dkg_inv E n"
  shows "dkg_next E n n'"
  using assms
proof (induction rule: rtranclp_induct)
  case base
  then show ?case by (rule dkg_next_refl)
next
  case (step t u)
  then have "dkg_next E n t" by simp
  moreover from this have "dkg_next E t u" using node_step_next [OF step.hyps(2)] by (simp add: dkg_next_def)
  ultimately show ?case by (rule dkg_next_trans)
qed

end
