(* ===== verification/Node_Run.thy ===== *)
theory Node_Run
  imports Dkg_Inv Lending_Chain
begin

text \<open>
  A run of the node on the environment of \<open>Lending_Sample\<close>: a pool is created and funded, three participants
  generate the key of a DCM, and two refreshings of the key are requested and completed. The witnesses of the
  properties of the node are states of this run.
\<close>

section \<open>Participants\<close>

definition m_a :: string where "m_a = replicate 43 CHR ''A'' @ ''=''"
definition m_b :: string where "m_b = replicate 43 CHR ''B'' @ ''=''"
definition m_c :: string where "m_c = replicate 43 CHR ''C'' @ ''=''"

lemma members_ok: "consensus_key_ok m_a" "consensus_key_ok m_b" "consensus_key_ok m_c"
  by code_simp+

lemma members_less: "m_a < m_b" "m_b < m_c" "m_a < m_c"
  by code_simp+

lemma members_simps [simp]: "\<not> m_b < m_a" "\<not> m_c < m_b" "\<not> m_c < m_a" "m_a \<noteq> m_b" "m_b \<noteq> m_c" "m_a \<noteq> m_c" "m_b \<noteq> m_a" "m_c \<noteq> m_b" "m_c \<noteq> m_a"
  using members_less by (auto dest: order.asym)

definition sig_of :: "string \<Rightarrow> string" where
  "sig_of k = hex_encode (fst (b64_decode k) @ replicate 32 CHR ''x'')"

lemma sig_verifies: "consensus_key_ok k \<Longrightarrow> VerifySignature sample_lenv (sig_of k) k msg = Inr True"
  by (auto simp: VerifySignature_def sig_of_def consensus_key_ok_def hex_decode_encode Let_def)

lemma sig_of_ok: "consensus_key_ok k \<Longrightarrow> sig_hex_ok [64] (sig_of k)"
  by (simp add: sig_hex_ok_def sig_of_def consensus_key_ok_def hex_decode_encode)

section \<open>The states\<close>

definition n_genesis :: "ledger node" where
  "n_genesis = \<lparr>nd_chain = s_genesis, nd_tss_params = tss_DefaultParams, nd_dkg_id = None, nd_dkgs = [], nd_dkg_by_status = [],
     nd_completions = [], nd_refreshing_id = None, nd_refreshings = [], nd_refreshing_completions = [],
     nd_dlc_params = dlc_DefaultParams, nd_liveness = []\<rparr>"

definition n_funded :: "ledger node" where
  "n_funded = n_genesis\<lparr>nd_chain := s_funded\<rparr>"

definition dcm_request :: dkg_request where
  "dcm_request = \<lparr>dk_Id = 1, dk_Module = ''dlc'', dk_Type = ''dcm'', dk_Intent = 0, dk_Participants = [m_a, m_b, m_c],
     dk_Threshold = 2, dk_BatchSize = 1, dk_ExpirationTime = 1000, dk_Status = DKG_PENDING\<rparr>"

definition n_requested :: "ledger node" where
  "n_requested = n_funded\<lparr>nd_dkg_id := Some 1, nd_dkgs := [(1, dcm_request)], nd_dkg_by_status := [((DKG_PENDING, 1), ())]\<rparr>"

definition dcm_completion :: "string \<Rightarrow> dkg_completion" where
  "dcm_completion k = \<lparr>dkc_Id = 1, dkc_Sender = ''val'', dkc_PubKeys = [''dc''], dkc_ConsensusPubkey = k, dkc_Signature = sig_of k\<rparr>"

definition n_completed :: "string list \<Rightarrow> ledger node" where
  "n_completed ks = n_requested\<lparr>nd_completions := map (\<lambda>k. ((1, k), dcm_completion k)) ks\<rparr>"

definition n_keyed :: "ledger node" where
  "n_keyed = (n_completed [m_a, m_b, m_c])\<lparr>nd_chain := s_dcm, nd_dkgs := [(1, dcm_request\<lparr>dk_Status := DKG_COMPLETED\<rparr>)],
     nd_dkg_by_status := [((DKG_COMPLETED, 1), ())]\<rparr>"

definition removal :: "u64 \<Rightarrow> string \<Rightarrow> refreshing_request" where
  "removal j k = \<lparr>rfr_Id = j, rfr_DkgId = 1, rfr_RemovedParticipants = [k], rfr_ExpirationTime = zero_time,
     rfr_Status = REFRESHING_PENDING\<rparr>"

definition n_refreshing :: "u64 list \<Rightarrow> ledger node" where
  "n_refreshing js = n_keyed\<lparr>nd_refreshing_id := Some (last js), nd_refreshings := map (\<lambda>j. (j, removal j (if j = 1 then m_a else m_b))) js\<rparr>"

definition n_refreshed :: "(u64 \<times> string) list \<Rightarrow> ledger node" where
  "n_refreshed ks = (n_refreshing [1, 2])\<lparr>nd_refreshing_completions := map (\<lambda>(j, k). ((j, k), \<lparr>rfc_Id = j, rfc_Sender = ''val'',
     rfc_ConsensusPubkey = k, rfc_Signature = sig_of k\<rparr>)) ks\<rparr>"

definition n_reduced :: "ledger node" where
  "n_reduced = (n_refreshed [(1, m_b), (1, m_c), (2, m_c)])\<lparr>nd_dkgs := [(1, dcm_request\<lparr>dk_Status := DKG_COMPLETED, dk_Participants := [m_c]\<rparr>)],
     nd_refreshings := [(1, (removal 1 m_a)\<lparr>rfr_Status := REFRESHING_COMPLETED\<rparr>), (2, (removal 2 m_b)\<lparr>rfr_Status := REFRESHING_COMPLETED\<rparr>)]\<rparr>"

lemmas node_states = n_genesis_def n_funded_def n_requested_def n_completed_def n_keyed_def n_refreshing_def n_refreshed_def

lemmas node_stores = kv_has_def kv_get_Cons kv_del_def kv_keys_def counter_def ids_with_def Let_def

section \<open>The steps\<close>

lemma SetDKGRequest_run:
  "kv_get (nd_dkgs n) (dk_Id x) = r \<Longrightarrow> SetDKGRequest x n = n\<lparr>
     nd_dkg_by_status := kv_set (dk_Status x, dk_Id x) ()
       (case r of None \<Rightarrow> nd_dkg_by_status n | Some y \<Rightarrow> kv_del (dk_Status y, dk_Id x) (nd_dkg_by_status n)),
     nd_dkgs := kv_set (dk_Id x) x (nd_dkgs n)\<rparr>"
  by (cases r) (auto simp: SetDKGRequest_def SetDKGRequestStatus_def RemoveDKGRequestStatus_def HasDKGRequest_def GetDKGRequest_def
      kv_has_def)

lemma run_requested:
  "dlc_CreateDCM sample_lenv ''gov'' 0 \<lparr>mcd_Authority = ''gov'', mcd_Participants = [m_a, m_b, m_c], mcd_Threshold = 2, mcd_TimeoutDuration = 1000\<rparr>
     n_funded = Inr n_requested"
  by (simp add: dlc_CreateDCM_def MsgCreateDCM_ValidateBasic_def CheckDKGParticipantNum_def MinDKGParticipantNum_def CheckDKGThreshold_def
      MinDKGThreshold_def wrap_err_def check_keys_def members_ok AllowedDKGParticipants_def InitiateDKG_def GetNextDKGRequestId_def
      GetExpirationTime_def SetDKGRequestId_def SetDKGRequest_run [OF refl] dcm_request_def node_states node_stores
      tss_DefaultParams_def)

definition complete_msg :: "string \<Rightarrow> msg_complete_dkg" where
  "complete_msg k = \<lparr>mcp_Sender = ''val'', mcp_Id = 1, mcp_PubKeys = [''dc''], mcp_ConsensusPubkey = k, mcp_Signature = sig_of k\<rparr>"

lemma complete_msg_simps [simp]: "mcp_Sender (complete_msg k) = ''val''" "mcp_Id (complete_msg k) = 1" "mcp_PubKeys (complete_msg k) = [''dc'']"
  "mcp_ConsensusPubkey (complete_msg k) = k" "mcp_Signature (complete_msg k) = sig_of k"
  by (simp_all add: complete_msg_def)

lemma complete_valid: "consensus_key_ok k \<Longrightarrow> MsgCompleteDKG_ValidateBasic sample_lenv (complete_msg k) = Inr ()"
  by (simp add: MsgCompleteDKG_ValidateBasic_def sig_of_ok hex_digit_def)

lemmas complete_run = tss_CompleteDKG_def complete_valid CompleteDKG_def HasDKGRequest_def GetDKGRequest_def
  ParticipantExists_def HasDKGCompletion_def sig_verifies SetDKGCompletion_def DKGCompletionReceivedHandler_def dcm_completion_def
  members_ok members_less dcm_request_def node_states node_stores

lemma run_submitted:
  "tss_CompleteDKG sample_lenv 1 0 (complete_msg m_a) n_requested = Inr (n_completed [m_a])"
  "tss_CompleteDKG sample_lenv 1 0 (complete_msg m_b) (n_completed [m_a]) = Inr (n_completed [m_a, m_b])"
  "tss_CompleteDKG sample_lenv 1 0 (complete_msg m_c) (n_completed [m_a, m_b]) = Inr (n_completed [m_a, m_b, m_c])"
  by (simp_all add: complete_run)

lemma run_keyed: "tss_EndBlocker 0 (n_completed [m_a, m_b, m_c]) = Inr n_keyed"
proof -
  have pending: "GetPendingDKGRequests (n_completed [m_a, m_b, m_c]) = [dcm_request]"
    by (simp add: GetPendingDKGRequests_def GetDKGRequestsByStatus_def GetDKGRequest_def node_states node_stores)
  have eff: "DKGCompletedEffects 0 1 ''dcm'' 0 [''dc''] s_funded = (s_dcm, None)"
    using run_dcm by (simp add: DKGCompletedEffects_None)
  have "handleDKGRequests 0 (n_completed [m_a, m_b, m_c]) = Inr n_keyed"
    unfolding handleDKGRequests_def pending
    by (simp add: handle_dkg_def expired_def zero_time_def GetDKGCompletions_def under_def CheckDKGCompletions_def eff
        dcm_request_def dcm_completion_def SetDKGRequest_run [OF refl] node_states node_stores)
  moreover have "handleRefreshingRequests 0 n_keyed = n_keyed"
    by (simp add: handleRefreshingRequests_def GetPendingRefreshingRequests_def node_states)
  ultimately show ?thesis by (simp add: tss_EndBlocker_def)
qed

definition refresh_msg :: "string \<Rightarrow> msg_refresh" where
  "refresh_msg k = \<lparr>mrf_Authority = ''gov'', mrf_DkgIds = [1], mrf_RemovedParticipants = [k], mrf_TimeoutDuration = 0\<rparr>"

lemmas refresh_run = Refresh_def refresh_msg_def MsgRefresh_ValidateBasic_def check_keys_def members_ok refresh_one_def HasDKGRequest_def
  GetDKGRequest_def MinDKGParticipantNum_def InitiateRefreshingRequest_def IncrementRefreshingRequestId_def GetRefreshingRequestId_def
  GetExpirationTime_def SetRefreshingRequest_def dcm_request_def removal_def node_states node_stores

lemma run_refreshing:
  "Refresh sample_lenv ''gov'' 0 (refresh_msg m_a) n_keyed = Inr (n_refreshing [1])"
  "Refresh sample_lenv ''gov'' 0 (refresh_msg m_b) (n_refreshing [1]) = Inr (n_refreshing [1, 2])"
  by (simp_all add: refresh_run)

definition refreshed_msg :: "u64 \<Rightarrow> string \<Rightarrow> msg_complete_refreshing" where
  "refreshed_msg j k = \<lparr>mcr_Sender = ''val'', mcr_Id = j, mcr_ConsensusPubkey = k, mcr_Signature = sig_of k\<rparr>"

lemma refreshed_msg_simps [simp]: "mcr_Sender (refreshed_msg j k) = ''val''" "mcr_Id (refreshed_msg j k) = j"
  "mcr_ConsensusPubkey (refreshed_msg j k) = k" "mcr_Signature (refreshed_msg j k) = sig_of k"
  by (simp_all add: refreshed_msg_def)

lemma refreshed_valid: "consensus_key_ok k \<Longrightarrow> MsgCompleteRefreshing_ValidateBasic sample_lenv (refreshed_msg j k) = Inr ()"
  by (simp add: MsgCompleteRefreshing_ValidateBasic_def sig_of_ok)

lemmas refreshed_run = tss_CompleteRefreshing_def refreshed_valid CompleteRefreshing_def HasRefreshingRequest_def GetRefreshingRequest_def
  ParticipantExists_def GetRefreshingParticipants_def HasRefreshingCompletion_def GetDKGPubKeys_def GetDKGCompletions_def under_def
  sig_verifies SetRefreshingCompletion_def members_ok members_less dcm_request_def dcm_completion_def removal_def GetDKGRequest_def
  zero_time_def node_states node_stores

lemma run_refreshed:
  "tss_CompleteRefreshing sample_lenv 0 (refreshed_msg 1 m_b) (n_refreshing [1, 2]) = Inr (n_refreshed [(1, m_b)])"
  "tss_CompleteRefreshing sample_lenv 0 (refreshed_msg 1 m_c) (n_refreshed [(1, m_b)]) = Inr (n_refreshed [(1, m_b), (1, m_c)])"
  "tss_CompleteRefreshing sample_lenv 0 (refreshed_msg 2 m_c) (n_refreshed [(1, m_b), (1, m_c)]) = Inr (n_refreshed [(1, m_b), (1, m_c), (2, m_c)])"
  by (simp_all add: refreshed_run)

lemma run_reduced: "tss_EndBlocker 0 (n_refreshed [(1, m_b), (1, m_c), (2, m_c)]) = Inr n_reduced"
proof -
  let ?n = "n_refreshed [(1, m_b), (1, m_c), (2, m_c)]"
  have "GetPendingDKGRequests ?n = []"
    by (simp add: GetPendingDKGRequests_def GetDKGRequestsByStatus_def node_states node_stores)
  moreover have pending: "GetPendingRefreshingRequests ?n = [removal 1 m_a, removal 2 m_b]"
    by (simp add: GetPendingRefreshingRequests_def removal_def node_states)
  have "handleRefreshingRequests 0 ?n = n_reduced"
    unfolding handleRefreshingRequests_def pending
    by (simp add: handle_refreshing_def expired_def zero_time_def GetRefreshingCompletions_def under_def GetRefreshingParticipants_def
        GetDKGRequest_def SetRefreshingRequest_def SetDKGRequest_run [OF refl] removal_def dcm_request_def n_reduced_def node_states node_stores)
  ultimately show ?thesis by (simp add: tss_EndBlocker_def handleDKGRequests_def)
qed

section \<open>The states are reachable\<close>

lemma sample_node_fresh: "node_fresh n_genesis"
  by (simp add: node_fresh_def n_genesis_def sample_fresh)

abbreviation "node_at \<equiv> node_reachable sample_lenv ''gov'' n_genesis"

lemma node_funded: "node_at n_funded"
proof -
  have 1: "node_at (n_genesis\<lparr>nd_chain := s_pool\<rparr>)"
    by (rule node_reachable.step [OF node_reachable.start node_step.protocol])
      (simp add: n_genesis_def protocol_step.create_pool [OF run_pool])
  have "node_step sample_lenv ''gov'' (n_genesis\<lparr>nd_chain := s_pool\<rparr>) (n_genesis\<lparr>nd_chain := s_pool, nd_chain := s_funded\<rparr>)"
    by (rule node_step.protocol) (simp add: protocol_step.add_liquidity [OF run_funded])
  from node_reachable.step [OF 1 this] show ?thesis by (simp add: n_funded_def)
qed

lemma node_requested: "node_at n_requested"
  by (rule node_reachable.step [OF node_funded node_step.create_dcm [OF run_requested]])
    (simp add: ids_left_def counter_def node_states)

lemma node_completed: "node_at (n_completed [m_a, m_b])" "node_at (n_completed [m_a, m_b, m_c])"
proof -
  have 1: "node_at (n_completed [m_a])"
    by (rule node_reachable.step [OF node_requested node_step.complete_dkg [OF run_submitted(1)]])
  show 2: "node_at (n_completed [m_a, m_b])"
    by (rule node_reachable.step [OF 1 node_step.complete_dkg [OF run_submitted(2)]])
  show "node_at (n_completed [m_a, m_b, m_c])"
    by (rule node_reachable.step [OF 2 node_step.complete_dkg [OF run_submitted(3)]])
qed

lemma node_keyed: "node_at n_keyed"
  by (rule node_reachable.step [OF node_completed(2) node_step.tss_end [OF run_keyed]])

lemma node_cons:
  assumes "node_step E gov a b" "(node_step E gov)\<^sup>*\<^sup>* b c"
  shows "(node_step E gov)\<^sup>*\<^sup>* a c"
  using assms by (rule converse_rtranclp_into_rtranclp)

lemma node_steps_reduced: "(node_step sample_lenv ''gov'')\<^sup>*\<^sup>* n_keyed n_reduced"
  by (rule node_cons [OF node_step.refresh [OF run_refreshing(1)]]
      node_cons [OF node_step.refresh [OF run_refreshing(2)]]
      node_cons [OF node_step.complete_refreshing [OF run_refreshed(1)]]
      node_cons [OF node_step.complete_refreshing [OF run_refreshed(2)]]
      node_cons [OF node_step.complete_refreshing [OF run_refreshed(3)]]
      node_cons [OF node_step.tss_end [OF run_reduced]] rtranclp.rtrancl_refl)+

lemma node_reachable_run:
  assumes "(node_step E gov)\<^sup>*\<^sup>* n n'" "node_reachable E gov n0 n"
  shows "node_reachable E gov n0 n'"
  using assms by (induction rule: rtranclp_induct) (auto intro: node_reachable.step)

end
