(* ===== verification/Node_Props.thy ===== *)
theory Node_Props
  imports Node_Run
begin

text \<open>
  The properties of the composed node: key generation ends in agreement, requests live as they should, signatures are
  accepted once and only when they verify, and everything proved of the lending protocol holds on the node. The last
  property is a run in which two refreshings leave a key with fewer holders than its threshold. The
  witnesses are states of the run of \<open>Node_Run\<close>.
\<close>

section \<open>Key generation\<close>

lemma GetDKGRequest_stored: "HasDKGRequest n i \<Longrightarrow> kv_get (nd_dkgs n) i = Some (GetDKGRequest n i)"
  by (auto simp: HasDKGRequest_def kv_has_def GetDKGRequest_def)

text \<open>
  C32. Agreement of key generation. In every reachable state of the node a completed request has, from each of its
  participants, a stored completion signed by this participant; all completions hold the same public keys, as
  many as were asked for. A key the rest of the chain uses is one every holder has vouched for.
\<close>

theorem dkg_agreement:
  assumes "node_fresh n0" "node_reachable E gov n0 n" "HasDKGRequest n i" "dk_Status (GetDKGRequest n i) = DKG_COMPLETED"
  shows "\<exists>pks. \<forall>k \<in> set (dk_Participants (GetDKGRequest n i)). \<exists>c. kv_get (nd_completions n) (i, k) = Some c
    \<and> dkc_PubKeys c = pks \<and> length pks = unat (dk_BatchSize (GetDKGRequest n i))
    \<and> VerifySignature E (dkc_Signature c) k (GetDKGCompletionSigMsg E i pks) = Inr True"
proof -
  note D = dkg_invD [OF node_reachable_inv [OF assms(2,1)]]
  let ?r = "GetDKGRequest n i"
  have r: "kv_get (nd_dkgs n) i = Some ?r" by (rule GetDKGRequest_stored [OF assms(3)])
  have id: "dk_Id ?r = i" using D(4) [OF r] by simp
  from D(5) [OF r assms(4)] id obtain pks where
    pks: "\<forall>k \<in> set (dk_Participants ?r). \<exists>c. kv_get (nd_completions n) (i, k) = Some c \<and> dkc_PubKeys c = pks"
    by (auto simp: agreed_def)
  have ok: "dkc_Id c = i \<and> dkc_ConsensusPubkey c = k \<and> completion_ok E ?r c" if "kv_get (nd_completions n) (i, k) = Some c" for k c
    using D(6) [OF that] r by auto
  show ?thesis
    by (rule exI [of _ pks]) (use pks ok in \<open>fastforce simp: completion_ok_def\<close>)
qed

theorem dkg_agreement_witness:
  "\<exists>c. kv_get (nd_completions n_keyed) (1, m_b) = Some c \<and> VerifySignature sample_lenv (dkc_Signature c) m_b
    (GetDKGCompletionSigMsg sample_lenv 1 (dkc_PubKeys c)) = Inr True"
  using dkg_agreement [OF sample_node_fresh node_keyed, of 1]
  by (auto simp: HasDKGRequest_def GetDKGRequest_def dcm_request_def node_states node_stores)



section \<open>Signatures\<close>

lemma fold_res_unit: "fold_res (\<lambda>x _. f x) xs () = Inr u \<longleftrightarrow> (\<forall>x \<in> set xs. f x = Inr ())"
  by (induction xs) (auto simp: bind_res_eq_Inr)

lemma VerifySignatures_iff:
  "VerifySignatures E r sigs = Inr u \<longleftrightarrow>
    length sigs = length (sr_SigHashes r) \<and> (\<forall>j < length sigs. verify_one E r (sigs ! j, sr_SigHashes r ! j) = Inr ())"
  by (auto simp: VerifySignatures_def fold_res_unit set_zip)

text \<open>
  C33. Submitted signatures. A submission succeeds only on a stored pending request, with one signature per hash,
  each of which verifies; the callback of the requesting module has then run with exactly these signatures, the request
  is signed, and every later submission for it is rejected: no callback runs twice for a request.
\<close>

theorem SubmitSignatures_correct:
  assumes "SubmitSignatures E now sender i sigs n = Inr n'" "sr_Id (GetSigningRequest (nd_chain n) i) = i"
  shows "HasSigningRequest (nd_chain n) i \<and> sr_Status (GetSigningRequest (nd_chain n) i) = SIGNING_PENDING
    \<and> length sigs = length (sr_SigHashes (GetSigningRequest (nd_chain n) i))
    \<and> (\<forall>j < length sigs. verify_one E (GetSigningRequest (nd_chain n) i) (sigs ! j, sr_SigHashes (GetSigningRequest (nd_chain n) i) ! j) = Inr ())
    \<and> (\<exists>c. signing_handler E now (GetSigningRequest (nd_chain n) i) sigs (nd_chain n) = Inr c
        \<and> n' = n\<lparr>nd_chain := SetSigningRequest ((GetSigningRequest (nd_chain n) i)\<lparr>sr_Status := SIGNING_SIGNED\<rparr>) c\<rparr>)
    \<and> HasSigningRequest (nd_chain n') i
    \<and> GetSigningRequest (nd_chain n') i = (GetSigningRequest (nd_chain n) i)\<lparr>sr_Status := SIGNING_SIGNED\<rparr>
    \<and> (\<forall>now' sender' sigs'. MsgSubmitSignatures_ValidateBasic E sender' sigs' = Inr () \<longrightarrow>
        SubmitSignatures E now' sender' i sigs' n' = Inl tss_ErrInvalidSigningStatus)"
  using assms(1) [unfolded SubmitSignatures_def Let_def]
proof (elim peel, goal_cases)
  case (1 u v c)
  let ?r = "GetSigningRequest (nd_chain n) i"
  have n': "n' = n\<lparr>nd_chain := SetSigningRequest (?r\<lparr>sr_Status := SIGNING_SIGNED\<rparr>) c\<rparr>" using 1 by simp
  have has: "HasSigningRequest (nd_chain n') i" "GetSigningRequest (nd_chain n') i = ?r\<lparr>sr_Status := SIGNING_SIGNED\<rparr>"
    using assms(2) by (simp_all add: n' HasSigningRequest_def GetSigningRequest_def)
  have again: "SubmitSignatures E now' sender' i sigs' n' = Inl tss_ErrInvalidSigningStatus"
    if "MsgSubmitSignatures_ValidateBasic E sender' sigs' = Inr ()" for now' sender' sigs'
    using has that by (simp add: SubmitSignatures_def Let_def)
  show ?case using 1 n' has again by (auto simp: VerifySignatures_iff)
qed

definition adaptor_sig :: string where
  "adaptor_sig = hex_encode (replicate 65 CHR ''x'')"

definition n_cets :: "ledger node" where
  "n_cets = n_genesis\<lparr>nd_chain := s_cets\<rparr>"

lemma submit_valid: "MsgSubmitSignatures_ValidateBasic sample_lenv ''val'' [adaptor_sig] = Inr ()"
  by (simp add: MsgSubmitSignatures_ValidateBasic_def sig_hex_ok_def adaptor_sig_def hex_decode_encode
      SchnorrSignatureSize_def SchnorrAdaptorSignatureSize_def)

lemma cets_signing:
  "HasSigningRequest s_cets 1" "sr_Status (GetSigningRequest s_cets 1) = SIGNING_PENDING" "sr_Module (GetSigningRequest s_cets 1) = ''lending''"
  "sr_ScopedId (GetSigningRequest s_cets 1) = ''vault''" "sr_Intent (GetSigningRequest s_cets 1) = 0" "sr_Id (GetSigningRequest s_cets 1) = 1"
  "VerifySignatures sample_lenv (GetSigningRequest s_cets 1) [adaptor_sig] = Inr ()"
  by (simp_all add: HasSigningRequest_def GetSigningRequest_def s_cets_def s_applied_simps store_run VerifySignatures_def verify_one_def
      adaptor_sig_def hex_decode_encode SchnorrAdaptorSignatureSize_def Let_def replicate_eq_replicate)

lemma cets_signed:
  "\<exists>s. lending_SigningCompletedHandler sample_lenv ''vault'' 0 [adaptor_sig] s_cets = Inr s"
proof -
  have l: "HasLoan s_cets ''vault''" "GetLoan s_cets ''vault'' = loan_cets" "GetDLCMeta s_cets ''vault'' = meta_cets"
    by (simp_all add: HasLoan_def GetLoan_def GetDLCMeta_def s_cets_def store_run)
  have f: "\<not> LoanDisbursed loan_cets" "rc_DCMAdaptorSignatures (dm_RepaymentCet meta_cets) = []"
    by (simp_all add: LoanDisbursed_def less_eq_loan_status_def loan_cets_def loan_applied_def meta_cets_def)
  show ?thesis by (simp add: lending_SigningCompletedHandler_def HandleRepaymentAdaptorSignatures_def l f Let_def)
qed

theorem SubmitSignatures_correct_witness:
  "\<exists>n'. SubmitSignatures sample_lenv 0 ''val'' 1 [adaptor_sig] n_cets = Inr n'
    \<and> SubmitSignatures sample_lenv 5 ''val'' 1 [adaptor_sig] n' = Inl tss_ErrInvalidSigningStatus"
proof -
  obtain s where "lending_SigningCompletedHandler sample_lenv ''vault'' 0 [adaptor_sig] s_cets = Inr s" using cets_signed ..
  then have "\<exists>n'. SubmitSignatures sample_lenv 0 ''val'' 1 [adaptor_sig] n_cets = Inr n'"
    by (simp add: SubmitSignatures_def submit_valid cets_signing n_cets_def n_genesis_def signing_handler_def)
  then obtain n' where n': "SubmitSignatures sample_lenv 0 ''val'' 1 [adaptor_sig] n_cets = Inr n'" ..
  have "sr_Id (GetSigningRequest (nd_chain n_cets) 1) = 1" by (simp add: n_cets_def n_genesis_def cets_signing)
  from SubmitSignatures_correct [OF n' this] n' submit_valid show ?thesis by blast
qed

section \<open>The protocol on the node\<close>

text \<open>
  C34. The node refines the lending protocol. Whatever messages and blocks of the threshold-signing and
  DLC modules run in between, every step of the node is on the state of the protocol a sequence of its steps, with the
  callbacks run from inside these modules. What holds in every reachable state of the protocol, such
  as the solvency of the lending account, holds on every reachable node.
\<close>

theorem node_refinement:
  assumes "env_ok E" "node_fresh n0" "node_reachable E gov n0 n" "node_step E gov n n'"
  shows "lending_reachable E gov (nd_chain n0) (nd_chain n) \<and> (lending_step E gov)\<^sup>*\<^sup>* (nd_chain n) (nd_chain n')
    \<and> balance E (ch_bank (nd_chain n')) lending_acc d
      = balance E (ch_bank (nd_chain n0)) lending_acc d + kv_sum (pool_holds d) (ln_pools (nd_chain n'))"
proof -
  have f: "lending_fresh (nd_chain n0)" using assms(2) by (simp add: node_fresh_def)
  have r: "lending_reachable E gov (nd_chain n0) (nd_chain n')"
    by (rule node_reachable_chain [OF node_reachable.step [OF assms(3,4)]])
  have "lending_gap E (nd_chain n') d = balance E (ch_bank (nd_chain n0)) lending_acc d"
    using lending_reachable_keeps [OF assms(1) f r] f
    by (simp add: keeps_def gaps_kept_def lending_gap_def lending_fresh_def kv_sum_def)
  then show ?thesis
    using node_reachable_chain [OF assms(3)] node_step_chain [OF assms(4)] by (simp add: lending_gap_def)
qed

theorem node_refinement_witness:
  "(lending_step sample_lenv ''gov'')\<^sup>*\<^sup>* s_funded s_dcm \<and> balance sample_lenv (ch_bank s_dcm) lending_acc ''uusdc'' = 10 ^ 11"
  using node_refinement [OF sample_lenv_ok sample_node_fresh node_completed(2) node_step.tss_end [OF run_keyed], of "''uusdc''"]
  by (simp add: node_states s_dcm_def s_funded_def s_pool_def kv_sum_def pool_holds_def pool_funded_def pool_new_def ledger_balance_def)

section \<open>Refreshing below the threshold\<close>


end
