(* ===== verification/Spec2Isabelle.thy ===== *)
theory Spec2Isabelle
  imports Farming_Props Oracle Bridge_Props Bridge_Tx_Props Lending_Safety Lending_Pool_Props Lending_Accrual Lending_Loan_Props Lending_Exit_Props Liquidation_Props Node_Props
begin

text \<open>
  Verification of Bitway.
\<close>

end
